(* ===== verification/Prelude.thy ===== *)
theory Prelude
  imports Complex_Main "HOL-Library.Word" "HOL-Library.Signed_Division"
begin

text \<open>
  What the components share: the C integer and floating point conventions, the outcome of an
  operation that may run into undefined behaviour, and lemmas on lists and modular indices.

  \<^item> A C \<open>int\<close> or \<open>int32_t\<close> is an \<open>int\<close>; where the width matters the result of an operation is
    brought back to 32 bits by \<open>s32\<close> (two's complement, what the build's gcc/x86-64 target
    computes).
  \<^item> A C \<open>double\<close> is a \<open>real\<close>: rounding, infinities and NaN are not modelled.
  \<^item> The conversion \<open>double -> int32_t\<close> truncates towards zero (\<open>d2i\<close>); out of range it is the
    x86 \<open>integer indefinite\<close> value, the least 32-bit integer.
  \<^item> Operations that index memory return an \<open>option\<close>: \<open>None\<close> is an access outside the object,
    or a call that never returns, as each theory says.
\<close>

named_theorems c_arith \<open>facts about C integer conversions\<close>

type_synonym byte = "8 word"

section \<open>Machine integers\<close>

definition s32 :: "int \<Rightarrow> int" where
  "s32 x = signed_take_bit 31 x"

definition INT32_MIN :: int where "INT32_MIN = - (2 ^ 31)"
definition INT32_MAX :: int where "INT32_MAX = 2 ^ 31 - 1"

definition in_s32 :: "int \<Rightarrow> bool" where
  "in_s32 x \<longleftrightarrow> INT32_MIN \<le> x \<and> x \<le> INT32_MAX"

lemma s32_id [c_arith]: "in_s32 x \<Longrightarrow> s32 x = x"
  unfolding s32_def in_s32_def INT32_MIN_def INT32_MAX_def
  by (rule signed_take_bit_int_eq_self) auto

lemma s32_range [c_arith]: "in_s32 (s32 x)"
  using signed_take_bit_int_greater_eq_minus_exp [of 31 x] signed_take_bit_int_less_exp [of 31 x]
  unfolding s32_def in_s32_def INT32_MIN_def INT32_MAX_def by simp

lemma s32_s32 [simp]: "s32 (s32 x) = s32 x"
  by (rule s32_id) (rule s32_range)

lemma s32_0 [simp]: "s32 0 = 0" and s32_1 [simp]: "s32 1 = 1"
  by (simp_all add: s32_def)

text \<open>Truncation towards zero, and the conversion of a double to a 32-bit integer.\<close>

definition r_trunc :: "real \<Rightarrow> int" where
  "r_trunc x = (if 0 \<le> x then \<lfloor>x\<rfloor> else \<lceil>x\<rceil>)"

definition d2i :: "real \<Rightarrow> int" where
  "d2i x = (if in_s32 (r_trunc x) then r_trunc x else INT32_MIN)"

lemma r_trunc_of_int [simp]: "r_trunc (of_int i) = i"
  by (simp add: r_trunc_def)

lemma r_trunc_abs_le: "\<bar>real_of_int (r_trunc x)\<bar> \<le> \<bar>x\<bar>"
proof (cases "0 \<le> x")
  case True
  then show ?thesis by (simp add: r_trunc_def)
next
  case False
  then have "\<lceil>x\<rceil> \<le> 0" and "x \<le> of_int \<lceil>x\<rceil>" by simp_all
  with False show ?thesis by (simp add: r_trunc_def)
qed

lemma r_trunc_near: "\<bar>x - real_of_int (r_trunc x)\<bar> < 1"
  unfolding r_trunc_def by (cases "0 \<le> x"; simp; linarith)

lemma d2i_of_int [c_arith]: "in_s32 i \<Longrightarrow> d2i (of_int i) = i"
  by (simp add: d2i_def)

lemma d2i_in_s32 [c_arith]: "in_s32 (d2i x)"
  by (simp add: d2i_def in_s32_def INT32_MIN_def INT32_MAX_def)

lemma in_s32_0 [simp]: "in_s32 0"
  by (simp add: in_s32_def INT32_MIN_def INT32_MAX_def)

lemma in_s32_abs: "\<bar>x\<bar> \<le> INT32_MAX \<Longrightarrow> in_s32 x"
  by (simp add: in_s32_def INT32_MIN_def INT32_MAX_def abs_le_iff)

section \<open>C remainder\<close>

text \<open>\<open>smod\<close> of \<open>HOL-Library.Signed_Division\<close> truncates towards zero, as C's \<open>%\<close> does.\<close>

lemma smod_nonneg [c_arith]: "0 \<le> (a::int) \<Longrightarrow> 0 < b \<Longrightarrow> a smod b = a mod b"
  by (auto simp: signed_modulo_int_def sgn_if)

lemma mod_minus_one: "0 \<le> (a::int) \<Longrightarrow> a < n \<Longrightarrow> (a - 1 + n) mod n = (if a = 0 then n - 1 else a - 1)"
  by (cases "a = 0") (auto simp: mod_pos_pos_trivial zmod_minus1)

section \<open>Windows of a circular buffer\<close>

text \<open>
  The \<open>n\<close> slots of \<open>xs\<close> from index \<open>i\<close> on, modulo \<open>s\<close>: the contents of a ring buffer.
\<close>

definition window :: "'a list \<Rightarrow> int \<Rightarrow> int \<Rightarrow> nat \<Rightarrow> 'a list" where
  "window xs s i n = map (\<lambda>k. xs ! nat ((i + int k) mod s)) [0..<n]"

lemma length_window [simp]: "length (window xs s i n) = n"
  by (simp add: window_def)

lemma window_0 [simp]: "window xs s i 0 = []"
  by (simp add: window_def)

lemma nth_window [simp]: "k < n \<Longrightarrow> window xs s i n ! k = xs ! nat ((i + int k) mod s)"
  by (simp add: window_def)

lemma window_eq_Nil [simp]: "window xs s i n = [] \<longleftrightarrow> n = 0"
  by (simp add: window_def)

lemma window_snoc: "window xs s i (Suc n) = window xs s i n @ [xs ! nat ((i + int n) mod s)]"
  by (simp add: window_def)

lemma window_mod: "window xs s (i mod s) n = window xs s i n"
  by (simp add: window_def mod_add_left_eq)

lemma window_Cons: "window xs s i (Suc n) = xs ! nat (i mod s) # window xs s (i + 1) n"
proof (rule nth_equalityI)
  fix k assume "k < length (window xs s i (Suc n))"
  then show "window xs s i (Suc n) ! k = (xs ! nat (i mod s) # window xs s (i + 1) n) ! k"
    by (cases k) (simp_all add: add.assoc add.commute [of 1])
qed simp

lemma window_drop: "m \<le> n \<Longrightarrow> drop m (window xs s i n) = window xs s (i + int m) (n - m)"
  by (rule nth_equalityI) (simp_all add: add.assoc)

lemma window_take: "m \<le> n \<Longrightarrow> take m (window xs s i n) = window xs s i m"
  by (rule nth_equalityI) simp_all

lemma window_append:
  "window xs s i (m + n) = window xs s i m @ window xs s (i + int m) n"
  by (rule nth_equalityI) (auto simp: nth_append add.assoc of_nat_diff)

text \<open>Distinct offsets below \<open>s\<close> are distinct slots, so a store outside the window keeps it.\<close>

lemma mod_offset_inj:
  assumes "0 \<le> a" "a < s" "0 \<le> b" "b < s" "(i + a) mod s = (i + b) mod (s::int)"
  shows "a = b"
proof -
  have "s dvd ((i + a) - (i + b))"
    using assms(5) by (simp add: mod_eq_dvd_iff)
  then have "s dvd (a - b)" by simp
  then have "a - b = 0 \<or> \<bar>s\<bar> \<le> \<bar>a - b\<bar>"
    using dvd_imp_le_int by blast
  then show ?thesis using assms(1-4) by linarith
qed

lemma window_update_other:
  assumes "0 < s" and "\<And>k. k < n \<Longrightarrow> (i + int k) mod s \<noteq> j" and "0 \<le> j"
  shows "window (xs[nat j := x]) s i n = window xs s i n"
proof (rule nth_equalityI)
  fix k assume "k < length (window (xs[nat j := x]) s i n)"
  then have k: "k < n" by simp
  have "0 \<le> (i + int k) mod s" using assms(1) by simp
  with assms(2) [OF k] assms(3) have "nat ((i + int k) mod s) \<noteq> nat j"
    by (simp add: nat_eq_iff)
  with k show "window (xs[nat j := x]) s i n ! k = window xs s i n ! k" by simp
qed simp

lemma window_update_beyond:
  assumes "0 < s" "int n \<le> m" "m < s"
  shows "window (xs[nat ((i + m) mod s) := x]) s i n = window xs s i n"
proof (rule window_update_other [OF assms(1)])
  fix k assume "k < n"
  with assms have "int k < s" "0 \<le> m" "int k \<noteq> m" by linarith+
  with assms show "(i + int k) mod s \<noteq> (i + m) mod s"
    using mod_offset_inj [of "int k" s m i] by auto
qed (use assms in simp)

end
