(* ===== verification/Fifo.thy ===== *)
theory Fifo
  imports Prelude
begin

text \<open>
  The contract of the program's queues, as a locale: a bounded first-in first-out queue with an
  abstraction to the list of its elements. The motion segment queue (\<open>tp/tcq.c\<close>), the node-pool
  queue (\<open>hal/rt_queue.c\<close>) and the socket receive ring (\<open>hal/hpsocket.c\<close>) provide it; what every
  client may rely on is proved once here, over arbitrary runs of operations. A queue that also
  keeps a history of what was taken, and can take steps back into it, extends the contract.
\<close>

datatype 'a fifo_op = Enq 'a | Deq

text \<open>
  A run: what was accepted, what came out, and the final queue. An operation the queue refuses
  leaves it as it is.
\<close>

fun fifo_run ::
  "('a \<Rightarrow> 'q \<Rightarrow> 'q option) \<Rightarrow> ('q \<Rightarrow> ('a \<times> 'q) option) \<Rightarrow> 'q \<Rightarrow> 'a fifo_op list
    \<Rightarrow> 'a list \<times> 'a list \<times> 'q" where
  "fifo_run enq deq q [] = ([], [], q)"
| "fifo_run enq deq q (Enq a # ops) =
     (case enq a q of
        None \<Rightarrow> fifo_run enq deq q ops
      | Some q' \<Rightarrow> (case fifo_run enq deq q' ops of (i, out, r) \<Rightarrow> (a # i, out, r)))"
| "fifo_run enq deq q (Deq # ops) =
     (case deq q of
        None \<Rightarrow> fifo_run enq deq q ops
      | Some (a, q') \<Rightarrow> (case fifo_run enq deq q' ops of (i, out, r) \<Rightarrow> (i, a # out, r)))"

text \<open>\<open>n\<close> removals in a row, and \<open>n\<close> steps back.\<close>

fun deq_n :: "('q \<Rightarrow> ('a \<times> 'q) option) \<Rightarrow> nat \<Rightarrow> 'q \<Rightarrow> 'q option" where
  "deq_n deq 0 q = Some q"
| "deq_n deq (Suc n) q = (case deq q of None \<Rightarrow> None | Some (a, q') \<Rightarrow> deq_n deq n q')"

fun undo_n :: "('q \<Rightarrow> 'q option) \<Rightarrow> nat \<Rightarrow> 'q \<Rightarrow> 'q option" where
  "undo_n undo 0 q = Some q"
| "undo_n undo (Suc n) q = (case undo q of None \<Rightarrow> None | Some q' \<Rightarrow> undo_n undo n q')"

locale bounded_fifo =
  fixes enq :: "'a \<Rightarrow> 'q \<Rightarrow> 'q option"
    and deq :: "'q \<Rightarrow> ('a \<times> 'q) option"
    and contents :: "'q \<Rightarrow> 'a list"
    and room :: "'q \<Rightarrow> bool"
    and invar :: "'q \<Rightarrow> bool"
  assumes enq_room: "invar q \<Longrightarrow> room q \<Longrightarrow>
      \<exists>q'. enq a q = Some q' \<and> invar q' \<and> contents q' = contents q @ [a]"
    and enq_no_room: "invar q \<Longrightarrow> \<not> room q \<Longrightarrow> enq a q = None"
    and deq_Cons: "invar q \<Longrightarrow> contents q = x # xs \<Longrightarrow>
      \<exists>q'. deq q = Some (x, q') \<and> invar q' \<and> contents q' = xs"
    and deq_Nil: "invar q \<Longrightarrow> contents q = [] \<Longrightarrow> deq q = None"
begin

lemma enq_SomeD:
  assumes "invar q" "enq a q = Some q'"
  shows "room q \<and> invar q' \<and> contents q' = contents q @ [a]"
proof (cases "room q")
  case True
  with enq_room [OF assms(1), of a] assms(2) show ?thesis by auto
next
  case False
  with enq_no_room [OF assms(1), of a] assms(2) show ?thesis by simp
qed

lemma deq_SomeD:
  assumes "invar q" "deq q = Some (a, q')"
  shows "invar q' \<and> contents q = a # contents q'"
proof (cases "contents q")
  case Nil
  with deq_Nil [OF assms(1)] assms(2) show ?thesis by simp
next
  case (Cons x xs)
  from deq_Cons [OF assms(1) Cons] assms(2) Cons show ?thesis by auto
qed

text \<open>
  Order: over any run, what the queue held followed by what it accepted is what came out followed
  by what it still holds. Nothing is lost, duplicated or reordered.
\<close>

lemma run_order:
  assumes "invar q" "fifo_run enq deq q ops = (i, out, r)"
  shows "invar r \<and> contents q @ i = out @ contents r"
  using assms
proof (induction ops arbitrary: q i out r)
  case Nil
  then show ?case by simp
next
  case (Cons x ops)
  show ?case
  proof (cases x)
    case (Enq a)
    show ?thesis
    proof (cases "enq a q")
      case None
      with Cons Enq show ?thesis by simp
    next
      case (Some q')
      with Cons.prems Enq obtain i' where run: "fifo_run enq deq q' ops = (i', out, r)"
        and i: "i = a # i'"
        by (auto split: prod.splits)
      have q': "invar q'" "contents q' = contents q @ [a]"
        using enq_SomeD [OF Cons.prems(1) Some] by auto
      from Cons.IH [OF q'(1) run] q'(2) i show ?thesis by simp
    qed
  next
    case Deq
    show ?thesis
    proof (cases "deq q")
      case None
      with Cons Deq show ?thesis by simp
    next
      case (Some p)
      then obtain a q' where p: "deq q = Some (a, q')" by (cases p) auto
      with Cons.prems Deq obtain o' where run: "fifo_run enq deq q' ops = (i, o', r)"
        and out: "out = a # o'"
        by (auto split: prod.splits)
      have q': "invar q'" "contents q = a # contents q'"
        using deq_SomeD [OF Cons.prems(1) p] by auto
      from Cons.IH [OF q'(1) run] q'(2) out show ?thesis by simp
    qed
  qed
qed

lemma drain:
  assumes "invar q" "n \<le> length (contents q)"
  shows "\<exists>q'. deq_n deq n q = Some q' \<and> invar q' \<and> contents q' = drop n (contents q)"
  using assms
proof (induction n arbitrary: q)
  case 0
  then show ?case by simp
next
  case (Suc n)
  then obtain x xs where c: "contents q = x # xs" by (cases "contents q") auto
  from deq_Cons [OF Suc.prems(1) c] obtain q'
    where q': "deq q = Some (x, q')" "invar q'" "contents q' = xs" by auto
  from Suc.prems(2) c q'(3) have "n \<le> length (contents q')" by simp
  from Suc.IH [OF q'(2) this] q' c show ?case by auto
qed

end

text \<open>
  A queue that remembers what was taken: \<open>past\<close> is the history that can be stepped back into, the
  newest element last, at most \<open>depth\<close> of it.
\<close>

locale undo_fifo = bounded_fifo enq deq contents room invar
  for enq :: "'a \<Rightarrow> 'q \<Rightarrow> 'q option"
    and deq :: "'q \<Rightarrow> ('a \<times> 'q) option"
    and contents :: "'q \<Rightarrow> 'a list"
    and room :: "'q \<Rightarrow> bool"
    and invar :: "'q \<Rightarrow> bool" +
  fixes undo :: "'q \<Rightarrow> 'q option"
    and past :: "'q \<Rightarrow> 'a list"
    and depth :: nat
  assumes enq_past: "invar q \<Longrightarrow> enq a q = Some q' \<Longrightarrow> past q' = past q"
    and deq_past: "invar q \<Longrightarrow> deq q = Some (a, q') \<Longrightarrow>
      past q' = (if length (past q) < depth then past q @ [a] else tl (past q) @ [a])"
    and undo_snoc: "invar q \<Longrightarrow> past q = ys @ [y] \<Longrightarrow>
      \<exists>q'. undo q = Some q' \<and> invar q' \<and> contents q' = y # contents q \<and> past q' = ys"
    and undo_Nil: "invar q \<Longrightarrow> past q = [] \<Longrightarrow> undo q = None"
    and past_depth: "invar q \<Longrightarrow> length (past q) \<le> depth"
    and depth_pos: "0 < depth"
begin

lemma deq_past_suffix:
  assumes "invar q" "deq q = Some (a, q')"
  shows "\<exists>zs. past q' = zs @ [a] \<and> (\<exists>us. past q = us @ zs)"
proof (cases "length (past q) < depth")
  case True
  with deq_past [OF assms] show ?thesis by auto
next
  case False
  with past_depth [OF assms(1)] depth_pos have "past q \<noteq> []" by auto
  then have "past q = [hd (past q)] @ tl (past q)" by simp
  with deq_past [OF assms] False show ?thesis by metis
qed

text \<open>Stepping back as many times as was taken restores what was taken, in order.\<close>

lemma undo_all:
  assumes "invar q" "length ys = n" "past q = us @ ys"
  shows "\<exists>q'. undo_n undo n q = Some q' \<and> invar q' \<and> contents q' = ys @ contents q \<and> past q' = us"
  using assms
proof (induction n arbitrary: q ys)
  case 0
  then show ?case by simp
next
  case (Suc n)
  then obtain zs z where ys: "ys = zs @ [z]" by (cases ys rule: rev_cases) auto
  with Suc.prems have "past q = (us @ zs) @ [z]" by simp
  from undo_snoc [OF Suc.prems(1) this] obtain q'
    where q': "undo q = Some q'" "invar q'" "contents q' = z # contents q" "past q' = us @ zs"
    by auto
  from Suc.IH [OF q'(2) _ q'(4)] Suc.prems(2) ys q'(1,3) show ?case by auto
qed

lemma drain_past:
  assumes "invar q" "n \<le> length (contents q)" "n \<le> depth"
  shows "\<exists>q' us. deq_n deq n q = Some q' \<and> invar q' \<and> contents q' = drop n (contents q)
           \<and> past q' = us @ take n (contents q)"
proof -
  have "\<exists>q' us. deq_n deq n q = Some q' \<and> invar q' \<and> contents q' = drop n (contents q)
           \<and> past q' = us @ zs @ take n (contents q)"
    if "invar q" "n \<le> length (contents q)" "length zs + n \<le> depth" "past q = vs @ zs"
    for n zs vs q
    using that
  proof (induction n arbitrary: q vs zs)
    case 0
    then show ?case by auto
  next
    case (Suc n)
    then obtain x xs where c: "contents q = x # xs" by (cases "contents q") auto
    from deq_Cons [OF Suc.prems(1) c] obtain q'
      where q': "deq q = Some (x, q')" "invar q'" "contents q' = xs" by auto
    have "\<exists>ws. past q' = ws @ zs @ [x]"
    proof (cases "length (past q) < depth")
      case True
      with deq_past [OF Suc.prems(1) q'(1)] Suc.prems(4) show ?thesis by auto
    next
      case False
      with Suc.prems(3,4) have "vs \<noteq> []" by auto
      with False deq_past [OF Suc.prems(1) q'(1)] Suc.prems(4) show ?thesis by auto
    qed
    then obtain ws where ws: "past q' = ws @ (zs @ [x])" by auto
    from Suc.prems(2) c q'(3) have n: "n \<le> length (contents q')" by simp
    from Suc.prems(3) have d: "length (zs @ [x]) + n \<le> depth" by simp
    from Suc.IH [OF q'(2) n d ws] q'(1,3) c show ?case by auto
  qed
  from this [of q n "[]" "past q"] assms show ?thesis by simp
qed

text \<open>Up to \<open>depth\<close> removals can be taken back: the queue then holds what it held before.\<close>

lemma take_back:
  assumes "invar q" "n \<le> length (contents q)" "n \<le> depth"
  shows "\<exists>q1 q2. deq_n deq n q = Some q1 \<and> undo_n undo n q1 = Some q2 \<and> invar q2
           \<and> contents q2 = contents q"
proof -
  from drain_past [OF assms] obtain q1 us where q1: "deq_n deq n q = Some q1" "invar q1"
    "contents q1 = drop n (contents q)" "past q1 = us @ take n (contents q)" by auto
  have len: "length (take n (contents q)) = n" using assms(2) by simp
  from undo_all [OF q1(2) len q1(4)] q1(1,3) show ?thesis by auto
qed

end

end
