(* ===== verification/Tcq.thy ===== *)
theory Tcq
  imports Fifo
begin

text \<open>
  The queue of trajectory segments, \<open>tp/tcq.c\<close> and \<open>tp/tcq.h\<close>: a ring of \<open>tq_size\<close> slots in which
  the segments still to run (\<open>tq_len\<close> of them from \<open>tq_start\<close>) follow the reverse history
  (\<open>tq_rlen\<close> segments from \<open>tq_rend\<close>). The element type \<open>'tc\<close> stands for \<open>TC_STRUCT\<close>.

  A function of the source takes \<open>TC_QUEUE_STRUCT *\<close>; all callers pass the address of the member
  \<open>queue\<close> of a \<open>TP_STRUCT\<close>, so the operations take the queue itself and \<open>tcqCheck\<close> is given
  \<open>Some q\<close>. An operation that stores into the array returns \<open>None\<close> when the slot is outside it;
  the others return the C result and the new queue. All indices and intermediate sums lie
  between 0 and twice the size (\<open>tcq_wf\<close>), so the int arithmetic of the source cannot overflow
  for sizes up to \<open>2 ^ 30\<close> (the program's queue has 2000 slots) and is modelled on \<open>int\<close>.
\<close>

section \<open>State and operations\<close>

record 'tc tcq =
  tq_queue :: "'tc list option"
  tq_size :: int
  tq_len :: int
  tq_rlen :: int
  tq_start :: int
  tq_end :: int
  tq_rend :: int
  tq_allFull :: int

definition TCQ_REVERSE_MARGIN :: int where "TCQ_REVERSE_MARGIN = 200"

definition TC_QUEUE_MARGIN :: int where "TC_QUEUE_MARGIN = TCQ_REVERSE_MARGIN + 20"

definition tcqCheck :: "'tc tcq option \<Rightarrow> int" where
  "tcqCheck tcq = (case tcq of None \<Rightarrow> -1 | Some q \<Rightarrow> if tq_queue q = None then -1 else 0)"

definition tcqInit :: "'tc tcq \<Rightarrow> int \<times> 'tc tcq" where
  "tcqInit q =
     (if tcqCheck (Some q) \<noteq> 0 then (-1, q)
      else (0, q\<lparr>tq_len := 0, tq_start := 0, tq_end := 0, tq_rend := 0, tq_rlen := 0,
                 tq_allFull := 0\<rparr>))"

definition tcqCreate :: "'tc tcq option \<Rightarrow> int \<Rightarrow> 'tc list option \<Rightarrow> int \<times> 'tc tcq option" where
  "tcqCreate tcq sz tcSpace =
     (case (tcq, tcSpace) of
        (Some q, Some xs) \<Rightarrow>
          if sz < 1 then (-1, tcq)
          else (0, Some (snd (tcqInit (q\<lparr>tq_queue := Some xs, tq_size := sz\<rparr>))))
      | _ \<Rightarrow> (-1, tcq))"

definition tcqDelete :: "'tc tcq \<Rightarrow> int \<times> 'tc tcq" where
  "tcqDelete q = (0, if tcqCheck (Some q) = 0 then q\<lparr>tq_queue := None\<rparr> else q)"

definition tcqPut :: "'tc tcq \<Rightarrow> 'tc \<Rightarrow> (int \<times> 'tc tcq) option" where
  "tcqPut q tc =
     (case tq_queue q of
        None \<Rightarrow> Some (-1, q)
      | Some xs \<Rightarrow>
          if tq_allFull q \<noteq> 0 then Some (-1, q)
          else if \<not> (0 \<le> tq_end q \<and> tq_end q < int (length xs)) then None
          else
            let q1 = q\<lparr>tq_queue := Some (xs[nat (tq_end q) := tc]), tq_len := tq_len q + 1\<rparr>;
                q2 = q1\<lparr>tq_end := (tq_end q1 + 1) smod tq_size q1\<rparr>;
                q3 = (if tq_end q2 = tq_start q2 then q2\<lparr>tq_allFull := 1\<rparr> else q2)
            in Some (0, q3))"

definition tcqPopBack :: "'tc tcq \<Rightarrow> int \<times> 'tc tcq" where
  "tcqPopBack q =
     (if tcqCheck (Some q) \<noteq> 0 then (-1, q)
      else if tq_len q < 1 then (-1, q)
      else let n = tq_end q - 1 + tq_size q
           in (0, q\<lparr>tq_end := n smod tq_size q, tq_len := tq_len q - 1\<rparr>))"

definition tcqPop :: "'tc tcq \<Rightarrow> int \<times> 'tc tcq" where
  "tcqPop q =
     (if tcqCheck (Some q) \<noteq> 0 then (-1, q)
      else if tq_len q < 1 \<and> tq_allFull q = 0 then (-1, q)
      else
        let q1 = q\<lparr>tq_start := (tq_start q + 1) smod tq_size q, tq_allFull := 0,
                   tq_len := tq_len q - 1\<rparr>
        in (0, if tq_rlen q1 < TCQ_REVERSE_MARGIN then q1\<lparr>tq_rlen := tq_rlen q1 + 1\<rparr>
               else q1\<lparr>tq_rend := (tq_rend q1 + 1) smod tq_size q1\<rparr>))"

definition tcqRemove :: "'tc tcq \<Rightarrow> int \<Rightarrow> int \<times> 'tc tcq" where
  "tcqRemove q n =
     (if n \<le> 0 then (0, q)
      else if tcqCheck (Some q) \<noteq> 0 \<or> (tq_start q = tq_end q \<and> tq_allFull q = 0) \<or> n > tq_len q
      then (-1, q)
      else (0, q\<lparr>tq_start := (tq_start q + n) smod tq_size q, tq_allFull := 0,
                 tq_len := tq_len q - n\<rparr>))"

definition tcqBackStep :: "'tc tcq \<Rightarrow> int \<times> 'tc tcq" where
  "tcqBackStep q =
     (if tcqCheck (Some q) \<noteq> 0 then (-1, q)
      else if tq_start q = tq_rend q then (-1, q)
      else (0, q\<lparr>tq_start := (tq_start q - 1 + tq_size q) smod tq_size q,
                 tq_len := tq_len q + 1, tq_rlen := tq_rlen q - 1\<rparr>))"

definition tcqLen :: "'tc tcq \<Rightarrow> int" where
  "tcqLen q = (if tcqCheck (Some q) \<noteq> 0 then -1 else tq_len q)"

text \<open>
  \<open>tcqItem\<close> and \<open>tcqLast\<close> return a pointer into the array; the model returns the index of the
  slot, \<open>None\<close> for NULL. \<open>tcqDeref\<close> is what the caller finds there.
\<close>

definition tcqItem :: "'tc tcq \<Rightarrow> int \<Rightarrow> int option" where
  "tcqItem q n =
     (if tcqCheck (Some q) \<noteq> 0 \<or> n < 0 \<or> n \<ge> tq_len q then None
      else Some ((tq_start q + n) smod tq_size q))"

definition tcqLast :: "'tc tcq \<Rightarrow> int option" where
  "tcqLast q =
     (if tcqCheck (Some q) \<noteq> 0 then None
      else if tq_len q = 0 then None
      else let n = tq_end q - 1 + tq_size q in Some (n smod tq_size q))"

definition tcqDeref :: "'tc tcq \<Rightarrow> int \<Rightarrow> 'tc option" where
  "tcqDeref q i =
     (case tq_queue q of
        None \<Rightarrow> None
      | Some xs \<Rightarrow> if 0 \<le> i \<and> i < int (length xs) then Some (xs ! nat i) else None)"

definition tcqFull :: "'tc tcq \<Rightarrow> int" where
  "tcqFull q =
     (if tcqCheck (Some q) \<noteq> 0 then 1
      else if tq_size q \<le> TC_QUEUE_MARGIN then tq_allFull q
      else if tq_len q \<ge> tq_size q - TC_QUEUE_MARGIN then 1
      else 0)"

section \<open>Well-formed queues and what they hold\<close>

text \<open>
  \<open>tcq_wf\<close>: the array is there and large enough, the indices are in range, and \<open>tq_end\<close> and
  \<open>tq_allFull\<close> say what \<open>tq_start\<close> and \<open>tq_len\<close> say. \<open>tcq_hist_wf\<close> adds the reverse history:
  the history and the queue fit in the ring with a slot to spare, and \<open>tq_rend\<close> is where the
  history starts.
\<close>

definition tcq_wf :: "'tc tcq \<Rightarrow> bool" where
  "tcq_wf q \<longleftrightarrow>
     (case tq_queue q of None \<Rightarrow> False | Some xs \<Rightarrow> tq_size q \<le> int (length xs)) \<and>
     0 < tq_size q \<and> 0 \<le> tq_start q \<and> tq_start q < tq_size q \<and>
     0 \<le> tq_len q \<and> tq_len q \<le> tq_size q \<and>
     tq_end q = (tq_start q + tq_len q) mod tq_size q \<and>
     (tq_allFull q \<noteq> 0 \<longleftrightarrow> tq_len q = tq_size q)"

definition tcq_hist_wf :: "'tc tcq \<Rightarrow> bool" where
  "tcq_hist_wf q \<longleftrightarrow> tcq_wf q \<and>
     0 \<le> tq_rlen q \<and> tq_rlen q \<le> TCQ_REVERSE_MARGIN \<and> tq_len q + tq_rlen q < tq_size q \<and>
     tq_rend q = (tq_start q - tq_rlen q) mod tq_size q"

definition tcq_slots :: "'tc tcq \<Rightarrow> 'tc list" where
  "tcq_slots q = (case tq_queue q of None \<Rightarrow> [] | Some xs \<Rightarrow> xs)"

definition tcq_list :: "'tc tcq \<Rightarrow> 'tc list" where
  "tcq_list q = window (tcq_slots q) (tq_size q) (tq_start q) (nat (tq_len q))"

definition tcq_past :: "'tc tcq \<Rightarrow> 'tc list" where
  "tcq_past q = window (tcq_slots q) (tq_size q) (tq_start q - tq_rlen q) (nat (tq_rlen q))"

lemma tcq_wfE:
  assumes "tcq_wf q"
  obtains xs where "tq_queue q = Some xs" "tq_size q \<le> int (length xs)" "0 < tq_size q"
    "0 \<le> tq_start q" "tq_start q < tq_size q" "0 \<le> tq_len q" "tq_len q \<le> tq_size q"
    "tq_end q = (tq_start q + tq_len q) mod tq_size q"
    "tq_allFull q \<noteq> 0 \<longleftrightarrow> tq_len q = tq_size q"
  using assms by (auto simp: tcq_wf_def split: option.splits)

lemma tcq_wf_end_range: "tcq_wf q \<Longrightarrow> 0 \<le> tq_end q \<and> tq_end q < tq_size q"
  by (auto elim!: tcq_wfE)

lemma tcqCheck_wf [simp]: "tcq_wf q \<Longrightarrow> tcqCheck (Some q) = 0"
  by (auto simp: tcqCheck_def elim: tcq_wfE)

lemma length_tcq_list: "tcq_wf q \<Longrightarrow> int (length (tcq_list q)) = tq_len q"
  by (auto simp: tcq_list_def elim!: tcq_wfE)

lemma tcq_hist_wfD: "tcq_hist_wf q \<Longrightarrow> tcq_wf q \<and> tq_allFull q = 0"
  by (auto simp: tcq_hist_wf_def elim!: tcq_wfE)

section \<open>Each operation on a well-formed queue\<close>

lemma tcqCreate_wf:
  assumes "1 \<le> sz" "sz \<le> int (length xs)"
  shows "\<exists>q'. tcqCreate (Some q) sz (Some xs) = (0, Some q') \<and> tcq_hist_wf q' \<and>
    tq_size q' = sz \<and> tcq_list q' = [] \<and> tcq_past q' = []"
  using assms
  by (simp add: tcqCreate_def tcqInit_def tcqCheck_def tcq_hist_wf_def tcq_wf_def tcq_list_def
      tcq_past_def TCQ_REVERSE_MARGIN_def)

lemma tcqInit_wf:
  assumes "tcq_wf q"
  shows "\<exists>q'. tcqInit q = (0, q') \<and> tcq_hist_wf q' \<and> tq_size q' = tq_size q
    \<and> tcq_list q' = [] \<and> tcq_past q' = []"
  using assms
  by (auto simp: tcqInit_def tcq_hist_wf_def tcq_wf_def tcq_list_def tcq_past_def
      TCQ_REVERSE_MARGIN_def split: option.splits)

text \<open>The successor index: the only wrap the ring knows.\<close>

lemma mod_succ:
  assumes "0 < (s::int)"
  shows "(i mod s + 1) mod s = (i + 1) mod s"
  by (simp add: mod_add_left_eq)

lemma mod_end_eq_start:
  assumes "0 \<le> (i::int)" "i < s" "0 \<le> n" "n \<le> s"
  shows "(i + n) mod s = i \<longleftrightarrow> n = 0 \<or> n = s"
proof
  assume eq: "(i + n) mod s = i"
  show "n = 0 \<or> n = s"
  proof (rule ccontr)
    assume "\<not> (n = 0 \<or> n = s)"
    with assms have "n < s" "n \<noteq> 0" by auto
    moreover have "(i + n) mod s = (i + 0) mod s" using eq assms by simp
    ultimately show False using mod_offset_inj [of n s 0 i] assms by auto
  qed
qed (use assms in auto)

lemma tcqPut_wf:
  assumes wf: "tcq_wf q" and room: "tq_len q < tq_size q"
  shows "\<exists>q'. tcqPut q tc = Some (0, q') \<and> tcq_wf q' \<and> tcq_list q' = tcq_list q @ [tc] \<and>
    tq_size q' = tq_size q \<and> tq_len q' = tq_len q + 1 \<and> tq_start q' = tq_start q \<and>
    tq_rlen q' = tq_rlen q \<and> tq_rend q' = tq_rend q \<and>
    tcq_slots q' = (tcq_slots q)[nat (tq_end q) := tc]"
proof -
  from wf obtain xs where q: "tq_queue q = Some xs" "tq_size q \<le> int (length xs)" "0 < tq_size q"
    "0 \<le> tq_start q" "tq_start q < tq_size q" "0 \<le> tq_len q"
    "tq_end q = (tq_start q + tq_len q) mod tq_size q"
    "tq_allFull q \<noteq> 0 \<longleftrightarrow> tq_len q = tq_size q"
    by (rule tcq_wfE)
  have end': "0 \<le> tq_end q" "tq_end q < tq_size q" "tq_end q < int (length xs)"
    using tcq_wf_end_range [OF wf] q(2) by auto
  have full: "tq_allFull q = 0" using q(8) room by auto
  have succ: "(tq_end q + 1) smod tq_size q = (tq_start q + (tq_len q + 1)) mod tq_size q"
    using q end'(1) by (simp add: smod_nonneg mod_succ add.assoc)
  have wrap: "(tq_start q + (tq_len q + 1)) mod tq_size q = tq_start q \<longleftrightarrow> tq_len q + 1 = tq_size q"
    using mod_end_eq_start [of "tq_start q" "tq_size q" "tq_len q + 1"] q room by auto
  have len: "nat (tq_len q + 1) = Suc (nat (tq_len q))" using q(6) by simp
  have list: "window (xs[nat (tq_end q) := tc]) (tq_size q) (tq_start q) (nat (tq_len q + 1))
      = window xs (tq_size q) (tq_start q) (nat (tq_len q)) @ [tc]"
    using q room end' window_update_beyond [of "tq_size q" "nat (tq_len q)" "tq_len q" xs "tq_start q"]
    by (simp add: len window_snoc)
  show ?thesis
    using q full succ wrap list end' room
    by (auto simp: tcqPut_def Let_def tcq_wf_def tcq_list_def tcq_slots_def)
qed

lemma tcqPut_full:
  assumes "tcq_wf q" "tq_len q = tq_size q"
  shows "tcqPut q tc = Some (-1, q)"
  using assms by (auto simp: tcqPut_def elim!: tcq_wfE)

lemma tcqPop_wf:
  assumes wf: "tcq_wf q" and ne: "0 < tq_len q"
  shows "\<exists>q'. tcqPop q = (0, q') \<and> tcq_wf q' \<and> tcq_list q = tcq_slots q ! nat (tq_start q) # tcq_list q' \<and>
    tq_size q' = tq_size q \<and> tq_len q' = tq_len q - 1 \<and> tcq_slots q' = tcq_slots q \<and>
    tq_start q' = (tq_start q + 1) mod tq_size q \<and>
    tq_rlen q' = (if tq_rlen q < TCQ_REVERSE_MARGIN then tq_rlen q + 1 else tq_rlen q) \<and>
    tq_rend q' = (if tq_rlen q < TCQ_REVERSE_MARGIN then tq_rend q else (tq_rend q + 1) smod tq_size q)"
proof -
  from wf obtain xs where q: "tq_queue q = Some xs" "tq_size q \<le> int (length xs)" "0 < tq_size q"
    "0 \<le> tq_start q" "tq_start q < tq_size q" "0 \<le> tq_len q" "tq_len q \<le> tq_size q"
    "tq_end q = (tq_start q + tq_len q) mod tq_size q"
    "tq_allFull q \<noteq> 0 \<longleftrightarrow> tq_len q = tq_size q"
    by (rule tcq_wfE)
  have start: "(tq_start q + 1) smod tq_size q = (tq_start q + 1) mod tq_size q"
    using q by (simp add: smod_nonneg)
  have len: "nat (tq_len q) = Suc (nat (tq_len q - 1))" using ne by simp
  have fin: "((tq_start q + 1) mod tq_size q + (tq_len q - 1)) mod tq_size q = tq_end q"
    by (simp add: mod_add_left_eq q(8))
  have list: "window xs (tq_size q) (tq_start q) (nat (tq_len q)) =
      xs ! nat (tq_start q) # window xs (tq_size q) ((tq_start q + 1) mod tq_size q) (nat (tq_len q - 1))"
    using q by (simp add: len window_Cons window_mod)
  show ?thesis
    using q start fin list ne wf
    by (simp add: tcqPop_def Let_def tcq_wf_def tcq_list_def tcq_slots_def tcqCheck_def)
qed

lemma tcqPop_empty: "tcq_wf q \<Longrightarrow> tq_len q = 0 \<Longrightarrow> tcqPop q = (-1, q)"
  by (auto simp: tcqPop_def elim!: tcq_wfE)

lemma tcqRemove_wf:
  assumes wf: "tcq_wf q" and n: "0 \<le> n" "n \<le> tq_len q"
  shows "\<exists>q'. tcqRemove q n = (0, q') \<and> tcq_wf q' \<and> tcq_list q' = drop (nat n) (tcq_list q)"
proof (cases "n = 0")
  case True
  with wf show ?thesis by (simp add: tcqRemove_def)
next
  case False
  from wf obtain xs where q: "tq_queue q = Some xs" "tq_size q \<le> int (length xs)" "0 < tq_size q"
    "0 \<le> tq_start q" "tq_start q < tq_size q" "0 \<le> tq_len q" "tq_len q \<le> tq_size q"
    "tq_end q = (tq_start q + tq_len q) mod tq_size q"
    "tq_allFull q \<noteq> 0 \<longleftrightarrow> tq_len q = tq_size q"
    by (rule tcq_wfE)
  have ne: "\<not> (tq_start q = tq_end q \<and> tq_allFull q = 0)"
    using mod_end_eq_start [of "tq_start q" "tq_size q" "tq_len q"] q n False by auto
  have start: "(tq_start q + n) smod tq_size q = (tq_start q + n) mod tq_size q"
    using q n by (simp add: smod_nonneg)
  have fin: "((tq_start q + n) mod tq_size q + (tq_len q - n)) mod tq_size q = tq_end q"
    by (simp add: mod_add_left_eq q(8))
  have list: "window xs (tq_size q) ((tq_start q + n) mod tq_size q) (nat (tq_len q - n)) =
      drop (nat n) (window xs (tq_size q) (tq_start q) (nat (tq_len q)))"
    using n False by (simp add: window_mod window_drop nat_diff_distrib nat_mono)
  show ?thesis
    using q ne start fin list n False wf
    by (simp add: tcqRemove_def tcq_wf_def tcq_list_def tcq_slots_def)
qed

text \<open>
  \<open>tcqPopBack\<close> undoes a put, but it does not reset \<open>tq_allFull\<close>: on a full queue the result is not
  well-formed.
\<close>

lemma tcqPopBack_wf:
  assumes wf: "tcq_wf q" and ne: "0 < tq_len q"
  shows "\<exists>q'. tcqPopBack q = (0, q') \<and> tcq_list q' = butlast (tcq_list q) \<and>
    (tcq_wf q' \<longleftrightarrow> tq_len q < tq_size q) \<and> tq_len q' = tq_len q - 1 \<and> tq_size q' = tq_size q \<and>
    tq_allFull q' = tq_allFull q \<and> tq_start q' = tq_start q \<and> tq_rlen q' = tq_rlen q \<and>
    tq_rend q' = tq_rend q \<and> tcq_slots q' = tcq_slots q \<and> tq_queue q' = tq_queue q"
proof -
  from wf obtain xs where q: "tq_queue q = Some xs" "tq_size q \<le> int (length xs)" "0 < tq_size q"
    "0 \<le> tq_start q" "tq_start q < tq_size q" "0 \<le> tq_len q" "tq_len q \<le> tq_size q"
    "tq_end q = (tq_start q + tq_len q) mod tq_size q"
    "tq_allFull q \<noteq> 0 \<longleftrightarrow> tq_len q = tq_size q"
    by (rule tcq_wfE)
  have "(tq_end q - 1 + tq_size q) smod tq_size q = (tq_end q - 1 + tq_size q) mod tq_size q"
    using tcq_wf_end_range [OF wf] by (simp add: smod_nonneg)
  also have "\<dots> = (tq_end q - 1) mod tq_size q" by simp
  also have "\<dots> = (tq_start q + (tq_len q - 1)) mod tq_size q"
    by (simp add: q(8) mod_diff_left_eq add_diff_eq)
  finally have fin: "(tq_end q - 1 + tq_size q) smod tq_size q
      = (tq_start q + (tq_len q - 1)) mod tq_size q" .
  have list: "window xs (tq_size q) (tq_start q) (nat (tq_len q - 1))
      = butlast (window xs (tq_size q) (tq_start q) (nat (tq_len q)))"
  proof -
    have "nat (tq_len q) = Suc (nat (tq_len q - 1))" using ne by simp
    then show ?thesis by (simp add: window_snoc)
  qed
  show ?thesis
    using q fin list ne wf
    by (auto simp: tcqPopBack_def Let_def tcq_wf_def tcq_list_def tcq_slots_def tcqCheck_def)
qed

lemma tcqPopBack_empty: "tcq_wf q \<Longrightarrow> tq_len q = 0 \<Longrightarrow> tcqPopBack q = (-1, q)"
  by (auto simp: tcqPopBack_def elim!: tcq_wfE)

lemma tcqItem_wf:
  assumes wf: "tcq_wf q" and n: "0 \<le> n" "n < tq_len q"
  shows "\<exists>i. tcqItem q n = Some i \<and> tcqDeref q i = Some (tcq_list q ! nat n)"
proof -
  from wf obtain xs where q: "tq_queue q = Some xs" "tq_size q \<le> int (length xs)" "0 < tq_size q"
    "0 \<le> tq_start q" "tq_start q < tq_size q"
    by (rule tcq_wfE)
  have "(tq_start q + n) smod tq_size q = (tq_start q + n) mod tq_size q"
    using q n by (simp add: smod_nonneg)
  moreover have "(tq_start q + n) mod tq_size q < int (length xs)"
    using q(2,3) pos_mod_bound [of "tq_size q" "tq_start q + n"] by linarith
  moreover have "nat n < nat (tq_len q)" using n by simp
  ultimately show ?thesis
    using q n wf by (simp add: tcqItem_def tcqDeref_def tcq_list_def tcq_slots_def)
qed

lemma tcqLast_wf:
  assumes wf: "tcq_wf q" and ne: "0 < tq_len q"
  shows "\<exists>i. tcqLast q = Some i \<and> tcqDeref q i = Some (last (tcq_list q))"
proof -
  from wf obtain xs where q: "tq_queue q = Some xs" "tq_size q \<le> int (length xs)" "0 < tq_size q"
    "tq_end q = (tq_start q + tq_len q) mod tq_size q"
    by (rule tcq_wfE)
  have "(tq_end q - 1 + tq_size q) smod tq_size q = (tq_end q - 1 + tq_size q) mod tq_size q"
    using tcq_wf_end_range [OF wf] by (simp add: smod_nonneg)
  also have "\<dots> = (tq_end q - 1) mod tq_size q" by simp
  also have "\<dots> = (tq_start q + (tq_len q - 1)) mod tq_size q"
    by (simp add: q(4) mod_diff_left_eq add_diff_eq)
  finally have i: "(tq_end q - 1 + tq_size q) smod tq_size q
      = (tq_start q + (tq_len q - 1)) mod tq_size q" .
  have len: "nat (tq_len q) = Suc (nat (tq_len q - 1))" using ne by simp
  have "last (tcq_list q) = xs ! nat ((tq_start q + (tq_len q - 1)) mod tq_size q)"
    using ne by (simp add: tcq_list_def tcq_slots_def q(1) len window_snoc)
  moreover have "(tq_start q + (tq_len q - 1)) mod tq_size q < int (length xs)"
    using q(2,3) pos_mod_bound [of "tq_size q" "tq_start q + (tq_len q - 1)"] by linarith
  ultimately show ?thesis
    using q i ne wf by (simp add: tcqLast_def tcqDeref_def)
qed

end
