(* ===== verification/TcqContract.thy ===== *)
theory TcqContract
  imports Tcq
begin

text \<open>
  The segment queue provides the queue contract of \<open>Fifo\<close>, and under the margin that \<open>tcqFull\<close>
  asks for also the contract with a reverse history. The properties of the queue are stated here.
\<close>

section \<open>The operations as the contract has them\<close>

text \<open>Appending; taking the first segment (\<open>tcqItem (q, 0)\<close>, then \<open>tcqPop\<close>); stepping back.\<close>

definition tcq_enq :: "'tc \<Rightarrow> 'tc tcq \<Rightarrow> 'tc tcq option" where
  "tcq_enq tc q = (case tcqPut q tc of None \<Rightarrow> None | Some (r, q') \<Rightarrow> if r = 0 then Some q' else None)"

definition tcq_deq :: "'tc tcq \<Rightarrow> ('tc \<times> 'tc tcq) option" where
  "tcq_deq q =
     (case tcqItem q 0 of
        None \<Rightarrow> None
      | Some i \<Rightarrow>
          (case tcqDeref q i of
             None \<Rightarrow> None
           | Some tc \<Rightarrow> (case tcqPop q of (r, q') \<Rightarrow> if r = 0 then Some (tc, q') else None)))"

definition tcq_undo :: "'tc tcq \<Rightarrow> 'tc tcq option" where
  "tcq_undo q = (case tcqBackStep q of (r, q') \<Rightarrow> if r = 0 then Some q' else None)"

text \<open>A producer that asks \<open>tcqFull\<close> first.\<close>

definition tcq_enq_margin :: "'tc \<Rightarrow> 'tc tcq \<Rightarrow> 'tc tcq option" where
  "tcq_enq_margin tc q = (if tcqFull q = 0 then tcq_enq tc q else None)"

definition tcq_room :: "'tc tcq \<Rightarrow> bool" where
  "tcq_room q \<longleftrightarrow> tq_len q < tq_size q"

definition tcq_margin_wf :: "'tc tcq \<Rightarrow> bool" where
  "tcq_margin_wf q \<longleftrightarrow> tcq_hist_wf q \<and> TC_QUEUE_MARGIN < tq_size q"

definition tcq_margin_room :: "'tc tcq \<Rightarrow> bool" where
  "tcq_margin_room q \<longleftrightarrow> tq_len q < tq_size q - TC_QUEUE_MARGIN"

section \<open>The plain contract\<close>

lemma tcq_deq_Some:
  assumes wf: "tcq_wf q" and ne: "0 < tq_len q"
  shows "\<exists>q'. tcq_deq q = Some (tcq_slots q ! nat (tq_start q), q') \<and> tcqPop q = (0, q') \<and> tcq_wf q' \<and>
    tcq_list q = tcq_slots q ! nat (tq_start q) # tcq_list q'"
proof -
  obtain q' where q': "tcqPop q = (0, q')" "tcq_wf q'"
    "tcq_list q = tcq_slots q ! nat (tq_start q) # tcq_list q'"
    using tcqPop_wf [OF wf ne] by auto
  obtain i where i: "tcqItem q 0 = Some i" "tcqDeref q i = Some (tcq_list q ! nat 0)"
    using tcqItem_wf [OF wf order.refl ne] by auto
  show ?thesis by (simp add: tcq_deq_def i q')
qed

lemma tcq_deq_None: "tcq_wf q \<Longrightarrow> tq_len q = 0 \<Longrightarrow> tcq_deq q = None"
  by (simp add: tcq_deq_def tcqItem_def)

lemma tcq_list_Nil_iff: "tcq_wf q \<Longrightarrow> tcq_list q = [] \<longleftrightarrow> tq_len q = 0"
  by (auto simp: tcq_list_def elim!: tcq_wfE)

lemma tcq_list_ConsD: "tcq_wf q \<Longrightarrow> tcq_list q = x # xs \<Longrightarrow> 0 < tq_len q"
  using length_tcq_list [of q] by simp

interpretation tcq: bounded_fifo tcq_enq tcq_deq tcq_list tcq_room tcq_wf
proof unfold_locales
  fix q :: "'a tcq" and a
  assume "tcq_wf q" "tcq_room q"
  then show "\<exists>q'. tcq_enq a q = Some q' \<and> tcq_wf q' \<and> tcq_list q' = tcq_list q @ [a]"
    using tcqPut_wf [of q a] by (auto simp: tcq_enq_def tcq_room_def)
next
  fix q :: "'a tcq" and a
  assume "tcq_wf q" "\<not> tcq_room q"
  then show "tcq_enq a q = None"
    using tcqPut_full [of q a] by (auto simp: tcq_enq_def tcq_room_def elim!: tcq_wfE)
next
  fix q :: "'a tcq" and x xs
  assume "tcq_wf q" "tcq_list q = x # xs"
  then show "\<exists>q'. tcq_deq q = Some (x, q') \<and> tcq_wf q' \<and> tcq_list q' = xs"
    using tcq_deq_Some [of q] tcq_list_ConsD [of q] by auto
next
  fix q :: "'a tcq"
  assume "tcq_wf q" "tcq_list q = []"
  then show "tcq_deq q = None" by (simp add: tcq_deq_None tcq_list_Nil_iff)
qed

section \<open>The contract with history\<close>

lemma tcqPut_hist:
  assumes wf: "tcq_hist_wf q" and room: "tq_len q + tq_rlen q + 1 < tq_size q"
  shows "\<exists>q'. tcqPut q tc = Some (0, q') \<and> tcq_hist_wf q' \<and> tcq_list q' = tcq_list q @ [tc] \<and>
    tcq_past q' = tcq_past q \<and> tq_size q' = tq_size q"
proof -
  have w: "tcq_wf q" using tcq_hist_wfD [OF wf] by simp
  have h: "0 \<le> tq_rlen q" "tq_rlen q \<le> TCQ_REVERSE_MARGIN"
    "tq_rend q = (tq_start q - tq_rlen q) mod tq_size q"
    using wf by (auto simp: tcq_hist_wf_def)
  have r: "tq_len q < tq_size q" using room h by simp
  from tcqPut_wf [OF w r, of tc] obtain q' where q': "tcqPut q tc = Some (0, q')" "tcq_wf q'"
    "tcq_list q' = tcq_list q @ [tc]" "tq_size q' = tq_size q" "tq_len q' = tq_len q + 1"
    "tq_start q' = tq_start q" "tq_rlen q' = tq_rlen q" "tq_rend q' = tq_rend q"
    "tcq_slots q' = (tcq_slots q)[nat (tq_end q) := tc]" by auto
  have e: "tq_end q = ((tq_start q - tq_rlen q) + (tq_rlen q + tq_len q)) mod tq_size q"
    and s: "0 < tq_size q" and l: "0 \<le> tq_len q"
    using w by (auto elim!: tcq_wfE)
  have "tcq_past q' = tcq_past q"
    unfolding tcq_past_def q'(4,6,7,9) e
    by (rule window_update_beyond) (use s l h room in auto)
  with q' h room show ?thesis by (auto simp: tcq_hist_wf_def)
qed

lemma tcqPop_hist:
  assumes wf: "tcq_hist_wf q" and ne: "0 < tq_len q"
  shows "\<exists>q'. tcqPop q = (0, q') \<and> tcq_hist_wf q' \<and> tq_size q' = tq_size q \<and>
    tcq_list q = tcq_slots q ! nat (tq_start q) # tcq_list q' \<and>
    tcq_past q' = (if length (tcq_past q) < nat TCQ_REVERSE_MARGIN then tcq_past q else tl (tcq_past q))
                    @ [tcq_slots q ! nat (tq_start q)]"
proof -
  have w: "tcq_wf q" using tcq_hist_wfD [OF wf] by simp
  have h: "0 \<le> tq_rlen q" "tq_rlen q \<le> TCQ_REVERSE_MARGIN" "tq_len q + tq_rlen q < tq_size q"
    "tq_rend q = (tq_start q - tq_rlen q) mod tq_size q"
    using wf by (auto simp: tcq_hist_wf_def)
  have s: "0 < tq_size q" "0 \<le> tq_start q" "tq_start q < tq_size q"
    using w by (auto elim!: tcq_wfE)
  from tcqPop_wf [OF w ne] obtain q' where q': "tcqPop q = (0, q')" "tcq_wf q'"
    "tcq_list q = tcq_slots q ! nat (tq_start q) # tcq_list q'"
    "tq_size q' = tq_size q" "tq_len q' = tq_len q - 1" "tcq_slots q' = tcq_slots q"
    "tq_start q' = (tq_start q + 1) mod tq_size q"
    "tq_rlen q' = (if tq_rlen q < TCQ_REVERSE_MARGIN then tq_rlen q + 1 else tq_rlen q)"
    "tq_rend q' = (if tq_rlen q < TCQ_REVERSE_MARGIN then tq_rend q else (tq_rend q + 1) smod tq_size q)"
    by auto
  have full: "window (tcq_slots q) (tq_size q) (tq_start q - tq_rlen q) (Suc (nat (tq_rlen q)))
      = tcq_past q @ [tcq_slots q ! nat (tq_start q)]"
    using h(1) s by (simp add: window_snoc tcq_past_def)
  show ?thesis
  proof (cases "tq_rlen q < TCQ_REVERSE_MARGIN")
    case True
    have rend: "tq_rend q' = (tq_start q' - tq_rlen q') mod tq_size q'"
      using True q' h by (simp add: mod_diff_left_eq)
    have "(tq_start q' - tq_rlen q') mod tq_size q = (tq_start q - tq_rlen q) mod tq_size q"
      using True q' by (simp add: mod_diff_left_eq)
    moreover have "nat (tq_rlen q') = Suc (nat (tq_rlen q))" using True q' h by simp
    ultimately have "tcq_past q' = tcq_past q @ [tcq_slots q ! nat (tq_start q)]"
      using full window_mod [of "tcq_slots q" "tq_size q" "tq_start q' - tq_rlen q'"]
        window_mod [of "tcq_slots q" "tq_size q" "tq_start q - tq_rlen q"]
      by (simp add: tcq_past_def q')
    moreover have "length (tcq_past q) < nat TCQ_REVERSE_MARGIN"
      using True h by (simp add: tcq_past_def)
    ultimately show ?thesis
      using q' rend True h by (auto simp: tcq_hist_wf_def)
  next
    case False
    have rl: "tq_rlen q' = tq_rlen q" "tq_rlen q = TCQ_REVERSE_MARGIN" using False q' h by auto
    have pos: "0 \<le> tq_rend q" using h(4) s by simp
    have rend: "tq_rend q' = (tq_start q' - tq_rlen q') mod tq_size q'"
      using False q' h s pos by (simp add: smod_nonneg mod_diff_left_eq mod_add_left_eq diff_add_eq)
    have "(tq_start q' - tq_rlen q') mod tq_size q = (tq_start q - tq_rlen q + 1) mod tq_size q"
      using q' rl by (simp add: mod_diff_left_eq diff_add_eq)
    then have "tcq_past q' = window (tcq_slots q) (tq_size q) (tq_start q - tq_rlen q + 1) (nat (tq_rlen q))"
      using window_mod [of "tcq_slots q" "tq_size q" "tq_start q' - tq_rlen q'"]
        window_mod [of "tcq_slots q" "tq_size q" "tq_start q - tq_rlen q + 1"]
      by (simp add: tcq_past_def q' rl)
    also have "\<dots> = tl (tcq_past q @ [tcq_slots q ! nat (tq_start q)])"
      using full window_Cons [of "tcq_slots q" "tq_size q" "tq_start q - tq_rlen q" "nat (tq_rlen q)"]
      by (metis list.sel(3))
    also have "\<dots> = tl (tcq_past q) @ [tcq_slots q ! nat (tq_start q)]"
      using rl by (simp add: tcq_past_def TCQ_REVERSE_MARGIN_def tl_append split: list.splits)
    finally have "tcq_past q' = tl (tcq_past q) @ [tcq_slots q ! nat (tq_start q)]" .
    moreover have "\<not> length (tcq_past q) < nat TCQ_REVERSE_MARGIN"
      using rl by (simp add: tcq_past_def)
    ultimately show ?thesis
      using q' rend rl h False by (auto simp: tcq_hist_wf_def)
  qed
qed

lemma tcqBackStep_hist:
  assumes wf: "tcq_hist_wf q" and ne: "0 < tq_rlen q"
  shows "\<exists>q' y. tcqBackStep q = (0, q') \<and> tcq_hist_wf q' \<and> tq_size q' = tq_size q \<and>
    tcq_past q = tcq_past q' @ [y] \<and> tcq_list q' = y # tcq_list q"
proof -
  have w: "tcq_wf q" and nf: "tq_allFull q = 0" using tcq_hist_wfD [OF wf] by auto
  have h: "0 \<le> tq_rlen q" "tq_rlen q \<le> TCQ_REVERSE_MARGIN" "tq_len q + tq_rlen q < tq_size q"
    "tq_rend q = (tq_start q - tq_rlen q) mod tq_size q"
    using wf by (auto simp: tcq_hist_wf_def)
  from w obtain xs where q: "tq_queue q = Some xs" "tq_size q \<le> int (length xs)" "0 < tq_size q"
    "0 \<le> tq_start q" "tq_start q < tq_size q" "0 \<le> tq_len q" "tq_len q \<le> tq_size q"
    "tq_end q = (tq_start q + tq_len q) mod tq_size q"
    by (rule tcq_wfE)
  have "(tq_start q - tq_rlen q) mod tq_size q \<noteq> tq_start q"
  proof
    assume "(tq_start q - tq_rlen q) mod tq_size q = tq_start q"
    then have "(tq_start q - tq_rlen q + 0) mod tq_size q = (tq_start q - tq_rlen q + tq_rlen q) mod tq_size q"
      using q by simp
    then show False
      using mod_offset_inj [of 0 "tq_size q" "tq_rlen q" "tq_start q - tq_rlen q"] q h ne by auto
  qed
  then have neq: "tq_start q \<noteq> tq_rend q" using h(4) by simp
  define st where "st = (tq_start q - 1 + tq_size q) smod tq_size q"
  have st: "st = (tq_start q - 1) mod tq_size q"
    using q by (simp add: st_def smod_nonneg)
  define q' where "q' = q\<lparr>tq_start := st, tq_len := tq_len q + 1, tq_rlen := tq_rlen q - 1\<rparr>"
  have step: "tcqBackStep q = (0, q')"
    using w neq by (simp add: tcqBackStep_def q'_def st_def)
  have fin: "(st + (tq_len q + 1)) mod tq_size q = tq_end q"
    by (simp add: st mod_add_left_eq q(8))
  have rend: "tq_rend q = (st - (tq_rlen q - 1)) mod tq_size q"
    by (simp add: st mod_diff_left_eq h(4))
  have wf': "tcq_hist_wf q'"
    using q h nf fin rend ne st
    by (auto simp: tcq_hist_wf_def tcq_wf_def q'_def)
  define y where "y = xs ! nat st"
  have len: "nat (tq_len q + 1) = Suc (nat (tq_len q))" using q by simp
  have rlen: "nat (tq_rlen q) = Suc (nat (tq_rlen q - 1))" using ne by simp
  have "tcq_list q' = y # tcq_list q"
    using window_mod [of xs "tq_size q" "tq_start q - 1" "Suc (nat (tq_len q))"]
      window_Cons [of xs "tq_size q" "tq_start q - 1" "nat (tq_len q)"]
    by (simp add: tcq_list_def tcq_slots_def q'_def q(1) len y_def st)
  moreover have "tcq_past q = tcq_past q' @ [y]"
    using window_mod [of xs "tq_size q" "st - (tq_rlen q - 1)" "nat (tq_rlen q - 1)"]
      window_mod [of xs "tq_size q" "tq_start q - tq_rlen q" "nat (tq_rlen q - 1)"] rend h(4) ne
    by (simp add: tcq_past_def tcq_slots_def q'_def q(1) rlen window_snoc y_def st)
  ultimately show ?thesis using step wf' by (auto simp: q'_def)
qed

lemma tcqBackStep_none:
  assumes "tcq_hist_wf q" "tq_rlen q = 0"
  shows "tcqBackStep q = (-1, q)"
proof -
  have "tcq_wf q" using tcq_hist_wfD [OF assms(1)] by simp
  then have "tq_rend q = tq_start q"
    using assms by (auto simp: tcq_hist_wf_def elim!: tcq_wfE)
  with \<open>tcq_wf q\<close> show ?thesis by (simp add: tcqBackStep_def)
qed

lemma tcqFull_margin:
  assumes "tcq_margin_wf q"
  shows "tcqFull q = 0 \<longleftrightarrow> tcq_margin_room q"
  using assms tcq_hist_wfD [of q]
  by (auto simp: tcqFull_def tcq_margin_wf_def tcq_margin_room_def)

lemma tcq_margin_room_hist:
  assumes "tcq_margin_wf q" "tcq_margin_room q"
  shows "tq_len q + tq_rlen q + 1 < tq_size q"
  using assms
  by (auto simp: tcq_margin_wf_def tcq_margin_room_def tcq_hist_wf_def TC_QUEUE_MARGIN_def)

lemma tcq_past_Nil_iff: "tcq_hist_wf q \<Longrightarrow> tcq_past q = [] \<longleftrightarrow> tq_rlen q = 0"
  by (auto simp: tcq_past_def tcq_hist_wf_def)

lemma tcq_margin_deq:
  assumes wf: "tcq_margin_wf q" and l: "tcq_list q = x # xs"
  shows "\<exists>q'. tcq_deq q = Some (x, q') \<and> tcq_margin_wf q' \<and> tcq_list q' = xs \<and>
    tcq_past q' = (if length (tcq_past q) < nat TCQ_REVERSE_MARGIN then tcq_past q @ [x]
                   else tl (tcq_past q) @ [x])"
proof -
  have hw: "tcq_hist_wf q" and w: "tcq_wf q"
    using wf tcq_hist_wfD [of q] by (auto simp: tcq_margin_wf_def)
  have ne: "0 < tq_len q" by (rule tcq_list_ConsD [OF w l])
  from tcq_deq_Some [OF w ne] tcqPop_hist [OF hw ne] l wf show ?thesis
    by (auto simp: tcq_margin_wf_def)
qed

interpretation tcq_hist: undo_fifo tcq_enq_margin tcq_deq tcq_list tcq_margin_room tcq_margin_wf
  tcq_undo tcq_past "nat TCQ_REVERSE_MARGIN"
proof unfold_locales
  fix q :: "'a tcq" and a
  assume wf: "tcq_margin_wf q" and room: "tcq_margin_room q"
  then have hw: "tcq_hist_wf q" by (simp add: tcq_margin_wf_def)
  from tcqPut_hist [OF hw tcq_margin_room_hist [OF wf room], of a] wf room
  show "\<exists>q'. tcq_enq_margin a q = Some q' \<and> tcq_margin_wf q' \<and> tcq_list q' = tcq_list q @ [a]"
    by (auto simp: tcq_enq_margin_def tcq_enq_def tcqFull_margin [OF wf] tcq_margin_wf_def)
next
  fix q :: "'a tcq" and a
  assume "tcq_margin_wf q" "\<not> tcq_margin_room q"
  then show "tcq_enq_margin a q = None"
    by (simp add: tcq_enq_margin_def tcqFull_margin)
next
  fix q :: "'a tcq" and x xs
  assume wf: "tcq_margin_wf q" and l: "tcq_list q = x # xs"
  show "\<exists>q'. tcq_deq q = Some (x, q') \<and> tcq_margin_wf q' \<and> tcq_list q' = xs"
    using tcq_margin_deq [OF wf l] by auto
next
  fix q :: "'a tcq"
  assume "tcq_margin_wf q" "tcq_list q = []"
  then show "tcq_deq q = None"
    using tcq.deq_Nil [of q] tcq_hist_wfD [of q] by (auto simp: tcq_margin_wf_def)
next
  fix q q' :: "'a tcq" and a
  assume wf: "tcq_margin_wf q" and enq: "tcq_enq_margin a q = Some q'"
  then have full: "tcqFull q = 0" by (simp add: tcq_enq_margin_def split: if_splits)
  then have room: "tcq_margin_room q" using tcqFull_margin [OF wf] by simp
  from wf have hw: "tcq_hist_wf q" by (simp add: tcq_margin_wf_def)
  from tcqPut_hist [OF hw tcq_margin_room_hist [OF wf room], of a] enq full
  show "tcq_past q' = tcq_past q" by (auto simp: tcq_enq_margin_def tcq_enq_def)
next
  fix q q' :: "'a tcq" and a
  assume wf: "tcq_margin_wf q" and deq: "tcq_deq q = Some (a, q')"
  have w: "tcq_wf q" using wf tcq_hist_wfD [of q] by (simp add: tcq_margin_wf_def)
  from tcq.deq_SomeD [OF w deq] have "tcq_list q = a # tcq_list q'" by simp
  from tcq_margin_deq [OF wf this] obtain r where "tcq_deq q = Some (a, r)"
    "tcq_past r = (if length (tcq_past q) < nat TCQ_REVERSE_MARGIN then tcq_past q @ [a]
                   else tl (tcq_past q) @ [a])" by blast
  with deq show "tcq_past q' = (if length (tcq_past q) < nat TCQ_REVERSE_MARGIN then tcq_past q @ [a]
                       else tl (tcq_past q) @ [a])" by auto
next
  fix q :: "'a tcq" and ys y
  assume wf: "tcq_margin_wf q" and p: "tcq_past q = ys @ [y]"
  then have hw: "tcq_hist_wf q" by (simp add: tcq_margin_wf_def)
  with p tcq_past_Nil_iff [OF hw] have "0 < tq_rlen q" by (auto simp: tcq_hist_wf_def)
  from tcqBackStep_hist [OF hw this] p wf
  show "\<exists>q'. tcq_undo q = Some q' \<and> tcq_margin_wf q' \<and> tcq_list q' = y # tcq_list q \<and> tcq_past q' = ys"
    by (auto simp: tcq_undo_def tcq_margin_wf_def)
next
  fix q :: "'a tcq"
  assume wf: "tcq_margin_wf q" and p: "tcq_past q = []"
  then have hw: "tcq_hist_wf q" by (simp add: tcq_margin_wf_def)
  with p tcq_past_Nil_iff [OF hw] tcqBackStep_none [OF hw] show "tcq_undo q = None"
    by (simp add: tcq_undo_def)
next
  fix q :: "'a tcq"
  assume "tcq_margin_wf q"
  then show "length (tcq_past q) \<le> nat TCQ_REVERSE_MARGIN"
    by (auto simp: tcq_margin_wf_def tcq_hist_wf_def tcq_past_def)
next
  show "0 < nat TCQ_REVERSE_MARGIN" by (simp add: TCQ_REVERSE_MARGIN_def)
qed

section \<open>Properties\<close>

text \<open>
  C3: Over any run of \<open>tcqPut\<close> and \<open>tcqPop\<close> on a well-formed queue, the segments that were
  queued followed by those accepted are the segments that came out followed by those still queued:
  the planner executes segments in the order they were appended, and loses or repeats none.
\<close>

theorem tcq_run_order:
  assumes "tcq_wf q" "fifo_run tcq_enq tcq_deq q ops = (i, out, r)"
  shows "tcq_wf r \<and> tcq_list q @ i = out @ tcq_list r"
  by (rule tcq.run_order [OF assms])

text \<open>A queue of four slots as \<open>tcqCreate\<close> makes it, for the witnesses.\<close>

definition tcq_four :: "int tcq" where
  "tcq_four = \<lparr>tq_queue = Some [0, 0, 0, 0], tq_size = 4, tq_len = 0, tq_rlen = 0, tq_start = 0,
     tq_end = 0, tq_rend = 0, tq_allFull = 0\<rparr>"

lemma tcq_four_wf: "tcq_wf tcq_four"
  by (simp add: tcq_wf_def tcq_four_def)

theorem tcq_run_order_witness:
  "tcq_wf (snd (snd (fifo_run tcq_enq tcq_deq tcq_four [Enq 7, Enq 8, Deq])))"
proof -
  obtain i out r where run: "fifo_run tcq_enq tcq_deq tcq_four [Enq 7, Enq 8, Deq] = (i, out, r)"
    by (cases "fifo_run tcq_enq tcq_deq tcq_four [Enq 7, Enq 8, Deq]") auto
  from tcq_run_order [OF tcq_four_wf run] run show ?thesis by simp
qed

text \<open>
  When the producer respects \<open>tcqFull\<close>, the last 200 segments can always be stepped back into:
  taking \<open>n\<close> segments and then calling \<open>tcqBackStep\<close> \<open>n\<close> times succeeds and leaves the queue
  holding what it held before.
\<close>

theorem tcq_take_back:
  assumes "tcq_margin_wf q" "n \<le> length (tcq_list q)" "n \<le> nat TCQ_REVERSE_MARGIN"
  shows "\<exists>q1 q2. deq_n tcq_deq n q = Some q1 \<and> undo_n tcq_undo n q1 = Some q2 \<and>
    tcq_margin_wf q2 \<and> tcq_list q2 = tcq_list q"
  by (rule tcq_hist.take_back [OF assms])

theorem tcq_take_back_witness:
  "\<exists>q1 q2. deq_n tcq_deq 1 \<lparr>tq_queue = Some (replicate 300 (5::int)), tq_size = 300, tq_len = 2,
      tq_rlen = 0, tq_start = 0, tq_end = 2, tq_rend = 0, tq_allFull = 0\<rparr> = Some q1 \<and>
    undo_n tcq_undo 1 q1 = Some q2"
proof -
  let ?q = "\<lparr>tq_queue = Some (replicate 300 (5::int)), tq_size = 300, tq_len = 2,
      tq_rlen = 0, tq_start = 0, tq_end = 2, tq_rend = 0, tq_allFull = 0\<rparr>"
  have "tcq_margin_wf ?q"
    by (simp add: tcq_margin_wf_def tcq_hist_wf_def tcq_wf_def TC_QUEUE_MARGIN_def TCQ_REVERSE_MARGIN_def)
  moreover have "1 \<le> length (tcq_list ?q)" by (simp add: tcq_list_def)
  moreover have "1 \<le> nat TCQ_REVERSE_MARGIN" by (simp add: TCQ_REVERSE_MARGIN_def)
  ultimately show ?thesis using tcq_take_back [of ?q 1] by blast
qed

text \<open>
  C4: On a well-formed queue every access stays inside the array: \<open>tcqPut\<close> never stores out of
  bounds, \<open>tcqItem\<close> yields a pointer exactly for \<open>0 <= n < len\<close>, and the pointer is to the
  \<open>n\<close>-th queued segment.
\<close>

theorem tcq_access:
  assumes "tcq_wf q"
  shows "tcqPut q tc \<noteq> None \<and>
    (case tcqItem q n of
       None \<Rightarrow> n < 0 \<or> tcqLen q \<le> n
     | Some i \<Rightarrow> 0 \<le> n \<and> n < tcqLen q \<and> tcqDeref q i = Some (tcq_list q ! nat n))"
proof -
  have "tcqPut q tc \<noteq> None"
  proof (cases "tq_len q < tq_size q")
    case True
    then show ?thesis using tcqPut_wf [OF assms, of tc] by auto
  next
    case False
    then show ?thesis using tcqPut_full [OF assms, of tc] assms by (auto elim!: tcq_wfE)
  qed
  moreover have "tcqItem q n = None" if "n < 0 \<or> tcqLen q \<le> n"
    using that assms by (auto simp: tcqItem_def tcqLen_def)
  ultimately show ?thesis
    using tcqItem_wf [OF assms, of n] assms by (auto simp: tcqLen_def tcqItem_def split: option.splits)
qed

theorem tcq_access_witness: "tcqPut tcq_four 9 \<noteq> None"
  using tcq_access [OF tcq_four_wf, of 9 0] by blast

text \<open>
  \<open>tcqPopBack\<close> does not reset \<open>allFull\<close>. After it has removed the last segment of a full queue
  the queue has a free slot, and still every \<open>tcqPut\<close> is refused and a small queue reports full.
\<close>

theorem tcqPopBack_leaves_allFull:
  assumes "tcq_wf q" "tcqLen q = tq_size q"
  shows "\<exists>q'. tcqPopBack q = (0, q') \<and> tcqLen q' = tq_size q' - 1 \<and>
    tcq_list q' = butlast (tcq_list q) \<and> tcqPut q' tc = Some (-1, q') \<and> tcqFull q' \<noteq> 0"
proof -
  have l: "tq_len q = tq_size q" using assms by (simp add: tcqLen_def)
  then have "0 < tq_len q" "tq_allFull q \<noteq> 0" using assms(1) by (auto elim!: tcq_wfE)
  from tcqPopBack_wf [OF assms(1) this(1)] this(2) l assms(1) show ?thesis
    by (auto simp: tcqLen_def tcqCheck_def tcqPut_def tcqFull_def TC_QUEUE_MARGIN_def
        TCQ_REVERSE_MARGIN_def split: option.splits elim!: tcq_wfE)
qed

theorem tcqPopBack_leaves_allFull_witness:
  "\<exists>q'. tcqPopBack \<lparr>tq_queue = Some [1, 2], tq_size = 2, tq_len = 2, tq_rlen = 0, tq_start = 0,
      tq_end = 0, tq_rend = 0, tq_allFull = 1\<rparr> = (0, q') \<and> tcqPut q' (3::int) = Some (-1, q')"
proof -
  let ?q = "\<lparr>tq_queue = Some [1, 2::int], tq_size = 2, tq_len = 2, tq_rlen = 0, tq_start = 0,
      tq_end = 0, tq_rend = 0, tq_allFull = 1\<rparr>"
  have "tcq_wf ?q" by (simp add: tcq_wf_def)
  moreover have "tcqLen ?q = tq_size ?q" by (simp add: tcqLen_def tcqCheck_def)
  ultimately show ?thesis using tcqPopBack_leaves_allFull [of ?q 3] by blast
qed

text \<open>
  \<open>tcqPut\<close> itself does not protect the reverse history. When the queue and the history fill
  the ring but the queue alone does not, a put succeeds and overwrites the oldest segment of the
  history, and \<open>tcqBackStep\<close> would later hand out the new segment in its place.
\<close>

theorem tcqPut_overwrites_history:
  assumes "tcq_wf q" "0 < tq_rlen q" "tq_len q + tq_rlen q = tq_size q"
  shows "\<exists>q'. tcqPut q tc = Some (0, q') \<and> hd (tcq_past q') = tc"
proof -
  have room: "tq_len q < tq_size q" using assms by simp
  from tcqPut_wf [OF assms(1) room, of tc] obtain q' where q': "tcqPut q tc = Some (0, q')"
    "tq_size q' = tq_size q" "tq_start q' = tq_start q" "tq_rlen q' = tq_rlen q"
    "tcq_slots q' = (tcq_slots q)[nat (tq_end q) := tc]" by auto
  from assms(1) obtain xs where q: "tq_queue q = Some xs" "tq_size q \<le> int (length xs)" "0 < tq_size q"
    "tq_end q = (tq_start q + tq_len q) mod tq_size q" by (rule tcq_wfE)
  have "(tq_start q - tq_rlen q) mod tq_size q = (tq_start q - tq_rlen q + tq_size q) mod tq_size q"
    by simp
  also have "tq_start q - tq_rlen q + tq_size q = tq_start q + tq_len q" using assms(3) by simp
  also have "\<dots> mod tq_size q = tq_end q" using q(4) by simp
  finally have e: "(tq_start q - tq_rlen q) mod tq_size q = tq_end q" .
  have "tq_end q < int (length xs)" using tcq_wf_end_range [OF assms(1)] q(2) by linarith
  moreover have "nat (tq_rlen q) = Suc (nat (tq_rlen q - 1))" using assms(2) by simp
  moreover have "tcq_slots q' = xs[nat (tq_end q) := tc]"
    unfolding q'(5) by (simp add: tcq_slots_def q(1))
  ultimately have "hd (tcq_past q') = tc"
    using tcq_wf_end_range [OF assms(1)]
    by (simp add: tcq_past_def q'(2-4) window_Cons e nat_less_iff)
  with q'(1) show ?thesis by blast
qed

theorem tcqPut_overwrites_history_witness:
  "\<exists>q'. tcqPut \<lparr>tq_queue = Some [1, 2, 3], tq_size = 3, tq_len = 1, tq_rlen = 2, tq_start = 2,
      tq_end = 0, tq_rend = 0, tq_allFull = 0\<rparr> (9::int) = Some (0, q') \<and> hd (tcq_past q') = 9"
  by (rule tcqPut_overwrites_history) (simp_all add: tcq_wf_def)

end
