(* ===== verification/RtQueue.thy ===== *)
theory RtQueue
  imports Fifo
begin

text \<open>
  The node-pool queue of \<open>hal/rt_queue.c\<close>: a fixed pool of \<open>POOL_SIZE\<close> nodes, a free list threaded
  through their \<open>next\<close> fields, and a linked queue of nodes taken from the pool. The nodes live in
  an explicit store, a map from node index to node; a \<open>Node *\<close> is \<open>Some i\<close> for \<open>&pool->nodes[i]\<close> and
  \<open>None\<close> for NULL. \<open>'d\<close> is the \<open>void *\<close> payload.

  The pool and the queue each have a mutex that every operation takes and releases on all paths;
  the operations are modelled as the sequential effect of one call.
\<close>

section \<open>State and operations\<close>

record 'd node =
  nd_data :: 'd
  nd_next :: "nat option"

record 'd node_pool =
  pl_nodes :: "nat \<Rightarrow> 'd node"
  pl_freeList :: "nat option"

record queue_ptrs =
  q_front :: "nat option"
  q_rear :: "nat option"

type_synonym 'd rt_state = "'d node_pool \<times> queue_ptrs"

definition POOL_SIZE :: nat where "POOL_SIZE = 1024"

definition pool_init_step :: "nat \<Rightarrow> 'd node_pool \<Rightarrow> 'd node_pool" where
  "pool_init_step i p =
     p\<lparr>pl_nodes := (pl_nodes p)(i := (pl_nodes p i)\<lparr>nd_next := pl_freeList p\<rparr>),
       pl_freeList := Some i\<rparr>"

definition pool_init :: "'d node_pool \<Rightarrow> 'd node_pool" where
  "pool_init p = fold pool_init_step [0..<POOL_SIZE] (p\<lparr>pl_freeList := None\<rparr>)"

definition pool_alloc :: "'d node_pool \<Rightarrow> nat option \<times> 'd node_pool" where
  "pool_alloc p =
     (case pl_freeList p of
        None \<Rightarrow> (None, p)
      | Some i \<Rightarrow> (Some i, p\<lparr>pl_freeList := nd_next (pl_nodes p i)\<rparr>))"

definition pool_free :: "'d node_pool \<Rightarrow> nat \<Rightarrow> 'd node_pool" where
  "pool_free p i =
     p\<lparr>pl_nodes := (pl_nodes p)(i := (pl_nodes p i)\<lparr>nd_next := pl_freeList p\<rparr>),
       pl_freeList := Some i\<rparr>"

definition queue_init :: "queue_ptrs" where
  "queue_init = \<lparr>q_front = None, q_rear = None\<rparr>"

definition queue_isEmpty :: "queue_ptrs \<Rightarrow> bool" where
  "queue_isEmpty q \<longleftrightarrow> q_front q = None"

definition enqueue :: "'d rt_state \<Rightarrow> 'd \<Rightarrow> int \<times> 'd rt_state" where
  "enqueue s d =
     (case s of (p, q) \<Rightarrow>
       (case pool_alloc p of
          (None, p1) \<Rightarrow> (0, (p1, q))
        | (Some i, p1) \<Rightarrow>
            let h = (pl_nodes p1)(i := (pl_nodes p1 i)\<lparr>nd_data := d, nd_next := None\<rparr>) in
            (case q_rear q of
               Some r \<Rightarrow>
                 (1, (p1\<lparr>pl_nodes := h(r := (h r)\<lparr>nd_next := Some i\<rparr>)\<rparr>, q\<lparr>q_rear := Some i\<rparr>))
             | None \<Rightarrow> (1, (p1\<lparr>pl_nodes := h\<rparr>, q\<lparr>q_front := Some i, q_rear := Some i\<rparr>)))))"

definition dequeue :: "'d rt_state \<Rightarrow> int \<times> 'd option \<times> 'd rt_state" where
  "dequeue s =
     (case s of (p, q) \<Rightarrow>
       (case q_front q of
          None \<Rightarrow> (0, None, s)
        | Some i \<Rightarrow>
            let d = nd_data (pl_nodes p i);
                q1 = q\<lparr>q_front := nd_next (pl_nodes p i)\<rparr>;
                q2 = (if q_front q1 = None then q1\<lparr>q_rear := None\<rparr> else q1)
            in (1, Some d, (pool_free p i, q2))))"

section \<open>Chains of nodes\<close>

text \<open>
  \<open>path h p is\<close>: following \<open>next\<close> from \<open>p\<close> visits the nodes \<open>is\<close> and ends in NULL. \<open>chain\<close> follows
  the pointers with fuel; a chain of distinct pool nodes never needs more than \<open>POOL_SIZE\<close>.
\<close>

primrec path :: "(nat \<Rightarrow> 'd node) \<Rightarrow> nat option \<Rightarrow> nat list \<Rightarrow> bool" where
  "path h p [] \<longleftrightarrow> p = None"
| "path h p (i # is) \<longleftrightarrow> p = Some i \<and> path h (nd_next (h i)) is"

primrec chain :: "nat \<Rightarrow> (nat \<Rightarrow> 'd node) \<Rightarrow> nat option \<Rightarrow> nat list" where
  "chain 0 h p = []"
| "chain (Suc n) h p = (case p of None \<Rightarrow> [] | Some i \<Rightarrow> i # chain n h (nd_next (h i)))"

lemma path_None [simp]: "path h None is \<longleftrightarrow> is = []"
  by (cases "is") auto

lemma path_Some [simp]: "path h (Some i) is \<longleftrightarrow> (\<exists>js. is = i # js \<and> path h (nd_next (h i)) js)"
  by (cases "is") auto

lemma path_upd: "i \<notin> set is \<Longrightarrow> path (h(i := n)) p is \<longleftrightarrow> path h p is"
  by (induction "is" arbitrary: p) auto

lemma chain_path: "path h p is \<Longrightarrow> length is \<le> n \<Longrightarrow> chain n h p = is"
proof (induction n arbitrary: p "is")
  case (Suc n)
  then show ?case by (cases "is") auto
qed simp

lemma path_unique: "path h p is \<Longrightarrow> path h p js \<Longrightarrow> is = js"
  using chain_path [of h p "is" "length is + length js"] chain_path [of h p js "length is + length js"]
  by simp

lemma path_snoc:
  fixes h :: "nat \<Rightarrow> 'd node" and n :: "'d node"
  assumes "path h p (is @ [r])" "i \<notin> set (is @ [r])" "r \<notin> set is" "nd_next n = None"
  shows "path ((h(i := n))(r := (h r)\<lparr>nd_next := Some i\<rparr>)) p (is @ [r, i])" (is "path ?h p _")
  using assms
proof (induction "is" arbitrary: p)
  case Nil
  have "?h r = (h r)\<lparr>nd_next := Some i\<rparr>" "?h i = n" using Nil by auto
  with Nil show ?case by (simp del: fun_upd_apply)
next
  case (Cons j js)
  have "?h j = h j" using Cons.prems by auto
  moreover have "path ?h (nd_next (h j)) (js @ [r, i])"
    using Cons.prems by (intro Cons.IH) simp_all
  ultimately show ?case using Cons.prems by (simp del: fun_upd_apply)
qed

section \<open>The invariant\<close>

text \<open>
  The nodes of the queue \<open>qs\<close> and of the free list \<open>fs\<close> are disjoint pool nodes, and \<open>rear\<close> is the
  last queued node. Nodes in neither list are allowed: they belong to other queues on the pool.
\<close>

definition rtq_lists :: "'d rt_state \<Rightarrow> nat list \<Rightarrow> nat list \<Rightarrow> bool" where
  "rtq_lists s qs fs \<longleftrightarrow>
     path (pl_nodes (fst s)) (q_front (snd s)) qs \<and>
     path (pl_nodes (fst s)) (pl_freeList (fst s)) fs \<and>
     distinct (qs @ fs) \<and> set (qs @ fs) \<subseteq> {..<POOL_SIZE} \<and>
     q_rear (snd s) = (if qs = [] then None else Some (last qs))"

definition rtq_queue :: "'d rt_state \<Rightarrow> nat list" where
  "rtq_queue s = chain POOL_SIZE (pl_nodes (fst s)) (q_front (snd s))"

definition rtq_free :: "'d rt_state \<Rightarrow> nat list" where
  "rtq_free s = chain POOL_SIZE (pl_nodes (fst s)) (pl_freeList (fst s))"

definition rtq_wf :: "'d rt_state \<Rightarrow> bool" where
  "rtq_wf s \<longleftrightarrow> rtq_lists s (rtq_queue s) (rtq_free s)"

definition rtq_contents :: "'d rt_state \<Rightarrow> 'd list" where
  "rtq_contents s = map (\<lambda>i. nd_data (pl_nodes (fst s) i)) (rtq_queue s)"

definition rtq_room :: "'d rt_state \<Rightarrow> bool" where
  "rtq_room s \<longleftrightarrow> rtq_free s \<noteq> []"

lemma rtq_lists_length:
  assumes "rtq_lists s qs fs"
  shows "length qs + length fs \<le> POOL_SIZE"
proof -
  have "card (set (qs @ fs)) \<le> card {..<POOL_SIZE}"
    using assms by (intro card_mono) (auto simp: rtq_lists_def)
  then show ?thesis
    using assms distinct_card [of "qs @ fs"] by (simp add: rtq_lists_def)
qed

lemma rtq_lists_eq:
  assumes "rtq_lists s qs fs"
  shows "rtq_queue s = qs" "rtq_free s = fs"
  using assms rtq_lists_length [OF assms]
  by (auto simp: rtq_queue_def rtq_free_def rtq_lists_def intro: chain_path)

lemma rtq_lists_wf: "rtq_lists s qs fs \<Longrightarrow> rtq_wf s"
  by (simp add: rtq_wf_def rtq_lists_eq)

section \<open>Each operation\<close>

lemma pool_init_fold:
  "path (pl_nodes (fold pool_init_step [0..<n] (p\<lparr>pl_freeList := None\<rparr>)))
     (pl_freeList (fold pool_init_step [0..<n] (p\<lparr>pl_freeList := None\<rparr>))) (rev [0..<n])"
proof (induction n)
  case 0
  show ?case by simp
next
  case (Suc n)
  have step: "path (pl_nodes (pool_init_step i r)) (pl_freeList (pool_init_step i r)) (i # is)"
    if "path (pl_nodes r) (pl_freeList r) is" "i \<notin> set is" for r :: "'a node_pool" and i "is"
    using that by (simp add: pool_init_step_def path_upd)
  have n: "n \<notin> set (rev [0..<n])" by simp
  from step [OF Suc.IH n] show ?case by simp
qed

lemma init_lists: "rtq_lists (pool_init p, queue_init) [] (rev [0..<POOL_SIZE])"
  using pool_init_fold [of POOL_SIZE p]
  by (auto simp: rtq_lists_def pool_init_def queue_init_def)

lemma enqueue_full:
  assumes "rtq_lists s qs []"
  shows "enqueue s d = (0, s)"
  using assms by (auto simp: rtq_lists_def enqueue_def pool_alloc_def split: prod.splits option.splits)

lemma enqueue_ok:
  assumes "rtq_lists s qs (i # fs)"
  shows "\<exists>s'. enqueue s d = (1, s') \<and> rtq_lists s' (qs @ [i]) fs \<and>
    rtq_contents s' = rtq_contents s @ [d]"
proof -
  obtain p q where s: "s = (p, q)" by (cases s)
  let ?h = "(pl_nodes p)(i := (pl_nodes p i)\<lparr>nd_data := d, nd_next := None\<rparr>)"
  have a: "path (pl_nodes p) (q_front q) qs" "pl_freeList p = Some i"
    "path (pl_nodes p) (nd_next (pl_nodes p i)) fs" "distinct (qs @ i # fs)"
    "set (qs @ i # fs) \<subseteq> {..<POOL_SIZE}" "q_rear q = (if qs = [] then None else Some (last qs))"
    using assms by (auto simp: s rtq_lists_def)
  show ?thesis
  proof (cases qs rule: rev_cases)
    case Nil
    then have st: "enqueue s d = (1, (p\<lparr>pl_freeList := nd_next (pl_nodes p i), pl_nodes := ?h\<rparr>,
        q\<lparr>q_front := Some i, q_rear := Some i\<rparr>))"
      using a by (simp add: s enqueue_def pool_alloc_def)
    let ?s = "(p\<lparr>pl_freeList := nd_next (pl_nodes p i), pl_nodes := ?h\<rparr>,
        q\<lparr>q_front := Some i, q_rear := Some i\<rparr>)"
    have l: "rtq_lists ?s [i] fs" using a by (auto simp: rtq_lists_def path_upd)
    have "rtq_contents ?s = rtq_contents s @ [d]"
      using rtq_lists_eq [OF l] rtq_lists_eq [OF assms] Nil by (simp add: rtq_contents_def)
    with st l Nil show ?thesis by simp
  next
    case (snoc us r)
    let ?s = "(p\<lparr>pl_freeList := nd_next (pl_nodes p i),
        pl_nodes := ?h(r := (?h r)\<lparr>nd_next := Some i\<rparr>)\<rparr>, q\<lparr>q_rear := Some i\<rparr>)"
    have ne: "i \<noteq> r" "i \<notin> set us" "r \<notin> set us" "r \<notin> set fs" "i \<notin> set fs" using a(4) snoc by auto
    have st: "enqueue s d = (1, ?s)"
      using a snoc by (simp add: s enqueue_def pool_alloc_def Let_def)
    have "path (?h(r := (?h r)\<lparr>nd_next := Some i\<rparr>)) (q_front q) (us @ [r, i])"
      using path_snoc [of "pl_nodes p" "q_front q" us r i] a(1) ne by (simp add: snoc)
    then have l: "rtq_lists ?s (qs @ [i]) fs"
      using a ne snoc by (auto simp: rtq_lists_def path_upd)
    have "rtq_contents ?s = rtq_contents s @ [d]"
      using rtq_lists_eq [OF l] rtq_lists_eq [OF assms] snoc ne
      by (auto simp: rtq_contents_def s)
    with st l show ?thesis by blast
  qed
qed

lemma dequeue_empty:
  assumes "rtq_lists s [] fs"
  shows "dequeue s = (0, None, s)"
  using assms by (auto simp: rtq_lists_def dequeue_def split: prod.splits)

lemma dequeue_ok:
  assumes "rtq_lists s (i # qs) fs"
  shows "\<exists>s'. dequeue s = (1, Some (nd_data (pl_nodes (fst s) i)), s') \<and> rtq_lists s' qs (i # fs) \<and>
    rtq_contents s = nd_data (pl_nodes (fst s) i) # rtq_contents s'"
proof -
  obtain p q where s: "s = (p, q)" by (cases s)
  have a: "q_front q = Some i" "path (pl_nodes p) (nd_next (pl_nodes p i)) qs"
    "path (pl_nodes p) (pl_freeList p) fs" "distinct (i # qs @ fs)"
    "set (i # qs @ fs) \<subseteq> {..<POOL_SIZE}" "q_rear q = Some (last (i # qs))"
    using assms by (auto simp: s rtq_lists_def)
  define q2 where "q2 = (let q1 = q\<lparr>q_front := nd_next (pl_nodes p i)\<rparr> in
      if q_front q1 = None then q1\<lparr>q_rear := None\<rparr> else q1)"
  have st: "dequeue s = (1, Some (nd_data (pl_nodes p i)), (pool_free p i, q2))"
    using a by (simp add: s dequeue_def q2_def Let_def)
  have emp: "nd_next (pl_nodes p i) = None \<longleftrightarrow> qs = []"
    using a(2) by (cases qs) auto
  have l: "rtq_lists (pool_free p i, q2) qs (i # fs)"
    using a emp by (auto simp: rtq_lists_def pool_free_def q2_def path_upd Let_def)
  have "rtq_contents s = nd_data (pl_nodes p i) # rtq_contents (pool_free p i, q2)"
    using rtq_lists_eq [OF l] rtq_lists_eq [OF assms] a(4)
    by (auto simp: rtq_contents_def s pool_free_def)
  with st l show ?thesis by (simp add: s)
qed

section \<open>The queue contract\<close>

definition rtq_enq :: "'d \<Rightarrow> 'd rt_state \<Rightarrow> 'd rt_state option" where
  "rtq_enq d s = (case enqueue s d of (r, s') \<Rightarrow> if r = 1 then Some s' else None)"

definition rtq_deq :: "'d rt_state \<Rightarrow> ('d \<times> 'd rt_state) option" where
  "rtq_deq s = (case dequeue s of (r, Some d, s') \<Rightarrow> if r = 1 then Some (d, s') else None | _ \<Rightarrow> None)"

interpretation rtq: bounded_fifo rtq_enq rtq_deq rtq_contents rtq_room rtq_wf
proof unfold_locales
  fix s :: "'a rt_state" and a
  assume wf: "rtq_wf s" and room: "rtq_room s"
  then obtain i fs where "rtq_free s = i # fs" by (cases "rtq_free s") (auto simp: rtq_room_def)
  with wf have "rtq_lists s (rtq_queue s) (i # fs)" by (simp add: rtq_wf_def)
  from enqueue_ok [OF this, of a]
  show "\<exists>s'. rtq_enq a s = Some s' \<and> rtq_wf s' \<and> rtq_contents s' = rtq_contents s @ [a]"
    by (auto simp: rtq_enq_def dest: rtq_lists_wf)
next
  fix s :: "'a rt_state" and a
  assume "rtq_wf s" "\<not> rtq_room s"
  then show "rtq_enq a s = None"
    using enqueue_full [of s "rtq_queue s" a] by (simp add: rtq_enq_def rtq_wf_def rtq_room_def)
next
  fix s :: "'a rt_state" and x xs
  assume wf: "rtq_wf s" and c: "rtq_contents s = x # xs"
  then obtain i qs where "rtq_queue s = i # qs" by (auto simp: rtq_contents_def)
  with wf have "rtq_lists s (i # qs) (rtq_free s)" by (simp add: rtq_wf_def)
  from dequeue_ok [OF this] c
  show "\<exists>s'. rtq_deq s = Some (x, s') \<and> rtq_wf s' \<and> rtq_contents s' = xs"
    by (auto simp: rtq_deq_def dest: rtq_lists_wf)
next
  fix s :: "'a rt_state"
  assume "rtq_wf s" "rtq_contents s = []"
  then show "rtq_deq s = None"
    using dequeue_empty [of s "rtq_free s"] by (simp add: rtq_deq_def rtq_wf_def rtq_contents_def)
qed

section \<open>Properties\<close>

text \<open>
  C5: The pointer-level queue refines a FIFO list: over any run of \<open>enqueue\<close> and \<open>dequeue\<close> the
  accepted payloads come out in order, none lost, repeated or overwritten, and the links stay
  well-formed.
\<close>

theorem rtq_run_order:
  assumes "rtq_wf s" "fifo_run rtq_enq rtq_deq s ops = (i, out, r)"
  shows "rtq_wf r \<and> rtq_contents s @ i = out @ rtq_contents r"
  by (rule rtq.run_order [OF assms])

text \<open>The pool and the queue as their init functions leave them.\<close>

definition rtq_fresh :: "int rt_state" where
  "rtq_fresh = (pool_init \<lparr>pl_nodes = (\<lambda>_. \<lparr>nd_data = 0, nd_next = None\<rparr>), pl_freeList = None\<rparr>,
     queue_init)"

lemma rtq_fresh_wf: "rtq_wf rtq_fresh"
  unfolding rtq_fresh_def by (rule rtq_lists_wf) (rule init_lists)

theorem rtq_run_order_witness:
  "rtq_wf (snd (snd (fifo_run rtq_enq rtq_deq rtq_fresh [Enq 3, Enq 4, Deq])))"
proof -
  obtain i out r where run: "fifo_run rtq_enq rtq_deq rtq_fresh [Enq 3, Enq 4, Deq] = (i, out, r)"
    by (cases "fifo_run rtq_enq rtq_deq rtq_fresh [Enq 3, Enq 4, Deq]") auto
  from rtq_run_order [OF rtq_fresh_wf run] run show ?thesis by simp
qed

text \<open>
  Nodes are conserved: no operation leaks a node or frees one twice.
\<close>

lemma enqueue_conserves:
  assumes "rtq_wf s"
  shows "set (rtq_queue (snd (enqueue s d))) \<union> set (rtq_free (snd (enqueue s d)))
       = set (rtq_queue s) \<union> set (rtq_free s) \<and> rtq_wf (snd (enqueue s d))"
proof (cases "rtq_free s")
  case Nil
  with assms enqueue_full [of s "rtq_queue s" d] show ?thesis by (simp add: rtq_wf_def)
next
  case (Cons i fs)
  with assms have "rtq_lists s (rtq_queue s) (i # fs)" by (simp add: rtq_wf_def)
  from enqueue_ok [OF this, of d] obtain s' where "enqueue s d = (1, s')"
    "rtq_lists s' (rtq_queue s @ [i]) fs" by auto
  with rtq_lists_eq [OF this(2)] rtq_lists_wf [OF this(2)] Cons show ?thesis by auto
qed

lemma dequeue_conserves:
  assumes "rtq_wf s"
  shows "set (rtq_queue (snd (snd (dequeue s)))) \<union> set (rtq_free (snd (snd (dequeue s))))
       = set (rtq_queue s) \<union> set (rtq_free s) \<and> rtq_wf (snd (snd (dequeue s)))"
proof (cases "rtq_queue s")
  case Nil
  with assms dequeue_empty [of s "rtq_free s"] show ?thesis by (simp add: rtq_wf_def)
next
  case (Cons i qs)
  with assms have "rtq_lists s (i # qs) (rtq_free s)" by (simp add: rtq_wf_def)
  from dequeue_ok [OF this] obtain s' where "dequeue s = (1, Some (nd_data (pl_nodes (fst s) i)), s')"
    "rtq_lists s' qs (i # rtq_free s)" by auto
  with rtq_lists_eq [OF this(2)] rtq_lists_wf [OF this(2)] Cons show ?thesis by auto
qed

text \<open>The states the operations reach.\<close>

inductive rtq_reach :: "'d node_pool \<Rightarrow> 'd rt_state \<Rightarrow> bool" for p where
  init: "rtq_reach p (pool_init p, queue_init)"
| enq: "rtq_reach p s \<Longrightarrow> rtq_reach p (snd (enqueue s d))"
| deq: "rtq_reach p s \<Longrightarrow> rtq_reach p (snd (snd (dequeue s)))"

text \<open>
  The pool never leaks or double-frees: starting from \<open>pool_init\<close> and \<open>queue_init\<close>, after any
  sequence of operations the queued and the free nodes are disjoint and together are exactly the
  1024 nodes of the pool; and the fresh pool serves exactly \<open>POOL_SIZE\<close> enqueues.
\<close>

theorem rtq_nodes_conserved:
  assumes "rtq_reach p s"
  shows "rtq_wf s \<and> set (rtq_queue s) \<inter> set (rtq_free s) = {} \<and>
    set (rtq_queue s) \<union> set (rtq_free s) = {..<POOL_SIZE} \<and>
    length (rtq_queue s) + length (rtq_free s) = POOL_SIZE"
proof -
  have "rtq_wf s \<and> set (rtq_queue s) \<union> set (rtq_free s) = {..<POOL_SIZE}"
    using assms
  proof (induction rule: rtq_reach.induct)
    case init
    show ?case using rtq_lists_eq [OF init_lists [of p]] rtq_lists_wf [OF init_lists [of p]] by auto
  next
    case (enq s d)
    then show ?case using enqueue_conserves [of s d] by simp
  next
    case (deq s)
    then show ?case using dequeue_conserves [of s] by simp
  qed
  moreover from this have "distinct (rtq_queue s @ rtq_free s)"
    by (simp add: rtq_wf_def rtq_lists_def)
  ultimately show ?thesis
    using distinct_card [of "rtq_queue s @ rtq_free s"] by auto
qed

theorem rtq_nodes_conserved_witness:
  "set (rtq_queue rtq_fresh) \<union> set (rtq_free rtq_fresh) = {..<POOL_SIZE}"
proof -
  have "rtq_reach \<lparr>pl_nodes = (\<lambda>_. \<lparr>nd_data = 0, nd_next = None\<rparr>), pl_freeList = None\<rparr> rtq_fresh"
    unfolding rtq_fresh_def by (rule rtq_reach.init)
  from rtq_nodes_conserved [OF this] show ?thesis by simp
qed

end
