(* ===== verification/SimpleTp.thy ===== *)
theory SimpleTp
  imports Prelude
begin

text \<open>
  The single-axis trajectory planner of \<open>motion/simple_tp.c\<close>: \<open>simple_tp_update\<close> moves \<open>curr_pos\<close>
  towards \<open>pos_cmd\<close> within the velocity \<open>vel\<close> and the acceleration \<open>acc\<close>, one call per period. All
  fields are C integers; intermediate values are doubles, modelled as reals, with \<open>None\<close> for NaN
  (the square root of a negative number). Integer products wrap at 32 bits.

  The lemmas show the rate limits of one update, that the planner never overshoots, and where it
  comes to rest.
\<close>

section \<open>The planner\<close>

record simple_tp =
  tp_pos_cmd :: int
  tp_max_vel :: int
  tp_max_acc :: int
  tp_vel :: int
  tp_acc :: int
  tp_enable :: int
  tp_curr_pos :: int
  tp_curr_vel :: int
  tp_active :: int
  tp_dir :: int

definition TINY_DP :: "int \<Rightarrow> int \<Rightarrow> real" where
  "TINY_DP max_acc period = real_of_int (s32 (s32 (max_acc * period) * period)) * 0.001"

text \<open>C's \<open>sqrt\<close>, and comparisons and conversions of a double that may be NaN.\<close>

definition c_sqrt :: "real \<Rightarrow> real option" where
  "c_sqrt x = (if x < 0 then None else Some (sqrt x))"

definition nan_gt :: "real option \<Rightarrow> real \<Rightarrow> bool" where
  "nan_gt v x = (case v of None \<Rightarrow> False | Some r \<Rightarrow> r > x)"

definition nan_lt :: "real option \<Rightarrow> real \<Rightarrow> bool" where
  "nan_lt v x = (case v of None \<Rightarrow> False | Some r \<Rightarrow> r < x)"

definition nan_d2i :: "real option \<Rightarrow> int" where
  "nan_d2i v = (case v of None \<Rightarrow> INT32_MIN | Some r \<Rightarrow> d2i r)"

definition max_dv :: "simple_tp \<Rightarrow> int \<Rightarrow> int" where
  "max_dv tp period = s32 (tp_acc tp * period)"

text \<open>The desired velocity, with the flags the planner sets while computing it.\<close>

definition tp_request :: "simple_tp \<Rightarrow> int \<Rightarrow> real option \<times> simple_tp" where
  "tp_request tp period =
     (let dv = real_of_int (max_dv tp period);
          tiny = TINY_DP (tp_acc tp) period
      in if tp_enable tp \<noteq> 0 then
           (let pos_err = real_of_int (s32 (tp_pos_cmd tp - tp_curr_pos tp)) in
            if pos_err > tiny then
              (map_option (\<lambda>r. - dv + r)
                 (c_sqrt (real_of_int (s32 (2 * tp_acc tp)) * pos_err + dv * dv)),
               tp\<lparr>tp_active := 1\<rparr>)
            else if pos_err < - tiny then
              (map_option (\<lambda>r. dv - r)
                 (c_sqrt (real_of_int (s32 (s32 (-2) * tp_acc tp)) * pos_err + dv * dv)),
               tp\<lparr>tp_active := 1\<rparr>)
            else (Some 0, tp\<lparr>tp_enable := 0\<rparr>))
         else (Some 0, tp\<lparr>tp_pos_cmd := tp_curr_pos tp\<rparr>))"

definition tp_limit :: "int \<Rightarrow> real option \<Rightarrow> real option" where
  "tp_limit vel v =
     (if nan_gt v (real_of_int vel) then Some (real_of_int vel)
      else if nan_lt v (real_of_int (s32 (- vel))) then Some (real_of_int (s32 (- vel)))
      else v)"

definition tp_ramp :: "int \<Rightarrow> int \<Rightarrow> real option \<Rightarrow> int" where
  "tp_ramp cur dv v =
     (if nan_gt v (real_of_int cur + real_of_int dv) then d2i (real_of_int cur + real_of_int dv)
      else if nan_lt v (real_of_int cur - real_of_int dv) then d2i (real_of_int cur - real_of_int dv)
      else nan_d2i v)"

definition simple_tp_update :: "simple_tp \<Rightarrow> int \<Rightarrow> simple_tp" where
  "simple_tp_update tp0 period =
     (let (vel_req, tp) = tp_request (tp0\<lparr>tp_active := 0\<rparr>) period;
          v = tp_ramp (tp_curr_vel tp) (max_dv tp period) (tp_limit (tp_vel tp) vel_req);
          tp1 = tp\<lparr>tp_curr_vel := v\<rparr>;
          tp2 = (if v \<noteq> 0 then tp1\<lparr>tp_active := 1\<rparr> else tp1)
      in tp2\<lparr>tp_curr_pos := s32 (tp_curr_pos tp2 + s32 (v * period))\<rparr>)"

section \<open>Bounds under which no integer operation wraps\<close>

text \<open>
  Positions within a quarter of the 32-bit range, velocities and accelerations such that one
  period's product does too: the settings of a machine, whose pulse counts are far below.
\<close>

definition tp_sane :: "simple_tp \<Rightarrow> int \<Rightarrow> bool" where
  "tp_sane tp T \<longleftrightarrow>
     0 < T \<and> T \<le> 1000 \<and> 0 < tp_acc tp \<and> tp_acc tp * T * T \<le> 500000000 \<and>
     0 \<le> tp_vel tp \<and> tp_vel tp * T \<le> 500000000 \<and>
     \<bar>tp_curr_vel tp\<bar> * T \<le> 500000000 \<and>
     \<bar>tp_pos_cmd tp\<bar> \<le> 500000000 \<and> \<bar>tp_curr_pos tp\<bar> \<le> 500000000"

lemma s32_small: "\<bar>x\<bar> \<le> 2000000000 \<Longrightarrow> s32 x = x"
  by (rule s32_id) (auto simp: in_s32_def INT32_MIN_def INT32_MAX_def)

lemma abs_le_mult: "0 < T \<Longrightarrow> \<bar>x\<bar> * T \<le> b \<Longrightarrow> \<bar>x\<bar> \<le> (b::int)"
  by (smt (verit) mult_less_cancel_left2)

lemma tp_saneD:
  assumes "tp_sane tp T"
  shows "max_dv tp T = tp_acc tp * T"
    "TINY_DP (tp_acc tp) T = real_of_int (tp_acc tp) * real_of_int T * real_of_int T * 0.001"
    "s32 (2 * tp_acc tp) = 2 * tp_acc tp"
    "s32 (s32 (-2) * tp_acc tp) = - 2 * tp_acc tp"
    "s32 (- tp_vel tp) = - tp_vel tp"
    "s32 (tp_pos_cmd tp - tp_curr_pos tp) = tp_pos_cmd tp - tp_curr_pos tp"
    "0 < tp_acc tp * T" "tp_acc tp * T \<le> 500000000" "tp_vel tp \<le> 500000000"
    "\<bar>tp_curr_vel tp\<bar> \<le> 500000000"
proof -
  have T: "0 < T" and a: "0 < tp_acc tp" and b: "tp_acc tp * T * T \<le> 500000000"
    using assms by (simp_all add: tp_sane_def)
  then show pos: "0 < tp_acc tp * T" by simp
  show aT: "tp_acc tp * T \<le> 500000000"
    using abs_le_mult [of T "tp_acc tp * T"] T pos b by simp
  have a2: "tp_acc tp \<le> 500000000"
    using abs_le_mult [of T "tp_acc tp"] T a aT by simp
  show v: "tp_vel tp \<le> 500000000"
    using abs_le_mult [of T "tp_vel tp"] assms by (simp add: tp_sane_def)
  show "\<bar>tp_curr_vel tp\<bar> \<le> 500000000"
    using abs_le_mult [of T "tp_curr_vel tp"] assms by (simp add: tp_sane_def)
  show "max_dv tp T = tp_acc tp * T"
    using aT pos by (simp add: max_dv_def s32_small)
  show "TINY_DP (tp_acc tp) T = real_of_int (tp_acc tp) * real_of_int T * real_of_int T * 0.001"
    using aT pos b T by (simp add: TINY_DP_def s32_small)
  show "s32 (2 * tp_acc tp) = 2 * tp_acc tp" "s32 (s32 (-2) * tp_acc tp) = - 2 * tp_acc tp"
    using a a2 by (simp_all add: s32_small)
  show "s32 (- tp_vel tp) = - tp_vel tp"
    using assms v by (simp add: s32_small tp_sane_def)
  show "s32 (tp_pos_cmd tp - tp_curr_pos tp) = tp_pos_cmd tp - tp_curr_pos tp"
    using assms by (intro s32_small) (auto simp: tp_sane_def)
qed

lemma tp_tiny_pos: "tp_sane tp T \<Longrightarrow> 0 < TINY_DP (tp_acc tp) T"
  by (subst tp_saneD(2)) (simp_all add: tp_sane_def)

section \<open>Truncation and the ramp\<close>

lemma r_trunc_between:
  assumes "real_of_int a \<le> x" "x \<le> real_of_int b"
  shows "a \<le> r_trunc x" "r_trunc x \<le> b"
  using assms by (auto simp: r_trunc_def le_floor_iff floor_le_iff le_ceiling_iff ceiling_le_iff)

lemma r_trunc_le: "0 \<le> x \<Longrightarrow> real_of_int (r_trunc x) \<le> x"
  by (simp add: r_trunc_def)

lemma d2i_between:
  assumes "real_of_int a \<le> x" "x \<le> real_of_int b" "-2000000000 \<le> a" "b \<le> 2000000000"
  shows "d2i x = r_trunc x"
  using r_trunc_between [OF assms(1,2)] assms(3,4)
  by (simp add: d2i_def in_s32_def INT32_MIN_def INT32_MAX_def)

lemma d2i_small: "\<bar>i\<bar> \<le> 2000000000 \<Longrightarrow> d2i (real_of_int i) = i"
  by (rule d2i_of_int) (auto simp: in_s32_def INT32_MIN_def INT32_MAX_def)

lemma tp_ramp_Some:
  assumes "0 \<le> dv" "\<bar>cur\<bar> + dv \<le> 2000000000"
  shows "tp_ramp cur dv (Some x) =
    (if x > real_of_int (cur + dv) then cur + dv
     else if x < real_of_int (cur - dv) then cur - dv else r_trunc x)"
proof -
  have "d2i (real_of_int cur + real_of_int dv) = cur + dv"
    "d2i (real_of_int cur - real_of_int dv) = cur - dv"
    using assms d2i_small [of "cur + dv"] d2i_small [of "cur - dv"] by simp_all
  moreover have "d2i x = r_trunc x" if "real_of_int (cur - dv) \<le> x" "x \<le> real_of_int (cur + dv)"
    using that assms by (intro d2i_between [of "cur - dv" x "cur + dv"]) auto
  ultimately show ?thesis
    by (simp add: tp_ramp_def nan_gt_def nan_lt_def nan_d2i_def)
qed

lemma tp_ramp_rate:
  assumes "0 \<le> dv" "\<bar>cur\<bar> + dv \<le> 2000000000"
  shows "cur - dv \<le> tp_ramp cur dv (Some x)" "tp_ramp cur dv (Some x) \<le> cur + dv"
  using assms r_trunc_between [of "cur - dv" x "cur + dv"] by (auto simp: tp_ramp_Some)

lemma tp_ramp_range:
  assumes "0 \<le> dv" "\<bar>cur\<bar> + dv \<le> 2000000000" "lo \<le> cur" "cur \<le> hi"
    "real_of_int lo \<le> x" "x \<le> real_of_int hi"
  shows "lo \<le> tp_ramp cur dv (Some x)" "tp_ramp cur dv (Some x) \<le> hi"
  using assms r_trunc_between [of lo x hi] by (auto simp: tp_ramp_Some)

lemma tp_limit_Some:
  assumes "0 \<le> vel" "s32 (- vel) = - vel"
  shows "tp_limit vel (Some x) = Some (max (- real_of_int vel) (min x (real_of_int vel)))"
  using assms by (auto simp: tp_limit_def nan_gt_def nan_lt_def)

section \<open>One update\<close>

text \<open>With sane settings the request is a number, and only the listed fields change.\<close>

definition tp_req :: "simple_tp \<Rightarrow> int \<Rightarrow> real" where
  "tp_req tp T =
     (let e = real_of_int (tp_pos_cmd tp - tp_curr_pos tp); dv = real_of_int (tp_acc tp * T);
          a = real_of_int (tp_acc tp)
      in if tp_enable tp = 0 then 0
         else if e > TINY_DP (tp_acc tp) T then - dv + sqrt (2 * a * e + dv * dv)
         else if e < - TINY_DP (tp_acc tp) T then dv - sqrt (- 2 * a * e + dv * dv)
         else 0)"

definition tp_next_vel :: "simple_tp \<Rightarrow> int \<Rightarrow> int" where
  "tp_next_vel tp T =
     tp_ramp (tp_curr_vel tp) (tp_acc tp * T)
       (Some (max (- real_of_int (tp_vel tp)) (min (tp_req tp T) (real_of_int (tp_vel tp)))))"

lemma tp_request_sane:
  assumes "tp_sane tp T"
  shows "fst (tp_request (tp\<lparr>tp_active := 0\<rparr>) T) = Some (tp_req tp T)"
proof -
  note d = tp_saneD [OF assms]
  define e where "e = real_of_int (tp_pos_cmd tp - tp_curr_pos tp)"
  define a where "a = real_of_int (tp_acc tp)"
  define dv where "dv = real_of_int (tp_acc tp * T)"
  define tiny where "tiny = TINY_DP (tp_acc tp) T"
  have a: "0 < a" and T: "0 < real_of_int T"
    using assms by (simp_all add: tp_sane_def a_def)
  have tiny: "0 < tiny" using a T by (simp add: tiny_def d(2) a_def)
  have p: "\<not> 2 * a * e + dv * dv < 0" if "e > tiny"
    using a that tiny by (simp add: not_less)
  have n: "\<not> - (2 * a) * e + dv * dv < 0" if "e < - tiny"
    using mult_nonneg_nonpos [of a e] order_trans [of "2 * (a * e)" 0 "dv * dv"] a that tiny
    by (simp add: not_less mult.assoc)
  have mdv: "max_dv (tp\<lparr>tp_active := 0\<rparr>) T = tp_acc tp * T"
    using d(1) by (simp add: max_dv_def)
  have lhs: "fst (tp_request (tp\<lparr>tp_active := 0\<rparr>) T) =
    (if tp_enable tp \<noteq> 0 then
       if e > tiny then map_option (\<lambda>r. - dv + r) (c_sqrt (2 * a * e + dv * dv))
       else if e < - tiny then map_option (\<lambda>r. dv - r) (c_sqrt (- (2 * a) * e + dv * dv))
       else Some 0 else Some 0)"
    using d(3,4,6)
    by (simp add: tp_request_def Let_def mdv e_def a_def dv_def tiny_def)
  have rhs: "tp_req tp T = (if tp_enable tp = 0 then 0
       else if e > tiny then - dv + sqrt (2 * a * e + dv * dv)
       else if e < - tiny then dv - sqrt (- (2 * a) * e + dv * dv) else 0)"
    by (simp add: tp_req_def Let_def e_def a_def dv_def tiny_def)
  show ?thesis
    unfolding lhs rhs using p n by (simp add: c_sqrt_def)
qed

lemma tp_update_sane:
  assumes "tp_sane tp T"
  shows "simple_tp_update tp T =
    tp\<lparr>tp_curr_vel := tp_next_vel tp T,
       tp_curr_pos := s32 (tp_curr_pos tp + s32 (tp_next_vel tp T * T)),
       tp_pos_cmd := (if tp_enable tp = 0 then tp_curr_pos tp else tp_pos_cmd tp),
       tp_enable := (if \<bar>real_of_int (tp_pos_cmd tp - tp_curr_pos tp)\<bar> \<le> TINY_DP (tp_acc tp) T
         then 0 else tp_enable tp),
       tp_active := (if tp_next_vel tp T \<noteq> 0 \<or> (tp_enable tp \<noteq> 0 \<and>
           \<bar>real_of_int (tp_pos_cmd tp - tp_curr_pos tp)\<bar> > TINY_DP (tp_acc tp) T)
         then 1 else 0)\<rparr>"
proof -
  note d = tp_saneD [OF assms]
  let ?r = "tp_request (tp\<lparr>tp_active := 0\<rparr>) T"
  have a: "0 < real_of_int (tp_acc tp)" and T: "0 < real_of_int T"
    using assms by (simp_all add: tp_sane_def)
  have tiny: "0 < TINY_DP (tp_acc tp) T" using a T by (simp add: d(2))
  have r: "?r = (Some (tp_req tp T), snd ?r)"
    using tp_request_sane [OF assms] by (metis prod.collapse)
  have s: "snd ?r = (if tp_enable tp = 0 then tp\<lparr>tp_active := 0, tp_pos_cmd := tp_curr_pos tp\<rparr>
      else if \<bar>real_of_int (tp_pos_cmd tp - tp_curr_pos tp)\<bar> > TINY_DP (tp_acc tp) T
      then tp\<lparr>tp_active := 1\<rparr> else tp\<lparr>tp_active := 0, tp_enable := 0\<rparr>)"
    using d(6) tiny by (auto simp: tp_request_def Let_def)
  have v: "tp_ramp (tp_curr_vel (snd ?r)) (max_dv (snd ?r) T) (tp_limit (tp_vel (snd ?r)) (Some (tp_req tp T)))
      = tp_next_vel tp T"
    using assms d(1) by (auto simp: s tp_next_vel_def max_dv_def tp_limit_Some d(5) tp_sane_def)
  show ?thesis
    unfolding simple_tp_update_def
    apply (subst r)
    apply (simp add: Let_def v)
    apply (cases "tp_enable tp = 0"; cases "tp_next_vel tp T = 0";
      cases "\<bar>real_of_int (tp_pos_cmd tp - tp_curr_pos tp)\<bar> > TINY_DP (tp_acc tp) T"; simp add: s)
    done
qed

section \<open>The braking invariant\<close>

text \<open>
  The distance left, and the condition under which it is enough to stop in: \<open>v * v \<le> 2 * a * e\<close>,
  with the velocity pointing at the target and within the limit.
\<close>

definition tp_left :: "simple_tp \<Rightarrow> int" where
  "tp_left tp = tp_pos_cmd tp - tp_curr_pos tp"

definition tp_brake :: "simple_tp \<Rightarrow> int \<Rightarrow> bool" where
  "tp_brake tp T \<longleftrightarrow> tp_sane tp T \<and> \<bar>tp_curr_vel tp\<bar> \<le> tp_vel tp \<and> 0 \<le> tp_left tp * tp_curr_vel tp \<and>
     tp_curr_vel tp * tp_curr_vel tp \<le> 2 * tp_acc tp * \<bar>tp_left tp\<bar> \<and>
     (tp_enable tp = 0 \<longrightarrow> tp_curr_vel tp = 0)"

text \<open>The mirror image of a planner, to reduce the negative direction to the positive one.\<close>

definition tp_mirror :: "simple_tp \<Rightarrow> simple_tp" where
  "tp_mirror tp = tp\<lparr>tp_pos_cmd := - tp_pos_cmd tp, tp_curr_pos := - tp_curr_pos tp,
     tp_curr_vel := - tp_curr_vel tp\<rparr>"

lemma r_trunc_minus: "r_trunc (- x) = - r_trunc x"
  by (cases "x = 0") (auto simp: r_trunc_def ceiling_minus floor_minus)

lemma tp_mirror_sane [simp]: "tp_sane (tp_mirror tp) T \<longleftrightarrow> tp_sane tp T"
  by (simp add: tp_sane_def tp_mirror_def)

lemma tp_mirror_left [simp]: "tp_left (tp_mirror tp) = - tp_left tp"
  by (simp add: tp_left_def tp_mirror_def)

lemma tp_req_mirror:
  assumes "tp_sane tp T"
  shows "tp_req (tp_mirror tp) T = - tp_req tp T"
  using tp_tiny_pos [OF assms] by (auto simp: tp_req_def tp_mirror_def Let_def algebra_simps)

lemma tp_ramp_minus:
  assumes "0 \<le> dv" "\<bar>cur\<bar> + dv \<le> 2000000000"
  shows "tp_ramp (- cur) dv (Some (- x)) = - tp_ramp cur dv (Some x)"
proof -
  have "x > real_of_int (cur + dv) \<Longrightarrow> \<not> x < real_of_int (cur - dv)"
    "\<bar>- cur\<bar> + dv \<le> 2000000000" using assms by simp_all
  with assms show ?thesis by (auto simp: tp_ramp_Some r_trunc_minus)
qed

lemma tp_next_vel_mirror:
  assumes "tp_sane tp T"
  shows "tp_next_vel (tp_mirror tp) T = - tp_next_vel tp T"
proof -
  note d = tp_saneD [OF assms]
  have dv: "0 \<le> tp_acc tp * T" "\<bar>tp_curr_vel tp\<bar> + tp_acc tp * T \<le> 2000000000"
    using d by auto
  have v: "0 \<le> real_of_int (tp_vel tp)" using assms by (simp add: tp_sane_def)
  define x where "x = max (- real_of_int (tp_vel tp)) (min (tp_req tp T) (real_of_int (tp_vel tp)))"
  have x: "max (- real_of_int (tp_vel tp)) (min (- tp_req tp T) (real_of_int (tp_vel tp))) = - x"
    using v by (auto simp: x_def)
  show ?thesis
    unfolding tp_next_vel_def tp_req_mirror [OF assms]
    using x tp_ramp_minus [OF dv, of x] by (simp add: tp_mirror_def x_def [symmetric])
qed

section \<open>A braking planner does not overshoot\<close>

text \<open>The request leaves room to stop: it is the velocity whose stopping distance is what is left.\<close>

lemma tp_req_pos:
  assumes "tp_sane tp T" "tp_enable tp \<noteq> 0" "TINY_DP (tp_acc tp) T < real_of_int (tp_left tp)"
  defines "a \<equiv> real_of_int (tp_acc tp)" and "e \<equiv> real_of_int (tp_left tp)"
    and "m \<equiv> real_of_int (tp_acc tp * T)"
  shows "tp_req tp T = - m + sqrt (2 * a * e + m * m)" "0 \<le> 2 * a * e + m * m"
    "(tp_req tp T + m) * (tp_req tp T + m) = 2 * a * e + m * m" "0 < tp_req tp T" "0 < m" "0 < a"
proof -
  show a: "0 < a" and m: "0 < m" using assms(1) by (simp_all add: a_def m_def tp_sane_def)
  have e: "0 < e" using assms(3) tp_tiny_pos [OF assms(1)] by (simp add: e_def)
  show req: "tp_req tp T = - m + sqrt (2 * a * e + m * m)"
    using assms(2,3) by (simp add: tp_req_def Let_def a_def e_def m_def tp_left_def)
  have ae: "0 < 2 * a * e" using a e by simp
  then show nn: "0 \<le> 2 * a * e + m * m" by simp
  then show "(tp_req tp T + m) * (tp_req tp T + m) = 2 * a * e + m * m" by (simp add: req)
  have "m = sqrt (m * m)" using m by simp
  also have "\<dots> < sqrt (2 * a * e + m * m)" using ae by (intro real_sqrt_less_mono) simp
  finally show "0 < tp_req tp T" by (simp add: req)
qed

lemma square_le_imp_le: "x * x \<le> y * y \<Longrightarrow> 0 \<le> y \<Longrightarrow> x \<le> (y::real)"
  by (metis abs_le_square_iff abs_of_nonneg abs_ge_self order_trans power2_eq_square)

lemma tp_next_vel_pos:
  assumes br: "tp_brake tp T" and left: "0 \<le> tp_left tp" and vel: "0 \<le> tp_curr_vel tp"
    and en: "tp_enable tp \<noteq> 0" and tiny: "TINY_DP (tp_acc tp) T < real_of_int (tp_left tp)"
  shows "0 \<le> tp_next_vel tp T" "tp_next_vel tp T \<le> tp_vel tp"
    "real_of_int (tp_next_vel tp T) \<le> tp_req tp T"
    "tp_req tp T < 1 \<Longrightarrow> tp_next_vel tp T = 0"
    "1 \<le> tp_req tp T \<Longrightarrow> 1 \<le> tp_vel tp \<Longrightarrow> 1 \<le> tp_next_vel tp T"
proof -
  have sane: "tp_sane tp T" using br by (simp add: tp_brake_def)
  note d = tp_saneD [OF sane]
  note r = tp_req_pos [OF sane en tiny]
  let ?v = "tp_curr_vel tp" and ?m = "tp_acc tp * T"
  define x where "x = min (tp_req tp T) (real_of_int (tp_vel tp))"
  have vel0: "0 \<le> tp_vel tp" using sane by (simp add: tp_sane_def)
  have x0: "0 \<le> x" using r(4) vel0 by (simp add: x_def)
  have mx: "max (- real_of_int (tp_vel tp)) x = x" using x0 vel0 by simp
  have "real_of_int (?v * ?v) \<le> real_of_int (2 * tp_acc tp * tp_left tp)"
    using br left by (simp only: of_int_le_iff tp_brake_def) simp
  then have "real_of_int ?v * real_of_int ?v \<le> (tp_req tp T + real_of_int ?m) * (tp_req tp T + real_of_int ?m)"
    using zero_le_square [of "real_of_int ?m"] unfolding r(3) of_int_mult [of ?v] of_int_mult [of "2 * tp_acc tp"]
    by (simp del: of_int_mult zero_le_square)
  then have "real_of_int ?v \<le> tp_req tp T + real_of_int ?m"
    by (rule square_le_imp_le) (use r(4,5) in simp)
  moreover have "?v \<le> tp_vel tp + ?m" using br vel d(7) by (simp add: tp_brake_def)
  then have "real_of_int ?v \<le> real_of_int (tp_vel tp) + real_of_int ?m"
    by (simp only: of_int_le_iff of_int_add [symmetric])
  ultimately have nd: "\<not> x < real_of_int (?v - ?m)" by (simp add: x_def min_def)
  have next_v: "tp_next_vel tp T = (if x > real_of_int (?v + ?m) then ?v + ?m else r_trunc x)"
    unfolding tp_next_vel_def x_def [symmetric] mx
    using d(7,8,10) nd by (subst tp_ramp_Some) auto
  have tr: "0 \<le> r_trunc x" "real_of_int (r_trunc x) \<le> x"
    using x0 r_trunc_le by (simp_all add: r_trunc_def)
  show "0 \<le> tp_next_vel tp T" using vel d(7) tr by (simp add: next_v)
  have le_x: "real_of_int (tp_next_vel tp T) \<le> x" using tr by (simp add: next_v)
  then show "real_of_int (tp_next_vel tp T) \<le> tp_req tp T" by (simp add: x_def)
  from le_x show "tp_next_vel tp T \<le> tp_vel tp" by (simp add: x_def)
  show "tp_next_vel tp T = 0" if "tp_req tp T < 1"
    using \<open>0 \<le> tp_next_vel tp T\<close> \<open>real_of_int (tp_next_vel tp T) \<le> tp_req tp T\<close> that by linarith
  show "1 \<le> tp_next_vel tp T" if "1 \<le> tp_req tp T" "1 \<le> tp_vel tp"
  proof -
    have "1 \<le> x" using that by (simp add: x_def)
    then have "1 \<le> r_trunc x" by (simp add: r_trunc_def le_floor_iff)
    with vel d(7) show ?thesis by (simp add: next_v)
  qed
qed

lemma tp_update_pos:
  assumes br: "tp_brake tp T" and left: "0 \<le> tp_left tp" and vel: "0 \<le> tp_curr_vel tp"
    and en: "tp_enable tp \<noteq> 0" and tiny: "TINY_DP (tp_acc tp) T < real_of_int (tp_left tp)"
  shows "tp_left (simple_tp_update tp T) = tp_left tp - tp_next_vel tp T * T"
    "0 \<le> tp_left (simple_tp_update tp T)" "tp_brake (simple_tp_update tp T) T"
    "tp_enable (simple_tp_update tp T) = tp_enable tp"
    "tp_curr_vel (simple_tp_update tp T) = tp_next_vel tp T"
proof -
  have sane: "tp_sane tp T" using br by (simp add: tp_brake_def)
  have T: "0 < T" using sane by (simp add: tp_sane_def)
  note d = tp_saneD [OF sane]
  note r = tp_req_pos [OF sane en tiny]
  note n = tp_next_vel_pos [OF br left vel en tiny]
  let ?w = "tp_next_vel tp T" and ?m = "tp_acc tp * T" and ?e = "tp_left tp"
  have "(real_of_int ?w + real_of_int ?m) * (real_of_int ?w + real_of_int ?m)
      \<le> (tp_req tp T + real_of_int ?m) * (tp_req tp T + real_of_int ?m)"
    using n(1,3) r(4,5) by (intro mult_mono) auto
  then have "real_of_int ((?w + ?m) * (?w + ?m)) \<le> real_of_int (2 * tp_acc tp * ?e + ?m * ?m)"
    unfolding r(3) by simp
  then have i: "(?w + ?m) * (?w + ?m) \<le> 2 * tp_acc tp * ?e + ?m * ?m"
    by (simp only: of_int_le_iff)
  have sq: "?w * ?w \<le> 2 * tp_acc tp * (?e - ?w * T)"
    using i by (simp add: algebra_simps)
  have "0 \<le> tp_acc tp * (?e - ?w * T)"
    using sq zero_le_square [of ?w] by (simp del: zero_le_square)
  then have e': "0 \<le> ?e - ?w * T"
    using sane by (simp add: zero_le_mult_iff tp_sane_def)
  have wT: "0 \<le> ?w * T" "?w * T \<le> 500000000"
    using n(1) T sane order_trans [OF mult_right_mono [OF n(2), of T], of 500000000]
    by (simp_all add: tp_sane_def)
  have pos: "s32 (tp_curr_pos tp + s32 (?w * T)) = tp_curr_pos tp + ?w * T"
    using wT sane s32_small [of "tp_curr_pos tp + ?w * T"]
    by (simp add: s32_small [of "?w * T"] tp_sane_def abs_le_iff)
  have te: "\<not> \<bar>real_of_int (tp_pos_cmd tp - tp_curr_pos tp)\<bar> \<le> TINY_DP (tp_acc tp) T"
    using tiny by (simp add: tp_left_def)
  have u: "simple_tp_update tp T = tp\<lparr>tp_curr_vel := ?w, tp_curr_pos := tp_curr_pos tp + ?w * T,
      tp_active := 1\<rparr>"
    unfolding tp_update_sane [OF sane] pos using te en by simp
  show l: "tp_left (simple_tp_update tp T) = ?e - ?w * T" by (simp add: u tp_left_def)
  show "0 \<le> tp_left (simple_tp_update tp T)" using e' by (simp add: l)
  show "tp_enable (simple_tp_update tp T) = tp_enable tp"
    "tp_curr_vel (simple_tp_update tp T) = ?w" by (simp_all add: u)
  have cp: "\<bar>tp_curr_pos tp + ?w * T\<bar> \<le> 500000000"
    using wT e' sane by (auto simp: tp_left_def tp_sane_def)
  have "tp_sane (simple_tp_update tp T) T"
    using sane cp wT n(1) by (simp add: u tp_sane_def)
  then show "tp_brake (simple_tp_update tp T) T"
    using n(1,2) e' sq en by (simp add: tp_brake_def l) (simp add: u)
qed

text \<open>Within the tiny range, or disabled, a braking planner stands still.\<close>

lemma tp_update_rest:
  assumes br: "tp_brake tp T"
    and rest: "tp_enable tp = 0 \<or> \<bar>real_of_int (tp_left tp)\<bar> \<le> TINY_DP (tp_acc tp) T"
  shows "simple_tp_update tp T = tp\<lparr>tp_curr_vel := 0, tp_enable := 0, tp_active := 0,
      tp_pos_cmd := (if tp_enable tp = 0 then tp_curr_pos tp else tp_pos_cmd tp)\<rparr>"
    "tp_brake (simple_tp_update tp T) T"
proof -
  have sane: "tp_sane tp T" using br by (simp add: tp_brake_def)
  note d = tp_saneD [OF sane]
  let ?v = "tp_curr_vel tp" and ?m = "tp_acc tp * T"
  have req: "tp_req tp T = 0"
    using rest tp_tiny_pos [OF sane] by (auto simp: tp_req_def Let_def tp_left_def)
  have vm: "\<bar>?v\<bar> \<le> ?m"
  proof (cases "tp_enable tp = 0")
    case True
    with br d(7) show ?thesis by (simp add: tp_brake_def)
  next
    case False
    with rest have e: "\<bar>real_of_int (tp_left tp)\<bar> \<le> real_of_int (tp_acc tp) * real_of_int T * real_of_int T * 0.001"
      using d(2) by simp
    have a: "0 < real_of_int (tp_acc tp)" using sane by (simp add: tp_sane_def)
    have "real_of_int (?v * ?v) \<le> real_of_int (2 * tp_acc tp * \<bar>tp_left tp\<bar>)"
      using br by (simp only: of_int_le_iff tp_brake_def)
    also have "\<dots> \<le> 2 * real_of_int (tp_acc tp) * (real_of_int (tp_acc tp) * real_of_int T * real_of_int T * 0.001)"
      using mult_left_mono [OF e, of "2 * real_of_int (tp_acc tp)"] a by simp
    also have "\<dots> \<le> real_of_int ?m * real_of_int ?m"
      using a sane by (simp add: field_simps zero_le_mult_iff tp_sane_def)
    finally have "real_of_int \<bar>?v\<bar> * real_of_int \<bar>?v\<bar> \<le> real_of_int ?m * real_of_int ?m"
      by (simp add: abs_mult_self_eq)
    then have "real_of_int \<bar>?v\<bar> \<le> real_of_int ?m"
      by (rule square_le_imp_le) (use sane in \<open>simp add: tp_sane_def\<close>)
    then show ?thesis by (simp only: of_int_le_iff)
  qed
  have v: "max (- real_of_int (tp_vel tp)) (min 0 (real_of_int (tp_vel tp))) = 0"
    using sane by (simp add: tp_sane_def)
  have "0 \<le> ?v + ?m" "?v - ?m \<le> 0" using vm by linarith+
  then have "\<not> 0 > real_of_int (?v + ?m)" "\<not> 0 < real_of_int (?v - ?m)"
    by (simp_all only: not_less of_int_0_le_iff of_int_le_0_iff)
  moreover have "0 \<le> ?m" "\<bar>?v\<bar> + ?m \<le> 2000000000" using d(7,8,10) by auto
  ultimately have n: "tp_next_vel tp T = 0"
    unfolding tp_next_vel_def req v by (simp only: tp_ramp_Some if_False) (simp add: r_trunc_def)
  show u: "simple_tp_update tp T = tp\<lparr>tp_curr_vel := 0, tp_enable := 0, tp_active := 0,
      tp_pos_cmd := (if tp_enable tp = 0 then tp_curr_pos tp else tp_pos_cmd tp)\<rparr>"
    unfolding tp_update_sane [OF sane] n using rest sane
    by (auto simp: tp_left_def s32_small tp_sane_def)
  have "tp_sane (simple_tp_update tp T) T" using sane by (simp add: u tp_sane_def)
  then show "tp_brake (simple_tp_update tp T) T"
    using sane by (simp add: tp_brake_def) (simp add: u tp_sane_def)
qed

text \<open>Updating commutes with the mirror, so each fact has its negative-direction twin.\<close>

lemma tp_next_vel_rate:
  assumes "tp_sane tp T"
  shows "\<bar>tp_next_vel tp T - tp_curr_vel tp\<bar> \<le> tp_acc tp * T"
proof -
  have "0 \<le> tp_acc tp * T" "\<bar>tp_curr_vel tp\<bar> + tp_acc tp * T \<le> 2000000000"
    using tp_saneD(7,8,10) [OF assms] by auto
  from tp_ramp_rate [OF this] show ?thesis
    unfolding tp_next_vel_def abs_le_iff by (smt (verit))
qed

lemma tp_next_vel_range:
  assumes "tp_sane tp T" "\<bar>tp_curr_vel tp\<bar> \<le> tp_vel tp"
  shows "\<bar>tp_next_vel tp T\<bar> \<le> tp_vel tp"
proof -
  have p: "0 \<le> tp_acc tp * T" "\<bar>tp_curr_vel tp\<bar> + tp_acc tp * T \<le> 2000000000"
    using tp_saneD(7,8,10) [OF assms(1)] by auto
  have v: "0 \<le> tp_vel tp" "- tp_vel tp \<le> tp_curr_vel tp" "tp_curr_vel tp \<le> tp_vel tp"
    using assms by (auto simp: tp_sane_def)
  define x where "x = max (- real_of_int (tp_vel tp)) (min (tp_req tp T) (real_of_int (tp_vel tp)))"
  have "real_of_int (- tp_vel tp) \<le> x" "x \<le> real_of_int (tp_vel tp)"
    using v(1) by (simp_all add: x_def)
  from tp_ramp_range [OF p v(2,3) this] show ?thesis
    by (simp add: tp_next_vel_def x_def [symmetric] abs_le_iff)
qed

lemma tp_update_mirror:
  assumes "tp_sane tp T"
  shows "simple_tp_update (tp_mirror tp) T = tp_mirror (simple_tp_update tp T)"
proof -
  note d = tp_saneD [OF assms]
  have T: "0 < T" using assms by (simp add: tp_sane_def)
  have m: "tp_sane (tp_mirror tp) T" using assms by simp
  let ?w = "tp_next_vel tp T"
  have "\<bar>?w\<bar> \<le> \<bar>tp_curr_vel tp\<bar> + tp_acc tp * T"
    using tp_next_vel_rate [OF assms] by linarith
  then have "\<bar>?w\<bar> * T \<le> (\<bar>tp_curr_vel tp\<bar> + tp_acc tp * T) * T"
    using T by (intro mult_right_mono) auto
  then have w: "\<bar>?w * T\<bar> \<le> 1000000000"
    using assms T by (simp add: tp_sane_def abs_mult distrib_right)
  have p: "\<bar>tp_curr_pos tp + ?w * T\<bar> \<le> 2000000000" "\<bar>- tp_curr_pos tp - ?w * T\<bar> \<le> 2000000000"
    using w assms by (auto simp: tp_sane_def)
  have e: "\<bar>real_of_int (- tp_pos_cmd tp + tp_curr_pos tp)\<bar> = \<bar>real_of_int (tp_pos_cmd tp - tp_curr_pos tp)\<bar>"
    by simp
  show ?thesis
    unfolding tp_update_sane [OF m] tp_update_sane [OF assms] tp_next_vel_mirror [OF assms]
    using w p e by (simp add: tp_mirror_def s32_small)
qed

lemma tp_mirror_fields [simp]:
  "tp_curr_vel (tp_mirror tp) = - tp_curr_vel tp" "tp_vel (tp_mirror tp) = tp_vel tp"
  "tp_acc (tp_mirror tp) = tp_acc tp" "tp_enable (tp_mirror tp) = tp_enable tp"
  "tp_active (tp_mirror tp) = tp_active tp" "tp_mirror (tp_mirror tp) = tp"
  by (simp_all add: tp_mirror_def)

lemma tp_mirror_brake [simp]: "tp_brake (tp_mirror tp) T \<longleftrightarrow> tp_brake tp T"
  by (simp add: tp_brake_def)

lemma tp_brake_signs:
  assumes "tp_brake tp T"
  shows "0 \<le> tp_left tp \<and> 0 \<le> tp_curr_vel tp \<or> tp_left tp \<le> 0 \<and> tp_curr_vel tp \<le> 0"
  using assms by (cases "tp_left tp = 0") (auto simp: tp_brake_def zero_le_mult_iff)

lemma tp_brake_cases:
  assumes "tp_brake tp T"
  obtains u where "tp_brake u T" "0 \<le> tp_left u" "0 \<le> tp_curr_vel u" "tp = u \<or> tp = tp_mirror u"
    "tp_enable u = tp_enable tp" "tp_acc u = tp_acc tp" "tp_vel u = tp_vel tp" "\<bar>tp_left u\<bar> = \<bar>tp_left tp\<bar>"
  using tp_brake_signs [OF assms]
proof
  assume "0 \<le> tp_left tp \<and> 0 \<le> tp_curr_vel tp"
  with assms show ?thesis by (intro that [of tp]) auto
next
  assume "tp_left tp \<le> 0 \<and> tp_curr_vel tp \<le> 0"
  with assms show ?thesis
    by (intro that [of "tp_mirror tp"]) auto
qed

text \<open>One update from a braking state, in both directions.\<close>

lemma tp_step:
  assumes br: "tp_brake tp T"
  shows "tp_brake (simple_tp_update tp T) T"
    "0 \<le> tp_left tp * tp_left (simple_tp_update tp T)"
    "\<bar>tp_left (simple_tp_update tp T)\<bar> \<le> \<bar>tp_left tp\<bar>"
proof -
  let ?P = "\<lambda>tp. tp_brake (simple_tp_update tp T) T \<and> 0 \<le> tp_left tp * tp_left (simple_tp_update tp T)
    \<and> \<bar>tp_left (simple_tp_update tp T)\<bar> \<le> \<bar>tp_left tp\<bar>"
  obtain u where u: "tp_brake u T" "0 \<le> tp_left u" "0 \<le> tp_curr_vel u" "tp = u \<or> tp = tp_mirror u"
    using tp_brake_cases [OF br] by metis
  have sane: "tp_sane u T" using u(1) by (simp add: tp_brake_def)
  have "?P u"
  proof (cases "tp_enable u = 0 \<or> \<bar>real_of_int (tp_left u)\<bar> \<le> TINY_DP (tp_acc u) T")
    case True
    from tp_update_rest [OF u(1) True] have "tp_brake (simple_tp_update u T) T"
      "tp_left (simple_tp_update u T) = (if tp_enable u = 0 then 0 else tp_left u)"
      by (simp_all add: tp_left_def)
    then show ?thesis by simp
  next
    case False
    then have "tp_enable u \<noteq> 0" "TINY_DP (tp_acc u) T < real_of_int (tp_left u)" using u(2) by auto
    note p = tp_update_pos [OF u(1-3) this] and n = tp_next_vel_pos(1) [OF u(1-3) this]
    have "0 \<le> tp_next_vel u T * T" using n sane by (simp add: tp_sane_def)
    with p u(2) show ?thesis by simp
  qed
  moreover have "?P (tp_mirror u)" if "?P u"
    using that by (simp add: tp_update_mirror [OF sane])
  ultimately have "?P tp" using u(4) by auto
  then show "tp_brake (simple_tp_update tp T) T"
    "0 \<le> tp_left tp * tp_left (simple_tp_update tp T)"
    "\<bar>tp_left (simple_tp_update tp T)\<bar> \<le> \<bar>tp_left tp\<bar>" by auto
qed

text \<open>An update of an enabled planner that is more than a period's worth away makes progress.\<close>

lemma tp_step_far:
  assumes br: "tp_brake tp T" and en: "tp_enable tp \<noteq> 0" and vel: "1 \<le> tp_vel tp"
    and far: "T < \<bar>tp_left tp\<bar>" "TINY_DP (tp_acc tp) T < real_of_int \<bar>tp_left tp\<bar>"
  shows "\<bar>tp_left (simple_tp_update tp T)\<bar> \<le> \<bar>tp_left tp\<bar> - T"
    "tp_enable (simple_tp_update tp T) = tp_enable tp"
proof -
  obtain u where u: "tp_brake u T" "0 \<le> tp_left u" "0 \<le> tp_curr_vel u" "tp = u \<or> tp = tp_mirror u"
    "tp_enable u = tp_enable tp" "tp_acc u = tp_acc tp" "tp_vel u = tp_vel tp" "\<bar>tp_left u\<bar> = \<bar>tp_left tp\<bar>"
    using tp_brake_cases [OF br] by metis
  have sane: "tp_sane u T" using u(1) by (simp add: tp_brake_def)
  have en': "tp_enable u \<noteq> 0" and tiny: "TINY_DP (tp_acc u) T < real_of_int (tp_left u)"
    and left: "T + 1 \<le> tp_left u"
    using u en far by auto
  note r = tp_req_pos [OF sane en' tiny]
  have "tp_acc u * (T + 1) \<le> tp_acc u * tp_left u"
    using sane left by (intro mult_left_mono) (auto simp: tp_sane_def)
  then have "1 + 2 * (tp_acc u * T) \<le> 2 * tp_acc u * tp_left u"
    using sane by (simp add: distrib_left tp_sane_def)
  then have "real_of_int (1 + 2 * (tp_acc u * T)) \<le> real_of_int (2 * tp_acc u * tp_left u)"
    by (simp only: of_int_le_iff)
  then have "(1 + real_of_int (tp_acc u * T)) * (1 + real_of_int (tp_acc u * T))
      \<le> (tp_req u T + real_of_int (tp_acc u * T)) * (tp_req u T + real_of_int (tp_acc u * T))"
    unfolding r(3) by (simp add: algebra_simps)
  then have "1 + real_of_int (tp_acc u * T) \<le> tp_req u T + real_of_int (tp_acc u * T)"
    by (rule square_le_imp_le) (use r(4,5) in simp)
  then have "1 \<le> tp_next_vel u T"
    using tp_next_vel_pos(5) [OF u(1-3) en' tiny] vel u(7) by simp
  then have "T \<le> tp_next_vel u T * T"
    using sane mult_right_mono [of 1 "tp_next_vel u T" T] by (simp add: tp_sane_def)
  with tp_update_pos(1,2,4) [OF u(1-3) en' tiny]
  have "\<bar>tp_left (simple_tp_update u T)\<bar> \<le> \<bar>tp_left u\<bar> - T"
    "tp_enable (simple_tp_update u T) = tp_enable u" using u(2) by simp_all
  with u(4,5,8) show "\<bar>tp_left (simple_tp_update tp T)\<bar> \<le> \<bar>tp_left tp\<bar> - T"
    "tp_enable (simple_tp_update tp T) = tp_enable tp"
    by (auto simp: tp_update_mirror [OF sane])
qed

section \<open>Properties\<close>

definition tp_iter :: "nat \<Rightarrow> simple_tp \<Rightarrow> int \<Rightarrow> simple_tp" where
  "tp_iter n tp T = ((\<lambda>t. simple_tp_update t T) ^^ n) tp"

lemma tp_iter_0 [simp]: "tp_iter 0 tp T = tp"
  by (simp add: tp_iter_def)

lemma tp_iter_Suc: "tp_iter (Suc n) tp T = simple_tp_update (tp_iter n tp T) T"
  by (simp add: tp_iter_def)

lemma tp_iter_Suc2: "tp_iter (Suc n) tp T = tp_iter n (simple_tp_update tp T) T"
  by (simp add: tp_iter_def funpow_Suc_right del: funpow.simps)

lemma tp_update_keeps:
  assumes "tp_sane tp T"
  shows "tp_vel (simple_tp_update tp T) = tp_vel tp" "tp_acc (simple_tp_update tp T) = tp_acc tp"
    "tp_curr_vel (simple_tp_update tp T) = tp_next_vel tp T"
  by (simp_all add: tp_update_sane [OF assms])

lemma tp_iter_brake:
  assumes "tp_brake tp T"
  shows "tp_brake (tp_iter n tp T) T \<and> 0 \<le> tp_left tp * tp_left (tp_iter n tp T) \<and>
    \<bar>tp_left (tp_iter n tp T)\<bar> \<le> \<bar>tp_left tp\<bar>"
proof (induction n)
  case 0
  from assms show ?case by simp
next
  case (Suc n)
  let ?u = "tp_iter n tp T"
  have b: "tp_brake ?u T" using Suc by simp
  note s = tp_step [OF b]
  have "0 \<le> tp_left tp * tp_left (simple_tp_update ?u T)"
  proof (cases "tp_left ?u = 0")
    case True
    with s(3) show ?thesis by simp
  next
    case False
    with Suc s(2) show ?thesis by (auto simp: zero_le_mult_iff)
  qed
  with s Suc show ?case by (simp add: tp_iter_Suc)
qed

text \<open>rate limits. One update changes the velocity by at most \<open>acc * period\<close>, and a velocity
  within the limit \<open>vel\<close> stays within it.\<close>

theorem simple_tp_rate:
  assumes "tp_sane tp T"
  shows "\<bar>tp_curr_vel (simple_tp_update tp T) - tp_curr_vel tp\<bar> \<le> tp_acc tp * T \<and>
    (\<bar>tp_curr_vel tp\<bar> \<le> tp_vel tp \<longrightarrow> \<bar>tp_curr_vel (simple_tp_update tp T)\<bar> \<le> tp_vel tp)"
  using tp_next_vel_rate [OF assms] tp_next_vel_range [OF assms] tp_update_keeps(3) [OF assms] by simp

text \<open>A planner at rest, 50000 units from its target.\<close>

definition tp_example :: simple_tp where
  "tp_example = \<lparr>tp_pos_cmd = 60000, tp_max_vel = 500, tp_max_acc = 20, tp_vel = 500, tp_acc = 20,
     tp_enable = 1, tp_curr_pos = 10000, tp_curr_vel = 0, tp_active = 0, tp_dir = 1\<rparr>"

lemma tp_example_brake: "tp_brake tp_example 1"
  by (simp add: tp_brake_def tp_sane_def tp_left_def tp_example_def)

lemma tp_example_fields: "tp_left tp_example = 50000" "tp_enable tp_example = 1" "tp_vel tp_example = 500"
  "TINY_DP (tp_acc tp_example) 1 = 2 / 100"
  using tp_saneD(2) [of tp_example 1] tp_example_brake
  by (simp_all add: tp_brake_def) (simp_all add: tp_example_def tp_left_def)

theorem simple_tp_rate_witness: "\<bar>tp_curr_vel (simple_tp_update tp_example 1)\<bar> \<le> 20"
  using simple_tp_rate [of tp_example 1] tp_example_brake
  by (simp add: tp_brake_def) (simp add: tp_example_def)

text \<open>C6: no overshoot. From a state whose velocity can be braked in the distance left, any number
  of updates keeps that so: the position never passes the target and never moves away from it.\<close>

theorem simple_tp_no_overshoot:
  assumes "tp_brake tp T"
  shows "tp_brake (tp_iter n tp T) T \<and> 0 \<le> tp_left tp * tp_left (tp_iter n tp T) \<and>
    \<bar>tp_left (tp_iter n tp T)\<bar> \<le> \<bar>tp_left tp\<bar>"
  by (rule tp_iter_brake [OF assms])

theorem simple_tp_no_overshoot_witness:
  "tp_brake (tp_iter 1000 tp_example 1) 1 \<and> \<bar>tp_left (tp_iter 1000 tp_example 1)\<bar> \<le> 50000"
  using simple_tp_no_overshoot [OF tp_example_brake, of 1000] by (auto simp: tp_example_fields)

lemma tp_converges_aux:
  assumes "tp_brake tp T" "tp_enable tp \<noteq> 0" "1 \<le> tp_vel tp" "nat \<bar>tp_left tp\<bar> \<le> k"
  shows "\<exists>n\<le>k. real_of_int \<bar>tp_left (tp_iter n tp T)\<bar> \<le> max (real_of_int T) (TINY_DP (tp_acc tp) T)"
  using assms
proof (induction k arbitrary: tp)
  case 0
  then have "0 < T" by (simp add: tp_brake_def tp_sane_def)
  with 0 show ?case by (intro exI [of _ 0]) simp
next
  case (Suc k)
  show ?case
  proof (cases "T < \<bar>tp_left tp\<bar> \<and> TINY_DP (tp_acc tp) T < real_of_int \<bar>tp_left tp\<bar>")
    case False
    then show ?thesis by (intro exI [of _ 0]) auto
  next
    case True
    have sane: "tp_sane tp T" and T: "0 < T" using Suc.prems(1) by (simp_all add: tp_brake_def tp_sane_def)
    have "nat \<bar>tp_left (simple_tp_update tp T)\<bar> \<le> k" "tp_enable (simple_tp_update tp T) \<noteq> 0"
      using tp_step_far [OF Suc.prems(1-3)] True T Suc.prems by auto
    from Suc.IH [OF tp_step(1) [OF Suc.prems(1)] this(2) _ this(1)] Suc.prems(3)
    obtain n where "n \<le> k" "real_of_int \<bar>tp_left (tp_iter n (simple_tp_update tp T) T)\<bar>
        \<le> max (real_of_int T) (TINY_DP (tp_acc tp) T)"
      by (auto simp: tp_update_keeps [OF sane])
    then show ?thesis by (intro exI [of _ "Suc n"]) (simp add: tp_iter_Suc2)
  qed
qed

text \<open>convergence. An enabled braking planner with a non-zero velocity limit comes within one
  period's unit move, or the tiny range, of its target after at most as many updates as units are left.\<close>

theorem simple_tp_converges:
  assumes "tp_brake tp T" "tp_enable tp \<noteq> 0" "1 \<le> tp_vel tp"
  shows "\<exists>n\<le>nat \<bar>tp_left tp\<bar>.
    real_of_int \<bar>tp_left (tp_iter n tp T)\<bar> \<le> max (real_of_int T) (TINY_DP (tp_acc tp) T)"
  using tp_converges_aux [OF assms, of "nat \<bar>tp_left tp\<bar>"] by simp

theorem simple_tp_converges_witness: "\<exists>n\<le>50000. \<bar>tp_left (tp_iter n tp_example 1)\<bar> \<le> 1"
proof -
  have "\<exists>n\<le>50000. real_of_int \<bar>tp_left (tp_iter n tp_example 1)\<bar> \<le> real_of_int 1"
    using simple_tp_converges [OF tp_example_brake] by (simp add: tp_example_fields)
  then show ?thesis by (simp only: of_int_le_iff)
qed

text \<open>The last unit: the request truncates to zero, the planner stands still and stays active.\<close>

lemma tp_stall_step:
  assumes br: "tp_brake tp T" and en: "tp_enable tp \<noteq> 0"
    and near: "TINY_DP (tp_acc tp) T < real_of_int \<bar>tp_left tp\<bar>" "\<bar>tp_left tp\<bar> \<le> T"
  shows "simple_tp_update tp T = tp\<lparr>tp_curr_vel := 0, tp_active := 1\<rparr>"
proof -
  obtain u where u: "tp_brake u T" "0 \<le> tp_left u" "0 \<le> tp_curr_vel u" "tp = u \<or> tp = tp_mirror u"
    "tp_enable u = tp_enable tp" "tp_acc u = tp_acc tp" "tp_vel u = tp_vel tp" "\<bar>tp_left u\<bar> = \<bar>tp_left tp\<bar>"
    using tp_brake_cases [OF br] by metis
  have sane: "tp_sane u T" using u(1) by (simp add: tp_brake_def)
  have en': "tp_enable u \<noteq> 0" and tiny: "TINY_DP (tp_acc u) T < real_of_int (tp_left u)"
    using u en near by auto
  note r = tp_req_pos [OF sane en' tiny]
  have "tp_acc u * tp_left u \<le> tp_acc u * T"
    using sane u near by (intro mult_left_mono) (auto simp: tp_sane_def)
  then have "real_of_int (2 * tp_acc u * tp_left u) \<le> real_of_int (2 * (tp_acc u * T))"
    by (simp only: of_int_le_iff)
  then have "(tp_req u T + real_of_int (tp_acc u * T)) * (tp_req u T + real_of_int (tp_acc u * T))
      < (1 + real_of_int (tp_acc u * T)) * (1 + real_of_int (tp_acc u * T))"
    unfolding r(3) by (simp add: algebra_simps)
  moreover have "(1 + real_of_int (tp_acc u * T)) * (1 + real_of_int (tp_acc u * T))
      \<le> (tp_req u T + real_of_int (tp_acc u * T)) * (tp_req u T + real_of_int (tp_acc u * T))"
    if "1 \<le> tp_req u T" using that r(5) by (intro mult_mono) auto
  ultimately have "tp_req u T < 1" by (cases "1 \<le> tp_req u T") linarith+
  then have n: "tp_next_vel u T = 0" by (rule tp_next_vel_pos(4) [OF u(1-3) en' tiny])
  have upd: "simple_tp_update u T = u\<lparr>tp_curr_vel := 0, tp_active := 1\<rparr>"
    unfolding tp_update_sane [OF sane] n using tiny en' sane
    by (simp add: tp_left_def s32_small tp_sane_def)
  moreover have "simple_tp_update (tp_mirror u) T = (tp_mirror u)\<lparr>tp_curr_vel := 0, tp_active := 1\<rparr>"
    unfolding tp_update_mirror [OF sane] upd by (simp add: tp_mirror_def)
  ultimately show ?thesis using u(4) by auto
qed

text \<open>the planner never finishes a move exactly: left with a distance of at most one period but
  more than the tiny range, every further update keeps the position short of the target and the
  planner enabled and active. The requested velocity is below one unit and truncates to zero.\<close>

theorem simple_tp_stalls:
  assumes "tp_brake tp T" "tp_enable tp \<noteq> 0"
    "TINY_DP (tp_acc tp) T < real_of_int \<bar>tp_left tp\<bar>" "\<bar>tp_left tp\<bar> \<le> T"
  shows "tp_iter (Suc n) tp T = tp\<lparr>tp_curr_vel := 0, tp_active := 1\<rparr>"
proof (induction n)
  case 0
  show ?case by (simp add: tp_iter_Suc tp_stall_step [OF assms])
next
  case (Suc n)
  let ?u = "tp\<lparr>tp_curr_vel := 0, tp_active := 1\<rparr>"
  have "tp_brake ?u T" using tp_step(1) [OF assms(1)] tp_stall_step [OF assms] by simp
  moreover have "tp_left ?u = tp_left tp" by (simp add: tp_left_def)
  ultimately have "simple_tp_update ?u T = ?u\<lparr>tp_curr_vel := 0, tp_active := 1\<rparr>"
    using assms by (intro tp_stall_step) simp_all
  with Suc show ?case by (simp add: tp_iter_Suc [of "Suc n"])
qed

theorem simple_tp_stalls_witness:
  "tp_active (tp_iter 100000 (tp_example\<lparr>tp_curr_pos := 59999\<rparr>) 1) = 1 \<and>
   tp_curr_pos (tp_iter 100000 (tp_example\<lparr>tp_curr_pos := 59999\<rparr>) 1) = 59999 \<and>
   tp_pos_cmd (tp_iter 100000 (tp_example\<lparr>tp_curr_pos := 59999\<rparr>) 1) = 60000"
proof -
  let ?u = "tp_example\<lparr>tp_curr_pos := 59999\<rparr>"
  have b: "tp_brake ?u 1" by (simp add: tp_brake_def tp_sane_def tp_left_def tp_example_def)
  then have "TINY_DP (tp_acc ?u) 1 = 2 / 100"
    using tp_saneD(2) [of ?u 1] by (simp add: tp_brake_def) (simp add: tp_example_def)
  then have "tp_iter (Suc 99999) ?u 1 = ?u\<lparr>tp_curr_vel := 0, tp_active := 1\<rparr>"
    using b by (intro simple_tp_stalls) (simp_all add: tp_example_def tp_left_def)
  then show ?thesis by (simp add: tp_example_def)
qed

end
