(* ===== verification/Posemath.thy ===== *)
theory Posemath
  imports Prelude
begin

text \<open>
  The vector, rotation and pose mathematics of \<open>libnml/_posemath.c\<close>, with the types of
  \<open>libnml/posemath.h\<close>. A C \<open>double\<close> is a real. A function whose only return code is \<open>PM_OK\<close> is
  modelled by the value it stores through its output pointer; one that can return another code
  returns the code too. The global \<open>pmErrno\<close> always repeats the returned code and is not kept.
  Output pointers are distinct from the input pointers unless the name says otherwise: the two
  functions that are called with an output aliasing an input in a way that matters have a variant
  for that call. Division by zero yields 0 here where C yields an infinity or NaN; the properties
  exclude it.
\<close>

section \<open>Types and constants\<close>

record pm_cart = c_x :: real  c_y :: real  c_z :: real
record pm_sph = sp_theta :: real  sp_phi :: real  sp_r :: real
record pm_cyl = cy_theta :: real  cy_r :: real  cy_z :: real
record pm_rot = r_s :: real  r_x :: real  r_y :: real  r_z :: real
record pm_mat = m_x :: pm_cart  m_y :: pm_cart  m_z :: pm_cart
record pm_quat = q_s :: real  q_x :: real  q_y :: real  q_z :: real
record pm_zyz = zyz_z :: real  zyz_y :: real  zyz_zp :: real
record pm_zyx = zyx_z :: real  zyx_y :: real  zyx_x :: real
record pm_rpy = rpy_r :: real  rpy_p :: real  rpy_y :: real
record pm_pose = po_tran :: pm_cart  po_rot :: pm_quat
record pm_hom = ho_tran :: pm_cart  ho_rot :: pm_mat

record pm_cart_line =
  cl_start :: pm_cart
  cl_end :: pm_cart
  cl_uVec :: pm_cart
  cl_tmag :: real
  cl_tmag_zero :: bool

record pm_line =
  ln_start :: pm_pose
  ln_end :: pm_pose
  ln_uVec :: pm_cart
  ln_qVec :: pm_quat
  ln_tmag :: real
  ln_rmag :: real
  ln_tmag_zero :: bool
  ln_rmag_zero :: bool

record pm_circle =
  ci_center :: pm_cart
  ci_normal :: pm_cart
  ci_rTan :: pm_cart
  ci_rPerp :: pm_cart
  ci_rHelix :: pm_cart
  ci_radius :: real
  ci_angle :: real
  ci_spiral :: real

datatype pm_axis = PM_X | PM_Y | PM_Z

definition PM_OK :: int where "PM_OK = 0"
definition PM_ERR :: int where "PM_ERR = -1"
definition PM_NORM_ERR :: int where "PM_NORM_ERR = -3"
definition PM_DIV_ERR :: int where "PM_DIV_ERR = -4"

definition PM_PI :: real where "PM_PI = 3.14159265358979323846"
definition PM_PI_2 :: real where "PM_PI_2 = 1.57079632679489661923"
definition PM_2_PI :: real where "PM_2_PI = 6.28318530717958647692"

definition DOUBLE_FUZZ :: real where "DOUBLE_FUZZ = 2.2204460492503131 / 10 ^ 16"
definition CART_FUZZ :: real where "CART_FUZZ = 1 / 10 ^ 8"
definition Q_FUZZ :: real where "Q_FUZZ = 1 / 10 ^ 6"
definition QS_FUZZ :: real where "QS_FUZZ = 1 / 10 ^ 6"
definition RS_FUZZ :: real where "RS_FUZZ = 1 / 10 ^ 6"
definition QSIN_FUZZ :: real where "QSIN_FUZZ = 1 / 10 ^ 6"
definition V_FUZZ :: real where "V_FUZZ = 1 / 10 ^ 8"
definition UNIT_VEC_FUZZ :: real where "UNIT_VEC_FUZZ = 1 / 10 ^ 6"
definition UNIT_QUAT_FUZZ :: real where "UNIT_QUAT_FUZZ = 1 / 10 ^ 6"
definition RPY_P_FUZZ :: real where "RPY_P_FUZZ = 1 / 10 ^ 6"
definition ZYZ_Y_FUZZ :: real where "ZYZ_Y_FUZZ = 1 / 10 ^ 6"
definition ZYX_Y_FUZZ :: real where "ZYX_Y_FUZZ = 1 / 10 ^ 6"
definition CIRCLE_FUZZ :: real where "CIRCLE_FUZZ = 1 / 10 ^ 6"

text \<open>The C library's \<open>atan2\<close> (signed zeros apart).\<close>

definition c_atan2 :: "real \<Rightarrow> real \<Rightarrow> real" where
  "c_atan2 y x =
     (if x > 0 then arctan (y / x)
      else if x < 0 then (if 0 \<le> y then arctan (y / x) + pi else arctan (y / x) - pi)
      else if y > 0 then pi / 2 else if y < 0 then - pi / 2 else 0)"

section \<open>Scalars and Cartesian vectors\<close>

definition IS_FUZZ :: "real \<Rightarrow> real \<Rightarrow> bool" where
  "IS_FUZZ a fuzz \<longleftrightarrow> \<bar>a\<bar> < fuzz"

definition pmClose :: "real \<Rightarrow> real \<Rightarrow> real \<Rightarrow> bool" where
  "pmClose a b eps \<longleftrightarrow> \<bar>a - b\<bar> < eps"

definition pmSq :: "real \<Rightarrow> real" where
  "pmSq x = x * x"

definition pmSqrt :: "real \<Rightarrow> real" where
  "pmSqrt x = (if x > 0 then sqrt x else 0)"

definition pmCartCartSub :: "pm_cart \<Rightarrow> pm_cart \<Rightarrow> pm_cart" where
  "pmCartCartSub v1 v2 = \<lparr>c_x = c_x v1 - c_x v2, c_y = c_y v1 - c_y v2, c_z = c_z v1 - c_z v2\<rparr>"

definition pmCartCartAdd :: "pm_cart \<Rightarrow> pm_cart \<Rightarrow> pm_cart" where
  "pmCartCartAdd v1 v2 = \<lparr>c_x = c_x v1 + c_x v2, c_y = c_y v1 + c_y v2, c_z = c_z v1 + c_z v2\<rparr>"

definition pmCartCartAddEq :: "pm_cart \<Rightarrow> pm_cart \<Rightarrow> pm_cart" where
  "pmCartCartAddEq v a = v\<lparr>c_x := c_x v + c_x a, c_y := c_y v + c_y a, c_z := c_z v + c_z a\<rparr>"

definition pmCartCartSubEq :: "pm_cart \<Rightarrow> pm_cart \<Rightarrow> pm_cart" where
  "pmCartCartSubEq v a = v\<lparr>c_x := c_x v - c_x a, c_y := c_y v - c_y a, c_z := c_z v - c_z a\<rparr>"

definition pmCartMag :: "pm_cart \<Rightarrow> real" where
  "pmCartMag v = pmSqrt (pmSq (c_x v) + pmSq (c_y v) + pmSq (c_z v))"

definition pmCartMagSq :: "pm_cart \<Rightarrow> real" where
  "pmCartMagSq v = pmSq (c_x v) + pmSq (c_y v) + pmSq (c_z v)"

definition pmCartInfNorm :: "pm_cart \<Rightarrow> real" where
  "pmCartInfNorm v = max \<bar>c_x v\<bar> (max \<bar>c_y v\<bar> \<bar>c_z v\<bar>)"

definition pmCartUnitEq :: "pm_cart \<Rightarrow> int \<times> pm_cart" where
  "pmCartUnitEq v =
     (let size = pmSqrt (pmSq (c_x v) + pmSq (c_y v) + pmSq (c_z v)) in
      if size = 0 then (PM_NORM_ERR, v)
      else (PM_OK, \<lparr>c_x = c_x v / size, c_y = c_y v / size, c_z = c_z v / size\<rparr>))"

definition pmCartUnit :: "pm_cart \<Rightarrow> int \<times> pm_cart" where
  "pmCartUnit v = pmCartUnitEq v"

definition pmCartScalMultEq :: "pm_cart \<Rightarrow> real \<Rightarrow> pm_cart" where
  "pmCartScalMultEq v d = \<lparr>c_x = c_x v * d, c_y = c_y v * d, c_z = c_z v * d\<rparr>"

definition pmCartScalMult :: "pm_cart \<Rightarrow> real \<Rightarrow> pm_cart" where
  "pmCartScalMult v d = pmCartScalMultEq v d"

definition pmCartCartDot :: "pm_cart \<Rightarrow> pm_cart \<Rightarrow> real" where
  "pmCartCartDot v1 v2 = c_x v1 * c_x v2 + c_y v1 * c_y v2 + c_z v1 * c_z v2"

definition pmCartCartProj :: "pm_cart \<Rightarrow> pm_cart \<Rightarrow> pm_cart" where
  "pmCartCartProj v1 v2 = pmCartScalMult v2 (pmCartCartDot v1 v2 / pmCartCartDot v2 v2)"

definition pmCartPlaneProj :: "pm_cart \<Rightarrow> pm_cart \<Rightarrow> pm_cart" where
  "pmCartPlaneProj v normal = pmCartCartSub v (pmCartCartProj v normal)"

definition pmCartCartDisp :: "pm_cart \<Rightarrow> pm_cart \<Rightarrow> real" where
  "pmCartCartDisp v1 v2 =
     pmSqrt (pmSq (c_x v2 - c_x v1) + pmSq (c_y v2 - c_y v1) + pmSq (c_z v2 - c_z v1))"

definition pmCartCartCross :: "pm_cart \<Rightarrow> pm_cart \<Rightarrow> pm_cart" where
  "pmCartCartCross v1 v2 =
     \<lparr>c_x = c_y v1 * c_z v2 - c_z v1 * c_y v2,
      c_y = c_z v1 * c_x v2 - c_x v1 * c_z v2,
      c_z = c_x v1 * c_y v2 - c_y v1 * c_x v2\<rparr>"

definition pmCartCartCompare :: "pm_cart \<Rightarrow> pm_cart \<Rightarrow> bool" where
  "pmCartCartCompare v1 v2 \<longleftrightarrow>
     \<not> (\<bar>c_x v1 - c_x v2\<bar> \<ge> V_FUZZ \<or> \<bar>c_y v1 - c_y v2\<bar> \<ge> V_FUZZ \<or> \<bar>c_z v1 - c_z v2\<bar> \<ge> V_FUZZ)"

definition pmCartInvEq :: "pm_cart \<Rightarrow> pm_cart" where
  "pmCartInvEq v = (let s = pmCartMagSq v in \<lparr>c_x = c_x v / s, c_y = c_y v / s, c_z = c_z v / s\<rparr>)"

definition pmCartInv :: "pm_cart \<Rightarrow> pm_cart" where
  "pmCartInv v = pmCartInvEq v"

definition pmCartAbs :: "pm_cart \<Rightarrow> pm_cart" where
  "pmCartAbs v = \<lparr>c_x = \<bar>c_x v\<bar>, c_y = \<bar>c_y v\<bar>, c_z = \<bar>c_z v\<bar>\<rparr>"

definition pmCartNegEq :: "pm_cart \<Rightarrow> pm_cart" where
  "pmCartNegEq v = \<lparr>c_x = - c_x v, c_y = - c_y v, c_z = - c_z v\<rparr>"

section \<open>Lines\<close>

text \<open>\<open>pmCartLineInit\<close> with a non-NULL line; it only returns \<open>PM_OK\<close>.\<close>

definition pmCartLineInit :: "pm_cart \<Rightarrow> pm_cart \<Rightarrow> int \<times> pm_cart_line" where
  "pmCartLineInit start en =
     (let u = pmCartCartSub en start;
          tmag = pmCartMag u;
          max_xyz = pmCartInfNorm u
      in if IS_FUZZ max_xyz CART_FUZZ then
           (PM_OK, \<lparr>cl_start = start, cl_end = en, cl_uVec = \<lparr>c_x = 1, c_y = 0, c_z = 0\<rparr>,
                    cl_tmag = tmag, cl_tmag_zero = True\<rparr>)
         else (let (r2, u') = pmCartUnitEq u in
           (if r2 \<noteq> PM_OK then PM_NORM_ERR else PM_OK,
            \<lparr>cl_start = start, cl_end = en, cl_uVec = u', cl_tmag = tmag, cl_tmag_zero = False\<rparr>)))"

definition pmCartLinePoint :: "pm_cart_line \<Rightarrow> real \<Rightarrow> pm_cart" where
  "pmCartLinePoint line len =
     (if cl_tmag_zero line then cl_end line
      else pmCartCartAdd (cl_start line) (pmCartScalMult (cl_uVec line) len))"

definition pmCartLineStretch :: "pm_cart_line \<Rightarrow> real \<Rightarrow> bool \<Rightarrow> int \<times> pm_cart_line" where
  "pmCartLineStretch line new_len from_end =
     (if cl_tmag_zero line \<or> new_len \<le> DOUBLE_FUZZ then (PM_ERR, line)
      else if from_end then
        (PM_OK, line\<lparr>cl_start := pmCartCartAddEq (pmCartScalMult (cl_uVec line) (- new_len)) (cl_end line),
                     cl_tmag := new_len\<rparr>)
      else
        (PM_OK, line\<lparr>cl_end := pmCartCartAdd (cl_start line) (pmCartScalMult (cl_uVec line) new_len),
                     cl_tmag := new_len\<rparr>))"

section \<open>Circles\<close>

text \<open>
  \<open>pmCircleInit\<close>, in the three groups of its comments: the frame of the circle, the angle between
  start and end, and the turns.
\<close>

definition circle_frame :: "pm_cart \<Rightarrow> pm_cart \<Rightarrow> pm_cart \<Rightarrow> pm_cart \<Rightarrow> int \<Rightarrow> int \<times> pm_circle \<times> pm_cart" where
  "circle_frame start en center normal turn =
     (let v = pmCartCartProj (pmCartCartSub start center) normal;
          cen = pmCartCartAdd v center;
          n = snd (pmCartUnit normal);
          (turn', n') = (if turn < 0 then (s32 (-1 - turn), pmCartScalMult n (-1)) else (turn, n));
          radius = pmCartCartDisp start cen;
          rTan = pmCartCartSub start cen;
          rPerp = pmCartCartCross n' rTan;
          h = pmCartCartSub en cen;
          rEnd = pmCartPlaneProj h n';
          spiral = pmCartMag rEnd - radius;
          rHelix = pmCartCartSub h rEnd;
          rEnd1 = pmCartScalMult (snd (pmCartUnit rEnd)) radius;
          rEnd2 = (if pmCartMag rEnd1 = 0 then pmCartCartAdd rEnd1 (pmCartScalMult n' DOUBLE_FUZZ) else rEnd1)
      in (turn', \<lparr>ci_center = cen, ci_normal = n', ci_rTan = rTan, ci_rPerp = rPerp, ci_rHelix = rHelix,
                   ci_radius = radius, ci_angle = 0, ci_spiral = spiral\<rparr>, rEnd2))"

definition circle_angle :: "pm_circle \<Rightarrow> pm_cart \<Rightarrow> real" where
  "circle_angle c rEnd =
     (let d = pmCartCartDot (ci_rTan c) rEnd / (ci_radius c * ci_radius c);
          a = (if d > 1 then 0 else if d < -1 then PM_PI else arccos d)
      in if pmCartCartDot (pmCartCartCross (ci_rTan c) rEnd) (ci_normal c) < CART_FUZZ
         then PM_2_PI - a else a)"

definition pmCircleInit :: "pm_cart \<Rightarrow> pm_cart \<Rightarrow> pm_cart \<Rightarrow> pm_cart \<Rightarrow> int \<Rightarrow> pm_circle" where
  "pmCircleInit start en center normal turn =
     (let (turn', c, rEnd) = circle_frame start en center normal turn;
          a0 = circle_angle c rEnd;
          a1 = (if pmCartCartDisp (pmCartPlaneProj start normal) (pmCartPlaneProj en normal) < CART_FUZZ
                then PM_2_PI else a0);
          a2 = (if turn' > 0 then a1 + of_int turn' * 2 * PM_PI else a1);
          a3 = (if a2 = 0 then a2 + CIRCLE_FUZZ / 2 else a2)
      in c\<lparr>ci_angle := a3\<rparr>)"

definition pmCirclePoint :: "pm_circle \<Rightarrow> real \<Rightarrow> int \<times> pm_cart" where
  "pmCirclePoint c angle =
     (let point = pmCartCartAdd (pmCartScalMult (ci_rTan c) (cos angle))
                    (pmCartScalMult (ci_rPerp c) (sin angle))
      in if ci_angle c = 0 then (PM_DIV_ERR, point)
         else
           (let scale = angle / ci_angle c;
                par = pmCartScalMult (snd (pmCartUnit point)) (scale * ci_spiral c);
                p1 = pmCartCartAdd point par;
                p2 = pmCartCartAdd p1 (pmCartScalMult (ci_rHelix c) scale)
            in (PM_OK, pmCartCartAdd (ci_center c) p2)))"

definition pmCircleStretch :: "pm_circle \<Rightarrow> real \<Rightarrow> bool \<Rightarrow> int \<times> pm_circle" where
  "pmCircleStretch c new_angle from_end =
     (if new_angle \<le> DOUBLE_FUZZ then (PM_ERR, c)
      else if pmCartMagSq (ci_rHelix c) > 1 / 10 ^ 6 then (PM_ERR, c)
      else
        (let c1 = (if from_end then
               (let ns = snd (pmCirclePoint c (ci_angle c - new_angle));
                    t = pmCartCartSub ns (ci_center c)
                in c\<lparr>ci_rTan := t, ci_rPerp := pmCartCartCross (ci_normal c) t, ci_radius := pmCartMag t\<rparr>)
               else c)
         in (PM_OK, c1\<lparr>ci_spiral := ci_spiral c1 * (new_angle / ci_angle c1), ci_angle := new_angle\<rparr>)))"

section \<open>Rotations\<close>

definition pmRotNorm :: "pm_rot \<Rightarrow> int \<times> pm_rot" where
  "pmRotNorm r =
     (let size = pmSqrt (pmSq (r_x r) + pmSq (r_y r) + pmSq (r_z r)) in
      if \<bar>r_s r\<bar> < RS_FUZZ then (PM_OK, \<lparr>r_s = 0, r_x = 0, r_y = 0, r_z = 0\<rparr>)
      else if size = 0 then (PM_NORM_ERR, \<lparr>r_s = 0, r_x = 0, r_y = 0, r_z = 0\<rparr>)
      else (PM_OK, \<lparr>r_s = r_s r, r_x = r_x r / size, r_y = r_y r / size, r_z = r_z r / size\<rparr>))"

definition pmQuatInv :: "pm_quat \<Rightarrow> pm_quat" where
  "pmQuatInv q = \<lparr>q_s = q_s q, q_x = - q_x q, q_y = - q_y q, q_z = - q_z q\<rparr>"

definition pmQuatQuatMult :: "pm_quat \<Rightarrow> pm_quat \<Rightarrow> pm_quat" where
  "pmQuatQuatMult q1 q2 =
     (let s = q_s q1 * q_s q2 - q_x q1 * q_x q2 - q_y q1 * q_y q2 - q_z q1 * q_z q2 in
      if s \<ge> 0 then
        \<lparr>q_s = s,
         q_x = q_s q1 * q_x q2 + q_x q1 * q_s q2 + q_y q1 * q_z q2 - q_z q1 * q_y q2,
         q_y = q_s q1 * q_y q2 - q_x q1 * q_z q2 + q_y q1 * q_s q2 + q_z q1 * q_x q2,
         q_z = q_s q1 * q_z q2 + q_x q1 * q_y q2 - q_y q1 * q_x q2 + q_z q1 * q_s q2\<rparr>
      else
        \<lparr>q_s = s * -1,
         q_x = - q_s q1 * q_x q2 - q_x q1 * q_s q2 - q_y q1 * q_z q2 + q_z q1 * q_y q2,
         q_y = - q_s q1 * q_y q2 + q_x q1 * q_z q2 - q_y q1 * q_s q2 - q_z q1 * q_x q2,
         q_z = - q_s q1 * q_z q2 - q_x q1 * q_y q2 + q_y q1 * q_x q2 - q_z q1 * q_s q2\<rparr>)"

text \<open>
  The same statements when \<open>qout\<close> is \<open>q2\<close>: each assignment changes the operand the next ones read.
\<close>

definition pmQuatQuatMult_onto2 :: "pm_quat \<Rightarrow> pm_quat \<Rightarrow> pm_quat" where
  "pmQuatQuatMult_onto2 q1 q2 =
     (let q = q2\<lparr>q_s := q_s q1 * q_s q2 - q_x q1 * q_x q2 - q_y q1 * q_y q2 - q_z q1 * q_z q2\<rparr> in
      if q_s q \<ge> 0 then
        (let q = q\<lparr>q_x := q_s q1 * q_x q + q_x q1 * q_s q + q_y q1 * q_z q - q_z q1 * q_y q\<rparr>;
             q = q\<lparr>q_y := q_s q1 * q_y q - q_x q1 * q_z q + q_y q1 * q_s q + q_z q1 * q_x q\<rparr>
         in q\<lparr>q_z := q_s q1 * q_z q + q_x q1 * q_y q - q_y q1 * q_x q + q_z q1 * q_s q\<rparr>)
      else
        (let q = q\<lparr>q_s := q_s q * -1\<rparr>;
             q = q\<lparr>q_x := - q_s q1 * q_x q - q_x q1 * q_s q - q_y q1 * q_z q + q_z q1 * q_y q\<rparr>;
             q = q\<lparr>q_y := - q_s q1 * q_y q + q_x q1 * q_z q - q_y q1 * q_s q - q_z q1 * q_x q\<rparr>
         in q\<lparr>q_z := - q_s q1 * q_z q - q_x q1 * q_y q + q_y q1 * q_x q - q_z q1 * q_s q\<rparr>))"

definition pmQuatRotConvert :: "pm_quat \<Rightarrow> pm_rot" where
  "pmQuatRotConvert q =
     (let sh = pmSqrt (pmSq (q_x q) + pmSq (q_y q) + pmSq (q_z q)) in
      if sh > QSIN_FUZZ then
        \<lparr>r_s = 2 * c_atan2 sh (q_s q), r_x = q_x q / sh, r_y = q_y q / sh, r_z = q_z q / sh\<rparr>
      else \<lparr>r_s = 0, r_x = 0, r_y = 0, r_z = 0\<rparr>)"

definition pmQuatMag :: "pm_quat \<Rightarrow> real" where
  "pmQuatMag q = r_s (pmQuatRotConvert q)"

definition pmRotScalMult :: "pm_rot \<Rightarrow> real \<Rightarrow> pm_rot" where
  "pmRotScalMult r s = \<lparr>r_s = r_s r * s, r_x = r_x r, r_y = r_y r, r_z = r_z r\<rparr>"

definition pmRotQuatConvert :: "pm_rot \<Rightarrow> pm_quat" where
  "pmRotQuatConvert r =
     (if pmClose (r_s r) 0 QS_FUZZ then \<lparr>q_s = 1, q_x = 0, q_y = 0, q_z = 0\<rparr>
      else
        (let sh = sin (r_s r / 2); s = cos (r_s r / 2) in
         if s \<ge> 0 then \<lparr>q_s = s, q_x = r_x r * sh, q_y = r_y r * sh, q_z = r_z r * sh\<rparr>
         else \<lparr>q_s = s * -1, q_x = - r_x r * sh, q_y = - r_y r * sh, q_z = - r_z r * sh\<rparr>))"

definition pmQuatScalMult :: "pm_quat \<Rightarrow> real \<Rightarrow> pm_quat" where
  "pmQuatScalMult q s = pmRotQuatConvert (pmRotScalMult (pmQuatRotConvert q) s)"

definition pmQuatNorm :: "pm_quat \<Rightarrow> int \<times> pm_quat" where
  "pmQuatNorm q =
     (let size = pmSqrt (pmSq (q_s q) + pmSq (q_x q) + pmSq (q_y q) + pmSq (q_z q)) in
      if size = 0 then (PM_NORM_ERR, \<lparr>q_s = 1, q_x = 0, q_y = 0, q_z = 0\<rparr>)
      else if q_s q \<ge> 0 then
        (PM_OK, \<lparr>q_s = q_s q / size, q_x = q_x q / size, q_y = q_y q / size, q_z = q_z q / size\<rparr>)
      else
        (PM_OK, \<lparr>q_s = - q_s q / size, q_x = - q_x q / size, q_y = - q_y q / size, q_z = - q_z q / size\<rparr>))"

definition pmQuatCartMult :: "pm_quat \<Rightarrow> pm_cart \<Rightarrow> pm_cart" where
  "pmQuatCartMult q v =
     (let cx = q_y q * c_z v - q_z q * c_y v;
          cy = q_z q * c_x v - q_x q * c_z v;
          cz = q_x q * c_y v - q_y q * c_x v
      in \<lparr>c_x = c_x v + 2 * (q_s q * cx + q_y q * cz - q_z q * cy),
          c_y = c_y v + 2 * (q_s q * cy + q_z q * cx - q_x q * cz),
          c_z = c_z v + 2 * (q_s q * cz + q_x q * cy - q_y q * cx)\<rparr>)"

definition pmCartIsNorm :: "pm_cart \<Rightarrow> bool" where
  "pmCartIsNorm v \<longleftrightarrow> pmSqrt (pmSq (c_x v) + pmSq (c_y v) + pmSq (c_z v)) - 1 < UNIT_VEC_FUZZ"

definition pmQuatIsNorm :: "pm_quat \<Rightarrow> bool" where
  "pmQuatIsNorm q \<longleftrightarrow>
     \<bar>pmSq (q_s q) + pmSq (q_x q) + pmSq (q_y q) + pmSq (q_z q) - 1\<bar> < UNIT_QUAT_FUZZ"

definition pmRotIsNorm :: "pm_rot \<Rightarrow> bool" where
  "pmRotIsNorm r \<longleftrightarrow> \<bar>r_s r\<bar> < RS_FUZZ \<or>
     \<bar>pmSqrt (pmSq (r_x r) + pmSq (r_y r) + pmSq (r_z r))\<bar> - 1 < UNIT_VEC_FUZZ"

definition pmMatIsNorm :: "pm_mat \<Rightarrow> bool" where
  "pmMatIsNorm m \<longleftrightarrow> pmCartIsNorm (m_x m) \<and> pmCartIsNorm (m_y m) \<and> pmCartIsNorm (m_z m) \<and>
     pmCartCartCompare (pmCartCartCross (m_x m) (m_y m)) (m_z m)"

definition pmQuatQuatCompare :: "pm_quat \<Rightarrow> pm_quat \<Rightarrow> bool" where
  "pmQuatQuatCompare q1 q2 \<longleftrightarrow>
     (if \<bar>q_s q1 - q_s q2\<bar> < Q_FUZZ \<and> \<bar>q_x q1 - q_x q2\<bar> < Q_FUZZ \<and>
         \<bar>q_y q1 - q_y q2\<bar> < Q_FUZZ \<and> \<bar>q_z q1 - q_z q2\<bar> < Q_FUZZ then True
      else if \<bar>q_s q1\<bar> \<ge> QS_FUZZ \<or> \<bar>q_x q1 + q_x q2\<bar> \<ge> Q_FUZZ \<or>
         \<bar>q_y q1 + q_y q2\<bar> \<ge> Q_FUZZ \<or> \<bar>q_z q1 + q_z q2\<bar> \<ge> Q_FUZZ then False
      else True)"

section \<open>Matrices and the conversions between representations\<close>

definition pmMatInv :: "pm_mat \<Rightarrow> pm_mat" where
  "pmMatInv m =
     \<lparr>m_x = \<lparr>c_x = c_x (m_x m), c_y = c_x (m_y m), c_z = c_x (m_z m)\<rparr>,
      m_y = \<lparr>c_x = c_y (m_x m), c_y = c_y (m_y m), c_z = c_y (m_z m)\<rparr>,
      m_z = \<lparr>c_x = c_z (m_x m), c_y = c_z (m_y m), c_z = c_z (m_z m)\<rparr>\<rparr>"

definition pmMatCartMult :: "pm_mat \<Rightarrow> pm_cart \<Rightarrow> pm_cart" where
  "pmMatCartMult m v =
     \<lparr>c_x = c_x (m_x m) * c_x v + c_x (m_y m) * c_y v + c_x (m_z m) * c_z v,
      c_y = c_y (m_x m) * c_x v + c_y (m_y m) * c_y v + c_y (m_z m) * c_z v,
      c_z = c_z (m_x m) * c_x v + c_z (m_y m) * c_y v + c_z (m_z m) * c_z v\<rparr>"

text \<open>Column \<open>j\<close> of the product is \<open>m1\<close> applied to column \<open>j\<close> of \<open>m2\<close>, written out in the source.\<close>

definition pmMatMatMult :: "pm_mat \<Rightarrow> pm_mat \<Rightarrow> pm_mat" where
  "pmMatMatMult m1 m2 =
     \<lparr>m_x = \<lparr>c_x = c_x (m_x m1) * c_x (m_x m2) + c_x (m_y m1) * c_y (m_x m2) + c_x (m_z m1) * c_z (m_x m2),
             c_y = c_y (m_x m1) * c_x (m_x m2) + c_y (m_y m1) * c_y (m_x m2) + c_y (m_z m1) * c_z (m_x m2),
             c_z = c_z (m_x m1) * c_x (m_x m2) + c_z (m_y m1) * c_y (m_x m2) + c_z (m_z m1) * c_z (m_x m2)\<rparr>,
      m_y = \<lparr>c_x = c_x (m_x m1) * c_x (m_y m2) + c_x (m_y m1) * c_y (m_y m2) + c_x (m_z m1) * c_z (m_y m2),
             c_y = c_y (m_x m1) * c_x (m_y m2) + c_y (m_y m1) * c_y (m_y m2) + c_y (m_z m1) * c_z (m_y m2),
             c_z = c_z (m_x m1) * c_x (m_y m2) + c_z (m_y m1) * c_y (m_y m2) + c_z (m_z m1) * c_z (m_y m2)\<rparr>,
      m_z = \<lparr>c_x = c_x (m_x m1) * c_x (m_z m2) + c_x (m_y m1) * c_y (m_z m2) + c_x (m_z m1) * c_z (m_z m2),
             c_y = c_y (m_x m1) * c_x (m_z m2) + c_y (m_y m1) * c_y (m_z m2) + c_y (m_z m1) * c_z (m_z m2),
             c_z = c_z (m_x m1) * c_x (m_z m2) + c_z (m_y m1) * c_y (m_z m2) + c_z (m_z m1) * c_z (m_z m2)\<rparr>\<rparr>"

definition pmRotMatConvert :: "pm_rot \<Rightarrow> pm_mat" where
  "pmRotMatConvert r =
     (let s = sin (r_s r); c = cos (r_s r); omc = 1 - c in
      \<lparr>m_x = \<lparr>c_x = c + pmSq (r_x r) * omc,
              c_y = r_z r * s + r_y r * r_x r * omc,
              c_z = - r_y r * s + r_z r * r_x r * omc\<rparr>,
       m_y = \<lparr>c_x = - r_z r * s + r_x r * r_y r * omc,
              c_y = c + pmSq (r_y r) * omc,
              c_z = r_x r * s + r_z r * r_y r * omc\<rparr>,
       m_z = \<lparr>c_x = r_y r * s + r_x r * r_z r * omc,
              c_y = - r_x r * s + r_y r * r_z r * omc,
              c_z = c + pmSq (r_z r) * omc\<rparr>\<rparr>)"

definition pmQuatMatConvert :: "pm_quat \<Rightarrow> pm_mat" where
  "pmQuatMatConvert q =
     \<lparr>m_x = \<lparr>c_x = 1 - 2 * (pmSq (q_y q) + pmSq (q_z q)),
             c_y = 2 * (q_x q * q_y q + q_z q * q_s q),
             c_z = 2 * (q_z q * q_x q - q_y q * q_s q)\<rparr>,
      m_y = \<lparr>c_x = 2 * (q_x q * q_y q - q_z q * q_s q),
             c_y = 1 - 2 * (pmSq (q_z q) + pmSq (q_x q)),
             c_z = 2 * (q_y q * q_z q + q_x q * q_s q)\<rparr>,
      m_z = \<lparr>c_x = 2 * (q_z q * q_x q + q_y q * q_s q),
             c_y = 2 * (q_y q * q_z q - q_x q * q_s q),
             c_z = 1 - 2 * (pmSq (q_x q) + pmSq (q_y q))\<rparr>\<rparr>"

definition pmRpyMatConvert :: "pm_rpy \<Rightarrow> pm_mat" where
  "pmRpyMatConvert rpy =
     (let sa = sin (rpy_y rpy); sb = sin (rpy_p rpy); sg = sin (rpy_r rpy);
          ca = cos (rpy_y rpy); cb = cos (rpy_p rpy); cg = cos (rpy_r rpy)
      in \<lparr>m_x = \<lparr>c_x = ca * cb, c_y = sa * cb, c_z = - sb\<rparr>,
          m_y = \<lparr>c_x = ca * sb * sg - sa * cg, c_y = sa * sb * sg + ca * cg, c_z = cb * sg\<rparr>,
          m_z = \<lparr>c_x = ca * sb * cg + sa * sg, c_y = sa * sb * cg - ca * sg, c_z = cb * cg\<rparr>\<rparr>)"

definition pmZyzMatConvert :: "pm_zyz \<Rightarrow> pm_mat" where
  "pmZyzMatConvert zyz =
     (let sa = sin (zyz_z zyz); sb = sin (zyz_y zyz); sg = sin (zyz_zp zyz);
          ca = cos (zyz_z zyz); cb = cos (zyz_y zyz); cg = cos (zyz_zp zyz)
      in \<lparr>m_x = \<lparr>c_x = ca * cb * cg - sa * sg, c_y = sa * cb * cg + ca * sg, c_z = - sb * cg\<rparr>,
          m_y = \<lparr>c_x = - ca * cb * sg - sa * cg, c_y = - sa * cb * sg + ca * cg, c_z = sb * sg\<rparr>,
          m_z = \<lparr>c_x = ca * sb, c_y = sa * sb, c_z = cb\<rparr>\<rparr>)"

definition pmZyxMatConvert :: "pm_zyx \<Rightarrow> pm_mat" where
  "pmZyxMatConvert zyx =
     (let sa = sin (zyx_z zyx); sb = sin (zyx_y zyx); sg = sin (zyx_x zyx);
          ca = cos (zyx_z zyx); cb = cos (zyx_y zyx); cg = cos (zyx_x zyx)
      in \<lparr>m_x = \<lparr>c_x = ca * cb, c_y = sa * cb, c_z = - sb\<rparr>,
          m_y = \<lparr>c_x = ca * sb * sg - sa * cg, c_y = sa * sb * sg + ca * cg, c_z = cb * sg\<rparr>,
          m_z = \<lparr>c_x = ca * sb * cg + sa * sg, c_y = sa * sb * cg - ca * sg, c_z = cb * cg\<rparr>\<rparr>)"

text \<open>
  \<open>pmMatQuatConvert\<close> ends in \<open>pmQuatNorm(q, q)\<close>, whose output aliases its input: in the branch for
  a non-negative scalar part each component is divided once, by a size computed before.
\<close>

definition mat_quat_raw :: "pm_mat \<Rightarrow> pm_quat" where
  "mat_quat_raw m =
     (let s = 0.5 * pmSqrt (1 + c_x (m_x m) + c_y (m_y m) + c_z (m_z m)) in
      if \<bar>s\<bar> > QS_FUZZ then
        (let a = 4 * s in
         \<lparr>q_s = s, q_x = (c_z (m_y m) - c_y (m_z m)) / a,
          q_y = (c_x (m_z m) - c_z (m_x m)) / a, q_z = (c_y (m_x m) - c_x (m_y m)) / a\<rparr>)
      else
        (let x = pmSqrt (1 + c_x (m_x m) - c_y (m_y m) - c_z (m_z m)) / 2;
             y = pmSqrt (1 + c_y (m_y m) - c_x (m_x m) - c_z (m_z m)) / 2;
             z = pmSqrt (1 + c_z (m_z m) - c_y (m_y m) - c_x (m_x m)) / 2
         in if x > y \<and> x > z then
              \<lparr>q_s = 0, q_x = x, q_y = (if c_y (m_x m) < 0 then y * -1 else y),
               q_z = (if c_z (m_x m) < 0 then z * -1 else z)\<rparr>
            else if y > z then
              \<lparr>q_s = 0, q_x = (if c_y (m_x m) < 0 then x * -1 else x), q_y = y,
               q_z = (if c_z (m_y m) < 0 then z * -1 else z)\<rparr>
            else
              \<lparr>q_s = 0, q_x = (if c_z (m_x m) < 0 then x * -1 else x),
               q_y = (if c_z (m_y m) < 0 then y * -1 else y), q_z = z\<rparr>))"

definition pmMatQuatConvert :: "pm_mat \<Rightarrow> int \<times> pm_quat" where
  "pmMatQuatConvert m = pmQuatNorm (mat_quat_raw m)"

definition pmZyzQuatConvert :: "pm_zyz \<Rightarrow> int \<times> pm_quat" where
  "pmZyzQuatConvert zyz =
     (case pmMatQuatConvert (pmZyzMatConvert zyz) of (r2, q) \<Rightarrow>
        (if r2 \<noteq> PM_OK then PM_NORM_ERR else PM_OK, q))"

definition pmZyxQuatConvert :: "pm_zyx \<Rightarrow> int \<times> pm_quat" where
  "pmZyxQuatConvert zyx =
     (case pmMatQuatConvert (pmZyxMatConvert zyx) of (r2, q) \<Rightarrow>
        (if r2 \<noteq> PM_OK then PM_NORM_ERR else PM_OK, q))"

definition pmRpyQuatConvert :: "pm_rpy \<Rightarrow> int \<times> pm_quat" where
  "pmRpyQuatConvert rpy =
     (case pmMatQuatConvert (pmRpyMatConvert rpy) of (r2, q) \<Rightarrow>
        (if r2 \<noteq> PM_OK then PM_NORM_ERR else PM_OK, q))"

definition quat_positive :: "pm_quat \<Rightarrow> pm_quat" where
  "quat_positive q =
     (if q_s q < 0 then \<lparr>q_s = q_s q * -1, q_x = q_x q * -1, q_y = q_y q * -1, q_z = q_z q * -1\<rparr> else q)"

definition pmAxisAngleQuatConvert :: "pm_axis \<Rightarrow> real \<Rightarrow> pm_quat" where
  "pmAxisAngleQuatConvert axis a =
     (let sh = sin (a * 0.5); ch = cos (a * 0.5) in
      quat_positive
        (case axis of
           PM_X \<Rightarrow> \<lparr>q_s = ch, q_x = sh, q_y = 0, q_z = 0\<rparr>
         | PM_Y \<Rightarrow> \<lparr>q_s = ch, q_x = 0, q_y = sh, q_z = 0\<rparr>
         | PM_Z \<Rightarrow> \<lparr>q_s = ch, q_x = 0, q_y = 0, q_z = sh\<rparr>))"

definition pmQuatAxisAngleMult :: "pm_quat \<Rightarrow> pm_axis \<Rightarrow> real \<Rightarrow> pm_quat" where
  "pmQuatAxisAngleMult q axis angle =
     (let sh = sin (angle * 0.5); ch = cos (angle * 0.5) in
      quat_positive
        (case axis of
           PM_X \<Rightarrow> \<lparr>q_s = ch * q_s q - sh * q_x q, q_x = ch * q_x q + sh * q_s q,
                    q_y = ch * q_y q + sh * q_z q, q_z = ch * q_z q - sh * q_y q\<rparr>
         | PM_Y \<Rightarrow> \<lparr>q_s = ch * q_s q - sh * q_y q, q_x = ch * q_x q - sh * q_z q,
                    q_y = ch * q_y q + sh * q_s q, q_z = ch * q_z q + sh * q_x q\<rparr>
         | PM_Z \<Rightarrow> \<lparr>q_s = ch * q_s q - sh * q_z q, q_x = ch * q_x q + sh * q_y q,
                    q_y = ch * q_y q - sh * q_x q, q_z = ch * q_z q + sh * q_s q\<rparr>))"

definition pmMatZyzConvert :: "pm_mat \<Rightarrow> pm_zyz" where
  "pmMatZyzConvert m =
     (let y = c_atan2 (pmSqrt (pmSq (c_z (m_x m)) + pmSq (c_z (m_y m)))) (c_z (m_z m)) in
      if \<bar>y\<bar> < ZYZ_Y_FUZZ then
        \<lparr>zyz_z = 0, zyz_y = 0, zyz_zp = c_atan2 (- c_x (m_y m)) (c_x (m_x m))\<rparr>
      else if \<bar>y - PM_PI\<bar> < ZYZ_Y_FUZZ then
        \<lparr>zyz_z = 0, zyz_y = PM_PI, zyz_zp = c_atan2 (c_x (m_y m)) (- c_x (m_x m))\<rparr>
      else
        \<lparr>zyz_z = c_atan2 (c_y (m_z m)) (c_x (m_z m)), zyz_y = y,
         zyz_zp = c_atan2 (c_z (m_y m)) (- c_z (m_x m))\<rparr>)"

definition pmMatZyxConvert :: "pm_mat \<Rightarrow> pm_zyx" where
  "pmMatZyxConvert m =
     (let y = c_atan2 (- c_z (m_x m)) (pmSqrt (pmSq (c_x (m_x m)) + pmSq (c_y (m_x m)))) in
      if \<bar>y - PM_PI_2\<bar> < ZYX_Y_FUZZ then
        \<lparr>zyx_z = 0, zyx_y = PM_PI_2, zyx_x = c_atan2 (c_x (m_y m)) (c_y (m_y m))\<rparr>
      else if \<bar>y + PM_PI_2\<bar> < ZYX_Y_FUZZ then
        \<lparr>zyx_z = 0, zyx_y = - PM_PI_2, zyx_x = - c_atan2 (c_z (m_y m)) (c_y (m_y m))\<rparr>
      else
        \<lparr>zyx_z = c_atan2 (c_y (m_x m)) (c_x (m_x m)), zyx_y = y,
         zyx_x = c_atan2 (c_z (m_y m)) (c_z (m_z m))\<rparr>)"

definition pmMatRpyConvert :: "pm_mat \<Rightarrow> pm_rpy" where
  "pmMatRpyConvert m =
     (let p = c_atan2 (- c_z (m_x m)) (pmSqrt (pmSq (c_x (m_x m)) + pmSq (c_y (m_x m)))) in
      if \<bar>p - PM_PI_2\<bar> < RPY_P_FUZZ then
        \<lparr>rpy_r = c_atan2 (c_x (m_y m)) (c_y (m_y m)), rpy_p = PM_PI_2, rpy_y = 0\<rparr>
      else if \<bar>p + PM_PI_2\<bar> < RPY_P_FUZZ then
        \<lparr>rpy_r = - c_atan2 (c_x (m_y m)) (c_y (m_y m)), rpy_p = - PM_PI_2, rpy_y = 0\<rparr>
      else
        \<lparr>rpy_r = c_atan2 (c_z (m_y m)) (c_z (m_z m)), rpy_p = p,
         rpy_y = c_atan2 (c_y (m_x m)) (c_x (m_x m))\<rparr>)"

definition pmQuatZyzConvert :: "pm_quat \<Rightarrow> pm_zyz" where
  "pmQuatZyzConvert q = pmMatZyzConvert (pmQuatMatConvert q)"

definition pmQuatZyxConvert :: "pm_quat \<Rightarrow> pm_zyx" where
  "pmQuatZyxConvert q = pmMatZyxConvert (pmQuatMatConvert q)"

definition pmQuatRpyConvert :: "pm_quat \<Rightarrow> pm_rpy" where
  "pmQuatRpyConvert q = pmMatRpyConvert (pmQuatMatConvert q)"

section \<open>Cylindrical and spherical coordinates\<close>

definition pmCylCartConvert :: "pm_cyl \<Rightarrow> pm_cart" where
  "pmCylCartConvert c =
     \<lparr>c_x = cy_r c * cos (cy_theta c), c_y = cy_r c * sin (cy_theta c), c_z = cy_z c\<rparr>"

definition pmCartCylConvert :: "pm_cart \<Rightarrow> pm_cyl" where
  "pmCartCylConvert v =
     \<lparr>cy_theta = c_atan2 (c_y v) (c_x v), cy_r = pmSqrt (pmSq (c_x v) + pmSq (c_y v)), cy_z = c_z v\<rparr>"

definition pmSphCartConvert :: "pm_sph \<Rightarrow> pm_cart" where
  "pmSphCartConvert s =
     (let r = sp_r s * sin (sp_phi s) in
      \<lparr>c_x = r * cos (sp_theta s), c_y = r * sin (sp_theta s), c_z = sp_r s * cos (sp_phi s)\<rparr>)"

definition pmCartSphConvert :: "pm_cart \<Rightarrow> pm_sph" where
  "pmCartSphConvert v =
     \<lparr>sp_theta = c_atan2 (c_y v) (c_x v),
      sp_phi = c_atan2 (pmSqrt (pmSq (c_x v) + pmSq (c_y v))) (c_z v),
      sp_r = pmSqrt (pmSq (c_x v) + pmSq (c_y v) + pmSq (c_z v))\<rparr>"

definition pmCylSphConvert :: "pm_cyl \<Rightarrow> pm_sph" where
  "pmCylSphConvert c =
     \<lparr>sp_theta = cy_theta c, sp_phi = c_atan2 (cy_z c) (cy_r c),
      sp_r = pmSqrt (pmSq (cy_r c) + pmSq (cy_z c))\<rparr>"

definition pmSphCylConvert :: "pm_sph \<Rightarrow> pm_cyl" where
  "pmSphCylConvert s =
     \<lparr>cy_theta = sp_theta s, cy_r = sp_r s * cos (sp_phi s), cy_z = sp_r s * sin (sp_phi s)\<rparr>"

section \<open>Poses\<close>

definition pmPoseInv :: "pm_pose \<Rightarrow> pm_pose" where
  "pmPoseInv p =
     (let rot = pmQuatInv (po_rot p); t = pmQuatCartMult rot (po_tran p) in
      \<lparr>po_tran = \<lparr>c_x = c_x t * -1, c_y = c_y t * -1, c_z = c_z t * -1\<rparr>, po_rot = rot\<rparr>)"

definition pmPoseCartMult :: "pm_pose \<Rightarrow> pm_cart \<Rightarrow> pm_cart" where
  "pmPoseCartMult p v = pmCartCartAdd (po_tran p) (pmQuatCartMult (po_rot p) v)"

definition pmPosePoseMult :: "pm_pose \<Rightarrow> pm_pose \<Rightarrow> pm_pose" where
  "pmPosePoseMult p1 p2 =
     \<lparr>po_tran = pmCartCartAdd (po_tran p1) (pmQuatCartMult (po_rot p1) (po_tran p2)),
      po_rot = pmQuatQuatMult (po_rot p1) (po_rot p2)\<rparr>"

definition pmPosePoseCompare :: "pm_pose \<Rightarrow> pm_pose \<Rightarrow> bool" where
  "pmPosePoseCompare p1 p2 \<longleftrightarrow>
     pmQuatQuatCompare (po_rot p1) (po_rot p2) \<and> pmCartCartCompare (po_tran p1) (po_tran p2)"

definition pmHomPoseConvert :: "pm_hom \<Rightarrow> int \<times> pm_pose" where
  "pmHomPoseConvert h =
     (case pmMatQuatConvert (ho_rot h) of (r1, q) \<Rightarrow> (r1, \<lparr>po_tran = ho_tran h, po_rot = q\<rparr>))"

definition pmPoseHomConvert :: "pm_pose \<Rightarrow> pm_hom" where
  "pmPoseHomConvert p = \<lparr>ho_tran = po_tran p, ho_rot = pmQuatMatConvert (po_rot p)\<rparr>"

definition pmHomInv :: "pm_hom \<Rightarrow> pm_hom" where
  "pmHomInv h =
     (let rot = pmMatInv (ho_rot h); t = pmMatCartMult rot (ho_tran h) in
      \<lparr>ho_tran = \<lparr>c_x = c_x t * -1, c_y = c_y t * -1, c_z = c_z t * -1\<rparr>, ho_rot = rot\<rparr>)"

definition pmLineInit :: "pm_pose \<Rightarrow> pm_pose \<Rightarrow> int \<times> pm_line" where
  "pmLineInit start en =
     (let q0 = pmQuatQuatMult (pmQuatInv (po_rot start)) (po_rot en);
          rmag = pmQuatMag q0;
          q = (if rmag > Q_FUZZ then pmQuatScalMult q0 (1 / rmag) else q0);
          u0 = pmCartCartSub (po_tran en) (po_tran start);
          tmag = pmCartMag u0;
          (r2, u) = (if IS_FUZZ tmag CART_FUZZ then (PM_OK, \<lparr>c_x = 1, c_y = 0, c_z = 0\<rparr>) else pmCartUnit u0)
      in (if r2 \<noteq> PM_OK then PM_NORM_ERR else PM_OK,
          \<lparr>ln_start = start, ln_end = en, ln_uVec = u, ln_qVec = q, ln_tmag = tmag, ln_rmag = rmag,
           ln_tmag_zero = (tmag \<le> CART_FUZZ), ln_rmag_zero = (rmag \<le> Q_FUZZ)\<rparr>))"

definition pmLinePoint :: "pm_line \<Rightarrow> real \<Rightarrow> pm_pose" where
  "pmLinePoint line len =
     \<lparr>po_tran = (if ln_tmag_zero line then po_tran (ln_end line)
        else pmCartCartAdd (po_tran (ln_start line)) (pmCartScalMult (ln_uVec line) len)),
      po_rot = (if ln_rmag_zero line then po_rot (ln_end line)
        else pmQuatQuatMult_onto2 (po_rot (ln_start line))
          (if ln_tmag_zero line then pmQuatScalMult (ln_qVec line) len
           else pmQuatScalMult (ln_qVec line) (len * ln_rmag line / ln_tmag line)))\<rparr>"

end
