(* ===== verification/PosemathProps.thy ===== *)
theory PosemathProps
  imports Posemath
begin

text \<open>
  The algebra of the pose mathematics: unit quaternions act as rotations, composition of poses is
  composition of their actions, the conversions to matrices give orthogonal matrices, the line and
  the coordinate conversions round trip. Where the code departs from this, the departure is proved.
\<close>

named_theorems pm_defs \<open>definitions of the vector operations\<close>

lemmas [pm_defs] = pmSq_def pmCartCartSub_def pmCartCartAdd_def pmCartCartDot_def pmCartScalMult_def
  pmCartScalMultEq_def pmCartMagSq_def

section \<open>Square roots and magnitudes\<close>

lemma pmSqrt_eq: "0 \<le> x \<Longrightarrow> pmSqrt x = sqrt x"
  by (simp add: pmSqrt_def)

lemma sum_sq_nonneg: "0 \<le> a * a + b * b + (c * c :: real)" "0 \<le> a * a + (b * b :: real)"
  by (simp_all add: add_nonneg_nonneg)

lemma pmCartMag_sq: "pmCartMag v * pmCartMag v = pmCartMagSq v"
  using sum_sq_nonneg by (simp add: pmCartMag_def pmCartMagSq_def pmSqrt_eq pmSq_def)

lemma pmCartMag_nonneg: "0 \<le> pmCartMag v"
  using sum_sq_nonneg by (simp add: pmCartMag_def pmSqrt_eq pmSq_def)

lemma pmCartMag_0: "pmCartMag v = 0 \<longleftrightarrow> c_x v = 0 \<and> c_y v = 0 \<and> c_z v = 0"
  using sum_sq_nonneg
  by (auto simp: pmCartMag_def pmSqrt_eq pmSq_def add_nonneg_eq_0_iff)

section \<open>Quaternions as rotations\<close>

definition quat_norm2 :: "pm_quat \<Rightarrow> real" where
  "quat_norm2 q = q_s q * q_s q + q_x q * q_x q + q_y q * q_y q + q_z q * q_z q"

text \<open>The Hamilton product, without the code's choice of sign.\<close>

definition ham :: "pm_quat \<Rightarrow> pm_quat \<Rightarrow> pm_quat" where
  "ham a b =
     \<lparr>q_s = q_s a * q_s b - q_x a * q_x b - q_y a * q_y b - q_z a * q_z b,
      q_x = q_s a * q_x b + q_x a * q_s b + q_y a * q_z b - q_z a * q_y b,
      q_y = q_s a * q_y b - q_x a * q_z b + q_y a * q_s b + q_z a * q_x b,
      q_z = q_s a * q_z b + q_x a * q_y b - q_y a * q_x b + q_z a * q_s b\<rparr>"

definition quat_neg :: "pm_quat \<Rightarrow> pm_quat" where
  "quat_neg q = \<lparr>q_s = - q_s q, q_x = - q_x q, q_y = - q_y q, q_z = - q_z q\<rparr>"

lemma pmQuatQuatMult_ham:
  "pmQuatQuatMult a b = (if q_s (ham a b) \<ge> 0 then ham a b else quat_neg (ham a b))"
  by (simp add: pmQuatQuatMult_def ham_def quat_neg_def Let_def)

lemma quat_norm2_neg [simp]: "quat_norm2 (quat_neg q) = quat_norm2 q"
  by (simp add: quat_norm2_def quat_neg_def)

lemma ham_norm: "quat_norm2 (ham a b) = quat_norm2 a * quat_norm2 b"
  by (simp add: quat_norm2_def ham_def algebra_simps)

lemma quat_neg_act [simp]: "pmQuatCartMult (quat_neg q) v = pmQuatCartMult q v"
  by (simp add: pmQuatCartMult_def quat_neg_def Let_def algebra_simps)

text \<open>A unit quaternion acts as its rotation matrix.\<close>

lemma quat_mat_act:
  "pmMatCartMult (pmQuatMatConvert q) v = pmQuatCartMult q v"
  by (simp add: pmMatCartMult_def pmQuatMatConvert_def pmQuatCartMult_def pmSq_def Let_def algebra_simps)

lemma quat_act_add:
  "pmQuatCartMult q (pmCartCartAdd u v) = pmCartCartAdd (pmQuatCartMult q u) (pmQuatCartMult q v)"
  by (simp add: pmQuatCartMult_def pmCartCartAdd_def Let_def algebra_simps)

text \<open>The action without the assumption of unit length, as a product with the conjugate.\<close>

definition rot_act :: "pm_quat \<Rightarrow> pm_cart \<Rightarrow> pm_quat" where
  "rot_act q v = ham (ham q \<lparr>q_s = 0, q_x = c_x v, q_y = c_y v, q_z = c_z v\<rparr>) (pmQuatInv q)"

lemma ham_assoc: "ham (ham a b) c = ham a (ham b c)"
  by (simp add: ham_def algebra_simps)

lemma inv_ham: "pmQuatInv (ham a b) = ham (pmQuatInv b) (pmQuatInv a)"
  by (simp add: ham_def pmQuatInv_def algebra_simps)

lemma rot_act_ham:
  "rot_act (ham a b) v = ham (ham a (rot_act b v)) (pmQuatInv a)"
  by (simp add: rot_act_def inv_ham ham_assoc)

lemma rot_act_unit:
  assumes "quat_norm2 q = 1"
  shows "rot_act q v = \<lparr>q_s = 0, q_x = c_x (pmQuatCartMult q v), q_y = c_y (pmQuatCartMult q v),
    q_z = c_z (pmQuatCartMult q v)\<rparr>"
proof -
  let ?n = "q_s q * q_s q + q_x q * q_x q + q_y q * q_y q + q_z q * q_z q"
  have n: "x = x * ?n" for x :: real using assms by (simp add: quat_norm2_def)
  have "c_x (pmQuatCartMult q v) = q_x (rot_act q v)"
    by (simp add: pmQuatCartMult_def rot_act_def ham_def pmQuatInv_def Let_def)
      (subst n [of "c_x v"], simp add: algebra_simps)
  moreover have "c_y (pmQuatCartMult q v) = q_y (rot_act q v)"
    by (simp add: pmQuatCartMult_def rot_act_def ham_def pmQuatInv_def Let_def)
      (subst n [of "c_y v"], simp add: algebra_simps)
  moreover have "c_z (pmQuatCartMult q v) = q_z (rot_act q v)"
    by (simp add: pmQuatCartMult_def rot_act_def ham_def pmQuatInv_def Let_def)
      (subst n [of "c_z v"], simp add: algebra_simps)
  moreover have "q_s (rot_act q v) = 0"
    by (simp add: rot_act_def ham_def pmQuatInv_def algebra_simps)
  ultimately show ?thesis by simp
qed

lemma quat_act_comp:
  assumes "quat_norm2 a = 1" "quat_norm2 b = 1"
  shows "pmQuatCartMult (pmQuatQuatMult a b) v = pmQuatCartMult a (pmQuatCartMult b v)"
proof -
  have n: "quat_norm2 (ham a b) = 1" using assms by (simp add: ham_norm)
  have "rot_act (ham a b) v = rot_act a (pmQuatCartMult b v)"
    unfolding rot_act_ham rot_act_unit [OF assms(2)] by (simp add: rot_act_def)
  then have "pmQuatCartMult (ham a b) v = pmQuatCartMult a (pmQuatCartMult b v)"
    unfolding rot_act_unit [OF n] rot_act_unit [OF assms(1)] by (simp add: pm_cart.equality)
  then show ?thesis by (simp add: pmQuatQuatMult_ham)
qed

lemma quat_inv_norm [simp]: "quat_norm2 (pmQuatInv q) = quat_norm2 q"
  by (simp add: quat_norm2_def pmQuatInv_def)

lemma quat_inv_mult:
  assumes "quat_norm2 q = 1"
  shows "pmQuatQuatMult (pmQuatInv q) q = \<lparr>q_s = 1, q_x = 0, q_y = 0, q_z = 0\<rparr>"
  using assms by (simp add: pmQuatQuatMult_def pmQuatInv_def quat_norm2_def Let_def)

lemma quat_id_act [simp]: "pmQuatCartMult \<lparr>q_s = 1, q_x = 0, q_y = 0, q_z = 0\<rparr> v = v"
  by (simp add: pmQuatCartMult_def)

lemma quat_inv_act:
  assumes "quat_norm2 q = 1"
  shows "pmQuatCartMult (pmQuatInv q) (pmQuatCartMult q v) = v"
  using assms quat_act_comp [of "pmQuatInv q" q v] by (simp add: quat_inv_mult)

text \<open>C7: poses compose. For poses with unit rotations the product of two poses acts on a point as
  one after the other, its rotation is a unit again, and the inverse pose undoes the pose.\<close>

theorem pmPosePoseMult_acts:
  assumes "quat_norm2 (po_rot p1) = 1" "quat_norm2 (po_rot p2) = 1"
  shows "pmPoseCartMult (pmPosePoseMult p1 p2) v = pmPoseCartMult p1 (pmPoseCartMult p2 v)
    \<and> quat_norm2 (po_rot (pmPosePoseMult p1 p2)) = 1
    \<and> pmPoseCartMult (pmPoseInv p1) (pmPoseCartMult p1 v) = v"
proof (intro conjI)
  show "pmPoseCartMult (pmPosePoseMult p1 p2) v = pmPoseCartMult p1 (pmPoseCartMult p2 v)"
    using assms
    by (simp add: pmPoseCartMult_def pmPosePoseMult_def quat_act_comp quat_act_add)
      (simp add: pmCartCartAdd_def)
  show "quat_norm2 (po_rot (pmPosePoseMult p1 p2)) = 1"
    using assms by (simp add: pmPosePoseMult_def pmQuatQuatMult_ham ham_norm)
  have "pmQuatCartMult (pmQuatInv (po_rot p1)) (pmQuatCartMult (po_rot p1) v) = v"
    by (rule quat_inv_act [OF assms(1)])
  then show "pmPoseCartMult (pmPoseInv p1) (pmPoseCartMult p1 v) = v"
    by (simp add: pmPoseCartMult_def pmPoseInv_def Let_def quat_act_add) (simp add: pmCartCartAdd_def)
qed

text \<open>A quarter turn about z with an offset, and a half turn about x.\<close>

definition pose_a :: pm_pose where
  "pose_a = \<lparr>po_tran = \<lparr>c_x = 1, c_y = 2, c_z = 3\<rparr>, po_rot = \<lparr>q_s = 3 / 5, q_x = 0, q_y = 0, q_z = 4 / 5\<rparr>\<rparr>"

definition pose_b :: pm_pose where
  "pose_b = \<lparr>po_tran = \<lparr>c_x = 0, c_y = 0, c_z = 1\<rparr>, po_rot = \<lparr>q_s = 0, q_x = 1, q_y = 0, q_z = 0\<rparr>\<rparr>"

theorem pmPosePoseMult_acts_witness:
  "pmPoseCartMult (pmPosePoseMult pose_a pose_b) \<lparr>c_x = 1, c_y = 0, c_z = 0\<rparr> =
   pmPoseCartMult pose_a (pmPoseCartMult pose_b \<lparr>c_x = 1, c_y = 0, c_z = 0\<rparr>)"
  using pmPosePoseMult_acts [of pose_a pose_b]
  by (simp add: pose_a_def pose_b_def quat_norm2_def)

section \<open>Rotation matrices\<close>

definition mat_id :: pm_mat where
  "mat_id = \<lparr>m_x = \<lparr>c_x = 1, c_y = 0, c_z = 0\<rparr>, m_y = \<lparr>c_x = 0, c_y = 1, c_z = 0\<rparr>,
     m_z = \<lparr>c_x = 0, c_y = 0, c_z = 1\<rparr>\<rparr>"

text \<open>The columns are orthonormal: all that \<open>pmMatInv\<close> needs to be the inverse.\<close>

definition mat_ortho :: "pm_mat \<Rightarrow> bool" where
  "mat_ortho m \<longleftrightarrow>
     pmCartCartDot (m_x m) (m_x m) = 1 \<and> pmCartCartDot (m_y m) (m_y m) = 1 \<and>
     pmCartCartDot (m_z m) (m_z m) = 1 \<and> pmCartCartDot (m_x m) (m_y m) = 0 \<and>
     pmCartCartDot (m_y m) (m_z m) = 0 \<and> pmCartCartDot (m_x m) (m_z m) = 0"

lemma mat_ortho_inv: "mat_ortho m \<Longrightarrow> pmMatMatMult (pmMatInv m) m = mat_id"
  by (simp add: mat_ortho_def pmMatMatMult_def pmMatInv_def mat_id_def pmCartCartDot_def algebra_simps)

lemma mat_ortho_dot:
  assumes "mat_ortho m"
  shows "pmCartCartDot (pmMatCartMult m u) (pmMatCartMult m v) = pmCartCartDot u v"
proof -
  have "pmCartCartDot (pmMatCartMult m u) (pmMatCartMult m v) =
      c_x u * c_x v * pmCartCartDot (m_x m) (m_x m) + c_y u * c_y v * pmCartCartDot (m_y m) (m_y m)
      + c_z u * c_z v * pmCartCartDot (m_z m) (m_z m)
      + (c_x u * c_y v + c_y u * c_x v) * pmCartCartDot (m_x m) (m_y m)
      + (c_y u * c_z v + c_z u * c_y v) * pmCartCartDot (m_y m) (m_z m)
      + (c_x u * c_z v + c_z u * c_x v) * pmCartCartDot (m_x m) (m_z m)"
    by (simp add: pmCartCartDot_def pmMatCartMult_def algebra_simps)
  with assms show ?thesis by (simp add: mat_ortho_def pmCartCartDot_def)
qed

lemma sin_sq: "sin (x::real) * sin x = 1 - cos x * cos x"
  using sin_cos_squared_add3 [of x] by linarith

lemma quat_mat_ortho:
  assumes "quat_norm2 q = 1"
  shows "mat_ortho (pmQuatMatConvert q)"
proof -
  have s: "q_s q * q_s q = 1 - q_x q * q_x q - q_y q * q_y q - q_z q * q_z q"
    using assms by (simp add: quat_norm2_def)
  have s2: "q_s q * (q_s q * a) = (1 - q_x q * q_x q - q_y q * q_y q - q_z q * q_z q) * a" for a
    by (simp add: s [symmetric])
  show ?thesis
    unfolding mat_ortho_def pmCartCartDot_def pmQuatMatConvert_def pmSq_def
    by (simp add: algebra_simps s s2)
qed

lemma sc2: "sin x * (sin x * a) = (1 - cos x * cos x) * (a::real)"
  by (simp add: sin_sq [symmetric])

lemma rpy_mat_ortho: "mat_ortho (pmRpyMatConvert rpy)"
  unfolding mat_ortho_def pmCartCartDot_def pmRpyMatConvert_def Let_def
  by (simp add: algebra_simps sin_sq sc2)

lemma zyx_mat_ortho: "mat_ortho (pmZyxMatConvert zyx)"
  unfolding mat_ortho_def pmCartCartDot_def pmZyxMatConvert_def Let_def
  by (simp add: algebra_simps sin_sq sc2)

lemma zyz_mat_ortho: "mat_ortho (pmZyzMatConvert zyz)"
  unfolding mat_ortho_def pmCartCartDot_def pmZyzMatConvert_def Let_def
  by (simp add: algebra_simps sin_sq sc2)

lemma atan2_polar:
  shows "sqrt (x * x + y * y) * cos (c_atan2 y x) = x"
    and "sqrt (x * x + y * y) * sin (c_atan2 y x) = y"
proof -
  have *: "sqrt (x * x + y * y) = \<bar>x\<bar> * sqrt (1 + (y / x)\<^sup>2)" if "x \<noteq> 0"
  proof -
    have "x * x + y * y = x\<^sup>2 * (1 + (y / x)\<^sup>2)" using that by (simp add: field_simps power2_eq_square)
    then show ?thesis by (simp add: real_sqrt_mult)
  qed
  have p: "sqrt (1 + (y / x)\<^sup>2) \<noteq> 0" by (smt (verit) real_sqrt_gt_zero zero_le_power2)
  show "sqrt (x * x + y * y) * cos (c_atan2 y x) = x"
    by (cases "x = 0") (use * p in \<open>auto simp: c_atan2_def cos_arctan cos_add cos_diff\<close>)
  show "sqrt (x * x + y * y) * sin (c_atan2 y x) = y"
    by (cases "x = 0") (use * p in \<open>auto simp: c_atan2_def sin_arctan sin_add sin_diff\<close>)
qed

text \<open>Rotations about the axes, in terms of the whole angle.\<close>

abbreviation turn_about :: "pm_axis \<Rightarrow> real \<Rightarrow> pm_cart \<Rightarrow> pm_cart" where
  "turn_about axis a v \<equiv> pmQuatCartMult (pmAxisAngleQuatConvert axis a) v"

lemma quat_positive_act [simp]: "pmQuatCartMult (quat_positive q) v = pmQuatCartMult q v"
  by (simp add: quat_positive_def pmQuatCartMult_def Let_def algebra_simps)

lemma half_angle: "2 * (sin (a / 2) * sin (a / 2)) = 1 - cos a" "2 * (sin (a / 2) * cos (a / 2)) = sin (a::real)"
  using cos_double_sin [of "a / 2"] sin_double [of "a / 2"] by (simp_all add: power2_eq_square algebra_simps)

lemma turn_axis:
  "turn_about PM_X a v = \<lparr>c_x = c_x v, c_y = cos a * c_y v - sin a * c_z v, c_z = sin a * c_y v + cos a * c_z v\<rparr>"
  "turn_about PM_Y a v = \<lparr>c_x = cos a * c_x v + sin a * c_z v, c_y = c_y v, c_z = cos a * c_z v - sin a * c_x v\<rparr>"
  "turn_about PM_Z a v = \<lparr>c_x = cos a * c_x v - sin a * c_y v, c_y = sin a * c_x v + cos a * c_y v, c_z = c_z v\<rparr>"
proof -
  have c: "cos a = 1 - 2 * (sin (a / 2) * sin (a / 2))" and s: "sin a = 2 * (sin (a / 2) * cos (a / 2))"
    using half_angle [of a] by simp_all
  show "turn_about PM_X a v = \<lparr>c_x = c_x v, c_y = cos a * c_y v - sin a * c_z v, c_z = sin a * c_y v + cos a * c_z v\<rparr>"
    "turn_about PM_Y a v = \<lparr>c_x = cos a * c_x v + sin a * c_z v, c_y = c_y v, c_z = cos a * c_z v - sin a * c_x v\<rparr>"
    "turn_about PM_Z a v = \<lparr>c_x = cos a * c_x v - sin a * c_y v, c_y = sin a * c_x v + cos a * c_y v, c_z = c_z v\<rparr>"
    unfolding c s pmAxisAngleQuatConvert_def Let_def pm_axis.case quat_positive_act
    by (simp_all add: pmQuatCartMult_def Let_def algebra_simps)
qed

lemma euler_turns:
  "pmMatCartMult (pmRpyMatConvert rpy) v = turn_about PM_Z (rpy_y rpy) (turn_about PM_Y (rpy_p rpy) (turn_about PM_X (rpy_r rpy) v))"
  "pmMatCartMult (pmZyxMatConvert zyx) v = turn_about PM_Z (zyx_z zyx) (turn_about PM_Y (zyx_y zyx) (turn_about PM_X (zyx_x zyx) v))"
  "pmMatCartMult (pmZyzMatConvert zyz) v = turn_about PM_Z (zyz_z zyz) (turn_about PM_Y (zyz_y zyz) (turn_about PM_Z (zyz_zp zyz) v))"
  unfolding turn_axis
  by (simp_all add: pmMatCartMult_def pmRpyMatConvert_def pmZyxMatConvert_def pmZyzMatConvert_def Let_def algebra_simps)

text \<open>
  The angles read off a rotation matrix give that matrix again, away from the poles. \<open>mat_rot\<close> is what a rotation
  matrix satisfies beyond orthogonality: two of its cofactors.
\<close>

definition mat_rot :: "pm_mat \<Rightarrow> bool" where
  "mat_rot m \<longleftrightarrow>
     c_x (m_x m) * c_x (m_x m) + c_y (m_x m) * c_y (m_x m) + c_z (m_x m) * c_z (m_x m) = 1
     \<and> c_z (m_x m) * c_z (m_x m) + c_z (m_y m) * c_z (m_y m) + c_z (m_z m) * c_z (m_z m) = 1
     \<and> c_x (m_x m) * c_z (m_x m) + c_x (m_y m) * c_z (m_y m) + c_x (m_z m) * c_z (m_z m) = 0
     \<and> c_y (m_x m) * c_z (m_x m) + c_y (m_y m) * c_z (m_y m) + c_y (m_z m) * c_z (m_z m) = 0
     \<and> c_x (m_x m) = c_y (m_y m) * c_z (m_z m) - c_z (m_y m) * c_y (m_z m)
     \<and> c_y (m_x m) = c_z (m_y m) * c_x (m_z m) - c_x (m_y m) * c_z (m_z m)"

lemma quat_mat_rot:
  assumes "quat_norm2 q = 1"
  shows "mat_rot (pmQuatMatConvert q)"
proof -
  have s: "q_s q * q_s q = 1 - q_x q * q_x q - q_y q * q_y q - q_z q * q_z q"
    using assms by (simp add: quat_norm2_def)
  have s2: "q_s q * (q_s q * a) = (1 - q_x q * q_x q - q_y q * q_y q - q_z q * q_z q) * a" for a
    by (simp add: s [symmetric])
  show ?thesis
    unfolding mat_rot_def pmQuatMatConvert_def pmSq_def by (simp add: algebra_simps s s2)
qed

lemma rpy_entries:
  fixes cb :: real
  assumes p: "cb * ca = xx" "cb * sa = xy" "cb * cg = zz" "cb * sg = yz" "cb * cb = 1 - z * z" "0 < cb"
    and r: "z * z + yz * yz + zz * zz = 1" "xx * z + yx * yz + zx * zz = 0" "xy * z + yy * yz + zy * zz = 0"
      "xx = yy * zz - yz * zy" "xy = yz * zx - yx * zz"
  shows "ca * - z * sg - sa * cg = yx" "sa * - z * sg + ca * cg = yy"
    "ca * - z * cg + sa * sg = zx" "sa * - z * cg - ca * sg = zy"
proof -
  have E: "x = y" if "cb * cb * x = cb * cb * y" for x y using that p(6) by simp
  have L: "cb * cb * (ca * - z * sg - sa * cg) = xx * - z * yz - xy * zz"
    "cb * cb * (sa * - z * sg + ca * cg) = xy * - z * yz + xx * zz"
    "cb * cb * (ca * - z * cg + sa * sg) = xx * - z * zz + xy * yz"
    "cb * cb * (sa * - z * cg - ca * sg) = xy * - z * zz - xx * yz"
    unfolding p(1-4) [symmetric] by (simp_all add: algebra_simps)
  have R: "xx * - z * yz - xy * zz = (1 - z * z) * yx" "xy * - z * yz + xx * zz = (1 - z * z) * yy"
    "xx * - z * zz + xy * yz = (1 - z * z) * zx" "xy * - z * zz - xx * yz = (1 - z * z) * zy"
  proof -
    have n: "1 - z * z = yz * yz + zz * zz" using r(1) by linarith
    have h: "xx * - z = yx * yz + zx * zz" "xy * - z = yy * yz + zy * zz" using r(2,3) by (simp_all add: algebra_simps)
    show "xx * - z * yz - xy * zz = (1 - z * z) * yx" unfolding n h r(5) by (simp add: algebra_simps)
    show "xy * - z * yz + xx * zz = (1 - z * z) * yy" unfolding n h r(4) by (simp add: algebra_simps)
    show "xx * - z * zz + xy * yz = (1 - z * z) * zx" unfolding n h r(5) by (simp add: algebra_simps)
    show "xy * - z * zz - xx * yz = (1 - z * z) * zy" unfolding n h r(4) by (simp add: algebra_simps)
  qed
  show "ca * - z * sg - sa * cg = yx" by (rule E, unfold L(1) R(1), simp only: p(5))
  show "sa * - z * sg + ca * cg = yy" by (rule E, unfold L(2) R(2), simp only: p(5))
  show "ca * - z * cg + sa * sg = zx" by (rule E, unfold L(3) R(3), simp only: p(5))
  show "sa * - z * cg - ca * sg = zy" by (rule E, unfold L(4) R(4), simp only: p(5))
qed

lemma rpy_of_mat:
  assumes m: "mat_rot m" and pole: "\<bar>c_z (m_x m)\<bar> < 1"
    and far: "\<bar>rpy_p (pmMatRpyConvert m)\<bar> \<noteq> PM_PI_2"
  shows "pmRpyMatConvert (pmMatRpyConvert m) = m"
proof -
  let ?cb = "sqrt (c_x (m_x m) * c_x (m_x m) + c_y (m_x m) * c_y (m_x m))" let ?z = "c_z (m_x m)"
  let ?p = "c_atan2 (- ?z) ?cb" let ?a = "c_atan2 (c_y (m_x m)) (c_x (m_x m))" let ?g = "c_atan2 (c_z (m_y m)) (c_z (m_z m))"
  have sq: "c_x (m_x m) * c_x (m_x m) + c_y (m_x m) * c_y (m_x m) = 1 - ?z * ?z"
    "c_z (m_z m) * c_z (m_z m) + c_z (m_y m) * c_z (m_y m) = 1 - ?z * ?z"
    using m unfolding mat_rot_def by linarith+
  have "?z * ?z < 1" using pole abs_square_less_1 [of ?z] by (simp add: power2_eq_square)
  then have cb: "?cb * ?cb = 1 - ?z * ?z" "0 < ?cb" unfolding sq by simp_all
  have P: "pmSqrt (pmSq (c_x (m_x m)) + pmSq (c_y (m_x m))) = ?cb"
    using sum_sq_nonneg by (simp add: pmSq_def pmSqrt_eq)
  have A: "?cb * cos ?a = c_x (m_x m)" "?cb * sin ?a = c_y (m_x m)" by (rule atan2_polar)+
  have G: "?cb * cos ?g = c_z (m_z m)" "?cb * sin ?g = c_z (m_y m)"
    using atan2_polar [of "c_z (m_z m)" "c_z (m_y m)"] unfolding sq by simp_all
  have B: "cos ?p = ?cb" "sin ?p = - ?z"
    using atan2_polar [of ?cb "- ?z"] cb by simp_all
  have pi2: "\<bar>PM_PI_2\<bar> = PM_PI_2" by (simp add: PM_PI_2_def)
  have conv: "pmMatRpyConvert m = \<lparr>rpy_r = ?g, rpy_p = ?p, rpy_y = ?a\<rparr>"
    using far pi2 by (auto simp: pmMatRpyConvert_def Let_def P split: if_splits)
  have r: "?z * ?z + c_z (m_y m) * c_z (m_y m) + c_z (m_z m) * c_z (m_z m) = 1"
    "c_x (m_x m) * ?z + c_x (m_y m) * c_z (m_y m) + c_x (m_z m) * c_z (m_z m) = 0"
    "c_y (m_x m) * ?z + c_y (m_y m) * c_z (m_y m) + c_y (m_z m) * c_z (m_z m) = 0"
    "c_x (m_x m) = c_y (m_y m) * c_z (m_z m) - c_z (m_y m) * c_y (m_z m)"
    "c_y (m_x m) = c_z (m_y m) * c_x (m_z m) - c_x (m_y m) * c_z (m_z m)"
    using m unfolding mat_rot_def by blast+
  note e = rpy_entries [OF A G cb r]
  have A': "cos ?a * ?cb = c_x (m_x m)" "sin ?a * ?cb = c_y (m_x m)" using A by (simp_all add: mult.commute)
  have "m_x (pmRpyMatConvert (pmMatRpyConvert m)) = m_x m" unfolding conv
    by (rule pm_cart.equality) (simp_all add: pmRpyMatConvert_def Let_def B A')
  moreover have "m_y (pmRpyMatConvert (pmMatRpyConvert m)) = m_y m" unfolding conv
    by (rule pm_cart.equality) (use e(1,2) in \<open>simp_all add: pmRpyMatConvert_def Let_def B G\<close>)
  moreover have "m_z (pmRpyMatConvert (pmMatRpyConvert m)) = m_z m" unfolding conv
    by (rule pm_cart.equality) (use e(3,4) in \<open>simp_all add: pmRpyMatConvert_def Let_def B G\<close>)
  ultimately show ?thesis by (simp add: pm_mat.equality)
qed



section \<open>Lines\<close>

lemma cart_line_init:
  assumes "\<not> IS_FUZZ (pmCartInfNorm (pmCartCartSub e s)) CART_FUZZ"
  shows "pmCartMag (pmCartCartSub e s) > 0"
    "pmCartLineInit s e = (PM_OK, \<lparr>cl_start = s, cl_end = e,
       cl_uVec = pmCartScalMult (pmCartCartSub e s) (1 / pmCartMag (pmCartCartSub e s)),
       cl_tmag = pmCartMag (pmCartCartSub e s), cl_tmag_zero = False\<rparr>)"
proof -
  let ?u = "pmCartCartSub e s"
  have "pmCartMag ?u \<noteq> 0"
    using assms by (auto simp: pmCartMag_0 pmCartInfNorm_def IS_FUZZ_def CART_FUZZ_def)
  then show mag: "pmCartMag ?u > 0" using pmCartMag_nonneg [of ?u] by simp
  have "pmCartUnitEq ?u = (PM_OK, pmCartScalMult ?u (1 / pmCartMag ?u))"
    using mag by (simp add: pmCartUnitEq_def Let_def pmCartMag_def pmCartScalMult_def pmCartScalMultEq_def)
  with assms show "pmCartLineInit s e = (PM_OK, \<lparr>cl_start = s, cl_end = e,
       cl_uVec = pmCartScalMult ?u (1 / pmCartMag ?u),
       cl_tmag = pmCartMag ?u, cl_tmag_zero = False\<rparr>)"
    by (simp add: pmCartLineInit_def Let_def)
qed

lemma cart_mag_scal: "pmCartMag (pmCartScalMult v d) = \<bar>d\<bar> * pmCartMag v"
proof -
  have "pmCartMagSq (pmCartScalMult v d) = d * d * pmCartMagSq v"
    by (simp add: pm_defs algebra_simps)
  moreover have "pmCartMag w = sqrt (pmCartMagSq w)" for w
    using sum_sq_nonneg by (simp add: pmCartMag_def pmCartMagSq_def pmSqrt_eq pmSq_def)
  ultimately show ?thesis by (simp add: real_sqrt_mult)
qed

text \<open>a Cartesian line interpolates its end points. For points that are not within \<open>CART_FUZZ\<close> of each
  other, \<open>pmCartLineInit\<close> succeeds, length 0 gives the start, the full length the end, and points at
  two lengths are as far apart as the lengths differ.\<close>

theorem pmCartLinePoint_interpolates:
  assumes "\<not> IS_FUZZ (pmCartInfNorm (pmCartCartSub e s)) CART_FUZZ"
  shows "\<exists>line. pmCartLineInit s e = (PM_OK, line) \<and> pmCartLinePoint line 0 = s
    \<and> pmCartLinePoint line (cl_tmag line) = e
    \<and> pmCartMag (pmCartCartSub (pmCartLinePoint line a) (pmCartLinePoint line b)) = \<bar>a - b\<bar>"
proof -
  let ?u = "pmCartCartSub e s" and ?d = "pmCartMag (pmCartCartSub e s)"
  note i = cart_line_init [OF assms]
  let ?l = "snd (pmCartLineInit s e)"
  have p: "pmCartLinePoint ?l t = pmCartCartAdd s (pmCartScalMult ?u (t / ?d))" for t
    by (simp add: i(2) pmCartLinePoint_def pmCartScalMult_def pmCartScalMultEq_def)
  have "pmCartLinePoint ?l 0 = s" "pmCartLinePoint ?l (cl_tmag ?l) = e"
    using i(1) by (simp_all add: p) (simp_all add: i(2) pm_defs)
  moreover have "pmCartCartSub (pmCartLinePoint ?l a) (pmCartLinePoint ?l b) = pmCartScalMult ?u ((a - b) / ?d)"
    unfolding p by (simp add: pmCartCartSub_def pmCartCartAdd_def pmCartScalMult_def
      pmCartScalMultEq_def diff_divide_distrib right_diff_distrib)
  then have "pmCartMag (pmCartCartSub (pmCartLinePoint ?l a) (pmCartLinePoint ?l b)) = \<bar>a - b\<bar>"
    using i(1) by (simp add: cart_mag_scal abs_divide)
  moreover have "pmCartLineInit s e = (PM_OK, ?l)" by (simp add: i(2))
  ultimately show ?thesis by blast
qed

theorem pmCartLinePoint_interpolates_witness:
  "\<exists>line. pmCartLineInit \<lparr>c_x = 0, c_y = 0, c_z = 0\<rparr> \<lparr>c_x = 3, c_y = 4, c_z = 0\<rparr> = (PM_OK, line)
    \<and> pmCartLinePoint line 0 = \<lparr>c_x = 0, c_y = 0, c_z = 0\<rparr>
    \<and> pmCartLinePoint line (cl_tmag line) = \<lparr>c_x = 3, c_y = 4, c_z = 0\<rparr>"
  using pmCartLinePoint_interpolates [of "\<lparr>c_x = 3, c_y = 4, c_z = 0\<rparr>" "\<lparr>c_x = 0, c_y = 0, c_z = 0\<rparr>" 0 0]
  by (auto simp: pmCartCartSub_def pmCartInfNorm_def IS_FUZZ_def CART_FUZZ_def)

section \<open>Coordinate conversions\<close>

text \<open>coordinates round trip. Converting a Cartesian vector to cylindrical or spherical coordinates and back
  gives the vector, for every vector.\<close>

theorem pm_coordinates_roundtrip:
  "pmCylCartConvert (pmCartCylConvert v) = v \<and> pmSphCartConvert (pmCartSphConvert v) = v"
proof
  let ?r = "sqrt (c_x v * c_x v + c_y v * c_y v)"
  have r: "pmSqrt (pmSq (c_x v) + pmSq (c_y v)) = ?r"
    using sum_sq_nonneg by (simp add: pmSq_def pmSqrt_eq)
  show "pmCylCartConvert (pmCartCylConvert v) = v"
    by (simp add: pmCylCartConvert_def pmCartCylConvert_def r atan2_polar)
  have rr: "?r * ?r = c_x v * c_x v + c_y v * c_y v"
    using sum_sq_nonneg(2) [of "c_x v" "c_y v"] by simp
  let ?R = "sqrt (c_z v * c_z v + (c_x v * c_x v + c_y v * c_y v))"
  have m: "pmSqrt (pmSq (c_x v) + pmSq (c_y v) + pmSq (c_z v)) = ?R"
    using sum_sq_nonneg(1) [of "c_x v" "c_y v" "c_z v"] by (simp add: pmSq_def pmSqrt_eq algebra_simps)
  have h: "?R * cos (c_atan2 ?r (c_z v)) = c_z v" "?R * sin (c_atan2 ?r (c_z v)) = ?r"
    using atan2_polar [of "c_z v" ?r, unfolded rr] by simp_all
  show "pmSphCartConvert (pmCartSphConvert v) = v"
    by (simp add: pmSphCartConvert_def pmCartSphConvert_def m r Let_def h atan2_polar)
qed

text \<open>the conversion between cylindrical and spherical coordinates measures \<open>phi\<close> from the
  plane, the others from the z axis: for every vector of the plane other than 0, going through it
  ends on the z axis.\<close>

theorem pmCylSphConvert_inconsistent:
  assumes "c_z v = 0" "c_x v \<noteq> 0 \<or> c_y v \<noteq> 0"
  shows "pmSphCartConvert (pmCylSphConvert (pmCartCylConvert v)) =
    \<lparr>c_x = 0, c_y = 0, c_z = cy_r (pmCartCylConvert v)\<rparr> \<and> 0 < cy_r (pmCartCylConvert v)"
proof -
  have "c_x v * c_x v + c_y v * c_y v > 0"
    using assms(2) sum_power2_gt_zero_iff [of "c_x v" "c_y v"] by (simp add: power2_eq_square)
  then have "0 < cy_r (pmCartCylConvert v)"
    by (simp add: pmCartCylConvert_def pmSqrt_def pmSq_def)
  then show ?thesis using assms(1)
    by (simp add: pmSphCartConvert_def pmCylSphConvert_def Let_def)
      (simp add: pmCartCylConvert_def c_atan2_def pmSqrt_def pmSq_def)
qed

theorem pmCylSphConvert_inconsistent_witness:
  "pmSphCartConvert (pmCylSphConvert (pmCartCylConvert \<lparr>c_x = 1, c_y = 0, c_z = 0\<rparr>)) =
     \<lparr>c_x = 0, c_y = 0, c_z = 1\<rparr>"
  using pmCylSphConvert_inconsistent [of "\<lparr>c_x = 1, c_y = 0, c_z = 0\<rparr>"]
  by (simp add: pmCartCylConvert_def pmSqrt_def pmSq_def)

section \<open>The aliased product\<close>

text \<open>\<open>pmLinePoint\<close> multiplies onto its second operand. Done so, a product of unit quaternions with a
  vector part along one axis is not the product and not a unit: the scalar part is overwritten before
  it is used.\<close>

theorem pmQuatQuatMult_onto2_wrong:
  assumes "c * c + s * s = 1" "c * d - s * t \<ge> 0" "d * d + t * t = 1" "s * (c * d - s * t - d) \<noteq> 0"
  shows "pmQuatQuatMult_onto2 \<lparr>q_s = c, q_x = s, q_y = 0, q_z = 0\<rparr> \<lparr>q_s = d, q_x = t, q_y = 0, q_z = 0\<rparr>
    \<noteq> pmQuatQuatMult \<lparr>q_s = c, q_x = s, q_y = 0, q_z = 0\<rparr> \<lparr>q_s = d, q_x = t, q_y = 0, q_z = 0\<rparr>"
proof -
  have "q_x (pmQuatQuatMult_onto2 \<lparr>q_s = c, q_x = s, q_y = 0, q_z = 0\<rparr> \<lparr>q_s = d, q_x = t, q_y = 0, q_z = 0\<rparr>)
      = c * t + s * (c * d - s * t)"
    using assms(2) by (simp add: pmQuatQuatMult_onto2_def Let_def)
  moreover have "q_x (pmQuatQuatMult \<lparr>q_s = c, q_x = s, q_y = 0, q_z = 0\<rparr> \<lparr>q_s = d, q_x = t, q_y = 0, q_z = 0\<rparr>)
      = c * t + s * d"
    using assms(2) by (simp add: pmQuatQuatMult_def Let_def)
  moreover have "s * (c * d - s * t) \<noteq> s * d" using assms(4) by (simp add: right_diff_distrib)
  ultimately show ?thesis by (metis add_left_cancel)
qed

theorem pmQuatQuatMult_onto2_wrong_witness:
  "pmQuatQuatMult_onto2 \<lparr>q_s = 4 / 5, q_x = 3 / 5, q_y = 0, q_z = 0\<rparr> \<lparr>q_s = 4 / 5, q_x = 3 / 5, q_y = 0, q_z = 0\<rparr>
   \<noteq> pmQuatQuatMult \<lparr>q_s = 4 / 5, q_x = 3 / 5, q_y = 0, q_z = 0\<rparr> \<lparr>q_s = 4 / 5, q_x = 3 / 5, q_y = 0, q_z = 0\<rparr>"
  using pmQuatQuatMult_onto2_wrong [of "4 / 5" "3 / 5" "4 / 5" "3 / 5"] by simp

end
