(* ===== verification/EmcPos.thy ===== *)
theory EmcPos
  imports PosemathProps
begin

text \<open>
  Machine poses, \<open>libnml/emcpos.c\<close>: nine coordinates, of which the first three are a Cartesian
  vector. Pointers that the code checks for NULL are options here; the second component of a result
  is what is stored through the output pointer, if anything is. NaN is not a real number, so
  \<open>emcPoseValid\<close> only tests for NULL.
\<close>

record emc_pose =
  ep_tran :: pm_cart
  ep_a :: real
  ep_b :: real
  ep_c :: real
  ep_u :: real
  ep_v :: real
  ep_w :: real

definition EMCPOSE_ERR_OK :: int where "EMCPOSE_ERR_OK = 0"
definition EMCPOSE_ERR_INPUT_MISSING :: int where "EMCPOSE_ERR_INPUT_MISSING = -2"

definition emcPoseValid :: "emc_pose option \<Rightarrow> bool" where
  "emcPoseValid p \<longleftrightarrow> p \<noteq> None"

text \<open>\<open>out\<close> tells whether the output pointer is non-NULL; it may alias an input.\<close>

definition emcPoseAdd :: "emc_pose option \<Rightarrow> emc_pose option \<Rightarrow> bool \<Rightarrow> int \<times> emc_pose option" where
  "emcPoseAdd p1 p2 out =
     (case (p1, p2) of
        (Some a, Some b) \<Rightarrow>
          if out then
            (EMCPOSE_ERR_OK, Some \<lparr>ep_tran = pmCartCartAdd (ep_tran a) (ep_tran b),
               ep_a = ep_a a + ep_a b, ep_b = ep_b a + ep_b b, ep_c = ep_c a + ep_c b,
               ep_u = ep_u a + ep_u b, ep_v = ep_v a + ep_v b, ep_w = ep_w a + ep_w b\<rparr>)
          else (-1, None)
      | _ \<Rightarrow> (-1, None))"

definition emcPoseSelfAdd :: "emc_pose option \<Rightarrow> emc_pose option \<Rightarrow> int \<times> emc_pose option" where
  "emcPoseSelfAdd self p2 =
     (if self = None \<or> p2 = None then (-1, None) else emcPoseAdd self p2 True)"

definition emcPoseZero :: "emc_pose" where
  "emcPoseZero = \<lparr>ep_tran = \<lparr>c_x = 0, c_y = 0, c_z = 0\<rparr>, ep_a = 0, ep_b = 0, ep_c = 0,
     ep_u = 0, ep_v = 0, ep_w = 0\<rparr>"

definition emcPoseSub :: "emc_pose option \<Rightarrow> emc_pose option \<Rightarrow> int \<times> emc_pose option" where
  "emcPoseSub p1 p2 =
     (case (p1, p2) of
        (Some a, Some b) \<Rightarrow>
          (EMCPOSE_ERR_OK, Some \<lparr>ep_tran = pmCartCartSub (ep_tran a) (ep_tran b),
             ep_a = ep_a a - ep_a b, ep_b = ep_b a - ep_b b, ep_c = ep_c a - ep_c b,
             ep_u = ep_u a - ep_u b, ep_v = ep_v a - ep_v b, ep_w = ep_w a - ep_w b\<rparr>)
      | _ \<Rightarrow> (EMCPOSE_ERR_INPUT_MISSING, None))"

definition emcPoseSelfSub :: "emc_pose option \<Rightarrow> emc_pose option \<Rightarrow> int \<times> emc_pose option" where
  "emcPoseSelfSub self p2 = emcPoseSub self p2"

definition pmCartesianToEmcPose :: "pm_cart \<Rightarrow> pm_cart \<Rightarrow> pm_cart \<Rightarrow> emc_pose" where
  "pmCartesianToEmcPose xyz abc uvw =
     \<lparr>ep_tran = xyz, ep_a = c_x abc, ep_b = c_y abc, ep_c = c_z abc,
      ep_u = c_x uvw, ep_v = c_y uvw, ep_w = c_z uvw\<rparr>"

definition emcPoseToPmCartesian :: "emc_pose \<Rightarrow> pm_cart \<times> pm_cart \<times> pm_cart" where
  "emcPoseToPmCartesian p =
     (ep_tran p, \<lparr>c_x = ep_a p, c_y = ep_b p, c_z = ep_c p\<rparr>, \<lparr>c_x = ep_u p, c_y = ep_v p, c_z = ep_w p\<rparr>)"

definition emcPoseGetXYZ :: "emc_pose \<Rightarrow> pm_cart" where
  "emcPoseGetXYZ p = \<lparr>c_x = c_x (ep_tran p), c_y = c_y (ep_tran p), c_z = c_z (ep_tran p)\<rparr>"

text \<open>pose arithmetic round trips. Adding a displacement and taking it away again, in place, gives the
  pose back with both calls successful; splitting a pose into its vectors and joining them is the
  identity.\<close>

theorem emcPose_add_sub:
  "\<exists>q. emcPoseSelfAdd (Some p) (Some d) = (EMCPOSE_ERR_OK, Some q)
     \<and> emcPoseSelfSub (Some q) (Some d) = (EMCPOSE_ERR_OK, Some p)
     \<and> (case emcPoseToPmCartesian p of (xyz, abc, uvw) \<Rightarrow> pmCartesianToEmcPose xyz abc uvw) = p"
  by (auto simp: emcPoseSelfAdd_def emcPoseAdd_def emcPoseSelfSub_def emcPoseSub_def
    emcPoseToPmCartesian_def pmCartesianToEmcPose_def pmCartCartAdd_def pmCartCartSub_def)

end
