(* ===== verification/Cubic.thy ===== *)
theory Cubic
  imports Prelude
begin

text \<open>
  The cubic interpolator of \<open>kinematics/cubic.cpp\<close> (data in \<open>cubic.h\<close>): points arrive one per trajectory
  cycle, each segment is evaluated once per servo cycle. The properties show that consecutive
  segments join smoothly.
\<close>

section \<open>The interpolator\<close>

record cubic_coeff = co_a :: real  co_b :: real  co_c :: real  co_d :: real

record cubic =
  cu_configured :: "32 word"
  cu_segmentTime :: real
  cu_interpolationRate :: int
  cu_interpolationTime :: real
  cu_interpolationIncrement :: real
  cu_x0 :: real
  cu_x1 :: real
  cu_x2 :: real
  cu_x3 :: real
  cu_wp0 :: real
  cu_wp1 :: real
  cu_velp0 :: real
  cu_velp1 :: real
  cu_filled :: bool
  cu_needNextPoint :: bool
  cu_coeff :: cubic_coeff

definition SEGMENT_TIME_SET :: "32 word" where "SEGMENT_TIME_SET = 1"
definition INTERPOLATION_RATE_SET :: "32 word" where "INTERPOLATION_RATE_SET = 2"
definition ALL_SET :: "32 word" where "ALL_SET = or SEGMENT_TIME_SET INTERPOLATION_RATE_SET"

definition cubicCoeff :: "real \<Rightarrow> real \<Rightarrow> real \<Rightarrow> real \<Rightarrow> real \<Rightarrow> cubic_coeff" where
  "cubicCoeff x0 v0 xn vn deltaT =
     (let b = 3 * (xn - x0) / (deltaT * deltaT) - (2 * v0 + vn) / deltaT in
      \<lparr>co_a = (vn - v0) / (3 * (deltaT * deltaT)) - (2 * b) / (3 * deltaT),
       co_b = b, co_c = v0, co_d = x0\<rparr>)"

definition interpolateCubic :: "cubic_coeff \<Rightarrow> real \<Rightarrow> real" where
  "interpolateCubic k t = co_a k * (t * t * t) + co_b k * (t * t) + co_c k * t + co_d k"

definition interpolateVel :: "cubic_coeff \<Rightarrow> real \<Rightarrow> real" where
  "interpolateVel k t = 3 * co_a k * (t * t) + 2 * co_b k * t + co_c k"

definition interpolateAccel :: "cubic_coeff \<Rightarrow> real \<Rightarrow> real" where
  "interpolateAccel k t = 6 * co_a k * t + 2 * co_b k"

definition interpolateJerk :: "cubic_coeff \<Rightarrow> real" where
  "interpolateJerk k = 6 * co_a k"

definition wayPoint :: "real \<Rightarrow> real \<Rightarrow> real \<Rightarrow> real" where
  "wayPoint xMinus1 x xPlus1 = (xMinus1 + 4 * x + xPlus1) / 6"

definition velPoint :: "real \<Rightarrow> real \<Rightarrow> real \<Rightarrow> real" where
  "velPoint xMinus1 xPlus1 deltaT = (if deltaT \<le> 0 then 0 else (xPlus1 - xMinus1) / (2 * deltaT))"

definition cubicDrain :: "cubic \<Rightarrow> cubic" where
  "cubicDrain ci = ci\<lparr>cu_x0 := 0, cu_x1 := 0, cu_x2 := 0, cu_x3 := 0, cu_wp0 := 0, cu_wp1 := 0,
     cu_velp0 := 0, cu_velp1 := 0, cu_filled := False, cu_needNextPoint := True,
     cu_coeff := \<lparr>co_a = 0, co_b = 0, co_c = 0, co_d = 0\<rparr>\<rparr>"

definition cubicInit :: "cubic \<Rightarrow> cubic" where
  "cubicInit ci = cubicDrain (ci\<lparr>cu_configured := 0, cu_segmentTime := 0, cu_interpolationRate := 0,
     cu_interpolationIncrement := 0\<rparr>)"

definition cubic_increment :: "cubic \<Rightarrow> cubic" where
  "cubic_increment ci =
     (if cu_configured ci = ALL_SET
      then ci\<lparr>cu_interpolationIncrement := cu_segmentTime ci / of_int (cu_interpolationRate ci)\<rparr> else ci)"

definition cubicSetSegmentTime :: "cubic \<Rightarrow> real \<Rightarrow> int \<times> cubic" where
  "cubicSetSegmentTime ci time =
     (if time \<le> 0 then (-1, ci)
      else (0, cubic_increment (ci\<lparr>cu_segmentTime := time,
                 cu_configured := or (cu_configured ci) SEGMENT_TIME_SET\<rparr>)))"

definition cubicSetInterpolationRate :: "cubic \<Rightarrow> int \<Rightarrow> int \<times> cubic" where
  "cubicSetInterpolationRate ci rate =
     (if rate \<le> 0 then (-1, ci)
      else (0, cubic_increment (ci\<lparr>cu_interpolationRate := rate,
                 cu_configured := or (cu_configured ci) INTERPOLATION_RATE_SET\<rparr>)))"

definition cubicGetSegmentTime :: "cubic \<Rightarrow> real" where
  "cubicGetSegmentTime ci =
     (if and (cu_configured ci) SEGMENT_TIME_SET = 0 then 0 else cu_segmentTime ci)"

definition cubicGetInterpolationRate :: "cubic \<Rightarrow> int" where
  "cubicGetInterpolationRate ci =
     (if and (cu_configured ci) INTERPOLATION_RATE_SET = 0 then 0 else cu_interpolationRate ci)"

definition cubicGetInterpolationIncrement :: "cubic \<Rightarrow> real" where
  "cubicGetInterpolationIncrement ci = (if cu_configured ci \<noteq> ALL_SET then 0 else cu_interpolationIncrement ci)"

definition cubicGetCubicCoeff :: "cubic \<Rightarrow> cubic_coeff" where
  "cubicGetCubicCoeff ci = (if \<not> cu_filled ci then \<lparr>co_a = 0, co_b = 0, co_c = 0, co_d = 0\<rparr> else cu_coeff ci)"

definition cubicAddPoint :: "cubic \<Rightarrow> real \<Rightarrow> int \<times> cubic" where
  "cubicAddPoint ci point =
     (if cu_configured ci \<noteq> ALL_SET then (-1, ci)
      else if \<not> cu_needNextPoint ci then (-1, ci)
      else
        (let c1 = (if \<not> cu_filled ci
               then ci\<lparr>cu_x0 := point, cu_x1 := point, cu_x2 := point, cu_x3 := point, cu_filled := True\<rparr>
               else ci\<lparr>cu_x0 := cu_x1 ci, cu_x1 := cu_x2 ci, cu_x2 := cu_x3 ci, cu_x3 := point\<rparr>);
             wp0 = wayPoint (cu_x0 c1) (cu_x1 c1) (cu_x2 c1);
             wp1 = wayPoint (cu_x1 c1) (cu_x2 c1) (cu_x3 c1);
             velp0 = velPoint (cu_x0 c1) (cu_x2 c1) (cu_segmentTime c1);
             velp1 = velPoint (cu_x1 c1) (cu_x3 c1) (cu_segmentTime c1)
         in (0, c1\<lparr>cu_wp0 := wp0, cu_wp1 := wp1, cu_velp0 := velp0, cu_velp1 := velp1,
                   cu_coeff := cubicCoeff wp0 velp0 wp1 velp1 (cu_segmentTime c1),
                   cu_interpolationTime := 0, cu_needNextPoint := False\<rparr>)))"

definition cubicOffset :: "cubic \<Rightarrow> real \<Rightarrow> int \<times> cubic" where
  "cubicOffset ci offset =
     (if cu_configured ci \<noteq> ALL_SET then (-1, ci)
      else (0, ci\<lparr>cu_x0 := cu_x0 ci + offset, cu_x1 := cu_x1 ci + offset, cu_x2 := cu_x2 ci + offset,
                  cu_x3 := cu_x3 ci + offset, cu_wp0 := cu_wp0 ci + offset, cu_wp1 := cu_wp1 ci + offset,
                  cu_coeff := (cu_coeff ci)\<lparr>co_d := co_d (cu_coeff ci) + offset\<rparr>\<rparr>))"

text \<open>The position, velocity, acceleration and jerk at the current time, and the time advanced.\<close>

definition cubicInterpolate :: "cubic \<Rightarrow> (real \<times> real \<times> real \<times> real) option \<times> cubic" where
  "cubicInterpolate ci =
     (if cu_configured ci \<noteq> ALL_SET then (None, ci)
      else
        (let c1 = (if cu_needNextPoint ci then snd (cubicAddPoint ci (cu_x3 ci)) else ci);
             k = cu_coeff c1; t = cu_interpolationTime c1;
             c2 = c1\<lparr>cu_interpolationTime := t + cu_interpolationIncrement c1\<rparr>;
             c3 = (if \<bar>cu_segmentTime c2 - cu_interpolationTime c2\<bar> < 0.5 * cu_interpolationIncrement c2
                   then c2\<lparr>cu_needNextPoint := True\<rparr> else c2)
         in (Some (interpolateCubic k t, interpolateVel k t, interpolateAccel k t, interpolateJerk k), c3)))"

definition cubicNeedNextPoint :: "cubic \<Rightarrow> bool" where
  "cubicNeedNextPoint ci = cu_needNextPoint ci"

section \<open>Joining segments\<close>

text \<open>The coefficients meet the positions and velocities they are computed from, at both ends.\<close>

lemma cubicCoeff_ends:
  assumes "deltaT \<noteq> 0"
  shows "interpolateCubic (cubicCoeff x0 v0 xn vn deltaT) 0 = x0"
    "interpolateVel (cubicCoeff x0 v0 xn vn deltaT) 0 = v0"
    "interpolateCubic (cubicCoeff x0 v0 xn vn deltaT) deltaT = xn"
    "interpolateVel (cubicCoeff x0 v0 xn vn deltaT) deltaT = vn"
  using assms
  by (simp_all add: interpolateCubic_def interpolateVel_def cubicCoeff_def Let_def field_simps)

text \<open>What a filled interpolator keeps: its coefficients belong to its four points.\<close>

definition cubic_ok :: "cubic \<Rightarrow> bool" where
  "cubic_ok ci \<longleftrightarrow> cu_configured ci = ALL_SET \<and> 0 < cu_segmentTime ci \<and> cu_filled ci \<and>
     cu_coeff ci = cubicCoeff (wayPoint (cu_x0 ci) (cu_x1 ci) (cu_x2 ci))
       (velPoint (cu_x0 ci) (cu_x2 ci) (cu_segmentTime ci))
       (wayPoint (cu_x1 ci) (cu_x2 ci) (cu_x3 ci))
       (velPoint (cu_x1 ci) (cu_x3 ci) (cu_segmentTime ci)) (cu_segmentTime ci)"

lemma cubicAddPoint_ok:
  assumes "cu_configured ci = ALL_SET" "0 < cu_segmentTime ci" "cu_needNextPoint ci"
  shows "fst (cubicAddPoint ci p) = 0" "cubic_ok (snd (cubicAddPoint ci p))"
    "cu_segmentTime (snd (cubicAddPoint ci p)) = cu_segmentTime ci"
  using assms by (simp_all add: cubicAddPoint_def cubic_ok_def Let_def)

lemma accel_end:
  assumes "T \<noteq> 0"
  shows "interpolateAccel (cubicCoeff (wayPoint x0 x1 x2) ((x2 - x0) / (2 * T)) (wayPoint x1 x2 x3)
      ((x3 - x1) / (2 * T)) T) T = (x1 - 2 * x2 + x3) / (T * T)"
    "interpolateAccel (cubicCoeff (wayPoint x1 x2 x3) ((x3 - x1) / (2 * T)) (wayPoint x2 x3 x4)
      ((x4 - x2) / (2 * T)) T) 0 = (x1 - 2 * x2 + x3) / (T * T)"
  using assms by (simp_all add: interpolateAccel_def cubicCoeff_def wayPoint_def Let_def field_simps)

text \<open>C9: the interpolated path is smooth. When a point is added to a filled interpolator that needs one,
  the new segment starts with the position, velocity and acceleration at which the old one ended.\<close>

theorem cubic_smooth:
  assumes "cubic_ok ci" "cu_needNextPoint ci"
  shows "fst (cubicAddPoint ci p) = 0
    \<and> interpolateCubic (cu_coeff (snd (cubicAddPoint ci p))) 0 = interpolateCubic (cu_coeff ci) (cu_segmentTime ci)
    \<and> interpolateVel (cu_coeff (snd (cubicAddPoint ci p))) 0 = interpolateVel (cu_coeff ci) (cu_segmentTime ci)
    \<and> interpolateAccel (cu_coeff (snd (cubicAddPoint ci p))) 0 = interpolateAccel (cu_coeff ci) (cu_segmentTime ci)
    \<and> cubic_ok (snd (cubicAddPoint ci p))"
proof -
  have T: "cu_segmentTime ci \<noteq> 0" "0 < cu_segmentTime ci" and c: "cu_configured ci = ALL_SET"
    using assms by (auto simp: cubic_ok_def)
  note ok = cubicAddPoint_ok [OF c T(2) assms(2), of p]
  have k: "cu_coeff (snd (cubicAddPoint ci p)) =
      cubicCoeff (wayPoint (cu_x1 ci) (cu_x2 ci) (cu_x3 ci)) (velPoint (cu_x1 ci) (cu_x3 ci) (cu_segmentTime ci))
        (wayPoint (cu_x2 ci) (cu_x3 ci) p) (velPoint (cu_x2 ci) p (cu_segmentTime ci)) (cu_segmentTime ci)"
    using assms by (simp add: cubicAddPoint_def cubic_ok_def Let_def)
  have k0: "cu_coeff ci = cubicCoeff (wayPoint (cu_x0 ci) (cu_x1 ci) (cu_x2 ci))
       (velPoint (cu_x0 ci) (cu_x2 ci) (cu_segmentTime ci))
       (wayPoint (cu_x1 ci) (cu_x2 ci) (cu_x3 ci))
       (velPoint (cu_x1 ci) (cu_x3 ci) (cu_segmentTime ci)) (cu_segmentTime ci)"
    using assms(1) by (simp add: cubic_ok_def)
  have v: "velPoint a b (cu_segmentTime ci) = (b - a) / (2 * cu_segmentTime ci)" for a b
    using T by (simp add: velPoint_def)
  show ?thesis
    using ok(1,2) cubicCoeff_ends [OF T(1)] accel_end [OF T(1)] unfolding k k0 v by simp
qed

text \<open>An interpolator configured as the controller does, with two points added.\<close>

definition cubic_blank :: cubic where
  "cubic_blank = \<lparr>cu_configured = 0, cu_segmentTime = 0, cu_interpolationRate = 0, cu_interpolationTime = 0,
     cu_interpolationIncrement = 0, cu_x0 = 0, cu_x1 = 0, cu_x2 = 0, cu_x3 = 0, cu_wp0 = 0, cu_wp1 = 0,
     cu_velp0 = 0, cu_velp1 = 0, cu_filled = False, cu_needNextPoint = False,
     cu_coeff = \<lparr>co_a = 0, co_b = 0, co_c = 0, co_d = 0\<rparr>\<rparr>"

definition cubic_started :: cubic where
  "cubic_started =
     snd (cubicAddPoint
       (snd (cubicSetInterpolationRate (snd (cubicSetSegmentTime (cubicInit cubic_blank) 1)) 1)) 5)"

lemma cubic_started_ok: "cubic_ok (cubic_started\<lparr>cu_needNextPoint := True\<rparr>)"
proof -
  let ?c = "snd (cubicSetInterpolationRate (snd (cubicSetSegmentTime (cubicInit cubic_blank) 1)) 1)"
  have "cu_configured ?c = ALL_SET" "0 < cu_segmentTime ?c" "cu_needNextPoint ?c"
    by (simp_all add: cubicSetInterpolationRate_def cubicSetSegmentTime_def cubicInit_def cubicDrain_def
      cubic_increment_def SEGMENT_TIME_SET_def INTERPOLATION_RATE_SET_def ALL_SET_def)
  from cubicAddPoint_ok(2) [OF this, of 5] show ?thesis
    by (simp add: cubic_started_def cubic_ok_def)
qed

theorem cubic_smooth_witness:
  "interpolateVel (cu_coeff (snd (cubicAddPoint (cubic_started\<lparr>cu_needNextPoint := True\<rparr>) 11))) 0 =
   interpolateVel (cu_coeff cubic_started) (cu_segmentTime cubic_started)"
  using cubic_smooth [OF cubic_started_ok, of 11] by simp

end
