(* ===== verification/AxisJog.thy ===== *)
theory AxisJog
  imports SimpleTp
begin

text \<open>
  The teleoperation and external-offset planners of \<open>motion/axis.c\<close>: per axis two single-axis planners
  (\<open>teleop_tp\<close> for jogging, \<open>ext_offset_tp\<close> for external offsets) whose sum is kept within the soft
  limits. The state is the static \<open>axis_array\<close>, the HAL pins \<open>axis_hal_data\<close>, and the static variables
  of two functions. An axis number indexes the arrays; a number outside them is outside this model
  (an update there changes nothing), the callers that take numbers from outside check or are checked
  in \<open>Command\<close>.
\<close>

section \<open>State\<close>

definition EMCMOT_MAX_AXIS :: nat where "EMCMOT_MAX_AXIS = 3"

lemma max_axis_upt [simp]: "[0..<EMCMOT_MAX_AXIS] = [0, 1, 2]"
  by (simp add: EMCMOT_MAX_AXIS_def upt_rec)

record tele_axis =
  ta_pos_cmd :: int
  ta_teleop_vel_cmd :: int
  ta_max_pos_limit :: int
  ta_min_pos_limit :: int
  ta_vel_limit :: int
  ta_acc_limit :: int
  ta_teleop_tp :: simple_tp
  ta_old_ajog_counts :: int
  ta_kb_ajog_active :: int
  ta_locking_joint :: int
  ta_ext_offset_vel_limit :: int
  ta_ext_offset_acc_limit :: int
  ta_old_eoffset_counts :: int
  ta_ext_offset_tp :: simple_tp

record tele_hal =
  th_pos_cmd :: real
  th_teleop_vel_cmd :: real
  th_teleop_pos_cmd :: real
  th_teleop_vel_lim :: real
  th_teleop_tp_enable :: bool
  th_ajog_counts :: int
  th_ajog_enable :: bool
  th_ajog_scale :: real
  th_ajog_accel_fraction :: real
  th_ajog_vel_mode :: bool
  th_kb_ajog_active :: bool
  th_eoffset_enable :: bool
  th_eoffset_clear :: bool
  th_eoffset_counts :: int
  th_eoffset_scale :: real
  th_external_offset :: real
  th_external_offset_requested :: real

record axis_state =
  as_axis :: "tele_axis list"
  as_hal :: "tele_hal list"
  as_jog_first_pass :: bool
  as_eo_first_pass :: bool
  as_last_eoffset_enable :: "int list"

definition upd_ax :: "nat \<Rightarrow> (tele_axis \<Rightarrow> tele_axis) \<Rightarrow> axis_state \<Rightarrow> axis_state" where
  "upd_ax n f s = s\<lparr>as_axis := (as_axis s)[n := f (as_axis s ! n)]\<rparr>"

definition upd_ah :: "nat \<Rightarrow> (tele_hal \<Rightarrow> tele_hal) \<Rightarrow> axis_state \<Rightarrow> axis_state" where
  "upd_ah n f s = s\<lparr>as_hal := (as_hal s)[n := f (as_hal s ! n)]\<rparr>"

definition upd_teleop :: "(simple_tp \<Rightarrow> simple_tp) \<Rightarrow> tele_axis \<Rightarrow> tele_axis" where
  "upd_teleop f a = a\<lparr>ta_teleop_tp := f (ta_teleop_tp a)\<rparr>"

definition upd_ext :: "(simple_tp \<Rightarrow> simple_tp) \<Rightarrow> tele_axis \<Rightarrow> tele_axis" where
  "upd_ext f a = a\<lparr>ta_ext_offset_tp := f (ta_ext_offset_tp a)\<rparr>"

section \<open>Set-up, limits and getters\<close>

definition axis_init_all :: "axis_state \<Rightarrow> axis_state" where
  "axis_init_all s = fold (\<lambda>n. upd_ax n (\<lambda>a. a\<lparr>ta_locking_joint := -1\<rparr>)) [0..<EMCMOT_MAX_AXIS] s"

definition axis_initialize_external_offsets :: "axis_state \<Rightarrow> axis_state" where
  "axis_initialize_external_offsets s =
     fold (\<lambda>n s.
       upd_ax n (upd_ext (\<lambda>t. t\<lparr>tp_pos_cmd := 0, tp_curr_pos := 0, tp_curr_vel := 0\<rparr>))
         (upd_ah n (\<lambda>h. h\<lparr>th_external_offset := 0, th_external_offset_requested := 0\<rparr>) s))
       [0..<EMCMOT_MAX_AXIS] s"

definition axis_output_to_hal :: "real list \<Rightarrow> axis_state \<Rightarrow> axis_state" where
  "axis_output_to_hal pcmd s =
     fold (\<lambda>n s. let a = as_axis s ! n in
       upd_ah n (\<lambda>h. h\<lparr>th_teleop_vel_cmd := of_int (ta_teleop_vel_cmd a),
           th_teleop_pos_cmd := of_int (tp_pos_cmd (ta_teleop_tp a)),
           th_teleop_vel_lim := of_int (tp_max_vel (ta_teleop_tp a)),
           th_teleop_tp_enable := (tp_enable (ta_teleop_tp a) \<noteq> 0),
           th_kb_ajog_active := (ta_kb_ajog_active a \<noteq> 0),
           th_pos_cmd := pcmd ! n - of_int (tp_curr_pos (ta_ext_offset_tp a))\<rparr>) s)
       [0..<EMCMOT_MAX_AXIS] s"

definition axis_set_max_pos_limit :: "nat \<Rightarrow> real \<Rightarrow> axis_state \<Rightarrow> axis_state" where
  "axis_set_max_pos_limit n x = upd_ax n (\<lambda>a. a\<lparr>ta_max_pos_limit := d2i x\<rparr>)"

definition axis_set_min_pos_limit :: "nat \<Rightarrow> real \<Rightarrow> axis_state \<Rightarrow> axis_state" where
  "axis_set_min_pos_limit n x = upd_ax n (\<lambda>a. a\<lparr>ta_min_pos_limit := d2i x\<rparr>)"

definition axis_set_vel_limit :: "nat \<Rightarrow> real \<Rightarrow> axis_state \<Rightarrow> axis_state" where
  "axis_set_vel_limit n x = upd_ax n (\<lambda>a. a\<lparr>ta_vel_limit := d2i x\<rparr>)"

definition axis_set_acc_limit :: "nat \<Rightarrow> real \<Rightarrow> axis_state \<Rightarrow> axis_state" where
  "axis_set_acc_limit n x = upd_ax n (\<lambda>a. a\<lparr>ta_acc_limit := d2i x\<rparr>)"

definition axis_set_ext_offset_vel_limit :: "nat \<Rightarrow> real \<Rightarrow> axis_state \<Rightarrow> axis_state" where
  "axis_set_ext_offset_vel_limit n x = upd_ax n (\<lambda>a. a\<lparr>ta_ext_offset_vel_limit := d2i x\<rparr>)"

definition axis_set_ext_offset_acc_limit :: "nat \<Rightarrow> real \<Rightarrow> axis_state \<Rightarrow> axis_state" where
  "axis_set_ext_offset_acc_limit n x = upd_ax n (\<lambda>a. a\<lparr>ta_ext_offset_acc_limit := d2i x\<rparr>)"

definition axis_set_locking_joint :: "nat \<Rightarrow> int \<Rightarrow> axis_state \<Rightarrow> axis_state" where
  "axis_set_locking_joint n j = upd_ax n (\<lambda>a. a\<lparr>ta_locking_joint := j\<rparr>)"

definition axis_get_min_pos_limit :: "nat \<Rightarrow> axis_state \<Rightarrow> real" where
  "axis_get_min_pos_limit n s = of_int (ta_min_pos_limit (as_axis s ! n))"

definition axis_get_max_pos_limit :: "nat \<Rightarrow> axis_state \<Rightarrow> real" where
  "axis_get_max_pos_limit n s = of_int (ta_max_pos_limit (as_axis s ! n))"

definition axis_get_vel_limit :: "nat \<Rightarrow> axis_state \<Rightarrow> real" where
  "axis_get_vel_limit n s = of_int (ta_vel_limit (as_axis s ! n))"

definition axis_get_acc_limit :: "nat \<Rightarrow> axis_state \<Rightarrow> real" where
  "axis_get_acc_limit n s = of_int (ta_acc_limit (as_axis s ! n))"

definition axis_get_teleop_vel_cmd :: "nat \<Rightarrow> axis_state \<Rightarrow> real" where
  "axis_get_teleop_vel_cmd n s = of_int (ta_teleop_vel_cmd (as_axis s ! n))"

definition axis_get_locking_joint :: "nat \<Rightarrow> axis_state \<Rightarrow> int" where
  "axis_get_locking_joint n s = ta_locking_joint (as_axis s ! n)"

definition axis_get_compound_velocity :: "axis_state \<Rightarrow> real" where
  "axis_get_compound_velocity s =
     (let v2 = fold (\<lambda>n v2. let a = as_axis s ! n in
             if tp_active (ta_teleop_tp a) \<noteq> 0
             then v2 + of_int (s32 (ta_teleop_vel_cmd a * ta_teleop_vel_cmd a)) else v2)
           [0..<EMCMOT_MAX_AXIS] 0
      in if v2 > 0 then sqrt v2 else 0)"

definition axis_get_ext_offset_curr_pos :: "nat \<Rightarrow> axis_state \<Rightarrow> real" where
  "axis_get_ext_offset_curr_pos n s = of_int (tp_curr_pos (ta_ext_offset_tp (as_axis s ! n)))"

section \<open>Jogging\<close>

definition axis_jog_cont :: "nat \<Rightarrow> real \<Rightarrow> axis_state \<Rightarrow> axis_state" where
  "axis_jog_cont n vel =
     upd_ax n (\<lambda>a. upd_teleop (\<lambda>t. t\<lparr>
         tp_pos_cmd := (if vel > 0 then ta_max_pos_limit a else ta_min_pos_limit a),
         tp_max_vel := d2i \<bar>vel\<bar>, tp_max_acc := ta_acc_limit a, tp_enable := 1\<rparr>)
       (a\<lparr>ta_kb_ajog_active := 1\<rparr>))"

definition jog_target :: "tele_axis \<Rightarrow> int \<Rightarrow> int \<Rightarrow> int" where
  "jog_target a offset vel =
     (if vel > 0 then s32 (tp_pos_cmd (ta_teleop_tp a) + offset)
      else s32 (tp_pos_cmd (ta_teleop_tp a) - offset))"

definition axis_jog_incr :: "nat \<Rightarrow> int \<Rightarrow> int \<Rightarrow> axis_state \<Rightarrow> axis_state" where
  "axis_jog_incr n offset vel s =
     (let a = as_axis s ! n; tmp1 = jog_target a offset vel in
      if tmp1 > ta_max_pos_limit a then s
      else if tmp1 < ta_min_pos_limit a then s
      else upd_ax n (\<lambda>a. upd_teleop (\<lambda>t. t\<lparr>tp_pos_cmd := tmp1, tp_max_vel := vel,
             tp_max_acc := ta_acc_limit a, tp_enable := 1\<rparr>) (a\<lparr>ta_kb_ajog_active := 1\<rparr>)) s)"

definition axis_jog_abs :: "nat \<Rightarrow> int \<Rightarrow> int \<Rightarrow> axis_state \<Rightarrow> axis_state" where
  "axis_jog_abs n offset vel s0 =
     (let s = upd_ax n (\<lambda>a. a\<lparr>ta_kb_ajog_active := 1\<rparr>) s0;
          a = as_axis s ! n; tmp1 = jog_target a offset vel in
      if tmp1 > ta_max_pos_limit a then s
      else if tmp1 < ta_min_pos_limit a then s
      else upd_ax n (\<lambda>a. upd_teleop (\<lambda>t. t\<lparr>tp_pos_cmd := tmp1, tp_max_vel := vel,
             tp_max_acc := ta_acc_limit a, tp_enable := 1\<rparr>) (a\<lparr>ta_kb_ajog_active := 1\<rparr>)) s)"

definition axis_jog_abort :: "nat \<Rightarrow> bool \<Rightarrow> axis_state \<Rightarrow> bool \<times> axis_state" where
  "axis_jog_abort n immediate s =
     (tp_enable (ta_teleop_tp (as_axis s ! n)) \<noteq> 0,
      upd_ax n (\<lambda>a. upd_teleop (\<lambda>t. if immediate then t\<lparr>tp_enable := 0, tp_curr_vel := 0\<rparr>
          else t\<lparr>tp_enable := 0\<rparr>) (a\<lparr>ta_kb_ajog_active := 0\<rparr>)) s)"

definition axis_jog_abort_all :: "bool \<Rightarrow> axis_state \<Rightarrow> bool \<times> axis_state" where
  "axis_jog_abort_all immediate s =
     fold (\<lambda>n (aborted, s). case axis_jog_abort n immediate s of (b, s') \<Rightarrow> (b \<or> aborted, s'))
       [0..<EMCMOT_MAX_AXIS] (False, s)"

definition axis_jog_is_active :: "axis_state \<Rightarrow> bool" where
  "axis_jog_is_active s = list_ex (\<lambda>n. ta_kb_ajog_active (as_axis s ! n) \<noteq> 0) [0..<EMCMOT_MAX_AXIS]"

text \<open>
  The jog wheels. One pass over the axes; \<open>continue\<close> goes on with the next axis, \<open>break\<close> ends the loop,
  \<open>return\<close> ends the function without clearing \<open>first_pass\<close>. A division by zero gives an infinity or
  NaN, which converts to the least integer.
\<close>

datatype flow = Next | Break | Return

definition jog_stop_dist :: "tele_axis \<Rightarrow> real \<Rightarrow> int" where
  "jog_stop_dist a aaccel_limit =
     (let v = real_of_int (ta_vel_limit a) in
      if 2 * aaccel_limit = 0 then INT32_MIN else d2i (v * v / (2 * aaccel_limit)))"

definition jogwheel_axis :: "bool \<Rightarrow> bool \<Rightarrow> bool \<Rightarrow> nat \<Rightarrow> axis_state \<Rightarrow> flow \<times> axis_state" where
  "jogwheel_axis motion_teleop_flag motion_enable_flag homing_is_active n s0 =
     (let h = as_hal s0 ! n; a0 = as_axis s0 ! n;
          aaccel_limit = (if th_ajog_accel_fraction h > 1 \<or> th_ajog_accel_fraction h < 0
            then real_of_int (ta_acc_limit a0) else th_ajog_accel_fraction h * real_of_int (ta_acc_limit a0));
          delta = s32 (th_ajog_counts h - ta_old_ajog_counts a0);
          s = upd_ax n (\<lambda>a. a\<lparr>ta_old_ajog_counts := th_ajog_counts h\<rparr>) s0;
          a = as_axis s ! n
      in if as_jog_first_pass s then (Next, s)
         else if delta = 0 then (Next, s)
         else if \<not> motion_teleop_flag then (Return, upd_ax n (upd_teleop (\<lambda>t. t\<lparr>tp_enable := 0\<rparr>)) s)
         else if \<not> motion_enable_flag then (Next, s)
         else if \<not> th_ajog_enable h then (Next, s)
         else if homing_is_active then (Next, s)
         else if ta_kb_ajog_active a \<noteq> 0 then (Next, s)
         else if ta_locking_joint a \<ge> 0 then (Next, s)
         else
           (let distance = d2i (real_of_int delta * th_ajog_scale h);
                pos0 = s32 (tp_pos_cmd (ta_teleop_tp a) + distance);
                stop_dist = jog_stop_dist a aaccel_limit;
                pos = (if th_ajog_vel_mode h then
                    (if pos0 > s32 (ta_pos_cmd a + stop_dist) then s32 (ta_pos_cmd a + stop_dist)
                     else if pos0 < s32 (ta_pos_cmd a - stop_dist) then s32 (ta_pos_cmd a - stop_dist)
                     else pos0)
                  else pos0)
            in if pos > ta_max_pos_limit a then (Break, s)
               else if pos < ta_min_pos_limit a then (Break, s)
               else (Next, upd_ax n (\<lambda>a. upd_teleop (\<lambda>t. t\<lparr>tp_pos_cmd := pos,
                   tp_max_vel := ta_vel_limit a, tp_max_acc := d2i aaccel_limit, tp_enable := 1\<rparr>) a) s)))"

fun jogwheel_loop :: "bool \<Rightarrow> bool \<Rightarrow> bool \<Rightarrow> nat list \<Rightarrow> axis_state \<Rightarrow> axis_state" where
  "jogwheel_loop tf ef hf [] s = s\<lparr>as_jog_first_pass := False\<rparr>"
| "jogwheel_loop tf ef hf (n # ns) s =
     (case jogwheel_axis tf ef hf n s of
        (Next, s') \<Rightarrow> jogwheel_loop tf ef hf ns s'
      | (Break, s') \<Rightarrow> s'\<lparr>as_jog_first_pass := False\<rparr>
      | (Return, s') \<Rightarrow> s')"

definition axis_handle_jogwheels :: "bool \<Rightarrow> bool \<Rightarrow> bool \<Rightarrow> axis_state \<Rightarrow> axis_state" where
  "axis_handle_jogwheels motion_teleop_flag motion_enable_flag homing_is_active s =
     jogwheel_loop motion_teleop_flag motion_enable_flag homing_is_active [0..<EMCMOT_MAX_AXIS] s"

section \<open>Positions\<close>

definition axis_sync_teleop_tp_to_carte_pos :: "int \<Rightarrow> real list \<Rightarrow> axis_state \<Rightarrow> axis_state" where
  "axis_sync_teleop_tp_to_carte_pos extfactor pcmd s =
     fold (\<lambda>n. upd_ax n (\<lambda>a. upd_teleop (\<lambda>t. t\<lparr>tp_curr_pos :=
         d2i (pcmd ! n + of_int (s32 (extfactor * tp_curr_pos (ta_ext_offset_tp a))))\<rparr>) a))
       [0..<EMCMOT_MAX_AXIS] s"

definition axis_sync_carte_pos_to_teleop_tp :: "int \<Rightarrow> axis_state \<Rightarrow> real list \<Rightarrow> real list" where
  "axis_sync_carte_pos_to_teleop_tp extfactor s pcmd =
     fold (\<lambda>n p. p[n := of_int (s32 (tp_curr_pos (ta_teleop_tp (as_axis s ! n))
         + s32 (extfactor * tp_curr_pos (ta_ext_offset_tp (as_axis s ! n)))))]) [0..<EMCMOT_MAX_AXIS] pcmd"

definition axis_apply_ext_offsets_to_carte_pos :: "int \<Rightarrow> axis_state \<Rightarrow> real list \<Rightarrow> real list" where
  "axis_apply_ext_offsets_to_carte_pos extfactor s pcmd =
     fold (\<lambda>n p. p[n := p ! n + of_int (s32 (extfactor * tp_curr_pos (ta_ext_offset_tp (as_axis s ! n))))])
       [0..<EMCMOT_MAX_AXIS] pcmd"

text \<open>One axis of \<open>axis_plan_external_offsets\<close>; the flag is \<open>eoffset_active\<close>.\<close>

definition plan_ext_axis :: "real \<Rightarrow> bool \<Rightarrow> bool \<Rightarrow> nat \<Rightarrow> bool \<times> axis_state \<Rightarrow> bool \<times> axis_state" where
  "plan_ext_axis servo_period motion_enable_flag all_homed n = (\<lambda>(active, s0).
     let h0 = as_hal s0 ! n; a0 = as_axis s0 ! n;
         delta = s32 (th_eoffset_counts h0 - ta_old_eoffset_counts a0);
         s1 = upd_ax n (\<lambda>a. upd_ext (\<lambda>t. t\<lparr>tp_max_vel := ta_ext_offset_vel_limit a,
                tp_max_acc := ta_ext_offset_acc_limit a, tp_enable := 1\<rparr>)
                (a\<lparr>ta_old_eoffset_counts := th_eoffset_counts h0\<rparr>)) s0;
         s2 = upd_ah n (\<lambda>h. h\<lparr>th_external_offset := of_int (tp_curr_pos (ta_ext_offset_tp a0))\<rparr>) s1
     in if as_eo_first_pass s2 then (active, upd_ah n (\<lambda>h. h\<lparr>th_external_offset := 0\<rparr>) s2)
        else
          (let eps = real_of_int (ta_ext_offset_acc_limit a0) * servo_period * servo_period * 0.001;
               act = (active \<or> \<bar>real_of_int (tp_curr_pos (ta_ext_offset_tp a0))\<bar> > eps)
           in if \<not> th_eoffset_enable h0 then
                (act, (upd_ax n (upd_ext (\<lambda>t. t\<lparr>tp_enable := 0\<rparr>)) s2)
                        \<lparr>as_last_eoffset_enable := (as_last_eoffset_enable s2)[n := 0]\<rparr>)
              else
                (let s3 = s2\<lparr>as_last_eoffset_enable := (as_last_eoffset_enable s2)[n := 1]\<rparr> in
                 if th_eoffset_clear h0 then
                   (act, upd_ah n (\<lambda>h. h\<lparr>th_external_offset_requested := 0\<rparr>)
                           (upd_ax n (upd_ext (\<lambda>t. t\<lparr>tp_pos_cmd := 0\<rparr>)) s3))
                 else if delta = 0 \<or> \<not> all_homed \<or> \<not> motion_enable_flag then (act, s3)
                 else
                   (let p = d2i (real_of_int (tp_pos_cmd (ta_ext_offset_tp a0))
                              + real_of_int delta * th_eoffset_scale h0)
                    in (act, upd_ah n (\<lambda>h. h\<lparr>th_external_offset_requested := of_int p\<rparr>)
                          (upd_ax n (upd_ext (\<lambda>t. t\<lparr>tp_pos_cmd := p\<rparr>)) s3))))))"

definition axis_plan_external_offsets :: "real \<Rightarrow> bool \<Rightarrow> bool \<Rightarrow> axis_state \<Rightarrow> bool \<times> axis_state" where
  "axis_plan_external_offsets servo_period motion_enable_flag all_homed s =
     (case fold (plan_ext_axis servo_period motion_enable_flag all_homed) [0..<EMCMOT_MAX_AXIS] (False, s) of
        (act, s') \<Rightarrow> (act, s'\<lparr>as_eo_first_pass := False\<rparr>))"

section \<open>Limits\<close>

definition check_axis :: "tele_axis \<Rightarrow> real \<Rightarrow> int" where
  "check_axis a pos =
     (let nl = real_of_int (ta_min_pos_limit a); pl = real_of_int (ta_max_pos_limit a);
          eps = 1 / 10 ^ 308 in
      if \<bar>pos\<bar> < eps \<and> \<bar>nl\<bar> < eps \<and> \<bar>pl\<bar> < eps then 0
      else if pos > pl + 1 / 10 ^ 12 then 1
      else if pos < nl - 1 / 10 ^ 12 then -1
      else 0)"

definition axis_check_constraints :: "axis_state \<Rightarrow> real list \<Rightarrow> int list" where
  "axis_check_constraints s pos = map (\<lambda>n. check_axis (as_axis s ! n) (pos ! n)) [0..<EMCMOT_MAX_AXIS]"

text \<open>\<open>axis_update_coord_with_bound\<close>: the update of one external-offset planner, and the bound of one axis.\<close>

definition coord_bound_axis ::
  "real list \<Rightarrow> real list \<Rightarrow> nat \<Rightarrow> nat \<times> real list \<times> axis_state \<Rightarrow> nat \<times> real list \<times> axis_state" where
  "coord_bound_axis save_pos save_off n = (\<lambda>(ans, pcmd, s).
     let a = as_axis s ! n; t = ta_ext_offset_tp a;
         pl = real_of_int (ta_max_pos_limit a); nl = real_of_int (ta_min_pos_limit a)
     in if ta_max_pos_limit a = 0 \<and> ta_min_pos_limit a = 0 then (ans, pcmd, s)
        else if tp_curr_pos t = 0 then (ans, pcmd, s)
        else if pcmd ! n \<ge> pl then
          (ans + 1, pcmd[n := pl],
           upd_ax n (upd_ext (\<lambda>t. t\<lparr>tp_curr_pos := d2i (pl - save_pos ! n),
             tp_pos_cmd := (if real_of_int (tp_pos_cmd t) > save_off ! n then d2i (save_off ! n) else tp_pos_cmd t),
             tp_curr_vel := 0\<rparr>)) s)
        else if pcmd ! n \<le> nl then
          (ans + 1, pcmd[n := nl],
           upd_ax n (upd_ext (\<lambda>t. t\<lparr>tp_curr_pos := d2i (nl - save_pos ! n),
             tp_pos_cmd := (if real_of_int (tp_pos_cmd t) < save_off ! n then d2i (save_off ! n) else tp_pos_cmd t),
             tp_curr_vel := 0\<rparr>)) s)
        else (ans, pcmd, s))"

definition axis_update_coord_with_bound ::
  "real list \<Rightarrow> real \<Rightarrow> axis_state \<Rightarrow> int \<times> real list \<times> axis_state" where
  "axis_update_coord_with_bound pcmd servo_period s =
     (let save_pos = map (\<lambda>n. pcmd ! n) [0..<EMCMOT_MAX_AXIS];
          save_off = map (\<lambda>n. real_of_int (tp_pos_cmd (ta_ext_offset_tp (as_axis s ! n)))) [0..<EMCMOT_MAX_AXIS];
          s1 = fold (\<lambda>n. upd_ax n (upd_ext (\<lambda>t. simple_tp_update t (d2i servo_period)))) [0..<EMCMOT_MAX_AXIS] s;
          p1 = axis_apply_ext_offsets_to_carte_pos 1 s1 pcmd
      in case fold (coord_bound_axis save_pos save_off) [0..<EMCMOT_MAX_AXIS] (0, p1, s1) of
           (ans, p, s2) \<Rightarrow> (if ans > 0 then 1 else 0, p, s2))"

text \<open>The planner \<open>update_teleop_with_check\<close> is called with, as a selector and its update.\<close>

datatype which_tp = Teleop | ExtOffset

fun get_tp :: "which_tp \<Rightarrow> tele_axis \<Rightarrow> simple_tp" where
  "get_tp Teleop a = ta_teleop_tp a"
| "get_tp ExtOffset a = ta_ext_offset_tp a"

fun upd_tp :: "which_tp \<Rightarrow> (simple_tp \<Rightarrow> simple_tp) \<Rightarrow> tele_axis \<Rightarrow> tele_axis" where
  "upd_tp Teleop f a = upd_teleop f a"
| "upd_tp ExtOffset f a = upd_ext f a"

definition offset_sum :: "tele_axis \<Rightarrow> int" where
  "offset_sum a = s32 (tp_curr_pos (ta_ext_offset_tp a) + tp_curr_pos (ta_teleop_tp a))"

definition update_teleop_with_check :: "which_tp \<Rightarrow> real \<Rightarrow> tele_axis \<Rightarrow> int \<times> tele_axis" where
  "update_teleop_with_check w servo_period a =
     (let save_curr_pos = tp_curr_pos (get_tp w a);
          a1 = upd_tp w (\<lambda>t. simple_tp_update t (d2i servo_period)) a
      in if ta_max_pos_limit a = 0 \<and> ta_min_pos_limit a = 0 then (0, a1)
         else if offset_sum a1 \<ge> ta_max_pos_limit a then
           (1, upd_tp w (\<lambda>t. t\<lparr>tp_curr_pos := save_curr_pos, tp_curr_vel := 0\<rparr>) a1)
         else if offset_sum a1 \<le> ta_min_pos_limit a then
           (1, upd_tp w (\<lambda>t. t\<lparr>tp_curr_pos := save_curr_pos, tp_curr_vel := 0\<rparr>) a1)
         else (0, a1))"

definition calc_axis :: "real \<Rightarrow> tele_axis \<Rightarrow> int \<times> tele_axis" where
  "calc_axis servo_period a0 =
     (let a1 = (if tp_max_vel (ta_teleop_tp a0) > ta_vel_limit a0
            then upd_teleop (\<lambda>t. t\<lparr>tp_max_vel := ta_vel_limit a0\<rparr>) a0 else a0);
          (v1, a2) = update_teleop_with_check Teleop servo_period a1;
          a3 = (if v1 \<noteq> 0 then a2
            else a2\<lparr>ta_teleop_vel_cmd := tp_curr_vel (ta_teleop_tp a2),
                    ta_pos_cmd := tp_curr_pos (ta_teleop_tp a2)\<rparr>);
          a4 = (if tp_active (ta_teleop_tp a3) = 0 then a3\<lparr>ta_kb_ajog_active := 0\<rparr> else a3)
      in if tp_enable (ta_ext_offset_tp a4) \<noteq> 0 then
           (case update_teleop_with_check ExtOffset servo_period a4 of
              (v2, a5) \<Rightarrow> (if v1 \<noteq> 0 \<or> v2 \<noteq> 0 then 1 else 0, a5))
         else (if v1 \<noteq> 0 then 1 else 0, a4))"

definition axis_calc_motion :: "real \<Rightarrow> axis_state \<Rightarrow> int \<times> axis_state" where
  "axis_calc_motion servo_period s =
     fold (\<lambda>n (viol, s). case calc_axis servo_period (as_axis s ! n) of
         (v, a) \<Rightarrow> (if v \<noteq> 0 then 1 else viol, upd_ax n (\<lambda>_. a) s)) [0..<EMCMOT_MAX_AXIS] (0, s)"

end
