(* ===== verification/AxisProps.thy ===== *)
theory AxisProps
  imports AxisJog
begin

text \<open>
  What \<open>motion/axis.c\<close> guarantees: the sum of the two planners never reaches a soft limit, jog targets
  stay within the limits, aborting stops every jog. And what it does not: no operation of the file
  sets the velocity and acceleration its planners run with, so from the zero-initialised state no
  jog and no offset ever moves an axis.
\<close>

lemma nth_upd_ax [simp]:
  "n < length (as_axis s) \<Longrightarrow> as_axis (upd_ax n f s) ! m = (if n = m then f (as_axis s ! n) else as_axis s ! m)"
  by (simp add: upd_ax_def)

lemma upd_ax_simps [simp]:
  "length (as_axis (upd_ax n f s)) = length (as_axis s)" "as_hal (upd_ax n f s) = as_hal s"
  "as_jog_first_pass (upd_ax n f s) = as_jog_first_pass s" "as_eo_first_pass (upd_ax n f s) = as_eo_first_pass s"
  "as_axis (upd_ah n g s) = as_axis s" "length (as_hal (upd_ah n g s)) = length (as_hal s)"
  "as_eo_first_pass (upd_ah n g s) = as_eo_first_pass s"
  by (simp_all add: upd_ax_def upd_ah_def)

definition axes_wf :: "axis_state \<Rightarrow> bool" where
  "axes_wf s \<longleftrightarrow> length (as_axis s) = EMCMOT_MAX_AXIS"

section \<open>The soft limits hold\<close>

text \<open>An axis with soft limits, strictly between them.\<close>

definition inside :: "tele_axis \<Rightarrow> bool" where
  "inside a \<longleftrightarrow> (ta_max_pos_limit a = 0 \<and> ta_min_pos_limit a = 0) \<or>
     (ta_min_pos_limit a < offset_sum a \<and> offset_sum a < ta_max_pos_limit a)"

lemma upd_tp_limits [simp]:
  "ta_max_pos_limit (upd_tp w f a) = ta_max_pos_limit a" "ta_min_pos_limit (upd_tp w f a) = ta_min_pos_limit a"
  by (cases w; simp add: upd_teleop_def upd_ext_def)+

lemma upd_tp_restore:
  assumes "\<And>t. tp_curr_pos (g t) = tp_curr_pos (get_tp w a)"
  shows "offset_sum (upd_tp w g (upd_tp w f a)) = offset_sum a"
  using assms by (cases w) (simp_all add: offset_sum_def upd_teleop_def upd_ext_def)

lemma check_inside:
  assumes "inside a"
  shows "inside (snd (update_teleop_with_check w T a))"
    "ta_max_pos_limit (snd (update_teleop_with_check w T a)) = ta_max_pos_limit a"
    "ta_min_pos_limit (snd (update_teleop_with_check w T a)) = ta_min_pos_limit a"
proof -
  have r: "offset_sum (upd_tp w (\<lambda>t. t\<lparr>tp_curr_pos := tp_curr_pos (get_tp w a), tp_curr_vel := 0\<rparr>)
      (upd_tp w (\<lambda>t. simple_tp_update t (d2i T)) a)) = offset_sum a"
    by (rule upd_tp_restore) simp
  show "inside (snd (update_teleop_with_check w T a))"
    using assms r by (auto simp: update_teleop_with_check_def Let_def inside_def)
  show "ta_max_pos_limit (snd (update_teleop_with_check w T a)) = ta_max_pos_limit a"
    "ta_min_pos_limit (snd (update_teleop_with_check w T a)) = ta_min_pos_limit a"
    by (simp_all add: update_teleop_with_check_def Let_def)
qed

lemma inside_cong:
  assumes "ta_max_pos_limit b = ta_max_pos_limit a" "ta_min_pos_limit b = ta_min_pos_limit a"
    "tp_curr_pos (ta_teleop_tp b) = tp_curr_pos (ta_teleop_tp a)" "ta_ext_offset_tp b = ta_ext_offset_tp a"
  shows "inside b \<longleftrightarrow> inside a"
  using assms by (simp add: inside_def offset_sum_def)

lemma calc_axis_inside:
  assumes "inside a"
  shows "inside (snd (calc_axis T a))"
proof -
  let ?a1 = "if tp_max_vel (ta_teleop_tp a) > ta_vel_limit a
    then upd_teleop (\<lambda>t. t\<lparr>tp_max_vel := ta_vel_limit a\<rparr>) a else a"
  have "inside ?a1" using assms by (subst inside_cong [of ?a1 a]) (auto simp: upd_teleop_def)
  then have 2: "inside (snd (update_teleop_with_check Teleop T ?a1))" by (rule check_inside(1))
  have 3: "inside b" if "inside a2"
    "b = (if v = (0::int) then a2\<lparr>ta_teleop_vel_cmd := x, ta_pos_cmd := y\<rparr> else a2)" for a2 b v x y
    using that by (subst inside_cong [of b a2]) auto
  have 4: "inside b" if "inside a3" "b = (if c then a3\<lparr>ta_kb_ajog_active := 0\<rparr> else a3)" for a3 b c
    using that by (subst inside_cong [of b a3]) auto
  obtain v1 a2 where u: "update_teleop_with_check Teleop T ?a1 = (v1, a2)" by fastforce
  define a3 where "a3 = (if v1 \<noteq> 0 then a2 else a2\<lparr>ta_teleop_vel_cmd := tp_curr_vel (ta_teleop_tp a2),
      ta_pos_cmd := tp_curr_pos (ta_teleop_tp a2)\<rparr>)"
  define a4 where "a4 = (if tp_active (ta_teleop_tp a3) = 0 then a3\<lparr>ta_kb_ajog_active := 0\<rparr> else a3)"
  have "inside a3" using 2 u by (intro 3 [of a2 a3 v1]) (auto simp: a3_def)
  then have a4: "inside a4" by (rule 4) (rule a4_def)
  have "snd (calc_axis T a) = (if tp_enable (ta_ext_offset_tp a4) \<noteq> 0
      then snd (update_teleop_with_check ExtOffset T a4) else a4)"
    unfolding calc_axis_def Let_def u by (simp add: a3_def a4_def split: prod.splits)
  with a4 check_inside(1) [OF a4] show ?thesis by simp
qed

text \<open>C10: soft limits are never reached. If every axis with soft limits is strictly between them, it still is after
  \<open>axis_calc_motion\<close>, whatever the planners request: an update that would reach a limit is undone.\<close>

theorem axis_calc_motion_inside:
  assumes "axes_wf s" "\<forall>a \<in> set (as_axis s). inside a"
  shows "axes_wf (snd (axis_calc_motion T s)) \<and> (\<forall>a \<in> set (as_axis (snd (axis_calc_motion T s))). inside a)"
proof -
  let ?P = "\<lambda>p :: int \<times> axis_state. axes_wf (snd p) \<and> (\<forall>a \<in> set (as_axis (snd p)). inside a)"
  show ?thesis
    unfolding axis_calc_motion_def
  proof (rule fold_invariant [where Q = "\<lambda>n. n < EMCMOT_MAX_AXIS" and P = ?P])
    fix n and p :: "int \<times> axis_state"
    assume n: "n < EMCMOT_MAX_AXIS" and p: "?P p"
    obtain v t where vt: "p = (v, t)" by (cases p)
    have "inside (snd (calc_axis T (as_axis t ! n)))"
      using n p by (intro calc_axis_inside) (auto simp: vt axes_wf_def)
    with n p show "?P (case p of (viol, s) \<Rightarrow> case calc_axis T (as_axis s ! n) of
         (v, a) \<Rightarrow> (if v \<noteq> 0 then 1 else viol, upd_ax n (\<lambda>_. a) s))"
      by (auto simp: vt axes_wf_def upd_ax_def split: prod.splits dest!: set_update_subset_insert [THEN subsetD])
  qed (use assms in \<open>auto simp: EMCMOT_MAX_AXIS_def\<close>)
qed

definition tp_zero :: simple_tp where
  "tp_zero = \<lparr>tp_pos_cmd = 0, tp_max_vel = 0, tp_max_acc = 0, tp_vel = 0, tp_acc = 0, tp_enable = 0,
     tp_curr_pos = 0, tp_curr_vel = 0, tp_active = 0, tp_dir = 0\<rparr>"

definition tele_axis_zero :: tele_axis where
  "tele_axis_zero = \<lparr>ta_pos_cmd = 0, ta_teleop_vel_cmd = 0, ta_max_pos_limit = 0, ta_min_pos_limit = 0,
     ta_vel_limit = 0, ta_acc_limit = 0, ta_teleop_tp = tp_zero, ta_old_ajog_counts = 0,
     ta_kb_ajog_active = 0, ta_locking_joint = 0, ta_ext_offset_vel_limit = 0, ta_ext_offset_acc_limit = 0,
     ta_old_eoffset_counts = 0, ta_ext_offset_tp = tp_zero\<rparr>"

definition tele_hal_zero :: tele_hal where
  "tele_hal_zero = \<lparr>th_pos_cmd = 0, th_teleop_vel_cmd = 0, th_teleop_pos_cmd = 0, th_teleop_vel_lim = 0,
     th_teleop_tp_enable = False, th_ajog_counts = 0, th_ajog_enable = False, th_ajog_scale = 0,
     th_ajog_accel_fraction = 1, th_ajog_vel_mode = False, th_kb_ajog_active = False,
     th_eoffset_enable = False, th_eoffset_clear = False, th_eoffset_counts = 0, th_eoffset_scale = 0,
     th_external_offset = 0, th_external_offset_requested = 0\<rparr>"

text \<open>The state at program start: static storage is zero.\<close>

definition axis_start :: axis_state where
  "axis_start = \<lparr>as_axis = replicate 3 tele_axis_zero, as_hal = replicate 3 tele_hal_zero,
     as_jog_first_pass = True, as_eo_first_pass = True, as_last_eoffset_enable = [0, 0, 0]\<rparr>"

definition axis_limited :: axis_state where
  "axis_limited = axis_start\<lparr>as_axis := replicate 3 (tele_axis_zero\<lparr>ta_max_pos_limit := 1000,
     ta_min_pos_limit := -1000, ta_teleop_tp := tp_zero\<lparr>tp_pos_cmd := 5000, tp_vel := 400, tp_acc := 300,
       tp_enable := 1, tp_curr_pos := 900, tp_curr_vel := 200\<rparr>\<rparr>)\<rparr>"

theorem axis_calc_motion_inside_witness:
  "inside (as_axis (snd (axis_calc_motion 1 axis_limited)) ! 0)"
proof -
  have "s32 900 = 900" by (rule s32_small) simp
  then have "axes_wf axis_limited" "\<forall>a \<in> set (as_axis axis_limited). inside a"
    by (simp_all add: axis_limited_def axis_start_def axes_wf_def EMCMOT_MAX_AXIS_def inside_def
      offset_sum_def tele_axis_zero_def tp_zero_def)
  from axis_calc_motion_inside [OF this, of 1] show ?thesis
    by (simp add: axes_wf_def EMCMOT_MAX_AXIS_def)
qed

section \<open>Jogs\<close>

text \<open>C11: a jog is aimed between the soft limits, and aborting stops it. An incremental jog leaves the state as it is
  when its target lies outside the limits of its axis; otherwise the teleop planner of that axis, and of no
  other, is enabled with that target. Aborting all jogs disables the teleop planner of every axis, at once at
  rest if it is to be immediate and with its velocity left to decay otherwise; it leaves no jog active, reports
  whether some planner was enabled, and leaves the planners of the external offsets and everything else as it is.\<close>

theorem axis_jog_in_limits:
  assumes "axes_wf s" "n < EMCMOT_MAX_AXIS"
  shows "(let a = as_axis s ! n; s' = axis_jog_incr n offset vel s; t = ta_teleop_tp (as_axis s' ! n) in
      if ta_min_pos_limit a \<le> jog_target a offset vel \<and> jog_target a offset vel \<le> ta_max_pos_limit a
      then tp_pos_cmd t = jog_target a offset vel \<and> tp_max_vel t = vel \<and> tp_enable t = 1 \<and> axis_jog_is_active s'
        \<and> (\<forall>m. m = n \<or> as_axis s' ! m = as_axis s ! m)
      else s' = s)
    \<and> (let (aborted, s') = axis_jog_abort_all imm s; a = as_axis s ! n; t = ta_teleop_tp a in
        as_axis s' ! n = a\<lparr>ta_kb_ajog_active := 0,
          ta_teleop_tp := t\<lparr>tp_enable := 0, tp_curr_vel := (if imm then 0 else tp_curr_vel t)\<rparr>\<rparr>
        \<and> \<not> axis_jog_is_active s' \<and> length (as_axis s') = length (as_axis s)
        \<and> aborted = (\<exists>m < EMCMOT_MAX_AXIS. tp_enable (ta_teleop_tp (as_axis s ! m)) \<noteq> 0))"
proof (intro conjI)
  have n: "n < length (as_axis s)" and l: "length (as_axis s) = 3" and n3: "n = 0 \<or> n = 1 \<or> n = 2"
    using assms by (auto simp: axes_wf_def EMCMOT_MAX_AXIS_def)
  have ex: "(\<exists>m < EMCMOT_MAX_AXIS. P m) \<longleftrightarrow> P 2 \<or> P 1 \<or> P 0" for P
    by (auto simp: EMCMOT_MAX_AXIS_def numeral_3_eq_3 less_Suc_eq numeral_2_eq_2)
  have other: "m = k \<or> xs[k := x] ! m = xs ! m" for m k x and xs :: "tele_axis list" by (cases "m = k") simp_all
  show "let a = as_axis s ! n; s' = axis_jog_incr n offset vel s; t = ta_teleop_tp (as_axis s' ! n) in
      if ta_min_pos_limit a \<le> jog_target a offset vel \<and> jog_target a offset vel \<le> ta_max_pos_limit a
      then tp_pos_cmd t = jog_target a offset vel \<and> tp_max_vel t = vel \<and> tp_enable t = 1 \<and> axis_jog_is_active s'
        \<and> (\<forall>m. m = n \<or> as_axis s' ! m = as_axis s ! m)
      else s' = s"
    using n n3 other by (auto simp: axis_jog_incr_def Let_def upd_teleop_def upd_ax_def axis_jog_is_active_def)
  show "let (aborted, s') = axis_jog_abort_all imm s; a = as_axis s ! n; t = ta_teleop_tp a in
      as_axis s' ! n = a\<lparr>ta_kb_ajog_active := 0,
        ta_teleop_tp := t\<lparr>tp_enable := 0, tp_curr_vel := (if imm then 0 else tp_curr_vel t)\<rparr>\<rparr>
      \<and> \<not> axis_jog_is_active s' \<and> length (as_axis s') = length (as_axis s)
      \<and> aborted = (\<exists>m < EMCMOT_MAX_AXIS. tp_enable (ta_teleop_tp (as_axis s ! m)) \<noteq> 0)"
    unfolding ex using l n3
    by (auto simp: axis_jog_abort_all_def axis_jog_abort_def axis_jog_is_active_def upd_ax_def upd_teleop_def Let_def)
qed

theorem axis_jog_in_limits_witness:
  "tp_enable (ta_teleop_tp (as_axis (snd (axis_jog_abort_all True axis_limited)) ! 2)) = 0"
  using axis_jog_in_limits [of axis_limited 2 0 0 True]
  by (simp add: axes_wf_def axis_limited_def axis_start_def EMCMOT_MAX_AXIS_def split_beta Let_def)

text \<open>The steps of the component: every operation other modules or its own cycle can perform.\<close>

inductive axis_step :: "axis_state \<Rightarrow> axis_state \<Rightarrow> bool" where
  step_init: "axis_step s (axis_init_all s)"
| step_init_ext: "axis_step s (axis_initialize_external_offsets s)"
| step_max: "axis_step s (axis_set_max_pos_limit n x s)"
| step_min: "axis_step s (axis_set_min_pos_limit n x s)"
| step_vel: "axis_step s (axis_set_vel_limit n x s)"
| step_acc: "axis_step s (axis_set_acc_limit n x s)"
| step_ext_vel: "axis_step s (axis_set_ext_offset_vel_limit n x s)"
| step_ext_acc: "axis_step s (axis_set_ext_offset_acc_limit n x s)"
| step_lock: "axis_step s (axis_set_locking_joint n j s)"
| step_cont: "axis_step s (axis_jog_cont n v s)"
| step_incr: "axis_step s (axis_jog_incr n off vel s)"
| step_abs: "axis_step s (axis_jog_abs n off vel s)"
| step_abort: "axis_step s (snd (axis_jog_abort_all imm s))"
| step_sync: "axis_step s (axis_sync_teleop_tp_to_carte_pos f pcmd s)"
| step_calc: "axis_step s (snd (axis_calc_motion T s))"

inductive axis_reach :: "axis_state \<Rightarrow> bool" where
  reach_start: "axis_reach axis_start"
| reach_step: "axis_reach s \<Longrightarrow> axis_step s t \<Longrightarrow> axis_reach t"

text \<open>A planner without velocity and acceleration stands still.\<close>

definition tp_idle :: "simple_tp \<Rightarrow> bool" where
  "tp_idle t \<longleftrightarrow> tp_vel t = 0 \<and> tp_acc t = 0 \<and> tp_curr_vel t = 0 \<and> in_s32 (tp_curr_pos t)"

lemma tp_idle_update:
  assumes "tp_idle t"
  shows "tp_idle (simple_tp_update t T)" "tp_curr_pos (simple_tp_update t T) = tp_curr_pos t"
proof -
  have z: "tp_vel t = 0" "tp_acc t = 0" "tp_curr_vel t = 0" "in_s32 (tp_curr_pos t)"
    using assms by (simp_all add: tp_idle_def)
  obtain v u where r: "tp_request (t\<lparr>tp_active := 0\<rparr>) T = (v, u)" by fastforce
  have u: "tp_vel u = 0" "tp_acc u = 0" "tp_curr_vel u = 0" "tp_curr_pos u = tp_curr_pos t"
    using r z by (auto simp: tp_request_def Let_def split: if_splits)
  have v: "v = Some 0"
    using r z by (auto simp: tp_request_def Let_def c_sqrt_def max_dv_def split: if_splits)
  have "tp_ramp (tp_curr_vel u) (max_dv u T) (tp_limit (tp_vel u) v) = 0"
    using u by (simp add: v tp_ramp_def tp_limit_def nan_gt_def nan_lt_def nan_d2i_def max_dv_def
      d2i_of_int [of 0, simplified])
  then have "simple_tp_update t T = u\<lparr>tp_curr_vel := 0, tp_curr_pos := s32 (tp_curr_pos t)\<rparr>"
    using u by (simp add: simple_tp_update_def r Let_def)
  then show "tp_idle (simple_tp_update t T)" "tp_curr_pos (simple_tp_update t T) = tp_curr_pos t"
    using u z(4) by (simp_all add: tp_idle_def s32_id)
qed

definition axis_idle :: "tele_axis \<Rightarrow> bool" where
  "axis_idle a \<longleftrightarrow> tp_idle (ta_teleop_tp a) \<and> tp_idle (ta_ext_offset_tp a)"

definition all_idle :: "axis_state \<Rightarrow> bool" where
  "all_idle s \<longleftrightarrow> axes_wf s \<and> (\<forall>a \<in> set (as_axis s). axis_idle a)"

lemma all_idle_upd:
  assumes "all_idle s" "\<And>a. axis_idle a \<Longrightarrow> axis_idle (f a)"
  shows "all_idle (upd_ax n f s)"
proof (cases "n < length (as_axis s)")
  case True
  with assms show ?thesis
    by (auto simp: all_idle_def axes_wf_def upd_ax_def dest!: set_update_subset_insert [THEN subsetD])
next
  case False
  with assms show ?thesis by (simp add: all_idle_def axes_wf_def upd_ax_def list_update_beyond)
qed

lemma all_idle_upd_ah [simp]: "all_idle (upd_ah n f s) \<longleftrightarrow> all_idle s"
  by (simp add: all_idle_def axes_wf_def)

lemmas idle_defs = axis_idle_def tp_idle_def upd_teleop_def upd_ext_def

lemma check_idle:
  assumes "axis_idle a"
  shows "axis_idle (snd (update_teleop_with_check w T a))"
    "tp_curr_pos (get_tp v (snd (update_teleop_with_check w T a))) = tp_curr_pos (get_tp v a)"
proof -
  let ?u = "\<lambda>t. simple_tp_update t (d2i T)"
  have i: "axis_idle (upd_tp w ?u a)"
    using assms by (cases w) (auto simp: axis_idle_def upd_teleop_def upd_ext_def tp_idle_update)
  have p: "tp_curr_pos (get_tp v (upd_tp w ?u a)) = tp_curr_pos (get_tp v a)"
    using assms by (cases w; cases v) (auto simp: axis_idle_def upd_teleop_def upd_ext_def tp_idle_update)
  have r: "axis_idle (upd_tp w (\<lambda>t. t\<lparr>tp_curr_pos := tp_curr_pos (get_tp w a), tp_curr_vel := 0\<rparr>) b)"
    "tp_curr_pos (get_tp v (upd_tp w (\<lambda>t. t\<lparr>tp_curr_pos := tp_curr_pos (get_tp w a), tp_curr_vel := 0\<rparr>) b))
      = tp_curr_pos (get_tp v a)"
    if "axis_idle b" "\<And>v. tp_curr_pos (get_tp v b) = tp_curr_pos (get_tp v a)" for b
    using that that(2) [of Teleop] that(2) [of ExtOffset] assms
    by (cases w; cases v; auto simp: idle_defs)+
  have p': "\<And>v. tp_curr_pos (get_tp v (upd_tp w ?u a)) = tp_curr_pos (get_tp v a)"
    using assms by (case_tac v; cases w) (auto simp: axis_idle_def upd_teleop_def upd_ext_def tp_idle_update)
  show "axis_idle (snd (update_teleop_with_check w T a))"
    "tp_curr_pos (get_tp v (snd (update_teleop_with_check w T a))) = tp_curr_pos (get_tp v a)"
    using i p r [OF i p'] by (auto simp: update_teleop_with_check_def Let_def)
qed

lemma axis_idle_fields:
  "axis_idle (a\<lparr>ta_teleop_vel_cmd := x, ta_pos_cmd := y\<rparr>) = axis_idle a"
  "axis_idle (a\<lparr>ta_kb_ajog_active := k\<rparr>) = axis_idle a"
  "axis_idle (upd_teleop (\<lambda>t. t\<lparr>tp_max_vel := v\<rparr>) a) = axis_idle a"
  by (simp_all add: idle_defs)

lemma get_tp_fields:
  "get_tp w (a\<lparr>ta_teleop_vel_cmd := x, ta_pos_cmd := y\<rparr>) = get_tp w a"
  "get_tp w (a\<lparr>ta_kb_ajog_active := k\<rparr>) = get_tp w a"
  "tp_curr_pos (get_tp w (upd_teleop (\<lambda>t. t\<lparr>tp_max_vel := v\<rparr>) a)) = tp_curr_pos (get_tp w a)"
  by (cases w; simp add: upd_teleop_def)+

lemma calc_axis_idle:
  assumes "axis_idle a"
  shows "axis_idle (snd (calc_axis T a))"
    "tp_curr_pos (get_tp w (snd (calc_axis T a))) = tp_curr_pos (get_tp w a)"
proof -
  define a1 where "a1 = (if tp_max_vel (ta_teleop_tp a) > ta_vel_limit a
    then upd_teleop (\<lambda>t. t\<lparr>tp_max_vel := ta_vel_limit a\<rparr>) a else a)"
  have 1: "axis_idle a1" "\<And>w. tp_curr_pos (get_tp w a1) = tp_curr_pos (get_tp w a)"
    using assms by (auto simp: a1_def axis_idle_fields get_tp_fields)
  obtain v1 a2 where u: "update_teleop_with_check Teleop T a1 = (v1, a2)" by fastforce
  have 2: "axis_idle a2" "\<And>w. tp_curr_pos (get_tp w a2) = tp_curr_pos (get_tp w a)"
    using check_idle(1) [OF 1(1), of Teleop T] check_idle(2) [OF 1(1), where w = Teleop and T = T] 1(2)
    by (auto simp: u)
  define a3 where "a3 = (if v1 \<noteq> 0 then a2 else a2\<lparr>ta_teleop_vel_cmd := tp_curr_vel (ta_teleop_tp a2),
      ta_pos_cmd := tp_curr_pos (ta_teleop_tp a2)\<rparr>)"
  define a4 where "a4 = (if tp_active (ta_teleop_tp a3) = 0 then a3\<lparr>ta_kb_ajog_active := 0\<rparr> else a3)"
  have 4: "axis_idle a4" "\<And>w. tp_curr_pos (get_tp w a4) = tp_curr_pos (get_tp w a)"
    using 2 by (auto simp: a4_def a3_def axis_idle_fields get_tp_fields)
  have "snd (calc_axis T a) = (if tp_enable (ta_ext_offset_tp a4) \<noteq> 0
      then snd (update_teleop_with_check ExtOffset T a4) else a4)"
    unfolding calc_axis_def Let_def a1_def [symmetric] u by (simp add: a3_def a4_def split: prod.splits)
  with 4 check_idle [OF 4(1)] show "axis_idle (snd (calc_axis T a))"
    "tp_curr_pos (get_tp w (snd (calc_axis T a))) = tp_curr_pos (get_tp w a)" by auto
qed

lemma calc_motion_idle:
  assumes "all_idle s"
  shows "all_idle (snd (axis_calc_motion T s))"
    "n < EMCMOT_MAX_AXIS \<Longrightarrow> tp_curr_pos (get_tp w (as_axis (snd (axis_calc_motion T s)) ! n)) =
       tp_curr_pos (get_tp w (as_axis s ! n))"
proof -
  let ?P = "\<lambda>p :: int \<times> axis_state. all_idle (snd p) \<and> (\<forall>w. \<forall>n<EMCMOT_MAX_AXIS.
      tp_curr_pos (get_tp w (as_axis (snd p) ! n)) = tp_curr_pos (get_tp w (as_axis s ! n)))"
  have P: "?P (axis_calc_motion T s)"
    unfolding axis_calc_motion_def
  proof (rule fold_invariant [where Q = "\<lambda>n. n < EMCMOT_MAX_AXIS" and P = ?P])
    fix n and p :: "int \<times> axis_state"
    assume n: "n < EMCMOT_MAX_AXIS" and p: "?P p"
    obtain v t where vt: "p = (v, t)" by (cases p)
    have i: "axis_idle (as_axis t ! n)" using n p by (auto simp: vt all_idle_def axes_wf_def)
    have l: "n < length (as_axis t)" using n p by (simp add: vt all_idle_def axes_wf_def)
    have "all_idle (upd_ax n (\<lambda>_. snd (calc_axis T (as_axis t ! n))) t)"
      using p calc_axis_idle(1) [OF i] by (intro all_idle_upd) (auto simp: vt)
    moreover obtain v2 a2 where c: "calc_axis T (as_axis t ! n) = (v2, a2)" by fastforce
    moreover have "tp_curr_pos (get_tp w a2) = tp_curr_pos (get_tp w (as_axis s ! n))" for w
      using calc_axis_idle(2) [OF i, where T = T and w = w] p n by (simp add: c vt)
    ultimately show "?P (case p of (viol, s) \<Rightarrow> case calc_axis T (as_axis s ! n) of
         (v, a) \<Rightarrow> (if v \<noteq> 0 then 1 else viol, upd_ax n (\<lambda>_. a) s))"
      using l p by (auto simp: vt)
  qed (use assms in \<open>auto simp: EMCMOT_MAX_AXIS_def\<close>)
  then show "all_idle (snd (axis_calc_motion T s))" by simp
  from P show "n < EMCMOT_MAX_AXIS \<Longrightarrow> tp_curr_pos (get_tp w (as_axis (snd (axis_calc_motion T s)) ! n)) =
       tp_curr_pos (get_tp w (as_axis s ! n))" by simp
qed

inductive_cases axis_stepE: "axis_step s t"

lemma axis_step_idle: "all_idle s \<Longrightarrow> axis_step s t \<Longrightarrow> all_idle t"
  by (erule axis_stepE)
    (auto simp: axis_init_all_def axis_initialize_external_offsets_def axis_set_max_pos_limit_def
      axis_set_min_pos_limit_def axis_set_vel_limit_def axis_set_acc_limit_def
      axis_set_ext_offset_vel_limit_def axis_set_ext_offset_acc_limit_def axis_set_locking_joint_def
      axis_jog_cont_def axis_jog_incr_def axis_jog_abs_def axis_jog_abort_all_def axis_jog_abort_def
      axis_sync_teleop_tp_to_carte_pos_def Let_def idle_defs d2i_in_s32
      intro!: all_idle_upd calc_motion_idle(1))

lemma axis_reach_idle: "axis_reach s \<Longrightarrow> all_idle s"
proof (induction rule: axis_reach.induct)
  case reach_start
  show ?case
    by (simp add: all_idle_def axes_wf_def axis_start_def EMCMOT_MAX_AXIS_def idle_defs
      tele_axis_zero_def tp_zero_def)
next
  case (reach_step s t)
  then show ?case using axis_step_idle by blast
qed

text \<open>no teleop jog ever moves an axis. \<open>simple_tp_update\<close> runs with the fields \<open>vel\<close> and \<open>acc\<close> of a planner, the
  operations of \<open>axis.c\<close> set \<open>max_vel\<close> and \<open>max_acc\<close> only: in every reachable state a motion cycle
  leaves the positions of all planners as they are.\<close>

theorem axis_never_moves:
  assumes "axis_reach s" "n < EMCMOT_MAX_AXIS"
  shows "tp_curr_pos (ta_teleop_tp (as_axis (snd (axis_calc_motion T s)) ! n)) = tp_curr_pos (ta_teleop_tp (as_axis s ! n))
    \<and> tp_curr_pos (ta_ext_offset_tp (as_axis (snd (axis_calc_motion T s)) ! n))
      = tp_curr_pos (ta_ext_offset_tp (as_axis s ! n))"
  using calc_motion_idle(2) [OF axis_reach_idle [OF assms(1)] assms(2), of Teleop]
    calc_motion_idle(2) [OF axis_reach_idle [OF assms(1)] assms(2), of ExtOffset] by simp

text \<open>A jog of axis 0 by 500 with everything configured, then a cycle.\<close>

definition axis_jogged :: axis_state where
  "axis_jogged = axis_jog_incr 0 500 100 (axis_set_acc_limit 0 50 (axis_set_vel_limit 0 100
     (axis_set_max_pos_limit 0 1000 axis_start)))"

lemma axis_jogged_reach: "axis_reach axis_jogged"
  unfolding axis_jogged_def
  by (intro reach_step [OF _ step_incr] reach_step [OF _ step_acc] reach_step [OF _ step_vel]
    reach_step [OF _ step_max] reach_start)

theorem axis_never_moves_witness:
  "tp_curr_pos (ta_teleop_tp (as_axis (snd (axis_calc_motion 1 axis_jogged)) ! 0)) =
   tp_curr_pos (ta_teleop_tp (as_axis axis_jogged ! 0)) \<and>
   tp_pos_cmd (ta_teleop_tp (as_axis axis_jogged ! 0)) = 500"
proof -
  have "d2i 1000 = 1000" "d2i 100 = 100" "d2i 50 = 50"
    using d2i_small [of 1000] d2i_small [of 100] d2i_small [of 50] by simp_all
  moreover have "s32 500 = 500" by (rule s32_small) simp
  ultimately have "tp_pos_cmd (ta_teleop_tp (as_axis axis_jogged ! 0)) = 500"
    by (simp add: axis_jogged_def axis_jog_incr_def jog_target_def axis_set_max_pos_limit_def
      axis_set_vel_limit_def axis_set_acc_limit_def Let_def upd_ax_def upd_teleop_def axis_start_def
      tele_axis_zero_def tp_zero_def numeral_3_eq_3)
  with axis_never_moves [OF axis_jogged_reach, of 0 1] show ?thesis by (simp add: EMCMOT_MAX_AXIS_def)
qed

end
