(* ===== verification/Blend.thy ===== *)
theory Blend
  imports EmcPos
begin

text \<open>
  The geometry of the trajectory planner that does not look at queued segments: the scalar helpers,
  angle and limit calculations and the spiral fit of \<open>tp/blendmath.c\<close>, and the spherical arcs of
  \<open>tp/spherical_arc.c\<close>. A result stored through a pointer is a component of the result; where the code
  returns an error before storing, that component is an option. \<open>TP_POS_EPSILON\<close> and \<open>TP_VEL_EPSILON\<close>
  are 1 in this program: positions are counted in pulses. A quotient whose divisor is zero is an
  infinity or a NaN in the code; every such quotient that a queued segment can reach is guarded in the
  model and its value stated, the others (an angle or a radius of zero) are excluded by how the
  geometry is built.
\<close>

definition TP_POS_EPSILON :: real where "TP_POS_EPSILON = 1"
definition TP_VEL_EPSILON :: real where "TP_VEL_EPSILON = 1"
definition TP_TIME_EPSILON :: real where "TP_TIME_EPSILON = 1 / 10 ^ 12"
definition TP_ANGLE_EPSILON :: real where "TP_ANGLE_EPSILON = 1 / 10 ^ 6"
definition TP_ANGLE_EPSILON_SQ :: real where "TP_ANGLE_EPSILON_SQ = TP_ANGLE_EPSILON * TP_ANGLE_EPSILON"
definition TP_MIN_ARC_ANGLE :: real where "TP_MIN_ARC_ANGLE = 1 / 10 ^ 3"
definition TP_MIN_ARC_LENGTH :: real where "TP_MIN_ARC_LENGTH = 1 / 10 ^ 6"
definition BLEND_ACC_RATIO_TANGENTIAL :: real where "BLEND_ACC_RATIO_TANGENTIAL = 1 / 2"
definition BLEND_ACC_RATIO_NORMAL :: real where
  "BLEND_ACC_RATIO_NORMAL = pmSqrt (1 - pmSq BLEND_ACC_RATIO_TANGENTIAL)"
definition BLEND_KINK_FACTOR :: real where "BLEND_KINK_FACTOR = 1 / 4"
definition ARC_MIN_RADIUS :: real where "ARC_MIN_RADIUS = 1 / 10 ^ 12"
definition ARC_MIN_ANGLE :: real where "ARC_MIN_ANGLE = 1 / 10 ^ 6"

definition TP_ERR_TOLERANCE :: int where "TP_ERR_TOLERANCE = -7"
definition TP_ERR_RADIUS_TOO_SMALL :: int where "TP_ERR_RADIUS_TOO_SMALL = -6"
definition TP_ERR_GEOM :: int where "TP_ERR_GEOM = -5"
definition TP_ERR_FAIL :: int where "TP_ERR_FAIL = -1"
definition TP_ERR_OK :: int where "TP_ERR_OK = 0"

section \<open>Scalars\<close>

definition fsign :: "real \<Rightarrow> real" where
  "fsign f = (if f > 0 then 1 else if f < 0 then -1 else 0)"

definition negate :: "real \<Rightarrow> bool \<Rightarrow> real" where
  "negate f neg = (if neg then - f else f)"

definition clip_min :: "real \<Rightarrow> real \<Rightarrow> int \<times> real" where
  "clip_min x mn = (if x < mn then (1, mn) else (0, x))"

definition clip_max :: "real \<Rightarrow> real \<Rightarrow> int \<times> real" where
  "clip_max x mx = (if x > mx then (1, mx) else (0, x))"

definition saturate :: "real \<Rightarrow> real \<Rightarrow> real" where
  "saturate x mx = (if x > mx then mx else if x < - mx then - mx else x)"

definition bisaturate :: "real \<Rightarrow> real \<Rightarrow> real \<Rightarrow> real" where
  "bisaturate x mx mn = (if x > mx then mx else if x < mn then mn else x)"

definition bound :: "real \<Rightarrow> real \<Rightarrow> real \<Rightarrow> real" where
  "bound x mx mn = (if x > mx then mx else if x < mn then mn else x)"

definition sat_inplace :: "real \<Rightarrow> real \<Rightarrow> int \<times> real" where
  "sat_inplace x mx = (if x > mx then (1, mx) else if x < - mx then (-1, - mx) else (0, x))"

definition findVPeak :: "real \<Rightarrow> real \<Rightarrow> real" where
  "findVPeak a_t_max distance = pmSqrt (a_t_max * distance)"

definition findMaxTangentAngle :: "real \<Rightarrow> real \<Rightarrow> real \<Rightarrow> real" where
  "findMaxTangentAngle v_plan acc_limit cycle_time =
     (let acc_margin = BLEND_ACC_RATIO_NORMAL * BLEND_KINK_FACTOR * acc_limit;
          dx = v_plan / cycle_time
      in if dx > 0 then acc_margin / dx else TP_ANGLE_EPSILON)"

definition findKinkAccel :: "real \<Rightarrow> real \<Rightarrow> real \<Rightarrow> real" where
  "findKinkAccel kink_angle v_plan cycle_time =
     (let dx = v_plan / cycle_time in if dx > 0 then dx * kink_angle else 0)"

text \<open>Real roots of a quadratic; nothing is stored when there is none.\<close>

definition quadraticFormula :: "real \<Rightarrow> real \<Rightarrow> real \<Rightarrow> (real \<times> real) option" where
  "quadraticFormula A B C =
     (let disc = pmSq B - 4 * A * C in
      if disc < 0 then None
      else (let t1 = pmSqrt disc in Some ((- B + t1) / (2 * A), (- B - t1) / (2 * A))))"

section \<open>Vectors\<close>

definition pmCartCartParallel :: "pm_cart \<Rightarrow> pm_cart \<Rightarrow> real \<Rightarrow> bool" where
  "pmCartCartParallel u1 u2 tol \<longleftrightarrow> pmCartMagSq (pmCartCartSub u1 u2) < tol"

definition pmCartCartAntiParallel :: "pm_cart \<Rightarrow> pm_cart \<Rightarrow> real \<Rightarrow> bool" where
  "pmCartCartAntiParallel u1 u2 tol \<longleftrightarrow> pmCartMagSq (pmCartCartAdd u1 u2) < tol"

definition pmUnitCartsColinear :: "pm_cart \<Rightarrow> pm_cart \<Rightarrow> bool" where
  "pmUnitCartsColinear u1 u2 \<longleftrightarrow>
     pmCartCartParallel u1 u2 TP_ANGLE_EPSILON_SQ \<or> pmCartCartAntiParallel u1 u2 TP_ANGLE_EPSILON_SQ"

definition findIntersectionAngle :: "pm_cart \<Rightarrow> pm_cart \<Rightarrow> real" where
  "findIntersectionAngle u1 u2 =
     (let d = pmCartCartDot u1 u2;
          d' = (if d > 1 \<or> d < -1 then snd (sat_inplace d 1) else d)
      in arccos (- d') / 2)"

definition pmCartMin :: "pm_cart \<Rightarrow> real" where
  "pmCartMin v = min (min (c_x v) (c_y v)) (c_z v)"

definition pmCartAbsMax :: "pm_cart \<Rightarrow> real" where
  "pmCartAbsMax v = max (max \<bar>c_x v\<bar> \<bar>c_y v\<bar>) \<bar>c_z v\<bar>"

text \<open>The largest circle in a central cross section of a box, for a unit normal.\<close>

definition calculateInscribedDiameter :: "pm_cart \<Rightarrow> pm_cart \<Rightarrow> int \<times> real option" where
  "calculateInscribedDiameter normal bounds =
     (if \<bar>1 - pmCartMagSq normal\<bar> > pmSqrt TP_POS_EPSILON then (TP_ERR_FAIL, None)
      else
        (let px = pmCartScalMult normal (- c_x normal);
             py = pmCartScalMult normal (- c_y normal);
             pz = pmCartScalMult normal (- c_z normal);
             px = pmCartAbs (px\<lparr>c_x := c_x px + 1\<rparr>);
             py = pmCartAbs (py\<lparr>c_y := c_y py + 1\<rparr>);
             pz = pmCartAbs (pz\<lparr>c_z := c_z pz + 1\<rparr>);
             x_scale = pmCartMag (px\<lparr>c_x := max (c_x px) TP_POS_EPSILON\<rparr>);
             y_scale = pmCartMag (py\<lparr>c_y := max (c_y py) TP_POS_EPSILON\<rparr>);
             z_scale = pmCartMag (pz\<lparr>c_z := max (c_z pz) TP_POS_EPSILON\<rparr>);
             x_extent = (if c_x bounds \<noteq> 0 then c_x bounds / x_scale else 0);
             y_extent = (if c_y bounds \<noteq> 0 then c_y bounds / y_scale else 0);
             z_extent = (if c_z bounds \<noteq> 0 then c_z bounds / z_scale else 0);
             d0 = max (max x_extent y_extent) z_extent;
             d1 = (if c_x bounds \<noteq> 0 then min d0 x_extent else d0);
             d2 = (if c_y bounds \<noteq> 0 then min d1 y_extent else d1);
             d3 = (if c_z bounds \<noteq> 0 then min d2 z_extent else d2)
         in (TP_ERR_OK, Some d3)))"

definition findAccelScale :: "pm_cart \<Rightarrow> pm_cart \<Rightarrow> pm_cart" where
  "findAccelScale acc bounds =
     \<lparr>c_x = (if c_x bounds \<noteq> 0 then \<bar>c_x acc / c_x bounds\<bar> else 0),
      c_y = (if c_y bounds \<noteq> 0 then \<bar>c_y acc / c_y bounds\<bar> else 0),
      c_z = (if c_z bounds \<noteq> 0 then \<bar>c_z acc / c_z bounds\<bar> else 0)\<rparr>"

section \<open>Spirals\<close>

record spiral_fit =
  sf_b0 :: real
  sf_b1 :: real
  sf_total_planar_length :: real
  sf_spiral_in :: bool

text \<open>\<open>None\<close>: the discriminant is negative and no angle is stored.\<close>

definition pmCircleAngleFromParam :: "pm_circle \<Rightarrow> spiral_fit \<Rightarrow> real \<Rightarrow> real option" where
  "pmCircleAngleFromParam circle fit t =
     (let t' = (if sf_spiral_in fit then 1 - t else t);
          s_in = t' * sf_total_planar_length fit;
          A = sf_b0 fit; B = sf_b1 fit; C = - s_in;
          disc = pmSq B - 4 * A * C
      in if disc < 0 then None
         else (let angle_out = (2 * C) / (- B - pmSqrt disc)
               in Some (if sf_spiral_in fit then ci_angle circle - angle_out else angle_out)))"

definition findSpiralArcLengthFit :: "pm_circle \<Rightarrow> int \<times> spiral_fit" where
  "findSpiralArcLengthFit circle =
     (let coef0 = ci_spiral circle / ci_angle circle;
          inward = fsign (ci_spiral circle) < 0;
          spiral_coef = (if inward then - coef0 else coef0);
          min_radius = (if inward then ci_radius circle + ci_spiral circle else ci_radius circle);
          slope_start = pmSqrt (pmSq min_radius + pmSq spiral_coef);
          slope_end = pmSqrt (pmSq (min_radius + spiral_coef * ci_angle circle) + pmSq spiral_coef);
          b0 = (slope_end - slope_start) / (2 * ci_angle circle);
          b1 = slope_start;
          fit = \<lparr>sf_b0 = b0, sf_b1 = b1,
                 sf_total_planar_length = b0 * pmSq (ci_angle circle) + b1 * ci_angle circle,
                 sf_spiral_in = inward\<rparr>
      in case pmCircleAngleFromParam circle fit 1 of
           None \<Rightarrow> (TP_ERR_FAIL, fit)
         | Some angle_end_chk \<Rightarrow>
             if \<bar>angle_end_chk - ci_angle circle\<bar> > TP_ANGLE_EPSILON then (TP_ERR_FAIL, fit)
             else (TP_ERR_OK, fit))"

definition pmCircleAngleFromProgress :: "pm_circle \<Rightarrow> spiral_fit \<Rightarrow> real \<Rightarrow> real option" where
  "pmCircleAngleFromProgress circle fit progress =
     (let h2 = pmCartMagSq (ci_rHelix circle);
          s_end = pmSqrt (pmSq (sf_total_planar_length fit) + h2)
      in pmCircleAngleFromParam circle fit (progress / s_end))"

definition pmCircleEffectiveMinRadius :: "pm_circle \<Rightarrow> real" where
  "pmCircleEffectiveMinRadius circle =
     (let dr = ci_spiral circle / ci_angle circle;
          h2 = pmCartMagSq (ci_rHelix circle);
          n_inner = pmSq dr + pmSq (ci_radius circle);
          den = n_inner + pmSq dr;
          num = pmSqrt (n_inner * n_inner * n_inner);
          r_spiral = num / den
      in h2 / r_spiral + r_spiral)"

text \<open>The highest velocity on a circle and the ratio left for tangential acceleration.\<close>

record circle_limits =
  clim_v_max :: real
  clim_acc_ratio :: real

definition pmCircleActualMaxVel :: "pm_circle \<Rightarrow> real \<Rightarrow> real \<Rightarrow> circle_limits" where
  "pmCircleActualMaxVel circle v_max a_max =
     (let a_n_max_cutoff = BLEND_ACC_RATIO_NORMAL * a_max;
          eff_radius = pmCircleEffectiveMinRadius circle;
          a_n_vmax = pmSq v_max / max eff_radius DOUBLE_FUZZ;
          v_max_cutoff = pmSqrt (a_n_max_cutoff * eff_radius)
      in if a_n_vmax > a_n_max_cutoff
         then \<lparr>clim_v_max = v_max_cutoff, clim_acc_ratio = BLEND_ACC_RATIO_TANGENTIAL\<rparr>
         else \<lparr>clim_v_max = v_max, clim_acc_ratio = pmSqrt (1 - pmSq (a_n_vmax / a_max))\<rparr>)"

text \<open>Centre and radius of the circle that approximates a spiral at a point.\<close>

definition findSpiralApproximation :: "pm_circle \<Rightarrow> pm_cart \<Rightarrow> pm_cart \<Rightarrow> pm_cart \<times> real" where
  "findSpiralApproximation circ base_pt u_tan =
     (let dr = ci_spiral circ / ci_angle circ;
          center_out = pmCartCartAddEq (pmCartScalMult u_tan dr) (ci_center circ)
      in (center_out, pmCartMag (pmCartCartSub base_pt center_out)))"

definition findTrimAngle :: "pm_cart \<Rightarrow> pm_cart \<Rightarrow> pm_cart \<Rightarrow> real" where
  "findTrimAngle P arc_center center =
     (let u_P = snd (pmCartUnitEq (pmCartCartSub P center));
          u_arccenter = snd (pmCartUnitEq (pmCartCartSub arc_center center))
      in arccos (saturate (pmCartCartDot u_arccenter u_P) 1))"

definition pmCircleTangentVector :: "pm_circle \<Rightarrow> real \<Rightarrow> pm_cart" where
  "pmCircleTangentVector circle angle_in =
     (let startpoint = snd (pmCirclePoint circle angle_in);
          radius = pmCartCartSub startpoint (ci_center circle);
          uTan = pmCartCartCross (ci_normal circle) radius;
          dHelix = pmCartScalMult (ci_rHelix circle) (1 / ci_angle circle);
          uTan = pmCartCartAddEq uTan dHelix;
          dr = ci_spiral circle / ci_angle circle;
          dRadial = pmCartScalMultEq (snd (pmCartUnit radius)) dr;
          uTan = pmCartCartAddEq uTan dRadial
      in snd (pmCartUnit uTan))"

section \<open>Spherical arcs\<close>

record sph_arc =
  sa_start :: pm_cart
  sa_end :: pm_cart
  sa_center :: pm_cart
  sa_rStart :: pm_cart
  sa_rEnd :: pm_cart
  sa_uTan :: pm_cart
  sa_binormal :: pm_cart
  sa_radius :: real
  sa_spiral :: real
  sa_angle :: real
  sa_Sangle :: real
  sa_line_length :: real

definition arcInitFromPoints :: "sph_arc \<Rightarrow> pm_cart \<Rightarrow> pm_cart \<Rightarrow> pm_cart \<Rightarrow> int \<times> sph_arc" where
  "arcInitFromPoints arc start en center =
     (let arc1 = arc\<lparr>sa_start := start, sa_end := en, sa_center := center,
                     sa_rStart := pmCartCartSub start center, sa_rEnd := pmCartCartSub en center\<rparr>;
          radius0 = pmCartMag (sa_rStart arc1);
          radius1 = pmCartMag (sa_rEnd arc1)
      in if radius0 < ARC_MIN_RADIUS \<or> radius1 < ARC_MIN_RADIUS then (TP_ERR_RADIUS_TOO_SMALL, arc1)
         else
           (let u0 = pmCartScalMult (sa_rStart arc1) (1 / radius0);
                u1 = pmCartScalMult (sa_rEnd arc1) (1 / radius1);
                arc2 = arc1\<lparr>sa_radius := radius0, sa_angle := arccos (pmCartCartDot u0 u1),
                            sa_spiral := radius1 - radius0\<rparr>
            in if sa_angle arc2 < ARC_MIN_ANGLE then (TP_ERR_GEOM, arc2)
               else (TP_ERR_OK, arc2\<lparr>sa_Sangle := sin (sa_angle arc2)\<rparr>)))"

definition arcPoint :: "sph_arc \<Rightarrow> real \<Rightarrow> pm_cart" where
  "arcPoint arc progress =
     (let net_progress = progress - sa_line_length arc in
      if net_progress \<le> 0 \<and> sa_line_length arc > 0
      then pmCartCartAdd (pmCartScalMult (sa_uTan arc) net_progress) (sa_start arc)
      else
        (let angle_in = net_progress / sa_radius arc;
             scale0 = sin (sa_angle arc - angle_in) / sa_Sangle arc;
             scale1 = sin angle_in / sa_Sangle arc
         in pmCartCartAdd (sa_center arc)
              (pmCartCartAdd (pmCartScalMult (sa_rStart arc) scale0) (pmCartScalMult (sa_rEnd arc) scale1))))"

definition arcLength :: "sph_arc \<Rightarrow> real" where
  "arcLength arc = sa_radius arc * sa_angle arc + sa_line_length arc"

text \<open>The start and end points come first in the result.\<close>

definition arcFromLines ::
  "sph_arc \<Rightarrow> pm_cart_line \<Rightarrow> pm_cart_line \<Rightarrow> real \<Rightarrow> real \<Rightarrow> bool \<Rightarrow> pm_cart \<times> pm_cart \<times> int \<times> sph_arc" where
  "arcFromLines arc line1 line2 blend_dist center_dist consume =
     (let middle = cl_end line1;
          n0 = snd (pmCartUnitEq (pmCartCartSub (cl_uVec line2) (cl_uVec line1)));
          center = pmCartCartAdd middle (pmCartScalMultEq n0 center_dist);
          start = pmCartCartAdd (pmCartScalMult (cl_uVec line1) (- blend_dist)) middle;
          en = pmCartCartAddEq (pmCartScalMult (cl_uVec line2) blend_dist) middle;
          arc1 = arc\<lparr>sa_uTan := cl_uVec line1,
                     sa_line_length := (if consume then cl_tmag line1 - blend_dist else 0)\<rparr>
      in (start, en, arcInitFromPoints arc1 start en center))"

definition arcConvexTest :: "pm_cart \<Rightarrow> pm_cart \<Rightarrow> pm_cart \<Rightarrow> bool \<Rightarrow> bool" where
  "arcConvexTest center P uVec reverse_dir \<longleftrightarrow>
     (reverse_dir \<noteq> (pmCartCartDot (pmCartCartSub P center) uVec < 0))"

definition arcTangent :: "sph_arc \<Rightarrow> bool \<Rightarrow> pm_cart" where
  "arcTangent arc at_end =
     (let r_perp = (if at_end then sa_rEnd arc else sa_rStart arc);
          r_tan = pmCartCartCross (sa_binormal arc) r_perp;
          dr = sa_spiral arc / sa_angle arc;
          d_perp = pmCartScalMultEq (snd (pmCartUnit r_perp)) dr
      in snd (pmCartUnitEq (pmCartCartAdd d_perp r_tan)))"

section \<open>Facts the planner's proofs use\<close>

lemma bisaturate_bounds: "mn \<le> mx \<Longrightarrow> mn \<le> bisaturate x mx mn \<and> bisaturate x mx mn \<le> mx"
  by (auto simp: bisaturate_def)

lemma bisaturate_id [simp]: "mn \<le> x \<Longrightarrow> x \<le> mx \<Longrightarrow> bisaturate x mx mn = x"
  by (auto simp: bisaturate_def)

lemma saturate_abs: "0 \<le> mx \<Longrightarrow> \<bar>saturate x mx\<bar> \<le> mx"
  by (auto simp: saturate_def)

lemma saturate_le: "0 \<le> mx \<Longrightarrow> saturate x mx \<le> mx"
  by (auto simp: saturate_def)

lemma saturate_le_self: "- mx \<le> x \<Longrightarrow> saturate x mx \<le> x"
  by (auto simp: saturate_def)

lemma saturate_min: "- mx \<le> x \<Longrightarrow> saturate x mx = min x mx"
  by (auto simp: saturate_def)

lemma sat_inplace_saturate: "snd (sat_inplace x mx) = saturate x mx"
  by (auto simp: sat_inplace_def saturate_def)

lemma pmSqrt_nonneg [simp]: "0 \<le> pmSqrt x"
  by (simp add: pmSqrt_def)

lemma pmSqrt_sq: "0 \<le> x \<Longrightarrow> pmSqrt x * pmSqrt x = x"
  by (auto simp: pmSqrt_def)

lemma pmSqrt_mono: "x \<le> y \<Longrightarrow> pmSqrt x \<le> pmSqrt y"
  by (auto simp: pmSqrt_def)

lemma pmSq_nonneg [simp]: "0 \<le> pmSq x"
  by (simp add: pmSq_def)

end
