(* ===== verification/MotionState.thy ===== *)
theory MotionState
  imports AxisProps Cubic Blend Tcq
begin

text \<open>
  The data of the motion controller: the types of \<open>motion/motion.h\<close> and \<open>motion/motion_priv.h\<close>, the bit
  flags and their macros, and of the trajectory planner the state \<open>TP_STRUCT\<close> (\<open>tp/tp_types.h\<close>) with the
  functions of \<open>tp/tp.c\<close> by which the controller sets, clears, pauses and queries it. Fields that no
  modelled function reads or writes are left out of the records. HAL pins are the values they hold.
  The segment type \<open>'tc\<close> of the planner's queue is a parameter.
\<close>

section \<open>Commands, status, configuration\<close>

datatype cmd_code =
    EMCMOT_FREE | EMCMOT_DOWNLOADS_CONFIG | EMCMOT_AXIS_ENABLE | EMCMOT_AXIS_DISABLE
  | EMCMOT_MOTION_ENABLE | EMCMOT_MOTION_DISABLE | EMCMOT_ABORT | EMCMOT_PAUSE | EMCMOT_RESUME
  | EMCMOT_JOG_CONT | EMCMOT_JOG_INCR | EMCMOT_JOG_ABS | EMCMOT_JOG_ABORT
  | EMCMOT_SET_LINE | EMCMOT_SET_CIRCLE | EMCMOT_SET_FREE | EMCMOT_SET_COORD
  | EMCMOT_OTHER int

datatype cmd_status =
    EMCMOT_COMMAND_OK | EMCMOT_COMMAND_UNKNOWN_COMMAND | EMCMOT_COMMAND_INVALID_COMMAND
  | EMCMOT_COMMAND_INVALID_PARAMS | EMCMOT_COMMAND_BAD_EXEC

datatype motion_state = EMCMOT_MOTION_DISABLED | EMCMOT_MOTION_FREE | EMCMOT_MOTION_COORD

record mot_command =
  mc_command :: cmd_code
  mc_commandNum :: int
  mc_maxLimit :: int
  mc_minLimit :: int
  mc_pos :: emc_pose
  mc_center :: pm_cart
  mc_normal :: pm_cart
  mc_turn :: int
  mc_Maxvel :: int
  mc_Maxacc :: int
  mc_Maxdec :: int
  mc_vel :: int
  mc_acc :: int
  mc_dec :: int
  mc_ini_maxvel :: int
  mc_motion_type :: int
  mc_spindlesync :: real
  mc_dir :: int
  mc_ref :: int
  mc_pulse :: int
  mc_id :: int
  mc_axis :: int
  mc_spindle :: int
  mc_scale :: real
  mc_offset :: real
  mc_maxAxisScale :: real

record mot_axis =
  ax_max_pos_limit :: int
  ax_min_pos_limit :: int
  ax_max_jog_limit :: int
  ax_min_jog_limit :: int
  ax_vel_limit :: int
  ax_acc_limit :: int
  ax_min_ferror :: int
  ax_max_ferror :: int
  ax_flag :: "16 word"
  ax_coarse_pos :: int
  ax_pos_cmd :: int
  ax_vel_cmd :: int
  ax_acc_cmd :: int
  ax_motor_pos_cmd :: int
  ax_motor_pos_fb :: int
  ax_pos_fb :: int
  ax_ferror :: int
  ax_ferror_limit :: int
  ax_ferror_high_mark :: int
  ax_free_tp :: simple_tp
  ax_cubic :: cubic
  ax_on_pos_limit :: int
  ax_on_neg_limit :: int
  ax_motor_offset :: int

record mot_axis_status =
  st_flag :: "16 word"
  st_axis_vel_cmd :: int
  st_pos_cmd :: int
  st_pos_fb :: int
  st_vel_cmd :: int
  st_acc_cmd :: int
  st_ferror :: int
  st_ferror_high_mark :: int
  st_max_pos_limit :: int
  st_min_pos_limit :: int
  st_min_ferror :: int
  st_max_ferror :: int

record mot_status =
  ms_head :: "8 word"
  ms_commandEcho :: cmd_code
  ms_commandNumEcho :: int
  ms_commandStatus :: cmd_status
  ms_feed_scale :: real
  ms_rapid_scale :: real
  ms_enables_new :: "8 word"
  ms_net_feed_scale :: real
  ms_enables_queued :: "8 word"
  ms_motion_state :: motion_state
  ms_motionFlag :: "16 word"
  ms_carte_pos_cmd :: emc_pose
  ms_carte_pos_fb :: emc_pose
  ms_axis_status :: "mot_axis_status list"
  ms_on_soft_limit :: int
  ms_misc_error :: "int list"
  ms_heartbeat :: "32 word"
  ms_config_num :: int
  ms_id :: int
  ms_depth :: int
  ms_activeDepth :: int
  ms_queueFull :: int
  ms_paused :: int
  ms_overrideLimitMask :: "32 word"
  ms_reverse_run :: int
  ms_Maxvel :: int
  ms_Maxacc :: int
  ms_motionType :: int
  ms_distance_to_go :: real
  ms_dtg :: emc_pose
  ms_current_vel :: int
  ms_requested_vel :: int
  ms_tcqlen :: "32 word"
  ms_tail :: "8 word"
  ms_external_offsets_applied :: int
  ms_eoffset_pose :: emc_pose
  ms_stepping :: int
  ms_jogging_active :: bool

record mot_config =
  mg_head :: "8 word"
  mg_config_num :: int
  mg_numAxes :: int
  mg_numMiscError :: int
  mg_trajCycleTime :: real
  mg_servoCycleTime :: real
  mg_interpolationRate :: int
  mg_limitVel :: int
  mg_tail :: "8 word"
  mg_arcBlendOptDepth :: int
  mg_arcBlendEnable :: int
  mg_arcBlendGapCycles :: int
  mg_arcBlendRampFreq :: real
  mg_arcBlendTangentKinkRatio :: real
  mg_maxAxisScale :: real

section \<open>Flags\<close>

definition EMCMOT_MOTION_ENABLE_BIT :: "16 word" where "EMCMOT_MOTION_ENABLE_BIT = 0x0001"
definition EMCMOT_MOTION_INPOS_BIT :: "16 word" where "EMCMOT_MOTION_INPOS_BIT = 0x0002"
definition EMCMOT_MOTION_FREE_BIT :: "16 word" where "EMCMOT_MOTION_FREE_BIT = 0x0004"
definition EMCMOT_MOTION_COORD_BIT :: "16 word" where "EMCMOT_MOTION_COORD_BIT = 0x0008"
definition EMCMOT_MOTION_ERROR_BIT :: "16 word" where "EMCMOT_MOTION_ERROR_BIT = 0x0010"

definition EMCMOT_AXIS_ENABLE_BIT :: "16 word" where "EMCMOT_AXIS_ENABLE_BIT = 0x0001"
definition EMCMOT_AXIS_ACTIVE_BIT :: "16 word" where "EMCMOT_AXIS_ACTIVE_BIT = 0x0002"
definition EMCMOT_AXIS_INPOS_BIT :: "16 word" where "EMCMOT_AXIS_INPOS_BIT = 0x0004"
definition EMCMOT_AXIS_ERROR_BIT :: "16 word" where "EMCMOT_AXIS_ERROR_BIT = 0x0008"
definition EMCMOT_AXIS_MAX_HARD_LIMIT_BIT :: "16 word" where "EMCMOT_AXIS_MAX_HARD_LIMIT_BIT = 0x0010"
definition EMCMOT_AXIS_MIN_HARD_LIMIT_BIT :: "16 word" where "EMCMOT_AXIS_MIN_HARD_LIMIT_BIT = 0x0020"
definition EMCMOT_AXIS_FERROR_BIT :: "16 word" where "EMCMOT_AXIS_FERROR_BIT = 0x0040"
definition EMCMOT_AXIS_FAULT_BIT :: "16 word" where "EMCMOT_AXIS_FAULT_BIT = 0x0080"

definition SS_ENABLED :: "8 word" where "SS_ENABLED = 0x01"
definition FS_ENABLED :: "8 word" where "FS_ENABLED = 0x02"
definition FH_ENABLED :: "8 word" where "FH_ENABLED = 0x08"

definition flag_put :: "16 word \<Rightarrow> bool \<Rightarrow> 16 word \<Rightarrow> 16 word" where
  "flag_put b fl w = (if fl then or w b else and w (not b))"

definition flag_get :: "16 word \<Rightarrow> 16 word \<Rightarrow> bool" where
  "flag_get b w \<longleftrightarrow> and w b \<noteq> 0"

definition GET_MOTION_ERROR_FLAG :: "mot_status \<Rightarrow> bool" where
  "GET_MOTION_ERROR_FLAG st = flag_get EMCMOT_MOTION_ERROR_BIT (ms_motionFlag st)"
definition SET_MOTION_ERROR_FLAG :: "bool \<Rightarrow> mot_status \<Rightarrow> mot_status" where
  "SET_MOTION_ERROR_FLAG fl st = st\<lparr>ms_motionFlag := flag_put EMCMOT_MOTION_ERROR_BIT fl (ms_motionFlag st)\<rparr>"
definition GET_MOTION_COORD_FLAG :: "mot_status \<Rightarrow> bool" where
  "GET_MOTION_COORD_FLAG st = flag_get EMCMOT_MOTION_COORD_BIT (ms_motionFlag st)"
definition SET_MOTION_COORD_FLAG :: "bool \<Rightarrow> mot_status \<Rightarrow> mot_status" where
  "SET_MOTION_COORD_FLAG fl st = st\<lparr>ms_motionFlag := flag_put EMCMOT_MOTION_COORD_BIT fl (ms_motionFlag st)\<rparr>"
definition GET_MOTION_FREE_FLAG :: "mot_status \<Rightarrow> bool" where
  "GET_MOTION_FREE_FLAG st = flag_get EMCMOT_MOTION_FREE_BIT (ms_motionFlag st)"
definition SET_MOTION_FREE_FLAG :: "bool \<Rightarrow> mot_status \<Rightarrow> mot_status" where
  "SET_MOTION_FREE_FLAG fl st = st\<lparr>ms_motionFlag := flag_put EMCMOT_MOTION_FREE_BIT fl (ms_motionFlag st)\<rparr>"
definition GET_MOTION_INPOS_FLAG :: "mot_status \<Rightarrow> bool" where
  "GET_MOTION_INPOS_FLAG st = flag_get EMCMOT_MOTION_INPOS_BIT (ms_motionFlag st)"
definition SET_MOTION_INPOS_FLAG :: "bool \<Rightarrow> mot_status \<Rightarrow> mot_status" where
  "SET_MOTION_INPOS_FLAG fl st = st\<lparr>ms_motionFlag := flag_put EMCMOT_MOTION_INPOS_BIT fl (ms_motionFlag st)\<rparr>"
definition GET_MOTION_ENABLE_FLAG :: "mot_status \<Rightarrow> bool" where
  "GET_MOTION_ENABLE_FLAG st = flag_get EMCMOT_MOTION_ENABLE_BIT (ms_motionFlag st)"
definition SET_MOTION_ENABLE_FLAG :: "bool \<Rightarrow> mot_status \<Rightarrow> mot_status" where
  "SET_MOTION_ENABLE_FLAG fl st = st\<lparr>ms_motionFlag := flag_put EMCMOT_MOTION_ENABLE_BIT fl (ms_motionFlag st)\<rparr>"

definition GET_AXIS_INPOS_FLAG :: "mot_axis \<Rightarrow> bool" where
  "GET_AXIS_INPOS_FLAG a = flag_get EMCMOT_AXIS_INPOS_BIT (ax_flag a)"
definition SET_AXIS_INPOS_FLAG :: "bool \<Rightarrow> mot_axis \<Rightarrow> mot_axis" where
  "SET_AXIS_INPOS_FLAG fl a = a\<lparr>ax_flag := flag_put EMCMOT_AXIS_INPOS_BIT fl (ax_flag a)\<rparr>"
definition GET_AXIS_FERROR_FLAG :: "mot_axis \<Rightarrow> bool" where
  "GET_AXIS_FERROR_FLAG a = flag_get EMCMOT_AXIS_FERROR_BIT (ax_flag a)"
definition SET_AXIS_FERROR_FLAG :: "bool \<Rightarrow> mot_axis \<Rightarrow> mot_axis" where
  "SET_AXIS_FERROR_FLAG fl a = a\<lparr>ax_flag := flag_put EMCMOT_AXIS_FERROR_BIT fl (ax_flag a)\<rparr>"
definition GET_AXIS_PHL_FLAG :: "mot_axis \<Rightarrow> bool" where
  "GET_AXIS_PHL_FLAG a = flag_get EMCMOT_AXIS_MAX_HARD_LIMIT_BIT (ax_flag a)"
definition SET_AXIS_PHL_FLAG :: "bool \<Rightarrow> mot_axis \<Rightarrow> mot_axis" where
  "SET_AXIS_PHL_FLAG fl a = a\<lparr>ax_flag := flag_put EMCMOT_AXIS_MAX_HARD_LIMIT_BIT fl (ax_flag a)\<rparr>"
definition GET_AXIS_NHL_FLAG :: "mot_axis \<Rightarrow> bool" where
  "GET_AXIS_NHL_FLAG a = flag_get EMCMOT_AXIS_MIN_HARD_LIMIT_BIT (ax_flag a)"
definition SET_AXIS_NHL_FLAG :: "bool \<Rightarrow> mot_axis \<Rightarrow> mot_axis" where
  "SET_AXIS_NHL_FLAG fl a = a\<lparr>ax_flag := flag_put EMCMOT_AXIS_MIN_HARD_LIMIT_BIT fl (ax_flag a)\<rparr>"
definition GET_AXIS_FAULT_FLAG :: "mot_axis \<Rightarrow> bool" where
  "GET_AXIS_FAULT_FLAG a = flag_get EMCMOT_AXIS_FAULT_BIT (ax_flag a)"
definition SET_AXIS_FAULT_FLAG :: "bool \<Rightarrow> mot_axis \<Rightarrow> mot_axis" where
  "SET_AXIS_FAULT_FLAG fl a = a\<lparr>ax_flag := flag_put EMCMOT_AXIS_FAULT_BIT fl (ax_flag a)\<rparr>"
definition GET_AXIS_ERROR_FLAG :: "mot_axis \<Rightarrow> bool" where
  "GET_AXIS_ERROR_FLAG a = flag_get EMCMOT_AXIS_ERROR_BIT (ax_flag a)"
definition SET_AXIS_ERROR_FLAG :: "bool \<Rightarrow> mot_axis \<Rightarrow> mot_axis" where
  "SET_AXIS_ERROR_FLAG fl a = a\<lparr>ax_flag := flag_put EMCMOT_AXIS_ERROR_BIT fl (ax_flag a)\<rparr>"
definition GET_AXIS_ENABLE_FLAG :: "mot_axis \<Rightarrow> bool" where
  "GET_AXIS_ENABLE_FLAG a = flag_get EMCMOT_AXIS_ENABLE_BIT (ax_flag a)"
definition SET_AXIS_ENABLE_FLAG :: "bool \<Rightarrow> mot_axis \<Rightarrow> mot_axis" where
  "SET_AXIS_ENABLE_FLAG fl a = a\<lparr>ax_flag := flag_put EMCMOT_AXIS_ENABLE_BIT fl (ax_flag a)\<rparr>"
definition GET_AXIS_ACTIVE_FLAG :: "mot_axis \<Rightarrow> bool" where
  "GET_AXIS_ACTIVE_FLAG a = flag_get EMCMOT_AXIS_ACTIVE_BIT (ax_flag a)"
definition SET_AXIS_ACTIVE_FLAG :: "bool \<Rightarrow> mot_axis \<Rightarrow> mot_axis" where
  "SET_AXIS_ACTIVE_FLAG fl a = a\<lparr>ax_flag := flag_put EMCMOT_AXIS_ACTIVE_BIT fl (ax_flag a)\<rparr>"

section \<open>The coordinated planner's state\<close>

record 'tc tp_struct =
  tp_queue :: "'tc tcq"
  tp_spindle_num :: int
  tp_spin_offset :: real
  tp_spin_revs :: real
  tp_waiting_for_index :: int
  tp_waiting_for_atspeed :: int
  tp_currentPos :: emc_pose
  tp_goalPos :: emc_pose
  tp_queueSize :: int
  tp_cycleTime :: real
  tp_vMax :: real
  tp_ini_maxvel :: real
  tp_vLimit :: real
  tp_aMax :: real
  tp_nextId :: int
  tp_execId :: int
  tp_termCond :: int
  tp_done :: int
  tp_depth :: int
  tp_activeDepth :: int
  tp_aborting :: int
  tp_pausing :: int
  tp_reverse_run :: int
  tp_motionType :: int
  tp_tolerance :: real
  tp_synchronized :: int
  tp_uu_per_rev :: real

definition TC_TERM_COND_STOP :: int where "TC_TERM_COND_STOP = 0"
definition TC_TERM_COND_EXACT :: int where "TC_TERM_COND_EXACT = 1"
definition TC_TERM_COND_PARABOLIC :: int where "TC_TERM_COND_PARABOLIC = 2"
definition TC_TERM_COND_TANGENT :: int where "TC_TERM_COND_TANGENT = 3"
definition TC_SYNC_NONE :: int where "TC_SYNC_NONE = 0"
definition TC_SYNC_POSITION :: int where "TC_SYNC_POSITION = 2"
definition TC_SYNC_VELOCITY :: int where "TC_SYNC_VELOCITY = 1"
definition MOTION_INVALID_ID :: int where "MOTION_INVALID_ID = INT32_MIN"

text \<open>The controller always passes \<open>&emcmotInternal->coord_tp\<close>, so the planner is never NULL.\<close>

definition tpClear :: "'tc tp_struct \<Rightarrow> mot_status \<Rightarrow> 'tc tp_struct \<times> mot_status" where
  "tpClear tp st =
     (tp\<lparr>tp_queue := snd (tcqInit (tp_queue tp)), tp_queueSize := 0, tp_goalPos := tp_currentPos tp,
         tp_nextId := 0, tp_execId := 0, tp_motionType := 0, tp_done := 1, tp_depth := 0,
         tp_activeDepth := 0, tp_aborting := 0, tp_pausing := 0, tp_reverse_run := 0,
         tp_synchronized := 0, tp_uu_per_rev := 0\<rparr>,
      st\<lparr>ms_current_vel := 0, ms_requested_vel := 0, ms_distance_to_go := 0\<rparr>)"

definition tpSetCycleTime :: "'tc tp_struct \<Rightarrow> real \<Rightarrow> int \<times> 'tc tp_struct" where
  "tpSetCycleTime tp secs =
     (if secs \<le> 0 then (TP_ERR_FAIL, tp) else (TP_ERR_OK, tp\<lparr>tp_cycleTime := secs\<rparr>))"

definition tpSetVmax :: "'tc tp_struct \<Rightarrow> real \<Rightarrow> real \<Rightarrow> int \<times> 'tc tp_struct" where
  "tpSetVmax tp vMax ini_maxvel =
     (if vMax \<le> 0 \<or> ini_maxvel \<le> 0 then (TP_ERR_FAIL, tp)
      else (TP_ERR_OK, tp\<lparr>tp_vMax := vMax, tp_ini_maxvel := ini_maxvel\<rparr>))"

definition tpSetVlimit :: "'tc tp_struct \<Rightarrow> real \<Rightarrow> int \<times> 'tc tp_struct" where
  "tpSetVlimit tp vLimit = (TP_ERR_OK, tp\<lparr>tp_vLimit := (if vLimit < 0 then 0 else vLimit)\<rparr>)"

definition tpSetAmax :: "'tc tp_struct \<Rightarrow> real \<Rightarrow> int \<times> 'tc tp_struct" where
  "tpSetAmax tp aMax = (if aMax \<le> 0 then (TP_ERR_FAIL, tp) else (TP_ERR_OK, tp\<lparr>tp_aMax := aMax\<rparr>))"

definition tpSetId :: "'tc tp_struct \<Rightarrow> int \<Rightarrow> int \<times> 'tc tp_struct" where
  "tpSetId tp i =
     (if i = MOTION_INVALID_ID then (TP_ERR_FAIL, tp) else (TP_ERR_OK, tp\<lparr>tp_nextId := i\<rparr>))"

definition tpGetExecId :: "'tc tp_struct \<Rightarrow> int" where
  "tpGetExecId tp = tp_execId tp"

text \<open>A pose of real numbers is always valid.\<close>

definition tpSetCurrentPos :: "'tc tp_struct \<Rightarrow> emc_pose \<Rightarrow> int \<times> 'tc tp_struct" where
  "tpSetCurrentPos tp pos = (TP_ERR_OK, tp\<lparr>tp_currentPos := pos\<rparr>)"

definition tpSetPos :: "'tc tp_struct \<Rightarrow> emc_pose \<Rightarrow> int \<times> 'tc tp_struct" where
  "tpSetPos tp pos =
     (case tpSetCurrentPos tp pos of
        (r, tp') \<Rightarrow> if r \<noteq> 0 then (TP_ERR_FAIL, tp') else (TP_ERR_OK, tp'\<lparr>tp_goalPos := pos\<rparr>))"

definition tpErrorCheck :: "'tc tp_struct \<Rightarrow> int" where
  "tpErrorCheck tp = (if tp_aborting tp \<noteq> 0 then TP_ERR_FAIL else TP_ERR_OK)"

definition tpSetSpindleSync :: "'tc tp_struct \<Rightarrow> int \<Rightarrow> real \<Rightarrow> int \<Rightarrow> 'tc tp_struct" where
  "tpSetSpindleSync tp spindle sync mode =
     (if sync \<noteq> 0 then
        tp\<lparr>tp_synchronized := (if mode \<noteq> 0 then TC_SYNC_VELOCITY else TC_SYNC_POSITION),
           tp_uu_per_rev := sync, tp_spindle_num := spindle\<rparr>
      else tp\<lparr>tp_synchronized := 0\<rparr>)"

definition tpPause :: "'tc tp_struct \<Rightarrow> 'tc tp_struct" where
  "tpPause tp = tp\<lparr>tp_pausing := 1\<rparr>"

definition tpResume :: "'tc tp_struct \<Rightarrow> 'tc tp_struct" where
  "tpResume tp = tp\<lparr>tp_pausing := 0\<rparr>"

definition tpAbort :: "'tc tp_struct \<Rightarrow> 'tc tp_struct" where
  "tpAbort tp = (if tp_aborting tp = 0 then (tpPause tp)\<lparr>tp_aborting := 1\<rparr> else tp)"

definition tpGetMotionType :: "'tc tp_struct \<Rightarrow> int" where "tpGetMotionType tp = tp_motionType tp"
definition tpGetPos :: "'tc tp_struct \<Rightarrow> emc_pose" where "tpGetPos tp = tp_currentPos tp"
definition tpIsDone :: "'tc tp_struct \<Rightarrow> int" where "tpIsDone tp = tp_done tp"
definition tpQueueDepth :: "'tc tp_struct \<Rightarrow> int" where "tpQueueDepth tp = tp_depth tp"
definition tpActiveDepth :: "'tc tp_struct \<Rightarrow> int" where "tpActiveDepth tp = tp_activeDepth tp"

text \<open>Arguments of the two segment-building functions.\<close>

record line_args =
  la_end :: emc_pose
  la_type :: int
  la_vel :: real
  la_ini_maxvel :: real
  la_acc :: real
  la_enables :: "8 word"
  la_atspeed :: int
  la_turn :: int

record circle_args = line_args +
  la_center :: pm_cart
  la_normal :: pm_cart

type_synonym 'tc planner_env = "'tc tp_struct \<times> mot_status \<times> mot_config"

section \<open>HAL pins and the whole state\<close>

record axis_hal =
  ah_coarse_pos_cmd :: int
  ah_axis_vel_cmd :: int
  ah_axis_acc_cmd :: int
  ah_axis_dec_cmd :: int
  ah_motor_offset :: int
  ah_motor_pos_cmd :: int
  ah_motor_pos_fb :: int
  ah_axis_pos_cmd :: int
  ah_axis_pos_fb :: int
  ah_f_error :: int
  ah_f_error_lim :: int
  ah_axis_motion :: int
  ah_axis_status :: int
  ah_active :: bool
  ah_in_position :: bool
  ah_error :: bool
  ah_phl :: bool
  ah_nhl :: bool
  ah_f_errored :: bool
  ah_faulted :: bool
  ah_pos_lim_sw :: bool
  ah_neg_lim_sw :: bool
  ah_amp_fault :: bool
  ah_amp_enable :: bool
  ah_motionenable :: bool
  ah_motionrunning :: bool

record mot_hal =
  mh_enable :: bool
  mh_jog_inhibit :: bool
  mh_jog_stop :: bool
  mh_jog_stop_immediate :: bool
  mh_jog_is_active :: bool
  mh_motion_enabled :: bool
  mh_in_position :: bool
  mh_coord_mode :: bool
  mh_coord_error :: bool
  mh_on_soft_limit :: bool
  mh_misc_error :: "bool list"
  mh_axis :: "axis_hal list"
  mh_eoffset_active :: bool
  mh_eoffset_limited :: bool

record 'tc mot_internal =
  mi_head :: "8 word"
  mi_tail :: "8 word"
  mi_split :: int
  mi_enabling :: int
  mi_freeing :: int
  mi_coordinating :: int
  mi_overriding :: int
  mi_coord_tp :: "'tc tp_struct"
  mi_idForStep :: int

text \<open>
  The shared structure \<open>emcmot_struct_t\<close> with its command mutex, the axes, the HAL data, the state of
  \<open>axis.c\<close>, and the static variables of \<open>control.c\<close>. The array \<open>pcmd_p\<close> points to the translation of
  \<open>carte_pos_cmd\<close>.
\<close>

record 'tc mot_state =
  g_command_mutex :: bool
  g_command :: mot_command
  g_status :: mot_status
  g_config :: mot_config
  g_internal :: "'tc mot_internal"
  g_axes :: "mot_axis list"
  g_hal :: mot_hal
  g_tele :: axis_state
  g_actpos :: "int list"
  g_targetpos :: "int list"
  g_last_period :: int
  g_servo_period :: int
  g_traj_period_nsec :: int
  g_coord_cubic_active :: bool
  g_ext_offset_coord_limit :: int

definition upd_status :: "(mot_status \<Rightarrow> mot_status) \<Rightarrow> 'tc mot_state \<Rightarrow> 'tc mot_state" where
  "upd_status f g = g\<lparr>g_status := f (g_status g)\<rparr>"
definition upd_config :: "(mot_config \<Rightarrow> mot_config) \<Rightarrow> 'tc mot_state \<Rightarrow> 'tc mot_state" where
  "upd_config f g = g\<lparr>g_config := f (g_config g)\<rparr>"
definition upd_internal :: "('tc mot_internal \<Rightarrow> 'tc mot_internal) \<Rightarrow> 'tc mot_state \<Rightarrow> 'tc mot_state" where
  "upd_internal f g = g\<lparr>g_internal := f (g_internal g)\<rparr>"
definition upd_command :: "(mot_command \<Rightarrow> mot_command) \<Rightarrow> 'tc mot_state \<Rightarrow> 'tc mot_state" where
  "upd_command f g = g\<lparr>g_command := f (g_command g)\<rparr>"
definition upd_hal :: "(mot_hal \<Rightarrow> mot_hal) \<Rightarrow> 'tc mot_state \<Rightarrow> 'tc mot_state" where
  "upd_hal f g = g\<lparr>g_hal := f (g_hal g)\<rparr>"
definition upd_tele :: "(axis_state \<Rightarrow> axis_state) \<Rightarrow> 'tc mot_state \<Rightarrow> 'tc mot_state" where
  "upd_tele f g = g\<lparr>g_tele := f (g_tele g)\<rparr>"
definition upd_tp_struct :: "('tc tp_struct \<Rightarrow> 'tc tp_struct) \<Rightarrow> 'tc mot_state \<Rightarrow> 'tc mot_state" where
  "upd_tp_struct f g = g\<lparr>g_internal := (g_internal g)\<lparr>mi_coord_tp := f (mi_coord_tp (g_internal g))\<rparr>\<rparr>"
definition upd_axis :: "nat \<Rightarrow> (mot_axis \<Rightarrow> mot_axis) \<Rightarrow> 'tc mot_state \<Rightarrow> 'tc mot_state" where
  "upd_axis n f g = g\<lparr>g_axes := (g_axes g)[n := f (g_axes g ! n)]\<rparr>"
definition upd_axis_hal :: "nat \<Rightarrow> (axis_hal \<Rightarrow> axis_hal) \<Rightarrow> 'tc mot_state \<Rightarrow> 'tc mot_state" where
  "upd_axis_hal n f g = g\<lparr>g_hal := (g_hal g)\<lparr>mh_axis := (mh_axis (g_hal g))[n := f (mh_axis (g_hal g) ! n)]\<rparr>\<rparr>"

lemmas upd_defs = upd_status_def upd_config_def upd_internal_def upd_command_def upd_hal_def
  upd_tele_def upd_tp_struct_def upd_axis_def upd_axis_hal_def

definition pcmd_of :: "mot_status \<Rightarrow> real list" where
  "pcmd_of st = (let t = ep_tran (ms_carte_pos_cmd st) in [c_x t, c_y t, c_z t])"

definition set_pcmd :: "real list \<Rightarrow> mot_status \<Rightarrow> mot_status" where
  "set_pcmd p st = st\<lparr>ms_carte_pos_cmd := (ms_carte_pos_cmd st)\<lparr>ep_tran :=
     \<lparr>c_x = p ! 0, c_y = p ! 1, c_z = p ! 2\<rparr>\<rparr>\<rparr>"

section \<open>Laws of the flags\<close>

text \<open>The masks are single, distinct bits: setting one is read back and leaves the others alone.\<close>

lemma flag_get_put [simp]: "b \<noteq> 0 \<Longrightarrow> flag_get b (flag_put b fl w) = fl"
proof -
  have "and (or w b) b = b" "and (and w (not b)) b = 0"
    by (rule bit_word_eqI, auto simp: bit_simps)+
  then show "b \<noteq> 0 \<Longrightarrow> flag_get b (flag_put b fl w) = fl"
    by (simp add: flag_get_def flag_put_def)
qed

lemma flag_get_put_other:
  assumes "and b k = 0"
  shows "flag_get b (flag_put k fl w) = flag_get b w"
proof -
  have n: "\<not> (bit b i \<and> bit k i)" for i
    using assms by (metis bit_0_eq bit_and_iff bot_apply bot_bool_def)
  have "and (or w k) b = and w b" "and (and w (not k)) b = and w b"
    by (rule bit_word_eqI, use n in \<open>auto simp: bit_simps\<close>)+
  then show ?thesis by (simp add: flag_get_def flag_put_def)
qed

lemmas motion_bits = EMCMOT_MOTION_ENABLE_BIT_def EMCMOT_MOTION_INPOS_BIT_def EMCMOT_MOTION_FREE_BIT_def
  EMCMOT_MOTION_COORD_BIT_def EMCMOT_MOTION_ERROR_BIT_def
lemmas axis_bits = EMCMOT_AXIS_ENABLE_BIT_def EMCMOT_AXIS_ACTIVE_BIT_def EMCMOT_AXIS_INPOS_BIT_def
  EMCMOT_AXIS_ERROR_BIT_def EMCMOT_AXIS_MAX_HARD_LIMIT_BIT_def EMCMOT_AXIS_MIN_HARD_LIMIT_BIT_def
  EMCMOT_AXIS_FERROR_BIT_def EMCMOT_AXIS_FAULT_BIT_def

lemmas motion_flag_defs = GET_MOTION_ERROR_FLAG_def GET_MOTION_COORD_FLAG_def GET_MOTION_FREE_FLAG_def
  GET_MOTION_INPOS_FLAG_def GET_MOTION_ENABLE_FLAG_def SET_MOTION_ERROR_FLAG_def SET_MOTION_COORD_FLAG_def
  SET_MOTION_FREE_FLAG_def SET_MOTION_INPOS_FLAG_def SET_MOTION_ENABLE_FLAG_def

lemma motion_flags [simp]:
  "GET_MOTION_ERROR_FLAG (SET_MOTION_ERROR_FLAG fl st) = fl"
  "GET_MOTION_COORD_FLAG (SET_MOTION_ERROR_FLAG fl st) = GET_MOTION_COORD_FLAG st"
  "GET_MOTION_FREE_FLAG (SET_MOTION_ERROR_FLAG fl st) = GET_MOTION_FREE_FLAG st"
  "GET_MOTION_INPOS_FLAG (SET_MOTION_ERROR_FLAG fl st) = GET_MOTION_INPOS_FLAG st"
  "GET_MOTION_ENABLE_FLAG (SET_MOTION_ERROR_FLAG fl st) = GET_MOTION_ENABLE_FLAG st"
  "GET_MOTION_ERROR_FLAG (SET_MOTION_COORD_FLAG fl st) = GET_MOTION_ERROR_FLAG st"
  "GET_MOTION_COORD_FLAG (SET_MOTION_COORD_FLAG fl st) = fl"
  "GET_MOTION_FREE_FLAG (SET_MOTION_COORD_FLAG fl st) = GET_MOTION_FREE_FLAG st"
  "GET_MOTION_INPOS_FLAG (SET_MOTION_COORD_FLAG fl st) = GET_MOTION_INPOS_FLAG st"
  "GET_MOTION_ENABLE_FLAG (SET_MOTION_COORD_FLAG fl st) = GET_MOTION_ENABLE_FLAG st"
  "GET_MOTION_ERROR_FLAG (SET_MOTION_FREE_FLAG fl st) = GET_MOTION_ERROR_FLAG st"
  "GET_MOTION_COORD_FLAG (SET_MOTION_FREE_FLAG fl st) = GET_MOTION_COORD_FLAG st"
  "GET_MOTION_FREE_FLAG (SET_MOTION_FREE_FLAG fl st) = fl"
  "GET_MOTION_INPOS_FLAG (SET_MOTION_FREE_FLAG fl st) = GET_MOTION_INPOS_FLAG st"
  "GET_MOTION_ENABLE_FLAG (SET_MOTION_FREE_FLAG fl st) = GET_MOTION_ENABLE_FLAG st"
  "GET_MOTION_ERROR_FLAG (SET_MOTION_INPOS_FLAG fl st) = GET_MOTION_ERROR_FLAG st"
  "GET_MOTION_COORD_FLAG (SET_MOTION_INPOS_FLAG fl st) = GET_MOTION_COORD_FLAG st"
  "GET_MOTION_FREE_FLAG (SET_MOTION_INPOS_FLAG fl st) = GET_MOTION_FREE_FLAG st"
  "GET_MOTION_INPOS_FLAG (SET_MOTION_INPOS_FLAG fl st) = fl"
  "GET_MOTION_ENABLE_FLAG (SET_MOTION_INPOS_FLAG fl st) = GET_MOTION_ENABLE_FLAG st"
  "GET_MOTION_ERROR_FLAG (SET_MOTION_ENABLE_FLAG fl st) = GET_MOTION_ERROR_FLAG st"
  "GET_MOTION_COORD_FLAG (SET_MOTION_ENABLE_FLAG fl st) = GET_MOTION_COORD_FLAG st"
  "GET_MOTION_FREE_FLAG (SET_MOTION_ENABLE_FLAG fl st) = GET_MOTION_FREE_FLAG st"
  "GET_MOTION_INPOS_FLAG (SET_MOTION_ENABLE_FLAG fl st) = GET_MOTION_INPOS_FLAG st"
  "GET_MOTION_ENABLE_FLAG (SET_MOTION_ENABLE_FLAG fl st) = fl"
  by (simp_all add: motion_flag_defs flag_get_put_other motion_bits)

lemmas axis_flag_get_defs = GET_AXIS_ERROR_FLAG_def GET_AXIS_FAULT_FLAG_def GET_AXIS_FERROR_FLAG_def
  GET_AXIS_PHL_FLAG_def GET_AXIS_NHL_FLAG_def GET_AXIS_INPOS_FLAG_def GET_AXIS_ENABLE_FLAG_def
  GET_AXIS_ACTIVE_FLAG_def

lemmas axis_flag_defs = axis_flag_get_defs SET_AXIS_ERROR_FLAG_def SET_AXIS_FAULT_FLAG_def
  SET_AXIS_FERROR_FLAG_def SET_AXIS_PHL_FLAG_def SET_AXIS_NHL_FLAG_def SET_AXIS_INPOS_FLAG_def
  SET_AXIS_ENABLE_FLAG_def SET_AXIS_ACTIVE_FLAG_def

lemma axis_flags [simp]:
  "GET_AXIS_ERROR_FLAG (SET_AXIS_ERROR_FLAG fl a) = fl"
  "GET_AXIS_FAULT_FLAG (SET_AXIS_FAULT_FLAG fl a) = fl"
  "GET_AXIS_FERROR_FLAG (SET_AXIS_FERROR_FLAG fl a) = fl"
  "GET_AXIS_PHL_FLAG (SET_AXIS_PHL_FLAG fl a) = fl"
  "GET_AXIS_NHL_FLAG (SET_AXIS_NHL_FLAG fl a) = fl"
  "GET_AXIS_INPOS_FLAG (SET_AXIS_INPOS_FLAG fl a) = fl"
  "GET_AXIS_ENABLE_FLAG (SET_AXIS_ENABLE_FLAG fl a) = fl"
  "GET_AXIS_ACTIVE_FLAG (SET_AXIS_ACTIVE_FLAG fl a) = fl"
  by (simp_all add: axis_flag_defs axis_bits)

lemma axis_active_other [simp]:
  "GET_AXIS_ACTIVE_FLAG (SET_AXIS_ERROR_FLAG fl a) = GET_AXIS_ACTIVE_FLAG a"
  "GET_AXIS_ACTIVE_FLAG (SET_AXIS_FAULT_FLAG fl a) = GET_AXIS_ACTIVE_FLAG a"
  "GET_AXIS_ACTIVE_FLAG (SET_AXIS_FERROR_FLAG fl a) = GET_AXIS_ACTIVE_FLAG a"
  "GET_AXIS_ACTIVE_FLAG (SET_AXIS_PHL_FLAG fl a) = GET_AXIS_ACTIVE_FLAG a"
  "GET_AXIS_ACTIVE_FLAG (SET_AXIS_NHL_FLAG fl a) = GET_AXIS_ACTIVE_FLAG a"
  "GET_AXIS_ACTIVE_FLAG (SET_AXIS_INPOS_FLAG fl a) = GET_AXIS_ACTIVE_FLAG a"
  "GET_AXIS_ACTIVE_FLAG (SET_AXIS_ENABLE_FLAG fl a) = GET_AXIS_ACTIVE_FLAG a"
  by (simp_all add: axis_flag_defs flag_get_put_other axis_bits)

lemma axis_enable_other [simp]:
  "GET_AXIS_ENABLE_FLAG (SET_AXIS_ERROR_FLAG fl a) = GET_AXIS_ENABLE_FLAG a"
  "GET_AXIS_ENABLE_FLAG (SET_AXIS_FAULT_FLAG fl a) = GET_AXIS_ENABLE_FLAG a"
  "GET_AXIS_ENABLE_FLAG (SET_AXIS_FERROR_FLAG fl a) = GET_AXIS_ENABLE_FLAG a"
  "GET_AXIS_ENABLE_FLAG (SET_AXIS_PHL_FLAG fl a) = GET_AXIS_ENABLE_FLAG a"
  "GET_AXIS_ENABLE_FLAG (SET_AXIS_NHL_FLAG fl a) = GET_AXIS_ENABLE_FLAG a"
  "GET_AXIS_ENABLE_FLAG (SET_AXIS_INPOS_FLAG fl a) = GET_AXIS_ENABLE_FLAG a"
  "GET_AXIS_ENABLE_FLAG (SET_AXIS_ACTIVE_FLAG fl a) = GET_AXIS_ENABLE_FLAG a"
  by (simp_all add: axis_flag_defs flag_get_put_other axis_bits)

lemma axis_fault_other [simp]:
  "GET_AXIS_FAULT_FLAG (SET_AXIS_ERROR_FLAG fl a) = GET_AXIS_FAULT_FLAG a"
  "GET_AXIS_FERROR_FLAG (SET_AXIS_ERROR_FLAG fl a) = GET_AXIS_FERROR_FLAG a"
  "GET_AXIS_FERROR_FLAG (SET_AXIS_PHL_FLAG fl a) = GET_AXIS_FERROR_FLAG a"
  "GET_AXIS_FERROR_FLAG (SET_AXIS_NHL_FLAG fl a) = GET_AXIS_FERROR_FLAG a"
  "GET_AXIS_FERROR_FLAG (SET_AXIS_FAULT_FLAG fl a) = GET_AXIS_FERROR_FLAG a"
  "GET_AXIS_PHL_FLAG (SET_AXIS_NHL_FLAG fl a) = GET_AXIS_PHL_FLAG a"
  "GET_AXIS_PHL_FLAG (SET_AXIS_FAULT_FLAG fl a) = GET_AXIS_PHL_FLAG a"
  "GET_AXIS_NHL_FLAG (SET_AXIS_FAULT_FLAG fl a) = GET_AXIS_NHL_FLAG a"
  "GET_AXIS_PHL_FLAG (SET_AXIS_ERROR_FLAG fl a) = GET_AXIS_PHL_FLAG a"
  "GET_AXIS_NHL_FLAG (SET_AXIS_ERROR_FLAG fl a) = GET_AXIS_NHL_FLAG a"
  by (simp_all add: axis_flag_defs flag_get_put_other axis_bits)

end
