(* ===== verification/Command.thy ===== *)
theory Command
  imports MotionState
begin

text \<open>
  The command handler, \<open>motion/command.c\<close>. A handler step is a function from state to an optional
  state: \<open>None\<close> is an access outside the array \<open>axes\<close> (the axis number of a command comes from outside
  and is not checked) or outside the arrays sized by \<open>EMCMOT_MAX_AXIS\<close>. The two planner functions that
  build segments are parameters: \<open>addLine\<close> and \<open>addCircle\<close> stand for \<open>tpAddLine\<close> and \<open>tpAddCircle\<close> of
  \<open>tp/tp.c\<close>, given their arguments and the planner, status and configuration they work on.
\<close>

section \<open>Checks\<close>

definition axis_ok :: "int \<Rightarrow> bool" where
  "axis_ok n \<longleftrightarrow> 0 \<le> n \<and> n < int EMCMOT_MAX_AXIS"

definition neg_limit_override :: "mot_status \<Rightarrow> nat \<Rightarrow> bool" where
  "neg_limit_override st n \<longleftrightarrow> bit (ms_overrideLimitMask st) (n * 2)"

definition pos_limit_override :: "mot_status \<Rightarrow> nat \<Rightarrow> bool" where
  "pos_limit_override st n \<longleftrightarrow> bit (ms_overrideLimitMask st) (n * 2 + 1)"

definition joint_jog_ok :: "nat \<Rightarrow> real \<Rightarrow> 'tc mot_state \<Rightarrow> bool" where
  "joint_jog_ok axis_num vel g =
     (let axis = g_axes g ! axis_num in
      if neg_limit_override (g_status g) axis_num \<and> pos_limit_override (g_status g) axis_num then True
      else if int axis_num \<ge> mg_numAxes (g_config g) then False
      else if vel > 0 \<and> GET_AXIS_PHL_FLAG axis then False
      else if vel < 0 \<and> GET_AXIS_NHL_FLAG axis then False
      else if vel > 0 \<and> ax_pos_cmd axis > ax_max_jog_limit axis then False
      else if vel < 0 \<and> ax_pos_cmd axis < ax_min_jog_limit axis then False
      else True)"

definition refresh_jog_limits :: "mot_axis \<Rightarrow> mot_axis" where
  "refresh_jog_limits axis =
     (let range = s32 (ax_max_pos_limit axis - ax_min_pos_limit axis) in
      axis\<lparr>ax_max_jog_limit := s32 (ax_pos_fb axis + range),
           ax_min_jog_limit := s32 (ax_pos_fb axis - range)\<rparr>)"

text \<open>Axis numbers below \<open>numAxes\<close>; \<open>None\<close> when the loop would leave the array.\<close>

definition all_axes :: "'tc mot_state \<Rightarrow> nat list option" where
  "all_axes g = (if mg_numAxes (g_config g) > int EMCMOT_MAX_AXIS then None
     else Some [0..<nat (mg_numAxes (g_config g))])"

definition limits_ok :: "'tc mot_state \<Rightarrow> bool option" where
  "limits_ok g =
     (let ok = (\<lambda>n. let axis = g_axes g ! n in
            \<not> GET_AXIS_ACTIVE_FLAG axis \<or> \<not> (GET_AXIS_PHL_FLAG axis \<or> GET_AXIS_NHL_FLAG axis))
      in if \<not> list_all ok [0..<min (nat (mg_numAxes (g_config g))) EMCMOT_MAX_AXIS] then Some False
         else if mg_numAxes (g_config g) > int EMCMOT_MAX_AXIS then None else Some True)"

section \<open>One command each\<close>

definition cmd_downloads_config :: "nat \<Rightarrow> 'tc mot_state \<Rightarrow> 'tc mot_state" where
  "cmd_downloads_config n g =
     (let c = g_command g in
      upd_config (\<lambda>cf. cf\<lparr>mg_maxAxisScale := mc_maxAxisScale c, mg_limitVel := mc_Maxvel c\<rparr>)
       (upd_tp_struct (\<lambda>tp. tp\<lparr>tp_tolerance := 200\<rparr>)
        (upd_status (\<lambda>st. st\<lparr>ms_Maxacc := mc_Maxacc c, ms_Maxvel := mc_Maxvel c\<rparr>)
         (upd_axis n (\<lambda>a. a\<lparr>ax_acc_cmd := mc_acc c, ax_vel_cmd := mc_vel c, ax_acc_limit := mc_Maxacc c,
            ax_vel_limit := mc_Maxvel c, ax_max_pos_limit := mc_maxLimit c, ax_min_pos_limit := mc_minLimit c,
            ax_max_jog_limit := mc_maxLimit c, ax_min_jog_limit := mc_minLimit c\<rparr>) g))))"

definition cmd_axis_enable :: "nat \<Rightarrow> 'tc mot_state \<Rightarrow> 'tc mot_state" where
  "cmd_axis_enable n g =
     (if \<not> mh_enable (g_hal g) then g
      else upd_axis n (SET_AXIS_ACTIVE_FLAG True) (upd_axis_hal n (\<lambda>h. h\<lparr>ah_amp_enable := True\<rparr>) g))"

definition cmd_axis_disable :: "nat \<Rightarrow> 'tc mot_state \<Rightarrow> 'tc mot_state" where
  "cmd_axis_disable n g =
     upd_axis n (SET_AXIS_ACTIVE_FLAG False) (upd_axis_hal n (\<lambda>h. h\<lparr>ah_amp_enable := False\<rparr>) g)"

definition cmd_abort :: "'tc mot_state \<Rightarrow> 'tc mot_state option" where
  "cmd_abort g =
     (case all_axes g of
        None \<Rightarrow> None
      | Some ns \<Rightarrow>
          (let g1 = (if GET_MOTION_COORD_FLAG (g_status g) then upd_tp_struct tpAbort g
                 else fold (\<lambda>n. upd_axis n (\<lambda>a. a\<lparr>ax_free_tp := (ax_free_tp a)\<lparr>tp_enable := 0\<rparr>\<rparr>)) ns g);
               g2 = upd_status (SET_MOTION_ERROR_FLAG False) g1;
               g3 = fold (\<lambda>n. upd_axis n (SET_AXIS_FAULT_FLAG False \<circ> SET_AXIS_ERROR_FLAG False)) ns g2
           in Some (upd_status (\<lambda>st. st\<lparr>ms_paused := 0\<rparr>) g3)))"

definition cmd_pause :: "'tc mot_state \<Rightarrow> 'tc mot_state" where
  "cmd_pause g = upd_status (\<lambda>st. st\<lparr>ms_paused := 1\<rparr>) (upd_tp_struct tpPause g)"

text \<open>The velocity and acceleration of a jog: the axis' values, at most the command's.\<close>

definition jog_vel :: "mot_axis \<Rightarrow> mot_command \<Rightarrow> int" where
  "jog_vel a c = (if ax_vel_cmd a < mc_Maxvel c then ax_vel_cmd a else mc_Maxvel c)"

definition jog_acc :: "mot_axis \<Rightarrow> mot_command \<Rightarrow> int" where
  "jog_acc a c = (if ax_acc_cmd a < mc_Maxacc c then ax_acc_cmd a else mc_Maxacc c)"

definition cmd_jog_cont :: "nat \<Rightarrow> 'tc mot_state \<Rightarrow> 'tc mot_state" where
  "cmd_jog_cont n g =
     (let c = g_command g in
      if \<not> GET_MOTION_ENABLE_FLAG (g_status g) then upd_axis n (SET_AXIS_ERROR_FLAG True) g
      else if mh_jog_inhibit (g_hal g) then g
      else if \<not> joint_jog_ok n (of_int (mc_Maxvel c)) g then upd_axis n (SET_AXIS_ERROR_FLAG True) g
      else
        upd_axis n (SET_AXIS_ERROR_FLAG False)
         (upd_tele (\<lambda>t. snd (axis_jog_abort_all False t))
          (upd_axis n (\<lambda>a. a\<lparr>ax_free_tp := (ax_free_tp a)\<lparr>
              tp_pos_cmd := (if mc_Maxvel c > 0 then ax_max_jog_limit a else ax_min_jog_limit a),
              tp_vel := jog_vel a c, tp_max_vel := mc_Maxvel c, tp_acc := jog_acc a c,
              tp_max_acc := ax_acc_limit a, tp_enable := 1\<rparr>\<rparr>) g)))"

definition cmd_jog_incr :: "nat \<Rightarrow> 'tc mot_state \<Rightarrow> 'tc mot_state" where
  "cmd_jog_incr n g =
     (let c = g_command g; a = g_axes g ! n;
          tmp1 = (if mc_dir c \<noteq> 0 then d2i (of_int (tp_pos_cmd (ax_free_tp a)) + mc_offset c)
                  else d2i (of_int (tp_pos_cmd (ax_free_tp a)) - mc_offset c))
      in
      if \<not> GET_MOTION_ENABLE_FLAG (g_status g) then upd_axis n (SET_AXIS_ERROR_FLAG True) g
      else if mh_jog_inhibit (g_hal g) then g
      else if \<not> joint_jog_ok n (of_int (mc_Maxvel c)) g then upd_axis n (SET_AXIS_ERROR_FLAG True) g
      else if tmp1 > ax_max_jog_limit a then g
      else if tmp1 < ax_min_jog_limit a then g
      else
        upd_axis n (SET_AXIS_ERROR_FLAG False)
         (upd_tele (\<lambda>t. snd (axis_jog_abort n False t))
          (upd_axis n (\<lambda>a. a\<lparr>ax_free_tp := (ax_free_tp a)\<lparr>
              tp_pos_cmd := tmp1, tp_vel := jog_vel a c, tp_max_vel := mc_Maxvel c,
              tp_acc := ax_acc_cmd a, tp_max_acc := ax_acc_limit a, tp_dir := mc_dir c,
              tp_enable := 1\<rparr>\<rparr>) g)))"

definition clamp_jog :: "mot_axis \<Rightarrow> int \<Rightarrow> int" where
  "clamp_jog a p =
     (let p1 = (if p > ax_max_jog_limit a then ax_max_jog_limit a else p) in
      if p1 < ax_min_jog_limit a then ax_min_jog_limit a else p1)"

definition cmd_jog_abs :: "nat \<Rightarrow> 'tc mot_state \<Rightarrow> 'tc mot_state" where
  "cmd_jog_abs n g =
     (let c = g_command g in
      if \<not> GET_MOTION_ENABLE_FLAG (g_status g) then upd_axis n (SET_AXIS_ERROR_FLAG True) g
      else if mh_jog_inhibit (g_hal g) then g
      else if \<not> joint_jog_ok n (of_int (mc_Maxvel c)) g then upd_axis n (SET_AXIS_ERROR_FLAG True) g
      else
        upd_axis n (SET_AXIS_ERROR_FLAG False)
          (upd_axis n (\<lambda>a. a\<lparr>ax_free_tp := (ax_free_tp a)\<lparr>
              tp_pos_cmd := clamp_jog a (d2i (mc_offset c)), tp_vel := jog_vel a c,
              tp_max_vel := d2i \<bar>of_int (mc_Maxvel c)\<bar>, tp_acc := jog_acc a c,
              tp_max_acc := ax_acc_limit a, tp_enable := 1\<rparr>\<rparr>) g))"

definition cmd_jog_abort :: "nat \<Rightarrow> 'tc mot_state \<Rightarrow> 'tc mot_state" where
  "cmd_jog_abort n g =
     upd_axis n (\<lambda>a. SET_AXIS_ERROR_FLAG False (a\<lparr>ax_free_tp := (ax_free_tp a)\<lparr>tp_enable := 0\<rparr>\<rparr>)) g"

definition planner_env :: "'tc mot_state \<Rightarrow> 'tc planner_env" where
  "planner_env g = (mi_coord_tp (g_internal g), g_status g, g_config g)"

definition put_env :: "'tc planner_env \<Rightarrow> 'tc mot_state \<Rightarrow> 'tc mot_state" where
  "put_env e g = (case e of (tp, st, cf) \<Rightarrow>
     upd_tp_struct (\<lambda>_. tp) (upd_status (\<lambda>_. st) (upd_config (\<lambda>_. cf) g)))"

definition reject :: "cmd_status \<Rightarrow> 'tc mot_state \<Rightarrow> 'tc mot_state" where
  "reject r g = upd_status (\<lambda>st. SET_MOTION_ERROR_FLAG True (st\<lparr>ms_commandStatus := r\<rparr>)) g"

definition line_target :: "mot_command \<Rightarrow> 'tc tp_struct \<Rightarrow> emc_pose" where
  "line_target c tp =
     (let p = mc_pos c; t = ep_tran p; q = ep_tran (tp_goalPos tp) in
      if mc_ref c \<noteq> 0 then
        p\<lparr>ep_tran := (if mc_dir c \<noteq> 0
            then \<lparr>c_x = c_x q + c_x t, c_y = c_y q + c_y t, c_z = c_z q + c_z t\<rparr>
            else \<lparr>c_x = c_x q - c_x t, c_y = c_y q - c_y t, c_z = c_z q - c_z t\<rparr>)\<rparr>
      else p)"

definition cmd_set_line ::
  "(line_args \<Rightarrow> 'tc planner_env \<Rightarrow> int \<times> 'tc planner_env) \<Rightarrow> 'tc mot_state \<Rightarrow> 'tc mot_state option" where
  "cmd_set_line addLine g =
     (if \<not> GET_MOTION_COORD_FLAG (g_status g) \<or> \<not> GET_MOTION_ENABLE_FLAG (g_status g) then
        Some (reject EMCMOT_COMMAND_INVALID_COMMAND g)
      else
        (case limits_ok g of
           None \<Rightarrow> None
         | Some False \<Rightarrow> Some (reject EMCMOT_COMMAND_INVALID_PARAMS (upd_tp_struct tpAbort g))
         | Some True \<Rightarrow>
             (let g1 = upd_tp_struct (\<lambda>tp. snd (tpSetId tp (mc_id (g_command g)))) g;
                  g2 = upd_command (\<lambda>c. c\<lparr>mc_pos := line_target c (mi_coord_tp (g_internal g1))\<rparr>) g1;
                  g3 = upd_tp_struct (\<lambda>tp. snd (tpSetVlimit tp (of_int (mg_limitVel (g_config g2))))) g2;
                  c = g_command g3;
                  (r, e) = addLine \<lparr>la_end = mc_pos c, la_type = mc_motion_type c, la_vel = of_int (mc_vel c),
                      la_ini_maxvel = of_int (mc_Maxvel c), la_acc = of_int (mc_acc c),
                      la_enables = ms_enables_new (g_status g3), la_atspeed = 0, la_turn = mc_turn c\<rparr>
                    (planner_env g3);
                  g4 = put_env e g3
              in if r < 0 then Some (reject EMCMOT_COMMAND_BAD_EXEC (upd_tp_struct tpAbort g4))
                 else Some (upd_axis 0 (\<lambda>a. a\<lparr>ax_cubic := (ax_cubic a)\<lparr>cu_needNextPoint := True\<rparr>\<rparr>)
                   (upd_tp_struct (\<lambda>tp. tpSetSpindleSync tp (mc_spindle c) (mc_spindlesync c) 0) g4)))))"

definition cmd_set_circle ::
  "(circle_args \<Rightarrow> 'tc planner_env \<Rightarrow> int \<times> 'tc planner_env) \<Rightarrow> 'tc mot_state \<Rightarrow> 'tc mot_state option" where
  "cmd_set_circle addCircle g =
     (if \<not> GET_MOTION_COORD_FLAG (g_status g) \<or> \<not> GET_MOTION_ENABLE_FLAG (g_status g) then
        Some (reject EMCMOT_COMMAND_INVALID_COMMAND g)
      else
        (case limits_ok g of
           None \<Rightarrow> None
         | Some False \<Rightarrow> Some (reject EMCMOT_COMMAND_INVALID_PARAMS (upd_tp_struct tpAbort g))
         | Some True \<Rightarrow>
             (let g1 = upd_tp_struct (\<lambda>tp. snd (tpSetId tp (mc_id (g_command g)))) g;
                  c = g_command g1;
                  (r, e) = addCircle \<lparr>la_end = mc_pos c, la_type = mc_motion_type c,
                      la_vel = of_int (mc_Maxvel c), la_ini_maxvel = of_int (mc_ini_maxvel c),
                      la_acc = of_int (mc_Maxacc c), la_enables = ms_enables_new (g_status g1),
                      la_atspeed = 0, la_turn = mc_turn c, la_center = mc_center c, la_normal = mc_normal c\<rparr>
                    (planner_env g1);
                  g2 = put_env e g1
              in if r < 0 then Some (reject EMCMOT_COMMAND_BAD_EXEC (upd_tp_struct tpAbort g2))
                 else Some g2)))"

section \<open>The handler\<close>

definition on_axis :: "int \<Rightarrow> (nat \<Rightarrow> 'tc mot_state \<Rightarrow> 'tc mot_state) \<Rightarrow> 'tc mot_state \<Rightarrow> 'tc mot_state option" where
  "on_axis n f g = (if axis_ok n then Some (f (nat n) g) else None)"

text \<open>
  A jog on an axis outside the array: with motion enabled and jogging inhibited nothing of the axis is
  touched, in all other cases it is.
\<close>

definition on_jog_axis :: "int \<Rightarrow> (nat \<Rightarrow> 'tc mot_state \<Rightarrow> 'tc mot_state) \<Rightarrow> 'tc mot_state \<Rightarrow> 'tc mot_state option" where
  "on_jog_axis n f g =
     (if axis_ok n then Some (f (nat n) g)
      else if GET_MOTION_ENABLE_FLAG (g_status g) \<and> mh_jog_inhibit (g_hal g) then Some g else None)"

definition run_command ::
  "(line_args \<Rightarrow> 'tc planner_env \<Rightarrow> int \<times> 'tc planner_env) \<Rightarrow>
   (circle_args \<Rightarrow> 'tc planner_env \<Rightarrow> int \<times> 'tc planner_env) \<Rightarrow> 'tc mot_state \<Rightarrow> 'tc mot_state option" where
  "run_command addLine addCircle g =
     (let n = mc_axis (g_command g) in
      case mc_command (g_command g) of
        EMCMOT_DOWNLOADS_CONFIG \<Rightarrow> on_axis n cmd_downloads_config g
      | EMCMOT_AXIS_ENABLE \<Rightarrow>
          (if \<not> mh_enable (g_hal g) then Some g else on_axis n cmd_axis_enable g)
      | EMCMOT_AXIS_DISABLE \<Rightarrow> on_axis n cmd_axis_disable g
      | EMCMOT_MOTION_ENABLE \<Rightarrow> Some (upd_internal (\<lambda>i. i\<lparr>mi_enabling := 1\<rparr>) g)
      | EMCMOT_MOTION_DISABLE \<Rightarrow> Some (upd_internal (\<lambda>i. i\<lparr>mi_enabling := 0\<rparr>) g)
      | EMCMOT_ABORT \<Rightarrow> cmd_abort g
      | EMCMOT_PAUSE \<Rightarrow> Some (cmd_pause g)
      | EMCMOT_JOG_CONT \<Rightarrow> on_jog_axis n cmd_jog_cont g
      | EMCMOT_JOG_INCR \<Rightarrow> on_jog_axis n cmd_jog_incr g
      | EMCMOT_JOG_ABS \<Rightarrow> on_jog_axis n cmd_jog_abs g
      | EMCMOT_JOG_ABORT \<Rightarrow> on_axis n cmd_jog_abort g
      | EMCMOT_SET_LINE \<Rightarrow> cmd_set_line addLine g
      | EMCMOT_SET_CIRCLE \<Rightarrow> cmd_set_circle addCircle g
      | EMCMOT_SET_FREE \<Rightarrow> Some (upd_internal (\<lambda>i. i\<lparr>mi_freeing := 1, mi_coordinating := 0\<rparr>) g)
      | EMCMOT_SET_COORD \<Rightarrow> Some (upd_internal (\<lambda>i. i\<lparr>mi_coordinating := 1, mi_freeing := 0\<rparr>) g)
      | _ \<Rightarrow> Some g)"

definition accept_command :: "'tc mot_state \<Rightarrow> 'tc mot_state" where
  "accept_command g =
     upd_internal (\<lambda>i. i\<lparr>mi_head := mi_head i + 1\<rparr>)
      (upd_status (\<lambda>st. st\<lparr>ms_head := ms_head st + 1, ms_commandEcho := mc_command (g_command g),
         ms_commandNumEcho := mc_commandNum (g_command g), ms_commandStatus := EMCMOT_COMMAND_OK\<rparr>) g)"

definition sync_tails :: "'tc mot_state \<Rightarrow> 'tc mot_state" where
  "sync_tails g =
     upd_internal (\<lambda>i. i\<lparr>mi_tail := mi_head i\<rparr>)
      (upd_config (\<lambda>cf. cf\<lparr>mg_tail := mg_head cf\<rparr>) (upd_status (\<lambda>st. st\<lparr>ms_tail := ms_head st\<rparr>) g))"

definition emcmotCommandHandler_locked ::
  "(line_args \<Rightarrow> 'tc planner_env \<Rightarrow> int \<times> 'tc planner_env) \<Rightarrow>
   (circle_args \<Rightarrow> 'tc planner_env \<Rightarrow> int \<times> 'tc planner_env) \<Rightarrow> 'tc mot_state \<Rightarrow> 'tc mot_state option" where
  "emcmotCommandHandler_locked addLine addCircle g =
     (if mc_commandNum (g_command g) \<noteq> ms_commandNumEcho (g_status g)
      then map_option sync_tails (run_command addLine addCircle (accept_command g))
      else Some (sync_tails g))"

text \<open>\<open>rtapi_mutex_try\<close> fails when the mutex is held, and takes it otherwise.\<close>

definition emcmotCommandHandler ::
  "(line_args \<Rightarrow> 'tc planner_env \<Rightarrow> int \<times> 'tc planner_env) \<Rightarrow>
   (circle_args \<Rightarrow> 'tc planner_env \<Rightarrow> int \<times> 'tc planner_env) \<Rightarrow> 'tc mot_state \<Rightarrow> 'tc mot_state option" where
  "emcmotCommandHandler addLine addCircle g =
     (if g_command_mutex g then Some g
      else map_option (\<lambda>g. g\<lparr>g_command_mutex := False\<rparr>)
        (emcmotCommandHandler_locked addLine addCircle (g\<lparr>g_command_mutex := True\<rparr>)))"

end
