(* ===== verification/MotionInit.thy ===== *)
theory MotionInit
  imports MotionState
begin

text \<open>
  Start-up and cycle times: \<open>motion/motion.c\<close>, \<open>motion/emomotutil.c\<close>, and creating the planner in
  \<open>tp/tp.c\<close>. Allocation of the shared memory and of the segment queue, and the export of pins and
  threads, belong to other components: the planner's segment space is an argument, the rest is
  taken to have succeeded. \<open>None\<close> is a division by zero.
\<close>

section \<open>Cycle times\<close>

definition emcmot_config_change :: "'tc mot_state \<Rightarrow> 'tc mot_state" where
  "emcmot_config_change g =
     (if mg_head (g_config g) = mg_tail (g_config g) then
        (let n = s32 (mg_config_num (g_config g) + 1) in
         upd_status (\<lambda>st. st\<lparr>ms_config_num := n\<rparr>)
          (upd_config (\<lambda>cf. cf\<lparr>mg_config_num := n, mg_head := mg_head cf + 1\<rparr>) g))
      else g)"

definition upd_cubics :: "(cubic \<Rightarrow> cubic) \<Rightarrow> 'tc mot_state \<Rightarrow> 'tc mot_state" where
  "upd_cubics f g = fold (\<lambda>n. upd_axis n (\<lambda>a. a\<lparr>ax_cubic := f (ax_cubic a)\<rparr>)) [0..<EMCMOT_MAX_AXIS] g"

definition setTrajCycleTime :: "real \<Rightarrow> 'tc mot_state \<Rightarrow> int \<times> 'tc mot_state" where
  "setTrajCycleTime secs g =
     (if secs \<le> 0 then (-1, g)
      else
        (let g1 = emcmot_config_change g;
             rate = (if mg_servoCycleTime (g_config g1) \<noteq> 0
                     then d2i (secs / mg_servoCycleTime (g_config g1) + 0.5) else 1);
             g2 = upd_config (\<lambda>cf. cf\<lparr>mg_interpolationRate := rate\<rparr>) g1;
             g3 = upd_tp_struct (\<lambda>tp. snd (tpSetCycleTime tp secs)) g2;
             g4 = upd_cubics (\<lambda>c. snd (cubicSetInterpolationRate c rate)) g3
         in (0, upd_config (\<lambda>cf. cf\<lparr>mg_trajCycleTime := secs, mg_tail := mg_head cf\<rparr>) g4)))"

definition setServoCycleTime :: "real \<Rightarrow> 'tc mot_state \<Rightarrow> int \<times> 'tc mot_state" where
  "setServoCycleTime secs g =
     (if secs \<le> 0 then (-1, g)
      else
        (let g1 = emcmot_config_change g;
             rate = d2i (mg_trajCycleTime (g_config g1) / secs + 0.5);
             g2 = upd_config (\<lambda>cf. cf\<lparr>mg_interpolationRate := rate\<rparr>) g1;
             g3 = upd_cubics (\<lambda>c. snd (cubicSetSegmentTime (snd (cubicSetInterpolationRate c rate)) secs)) g2
         in (0, upd_config (\<lambda>cf. cf\<lparr>mg_servoCycleTime := secs, mg_tail := mg_head cf\<rparr>) g3)))"

text \<open>The argument is an \<open>unsigned long\<close>; the quotient is cut to an \<open>int\<close>, the product is unsigned.\<close>

definition emcmotSetCycleTime :: "int \<Rightarrow> 'tc mot_state \<Rightarrow> 'tc mot_state option" where
  "emcmotSetCycleTime nsec g =
     (let u = nsec mod 2 ^ 64 in
      if u = 0 then None
      else
        (let m0 = s32 ((g_traj_period_nsec g mod 2 ^ 64) div u);
             m = (if m0 < 0 then 1 else m0);
             g1 = snd (setTrajCycleTime (of_int u * 0.000000001) g)
         in Some (snd (setServoCycleTime (of_int ((u * m) mod 2 ^ 64) * 0.000000001) g1))))"

text \<open>The cycle times \<open>init_motion_threads\<close> starts with, for the fixed \<open>servo_period_nsec\<close>.\<close>

definition SERVO_PERIOD_NSEC :: int where "SERVO_PERIOD_NSEC = 1000000"

definition init_cycle_times :: "'tc mot_state \<Rightarrow> 'tc mot_state" where
  "init_cycle_times g =
     (let g1 = (if g_traj_period_nsec g = 0
                then g\<lparr>g_traj_period_nsec := SERVO_PERIOD_NSEC * 1000\<rparr> else g);
          g2 = snd (setServoCycleTime (of_int SERVO_PERIOD_NSEC * 0.000000001) g1)
      in snd (setTrajCycleTime (of_int (g_traj_period_nsec g2) * 0.000000001) g2))"

section \<open>Creating the planner\<close>

definition tpGetMachineActiveLimit :: "pm_cart \<Rightarrow> real" where
  "tpGetMachineActiveLimit b =
     (let l0 = max (max (c_x b) (c_y b)) (c_z b);
          l1 = (if c_x b > 0 then min l0 (c_x b) else l0);
          l2 = (if c_y b > 0 then min l1 (c_y b) else l1)
      in if c_z b > 0 then min l2 (c_z b) else l2)"

text \<open>\<open>module_intfc\<close> hands the planner the limits of \<open>axis.c\<close>.\<close>

definition tpGetMachineAccelBounds :: "axis_state \<Rightarrow> pm_cart" where
  "tpGetMachineAccelBounds s =
     \<lparr>c_x = axis_get_acc_limit 0 s, c_y = axis_get_acc_limit 1 s, c_z = axis_get_acc_limit 2 s\<rparr>"

definition tpGetMachineVelBounds :: "axis_state \<Rightarrow> pm_cart" where
  "tpGetMachineVelBounds s =
     \<lparr>c_x = axis_get_vel_limit 0 s, c_y = axis_get_vel_limit 1 s, c_z = axis_get_vel_limit 2 s\<rparr>"

definition tpInit :: "axis_state \<Rightarrow> 'tc tp_struct \<Rightarrow> mot_status \<Rightarrow> 'tc tp_struct \<times> mot_status" where
  "tpInit s tp st =
     tpClear (tp\<lparr>tp_cycleTime := 0, tp_vLimit := 0, tp_ini_maxvel := 0,
        tp_aMax := tpGetMachineActiveLimit (tpGetMachineAccelBounds s),
        tp_reverse_run := 0, tp_termCond := TC_TERM_COND_TANGENT, tp_tolerance := 0,
        tp_currentPos := emcPoseZero, tp_vMax := tpGetMachineActiveLimit (tpGetMachineVelBounds s)\<rparr>) st"

text \<open>The queue's segment space is the static array \<open>queueTcSpace\<close>, the argument \<open>space\<close>.\<close>

definition DEFAULT_TC_QUEUE_SIZE :: int where "DEFAULT_TC_QUEUE_SIZE = 2000"
definition TP_DEFAULT_QUEUE_SIZE :: int where "TP_DEFAULT_QUEUE_SIZE = 32"

definition tpCreate ::
  "'tc list \<Rightarrow> int \<Rightarrow> axis_state \<Rightarrow> 'tc tp_struct \<Rightarrow> mot_status \<Rightarrow> int \<times> 'tc tp_struct \<times> mot_status" where
  "tpCreate space queueSize s tp st =
     (let n = (if queueSize \<le> 0 then TP_DEFAULT_QUEUE_SIZE else queueSize) in
      case tcqCreate (Some (tp_queue tp)) n (Some space) of
        (r, Some q) \<Rightarrow>
          (let tp1 = tp\<lparr>tp_queueSize := n, tp_queue := q\<rparr> in
           if r = -1 then (TP_ERR_FAIL, tp1, st) else (0, tpInit s tp1 st))
      | (r, None) \<Rightarrow> (TP_ERR_FAIL, tp, st))"

definition tp_init :: "'tc list \<Rightarrow> 'tc mot_state \<Rightarrow> int \<times> 'tc mot_state" where
  "tp_init space g =
     (case tpCreate space DEFAULT_TC_QUEUE_SIZE (g_tele g) (mi_coord_tp (g_internal g)) (g_status g) of
        (r, tp, st) \<Rightarrow>
          (let g1 = upd_status (\<lambda>_. st) (upd_tp_struct (\<lambda>_. tp) g) in
           if r = -1 then (-1, g1)
           else (0, upd_tp_struct (\<lambda>tp.
               snd (tpSetPos
                 (snd (tpSetAmax
                   (snd (tpSetVmax
                     (snd (tpSetCycleTime tp (mg_trajCycleTime (g_config g1))))
                     (of_int (ms_Maxvel (g_status g1))) (of_int (ms_Maxvel (g_status g1)))))
                   (of_int (ms_Maxacc (g_status g1)))))
                 (ms_carte_pos_cmd (g_status g1)))) g1)))"

section \<open>Initial state\<close>

definition init_axis :: "mot_axis \<Rightarrow> mot_axis" where
  "init_axis a = SET_AXIS_INPOS_FLAG True (a\<lparr>ax_max_pos_limit := 1, ax_min_pos_limit := -1, ax_vel_limit := 1,
     ax_acc_limit := 1, ax_min_ferror := 400, ax_max_ferror := 27486951, ax_flag := 1, ax_coarse_pos := 0,
     ax_pos_cmd := 0, ax_vel_cmd := 0, ax_acc_cmd := 0, ax_motor_pos_cmd := 0, ax_motor_pos_fb := 0,
     ax_pos_fb := 0, ax_ferror := 0, ax_ferror_limit := 400, ax_ferror_high_mark := 0,
     ax_cubic := cubicInit (ax_cubic a)\<rparr>)"

text \<open>From the attached structure on.\<close>

definition init_status :: "mot_status \<Rightarrow> mot_status" where
  "init_status st =
     SET_MOTION_ENABLE_FLAG False (SET_MOTION_INPOS_FLAG True
      (SET_MOTION_COORD_FLAG False (SET_MOTION_ERROR_FLAG False
       (st\<lparr>ms_head := 0, ms_commandEcho := EMCMOT_FREE, ms_commandNumEcho := 0,
          ms_commandStatus := EMCMOT_COMMAND_OK, ms_motionFlag := 0, ms_heartbeat := 0,
          ms_carte_pos_cmd := emcPoseZero, ms_carte_pos_fb := emcPoseZero, ms_Maxvel := 0, ms_Maxacc := 0,
          ms_feed_scale := 1, ms_rapid_scale := 1, ms_net_feed_scale := 1,
          ms_enables_new := or (or FS_ENABLED SS_ENABLED) FH_ENABLED,
          ms_enables_queued := or (or FS_ENABLED SS_ENABLED) FH_ENABLED,
          ms_id := 0, ms_depth := 0, ms_activeDepth := 0, ms_paused := 0, ms_overrideLimitMask := 0\<rparr>))))"

definition init_motion_comm_buffers :: "'tc mot_state \<Rightarrow> 'tc mot_state" where
  "init_motion_comm_buffers g =
     (let g1 = upd_status init_status g;
          g2 = upd_internal (\<lambda>i. i\<lparr>mi_head := 0, mi_enabling := 0, mi_split := 0\<rparr>) g1;
          g3 = upd_config (\<lambda>cf. cf\<lparr>mg_head := 0, mg_limitVel := 0, mg_arcBlendOptDepth := 50,
                 mg_arcBlendRampFreq := 100\<rparr>) g2;
          g4 = emcmot_config_change g3;
          g5 = upd_tele axis_init_all g4;
          g6 = fold (\<lambda>n. upd_axis n init_axis) [0..<EMCMOT_MAX_AXIS] g5
      in upd_config (\<lambda>cf. cf\<lparr>mg_tail := mg_head cf\<rparr>) (upd_status (\<lambda>st. st\<lparr>ms_tail := 0\<rparr>) g6))"

text \<open>
  \<open>atomic_actpos\<close> is declared here as a single atomic integer, so every axis reads the first element of
  the array. The positions wrap to 32 bits.
\<close>

definition updata_axis_param :: "nat \<Rightarrow> 'tc mot_state \<Rightarrow> 'tc mot_state" where
  "updata_axis_param numAxes g =
     fold (\<lambda>n. upd_axis n (\<lambda>a. a\<lparr>ax_free_tp := (ax_free_tp a)\<lparr>tp_curr_pos := s32 (g_actpos g ! 0)\<rparr>\<rparr>))
       [0..<numAxes] g"

text \<open>The pin values \<open>init_hal_param\<close> starts with, for \<open>num_axis\<close> axes.\<close>

definition init_hal_values :: "nat \<Rightarrow> 'tc mot_state \<Rightarrow> 'tc mot_state" where
  "init_hal_values num_axis g =
     fold (\<lambda>n. upd_axis_hal n (\<lambda>h. h\<lparr>ah_amp_enable := True\<rparr>)) [0..<num_axis]
       (upd_hal (\<lambda>h. h\<lparr>mh_jog_inhibit := False, mh_jog_stop := False, mh_jog_stop_immediate := False,
          mh_enable := True, mh_motion_enabled := False, mh_in_position := False, mh_coord_mode := False,
          mh_coord_error := False, mh_on_soft_limit := False\<rparr>) g)"

text \<open>The error log of \<open>emomotutil.c\<close>; no argument is a NULL pointer.\<close>

record mot_error =
  me_head :: "8 word"
  me_start :: int
  me_end :: int
  me_num :: int
  me_tail :: "8 word"

definition emcmotErrorInit :: "mot_error option \<Rightarrow> int \<times> mot_error option" where
  "emcmotErrorInit errlog =
     (case errlog of None \<Rightarrow> (-1, None)
      | Some e \<Rightarrow> (0, Some (e\<lparr>me_head := 0, me_start := 0, me_end := 0, me_num := 0, me_tail := 0\<rparr>)))"

end
