(* ===== verification/Control.thy ===== *)
theory Control
  imports Command MotionInit
begin

text \<open>
  The servo-rate controller, \<open>motion/control.c\<close>: one function per phase, composed by
  \<open>emcmotController\<close>. \<open>None\<close> is a call that does not return (the interpolation loop) or an access
  outside an array; a read of a variable that was not set is \<open>None\<close> too. \<open>tpRunCycle\<close> of \<open>tp/tp.c\<close> is
  the parameter \<open>runCycle\<close>, given the period and the planner, status and configuration it works on.
  The local \<open>scale\<close> of \<open>process_inputs\<close> is computed and never used, and is left out, as are the
  clock pins and the messages.
\<close>

definition EMCMOT_MAX_MISC_ERROR :: nat where "EMCMOT_MAX_MISC_ERROR = 64"

abbreviation all_axis_nums :: "nat list" where "all_axis_nums \<equiv> [0..<EMCMOT_MAX_AXIS]"

section \<open>Inputs\<close>

definition handle_interpolation :: "'tc mot_state \<Rightarrow> 'tc mot_state" where
  "handle_interpolation g =
     (let g1 = upd_status (set_pcmd (map (\<lambda>n. of_int (ax_pos_cmd (g_axes g ! n))) [0, 1, 2])) g
      in upd_tp_struct (\<lambda>tp. snd (tpSetPos tp (ms_carte_pos_cmd (g_status g1)))) g1)"

text \<open>
  The limit is computed and stored in 64 bits, which hold the product of two values of 32 bits; the pin it is
  reported on has 32.
\<close>

definition ferror_limit_of :: "mot_axis \<Rightarrow> int" where
  "ferror_limit_of a =
     (let l = (if ax_vel_limit a > 0 then (ax_max_ferror a * ax_vel_cmd a) sdiv ax_vel_limit a else 0)
      in if l < ax_min_ferror a then ax_min_ferror a else l)"

definition input_axis :: "axis_hal \<Rightarrow> mot_axis \<Rightarrow> mot_axis" where
  "input_axis h a =
     (if \<not> GET_AXIS_ACTIVE_FLAG a then a
      else
        (let fb = s32 (ah_motor_pos_fb h - ax_motor_offset a);
             fe = s32 (ax_pos_cmd a - fb);
             abs_ferror = d2i \<bar>of_int fe\<bar>;
             a1 = a\<lparr>ax_motor_pos_fb := ah_motor_pos_fb h, ax_pos_fb := fb, ax_ferror := fe,
                    ax_ferror_limit := ferror_limit_of a\<rparr>;
             a2 = SET_AXIS_FERROR_FLAG (abs_ferror > ax_ferror_limit a1) a1;
             a3 = SET_AXIS_NHL_FLAG (ah_neg_lim_sw h) (SET_AXIS_PHL_FLAG (ah_pos_lim_sw h) a2);
             a4 = a3\<lparr>ax_on_pos_limit := (if GET_AXIS_PHL_FLAG a3 then 1 else 0),
                     ax_on_neg_limit := (if GET_AXIS_NHL_FLAG a3 then 1 else 0)\<rparr>
         in SET_AXIS_FAULT_FLAG (ah_amp_fault h) a4))"

text \<open>\<open>enables & *jog_is_active\<close> is a bitwise conjunction: it reads the spindle-scale bit of \<open>enables\<close>.\<close>

definition process_inputs :: "'tc mot_state \<Rightarrow> 'tc mot_state" where
  "process_inputs g =
     (let st = g_status g;
          enables = (if ms_motion_state st = EMCMOT_MOTION_COORD then ms_enables_queued st else ms_enables_new st);
          g1 = fold (\<lambda>n s. upd_axis n (input_axis (mh_axis (g_hal s) ! n)) s) all_axis_nums g;
          h = g_hal g1
      in if and enables (of_bool (mh_jog_is_active h)) \<noteq> 0 \<and> (mh_jog_stop h \<or> mh_jog_stop_immediate h)
         then upd_tele (\<lambda>t. snd (axis_jog_abort_all (mh_jog_stop_immediate h) t)) g1 else g1)"

section \<open>Faults\<close>

definition set_enabling :: "int \<Rightarrow> 'tc mot_state \<Rightarrow> 'tc mot_state" where
  "set_enabling v g = upd_internal (\<lambda>i. i\<lparr>mi_enabling := v\<rparr>) g"

text \<open>The three checks on an active, enabled axis do the same.\<close>

definition axis_tripped :: "nat \<Rightarrow> 'tc mot_state \<Rightarrow> bool" where
  "axis_tripped n g =
     (let a = g_axes g ! n in
      pos_limit_override (g_status g) n \<or> neg_limit_override (g_status g) n
      \<or> GET_AXIS_FAULT_FLAG a \<or> GET_AXIS_FERROR_FLAG a)"

definition check_axis_faults :: "nat \<Rightarrow> 'tc mot_state \<Rightarrow> 'tc mot_state" where
  "check_axis_faults n g =
     (let a = g_axes g ! n in
      if GET_AXIS_ACTIVE_FLAG a \<and> GET_AXIS_ENABLE_FLAG a \<and> axis_tripped n g
      then set_enabling 0 (upd_axis n (SET_AXIS_ERROR_FLAG True) g) else g)"

definition check_for_faults :: "'tc mot_state \<Rightarrow> 'tc mot_state option" where
  "check_for_faults g =
     (let g1 = (if GET_MOTION_ENABLE_FLAG (g_status g) \<and> \<not> mh_enable (g_hal g) then set_enabling 0 g else g);
          g2 = fold check_axis_faults all_axis_nums g1;
          num = mg_numMiscError (g_config g2)
      in if num > int EMCMOT_MAX_MISC_ERROR then None
         else if GET_MOTION_ENABLE_FLAG (g_status g2)
              \<and> list_ex (\<lambda>i. ms_misc_error (g_status g2) ! i \<noteq> 0) [0..<nat num]
         then Some (set_enabling 0 g2) else Some g2)"

section \<open>Operating mode\<close>

definition disable_axis :: "mot_axis \<Rightarrow> mot_axis" where
  "disable_axis a =
     (let a1 = a\<lparr>ax_free_tp := (ax_free_tp a)\<lparr>tp_enable := 0, tp_curr_vel := 0\<rparr>,
                 ax_cubic := cubicDrain (ax_cubic a)\<rparr>
      in if GET_AXIS_ACTIVE_FLAG a1 then SET_AXIS_ENABLE_FLAG False (SET_AXIS_INPOS_FLAG True a1) else a1)"

definition mode_disable :: "'tc mot_state \<Rightarrow> 'tc mot_state" where
  "mode_disable g =
     (if mi_enabling (g_internal g) = 0 \<and> GET_MOTION_ENABLE_FLAG (g_status g) then
        (let (tp, st) = tpClear (mi_coord_tp (g_internal g)) (g_status g);
             g1 = upd_status (\<lambda>_. st) (upd_tp_struct (\<lambda>_. tp) g);
             g2 = fold (\<lambda>n. upd_axis n disable_axis) all_axis_nums g1;
             g3 = upd_tele (\<lambda>t. snd (axis_jog_abort_all True t)) g2
         in upd_status (SET_MOTION_ENABLE_FLAG False) g3)
      else g)"

definition enable_axis :: "mot_axis \<Rightarrow> mot_axis" where
  "enable_axis a =
     (let a1 = a\<lparr>ax_free_tp := (ax_free_tp a)\<lparr>tp_curr_pos := ax_pos_cmd a\<rparr>\<rparr>;
          a2 = (if GET_AXIS_ACTIVE_FLAG a1 then SET_AXIS_ENABLE_FLAG True a1 else a1)
      in SET_AXIS_ERROR_FLAG False a2)"

definition mode_enable :: "'tc mot_state \<Rightarrow> 'tc mot_state" where
  "mode_enable g =
     (if mi_enabling (g_internal g) \<noteq> 0 \<and> \<not> GET_MOTION_ENABLE_FLAG (g_status g) then
        (let g1 = upd_hal (\<lambda>h. h\<lparr>mh_eoffset_limited := False\<rparr>) g;
             g2 = upd_tele axis_initialize_external_offsets g1;
             g3 = upd_tp_struct (\<lambda>tp. snd (tpSetPos tp (ms_carte_pos_cmd (g_status g2)))) g2;
             g4 = fold (\<lambda>n. upd_axis n enable_axis) all_axis_nums g3
         in upd_status (SET_MOTION_ERROR_FLAG False \<circ> SET_MOTION_ENABLE_FLAG True) g4)
      else g)"

definition mode_coord :: "'tc mot_state \<Rightarrow> 'tc mot_state" where
  "mode_coord g =
     (if mi_coordinating (g_internal g) \<noteq> 0 \<and> \<not> GET_MOTION_COORD_FLAG (g_status g) then
        if GET_MOTION_INPOS_FLAG (g_status g) then
          (let g1 = upd_status (\<lambda>st. set_pcmd (axis_apply_ext_offsets_to_carte_pos (-1) (g_tele g) (pcmd_of st)) st) g;
               g2 = upd_tp_struct (\<lambda>tp. snd (tpSetPos tp (ms_carte_pos_cmd (g_status g1)))) g1;
               g3 = fold (\<lambda>n. upd_axis n (\<lambda>a. a\<lparr>ax_cubic := cubicDrain (ax_cubic a)\<rparr>)) all_axis_nums g2;
               g4 = upd_internal (\<lambda>i. i\<lparr>mi_overriding := 0\<rparr>) g3
           in upd_status (\<lambda>st. SET_MOTION_ERROR_FLAG False
                (SET_MOTION_COORD_FLAG True (st\<lparr>ms_overrideLimitMask := 0\<rparr>))) g4)
        else upd_internal (\<lambda>i. i\<lparr>mi_coordinating := 0\<rparr>) g
      else g)"

definition mode_free :: "'tc mot_state \<Rightarrow> 'tc mot_state" where
  "mode_free g =
     (if mi_freeing (g_internal g) \<noteq> 0 \<and> \<not> GET_MOTION_FREE_FLAG (g_status g) then
        if GET_MOTION_INPOS_FLAG (g_status g) then
          upd_status (SET_MOTION_ERROR_FLAG False \<circ> SET_MOTION_FREE_FLAG True)
            (fold (\<lambda>n. upd_axis n (\<lambda>a. a\<lparr>ax_free_tp := (ax_free_tp a)\<lparr>tp_curr_pos := ax_pos_cmd a, tp_enable := 0\<rparr>\<rparr>))
              all_axis_nums g)
        else upd_internal (\<lambda>i. i\<lparr>mi_freeing := 0\<rparr>) g
      else g)"

definition mode_of :: "mot_status \<Rightarrow> motion_state" where
  "mode_of st =
     (if \<not> GET_MOTION_ENABLE_FLAG st then EMCMOT_MOTION_DISABLED
      else if GET_MOTION_COORD_FLAG st then EMCMOT_MOTION_COORD else EMCMOT_MOTION_FREE)"

definition set_operating_mode :: "'tc mot_state \<Rightarrow> 'tc mot_state" where
  "set_operating_mode g =
     upd_status (\<lambda>st. st\<lparr>ms_motion_state := mode_of st\<rparr>) (mode_free (mode_coord (mode_enable (mode_disable g))))"

section \<open>Position commands\<close>

text \<open>
  One active axis in free mode. The branch on the motion state inside this case of the switch is never
  taken and is left out.
\<close>

definition free_axis :: "int \<Rightarrow> mot_status \<Rightarrow> mot_axis \<Rightarrow> mot_axis" where
  "free_axis servo_period st a0 =
     (let a = (if ax_acc_limit a0 > ms_Maxacc st then a0\<lparr>ax_acc_limit := ms_Maxacc st\<rparr> else a0);
          tp = simple_tp_update ((ax_free_tp a)\<lparr>tp_max_acc := ax_acc_limit a\<rparr>) servo_period
      in SET_AXIS_INPOS_FLAG (tp_active tp = 0)
           (a\<lparr>ax_free_tp := tp, ax_pos_cmd := tp_curr_pos tp, ax_vel_cmd := tp_curr_vel tp, ax_acc_cmd := 0,
              ax_coarse_pos := tp_curr_pos tp\<rparr>))"

definition free_step :: "nat \<Rightarrow> 'tc mot_state \<Rightarrow> 'tc mot_state" where
  "free_step n g =
     (if \<not> GET_AXIS_ACTIVE_FLAG (g_axes g ! n) then g
      else
        (let a = free_axis (g_servo_period g) (g_status g) (g_axes g ! n);
             g1 = upd_axis n (\<lambda>_. a) (g\<lparr>g_actpos := (g_actpos g)[n := tp_curr_pos (ax_free_tp a)]\<rparr>)
         in if tp_active (ax_free_tp a) \<noteq> 0 then
              (let g2 = upd_status (SET_MOTION_INPOS_FLAG False) g1 in
               if ms_overrideLimitMask (g_status g2) \<noteq> 0
               then upd_internal (\<lambda>i. i\<lparr>mi_overriding := 1\<rparr>) g2 else g2)
            else g1))"

definition pos_cmds_free :: "'tc mot_state \<Rightarrow> 'tc mot_state" where
  "pos_cmds_free g =
     (let g1 = fold free_step all_axis_nums (upd_status (SET_MOTION_INPOS_FLAG True) g)
      in if mi_overriding (g_internal g1) \<noteq> 0 \<and> GET_MOTION_INPOS_FLAG (g_status g1)
         then upd_internal (\<lambda>i. i\<lparr>mi_overriding := 0\<rparr>)
                (upd_status (\<lambda>st. st\<lparr>ms_overrideLimitMask := 0\<rparr>) g1)
         else g1)"

text \<open>One round of the interpolation loop: a planner cycle, its position into every active axis.\<close>

definition coord_point :: "(int \<Rightarrow> 'tc planner_env \<Rightarrow> 'tc planner_env) \<Rightarrow> int \<Rightarrow> 'tc mot_state \<Rightarrow> 'tc mot_state" where
  "coord_point runCycle period g =
     (let g1 = put_env (runCycle period (planner_env g)) g;
          g2 = upd_status (\<lambda>st. st\<lparr>ms_carte_pos_cmd := tpGetPos (mi_coord_tp (g_internal g1))\<rparr>) g1;
          positions = map d2i (pcmd_of (g_status g2));
          (r, p, t) = axis_update_coord_with_bound (pcmd_of (g_status g2)) (of_int (g_servo_period g2)) (g_tele g2);
          g3 = (upd_status (set_pcmd p) (upd_tele (\<lambda>_. t) g2))\<lparr>g_ext_offset_coord_limit := (if r \<noteq> 0 then 1 else 0)\<rparr>
      in fold (\<lambda>n. upd_axis n (\<lambda>a. if \<not> GET_AXIS_ACTIVE_FLAG a then a
             else a\<lparr>ax_coarse_pos := positions ! n,
                    ax_cubic := snd (cubicAddPoint (ax_cubic a) (of_int (positions ! n)))\<rparr>)) all_axis_nums g3)"

partial_function (option) coord_loop ::
  "(int \<Rightarrow> 'tc planner_env \<Rightarrow> 'tc planner_env) \<Rightarrow> int \<Rightarrow> 'tc mot_state \<Rightarrow> 'tc mot_state option" where
  "coord_loop runCycle period g =
     (if \<not> cubicNeedNextPoint (ax_cubic (g_axes g ! 0)) then Some g
      else coord_loop runCycle period (coord_point runCycle period g))"

definition coord_axis :: "nat \<Rightarrow> 'tc mot_state \<Rightarrow> 'tc mot_state option" where
  "coord_axis n g =
     (if \<not> GET_AXIS_ACTIVE_FLAG (g_axes g ! n) then Some g
      else
        (case cubicInterpolate (ax_cubic (g_axes g ! n)) of
           (None, c) \<Rightarrow> None
         | (Some (x, v, acc, j), c) \<Rightarrow>
             Some (upd_axis n (\<lambda>a. a\<lparr>ax_cubic := c, ax_pos_cmd := d2i x, ax_vel_cmd := d2i v, ax_acc_cmd := d2i acc\<rparr>)
               (g\<lparr>g_actpos := (g_actpos g)[n := d2i x]\<rparr>))))"

definition pos_cmds_coord ::
  "(int \<Rightarrow> 'tc planner_env \<Rightarrow> 'tc planner_env) \<Rightarrow> int \<Rightarrow> 'tc mot_state \<Rightarrow> 'tc mot_state option" where
  "pos_cmds_coord runCycle period g =
     (let g1 = (upd_tele (\<lambda>t. snd (axis_jog_abort_all True t)) g)\<lparr>g_coord_cubic_active := True\<rparr> in
      case coord_loop runCycle period g1 of
        None \<Rightarrow> None
      | Some g2 \<Rightarrow>
          map_option (\<lambda>g3. upd_status (SET_MOTION_INPOS_FLAG (tpIsDone (mi_coord_tp (g_internal g3)) \<noteq> 0)) g3)
            (fold (\<lambda>n r. Option.bind r (coord_axis n)) all_axis_nums (Some g2)))"

definition pos_cmds_disabled :: "'tc mot_state \<Rightarrow> 'tc mot_state" where
  "pos_cmds_disabled g =
     fold (\<lambda>n. upd_axis n (\<lambda>a. a\<lparr>ax_pos_cmd := ax_pos_fb a, ax_vel_cmd := 0, ax_acc_cmd := 0\<rparr>)) all_axis_nums
       (upd_status (\<lambda>st. st\<lparr>ms_carte_pos_cmd := ms_carte_pos_fb st\<rparr>) g)"

definition beyond_soft_limit :: "mot_axis \<Rightarrow> bool" where
  "beyond_soft_limit a \<longleftrightarrow>
     real_of_int (ax_pos_cmd a) > of_int (ax_max_pos_limit a) + 0.000000000001
     \<or> real_of_int (ax_pos_cmd a) < of_int (ax_min_pos_limit a) - 0.000000000001"

definition check_soft_limits :: "'tc mot_state \<Rightarrow> 'tc mot_state option" where
  "check_soft_limits g =
     (case all_axes g of
        None \<Rightarrow> None
      | Some ns \<Rightarrow>
          Some (if list_ex (\<lambda>n. beyond_soft_limit (g_axes g ! n)) ns then
              (if ms_on_soft_limit (g_status g) = 0
               then upd_status (\<lambda>st. SET_MOTION_ERROR_FLAG True (st\<lparr>ms_on_soft_limit := 1\<rparr>)) g else g)
            else upd_status (\<lambda>st. st\<lparr>ms_on_soft_limit := 0\<rparr>) g))"

definition get_pos_cmds ::
  "(int \<Rightarrow> 'tc planner_env \<Rightarrow> 'tc planner_env) \<Rightarrow> int \<Rightarrow> 'tc mot_state \<Rightarrow> 'tc mot_state option" where
  "get_pos_cmds runCycle period g =
     Option.bind
       (case ms_motion_state (g_status g) of
          EMCMOT_MOTION_FREE \<Rightarrow> Some (pos_cmds_free g)
        | EMCMOT_MOTION_COORD \<Rightarrow> pos_cmds_coord runCycle period g
        | EMCMOT_MOTION_DISABLED \<Rightarrow> Some (pos_cmds_disabled g))
       check_soft_limits"

section \<open>Outputs\<close>

definition output_axis_hal :: "int \<Rightarrow> mot_axis \<Rightarrow> axis_hal \<Rightarrow> axis_hal" where
  "output_axis_hal enabling a h =
     h\<lparr>ah_motor_offset := ax_motor_offset a, ah_motor_pos_cmd := ax_motor_pos_cmd a,
       ah_axis_pos_cmd := ax_pos_cmd a, ah_axis_pos_fb := ax_pos_fb a, ah_amp_enable := GET_AXIS_ENABLE_FLAG a,
       ah_coarse_pos_cmd := ax_coarse_pos a, ah_axis_vel_cmd := ax_vel_cmd a, ah_axis_acc_cmd := ax_acc_cmd a,
       ah_f_error := ax_ferror a, ah_f_error_lim := s32 (ax_ferror_limit a), ah_active := GET_AXIS_ACTIVE_FLAG a,
       ah_motionenable := (enabling \<noteq> 0), ah_motionrunning := (tp_enable (ax_free_tp a) \<noteq> 0),
       ah_in_position := GET_AXIS_INPOS_FLAG a, ah_error := GET_AXIS_ERROR_FLAG a,
       ah_phl := GET_AXIS_PHL_FLAG a, ah_nhl := GET_AXIS_NHL_FLAG a,
       ah_f_errored := GET_AXIS_FERROR_FLAG a, ah_faulted := GET_AXIS_FAULT_FLAG a\<rparr>"

definition output_axis :: "nat \<Rightarrow> 'tc mot_state \<Rightarrow> 'tc mot_state" where
  "output_axis n g =
     (if \<not> GET_AXIS_ACTIVE_FLAG (g_axes g ! n) then g
      else
        (let a = (g_axes g ! n)\<lparr>ax_motor_pos_cmd := s32 (ax_pos_cmd (g_axes g ! n) + ax_motor_offset (g_axes g ! n))\<rparr>
         in upd_axis_hal n (output_axis_hal (mi_enabling (g_internal g)) a)
              (upd_axis n (\<lambda>_. a) (g\<lparr>g_targetpos := (g_targetpos g)[n := ax_motor_pos_cmd a]\<rparr>))))"

definition output_to_hal :: "'tc mot_state \<Rightarrow> 'tc mot_state" where
  "output_to_hal g =
     (let st = g_status g;
          g1 = upd_hal (\<lambda>h. h\<lparr>mh_motion_enabled := GET_MOTION_ENABLE_FLAG st, mh_in_position := GET_MOTION_INPOS_FLAG st,
                 mh_coord_mode := GET_MOTION_COORD_FLAG st, mh_coord_error := GET_MOTION_ERROR_FLAG st,
                 mh_on_soft_limit := (ms_on_soft_limit st \<noteq> 0)\<rparr>) g;
          g2 = fold output_axis all_axis_nums g1;
          g3 = upd_tele (axis_output_to_hal (pcmd_of (g_status g2))) g2
      in upd_hal (\<lambda>h. h\<lparr>mh_jog_is_active := axis_jog_is_active (g_tele g3)\<rparr>) g3)"

definition status_of_axis :: "mot_axis \<Rightarrow> mot_axis_status \<Rightarrow> mot_axis_status" where
  "status_of_axis a s =
     s\<lparr>st_flag := ax_flag a, st_pos_cmd := ax_pos_cmd a, st_pos_fb := ax_pos_fb a, st_vel_cmd := ax_vel_cmd a,
       st_acc_cmd := ax_acc_cmd a, st_ferror := ax_ferror a, st_ferror_high_mark := ax_ferror_high_mark a,
       st_max_pos_limit := ax_max_pos_limit a, st_min_pos_limit := ax_min_pos_limit a,
       st_min_ferror := ax_min_ferror a, st_max_ferror := ax_max_ferror a\<rparr>"

definition status_of_tele :: "nat \<Rightarrow> axis_state \<Rightarrow> mot_axis_status \<Rightarrow> mot_axis_status" where
  "status_of_tele n t s =
     s\<lparr>st_axis_vel_cmd := d2i (axis_get_teleop_vel_cmd n t), st_max_pos_limit := d2i (axis_get_max_pos_limit n t),
       st_min_pos_limit := d2i (axis_get_min_pos_limit n t)\<rparr>"

definition update_status :: "'tc mot_state \<Rightarrow> 'tc mot_state option" where
  "update_status g =
     (let t = g_tele g; tp = mi_coord_tp (g_internal g); num = mg_numMiscError (g_config g);
          st1 = fold (\<lambda>n st. st\<lparr>ms_axis_status := (ms_axis_status st)[n :=
                  status_of_tele n t (status_of_axis (g_axes g ! n) (ms_axis_status st ! n))]\<rparr>) all_axis_nums (g_status g);
          st2 = st1\<lparr>ms_eoffset_pose := (ms_eoffset_pose st1)\<lparr>ep_tran := \<lparr>c_x = axis_get_ext_offset_curr_pos 0 t,
                  c_y = axis_get_ext_offset_curr_pos 1 t, c_z = axis_get_ext_offset_curr_pos 2 t\<rparr>\<rparr>,
                  ms_external_offsets_applied := of_bool (mh_eoffset_active (g_hal g))\<rparr>;
          st3 = fold (\<lambda>i st. st\<lparr>ms_misc_error := (ms_misc_error st)[i := of_bool (mh_misc_error (g_hal g) ! i)]\<rparr>)
                  [0..<nat num] st2;
          st4 = st3\<lparr>ms_jogging_active := mh_jog_is_active (g_hal g), ms_depth := tpQueueDepth tp,
                  ms_activeDepth := tpActiveDepth tp, ms_id := tpGetExecId tp, ms_reverse_run := tp_reverse_run tp,
                  ms_motionType := tpGetMotionType tp, ms_queueFull := tcqFull (tp_queue tp)\<rparr>;
          g1 = upd_status (\<lambda>_. st4) g
      in if num > int EMCMOT_MAX_MISC_ERROR then None
         else if ms_stepping st4 \<noteq> 0 \<and> mi_idForStep (g_internal g) \<noteq> ms_id st4
         then Some (upd_status (\<lambda>st. st\<lparr>ms_stepping := 0, ms_paused := 1\<rparr>) (upd_tp_struct tpPause g1))
         else Some g1)"

section \<open>The controller\<close>

definition emcmotController ::
  "(int \<Rightarrow> 'tc planner_env \<Rightarrow> 'tc planner_env) \<Rightarrow> int \<Rightarrow> 'tc mot_state \<Rightarrow> 'tc mot_state option" where
  "emcmotController runCycle period g =
     (let sp = d2i (of_int period * 0.000000001);
          g0 = g\<lparr>g_servo_period := (if sp < 1 then 1 else sp)\<rparr>;
          r1 = (if period \<noteq> g_last_period g0
                then map_option (\<lambda>g. g\<lparr>g_last_period := period\<rparr>) (emcmotSetCycleTime period g0) else Some g0)
      in case r1 of
           None \<Rightarrow> None
         | Some g1 \<Rightarrow>
             (let g2 = process_inputs (handle_interpolation (upd_status (\<lambda>st. st\<lparr>ms_head := ms_head st + 1\<rparr>) g1)) in
              map_option (\<lambda>g. upd_status (\<lambda>st. st\<lparr>ms_heartbeat := ms_heartbeat st + 1, ms_tail := ms_head st\<rparr>) g)
               (Option.bind (check_for_faults g2) (\<lambda>g3.
                Option.bind (get_pos_cmds runCycle period (set_operating_mode g3)) (\<lambda>g4.
                update_status (output_to_hal g4))))))"

end
