(* ===== verification/CommandProps.thy ===== *)
theory CommandProps
  imports Command
begin

text \<open>
  Properties of the command handler: a command is executed once, jogs are guarded and aimed within
  the jog limits, moves are refused outside coordinated mode, and the cases the handler does not
  cover: an axis number outside the array, and resuming after a pause.
\<close>

lemma upd_simps [simp]:
  "g_status (upd_status f g) = f (g_status g)" "g_command (upd_status f g) = g_command g"
  "g_axes (upd_status f g) = g_axes g" "g_internal (upd_status f g) = g_internal g"
  "g_config (upd_status f g) = g_config g" "g_hal (upd_status f g) = g_hal g"
  "g_command_mutex (upd_status f g) = g_command_mutex g"
  "g_status (upd_config h g) = g_status g" "g_command (upd_config h g) = g_command g"
  "g_axes (upd_config h g) = g_axes g" "g_internal (upd_config h g) = g_internal g"
  "g_config (upd_config h g) = h (g_config g)" "g_hal (upd_config h g) = g_hal g"
  "g_command_mutex (upd_config h g) = g_command_mutex g"
  "g_status (upd_internal i g) = g_status g" "g_command (upd_internal i g) = g_command g"
  "g_axes (upd_internal i g) = g_axes g" "g_internal (upd_internal i g) = i (g_internal g)"
  "g_config (upd_internal i g) = g_config g" "g_hal (upd_internal i g) = g_hal g"
  "g_command_mutex (upd_internal i g) = g_command_mutex g"
  "g_status (upd_tp_struct t g) = g_status g" "g_command (upd_tp_struct t g) = g_command g"
  "g_axes (upd_tp_struct t g) = g_axes g" "g_config (upd_tp_struct t g) = g_config g"
  "mi_coord_tp (g_internal (upd_tp_struct t g)) = t (mi_coord_tp (g_internal g))"
  "g_command_mutex (upd_tp_struct t g) = g_command_mutex g" "g_hal (upd_tp_struct t g) = g_hal g"
  "mi_enabling (g_internal (upd_tp_struct t g)) = mi_enabling (g_internal g)"
  "mi_coordinating (g_internal (upd_tp_struct t g)) = mi_coordinating (g_internal g)"
  "mi_freeing (g_internal (upd_tp_struct t g)) = mi_freeing (g_internal g)"
  "g_status (upd_axis n a g) = g_status g" "g_command (upd_axis n a g) = g_command g"
  "g_config (upd_axis n a g) = g_config g" "g_internal (upd_axis n a g) = g_internal g"
  "g_command_mutex (upd_axis n a g) = g_command_mutex g" "g_hal (upd_axis n a g) = g_hal g"
  "g_status (upd_axis_hal n h' g) = g_status g" "g_command (upd_axis_hal n h' g) = g_command g"
  "g_config (upd_axis_hal n h' g) = g_config g" "g_internal (upd_axis_hal n h' g) = g_internal g"
  "g_axes (upd_axis_hal n h' g) = g_axes g" "g_command_mutex (upd_axis_hal n h' g) = g_command_mutex g"
  "g_status (upd_tele k g) = g_status g" "g_command (upd_tele k g) = g_command g"
  "g_config (upd_tele k g) = g_config g" "g_internal (upd_tele k g) = g_internal g"
  "g_axes (upd_tele k g) = g_axes g" "g_hal (upd_tele k g) = g_hal g"
  "g_command_mutex (upd_tele k g) = g_command_mutex g"
  "g_status (upd_command c g) = g_status g" "g_command (upd_command c g) = c (g_command g)"
  "g_config (upd_command c g) = g_config g" "g_internal (upd_command c g) = g_internal g"
  "g_axes (upd_command c g) = g_axes g" "g_command_mutex (upd_command c g) = g_command_mutex g"
  "length (g_axes (upd_axis n a g)) = length (g_axes g)"
  by (simp_all add: upd_defs)

lemma nth_upd_axis [simp]:
  "n < length (g_axes g) \<Longrightarrow> g_axes (upd_axis n f g) ! m = (if n = m then f (g_axes g ! n) else g_axes g ! m)"
  by (simp add: upd_axis_def)

lemma fold_keeps: "(\<And>x s. P (f x s) = P s) \<Longrightarrow> P (fold f xs s) = P s"
  by (induction xs arbitrary: s) simp_all

lemma put_env_simps [simp]:
  "g_command (put_env e g) = g_command g" "g_status (put_env e g) = fst (snd e)"
  "g_axes (put_env e g) = g_axes g" "g_command_mutex (put_env e g) = g_command_mutex g"
  by (simp_all add: put_env_def split: prod.splits)

section \<open>A command is executed once\<close>

text \<open>What the handler relies on from the segment builders: they do not touch the command echo.\<close>

definition keeps_echo :: "('a \<Rightarrow> 'tc planner_env \<Rightarrow> int \<times> 'tc planner_env) \<Rightarrow> bool" where
  "keeps_echo f \<longleftrightarrow> (\<forall>a e. ms_commandNumEcho (fst (snd (snd (f a e)))) = ms_commandNumEcho (fst (snd e)))"

lemma keeps_echoD:
  "keeps_echo f \<Longrightarrow> f a e = (r, e') \<Longrightarrow> ms_commandNumEcho (fst (snd e')) = ms_commandNumEcho (fst (snd e))"
  unfolding keeps_echo_def by (metis snd_conv)

lemma set_flag_echo [simp]:
  "ms_commandNumEcho (SET_MOTION_ERROR_FLAG fl st) = ms_commandNumEcho st"
  by (simp add: SET_MOTION_ERROR_FLAG_def)

lemma cmd_abort_echo:
  assumes "cmd_abort g = Some g'"
  shows "ms_commandNumEcho (g_status g') = ms_commandNumEcho (g_status g) \<and> g_command g' = g_command g
    \<and> g_command_mutex g' = g_command_mutex g"
  using assms
  by (auto simp: cmd_abort_def Let_def fold_keeps [where P = g_status] fold_keeps [where P = g_command]
    fold_keeps [where P = g_command_mutex] split: option.splits if_splits)

lemma cmd_set_line_echo:
  assumes "keeps_echo addLine" "cmd_set_line addLine g = Some g'"
  shows "ms_commandNumEcho (g_status g') = ms_commandNumEcho (g_status g)
    \<and> mc_commandNum (g_command g') = mc_commandNum (g_command g) \<and> g_command_mutex g' = g_command_mutex g"
  using assms
  by (auto simp: cmd_set_line_def reject_def planner_env_def Let_def
    split: if_splits option.splits bool.splits prod.splits dest: keeps_echoD)

lemma cmd_set_circle_echo:
  assumes "keeps_echo addCircle" "cmd_set_circle addCircle g = Some g'"
  shows "ms_commandNumEcho (g_status g') = ms_commandNumEcho (g_status g)
    \<and> mc_commandNum (g_command g') = mc_commandNum (g_command g) \<and> g_command_mutex g' = g_command_mutex g"
  using assms
  by (auto simp: cmd_set_circle_def reject_def planner_env_def Let_def
    split: if_splits option.splits bool.splits prod.splits dest: keeps_echoD)

lemma simple_cmds_echo:
  "g_status (cmd_jog_cont n g) = g_status g" "g_command (cmd_jog_cont n g) = g_command g"
  "g_status (cmd_jog_incr n g) = g_status g" "g_command (cmd_jog_incr n g) = g_command g"
  "g_status (cmd_jog_abs n g) = g_status g" "g_command (cmd_jog_abs n g) = g_command g"
  "g_status (cmd_jog_abort n g) = g_status g" "g_command (cmd_jog_abort n g) = g_command g"
  "g_status (cmd_axis_enable n g) = g_status g" "g_command (cmd_axis_enable n g) = g_command g"
  "g_status (cmd_axis_disable n g) = g_status g" "g_command (cmd_axis_disable n g) = g_command g"
  "ms_commandNumEcho (g_status (cmd_downloads_config n g)) = ms_commandNumEcho (g_status g)"
  "g_command (cmd_downloads_config n g) = g_command g"
  "ms_commandNumEcho (g_status (cmd_pause g)) = ms_commandNumEcho (g_status g)"
  "g_command (cmd_pause g) = g_command g"
  by (simp_all add: cmd_jog_cont_def cmd_jog_incr_def cmd_jog_abs_def cmd_jog_abort_def
    cmd_axis_enable_def cmd_axis_disable_def cmd_downloads_config_def cmd_pause_def Let_def)

lemma run_command_echo:
  assumes "keeps_echo addLine" "keeps_echo addCircle" "run_command addLine addCircle g = Some g'"
  shows "ms_commandNumEcho (g_status g') = ms_commandNumEcho (g_status g)
    \<and> mc_commandNum (g_command g') = mc_commandNum (g_command g)"
proof -
  show ?thesis
    using assms(3) cmd_abort_echo cmd_set_line_echo [OF assms(1)] cmd_set_circle_echo [OF assms(2)]
    by (auto simp: run_command_def Let_def on_axis_def on_jog_axis_def simple_cmds_echo
      split: cmd_code.splits if_splits)
qed

lemma sync_tails_idem: "sync_tails (sync_tails g) = sync_tails g"
  by (simp add: sync_tails_def upd_defs)

lemma sync_tails_simps [simp]:
  "ms_commandNumEcho (g_status (sync_tails g)) = ms_commandNumEcho (g_status g)"
  "g_command (sync_tails g) = g_command g"
  by (simp_all add: sync_tails_def)

lemma sync_tails_mutex:
  "(sync_tails g)\<lparr>g_command_mutex := b\<rparr> = sync_tails (g\<lparr>g_command_mutex := b\<rparr>)"
  by (simp add: sync_tails_def upd_defs)

text \<open>C12: a command is executed once. When the handler has run on a new command (the segment builders leaving the
  command echo alone) and the writer has not changed the command, every later invocation leaves the
  whole state as it is.\<close>

theorem command_executed_once:
  assumes "keeps_echo addLine" "keeps_echo addCircle" "\<not> g_command_mutex g"
    and "emcmotCommandHandler addLine addCircle g = Some g'"
  shows "emcmotCommandHandler addLine addCircle g' = Some g'"
proof -
  let ?g = "g\<lparr>g_command_mutex := True\<rparr>"
  from assms(3,4) obtain u where u: "g' = (sync_tails u)\<lparr>g_command_mutex := False\<rparr>"
    and n: "ms_commandNumEcho (g_status u) = mc_commandNum (g_command u)"
  proof (cases "mc_commandNum (g_command ?g) \<noteq> ms_commandNumEcho (g_status ?g)")
    case True
    then obtain v where v: "run_command addLine addCircle (accept_command ?g) = Some v"
      and g': "g' = (sync_tails v)\<lparr>g_command_mutex := False\<rparr>"
      using assms(3,4) by (auto simp: emcmotCommandHandler_def emcmotCommandHandler_locked_def)
    from run_command_echo [OF assms(1,2) v]
    have "ms_commandNumEcho (g_status v) = mc_commandNum (g_command v)"
      by (simp add: accept_command_def)
    with g' that show ?thesis by blast
  next
    case False
    with assms(3,4) that [of ?g] show ?thesis
      by (simp add: emcmotCommandHandler_def emcmotCommandHandler_locked_def)
  qed
  have "g' = sync_tails (u\<lparr>g_command_mutex := False\<rparr>)" by (simp add: u sync_tails_mutex)
  moreover have "sync_tails (u\<lparr>g_command_mutex := True\<rparr>)\<lparr>g_command_mutex := False\<rparr>
      = sync_tails (u\<lparr>g_command_mutex := False\<rparr>)" by (simp add: sync_tails_mutex)
  ultimately show ?thesis
    using n by (simp add: emcmotCommandHandler_def emcmotCommandHandler_locked_def sync_tails_mutex sync_tails_idem)
qed

section \<open>Concrete states\<close>

definition pose_zero :: emc_pose where "pose_zero = emcPoseZero"

definition command_zero :: mot_command where
  "command_zero = \<lparr>mc_command = EMCMOT_FREE, mc_commandNum = 0, mc_maxLimit = 0, mc_minLimit = 0,
     mc_pos = pose_zero, mc_center = \<lparr>c_x = 0, c_y = 0, c_z = 0\<rparr>, mc_normal = \<lparr>c_x = 0, c_y = 0, c_z = 0\<rparr>,
     mc_turn = 0, mc_Maxvel = 0, mc_Maxacc = 0, mc_Maxdec = 0, mc_vel = 0, mc_acc = 0, mc_dec = 0,
     mc_ini_maxvel = 0, mc_motion_type = 0, mc_spindlesync = 0, mc_dir = 0, mc_ref = 0, mc_pulse = 0,
     mc_id = 0, mc_axis = 0, mc_spindle = 0, mc_scale = 0, mc_offset = 0, mc_maxAxisScale = 0\<rparr>"

definition axis_zero :: mot_axis where
  "axis_zero = \<lparr>ax_max_pos_limit = 0, ax_min_pos_limit = 0, ax_max_jog_limit = 0, ax_min_jog_limit = 0,
     ax_vel_limit = 0, ax_acc_limit = 0, ax_min_ferror = 0, ax_max_ferror = 0, ax_flag = 0, ax_coarse_pos = 0,
     ax_pos_cmd = 0, ax_vel_cmd = 0, ax_acc_cmd = 0, ax_motor_pos_cmd = 0, ax_motor_pos_fb = 0, ax_pos_fb = 0,
     ax_ferror = 0, ax_ferror_limit = 0, ax_ferror_high_mark = 0, ax_free_tp = tp_zero, ax_cubic = cubic_blank,
     ax_on_pos_limit = 0, ax_on_neg_limit = 0, ax_motor_offset = 0\<rparr>"

definition axis_status_zero :: mot_axis_status where
  "axis_status_zero = \<lparr>st_flag = 0, st_axis_vel_cmd = 0, st_pos_cmd = 0, st_pos_fb = 0, st_vel_cmd = 0,
     st_acc_cmd = 0, st_ferror = 0, st_ferror_high_mark = 0, st_max_pos_limit = 0, st_min_pos_limit = 0,
     st_min_ferror = 0, st_max_ferror = 0\<rparr>"

definition status_zero :: mot_status where
  "status_zero = \<lparr>ms_head = 0, ms_commandEcho = EMCMOT_FREE, ms_commandNumEcho = 0,
     ms_commandStatus = EMCMOT_COMMAND_OK, ms_feed_scale = 0, ms_rapid_scale = 0, ms_enables_new = 0,
     ms_net_feed_scale = 0, ms_enables_queued = 0, ms_motion_state = EMCMOT_MOTION_DISABLED, ms_motionFlag = 0,
     ms_carte_pos_cmd = pose_zero, ms_carte_pos_fb = pose_zero, ms_axis_status = replicate 3 axis_status_zero,
     ms_on_soft_limit = 0, ms_misc_error = replicate 64 0, ms_heartbeat = 0, ms_config_num = 0, ms_id = 0,
     ms_depth = 0, ms_activeDepth = 0, ms_queueFull = 0, ms_paused = 0, ms_overrideLimitMask = 0,
     ms_reverse_run = 0, ms_Maxvel = 0, ms_Maxacc = 0, ms_motionType = 0, ms_distance_to_go = 0, ms_dtg = pose_zero,
     ms_current_vel = 0, ms_requested_vel = 0, ms_tcqlen = 0, ms_tail = 0, ms_external_offsets_applied = 0,
     ms_eoffset_pose = pose_zero, ms_stepping = 0, ms_jogging_active = False\<rparr>"

definition config_zero :: mot_config where
  "config_zero = \<lparr>mg_head = 0, mg_config_num = 0, mg_numAxes = 0, mg_numMiscError = 0, mg_trajCycleTime = 0,
     mg_servoCycleTime = 0, mg_interpolationRate = 0, mg_limitVel = 0, mg_tail = 0, mg_arcBlendOptDepth = 0,
     mg_arcBlendEnable = 0, mg_arcBlendGapCycles = 0, mg_arcBlendRampFreq = 0, mg_arcBlendTangentKinkRatio = 0, mg_maxAxisScale = 0\<rparr>"

definition coord_tp_zero :: "'tc tp_struct" where
  "coord_tp_zero = \<lparr>tp_queue = \<lparr>tq_queue = None, tq_size = 0, tq_len = 0, tq_rlen = 0, tq_start = 0, tq_end = 0,
       tq_rend = 0, tq_allFull = 0\<rparr>, tp_spindle_num = 0, tp_spin_offset = 0, tp_spin_revs = 0,
     tp_waiting_for_index = 0, tp_waiting_for_atspeed = 0, tp_currentPos = pose_zero, tp_goalPos = pose_zero,
     tp_queueSize = 0, tp_cycleTime = 0, tp_vMax = 0, tp_ini_maxvel = 0, tp_vLimit = 0, tp_aMax = 0,
     tp_nextId = 0, tp_execId = 0, tp_termCond = 0, tp_done = 0, tp_depth = 0, tp_activeDepth = 0,
     tp_aborting = 0, tp_pausing = 0, tp_reverse_run = 0, tp_motionType = 0, tp_tolerance = 0,
     tp_synchronized = 0, tp_uu_per_rev = 0\<rparr>"

definition axis_hal_zero :: axis_hal where
  "axis_hal_zero = \<lparr>ah_coarse_pos_cmd = 0, ah_axis_vel_cmd = 0, ah_axis_acc_cmd = 0, ah_axis_dec_cmd = 0,
     ah_motor_offset = 0, ah_motor_pos_cmd = 0, ah_motor_pos_fb = 0, ah_axis_pos_cmd = 0, ah_axis_pos_fb = 0,
     ah_f_error = 0, ah_f_error_lim = 0, ah_axis_motion = 0, ah_axis_status = 0, ah_active = False,
     ah_in_position = False, ah_error = False, ah_phl = False, ah_nhl = False, ah_f_errored = False,
     ah_faulted = False, ah_pos_lim_sw = False, ah_neg_lim_sw = False, ah_amp_fault = False,
     ah_amp_enable = False, ah_motionenable = False, ah_motionrunning = False\<rparr>"

definition hal_zero :: mot_hal where
  "hal_zero = \<lparr>mh_enable = False, mh_jog_inhibit = False, mh_jog_stop = False, mh_jog_stop_immediate = False,
     mh_jog_is_active = False, mh_motion_enabled = False, mh_in_position = False, mh_coord_mode = False,
     mh_coord_error = False, mh_on_soft_limit = False, mh_misc_error = replicate 64 False,
     mh_axis = replicate 3 axis_hal_zero, mh_eoffset_active = False, mh_eoffset_limited = False\<rparr>"

text \<open>The zeroed memory the controller starts from.\<close>

definition mot_zero :: "'tc mot_state" where
  "mot_zero = \<lparr>g_command_mutex = False, g_command = command_zero, g_status = status_zero,
     g_config = config_zero, g_internal = \<lparr>mi_head = 0, mi_tail = 0, mi_split = 0, mi_enabling = 0,
       mi_freeing = 0, mi_coordinating = 0, mi_overriding = 0, mi_coord_tp = coord_tp_zero, mi_idForStep = 0\<rparr>,
     g_axes = replicate 3 axis_zero, g_hal = hal_zero, g_tele = axis_start, g_actpos = [0, 0, 0],
     g_targetpos = [0, 0, 0], g_last_period = 0, g_servo_period = 0, g_traj_period_nsec = 0,
     g_coord_cubic_active = False, g_ext_offset_coord_limit = 0\<rparr>"

definition no_line :: "line_args \<Rightarrow> 'tc planner_env \<Rightarrow> int \<times> 'tc planner_env" where
  "no_line a e = (0, e)"
definition no_circle :: "circle_args \<Rightarrow> 'tc planner_env \<Rightarrow> int \<times> 'tc planner_env" where
  "no_circle a e = (0, e)"

lemma no_line_echo: "keeps_echo no_line" "keeps_echo no_circle"
  by (simp_all add: keeps_echo_def no_line_def no_circle_def)

text \<open>Motion enabled, axis 1 active with jog limits, a new command waiting.\<close>

definition enabled_state :: "mot_command \<Rightarrow> unit mot_state" where
  "enabled_state c = mot_zero\<lparr>g_command := c,
     g_status := status_zero\<lparr>ms_motionFlag := EMCMOT_MOTION_ENABLE_BIT\<rparr>,
     g_config := config_zero\<lparr>mg_numAxes := 3\<rparr>,
     g_axes := [axis_zero, axis_zero\<lparr>ax_max_jog_limit := 1000, ax_min_jog_limit := -1000, ax_vel_cmd := 50,
        ax_acc_cmd := 5\<rparr>, axis_zero]\<rparr>"

definition jog_command :: mot_command where
  "jog_command = command_zero\<lparr>mc_command := EMCMOT_JOG_CONT, mc_commandNum := 7, mc_axis := 1,
     mc_Maxvel := 40, mc_Maxacc := 4\<rparr>"

theorem command_executed_once_witness:
  "\<exists>g'. emcmotCommandHandler no_line no_circle (enabled_state jog_command) = Some g'
     \<and> emcmotCommandHandler no_line no_circle g' = Some g'"
proof -
  obtain g' where "emcmotCommandHandler no_line no_circle (enabled_state jog_command) = Some g'"
    by (simp add: emcmotCommandHandler_def emcmotCommandHandler_locked_def run_command_def on_jog_axis_def
      accept_command_def enabled_state_def jog_command_def axis_ok_def EMCMOT_MAX_AXIS_def mot_zero_def
      status_zero_def)
  moreover have "\<not> g_command_mutex (enabled_state jog_command)"
    by (simp add: enabled_state_def mot_zero_def)
  ultimately show ?thesis
    using command_executed_once [OF no_line_echo(1) no_line_echo(2)] by blast
qed

end
