(* ===== verification/ControlProps.thy ===== *)
theory ControlProps
  imports Control CommandProps
begin

text \<open>
  Properties of the controller: a fault ends in a disabled machine within the cycle, the cycle returns,
  the modes that can be reached, the following-error limit, and what the fault check misses.
\<close>

section \<open>Frame lemmas\<close>

declare max_axis_upt [simp del]

definition mot_wf :: "'tc mot_state \<Rightarrow> bool" where
  "mot_wf g \<longleftrightarrow> length (g_axes g) = EMCMOT_MAX_AXIS \<and> length (mh_axis (g_hal g)) = EMCMOT_MAX_AXIS
     \<and> mg_numAxes (g_config g) \<le> int EMCMOT_MAX_AXIS \<and> mg_numMiscError (g_config g) \<le> int EMCMOT_MAX_MISC_ERROR"

lemma tele_simps [simp]:
  "g_tele (upd_status f g) = g_tele g" "g_tele (upd_internal i g) = g_tele g" "g_tele (upd_config c g) = g_tele g"
  "g_tele (upd_axis n a g) = g_tele g" "g_tele (upd_tp_struct t g) = g_tele g"
  "g_tele (upd_axis_hal n h g) = g_tele g" "g_tele (upd_tele k g) = k (g_tele g)"
  by (simp_all add: upd_defs)

lemma fold_axes:
  assumes "\<And>n. n \<in> set ns \<Longrightarrow> n < length (g_axes g)" "distinct ns"
  shows "fold (\<lambda>n. upd_axis n (f n)) ns g =
    g\<lparr>g_axes := map (\<lambda>m. if m \<in> set ns then f m (g_axes g ! m) else g_axes g ! m) [0..<length (g_axes g)]\<rparr>"
  using assms
proof (induction ns arbitrary: g)
  case Nil
  then show ?case by (simp add: map_nth)
next
  case (Cons n ns)
  let ?g = "upd_axis n (f n) g"
  have "fold (\<lambda>n. upd_axis n (f n)) (n # ns) g = fold (\<lambda>n. upd_axis n (f n)) ns ?g" by simp
  also have "\<dots> = ?g\<lparr>g_axes := map (\<lambda>m. if m \<in> set ns then f m (g_axes ?g ! m) else g_axes ?g ! m)
      [0..<length (g_axes ?g)]\<rparr>"
    using Cons.prems by (intro Cons.IH) auto
  also have "\<dots> = g\<lparr>g_axes := map (\<lambda>m. if m \<in> set (n # ns) then f m (g_axes g ! m) else g_axes g ! m)
      [0..<length (g_axes g)]\<rparr>"
  proof -
    have "g_axes ?g ! m = (if n = m then f n (g_axes g ! n) else g_axes g ! m)" for m
      using Cons.prems(1) by (simp add: upd_axis_def)
    moreover have "n \<notin> set ns" using Cons.prems(2) by simp
    ultimately show ?thesis
      by (auto simp: upd_axis_def intro!: nth_equalityI arg_cong [where f = "\<lambda>a. g\<lparr>g_axes := a\<rparr>"])
  qed
  finally show ?case .
qed

lemma fold_all_axes:
  assumes "length (g_axes g) = EMCMOT_MAX_AXIS"
  shows "fold (\<lambda>n. upd_axis n (f n)) all_axis_nums g =
    g\<lparr>g_axes := map (\<lambda>m. f m (g_axes g ! m)) all_axis_nums\<rparr>"
  using assms by (subst fold_axes) auto

lemma nth_all_axis_nums [simp]: "n < EMCMOT_MAX_AXIS \<Longrightarrow> map f all_axis_nums ! n = f n"
  by simp

lemma process_inputs_axes:
  fixes g :: "'tc mot_state"
  assumes "length (g_axes g) = EMCMOT_MAX_AXIS"
  shows "fold (\<lambda>n s. upd_axis n (input_axis (mh_axis (g_hal s) ! n)) s) all_axis_nums g =
    g\<lparr>g_axes := map (\<lambda>n. input_axis (mh_axis (g_hal g) ! n) (g_axes g ! n)) all_axis_nums\<rparr>"
proof -
  have "fold (\<lambda>n s. upd_axis n (input_axis (mh_axis (g_hal s) ! n)) s) ns s
      = fold (\<lambda>n. upd_axis n (input_axis (mh_axis (g_hal g) ! n))) ns s" if "g_hal s = g_hal g"
    for ns and s :: "'tc mot_state"
    using that by (induction ns arbitrary: s) simp_all
  then show ?thesis using fold_all_axes [OF assms] by simp
qed

text \<open>What of an axis the phases after the inputs leave alone.\<close>

definition axis_core :: "mot_axis \<Rightarrow> bool \<times> int \<times> int \<times> int" where
  "axis_core a = (GET_AXIS_ACTIVE_FLAG a, ax_pos_fb a, ax_motor_offset a, ax_motor_pos_fb a)"

definition cores :: "'tc mot_state \<Rightarrow> (bool \<times> int \<times> int \<times> int) list" where
  "cores g = map axis_core (g_axes g)"

lemma cores_upd_axis:
  assumes "\<And>a. axis_core (f a) = axis_core a"
  shows "cores (upd_axis n f g) = cores g"
  by (cases "n < length (g_axes g)")
    (simp_all add: cores_def upd_axis_def map_update assms list_update_same_conv list_update_beyond)

lemma cores_simps [simp]:
  "cores (upd_status f g) = cores g" "cores (upd_tp_struct h g) = cores g" "cores (upd_tele k g) = cores g"
  "cores (upd_internal i g) = cores g" "cores (upd_config c g) = cores g" "cores (upd_hal hh g) = cores g"
  by (simp_all add: cores_def upd_defs)

lemma cores_fold_upd_axis:
  "(\<And>n a. axis_core (f n a) = axis_core a) \<Longrightarrow> cores (fold (\<lambda>n. upd_axis n (f n)) ns g) = cores g"
  by (induction ns arbitrary: g) (simp_all add: cores_upd_axis)

lemma cores_length: "cores g' = cores g \<Longrightarrow> length (g_axes g') = length (g_axes g)"
  unfolding cores_def by (metis length_map)

lemma cores_nth:
  assumes "cores g' = cores g" "n < length (g_axes g)"
  shows "GET_AXIS_ACTIVE_FLAG (g_axes g' ! n) = GET_AXIS_ACTIVE_FLAG (g_axes g ! n)"
    "ax_pos_fb (g_axes g' ! n) = ax_pos_fb (g_axes g ! n)"
    "ax_motor_offset (g_axes g' ! n) = ax_motor_offset (g_axes g ! n)"
proof -
  have "axis_core (g_axes g' ! n) = axis_core (g_axes g ! n)"
    using assms cores_length [OF assms(1)] unfolding cores_def by (metis nth_map)
  then show "GET_AXIS_ACTIVE_FLAG (g_axes g' ! n) = GET_AXIS_ACTIVE_FLAG (g_axes g ! n)"
    "ax_pos_fb (g_axes g' ! n) = ax_pos_fb (g_axes g ! n)"
    "ax_motor_offset (g_axes g' ! n) = ax_motor_offset (g_axes g ! n)"
    by (simp_all add: axis_core_def)
qed

text \<open>The flag setters of the controller leave the core alone.\<close>

lemma core_flags [simp]:
  "axis_core (SET_AXIS_ERROR_FLAG fl a) = axis_core a" "axis_core (SET_AXIS_INPOS_FLAG fl a) = axis_core a"
  "axis_core (SET_AXIS_ENABLE_FLAG fl a) = axis_core a" "axis_core (SET_AXIS_FAULT_FLAG fl a) = axis_core a"
  by (simp_all add: axis_core_def SET_AXIS_ERROR_FLAG_def SET_AXIS_INPOS_FLAG_def SET_AXIS_ENABLE_FLAG_def
    SET_AXIS_FAULT_FLAG_def GET_AXIS_ACTIVE_FLAG_def flag_get_put_other axis_bits)

lemma core_fields [simp]:
  "axis_core (a\<lparr>ax_free_tp := t\<rparr>) = axis_core a" "axis_core (a\<lparr>ax_cubic := c\<rparr>) = axis_core a"
  "axis_core (a\<lparr>ax_pos_cmd := p\<rparr>) = axis_core a" "axis_core (a\<lparr>ax_vel_cmd := p\<rparr>) = axis_core a"
  "axis_core (a\<lparr>ax_acc_cmd := p\<rparr>) = axis_core a"
  by (simp_all add: axis_core_def GET_AXIS_ACTIVE_FLAG_def)

lemma cores_phases:
  "cores (mode_disable g) = cores g" "cores (mode_enable g) = cores g"
  "cores (mode_coord g) = cores g" "cores (mode_free g) = cores g" "cores (pos_cmds_disabled g) = cores g"
  by (simp_all add: mode_disable_def mode_enable_def mode_coord_def mode_free_def pos_cmds_disabled_def Let_def
    cores_fold_upd_axis disable_axis_def enable_axis_def split: prod.split)

lemma cores_set_operating_mode: "cores (set_operating_mode g) = cores g"
  by (simp add: set_operating_mode_def cores_phases)

section \<open>The fault check\<close>

lemma check_axis_faults_frame [simp]:
  "g_status (check_axis_faults n g) = g_status g" "g_config (check_axis_faults n g) = g_config g"
  "g_hal (check_axis_faults n g) = g_hal g" "g_tele (check_axis_faults n g) = g_tele g"
  "length (g_axes (check_axis_faults n g)) = length (g_axes g)"
  "cores (check_axis_faults n g) = cores g"
  by (simp_all add: check_axis_faults_def set_enabling_def cores_upd_axis Let_def)

lemma error_flag_other [simp]:
  "GET_AXIS_ACTIVE_FLAG (SET_AXIS_ERROR_FLAG fl a) = GET_AXIS_ACTIVE_FLAG a"
  "GET_AXIS_ENABLE_FLAG (SET_AXIS_ERROR_FLAG fl a) = GET_AXIS_ENABLE_FLAG a"
  by (simp_all add: SET_AXIS_ERROR_FLAG_def GET_AXIS_ACTIVE_FLAG_def GET_AXIS_ENABLE_FLAG_def
    flag_get_put_other axis_bits)

text \<open>Checking one axis keeps what the check of another one reads.\<close>

definition trips :: "nat \<Rightarrow> 'tc mot_state \<Rightarrow> bool" where
  "trips n g \<longleftrightarrow> GET_AXIS_ACTIVE_FLAG (g_axes g ! n) \<and> GET_AXIS_ENABLE_FLAG (g_axes g ! n) \<and> axis_tripped n g"

lemma trips_check: "trips n g \<Longrightarrow> m < length (g_axes g) \<Longrightarrow> trips n (check_axis_faults m g)"
  by (auto simp: trips_def check_axis_faults_def axis_tripped_def set_enabling_def Let_def)

lemma check_enabling: "mi_enabling (g_internal (check_axis_faults n g)) = (if trips n g then 0 else mi_enabling (g_internal g))"
  by (simp add: check_axis_faults_def trips_def set_enabling_def Let_def upd_defs)

lemma fold_check_frame [simp]:
  "g_status (fold check_axis_faults ns g) = g_status g" "g_config (fold check_axis_faults ns g) = g_config g"
  "g_hal (fold check_axis_faults ns g) = g_hal g" "cores (fold check_axis_faults ns g) = cores g"
  "length (g_axes (fold check_axis_faults ns g)) = length (g_axes g)"
  by (induction ns arbitrary: g) simp_all

lemma fold_check_zero:
  assumes "mi_enabling (g_internal g) = 0 \<or> (\<exists>n \<in> set ns. trips n g)" "\<And>n. n \<in> set ns \<Longrightarrow> n < length (g_axes g)"
  shows "mi_enabling (g_internal (fold check_axis_faults ns g)) = 0"
  using assms
proof (induction ns arbitrary: g)
  case (Cons m ns)
  then have "mi_enabling (g_internal (check_axis_faults m g)) = 0 \<or> (\<exists>n \<in> set ns. trips n (check_axis_faults m g))"
    using trips_check [of _ g m] by (auto simp: check_enabling)
  with Cons show ?case by simp
qed simp

lemma check_for_faults_frame:
  assumes "check_for_faults g = Some g'"
  shows "g_status g' = g_status g" "g_config g' = g_config g" "g_hal g' = g_hal g" "cores g' = cores g"
  using assms by (auto simp: check_for_faults_def set_enabling_def Let_def split: if_splits)

lemma check_for_faults_total:
  "mot_wf g \<Longrightarrow> \<exists>g'. check_for_faults g = Some g'"
  by (auto simp: check_for_faults_def mot_wf_def set_enabling_def Let_def)

lemma check_for_faults_zero:
  assumes "check_for_faults g = Some g'" "length (g_axes g) = EMCMOT_MAX_AXIS"
    and "(\<exists>n < EMCMOT_MAX_AXIS. trips n g) \<or> GET_MOTION_ENABLE_FLAG (g_status g) \<and> \<not> mh_enable (g_hal g)"
  shows "mi_enabling (g_internal g') = 0"
proof -
  let ?g = "if GET_MOTION_ENABLE_FLAG (g_status g) \<and> \<not> mh_enable (g_hal g) then set_enabling 0 g else g"
  have "trips n ?g = trips n g" for n
    by (simp add: trips_def axis_tripped_def set_enabling_def)
  then have "mi_enabling (g_internal ?g) = 0 \<or> (\<exists>n \<in> set all_axis_nums. trips n ?g)"
    using assms(3) by (auto simp: set_enabling_def)
  then have "mi_enabling (g_internal (fold check_axis_faults all_axis_nums ?g)) = 0"
    by (rule fold_check_zero) (use assms(2) in \<open>auto simp: set_enabling_def\<close>)
  then show ?thesis
    using assms(1) by (auto simp: check_for_faults_def set_enabling_def Let_def split: if_splits)
qed

section \<open>The operating mode\<close>

lemma fold_upd_axis_simps [simp]:
  "g_status (fold (\<lambda>n. upd_axis n (f n)) ns g) = g_status g"
  "g_internal (fold (\<lambda>n. upd_axis n (f n)) ns g) = g_internal g"
  "g_config (fold (\<lambda>n. upd_axis n (f n)) ns g) = g_config g"
  "g_hal (fold (\<lambda>n. upd_axis n (f n)) ns g) = g_hal g"
  "g_tele (fold (\<lambda>n. upd_axis n (f n)) ns g) = g_tele g"
  "length (g_axes (fold (\<lambda>n. upd_axis n (f n)) ns g)) = length (g_axes g)"
  by (induction ns arbitrary: g) (simp_all add: upd_axis_def)

lemma upd_hal_simps [simp]:
  "g_status (upd_hal f g) = g_status g" "g_axes (upd_hal f g) = g_axes g" "g_config (upd_hal f g) = g_config g"
  "g_internal (upd_hal f g) = g_internal g" "g_hal (upd_hal f g) = f (g_hal g)" "g_tele (upd_hal f g) = g_tele g"
  by (simp_all add: upd_hal_def)

lemma tpClear_flag: "tpClear tp st = (tp', st') \<Longrightarrow> ms_motionFlag st' = ms_motionFlag st"
  by (auto simp: tpClear_def)

lemma flags_of_motionFlag:
  "ms_motionFlag st' = ms_motionFlag st \<Longrightarrow> GET_MOTION_ENABLE_FLAG st' = GET_MOTION_ENABLE_FLAG st"
  "ms_motionFlag st' = ms_motionFlag st \<Longrightarrow> GET_MOTION_COORD_FLAG st' = GET_MOTION_COORD_FLAG st"
  "ms_motionFlag st' = ms_motionFlag st \<Longrightarrow> GET_MOTION_INPOS_FLAG st' = GET_MOTION_INPOS_FLAG st"
  by (simp_all add: GET_MOTION_ENABLE_FLAG_def GET_MOTION_COORD_FLAG_def GET_MOTION_INPOS_FLAG_def)

lemma set_pcmd_flags [simp]:
  "GET_MOTION_ENABLE_FLAG (set_pcmd p st) = GET_MOTION_ENABLE_FLAG st"
  "GET_MOTION_COORD_FLAG (set_pcmd p st) = GET_MOTION_COORD_FLAG st"
  by (simp_all add: set_pcmd_def GET_MOTION_ENABLE_FLAG_def GET_MOTION_COORD_FLAG_def)

lemma set_operating_mode_disabled:
  assumes "mi_enabling (g_internal g) = 0"
  shows "ms_motion_state (g_status (set_operating_mode g)) = EMCMOT_MOTION_DISABLED
    \<and> \<not> GET_MOTION_ENABLE_FLAG (g_status (set_operating_mode g))"
proof -
  define g1 where "g1 = mode_disable g"
  have 1: "\<not> GET_MOTION_ENABLE_FLAG (g_status g1) \<and> mi_enabling (g_internal g1) = 0"
    using assms by (auto simp: g1_def mode_disable_def Let_def split: prod.split)
  then have 2: "mode_enable g1 = g1" by (simp add: mode_enable_def)
  define g3 where "g3 = mode_coord g1"
  have 3: "\<not> GET_MOTION_ENABLE_FLAG (g_status g3)"
    using 1 by (simp add: g3_def mode_coord_def Let_def GET_MOTION_ENABLE_FLAG_def [of "ms_overrideLimitMask_update _ _"]
      GET_MOTION_ENABLE_FLAG_def [symmetric])
  have 4: "\<not> GET_MOTION_ENABLE_FLAG (g_status (mode_free g3))"
    using 3 by (simp add: mode_free_def)
  have "set_operating_mode g = upd_status (\<lambda>st. st\<lparr>ms_motion_state := mode_of st\<rparr>) (mode_free g3)"
    using 2 by (simp add: set_operating_mode_def g1_def [symmetric] g3_def)
  then show ?thesis using 4 by (simp add: mode_of_def GET_MOTION_ENABLE_FLAG_def)
qed

text \<open>An axis that is active is not enabled, and its single-axis planner is off.\<close>

definition axis_off :: "mot_axis \<Rightarrow> bool" where
  "axis_off a \<longleftrightarrow> (GET_AXIS_ACTIVE_FLAG a \<longrightarrow> \<not> GET_AXIS_ENABLE_FLAG a) \<and> tp_enable (ax_free_tp a) = 0"

definition all_off :: "'tc mot_state \<Rightarrow> bool" where
  "all_off g \<longleftrightarrow> list_all axis_off (g_axes g)"

lemma all_off_simps [simp]:
  "all_off (upd_status f g) = all_off g" "all_off (upd_tp_struct h g) = all_off g" "all_off (upd_tele k g) = all_off g"
  "all_off (upd_internal i g) = all_off g" "all_off (upd_hal hh g) = all_off g"
  by (simp_all add: all_off_def)

lemma all_off_upd_axis:
  assumes "\<And>a. axis_off a \<Longrightarrow> axis_off (f a)" "all_off g"
  shows "all_off (upd_axis n f g)"
proof (cases "n < length (g_axes g)")
  case True
  then show ?thesis using assms by (auto simp: all_off_def upd_axis_def list_all_length nth_list_update)
qed (use assms in \<open>simp add: all_off_def upd_axis_def list_update_beyond\<close>)

lemma all_off_fold:
  "(\<And>n a. axis_off a \<Longrightarrow> axis_off (f n a)) \<Longrightarrow> all_off g \<Longrightarrow> all_off (fold (\<lambda>n. upd_axis n (f n)) ns g)"
  by (induction ns arbitrary: g) (simp_all add: all_off_upd_axis)

lemma axis_off_fields:
  "axis_off a \<Longrightarrow> axis_off (a\<lparr>ax_cubic := c\<rparr>)"
  "axis_off a \<Longrightarrow> axis_off (a\<lparr>ax_free_tp := (ax_free_tp a)\<lparr>tp_curr_pos := p, tp_enable := 0\<rparr>\<rparr>)"
  "axis_off a \<Longrightarrow> axis_off (a\<lparr>ax_pos_cmd := p, ax_vel_cmd := v, ax_acc_cmd := q\<rparr>)"
  by (simp_all add: axis_off_def GET_AXIS_ACTIVE_FLAG_def GET_AXIS_ENABLE_FLAG_def)

lemma disable_axis_off: "axis_off (disable_axis a)"
  by (simp add: axis_off_def disable_axis_def Let_def SET_AXIS_ENABLE_FLAG_def SET_AXIS_INPOS_FLAG_def
    GET_AXIS_ENABLE_FLAG_def axis_bits)

lemma set_operating_mode_off:
  assumes "mi_enabling (g_internal g) = 0" "GET_MOTION_ENABLE_FLAG (g_status g)" "length (g_axes g) = EMCMOT_MAX_AXIS"
  shows "all_off (set_operating_mode g)"
proof -
  have "g_axes (mode_disable g) = map (\<lambda>n. disable_axis (g_axes g ! n)) all_axis_nums"
    using assms by (auto simp: mode_disable_def fold_all_axes Let_def split: prod.split)
  then have "all_off (mode_disable g)" by (auto simp: all_off_def list_all_iff disable_axis_off)
  moreover have "mode_enable (mode_disable g) = mode_disable g"
    using assms by (auto simp: mode_enable_def mode_disable_def Let_def split: prod.split)
  ultimately have "all_off (mode_coord (mode_enable (mode_disable g)))"
    by (simp add: mode_coord_def Let_def all_off_fold axis_off_fields)
  then show ?thesis by (simp add: set_operating_mode_def mode_free_def all_off_fold axis_off_fields)
qed

section \<open>The disabled machine follows its feedback\<close>

lemma pos_cmds_disabled_axes:
  "length (g_axes g) = EMCMOT_MAX_AXIS \<Longrightarrow> n < EMCMOT_MAX_AXIS \<Longrightarrow>
    g_axes (pos_cmds_disabled g) ! n = (g_axes g ! n)\<lparr>ax_pos_cmd := ax_pos_fb (g_axes g ! n), ax_vel_cmd := 0, ax_acc_cmd := 0\<rparr>"
  by (simp add: pos_cmds_disabled_def fold_all_axes)

lemma check_soft_limits_frame:
  assumes "check_soft_limits g = Some g'"
  shows "g_axes g' = g_axes g" "g_hal g' = g_hal g" "g_config g' = g_config g" "g_internal g' = g_internal g"
    "ms_motion_state (g_status g') = ms_motion_state (g_status g)"
    "GET_MOTION_ENABLE_FLAG (g_status g') = GET_MOTION_ENABLE_FLAG (g_status g)"
    "GET_MOTION_COORD_FLAG (g_status g') = GET_MOTION_COORD_FLAG (g_status g)"
  using assms
  by (auto simp: check_soft_limits_def SET_MOTION_ERROR_FLAG_def GET_MOTION_ENABLE_FLAG_def GET_MOTION_COORD_FLAG_def
    flag_get_put_other motion_bits split: option.splits if_splits)

lemma check_soft_limits_total:
  "mg_numAxes (g_config g) \<le> int EMCMOT_MAX_AXIS \<Longrightarrow> \<exists>g'. check_soft_limits g = Some g'"
  by (simp add: check_soft_limits_def all_axes_def)

lemma get_pos_cmds_disabled:
  assumes "ms_motion_state (g_status g) = EMCMOT_MOTION_DISABLED" "mg_numAxes (g_config g) \<le> int EMCMOT_MAX_AXIS"
  shows "\<exists>g'. get_pos_cmds runCycle period g = Some g' \<and> g_axes g' = g_axes (pos_cmds_disabled g)
    \<and> g_hal g' = g_hal g \<and> g_config g' = g_config g \<and> g_internal g' = g_internal g
    \<and> ms_motion_state (g_status g') = EMCMOT_MOTION_DISABLED
    \<and> GET_MOTION_ENABLE_FLAG (g_status g') = GET_MOTION_ENABLE_FLAG (g_status g)"
proof -
  have c: "g_config (pos_cmds_disabled g) = g_config g" "g_hal (pos_cmds_disabled g) = g_hal g"
    "g_internal (pos_cmds_disabled g) = g_internal g"
    "ms_motion_state (g_status (pos_cmds_disabled g)) = ms_motion_state (g_status g)"
    "GET_MOTION_ENABLE_FLAG (g_status (pos_cmds_disabled g)) = GET_MOTION_ENABLE_FLAG (g_status g)"
    by (simp_all add: pos_cmds_disabled_def GET_MOTION_ENABLE_FLAG_def)
  obtain g' where g': "check_soft_limits (pos_cmds_disabled g) = Some g'"
    using check_soft_limits_total [of "pos_cmds_disabled g"] assms c by auto
  have "get_pos_cmds runCycle period g = Some g'" using assms g' by (simp add: get_pos_cmds_def)
  then show ?thesis using check_soft_limits_frame [OF g'] assms(1) c by metis
qed

section \<open>Outputs\<close>

lemma output_axis_frame [simp]:
  "g_status (output_axis n g) = g_status g" "g_internal (output_axis n g) = g_internal g"
  "g_config (output_axis n g) = g_config g" "g_tele (output_axis n g) = g_tele g"
  "length (g_axes (output_axis n g)) = length (g_axes g)"
  "length (mh_axis (g_hal (output_axis n g))) = length (mh_axis (g_hal g))"
  by (simp_all add: output_axis_def Let_def upd_axis_def upd_axis_hal_def)

lemma output_axis_other:
  "m \<noteq> n \<Longrightarrow> g_axes (output_axis n g) ! m = g_axes g ! m"
  "m \<noteq> n \<Longrightarrow> mh_axis (g_hal (output_axis n g)) ! m = mh_axis (g_hal g) ! m"
  by (simp_all add: output_axis_def Let_def upd_axis_def upd_axis_hal_def)

definition with_motor_cmd :: "mot_axis \<Rightarrow> mot_axis" where
  "with_motor_cmd a = a\<lparr>ax_motor_pos_cmd := s32 (ax_pos_cmd a + ax_motor_offset a)\<rparr>"

lemma output_axis_self:
  assumes "n < length (g_axes g)" "n < length (mh_axis (g_hal g))" "GET_AXIS_ACTIVE_FLAG (g_axes g ! n)"
  shows "g_axes (output_axis n g) ! n = with_motor_cmd (g_axes g ! n)"
    "mh_axis (g_hal (output_axis n g)) ! n = output_axis_hal (mi_enabling (g_internal g)) (with_motor_cmd (g_axes g ! n))
       (mh_axis (g_hal g) ! n)"
  using assms by (simp_all add: output_axis_def Let_def upd_axis_def upd_axis_hal_def with_motor_cmd_def)

lemma fold_output_frame [simp]:
  "g_status (fold output_axis ns g) = g_status g" "g_internal (fold output_axis ns g) = g_internal g"
  "g_config (fold output_axis ns g) = g_config g"
  "m \<notin> set ns \<Longrightarrow> g_axes (fold output_axis ns g) ! m = g_axes g ! m"
  "m \<notin> set ns \<Longrightarrow> mh_axis (g_hal (fold output_axis ns g)) ! m = mh_axis (g_hal g) ! m"
  by (induction ns arbitrary: g) (auto simp: output_axis_other)

lemma fold_output_axis:
  assumes "distinct ns" "n \<in> set ns" "n < length (g_axes g)" "n < length (mh_axis (g_hal g))"
    "GET_AXIS_ACTIVE_FLAG (g_axes g ! n)"
  shows "g_axes (fold output_axis ns g) ! n = with_motor_cmd (g_axes g ! n)
    \<and> mh_axis (g_hal (fold output_axis ns g)) ! n =
       output_axis_hal (mi_enabling (g_internal g)) (with_motor_cmd (g_axes g ! n)) (mh_axis (g_hal g) ! n)"
  using assms
proof (induction ns arbitrary: g)
  case (Cons m ns)
  show ?case
  proof (cases "m = n")
    case True
    with Cons.prems have "n \<notin> set ns" by simp
    with True Cons.prems show ?thesis by (simp add: output_axis_self)
  next
    case False
    with Cons.prems Cons.IH [of "output_axis m g"] show ?thesis by (simp add: output_axis_other)
  qed
qed simp

lemma output_to_hal_axis:
  assumes "length (g_axes g) = EMCMOT_MAX_AXIS" "length (mh_axis (g_hal g)) = EMCMOT_MAX_AXIS"
    "n < EMCMOT_MAX_AXIS" "GET_AXIS_ACTIVE_FLAG (g_axes g ! n)"
  shows "g_axes (output_to_hal g) ! n = with_motor_cmd (g_axes g ! n)"
    "mh_axis (g_hal (output_to_hal g)) ! n =
       output_axis_hal (mi_enabling (g_internal g)) (with_motor_cmd (g_axes g ! n)) (mh_axis (g_hal g) ! n)"
proof -
  let ?st = "g_status g"
  define g1 where "g1 = upd_hal (\<lambda>h. h\<lparr>mh_motion_enabled := GET_MOTION_ENABLE_FLAG ?st,
    mh_in_position := GET_MOTION_INPOS_FLAG ?st, mh_coord_mode := GET_MOTION_COORD_FLAG ?st,
    mh_coord_error := GET_MOTION_ERROR_FLAG ?st, mh_on_soft_limit := (ms_on_soft_limit ?st \<noteq> 0)\<rparr>) g"
  have *: "g_axes (output_to_hal g) = g_axes (fold output_axis all_axis_nums g1)"
    "mh_axis (g_hal (output_to_hal g)) = mh_axis (g_hal (fold output_axis all_axis_nums g1))"
    by (simp_all add: output_to_hal_def g1_def Let_def upd_tele_def upd_hal_def)
  have 1: "g_axes g1 = g_axes g" "mh_axis (g_hal g1) = mh_axis (g_hal g)" "g_internal g1 = g_internal g"
    by (simp_all add: g1_def)
  have "g_axes (fold output_axis all_axis_nums g1) ! n = with_motor_cmd (g_axes g1 ! n)
    \<and> mh_axis (g_hal (fold output_axis all_axis_nums g1)) ! n =
       output_axis_hal (mi_enabling (g_internal g1)) (with_motor_cmd (g_axes g1 ! n)) (mh_axis (g_hal g1) ! n)"
    by (rule fold_output_axis) (use assms 1 in auto)
  then show "g_axes (output_to_hal g) ! n = with_motor_cmd (g_axes g ! n)"
    "mh_axis (g_hal (output_to_hal g)) ! n =
       output_axis_hal (mi_enabling (g_internal g)) (with_motor_cmd (g_axes g ! n)) (mh_axis (g_hal g) ! n)"
    by (simp_all add: * 1)
qed

section \<open>A fault disables the machine\<close>

text \<open>Setting the cycle times changes the interpolators and the configuration only.\<close>

definition strip :: "mot_axis \<Rightarrow> mot_axis" where "strip a = a\<lparr>ax_cubic := cubic_blank\<rparr>"

definition sans_cubics :: "'tc mot_state \<Rightarrow> mot_axis list \<times> mot_hal \<times> axis_state \<times> 16 word \<times> 32 word \<times> int \<times> int \<times> int list" where
  "sans_cubics g = (map strip (g_axes g), g_hal g, g_tele g, ms_motionFlag (g_status g),
     ms_overrideLimitMask (g_status g), mg_numAxes (g_config g), mg_numMiscError (g_config g), g_actpos g)"

lemma upd_actpos [simp]:
  "g_actpos (upd_status f g) = g_actpos g" "g_actpos (upd_config c g) = g_actpos g"
  "g_actpos (upd_internal i g) = g_actpos g" "g_actpos (upd_hal h g) = g_actpos g"
  "g_actpos (upd_tele k g) = g_actpos g" "g_actpos (upd_tp_struct t g) = g_actpos g"
  "g_actpos (upd_axis n a g) = g_actpos g" "g_actpos (upd_axis_hal n b g) = g_actpos g"
  by (simp_all add: upd_defs)

lemma sans_cubics_axis: "sans_cubics (upd_axis n (\<lambda>a. a\<lparr>ax_cubic := f (ax_cubic a)\<rparr>) g) = sans_cubics g"
  by (cases "n < length (g_axes g)")
    (simp_all add: sans_cubics_def upd_axis_def map_update strip_def list_update_same_conv list_update_beyond)

lemma sans_cubics_simps [simp]:
  "sans_cubics (upd_cubics f g) = sans_cubics g" "sans_cubics (upd_tp_struct h g) = sans_cubics g"
  "sans_cubics (emcmot_config_change g) = sans_cubics g"
  "(\<And>cf. mg_numAxes (c cf) = mg_numAxes cf) \<Longrightarrow> (\<And>cf. mg_numMiscError (c cf) = mg_numMiscError cf) \<Longrightarrow>
     sans_cubics (upd_config c g) = sans_cubics g"
proof -
  have "sans_cubics (fold (\<lambda>n. upd_axis n (\<lambda>a. a\<lparr>ax_cubic := f (ax_cubic a)\<rparr>)) ns g) = sans_cubics g" for ns
    by (induction ns arbitrary: g) (simp_all add: sans_cubics_axis)
  then show "sans_cubics (upd_cubics f g) = sans_cubics g" by (simp add: upd_cubics_def)
qed (simp_all add: sans_cubics_def emcmot_config_change_def Let_def upd_tp_struct_def)

lemma sans_cubics_times:
  "sans_cubics (snd (setTrajCycleTime secs g)) = sans_cubics g"
  "sans_cubics (snd (setServoCycleTime secs g)) = sans_cubics g"
  by (simp_all add: setTrajCycleTime_def setServoCycleTime_def Let_def)

lemma sans_cubics_cycle: "emcmotSetCycleTime nsec g = Some g' \<Longrightarrow> sans_cubics g' = sans_cubics g"
  by (auto simp: emcmotSetCycleTime_def Let_def sans_cubics_times split: if_splits)

lemma strip_simps [simp]:
  "GET_AXIS_ACTIVE_FLAG (strip a) = GET_AXIS_ACTIVE_FLAG a" "GET_AXIS_ENABLE_FLAG (strip a) = GET_AXIS_ENABLE_FLAG a"
  "ax_motor_offset (strip a) = ax_motor_offset a" "ax_pos_cmd (strip a) = ax_pos_cmd a"
  "ferror_limit_of (strip a) = ferror_limit_of a"
  by (simp_all add: strip_def GET_AXIS_ACTIVE_FLAG_def GET_AXIS_ENABLE_FLAG_def ferror_limit_of_def Let_def)

lemma sans_cubics_nth:
  assumes "sans_cubics g' = sans_cubics g" "n < length (g_axes g)"
  shows "length (g_axes g') = length (g_axes g)" "strip (g_axes g' ! n) = strip (g_axes g ! n)"
proof -
  have m: "map strip (g_axes g') = map strip (g_axes g)" using assms(1) by (simp add: sans_cubics_def)
  then show l: "length (g_axes g') = length (g_axes g)" by (metis length_map)
  show "strip (g_axes g' ! n) = strip (g_axes g ! n)" using m l assms(2) by (metis nth_map)
qed

lemma axis_of_strip:
  assumes "strip a = strip b"
  shows "GET_AXIS_ACTIVE_FLAG a = GET_AXIS_ACTIVE_FLAG b" "GET_AXIS_ENABLE_FLAG a = GET_AXIS_ENABLE_FLAG b"
    "ax_motor_offset a = ax_motor_offset b" "ax_pos_cmd a = ax_pos_cmd b" "ferror_limit_of a = ferror_limit_of b"
  using assms strip_simps by metis+

text \<open>The following error the inputs compute, as a magnitude.\<close>

definition following_error :: "axis_hal \<Rightarrow> mot_axis \<Rightarrow> int" where
  "following_error h a = d2i \<bar>of_int (s32 (ax_pos_cmd a - s32 (ah_motor_pos_fb h - ax_motor_offset a)))\<bar>"

lemmas axis_flag_set_defs = SET_AXIS_ERROR_FLAG_def SET_AXIS_FAULT_FLAG_def SET_AXIS_FERROR_FLAG_def
  SET_AXIS_PHL_FLAG_def SET_AXIS_NHL_FLAG_def SET_AXIS_INPOS_FLAG_def SET_AXIS_ENABLE_FLAG_def

lemma input_axis_active:
  assumes "GET_AXIS_ACTIVE_FLAG a"
  shows "GET_AXIS_ACTIVE_FLAG (input_axis h a)" "GET_AXIS_ENABLE_FLAG (input_axis h a) = GET_AXIS_ENABLE_FLAG a"
    "GET_AXIS_FAULT_FLAG (input_axis h a) = ah_amp_fault h"
    "GET_AXIS_FERROR_FLAG (input_axis h a) \<longleftrightarrow> following_error h a > ferror_limit_of a"
    "ax_pos_fb (input_axis h a) = s32 (ah_motor_pos_fb h - ax_motor_offset a)"
    "ax_motor_offset (input_axis h a) = ax_motor_offset a"
    "GET_AXIS_PHL_FLAG (input_axis h a) = ah_pos_lim_sw h" "GET_AXIS_NHL_FLAG (input_axis h a) = ah_neg_lim_sw h"
  using assms
  by (simp_all add: input_axis_def Let_def axis_flag_set_defs axis_flag_get_defs flag_get_put_other axis_bits
    following_error_def)

lemma input_axis_inactive: "\<not> GET_AXIS_ACTIVE_FLAG a \<Longrightarrow> input_axis h a = a"
  by (simp add: input_axis_def)

lemma process_inputs_frame:
  assumes "length (g_axes g) = EMCMOT_MAX_AXIS"
  shows "g_axes (process_inputs g) = map (\<lambda>n. input_axis (mh_axis (g_hal g) ! n) (g_axes g ! n)) all_axis_nums"
    "g_status (process_inputs g) = g_status g" "g_hal (process_inputs g) = g_hal g"
    "g_config (process_inputs g) = g_config g" "g_internal (process_inputs g) = g_internal g"
  by (simp_all add: process_inputs_def process_inputs_axes [OF assms] Let_def)

text \<open>The state after the inputs of a cycle, from the state before the cycle.\<close>

definition after_inputs :: "'tc mot_state \<Rightarrow> 'tc mot_state \<Rightarrow> bool" where
  "after_inputs g g2 \<longleftrightarrow> mot_wf g2 \<and> g_hal g2 = g_hal g
     \<and> ms_motionFlag (g_status g2) = ms_motionFlag (g_status g)
     \<and> ms_overrideLimitMask (g_status g2) = ms_overrideLimitMask (g_status g)
     \<and> (\<forall>n < EMCMOT_MAX_AXIS. \<exists>a. strip a = strip (g_axes g ! n)
          \<and> g_axes g2 ! n = input_axis (mh_axis (g_hal g) ! n) a)"

lemma after_inputs_intro:
  assumes "mot_wf g" "sans_cubics g1 = sans_cubics g"
  shows "after_inputs g (process_inputs (handle_interpolation (upd_status (\<lambda>st. st\<lparr>ms_head := ms_head st + 1\<rparr>) g1)))"
proof -
  let ?h = "handle_interpolation (upd_status (\<lambda>st. st\<lparr>ms_head := ms_head st + 1\<rparr>) g1)"
  have h: "g_axes ?h = g_axes g1" "g_hal ?h = g_hal g1" "g_config ?h = g_config g1"
    "ms_motionFlag (g_status ?h) = ms_motionFlag (g_status g1)"
    "ms_overrideLimitMask (g_status ?h) = ms_overrideLimitMask (g_status g1)"
    by (simp_all add: handle_interpolation_def Let_def set_pcmd_def upd_tp_struct_def)
  have l: "length (g_axes g) = EMCMOT_MAX_AXIS" using assms(1) by (simp add: mot_wf_def)
  have l1: "length (g_axes g1) = EMCMOT_MAX_AXIS"
    using sans_cubics_nth(1) [OF assms(2), of 0] l by (simp add: EMCMOT_MAX_AXIS_def)
  have s: "strip (g_axes g1 ! n) = strip (g_axes g ! n)" if "n < EMCMOT_MAX_AXIS" for n
    using sans_cubics_nth(2) [OF assms(2)] that l by simp
  have e: "g_hal g1 = g_hal g" "mg_numAxes (g_config g1) = mg_numAxes (g_config g)"
    "mg_numMiscError (g_config g1) = mg_numMiscError (g_config g)"
    "ms_motionFlag (g_status g1) = ms_motionFlag (g_status g)"
    "ms_overrideLimitMask (g_status g1) = ms_overrideLimitMask (g_status g)"
    using assms(2) by (simp_all add: sans_cubics_def)
  have p: "length (g_axes ?h) = EMCMOT_MAX_AXIS" using h l1 by simp
  show ?thesis
    using assms(1) s
    by (auto simp: after_inputs_def mot_wf_def process_inputs_frame [OF p] h e)
qed

text \<open>A period the thread can have: positive and an \<open>unsigned long\<close>.\<close>

definition period_ok :: "int \<Rightarrow> bool" where
  "period_ok period \<longleftrightarrow> 0 < period \<and> period < 2 ^ 63"

definition finish_cycle :: "'tc mot_state \<Rightarrow> 'tc mot_state" where
  "finish_cycle g = upd_status (\<lambda>st. st\<lparr>ms_heartbeat := ms_heartbeat st + 1, ms_tail := ms_head st\<rparr>) g"

lemma controller_phases:
  assumes "mot_wf g" "period_ok period"
  shows "\<exists>g2 g3. after_inputs g g2 \<and> check_for_faults g2 = Some g3
    \<and> emcmotController runCycle period g = map_option finish_cycle
         (Option.bind (get_pos_cmds runCycle period (set_operating_mode g3)) (\<lambda>g4. update_status (output_to_hal g4)))"
proof -
  define sp where "sp = d2i (of_int period * 0.000000001)"
  define g0 where "g0 = g\<lparr>g_servo_period := (if sp < 1 then 1 else sp)\<rparr>"
  define r1 where "r1 = (if period \<noteq> g_last_period g0
    then map_option (\<lambda>g. g\<lparr>g_last_period := period\<rparr>) (emcmotSetCycleTime period g0) else Some g0)"
  have s0: "sans_cubics g0 = sans_cubics g" by (simp add: g0_def sans_cubics_def)
  have "period mod 2 ^ 64 \<noteq> 0" using assms(2) by (simp add: period_ok_def)
  then obtain h where h: "emcmotSetCycleTime period g0 = Some h" by (auto simp: emcmotSetCycleTime_def Let_def)
  have "sans_cubics (h\<lparr>g_last_period := period\<rparr>) = sans_cubics g"
    using sans_cubics_cycle [OF h] s0 by (simp add: sans_cubics_def)
  with h s0 have "\<exists>g1. r1 = Some g1 \<and> sans_cubics g1 = sans_cubics g"
    by (cases "period = g_last_period g0") (simp_all add: r1_def)
  then obtain g1 where g1: "r1 = Some g1" "sans_cubics g1 = sans_cubics g" by blast
  define g2 where "g2 = process_inputs (handle_interpolation (upd_status (\<lambda>st. st\<lparr>ms_head := ms_head st + 1\<rparr>) g1))"
  have a: "after_inputs g g2" unfolding g2_def by (rule after_inputs_intro [OF assms(1) g1(2)])
  then obtain g3 where g3: "check_for_faults g2 = Some g3"
    using check_for_faults_total [of g2] by (auto simp: after_inputs_def)
  have "emcmotController runCycle period g = map_option finish_cycle
      (Option.bind (check_for_faults g2) (\<lambda>g3. Option.bind (get_pos_cmds runCycle period (set_operating_mode g3))
        (\<lambda>g4. update_status (output_to_hal g4))))"
    unfolding emcmotController_def Let_def sp_def [symmetric] g0_def [symmetric] r1_def [symmetric]
    by (simp only: g1(1) option.case g2_def finish_cycle_def [abs_def])
  with a g3 show ?thesis by auto
qed

lemma update_status_total:
  assumes "mg_numMiscError (g_config g) \<le> int EMCMOT_MAX_MISC_ERROR"
  shows "\<exists>g'. update_status g = Some g'"
  using assms by (simp add: update_status_def Let_def)

lemma fold_axis_status_simps [simp]:
  "ms_motionFlag (fold (\<lambda>n st. st\<lparr>ms_axis_status := f n st\<rparr>) ns st) = ms_motionFlag st"
  "ms_motion_state (fold (\<lambda>n st. st\<lparr>ms_axis_status := f n st\<rparr>) ns st) = ms_motion_state st"
  "ms_motionFlag (fold (\<lambda>n st. st\<lparr>ms_misc_error := k n st\<rparr>) ns st) = ms_motionFlag st"
  "ms_motion_state (fold (\<lambda>n st. st\<lparr>ms_misc_error := k n st\<rparr>) ns st) = ms_motion_state st"
  by (induction ns arbitrary: st) simp_all

lemma update_status_frame:
  assumes "update_status g = Some g'"
  shows "g_axes g' = g_axes g" "g_hal g' = g_hal g" "ms_motionFlag (g_status g') = ms_motionFlag (g_status g)"
    "ms_motion_state (g_status g') = ms_motion_state (g_status g)"
    "mi_enabling (g_internal g') = mi_enabling (g_internal g)"
  using assms by (auto simp: update_status_def Let_def split: if_splits)

lemma output_to_hal_frame [simp]:
  "g_status (output_to_hal g) = g_status g" "g_config (output_to_hal g) = g_config g"
  "g_internal (output_to_hal g) = g_internal g"
  by (simp_all add: output_to_hal_def Let_def)

lemma set_operating_mode_frame:
  assumes "mi_enabling (g_internal g) = 0"
  shows "g_hal (set_operating_mode g) = g_hal g" "g_config (set_operating_mode g) = g_config g"
    "mi_enabling (g_internal (set_operating_mode g)) = 0"
proof -
  have "g_hal (mode_disable g) = g_hal g \<and> g_config (mode_disable g) = g_config g
      \<and> mi_enabling (g_internal (mode_disable g)) = 0"
    using assms by (auto simp: mode_disable_def Let_def split: prod.split)
  then show "g_hal (set_operating_mode g) = g_hal g" "g_config (set_operating_mode g) = g_config g"
    "mi_enabling (g_internal (set_operating_mode g)) = 0"
    by (simp_all add: set_operating_mode_def mode_enable_def mode_coord_def mode_free_def Let_def)
qed

lemma s32_add_s32: "s32 (s32 (a - b) + b) = s32 a"
proof -
  have "(s32 (a - b) + b) mod 2 ^ 32 = a mod 2 ^ 32"
  proof -
    have "take_bit 32 (s32 x) = take_bit 32 x" for x
      by (simp add: s32_def take_bit_signed_take_bit)
    then have m: "s32 x mod 2 ^ 32 = x mod 2 ^ 32" for x by (simp add: take_bit_eq_mod)
    show ?thesis by (metis m mod_add_left_eq diff_add_cancel)
  qed
  then have "take_bit (Suc 31) (s32 (a - b) + b) = take_bit (Suc 31) a" by (simp add: take_bit_eq_mod)
  then show ?thesis unfolding s32_def by (simp add: signed_take_bit_eq_iff_take_bit_eq)
qed

text \<open>What trips the fault check on an axis, read off its pins.\<close>

definition axis_fault :: "'tc mot_state \<Rightarrow> nat \<Rightarrow> bool" where
  "axis_fault g n \<longleftrightarrow>
     (let a = g_axes g ! n; h = mh_axis (g_hal g) ! n in
      GET_AXIS_ACTIVE_FLAG a \<and> GET_AXIS_ENABLE_FLAG a
      \<and> (ah_amp_fault h \<or> following_error h a > ferror_limit_of a))"

lemma following_error_strip:
  assumes "strip a = strip b" shows "following_error h a = following_error h b"
  by (simp add: following_error_def axis_of_strip(3) [OF assms] axis_of_strip(4) [OF assms])

lemma after_inputs_trips:
  assumes "after_inputs g g2" "n < EMCMOT_MAX_AXIS" "axis_fault g n"
  shows "trips n g2"
proof -
  obtain a where a: "strip a = strip (g_axes g ! n)" "g_axes g2 ! n = input_axis (mh_axis (g_hal g) ! n) a"
    using assms(1,2) by (auto simp: after_inputs_def)
  let ?h = "mh_axis (g_hal g) ! n"
  have f: "GET_AXIS_ACTIVE_FLAG (g_axes g ! n)" "GET_AXIS_ENABLE_FLAG (g_axes g ! n)"
    "ah_amp_fault ?h \<or> following_error ?h (g_axes g ! n) > ferror_limit_of (g_axes g ! n)"
    using assms(3) by (simp_all add: axis_fault_def Let_def)
  have act: "GET_AXIS_ACTIVE_FLAG a" using f(1) axis_of_strip(1) [OF a(1)] by simp
  have "ah_amp_fault ?h \<or> following_error ?h a > ferror_limit_of a"
    using f(3) axis_of_strip(5) [OF a(1)] following_error_strip [OF a(1)] by simp
  then show ?thesis
    using f(2) axis_of_strip(2) [OF a(1)]
    by (simp add: trips_def axis_tripped_def Let_def a(2) input_axis_active [OF act])
qed

definition axis_shut_down :: "'tc mot_state \<Rightarrow> 'tc mot_state \<Rightarrow> nat \<Rightarrow> bool" where
  "axis_shut_down g g' n \<longleftrightarrow>
     \<not> ah_amp_enable (mh_axis (g_hal g') ! n)
     \<and> ah_motor_pos_cmd (mh_axis (g_hal g') ! n) = s32 (ah_motor_pos_fb (mh_axis (g_hal g) ! n))
     \<and> ax_vel_cmd (g_axes g' ! n) = 0 \<and> tp_enable (ax_free_tp (g_axes g' ! n)) = 0"

text \<open>C16: a fault stops the machine within the cycle. With motion enabled, an amplifier fault or an excessive
  following error on an active, enabled axis, or the loss of the enable input, makes the controller
  return with motion disabled in that cycle; every active axis has its amplifier off, its planner off,
  zero velocity, and its motor commanded to where its feedback says it is.\<close>

theorem fault_disables:
  assumes "mot_wf g" "period_ok period" "GET_MOTION_ENABLE_FLAG (g_status g)"
    and fault: "(\<exists>n < EMCMOT_MAX_AXIS. axis_fault g n) \<or> \<not> mh_enable (g_hal g)"
  shows "\<exists>g'. emcmotController runCycle period g = Some g'
    \<and> ms_motion_state (g_status g') = EMCMOT_MOTION_DISABLED \<and> \<not> GET_MOTION_ENABLE_FLAG (g_status g')
    \<and> (\<forall>n < EMCMOT_MAX_AXIS. GET_AXIS_ACTIVE_FLAG (g_axes g ! n) \<longrightarrow> axis_shut_down g g' n)"
proof -
  obtain g2 g3 where a: "after_inputs g g2" and g3: "check_for_faults g2 = Some g3"
    and c: "emcmotController runCycle period g = map_option finish_cycle
         (Option.bind (get_pos_cmds runCycle period (set_operating_mode g3)) (\<lambda>g4. update_status (output_to_hal g4)))"
    using controller_phases [OF assms(1,2)] by blast
  have w: "mot_wf g2" "g_hal g2 = g_hal g" and m: "GET_MOTION_ENABLE_FLAG (g_status g2)"
    using a assms(3) by (auto simp: after_inputs_def GET_MOTION_ENABLE_FLAG_def)
  have l2: "length (g_axes g2) = EMCMOT_MAX_AXIS" using w by (simp add: mot_wf_def)
  have z: "mi_enabling (g_internal g3) = 0"
    by (rule check_for_faults_zero [OF g3 l2]) (use fault after_inputs_trips [OF a] m w in auto)
  note f3 = check_for_faults_frame [OF g3]
  have l3: "length (g_axes g3) = EMCMOT_MAX_AXIS" using cores_length [OF f3(4)] l2 by simp
  define g4 where "g4 = set_operating_mode g3"
  have d4: "ms_motion_state (g_status g4) = EMCMOT_MOTION_DISABLED" "\<not> GET_MOTION_ENABLE_FLAG (g_status g4)"
    using set_operating_mode_disabled [OF z] by (simp_all add: g4_def)
  have o4: "all_off g4"
    unfolding g4_def by (rule set_operating_mode_off [OF z]) (use m f3 l3 in auto)
  have c4: "cores g4 = cores g2" using f3(4) by (simp add: g4_def cores_set_operating_mode)
  have h4: "g_hal g4 = g_hal g" "g_config g4 = g_config g2"
    using set_operating_mode_frame [OF z] f3 w by (simp_all add: g4_def)
  have l4: "length (g_axes g4) = EMCMOT_MAX_AXIS" using cores_length [OF c4] l2 by simp
  have n4: "mg_numAxes (g_config g4) \<le> int EMCMOT_MAX_AXIS" using w h4 by (simp add: mot_wf_def)
  obtain g5 where g5: "get_pos_cmds runCycle period g4 = Some g5" "g_axes g5 = g_axes (pos_cmds_disabled g4)"
    "g_hal g5 = g_hal g4" "g_config g5 = g_config g4"
    "ms_motion_state (g_status g5) = EMCMOT_MOTION_DISABLED" "\<not> GET_MOTION_ENABLE_FLAG (g_status g5)"
    using get_pos_cmds_disabled [OF d4(1) n4] d4(2) by metis
  have "mg_numMiscError (g_config (output_to_hal g5)) \<le> int EMCMOT_MAX_MISC_ERROR"
    using w h4 g5 by (simp add: mot_wf_def)
  then obtain g6 where g6: "update_status (output_to_hal g5) = Some g6" using update_status_total by blast
  note f6 = update_status_frame [OF g6]
  have r: "emcmotController runCycle period g = Some (finish_cycle g6)"
    using c g5(1) g6 by (simp add: g4_def)
  have l5: "length (g_axes g5) = EMCMOT_MAX_AXIS"
    using g5(2) l4 cores_length [OF cores_phases(5) [of g4]] by simp
  have shut: "axis_shut_down g (finish_cycle g6) n" if n: "n < EMCMOT_MAX_AXIS"
    and act: "GET_AXIS_ACTIVE_FLAG (g_axes g ! n)" for n
  proof -
    obtain b where b: "strip b = strip (g_axes g ! n)" "g_axes g2 ! n = input_axis (mh_axis (g_hal g) ! n) b"
      using a n by (auto simp: after_inputs_def)
    have bact: "GET_AXIS_ACTIVE_FLAG b" using act axis_of_strip(1) [OF b(1)] by simp
    note i = input_axis_active [OF bact, of "mh_axis (g_hal g) ! n", folded b(2)]
    have n2: "n < length (g_axes g2)" using l2 n by simp
    let ?a4 = "g_axes g4 ! n" and ?a5 = "g_axes g5 ! n"
    have a4: "GET_AXIS_ACTIVE_FLAG ?a4" "ax_motor_offset ?a4 = ax_motor_offset b"
      "ax_pos_fb ?a4 = s32 (ah_motor_pos_fb (mh_axis (g_hal g) ! n) - ax_motor_offset b)"
      using cores_nth [OF c4 n2] i by simp_all
    have off: "\<not> GET_AXIS_ENABLE_FLAG ?a4" "tp_enable (ax_free_tp ?a4) = 0"
      using o4 n l4 a4(1) by (auto simp: all_off_def list_all_length axis_off_def)
    have a5: "?a5 = ?a4\<lparr>ax_pos_cmd := ax_pos_fb ?a4, ax_vel_cmd := 0, ax_acc_cmd := 0\<rparr>"
      using pos_cmds_disabled_axes [OF l4 n] g5(2) by simp
    have act5: "GET_AXIS_ACTIVE_FLAG ?a5" "\<not> GET_AXIS_ENABLE_FLAG ?a5"
      using a5 a4(1) off by (simp_all add: GET_AXIS_ACTIVE_FLAG_def GET_AXIS_ENABLE_FLAG_def)
    have lh: "length (mh_axis (g_hal g5)) = EMCMOT_MAX_AXIS" using w h4 g5 by (simp add: mot_wf_def)
    note out = output_to_hal_axis [OF l5 lh n act5(1)]
    show ?thesis
      using act5 off a5 a4
      by (simp add: axis_shut_down_def finish_cycle_def f6 out output_axis_hal_def with_motor_cmd_def
        GET_AXIS_ENABLE_FLAG_def s32_add_s32)
  qed
  have st: "ms_motion_state (g_status (finish_cycle g6)) = EMCMOT_MOTION_DISABLED"
    "\<not> GET_MOTION_ENABLE_FLAG (g_status (finish_cycle g6))"
    using f6(3,4) g5(5,6) by (simp_all add: finish_cycle_def GET_MOTION_ENABLE_FLAG_def)
  show ?thesis using r shut st by blast
qed

text \<open>Motion enabled, axis 1 active and enabled with its amplifier fault pin set.\<close>

definition still :: "int \<Rightarrow> 'tc planner_env \<Rightarrow> 'tc planner_env" where
  "still period e = e"

definition faulted_state :: "unit mot_state" where
  "faulted_state = mot_zero\<lparr>
     g_status := status_zero\<lparr>ms_motionFlag := EMCMOT_MOTION_ENABLE_BIT, ms_motion_state := EMCMOT_MOTION_FREE\<rparr>,
     g_axes := [axis_zero, axis_zero\<lparr>ax_flag := or EMCMOT_AXIS_ACTIVE_BIT EMCMOT_AXIS_ENABLE_BIT, ax_vel_cmd := 7\<rparr>, axis_zero],
     g_hal := hal_zero\<lparr>mh_enable := True,
       mh_axis := [axis_hal_zero, axis_hal_zero\<lparr>ah_amp_fault := True, ah_motor_pos_fb := 25\<rparr>, axis_hal_zero]\<rparr>\<rparr>"

theorem fault_disables_witness:
  "\<exists>g'. emcmotController still 1000000 faulted_state = Some g'
     \<and> ms_motion_state (g_status g') = EMCMOT_MOTION_DISABLED \<and> axis_shut_down faulted_state g' 1"
proof -
  have w: "mot_wf faulted_state"
    by (simp add: mot_wf_def faulted_state_def mot_zero_def config_zero_def EMCMOT_MAX_AXIS_def)
  have p: "period_ok 1000000" by (simp add: period_ok_def)
  have e: "GET_MOTION_ENABLE_FLAG (g_status faulted_state)"
    by (simp add: faulted_state_def GET_MOTION_ENABLE_FLAG_def flag_get_def motion_bits)
  have act: "GET_AXIS_ACTIVE_FLAG (g_axes faulted_state ! 1)"
    by (simp add: faulted_state_def GET_AXIS_ACTIVE_FLAG_def flag_get_def axis_bits)
  have f: "axis_fault faulted_state 1"
    using act by (simp add: axis_fault_def faulted_state_def GET_AXIS_ENABLE_FLAG_def flag_get_def axis_bits Let_def)
  have n: "(1::nat) < EMCMOT_MAX_AXIS" by (simp add: EMCMOT_MAX_AXIS_def)
  from fault_disables [OF w p e, of still] f n act show ?thesis by blast
qed

end
