(* ===== verification/CommandGuards.thy ===== *)
theory CommandGuards
  imports CommandProps
begin

text \<open>
  What a command may change: a jog stays with its axis and aims within its jog limits, a move outside
  coordinated mode leaves the planner alone, which of its calls make it fail, and what ends a pause.
\<close>

section \<open>Jogs\<close>

definition is_jog :: "cmd_code \<Rightarrow> bool" where
  "is_jog k \<longleftrightarrow> k = EMCMOT_JOG_CONT \<or> k = EMCMOT_JOG_INCR \<or> k = EMCMOT_JOG_ABS"

text \<open>What a jog of axis \<open>n\<close> has set up when it started the axis.\<close>

definition jog_started :: "nat \<Rightarrow> 'tc mot_state \<Rightarrow> 'tc mot_state \<Rightarrow> bool" where
  "jog_started n g g' \<longleftrightarrow>
     (let a = g_axes g ! n; tp = ax_free_tp (g_axes g' ! n); c = g_command g in
      GET_MOTION_ENABLE_FLAG (g_status g) \<and> \<not> mh_jog_inhibit (g_hal g)
      \<and> joint_jog_ok n (of_int (mc_Maxvel c)) g
      \<and> ax_min_jog_limit a \<le> tp_pos_cmd tp \<and> tp_pos_cmd tp \<le> ax_max_jog_limit a
      \<and> tp_vel tp \<le> mc_Maxvel c \<and> tp_vel tp \<le> ax_vel_cmd a \<and> tp_enable tp = 1)"

lemma set_error_free_tp [simp]: "ax_free_tp (SET_AXIS_ERROR_FLAG fl a) = ax_free_tp a"
  by (simp add: SET_AXIS_ERROR_FLAG_def)

lemma jog_frame_simps [simp]:
  "g_axes (upd_tele k g) = g_axes g" "g_tele (upd_tele k g) = k (g_tele g)" "g_tele (upd_axis n f g) = g_tele g"
  "g_internal (upd_tele k g) = g_internal g" "g_status (upd_tele k g) = g_status g"
  "g_config (upd_tele k g) = g_config g" "g_hal (upd_tele k g) = g_hal g"
  by (simp_all add: upd_tele_def upd_axis_def)

lemma jog_vel_le: "jog_vel a c \<le> mc_Maxvel c" "jog_vel a c \<le> ax_vel_cmd a"
  by (auto simp: jog_vel_def)

lemma clamp_jog_in:
  "ax_min_jog_limit a \<le> ax_max_jog_limit a \<Longrightarrow>
     ax_min_jog_limit a \<le> clamp_jog a p \<and> clamp_jog a p \<le> ax_max_jog_limit a"
  by (simp add: clamp_jog_def)

text \<open>What a jog that starts does to the teleoperation planners.\<close>

definition jog_tele :: "cmd_code \<Rightarrow> nat \<Rightarrow> axis_state \<Rightarrow> axis_state" where
  "jog_tele k n t =
     (if k = EMCMOT_JOG_CONT then snd (axis_jog_abort_all False t)
      else if k = EMCMOT_JOG_INCR then snd (axis_jog_abort n False t) else t)"

definition jog_done :: "cmd_code \<Rightarrow> nat \<Rightarrow> 'tc mot_state \<Rightarrow> 'tc mot_state \<Rightarrow> bool" where
  "jog_done k n g g' \<longleftrightarrow>
     ax_free_tp (g_axes g' ! n) = ax_free_tp (g_axes g ! n) \<and> g_tele g' = g_tele g
     \<or> jog_started n g g' \<and> g_tele g' = jog_tele k n (g_tele g)"

lemma cmd_jog_cont_guard:
  assumes "n < length (g_axes g)" "ax_min_jog_limit (g_axes g ! n) \<le> ax_max_jog_limit (g_axes g ! n)"
  shows "jog_done EMCMOT_JOG_CONT n g (cmd_jog_cont n g)"
  using assms by (auto simp: jog_done_def jog_tele_def cmd_jog_cont_def jog_started_def Let_def jog_vel_le)

lemma cmd_jog_incr_guard:
  assumes "n < length (g_axes g)"
  shows "jog_done EMCMOT_JOG_INCR n g (cmd_jog_incr n g)"
  using assms by (auto simp: jog_done_def jog_tele_def cmd_jog_incr_def jog_started_def Let_def jog_vel_le)

lemma cmd_jog_abs_guard:
  assumes "n < length (g_axes g)" "ax_min_jog_limit (g_axes g ! n) \<le> ax_max_jog_limit (g_axes g ! n)"
  shows "jog_done EMCMOT_JOG_ABS n g (cmd_jog_abs n g)"
  using assms clamp_jog_in [OF assms(2)]
  by (auto simp: jog_done_def jog_tele_def cmd_jog_abs_def jog_started_def Let_def jog_vel_le)

lemma jogs_frame:
  "f = cmd_jog_cont \<or> f = cmd_jog_incr \<or> f = cmd_jog_abs \<Longrightarrow>
     g_internal (f n g) = g_internal g \<and> g_status (f n g) = g_status g \<and> g_config (f n g) = g_config g
     \<and> g_hal (f n g) = g_hal g \<and> length (g_axes (f n g)) = length (g_axes g)"
  by (auto simp: cmd_jog_cont_def cmd_jog_incr_def cmd_jog_abs_def Let_def)

lemma jogs_other_axes:
  assumes "n < length (g_axes g)" "m \<noteq> n"
  shows "g_axes (cmd_jog_cont n g) ! m = g_axes g ! m" "g_axes (cmd_jog_incr n g) ! m = g_axes g ! m"
    "g_axes (cmd_jog_abs n g) ! m = g_axes g ! m"
  using assms by (simp_all add: cmd_jog_cont_def cmd_jog_incr_def cmd_jog_abs_def Let_def)

text \<open>C13: jogs are guarded. For an axis whose jog limits are ordered, a jog command leaves the single-axis planners of
  all other axes, the coordinated planner, the modes and the pins as they are. The planner of its own axis is left
  alone too, unless motion is enabled, jogging is not inhibited and the limit check passes; then it is enabled
  with a target between the jog limits and a velocity of at most what the command and the axis allow. Teleoperation
  is only touched by a jog that starts: a continuous jog ends the teleoperation jogs of all axes, an incremental one
  that of its axis, an absolute one none.\<close>

theorem jog_guarded:
  assumes "length (g_axes g) = EMCMOT_MAX_AXIS" "is_jog (mc_command (g_command g))"
    and n: "mc_axis (g_command g) = int n" "n < EMCMOT_MAX_AXIS"
    and "ax_min_jog_limit (g_axes g ! n) \<le> ax_max_jog_limit (g_axes g ! n)"
  shows "\<exists>g'. run_command addLine addCircle g = Some g' \<and> length (g_axes g') = EMCMOT_MAX_AXIS
    \<and> (\<forall>m. m = n \<or> g_axes g' ! m = g_axes g ! m)
    \<and> g_internal g' = g_internal g \<and> g_status g' = g_status g \<and> g_config g' = g_config g \<and> g_hal g' = g_hal g
    \<and> (ax_free_tp (g_axes g' ! n) = ax_free_tp (g_axes g ! n) \<and> g_tele g' = g_tele g
       \<or> jog_started n g g' \<and> g_tele g' = jog_tele (mc_command (g_command g)) n (g_tele g))"
proof -
  have l: "n < length (g_axes g)" using assms by simp
  let ?k = "mc_command (g_command g)"
  obtain f where f: "run_command addLine addCircle g = Some (f n g)" "jog_done ?k n g (f n g)"
    "f = cmd_jog_cont \<or> f = cmd_jog_incr \<or> f = cmd_jog_abs"
    using assms(2) n cmd_jog_cont_guard [OF l assms(5)] cmd_jog_incr_guard [OF l] cmd_jog_abs_guard [OF l assms(5)]
    by (auto simp: run_command_def on_jog_axis_def axis_ok_def is_jog_def)
  have "\<forall>m. m = n \<or> g_axes (f n g) ! m = g_axes g ! m" using f(3) jogs_other_axes [OF l] by blast
  with f(1,2) jogs_frame [OF f(3), of n g] assms(1) show ?thesis by (simp add: jog_done_def)
qed

theorem jog_guarded_witness:
  "\<exists>g'. run_command no_line no_circle (enabled_state jog_command) = Some g'
     \<and> g_axes g' ! 0 = g_axes (enabled_state jog_command) ! 0 \<and> length (g_axes g') = 3
     \<and> g_internal g' = g_internal (enabled_state jog_command)"
proof -
  have "length (g_axes (enabled_state jog_command)) = EMCMOT_MAX_AXIS"
    by (simp add: enabled_state_def EMCMOT_MAX_AXIS_def)
  from jog_guarded [OF this, of 1 no_line no_circle] show ?thesis
    by (auto simp: enabled_state_def is_jog_def jog_command_def axis_zero_def EMCMOT_MAX_AXIS_def)
qed

section \<open>Moves\<close>

lemma upd_tp_same: "mi_coord_tp (g_internal (upd_status f g)) = mi_coord_tp (g_internal g)"
  by simp

lemma reject_simps [simp]:
  "g_internal (reject r g) = g_internal g" "g_axes (reject r g) = g_axes g"
  "ms_commandStatus (g_status (reject r g)) = r" "GET_MOTION_ERROR_FLAG (g_status (reject r g))"
  by (simp_all add: reject_def SET_MOTION_ERROR_FLAG_def GET_MOTION_ERROR_FLAG_def motion_bits)

lemma tpAbort_aborting [simp]: "tp_aborting (tpAbort tp) \<noteq> 0"
  by (simp add: tpAbort_def tpPause_def)

definition rejected_aborting :: "cmd_status \<Rightarrow> 'tc mot_state \<Rightarrow> bool" where
  "rejected_aborting r g \<longleftrightarrow> (\<exists>h. g = reject r (upd_tp_struct tpAbort h))"

lemma rejected_abortingI [simp]: "rejected_aborting r (reject r (upd_tp_struct tpAbort h))"
  by (auto simp: rejected_aborting_def)

text \<open>The calls of the segment builders a line and a circle command come to: their arguments and the planner.\<close>

definition line_call :: "'tc mot_state \<Rightarrow> line_args \<times> 'tc planner_env" where
  "line_call g =
     (let tp = snd (tpSetId (mi_coord_tp (g_internal g)) (mc_id (g_command g))); c = g_command g in
      (\<lparr>la_end = line_target c tp, la_type = mc_motion_type c, la_vel = of_int (mc_vel c),
         la_ini_maxvel = of_int (mc_Maxvel c), la_acc = of_int (mc_acc c), la_enables = ms_enables_new (g_status g),
         la_atspeed = 0, la_turn = mc_turn c\<rparr>,
       snd (tpSetVlimit tp (of_int (mg_limitVel (g_config g)))), g_status g, g_config g))"

definition circle_call :: "'tc mot_state \<Rightarrow> circle_args \<times> 'tc planner_env" where
  "circle_call g =
     (let c = g_command g in
      (\<lparr>la_end = mc_pos c, la_type = mc_motion_type c, la_vel = of_int (mc_Maxvel c),
         la_ini_maxvel = of_int (mc_ini_maxvel c), la_acc = of_int (mc_Maxacc c), la_enables = ms_enables_new (g_status g),
         la_atspeed = 0, la_turn = mc_turn c, la_center = mc_center c, la_normal = mc_normal c\<rparr>,
       snd (tpSetId (mi_coord_tp (g_internal g)) (mc_id c)), g_status g, g_config g))"

definition build_fails ::
  "(line_args \<Rightarrow> 'tc planner_env \<Rightarrow> int \<times> 'tc planner_env) \<Rightarrow>
   (circle_args \<Rightarrow> 'tc planner_env \<Rightarrow> int \<times> 'tc planner_env) \<Rightarrow> 'tc mot_state \<Rightarrow> bool" where
  "build_fails addLine addCircle g \<longleftrightarrow>
     (if mc_command (g_command g) = EMCMOT_SET_LINE then fst (case_prod addLine (line_call g)) < 0
      else fst (case_prod addCircle (circle_call g)) < 0)"

lemma cmd_set_line_call:
  assumes "GET_MOTION_COORD_FLAG (g_status g)" "GET_MOTION_ENABLE_FLAG (g_status g)" "limits_ok g = Some True"
    and "fst (case_prod addLine (line_call g)) < 0" "cmd_set_line addLine g = Some g'"
  shows "rejected_aborting EMCMOT_COMMAND_BAD_EXEC g'"
proof -
  let ?a = "fst (line_call g)" and ?e = "snd (line_call g)"
  have c: "addLine \<lparr>la_end = line_target (g_command g) (snd (tpSetId (mi_coord_tp (g_internal g)) (mc_id (g_command g)))),
      la_type = mc_motion_type (g_command g), la_vel = of_int (mc_vel (g_command g)),
      la_ini_maxvel = of_int (mc_Maxvel (g_command g)), la_acc = of_int (mc_acc (g_command g)),
      la_enables = ms_enables_new (g_status g), la_atspeed = 0, la_turn = mc_turn (g_command g)\<rparr>
    (snd (tpSetVlimit (snd (tpSetId (mi_coord_tp (g_internal g)) (mc_id (g_command g)))) (of_int (mg_limitVel (g_config g)))),
     g_status g, g_config g) = addLine ?a ?e"
    by (simp add: line_call_def Let_def)
  have "fst (addLine ?a ?e) < 0" using assms(4) by (simp add: case_prod_beta)
  then obtain r e where r: "addLine ?a ?e = (r, e)" "r < 0" by (cases "addLine ?a ?e") simp
  show ?thesis
    using assms(1-3,5) r c by (auto simp: cmd_set_line_def planner_env_def Let_def)
qed

lemma cmd_set_circle_call:
  assumes "GET_MOTION_COORD_FLAG (g_status g)" "GET_MOTION_ENABLE_FLAG (g_status g)" "limits_ok g = Some True"
    and "fst (case_prod addCircle (circle_call g)) < 0" "cmd_set_circle addCircle g = Some g'"
  shows "rejected_aborting EMCMOT_COMMAND_BAD_EXEC g'"
  using assms by (auto simp: cmd_set_circle_def circle_call_def planner_env_def Let_def split: prod.splits)

lemma moves_on_limit:
  assumes "GET_MOTION_COORD_FLAG (g_status g)" "GET_MOTION_ENABLE_FLAG (g_status g)" "limits_ok g = Some False"
  shows "cmd_set_line addLine g = Some g' \<Longrightarrow> rejected_aborting EMCMOT_COMMAND_INVALID_PARAMS g'"
    "cmd_set_circle addCircle g = Some g' \<Longrightarrow> rejected_aborting EMCMOT_COMMAND_INVALID_PARAMS g'"
  using assms by (auto simp: cmd_set_line_def cmd_set_circle_def)

lemma moves_limits_known:
  assumes "GET_MOTION_COORD_FLAG (g_status g)" "GET_MOTION_ENABLE_FLAG (g_status g)"
  shows "cmd_set_line addLine g = Some g' \<Longrightarrow> limits_ok g \<noteq> None" "cmd_set_circle addCircle g = Some g' \<Longrightarrow> limits_ok g \<noteq> None"
  using assms by (rule_tac [!] notI) (simp_all add: cmd_set_line_def cmd_set_circle_def)

lemma move_rejected:
  assumes k: "mc_command (g_command g) = EMCMOT_SET_LINE \<or> mc_command (g_command g) = EMCMOT_SET_CIRCLE"
    and r: "run_command addLine addCircle g = Some g'"
    and on: "GET_MOTION_COORD_FLAG (g_status g)" "GET_MOTION_ENABLE_FLAG (g_status g)"
    and bad: "limits_ok g = Some False \<or> build_fails addLine addCircle g"
  shows "rejected_aborting
    (if limits_ok g = Some False then EMCMOT_COMMAND_INVALID_PARAMS else EMCMOT_COMMAND_BAD_EXEC) g'"
proof (cases "limits_ok g = Some False")
  case True
  with k r moves_on_limit [OF on] show ?thesis by (auto simp: run_command_def)
next
  case False
  have "limits_ok g \<noteq> None" using k r moves_limits_known [OF on] by (auto simp: run_command_def)
  with False have ok: "limits_ok g = Some True" by auto
  from k show ?thesis
  proof
    assume k: "mc_command (g_command g) = EMCMOT_SET_LINE"
    with bad False have "fst (case_prod addLine (line_call g)) < 0" by (simp add: build_fails_def)
    from cmd_set_line_call [OF on ok this] k r ok show ?thesis by (simp add: run_command_def)
  next
    assume k: "mc_command (g_command g) = EMCMOT_SET_CIRCLE"
    with bad False have "fst (case_prod addCircle (circle_call g)) < 0" by (simp add: build_fails_def)
    from cmd_set_circle_call [OF on ok this] k r ok show ?thesis by (simp add: run_command_def)
  qed
qed

definition line_command :: mot_command where
  "line_command = command_zero\<lparr>mc_command := EMCMOT_SET_LINE, mc_commandNum := 9\<rparr>"

section \<open>What the handler does not cover\<close>

text \<open>the axis number of a command is not checked. For every number outside the array, the handler on a new
  command that disables, configures or stops an axis leaves the array; so does a jog unless it is
  inhibited.\<close>

theorem command_axis_unchecked:
  assumes "\<not> g_command_mutex g" "mc_commandNum (g_command g) \<noteq> ms_commandNumEcho (g_status g)"
    and "\<not> axis_ok (mc_axis (g_command g))"
    and "mc_command (g_command g) = EMCMOT_AXIS_DISABLE \<or> mc_command (g_command g) = EMCMOT_DOWNLOADS_CONFIG
      \<or> mc_command (g_command g) = EMCMOT_JOG_ABORT
      \<or> is_jog (mc_command (g_command g)) \<and> \<not> mh_jog_inhibit (g_hal g)"
  shows "emcmotCommandHandler addLine addCircle g = None"
  using assms by (auto simp: emcmotCommandHandler_def emcmotCommandHandler_locked_def run_command_def
    accept_command_def on_axis_def on_jog_axis_def is_jog_def)

theorem command_axis_unchecked_witness:
  "emcmotCommandHandler no_line no_circle
     (enabled_state (jog_command\<lparr>mc_command := EMCMOT_AXIS_DISABLE, mc_axis := 3\<rparr>)) = None"
  by (rule command_axis_unchecked)
    (simp_all add: enabled_state_def mot_zero_def status_zero_def jog_command_def axis_ok_def
      EMCMOT_MAX_AXIS_def)

text \<open>What the handler relies on from the segment builders here: they do not end a pause.\<close>

definition keeps_pause :: "('a \<Rightarrow> 'tc planner_env \<Rightarrow> int \<times> 'tc planner_env) \<Rightarrow> bool" where
  "keeps_pause f \<longleftrightarrow> (\<forall>a e. tp_pausing (fst (snd (f a e))) = tp_pausing (fst e))"

lemma keeps_pauseD: "keeps_pause f \<Longrightarrow> f a e = (r, e') \<Longrightarrow> tp_pausing (fst e') = tp_pausing (fst e)"
  unfolding keeps_pause_def by (metis snd_conv)

abbreviation pausing :: "'tc mot_state \<Rightarrow> int" where
  "pausing g \<equiv> tp_pausing (mi_coord_tp (g_internal g))"

lemma set_tp_pausing [simp]:
  "tp_pausing (tpAbort tp) = 0 \<longleftrightarrow> tp_aborting tp \<noteq> 0 \<and> tp_pausing tp = 0"
  "tp_pausing (snd (tpSetId tp i)) = tp_pausing tp" "tp_pausing (snd (tpSetVlimit tp v)) = tp_pausing tp"
  "tp_pausing (tpSetSpindleSync tp sp sy m) = tp_pausing tp" "tp_pausing (tpPause tp) = 1"
  by (simp_all add: tpAbort_def tpPause_def tpSetId_def tpSetVlimit_def tpSetSpindleSync_def)

lemma cmd_abort_pausing: "cmd_abort g = Some g' \<Longrightarrow> pausing g \<noteq> 0 \<Longrightarrow> pausing g' \<noteq> 0"
  by (auto simp: cmd_abort_def Let_def fold_keeps [where P = g_internal] split: option.splits if_splits)

lemma moves_pausing:
  assumes "pausing g \<noteq> 0"
  shows "keeps_pause addLine \<Longrightarrow> cmd_set_line addLine g = Some g' \<Longrightarrow> pausing g' \<noteq> 0"
    and "keeps_pause addCircle \<Longrightarrow> cmd_set_circle addCircle g = Some g' \<Longrightarrow> pausing g' \<noteq> 0"
  using assms
  by (auto simp: cmd_set_line_def cmd_set_circle_def planner_env_def put_env_def Let_def
    split: if_splits option.splits bool.splits prod.splits dest!: keeps_pauseD)

lemma simple_cmds_pausing:
  "g_internal (cmd_jog_cont n g) = g_internal g" "g_internal (cmd_jog_incr n g) = g_internal g"
  "g_internal (cmd_jog_abs n g) = g_internal g" "g_internal (cmd_jog_abort n g) = g_internal g"
  "g_internal (cmd_axis_enable n g) = g_internal g" "g_internal (cmd_axis_disable n g) = g_internal g"
  "pausing (cmd_downloads_config n g) = pausing g" "pausing (cmd_pause g) = 1"
  by (simp_all add: cmd_jog_cont_def cmd_jog_incr_def cmd_jog_abs_def cmd_jog_abort_def
    cmd_axis_enable_def cmd_axis_disable_def cmd_downloads_config_def cmd_pause_def Let_def)

lemma run_command_pausing:
  assumes "keeps_pause addLine" "keeps_pause addCircle" "run_command addLine addCircle g = Some g'" "pausing g \<noteq> 0"
  shows "pausing g' \<noteq> 0"
  using assms(3,4) cmd_abort_pausing moves_pausing(1) [OF assms(4,1)] moves_pausing(2) [OF assms(4,2)]
  by (auto simp: run_command_def Let_def on_axis_def on_jog_axis_def simple_cmds_pausing
    split: cmd_code.splits if_splits)

lemma handler_pausing:
  assumes "keeps_pause addLine" "keeps_pause addCircle" "pausing g \<noteq> 0"
    and "emcmotCommandHandler addLine addCircle g = Some g'"
  shows "pausing g' \<noteq> 0"
  using assms(3,4) run_command_pausing [OF assms(1,2)]
  by (auto simp: emcmotCommandHandler_def emcmotCommandHandler_locked_def sync_tails_def accept_command_def
    split: if_splits)

definition code_command :: "cmd_code \<Rightarrow> int \<Rightarrow> mot_command" where
  "code_command k n = command_zero\<lparr>mc_command := k, mc_commandNum := n\<rparr>"

end
