(* ===== verification/ControlModes.thy ===== *)
theory ControlModes
  imports ControlProps CommandGuards
begin

text \<open>
  The modes of the controller: the interpolation loop and when it returns, which modes can be left, and
  what the limit switches and the following-error limit do.
\<close>

declare max_axis_upt [simp del]

section \<open>The interpolation loop\<close>

lemma put_env_axes [simp]: "g_axes (put_env e g) = g_axes g" "g_tele (put_env e g) = g_tele g"
  by (simp_all add: put_env_def split: prod.split)

lemma put_env_length: "length (g_axes (put_env e g)) = length (g_axes g)"
  by simp

definition coord_axis_point :: "int list \<Rightarrow> nat \<Rightarrow> mot_axis \<Rightarrow> mot_axis" where
  "coord_axis_point ps n a = (if \<not> GET_AXIS_ACTIVE_FLAG a then a
     else a\<lparr>ax_coarse_pos := ps ! n, ax_cubic := snd (cubicAddPoint (ax_cubic a) (of_int (ps ! n)))\<rparr>)"

text \<open>Where the planner's cycle ends, truncated to the axes' units.\<close>

definition planned_positions :: "(int \<Rightarrow> 'tc planner_env \<Rightarrow> 'tc planner_env) \<Rightarrow> int \<Rightarrow> 'tc mot_state \<Rightarrow> int list" where
  "planned_positions runCycle period g =
     (let t = ep_tran (tpGetPos (fst (runCycle period (planner_env g)))) in map d2i [c_x t, c_y t, c_z t])"

lemma coord_point_axes:
  assumes "length (g_axes g) = EMCMOT_MAX_AXIS"
  shows "g_axes (coord_point runCycle period g) =
    map (\<lambda>n. coord_axis_point (planned_positions runCycle period g) n (g_axes g ! n)) all_axis_nums"
proof -
  define g1 where "g1 = put_env (runCycle period (planner_env g)) g"
  define g2 where "g2 = upd_status (\<lambda>st. st\<lparr>ms_carte_pos_cmd := tpGetPos (mi_coord_tp (g_internal g1))\<rparr>) g1"
  have tp: "mi_coord_tp (g_internal g1) = fst (runCycle period (planner_env g))"
    by (simp add: g1_def put_env_def split: prod.split)
  have ps: "map d2i (pcmd_of (g_status g2)) = planned_positions runCycle period g"
    by (simp add: g2_def pcmd_of_def planned_positions_def tp Let_def)
  obtain r p t where b: "axis_update_coord_with_bound (pcmd_of (g_status g2)) (of_int (g_servo_period g2)) (g_tele g2) = (r, p, t)"
    by (metis surj_pair)
  define g3 where "g3 = (upd_status (set_pcmd p) (upd_tele (\<lambda>_. t) g2))\<lparr>g_ext_offset_coord_limit := (if r \<noteq> 0 then 1 else 0)\<rparr>"
  have ax: "g_axes g3 = g_axes g" by (simp add: g3_def g2_def g1_def)
  have "coord_point runCycle period g =
      fold (\<lambda>n. upd_axis n (coord_axis_point (planned_positions runCycle period g) n)) all_axis_nums g3"
    unfolding coord_point_def Let_def coord_axis_point_def [abs_def]
      g1_def [symmetric] g2_def [symmetric] b prod.case ps g3_def [symmetric] ..
  then show ?thesis using assms ax by (simp add: fold_all_axes)
qed

lemma coord_point_length:
  "length (g_axes g) = EMCMOT_MAX_AXIS \<Longrightarrow> length (g_axes (coord_point runCycle period g)) = EMCMOT_MAX_AXIS"
  by (simp add: coord_point_axes)

lemma axis_0 [simp]: "(0::nat) < EMCMOT_MAX_AXIS" by (simp add: EMCMOT_MAX_AXIS_def)

text \<open>C17: one interpolation point is one planner cycle. With axis 0 active and its interpolator configured, the
  loop returns, after one planner cycle when a point is needed and none otherwise; the position the
  cycle ends at is the coarse position of every active axis, and inactive axes keep theirs.\<close>

theorem coord_loop_returns:
  assumes "length (g_axes g) = EMCMOT_MAX_AXIS" "GET_AXIS_ACTIVE_FLAG (g_axes g ! 0)"
    and "cu_configured (ax_cubic (g_axes g ! 0)) = ALL_SET"
  shows "coord_loop runCycle period g =
      Some (if cubicNeedNextPoint (ax_cubic (g_axes g ! 0)) then coord_point runCycle period g else g)
    \<and> (\<forall>n < EMCMOT_MAX_AXIS. ax_coarse_pos (g_axes (coord_point runCycle period g) ! n) =
          (if GET_AXIS_ACTIVE_FLAG (g_axes g ! n) then planned_positions runCycle period g ! n
           else ax_coarse_pos (g_axes g ! n)))"
proof -
  have "\<not> cubicNeedNextPoint (ax_cubic (g_axes (coord_point runCycle period g) ! 0))"
    if "cubicNeedNextPoint (ax_cubic (g_axes g ! 0))"
    using that assms
    by (simp add: coord_point_axes coord_axis_point_def cubicNeedNextPoint_def cubicAddPoint_def Let_def)
  then have "coord_loop runCycle period g =
      Some (if cubicNeedNextPoint (ax_cubic (g_axes g ! 0)) then coord_point runCycle period g else g)"
    by (simp add: coord_loop.simps [of runCycle period g] coord_loop.simps [of runCycle period "coord_point runCycle period g"])
  then show ?thesis using assms(1) by (simp add: coord_point_axes coord_axis_point_def)
qed

text \<open>Invariants of the loop.\<close>

lemma coord_loop_invariant:
  assumes "coord_loop runCycle period g = Some g'"
  shows "\<not> cubicNeedNextPoint (ax_cubic (g_axes g' ! 0))"
    and "\<lbrakk>I g; \<And>h. I h \<Longrightarrow> I (coord_point runCycle period h)\<rbrakk> \<Longrightarrow> I g'"
proof -
  let ?P = "\<lambda>R p g g'. (I g \<longrightarrow> (\<forall>h. I h \<longrightarrow> I (coord_point R p h)) \<longrightarrow> I g')
      \<and> \<not> cubicNeedNextPoint (ax_cubic (g_axes g' ! 0))"
  have "?P runCycle period g g'"
  proof (rule coord_loop.raw_induct [where P = ?P, OF _ assms])
    fix loop and R :: "int \<Rightarrow> 'a planner_env \<Rightarrow> 'a planner_env" and p h y
    assume ih: "\<And>R p h y. loop R p h = Some y \<Longrightarrow> ?P R p h y"
      and eq: "(if \<not> cubicNeedNextPoint (ax_cubic (g_axes h ! 0)) then Some h
        else loop R p (coord_point R p h)) = Some y"
    show "?P R p h y"
    proof (cases "cubicNeedNextPoint (ax_cubic (g_axes h ! 0))")
      case True
      with eq have "loop R p (coord_point R p h) = Some y" by simp
      from ih [OF this] show ?thesis by simp
    next
      case False
      with eq show ?thesis by simp
    qed
  qed
  then show "\<not> cubicNeedNextPoint (ax_cubic (g_axes g' ! 0))"
    and "\<lbrakk>I g; \<And>h. I h \<Longrightarrow> I (coord_point runCycle period h)\<rbrakk> \<Longrightarrow> I g'" by simp_all
qed

text \<open>C18: the loop waits for axis 0. With axis 0 inactive, or its interpolator not configured, it does not return once axis 0 needs
  a point, whatever the planner does: no round feeds axis 0.\<close>

theorem coord_loop_hangs:
  assumes "length (g_axes g) = EMCMOT_MAX_AXIS" "cubicNeedNextPoint (ax_cubic (g_axes g ! 0))"
    and "\<not> GET_AXIS_ACTIVE_FLAG (g_axes g ! 0) \<or> cu_configured (ax_cubic (g_axes g ! 0)) \<noteq> ALL_SET"
  shows "coord_loop runCycle period g = None"
proof -
  let ?stuck = "\<lambda>g. length (g_axes g) = EMCMOT_MAX_AXIS \<and> cubicNeedNextPoint (ax_cubic (g_axes g ! 0))
    \<and> (\<not> GET_AXIS_ACTIVE_FLAG (g_axes g ! 0) \<or> cu_configured (ax_cubic (g_axes g ! 0)) \<noteq> ALL_SET)"
  have step: "?stuck (coord_point runCycle period g)" if "?stuck g" for g
  proof -
    have "g_axes (coord_point runCycle period g) ! 0 =
        coord_axis_point (planned_positions runCycle period g) 0 (g_axes g ! 0)"
      using that by (simp add: coord_point_axes)
    with that show ?thesis
      by (auto simp: coord_axis_point_def cubicAddPoint_def cubicNeedNextPoint_def GET_AXIS_ACTIVE_FLAG_def
        coord_point_length)
  qed
  show ?thesis
  proof (cases "coord_loop runCycle period g")
    case (Some g')
    have "?stuck g'" using coord_loop_invariant(2) [OF Some, of ?stuck] step assms by blast
    then show ?thesis using coord_loop_invariant(1) [OF Some] by simp
  qed
qed

section \<open>Modes\<close>

lemma controllerE:
  assumes "emcmotController runCycle period g = Some g'"
  obtains g1 g3 g4 g5 where "sans_cubics g1 = sans_cubics g"
    "check_for_faults (process_inputs (handle_interpolation (upd_status (\<lambda>st. st\<lparr>ms_head := ms_head st + 1\<rparr>) g1))) = Some g3"
    "get_pos_cmds runCycle period (set_operating_mode g3) = Some g4"
    "update_status (output_to_hal g4) = Some g5" "g' = finish_cycle g5"
proof -
  define sp where "sp = d2i (of_int period * 0.000000001)"
  define g0 where "g0 = g\<lparr>g_servo_period := (if sp < 1 then 1 else sp)\<rparr>"
  define r1 where "r1 = (if period \<noteq> g_last_period g0
    then map_option (\<lambda>g. g\<lparr>g_last_period := period\<rparr>) (emcmotSetCycleTime period g0) else Some g0)"
  have s0: "sans_cubics g0 = sans_cubics g" by (simp add: g0_def sans_cubics_def)
  have "Some g' = (case r1 of None \<Rightarrow> None | Some g1 \<Rightarrow> map_option finish_cycle
      (Option.bind (check_for_faults (process_inputs (handle_interpolation
         (upd_status (\<lambda>st. st\<lparr>ms_head := ms_head st + 1\<rparr>) g1))))
       (\<lambda>g3. Option.bind (get_pos_cmds runCycle period (set_operating_mode g3))
        (\<lambda>g4. update_status (output_to_hal g4)))))"
    unfolding assms [symmetric] emcmotController_def Let_def sp_def [symmetric] g0_def [symmetric]
      r1_def [symmetric] finish_cycle_def [abs_def] ..
  then have e: "(case r1 of None \<Rightarrow> None | Some g1 \<Rightarrow> map_option finish_cycle
      (Option.bind (check_for_faults (process_inputs (handle_interpolation
         (upd_status (\<lambda>st. st\<lparr>ms_head := ms_head st + 1\<rparr>) g1))))
       (\<lambda>g3. Option.bind (get_pos_cmds runCycle period (set_operating_mode g3))
        (\<lambda>g4. update_status (output_to_hal g4))))) = Some g'" by (rule sym)
  then obtain g1 where g1: "r1 = Some g1" by (cases r1) simp_all
  have "sans_cubics (h\<lparr>g_last_period := period\<rparr>) = sans_cubics h" for h :: "'a mot_state"
    by (simp add: sans_cubics_def)
  then have "sans_cubics g1 = sans_cubics g"
    using g1 s0 sans_cubics_cycle [of period g0] by (auto simp: r1_def split: if_splits)
  with e g1 that show ?thesis by (auto simp: Option.bind_eq_Some_conv map_option_eq_Some)
qed

lemma hal_fold_status: "g_status (fold (\<lambda>n s. upd_axis n (f n s) s) ns g) = g_status g"
  by (induction ns arbitrary: g) simp_all

lemma process_inputs_status: "g_status (process_inputs g) = g_status g"
  by (simp add: process_inputs_def Let_def hal_fold_status)

lemma handle_interpolation_flag: "ms_motionFlag (g_status (handle_interpolation g)) = ms_motionFlag (g_status g)"
  by (simp add: handle_interpolation_def Let_def set_pcmd_def upd_tp_struct_def)

lemma mode_phase_coord:
  "GET_MOTION_COORD_FLAG (g_status g) \<Longrightarrow> GET_MOTION_COORD_FLAG (g_status (mode_disable g))"
  "GET_MOTION_COORD_FLAG (g_status g) \<Longrightarrow> GET_MOTION_COORD_FLAG (g_status (mode_enable g))"
  "GET_MOTION_COORD_FLAG (g_status g) \<Longrightarrow> mode_coord g = g"
  "GET_MOTION_COORD_FLAG (g_status g) \<Longrightarrow> GET_MOTION_COORD_FLAG (g_status (mode_free g))"
  using flags_of_motionFlag(2) [OF tpClear_flag]
  by (auto simp: mode_disable_def mode_enable_def mode_coord_def mode_free_def Let_def split: prod.split)

definition coordinated :: "mot_status \<Rightarrow> bool" where
  "coordinated st \<longleftrightarrow> GET_MOTION_COORD_FLAG st \<and> ms_motion_state st \<noteq> EMCMOT_MOTION_FREE"

lemma coordinated_cong:
  "ms_motionFlag st' = ms_motionFlag st \<Longrightarrow> ms_motion_state st' = ms_motion_state st \<Longrightarrow> coordinated st' = coordinated st"
  by (simp add: coordinated_def GET_MOTION_COORD_FLAG_def)

lemma coordinated_flags [simp]:
  "coordinated (SET_MOTION_INPOS_FLAG fl st) = coordinated st" "coordinated (SET_MOTION_ERROR_FLAG fl st) = coordinated st"
  "coordinated (set_pcmd p st) = coordinated st"
  by (simp_all add: coordinated_def set_pcmd_def SET_MOTION_INPOS_FLAG_def SET_MOTION_ERROR_FLAG_def
    GET_MOTION_COORD_FLAG_def flag_get_put_other motion_bits)

lemma coordinated_fields [simp]:
  "coordinated (st\<lparr>ms_carte_pos_cmd := p\<rparr>) = coordinated st" "coordinated (st\<lparr>ms_on_soft_limit := i\<rparr>) = coordinated st"
  "coordinated (st\<lparr>ms_commandStatus := q\<rparr>) = coordinated st" "coordinated (st\<lparr>ms_paused := i\<rparr>) = coordinated st"
  by (simp_all add: coordinated_def GET_MOTION_COORD_FLAG_def)

lemma set_operating_mode_coordinated:
  assumes "GET_MOTION_COORD_FLAG (g_status g)"
  shows "coordinated (g_status (set_operating_mode g))"
proof -
  have "GET_MOTION_COORD_FLAG (g_status (mode_free (mode_coord (mode_enable (mode_disable g)))))"
    using mode_phase_coord assms by metis
  then show ?thesis by (simp add: set_operating_mode_def coordinated_def mode_of_def GET_MOTION_COORD_FLAG_def)
qed

text \<open>What the controller and the handler rely on from the planner: it leaves the mode alone.\<close>

definition keeps_mode :: "('tc planner_env \<Rightarrow> 'tc planner_env) \<Rightarrow> bool" where
  "keeps_mode f \<longleftrightarrow> (\<forall>e. coordinated (fst (snd e)) = coordinated (fst (snd (f e))))"

lemma keeps_modeD: "keeps_mode f \<Longrightarrow> coordinated (fst (snd (f e))) = coordinated (fst (snd e))"
  by (metis keeps_mode_def)

lemma fold_cubic_status: "g_status (fold (\<lambda>n. upd_axis n (f n)) ns g) = g_status g" by simp

lemma coord_point_coordinated:
  assumes "keeps_mode (runCycle period)"
  shows "coordinated (g_status (coord_point runCycle period g)) = coordinated (g_status g)"
  using keeps_modeD [OF assms, of "planner_env g"]
  by (simp add: coord_point_def Let_def planner_env_def split: prod.split)

lemma coord_axis_status: "coord_axis n g = Some g' \<Longrightarrow> g_status g' = g_status g"
  by (auto simp: coord_axis_def split: if_splits prod.splits option.splits)

lemma fold_coord_axis_status:
  "fold (\<lambda>n r. Option.bind r (coord_axis n)) ns r = Some g' \<Longrightarrow> \<exists>g. r = Some g \<and> g_status g' = g_status g"
proof (induction ns arbitrary: r)
  case (Cons n ns)
  from Cons.prems have "fold (\<lambda>n r. Option.bind r (coord_axis n)) ns (Option.bind r (coord_axis n)) = Some g'" by simp
  from Cons.IH [OF this] show ?case by (auto simp: Option.bind_eq_Some_conv dest: coord_axis_status)
qed simp

lemma get_pos_cmds_coordinated:
  assumes "keeps_mode (runCycle period)" "get_pos_cmds runCycle period g = Some g'" "coordinated (g_status g)"
  shows "coordinated (g_status g')"
proof -
  obtain h where h: "check_soft_limits h = Some g'"
    "ms_motion_state (g_status g) = EMCMOT_MOTION_COORD \<and> pos_cmds_coord runCycle period g = Some h
     \<or> h = pos_cmds_disabled g"
    using assms(2,3) by (auto simp: get_pos_cmds_def coordinated_def Option.bind_eq_Some_conv split: motion_state.splits)
  have "coordinated (g_status h)"
  proof (cases "h = pos_cmds_disabled g")
    case True
    then show ?thesis using assms(3) by (simp add: pos_cmds_disabled_def)
  next
    case False
    let ?g1 = "(upd_tele (\<lambda>t. snd (axis_jog_abort_all True t)) g)\<lparr>g_coord_cubic_active := True\<rparr>"
    from False h(2) obtain g2 g3 where l: "coord_loop runCycle period ?g1 = Some g2"
      and f: "fold (\<lambda>n r. Option.bind r (coord_axis n)) all_axis_nums (Some g2) = Some g3"
      and e: "h = upd_status (SET_MOTION_INPOS_FLAG (tpIsDone (mi_coord_tp (g_internal g3)) \<noteq> 0)) g3"
      by (auto simp: pos_cmds_coord_def Let_def split: option.splits)
    have "coordinated (g_status g2)"
      by (rule coord_loop_invariant(2) [OF l, where I = "\<lambda>h. coordinated (g_status h)"])
        (use assms in \<open>simp_all add: coord_point_coordinated\<close>)
    then show ?thesis using fold_coord_axis_status [OF f] e by auto
  qed
  then show ?thesis using check_soft_limits_frame(5,7) [OF h(1)] by (simp add: coordinated_def)
qed

lemma controller_coordinated:
  fixes g :: "'tc mot_state"
  assumes "keeps_mode (runCycle period)" "emcmotController runCycle period g = Some g'"
    "GET_MOTION_COORD_FLAG (g_status g)"
  shows "coordinated (g_status g')"
  using assms(2)
proof (rule controllerE)
  fix g1 g3 g4 g5 :: "'tc mot_state"
  let ?g2 = "process_inputs (handle_interpolation (upd_status (\<lambda>st. st\<lparr>ms_head := ms_head st + 1\<rparr>) g1))"
  assume 1: "sans_cubics g1 = sans_cubics g" and 3: "check_for_faults ?g2 = Some g3"
    and 4: "get_pos_cmds runCycle period (set_operating_mode g3) = Some g4"
    and 5: "update_status (output_to_hal g4) = Some g5" and g': "g' = finish_cycle g5"
  have "ms_motionFlag (g_status g1) = ms_motionFlag (g_status g)" using 1 by (simp add: sans_cubics_def)
  then have "GET_MOTION_COORD_FLAG (g_status ?g2)"
    using assms(3) handle_interpolation_flag [of "upd_status (\<lambda>st. st\<lparr>ms_head := ms_head st + 1\<rparr>) g1"]
    by (simp add: process_inputs_status GET_MOTION_COORD_FLAG_def)
  then have "GET_MOTION_COORD_FLAG (g_status g3)" using check_for_faults_frame(1) [OF 3] by simp
  then have "coordinated (g_status g4)"
    using get_pos_cmds_coordinated [OF assms(1) 4] set_operating_mode_coordinated by blast
  then have "coordinated (g_status g5)"
    using coordinated_cong [OF update_status_frame(3,4) [OF 5]] by simp
  then show ?thesis by (simp add: g' finish_cycle_def coordinated_def GET_MOTION_COORD_FLAG_def)
qed

lemma keeps_mode_app: "keeps_mode f \<Longrightarrow> f e = (tp, st, cf) \<Longrightarrow> coordinated st = coordinated (fst (snd e))"
  by (drule keeps_modeD [of f e]) simp

definition keeps_mode_seg :: "('a \<Rightarrow> 'tc planner_env \<Rightarrow> int \<times> 'tc planner_env) \<Rightarrow> bool" where
  "keeps_mode_seg f \<longleftrightarrow> (\<forall>a. keeps_mode (\<lambda>e. snd (f a e)))"

lemma keeps_mode_segD: "keeps_mode_seg f \<Longrightarrow> f a e = (r, tp, st, cf) \<Longrightarrow> coordinated st = coordinated (fst (snd e))"
  unfolding keeps_mode_seg_def using keeps_mode_app by (metis snd_conv)

lemma cmd_set_line_coordinated:
  assumes "keeps_mode_seg addLine" "cmd_set_line addLine g = Some g'"
  shows "coordinated (g_status g') = coordinated (g_status g)"
  using assms(2)
  by (auto simp: cmd_set_line_def reject_def planner_env_def Let_def
    split: if_splits option.splits bool.splits prod.splits dest!: keeps_mode_segD [OF assms(1)])

lemma cmd_set_circle_coordinated:
  assumes "keeps_mode_seg addCircle" "cmd_set_circle addCircle g = Some g'"
  shows "coordinated (g_status g') = coordinated (g_status g)"
  using assms(2)
  by (auto simp: cmd_set_circle_def reject_def planner_env_def Let_def
    split: if_splits option.splits bool.splits prod.splits dest!: keeps_mode_segD [OF assms(1)])

lemma cmd_abort_coordinated:
  "cmd_abort g = Some g' \<Longrightarrow> coordinated (g_status g') = coordinated (g_status g)"
  by (auto simp: cmd_abort_def Let_def fold_keeps [where P = g_status] split: option.splits if_splits)

lemma coordinated_accept:
  "coordinated (g_status (accept_command g)) = coordinated (g_status g)"
  "coordinated (g_status (sync_tails g)) = coordinated (g_status g)"
  "coordinated (g_status (cmd_pause g)) = coordinated (g_status g)"
  "coordinated (g_status (cmd_downloads_config n g)) = coordinated (g_status g)"
  by (simp_all add: accept_command_def sync_tails_def cmd_pause_def cmd_downloads_config_def Let_def
    coordinated_def GET_MOTION_COORD_FLAG_def)

lemma run_command_coordinated:
  assumes "keeps_mode_seg addLine" "keeps_mode_seg addCircle" "run_command addLine addCircle g = Some g'"
  shows "coordinated (g_status g') = coordinated (g_status g)"
  using assms(3)
  by (auto dest: cmd_set_line_coordinated [OF assms(1)] cmd_set_circle_coordinated [OF assms(2)]
    cmd_abort_coordinated simp: run_command_def Let_def on_axis_def on_jog_axis_def simple_cmds_echo coordinated_accept
    split: cmd_code.splits if_splits)

lemma handler_coordinated:
  assumes "keeps_mode_seg addLine" "keeps_mode_seg addCircle" "emcmotCommandHandler addLine addCircle g = Some g'"
  shows "coordinated (g_status g') = coordinated (g_status g)"
  using assms(3) run_command_coordinated [OF assms(1,2)]
  by (auto simp: emcmotCommandHandler_def emcmotCommandHandler_locked_def coordinated_accept split: if_splits)

text \<open>The machine: the task writes any command and the handler runs, the controller runs a cycle, the pins
  change.\<close>

inductive machine_step ::
  "(line_args \<Rightarrow> 'tc planner_env \<Rightarrow> int \<times> 'tc planner_env) \<Rightarrow> (circle_args \<Rightarrow> 'tc planner_env \<Rightarrow> int \<times> 'tc planner_env)
   \<Rightarrow> (int \<Rightarrow> 'tc planner_env \<Rightarrow> 'tc planner_env) \<Rightarrow> 'tc mot_state \<Rightarrow> 'tc mot_state \<Rightarrow> bool"
  for addLine addCircle runCycle where
  command: "emcmotCommandHandler addLine addCircle (upd_command (\<lambda>_. c) g) = Some g' \<Longrightarrow>
      machine_step addLine addCircle runCycle g g'"
| control: "emcmotController runCycle period g = Some g' \<Longrightarrow> machine_step addLine addCircle runCycle g g'"
| pins: "machine_step addLine addCircle runCycle g (upd_hal f g)"

lemma machine_step_coordinated:
  assumes "machine_step addLine addCircle runCycle g g'" "coordinated (g_status g)"
    and "keeps_mode_seg addLine" "keeps_mode_seg addCircle" "\<And>p. keeps_mode (runCycle p)"
  shows "coordinated (g_status g')"
  using assms(1)
proof (cases rule: machine_step.cases)
  case (command c)
  then show ?thesis using handler_coordinated [OF assms(3,4) command] assms(2) by simp
next
  case (control period)
  have "GET_MOTION_COORD_FLAG (g_status g)" using assms(2) by (simp add: coordinated_def)
  from controller_coordinated [OF assms(5) control this] show ?thesis .
next
  case (pins f)
  then show ?thesis using assms(2) by simp
qed

text \<open>C19: coordinated mode is never left for free mode. Once the coordinated flag is set, no sequence of commands,
  cycles and pin changes clears it or reaches the free mode again, the command that asks for free mode
  included: nothing clears the flag, and the mode is computed from it.\<close>

theorem no_return_to_free:
  assumes "(machine_step addLine addCircle runCycle)\<^sup>*\<^sup>* g g'"
    and "GET_MOTION_COORD_FLAG (g_status g)" "ms_motion_state (g_status g) \<noteq> EMCMOT_MOTION_FREE"
    and "keeps_mode_seg addLine" "keeps_mode_seg addCircle" "\<And>p. keeps_mode (runCycle p)"
  shows "GET_MOTION_COORD_FLAG (g_status g') \<and> ms_motion_state (g_status g') \<noteq> EMCMOT_MOTION_FREE"
proof -
  have "coordinated (g_status g')" using assms(1)
  proof (induction rule: rtranclp_induct)
    case base
    then show ?case using assms(2,3) by (simp add: coordinated_def)
  next
    case (step h k)
    then show ?case using machine_step_coordinated assms(4-6) by blast
  qed
  then show ?thesis by (simp add: coordinated_def)
qed

definition coord_state :: "unit mot_state" where
  "coord_state = mot_zero\<lparr>g_status := status_zero\<lparr>
     ms_motionFlag := or EMCMOT_MOTION_ENABLE_BIT EMCMOT_MOTION_COORD_BIT, ms_motion_state := EMCMOT_MOTION_COORD\<rparr>\<rparr>"

lemma still_keeps: "keeps_mode_seg no_line" "keeps_mode_seg no_circle" "keeps_mode (still p)"
  by (simp_all add: keeps_mode_seg_def keeps_mode_def no_line_def no_circle_def still_def)

theorem no_return_to_free_witness:
  "\<exists>g'. emcmotCommandHandler no_line no_circle (upd_command (\<lambda>_. code_command EMCMOT_SET_FREE 1) coord_state) = Some g'
     \<and> GET_MOTION_COORD_FLAG (g_status g')"
proof -
  obtain g' where h: "emcmotCommandHandler no_line no_circle (upd_command (\<lambda>_. code_command EMCMOT_SET_FREE 1) coord_state) = Some g'"
    by (simp add: emcmotCommandHandler_def emcmotCommandHandler_locked_def run_command_def coord_state_def mot_zero_def
      accept_command_def sync_tails_def code_command_def status_zero_def upd_defs)
  have "(machine_step no_line no_circle still)\<^sup>*\<^sup>* coord_state g'"
    by (rule r_into_rtranclp) (rule machine_step.command [OF h])
  from no_return_to_free [OF this] have "GET_MOTION_COORD_FLAG (g_status g')"
    by (simp add: still_keeps coord_state_def GET_MOTION_COORD_FLAG_def flag_get_def motion_bits)
  with h show ?thesis by blast
qed

theorem coord_loop_returns_witness:
  "coord_loop still 1 (coord_state\<lparr>g_axes := replicate 3 (axis_zero\<lparr>ax_flag := EMCMOT_AXIS_ACTIVE_BIT,
     ax_cubic := cubic_blank\<lparr>cu_configured := ALL_SET\<rparr>\<rparr>)\<rparr>) \<noteq> None"
  using coord_loop_returns [of "coord_state\<lparr>g_axes := replicate 3 (axis_zero\<lparr>ax_flag := EMCMOT_AXIS_ACTIVE_BIT,
     ax_cubic := cubic_blank\<lparr>cu_configured := ALL_SET\<rparr>\<rparr>)\<rparr>" still 1]
  by (simp add: EMCMOT_MAX_AXIS_def GET_AXIS_ACTIVE_FLAG_def flag_get_def axis_bits)

theorem coord_loop_hangs_witness:
  "coord_loop still 1 (coord_state\<lparr>g_axes := replicate 3 (axis_zero\<lparr>ax_cubic := cubicDrain cubic_blank\<rparr>)\<rparr>) = None"
  by (rule coord_loop_hangs)
    (simp_all add: EMCMOT_MAX_AXIS_def GET_AXIS_ACTIVE_FLAG_def flag_get_def axis_zero_def
      cubicNeedNextPoint_def cubicDrain_def)

section \<open>What trips and what does not\<close>

lemma check_axis_faults_id: "\<not> trips n g \<Longrightarrow> check_axis_faults n g = g"
  by (auto simp: check_axis_faults_def trips_def Let_def)

lemma fold_check_id: "(\<And>n. n \<in> set ns \<Longrightarrow> \<not> trips n g) \<Longrightarrow> fold check_axis_faults ns g = g"
  by (induction ns) (simp_all add: check_axis_faults_id)

text \<open>limit switches do not trip, overriding them does. When no axis has an amplifier fault or a following
  error, no override bit is set, the enable input is there and no miscellaneous error is pending, the
  fault check changes nothing, whatever the limit switch flags say; when an override bit of an active,
  enabled axis is set it withdraws the enable.\<close>

theorem limit_switches_do_not_trip:
  assumes "mg_numMiscError (g_config g) \<le> int EMCMOT_MAX_MISC_ERROR" "mh_enable (g_hal g)"
    and clean: "\<And>n. n < EMCMOT_MAX_AXIS \<Longrightarrow>
          \<not> GET_AXIS_FAULT_FLAG (g_axes g ! n) \<and> \<not> GET_AXIS_FERROR_FLAG (g_axes g ! n)"
    and misc: "list_all (\<lambda>i. ms_misc_error (g_status g) ! i = 0) [0..<nat (mg_numMiscError (g_config g))]"
    and len: "length (g_axes g) = EMCMOT_MAX_AXIS"
    and m: "m < EMCMOT_MAX_AXIS" "GET_AXIS_ACTIVE_FLAG (g_axes g ! m)" "GET_AXIS_ENABLE_FLAG (g_axes g ! m)"
  shows "if ms_overrideLimitMask (g_status g) = 0 then check_for_faults g = Some g
    else pos_limit_override (g_status g) m \<longrightarrow>
      (\<exists>g'. check_for_faults g = Some g' \<and> mi_enabling (g_internal g') = 0)"
proof (cases "ms_overrideLimitMask (g_status g) = 0")
  case True
  have "\<not> trips n g" if "n \<in> set all_axis_nums" for n
    using that clean [of n] True by (simp add: trips_def axis_tripped_def Let_def pos_limit_override_def neg_limit_override_def)
  then have "fold check_axis_faults all_axis_nums g = g" by (rule fold_check_id)
  moreover have "\<not> list_ex (\<lambda>i. ms_misc_error (g_status g) ! i \<noteq> 0) [0..<nat (mg_numMiscError (g_config g))]"
    using misc by (auto simp: list_ex_iff list_all_iff)
  ultimately show ?thesis using True assms(1,2) by (simp add: check_for_faults_def Let_def)
next
  case False
  have "\<exists>g'. check_for_faults g = Some g'"
    using assms(1) by (auto simp: check_for_faults_def set_enabling_def Let_def)
  moreover have "mi_enabling (g_internal g') = 0"
    if "check_for_faults g = Some g'" "pos_limit_override (g_status g) m" for g'
    using check_for_faults_zero [OF that(1) len] that(2) m by (auto simp: trips_def axis_tripped_def Let_def)
  ultimately show ?thesis using False by auto
qed

definition switch_state :: "unit mot_state" where
  "switch_state = mot_zero\<lparr>g_hal := hal_zero\<lparr>mh_enable := True\<rparr>,
     g_axes := replicate 3 (axis_zero\<lparr>ax_flag := or (or EMCMOT_AXIS_ACTIVE_BIT EMCMOT_AXIS_ENABLE_BIT)
       (or EMCMOT_AXIS_MAX_HARD_LIMIT_BIT EMCMOT_AXIS_MIN_HARD_LIMIT_BIT)\<rparr>)\<rparr>"

theorem limit_switches_do_not_trip_witness:
  "check_for_faults switch_state = Some switch_state \<and> GET_AXIS_PHL_FLAG (g_axes switch_state ! 0)
     \<and> GET_AXIS_NHL_FLAG (g_axes switch_state ! 0)"
proof -
  have e: "GET_AXIS_ACTIVE_FLAG (g_axes switch_state ! 0)" "GET_AXIS_ENABLE_FLAG (g_axes switch_state ! 0)"
    "GET_AXIS_PHL_FLAG (g_axes switch_state ! 0)" "GET_AXIS_NHL_FLAG (g_axes switch_state ! 0)"
    by (simp_all add: switch_state_def axis_flag_get_defs flag_get_def axis_bits)
  have c: "\<not> GET_AXIS_FAULT_FLAG (g_axes switch_state ! n) \<and> \<not> GET_AXIS_FERROR_FLAG (g_axes switch_state ! n)"
    if "n < EMCMOT_MAX_AXIS" for n
    using that by (simp add: EMCMOT_MAX_AXIS_def switch_state_def axis_flag_get_defs flag_get_def axis_bits)
  have "ms_overrideLimitMask (g_status switch_state) = 0"
    by (simp add: switch_state_def mot_zero_def status_zero_def)
  moreover have "if ms_overrideLimitMask (g_status switch_state) = 0
    then check_for_faults switch_state = Some switch_state
    else pos_limit_override (g_status switch_state) 0 \<longrightarrow>
      (\<exists>g'. check_for_faults switch_state = Some g' \<and> mi_enabling (g_internal g') = 0)"
    by (rule limit_switches_do_not_trip [OF _ _ c _ _ axis_0 e(1,2)])
      (simp_all add: switch_state_def mot_zero_def config_zero_def hal_zero_def EMCMOT_MAX_AXIS_def)
  ultimately show ?thesis using e by simp
qed

text \<open>the following-error limit follows the signed velocity. For an axis whose limits are ordered the limit lies
  between them at every forward velocity up to the axis' own and is the high one at full speed; moving
  backwards, at any speed, it is the low one.\<close>

theorem ferror_limit_signed:
  assumes "0 < ax_vel_limit a" "0 \<le> ax_min_ferror a" "ax_min_ferror a \<le> ax_max_ferror a"
    and "- ax_vel_limit a \<le> ax_vel_cmd a" "ax_vel_cmd a \<le> ax_vel_limit a"
  shows "if ax_vel_cmd a \<le> 0 then ferror_limit_of a = ax_min_ferror a
    else ax_min_ferror a \<le> ferror_limit_of a \<and> ferror_limit_of a \<le> ax_max_ferror a
      \<and> (ax_vel_cmd a = ax_vel_limit a \<longrightarrow> ferror_limit_of a = ax_max_ferror a)"
proof -
  let ?m = "ax_max_ferror a" and ?v = "ax_vel_cmd a" and ?l = "ax_vel_limit a"
  let ?q = "\<bar>?m * ?v\<bar> div ?l"
  have s: "(?m * ?v) sdiv ?l = sgn (?m * ?v) * ?q"
    using assms(1) by (simp add: signed_divide_int_def)
  have m0: "0 \<le> ?m" using assms by linarith
  have av: "\<bar>?v\<bar> \<le> ?l" using assms(4,5) by linarith
  have "\<bar>?m * ?v\<bar> \<le> ?m * ?l" using m0 av by (simp add: abs_mult mult_left_mono)
  then have "?q \<le> ?m" using assms(1) zdiv_mono1 [of "\<bar>?m * ?v\<bar>" "?m * ?l" ?l] by simp
  moreover have q0: "0 \<le> ?q" using assms(1) by (simp add: pos_imp_zdiv_nonneg_iff)
  ultimately have q: "0 \<le> ?q" "?q \<le> ?m" by simp_all
  show ?thesis
  proof (cases "?v \<le> 0")
    case True
    have "?m * ?v \<le> 0" using m0 True by (simp add: mult_nonneg_nonpos)
    then have "(?m * ?v) sdiv ?l \<le> 0" "- ?m \<le> (?m * ?v) sdiv ?l"
      unfolding s using q by (auto simp: sgn_if)
    with True assms(1,2) show ?thesis by (auto simp: ferror_limit_of_def Let_def)
  next
    case False
    have "0 \<le> ?m * ?v" using m0 False by simp
    then have d: "(?m * ?v) sdiv ?l = ?q" unfolding s by (cases "?m * ?v = 0") (auto simp: sgn_if)
    define L where "L = (?m * ?v) sdiv ?l"
    have L: "L = ?q" unfolding L_def by (rule d)
    have f: "ferror_limit_of a = (if L < ax_min_ferror a then ax_min_ferror a else L)"
      using assms(1) by (simp add: ferror_limit_of_def Let_def L_def)
    have "L \<le> ?m" "?v = ?l \<Longrightarrow> L = ?m" using q L m0 assms(1) by (simp_all add: abs_mult)
    then show ?thesis using False f assms(3) by auto
  qed
qed

theorem ferror_limit_signed_witness:
  "ferror_limit_of (axis_zero\<lparr>ax_vel_limit := 10, ax_vel_cmd := -10, ax_min_ferror := 4, ax_max_ferror := 400\<rparr>) = 4"
  using ferror_limit_signed [of "axis_zero\<lparr>ax_vel_limit := 10, ax_vel_cmd := -10, ax_min_ferror := 4, ax_max_ferror := 400\<rparr>"]
  by simp

end
