(* ===== verification/MotionInitProps.thy ===== *)
theory MotionInitProps
  imports ControlProps
begin

text \<open>
  Start-up: the interpolators are configured when the threads start and stay so, the cycle times that
  are recorded, and the positions the axes start from.
\<close>

declare max_axis_upt [simp del]

section \<open>Configured interpolators\<close>

definition cubics :: "'tc mot_state \<Rightarrow> cubic list" where
  "cubics g = map ax_cubic (g_axes g)"

lemma cubics_upd_axis [simp]:
  "cubics (upd_axis n (\<lambda>a. a\<lparr>ax_cubic := f (ax_cubic a)\<rparr>) g) = (cubics g)[n := f (cubics g ! n)]"
  by (cases "n < length (g_axes g)") (simp_all add: cubics_def upd_axis_def map_update list_update_beyond)

lemma cubics_other [simp]:
  "cubics (upd_config c g) = cubics g" "cubics (upd_tp_struct t g) = cubics g" "cubics (emcmot_config_change g) = cubics g"
  "cubics (upd_status st g) = cubics g" "cubics (upd_internal i g) = cubics g" "cubics (upd_tele k g) = cubics g"
  by (simp_all add: cubics_def emcmot_config_change_def Let_def)

lemma cubics_upd_cubics:
  assumes "length (g_axes g) = EMCMOT_MAX_AXIS"
  shows "cubics (upd_cubics f g) = map f (cubics g)"
proof -
  have "g_axes (upd_cubics f g) = map (\<lambda>n. (g_axes g ! n)\<lparr>ax_cubic := f (ax_cubic (g_axes g ! n))\<rparr>) all_axis_nums"
    using assms by (simp add: upd_cubics_def fold_all_axes)
  then show ?thesis using assms by (auto simp: cubics_def intro!: nth_equalityI)
qed

definition cubic_set :: "cubic \<Rightarrow> bool" where
  "cubic_set c \<longleftrightarrow> cu_configured c = ALL_SET \<and> 0 < cu_segmentTime c \<and> 0 < cu_interpolationRate c
     \<and> cu_interpolationIncrement c = cu_segmentTime c / of_int (cu_interpolationRate c)"

lemma all_set_or: "or ALL_SET SEGMENT_TIME_SET = ALL_SET" "or ALL_SET INTERPOLATION_RATE_SET = ALL_SET"
  by (simp_all add: ALL_SET_def SEGMENT_TIME_SET_def INTERPOLATION_RATE_SET_def)

lemma cubic_set_rate: "cubic_set c \<Longrightarrow> cubic_set (snd (cubicSetInterpolationRate c r))"
  by (simp add: cubic_set_def cubicSetInterpolationRate_def cubic_increment_def all_set_or)

lemma cubic_set_time: "cubic_set c \<Longrightarrow> cubic_set (snd (cubicSetSegmentTime c s))"
  by (simp add: cubic_set_def cubicSetSegmentTime_def cubic_increment_def all_set_or)

definition configured :: "'tc mot_state \<Rightarrow> bool" where
  "configured g \<longleftrightarrow> length (g_axes g) = EMCMOT_MAX_AXIS \<and> list_all cubic_set (cubics g)"

lemma length_cubics [simp]: "length (cubics g) = length (g_axes g)"
  by (simp add: cubics_def)

lemma length_upd_cubics [simp]: "length (g_axes (upd_cubics f g)) = length (g_axes g)"
  by (simp add: upd_cubics_def)

lemma axes_config_change [simp]: "g_axes (emcmot_config_change g) = g_axes g"
  by (simp add: emcmot_config_change_def Let_def)

lemma setTraj_configured: "configured g \<Longrightarrow> configured (snd (setTrajCycleTime s g))"
  by (simp add: configured_def setTrajCycleTime_def Let_def cubics_upd_cubics list_all_iff cubic_set_rate)

lemma setServo_configured: "configured g \<Longrightarrow> configured (snd (setServoCycleTime s g))"
  by (simp add: configured_def setServoCycleTime_def Let_def cubics_upd_cubics list_all_iff cubic_set_rate cubic_set_time)

lemma setCycle_configured: "configured g \<Longrightarrow> emcmotSetCycleTime p g = Some g' \<Longrightarrow> configured g'"
  by (auto simp: emcmotSetCycleTime_def Let_def setTraj_configured setServo_configured split: if_splits)

lemma traj_period_simps [simp]:
  "g_traj_period_nsec (upd_config c g) = g_traj_period_nsec g" "g_traj_period_nsec (upd_status s g) = g_traj_period_nsec g"
  "g_traj_period_nsec (upd_internal i g) = g_traj_period_nsec g" "g_traj_period_nsec (upd_tele k g) = g_traj_period_nsec g"
  "g_traj_period_nsec (upd_axis n f g) = g_traj_period_nsec g"
  "g_traj_period_nsec (emcmot_config_change g) = g_traj_period_nsec g"
  "g_traj_period_nsec (fold (\<lambda>n. upd_axis n (f' n)) ns g) = g_traj_period_nsec g"
  "g_traj_period_nsec (upd_cubics k' g) = g_traj_period_nsec g"
proof -
  show f: "g_traj_period_nsec (fold (\<lambda>n. upd_axis n (f' n)) ns g) = g_traj_period_nsec g" for f' ns and g :: "'a mot_state"
    by (induction ns arbitrary: g) (simp_all add: upd_axis_def)
  show "g_traj_period_nsec (upd_cubics k' g) = g_traj_period_nsec g"
    by (simp add: upd_cubics_def f)
qed (simp_all add: upd_defs emcmot_config_change_def Let_def)

lemma config_cubics [simp]:
  "g_config (upd_cubics f g) = g_config g" "g_config (upd_tp_struct t g) = g_config g"
  by (simp_all add: upd_cubics_def)

lemma config_change_times [simp]:
  "mg_trajCycleTime (g_config (emcmot_config_change g)) = mg_trajCycleTime (g_config g)"
  "mg_servoCycleTime (g_config (emcmot_config_change g)) = mg_servoCycleTime (g_config g)"
  by (simp_all add: emcmot_config_change_def Let_def)

lemma d2i_milli: "d2i (1 / 1000 :: real) = 0" "d2i (1 / 2 :: real) = 0" "d2i (2001 / 2 :: real) = 1000"
  by (simp_all add: d2i_def r_trunc_def in_s32_def INT32_MIN_def INT32_MAX_def floor_eq_iff)

text \<open>The interpolators a zeroed shared memory starts with.\<close>

definition fresh :: "'tc mot_state \<Rightarrow> bool" where
  "fresh g \<longleftrightarrow> length (g_axes g) = EMCMOT_MAX_AXIS \<and> mg_trajCycleTime (g_config g) = 0
     \<and> mg_servoCycleTime (g_config g) = 0 \<and> g_traj_period_nsec g = 0"

text \<open>the interpolators are configured when the threads start. From a zeroed structure, initialising it and
  setting the start-up cycle times configures the interpolator of every axis with a segment of one
  millisecond in 1000 steps, and setting other cycle times later keeps all of them configured.\<close>

theorem start_configures:
  assumes "fresh g"
  shows "configured (init_cycle_times (init_motion_comm_buffers g))
    \<and> list_all (\<lambda>c. cu_segmentTime c = 0.001 \<and> cu_interpolationRate c = 1000)
        (cubics (init_cycle_times (init_motion_comm_buffers g)))
    \<and> (emcmotSetCycleTime p (init_cycle_times (init_motion_comm_buffers g)) = Some g' \<longrightarrow> configured g')"
proof -
  define h where "h = init_motion_comm_buffers g"
  have l: "length (g_axes h) = EMCMOT_MAX_AXIS"
    using assms by (simp add: h_def init_motion_comm_buffers_def fresh_def Let_def)
  have conf: "mg_trajCycleTime (g_config h) = 0" "mg_servoCycleTime (g_config h) = 0" "g_traj_period_nsec h = 0"
    using assms by (simp_all add: h_def init_motion_comm_buffers_def fresh_def Let_def emcmot_config_change_def)
  have cu: "list_all (\<lambda>c. cu_configured c = 0 \<and> cu_interpolationRate c = 0) (cubics h)"
  proof -
    have "g_axes h = map (\<lambda>n. init_axis (g_axes g ! n)) all_axis_nums"
      using assms by (simp add: h_def init_motion_comm_buffers_def fresh_def Let_def fold_all_axes)
    then show ?thesis by (simp add: cubics_def list_all_iff init_axis_def cubicInit_def cubicDrain_def SET_AXIS_INPOS_FLAG_def)
  qed
  define g1 where "g1 = h\<lparr>g_traj_period_nsec := SERVO_PERIOD_NSEC * 1000\<rparr>"
  have 1: "length (g_axes g1) = EMCMOT_MAX_AXIS" "mg_trajCycleTime (g_config g1) = 0" "cubics g1 = cubics h"
    "mg_servoCycleTime (g_config g1) = 0" using l conf by (simp_all add: g1_def cubics_def)
  define g2 where "g2 = snd (setServoCycleTime 0.001 g1)"
  have 2: "length (g_axes g2) = EMCMOT_MAX_AXIS" "mg_servoCycleTime (g_config g2) = 0.001"
    "cubics g2 = map (\<lambda>c. snd (cubicSetSegmentTime (snd (cubicSetInterpolationRate c 0)) 0.001)) (cubics h)"
    using 1 d2i_milli by (simp_all add: g2_def setServoCycleTime_def Let_def cubics_upd_cubics emcmot_config_change_def)
  define g3 where "g3 = snd (setTrajCycleTime 1 g2)"
  have 3: "length (g_axes g3) = EMCMOT_MAX_AXIS"
    "cubics g3 = map (\<lambda>c. snd (cubicSetInterpolationRate c 1000)) (cubics g2)"
  proof -
    have r: "d2i (1 / mg_servoCycleTime (g_config g2) + 0.5) = 1000" "mg_servoCycleTime (g_config g2) \<noteq> 0"
      unfolding 2(2) by (simp_all add: d2i_milli)
    show "length (g_axes g3) = EMCMOT_MAX_AXIS" "cubics g3 = map (\<lambda>c. snd (cubicSetInterpolationRate c 1000)) (cubics g2)"
      using 2(1) r by (simp_all add: g3_def setTrajCycleTime_def Let_def cubics_upd_cubics)
  qed
  have e: "init_cycle_times h = g3"
  proof -
    have "g_traj_period_nsec g2 = 1000000000"
      by (simp add: g2_def g1_def setServoCycleTime_def Let_def SERVO_PERIOD_NSEC_def)
    then show ?thesis using conf
      by (simp add: init_cycle_times_def Let_def g3_def g1_def [symmetric] g2_def [symmetric] SERVO_PERIOD_NSEC_def [symmetric])
        (simp add: g2_def SERVO_PERIOD_NSEC_def)
  qed
  have c3: "list_all (\<lambda>c. cubic_set c \<and> cu_segmentTime c = 0.001 \<and> cu_interpolationRate c = 1000) (cubics g3)"
    unfolding 3(2) 2(3) using cu
    by (auto simp: list_all_iff cubic_set_def cubicSetSegmentTime_def cubicSetInterpolationRate_def cubic_increment_def
      ALL_SET_def SEGMENT_TIME_SET_def INTERPOLATION_RATE_SET_def)
  have "configured g3" using 3(1) c3 by (auto simp: configured_def list_all_iff)
  then show ?thesis
    using c3 setCycle_configured unfolding h_def [symmetric] e by (auto simp: list_all_iff)
qed

section \<open>Recorded cycle times\<close>

text \<open>the two cycle times are swapped. When the trajectory period is a multiple of the period the controller
  runs at, \<open>emcmotSetCycleTime\<close> records the controller's own period as the trajectory cycle and the
  multiple as the servo cycle, the cubic segments last that multiple, and from a multiple of three on
  the interpolation rate it computes is 0.\<close>

theorem cycle_times_swapped:
  assumes "0 < period" "0 < m" "period * m < 2 ^ 31" "g_traj_period_nsec g = period * m"
  shows "\<exists>g'. emcmotSetCycleTime period g = Some g'
    \<and> mg_trajCycleTime (g_config g') = of_int period * 0.000000001
    \<and> mg_servoCycleTime (g_config g') = of_int (period * m) * 0.000000001
    \<and> mg_interpolationRate (g_config g') = (if m \<le> 2 then 1 else 0)"
proof -
  have pm: "period \<le> period * m" "m \<le> period * m"
    using assms by simp_all
  have "period * m < 2 ^ 64" using assms by simp
  then have "period < 2 ^ 64" "period * m < 2 ^ 64" "0 \<le> period" "0 \<le> period * m"
    using assms pm by linarith+
  then have u: "period mod 2 ^ 64 = period" "(period * m) mod 2 ^ 64 = period * m"
    by (simp_all only: mod_pos_pos_trivial)
  have q: "s32 (((period * m) mod 2 ^ 64) div period) = m"
  proof -
    have "in_s32 m"
      unfolding in_s32_def INT32_MIN_def INT32_MAX_def using assms pm by (intro conjI; linarith)
    then show ?thesis using assms(1) u by (simp add: s32_id)
  qed
  have rate: "d2i (of_int period * 0.000000001 / (of_int (period * m) * 0.000000001) + 0.5) = (if m \<le> 2 then 1 else 0)"
  proof -
    have e: "real_of_int period * 0.000000001 / (of_int (period * m) * 0.000000001) + 0.5 = 1 / of_int m + 1 / 2"
      using assms by simp
    consider "m = 1" | "m = 2" | "3 \<le> m" using assms by linarith
    then show ?thesis
    proof cases
      case 3
      then have "0 < (1 :: real) / of_int m" "(1 :: real) / of_int m < 1 / 2" by (simp_all add: field_simps)
      then have "\<lfloor>(1 :: real) / of_int m + 1 / 2\<rfloor> = 0"
        by (intro floor_unique) (simp, linarith)
      then show ?thesis using 3 unfolding e by (simp add: d2i_def r_trunc_def in_s32_def INT32_MIN_def INT32_MAX_def)
    qed (use assms(1) in \<open>simp_all add: e d2i_def r_trunc_def in_s32_def INT32_MIN_def INT32_MAX_def floor_eq_iff\<close>)
  qed
  have p: "\<not> real_of_int period * 0.000000001 \<le> 0" "\<not> real_of_int (period * m) * 0.000000001 \<le> 0"
    using assms by (simp_all add: mult_le_0_iff)
  define g1 where "g1 = snd (setTrajCycleTime (of_int period * 0.000000001) g)"
  have 1: "mg_trajCycleTime (g_config g1) = of_int period * 0.000000001"
    using p(1) by (simp add: g1_def setTrajCycleTime_def Let_def)
  define g2 where "g2 = snd (setServoCycleTime (of_int (period * m) * 0.000000001) g1)"
  have "emcmotSetCycleTime period g = Some g2"
    using assms u q unfolding emcmotSetCycleTime_def Let_def g2_def g1_def by simp
  moreover have "mg_trajCycleTime (g_config g2) = of_int period * 0.000000001"
    "mg_servoCycleTime (g_config g2) = of_int (period * m) * 0.000000001"
    "mg_interpolationRate (g_config g2) = d2i (of_int period * 0.000000001 / (of_int (period * m) * 0.000000001) + 0.5)"
    using p(2) 1 by (simp_all add: g2_def setServoCycleTime_def Let_def)
  ultimately show ?thesis using rate by auto
qed

theorem start_configures_witness:
  "configured (init_cycle_times (init_motion_comm_buffers (mot_zero :: unit mot_state)))"
  using start_configures [of "mot_zero :: unit mot_state" 0 undefined]
  by (simp add: fresh_def mot_zero_def config_zero_def EMCMOT_MAX_AXIS_def)

theorem cycle_times_swapped_witness:
  "\<exists>g'. emcmotSetCycleTime 1000000 (mot_zero\<lparr>g_traj_period_nsec := 1000000000\<rparr> :: unit mot_state) = Some g'
     \<and> mg_interpolationRate (g_config g') = 0"
  using cycle_times_swapped [of 1000000 1000 "mot_zero\<lparr>g_traj_period_nsec := 1000000000\<rparr> :: unit mot_state"] by auto

text \<open>every axis starts from the position of axis 0. Loading the actual positions into the single-axis
  planners gives all of them the first element of the position array.\<close>

theorem axis_param_first:
  assumes "length (g_axes g) = EMCMOT_MAX_AXIS" "numAxes \<le> EMCMOT_MAX_AXIS" "n < numAxes"
  shows "tp_curr_pos (ax_free_tp (g_axes (updata_axis_param numAxes g) ! n)) = s32 (g_actpos g ! 0)"
  using assms unfolding updata_axis_param_def by (subst fold_axes) simp_all

theorem axis_param_first_witness:
  "tp_curr_pos (ax_free_tp (g_axes (updata_axis_param 3 (mot_zero\<lparr>g_actpos := [5, 70, 900]\<rparr> :: unit mot_state)) ! 2)) = 5"
  using axis_param_first [of "mot_zero\<lparr>g_actpos := [5, 70, 900]\<rparr> :: unit mot_state" 3 2]
  by (simp add: mot_zero_def EMCMOT_MAX_AXIS_def s32_id in_s32_def INT32_MIN_def INT32_MAX_def)

end
