(* ===== verification/Bytes.thy ===== *)
theory Bytes
  imports Prelude
begin

text \<open>
  Bytes and byte memory: little-endian integers, checked reads and writes at an offset, and the
  contract of a fixed-size wire format as a locale. The socket frames (\<open>hal/hpsocket.c\<close>) are packed
  structures copied with \<open>memcpy\<close> on a little-endian target. \<open>None\<close> is an access outside the object.
\<close>

section \<open>Memory\<close>

definition slice :: "'a list \<Rightarrow> nat \<Rightarrow> nat \<Rightarrow> 'a list" where
  "slice m off n = take n (drop off m)"

definition mem_read :: "'a list \<Rightarrow> nat \<Rightarrow> nat \<Rightarrow> 'a list option" where
  "mem_read m off n = (if off + n \<le> length m then Some (slice m off n) else None)"

definition mem_write :: "'a list \<Rightarrow> nat \<Rightarrow> 'a list \<Rightarrow> 'a list option" where
  "mem_write m off bs =
     (if off + length bs \<le> length m then Some (take off m @ bs @ drop (off + length bs) m) else None)"

lemma length_slice [simp]: "off + n \<le> length m \<Longrightarrow> length (slice m off n) = n"
  by (simp add: slice_def)

lemma slice_all [simp]: "n = length m \<Longrightarrow> slice m 0 n = m"
  by (simp add: slice_def)

lemma nth_slice: "off + n \<le> length m \<Longrightarrow> i < n \<Longrightarrow> slice m off n ! i = m ! (off + i)"
  by (simp add: slice_def)

lemma slice_append1 [simp]: "off + n \<le> length a \<Longrightarrow> slice (a @ b) off n = slice a off n"
  by (simp add: slice_def)

lemma slice_append2 [simp]: "length a \<le> off \<Longrightarrow> slice (a @ b) off n = slice b (off - length a) n"
  by (simp add: slice_def)

lemma mem_read_Some [simp]: "off + n \<le> length m \<Longrightarrow> mem_read m off n = Some (slice m off n)"
  by (simp add: mem_read_def)

lemma mem_read_None [simp]: "length m < off + n \<Longrightarrow> mem_read m off n = None"
  by (simp add: mem_read_def)

lemma mem_write_Some_iff: "(\<exists>m'. mem_write m off bs = Some m') \<longleftrightarrow> off + length bs \<le> length m"
  by (simp add: mem_write_def)

lemma mem_write_None [simp]: "length m < off + length bs \<Longrightarrow> mem_write m off bs = None"
  by (simp add: mem_write_def)

lemma length_mem_write: "mem_write m off bs = Some m' \<Longrightarrow> length m' = length m"
  by (auto simp: mem_write_def split: if_splits)

lemma slice_mem_write:
  assumes "mem_write m off bs = Some m'"
  shows "slice m' off (length bs) = bs"
  using assms by (auto simp: mem_write_def slice_def split: if_splits)

lemma slice_mem_write_other:
  assumes w: "mem_write m off bs = Some m'" and o: "off' + n \<le> off \<or> off + length bs \<le> off'"
    and l: "off' + n \<le> length m"
  shows "slice m' off' n = slice m off' n"
proof (rule nth_equalityI)
  fix i assume "i < length (slice m' off' n)"
  moreover have len: "length m' = length m" by (rule length_mem_write [OF w])
  ultimately have i: "i < n" using l by simp
  have m': "m' = take off m @ bs @ drop (off + length bs) m" "off + length bs \<le> length m"
    using w by (auto simp: mem_write_def split: if_splits)
  have "m' ! (off' + i) = m ! (off' + i)"
  proof (cases "off' + i < off")
    case True
    then show ?thesis using m'(2) by (simp add: m'(1) nth_append)
  next
    case False
    with o i have "off + length bs \<le> off' + i" by linarith
    then obtain k where "off' + i = off + length bs + k" using le_Suc_ex by blast
    then show ?thesis using m'(2) by (simp add: m'(1) nth_append)
  qed
  then show "slice m' off' n ! i = slice m off' n ! i"
    using i l len by (simp add: nth_slice)
qed (use length_mem_write [OF w] l in simp)

section \<open>Little-endian integers\<close>

definition le_bytes :: "nat \<Rightarrow> 'a::len word \<Rightarrow> byte list" where
  "le_bytes n w = map (\<lambda>i. ucast (drop_bit (8 * i) w)) [0..<n]"

primrec le_word :: "byte list \<Rightarrow> 'a::len word" where
  "le_word [] = 0"
| "le_word (b # bs) = or (ucast b) (push_bit 8 (le_word bs))"

lemma length_le_bytes [simp]: "length (le_bytes n w) = n"
  by (simp add: le_bytes_def)

lemma bit_byte: "bit (b :: byte) i \<Longrightarrow> i < 8"
  using bit_imp_le_length [of b i] by simp

lemma bit_le_word:
  "bit (le_word bs :: 'a::len word) i \<longleftrightarrow>
     i < LENGTH('a) \<and> i div 8 < length bs \<and> bit (bs ! (i div 8)) (i mod 8)"
proof (induction bs arbitrary: i)
  case Nil
  then show ?case by simp
next
  case (Cons b bs)
  have step: "bit (le_word (b # bs) :: 'a word) i \<longleftrightarrow>
      i < LENGTH('a) \<and> (bit b i \<or> 8 \<le> i \<and> bit (le_word bs :: 'a word) (i - 8))"
    by (auto simp: bit_simps)
  show ?case
  proof (cases "i < 8")
    case True
    then show ?thesis unfolding step by simp
  next
    case False
    then have "i div 8 = Suc ((i - 8) div 8)" "i mod 8 = (i - 8) mod 8"
      by (simp_all add: le_div_geq le_mod_geq)
    with False show ?thesis unfolding step Cons.IH by (auto dest: bit_byte)
  qed
qed

lemma le_word_bytes [simp]:
  assumes "8 * n = LENGTH('a)"
  shows "le_word (le_bytes n w) = (w :: 'a::len word)"
proof (rule bit_word_eqI)
  fix i assume i: "i < LENGTH('a)"
  with assms have "i div 8 < n" by simp
  moreover have "8 * (i div 8) + i mod 8 = i" by simp
  ultimately show "bit (le_word (le_bytes n w) :: 'a word) i \<longleftrightarrow> bit w i"
    using i by (simp add: bit_le_word le_bytes_def bit_simps)
qed

lemma le_bytes_word [simp]:
  assumes "n = length bs" "8 * n \<le> LENGTH('a)"
  shows "le_bytes n (le_word bs :: 'a::len word) = bs"
proof (rule nth_equalityI)
  fix k assume "k < length (le_bytes n (le_word bs :: 'a word))"
  then have k: "k < n" by simp
  show "le_bytes n (le_word bs :: 'a word) ! k = bs ! k"
  proof (rule bit_word_eqI)
    fix i assume "i < LENGTH(8)"
    then have i: "i < 8" by simp
    then have "(8 * k + i) div 8 = k" "(8 * k + i) mod 8 = i" by simp_all
    moreover have "8 * k + i < LENGTH('a)" using k i assms(2) by linarith
    ultimately show "bit (le_bytes n (le_word bs :: 'a word) ! k) i \<longleftrightarrow> bit (bs ! k) i"
      using k i assms(1) by (simp add: le_bytes_def bit_simps bit_le_word)
  qed
qed (use assms in simp)

lemma unat_16: "n < 2 ^ 16 \<Longrightarrow> unat (of_nat n :: 16 word) = n"
  by (simp add: unsigned_of_nat take_bit_nat_eq_self)

text \<open>An \<open>int32_t\<close> in memory.\<close>

definition int32_bytes :: "int \<Rightarrow> byte list" where
  "int32_bytes x = le_bytes 4 (word_of_int x :: 32 word)"

definition int32_of :: "byte list \<Rightarrow> int" where
  "int32_of bs = sint (le_word bs :: 32 word)"

lemma length_int32_bytes [simp]: "length (int32_bytes x) = 4"
  by (simp add: int32_bytes_def)

lemma int32_of_bytes: "in_s32 x \<Longrightarrow> int32_of (int32_bytes x) = x"
  using s32_id [of x] by (simp add: int32_of_def int32_bytes_def s32_def signed_of_int)

section \<open>Fixed-size formats\<close>

text \<open>
  A format: every valid value is encoded in the same number of bytes, and decoding gives it back.
  What follows for memory and for arrays of records is proved once.
\<close>

locale wire_format =
  fixes enc :: "'a \<Rightarrow> 'b list"
    and dec :: "'b list \<Rightarrow> 'a"
    and size :: nat
    and valid :: "'a \<Rightarrow> bool"
  assumes enc_length: "valid x \<Longrightarrow> length (enc x) = size"
    and dec_enc: "valid x \<Longrightarrow> dec (enc x) = x"
begin

lemma enc_inj: "valid x \<Longrightarrow> valid y \<Longrightarrow> enc x = enc y \<Longrightarrow> x = y"
  using dec_enc by metis

lemma read_written:
  assumes "valid x" "mem_write m off (enc x) = Some m'"
  shows "dec (slice m' off size) = x"
  using slice_mem_write [OF assms(2)] enc_length [OF assms(1)] dec_enc [OF assms(1)] by simp

lemma write_fits: "valid x \<Longrightarrow> off + size \<le> length m \<Longrightarrow> \<exists>m'. mem_write m off (enc x) = Some m'"
  by (simp add: mem_write_Some_iff enc_length)

lemma write_overruns: "valid x \<Longrightarrow> length m < off + size \<Longrightarrow> mem_write m off (enc x) = None"
  by (simp add: enc_length)

lemma read_other:
  assumes "valid x" "mem_write m off (enc x) = Some m'" "off' + n \<le> off \<or> off + size \<le> off'"
    "off' + n \<le> length m"
  shows "slice m' off' n = slice m off' n"
  using assms enc_length by (intro slice_mem_write_other [OF assms(2)]) auto

lemma length_records: "\<forall>x \<in> set xs. valid x \<Longrightarrow> length (concat (map enc xs)) = length xs * size"
  by (induction xs) (auto simp: enc_length)

lemma nth_record:
  assumes "\<forall>x \<in> set xs. valid x" "i < length xs"
  shows "dec (slice (concat (map enc xs)) (i * size) size) = xs ! i"
  using assms
proof (induction xs arbitrary: i)
  case Nil
  then show ?case by simp
next
  case (Cons x xs)
  show ?case
  proof (cases i)
    case 0
    with Cons.prems show ?thesis by (simp add: slice_def enc_length dec_enc)
  next
    case (Suc j)
    with Cons.prems have "valid x" "j < length xs" "\<forall>x \<in> set xs. valid x" by auto
    with Suc Cons.IH [of j] show ?thesis by (simp add: enc_length)
  qed
qed

end

interpretation u16: wire_format "le_bytes 2 :: 16 word \<Rightarrow> byte list" le_word 2 "\<lambda>_. True"
  by unfold_locales simp_all

interpretation u32: wire_format "le_bytes 4 :: 32 word \<Rightarrow> byte list" le_word 4 "\<lambda>_. True"
  by unfold_locales simp_all

interpretation i32: wire_format int32_bytes int32_of 4 in_s32
  by unfold_locales (simp_all add: int32_of_bytes)

end
