(* ===== verification/HpRing.thy ===== *)
theory HpRing
  imports Bytes Fifo
begin

text \<open>
  The receive ring of the network interface (\<open>hal/hpsocket.c\<close>): the packed \<open>linux_frame_t\<close> and the ring
  of frames in a byte array, with its read and write. The ring meets the FIFO contract when its
  memory has room for every slot; the memory it is initialised with has room for half of them.
  \<open>None\<close> is an access outside the array.
\<close>

section \<open>Frames\<close>

definition BUFFER_NUM :: nat where "BUFFER_NUM = 64"
definition BUFFER_SIZE :: nat where "BUFFER_SIZE = 128"

record linux_frame =
  lf_header :: "32 word"
  lf_data_length :: "16 word"
  lf_payload :: "byte list"
  lf_checksum :: "32 word"

definition LINUX_PAYLOAD :: nat where "LINUX_PAYLOAD = 128"
definition LINUX_FRAME_SIZE :: nat where "LINUX_FRAME_SIZE = 138"

definition linux_frame_bytes :: "linux_frame \<Rightarrow> byte list" where
  "linux_frame_bytes f =
     le_bytes 4 (lf_header f) @ le_bytes 2 (lf_data_length f) @ lf_payload f @ le_bytes 4 (lf_checksum f)"

definition linux_frame_of :: "byte list \<Rightarrow> linux_frame" where
  "linux_frame_of bs =
     \<lparr>lf_header = le_word (slice bs 0 4), lf_data_length = le_word (slice bs 4 2),
      lf_payload = slice bs 6 LINUX_PAYLOAD, lf_checksum = le_word (slice bs 134 4)\<rparr>"

section \<open>The receive ring\<close>

record ring_buff =
  rb_Head :: byte
  rb_Tail :: byte
  rb_Length :: byte
  rb_buffNum :: "32 word"
  rb_buffByte :: "32 word"
  rb_pBuffer :: "byte list"

text \<open>The offset of a slot: the index is promoted to \<open>uint32_t\<close> and the product wraps.\<close>

definition slot_offset :: "ring_buff \<Rightarrow> byte \<Rightarrow> nat" where
  "slot_offset r i = unat (ucast i * rb_buffByte r)"

definition next_index :: "ring_buff \<Rightarrow> byte \<Rightarrow> byte" where
  "next_index r i = ucast ((ucast i + 1 :: 32 word) mod rb_buffNum r)"

text \<open>The C functions return \<open>uint8_t\<close>, so \<open>-1\<close> is 255.\<close>

definition write_ringbuff :: "linux_frame \<Rightarrow> ring_buff \<Rightarrow> (byte \<times> ring_buff) option" where
  "write_ringbuff frame r =
     (if ucast (rb_Length r) \<ge> rb_buffNum r then Some (-1, r)
      else if of_nat LINUX_FRAME_SIZE > rb_buffByte r then Some (-1, r)
      else case mem_write (rb_pBuffer r) (slot_offset r (rb_Tail r)) (linux_frame_bytes frame) of
        None \<Rightarrow> None
      | Some m \<Rightarrow> Some (0, r\<lparr>rb_pBuffer := m, rb_Tail := next_index r (rb_Tail r),
                            rb_Length := rb_Length r + 1\<rparr>))"

definition read_ringbuff :: "ring_buff \<Rightarrow> (byte \<times> linux_frame option \<times> ring_buff) option" where
  "read_ringbuff r =
     (if rb_Length r = 0 then Some (-1, None, r)
      else if slot_offset r (rb_Head r) \<ge> unat (rb_buffNum r * rb_buffByte r) then Some (-1, None, r)
      else case mem_read (rb_pBuffer r) (slot_offset r (rb_Head r)) LINUX_FRAME_SIZE of
        None \<Rightarrow> None
      | Some bs \<Rightarrow> Some (0, Some (linux_frame_of bs), r\<lparr>rb_Head := next_index r (rb_Head r),
                                                       rb_Length := rb_Length r - 1\<rparr>))"

text \<open>\<open>storage\<close> is the static array \<open>buffer_storage[BUFFER_NUM][BUFFER_SIZE]\<close>, as bytes.\<close>

definition init_ring :: "byte list \<Rightarrow> ring_buff" where
  "init_ring storage = \<lparr>rb_Head = 0, rb_Tail = 0, rb_Length = 0, rb_buffNum = of_nat BUFFER_NUM,
     rb_buffByte = of_nat (BUFFER_SIZE * 2), rb_pBuffer = storage\<rparr>"

section \<open>The frame format\<close>

lemma length_linux_frame_bytes [simp]:
  "length (lf_payload f) = LINUX_PAYLOAD \<Longrightarrow> length (linux_frame_bytes f) = LINUX_FRAME_SIZE"
  by (simp add: linux_frame_bytes_def LINUX_PAYLOAD_def LINUX_FRAME_SIZE_def)

lemma linux_frame_of_bytes:
  assumes "length (lf_payload f) = LINUX_PAYLOAD"
  shows "linux_frame_of (linux_frame_bytes f) = f"
  using assms by (simp add: linux_frame_of_def linux_frame_bytes_def LINUX_PAYLOAD_def)

interpretation rx_frame: wire_format linux_frame_bytes linux_frame_of LINUX_FRAME_SIZE
  "\<lambda>f. length (lf_payload f) = LINUX_PAYLOAD"
  by unfold_locales (simp_all add: linux_frame_of_bytes)

lemma linux_frame_of_payload [simp]:
  "length bs = LINUX_FRAME_SIZE \<Longrightarrow> length (lf_payload (linux_frame_of bs)) = LINUX_PAYLOAD"
  by (simp add: linux_frame_of_def LINUX_PAYLOAD_def LINUX_FRAME_SIZE_def)

text \<open>The type of the C structure: its payload is an array of 128 bytes.\<close>

typedef rx_frame_t = "{f :: linux_frame. length (lf_payload f) = LINUX_PAYLOAD}"
  morphisms frame_of Frame
  by (rule exI [of _ "\<lparr>lf_header = 0, lf_data_length = 0, lf_payload = replicate LINUX_PAYLOAD 0,
    lf_checksum = 0\<rparr>"]) simp

lemma frame_of_payload [simp]: "length (lf_payload (frame_of f)) = LINUX_PAYLOAD"
  using frame_of by simp

lemma frame_of_Frame [simp]: "length (lf_payload f) = LINUX_PAYLOAD \<Longrightarrow> frame_of (Frame f) = f"
  by (simp add: Frame_inverse)

section \<open>Indices and slots\<close>

lemma unat_byte_32 [simp]: "unat (ucast (i :: byte) :: 32 word) = unat i"
proof -
  have "unat i < 2 ^ 8" using unsigned_less [of i] by simp
  then have "unat i < 2 ^ 32" by simp
  then show ?thesis by (simp add: unsigned_ucast_eq take_bit_nat_eq_self)
qed

lemma mod_offset_inj_nat:
  assumes "a < s" "b < s" "(i + a) mod s = (i + b) mod (s :: nat)"
  shows "a = b"
proof -
  have "(int i + int a) mod int s = (int i + int b) mod int s"
    using assms(3) by (metis of_nat_add of_nat_mod)
  with mod_offset_inj [of "int a" "int s" "int b" "int i"] assms(1,2) show ?thesis by simp
qed

lemma slot_offset_unat:
  assumes "unat i < unat (rb_buffNum r)" "unat (rb_buffNum r) * unat (rb_buffByte r) < 2 ^ 32"
  shows "slot_offset r i = unat i * unat (rb_buffByte r)"
proof -
  have "unat i * unat (rb_buffByte r) \<le> unat (rb_buffNum r) * unat (rb_buffByte r)"
    using assms(1) by simp
  then have "unat i * unat (rb_buffByte r) < 2 ^ 32" using assms(2) by linarith
  then show ?thesis by (simp add: slot_offset_def unat_word_ariths)
qed

lemma next_index_unat:
  assumes "unat i < unat (rb_buffNum r)" "unat (rb_buffNum r) < 256"
  shows "unat (next_index r i) = (unat i + 1) mod unat (rb_buffNum r)"
proof -
  let ?N = "unat (rb_buffNum r)"
  have "unat i + 1 < 2 ^ 32" using assms by simp
  then have "unat (ucast i + 1 :: 32 word) = unat i + 1" by (simp add: unat_word_ariths)
  moreover have "(unat i + 1) mod ?N < 256"
    using assms mod_less_divisor [of ?N "unat i + 1"] by linarith
  ultimately show ?thesis by (simp add: next_index_def unat_word_ariths unsigned_ucast_eq take_bit_nat_eq_self)
qed

section \<open>The ring as a queue\<close>

definition slot_at :: "ring_buff \<Rightarrow> nat \<Rightarrow> nat" where
  "slot_at r k = (k mod unat (rb_buffNum r)) * unat (rb_buffByte r)"

definition rb_list :: "ring_buff \<Rightarrow> linux_frame list" where
  "rb_list r = map (\<lambda>k. linux_frame_of (slice (rb_pBuffer r) (slot_at r (unat (rb_Head r) + k)) LINUX_FRAME_SIZE))
     [0..<unat (rb_Length r)]"

text \<open>
  The indices of a well-formed ring; that the slots from \<open>Head\<close> on lie inside the memory; and both with
  memory for all slots.
\<close>

definition rb_core :: "ring_buff \<Rightarrow> bool" where
  "rb_core r \<longleftrightarrow>
     (let N = unat (rb_buffNum r); B = unat (rb_buffByte r) in
      0 < N \<and> N < 256 \<and> LINUX_FRAME_SIZE \<le> B \<and> N * B < 2 ^ 32 \<and>
      unat (rb_Head r) < N \<and> unat (rb_Length r) \<le> N \<and>
      unat (rb_Tail r) = (unat (rb_Head r) + unat (rb_Length r)) mod N)"

definition rb_live :: "ring_buff \<Rightarrow> nat \<Rightarrow> bool" where
  "rb_live r n \<longleftrightarrow>
     (\<forall>k < n. slot_at r (unat (rb_Head r) + k) + LINUX_FRAME_SIZE \<le> length (rb_pBuffer r))"

definition rb_wf :: "ring_buff \<Rightarrow> bool" where
  "rb_wf r \<longleftrightarrow> rb_core r \<and> unat (rb_buffNum r) * unat (rb_buffByte r) \<le> length (rb_pBuffer r)"

definition rb_room :: "ring_buff \<Rightarrow> bool" where
  "rb_room r \<longleftrightarrow> unat (rb_Length r) < unat (rb_buffNum r)"

definition rb_contents :: "ring_buff \<Rightarrow> rx_frame_t list" where
  "rb_contents r = map Frame (rb_list r)"

definition rb_enq :: "rx_frame_t \<Rightarrow> ring_buff \<Rightarrow> ring_buff option" where
  "rb_enq f r = (case write_ringbuff (frame_of f) r of Some (rv, r') \<Rightarrow> if rv = 0 then Some r' else None
                 | None \<Rightarrow> None)"

definition rb_deq :: "ring_buff \<Rightarrow> (rx_frame_t \<times> ring_buff) option" where
  "rb_deq r = (case read_ringbuff r of Some (rv, Some f, r') \<Rightarrow> Some (Frame f, r') | _ \<Rightarrow> None)"

lemma rb_coreD:
  assumes "rb_core r"
  shows "0 < unat (rb_buffNum r)" "unat (rb_buffNum r) < 256" "LINUX_FRAME_SIZE \<le> unat (rb_buffByte r)"
    "unat (rb_buffNum r) * unat (rb_buffByte r) < 2 ^ 32"
    "unat (rb_Head r) < unat (rb_buffNum r)" "unat (rb_Length r) \<le> unat (rb_buffNum r)"
    "unat (rb_Tail r) = (unat (rb_Head r) + unat (rb_Length r)) mod unat (rb_buffNum r)"
    "unat (rb_Tail r) < unat (rb_buffNum r)"
  using assms by (simp_all add: rb_core_def Let_def)

text \<open>Different slots do not overlap, and a well-formed ring has memory for all.\<close>

lemma slots_disjoint:
  assumes "rb_core r" "j mod unat (rb_buffNum r) \<noteq> k mod unat (rb_buffNum r)"
  shows "slot_at r j + LINUX_FRAME_SIZE \<le> slot_at r k \<or> slot_at r k + LINUX_FRAME_SIZE \<le> slot_at r j"
proof -
  let ?B = "unat (rb_buffByte r)"
  have "a * ?B + LINUX_FRAME_SIZE \<le> b * ?B" if "a < b" for a b
  proof -
    from that have "Suc a * ?B \<le> b * ?B" by (intro mult_le_mono1) simp
    with rb_coreD(3) [OF assms(1)] show ?thesis by simp
  qed
  with assms(2) show ?thesis unfolding slot_at_def by (metis nat_neq_iff)
qed

lemma rb_wf_core: "rb_wf r \<Longrightarrow> rb_core r"
  by (simp add: rb_wf_def)

lemma rb_wf_live:
  assumes "rb_wf r"
  shows "rb_live r n"
proof -
  let ?N = "unat (rb_buffNum r)" and ?B = "unat (rb_buffByte r)"
  note W = rb_coreD [OF rb_wf_core [OF assms]]
  have "slot_at r k + LINUX_FRAME_SIZE \<le> length (rb_pBuffer r)" for k
  proof -
    have "Suc (k mod ?N) \<le> ?N" using W(1) by (simp add: Suc_leI)
    then have "Suc (k mod ?N) * ?B \<le> ?N * ?B" by (rule mult_le_mono1)
    with W(3) assms show ?thesis by (simp add: slot_at_def rb_wf_def)
  qed
  then show ?thesis by (simp add: rb_live_def)
qed

lemma rb_liveD:
  "rb_live r n \<Longrightarrow> k < n \<Longrightarrow> slot_at r (unat (rb_Head r) + k) + LINUX_FRAME_SIZE \<le> length (rb_pBuffer r)"
  by (simp add: rb_live_def)

lemma rb_list_length [simp]: "length (rb_list r) = unat (rb_Length r)"
  by (simp add: rb_list_def)

lemma ucast_le_unat: "(ucast (i :: byte) :: 32 word) \<ge> n \<longleftrightarrow> unat n \<le> unat i"
  by (simp add: word_le_nat_alt)

lemma byte_inc: "unat (i :: byte) < 255 \<Longrightarrow> unat (i + 1) = unat i + 1"
  by (simp add: unat_word_ariths)

lemma byte_dec: "(i :: byte) \<noteq> 0 \<Longrightarrow> unat (i - 1) = unat i - 1"
  by (simp add: unat_minus_one)

lemma write_ringbuff_core:
  assumes wf: "rb_core r" and live: "rb_live r (Suc (unat (rb_Length r)))" and room: "rb_room r"
    and f: "length (lf_payload f) = LINUX_PAYLOAD"
  shows "\<exists>r'. write_ringbuff f r = Some (0, r') \<and> rb_core r' \<and> rb_live r' (unat (rb_Length r')) \<and>
    rb_list r' = rb_list r @ [f] \<and> rb_Head r' = rb_Head r \<and> rb_buffNum r' = rb_buffNum r \<and>
    rb_buffByte r' = rb_buffByte r \<and> length (rb_pBuffer r') = length (rb_pBuffer r)"
proof -
  note W = rb_coreD [OF wf]
  let ?N = "unat (rb_buffNum r)" and ?h = "unat (rb_Head r)" and ?n = "unat (rb_Length r)"
  have n: "?n < ?N" using room by (simp add: rb_room_def)
  have off: "slot_offset r (rb_Tail r) = slot_at r (?h + ?n)"
    using W(4,7,8) by (simp add: slot_offset_unat slot_at_def)
  obtain m where m: "mem_write (rb_pBuffer r) (slot_at r (?h + ?n)) (linux_frame_bytes f) = Some m"
    using rx_frame.write_fits [OF f] rb_liveD [OF live, of ?n] by blast
  have len: "length m = length (rb_pBuffer r)" by (rule length_mem_write [OF m])
  define r' where "r' = r\<lparr>rb_pBuffer := m, rb_Tail := next_index r (rb_Tail r), rb_Length := rb_Length r + 1\<rparr>"
  have small: "\<not> of_nat LINUX_FRAME_SIZE > rb_buffByte r"
    using W(3) by (simp add: word_less_nat_alt LINUX_FRAME_SIZE_def)
  have step: "write_ringbuff f r = Some (0, r')"
    using n small by (simp add: write_ringbuff_def ucast_le_unat off m r'_def)
  have n': "unat (rb_Length r') = ?n + 1" using n W(2) by (simp add: r'_def byte_inc)
  have tail: "unat (rb_Tail r') = (?h + (?n + 1)) mod ?N"
    using W(2,7,8) by (simp add: r'_def next_index_unat mod_Suc_eq)
  have keep: "rb_buffNum r' = rb_buffNum r" "rb_buffByte r' = rb_buffByte r" "rb_Head r' = rb_Head r"
    "rb_pBuffer r' = m" by (simp_all add: r'_def)
  have wf': "rb_core r'"
    using W n n' tail by (simp add: rb_core_def Let_def keep)
  have slot: "slot_at r' k = slot_at r k" for k by (simp add: slot_at_def keep)
  have live': "rb_live r' (unat (rb_Length r'))"
    using live by (simp add: rb_live_def slot keep n' len)
  have other: "slice m (slot_at r (?h + k)) LINUX_FRAME_SIZE
      = slice (rb_pBuffer r) (slot_at r (?h + k)) LINUX_FRAME_SIZE" if "k < ?n" for k
  proof (rule rx_frame.read_other [OF f m])
    have "(?h + k) mod ?N \<noteq> (?h + ?n) mod ?N"
      using mod_offset_inj_nat [of k ?N ?n ?h] that n by auto
    with slots_disjoint [OF wf] show "slot_at r (?h + k) + LINUX_FRAME_SIZE \<le> slot_at r (?h + ?n) \<or>
      slot_at r (?h + ?n) + LINUX_FRAME_SIZE \<le> slot_at r (?h + k)" by blast
  qed (use rb_liveD [OF live, of k] that in simp)
  have "rb_list r' = rb_list r @ [f]"
    unfolding rb_list_def n' slot keep
    using rx_frame.read_written [OF f m] other by simp
  with step wf' live' show ?thesis by (simp add: keep len)
qed

lemma write_ringbuff_full: "\<not> rb_room r \<Longrightarrow> write_ringbuff f r = Some (-1, r)"
  by (simp add: write_ringbuff_def rb_room_def ucast_le_unat not_less)

lemma read_ringbuff_core:
  assumes wf: "rb_core r" and live: "rb_live r (unat (rb_Length r))" and l: "rb_list r = f # fs"
  shows "\<exists>r'. read_ringbuff r = Some (0, Some f, r') \<and> rb_core r' \<and> rb_live r' (unat (rb_Length r')) \<and>
    rb_list r' = fs \<and> rb_Tail r' = rb_Tail r \<and> rb_buffNum r' = rb_buffNum r \<and>
    rb_buffByte r' = rb_buffByte r \<and> rb_pBuffer r' = rb_pBuffer r"
proof -
  note W = rb_coreD [OF wf]
  let ?N = "unat (rb_buffNum r)" and ?h = "unat (rb_Head r)" and ?n = "unat (rb_Length r)"
  have n: "0 < ?n" using l rb_list_length [of r] by simp
  then have nz: "rb_Length r \<noteq> 0" by (simp add: unat_gt_0)
  have off: "slot_offset r (rb_Head r) = slot_at r ?h"
    using W(4,5) by (simp add: slot_offset_unat slot_at_def)
  have lim: "unat (rb_buffNum r * rb_buffByte r) = ?N * unat (rb_buffByte r)"
    using W(4) by (simp add: unat_word_ariths)
  have "Suc ?h * unat (rb_buffByte r) \<le> ?N * unat (rb_buffByte r)"
    using W(5) by (intro mult_le_mono1) simp
  then have in_range: "\<not> slot_at r ?h \<ge> ?N * unat (rb_buffByte r)"
    using W(3,5) by (simp add: slot_at_def LINUX_FRAME_SIZE_def)
  define r' where "r' = r\<lparr>rb_Head := next_index r (rb_Head r), rb_Length := rb_Length r - 1\<rparr>"
  have keep: "rb_buffNum r' = rb_buffNum r" "rb_buffByte r' = rb_buffByte r" "rb_Tail r' = rb_Tail r"
    "rb_pBuffer r' = rb_pBuffer r" by (simp_all add: r'_def)
  have slot: "slot_at r' k = slot_at r k" for k by (simp add: slot_at_def keep)
  have n': "unat (rb_Length r') = ?n - 1" using nz by (simp add: r'_def byte_dec)
  have h': "unat (rb_Head r') = (?h + 1) mod ?N"
    using W(2,5) by (simp add: r'_def next_index_unat)
  have split: "[0..<?n] = 0 # map Suc [0..<?n - 1]"
    using n by (metis Suc_diff_1 map_Suc_upt upt_conv_Cons)
  have read: "linux_frame_of (slice (rb_pBuffer r) (slot_at r ?h) LINUX_FRAME_SIZE) = f"
    and fs: "map (\<lambda>k. linux_frame_of (slice (rb_pBuffer r) (slot_at r (?h + Suc k)) LINUX_FRAME_SIZE)) [0..<?n - 1] = fs"
    using l unfolding rb_list_def split by (simp_all add: o_def)
  have step: "read_ringbuff r = Some (0, Some f, r')"
    using nz in_range rb_liveD [OF live n] by (simp add: read_ringbuff_def off lim read r'_def)
  have shift: "slot_at r ((?h + 1) mod ?N + k) = slot_at r (?h + Suc k)" for k
    by (simp add: slot_at_def mod_add_left_eq)
  have "rb_list r' = fs"
    unfolding rb_list_def n' slot keep h' shift by (rule fs)
  moreover have "((?h + 1) mod ?N + (?n - 1)) mod ?N = (?h + ?n) mod ?N"
  proof -
    have "(?h + 1 + (?n - 1)) mod ?N = (?h + ?n) mod ?N" using n by simp
    then show ?thesis by (simp only: mod_add_left_eq)
  qed
  then have "rb_core r'"
    using W n' h' n by (simp add: rb_core_def Let_def keep)
  moreover have "rb_live r' (unat (rb_Length r'))"
    unfolding rb_live_def n' slot keep h' shift
    using rb_liveD [OF live, of "Suc k" for k] n by simp
  ultimately show ?thesis using step by (simp add: keep)
qed

lemma read_ringbuff_empty: "rb_list r = [] \<Longrightarrow> read_ringbuff r = Some (-1, None, r)"
proof -
  assume "rb_list r = []"
  then have "unat (rb_Length r) = 0" using rb_list_length [of r] by simp
  then show ?thesis by (simp add: read_ringbuff_def unat_eq_zero)
qed

lemma write_ringbuff_wf:
  assumes "rb_wf r" "rb_room r" "length (lf_payload f) = LINUX_PAYLOAD"
  shows "\<exists>r'. write_ringbuff f r = Some (0, r') \<and> rb_wf r' \<and> rb_list r' = rb_list r @ [f]"
  using write_ringbuff_core [OF rb_wf_core [OF assms(1)] rb_wf_live [OF assms(1)] assms(2,3)] assms(1)
  by (auto simp: rb_wf_def)

lemma read_ringbuff_wf:
  assumes "rb_wf r" "rb_list r = f # fs"
  shows "\<exists>r'. read_ringbuff r = Some (0, Some f, r') \<and> rb_wf r' \<and> rb_list r' = fs"
  using read_ringbuff_core [OF rb_wf_core [OF assms(1)] rb_wf_live [OF assms(1)] assms(2)] assms(1)
  by (auto simp: rb_wf_def)

interpretation rx_ring: bounded_fifo rb_enq rb_deq rb_contents rb_room rb_wf
proof unfold_locales
  fix q a assume "rb_wf q" "rb_room q"
  from write_ringbuff_wf [OF this, of "frame_of a"]
  show "\<exists>q'. rb_enq a q = Some q' \<and> rb_wf q' \<and> rb_contents q' = rb_contents q @ [a]"
    by (auto simp: rb_enq_def rb_contents_def frame_of_inverse)
next
  fix q a assume "rb_wf q" "\<not> rb_room q"
  then show "rb_enq a q = None" by (simp add: rb_enq_def write_ringbuff_full)
next
  fix q x xs assume wf: "rb_wf q" and c: "rb_contents q = x # xs"
  then obtain f fs where l: "rb_list q = f # fs" "x = Frame f" "xs = map Frame fs"
    by (auto simp: rb_contents_def)
  from read_ringbuff_wf [OF wf l(1)] l(2,3)
  show "\<exists>q'. rb_deq q = Some (x, q') \<and> rb_wf q' \<and> rb_contents q' = xs"
    by (auto simp: rb_deq_def rb_contents_def)
next
  fix q assume "rb_wf q" "rb_contents q = []"
  then show "rb_deq q = None" by (simp add: rb_deq_def rb_contents_def read_ringbuff_empty)
qed

section \<open>Properties\<close>

text \<open>A ring whose memory holds its slots keeps the order of its frames.\<close>

lemma rb_wf_order:
  assumes "rb_wf r" "fifo_run rb_enq rb_deq r ops = (i, out, r')"
  shows "rb_wf r' \<and> rb_contents r @ i = out @ rb_contents r'"
  by (rule rx_ring.run_order [OF assms])

text \<open>The states the ring goes through until 32 frames have been written: \<open>t\<close> counts them.\<close>

definition ring_after :: "nat \<Rightarrow> ring_buff \<Rightarrow> bool" where
  "ring_after t r \<longleftrightarrow> rb_buffNum r = of_nat BUFFER_NUM \<and> rb_buffByte r = of_nat (BUFFER_SIZE * 2) \<and>
     length (rb_pBuffer r) = BUFFER_NUM * BUFFER_SIZE \<and> t \<le> 32 \<and> unat (rb_Tail r) = t \<and>
     unat (rb_Head r) + unat (rb_Length r) = t"

lemmas ring_sizes = BUFFER_NUM_def BUFFER_SIZE_def LINUX_FRAME_SIZE_def LINUX_PAYLOAD_def

lemma ring_after_offset:
  assumes "ring_after t r" "unat i \<le> 32"
  shows "slot_offset r i = unat i * 256"
  using assms slot_offset_unat [of i r] by (simp add: ring_after_def ring_sizes)

lemma ring_after_next:
  assumes "ring_after t r" "unat i < 32"
  shows "unat (next_index r i) = unat i + 1"
  using assms next_index_unat [of i r] by (simp add: ring_after_def ring_sizes)

lemma ring_after_write:
  assumes r: "ring_after t r" and t: "t < 32" and f: "length (lf_payload f) = LINUX_PAYLOAD"
  shows "\<exists>r'. write_ringbuff f r = Some (0, r') \<and> ring_after (Suc t) r'"
proof -
  have "t * 256 + LINUX_FRAME_SIZE \<le> length (rb_pBuffer r)"
    using r t by (simp add: ring_after_def ring_sizes)
  then obtain m where m: "mem_write (rb_pBuffer r) (t * 256) (linux_frame_bytes f) = Some m"
    using rx_frame.write_fits [OF f] by blast
  then have len: "length m = length (rb_pBuffer r)" by (rule length_mem_write)
  have "unat (rb_Length r) < 255" "unat (rb_Length r) < 64" using r t by (auto simp: ring_after_def)
  then show ?thesis
    using r t m len ring_after_offset [OF r, of "rb_Tail r"] ring_after_next [OF r, of "rb_Tail r"]
    by (simp add: write_ringbuff_def ring_after_def byte_inc ucast_le_unat ring_sizes)
qed

lemma ring_after_read:
  assumes r: "ring_after t r"
  shows "\<exists>rv fr r'. read_ringbuff r = Some (rv, fr, r') \<and> ring_after t r'"
proof (cases "rb_Length r = 0")
  case True
  with r show ?thesis by (simp add: read_ringbuff_def)
next
  case False
  then have "0 < unat (rb_Length r)" by (simp add: unat_gt_0)
  with r have h: "unat (rb_Head r) < 32" by (auto simp: ring_after_def)
  with r have "unat (rb_Head r) * 256 + LINUX_FRAME_SIZE \<le> length (rb_pBuffer r)"
    by (simp add: ring_after_def ring_sizes)
  then show ?thesis
    using r False h ring_after_offset [OF r, of "rb_Head r"] ring_after_next [OF r, of "rb_Head r"]
      \<open>0 < unat (rb_Length r)\<close>
    by (simp add: read_ringbuff_def ring_after_def byte_dec ring_sizes)
qed

lemma ring_after_overrun:
  assumes r: "ring_after 32 r" and f: "length (lf_payload f) = LINUX_PAYLOAD"
  shows "write_ringbuff f r = None"
proof -
  have "length (rb_pBuffer r) < 32 * 256 + LINUX_FRAME_SIZE"
    using r by (simp add: ring_after_def ring_sizes)
  from rx_frame.write_overruns [OF f this]
  have "mem_write (rb_pBuffer r) (32 * 256) (linux_frame_bytes f) = None" .
  moreover have "unat (rb_Length r) < 64" using r by (auto simp: ring_after_def)
  ultimately show ?thesis
    using r ring_after_offset [OF r, of "rb_Tail r"]
    by (simp add: write_ringbuff_def ring_after_def ucast_le_unat ring_sizes)
qed

text \<open>A run of calls, whatever they return.\<close>

fun rx_run :: "linux_frame fifo_op list \<Rightarrow> ring_buff \<Rightarrow> ring_buff option" where
  "rx_run [] r = Some r"
| "rx_run (Enq f # ops) r = (case write_ringbuff f r of None \<Rightarrow> None | Some (rv, r') \<Rightarrow> rx_run ops r')"
| "rx_run (Deq # ops) r = (case read_ringbuff r of None \<Rightarrow> None | Some (rv, fr, r') \<Rightarrow> rx_run ops r')"

fun enqs :: "'a fifo_op list \<Rightarrow> 'a list" where
  "enqs [] = []"
| "enqs (Enq a # ops) = a # enqs ops"
| "enqs (Deq # ops) = enqs ops"

lemma ring_after_run:
  assumes "ring_after t r" "t + length (enqs ops) \<le> 32"
    "\<forall>f \<in> set (enqs ops). length (lf_payload f) = LINUX_PAYLOAD"
  shows "\<exists>r'. rx_run ops r = Some r' \<and> ring_after (t + length (enqs ops)) r'"
  using assms
proof (induction ops arbitrary: t r rule: enqs.induct)
  case 1
  then show ?case by simp
next
  case (2 f ops)
  then have "t < 32" "length (lf_payload f) = LINUX_PAYLOAD" by simp_all
  from ring_after_write [OF "2.prems"(1) this] obtain r' where r': "write_ringbuff f r = Some (0, r')"
    "ring_after (Suc t) r'" by blast
  from "2.IH" [OF r'(2)] "2.prems" r'(1) show ?case by simp
next
  case (3 ops)
  from ring_after_read [OF "3.prems"(1)] obtain rv fr r' where r': "read_ringbuff r = Some (rv, fr, r')"
    "ring_after t r'" by blast
  from "3.IH" [OF r'(2)] "3.prems" r'(1) show ?case by simp
qed

text \<open>
  What the calls of a run return, and the ring they leave; and what the same calls return on a list of frames
  that never runs full.
\<close>

fun rx_trace ::
  "linux_frame fifo_op list \<Rightarrow> ring_buff \<Rightarrow> ((byte \<times> linux_frame option) list \<times> ring_buff) option" where
  "rx_trace [] r = Some ([], r)"
| "rx_trace (Enq f # ops) r =
     (case write_ringbuff f r of None \<Rightarrow> None
      | Some (rv, r') \<Rightarrow> map_option (apfst (Cons (rv, None))) (rx_trace ops r'))"
| "rx_trace (Deq # ops) r =
     (case read_ringbuff r of None \<Rightarrow> None
      | Some (rv, fr, r') \<Rightarrow> map_option (apfst (Cons (rv, fr))) (rx_trace ops r'))"

fun list_trace :: "'a fifo_op list \<Rightarrow> 'a list \<Rightarrow> (byte \<times> 'a option) list \<times> 'a list" where
  "list_trace [] q = ([], q)"
| "list_trace (Enq f # ops) q = apfst (Cons (0, None)) (list_trace ops (q @ [f]))"
| "list_trace (Deq # ops) [] = apfst (Cons (-1, None)) (list_trace ops [])"
| "list_trace (Deq # ops) (f # q) = apfst (Cons (0, Some f)) (list_trace ops q)"

lemma ring_after_core:
  assumes "ring_after t r" shows "rb_core r"
  using assms by (auto simp: ring_after_def rb_core_def Let_def ring_sizes)

lemma ring_after_live:
  assumes "ring_after t r" "unat (rb_Head r) + n \<le> 32" shows "rb_live r n"
  using assms by (auto simp: ring_after_def rb_live_def slot_at_def ring_sizes)

lemma ring_after_trace:
  assumes "ring_after t r" "t + length (enqs ops) \<le> 32"
    "\<forall>f \<in> set (enqs ops). length (lf_payload f) = LINUX_PAYLOAD" "rb_list r = q"
  shows "\<exists>r'. rx_trace ops r = Some (fst (list_trace ops q), r') \<and> rb_list r' = snd (list_trace ops q)"
  using assms
proof (induction ops q arbitrary: t r rule: list_trace.induct)
  case (2 f ops q)
  have l: "rb_live r (Suc (unat (rb_Length r)))" and room: "rb_room r"
    using "2.prems"(1,2) ring_after_live [OF "2.prems"(1), of "Suc (unat (rb_Length r))"]
    by (auto simp: ring_after_def rb_room_def ring_sizes)
  have f: "length (lf_payload f) = LINUX_PAYLOAD" using "2.prems"(3) by simp
  from write_ringbuff_core [OF ring_after_core [OF "2.prems"(1)] l room f] obtain r1 where
    w: "write_ringbuff f r = Some (0, r1)" "rb_list r1 = q @ [f]" using "2.prems"(4) by auto
  moreover have "ring_after (Suc t) r1" using ring_after_write [OF "2.prems"(1) _ f] "2.prems"(2) w(1) by auto
  ultimately show ?case using "2.IH" [of "Suc t" r1] "2.prems"(2,3) by auto
next
  case (3 ops)
  have e: "read_ringbuff r = Some (-1, None, r)" using "3.prems"(4) by (rule read_ringbuff_empty)
  then show ?case using "3.IH" [OF "3.prems"(1) _ _ "3.prems"(4)] "3.prems"(2,3) by auto
next
  case (4 ops f q)
  have "rb_live r (unat (rb_Length r))"
    using "4.prems"(1) ring_after_live [OF "4.prems"(1), of "unat (rb_Length r)"] by (auto simp: ring_after_def)
  from read_ringbuff_core [OF ring_after_core [OF "4.prems"(1)] this "4.prems"(4)] obtain r1 where
    w: "read_ringbuff r = Some (0, Some f, r1)" "rb_list r1 = q" by auto
  moreover have "ring_after t r1" using ring_after_read [OF "4.prems"(1)] w(1) by auto
  ultimately show ?case using "4.IH" [of t r1] "4.prems"(2,3) by auto
qed simp

lemma init_ring_after: "length storage = BUFFER_NUM * BUFFER_SIZE \<Longrightarrow> ring_after 0 (init_ring storage)"
  by (simp add: ring_after_def init_ring_def)

text \<open>
  C20: The ring of the program is a queue for its first 32 frames. On the ring as it is initialised, every run of
  writes and reads with at most 32 writes returns what it would return on a list of frames that never runs full:
  each write is taken, each read yields the oldest frame that has not been read, bit for bit, or -1 when there
  is none; and the ring is left with the frames of that list.
\<close>

theorem rx_ring_order:
  assumes "length storage = BUFFER_NUM * BUFFER_SIZE" "length (enqs ops) \<le> 32"
    "\<forall>f \<in> set (enqs ops). length (lf_payload f) = LINUX_PAYLOAD"
  shows "\<exists>r. rx_trace ops (init_ring storage) = Some (fst (list_trace ops []), r) \<and> rb_list r = snd (list_trace ops [])"
proof -
  have "rb_list (init_ring storage) = []" by (simp add: rb_list_def init_ring_def)
  with ring_after_trace [OF init_ring_after [OF assms(1)] _ assms(3)] assms(2) show ?thesis by simp
qed

text \<open>Two frames written, three reads.\<close>

definition frame_ex :: "16 word \<Rightarrow> linux_frame" where
  "frame_ex n = \<lparr>lf_header = 0xDDCC, lf_data_length = n, lf_payload = replicate LINUX_PAYLOAD 7, lf_checksum = 0\<rparr>"

theorem rx_ring_order_witness:
  "\<exists>r. rx_trace [Enq (frame_ex 1), Enq (frame_ex 2), Deq, Deq, Deq] (init_ring (replicate 8192 0))
     = Some ([(0, None), (0, None), (0, Some (frame_ex 1)), (0, Some (frame_ex 2)), (-1, None)], r) \<and> rb_list r = []"
  using rx_ring_order [of "replicate 8192 0" "[Enq (frame_ex 1), Enq (frame_ex 2), Deq, Deq, Deq]"]
  by (simp add: frame_ex_def BUFFER_NUM_def BUFFER_SIZE_def)

text \<open>
  C21: The ring is initialised with a stride of \<open>2 * BUFFER_SIZE\<close> bytes over an array of
  \<open>BUFFER_NUM * BUFFER_SIZE\<close> bytes. However reads are interleaved, the first 32 frames are stored in
  the array and the 33rd is stored behind its end.
\<close>

theorem rx_ring_overrun:
  assumes "length storage = BUFFER_NUM * BUFFER_SIZE" "length (enqs ops) = 32"
    "\<forall>f \<in> set (enqs ops). length (lf_payload f) = LINUX_PAYLOAD"
    "length (lf_payload g) = LINUX_PAYLOAD"
  shows "\<exists>r. rx_run ops (init_ring storage) = Some r \<and> write_ringbuff g r = None"
proof -
  from ring_after_run [OF init_ring_after [OF assms(1)] _ assms(3)] assms(2) obtain r
    where "rx_run ops (init_ring storage) = Some r" "ring_after 32 r" by auto
  with ring_after_overrun [OF _ assms(4)] show ?thesis by blast
qed

theorem rx_ring_overrun_witness:
  "\<exists>r. rx_run (replicate 32 (Enq (linux_frame_of (replicate 138 0)))) (init_ring (replicate 8192 0)) = Some r \<and>
     write_ringbuff (linux_frame_of (replicate 138 0)) r = None"
proof -
  have e: "enqs (replicate n (Enq f)) = replicate n f" for n and f :: linux_frame
    by (induction n) simp_all
  show ?thesis
    by (rule rx_ring_overrun) (simp_all add: e BUFFER_NUM_def BUFFER_SIZE_def LINUX_FRAME_SIZE_def)
qed

end
