(* ===== verification/HpSocket.thy ===== *)
theory HpSocket
  imports MotionState HpRing
begin

text \<open>
  The network interface \<open>hal/hpsocket.c\<close>: the client, the frame parser, the command dispatcher that
  fills the shared command, and the status reports. Packed structures are modelled with their bytes;
  the socket library is a record of the results its calls give, and the calls made are logged. \<open>None\<close>
  is an access outside an object or a call that never returns (a semaphore or a mutex that is never
  released). The diagnostics printed by the parser are its first result.
\<close>

section \<open>Report frames\<close>

record tcp_frame =
  tf_header :: "32 word"
  tf_data_length :: "16 word"
  tf_payload :: "byte list"
  tf_checksum :: "16 word"

definition TCP_PAYLOAD :: nat where "TCP_PAYLOAD = 68"
definition TCP_FRAME_SIZE :: nat where "TCP_FRAME_SIZE = 76"

definition tcp_frame_bytes :: "tcp_frame \<Rightarrow> byte list" where
  "tcp_frame_bytes f =
     le_bytes 4 (tf_header f) @ le_bytes 2 (tf_data_length f) @ tf_payload f @ le_bytes 2 (tf_checksum f)"

section \<open>The client\<close>

type_synonym handle = nat

record client_context =
  cc_id :: int
  cc_pClient :: "handle option"
  cc_pListener :: "handle option"
  cc_bRunning :: bool
  cc_bConnected :: bool
  cc_serverIP :: "string option"
  cc_serverPort :: int
  cc_frame_state :: byte
  cc_bytes_expected :: "16 word"
  cc_current_frame :: linux_frame

text \<open>What the socket library answers, and the calls made to it.\<close>

record hp_api =
  api_create_listener :: "handle option"
  api_create_client :: "handle \<Rightarrow> handle option"
  api_start :: "handle \<Rightarrow> string \<Rightarrow> int \<Rightarrow> bool"
  api_send :: "handle \<Rightarrow> byte list \<Rightarrow> bool"

datatype hp_call =
    Created_listener handle | Created_client handle | Destroyed_listener handle | Destroyed_client handle
  | Started handle | Stopped handle | Sent handle "byte list"

record sock_state =
  so_client :: client_context
  so_running :: bool
  so_ring :: ring_buff
  so_sem :: nat
  so_frame_id_mutex :: bool
  so_calls :: "hp_call list"
  so_cycle_time :: "real option"

definition upd_client :: "(client_context \<Rightarrow> client_context) \<Rightarrow> sock_state \<Rightarrow> sock_state" where
  "upd_client f s = s\<lparr>so_client := f (so_client s)\<rparr>"

definition hp_log :: "hp_call list \<Rightarrow> sock_state \<Rightarrow> sock_state" where
  "hp_log cs s = s\<lparr>so_calls := so_calls s @ cs\<rparr>"

text \<open>
  The \<open>memset\<close> of the connect callback clears \<open>sizeof(tcp_frame_t)\<close> bytes of the larger
  \<open>linux_frame_t\<close>: the header, the length and 70 bytes of the payload.
\<close>

definition OnConnectLinux :: "sock_state \<Rightarrow> sock_state" where
  "OnConnectLinux = upd_client (\<lambda>c. c\<lparr>cc_bConnected := True, cc_frame_state := 0, cc_bytes_expected := 0,
     cc_current_frame := linux_frame_of (replicate TCP_FRAME_SIZE 0 @
       drop TCP_FRAME_SIZE (linux_frame_bytes (cc_current_frame c)))\<rparr>)"

definition OnCloseLinux :: "sock_state \<Rightarrow> sock_state" where
  "OnCloseLinux s = (upd_client (\<lambda>c. c\<lparr>cc_bConnected := False\<rparr>) s)\<lparr>so_running := False\<rparr>"

definition InitClient :: "hp_api \<Rightarrow> sock_state \<Rightarrow> bool \<times> sock_state" where
  "InitClient api s =
     (let s1 = upd_client (\<lambda>c. c\<lparr>cc_pListener := api_create_listener api\<rparr>) s in
      case api_create_listener api of
        None \<Rightarrow> (False, s1)
      | Some l \<Rightarrow>
          let s2 = upd_client (\<lambda>c. c\<lparr>cc_pClient := api_create_client api l\<rparr>) (hp_log [Created_listener l] s1) in
          (case api_create_client api l of
             None \<Rightarrow> (False, hp_log [Destroyed_listener l] s2)
           | Some h \<Rightarrow> (True, hp_log [Created_client h] s2)))"

definition StartClient :: "hp_api \<Rightarrow> sock_state \<Rightarrow> bool \<times> sock_state" where
  "StartClient api s =
     (case cc_pClient (so_client s) of
        None \<Rightarrow> (False, s)
      | Some h \<Rightarrow>
          (case cc_serverIP (so_client s) of
             None \<Rightarrow> (False, s)
           | Some ip \<Rightarrow>
               if \<not> api_start api h ip (cc_serverPort (so_client s)) then (False, s)
               else (True, upd_client (\<lambda>c. c\<lparr>cc_bRunning := True\<rparr>) (hp_log [Started h] s))))"

definition StopClient :: "sock_state \<Rightarrow> sock_state" where
  "StopClient s =
     (case cc_pClient (so_client s) of
        None \<Rightarrow> s
      | Some h \<Rightarrow> upd_client (\<lambda>c. c\<lparr>cc_bRunning := False, cc_bConnected := False\<rparr>) (hp_log [Stopped h] s))"

definition CleanupClient :: "sock_state \<Rightarrow> sock_state" where
  "CleanupClient s =
     (let s1 = (case cc_pClient (so_client s) of
                  None \<Rightarrow> s
                | Some h \<Rightarrow> upd_client (\<lambda>c. c\<lparr>cc_pClient := None\<rparr>) (hp_log [Destroyed_client h] s)) in
      case cc_pListener (so_client s1) of
        None \<Rightarrow> s1
      | Some l \<Rightarrow> upd_client (\<lambda>c. c\<lparr>cc_pListener := None\<rparr>) (hp_log [Destroyed_listener l] s1))"

definition SERVER_IP :: string where "SERVER_IP = ''192.168.14.244''"

definition socket_init :: "hp_api \<Rightarrow> sock_state \<Rightarrow> int \<times> sock_state" where
  "socket_init api s =
     (let s1 = upd_client (\<lambda>c. c\<lparr>cc_id := 1, cc_serverIP := Some SERVER_IP, cc_serverPort := 55655,
                  cc_bRunning := False, cc_bConnected := False, cc_frame_state := 0\<rparr>) s;
          c = so_client s1 in
      if cc_serverIP c = None \<or> cc_serverIP c = Some [] then (-1, s1)
      else if cc_serverPort c \<le> 0 \<or> cc_serverPort c > 65535 then (-1, s1)
      else case InitClient api s1 of
        (False, s2) \<Rightarrow> (-1, s2)
      | (True, s2) \<Rightarrow>
          (case StartClient api s2 of
             (False, s3) \<Rightarrow> (-1, CleanupClient s3)
           | (True, s3) \<Rightarrow> (0, s3)))"

section \<open>Receiving\<close>

datatype rx_error =
    Invalid_data | Invalid_header | Length_too_large | Incomplete_frame | Checksum_mismatch | Ring_write_failed

definition FRAME_HEADER :: "32 word" where "FRAME_HEADER = 0x55AA55AA"

text \<open>The sum runs over the bytes 4 to \<open>3 + data_length\<close>.\<close>

definition rx_checksum :: "byte list \<Rightarrow> nat \<Rightarrow> 32 word" where
  "rx_checksum pData n = sum_list (map ucast (slice pData 4 n))"

text \<open>
  \<open>pData\<close> is the buffer the library hands over, \<open>iLength\<close> the length it states. Every check only prints:
  whatever it finds, the parser goes on, stores the frame and posts the semaphore.
\<close>

definition AnalyseData :: "byte list option \<Rightarrow> int \<Rightarrow> sock_state \<Rightarrow> (rx_error list \<times> sock_state) option" where
  "AnalyseData pData iLength s =
     (case pData of
        None \<Rightarrow> None
      | Some p \<Rightarrow>
          if length p < 6 then None
          else
            let header = le_word (slice p 0 4);
                data_length = (le_word (slice p 4 2) :: 16 word);
                n = unat data_length;
                e1 = (if iLength < 10 then [Invalid_data] else []);
                e2 = (if header \<noteq> FRAME_HEADER then [Invalid_header] else []);
                e3 = (if data_length > 64 then [Length_too_large] else []);
                e4 = (if iLength < 4 + 2 + int n + 4 then [Incomplete_frame] else []) in
            if length p < 4 + 2 + n + 4 then None
            else
              let calculated = rx_checksum p n;
                  received = le_word (slice p (4 + 2 + n) 4);
                  e5 = (if calculated \<noteq> received then [Checksum_mismatch] else []) in
              (case mem_write (lf_payload (cc_current_frame (so_client s))) 0 (slice p 6 n) of
                 None \<Rightarrow> None
               | Some payload \<Rightarrow>
                   let frame = \<lparr>lf_header = header, lf_data_length = data_length, lf_payload = payload,
                                lf_checksum = calculated\<rparr>;
                       s1 = upd_client (\<lambda>c. c\<lparr>cc_current_frame := frame\<rparr>) s in
                   (case write_ringbuff frame (so_ring s1) of
                      None \<Rightarrow> None
                    | Some (rv, ring) \<Rightarrow>
                        Some (e1 @ e2 @ e3 @ e4 @ e5 @ (if rv \<noteq> 0 then [Ring_write_failed] else []),
                              s1\<lparr>so_ring := ring, so_sem := so_sem s1 + 1\<rparr>))))"

definition OnReceiveLinux :: "byte list option \<Rightarrow> int \<Rightarrow> sock_state \<Rightarrow> (rx_error list \<times> sock_state) option" where
  "OnReceiveLinux pData iLength s = AnalyseData pData iLength s"

section \<open>Dispatching commands\<close>

definition cmd_of_index :: "16 word \<Rightarrow> cmd_code" where
  "cmd_of_index w =
     (let cs = [EMCMOT_FREE, EMCMOT_DOWNLOADS_CONFIG, EMCMOT_AXIS_ENABLE, EMCMOT_AXIS_DISABLE,
                EMCMOT_MOTION_ENABLE, EMCMOT_MOTION_DISABLE, EMCMOT_ABORT, EMCMOT_PAUSE, EMCMOT_RESUME,
                EMCMOT_JOG_CONT, EMCMOT_JOG_INCR, EMCMOT_JOG_ABS, EMCMOT_JOG_ABORT, EMCMOT_SET_LINE,
                EMCMOT_SET_CIRCLE, EMCMOT_SET_FREE, EMCMOT_SET_COORD] in
      if unat w < length cs then cs ! unat w else EMCMOT_OTHER (uint w))"

text \<open>The \<open>k\<close>-th \<open>int32_t\<close> of the parameters, which start at byte 4 of the payload.\<close>

definition param :: "byte list \<Rightarrow> nat \<Rightarrow> int" where
  "param payload k = int32_of (slice payload (4 + 4 * k) 4)"

text \<open>The size of the parameter structure of each command that is dispatched.\<close>

fun param_size :: "cmd_code \<Rightarrow> nat option" where
  "param_size EMCMOT_DOWNLOADS_CONFIG = Some 56"
| "param_size EMCMOT_AXIS_ENABLE = Some 4"
| "param_size EMCMOT_AXIS_DISABLE = Some 4"
| "param_size EMCMOT_MOTION_ENABLE = Some 4"
| "param_size EMCMOT_MOTION_DISABLE = Some 4"
| "param_size EMCMOT_JOG_CONT = Some 16"
| "param_size EMCMOT_JOG_INCR = Some 24"
| "param_size EMCMOT_JOG_ABS = Some 20"
| "param_size EMCMOT_JOG_ABORT = Some 4"
| "param_size EMCMOT_SET_LINE = Some 48"
| "param_size EMCMOT_SET_FREE = Some 4"
| "param_size EMCMOT_SET_COORD = Some 4"
| "param_size _ = None"

text \<open>The assignments every command makes.\<close>

definition issue :: "cmd_code \<Rightarrow> int \<Rightarrow> mot_command \<Rightarrow> mot_command" where
  "issue cmd ax c = c\<lparr>mc_command := cmd, mc_commandNum := s32 (mc_commandNum c + 1), mc_axis := ax\<rparr>"

text \<open>The axis takes the speeds of the request and the limits downloaded before.\<close>

definition set_axis_motion :: "mot_command \<Rightarrow> int \<Rightarrow> int \<Rightarrow> mot_axis \<Rightarrow> mot_axis" where
  "set_axis_motion c acc vel a = a\<lparr>
     ax_acc_cmd := acc, ax_vel_cmd := vel,
     ax_acc_limit := mc_Maxacc c, ax_vel_limit := mc_Maxvel c,
     ax_max_pos_limit := mc_maxLimit c, ax_min_pos_limit := mc_minLimit c,
     ax_max_jog_limit := mc_maxLimit c, ax_min_jog_limit := mc_minLimit c\<rparr>"

definition request_jog :: "int \<Rightarrow> int \<Rightarrow> int \<Rightarrow> 'tc mot_state \<Rightarrow> 'tc mot_state option" where
  "request_jog ax acc vel g =
     (if nat ax < length (g_axes g)
      then Some (upd_axis (nat ax) (set_axis_motion (g_command g) acc vel) g) else None)"

definition download_config :: "int \<Rightarrow> byte list \<Rightarrow> mot_command \<Rightarrow> mot_command" where
  "download_config ax p c = (issue EMCMOT_DOWNLOADS_CONFIG ax c)\<lparr>
     mc_pulse := param p 0, mc_Maxacc := param p 8, mc_Maxdec := param p 9, mc_Maxvel := param p 7,
     mc_acc := param p 5, mc_dec := param p 6, mc_vel := param p 2,
     mc_scale := of_int (param p 4), mc_maxAxisScale := of_int (param p 10),
     mc_maxLimit := param p 12, mc_minLimit := param p 13\<rparr>"

text \<open>
  The axes of a line are those whose entry of \<open>AxisIndex\<close> is 1; the parameters are read at the
  indices 0 to 5 (speeds and directions), 6 to 8 (\<open>LinearPos\<close>), 9 to 11 (\<open>AxisIndex\<close>).
\<close>

definition set_line :: "int \<Rightarrow> byte list \<Rightarrow> 'tc mot_state \<Rightarrow> 'tc mot_state" where
  "set_line ax p g =
     (let g1 = fold (\<lambda>i g. if param p (9 + i) = 1
                          then upd_axis i (set_axis_motion (g_command g) (param p 2) (param p 1)) g else g)
                   [0..<EMCMOT_MAX_AXIS] g in
      upd_command (\<lambda>c. (issue EMCMOT_SET_LINE ax c)\<lparr>
        mc_pos := (mc_pos c)\<lparr>ep_tran := \<lparr>c_x = of_int (param p 6), c_y = of_int (param p 7),
                                        c_z = of_int (param p 8)\<rparr>\<rparr>,
        mc_ini_maxvel := param p 0, mc_vel := param p 1, mc_acc := param p 2, mc_dec := param p 3,
        mc_motion_type := 2, mc_dir := param p 5, mc_ref := param p 4, mc_spindle := ax\<rparr>) g1)"

text \<open>The branches of the \<open>switch\<close>, once the parameters have been found long enough.\<close>

fun dispatch :: "cmd_code \<Rightarrow> int \<Rightarrow> byte list \<Rightarrow> 'tc mot_state \<Rightarrow> 'tc mot_state option" where
  "dispatch EMCMOT_DOWNLOADS_CONFIG ax p g = Some (upd_command (download_config ax p) g)"
| "dispatch EMCMOT_AXIS_ENABLE ax p g =
     Some (upd_command (issue EMCMOT_AXIS_ENABLE ax) (upd_hal (\<lambda>h. h\<lparr>mh_enable := True\<rparr>) g))"
| "dispatch EMCMOT_AXIS_DISABLE ax p g =
     Some (upd_command (issue EMCMOT_AXIS_DISABLE ax) (upd_hal (\<lambda>h. h\<lparr>mh_enable := False\<rparr>) g))"
| "dispatch EMCMOT_JOG_CONT ax p g =
     map_option (upd_command (\<lambda>c. (issue EMCMOT_JOG_CONT ax c)\<lparr>mc_dec := param p 2, mc_dir := param p 3\<rparr>))
       (request_jog ax (param p 1) (param p 0) g)"
| "dispatch EMCMOT_JOG_INCR ax p g =
     map_option (upd_command (\<lambda>c. (issue EMCMOT_JOG_INCR ax c)\<lparr>mc_dec := param p 3, mc_dir := param p 5,
                   mc_offset := of_int (param p 4)\<rparr>))
       (request_jog ax (param p 2) (param p 0) g)"
| "dispatch EMCMOT_JOG_ABS ax p g =
     map_option (upd_command (\<lambda>c. (issue EMCMOT_JOG_ABS ax c)\<lparr>mc_dec := param p 3,
                   mc_offset := of_int (param p 4)\<rparr>))
       (request_jog ax (param p 2) (param p 0) g)"
| "dispatch EMCMOT_SET_LINE ax p g = Some (set_line ax p g)"
| "dispatch cmd ax p g = Some (upd_command (issue cmd ax) g)"

text \<open>
  \<open>param_data_length\<close> is a \<open>size_t\<close>: below four bytes of data the subtraction wraps to a huge value,
  and the test against the size of the parameters passes.
\<close>

definition param_data_length :: "16 word \<Rightarrow> int" where
  "param_data_length n = (uint n - 4) mod 2 ^ 64"

definition process_frame :: "linux_frame \<Rightarrow> 'tc mot_state \<Rightarrow> 'tc mot_state option" where
  "process_frame f g =
     (let p = lf_payload f;
          cmd = cmd_of_index (le_word (slice p 0 2));
          ax = uint (le_word (slice p 2 2) :: 16 word) in
      case param_size cmd of
        None \<Rightarrow> Some g
      | Some n \<Rightarrow> if param_data_length (lf_data_length f) \<ge> int n then dispatch cmd ax p g else Some g)"

definition ProcessTask :: "sock_state \<Rightarrow> 'tc mot_state \<Rightarrow> (sock_state \<times> 'tc mot_state) option" where
  "ProcessTask s g =
     (if \<not> so_running s then Some (s, g)
      else if so_sem s = 0 then None
      else case read_ringbuff (so_ring s) of
        None \<Rightarrow> None
      | Some (rv, fr, ring) \<Rightarrow>
          let s1 = s\<lparr>so_sem := so_sem s - 1, so_ring := ring\<rparr> in
          (case fr of
             None \<Rightarrow> Some (s1, g)
           | Some f \<Rightarrow> map_option (Pair s1) (process_frame f g)))"

section \<open>Status reports\<close>

definition bit_if :: "bool \<times> 16 word \<Rightarrow> 16 word \<Rightarrow> 16 word" where
  "bit_if cm w = (if fst cm then or w (snd cm) else w)"

definition status_bits :: "axis_hal \<Rightarrow> 16 word" where
  "status_bits a =
     fold bit_if
       [(ah_amp_enable a, 0x0001), (ah_active a, 0x0002), (ah_motionenable a, 0x0004),
        (ah_motionrunning a, 0x0008), (ah_f_errored a, 0x0010), (ah_in_position a, 0x0020),
        (ah_amp_fault a, 0x0040), (ah_pos_lim_sw a, 0x0080), (ah_neg_lim_sw a, 0x0100),
        (ah_phl a, 0x0200), (ah_nhl a, 0x0400)] 0"

definition int32_fields :: "axis_hal \<Rightarrow> int list" where
  "int32_fields a = [ah_axis_vel_cmd a, ah_axis_acc_cmd a, ah_axis_dec_cmd a, ah_axis_pos_cmd a,
     ah_axis_pos_fb a, ah_f_error a, ah_axis_motion a, ah_axis_status a]"

definition axis_data_bytes :: "axis_hal \<Rightarrow> byte list" where
  "axis_data_bytes a = concat (map int32_bytes (int32_fields a)) @ le_bytes 2 (status_bits a)"

definition AXIS_DATA_SIZE :: nat where "AXIS_DATA_SIZE = 34"

definition compress_axis_data :: "axis_hal \<Rightarrow> byte list \<Rightarrow> nat \<Rightarrow> (byte list \<times> nat) option" where
  "compress_axis_data a buffer off =
     map_option (\<lambda>b. (b, AXIS_DATA_SIZE)) (mem_write buffer off (axis_data_bytes a))"

primrec compress_loop :: "axis_hal list \<Rightarrow> byte list \<Rightarrow> nat \<Rightarrow> (byte list \<times> nat) option" where
  "compress_loop [] buffer off = Some (buffer, off)"
| "compress_loop (a # as) buffer off =
     (case compress_axis_data a buffer off of
        None \<Rightarrow> None
      | Some (b, n) \<Rightarrow> compress_loop as b ((off + n) mod 2 ^ 16))"

definition compress_multiple_axes_data :: "axis_hal list \<Rightarrow> byte list \<Rightarrow> (byte list \<times> nat) option" where
  "compress_multiple_axes_data axes buffer =
     (if axes = [] then Some (buffer, 0) else compress_loop axes buffer 0)"

definition calculate_checksum :: "tcp_frame \<Rightarrow> 16 word option" where
  "calculate_checksum f =
     map_option (\<lambda>bs. sum_list (map ucast bs)) (mem_read (tf_payload f) 0 (unat (tf_data_length f)))"

definition SendFrame :: "hp_api \<Rightarrow> tcp_frame \<Rightarrow> sock_state \<Rightarrow> (bool \<times> sock_state) option" where
  "SendFrame api f s =
     (case cc_pClient (so_client s) of
        None \<Rightarrow> Some (False, s)
      | Some h \<Rightarrow>
          if \<not> cc_bConnected (so_client s) then Some (False, s)
          else (case mem_read (tcp_frame_bytes f) 0 (4 + 2 + unat (tf_data_length f) + 2) of
                  None \<Rightarrow> None
                | Some bs \<Rightarrow> Some (api_send api h bs, hp_log [Sent h bs] s)))"

text \<open>
  The frame is a local variable: \<open>junk\<close> is what its payload holds before it is filled. When the HAL
  data is missing the function returns with the mutex held.
\<close>

definition ClientThreadData ::
  "hp_api \<Rightarrow> int \<Rightarrow> byte list \<Rightarrow> mot_hal option \<Rightarrow> sock_state \<Rightarrow> sock_state option" where
  "ClientThreadData api num_axis junk hal s =
     (if num_axis \<le> 0 then Some s
      else if \<not> (cc_bRunning (so_client s) \<and> so_running s) then Some s
      else if so_frame_id_mutex s then None
      else (case hal of
              None \<Rightarrow> Some (s\<lparr>so_frame_id_mutex := True\<rparr>)
            | Some h \<Rightarrow>
                if length (mh_axis h) < nat num_axis then None
                else (case compress_multiple_axes_data (take (nat num_axis) (mh_axis h)) junk of
                        None \<Rightarrow> None
                      | Some (payload, n) \<Rightarrow>
                          (let f = \<lparr>tf_header = 0xAA55AA55, tf_data_length = of_nat n,
                                    tf_payload = payload, tf_checksum = 0\<rparr> in
                           case calculate_checksum f of
                             None \<Rightarrow> None
                           | Some c \<Rightarrow> map_option snd (SendFrame api (f\<lparr>tf_checksum := c\<rparr>) s)))))"

section \<open>Initialisation\<close>

text \<open>
  \<open>shmem\<close> is the result of \<open>rtapi_shmem_getptr\<close> and \<open>secs\<close> the cycle time the shared memory holds;
  \<open>so_cycle_time\<close> is \<open>None\<close> while \<open>emcsocketConfig\<close> is the null pointer.
\<close>

definition init_socket_comm_buffers :: "int \<Rightarrow> real \<Rightarrow> byte list \<Rightarrow> sock_state \<Rightarrow> int \<times> sock_state" where
  "init_socket_comm_buffers shmem secs storage s =
     (let s1 = s\<lparr>so_ring := init_ring storage, so_sem := 0\<rparr> in
      if shmem < 0 then (-1, s1) else (0, s1\<lparr>so_cycle_time := Some secs\<rparr>))"

definition setSocketCycleTime :: "real \<Rightarrow> sock_state \<Rightarrow> (int \<times> sock_state) option" where
  "setSocketCycleTime secs s =
     (if secs \<le> 0 then Some (-1, s)
      else case so_cycle_time s of
        None \<Rightarrow> None
      | Some _ \<Rightarrow> Some (0, s\<lparr>so_cycle_time := Some secs\<rparr>))"

end
