(* ===== verification/HpSocketProps.thy ===== *)
theory HpSocketProps
  imports HpSocket CommandProps
begin

text \<open>
  What the network interface delivers: a request reaches the shared command with its parameters; the
  semaphore covers the ring; a closed connection stops everything for good; what the parser and the
  dispatcher accept although they should not; and what the status reports carry.
\<close>

section \<open>Parsing\<close>

definition rx_length :: "byte list \<Rightarrow> nat" where
  "rx_length p = unat (le_word (slice p 4 2) :: 16 word)"

definition rx_errors :: "byte list \<Rightarrow> int \<Rightarrow> rx_error list" where
  "rx_errors p iLength =
     (if iLength < 10 then [Invalid_data] else []) @
     (if le_word (slice p 0 4) \<noteq> FRAME_HEADER then [Invalid_header] else []) @
     (if rx_length p > 64 then [Length_too_large] else []) @
     (if iLength < 10 + int (rx_length p) then [Incomplete_frame] else []) @
     (if rx_checksum p (rx_length p) \<noteq> le_word (slice p (6 + rx_length p) 4) then [Checksum_mismatch] else [])"

definition rx_frame_of :: "byte list \<Rightarrow> byte list \<Rightarrow> linux_frame" where
  "rx_frame_of p old =
     \<lparr>lf_header = le_word (slice p 0 4), lf_data_length = le_word (slice p 4 2),
      lf_payload = slice p 6 (rx_length p) @ drop (rx_length p) old,
      lf_checksum = rx_checksum p (rx_length p)\<rparr>"

definition received :: "linux_frame \<Rightarrow> ring_buff \<Rightarrow> sock_state \<Rightarrow> sock_state" where
  "received f ring s =
     (upd_client (\<lambda>c. c\<lparr>cc_current_frame := f\<rparr>) s)\<lparr>so_ring := ring, so_sem := so_sem s + 1\<rparr>"

abbreviation cur_payload :: "sock_state \<Rightarrow> byte list" where
  "cur_payload s \<equiv> lf_payload (cc_current_frame (so_client s))"

lemma rx_frame_of_payload [simp]:
  assumes "length old = LINUX_PAYLOAD" "rx_length p \<le> LINUX_PAYLOAD" "10 + rx_length p \<le> length p"
  shows "length (lf_payload (rx_frame_of p old)) = LINUX_PAYLOAD"
  using assms by (simp add: rx_frame_of_def)

text \<open>Whatever the checks find, the frame goes into the ring.\<close>

lemma AnalyseData_stores:
  assumes p: "10 + rx_length p \<le> length p" "rx_length p \<le> LINUX_PAYLOAD"
    and s: "length (cur_payload s) = LINUX_PAYLOAD"
    and w: "write_ringbuff (rx_frame_of p (cur_payload s)) (so_ring s) = Some (0, ring)"
  shows "AnalyseData (Some p) iLength s =
    Some (rx_errors p iLength, received (rx_frame_of p (cur_payload s)) ring s)"
proof -
  have m: "mem_write (cur_payload s) 0 (slice p 6 (rx_length p)) =
      Some (slice p 6 (rx_length p) @ drop (rx_length p) (cur_payload s))"
    using p s by (simp add: mem_write_def)
  have big: "(le_word (slice p 4 2) :: 16 word) > 64 \<longleftrightarrow> rx_length p > 64"
    by (simp add: word_less_nat_alt rx_length_def)
  show ?thesis
    using p w
    unfolding AnalyseData_def Let_def rx_length_def [symmetric]
    by (simp add: big m rx_frame_of_def [symmetric] rx_errors_def received_def upd_client_def)
qed

section \<open>Requests\<close>

text \<open>A frame as the parser wants it, and a request with its command code, axis and parameters.\<close>

definition request_bytes :: "byte list \<Rightarrow> byte list" where
  "request_bytes data =
     le_bytes 4 FRAME_HEADER @ le_bytes 2 (of_nat (length data) :: 16 word) @ data @
     le_bytes 4 (sum_list (map ucast
       (take (length data) (le_bytes 2 (of_nat (length data) :: 16 word) @ data))) :: 32 word)"

definition request :: "16 word \<Rightarrow> 16 word \<Rightarrow> int list \<Rightarrow> byte list" where
  "request c ax ps = request_bytes (le_bytes 2 c @ le_bytes 2 ax @ concat (map int32_bytes ps))"

definition ring_ready :: "ring_buff \<Rightarrow> bool" where
  "ring_ready r \<longleftrightarrow> rb_core r \<and> rb_room r \<and> rb_live r (Suc (unat (rb_Length r)))"

lemma length_request_bytes [simp]: "length (request_bytes data) = 10 + length data"
  by (simp add: request_bytes_def)

lemma length_ints [simp]: "length (concat (map int32_bytes ps)) = 4 * length ps"
  by (induction ps) simp_all

lemma request_length:
  assumes "length data < 2 ^ 16"
  shows "rx_length (request_bytes data) = length data"
  using assms by (simp add: rx_length_def request_bytes_def unat_16)

lemma request_header: "le_word (slice (request_bytes data) 0 4) = FRAME_HEADER"
  by (simp add: request_bytes_def)

lemma request_data: "slice (request_bytes data) 6 (length data) = data"
  by (simp add: request_bytes_def)

lemma slice_4_append: "slice (le_bytes 4 w @ xs) 4 n = take n xs"
  by (simp add: slice_def)

lemma request_checksum:
  "rx_checksum (request_bytes data) (length data) = le_word (slice (request_bytes data) (6 + length data) 4)"
  by (simp add: request_bytes_def rx_checksum_def slice_4_append)

lemma request_errors:
  assumes "length data \<le> 64"
  shows "rx_errors (request_bytes data) (int (length (request_bytes data))) = []"
proof -
  have n: "rx_length (request_bytes data) = length data" using assms by (intro request_length) simp
  show ?thesis
    using assms by (simp add: rx_errors_def n request_header request_checksum)
qed

text \<open>A frame that is written to an empty ring is the frame that is read.\<close>

lemma ring_pass:
  assumes "ring_ready r" "rb_list r = []" "length (lf_payload f) = LINUX_PAYLOAD"
  shows "\<exists>r1 r2. write_ringbuff f r = Some (0, r1) \<and> read_ringbuff r1 = Some (0, Some f, r2) \<and>
    rb_core r2 \<and> rb_list r2 = []"
proof -
  from write_ringbuff_core [of r f] assms obtain r1 where r1: "write_ringbuff f r = Some (0, r1)"
    "rb_core r1" "rb_live r1 (unat (rb_Length r1))" "rb_list r1 = [f]"
    by (auto simp: ring_ready_def)
  from read_ringbuff_core [OF r1(2-4)] r1(1) show ?thesis by blast
qed

lemma receive_process:
  assumes run: "so_running s" and ring: "ring_ready (so_ring s)" "rb_list (so_ring s) = []"
    and cur: "length (cur_payload s) = LINUX_PAYLOAD"
    and p: "10 + rx_length p \<le> length p" "rx_length p \<le> LINUX_PAYLOAD"
  shows "\<exists>s1 s2. OnReceiveLinux (Some p) iLength s = Some (rx_errors p iLength, s1) \<and>
    ProcessTask s1 g = map_option (Pair s2) (process_frame (rx_frame_of p (cur_payload s)) g) \<and>
    rb_list (so_ring s2) = [] \<and> so_sem s2 = so_sem s"
proof -
  from ring_pass [OF ring, of "rx_frame_of p (cur_payload s)"] cur p obtain r1 r2
    where r: "write_ringbuff (rx_frame_of p (cur_payload s)) (so_ring s) = Some (0, r1)"
      "read_ringbuff r1 = Some (0, Some (rx_frame_of p (cur_payload s)), r2)" "rb_list r2 = []" by auto
  let ?s1 = "received (rx_frame_of p (cur_payload s)) r1 s"
  let ?s2 = "?s1\<lparr>so_sem := so_sem s, so_ring := r2\<rparr>"
  have "OnReceiveLinux (Some p) iLength s = Some (rx_errors p iLength, ?s1)"
    unfolding OnReceiveLinux_def by (rule AnalyseData_stores [OF p cur r(1)])
  moreover have "ProcessTask ?s1 g = map_option (Pair ?s2) (process_frame (rx_frame_of p (cur_payload s)) g)"
    using run by (simp add: ProcessTask_def received_def upd_client_def r(2) Let_def)
  ultimately show ?thesis using r(3) by (intro exI [of _ ?s1] exI [of _ ?s2]) simp
qed

lemma param_request:
  assumes "k < length ps" "\<forall>x \<in> set ps. in_s32 x"
  shows "param ((le_bytes 2 (c :: 16 word) @ le_bytes 2 (a :: 16 word) @ concat (map int32_bytes ps)) @ rest) k = ps ! k"
proof -
  have "4 * k + 4 \<le> 4 * length ps" using assms(1) by linarith
  with i32.nth_record [OF assms(2,1)] show ?thesis
    by (simp add: param_def mult.commute)
qed

text \<open>
  C22: A request of any dispatched command reaches the command switch: the parser reports no error, the
  frame passes through the ring, and \<open>ProcessTask\<close> runs the branch of that command with the axis and
  the parameters of the request; ring and semaphore are as before.
\<close>

theorem request_dispatched:
  assumes "so_running s" "ring_ready (so_ring s)" "rb_list (so_ring s) = []"
    "length (cur_payload s) = LINUX_PAYLOAD"
    "param_size (cmd_of_index c) = Some n" "n \<le> 4 * length ps" "length ps \<le> 15" "\<forall>x \<in> set ps. in_s32 x"
  shows "\<exists>s1 s2 P. OnReceiveLinux (Some (request c ax ps)) (int (length (request c ax ps))) s = Some ([], s1) \<and>
    ProcessTask s1 g = map_option (Pair s2) (dispatch (cmd_of_index c) (uint ax) P g) \<and>
    (\<forall>k < length ps. param P k = ps ! k) \<and> rb_list (so_ring s2) = [] \<and> so_sem s2 = so_sem s"
proof -
  define data where "data = le_bytes 2 c @ le_bytes 2 ax @ concat (map int32_bytes ps)"
  have d: "length data = 4 + 4 * length ps" by (simp add: data_def)
  have req: "request c ax ps = request_bytes data" by (simp add: request_def data_def)
  have n: "rx_length (request_bytes data) = length data" using d assms(7) by (intro request_length) simp
  let ?f = "rx_frame_of (request_bytes data) (cur_payload s)"
  define P where "P = data @ drop (length data) (cur_payload s)"
  have payload: "lf_payload ?f = P"
    by (simp add: rx_frame_of_def n request_data P_def)
  have "lf_data_length ?f = of_nat (4 + 4 * length ps)"
    by (simp add: rx_frame_of_def request_bytes_def d)
  moreover have "4 + 4 * length ps < 2 ^ 16" using assms(7) by simp
  ultimately have "unat (lf_data_length ?f) = 4 + 4 * length ps" by (simp only: unat_16)
  then have u: "uint (lf_data_length ?f) = int (4 + 4 * length ps)" by (metis uint_nat)
  have plen: "param_data_length (lf_data_length ?f) = int (4 * length ps)"
    using assms(7) unfolding param_data_length_def u by simp
  have frame: "process_frame ?f g = dispatch (cmd_of_index c) (uint ax) P g"
    using assms(5,6) unfolding process_frame_def payload plen Let_def
    by (simp add: P_def data_def)
  have size: "10 + rx_length (request_bytes data) \<le> length (request_bytes data)"
    "rx_length (request_bytes data) \<le> LINUX_PAYLOAD"
    using n d assms(7) by (simp_all add: LINUX_PAYLOAD_def)
  from receive_process [OF assms(1-4) size, of "int (length (request_bytes data))" g] frame
    request_errors [of data] d assms(7)
  obtain s1 s2 where "OnReceiveLinux (Some (request c ax ps)) (int (length (request c ax ps))) s = Some ([], s1)"
    "ProcessTask s1 g = map_option (Pair s2) (dispatch (cmd_of_index c) (uint ax) P g)"
    "rb_list (so_ring s2) = []" "so_sem s2 = so_sem s" unfolding req by auto
  moreover have "\<forall>k < length ps. param P k = ps ! k"
    unfolding P_def data_def using param_request [OF _ assms(8)] by blast
  ultimately show ?thesis by blast
qed

text \<open>A freshly started client over the ring as it is initialised, for the witnesses.\<close>

definition sock_zero :: sock_state where
  "sock_zero = \<lparr>so_client = \<lparr>cc_id = 1, cc_pClient = Some 2, cc_pListener = Some 1, cc_bRunning = True,
       cc_bConnected = True, cc_serverIP = Some SERVER_IP, cc_serverPort = 55655, cc_frame_state = 0,
       cc_bytes_expected = 0, cc_current_frame = \<lparr>lf_header = 0, lf_data_length = 0,
         lf_payload = replicate 128 0, lf_checksum = 0\<rparr>\<rparr>,
     so_running = True, so_ring = init_ring (replicate 8192 0), so_sem = 0, so_frame_id_mutex = False,
     so_calls = [], so_cycle_time = Some 0\<rparr>"

definition api_ok :: hp_api where
  "api_ok = \<lparr>api_create_listener = Some 1, api_create_client = (\<lambda>_. Some 2), api_start = (\<lambda>_ _ _. True),
     api_send = (\<lambda>_ _. True)\<rparr>"

lemma init_ring_ready: "length storage = 8192 \<Longrightarrow> ring_ready (init_ring storage)"
  by (simp add: ring_ready_def rb_core_def rb_room_def rb_live_def slot_at_def init_ring_def ring_sizes)

lemma init_ring_empty [simp]: "rb_list (init_ring storage) = []"
  by (simp add: rb_list_def init_ring_def)

lemma sock_zero_ready: "so_running sock_zero" "ring_ready (so_ring sock_zero)" "rb_list (so_ring sock_zero) = []"
  "length (cur_payload sock_zero) = LINUX_PAYLOAD"
  by (simp_all add: sock_zero_def init_ring_ready LINUX_PAYLOAD_def)

theorem request_dispatched_witness:
  "\<exists>s1 s2 P. OnReceiveLinux (Some (request 9 1 [100, 10, 10, 1])) (int (length (request 9 1 [100, 10, 10, 1])))
      sock_zero = Some ([], s1) \<and>
    ProcessTask s1 (mot_zero :: unit mot_state) = map_option (Pair s2) (dispatch EMCMOT_JOG_CONT 1 P mot_zero) \<and>
    param P 0 = 100"
proof -
  have c: "cmd_of_index 9 = EMCMOT_JOG_CONT" by (simp add: cmd_of_index_def)
  have "\<forall>x \<in> set [100, 10, 10, 1::int]. in_s32 x" by (simp add: in_s32_def INT32_MIN_def INT32_MAX_def)
  from request_dispatched [OF sock_zero_ready, of 9 16 "[100, 10, 10, 1]" 1 "mot_zero :: unit mot_state", OF _ _ _ this]
  obtain s1 s2 P where "OnReceiveLinux (Some (request 9 1 [100, 10, 10, 1]))
      (int (length (request 9 1 [100, 10, 10, 1]))) sock_zero = Some ([], s1)"
    "ProcessTask s1 (mot_zero :: unit mot_state) = map_option (Pair s2) (dispatch EMCMOT_JOG_CONT 1 P mot_zero)"
    "\<forall>k < length [100, 10, 10, 1::int]. param P k = [100, 10, 10, 1] ! k"
    unfolding c by auto
  then show ?thesis by (intro exI conjI) auto
qed

section \<open>The network as a state machine\<close>

text \<open>
  The callbacks of the socket library and the two periodic functions, in any order. The controller
  itself does not take steps here.
\<close>

inductive sock_step ::
  "hp_api \<Rightarrow> int \<Rightarrow> sock_state \<times> 'tc mot_state \<Rightarrow> sock_state \<times> 'tc mot_state \<Rightarrow> bool"
  for api num_axis where
  connect: "sock_step api num_axis (s, g) (OnConnectLinux s, g)"
| close: "sock_step api num_axis (s, g) (OnCloseLinux s, g)"
| receive: "OnReceiveLinux p n s = Some (es, s') \<Longrightarrow> sock_step api num_axis (s, g) (s', g)"
| process: "ProcessTask s g = Some (s', g') \<Longrightarrow> sock_step api num_axis (s, g) (s', g')"
| report: "ClientThreadData api num_axis junk (Some (g_hal g)) s = Some s' \<Longrightarrow>
    sock_step api num_axis (s, g) (s', g)"
| stop: "sock_step api num_axis (s, g) (StopClient s, g)"

inductive_cases sock_stepE: "sock_step api num_axis (s, g) (s', g')"

definition sock_inv :: "sock_state \<Rightarrow> bool" where
  "sock_inv s \<longleftrightarrow> rb_core (so_ring s) \<and> unat (rb_Length (so_ring s)) \<le> so_sem s"

lemma write_ringbuff_keeps:
  assumes "rb_core r" "write_ringbuff f r = Some (rv, r')"
  shows "rb_core r' \<and> unat (rb_Length r') \<le> unat (rb_Length r) + 1"
proof (cases "rb_room r")
  case False
  with assms show ?thesis by (simp add: write_ringbuff_full)
next
  case True
  note W = rb_coreD [OF assms(1)]
  have n: "unat (rb_Length r) < unat (rb_buffNum r)" using True by (simp add: rb_room_def)
  have "unat (next_index r (rb_Tail r)) = (unat (rb_Head r) + (unat (rb_Length r) + 1)) mod unat (rb_buffNum r)"
    using W(2,7,8) by (simp add: next_index_unat mod_Suc_eq)
  then show ?thesis
    using assms(2) W n
    by (auto simp: write_ringbuff_def rb_core_def Let_def byte_inc split: if_splits option.splits)
qed

lemma read_ringbuff_keeps:
  assumes "rb_core r" "read_ringbuff r = Some (rv, fr, r')"
  shows "rb_core r' \<and> unat (rb_Length r') = unat (rb_Length r) - 1"
proof (cases "rb_Length r = 0")
  case True
  with assms show ?thesis by (simp add: read_ringbuff_def)
next
  case False
  note W = rb_coreD [OF assms(1)]
  have "Suc (unat (rb_Head r)) * unat (rb_buffByte r) \<le> unat (rb_buffNum r) * unat (rb_buffByte r)"
    using W(5) by (intro mult_le_mono1) simp
  then have "\<not> slot_offset r (rb_Head r) \<ge> unat (rb_buffNum r * rb_buffByte r)"
    using W(3,4,5) by (simp add: slot_offset_unat unat_word_ariths LINUX_FRAME_SIZE_def)
  with assms(2) False have r': "r' = r\<lparr>rb_Head := next_index r (rb_Head r), rb_Length := rb_Length r - 1\<rparr>"
    by (auto simp: read_ringbuff_def split: if_splits option.splits)
  have pos: "0 < unat (rb_Length r)" using False by (simp add: unat_gt_0)
  have "((unat (rb_Head r) + 1) mod unat (rb_buffNum r) + (unat (rb_Length r) - 1)) mod unat (rb_buffNum r)
      = (unat (rb_Head r) + 1 + (unat (rb_Length r) - 1)) mod unat (rb_buffNum r)"
    by (simp only: mod_add_left_eq)
  also have "\<dots> = unat (rb_Tail r)" using pos W(7) by simp
  finally show ?thesis
    using W False by (simp add: r' rb_core_def Let_def byte_dec next_index_unat)
qed

lemma AnalyseData_inv:
  assumes "sock_inv s" "AnalyseData p n s = Some (es, s')"
  shows "sock_inv s'"
proof -
  from assms(2) obtain f ring rv where "write_ringbuff f (so_ring s) = Some (rv, ring)"
    "so_ring s' = ring" "so_sem s' = so_sem s + 1"
    by (auto simp: AnalyseData_def Let_def upd_client_def split: option.splits if_splits prod.splits)
  with write_ringbuff_keeps [of "so_ring s" f rv ring] assms(1) show ?thesis
    by (auto simp: sock_inv_def)
qed

lemma ProcessTask_inv:
  assumes "sock_inv s" "ProcessTask s g = Some (s', g')"
  shows "sock_inv s'"
proof (cases "so_running s")
  case False
  with assms show ?thesis by (simp add: ProcessTask_def)
next
  case True
  with assms(2) obtain rv fr ring where "read_ringbuff (so_ring s) = Some (rv, fr, ring)"
    "so_ring s' = ring" "so_sem s' = so_sem s - 1"
    by (auto simp: ProcessTask_def Let_def split: option.splits if_splits prod.splits)
  with read_ringbuff_keeps [of "so_ring s" rv fr ring] assms(1) show ?thesis
    by (auto simp: sock_inv_def)
qed

lemma SendFrame_keeps:
  "SendFrame api f s = Some (b, s') \<Longrightarrow> so_ring s' = so_ring s \<and> so_sem s' = so_sem s"
  by (auto simp: SendFrame_def hp_log_def split: option.splits if_splits)

lemma ClientThreadData_keeps:
  "ClientThreadData api n junk hal s = Some s' \<Longrightarrow> so_ring s' = so_ring s \<and> so_sem s' = so_sem s"
  by (auto simp: ClientThreadData_def Let_def dest: SendFrame_keeps split: option.splits if_splits prod.splits)

lemma sock_inv_cong:
  "so_ring s' = so_ring s \<Longrightarrow> so_sem s' = so_sem s \<Longrightarrow> sock_inv s' = sock_inv s"
  by (simp add: sock_inv_def)

lemma callbacks_keep [simp]:
  "so_ring (OnConnectLinux s) = so_ring s" "so_sem (OnConnectLinux s) = so_sem s"
  "so_ring (OnCloseLinux s) = so_ring s" "so_sem (OnCloseLinux s) = so_sem s"
  "so_ring (StopClient s) = so_ring s" "so_sem (StopClient s) = so_sem s"
  by (simp_all add: OnConnectLinux_def OnCloseLinux_def StopClient_def upd_client_def hp_log_def
      split: option.splits)

lemma sock_step_inv:
  assumes "sock_step api n (s, g) (s', g')" "sock_inv s"
  shows "sock_inv s'"
  using assms(1)
proof (rule sock_stepE)
  fix p k es assume "OnReceiveLinux p k s = Some (es, s')"
  with assms(2) show ?thesis by (auto simp: OnReceiveLinux_def intro: AnalyseData_inv)
next
  assume "ProcessTask s g = Some (s', g')"
  with assms(2) show ?thesis by (rule ProcessTask_inv)
next
  fix junk assume "ClientThreadData api n junk (Some (g_hal g)) s = Some s'"
  with assms(2) show ?thesis by (auto dest!: ClientThreadData_keeps simp: sock_inv_def)
qed (use assms(2) in \<open>simp_all add: sock_inv_def\<close>)

lemma sock_steps_inv:
  assumes "(sock_step api n)\<^sup>*\<^sup>* (s, g) (s', g')" "sock_inv s"
  shows "sock_inv s'"
  using assms by (induction rule: rtranclp_induct2) (auto intro: sock_step_inv)

text \<open>
  C23: From the initialisation on, through any sequence of callbacks and periodic calls, the semaphore
  counts at least the frames in the ring: while a frame is queued, \<open>ProcessTask\<close> does not block on the
  semaphore.
\<close>

theorem frames_never_stuck:
  assumes "init_socket_comm_buffers shmem secs storage s0 = (rv, s)"
    "(sock_step api n)\<^sup>*\<^sup>* (s, g) (s', g')" "rb_list (so_ring s') \<noteq> []"
  shows "0 < so_sem s' \<and> length (rb_list (so_ring s')) \<le> so_sem s'"
proof -
  have "so_ring s = init_ring storage" "so_sem s = 0"
    using assms(1) by (auto simp: init_socket_comm_buffers_def Let_def split: if_splits)
  then have "sock_inv s" by (simp add: sock_inv_def rb_core_def init_ring_def ring_sizes)
  from sock_steps_inv [OF assms(2) this] have "length (rb_list (so_ring s')) \<le> so_sem s'"
    by (simp add: sock_inv_def)
  moreover have "0 < length (rb_list (so_ring s'))" using assms(3) by blast
  ultimately show ?thesis by simp
qed

lemma receive_step_queues:
  assumes "ring_ready (so_ring s)" "length (cur_payload s) = LINUX_PAYLOAD"
    "10 + rx_length p \<le> length p" "rx_length p \<le> LINUX_PAYLOAD"
  shows "\<exists>s'. sock_step api n (s, g) (s', g) \<and>
    rb_list (so_ring s') = rb_list (so_ring s) @ [rx_frame_of p (cur_payload s)]"
proof -
  from write_ringbuff_core [of "so_ring s" "rx_frame_of p (cur_payload s)"] assms obtain ring
    where r: "write_ringbuff (rx_frame_of p (cur_payload s)) (so_ring s) = Some (0, ring)"
      "rb_list ring = rb_list (so_ring s) @ [rx_frame_of p (cur_payload s)]" by (auto simp: ring_ready_def)
  have "OnReceiveLinux (Some p) 0 s = Some (rx_errors p 0, received (rx_frame_of p (cur_payload s)) ring s)"
    unfolding OnReceiveLinux_def by (rule AnalyseData_stores [OF assms(3,4,2) r(1)])
  then have "sock_step api n (s, g) (received (rx_frame_of p (cur_payload s)) ring s, g)"
    by (rule sock_step.receive)
  then show ?thesis using r(2) by (auto simp: received_def)
qed

theorem frames_never_stuck_witness:
  "\<exists>s'. (sock_step api_ok 1)\<^sup>*\<^sup>* (sock_zero, mot_zero :: unit mot_state) (s', mot_zero) \<and> 0 < so_sem s'"
proof -
  have n: "rx_length (request_bytes []) = 0" using request_length [of "[]"] by simp
  from receive_step_queues [of sock_zero "request_bytes []" api_ok 1 "mot_zero :: unit mot_state"] sock_zero_ready n
  obtain s' where s': "sock_step api_ok 1 (sock_zero, mot_zero :: unit mot_state) (s', mot_zero)"
    "rb_list (so_ring s') \<noteq> []" by auto
  have i: "init_socket_comm_buffers 0 0 (replicate 8192 0) sock_zero = (0, sock_zero)"
    by (simp add: init_socket_comm_buffers_def sock_zero_def)
  have r: "(sock_step api_ok 1)\<^sup>*\<^sup>* (sock_zero, mot_zero :: unit mot_state) (s', mot_zero)"
    using s'(1) by blast
  from frames_never_stuck [OF i r s'(2)] r show ?thesis by blast
qed

text \<open>The reports among the calls.\<close>

fun is_sent :: "hp_call \<Rightarrow> bool" where
  "is_sent (Sent h bs) = True"
| "is_sent _ = False"

lemma closed_step:
  assumes "sock_step api n (s, g) (s', g')" "\<not> so_running s"
  shows "\<not> so_running s' \<and> g' = g \<and> [c \<leftarrow> so_calls s'. is_sent c] = [c \<leftarrow> so_calls s. is_sent c]"
  using assms(1)
proof (rule sock_stepE)
  fix p k es assume "OnReceiveLinux p k s = Some (es, s')" "g' = g"
  with assms(2) show ?thesis
    by (auto simp: OnReceiveLinux_def AnalyseData_def Let_def upd_client_def split: option.splits if_splits prod.splits)
next
  assume "ProcessTask s g = Some (s', g')"
  with assms(2) show ?thesis by (simp add: ProcessTask_def)
next
  fix junk assume "ClientThreadData api n junk (Some (g_hal g)) s = Some s'" "g' = g"
  with assms(2) show ?thesis by (auto simp: ClientThreadData_def split: if_splits)
qed (use assms(2) in \<open>simp_all add: OnConnectLinux_def OnCloseLinux_def StopClient_def upd_client_def hp_log_def
  split: option.splits\<close>)

text \<open>
  After the close callback nothing runs any more, whatever the library calls, even a new connect:
  no command reaches the controller and no report is sent.
\<close>

theorem closed_for_good:
  assumes "(sock_step api n)\<^sup>*\<^sup>* (OnCloseLinux s, g) (s', g')"
  shows "g' = g \<and> \<not> so_running s' \<and> [c \<leftarrow> so_calls s'. is_sent c] = [c \<leftarrow> so_calls s. is_sent c]"
  using assms
proof (induction rule: rtranclp_induct2)
  case refl
  then show ?case by (simp add: OnCloseLinux_def upd_client_def)
next
  case (step s1 g1 s2 g2)
  with closed_step [OF step.hyps(2)] show ?case by simp
qed

theorem closed_for_good_witness:
  "\<not> so_running (OnConnectLinux (OnCloseLinux sock_zero))"
proof -
  have "(sock_step api 1)\<^sup>*\<^sup>* (OnCloseLinux sock_zero, mot_zero :: unit mot_state)
      (OnConnectLinux (OnCloseLinux sock_zero), mot_zero)" for api
    by (rule r_into_rtranclp) (rule sock_step.connect)
  from closed_for_good [OF this] show ?thesis by simp
qed

section \<open>What is accepted\<close>

text \<open>
  The checks of the parser print and reject nothing: a frame with a wrong header, a wrong checksum
  or too many bytes of data reaches the dispatcher like a correct one.
\<close>

theorem bad_frame_processed:
  assumes "so_running s" "ring_ready (so_ring s)" "rb_list (so_ring s) = []"
    "length (cur_payload s) = LINUX_PAYLOAD" "10 + rx_length p \<le> length p" "rx_length p \<le> LINUX_PAYLOAD"
    "rx_errors p iLength = errs" "errs \<noteq> []"
  shows "\<exists>s1 s2. OnReceiveLinux (Some p) iLength s = Some (errs, s1) \<and>
    ProcessTask s1 g = map_option (Pair s2) (process_frame (rx_frame_of p (cur_payload s)) g)"
  using receive_process [OF assms(1-6), of iLength g] assms(7) by blast

text \<open>A request to enable the axes, with no header at all and a wrong checksum.\<close>

definition bad_enable :: "byte list" where
  "bad_enable = [0, 0, 0, 0, 8, 0, 2, 0, 0, 0, 1, 0, 0, 0, 99, 0, 0, 0]"

lemma bad_enable_parse: "rx_length bad_enable = 8"
  "rx_errors bad_enable 18 = [Invalid_header, Checksum_mismatch]"
  "le_word (slice (lf_payload (rx_frame_of bad_enable (replicate 128 0))) 0 2) = (2 :: 16 word)"
  "lf_data_length (rx_frame_of bad_enable old) = 8"
  by (simp_all add: rx_length_def rx_errors_def rx_checksum_def rx_frame_of_def bad_enable_def slice_def
      FRAME_HEADER_def)

theorem bad_frame_processed_witness:
  "\<exists>s1 s2 g2. OnReceiveLinux (Some bad_enable) 18 sock_zero = Some ([Invalid_header, Checksum_mismatch], s1) \<and>
    ProcessTask s1 (mot_zero :: unit mot_state) = Some (s2, g2) \<and> mh_enable (g_hal g2)"
proof -
  have p: "10 + rx_length bad_enable \<le> length bad_enable" "rx_length bad_enable \<le> LINUX_PAYLOAD"
    by (simp_all add: bad_enable_parse, simp_all add: bad_enable_def LINUX_PAYLOAD_def)
  have cur: "cur_payload sock_zero = replicate 128 0" by (simp add: sock_zero_def)
  have "\<exists>g2. process_frame (rx_frame_of bad_enable (cur_payload sock_zero)) (mot_zero :: unit mot_state) = Some g2
      \<and> mh_enable (g_hal g2)"
    by (simp add: process_frame_def Let_def cur bad_enable_parse cmd_of_index_def param_data_length_def
        upd_command_def upd_hal_def)
  with bad_frame_processed [OF sock_zero_ready p bad_enable_parse(2), of "mot_zero :: unit mot_state"]
  show ?thesis by auto
qed

text \<open>
  An empty frame, which the parser finds correct, runs the command of the last frame again: the
  payload buffer is not cleared, and with fewer than four bytes of data the parameter length wraps, so
  the length test of every command passes.
\<close>

theorem empty_frame_replays:
  assumes "so_running s" "ring_ready (so_ring s)" "rb_list (so_ring s) = []"
    "length (cur_payload s) = LINUX_PAYLOAD"
    "param_size (cmd_of_index (le_word (slice (cur_payload s) 0 2))) = Some n"
  shows "\<exists>s1 s2. OnReceiveLinux (Some (request_bytes [])) 10 s = Some ([], s1) \<and>
    ProcessTask s1 g = map_option (Pair s2)
      (dispatch (cmd_of_index (le_word (slice (cur_payload s) 0 2)))
         (uint (le_word (slice (cur_payload s) 2 2) :: 16 word)) (cur_payload s) g)"
proof -
  have n: "rx_length (request_bytes []) = 0" using request_length [of "[]"] by simp
  let ?f = "rx_frame_of (request_bytes []) (cur_payload s)"
  have e: "rx_errors (request_bytes []) 10 = []" using request_errors [of "[]"] by simp
  have f: "lf_payload ?f = cur_payload s" "lf_data_length ?f = 0"
    by (simp_all add: rx_frame_of_def n slice_def) (simp add: request_bytes_def)
  have "n \<le> 56" using assms(5) by (cases "cmd_of_index (le_word (slice (cur_payload s) 0 2))") auto
  then have "int n \<le> param_data_length 0" by (simp add: param_data_length_def)
  then have "process_frame ?f g = dispatch (cmd_of_index (le_word (slice (cur_payload s) 0 2)))
      (uint (le_word (slice (cur_payload s) 2 2) :: 16 word)) (cur_payload s) g"
    using assms(5) by (simp add: process_frame_def f Let_def)
  with receive_process [OF assms(1-4), of "request_bytes []" 10 g] n e show ?thesis by auto
qed

theorem empty_frame_replays_witness:
  "\<exists>s s1 s2 g2. OnReceiveLinux (Some (request_bytes [])) 10 s = Some ([], s1) \<and>
    ProcessTask s1 (mot_zero :: unit mot_state) = Some (s2, g2) \<and> mh_enable (g_hal g2)"
proof -
  define s where "s = upd_client (\<lambda>c. c\<lparr>cc_current_frame := (cc_current_frame c)\<lparr>lf_payload := 2 # replicate 127 0\<rparr>\<rparr>) sock_zero"
  have pay: "cur_payload s = 2 # replicate 127 0" by (simp add: s_def upd_client_def)
  have s: "so_running s" "ring_ready (so_ring s)" "rb_list (so_ring s) = []" "length (cur_payload s) = LINUX_PAYLOAD"
    using sock_zero_ready by (simp_all add: s_def upd_client_def LINUX_PAYLOAD_def)
  have c: "cmd_of_index (le_word (slice (cur_payload s) 0 2)) = EMCMOT_AXIS_ENABLE"
    by (simp add: pay slice_def cmd_of_index_def)
  have "param_size (cmd_of_index (le_word (slice (cur_payload s) 0 2))) = Some 4" by (simp add: c)
  from empty_frame_replays [OF s this, of "mot_zero :: unit mot_state"]
  obtain s1 s2 g2 where "OnReceiveLinux (Some (request_bytes [])) 10 s = Some ([], s1)"
    "ProcessTask s1 (mot_zero :: unit mot_state) = Some (s2, g2)" "mh_enable (g_hal g2)"
    unfolding c by (auto simp: upd_command_def upd_hal_def)
  then show ?thesis by blast
qed

end
