(* ===== verification/HpReports.thy ===== *)
theory HpReports
  imports HpSocket
begin

text \<open>
  The status reports of \<open>hal/hpsocket.c\<close> and the life of the client: what a report of two axes carries, why
  a report of three axes overruns its frame and one of a single axis has no checksum, the mutex that
  is kept, and that \<open>socket_init\<close> releases what it has created when it fails.
\<close>

section \<open>The format of an axis\<close>

text \<open>What the receiver of a report reads: the eight integers and the eleven status bits.\<close>

record axis_report =
  ar_ints :: "int list"
  ar_bits :: "bool list"

definition axis_flags_list :: "axis_hal \<Rightarrow> bool list" where
  "axis_flags_list a = [ah_amp_enable a, ah_active a, ah_motionenable a, ah_motionrunning a, ah_f_errored a,
     ah_in_position a, ah_amp_fault a, ah_pos_lim_sw a, ah_neg_lim_sw a, ah_phl a, ah_nhl a]"

definition report_of :: "byte list \<Rightarrow> axis_report" where
  "report_of bs = \<lparr>ar_ints = map (\<lambda>i. int32_of (slice bs (4 * i) 4)) [0..<8],
     ar_bits = map (\<lambda>i. bit (le_word (slice bs 32 2) :: 16 word) i) [0..<11]\<rparr>"

definition axis_valid :: "axis_hal \<Rightarrow> bool" where
  "axis_valid a \<longleftrightarrow> (\<forall>x \<in> set (int32_fields a). in_s32 x)"

lemma length_int32s [simp]: "length (concat (map int32_bytes xs)) = 4 * length xs"
  by (induction xs) simp_all

lemma length_axis_data [simp]: "length (axis_data_bytes a) = AXIS_DATA_SIZE"
  by (simp add: axis_data_bytes_def int32_fields_def AXIS_DATA_SIZE_def)

lemma bit_fold_bit_if:
  "bit (fold bit_if cms w) i \<longleftrightarrow> bit w i \<or> list_ex (\<lambda>cm. fst cm \<and> bit (snd cm) i) cms"
  by (induction cms arbitrary: w) (auto simp: bit_if_def bit_or_iff)

lemma bit_status_bits:
  assumes "i < 11"
  shows "bit (status_bits a) i = axis_flags_list a ! i"
proof -
  have "bit (status_bits a) 0 = ah_amp_enable a" "bit (status_bits a) 1 = ah_active a"
    "bit (status_bits a) 2 = ah_motionenable a" "bit (status_bits a) 3 = ah_motionrunning a"
    "bit (status_bits a) 4 = ah_f_errored a" "bit (status_bits a) 5 = ah_in_position a"
    "bit (status_bits a) 6 = ah_amp_fault a" "bit (status_bits a) 7 = ah_pos_lim_sw a"
    "bit (status_bits a) 8 = ah_neg_lim_sw a" "bit (status_bits a) 9 = ah_phl a"
    "bit (status_bits a) 10 = ah_nhl a"
    unfolding status_bits_def bit_fold_bit_if by simp_all
  moreover have "i = 0 \<or> i = 1 \<or> i = 2 \<or> i = 3 \<or> i = 4 \<or> i = 5 \<or> i = 6 \<or> i = 7 \<or> i = 8 \<or> i = 9 \<or> i = 10"
    using assms by (simp add: eval_nat_numeral less_Suc_eq)
  ultimately show ?thesis by (elim disjE) (simp_all add: axis_flags_list_def)
qed

lemma report_of_axis:
  assumes "axis_valid a"
  shows "report_of (axis_data_bytes a) = \<lparr>ar_ints = int32_fields a, ar_bits = axis_flags_list a\<rparr>"
proof -
  let ?ints = "concat (map int32_bytes (int32_fields a))"
  have len: "length (int32_fields a) = 8" by (simp add: int32_fields_def)
  have "int32_of (slice (axis_data_bytes a) (4 * i) 4) = int32_fields a ! i" if "i < 8" for i
    using i32.nth_record [of "int32_fields a" i] assms that len
    by (simp add: axis_data_bytes_def axis_valid_def mult.commute)
  then have "map (\<lambda>i. int32_of (slice (axis_data_bytes a) (4 * i) 4)) [0..<8] = int32_fields a"
    using len by (intro nth_equalityI) simp_all
  moreover have "le_word (slice (axis_data_bytes a) 32 2) = status_bits a"
    by (simp add: axis_data_bytes_def len)
  then have "map (\<lambda>i. bit (le_word (slice (axis_data_bytes a) 32 2) :: 16 word) i) [0..<11] = axis_flags_list a"
    by (intro nth_equalityI) (simp_all add: bit_status_bits axis_flags_list_def)
  ultimately show ?thesis by (simp add: report_of_def)
qed

text \<open>
  As a format: the values are what the report shows of an axis, each stored by some valid axis.
\<close>

definition axis_of_report :: "axis_report \<Rightarrow> axis_hal" where
  "axis_of_report r =
     (let i = (!) (ar_ints r); b = (!) (ar_bits r) in
      \<lparr>ah_coarse_pos_cmd = 0, ah_axis_vel_cmd = i 0, ah_axis_acc_cmd = i 1, ah_axis_dec_cmd = i 2,
       ah_motor_offset = 0, ah_motor_pos_cmd = 0, ah_motor_pos_fb = 0, ah_axis_pos_cmd = i 3,
       ah_axis_pos_fb = i 4, ah_f_error = i 5, ah_f_error_lim = 0, ah_axis_motion = i 6,
       ah_axis_status = i 7, ah_active = b 1, ah_in_position = b 5, ah_error = False, ah_phl = b 9,
       ah_nhl = b 10, ah_f_errored = b 4, ah_faulted = False, ah_pos_lim_sw = b 7, ah_neg_lim_sw = b 8,
       ah_amp_fault = b 6, ah_amp_enable = b 0, ah_motionenable = b 2, ah_motionrunning = b 3\<rparr>)"

definition axis_report :: "axis_hal \<Rightarrow> axis_report" where
  "axis_report a = \<lparr>ar_ints = int32_fields a, ar_bits = axis_flags_list a\<rparr>"

definition report_valid :: "axis_report \<Rightarrow> bool" where
  "report_valid r \<longleftrightarrow> length (ar_ints r) = 8 \<and> length (ar_bits r) = 11 \<and> (\<forall>x \<in> set (ar_ints r). in_s32 x)"

lemma nths_all: "length xs = n \<Longrightarrow> map ((!) xs) [0..<n] = xs"
  using map_nth by blast

lemma axis_report_of_report:
  assumes "report_valid r"
  shows "axis_report (axis_of_report r) = r"
proof -
  have "int32_fields (axis_of_report r) = map ((!) (ar_ints r)) [0..<8]"
    by (simp add: axis_of_report_def int32_fields_def Let_def upt_rec eval_nat_numeral)
  moreover have "axis_flags_list (axis_of_report r) = map ((!) (ar_bits r)) [0..<11]"
    by (simp add: axis_of_report_def axis_flags_list_def Let_def upt_rec eval_nat_numeral)
  ultimately show ?thesis
    using assms by (simp add: axis_report_def report_valid_def nths_all)
qed

lemma axis_report_valid: "axis_valid a \<Longrightarrow> report_valid (axis_report a)"
  by (simp add: report_valid_def axis_report_def axis_valid_def int32_fields_def axis_flags_list_def)

lemma axis_data_bytes_report:
  "axis_report a = axis_report b \<Longrightarrow> axis_data_bytes a = axis_data_bytes b"
proof -
  assume "axis_report a = axis_report b"
  then have i: "int32_fields a = int32_fields b" and f: "axis_flags_list a = axis_flags_list b"
    by (simp_all add: axis_report_def)
  from f have "status_bits a = status_bits b"
    by (simp add: axis_flags_list_def status_bits_def)
  with i show ?thesis by (simp add: axis_data_bytes_def)
qed

interpretation axis_wire: wire_format "\<lambda>r. axis_data_bytes (axis_of_report r)" report_of AXIS_DATA_SIZE report_valid
proof unfold_locales
  fix r assume r: "report_valid r"
  then have "axis_valid (axis_of_report r)"
    using arg_cong [OF axis_report_of_report [OF r], of ar_ints]
    by (simp add: axis_valid_def axis_report_def report_valid_def)
  from report_of_axis [OF this] axis_report_of_report [OF r]
  show "report_of (axis_data_bytes (axis_of_report r)) = r" by (simp add: axis_report_def)
qed simp

section \<open>Packing the axes\<close>

lemma compress_axis_data_fits:
  assumes "off + AXIS_DATA_SIZE \<le> length buffer"
  shows "compress_axis_data a buffer off =
    Some (take off buffer @ axis_data_bytes a @ drop (off + AXIS_DATA_SIZE) buffer, AXIS_DATA_SIZE)"
  using assms by (simp add: compress_axis_data_def mem_write_def)

lemma compress_loop_fits:
  assumes "off + length as * AXIS_DATA_SIZE \<le> length buffer" "length buffer < 2 ^ 16"
  shows "compress_loop as buffer off =
    Some (take off buffer @ concat (map axis_data_bytes as) @ drop (off + length as * AXIS_DATA_SIZE) buffer,
          off + length as * AXIS_DATA_SIZE)"
  using assms
proof (induction as arbitrary: off buffer)
  case Nil
  then show ?case by simp
next
  case (Cons a as)
  let ?b = "take off buffer @ axis_data_bytes a @ drop (off + AXIS_DATA_SIZE) buffer"
  have off: "off + AXIS_DATA_SIZE \<le> length buffer" using Cons.prems(1) by simp
  then have m: "(off + AXIS_DATA_SIZE) mod 65536 = off + AXIS_DATA_SIZE"
    using Cons.prems(2) by (intro mod_less) simp
  have len: "length ?b = length buffer" using off by simp
  have "compress_loop as ?b (off + AXIS_DATA_SIZE) =
    Some (take (off + AXIS_DATA_SIZE) ?b @ concat (map axis_data_bytes as) @
            drop (off + AXIS_DATA_SIZE + length as * AXIS_DATA_SIZE) ?b,
          off + AXIS_DATA_SIZE + length as * AXIS_DATA_SIZE)"
    using Cons.prems len by (intro Cons.IH) simp_all
  moreover have "take (off + AXIS_DATA_SIZE) ?b = take off buffer @ axis_data_bytes a"
    using off by simp
  moreover have "drop (off + AXIS_DATA_SIZE + length as * AXIS_DATA_SIZE) ?b =
      drop (off + AXIS_DATA_SIZE + length as * AXIS_DATA_SIZE) buffer"
    using off by (simp add: ac_simps)
  ultimately show ?case
    by (simp add: compress_axis_data_fits [OF off] m add.assoc del: One_nat_def)
qed

lemma compress_loop_overruns:
  assumes "length buffer < off + length as * AXIS_DATA_SIZE" "length buffer < 2 ^ 16" "off \<le> length buffer"
  shows "compress_loop as buffer off = None"
  using assms
proof (induction as arbitrary: off buffer)
  case Nil
  then show ?case by simp
next
  case (Cons a as)
  show ?case
  proof (cases "off + AXIS_DATA_SIZE \<le> length buffer")
    case False
    then show ?thesis by (simp add: compress_axis_data_def)
  next
    case True
    let ?b = "take off buffer @ axis_data_bytes a @ drop (off + AXIS_DATA_SIZE) buffer"
    have m: "(off + AXIS_DATA_SIZE) mod 65536 = off + AXIS_DATA_SIZE"
      using True Cons.prems(2) by (intro mod_less) simp
    have len: "length ?b = length buffer" using True by simp
    have "compress_loop as ?b (off + AXIS_DATA_SIZE) = None"
      using Cons.prems True len by (intro Cons.IH) simp_all
    then show ?thesis by (simp add: compress_axis_data_fits [OF True] m)
  qed
qed

section \<open>Sending\<close>

definition sending :: "handle \<Rightarrow> sock_state \<Rightarrow> bool" where
  "sending c s \<longleftrightarrow> cc_bRunning (so_client s) \<and> so_running s \<and> \<not> so_frame_id_mutex s \<and>
     cc_pClient (so_client s) = Some c \<and> cc_bConnected (so_client s)"

definition report_data :: "axis_hal list \<Rightarrow> byte list" where
  "report_data as = concat (map axis_data_bytes as)"

definition report_frame :: "axis_hal list \<Rightarrow> byte list \<Rightarrow> tcp_frame" where
  "report_frame as junk =
     \<lparr>tf_header = 0xAA55AA55, tf_data_length = of_nat (length as * AXIS_DATA_SIZE),
      tf_payload = report_data as @ drop (length as * AXIS_DATA_SIZE) junk,
      tf_checksum = sum_list (map ucast (report_data as))\<rparr>"

lemma length_report_data [simp]: "length (report_data as) = length as * AXIS_DATA_SIZE"
  by (induction as) (simp_all add: report_data_def)

lemma report_length:
  "length as * AXIS_DATA_SIZE \<le> TCP_PAYLOAD \<Longrightarrow>
   unat (of_nat (length as * AXIS_DATA_SIZE) :: 16 word) = length as * AXIS_DATA_SIZE"
  by (rule unat_16) (simp add: TCP_PAYLOAD_def)

text \<open>What leaves the program: the first bytes of the frame, as many as its length field accounts for.\<close>

lemma ClientThreadData_sends:
  assumes s: "sending c s" and n: "0 < n" "n \<le> length (mh_axis h)" "n * AXIS_DATA_SIZE \<le> TCP_PAYLOAD"
    and j: "length junk = TCP_PAYLOAD"
  shows "ClientThreadData api (int n) junk (Some h) s =
    Some (hp_log [Sent c (slice (tcp_frame_bytes (report_frame (take n (mh_axis h)) junk)) 0
                            (8 + n * AXIS_DATA_SIZE))] s)"
proof -
  let ?as = "take n (mh_axis h)" and ?n = "n * AXIS_DATA_SIZE"
  let ?p = "report_data ?as @ drop ?n junk"
  have len: "length ?as = n" using n(2) by simp
  have ne: "?as \<noteq> []" using n(1) len by auto
  have "compress_loop ?as junk 0 = Some (?p, ?n)"
    using compress_loop_fits [of 0 ?as junk] n(3) j len
    by (simp add: report_data_def TCP_PAYLOAD_def)
  then have pack: "compress_multiple_axes_data ?as junk = Some (?p, ?n)"
    using ne by (simp add: compress_multiple_axes_data_def)
  have u: "unat (of_nat ?n :: 16 word) = ?n" using report_length [of ?as] n(3) len by simp
  have lenp: "length ?p = TCP_PAYLOAD" using n(3) j len by simp
  have data: "slice ?p 0 ?n = report_data ?as" using len by (simp add: slice_def)
  have bytes: "length (tcp_frame_bytes (report_frame ?as junk)) = TCP_FRAME_SIZE"
    using lenp len by (simp add: tcp_frame_bytes_def report_frame_def TCP_FRAME_SIZE_def TCP_PAYLOAD_def)
  define f where "f = \<lparr>tf_header = 0xAA55AA55 :: 32 word, tf_data_length = of_nat ?n :: 16 word, tf_payload = ?p,
    tf_checksum = 0 :: 16 word\<rparr>"
  have sum: "calculate_checksum f = Some (sum_list (map ucast (report_data ?as)))"
    using n(3) lenp data by (simp add: calculate_checksum_def f_def u del: of_nat_mult)
  have frame: "f\<lparr>tf_checksum := sum_list (map ucast (report_data ?as))\<rparr> = report_frame ?as junk"
    unfolding f_def report_frame_def len by simp
  have "8 + ?n \<le> TCP_FRAME_SIZE" using n(3) by (simp add: TCP_PAYLOAD_def TCP_FRAME_SIZE_def)
  then have send: "SendFrame api (report_frame ?as junk) s =
      Some (api_send api c (slice (tcp_frame_bytes (report_frame ?as junk)) 0 (8 + ?n)),
            hp_log [Sent c (slice (tcp_frame_bytes (report_frame ?as junk)) 0 (8 + ?n))] s)"
    using s bytes u len
    by (simp add: SendFrame_def sending_def report_frame_def add.commute del: of_nat_mult)
  have enough: "\<not> length (mh_axis h) < nat (int n)" using n(2) by simp
  show ?thesis
    unfolding ClientThreadData_def f_def [symmetric] Let_def
    using s n(1) enough by (simp add: sending_def pack f_def [symmetric] sum frame send del: of_nat_mult)
qed

text \<open>
  C24: A report of two axes fills its frame and carries what it should: the header, the length, for each
  axis the values and the status bits of its pins, and the sum of the data bytes.
\<close>

theorem report_roundtrip:
  assumes "sending c s" "2 \<le> length (mh_axis h)" "length junk = TCP_PAYLOAD" "\<forall>a \<in> set (mh_axis h). axis_valid a"
  shows "\<exists>bs. ClientThreadData api 2 junk (Some h) s = Some (hp_log [Sent c bs] s) \<and>
    length bs = TCP_FRAME_SIZE \<and> slice bs 0 4 = le_bytes 4 (0xAA55AA55 :: 32 word) \<and>
    le_word (slice bs 4 2) = (68 :: 16 word) \<and>
    (\<forall>i < 2. report_of (slice bs (6 + i * AXIS_DATA_SIZE) AXIS_DATA_SIZE) = axis_report (mh_axis h ! i)) \<and>
    le_word (slice bs 74 2) = (sum_list (map ucast (slice bs 6 68)) :: 16 word)"
proof -
  let ?as = "take 2 (mh_axis h)"
  let ?rs = "map axis_report ?as"
  have len: "length ?as = 2" using assms(2) by simp
  define bs where "bs = tcp_frame_bytes (report_frame ?as junk)"
  have bs: "bs = le_bytes 4 (0xAA55AA55 :: 32 word) @ le_bytes 2 (68 :: 16 word) @ report_data ?as @
      le_bytes 2 (sum_list (map ucast (report_data ?as)) :: 16 word)"
    using len assms(3) by (simp add: bs_def tcp_frame_bytes_def report_frame_def AXIS_DATA_SIZE_def TCP_PAYLOAD_def)
  have data: "length (report_data ?as) = 68" using len by (simp add: AXIS_DATA_SIZE_def)
  then have all: "length bs = 76" by (simp add: bs)
  have sent: "ClientThreadData api 2 junk (Some h) s = Some (hp_log [Sent c bs] s)"
    using ClientThreadData_sends [OF assms(1) _ assms(2) _ assms(3), of api] all
    by (simp add: bs_def AXIS_DATA_SIZE_def TCP_PAYLOAD_def)
  have valid: "\<forall>r \<in> set ?rs. report_valid r"
    using assms(4) by (auto simp: axis_report_valid dest: in_set_takeD)
  have stored: "map (\<lambda>r. axis_data_bytes (axis_of_report r)) ?rs = map axis_data_bytes ?as"
    using valid by (auto intro: axis_data_bytes_report simp: axis_report_of_report)
  have conc: "concat (map (\<lambda>r. axis_data_bytes (axis_of_report r)) ?rs) = report_data ?as"
    unfolding stored report_data_def by (rule refl)
  have axes: "report_of (slice bs (6 + i * AXIS_DATA_SIZE) AXIS_DATA_SIZE) = axis_report (mh_axis h ! i)"
    if "i < 2" for i
  proof -
    have i: "i * AXIS_DATA_SIZE + AXIS_DATA_SIZE \<le> length (report_data ?as)"
      using that data by (simp add: AXIS_DATA_SIZE_def)
    have "slice bs (6 + i * AXIS_DATA_SIZE) AXIS_DATA_SIZE = slice (report_data ?as) (i * AXIS_DATA_SIZE) AXIS_DATA_SIZE"
      using i by (simp add: bs)
    then show ?thesis
      using axis_wire.nth_record [OF valid, of i] that len unfolding conc by simp
  qed
  have "slice bs 6 68 = report_data ?as" using data by (simp add: bs slice_def)
  moreover have "le_word (slice bs 74 2) = (sum_list (map ucast (report_data ?as)) :: 16 word)"
    using data by (simp add: bs)
  moreover have "slice bs 0 4 = le_bytes 4 (0xAA55AA55 :: 32 word)" "le_word (slice bs 4 2) = (68 :: 16 word)"
    by (simp_all add: bs)
  ultimately show ?thesis using sent axes all by (intro exI [of _ bs]) (simp add: TCP_FRAME_SIZE_def)
qed

text \<open>A running client with two axes whose pins are all zero, for the witnesses.\<close>

definition axis_pins_zero :: axis_hal where
  "axis_pins_zero = axis_of_report \<lparr>ar_ints = replicate 8 0, ar_bits = replicate 11 False\<rparr>"

definition pins_zero :: "nat \<Rightarrow> mot_hal" where
  "pins_zero n = \<lparr>mh_enable = False, mh_jog_inhibit = False, mh_jog_stop = False,
     mh_jog_stop_immediate = False, mh_jog_is_active = False, mh_motion_enabled = False,
     mh_in_position = False, mh_coord_mode = False, mh_coord_error = False, mh_on_soft_limit = False,
     mh_misc_error = [], mh_axis = replicate n axis_pins_zero, mh_eoffset_active = False,
     mh_eoffset_limited = False\<rparr>"

definition api_ready :: hp_api where
  "api_ready = \<lparr>api_create_listener = Some 1, api_create_client = (\<lambda>_. Some 2), api_start = (\<lambda>_ _ _. True),
     api_send = (\<lambda>_ _. True)\<rparr>"

definition client_sending :: sock_state where
  "client_sending = \<lparr>so_client = \<lparr>cc_id = 1, cc_pClient = Some 2, cc_pListener = Some 1, cc_bRunning = True,
       cc_bConnected = True, cc_serverIP = Some SERVER_IP, cc_serverPort = 55655, cc_frame_state = 0,
       cc_bytes_expected = 0, cc_current_frame = linux_frame_of []\<rparr>,
     so_running = True, so_ring = init_ring [], so_sem = 0, so_frame_id_mutex = False,
     so_calls = [], so_cycle_time = Some 0\<rparr>"

lemma client_sending_sends: "sending 2 client_sending"
  by (simp add: sending_def client_sending_def)

lemma pins_zero_valid: "\<forall>a \<in> set (mh_axis (pins_zero n)). axis_valid a"
  by (simp add: pins_zero_def axis_pins_zero_def axis_of_report_def axis_valid_def int32_fields_def Let_def
      eval_nat_numeral)

theorem report_roundtrip_witness:
  "\<exists>bs. ClientThreadData api_ready 2 (replicate 68 7) (Some (pins_zero 3)) client_sending
      = Some (hp_log [Sent 2 bs] client_sending) \<and> length bs = TCP_FRAME_SIZE"
proof -
  have "2 \<le> length (mh_axis (pins_zero 3))" by (simp add: pins_zero_def)
  moreover have "length (replicate 68 (7 :: byte)) = TCP_PAYLOAD" by (simp add: TCP_PAYLOAD_def)
  ultimately show ?thesis
    using report_roundtrip [OF client_sending_sends _ _ pins_zero_valid, of 3 "replicate 68 7" api_ready] by blast
qed

text \<open>
  With the number of axes the program is built with, the data of the axes does not fit the frame: every
  report of a running client writes 34 bytes behind the payload of a local variable.
\<close>

theorem report_overruns:
  assumes "cc_bRunning (so_client s)" "so_running s" "length (mh_axis h) = EMCMOT_MAX_AXIS"
    "length junk = TCP_PAYLOAD"
  shows "ClientThreadData api (int EMCMOT_MAX_AXIS) junk (Some h) s = None"
proof -
  have "take EMCMOT_MAX_AXIS (mh_axis h) = mh_axis h" "mh_axis h \<noteq> []"
    using assms(3) by (auto simp: EMCMOT_MAX_AXIS_def)
  moreover have "0 < EMCMOT_MAX_AXIS" by (simp add: EMCMOT_MAX_AXIS_def)
  moreover have "compress_loop (mh_axis h) junk 0 = None"
    using assms(3,4)
    by (intro compress_loop_overruns) (simp_all add: EMCMOT_MAX_AXIS_def AXIS_DATA_SIZE_def TCP_PAYLOAD_def)
  ultimately show ?thesis
    using assms by (simp add: ClientThreadData_def compress_multiple_axes_data_def)
qed

theorem report_overruns_witness:
  "ClientThreadData api_ready (int EMCMOT_MAX_AXIS) (replicate 68 0) (Some (pins_zero 3)) client_sending = None"
  by (rule report_overruns) (simp_all add: client_sending_def pins_zero_def EMCMOT_MAX_AXIS_def TCP_PAYLOAD_def)

text \<open>
  A report of a single axis is sent without its checksum: the length sent counts two bytes for it, but
  they are the next two bytes of the payload, which were never written.
\<close>

theorem single_report_unchecked:
  assumes "sending c s" "1 \<le> length (mh_axis h)" "length junk = TCP_PAYLOAD"
  shows "\<exists>bs. ClientThreadData api 1 junk (Some h) s = Some (hp_log [Sent c bs] s) \<and>
    length bs = 42 \<and> slice bs 6 34 = axis_data_bytes (mh_axis h ! 0) \<and> slice bs 40 2 = slice junk 34 2"
proof -
  let ?as = "take 1 (mh_axis h)"
  have as: "?as = [mh_axis h ! 0]" using assms(2) by (cases "mh_axis h") auto
  let ?bs = "slice (tcp_frame_bytes (report_frame ?as junk)) 0 (8 + 1 * AXIS_DATA_SIZE)"
  have sent: "ClientThreadData api 1 junk (Some h) s = Some (hp_log [Sent c ?bs] s)"
    using ClientThreadData_sends [OF assms(1) _ assms(2) _ assms(3), of api]
    by (simp add: AXIS_DATA_SIZE_def TCP_PAYLOAD_def)
  have bs: "?bs = le_bytes 4 (0xAA55AA55 :: 32 word) @ le_bytes 2 (34 :: 16 word) @
      axis_data_bytes (mh_axis h ! 0) @ slice junk 34 2"
    using assms(3) unfolding as
    by (simp add: tcp_frame_bytes_def report_frame_def report_data_def slice_def AXIS_DATA_SIZE_def TCP_PAYLOAD_def)
  have "length (axis_data_bytes (mh_axis h ! 0)) = 34" "length (slice junk 34 2) = 2"
    using assms(3) by (simp_all add: AXIS_DATA_SIZE_def TCP_PAYLOAD_def)
  then have "length ?bs = 42" "slice ?bs 6 34 = axis_data_bytes (mh_axis h ! 0)" "slice ?bs 40 2 = slice junk 34 2"
    unfolding bs by simp_all
  with sent show ?thesis by blast
qed

theorem single_report_unchecked_witness:
  "\<exists>bs. ClientThreadData api_ready 1 (replicate 68 7) (Some (pins_zero 1)) client_sending
      = Some (hp_log [Sent 2 bs] client_sending) \<and> slice bs 40 2 = [7, 7]"
proof -
  have "1 \<le> length (mh_axis (pins_zero 1))" by (simp add: pins_zero_def)
  moreover have "length (replicate 68 (7 :: byte)) = TCP_PAYLOAD" by (simp add: TCP_PAYLOAD_def)
  moreover have "slice (replicate 68 (7 :: byte)) 34 2 = [7, 7]" by (simp add: slice_def eval_nat_numeral)
  ultimately show ?thesis
    using single_report_unchecked [OF client_sending_sends, of "pins_zero 1" "replicate 68 7" api_ready] by metis
qed

text \<open>
  Called while the HAL data is missing, the report returns with its mutex held, and the next call never
  returns.
\<close>

lemma report_keeps_mutex:
  assumes "0 < n" "sending c s"
  shows "\<exists>s'. ClientThreadData api n junk None s = Some s' \<and> ClientThreadData api n junk hal s' = None"
  using assms by (simp add: ClientThreadData_def sending_def)

section \<open>The life of the client\<close>

text \<open>The handles a log of calls leaves alive.\<close>

fun live_handles :: "hp_call list \<Rightarrow> handle list" where
  "live_handles [] = []"
| "live_handles (Created_listener h # cs) = h # live_handles cs"
| "live_handles (Created_client h # cs) = h # live_handles cs"
| "live_handles (c # cs) = live_handles cs"

fun dead_handles :: "hp_call list \<Rightarrow> handle list" where
  "dead_handles [] = []"
| "dead_handles (Destroyed_listener h # cs) = h # dead_handles cs"
| "dead_handles (Destroyed_client h # cs) = h # dead_handles cs"
| "dead_handles (c # cs) = dead_handles cs"

text \<open>
  C25: \<open>socket_init\<close> either succeeds, with the client started, both handles held and marked running, or
  fails having destroyed every handle it created, the client before its listener.
\<close>

theorem socket_init_releases:
  assumes "so_calls s = []"
  shows "case socket_init api s of
      (r, s') \<Rightarrow>
        (r = 0 \<and> cc_bRunning (so_client s') \<and> cc_pListener (so_client s') = api_create_listener api \<and>
           (\<exists>l c. cc_pClient (so_client s') = Some c \<and>
              so_calls s' = [Created_listener l, Created_client c, Started c])) \<or>
        (r = -1 \<and> \<not> cc_bRunning (so_client s') \<and> dead_handles (so_calls s') = rev (live_handles (so_calls s')))"
proof (cases "api_create_listener api")
  case None
  then show ?thesis
    using assms by (simp add: socket_init_def InitClient_def SERVER_IP_def upd_client_def Let_def hp_log_def)
next
  case (Some l)
  show ?thesis
  proof (cases "api_create_client api l")
    case None
    with Some show ?thesis
      using assms by (simp add: socket_init_def InitClient_def SERVER_IP_def upd_client_def Let_def hp_log_def)
  next
    case (Some c)
    with \<open>api_create_listener api = Some l\<close> show ?thesis
      using assms by (cases "api_start api c SERVER_IP 55655")
        (simp_all add: socket_init_def InitClient_def StartClient_def CleanupClient_def upd_client_def Let_def
          hp_log_def SERVER_IP_def)
  qed
qed

theorem socket_init_releases_witness:
  "fst (socket_init \<lparr>api_create_listener = Some 1, api_create_client = (\<lambda>_. Some 2),
      api_start = (\<lambda>_ _ _. False), api_send = (\<lambda>_ _. True)\<rparr> client_sending) = -1 \<and>
   dead_handles (so_calls (snd (socket_init \<lparr>api_create_listener = Some 1, api_create_client = (\<lambda>_. Some 2),
      api_start = (\<lambda>_ _ _. False), api_send = (\<lambda>_ _. True)\<rparr> client_sending))) = [2, 1]"
proof -
  let ?api = "\<lparr>api_create_listener = Some 1, api_create_client = (\<lambda>_. Some 2),
      api_start = (\<lambda>_ _ _. False), api_send = (\<lambda>_ _. True)\<rparr>"
  have c: "so_calls client_sending = []" by (simp add: client_sending_def)
  have "fst (socket_init ?api client_sending) = -1 \<and>
    live_handles (so_calls (snd (socket_init ?api client_sending))) = [1, 2]"
    by (simp add: socket_init_def InitClient_def StartClient_def CleanupClient_def upd_client_def Let_def
        hp_log_def SERVER_IP_def client_sending_def)
  with socket_init_releases [OF c, of ?api] show ?thesis by (auto split: prod.splits)
qed

end
