(* ===== verification/Rtapi.thy ===== *)
theory Rtapi
  imports Prelude
begin

text \<open>
  The runtime layer \<open>rtapi/\<close>: atomic bit operations (\<open>rtapi_bitops.h\<close>), the spinning mutex built on them
  (\<open>rtapi_mutex.h\<close>), and of \<open>uspace_common.c\<close> the table of shared memory handles and the module identifiers.
  What the operating system answers is a parameter. \<open>None\<close> is a call that never returns or an access
  to memory that is not mapped.
\<close>

section \<open>Bit operations\<close>

definition RTAPI_LONG_BIT :: nat where "RTAPI_LONG_BIT = 64"

definition set_bit_at :: "nat \<Rightarrow> 64 word list \<Rightarrow> 64 word list" where
  "set_bit_at nr ws =
     ws[nr div RTAPI_LONG_BIT := or (ws ! (nr div RTAPI_LONG_BIT)) (push_bit (nr mod RTAPI_LONG_BIT) 1)]"

definition test_bit_at :: "nat \<Rightarrow> 64 word list \<Rightarrow> bool" where
  "test_bit_at nr ws \<longleftrightarrow> and (ws ! (nr div RTAPI_LONG_BIT)) (push_bit (nr mod RTAPI_LONG_BIT) 1) \<noteq> 0"

definition clear_bit_at :: "nat \<Rightarrow> 64 word list \<Rightarrow> 64 word list" where
  "clear_bit_at nr ws =
     ws[nr div RTAPI_LONG_BIT := and (ws ! (nr div RTAPI_LONG_BIT)) (not (push_bit (nr mod RTAPI_LONG_BIT) 1))]"

definition test_and_set_bit :: "nat \<Rightarrow> 64 word list \<Rightarrow> bool \<times> 64 word list" where
  "test_and_set_bit nr ws = (test_bit_at nr ws, set_bit_at nr ws)"

definition test_and_clear_bit :: "nat \<Rightarrow> 64 word list \<Rightarrow> bool \<times> 64 word list" where
  "test_and_clear_bit nr ws = (test_bit_at nr ws, clear_bit_at nr ws)"

lemma test_bit_at_iff: "test_bit_at nr ws \<longleftrightarrow> bit (ws ! (nr div 64)) (nr mod 64)"
proof -
  have "and w (push_bit n 1) \<noteq> 0 \<longleftrightarrow> bit w n" if "n < 64" for w :: "64 word" and n
  proof
    assume b: "bit w n"
    then have "bit (and w (push_bit n 1)) n" using that by (simp add: bit_simps)
    then show "and w (push_bit n 1) \<noteq> 0" by auto
  next
    assume "and w (push_bit n 1) \<noteq> 0"
    then obtain i where "bit (and w (push_bit n 1)) i" by (metis bit_eq_iff bit_0_eq bot_apply bot_bool_def)
    then show "bit w n" by (auto simp: bit_simps)
  qed
  then show ?thesis by (simp add: test_bit_at_def RTAPI_LONG_BIT_def)
qed

lemma test_set_clear:
  assumes "nr div 64 < length ws"
  shows "test_bit_at k (set_bit_at nr ws) \<longleftrightarrow> k = nr \<or> test_bit_at k ws"
    and "test_bit_at k (clear_bit_at nr ws) \<longleftrightarrow> k \<noteq> nr \<and> test_bit_at k ws"
proof -
  have eq: "k = nr \<longleftrightarrow> k div 64 = nr div 64 \<and> k mod 64 = nr mod 64"
    by (metis div_mult_mod_eq)
  show "test_bit_at k (set_bit_at nr ws) \<longleftrightarrow> k = nr \<or> test_bit_at k ws"
    using assms
    by (cases "k div 64 = nr div 64")
      (auto simp: test_bit_at_iff set_bit_at_def RTAPI_LONG_BIT_def bit_simps eq)
  show "test_bit_at k (clear_bit_at nr ws) \<longleftrightarrow> k \<noteq> nr \<and> test_bit_at k ws"
    using assms
    by (cases "k div 64 = nr div 64")
      (auto simp: test_bit_at_iff clear_bit_at_def RTAPI_LONG_BIT_def bit_simps eq)
qed

section \<open>The mutex\<close>

text \<open>The mutex is bit 0 of a word.\<close>

definition rtapi_mutex_give :: "64 word \<Rightarrow> 64 word" where
  "rtapi_mutex_give m = snd (test_and_clear_bit 0 [m]) ! 0"

definition rtapi_mutex_try :: "64 word \<Rightarrow> bool \<times> 64 word" where
  "rtapi_mutex_try m = (case test_and_set_bit 0 [m] of (b, ws) \<Rightarrow> (b, ws ! 0))"

lemma mutex_try_iff: "fst (rtapi_mutex_try m) \<longleftrightarrow> bit m 0" "bit (snd (rtapi_mutex_try m)) 0"
  using test_set_clear [of 0 "[m]" 0] test_bit_at_iff [of 0 "[m]"] test_bit_at_iff [of 0 "set_bit_at 0 [m]"]
  by (simp_all add: rtapi_mutex_try_def test_and_set_bit_def)

lemma mutex_give_free: "\<not> bit (rtapi_mutex_give m) 0"
  using test_set_clear(2) [of 0 "[m]" 0] test_bit_at_iff [of 0 "clear_bit_at 0 [m]"]
  by (simp add: rtapi_mutex_give_def test_and_clear_bit_def)

text \<open>
  Threads that get the mutex, each attempt of the loop of \<open>rtapi_mutex_get\<close> being one atomic
  step, work, and give it back: a thread is outside, spinning, or inside.
\<close>

datatype where_at = Outside | Spinning | Inside

inductive mutex_step :: "64 word \<times> (nat \<Rightarrow> where_at) \<Rightarrow> 64 word \<times> (nat \<Rightarrow> where_at) \<Rightarrow> bool" where
  enter: "pc t = Outside \<Longrightarrow> mutex_step (m, pc) (m, pc(t := Spinning))"
| spin: "pc t = Spinning \<Longrightarrow> rtapi_mutex_try m = (True, m') \<Longrightarrow> mutex_step (m, pc) (m', pc)"
| acquire: "pc t = Spinning \<Longrightarrow> rtapi_mutex_try m = (False, m') \<Longrightarrow> mutex_step (m, pc) (m', pc(t := Inside))"
| release: "pc t = Inside \<Longrightarrow> mutex_step (m, pc) (rtapi_mutex_give m, pc(t := Outside))"

inductive_cases mutex_stepE: "mutex_step (m, pc) (m', pc')"

definition mutex_inv :: "64 word \<Rightarrow> (nat \<Rightarrow> where_at) \<Rightarrow> bool" where
  "mutex_inv m pc \<longleftrightarrow> (\<forall>t u. pc t = Inside \<longrightarrow> pc u = Inside \<longrightarrow> t = u) \<and> (bit m 0 \<longleftrightarrow> (\<exists>t. pc t = Inside))"

lemma mutex_step_inv:
  assumes "mutex_step (m, pc) (m', pc')" "mutex_inv m pc"
  shows "mutex_inv m' pc'"
  using assms(1)
proof (rule mutex_stepE)
  fix t assume "m' = m" "pc' = pc(t := Spinning)" "pc t = Outside"
  then have "pc' u = Inside \<longleftrightarrow> pc u = Inside" for u by simp
  with assms(2) \<open>m' = m\<close> show ?thesis by (simp add: mutex_inv_def)
next
  fix t assume p: "pc' = pc" "pc t = Spinning" "rtapi_mutex_try m = (True, m')"
  then have "bit m 0" "bit m' 0" using mutex_try_iff [of m] by auto
  with p assms(2) show ?thesis by (simp add: mutex_inv_def)
next
  fix t assume p: "pc' = pc(t := Inside)" "pc t = Spinning" "rtapi_mutex_try m = (False, m')"
  then have "\<not> bit m 0" "bit m' 0" using mutex_try_iff [of m] by auto
  with p assms(2) show ?thesis by (auto simp: mutex_inv_def)
next
  fix t assume p: "m' = rtapi_mutex_give m" "pc' = pc(t := Outside)" "pc t = Inside"
  with assms(2) mutex_give_free [of m] show ?thesis
    unfolding mutex_inv_def by (metis fun_upd_apply where_at.distinct(3))
qed

text \<open>
  C26: Mutual exclusion: however any number of threads interleave their attempts and releases, at most
  one is inside at a time, and the mutex bit is set exactly while one is.
\<close>

theorem mutex_exclusion:
  assumes "mutex_step\<^sup>*\<^sup>* (0, \<lambda>_. Outside) (m, pc)"
  shows "(pc t = Inside \<and> pc u = Inside \<longrightarrow> t = u) \<and> (bit m 0 \<longleftrightarrow> (\<exists>t. pc t = Inside))"
proof -
  have "mutex_inv m pc"
    using assms
  proof (induction rule: rtranclp_induct2)
    case refl
    show ?case by (simp add: mutex_inv_def)
  next
    case (step m1 pc1 m2 pc2)
    then show ?case by (blast intro: mutex_step_inv)
  qed
  then show ?thesis by (auto simp: mutex_inv_def)
qed

theorem mutex_exclusion_witness:
  "\<exists>m. mutex_step\<^sup>*\<^sup>* (0, \<lambda>_. Outside) (m, (\<lambda>_. Outside)(7 := Inside)) \<and> bit m 0"
proof -
  have "mutex_step (0, \<lambda>_. Outside) (0, (\<lambda>_. Outside)(7 := Spinning))" by (rule mutex_step.enter) simp
  moreover obtain m where m: "rtapi_mutex_try 0 = (False, m)"
    using mutex_try_iff(1) [of 0] by (cases "rtapi_mutex_try 0") auto
  have "mutex_step (0, (\<lambda>_. Outside)(7 := Spinning)) (m, ((\<lambda>_. Outside)(7 := Spinning))(7 := Inside))"
    by (rule mutex_step.acquire [OF _ m]) simp
  ultimately have r: "mutex_step\<^sup>*\<^sup>* (0, \<lambda>_. Outside) (m, (\<lambda>_. Outside)(7 := Inside))"
    by (metis (no_types, lifting) fun_upd_upd converse_rtranclp_into_rtranclp r_into_rtranclp)
  have "((\<lambda>_. Outside)(7 := Inside)) 7 = Inside" by simp
  with mutex_exclusion [OF r, of 7 7] have "bit m 0" by blast
  with r show ?thesis by blast
qed

end
