(* ===== verification/RtapiShm.thy ===== *)
theory RtapiShm
  imports Rtapi
begin

text \<open>
  Shared memory handles and module identifiers of \<open>rtapi/uspace_common.c\<close>: the table of segments mapped by
  the process, counted by key, and the identifiers handed out of a counter in a segment of its own.
  The operating system is a record of answers. \<open>None\<close> is a call that never returns or an access
  through the address of a segment that is no longer mapped there.
\<close>

section \<open>The table of handles\<close>

definition EINVAL :: int where "EINVAL = 22"
definition ENOMEM :: int where "ENOMEM = 12"
definition EPERM :: int where "EPERM = 1"
definition ENOSPC :: int where "ENOSPC = 28"

definition MAX_SHM :: nat where "MAX_SHM = 64"
definition SHMEM_MAGIC :: int where "SHMEM_MAGIC = 25453"
definition UUID_KEY :: int where "UUID_KEY = 0x48484c34"

record shm_handle =
  sh_magic :: int
  sh_key :: int
  sh_id :: int
  sh_count :: int
  sh_size :: int
  sh_mem :: int

text \<open>
  \<open>os_shmget\<close> takes the number of the attempt and the key, and answers with \<open>errno\<close> or an identifier;
  \<open>os_nattch\<close> is the number of processes attached, or nothing when the status cannot be read.
\<close>

record shm_os =
  os_shmget :: "nat \<Rightarrow> int \<Rightarrow> int + int"
  os_shmat :: "int \<Rightarrow> int + int"
  os_shmdt :: "int \<Rightarrow> int"
  os_nattch :: "int \<Rightarrow> int option"
  os_rmid :: "int \<Rightarrow> int"

definition shm_valid :: "shm_handle \<Rightarrow> bool" where
  "shm_valid h \<longleftrightarrow> sh_magic h = SHMEM_MAGIC"

definition shm_index :: "(shm_handle \<Rightarrow> bool) \<Rightarrow> shm_handle list \<Rightarrow> nat option" where
  "shm_index P hs = find (\<lambda>i. P (hs ! i)) [0..<MAX_SHM]"

text \<open>The retries of \<open>shmget\<close>: \<open>errno\<close> is compared with a negative number.\<close>

primrec shmget_retry :: "shm_os \<Rightarrow> int \<Rightarrow> nat \<Rightarrow> int + int" where
  "shmget_retry os key 0 = os_shmget os 0 key"
| "shmget_retry os key (Suc n) =
     (case os_shmget os (Suc n) key of
        Inr i \<Rightarrow> Inr i
      | Inl errno \<Rightarrow> if errno = - EPERM then shmget_retry os key n else Inl errno)"

definition rtapi_shmem_new :: "shm_os \<Rightarrow> int \<Rightarrow> int \<Rightarrow> shm_handle list \<Rightarrow> int \<times> shm_handle list" where
  "rtapi_shmem_new os key sz hs =
     (case shm_index (\<lambda>h. shm_valid h \<and> sh_key h = key) hs of
        Some i \<Rightarrow> (int i, hs[i := (hs ! i)\<lparr>sh_count := sh_count (hs ! i) + 1\<rparr>])
      | None \<Rightarrow>
          (case shm_index (\<lambda>h. \<not> shm_valid h) hs of
             None \<Rightarrow> (- ENOMEM, hs)
           | Some i \<Rightarrow>
               (case shmget_retry os key 5 of
                  Inl errno \<Rightarrow> (- errno, hs[i := (hs ! i)\<lparr>sh_id := -1\<rparr>])
                | Inr shmid \<Rightarrow>
                    (case os_shmat os shmid of
                       Inl errno \<Rightarrow> (- errno, hs[i := (hs ! i)\<lparr>sh_id := shmid, sh_mem := -1\<rparr>])
                     | Inr mem \<Rightarrow>
                         (int i, hs[i := \<lparr>sh_magic = SHMEM_MAGIC, sh_key = key, sh_id = shmid, sh_count = 1,
                                          sh_size = sz, sh_mem = mem\<rparr>])))))"

definition rtapi_shmem_getptr :: "int \<Rightarrow> shm_handle list \<Rightarrow> int \<times> int option" where
  "rtapi_shmem_getptr handle hs =
     (if handle < 0 \<or> handle \<ge> int MAX_SHM then (- EINVAL, None)
      else if \<not> shm_valid (hs ! nat handle) then (- EINVAL, None)
      else (0, Some (sh_mem (hs ! nat handle))))"

text \<open>The second component tells whether the segment was destroyed.\<close>

definition rtapi_shmem_delete :: "shm_os \<Rightarrow> int \<Rightarrow> shm_handle list \<Rightarrow> int \<times> bool \<times> shm_handle list" where
  "rtapi_shmem_delete os handle hs =
     (if handle < 0 \<or> handle \<ge> int MAX_SHM then (- EINVAL, False, hs)
      else let i = nat handle; h = hs ! i in
        if \<not> shm_valid h then (- EINVAL, False, hs)
        else let h1 = h\<lparr>sh_count := sh_count h - 1\<rparr> in
          if sh_count h1 \<noteq> 0 then (0, False, hs[i := h1])
          else let r1 = os_shmdt os (sh_mem h);
                   (r2, gone) = (case os_nattch os (sh_id h) of
                                   None \<Rightarrow> (-1, False)
                                 | Some n \<Rightarrow> if n = 0 then (os_rmid os (sh_id h), os_rmid os (sh_id h) = 0)
                                             else (0, False)) in
            (if r1 \<noteq> 0 \<or> r2 \<noteq> 0 then - EINVAL else 0, gone, hs[i := h1\<lparr>sh_magic := 0\<rparr>]))"

section \<open>Module identifiers\<close>

text \<open>
  The statics of \<open>rtapi_init\<close> and the contents of the segment: its mutex and the counter. A destroyed
  segment starts again with zeros.
\<close>

record rtapi_state =
  rt_handles :: "shm_handle list"
  rt_uuid_mem_id :: int
  rt_uuid_base :: int
  rt_uuid_mutex :: bool
  rt_uuid :: int

definition rtapi_exit :: "shm_os \<Rightarrow> int \<Rightarrow> rtapi_state \<Rightarrow> int \<times> rtapi_state" where
  "rtapi_exit os module_id rt =
     (case rtapi_shmem_delete os (rt_uuid_mem_id rt) (rt_handles rt) of
        (_, gone, hs) \<Rightarrow>
          (0, if gone then rt\<lparr>rt_handles := hs, rt_uuid_mutex := False, rt_uuid := 0\<rparr>
              else rt\<lparr>rt_handles := hs\<rparr>))"

text \<open>
  The address of the segment is kept from the first call on; the counter is reached through it only
  while the segment is mapped there.
\<close>

definition rtapi_init :: "shm_os \<Rightarrow> rtapi_state \<Rightarrow> (int \<times> rtapi_state) option" where
  "rtapi_init os rt =
     (case rtapi_shmem_new os UUID_KEY 16 (rt_handles rt) of
        (h, hs) \<Rightarrow>
          (let rt1 = rt\<lparr>rt_handles := hs, rt_uuid_mem_id := h\<rparr> in
           if h < 0 then Some (- EINVAL, snd (rtapi_exit os 0 rt1))
           else case rtapi_shmem_getptr h hs of
             (r, None) \<Rightarrow> Some (- EINVAL, snd (rtapi_exit os 0 rt1))
           | (r, Some mem) \<Rightarrow>
               (let base = (if rt_uuid_base rt1 = 0 then mem else rt_uuid_base rt1) in
                if base \<noteq> mem \<or> rt_uuid_mutex rt1 then None
                else let uuid = s32 (rt_uuid rt1 + 1) in
                  Some (uuid, rt1\<lparr>rt_uuid_base := base, rt_uuid := uuid\<rparr>))))"

section \<open>Counting\<close>

lemma shm_index_Some:
  assumes "shm_index P hs = Some i"
  shows "i < MAX_SHM" "P (hs ! i)"
  using assms by (auto simp: shm_index_def find_Some_iff)

lemma shm_index_None: "shm_index P hs = None \<longleftrightarrow> (\<forall>i < MAX_SHM. \<not> P (hs ! i))"
  by (auto simp: shm_index_def find_None_iff)

lemma shmget_retry_none:
  assumes "\<And>n e. os_shmget os n key = Inl e \<Longrightarrow> 0 < e"
  shows "shmget_retry os key n = os_shmget os n key"
  using assms [of n] by (cases n) (force simp: EPERM_def split: sum.splits)+

text \<open>
  The invariant, for the identifiers \<open>live\<close> handed out and not returned, after at most \<open>n\<close> initialisations:
  while there are any, exactly one handle has the key, it counts them and is mapped where the counter
  is read.
\<close>

definition uuid_handle :: "shm_handle \<Rightarrow> bool" where
  "uuid_handle h \<longleftrightarrow> shm_valid h \<and> sh_key h = UUID_KEY"

definition rt_inv :: "nat \<Rightarrow> rtapi_state \<Rightarrow> int list \<Rightarrow> bool" where
  "rt_inv n rt live \<longleftrightarrow>
     length (rt_handles rt) = MAX_SHM \<and> \<not> rt_uuid_mutex rt \<and> distinct live \<and>
     0 \<le> rt_uuid rt \<and> rt_uuid rt \<le> int n \<and> (\<forall>m \<in> set live. 0 < m \<and> m \<le> rt_uuid rt) \<and>
     (if live = [] then \<forall>i < MAX_SHM. \<not> uuid_handle (rt_handles rt ! i)
      else 0 \<le> rt_uuid_mem_id rt \<and> nat (rt_uuid_mem_id rt) < MAX_SHM \<and>
        (\<forall>i < MAX_SHM. uuid_handle (rt_handles rt ! i) \<longleftrightarrow> i = nat (rt_uuid_mem_id rt)) \<and>
        sh_count (rt_handles rt ! nat (rt_uuid_mem_id rt)) = int (length live) \<and>
        sh_mem (rt_handles rt ! nat (rt_uuid_mem_id rt)) = rt_uuid_base rt)"

lemma exit_inv:
  assumes inv: "rt_inv n rt live" and m: "m \<in> set live"
  shows "rt_inv n (snd (rtapi_exit os m rt)) (remove1 m live)"
proof -
  let ?i = "nat (rt_uuid_mem_id rt)" and ?hs = "rt_handles rt"
  have ne: "live \<noteq> []" using m by auto
  have k: "0 \<le> rt_uuid_mem_id rt" "?i < MAX_SHM" "length ?hs = MAX_SHM"
    "\<forall>i < MAX_SHM. uuid_handle (?hs ! i) \<longleftrightarrow> i = ?i" "sh_count (?hs ! ?i) = int (length live)"
    "sh_mem (?hs ! ?i) = rt_uuid_base rt" "\<not> rt_uuid_mutex rt" "distinct live" "0 \<le> rt_uuid rt"
    "rt_uuid rt \<le> int n" "\<forall>m \<in> set live. 0 < m \<and> m \<le> rt_uuid rt"
    using inv ne by (auto simp: rt_inv_def)
  have valid: "shm_valid (?hs ! ?i)" "sh_key (?hs ! ?i) = UUID_KEY"
    using k(2,4) by (auto simp: uuid_handle_def)
  have range: "\<not> (rt_uuid_mem_id rt < 0 \<or> rt_uuid_mem_id rt \<ge> int MAX_SHM)" using k(1,2) by linarith
  show ?thesis
  proof (cases "live = [m]")
    case True
    have "\<exists>r gone. rtapi_shmem_delete os (rt_uuid_mem_id rt) ?hs =
        (r, gone, ?hs[?i := (?hs ! ?i)\<lparr>sh_count := 0, sh_magic := 0\<rparr>])"
      using range valid(1) k(5) True
      by (auto simp: rtapi_shmem_delete_def Let_def split: option.splits)
    then obtain r gone where d: "rtapi_shmem_delete os (rt_uuid_mem_id rt) ?hs =
        (r, gone, ?hs[?i := (?hs ! ?i)\<lparr>sh_count := 0, sh_magic := 0\<rparr>])" by blast
    have "\<not> uuid_handle (?hs[?i := (?hs ! ?i)\<lparr>sh_count := 0, sh_magic := 0\<rparr>] ! i)" if "i < MAX_SHM" for i
      using k that by (cases "i = ?i") (simp_all add: uuid_handle_def shm_valid_def SHMEM_MAGIC_def)
    with k True show ?thesis by (simp add: rtapi_exit_def d rt_inv_def)
  next
    case False
    have len: "int (length (remove1 m live)) = int (length live) - 1" "remove1 m live \<noteq> []"
    proof -
      have "0 < length live" using ne by simp
      then show "int (length (remove1 m live)) = int (length live) - 1"
                by (metis m \<open>0 < length live\<close> length_remove1 Suc_pred' of_nat_Suc add_diff_cancel_left')
      show "remove1 m live \<noteq> []"
      proof
        assume "remove1 m live = []"
        then have "length live = 1" using m ne length_remove1 [of m live] by (cases live) auto
        then obtain x where "live = [x]" by (cases live) auto
        with m False show False by simp
      qed
    qed
    have d: "rtapi_shmem_delete os (rt_uuid_mem_id rt) ?hs =
        (0, False, ?hs[?i := (?hs ! ?i)\<lparr>sh_count := int (length live) - 1\<rparr>])"
    proof -
      have "int (length live) - 1 \<noteq> 0" using len by (metis length_0_conv of_nat_eq_0_iff)
      then show ?thesis using range valid(1) k(5) by (simp add: rtapi_shmem_delete_def Let_def)
    qed
    have "uuid_handle (?hs[?i := (?hs ! ?i)\<lparr>sh_count := int (length live) - 1\<rparr>] ! i) \<longleftrightarrow> i = ?i"
      if "i < MAX_SHM" for i
      using k that by (cases "i = ?i") (simp_all add: uuid_handle_def shm_valid_def)
    moreover have "set (remove1 m live) \<subseteq> set live" by (rule set_remove1_subset)
    ultimately show ?thesis
      using k len by (auto simp: rtapi_exit_def d rt_inv_def)
  qed
qed

text \<open>What the system documents: a failing call sets \<open>errno\<close> to a positive number.\<close>

definition os_errno :: "shm_os \<Rightarrow> bool" where
  "os_errno os \<longleftrightarrow> (\<forall>n key e. os_shmget os n key = Inl e \<longrightarrow> 0 < e) \<and> (\<forall>i e. os_shmat os i = Inl e \<longrightarrow> 0 < e)"

lemma shmem_new_fresh:
  assumes os: "os_errno os" and none: "\<forall>i < MAX_SHM. \<not> uuid_handle (hs ! i)" and len: "length hs = MAX_SHM"
    and new: "rtapi_shmem_new os UUID_KEY sz hs = (h, hs')"
  obtains (fail) "h < 0" "\<forall>i < MAX_SHM. \<not> uuid_handle (hs' ! i)" "length hs' = MAX_SHM"
  | (ok) i mem where "i < MAX_SHM" "h = int i" "length hs' = MAX_SHM" "sh_count (hs' ! i) = 1"
      "sh_mem (hs' ! i) = mem" "\<forall>j < MAX_SHM. uuid_handle (hs' ! j) \<longleftrightarrow> j = i"
proof -
  have idx: "shm_index (\<lambda>h. shm_valid h \<and> sh_key h = UUID_KEY) hs = None"
    using none by (simp add: shm_index_None uuid_handle_def)
  have upd: "\<not> uuid_handle (hs[i := (hs ! i)\<lparr>sh_id := c, sh_mem := d\<rparr>] ! j)"
    "\<not> uuid_handle (hs[i := (hs ! i)\<lparr>sh_id := c\<rparr>] ! j)" if "j < MAX_SHM" for i j c d
    using that none len by (cases "j = i"; simp add: uuid_handle_def shm_valid_def)+
  show thesis
  proof (cases "shm_index (\<lambda>h. \<not> shm_valid h) hs")
    case None
    with new idx none len show thesis by (intro fail) (auto simp: rtapi_shmem_new_def ENOMEM_def)
  next
    case (Some i)
    note i = shm_index_Some [OF Some]
    show thesis
    proof (cases "shmget_retry os UUID_KEY 5")
      case (Inl e)
      have "shmget_retry os UUID_KEY 5 = os_shmget os 5 UUID_KEY"
        using os by (intro shmget_retry_none) (auto simp: os_errno_def)
      with Inl os have "0 < e" by (auto simp: os_errno_def)
      with new idx Some Inl upd len show thesis by (intro fail) (auto simp: rtapi_shmem_new_def)
    next
      case (Inr s)
      show thesis
      proof (cases "os_shmat os s")
        case (Inl e)
        with os have "0 < e" by (auto simp: os_errno_def)
        with new idx Some Inr Inl upd len show thesis by (intro fail) (auto simp: rtapi_shmem_new_def)
      next
        case at: (Inr mem)
        from new idx Some Inr at have h: "h = int i"
          "hs' = hs[i := \<lparr>sh_magic = SHMEM_MAGIC, sh_key = UUID_KEY, sh_id = s, sh_count = 1, sh_size = sz, sh_mem = mem\<rparr>]"
          by (simp_all add: rtapi_shmem_new_def)
        have "uuid_handle (hs' ! j) \<longleftrightarrow> j = i" if "j < MAX_SHM" for j
          using that none len i(1) by (cases "j = i") (simp_all add: h(2) uuid_handle_def shm_valid_def)
        then show thesis using i(1) h len by (intro ok [of i mem]) simp_all
      qed
    qed
  qed
qed

lemma exit_none:
  assumes "\<forall>i < MAX_SHM. \<not> uuid_handle (rt_handles rt ! i)" "rt_uuid_mem_id rt < 0"
  shows "rtapi_exit os m rt = (0, rt)"
  using assms by (simp add: rtapi_exit_def rtapi_shmem_delete_def)

lemma init_inv:
  assumes os: "os_errno os" and inv: "rt_inv n rt live"
    and step: "rtapi_init os rt = Some (m, rt')" and n: "int n < INT32_MAX"
  shows "(0 \<le> m \<longrightarrow> m \<notin> set live \<and> rt_inv (Suc n) rt' (m # live)) \<and> (m < 0 \<longrightarrow> rt_inv (Suc n) rt' live)"
proof -
  let ?hs = "rt_handles rt"
  have k: "length ?hs = MAX_SHM" "\<not> rt_uuid_mutex rt" "distinct live" "0 \<le> rt_uuid rt" "rt_uuid rt \<le> int n"
    "\<forall>id \<in> set live. 0 < id \<and> id \<le> rt_uuid rt" using inv by (auto simp: rt_inv_def)
  have "in_s32 (rt_uuid rt + 1)"
    using k(4,5) n by (simp add: in_s32_def INT32_MIN_def INT32_MAX_def)
  then have next_id: "s32 (rt_uuid rt + 1) = rt_uuid rt + 1" by (rule s32_id)
  show ?thesis
  proof (cases "live = []")
    case False
    let ?i = "nat (rt_uuid_mem_id rt)"
    have u: "0 \<le> rt_uuid_mem_id rt" "?i < MAX_SHM"
      "\<forall>i < MAX_SHM. uuid_handle (?hs ! i) \<longleftrightarrow> i = ?i" "sh_count (?hs ! ?i) = int (length live)"
      "sh_mem (?hs ! ?i) = rt_uuid_base rt" using inv False by (auto simp: rt_inv_def)
    have "shm_index (\<lambda>h. shm_valid h \<and> sh_key h = UUID_KEY) ?hs = Some ?i"
    proof (cases "shm_index (\<lambda>h. shm_valid h \<and> sh_key h = UUID_KEY) ?hs")
      case None
      with u(2,3) show ?thesis by (auto simp: shm_index_None uuid_handle_def)
    next
      case (Some j)
      from shm_index_Some [OF Some] u(3) show ?thesis by (simp add: Some uuid_handle_def)
    qed
    then have new: "rtapi_shmem_new os UUID_KEY 16 ?hs =
        (rt_uuid_mem_id rt, ?hs[?i := (?hs ! ?i)\<lparr>sh_count := int (length live) + 1\<rparr>])"
      using u(1,4) by (simp add: rtapi_shmem_new_def)
    have "uuid_handle (?hs ! ?i)" using u(2,3) by blast
    then have valid: "shm_valid (?hs ! ?i)" by (simp add: uuid_handle_def)
    then have "shm_valid ((?hs ! ?i)\<lparr>sh_count := c\<rparr>)" for c by (simp add: shm_valid_def)
    then have ptr: "rtapi_shmem_getptr (rt_uuid_mem_id rt) (?hs[?i := (?hs ! ?i)\<lparr>sh_count := c\<rparr>]) =
        (0, Some (rt_uuid_base rt))" for c
      using u(1,2,5) k(1) by (simp add: rtapi_shmem_getptr_def nat_less_iff)
    from step new ptr u(1) k(2)
    have m: "m = rt_uuid rt + 1" and rt': "rt' = rt\<lparr>rt_handles := ?hs[?i := (?hs ! ?i)\<lparr>sh_count := int (length live) + 1\<rparr>],
        rt_uuid_mem_id := rt_uuid_mem_id rt, rt_uuid_base := rt_uuid_base rt, rt_uuid := rt_uuid rt + 1\<rparr>"
      by (auto simp: rtapi_init_def Let_def next_id split: if_splits)
    have "uuid_handle (?hs[?i := (?hs ! ?i)\<lparr>sh_count := c\<rparr>] ! i) \<longleftrightarrow> i = ?i" if "i < MAX_SHM" for i c
      using u(2,3) k(1) that by (cases "i = ?i") (simp_all add: uuid_handle_def shm_valid_def)
    then have "rt_inv (Suc n) rt' (m # live)"
      using k u by (fastforce simp: rt_inv_def rt' m)
    moreover have "m \<notin> set live" "0 \<le> m" using k(4,6) by (auto simp: m)
    ultimately show ?thesis by simp
  next
    case True
    have none: "\<forall>i < MAX_SHM. \<not> uuid_handle (?hs ! i)" using inv True by (simp add: rt_inv_def)
    obtain h hs where new: "rtapi_shmem_new os UUID_KEY 16 ?hs = (h, hs)" by fastforce
    from os none k(1) new show ?thesis
    proof (cases rule: shmem_new_fresh)
      case fail
      have "m = - EINVAL" "rt' = rt\<lparr>rt_handles := hs, rt_uuid_mem_id := h\<rparr>"
        using step new fail(1) exit_none [of "rt\<lparr>rt_handles := hs, rt_uuid_mem_id := h\<rparr>" os 0] fail(2)
        by (simp_all add: rtapi_init_def)
      then show ?thesis using k fail True by (simp add: rt_inv_def EINVAL_def)
    next
      case (ok i mem)
      have "shm_valid (hs ! i)" using ok(1,6) by (auto simp: uuid_handle_def)
      then have ptr: "rtapi_shmem_getptr h hs = (0, Some mem)"
        using ok(1,2,5) by (simp add: rtapi_shmem_getptr_def)
      from step new ptr ok(2) k(2) have m: "m = rt_uuid rt + 1"
        and rt': "rt' = rt\<lparr>rt_handles := hs, rt_uuid_mem_id := h, rt_uuid_base := mem, rt_uuid := rt_uuid rt + 1\<rparr>"
        by (auto simp: rtapi_init_def Let_def next_id split: if_splits)
      have "rt_inv (Suc n) rt' [m]"
        using k ok by (simp add: rt_inv_def rt' m)
      then show ?thesis using True k(4) by (simp add: m)
    qed
  qed
qed

section \<open>Identifiers are unique\<close>

text \<open>
  The states reached from a fresh process by at most \<open>n\<close> initialisations, exits of live modules, and
  uses of other segments.
\<close>

inductive rt_reach :: "shm_os \<Rightarrow> nat \<Rightarrow> rtapi_state \<Rightarrow> int list \<Rightarrow> bool" for os where
  fresh: "length (rt_handles rt) = MAX_SHM \<Longrightarrow> \<forall>i < MAX_SHM. \<not> shm_valid (rt_handles rt ! i) \<Longrightarrow>
     \<not> rt_uuid_mutex rt \<Longrightarrow> rt_uuid rt = 0 \<Longrightarrow> rt_reach os 0 rt []"
| init: "rt_reach os n rt live \<Longrightarrow> int n < INT32_MAX \<Longrightarrow> rtapi_init os rt = Some (m, rt') \<Longrightarrow> 0 \<le> m \<Longrightarrow>
     rt_reach os (Suc n) rt' (m # live)"
| init_fails: "rt_reach os n rt live \<Longrightarrow> int n < INT32_MAX \<Longrightarrow> rtapi_init os rt = Some (m, rt') \<Longrightarrow> m < 0 \<Longrightarrow>
     rt_reach os (Suc n) rt' live"
| exit: "rt_reach os n rt live \<Longrightarrow> m \<in> set live \<Longrightarrow> rt_reach os n (snd (rtapi_exit os m rt)) (remove1 m live)"

lemma rt_reach_inv: "rt_reach os n rt live \<Longrightarrow> os_errno os \<Longrightarrow> rt_inv n rt live"
proof (induction rule: rt_reach.induct)
  case (fresh rt)
  then show ?case by (simp add: rt_inv_def uuid_handle_def)
next
  case (init n rt live m rt')
  then show ?case using init_inv by blast
next
  case (init_fails n rt live m rt')
  then show ?case using init_inv [of os n rt live m rt'] by simp
next
  case (exit n rt live m)
  then show ?case using exit_inv by blast
qed

text \<open>
  C27: Through any sequence of \<open>rtapi_init\<close> and \<open>rtapi_exit\<close>, failures included, the identifiers of the
  modules that are in are positive and pairwise different, and the segment of the counter stays mapped,
  counting them.
\<close>

theorem rtapi_ids_unique:
  assumes "rt_reach os n rt live" "os_errno os"
  shows "distinct live \<and> (\<forall>m \<in> set live. 0 < m) \<and>
    (live \<noteq> [] \<longrightarrow> rtapi_shmem_getptr (rt_uuid_mem_id rt) (rt_handles rt) = (0, Some (rt_uuid_base rt)) \<and>
       sh_count (rt_handles rt ! nat (rt_uuid_mem_id rt)) = int (length live))"
proof -
  from rt_reach_inv [OF assms] have inv: "rt_inv n rt live" .
  moreover have "rtapi_shmem_getptr (rt_uuid_mem_id rt) (rt_handles rt) = (0, Some (rt_uuid_base rt))"
    if "live \<noteq> []"
  proof -
    have k: "0 \<le> rt_uuid_mem_id rt" "nat (rt_uuid_mem_id rt) < MAX_SHM"
      "uuid_handle (rt_handles rt ! nat (rt_uuid_mem_id rt))"
      "sh_mem (rt_handles rt ! nat (rt_uuid_mem_id rt)) = rt_uuid_base rt"
      using inv that by (auto simp: rt_inv_def)
    then have "\<not> rt_uuid_mem_id rt \<ge> int MAX_SHM" by linarith
    with k show ?thesis by (simp add: rtapi_shmem_getptr_def uuid_handle_def)
  qed
  ultimately show ?thesis by (auto simp: rt_inv_def)
qed

definition os_one :: shm_os where
  "os_one = \<lparr>os_shmget = (\<lambda>_ _. Inr 5), os_shmat = (\<lambda>_. Inr 4096), os_shmdt = (\<lambda>_. 0),
     os_nattch = (\<lambda>_. Some 0), os_rmid = (\<lambda>_. 0)\<rparr>"

definition rt_fresh :: rtapi_state where
  "rt_fresh = \<lparr>rt_handles = replicate MAX_SHM \<lparr>sh_magic = 0, sh_key = 0, sh_id = 0, sh_count = 0, sh_size = 0,
     sh_mem = 0\<rparr>, rt_uuid_mem_id = 0, rt_uuid_base = 0, rt_uuid_mutex = False, rt_uuid = 0\<rparr>"

theorem rtapi_ids_unique_witness:
  "\<exists>rt. rt_reach os_one 1 rt [1] \<and> sh_count (rt_handles rt ! nat (rt_uuid_mem_id rt)) = 1"
proof -
  have os: "os_errno os_one" by (simp add: os_errno_def os_one_def)
  have f: "rt_reach os_one 0 rt_fresh []"
    by (rule rt_reach.fresh) (simp_all add: rt_fresh_def shm_valid_def SHMEM_MAGIC_def)
  have "\<exists>rt. rtapi_init os_one rt_fresh = Some (1, rt)"
    by (simp add: rtapi_init_def rtapi_shmem_new_def shm_index_def rt_fresh_def os_one_def MAX_SHM_def
        shm_valid_def SHMEM_MAGIC_def rtapi_shmem_getptr_def upt_rec eval_nat_numeral EPERM_def)
  then obtain rt where rt: "rtapi_init os_one rt_fresh = Some (1, rt)" by blast
  have "rt_reach os_one (Suc 0) rt [1]"
    using rt_reach.init [OF f _ rt] by (simp add: INT32_MAX_def)
  from rtapi_ids_unique [OF this os] this show ?thesis by auto
qed

end
