(* ===== verification/HalData.thy ===== *)
theory HalData
  imports RtapiShm "HOL-Library.List_Lexorder" "HOL-Library.Char_ord"
begin

text \<open>
  The data of the hardware abstraction layer (\<open>hal/hal_priv.h\<close>) and its memory: the structures with their
  offsets in the shared segment, the lists and free lists, the two-ended allocator, and allocation and
  release of each kind of structure (\<open>hal/hal_lib.c\<close>).

  \<^item> A chain through \<open>next_ptr\<close> is the list of its structures, a ring of \<open>hal_list_t\<close> the list of its entries.
  \<^item> \<open>*_off\<close> is the offset of the structure in the segment; it serves as its address (\<open>SHMOFF\<close>).
  \<^item> \<open>hd_cells\<close> holds the words the layer writes through pointers: the data pointers of pins and the
    values of their dummy signals.
  \<^item> Sizes and field offsets are those of the LP64 target.
  \<^item> \<open>None\<close> is a call that never returns (a mutex that is held) or a write through a null pointer.

  Old names are never set by this library and are left out.
\<close>

definition HAL_NAME_LEN :: nat where "HAL_NAME_LEN = 47"
definition HAL_KEY :: int where "HAL_KEY = 0x48414C32"
definition HAL_SIZE :: int where "HAL_SIZE = 256 * 4096"

definition HAL_LOCK_NONE :: byte where "HAL_LOCK_NONE = 0"
definition HAL_LOCK_LOAD :: byte where "HAL_LOCK_LOAD = 1"
definition HAL_LOCK_CONFIG :: byte where "HAL_LOCK_CONFIG = 2"
definition HAL_LOCK_RUN :: byte where "HAL_LOCK_RUN = 8"

datatype component_type =
    COMPONENT_TYPE_UNKNOWN | COMPONENT_TYPE_USER | COMPONENT_TYPE_REALTIME | COMPONENT_TYPE_OTHER

datatype hal_type =
    HAL_TYPE_UNSPECIFIED | HAL_TYPE_UNINITIALIZED | HAL_BIT | HAL_FLOAT | HAL_S32 | HAL_U32 | HAL_PORT
  | HAL_S64 | HAL_U64 | HAL_INT32 | HAL_TYPE_MAX

datatype hal_param_dir = HAL_RO | HAL_RW | HAL_DIR_OTHER

record hal_comp =
  hc_off :: int
  hc_comp_id :: int
  hc_mem_id :: int
  hc_type :: component_type
  hc_ready :: int
  hc_pid :: int
  hc_shmem_base :: bool
  hc_name :: string
  hc_make :: int
  hc_insmod_args :: int

record hal_funct =
  hf_off :: int
  hf_uses_fp :: int
  hf_owner :: int
  hf_reentrant :: int
  hf_users :: int
  hf_arg :: int
  hf_funct :: int
  hf_maxtime :: int
  hf_maxtime_increased :: bool
  hf_name :: string

record hal_param =
  hp_off :: int
  hp_data_ptr :: int
  hp_owner :: int
  hp_type :: hal_type
  hp_dir :: hal_param_dir
  hp_name :: string

record hal_pin =
  hn_off :: int
  hn_data_ptr_addr :: int
  hn_owner :: int
  hn_signal :: int
  hn_type :: hal_type
  hn_name :: string

record hal_funct_entry =
  fe_off :: int
  fe_arg :: int
  fe_funct :: int
  fe_funct_ptr :: int

record hal_thread =
  ht_off :: int
  ht_uses_fp :: int
  ht_period :: int
  ht_priority :: int
  ht_task_id :: int
  ht_maxtime :: int
  ht_funct_list :: "hal_funct_entry list"
  ht_name :: string
  ht_comp_id :: int

record hal_data =
  hd_mutex :: bool
  hd_shmem_avail :: int
  hd_shmem_bot :: int
  hd_shmem_top :: int
  hd_comp_list :: "hal_comp list"
  hd_pin_list :: "hal_pin list"
  hd_param_list :: "hal_param list"
  hd_funct_list :: "hal_funct list"
  hd_thread_list :: "hal_thread list"
  hd_base_period :: int
  hd_threads_running :: int
  hd_comp_free :: "hal_comp list"
  hd_pin_free :: "hal_pin list"
  hd_param_free :: "hal_param list"
  hd_funct_free :: "hal_funct list"
  hd_funct_entry_free :: "hal_funct_entry list"
  hd_thread_free :: "hal_thread list"
  hd_exact_base_period :: int
  hd_lock :: byte
  hd_cells :: "int \<Rightarrow> int"

definition SIZEOF_DATA :: int where "SIZEOF_DATA = 256"
definition SIZEOF_COMP :: int where "SIZEOF_COMP = 104"
definition SIZEOF_FUNCT :: int where "SIZEOF_FUNCT = 112"
definition SIZEOF_PARAM :: int where "SIZEOF_PARAM = 88"
definition SIZEOF_PIN :: int where "SIZEOF_PIN = 104"
definition SIZEOF_FUNCT_ENTRY :: int where "SIZEOF_FUNCT_ENTRY = 40"
definition SIZEOF_THREAD :: int where "SIZEOF_THREAD = 120"

text \<open>Addresses of fields: the run time pointers, the statistics, and the dummy signal of a pin.\<close>

definition funct_runtime :: "int \<Rightarrow> int" where "funct_runtime off = off + 48"
definition funct_maxtime :: "int \<Rightarrow> int" where "funct_maxtime off = off + 56"
definition funct_maxtime_increased :: "int \<Rightarrow> int" where "funct_maxtime_increased off = off + 60"
definition thread_runtime :: "int \<Rightarrow> int" where "thread_runtime off = off + 32"
definition thread_maxtime :: "int \<Rightarrow> int" where "thread_maxtime off = off + 40"
definition pin_dummysig :: "int \<Rightarrow> int" where "pin_dummysig off = off + 32"

definition SHMCHK :: "int \<Rightarrow> bool" where
  "SHMCHK p \<longleftrightarrow> 0 < p \<and> p < HAL_SIZE"

section \<open>The mutex\<close>

text \<open>
  \<open>rtapi_mutex_get\<close>, a body, \<open>rtapi_mutex_give\<close>. The calls of one thread of control are followed; when
  the mutex is held already nobody is left to give it.
\<close>

definition locked :: "(hal_data \<Rightarrow> ('a \<times> hal_data) option) \<Rightarrow> hal_data \<Rightarrow> ('a \<times> hal_data) option" where
  "locked f d =
     (if hd_mutex d then None
      else case f (d\<lparr>hd_mutex := True\<rparr>) of
        None \<Rightarrow> None
      | Some (r, d') \<Rightarrow> Some (r, d'\<lparr>hd_mutex := False\<rparr>))"

section \<open>The allocator\<close>

definition align_up :: "int \<Rightarrow> int \<Rightarrow> int" where
  "align_up n x = (x + (n - 1)) - (x + (n - 1)) mod n"

definition align_dn :: "int \<Rightarrow> int \<Rightarrow> int" where
  "align_dn n x = x - x mod n"

definition alignment :: "int \<Rightarrow> int" where
  "alignment sz = (if sz \<ge> 16 then 16 else if sz \<ge> 8 then 8 else if sz \<ge> 4 then 4 else if sz = 2 then 2 else 1)"

definition shmalloc_up :: "int \<Rightarrow> hal_data \<Rightarrow> int option \<times> hal_data" where
  "shmalloc_up sz d =
     (let tmp_bot = align_up (alignment sz) (hd_shmem_bot d) in
      if hd_shmem_top d - tmp_bot < sz then (None, d)
      else (Some tmp_bot, d\<lparr>hd_shmem_bot := tmp_bot + sz, hd_shmem_avail := hd_shmem_top d - (tmp_bot + sz)\<rparr>))"

definition shmalloc_dn :: "int \<Rightarrow> hal_data \<Rightarrow> int option \<times> hal_data" where
  "shmalloc_dn sz d =
     (let tmp_top = align_dn (alignment sz) (hd_shmem_top d - sz) in
      if tmp_top < hd_shmem_bot d then (None, d)
      else (Some tmp_top, d\<lparr>hd_shmem_top := tmp_top, hd_shmem_avail := tmp_top - hd_shmem_bot d\<rparr>))"

definition hal_malloc :: "int \<Rightarrow> hal_data \<Rightarrow> (int option \<times> hal_data) option" where
  "hal_malloc sz = locked (\<lambda>d. Some (shmalloc_up sz d))"

section \<open>Structures\<close>

text \<open>Memory from the allocator is new and zero; memory from a free list keeps what is not reset.\<close>

definition comp_new :: "int \<Rightarrow> hal_comp" where
  "comp_new off = \<lparr>hc_off = off, hc_comp_id = 0, hc_mem_id = 0, hc_type = COMPONENT_TYPE_USER, hc_ready = 0,
     hc_pid = 0, hc_shmem_base = False, hc_name = [], hc_make = 0, hc_insmod_args = 0\<rparr>"

definition comp_reset :: "hal_comp \<Rightarrow> hal_comp" where
  "comp_reset c = c\<lparr>hc_comp_id := 0, hc_mem_id := 0, hc_type := COMPONENT_TYPE_USER, hc_shmem_base := False,
     hc_name := []\<rparr>"

definition halpr_alloc_comp_struct :: "hal_data \<Rightarrow> hal_comp option \<times> hal_data" where
  "halpr_alloc_comp_struct d =
     (case hd_comp_free d of
        c # cs \<Rightarrow> (Some (comp_reset c), d\<lparr>hd_comp_free := cs\<rparr>)
      | [] \<Rightarrow> (case shmalloc_dn SIZEOF_COMP d of (p, d') \<Rightarrow> (map_option comp_new p, d')))"

definition funct_new :: "int \<Rightarrow> hal_funct" where
  "funct_new off = \<lparr>hf_off = off, hf_uses_fp = 0, hf_owner = 0, hf_reentrant = 0, hf_users = 0, hf_arg = 0,
     hf_funct = 0, hf_maxtime = 0, hf_maxtime_increased = False, hf_name = []\<rparr>"

definition funct_reset :: "hal_funct \<Rightarrow> hal_funct" where
  "funct_reset f = f\<lparr>hf_uses_fp := 0, hf_owner := 0, hf_reentrant := 0, hf_users := 0, hf_arg := 0,
     hf_funct := 0, hf_name := []\<rparr>"

definition alloc_funct_struct :: "hal_data \<Rightarrow> hal_funct option \<times> hal_data" where
  "alloc_funct_struct d =
     (case hd_funct_free d of
        f # fs \<Rightarrow> (Some (funct_reset f), d\<lparr>hd_funct_free := fs\<rparr>)
      | [] \<Rightarrow> (case shmalloc_dn SIZEOF_FUNCT d of (p, d') \<Rightarrow> (map_option funct_new p, d')))"

definition param_new :: "int \<Rightarrow> hal_param" where
  "param_new off = \<lparr>hp_off = off, hp_data_ptr = 0, hp_owner = 0, hp_type = HAL_TYPE_UNINITIALIZED,
     hp_dir = HAL_DIR_OTHER, hp_name = []\<rparr>"

definition param_reset :: "hal_param \<Rightarrow> hal_param" where
  "param_reset p = p\<lparr>hp_data_ptr := 0, hp_owner := 0, hp_type := HAL_TYPE_UNINITIALIZED, hp_name := []\<rparr>"

definition alloc_param_struct :: "hal_data \<Rightarrow> hal_param option \<times> hal_data" where
  "alloc_param_struct d =
     (case hd_param_free d of
        p # ps \<Rightarrow> (Some (param_reset p), d\<lparr>hd_param_free := ps\<rparr>)
      | [] \<Rightarrow> (case shmalloc_dn SIZEOF_PARAM d of (p, d') \<Rightarrow> (map_option param_new p, d')))"

definition pin_new :: "int \<Rightarrow> hal_pin" where
  "pin_new off = \<lparr>hn_off = off, hn_data_ptr_addr = 0, hn_owner = 0, hn_signal = 0,
     hn_type = HAL_TYPE_UNINITIALIZED, hn_name = []\<rparr>"

definition pin_reset :: "hal_pin \<Rightarrow> hal_pin" where
  "pin_reset p = p\<lparr>hn_data_ptr_addr := 0, hn_owner := 0, hn_type := HAL_TYPE_UNINITIALIZED, hn_signal := 0,
     hn_name := []\<rparr>"

definition store_cell :: "int \<Rightarrow> int \<Rightarrow> hal_data \<Rightarrow> hal_data" where
  "store_cell p v d = d\<lparr>hd_cells := (hd_cells d)(p := v)\<rparr>"

definition alloc_pin_struct :: "hal_data \<Rightarrow> hal_pin option \<times> hal_data" where
  "alloc_pin_struct d =
     (case hd_pin_free d of
        p # ps \<Rightarrow> (Some (pin_reset p), store_cell (pin_dummysig (hn_off p)) 0 (d\<lparr>hd_pin_free := ps\<rparr>))
      | [] \<Rightarrow> (case shmalloc_dn SIZEOF_PIN d of
                (None, d') \<Rightarrow> (None, d')
              | (Some off, d') \<Rightarrow> (Some (pin_new off), store_cell (pin_dummysig off) 0 d')))"

definition thread_new :: "int \<Rightarrow> hal_thread" where
  "thread_new off = \<lparr>ht_off = off, ht_uses_fp = 0, ht_period = 0, ht_priority = 0, ht_task_id = 0,
     ht_maxtime = 0, ht_funct_list = [], ht_name = [], ht_comp_id = 0\<rparr>"

definition thread_reset :: "hal_thread \<Rightarrow> hal_thread" where
  "thread_reset t = t\<lparr>ht_uses_fp := 0, ht_period := 0, ht_priority := 0, ht_task_id := 0,
     ht_funct_list := [], ht_name := []\<rparr>"

definition alloc_thread_struct :: "hal_data \<Rightarrow> hal_thread option \<times> hal_data" where
  "alloc_thread_struct d =
     (case hd_thread_free d of
        t # ts \<Rightarrow> (Some (thread_reset t), d\<lparr>hd_thread_free := ts\<rparr>)
      | [] \<Rightarrow> (case shmalloc_dn SIZEOF_THREAD d of (p, d') \<Rightarrow> (map_option thread_new p, d')))"

text \<open>A new entry is linked to itself before the null check.\<close>

definition entry_reset :: "hal_funct_entry \<Rightarrow> hal_funct_entry" where
  "entry_reset e = e\<lparr>fe_funct_ptr := 0, fe_arg := 0, fe_funct := 0\<rparr>"

definition alloc_funct_entry_struct :: "hal_data \<Rightarrow> (hal_funct_entry \<times> hal_data) option" where
  "alloc_funct_entry_struct d =
     (case hd_funct_entry_free d of
        e # es \<Rightarrow> Some (entry_reset e, d\<lparr>hd_funct_entry_free := es\<rparr>)
      | [] \<Rightarrow> (case shmalloc_dn SIZEOF_FUNCT_ENTRY d of
                (None, d') \<Rightarrow> None
              | (Some off, d') \<Rightarrow> Some (\<lparr>fe_off = off, fe_arg = 0, fe_funct = 0, fe_funct_ptr = 0\<rparr>, d')))"

definition upd_funct :: "int \<Rightarrow> (hal_funct \<Rightarrow> hal_funct) \<Rightarrow> hal_data \<Rightarrow> hal_data" where
  "upd_funct off g d = d\<lparr>hd_funct_list := map (\<lambda>f. if hf_off f = off then g f else f) (hd_funct_list d)\<rparr>"

definition free_funct_entry_struct :: "hal_funct_entry \<Rightarrow> hal_data \<Rightarrow> hal_data" where
  "free_funct_entry_struct e d =
     (let d1 = (if fe_funct_ptr e > 0
                then upd_funct (fe_funct_ptr e) (\<lambda>f. f\<lparr>hf_users := hf_users f - 1\<rparr>) d else d) in
      d1\<lparr>hd_funct_entry_free := entry_reset e # hd_funct_entry_free d1\<rparr>)"

definition free_param_struct :: "hal_param \<Rightarrow> hal_data \<Rightarrow> hal_data" where
  "free_param_struct p d = d\<lparr>hd_param_free := param_reset p # hd_param_free d\<rparr>"

definition free_pin_struct :: "hal_pin \<Rightarrow> hal_data \<Rightarrow> hal_data" where
  "free_pin_struct p d =
     (store_cell (pin_dummysig (hn_off p)) 0 d)\<lparr>hd_pin_free := pin_reset p # hd_pin_free d\<rparr>"

text \<open>The entries of a function are taken out of every thread, one after the other.\<close>

definition unlink_funct :: "hal_funct \<Rightarrow> hal_data \<Rightarrow> hal_data" where
  "unlink_funct f d =
     (let calls = (\<lambda>e. fe_funct_ptr e = hf_off f);
          gone = concat (map (\<lambda>t. filter calls (ht_funct_list t)) (hd_thread_list d));
          d1 = d\<lparr>hd_thread_list := map (\<lambda>t. t\<lparr>ht_funct_list := filter (\<lambda>e. \<not> calls e) (ht_funct_list t)\<rparr>)
                                     (hd_thread_list d)\<rparr> in
      fold free_funct_entry_struct gone d1)"

definition free_funct_struct :: "hal_funct \<Rightarrow> hal_data \<Rightarrow> hal_data" where
  "free_funct_struct f d =
     (let d1 = (if hf_users f > 0 then unlink_funct f d else d);
          d2 = store_cell (funct_runtime (hf_off f)) 0 d1 in
      d2\<lparr>hd_funct_free := funct_reset f # hd_funct_free d2\<rparr>)"

text \<open>Functions and parameters of the component go; its pins stay in their list.\<close>

definition free_comp_struct :: "hal_comp \<Rightarrow> hal_data \<Rightarrow> hal_data" where
  "free_comp_struct c d =
     (let owned = filter (\<lambda>f. hf_owner f = hc_off c) (hd_funct_list d);
          d1 = fold free_funct_struct owned
                 (d\<lparr>hd_funct_list := filter (\<lambda>f. hf_owner f \<noteq> hc_off c) (hd_funct_list d)\<rparr>);
          params = filter (\<lambda>p. hp_owner p = hc_off c) (hd_param_list d1);
          d2 = fold free_param_struct params
                 (d1\<lparr>hd_param_list := filter (\<lambda>p. hp_owner p \<noteq> hc_off c) (hd_param_list d1)\<rparr>) in
      d2\<lparr>hd_comp_free := comp_reset c # hd_comp_free d2\<rparr>)"

section \<open>Sorted insertion\<close>

text \<open>\<open>strcmp\<close> orders names by their bytes; an equal name refuses the insertion.\<close>

fun insert_named :: "('a \<Rightarrow> string) \<Rightarrow> 'a \<Rightarrow> 'a list \<Rightarrow> 'a list option" where
  "insert_named nm x [] = Some [x]"
| "insert_named nm x (y # ys) =
     (if nm y > nm x then Some (x # y # ys)
      else if nm y = nm x then None
      else map_option ((#) y) (insert_named nm x ys))"

text \<open>\<open>rt_snprintf\<close> into a name field cuts at its length.\<close>

definition copy_name :: "string \<Rightarrow> string" where
  "copy_name s = take HAL_NAME_LEN s"

end
