(* ===== verification/HalOps.thy ===== *)
theory HalOps
  imports HalData
begin

text \<open>
  The operations of \<open>hal/hal_lib.c\<close> on the shared data: components and their readiness, locks, pins and
  parameters, functions and the lists of functions of the threads, starting and stopping, and the
  pass a thread makes over its functions. Every operation returns its C result with the new data.
\<close>

section \<open>Searching\<close>

definition halpr_find_comp_by_name :: "string \<Rightarrow> hal_data \<Rightarrow> hal_comp option" where
  "halpr_find_comp_by_name n d = find (\<lambda>c. hc_name c = n) (hd_comp_list d)"

definition halpr_find_comp_by_id :: "int \<Rightarrow> hal_data \<Rightarrow> hal_comp option" where
  "halpr_find_comp_by_id i d = find (\<lambda>c. hc_comp_id c = i) (hd_comp_list d)"

definition halpr_find_funct_by_name :: "string \<Rightarrow> hal_data \<Rightarrow> hal_funct option" where
  "halpr_find_funct_by_name n d = find (\<lambda>f. hf_name f = n) (hd_funct_list d)"

definition halpr_find_thread_by_name :: "string \<Rightarrow> hal_data \<Rightarrow> hal_thread option" where
  "halpr_find_thread_by_name n d = find (\<lambda>t. ht_name t = n) (hd_thread_list d)"

section \<open>Components\<close>

definition upd_comp :: "int \<Rightarrow> (hal_comp \<Rightarrow> hal_comp) \<Rightarrow> hal_data \<Rightarrow> hal_data" where
  "upd_comp off g d = d\<lparr>hd_comp_list := map (\<lambda>c. if hc_off c = off then g c else c) (hd_comp_list d)\<rparr>"

definition hal_set_constructor :: "int \<Rightarrow> int \<Rightarrow> hal_data \<Rightarrow> (int \<times> hal_data) option" where
  "hal_set_constructor cid mk = locked (\<lambda>d.
     case halpr_find_comp_by_id cid d of
       None \<Rightarrow> Some (- EINVAL, d)
     | Some c \<Rightarrow> Some (0, upd_comp (hc_off c) (\<lambda>c. c\<lparr>hc_make := mk\<rparr>) d))"

definition hal_set_unready :: "int \<Rightarrow> hal_data \<Rightarrow> (int \<times> hal_data) option" where
  "hal_set_unready cid = locked (\<lambda>d.
     case halpr_find_comp_by_id cid d of
       None \<Rightarrow> Some (- EINVAL, d)
     | Some c \<Rightarrow> Some (0, upd_comp (hc_off c) (\<lambda>c. c\<lparr>hc_ready := 0\<rparr>) d))"

definition hal_ready :: "int \<Rightarrow> hal_data \<Rightarrow> (int \<times> hal_data) option" where
  "hal_ready cid = locked (\<lambda>d.
     case halpr_find_comp_by_id cid d of
       None \<Rightarrow> Some (- EINVAL, d)
     | Some c \<Rightarrow>
         if hc_ready c > 0 then Some (- EINVAL, d)
         else Some (0, upd_comp (hc_off c) (\<lambda>c. c\<lparr>hc_ready := 1\<rparr>) d))"

definition hal_unready :: "int \<Rightarrow> hal_data \<Rightarrow> (int \<times> hal_data) option" where
  "hal_unready cid = locked (\<lambda>d.
     case halpr_find_comp_by_id cid d of
       None \<Rightarrow> Some (- EINVAL, d)
     | Some c \<Rightarrow>
         if hc_ready c < 1 then Some (- EINVAL, d)
         else Some (0, upd_comp (hc_off c) (\<lambda>c. c\<lparr>hc_ready := 0\<rparr>) d))"

definition hal_comp_name :: "int \<Rightarrow> hal_data \<Rightarrow> (string option \<times> hal_data) option" where
  "hal_comp_name cid = locked (\<lambda>d. Some (map_option hc_name (halpr_find_comp_by_id cid d), d))"

text \<open>\<open>hal_get_lock\<close> returns an \<open>unsigned char\<close>.\<close>

definition hal_set_lock :: "byte \<Rightarrow> hal_data \<Rightarrow> int \<times> hal_data" where
  "hal_set_lock l d = (0, d\<lparr>hd_lock := l\<rparr>)"

definition hal_get_lock :: "hal_data \<Rightarrow> byte" where
  "hal_get_lock d = hd_lock d"

definition lock_denies :: "byte \<Rightarrow> hal_data \<Rightarrow> bool" where
  "lock_denies l d \<longleftrightarrow> and (hd_lock d) l \<noteq> 0"

section \<open>Parameters and pins\<close>

text \<open>The part of \<open>hal_param_new\<close> under the mutex.\<close>

definition param_locked :: "string \<Rightarrow> hal_type \<Rightarrow> hal_param_dir \<Rightarrow> int \<Rightarrow> int \<Rightarrow> hal_data \<Rightarrow> (int \<times> hal_data) option" where
  "param_locked name ty dir data_addr cid d =
     (case halpr_find_comp_by_id cid d of
        None \<Rightarrow> Some (- EINVAL, d)
      | Some c \<Rightarrow>
            if \<not> SHMCHK data_addr then Some (- EINVAL, d)
            else if hc_ready c \<noteq> 0 then Some (- EINVAL, d)
            else (case alloc_param_struct d of
                    (None, d1) \<Rightarrow> Some (- ENOMEM, d1)
                  | (Some p, d1) \<Rightarrow>
                      (let p1 = p\<lparr>hp_owner := hc_off c, hp_data_ptr := data_addr, hp_type := ty, hp_dir := dir,
                                  hp_name := copy_name name\<rparr> in
                       case insert_named hp_name p1 (hd_param_list d1) of
                         Some l \<Rightarrow> Some (0, d1\<lparr>hd_param_list := l\<rparr>)
                       | None \<Rightarrow> Some (- EINVAL, free_param_struct p1 d1))))"

definition hal_param_new ::
  "string \<Rightarrow> hal_type \<Rightarrow> hal_param_dir \<Rightarrow> int \<Rightarrow> int \<Rightarrow> hal_data \<Rightarrow> (int \<times> hal_data) option" where
  "hal_param_new name ty dir data_addr cid d =
     (if ty \<notin> {HAL_BIT, HAL_FLOAT, HAL_S32, HAL_U32, HAL_S64, HAL_U64} then Some (- EINVAL, d)
      else if dir \<noteq> HAL_RO \<and> dir \<noteq> HAL_RW then Some (- EINVAL, d)
      else if length name > HAL_NAME_LEN then Some (- EINVAL, d)
      else if lock_denies HAL_LOCK_LOAD d then Some (- EPERM, d)
      else locked (param_locked name ty dir data_addr cid) d)"

definition hal_param_s32_new ::
  "string \<Rightarrow> hal_param_dir \<Rightarrow> hal_type \<Rightarrow> int \<Rightarrow> int \<Rightarrow> hal_data \<Rightarrow> (int \<times> hal_data) option" where
  "hal_param_s32_new name dir ty data_addr cid = hal_param_new name ty dir data_addr cid"

definition hal_param_bit_new ::
  "string \<Rightarrow> hal_param_dir \<Rightarrow> hal_type \<Rightarrow> int \<Rightarrow> int \<Rightarrow> hal_data \<Rightarrow> (int \<times> hal_data) option" where
  "hal_param_bit_new name dir ty data_addr cid = hal_param_new name ty dir data_addr cid"

text \<open>The formatted name is a parameter; \<open>vsnprintf\<close> returns its full length.\<close>

definition hal_param_float_newf ::
  "hal_param_dir \<Rightarrow> int \<Rightarrow> int \<Rightarrow> string \<Rightarrow> hal_data \<Rightarrow> (int \<times> hal_data) option" where
  "hal_param_float_newf dir data_addr cid formatted d =
     (if length formatted > HAL_NAME_LEN then Some (- ENOMEM, d)
      else hal_param_new formatted HAL_FLOAT dir data_addr cid d)"

text \<open>
  The data pointer of the new pin is set to its dummy signal before the name is found to be free or
  taken.
\<close>

text \<open>The part of \<open>hal_pin_new\<close> under the mutex.\<close>

definition pin_locked :: "string \<Rightarrow> hal_type \<Rightarrow> int \<Rightarrow> int \<Rightarrow> hal_data \<Rightarrow> (int \<times> hal_data) option" where
  "pin_locked name ty data_ptr_addr cid d =
     (case halpr_find_comp_by_id cid d of
        None \<Rightarrow> Some (- EINVAL, d)
      | Some c \<Rightarrow>
            if \<not> SHMCHK data_ptr_addr then Some (- EINVAL, d)
            else if hc_ready c \<noteq> 0 then Some (- EINVAL, d)
            else (case alloc_pin_struct d of
                    (None, d1) \<Rightarrow> Some (- ENOMEM, d1)
                  | (Some p, d1) \<Rightarrow>
                      (let p1 = p\<lparr>hn_data_ptr_addr := data_ptr_addr, hn_owner := hc_off c, hn_type := ty,
                                  hn_signal := 0, hn_name := copy_name name\<rparr>;
                           d2 = store_cell data_ptr_addr (pin_dummysig (hn_off p1))
                                  (store_cell (pin_dummysig (hn_off p1)) 0 d1) in
                       case insert_named hn_name p1 (hd_pin_list d2) of
                         Some l \<Rightarrow> Some (0, d2\<lparr>hd_pin_list := l\<rparr>)
                       | None \<Rightarrow> Some (- EINVAL, free_pin_struct p1 d2))))"

definition hal_pin_new :: "string \<Rightarrow> hal_type \<Rightarrow> int \<Rightarrow> int \<Rightarrow> hal_data \<Rightarrow> (int \<times> hal_data) option" where
  "hal_pin_new name ty data_ptr_addr cid d =
     (if ty \<notin> {HAL_BIT, HAL_FLOAT, HAL_S32, HAL_U32, HAL_S64, HAL_U64, HAL_PORT} then Some (- EINVAL, d)
      else if length name > HAL_NAME_LEN then Some (- EINVAL, d)
      else if lock_denies HAL_LOCK_LOAD d then Some (- EPERM, d)
      else locked (pin_locked name ty data_ptr_addr cid) d)"

definition hal_pin_newf :: "hal_type \<Rightarrow> int \<Rightarrow> int \<Rightarrow> string \<Rightarrow> hal_data \<Rightarrow> (int \<times> hal_data) option" where
  "hal_pin_newf ty data_ptr_addr cid formatted d =
     (if length formatted > HAL_NAME_LEN then Some (- ENOMEM, d)
      else hal_pin_new formatted ty data_ptr_addr cid d)"

section \<open>Functions\<close>

text \<open>The part of \<open>hal_export_funct\<close> under the mutex: the result and the offset of the new function.\<close>

definition export_locked ::
  "string \<Rightarrow> int \<Rightarrow> int \<Rightarrow> int \<Rightarrow> int \<Rightarrow> int \<Rightarrow> hal_data \<Rightarrow> ((int \<times> int) \<times> hal_data) option" where
  "export_locked name funct arg uses_fp reentrant cid d =
     (case halpr_find_comp_by_id cid d of
       None \<Rightarrow> Some ((- EINVAL, 0), d)
     | Some c \<Rightarrow>
         if hc_type c = COMPONENT_TYPE_USER then Some ((- EINVAL, 0), d)
         else if hc_ready c \<noteq> 0 then Some ((- EINVAL, 0), d)
         else (case alloc_funct_struct d of
                 (None, d1) \<Rightarrow> Some ((- ENOMEM, 0), d1)
               | (Some f, d1) \<Rightarrow>
                   (let f1 = f\<lparr>hf_uses_fp := uses_fp, hf_owner := hc_off c, hf_reentrant := reentrant,
                               hf_users := 0, hf_arg := arg, hf_funct := funct, hf_name := copy_name name\<rparr> in
                    case insert_named hf_name f1 (hd_funct_list d1) of
                      Some l \<Rightarrow> Some ((0, hf_off f1), d1\<lparr>hd_funct_list := l\<rparr>)
                    | None \<Rightarrow> Some ((- EINVAL, 0), free_funct_struct f1 d1))))"

text \<open>The write of 0 through the run time pointer that the new pin has set.\<close>

definition store_through :: "int \<Rightarrow> int \<Rightarrow> hal_data \<Rightarrow> hal_data option" where
  "store_through p v d = (if hd_cells d p = 0 then None else Some (store_cell (hd_cells d p) v d))"

definition hal_export_funct ::
  "string \<Rightarrow> int \<Rightarrow> int \<Rightarrow> int \<Rightarrow> int \<Rightarrow> int \<Rightarrow> hal_data \<Rightarrow> (int \<times> hal_data) option" where
  "hal_export_funct name funct arg uses_fp reentrant cid d =
     (if length name > HAL_NAME_LEN then Some (- EINVAL, d)
      else if lock_denies HAL_LOCK_LOAD d then Some (- EPERM, d)
      else case locked (export_locked name funct arg uses_fp reentrant cid) d of
        None \<Rightarrow> None
      | Some ((r, off), d1) \<Rightarrow>
          if r \<noteq> 0 then Some (r, d1)
          else (case hal_pin_newf HAL_S32 (funct_runtime off) cid (name @ ''.time'') d1 of
                  None \<Rightarrow> None
                | Some (r2, d2) \<Rightarrow>
                    if r2 \<noteq> 0 then Some (- EINVAL, d2)
                    else (case store_through (funct_runtime off) 0 d2 of
                            None \<Rightarrow> None
                          | Some d3 \<Rightarrow>
                              (case hal_param_s32_new (copy_name (name @ ''.tmax'')) HAL_RW HAL_S32
                                      (funct_maxtime off) cid (upd_funct off (\<lambda>f. f\<lparr>hf_maxtime := 0\<rparr>) d3) of
                                 None \<Rightarrow> None
                               | Some (_, d4) \<Rightarrow>
                                   (case hal_param_bit_new (copy_name (name @ ''.tmax-increased'')) HAL_RO HAL_BIT
                                           (funct_maxtime_increased off) cid
                                           (upd_funct off (\<lambda>f. f\<lparr>hf_maxtime_increased := False\<rparr>) d4) of
                                      None \<Rightarrow> None
                                    | Some (_, d5) \<Rightarrow> Some (0, d5))))))"

section \<open>The functions of a thread\<close>

text \<open>
  Positions in the ring of a thread: 0 is its root, \<open>i\<close> the \<open>i\<close>-th of its \<open>n\<close> entries; \<open>list_walk\<close> makes
  \<open>k\<close> moves and fails when it comes back to the root.
\<close>

definition list_next :: "nat \<Rightarrow> nat \<Rightarrow> nat" where
  "list_next n i = (if i = n then 0 else i + 1)"

definition list_prev :: "nat \<Rightarrow> nat \<Rightarrow> nat" where
  "list_prev n i = (if i = 0 then n else i - 1)"

primrec list_walk :: "(nat \<Rightarrow> nat) \<Rightarrow> nat \<Rightarrow> nat \<Rightarrow> nat option" where
  "list_walk mv 0 i = Some i"
| "list_walk mv (Suc k) i = (if mv i = 0 then None else list_walk mv k (mv i))"

text \<open>The entry behind which the new one goes.\<close>

definition insertion_point :: "nat \<Rightarrow> int \<Rightarrow> nat option" where
  "insertion_point n position =
     (if position > 0 then list_walk (list_next n) (nat (position - 1)) 0
      else map_option (list_prev n) (list_walk (list_prev n) (nat (- position - 1)) 0))"

definition list_add_after :: "'a \<Rightarrow> nat \<Rightarrow> 'a list \<Rightarrow> 'a list" where
  "list_add_after e i xs = take i xs @ e # drop i xs"

definition upd_thread :: "int \<Rightarrow> (hal_thread \<Rightarrow> hal_thread) \<Rightarrow> hal_data \<Rightarrow> hal_data" where
  "upd_thread off g d = d\<lparr>hd_thread_list := map (\<lambda>t. if ht_off t = off then g t else t) (hd_thread_list d)\<rparr>"

text \<open>The part of \<open>hal_add_funct_to_thread\<close> under the mutex.\<close>

definition add_funct_locked :: "string option \<Rightarrow> string option \<Rightarrow> int \<Rightarrow> hal_data \<Rightarrow> (int \<times> hal_data) option" where
  "add_funct_locked funct_name thread_name position d =
     (if position = 0 then Some (- EINVAL, d)
        else case funct_name of None \<Rightarrow> Some (- EINVAL, d) | Some fn \<Rightarrow>
          (case thread_name of None \<Rightarrow> Some (- EINVAL, d) | Some tn \<Rightarrow>
            (case halpr_find_funct_by_name fn d of None \<Rightarrow> Some (- EINVAL, d) | Some f \<Rightarrow>
              if hf_users f > 0 \<and> hf_reentrant f = 0 then Some (- EINVAL, d)
              else (case halpr_find_thread_by_name tn d of None \<Rightarrow> Some (- EINVAL, d) | Some t \<Rightarrow>
                if hf_uses_fp f \<noteq> 0 \<and> ht_uses_fp t = 0 then Some (- EINVAL, d)
                else (case insertion_point (length (ht_funct_list t)) position of
                        None \<Rightarrow> Some (- EINVAL, d)
                      | Some i \<Rightarrow>
                          (case alloc_funct_entry_struct d of
                             None \<Rightarrow> None
                           | Some (e, d1) \<Rightarrow>
                               let e1 = e\<lparr>fe_funct_ptr := hf_off f, fe_arg := hf_arg f, fe_funct := hf_funct f\<rparr> in
                               Some (0, upd_funct (hf_off f) (\<lambda>f. f\<lparr>hf_users := hf_users f + 1\<rparr>)
                                 (upd_thread (ht_off t)
                                   (\<lambda>t. t\<lparr>ht_funct_list := list_add_after e1 i (ht_funct_list t)\<rparr>) d1))))))))"

definition hal_add_funct_to_thread ::
  "string option \<Rightarrow> string option \<Rightarrow> int \<Rightarrow> hal_data \<Rightarrow> (int \<times> hal_data) option" where
  "hal_add_funct_to_thread funct_name thread_name position d =
     (if lock_denies HAL_LOCK_CONFIG d then Some (- EPERM, d)
      else locked (add_funct_locked funct_name thread_name position) d)"

text \<open>The part of \<open>hal_del_funct_from_thread\<close> under the mutex.\<close>

definition del_funct_locked :: "string option \<Rightarrow> string option \<Rightarrow> hal_data \<Rightarrow> (int \<times> hal_data) option" where
  "del_funct_locked funct_name thread_name d =
     (case funct_name of None \<Rightarrow> Some (- EINVAL, d) | Some fn \<Rightarrow>
          (case thread_name of None \<Rightarrow> Some (- EINVAL, d) | Some tn \<Rightarrow>
            (case halpr_find_funct_by_name fn d of None \<Rightarrow> Some (- EINVAL, d) | Some f \<Rightarrow>
              if hf_users f = 0 then Some (- EINVAL, d)
              else (case halpr_find_thread_by_name tn d of None \<Rightarrow> Some (- EINVAL, d) | Some t \<Rightarrow>
                (case find (\<lambda>e. fe_funct_ptr e = hf_off f) (ht_funct_list t) of
                   None \<Rightarrow> Some (- EINVAL, d)
                 | Some e \<Rightarrow>
                     Some (0, free_funct_entry_struct e
                       (upd_thread (ht_off t) (\<lambda>t. t\<lparr>ht_funct_list := remove1 e (ht_funct_list t)\<rparr>) d)))))))"

definition hal_del_funct_from_thread ::
  "string option \<Rightarrow> string option \<Rightarrow> hal_data \<Rightarrow> (int \<times> hal_data) option" where
  "hal_del_funct_from_thread funct_name thread_name d =
     (if lock_denies HAL_LOCK_CONFIG d then Some (- EPERM, d)
      else locked (del_funct_locked funct_name thread_name) d)"

definition hal_start_threads :: "hal_data \<Rightarrow> int \<times> hal_data" where
  "hal_start_threads d =
     (if lock_denies HAL_LOCK_RUN d then (- EPERM, d) else (0, d\<lparr>hd_threads_running := 1\<rparr>))"

definition hal_stop_threads :: "hal_data \<Rightarrow> int \<times> hal_data" where
  "hal_stop_threads d =
     (if lock_denies HAL_LOCK_RUN d then (- EPERM, d) else (0, d\<lparr>hd_threads_running := 0\<rparr>))"

section \<open>The pass of a thread\<close>

text \<open>
  One round of the loop of \<open>thread_task\<close>: each function is called with its argument and the period on a
  world of its own, and its statistics are updated from what its run time pin holds. \<open>clock\<close> gives the
  readings of the clock, of which only the first and the last matter.
\<close>

definition account :: "hal_funct_entry \<Rightarrow> hal_data \<Rightarrow> hal_data" where
  "account e d =
     (let off = fe_funct_ptr e; p = hd_cells d (funct_runtime off) in
      if p = 0 then d
      else upd_funct off (\<lambda>f. if hd_cells d p > hf_maxtime f
             then f\<lparr>hf_maxtime := hd_cells d p, hf_maxtime_increased := True\<rparr>
             else f\<lparr>hf_maxtime_increased := False\<rparr>) d)"

fun run_functs ::
  "(int \<Rightarrow> int \<Rightarrow> int \<Rightarrow> 'w \<Rightarrow> 'w) \<Rightarrow> int \<Rightarrow> hal_funct_entry list \<Rightarrow> 'w \<times> hal_data \<Rightarrow> 'w \<times> hal_data" where
  "run_functs call period [] wd = wd"
| "run_functs call period (e # es) (w, d) =
     (let w1 = call (fe_funct e) (fe_arg e) period w in
      if fe_funct_ptr e = 0 then (w1, d) else run_functs call period es (w1, account e d))"

definition thread_pass ::
  "(int \<Rightarrow> int \<Rightarrow> int \<Rightarrow> 'w \<Rightarrow> 'w) \<Rightarrow> int \<times> int \<Rightarrow> hal_thread \<Rightarrow> 'w \<times> hal_data \<Rightarrow> ('w \<times> hal_data) option" where
  "thread_pass call clock t wd =
     (if \<not> hd_threads_running (snd wd) > 0 then Some wd
      else if ht_funct_list t = [] then Some wd
      else case run_functs call (ht_period t) (ht_funct_list t) wd of
        (w, d) \<Rightarrow>
          (case store_through (thread_runtime (ht_off t)) (s32 (snd clock - fst clock)) d of
             None \<Rightarrow> None
           | Some d1 \<Rightarrow>
               Some (w, upd_thread (ht_off t)
                 (\<lambda>t. if s32 (snd clock - fst clock) > ht_maxtime t
                      then t\<lparr>ht_maxtime := s32 (snd clock - fst clock)\<rparr> else t) d1)))"

end
