(* ===== verification/HalSys.thy ===== *)
theory HalSys
  imports HalOps
begin

text \<open>
  Components and threads of \<open>hal/hal_lib.c\<close> together with the runtime layer they use: the library's static
  variables, the shared segment (which outlives the process), the module identifiers of
  \<open>uspace_common.c\<close> and the task table of \<open>uspace_rtapi_app.cpp\<close>.
\<close>

section \<open>Tasks\<close>

definition MAX_TASKS :: nat where "MAX_TASKS = 64"
definition HAL_STACKSIZE :: int where "HAL_STACKSIZE = 16384"

record rtapi_task =
  tk_owner :: int
  tk_uses_fp :: int
  tk_stacksize :: int
  tk_prio :: int
  tk_period :: int
  tk_arg :: int

text \<open>The priorities of the scheduling policy, and what starting the thread of a task returns.\<close>

record task_os =
  os_prio_lowest :: int
  os_prio_highest :: int
  os_thread_start :: "int \<Rightarrow> int"

definition allocate_task_id :: "rtapi_task option list \<Rightarrow> int" where
  "allocate_task_id ts =
     (case find (\<lambda>n. ts ! n = None) [0..<MAX_TASKS] of Some n \<Rightarrow> int n | None \<Rightarrow> - ENOSPC)"

definition rtapi_task_new ::
  "task_os \<Rightarrow> int \<Rightarrow> int \<Rightarrow> int \<Rightarrow> int \<Rightarrow> int \<Rightarrow> rtapi_task option list \<Rightarrow> int \<times> rtapi_task option list" where
  "rtapi_task_new tos arg prio owner stacksize uses_fp ts =
     (if prio > os_prio_highest tos \<or> prio < os_prio_lowest tos then (- EINVAL, ts)
      else let n = allocate_task_id ts in
        if n < 0 then (n, ts)
        else (n, ts[nat n := Some \<lparr>tk_owner = owner, tk_uses_fp = uses_fp,
                                   tk_stacksize = max stacksize (1024 * 1024), tk_prio = prio,
                                   tk_period = 0, tk_arg = arg\<rparr>]))"

definition get_task :: "int \<Rightarrow> rtapi_task option list \<Rightarrow> rtapi_task option" where
  "get_task i ts = (if i < 0 \<or> i \<ge> int MAX_TASKS then None else ts ! nat i)"

definition rtapi_task_delete :: "int \<Rightarrow> rtapi_task option list \<Rightarrow> int \<times> rtapi_task option list" where
  "rtapi_task_delete i ts =
     (case get_task i ts of None \<Rightarrow> (- EINVAL, ts) | Some _ \<Rightarrow> (0, ts[nat i := None]))"

definition rtapi_task_start ::
  "task_os \<Rightarrow> int \<Rightarrow> int \<Rightarrow> rtapi_task option list \<Rightarrow> int \<times> rtapi_task option list" where
  "rtapi_task_start tos i period ts =
     (case get_task i ts of
        None \<Rightarrow> (- EINVAL, ts)
      | Some t \<Rightarrow> (os_thread_start tos i, ts[nat i := Some (t\<lparr>tk_period := period\<rparr>)]))"

section \<open>The state of the library\<close>

record hal_sys =
  hs_rt :: rtapi_state
  hs_seg :: hal_data
  hs_mapped :: bool
  hs_lib_module_id :: int
  hs_lib_mem_id :: int
  hs_ref_cnt :: int
  hs_period :: int
  hs_tasks :: "rtapi_task option list"

definition upd_seg :: "(hal_data \<Rightarrow> hal_data) \<Rightarrow> hal_sys \<Rightarrow> hal_sys" where
  "upd_seg f s = s\<lparr>hs_seg := f (hs_seg s)\<rparr>"

text \<open>A call of one of the operations: before initialisation \<open>hal_data\<close> is the null pointer.\<close>

definition on_data :: "(hal_data \<Rightarrow> (int \<times> hal_data) option) \<Rightarrow> hal_sys \<Rightarrow> (int \<times> hal_sys) option" where
  "on_data f s =
     (if \<not> hs_mapped s then Some (- EINVAL, s)
      else map_option (\<lambda>(r, d). (r, s\<lparr>hs_seg := d\<rparr>)) (f (hs_seg s)))"

definition rtapi_clock_set_period :: "int \<Rightarrow> hal_sys \<Rightarrow> int \<times> hal_sys" where
  "rtapi_clock_set_period nsecs s =
     (if nsecs = 0 then (hs_period s, s)
      else if hs_period s \<noteq> 0 then (- EINVAL, s)
      else (nsecs, s\<lparr>hs_period := nsecs\<rparr>))"

text \<open>\<open>init_hal_data\<close> resets everything but the lists of pins.\<close>

definition init_hal_data :: "hal_data \<Rightarrow> (int \<times> hal_data) option" where
  "init_hal_data = locked (\<lambda>d. Some (0, d\<lparr>
     hd_comp_list := [], hd_param_list := [], hd_funct_list := [], hd_thread_list := [],
     hd_base_period := 0, hd_threads_running := 0, hd_comp_free := [], hd_param_free := [],
     hd_funct_free := [], hd_funct_entry_free := [], hd_thread_free := [], hd_exact_base_period := 0,
     hd_shmem_bot := SIZEOF_DATA, hd_shmem_top := HAL_SIZE, hd_lock := HAL_LOCK_NONE\<rparr>))"

text \<open>Opening the segment: what \<open>hal_init\<close> does first and \<open>hal_app_main\<close> does.\<close>

definition open_segment :: "shm_os \<Rightarrow> hal_sys \<Rightarrow> (int \<times> hal_sys) option" where
  "open_segment os s =
     (case rtapi_init os (hs_rt s) of
        None \<Rightarrow> None
      | Some (m, rt) \<Rightarrow>
          (let s1 = s\<lparr>hs_rt := rt, hs_lib_module_id := m\<rparr> in
           if m < 0 then Some (- EINVAL, s1)
           else case rtapi_shmem_new os HAL_KEY HAL_SIZE (rt_handles rt) of
             (h, hs) \<Rightarrow>
               (let rt2 = rt\<lparr>rt_handles := hs\<rparr>; s2 = s1\<lparr>hs_rt := rt2, hs_lib_mem_id := h\<rparr> in
                if h < 0 then Some (- EINVAL, s2\<lparr>hs_rt := snd (rtapi_exit os m rt2)\<rparr>)
                else if fst (rtapi_shmem_getptr h hs) < 0
                then Some (- EINVAL, s2\<lparr>hs_rt := snd (rtapi_exit os m rt2)\<rparr>)
                else (case init_hal_data (hs_seg s2) of
                        None \<Rightarrow> None
                      | Some (r, d) \<Rightarrow> Some (0, s2\<lparr>hs_seg := d, hs_mapped := True\<rparr>)))))"

text \<open>
  The new component is entered under the mutex; its name is compared with those of the others, but it
  is not stored.
\<close>

definition enter_comp :: "string \<Rightarrow> int \<Rightarrow> hal_data \<Rightarrow> (int \<times> hal_data) option" where
  "enter_comp name cid = locked (\<lambda>d.
     case halpr_find_comp_by_name (copy_name name) d of
       Some _ \<Rightarrow> Some (- EINVAL, d)
     | None \<Rightarrow>
         (case halpr_alloc_comp_struct d of
            (None, d1) \<Rightarrow> Some (- ENOMEM, d1)
          | (Some c, d1) \<Rightarrow>
              Some (cid, d1\<lparr>hd_comp_list :=
                c\<lparr>hc_comp_id := cid, hc_type := COMPONENT_TYPE_REALTIME, hc_pid := 0, hc_ready := 0,
                  hc_shmem_base := True, hc_insmod_args := 0\<rparr> # hd_comp_list d1\<rparr>)))"

definition hal_init :: "shm_os \<Rightarrow> string option \<Rightarrow> hal_sys \<Rightarrow> (int \<times> hal_sys) option" where
  "hal_init os name s =
     (case name of
        None \<Rightarrow> Some (- EINVAL, s)
      | Some n \<Rightarrow>
          if length n > HAL_NAME_LEN then Some (- EINVAL, s)
          else (case (if hs_lib_mem_id s = 0 then open_segment os s else Some (0, s)) of
            None \<Rightarrow> None
          | Some (r, s1) \<Rightarrow>
              if r \<noteq> 0 then Some (r, s1)
              else (case rtapi_init os (hs_rt s1) of
                      None \<Rightarrow> None
                    | Some (cid, rt) \<Rightarrow>
                        (let s2 = s1\<lparr>hs_rt := rt\<rparr> in
                         if cid < 0 then Some (- EINVAL, s2)
                         else if \<not> hs_mapped s2 then None
                         else (case enter_comp n cid (hs_seg s2) of
                                 None \<Rightarrow> None
                               | Some (r, d) \<Rightarrow>
                                   (let s3 = s2\<lparr>hs_seg := d\<rparr> in
                                    if r < 0 then Some (r, s3\<lparr>hs_rt := snd (rtapi_exit os cid rt)\<rparr>)
                                    else Some (cid, s3\<lparr>hs_ref_cnt := hs_ref_cnt s3 + 1\<rparr>)))))))"

definition hal_exit :: "shm_os \<Rightarrow> int \<Rightarrow> hal_sys \<Rightarrow> (int \<times> hal_sys) option" where
  "hal_exit os cid s =
     (if \<not> hs_mapped s then Some (- EINVAL, s)
      else case locked (\<lambda>d.
             case halpr_find_comp_by_id cid d of
               None \<Rightarrow> Some (- EINVAL, d)
             | Some c \<Rightarrow> Some (0, free_comp_struct c
                 (d\<lparr>hd_comp_list := remove1 c (hd_comp_list d)\<rparr>))) (hs_seg s) of
        None \<Rightarrow> None
      | Some (r, d) \<Rightarrow>
          (let s1 = s\<lparr>hs_seg := d\<rparr> in
           if r \<noteq> 0 then Some (r, s1)
           else Some (0, s1\<lparr>hs_ref_cnt := hs_ref_cnt s1 - 1, hs_rt := snd (rtapi_exit os cid (hs_rt s1))\<rparr>)))"

section \<open>Threads\<close>

definition HAL_PSEUDO_COMP_PREFIX :: string where "HAL_PSEUDO_COMP_PREFIX = ''__''"

text \<open>
  The clock for the first thread: it is set once, and then has to be fast enough for the thread,
  within one per cent.
\<close>

definition set_base_clock :: "int \<Rightarrow> hal_sys \<Rightarrow> int \<times> hal_sys" where
  "set_base_clock period s =
     (let (curr, s1) = rtapi_clock_set_period 0 s in
      if curr = 0 then
        (let (curr1, s2) = rtapi_clock_set_period period s1 in
         if curr1 < 0 then (- EINVAL, s2)
         else if curr1 > period + period div 100 then (- EINVAL, s2) else (0, s2))
      else if curr > period + period div 100 then (- EINVAL, s1) else (0, s1))"

text \<open>The part under the mutex: the result and the offset of the new thread.\<close>

definition enter_thread ::
  "task_os \<Rightarrow> string \<Rightarrow> int \<Rightarrow> int \<Rightarrow> int \<Rightarrow> hal_sys \<Rightarrow> ((int \<times> int) \<times> hal_sys) option" where
  "enter_thread tos name period uses_fp priority s =
     (if hd_mutex (hs_seg s) then None
      else if \<exists>t \<in> set (hd_thread_list (hs_seg s)). ht_name t = name then Some ((- EINVAL, 0), s)
      else case alloc_thread_struct (hs_seg s) of
        (None, d1) \<Rightarrow> Some ((- ENOMEM, 0), s\<lparr>hs_seg := d1\<rparr>)
      | (Some t, d1) \<Rightarrow>
          (let s1 = s\<lparr>hs_seg := d1\<rparr>;
               (r, s2) = (if hd_thread_list d1 = [] then set_base_clock period s1 else (0, s1)) in
           if r \<noteq> 0 then Some ((r, 0), s2)
           else let t1 = t\<lparr>ht_uses_fp := uses_fp, ht_name := copy_name name, ht_period := period,
                           ht_priority := priority\<rparr>;
                    (tid, ts) = rtapi_task_new tos (ht_off t1) priority (hs_lib_module_id s2) HAL_STACKSIZE
                                  uses_fp (hs_tasks s2);
                    s3 = s2\<lparr>hs_tasks := ts\<rparr> in
             if tid < 0 then Some ((- EINVAL, 0), s3)
             else let (r2, ts2) = rtapi_task_start tos tid period ts;
                      s4 = s3\<lparr>hs_tasks := ts2\<rparr> in
               if r2 < 0 then Some ((- EINVAL, 0), s4)
               else Some ((0, ht_off t1),
                 upd_seg (\<lambda>d. d\<lparr>hd_thread_list := t1\<lparr>ht_task_id := tid\<rparr> # hd_thread_list d\<rparr>) s4)))"

definition set_thread_comp :: "int \<Rightarrow> int \<Rightarrow> hal_sys \<Rightarrow> hal_sys" where
  "set_thread_comp off cid = upd_seg (upd_thread off (\<lambda>t. t\<lparr>ht_comp_id := cid\<rparr>))"

definition hal_create_thread ::
  "shm_os \<Rightarrow> task_os \<Rightarrow> string \<Rightarrow> int \<Rightarrow> int \<Rightarrow> int \<Rightarrow> hal_sys \<Rightarrow> (int \<times> hal_sys) option" where
  "hal_create_thread os tos name period uses_fp priority s =
     (if \<not> hs_mapped s then Some (- EINVAL, s)
      else if period = 0 then Some (- EINVAL, s)
      else if length name > HAL_NAME_LEN then Some (- EINVAL, s)
      else if lock_denies HAL_LOCK_CONFIG (hs_seg s) then Some (- EPERM, s)
      else case enter_thread tos name period uses_fp priority s of
        None \<Rightarrow> None
      | Some ((r, off), s1) \<Rightarrow>
          if r \<noteq> 0 then Some (r, s1)
          else (case hal_init os (Some (copy_name (HAL_PSEUDO_COMP_PREFIX @ copy_name name))) s1 of
                  None \<Rightarrow> None
                | Some (cid, s2) \<Rightarrow>
                    (let s3 = set_thread_comp off cid s2 in
                     if cid < 0 then Some (- EINVAL, s3)
                     else (case on_data (hal_param_s32_new (copy_name (copy_name name @ ''.tmax'')) HAL_RW HAL_S32
                                   (thread_maxtime off) cid)
                                 (upd_seg (upd_thread off (\<lambda>t. t\<lparr>ht_maxtime := 0\<rparr>)) s3) of
                             None \<Rightarrow> None
                           | Some (r1, s4) \<Rightarrow>
                               if r1 \<noteq> 0 then Some (- EINVAL, s4)
                               else (case on_data (hal_pin_newf HAL_S32 (thread_runtime off) cid
                                             (copy_name name @ ''.time'')) s4 of
                                       None \<Rightarrow> None
                                     | Some (r2, s5) \<Rightarrow>
                                         if r2 \<noteq> 0 then Some (- EINVAL, s5)
                                         else (case store_through (thread_runtime off) 0 (hs_seg s5) of
                                                 None \<Rightarrow> None
                                               | Some d \<Rightarrow>
                                                   (case on_data (hal_ready cid) (s5\<lparr>hs_seg := d\<rparr>) of
                                                      None \<Rightarrow> None
                                                    | Some (_, s6) \<Rightarrow> Some (cid, s6))))))))"

text \<open>\<open>rtapi_task_pause\<close> does nothing on this platform.\<close>

definition free_thread_struct :: "hal_thread \<Rightarrow> hal_sys \<Rightarrow> hal_sys" where
  "free_thread_struct t s =
     (let s1 = s\<lparr>hs_tasks := snd (rtapi_task_delete (ht_task_id t) (hs_tasks s))\<rparr> in
      upd_seg (\<lambda>d. let d1 = fold free_funct_entry_struct (ht_funct_list t) (d\<lparr>hd_threads_running := 0\<rparr>) in
                   d1\<lparr>hd_thread_free := thread_reset t # hd_thread_free d1\<rparr>) s1)"

text \<open>
  The thread is looked up under the mutex, and the exit of its component is called with the mutex
  held.
\<close>

definition hal_thread_delete :: "shm_os \<Rightarrow> string \<Rightarrow> hal_sys \<Rightarrow> (int \<times> hal_sys) option" where
  "hal_thread_delete os name s =
     (if \<not> hs_mapped s then Some (- EINVAL, s)
      else if lock_denies HAL_LOCK_CONFIG (hs_seg s) then Some (- EPERM, s)
      else if hd_mutex (hs_seg s) then None
      else case halpr_find_thread_by_name name (hs_seg s) of
        None \<Rightarrow> Some (- EINVAL, s)
      | Some t \<Rightarrow>
          (let s1 = upd_seg (\<lambda>d. d\<lparr>hd_mutex := True\<rparr>) s in
           case (if ht_comp_id t \<noteq> 0 then hal_exit os (ht_comp_id t) s1 else Some (0, s1)) of
             None \<Rightarrow> None
           | Some (_, s2) \<Rightarrow>
               Some (0, upd_seg (\<lambda>d. d\<lparr>hd_mutex := False\<rparr>)
                 (free_thread_struct (t\<lparr>ht_comp_id := 0\<rparr>)
                    (upd_seg (\<lambda>d. d\<lparr>hd_thread_list := remove1 t (hd_thread_list d)\<rparr>) s2)))))"

definition hal_app_main :: "shm_os \<Rightarrow> hal_sys \<Rightarrow> (int \<times> hal_sys) option" where
  "hal_app_main os s = open_segment os s"

definition hal_app_exit :: "shm_os \<Rightarrow> hal_sys \<Rightarrow> hal_sys option" where
  "hal_app_exit os s =
     (if \<not> hs_mapped s \<or> hd_mutex (hs_seg s) then None
      else let s1 = fold free_thread_struct (hd_thread_list (hs_seg s))
                      (upd_seg (\<lambda>d. d\<lparr>hd_thread_list := []\<rparr>) s);
               (r, gone, hs) = rtapi_shmem_delete os (hs_lib_mem_id s1) (rt_handles (hs_rt s1));
               rt = (hs_rt s1)\<lparr>rt_handles := hs\<rparr> in
        Some (s1\<lparr>hs_rt := snd (rtapi_exit os (hs_lib_module_id s1) rt)\<rparr>))"

end
