(* ===== verification/HalMem.thy ===== *)
theory HalMem
  imports HalSys
begin

text \<open>
  The two-ended allocator of the shared segment hands out disjoint, aligned pieces inside the segment, as
  long as the sizes are positive; a negative size, which the watchdog asks for by default, gives memory
  back that is in use.
\<close>

definition shm_ok :: "hal_data \<Rightarrow> bool" where
  "shm_ok d \<longleftrightarrow> SIZEOF_DATA \<le> hd_shmem_bot d \<and> hd_shmem_bot d \<le> hd_shmem_top d \<and> hd_shmem_top d \<le> HAL_SIZE"

lemma alignment_pos: "0 < alignment sz"
  by (simp add: alignment_def)

lemma align_up_bounds:
  assumes "0 < n"
  shows "x \<le> align_up n x" "align_up n x mod n = 0"
proof -
  have "(x + (n - 1)) mod n \<le> n - 1" using pos_mod_bound [OF assms, of "x + (n - 1)"] by linarith
  then show "x \<le> align_up n x" by (simp add: align_up_def)
  show "align_up n x mod n = 0" by (simp add: align_up_def)
qed

lemma align_dn_bounds:
  assumes "0 < n"
  shows "align_dn n x \<le> x" "align_dn n x mod n = 0"
  using pos_mod_sign [OF assms, of x] by (simp_all add: align_dn_def)

lemma shmalloc_up_Some:
  assumes "shmalloc_up sz d = (Some off, d')"
  shows "hd_shmem_bot d \<le> off" "off + sz \<le> hd_shmem_top d" "hd_shmem_bot d' = off + sz"
    "hd_shmem_top d' = hd_shmem_top d" "off mod alignment sz = 0"
  using assms align_up_bounds [OF alignment_pos [of sz], of "hd_shmem_bot d"]
  by (auto simp: shmalloc_up_def Let_def split: if_splits)

lemma shmalloc_dn_Some:
  assumes "shmalloc_dn sz d = (Some off, d')"
  shows "hd_shmem_bot d \<le> off" "off + sz \<le> hd_shmem_top d" "hd_shmem_top d' = off"
    "hd_shmem_bot d' = hd_shmem_bot d" "off mod alignment sz = 0"
  using assms align_dn_bounds [OF alignment_pos [of sz], of "hd_shmem_top d - sz"]
  by (auto simp: shmalloc_dn_def Let_def split: if_splits)

lemma shmalloc_None:
  "shmalloc_up sz d = (None, d') \<Longrightarrow> d' = d" "shmalloc_dn sz d = (None, d') \<Longrightarrow> d' = d"
  by (auto simp: shmalloc_up_def shmalloc_dn_def Let_def split: if_splits)

text \<open>A run of allocations at either end, with the pieces that were given out.\<close>

datatype alloc_op = Up int | Dn int

fun alloc_size :: "alloc_op \<Rightarrow> int" where
  "alloc_size (Up sz) = sz"
| "alloc_size (Dn sz) = sz"

definition alloc :: "alloc_op \<Rightarrow> hal_data \<Rightarrow> int option \<times> hal_data" where
  "alloc op d = (case op of Up sz \<Rightarrow> shmalloc_up sz d | Dn sz \<Rightarrow> shmalloc_dn sz d)"

fun alloc_run :: "alloc_op list \<Rightarrow> hal_data \<Rightarrow> (int \<times> int) list \<times> hal_data" where
  "alloc_run [] d = ([], d)"
| "alloc_run (op # ops) d =
     (case alloc op d of
        (None, d') \<Rightarrow> alloc_run ops d'
      | (Some off, d') \<Rightarrow> (case alloc_run ops d' of (ps, d'') \<Rightarrow> ((off, alloc_size op) # ps, d'')))"

definition apart :: "int \<times> int \<Rightarrow> int \<times> int \<Rightarrow> bool" where
  "apart p q \<longleftrightarrow> fst p + snd p \<le> fst q \<or> fst q + snd q \<le> fst p"

lemma alloc_Some:
  assumes "alloc op d = (Some off, d')" "shm_ok d" "0 < alloc_size op"
  shows "shm_ok d' \<and> hd_shmem_bot d \<le> off \<and> off + alloc_size op \<le> hd_shmem_top d \<and>
    hd_shmem_bot d \<le> hd_shmem_bot d' \<and> hd_shmem_top d' \<le> hd_shmem_top d \<and> off mod alignment (alloc_size op) = 0 \<and>
    (off + alloc_size op \<le> hd_shmem_bot d' \<or> hd_shmem_top d' \<le> off)"
proof (cases op)
  case (Up sz)
  with assms(1) have "shmalloc_up sz d = (Some off, d')" by (simp add: alloc_def)
  from shmalloc_up_Some [OF this] assms(2,3) Up show ?thesis by (simp add: shm_ok_def)
next
  case (Dn sz)
  with assms(1) have "shmalloc_dn sz d = (Some off, d')" by (simp add: alloc_def)
  from shmalloc_dn_Some [OF this] assms(2,3) Dn show ?thesis by (simp add: shm_ok_def)
qed

lemma alloc_None: "alloc op d = (None, d') \<Longrightarrow> d' = d"
  by (cases op) (auto simp: alloc_def dest: shmalloc_None)

lemma alloc_run_ok:
  assumes "alloc_run ops d = (ps, d')" "shm_ok d" "\<forall>op \<in> set ops. 0 < alloc_size op"
  shows "shm_ok d' \<and> sorted_wrt apart ps \<and>
    (\<forall>p \<in> set ps. hd_shmem_bot d \<le> fst p \<and> fst p + snd p \<le> hd_shmem_top d \<and> 0 < snd p \<and>
       fst p mod alignment (snd p) = 0)"
  using assms
proof (induction ops arbitrary: d ps)
  case Nil
  then show ?case by simp
next
  case (Cons op ops)
  show ?case
  proof (cases "alloc op d")
    case (Pair r d1)
    show ?thesis
    proof (cases r)
      case None
      with Pair have "d1 = d" using alloc_None by blast
      with Cons None Pair show ?thesis by simp
    next
      case (Some off)
      obtain qs d2 where run: "alloc_run ops d1 = (qs, d2)" by fastforce
      with Cons.prems(1) Pair Some have ps: "ps = (off, alloc_size op) # qs" and "d2 = d'" by auto
      with run have run: "alloc_run ops d1 = (qs, d')" by simp
      have a: "alloc op d = (Some off, d1)" "0 < alloc_size op" using Pair Some Cons.prems(3) by auto
      note step = alloc_Some [OF a(1) Cons.prems(2) a(2)]
      have IH: "shm_ok d' \<and> sorted_wrt apart qs \<and>
        (\<forall>p \<in> set qs. hd_shmem_bot d1 \<le> fst p \<and> fst p + snd p \<le> hd_shmem_top d1 \<and> 0 < snd p \<and>
           fst p mod alignment (snd p) = 0)"
        using Cons.IH [OF run] step Cons.prems(3) by simp
      have "\<forall>q \<in> set qs. apart (off, alloc_size op) q"
        using IH step by (fastforce simp: apart_def)
      moreover have "\<forall>p \<in> set qs. hd_shmem_bot d \<le> fst p \<and> fst p + snd p \<le> hd_shmem_top d"
        using IH step by fastforce
      ultimately show ?thesis using IH step a(2) by (simp add: ps)
    qed
  qed
qed

text \<open>
  C28: Any sequence of allocations of positive sizes, from the bottom or the top of the segment, gives out
  pieces that lie inside it behind its header, are aligned for their size and do not overlap.
\<close>

theorem allocations_disjoint:
  assumes "shm_ok d" "\<forall>op \<in> set ops. 0 < alloc_size op" "alloc_run ops d = (ps, d')"
  shows "sorted_wrt apart ps \<and>
    (\<forall>p \<in> set ps. SIZEOF_DATA \<le> fst p \<and> fst p + snd p \<le> HAL_SIZE \<and> fst p mod alignment (snd p) = 0)"
proof -
  from alloc_run_ok [OF assms(3,1,2)]
  have a: "sorted_wrt apart ps" "\<forall>p \<in> set ps. hd_shmem_bot d \<le> fst p \<and> fst p + snd p \<le> hd_shmem_top d \<and>
    fst p mod alignment (snd p) = 0" by auto
  from assms(1) have "SIZEOF_DATA \<le> hd_shmem_bot d" "hd_shmem_top d \<le> HAL_SIZE" by (auto simp: shm_ok_def)
  with a show ?thesis by fastforce
qed

definition data_zero :: hal_data where
  "data_zero = \<lparr>hd_mutex = False, hd_shmem_avail = 0, hd_shmem_bot = SIZEOF_DATA, hd_shmem_top = HAL_SIZE,
     hd_comp_list = [], hd_pin_list = [], hd_param_list = [], hd_funct_list = [], hd_thread_list = [],
     hd_base_period = 0, hd_threads_running = 0, hd_comp_free = [], hd_pin_free = [], hd_param_free = [],
     hd_funct_free = [], hd_funct_entry_free = [], hd_thread_free = [], hd_exact_base_period = 0,
     hd_lock = HAL_LOCK_NONE, hd_cells = (\<lambda>_. 0)\<rparr>"

theorem allocations_disjoint_witness:
  "sorted_wrt apart (fst (alloc_run [Up 5, Dn 104, Up 40, Dn 88] data_zero)) \<and>
   length (fst (alloc_run [Up 5, Dn 104, Up 40, Dn 88] data_zero)) = 4"
proof -
  have ok: "shm_ok data_zero" by (simp add: shm_ok_def data_zero_def SIZEOF_DATA_def HAL_SIZE_def)
  have len: "length (fst (alloc_run [Up 5, Dn 104, Up 40, Dn 88] data_zero)) = 4"
    by (simp add: alloc_def shmalloc_up_def shmalloc_dn_def Let_def alignment_def align_up_def align_dn_def
        data_zero_def SIZEOF_DATA_def HAL_SIZE_def)
  obtain ps d' where run: "alloc_run [Up 5, Dn 104, Up 40, Dn 88] data_zero = (ps, d')" by fastforce
  from allocations_disjoint [OF ok _ run] run len show ?thesis by simp
qed

text \<open>
  With a negative size the check of the space that is left passes, and the bottom of the free memory moves
  down over what was given out before.
\<close>

lemma hal_malloc_negative:
  assumes "shm_ok d" "\<not> hd_mutex d" "sz < 0"
  shows "\<exists>d'. hal_malloc sz d = Some (Some (hd_shmem_bot d), d') \<and> hd_shmem_bot d' = hd_shmem_bot d + sz"
  using assms by (simp add: hal_malloc_def locked_def shmalloc_up_def alignment_def align_up_def Let_def shm_ok_def)

end
