(* ===== verification/HalProps.thy ===== *)
theory HalProps
  imports HalMem "HOL-Library.Multiset"
begin

text \<open>
  The consistency of the lists of the hardware abstraction layer: names are sorted and unique, owners exist,
  every entry of a thread refers to an exported function, and the usage count of a function is the number
  of entries that call it. Every operation keeps it; the exit of a component does so except for pins.
\<close>

section \<open>Sorted lists and arenas\<close>

definition named_sorted :: "('a \<Rightarrow> string) \<Rightarrow> 'a list \<Rightarrow> bool" where
  "named_sorted nm xs \<longleftrightarrow> sorted_wrt (\<lambda>a b. nm a < nm b) xs"

lemma insert_named_Some:
  assumes "named_sorted nm xs" "insert_named nm x xs = Some ys"
  shows "named_sorted nm ys \<and> mset ys = add_mset x (mset xs)"
  using assms
proof (induction xs arbitrary: ys)
  case Nil
  then show ?case by (auto simp: named_sorted_def)
next
  case (Cons a xs)
  show ?case
  proof (cases "nm a > nm x")
    case True
    then have "\<forall>y \<in> set (a # xs). nm x < nm y"
      using Cons.prems(1) order.strict_trans [of "nm x" "nm a"] by (auto simp: named_sorted_def)
    with True Cons.prems show ?thesis by (auto simp: named_sorted_def)
  next
    case False
    with Cons.prems obtain zs where zs: "insert_named nm x xs = Some zs" "ys = a # zs" and lt: "nm a < nm x"
      by (auto split: if_splits)
    have "named_sorted nm xs" using Cons.prems(1) by (simp add: named_sorted_def)
    from Cons.IH [OF this zs(1)] have "named_sorted nm zs" and m: "mset zs = add_mset x (mset xs)" by auto
    moreover have "set zs = insert x (set xs)" using m by (metis set_mset_mset set_mset_add_mset_insert)
    ultimately show ?thesis using Cons.prems(1) lt zs(2) by (auto simp: named_sorted_def)
  qed
qed

lemma insert_named_None_iff:
  assumes "named_sorted nm xs"
  shows "insert_named nm x xs = None \<longleftrightarrow> (\<exists>y \<in> set xs. nm y = nm x)"
  using assms
proof (induction xs)
  case Nil
  then show ?case by simp
next
  case (Cons a xs)
  have lt: "\<forall>y \<in> set xs. nm a < nm y" and xs: "named_sorted nm xs"
    using Cons.prems by (simp_all add: named_sorted_def)
  consider "nm a > nm x" | "nm a = nm x" | "nm a < nm x" by (rule linorder_cases [of "nm a" "nm x"])
  then show ?case
  proof cases
    case 1
    then have "\<forall>y \<in> set xs. nm y \<noteq> nm x" using lt order.strict_trans [of "nm x" "nm a"] by auto
    with 1 show ?thesis by auto
  next
    case 3
    with Cons.IH [OF xs] show ?thesis by auto
  qed simp
qed

lemma named_sorted_filter: "named_sorted nm xs \<Longrightarrow> named_sorted nm (filter P xs)"
  by (simp add: named_sorted_def sorted_wrt_filter)

lemma named_sorted_map: "(\<And>x. nm (g x) = nm x) \<Longrightarrow> named_sorted nm (map g xs) \<longleftrightarrow> named_sorted nm xs"
  by (simp add: named_sorted_def sorted_wrt_map)

text \<open>The offsets of the structures of a kind, in use and free: distinct, and above the free memory.\<close>

definition arena :: "int list \<Rightarrow> int \<Rightarrow> bool" where
  "arena os lb \<longleftrightarrow> distinct os \<and> (\<forall>x \<in> set os. lb \<le> x)"

lemma arena_mset: "mset os = mset os' \<Longrightarrow> arena os lb \<longleftrightarrow> arena os' lb"
  using mset_eq_imp_distinct_iff [of os os'] mset_eq_setD [of os os'] by (simp add: arena_def)

lemma arena_mono: "arena os lb \<Longrightarrow> t \<le> lb \<Longrightarrow> arena os t"
  by (auto simp: arena_def)

lemma arena_fresh: "arena os lb \<Longrightarrow> t < lb \<Longrightarrow> arena (t # os) t"
  by (auto simp: arena_def)

section \<open>The invariant\<close>

definition comp_offs :: "hal_data \<Rightarrow> int list" where
  "comp_offs d = map hc_off (hd_comp_list d) @ map hc_off (hd_comp_free d)"
definition funct_offs :: "hal_data \<Rightarrow> int list" where
  "funct_offs d = map hf_off (hd_funct_list d) @ map hf_off (hd_funct_free d)"
definition thread_offs :: "hal_data \<Rightarrow> int list" where
  "thread_offs d = map ht_off (hd_thread_list d) @ map ht_off (hd_thread_free d)"

definition mem_wf :: "hal_data \<Rightarrow> bool" where
  "mem_wf d \<longleftrightarrow> shm_ok d \<and> arena (comp_offs d) (hd_shmem_top d) \<and> arena (funct_offs d) (hd_shmem_top d) \<and>
     arena (thread_offs d) (hd_shmem_top d)"

definition entries :: "hal_thread list \<Rightarrow> hal_funct_entry list" where
  "entries ts = concat (map ht_funct_list ts)"

definition calls :: "hal_thread list \<Rightarrow> int \<Rightarrow> nat" where
  "calls ts off = length (filter (\<lambda>e. fe_funct_ptr e = off) (entries ts))"

definition functs_wf :: "hal_comp list \<Rightarrow> hal_funct list \<Rightarrow> hal_thread list \<Rightarrow> bool" where
  "functs_wf cs fs ts \<longleftrightarrow>
     named_sorted hf_name fs \<and> (\<forall>f \<in> set fs. hf_owner f \<in> hc_off ` set cs) \<and>
     (\<forall>e \<in> set (entries ts). fe_funct_ptr e \<in> hf_off ` set fs) \<and>
     (\<forall>f \<in> set fs. hf_users f = int (calls ts (hf_off f))) \<and>
     (\<forall>f \<in> set fs. hf_reentrant f = 0 \<longrightarrow> hf_users f \<le> 1)"

definition link_wf :: "hal_comp list \<Rightarrow> hal_funct list \<Rightarrow> hal_param list \<Rightarrow> hal_pin list \<Rightarrow> hal_thread list \<Rightarrow> bool" where
  "link_wf cs fs ps pns ts \<longleftrightarrow>
     functs_wf cs fs ts \<and> named_sorted hp_name ps \<and> named_sorted hn_name pns \<and>
     (\<forall>p \<in> set ps. hp_owner p \<in> hc_off ` set cs)"

definition hal_wf :: "hal_data \<Rightarrow> bool" where
  "hal_wf d \<longleftrightarrow> \<not> hd_mutex d \<and> mem_wf d \<and>
     link_wf (hd_comp_list d) (hd_funct_list d) (hd_param_list d) (hd_pin_list d) (hd_thread_list d)"

text \<open>What the operations leave alone: the lists, and all of the memory.\<close>

definition same_lists :: "hal_data \<Rightarrow> hal_data \<Rightarrow> bool" where
  "same_lists d d' \<longleftrightarrow> hd_comp_list d' = hd_comp_list d \<and> hd_funct_list d' = hd_funct_list d \<and>
     hd_param_list d' = hd_param_list d \<and> hd_pin_list d' = hd_pin_list d \<and> hd_thread_list d' = hd_thread_list d \<and>
     hd_mutex d' = hd_mutex d"

definition same_memory :: "hal_data \<Rightarrow> hal_data \<Rightarrow> bool" where
  "same_memory d d' \<longleftrightarrow> hd_shmem_bot d' = hd_shmem_bot d \<and> hd_shmem_top d' = hd_shmem_top d \<and>
     comp_offs d' = comp_offs d \<and> funct_offs d' = funct_offs d \<and> thread_offs d' = thread_offs d"

lemma mem_wf_same: "same_memory d d' \<Longrightarrow> mem_wf d' \<longleftrightarrow> mem_wf d"
  by (simp add: mem_wf_def same_memory_def shm_ok_def)

lemma mem_wf_mutex [simp]: "mem_wf (d\<lparr>hd_mutex := b\<rparr>) \<longleftrightarrow> mem_wf d"
  by (simp add: mem_wf_def shm_ok_def comp_offs_def funct_offs_def thread_offs_def)

lemma hal_wf_same: "same_lists d d' \<Longrightarrow> same_memory d d' \<Longrightarrow> hal_wf d' \<longleftrightarrow> hal_wf d"
  by (simp add: hal_wf_def mem_wf_same same_lists_def)

text \<open>A section under the mutex is judged by its body.\<close>

definition data_wf :: "hal_data \<Rightarrow> bool" where
  "data_wf d \<longleftrightarrow> mem_wf d \<and>
     link_wf (hd_comp_list d) (hd_funct_list d) (hd_param_list d) (hd_pin_list d) (hd_thread_list d)"

lemma hal_wf_data: "hal_wf d \<longleftrightarrow> \<not> hd_mutex d \<and> data_wf d"
  by (simp add: hal_wf_def data_wf_def)

lemma data_wf_mutex [simp]: "data_wf (d\<lparr>hd_mutex := b\<rparr>) \<longleftrightarrow> data_wf d"
  by (simp add: data_wf_def)

lemma data_wf_same: "same_lists d d' \<Longrightarrow> same_memory d d' \<Longrightarrow> data_wf d' \<longleftrightarrow> data_wf d"
  by (simp add: data_wf_def mem_wf_same same_lists_def)

lemma locked_wf:
  assumes "hal_wf d" "locked f d = Some (r, d')" "\<And>d r d'. data_wf d \<Longrightarrow> f d = Some (r, d') \<Longrightarrow> data_wf d'"
  shows "hal_wf d'"
proof -
  from assms(1,2) obtain d1 where "f (d\<lparr>hd_mutex := True\<rparr>) = Some (r, d1)" "d' = d1\<lparr>hd_mutex := False\<rparr>"
    by (auto simp: locked_def hal_wf_def split: option.splits)
  with assms(3) [of "d\<lparr>hd_mutex := True\<rparr>" r d1] assms(1) show ?thesis by (simp add: hal_wf_data)
qed

section \<open>Memory for structures\<close>

lemma shmalloc_dn_wf:
  assumes "mem_wf d" "shmalloc_dn sz d = (Some off, d')" "0 < sz"
  shows "mem_wf d' \<and> same_lists d d' \<and> arena (off # comp_offs d) off \<and> arena (off # funct_offs d) off \<and>
    arena (off # thread_offs d) off \<and> hd_shmem_top d' = off \<and> comp_offs d' = comp_offs d \<and>
    funct_offs d' = funct_offs d \<and> thread_offs d' = thread_offs d \<and> 0 < off"
proof -
  note s = shmalloc_dn_Some [OF assms(2)]
  have lt: "off < hd_shmem_top d" using s(2) assms(3) by linarith
  have d': "d' = d\<lparr>hd_shmem_top := off, hd_shmem_avail := off - hd_shmem_bot d\<rparr>"
    using assms(2) by (auto simp: shmalloc_dn_def Let_def split: if_splits)
  have offs: "comp_offs d' = comp_offs d" "funct_offs d' = funct_offs d" "thread_offs d' = thread_offs d"
    by (simp_all add: d' comp_offs_def funct_offs_def thread_offs_def)
  have ok: "shm_ok d" using assms(1) by (simp add: mem_wf_def)
  have "shm_ok d'" using ok s lt by (simp add: shm_ok_def)
  moreover have "0 < off" using ok s(1) by (simp add: shm_ok_def SIZEOF_DATA_def)
  ultimately show ?thesis
    using assms(1) lt s(3) offs
    by (auto simp: mem_wf_def same_lists_def d' intro: arena_fresh arena_mono)
qed

lemma sizes_pos [simp]: "0 < SIZEOF_COMP" "0 < SIZEOF_FUNCT" "0 < SIZEOF_PARAM" "0 < SIZEOF_PIN"
  "0 < SIZEOF_FUNCT_ENTRY" "0 < SIZEOF_THREAD"
  by (simp_all add: SIZEOF_COMP_def SIZEOF_FUNCT_def SIZEOF_PARAM_def SIZEOF_PIN_def SIZEOF_FUNCT_ENTRY_def
      SIZEOF_THREAD_def)

lemma alloc_param_wf:
  assumes "mem_wf d" "alloc_param_struct d = (p, d')"
  shows "mem_wf d' \<and> same_lists d d' \<and> comp_offs d' = comp_offs d"
proof (cases "hd_param_free d")
  case (Cons q qs)
  with assms(2) have "d' = d\<lparr>hd_param_free := qs\<rparr>" by (simp add: alloc_param_struct_def)
  with assms(1) show ?thesis
    by (simp add: mem_wf_def same_lists_def shm_ok_def comp_offs_def funct_offs_def thread_offs_def)
next
  case Nil
  with assms(2) obtain o' where "shmalloc_dn SIZEOF_PARAM d = (o', d')"
    by (auto simp: alloc_param_struct_def split: prod.splits)
  with assms(1) shmalloc_dn_wf [of d SIZEOF_PARAM _ d'] shmalloc_None(2) [of SIZEOF_PARAM d d'] show ?thesis
    by (cases o') (auto simp: same_lists_def)
qed

lemma same_store: "same_lists d (store_cell p v d)" "same_memory d (store_cell p v d)"
  by (simp_all add: same_lists_def same_memory_def store_cell_def comp_offs_def funct_offs_def thread_offs_def)

lemma mem_wf_store [simp]: "mem_wf (store_cell p v d) \<longleftrightarrow> mem_wf d"
  by (rule mem_wf_same) (rule same_store)

lemma same_lists_store [simp]: "same_lists d (store_cell p v d1) \<longleftrightarrow> same_lists d d1"
  by (simp add: same_lists_def store_cell_def)

lemma alloc_pin_wf:
  assumes "mem_wf d" "alloc_pin_struct d = (p, d')"
  shows "mem_wf d' \<and> same_lists d d'"
proof (cases "hd_pin_free d")
  case (Cons q qs)
  with assms(2) have "d' = store_cell (pin_dummysig (hn_off q)) 0 (d\<lparr>hd_pin_free := qs\<rparr>)"
    by (simp add: alloc_pin_struct_def)
  with assms(1) show ?thesis
    by (simp add: mem_wf_def same_lists_def shm_ok_def comp_offs_def funct_offs_def thread_offs_def store_cell_def)
next
  case Nil
  show ?thesis
  proof (cases "shmalloc_dn SIZEOF_PIN d")
    case (Pair o' d1)
    show ?thesis
    proof (cases o')
      case None
      with Nil Pair assms shmalloc_None(2) [of SIZEOF_PIN d d1] show ?thesis
        by (simp add: alloc_pin_struct_def same_lists_def)
    next
      case (Some off)
      with Nil Pair assms(2) have "d' = store_cell (pin_dummysig off) 0 d1" by (simp add: alloc_pin_struct_def)
      moreover have "mem_wf d1" "same_lists d d1"
        using Pair Some assms(1) shmalloc_dn_wf [of d SIZEOF_PIN off d1] by auto
      ultimately show ?thesis by simp
    qed
  qed
qed

text \<open>
  A structure that can be entered: its offset is distinct from those of its kind, and adding it keeps
  the memory well-formed.
\<close>

lemma alloc_funct_wf:
  assumes "mem_wf d" "alloc_funct_struct d = (Some f, d')"
  shows "mem_wf d' \<and> same_lists d d' \<and> arena (hf_off f # funct_offs d') (hd_shmem_top d')"
proof (cases "hd_funct_free d")
  case (Cons q qs)
  with assms(2) have d': "d' = d\<lparr>hd_funct_free := qs\<rparr>" "hf_off f = hf_off q"
    by (auto simp: alloc_funct_struct_def funct_reset_def)
  have "mset (hf_off f # funct_offs d') = mset (funct_offs d)" by (simp add: funct_offs_def d' Cons)
  moreover have "hd_shmem_top d' = hd_shmem_top d" "comp_offs d' = comp_offs d" "thread_offs d' = thread_offs d" "shm_ok d' = shm_ok d"
    by (simp_all add: d' comp_offs_def thread_offs_def shm_ok_def)
  ultimately show ?thesis
    using assms(1) arena_mset [of "hf_off f # funct_offs d'" "funct_offs d"]
    by (auto simp: mem_wf_def same_lists_def d'(1) arena_def)
next
  case Nil
  with assms(2) obtain off where "shmalloc_dn SIZEOF_FUNCT d = (Some off, d')" "hf_off f = off"
    by (auto simp: alloc_funct_struct_def funct_new_def split: prod.splits)
  with shmalloc_dn_wf [OF assms(1), of SIZEOF_FUNCT off d'] show ?thesis by auto
qed

lemma alloc_comp_wf:
  assumes "mem_wf d" "halpr_alloc_comp_struct d = (Some c, d')"
  shows "mem_wf d' \<and> same_lists d d' \<and> arena (hc_off c # comp_offs d') (hd_shmem_top d')"
proof (cases "hd_comp_free d")
  case (Cons q qs)
  with assms(2) have d': "d' = d\<lparr>hd_comp_free := qs\<rparr>" "hc_off c = hc_off q"
    by (auto simp: halpr_alloc_comp_struct_def comp_reset_def)
  have "mset (hc_off c # comp_offs d') = mset (comp_offs d)" by (simp add: comp_offs_def d' Cons)
  moreover have "hd_shmem_top d' = hd_shmem_top d" "funct_offs d' = funct_offs d" "thread_offs d' = thread_offs d" "shm_ok d' = shm_ok d"
    by (simp_all add: d' funct_offs_def thread_offs_def shm_ok_def)
  ultimately show ?thesis
    using assms(1) arena_mset [of "hc_off c # comp_offs d'" "comp_offs d"]
    by (auto simp: mem_wf_def same_lists_def d'(1) arena_def)
next
  case Nil
  with assms(2) obtain off where "shmalloc_dn SIZEOF_COMP d = (Some off, d')" "hc_off c = off"
    by (auto simp: halpr_alloc_comp_struct_def comp_new_def split: prod.splits)
  with shmalloc_dn_wf [OF assms(1), of SIZEOF_COMP off d'] show ?thesis by auto
qed

lemma alloc_thread_wf:
  assumes "mem_wf d" "alloc_thread_struct d = (Some t, d')"
  shows "mem_wf d' \<and> same_lists d d' \<and> arena (ht_off t # thread_offs d') (hd_shmem_top d') \<and> ht_funct_list t = []"
proof (cases "hd_thread_free d")
  case (Cons q qs)
  with assms(2) have d': "d' = d\<lparr>hd_thread_free := qs\<rparr>" "ht_off t = ht_off q" "ht_funct_list t = []"
    by (auto simp: alloc_thread_struct_def thread_reset_def)
  have "mset (ht_off t # thread_offs d') = mset (thread_offs d)" by (simp add: thread_offs_def d' Cons)
  moreover have "hd_shmem_top d' = hd_shmem_top d" "comp_offs d' = comp_offs d" "funct_offs d' = funct_offs d" "shm_ok d' = shm_ok d"
    by (simp_all add: d' comp_offs_def funct_offs_def shm_ok_def)
  ultimately show ?thesis
    using assms(1) arena_mset [of "ht_off t # thread_offs d'" "thread_offs d"] d'(3)
    by (auto simp: mem_wf_def same_lists_def d'(1) arena_def)
next
  case Nil
  with assms(2) obtain off where "shmalloc_dn SIZEOF_THREAD d = (Some off, d')" "ht_off t = off" "ht_funct_list t = []"
    by (auto simp: alloc_thread_struct_def thread_new_def split: prod.splits)
  with shmalloc_dn_wf [OF assms(1), of SIZEOF_THREAD off d'] show ?thesis by auto
qed

lemma alloc_struct_None:
  "alloc_funct_struct d = (None, d') \<Longrightarrow> d' = d"
  "halpr_alloc_comp_struct d = (None, d') \<Longrightarrow> d' = d"
  "alloc_thread_struct d = (None, d') \<Longrightarrow> d' = d"
  by (auto simp: alloc_funct_struct_def halpr_alloc_comp_struct_def alloc_thread_struct_def
      split: list.splits prod.splits dest: shmalloc_None)

lemma alloc_entry_wf:
  assumes "mem_wf d" "alloc_funct_entry_struct d = Some (e, d')"
  shows "mem_wf d' \<and> same_lists d d'"
proof (cases "hd_funct_entry_free d")
  case (Cons q qs)
  with assms(2) have "d' = d\<lparr>hd_funct_entry_free := qs\<rparr>" by (simp add: alloc_funct_entry_struct_def)
  with assms(1) show ?thesis
    by (simp add: mem_wf_def same_lists_def shm_ok_def comp_offs_def funct_offs_def thread_offs_def)
next
  case Nil
  with assms(2) obtain off where "shmalloc_dn SIZEOF_FUNCT_ENTRY d = (Some off, d')"
    by (auto simp: alloc_funct_entry_struct_def split: option.splits prod.splits)
  with shmalloc_dn_wf [OF assms(1), of SIZEOF_FUNCT_ENTRY off d'] show ?thesis by auto
qed

section \<open>Parameters, pins, components\<close>

lemma insert_named_set: "named_sorted nm xs \<Longrightarrow> insert_named nm x xs = Some ys \<Longrightarrow> set ys = insert x (set xs)"
  using insert_named_Some [of nm xs x ys] by (metis set_mset_mset set_mset_add_mset_insert)

lemma link_wf_params:
  assumes "link_wf cs fs ps pns ts" "insert_named hp_name p ps = Some l" "hp_owner p \<in> hc_off ` set cs"
  shows "link_wf cs fs l pns ts"
  using assms insert_named_set [of hp_name ps p l] insert_named_Some [of hp_name ps p l] by (simp add: link_wf_def)

lemma link_wf_pins:
  assumes "link_wf cs fs ps pns ts" "insert_named hn_name p pns = Some l"
  shows "link_wf cs fs ps l ts"
  using assms insert_named_Some [of hn_name pns p l] by (simp add: link_wf_def)

lemma functs_wf_comps: "functs_wf cs fs ts \<Longrightarrow> hc_off ` set cs \<subseteq> hc_off ` set cs' \<Longrightarrow> functs_wf cs' fs ts"
  unfolding functs_wf_def by blast

lemma link_wf_comps: "link_wf cs fs ps pns ts \<Longrightarrow> hc_off ` set cs \<subseteq> hc_off ` set cs' \<Longrightarrow> link_wf cs' fs ps pns ts"
  using functs_wf_comps [of cs fs ts cs'] unfolding link_wf_def by blast

lemma find_comp_in: "halpr_find_comp_by_id cid d = Some c \<Longrightarrow> c \<in> set (hd_comp_list d)"
  by (auto simp: halpr_find_comp_by_id_def find_Some_iff)

lemma map_off_upd [simp]:
  "(\<And>c. hc_off (g c) = hc_off c) \<Longrightarrow> map hc_off (map (\<lambda>c. if hc_off c = off then g c else c) cs) = map hc_off cs"
  "(\<And>f. hf_off (g' f) = hf_off f) \<Longrightarrow> map hf_off (map (\<lambda>f. if hf_off f = off then g' f else f) fs) = map hf_off fs"
  "(\<And>t. ht_off (g'' t) = ht_off t) \<Longrightarrow> map ht_off (map (\<lambda>t. if ht_off t = off then g'' t else t) ts) = map ht_off ts"
  by simp_all

lemma upd_comp_wf:
  assumes "data_wf d" "\<And>c. hc_off (g c) = hc_off c"
  shows "data_wf (upd_comp off g d)"
proof -
  let ?d = "upd_comp off g d"
  have m: "map hc_off (hd_comp_list ?d) = map hc_off (hd_comp_list d)" using assms(2) by (simp add: upd_comp_def)
  then have "hc_off ` set (hd_comp_list ?d) = hc_off ` set (hd_comp_list d)" by (metis image_set)
  moreover have "mem_wf ?d = mem_wf d"
    using m by (intro mem_wf_same) (simp add: same_memory_def comp_offs_def funct_offs_def thread_offs_def upd_comp_def)
  ultimately show ?thesis
    using assms(1) link_wf_comps by (fastforce simp: data_wf_def upd_comp_def)
qed

lemma ready_wf:
  assumes "hal_wf d"
  shows "hal_set_constructor cid mk d = Some (r, d') \<Longrightarrow> hal_wf d'"
    and "hal_set_unready cid d = Some (r, d') \<Longrightarrow> hal_wf d'"
    and "hal_ready cid d = Some (r, d') \<Longrightarrow> hal_wf d'"
    and "hal_unready cid d = Some (r, d') \<Longrightarrow> hal_wf d'"
  unfolding hal_set_constructor_def hal_set_unready_def hal_ready_def hal_unready_def
  by (erule locked_wf [OF assms], auto simp: upd_comp_wf split: option.splits if_splits)+

lemma param_locked_wf:
  assumes d: "data_wf d" and step: "param_locked name ty dir addr cid d = Some (r, d')"
  shows "data_wf d'"
proof (cases "halpr_find_comp_by_id cid d")
  case None
  with d step show ?thesis by (simp add: param_locked_def)
next
  case (Some c)
  have c: "hc_off c \<in> hc_off ` set (hd_comp_list d)" using find_comp_in [OF Some] by blast
  obtain p d3 where al: "alloc_param_struct d = (p, d3)" by fastforce
  have d3: "mem_wf d3" "same_lists d d3" using alloc_param_wf [OF _ al] d by (auto simp: data_wf_def)
  then have wf3: "data_wf d3" using d by (simp add: data_wf_def same_lists_def)
  show ?thesis
  proof (cases "\<not> SHMCHK addr \<or> hc_ready c \<noteq> 0 \<or> p = None")
    case True
    with step Some al have "d' = d \<or> d' = d3" by (simp add: param_locked_def split: if_splits)
    with d wf3 show ?thesis by blast
  next
    case False
    then obtain p0 where p0: "p = Some p0" by blast
    define p' where "p' = p0\<lparr>hp_owner := hc_off c, hp_data_ptr := addr, hp_type := ty, hp_dir := dir, hp_name := copy_name name\<rparr>"
    show ?thesis
    proof (cases "insert_named hp_name p' (hd_param_list d3)")
      case None
      with False step Some al p0 have "d' = free_param_struct p' d3" by (simp add: param_locked_def p'_def)
      with wf3 show ?thesis
        by (simp add: free_param_struct_def data_wf_def mem_wf_def shm_ok_def comp_offs_def funct_offs_def thread_offs_def)
    next
      case l: (Some l)
      with False step Some al p0 have d': "d' = d3\<lparr>hd_param_list := l\<rparr>" by (simp add: param_locked_def p'_def)
      have "hp_owner p' \<in> hc_off ` set (hd_comp_list d3)" using c d3(2) by (simp add: same_lists_def p'_def)
      with wf3 link_wf_params [OF _ l this] show ?thesis
        by (simp add: d' data_wf_def mem_wf_def shm_ok_def comp_offs_def funct_offs_def thread_offs_def)
    qed
  qed
qed

lemma hal_param_new_wf:
  assumes "hal_wf d" "hal_param_new name ty dir addr cid d = Some (r, d')"
  shows "hal_wf d'"
  using assms locked_wf [OF assms(1) _ param_locked_wf] by (auto simp: hal_param_new_def split: if_splits)

lemma pin_locked_wf:
  assumes d: "data_wf d" and step: "pin_locked name ty addr cid d = Some (r, d')"
  shows "data_wf d'"
proof (cases "halpr_find_comp_by_id cid d")
  case None
  with d step show ?thesis by (simp add: pin_locked_def)
next
  case (Some c)
  obtain p d3 where al: "alloc_pin_struct d = (p, d3)" by fastforce
  have d3: "mem_wf d3" "same_lists d d3" using alloc_pin_wf [OF _ al] d by (auto simp: data_wf_def)
  then have wf3: "data_wf d3" using d by (simp add: data_wf_def same_lists_def)
  have cell: "data_wf (store_cell q v e) = data_wf e" for q v e
    by (rule data_wf_same) (rule same_store)+
  show ?thesis
  proof (cases "\<not> SHMCHK addr \<or> hc_ready c \<noteq> 0 \<or> p = None")
    case True
    with step Some al have "d' = d \<or> d' = d3" by (simp add: pin_locked_def split: if_splits)
    with d wf3 show ?thesis by blast
  next
    case False
    then obtain p0 where p0: "p = Some p0" by blast
    define p' where "p' = p0\<lparr>hn_data_ptr_addr := addr, hn_owner := hc_off c, hn_type := ty, hn_signal := 0, hn_name := copy_name name\<rparr>"
    define d4 where "d4 = store_cell addr (pin_dummysig (hn_off p')) (store_cell (pin_dummysig (hn_off p')) 0 d3)"
    have wf4: "data_wf d4" using wf3 cell by (simp add: d4_def)
    show ?thesis
    proof (cases "insert_named hn_name p' (hd_pin_list d4)")
      case None
      with False step Some al p0 have "d' = free_pin_struct p' d4"
        by (simp add: pin_locked_def Let_def p'_def d4_def)
      with wf4 cell show ?thesis
        by (simp add: free_pin_struct_def data_wf_def mem_wf_def shm_ok_def comp_offs_def funct_offs_def thread_offs_def
            store_cell_def)
    next
      case l: (Some l)
      with False step Some al p0 have "d' = d4\<lparr>hd_pin_list := l\<rparr>" by (simp add: pin_locked_def Let_def p'_def d4_def)
      with wf4 link_wf_pins [OF _ l] show ?thesis
        by (simp add: data_wf_def mem_wf_def shm_ok_def comp_offs_def funct_offs_def thread_offs_def)
    qed
  qed
qed

lemma hal_pin_new_wf:
  assumes "hal_wf d" "hal_pin_new name ty addr cid d = Some (r, d')"
  shows "hal_wf d'"
  using assms locked_wf [OF assms(1) _ pin_locked_wf] by (auto simp: hal_pin_new_def split: if_splits)

lemma hal_pin_newf_wf:
  assumes "hal_wf d" "hal_pin_newf ty addr cid name d = Some (r, d')"
  shows "hal_wf d'"
  using assms hal_pin_new_wf [of d name ty addr cid r d'] by (auto simp: hal_pin_newf_def split: if_splits)

end
