(* ===== verification/HalFuncts.thy ===== *)
theory HalFuncts
  imports HalProps
begin

text \<open>
  Functions and the threads that call them: exporting a function, adding it to a thread and taking it
  out again keep the usage counts equal to the number of entries, and keep a function that is not
  reentrant in one place at most.
\<close>

section \<open>Entries as a multiset\<close>

definition centries :: "hal_thread list \<Rightarrow> hal_funct_entry multiset" where
  "centries ts = mset (entries ts)"

definition ccalls :: "hal_funct_entry multiset \<Rightarrow> int \<Rightarrow> nat" where
  "ccalls E off = size (filter_mset (\<lambda>e. fe_funct_ptr e = off) E)"

lemma ccalls_simps [simp]:
  "ccalls {#} off = 0" "ccalls (add_mset e E) off = (if fe_funct_ptr e = off then 1 else 0) + ccalls E off"
  "ccalls (E + F) off = ccalls E off + ccalls F off"
  by (simp_all add: ccalls_def)

lemma calls_centries: "calls ts off = ccalls (centries ts) off"
  by (simp add: calls_def ccalls_def centries_def flip: mset_filter)

lemma ccalls_pos: "e \<in># E \<Longrightarrow> fe_funct_ptr e = off \<Longrightarrow> 0 < ccalls E off"
  by (auto simp: ccalls_def nonempty_has_size [symmetric])

lemma ccalls_zero: "(\<And>e. e \<in># E \<Longrightarrow> fe_funct_ptr e \<noteq> off) \<Longrightarrow> ccalls E off = 0"
  by (auto simp: ccalls_def)

lemma functs_wf_entries:
  "functs_wf cs fs ts \<longleftrightarrow>
     named_sorted hf_name fs \<and> (\<forall>f \<in> set fs. hf_owner f \<in> hc_off ` set cs) \<and>
     (\<forall>e \<in># centries ts. fe_funct_ptr e \<in> hf_off ` set fs) \<and>
     (\<forall>f \<in> set fs. hf_users f = int (ccalls (centries ts) (hf_off f))) \<and>
     (\<forall>f \<in> set fs. hf_reentrant f = 0 \<longrightarrow> hf_users f \<le> 1)"
  by (simp add: functs_wf_def calls_centries) (simp add: centries_def)

lemma functs_wf_users:
  assumes "functs_wf cs fs ts" "f \<in> set fs"
  shows "hf_users f = int (ccalls (centries ts) (hf_off f))" "hf_reentrant f = 0 \<Longrightarrow> hf_users f \<le> 1"
  using assms unfolding functs_wf_entries by blast+

lemma functs_wf_mset: "centries ts = centries ts' \<Longrightarrow> functs_wf cs fs ts \<longleftrightarrow> functs_wf cs fs ts'"
  by (simp only: functs_wf_entries)

text \<open>An update of one thread, the offsets being distinct.\<close>

lemma centries_upd:
  assumes "distinct (map ht_off ts)" "t \<in> set ts"
  shows "centries (map (\<lambda>u. if ht_off u = ht_off t then g u else u) ts) + mset (ht_funct_list t) =
    centries ts + mset (ht_funct_list (g t))"
  using assms
proof (induction ts)
  case Nil
  then show ?case by simp
next
  case (Cons a ts)
  show ?case
  proof (cases "a = t")
    case True
    then have "\<forall>u \<in> set ts. ht_off u \<noteq> ht_off t" using Cons.prems(1) by (auto simp: image_iff)
    then have "map (\<lambda>u. if ht_off u = ht_off t then g u else u) ts = ts" by (simp add: map_idI)
    with True show ?thesis by (simp add: centries_def entries_def)
  next
    case False
    then have "t \<in> set ts" "ht_off a \<noteq> ht_off t" using Cons.prems by auto
    with Cons show ?thesis by (simp add: centries_def entries_def)
  qed
qed

lemma centries_same: "(\<And>t. ht_funct_list (g t) = ht_funct_list t) \<Longrightarrow> centries (map g ts) = centries ts"
  by (simp add: centries_def entries_def o_def)

text \<open>An update of one function.\<close>

lemma functs_upd_wf:
  assumes wf: "functs_wf cs fs ts" and dist: "distinct (map hf_off fs)" and f: "f \<in> set fs"
    and g: "\<And>h. hf_name (g h) = hf_name h \<and> hf_owner (g h) = hf_owner h \<and> hf_off (g h) = hf_off h \<and>
       hf_reentrant (g h) = hf_reentrant h"
    and users: "hf_users (g f) = int (ccalls (centries ts') (hf_off f))"
    and re: "hf_reentrant f = 0 \<longrightarrow> hf_users (g f) \<le> 1"
    and ptr: "\<forall>e \<in># centries ts'. fe_funct_ptr e \<in> hf_off ` set fs"
    and other: "\<And>off. off \<noteq> hf_off f \<Longrightarrow> ccalls (centries ts') off = ccalls (centries ts) off"
  shows "functs_wf cs (map (\<lambda>h. if hf_off h = hf_off f then g h else h) fs) ts'"
proof -
  let ?fs = "map (\<lambda>h. if hf_off h = hf_off f then g h else h) fs"
  have eq: "h = f" if "h \<in> set fs" "hf_off h = hf_off f" for h
    using dist f that by (auto simp: distinct_map dest: inj_onD)
  have "map hf_off ?fs = map hf_off fs" using g by simp
  then have "hf_off ` set ?fs = hf_off ` set fs" by (metis image_set)
  then have "\<forall>e \<in># centries ts'. fe_funct_ptr e \<in> hf_off ` set ?fs" using ptr by simp
  moreover have "named_sorted hf_name ?fs"
    using wf g by (subst named_sorted_map) (auto simp: functs_wf_entries)
  moreover have "\<forall>h \<in> set ?fs. hf_owner h \<in> hc_off ` set cs"
    using wf g by (auto simp: functs_wf_entries)
  moreover have u: "hf_users h = int (ccalls (centries ts') (hf_off h)) \<and> (hf_reentrant h = 0 \<longrightarrow> hf_users h \<le> 1)"
    if "h \<in> set ?fs" for h
  proof -
    from that obtain h0 where h0: "h0 \<in> set fs" "h = (if hf_off h0 = hf_off f then g h0 else h0)" by auto
    show ?thesis
    proof (cases "hf_off h0 = hf_off f")
      case True
      with eq [OF h0(1)] have "h0 = f" "h = g f" using h0(2) by simp_all
      with users re g [of f] show ?thesis by simp
    next
      case False
      with h0 functs_wf_users [OF wf h0(1)] other show ?thesis by auto
    qed
  qed
  moreover have "\<forall>h \<in> set ?fs. hf_users h = int (ccalls (centries ts') (hf_off h))" using u by blast
  moreover have "\<forall>h \<in> set ?fs. hf_reentrant h = 0 \<longrightarrow> hf_users h \<le> 1" using u by blast
  ultimately show ?thesis unfolding functs_wf_entries by (intro conjI)
qed

section \<open>Exporting\<close>

lemma functs_insert_wf:
  assumes wf: "functs_wf cs fs ts" and ins: "insert_named hf_name f fs = Some l"
    and own: "hf_owner f \<in> hc_off ` set cs" and users: "hf_users f = 0" and new: "hf_off f \<notin> hf_off ` set fs"
  shows "functs_wf cs l ts"
proof -
  have srt: "named_sorted hf_name fs" using wf by (simp add: functs_wf_entries)
  note l = insert_named_set [OF srt ins] insert_named_Some [OF srt ins]
  have "ccalls (centries ts) (hf_off f) = 0" using wf new unfolding functs_wf_entries by (intro ccalls_zero) metis
  moreover have "\<forall>h \<in> set fs. hf_reentrant h = 0 \<longrightarrow> hf_users h \<le> 1" using wf unfolding functs_wf_entries by blast
  ultimately show ?thesis using wf own users l unfolding functs_wf_entries
    by (simp only: l(1) ball_simps) simp
qed

lemma data_wf_simps:
  "data_wf d \<longleftrightarrow> shm_ok d \<and> arena (comp_offs d) (hd_shmem_top d) \<and> arena (funct_offs d) (hd_shmem_top d) \<and>
     arena (thread_offs d) (hd_shmem_top d) \<and>
     functs_wf (hd_comp_list d) (hd_funct_list d) (hd_thread_list d) \<and> named_sorted hp_name (hd_param_list d) \<and>
     named_sorted hn_name (hd_pin_list d) \<and> (\<forall>p \<in> set (hd_param_list d). hp_owner p \<in> hc_off ` set (hd_comp_list d))"
  by (auto simp: data_wf_def mem_wf_def link_wf_def)

lemmas offs_defs = comp_offs_def funct_offs_def thread_offs_def

lemma data_wf_distinct:
  assumes "data_wf d"
  shows "distinct (map hc_off (hd_comp_list d))" "distinct (map hf_off (hd_funct_list d))"
    "distinct (map ht_off (hd_thread_list d))" "\<forall>f \<in> set (hd_funct_list d). 0 < hf_off f"
proof -
  have "shm_ok d" using assms by (simp add: data_wf_simps)
  then have "0 < hd_shmem_top d" by (simp add: shm_ok_def SIZEOF_DATA_def)
  moreover have a: "arena (comp_offs d) (hd_shmem_top d)" "arena (funct_offs d) (hd_shmem_top d)"
    "arena (thread_offs d) (hd_shmem_top d)" using assms by (simp_all add: data_wf_simps)
  ultimately show "\<forall>f \<in> set (hd_funct_list d). 0 < hf_off f" unfolding arena_def funct_offs_def
    by (metis UnI1 image_eqI less_le_trans set_append set_map)
  show "distinct (map hc_off (hd_comp_list d))" "distinct (map hf_off (hd_funct_list d))"
    "distinct (map ht_off (hd_thread_list d))"
    using a by (simp_all add: arena_def offs_defs)
qed

lemma export_locked_wf:
  assumes d: "data_wf d" and step: "export_locked name fn arg fp re cid d = Some (r, d')"
  shows "data_wf d'"
proof (cases "halpr_find_comp_by_id cid d")
  case None
  with d step show ?thesis by (simp add: export_locked_def)
next
  case (Some c)
  have c: "hc_off c \<in> hc_off ` set (hd_comp_list d)" using find_comp_in [OF Some] by blast
  obtain p d1 where al: "alloc_funct_struct d = (p, d1)" by fastforce
  show ?thesis
  proof (cases "hc_type c = COMPONENT_TYPE_USER \<or> hc_ready c \<noteq> 0 \<or> p = None")
    case True
    with step Some al alloc_struct_None(1) [of d d1] have "d' = d" by (auto simp: export_locked_def split: if_splits)
    with d show ?thesis by simp
  next
    case False
    then obtain f0 where p: "p = Some f0" by blast
    define f where "f = f0\<lparr>hf_uses_fp := fp, hf_owner := hc_off c, hf_reentrant := re,
                           hf_users := 0, hf_arg := arg, hf_funct := fn, hf_name := copy_name name\<rparr>"
    have "mem_wf d" using d by (simp add: data_wf_def)
    from alloc_funct_wf [OF this al [unfolded p]]
    have w: "mem_wf d1" "same_lists d d1" "arena (hf_off f # funct_offs d1) (hd_shmem_top d1)" by (simp_all add: f_def)
    have wf1: "data_wf d1" using d w by (simp add: data_wf_def same_lists_def)
    show ?thesis
    proof (cases "insert_named hf_name f (hd_funct_list d1)")
      case None
      with False step Some al p have "d' = free_funct_struct f d1" by (simp add: export_locked_def f_def)
      moreover have "funct_offs (free_funct_struct f d1) = map hf_off (hd_funct_list d1) @ hf_off f # map hf_off (hd_funct_free d1)"
        by (simp add: free_funct_struct_def f_def funct_offs_def store_cell_def funct_reset_def)
      moreover have "arena (map hf_off (hd_funct_list d1) @ hf_off f # map hf_off (hd_funct_free d1)) (hd_shmem_top d1)"
        using w(3) by (subst arena_mset [of _ "hf_off f # funct_offs d1"]) (simp_all add: funct_offs_def)
      ultimately show ?thesis using wf1
        by (simp add: data_wf_simps free_funct_struct_def f_def comp_offs_def thread_offs_def store_cell_def shm_ok_def)
    next
      case l: (Some l)
      with False step Some al p have d': "d' = d1\<lparr>hd_funct_list := l\<rparr>" by (simp add: export_locked_def f_def)
      have srt: "named_sorted hf_name (hd_funct_list d1)" using wf1 by (simp add: data_wf_simps functs_wf_def)
      have own: "hf_owner f \<in> hc_off ` set (hd_comp_list d1)" using c w(2) by (simp add: same_lists_def f_def)
      have "hf_off f \<notin> hf_off ` set (hd_funct_list d1)" using w(3) by (auto simp: arena_def funct_offs_def)
      then have "functs_wf (hd_comp_list d1) l (hd_thread_list d1)"
        using wf1 own by (intro functs_insert_wf [OF _ l]) (simp_all add: data_wf_simps f_def)
      moreover have "mset (map hf_off l) = add_mset (hf_off f) (mset (map hf_off (hd_funct_list d1)))"
        using insert_named_Some [OF srt l] by simp
      then have "arena (funct_offs d') (hd_shmem_top d1)"
        using w(3) by (subst arena_mset [of _ "hf_off f # funct_offs d1"]) (simp_all add: funct_offs_def d')
      ultimately show ?thesis using wf1
        by (simp add: data_wf_simps d' comp_offs_def thread_offs_def shm_ok_def funct_offs_def)
    qed
  qed
qed

section \<open>Adding and deleting\<close>

lemma insertion_add_mset: "mset (list_add_after e i xs) = add_mset e (mset xs)"
  by (simp add: list_add_after_def) (metis append_take_drop_id mset_append)

lemma find_funct_in: "halpr_find_funct_by_name n d = Some f \<Longrightarrow> f \<in> set (hd_funct_list d)"
  by (auto simp: halpr_find_funct_by_name_def find_Some_iff)

lemma find_thread_in: "halpr_find_thread_by_name n d = Some t \<Longrightarrow> t \<in> set (hd_thread_list d)"
  by (auto simp: halpr_find_thread_by_name_def find_Some_iff)

text \<open>A change to one function and one thread that keeps offsets keeps the memory.\<close>

lemma data_wf_lists:
  assumes "data_wf d" "map hf_off fs = map hf_off (hd_funct_list d)" "map ht_off ts = map ht_off (hd_thread_list d)"
    "functs_wf (hd_comp_list d) fs ts"
  shows "data_wf (d\<lparr>hd_funct_list := fs, hd_thread_list := ts, hd_funct_entry_free := es\<rparr>)"
  using assms by (simp add: data_wf_simps offs_defs shm_ok_def)

lemma upd_swap: "upd_funct off g (upd_thread off' g' d) =
    d\<lparr>hd_funct_list := map (\<lambda>f. if hf_off f = off then g f else f) (hd_funct_list d),
      hd_thread_list := map (\<lambda>t. if ht_off t = off' then g' t else t) (hd_thread_list d),
      hd_funct_entry_free := hd_funct_entry_free d\<rparr>"
  by (simp add: upd_funct_def upd_thread_def)

lemma add_funct_wf:
  assumes d: "data_wf d" and f: "f \<in> set (hd_funct_list d)" and t: "t \<in> set (hd_thread_list d)"
    and re: "\<not> (hf_users f > 0 \<and> hf_reentrant f = 0)" and e: "fe_funct_ptr e = hf_off f"
  shows "data_wf (upd_funct (hf_off f) (\<lambda>f. f\<lparr>hf_users := hf_users f + 1\<rparr>)
           (upd_thread (ht_off t) (\<lambda>t. t\<lparr>ht_funct_list := list_add_after e i (ht_funct_list t)\<rparr>) d))"
proof -
  let ?g = "\<lambda>t. t\<lparr>ht_funct_list := list_add_after e i (ht_funct_list t)\<rparr>"
  let ?ts = "map (\<lambda>u. if ht_off u = ht_off t then ?g u else u) (hd_thread_list d)"
  note dist = data_wf_distinct [OF d]
  have E: "centries ?ts = add_mset e (centries (hd_thread_list d))"
    using centries_upd [OF dist(3) t, of ?g] by (simp add: insertion_add_mset)
  have fw: "functs_wf (hd_comp_list d) (hd_funct_list d) (hd_thread_list d)" using d by (simp add: data_wf_simps)
  have u: "hf_users f = int (ccalls (centries (hd_thread_list d)) (hf_off f))" using fw f by (simp add: functs_wf_entries)
  have "functs_wf (hd_comp_list d) (map (\<lambda>h. if hf_off h = hf_off f then h\<lparr>hf_users := hf_users h + 1\<rparr> else h) (hd_funct_list d)) ?ts"
  proof (rule functs_upd_wf [OF fw dist(2) f])
    show "hf_reentrant f = 0 \<longrightarrow> hf_users (f\<lparr>hf_users := hf_users f + 1\<rparr>) \<le> 1" using re by auto
    show "\<forall>e \<in># centries ?ts. fe_funct_ptr e \<in> hf_off ` set (hd_funct_list d)"
      using fw e f by (auto simp: E functs_wf_entries)
  qed (use u e in \<open>simp_all add: E\<close>)
  then show ?thesis unfolding upd_swap by (intro data_wf_lists [OF d]) simp_all
qed

lemma add_funct_locked_wf:
  assumes d: "data_wf d" and step: "add_funct_locked fn tn position d = Some (r, d')"
  shows "data_wf d'"
proof (cases "d' = d")
  case True
  with d show ?thesis by simp
next
  case False
  note step' = step [unfolded add_funct_locked_def]
  obtain n m where n: "fn = Some n" "tn = Some m" "position \<noteq> 0"
    using step' False by (cases fn; cases tn; cases "position = 0") simp_all
  obtain f where f: "halpr_find_funct_by_name n d = Some f" "\<not> (hf_users f > 0 \<and> hf_reentrant f = 0)"
    using step' False n by (cases "halpr_find_funct_by_name n d") (auto split: if_splits)
  obtain t where t: "halpr_find_thread_by_name m d = Some t" "\<not> (hf_uses_fp f \<noteq> 0 \<and> ht_uses_fp t = 0)"
    using step' False n f by (cases "halpr_find_thread_by_name m d") (auto split: if_splits)
  obtain i where i: "insertion_point (length (ht_funct_list t)) position = Some i"
    using step' False n f t by (cases "insertion_point (length (ht_funct_list t)) position") simp_all
  obtain e d1 where al: "alloc_funct_entry_struct d = Some (e, d1)"
    using step' False n f t i by (cases "alloc_funct_entry_struct d") auto
  have d': "d' = upd_funct (hf_off f) (\<lambda>f. f\<lparr>hf_users := hf_users f + 1\<rparr>)
       (upd_thread (ht_off t) (\<lambda>t. t\<lparr>ht_funct_list := list_add_after
          (e\<lparr>fe_funct_ptr := hf_off f, fe_arg := hf_arg f, fe_funct := hf_funct f\<rparr>) i (ht_funct_list t)\<rparr>) d1)"
    using step' n f t i al by (simp add: Let_def)
  have "mem_wf d1" "same_lists d d1" using alloc_entry_wf [OF _ al] d by (auto simp: data_wf_def)
  then have d1: "data_wf d1" and l: "hd_funct_list d1 = hd_funct_list d" "hd_thread_list d1 = hd_thread_list d"
    using d by (simp_all add: data_wf_def same_lists_def)
  show ?thesis unfolding d' by (rule add_funct_wf [OF d1]) (use f(2) find_funct_in [OF f(1)] find_thread_in [OF t(1)] in \<open>simp_all add: l\<close>)
qed

lemma hal_add_funct_wf:
  assumes "hal_wf d" "hal_add_funct_to_thread fn tn position d = Some (r, d')"
  shows "hal_wf d'"
  using assms locked_wf [OF assms(1) _ add_funct_locked_wf] by (auto simp: hal_add_funct_to_thread_def split: if_splits)

lemma del_funct_wf:
  assumes d: "data_wf d" and f: "f \<in> set (hd_funct_list d)" and t: "t \<in> set (hd_thread_list d)"
    and e: "e \<in> set (ht_funct_list t)" "fe_funct_ptr e = hf_off f"
  shows "data_wf (free_funct_entry_struct e
           (upd_thread (ht_off t) (\<lambda>t. t\<lparr>ht_funct_list := remove1 e (ht_funct_list t)\<rparr>) d))"
proof -
  let ?g = "\<lambda>t. t\<lparr>ht_funct_list := remove1 e (ht_funct_list t)\<rparr>"
  let ?ts = "map (\<lambda>u. if ht_off u = ht_off t then ?g u else u) (hd_thread_list d)"
  note dist = data_wf_distinct [OF d]
  have "centries ?ts + mset (ht_funct_list t) = centries (hd_thread_list d) + (mset (ht_funct_list t) - {#e#})"
    using centries_upd [OF dist(3) t, of ?g] by simp
  moreover obtain M where "mset (ht_funct_list t) = add_mset e M" using e(1) by (metis mset_add set_mset_mset)
  ultimately have E: "centries (hd_thread_list d) = add_mset e (centries ?ts)" by simp
  have fw: "functs_wf (hd_comp_list d) (hd_funct_list d) (hd_thread_list d)" using d by (simp add: data_wf_simps)
  have u: "hf_users f = int (ccalls (centries (hd_thread_list d)) (hf_off f))"
    and r: "hf_reentrant f = 0 \<longrightarrow> hf_users f \<le> 1" using fw f unfolding functs_wf_entries by blast+
  have "functs_wf (hd_comp_list d) (map (\<lambda>h. if hf_off h = hf_off f then h\<lparr>hf_users := hf_users h - 1\<rparr> else h) (hd_funct_list d)) ?ts"
  proof (rule functs_upd_wf [OF fw dist(2) f])
    show "hf_users (f\<lparr>hf_users := hf_users f - 1\<rparr>) = int (ccalls (centries ?ts) (hf_off f))" using u e(2) by (simp add: E)
    show "ccalls (centries ?ts) off = ccalls (centries (hd_thread_list d)) off" if "off \<noteq> hf_off f" for off
      using e(2) that by (simp add: E)
    show "\<forall>e \<in># centries ?ts. fe_funct_ptr e \<in> hf_off ` set (hd_funct_list d)"
      using fw by (simp add: E functs_wf_entries)
  qed (use r in auto)
  moreover have "0 < fe_funct_ptr e" using dist(4) f e(2) by simp
  then have "free_funct_entry_struct e (upd_thread (ht_off t) ?g d) =
      d\<lparr>hd_funct_list := map (\<lambda>h. if hf_off h = hf_off f then h\<lparr>hf_users := hf_users h - 1\<rparr> else h) (hd_funct_list d),
        hd_thread_list := ?ts, hd_funct_entry_free := entry_reset e # hd_funct_entry_free d\<rparr>"
    by (simp add: free_funct_entry_struct_def upd_swap e(2))
  ultimately show ?thesis by (simp add: data_wf_lists [OF d])
qed

lemma del_funct_locked_wf:
  assumes d: "data_wf d" and step: "del_funct_locked fn tn d = Some (r, d')"
  shows "data_wf d'"
proof (cases "d' = d")
  case True
  with d show ?thesis by simp
next
  case False
  note step' = step [unfolded del_funct_locked_def]
  obtain n m where n: "fn = Some n" "tn = Some m" using step' False by (cases fn; cases tn) simp_all
  obtain f where f: "halpr_find_funct_by_name n d = Some f" "hf_users f \<noteq> 0"
    using step' False n by (cases "halpr_find_funct_by_name n d") (auto split: if_splits)
  obtain t where t: "halpr_find_thread_by_name m d = Some t"
    using step' False n f by (cases "halpr_find_thread_by_name m d") simp_all
  obtain e where e: "find (\<lambda>e. fe_funct_ptr e = hf_off f) (ht_funct_list t) = Some e"
    using step' False n f t by (cases "find (\<lambda>e. fe_funct_ptr e = hf_off f) (ht_funct_list t)") simp_all
  have d': "d' = free_funct_entry_struct e
       (upd_thread (ht_off t) (\<lambda>t. t\<lparr>ht_funct_list := remove1 e (ht_funct_list t)\<rparr>) d)"
    using step' n f t e by simp
  from e have "e \<in> set (ht_funct_list t)" "fe_funct_ptr e = hf_off f" by (auto simp: find_Some_iff)
  from del_funct_wf [OF d find_funct_in [OF f(1)] find_thread_in [OF t] this] show ?thesis by (simp add: d')
qed

lemma hal_del_funct_wf:
  assumes "hal_wf d" "hal_del_funct_from_thread fn tn d = Some (r, d')"
  shows "hal_wf d'"
  using assms locked_wf [OF assms(1) _ del_funct_locked_wf] by (auto simp: hal_del_funct_from_thread_def split: if_splits)

end
