(* ===== verification/HalLife.thy ===== *)
theory HalLife
  imports HalFuncts
begin

text \<open>
  The ends of things: a component that exits takes its functions, their entries in every thread and its
  parameters along, and a thread that is deleted gives its entries back. What is left is consistent
  again.
\<close>

section \<open>Giving entries back\<close>

lemma free_entries:
  "\<forall>e \<in> set es. 0 < fe_funct_ptr e \<Longrightarrow>
   fold free_funct_entry_struct es d =
     d\<lparr>hd_funct_list := map (\<lambda>f. f\<lparr>hf_users := hf_users f - int (ccalls (mset es) (hf_off f))\<rparr>) (hd_funct_list d),
       hd_funct_entry_free := rev (map entry_reset es) @ hd_funct_entry_free d\<rparr>"
proof (induction es arbitrary: d)
  case Nil
  then show ?case by simp
next
  case (Cons e es)
  then have "fold free_funct_entry_struct (e # es) d = fold free_funct_entry_struct es
      (d\<lparr>hd_funct_list := map (\<lambda>f. if hf_off f = fe_funct_ptr e then f\<lparr>hf_users := hf_users f - 1\<rparr> else f) (hd_funct_list d),
         hd_funct_entry_free := entry_reset e # hd_funct_entry_free d\<rparr>)"
    by (simp add: free_funct_entry_struct_def upd_funct_def)
  also have "\<dots> = d\<lparr>hd_funct_list := map (\<lambda>f. f\<lparr>hf_users := hf_users f - int (ccalls (mset (e # es)) (hf_off f))\<rparr>) (hd_funct_list d),
       hd_funct_entry_free := rev (map entry_reset (e # es)) @ hd_funct_entry_free d\<rparr>"
    using Cons by (subst Cons.IH) auto
  finally show ?case .
qed

section \<open>Functions that go\<close>

definition dropped :: "int list \<Rightarrow> hal_data \<Rightarrow> hal_data \<Rightarrow> bool" where
  "dropped offs d d' \<longleftrightarrow> hd_comp_list d' = hd_comp_list d \<and> hd_funct_list d' = hd_funct_list d \<and>
     hd_param_list d' = hd_param_list d \<and> hd_pin_list d' = hd_pin_list d \<and> hd_mutex d' = hd_mutex d \<and>
     hd_shmem_bot d' = hd_shmem_bot d \<and> hd_shmem_top d' = hd_shmem_top d \<and>
     hd_comp_free d' = hd_comp_free d \<and> thread_offs d' = thread_offs d \<and>
     centries (hd_thread_list d') = filter_mset (\<lambda>e. fe_funct_ptr e \<notin> set offs) (centries (hd_thread_list d)) \<and>
     map hf_off (hd_funct_free d') = rev offs @ map hf_off (hd_funct_free d)"

lemma dropped_Nil: "dropped [] d d"
  by (simp add: dropped_def)

lemma dropped_trans: "dropped xs d d1 \<Longrightarrow> dropped ys d1 d2 \<Longrightarrow> dropped (xs @ ys) d d2"
  by (auto simp: dropped_def multiset_eq_iff)

lemma ccalls_filter: "ccalls (filter_mset (\<lambda>e. fe_funct_ptr e \<notin> A) E) off = (if off \<in> A then 0 else ccalls E off)"
  by (induction E) auto

lemma centries_filter:
  "centries (map (\<lambda>t. t\<lparr>ht_funct_list := filter P (ht_funct_list t)\<rparr>) ts) = filter_mset P (centries ts)"
  by (induction ts) (simp_all add: centries_def entries_def)

lemma filter_none: "filter_mset P M = M \<longleftrightarrow> (\<forall>x \<in># M. P x)"
  by (metis filter_mset_cong filter_mset_True set_mset_filter mem_Collect_eq)

lemma free_funct_dropped:
  assumes new: "hf_off f \<notin> hf_off ` set (hd_funct_list d)" and pos: "0 < hf_off f"
    and users: "\<not> hf_users f > 0 \<Longrightarrow> ccalls (centries (hd_thread_list d)) (hf_off f) = 0"
  shows "dropped [hf_off f] d (free_funct_struct f d)"
proof (cases "hf_users f > 0")
  case False
  with users have "\<forall>e \<in># centries (hd_thread_list d). fe_funct_ptr e \<noteq> hf_off f"
    by (auto simp: ccalls_def)
  then have "filter_mset (\<lambda>e. fe_funct_ptr e \<noteq> hf_off f) (centries (hd_thread_list d)) = centries (hd_thread_list d)"
    by (simp add: filter_none)
  with False show ?thesis
    by (simp add: dropped_def free_funct_struct_def store_cell_def thread_offs_def funct_reset_def)
next
  case True
  let ?calls = "\<lambda>e. fe_funct_ptr e = hf_off f"
  define gone where "gone = concat (map (\<lambda>t. filter ?calls (ht_funct_list t)) (hd_thread_list d))"
  have gone: "\<forall>e \<in> set gone. ?calls e" by (auto simp: gone_def)
  have "ccalls (mset gone) (hf_off h) = 0" if "h \<in> set (hd_funct_list d)" for h
    using gone new that by (intro ccalls_zero) (metis image_eqI set_mset_mset)
  then have keep: "map (\<lambda>f. f\<lparr>hf_users := hf_users f - int (ccalls (mset gone) (hf_off f))\<rparr>) (hd_funct_list d) = hd_funct_list d"
    by (simp add: map_idI)
  have "unlink_funct f d = fold free_funct_entry_struct gone
      (d\<lparr>hd_thread_list := map (\<lambda>t. t\<lparr>ht_funct_list := filter (\<lambda>e. \<not> ?calls e) (ht_funct_list t)\<rparr>) (hd_thread_list d)\<rparr>)"
    by (simp add: unlink_funct_def Let_def gone_def)
  also have "\<dots> = d\<lparr>hd_thread_list := map (\<lambda>t. t\<lparr>ht_funct_list := filter (\<lambda>e. \<not> ?calls e) (ht_funct_list t)\<rparr>) (hd_thread_list d),
       hd_funct_entry_free := rev (map entry_reset gone) @ hd_funct_entry_free d\<rparr>"
    using gone pos by (subst free_entries) (simp_all add: keep)
  finally show ?thesis using True
    by (simp add: dropped_def free_funct_struct_def store_cell_def thread_offs_def funct_reset_def centries_filter)
qed

lemma free_functs_dropped:
  assumes "\<And>f. f \<in> set fs \<Longrightarrow> hf_off f \<notin> hf_off ` set (hd_funct_list d) \<and> 0 < hf_off f"
    "\<And>f. f \<in> set fs \<Longrightarrow> \<not> hf_users f > 0 \<Longrightarrow> ccalls (centries (hd_thread_list d)) (hf_off f) = 0"
  shows "dropped (map hf_off fs) d (fold free_funct_struct fs d)"
  using assms
proof (induction fs arbitrary: d)
  case Nil
  then show ?case by (simp add: dropped_Nil)
next
  case (Cons f fs)
  have one: "dropped [hf_off f] d (free_funct_struct f d)"
    using Cons.prems(1) [of f] Cons.prems(2) [of f] by (intro free_funct_dropped) auto
  then have l: "hd_funct_list (free_funct_struct f d) = hd_funct_list d"
    and E: "centries (hd_thread_list (free_funct_struct f d)) =
      filter_mset (\<lambda>e. fe_funct_ptr e \<notin> set [hf_off f]) (centries (hd_thread_list d))"
    by (auto simp only: dropped_def)
  have "dropped (map hf_off fs) (free_funct_struct f d) (fold free_funct_struct fs (free_funct_struct f d))"
  proof (rule Cons.IH)
    fix h assume h: "h \<in> set fs"
    then show "hf_off h \<notin> hf_off ` set (hd_funct_list (free_funct_struct f d)) \<and> 0 < hf_off h"
      using Cons.prems(1) [of h] by (simp add: l)
    show "ccalls (centries (hd_thread_list (free_funct_struct f d))) (hf_off h) = 0" if "\<not> hf_users h > 0"
      unfolding E ccalls_filter using Cons.prems(2) [of h] h that by simp
  qed
  from dropped_trans [OF one this] show ?case by simp
qed

lemma free_params:
  "fold free_param_struct ps d = d\<lparr>hd_param_free := rev (map param_reset ps) @ hd_param_free d\<rparr>"
  by (induction ps arbitrary: d) (simp_all add: free_param_struct_def)

lemma params_gone:
  "(let d2 = fold free_param_struct ps (d\<lparr>hd_param_list := qs\<rparr>) in d2\<lparr>hd_comp_free := cs # hd_comp_free d2\<rparr>) =
   d\<lparr>hd_param_list := qs, hd_param_free := rev (map param_reset ps) @ hd_param_free d, hd_comp_free := cs # hd_comp_free d\<rparr>"
  by (simp add: free_params)

section \<open>The exit of a component\<close>

lemma in_remove1: "x \<in> set xs \<Longrightarrow> x \<noteq> y \<Longrightarrow> x \<in> set (remove1 y xs)"
  by simp

lemma functs_wf_without:
  assumes wf: "functs_wf cs fs ts" and dist: "distinct (map hf_off fs)" and off: "\<forall>x \<in> set cs. x \<noteq> c \<longrightarrow> x \<in> set cs'"
    and E: "centries ts' = filter_mset (\<lambda>e. fe_funct_ptr e \<notin> hf_off ` set (filter (\<lambda>f. hf_owner f = hc_off c) fs)) (centries ts)"
  shows "functs_wf cs' (filter (\<lambda>f. hf_owner f \<noteq> hc_off c) fs) ts'"
proof -
  let ?fs = "filter (\<lambda>f. hf_owner f \<noteq> hc_off c) fs" and ?own = "hf_off ` set (filter (\<lambda>f. hf_owner f = hc_off c) fs)"
  have apart: "hf_off f \<notin> ?own" if "f \<in> set ?fs" for f
    using dist that by (auto simp: distinct_map dest: inj_onD)
  have u: "hf_users f = int (ccalls (centries ts') (hf_off f)) \<and> (hf_reentrant f = 0 \<longrightarrow> hf_users f \<le> 1)"
    if "f \<in> set ?fs" for f
    using functs_wf_users [OF wf, of f] apart [OF that] that unfolding E ccalls_filter by auto
  have "named_sorted hf_name ?fs" using wf by (simp add: functs_wf_entries named_sorted_filter)
  moreover have "\<forall>f \<in> set ?fs. hf_owner f \<in> hc_off ` set cs'"
  proof
    fix f assume f: "f \<in> set ?fs"
    then have "hf_owner f \<in> hc_off ` set cs" using wf by (auto simp: functs_wf_entries)
    then obtain x where "x \<in> set cs" "hf_owner f = hc_off x" by auto
    moreover with f have "x \<noteq> c" by auto
    ultimately show "hf_owner f \<in> hc_off ` set cs'" using off by simp
  qed
  moreover have "\<forall>e \<in># centries ts'. fe_funct_ptr e \<in> hf_off ` set ?fs"
  proof
    fix e assume "e \<in># centries ts'"
    then have e: "e \<in># centries ts" "fe_funct_ptr e \<notin> ?own" by (auto simp: E)
    then have "fe_funct_ptr e \<in> hf_off ` set fs" using wf by (simp add: functs_wf_entries)
    then obtain f where "f \<in> set fs" "fe_funct_ptr e = hf_off f" by auto
    moreover with e(2) have "f \<in> set ?fs" by auto
    ultimately show "fe_funct_ptr e \<in> hf_off ` set ?fs" by blast
  qed
  moreover have "\<forall>f \<in> set ?fs. hf_users f = int (ccalls (centries ts') (hf_off f))" using u by blast
  moreover have "\<forall>f \<in> set ?fs. hf_reentrant f = 0 \<longrightarrow> hf_users f \<le> 1" using u by blast
  ultimately show ?thesis unfolding functs_wf_entries by (intro conjI)
qed

lemma mset_map_split:
  "mset (map f xs) = mset (map f (filter (\<lambda>x. \<not> P x) xs)) + mset (map f (filter P xs))"
  by (induction xs) auto

lemma mset_map_remove1: "x \<in> set xs \<Longrightarrow> mset (map f xs) = add_mset (f x) (mset (map f (remove1 x xs)))"
  by (induction xs) auto

text \<open>What the exit of a component leaves: the state \<open>d1\<close> is that after its functions have gone.\<close>

lemma free_comp_effect:
  assumes d: "data_wf d"
  obtains d1 where "hd_comp_list d1 = remove1 c (hd_comp_list d)" "hd_funct_list d1 = filter (\<lambda>f. hf_owner f \<noteq> hc_off c) (hd_funct_list d)"
    "hd_param_list d1 = hd_param_list d" "hd_pin_list d1 = hd_pin_list d" "hd_mutex d1 = hd_mutex d"
    "hd_shmem_bot d1 = hd_shmem_bot d" "hd_shmem_top d1 = hd_shmem_top d" "hd_comp_free d1 = hd_comp_free d"
    "thread_offs d1 = thread_offs d"
    "map hf_off (hd_funct_free d1) = rev (map hf_off (filter (\<lambda>f. hf_owner f = hc_off c) (hd_funct_list d))) @ map hf_off (hd_funct_free d)"
    "centries (hd_thread_list d1) =
       filter_mset (\<lambda>e. fe_funct_ptr e \<notin> hf_off ` set (filter (\<lambda>f. hf_owner f = hc_off c) (hd_funct_list d))) (centries (hd_thread_list d))"
    "free_comp_struct c (d\<lparr>hd_comp_list := remove1 c (hd_comp_list d)\<rparr>) =
       d1\<lparr>hd_param_list := filter (\<lambda>p. hp_owner p \<noteq> hc_off c) (hd_param_list d),
          hd_param_free := rev (map param_reset (filter (\<lambda>p. hp_owner p = hc_off c) (hd_param_list d))) @ hd_param_free d1,
          hd_comp_free := comp_reset c # hd_comp_free d\<rparr>"
proof -
  let ?own = "filter (\<lambda>f. hf_owner f = hc_off c) (hd_funct_list d)"
  let ?fs = "filter (\<lambda>f. hf_owner f \<noteq> hc_off c) (hd_funct_list d)"
  define d0 where "d0 = d\<lparr>hd_comp_list := remove1 c (hd_comp_list d), hd_funct_list := ?fs\<rparr>"
  define d1 where "d1 = fold free_funct_struct ?own d0"
  note dist = data_wf_distinct [OF d]
  have fw: "functs_wf (hd_comp_list d) (hd_funct_list d) (hd_thread_list d)" using d by (simp add: data_wf_simps)
  have "dropped (map hf_off ?own) d0 d1"
    unfolding d1_def
  proof (rule free_functs_dropped)
    fix f assume f: "f \<in> set ?own"
    then show "hf_off f \<notin> hf_off ` set (hd_funct_list d0) \<and> 0 < hf_off f"
      using dist(2,4) by (auto simp: d0_def distinct_map dest: inj_onD)
    show "ccalls (centries (hd_thread_list d0)) (hf_off f) = 0" if "\<not> hf_users f > 0"
      using functs_wf_users(1) [OF fw, of f] f that by (simp add: d0_def)
  qed
  then have d1: "hd_comp_list d1 = remove1 c (hd_comp_list d)" "hd_funct_list d1 = ?fs"
    "hd_param_list d1 = hd_param_list d" "hd_pin_list d1 = hd_pin_list d" "hd_mutex d1 = hd_mutex d"
    "hd_shmem_bot d1 = hd_shmem_bot d" "hd_shmem_top d1 = hd_shmem_top d" "hd_comp_free d1 = hd_comp_free d"
    "thread_offs d1 = thread_offs d" "map hf_off (hd_funct_free d1) = rev (map hf_off ?own) @ map hf_off (hd_funct_free d)"
    and E: "centries (hd_thread_list d1) = filter_mset (\<lambda>e. fe_funct_ptr e \<notin> hf_off ` set ?own) (centries (hd_thread_list d))"
    unfolding dropped_def by (simp_all add: d0_def thread_offs_def)
  have out: "free_comp_struct c (d\<lparr>hd_comp_list := remove1 c (hd_comp_list d)\<rparr>) =
      d1\<lparr>hd_param_list := filter (\<lambda>p. hp_owner p \<noteq> hc_off c) (hd_param_list d), hd_param_free := rev (map param_reset (filter (\<lambda>p. hp_owner p = hc_off c) (hd_param_list d))) @ hd_param_free d1,
         hd_comp_free := comp_reset c # hd_comp_free d\<rparr>" (is "?l = ?d2")
  proof -
    have "(d\<lparr>hd_comp_list := remove1 c (hd_comp_list d)\<rparr>)\<lparr>hd_funct_list := ?fs\<rparr> = d0" by (simp add: d0_def)
    moreover have "hd_funct_list (d\<lparr>hd_comp_list := remove1 c (hd_comp_list d)\<rparr>) = hd_funct_list d" by simp
    ultimately have "?l = (let d2 = fold free_param_struct (filter (\<lambda>p. hp_owner p = hc_off c) (hd_param_list d1))
        (d1\<lparr>hd_param_list := filter (\<lambda>p. hp_owner p \<noteq> hc_off c) (hd_param_list d1)\<rparr>) in
      d2\<lparr>hd_comp_free := comp_reset c # hd_comp_free d2\<rparr>)"
      by (simp only: free_comp_struct_def Let_def d1_def)
    also have "\<dots> = ?d2" unfolding params_gone d1(3,8) ..
    finally show ?thesis .
  qed
  show thesis by (rule that [OF d1 E out])
qed

lemma free_comp_lists:
  assumes "data_wf d"
  shows "hd_pin_list (free_comp_struct c (d\<lparr>hd_comp_list := remove1 c (hd_comp_list d)\<rparr>)) = hd_pin_list d \<and>
    hd_comp_list (free_comp_struct c (d\<lparr>hd_comp_list := remove1 c (hd_comp_list d)\<rparr>)) = remove1 c (hd_comp_list d) \<and>
    hd_funct_list (free_comp_struct c (d\<lparr>hd_comp_list := remove1 c (hd_comp_list d)\<rparr>)) =
      filter (\<lambda>f. hf_owner f \<noteq> hc_off c) (hd_funct_list d) \<and>
    hd_param_list (free_comp_struct c (d\<lparr>hd_comp_list := remove1 c (hd_comp_list d)\<rparr>)) =
      filter (\<lambda>p. hp_owner p \<noteq> hc_off c) (hd_param_list d)"
proof -
  obtain d1 where e: "hd_comp_list d1 = remove1 c (hd_comp_list d)" "hd_pin_list d1 = hd_pin_list d"
    "hd_funct_list d1 = filter (\<lambda>f. hf_owner f \<noteq> hc_off c) (hd_funct_list d)"
    and out: "free_comp_struct c (d\<lparr>hd_comp_list := remove1 c (hd_comp_list d)\<rparr>) =
       d1\<lparr>hd_param_list := filter (\<lambda>p. hp_owner p \<noteq> hc_off c) (hd_param_list d),
          hd_param_free := rev (map param_reset (filter (\<lambda>p. hp_owner p = hc_off c) (hd_param_list d))) @ hd_param_free d1,
          hd_comp_free := comp_reset c # hd_comp_free d\<rparr>"
    by (rule free_comp_effect [OF assms])
  show ?thesis unfolding out using e by simp
qed

lemma free_comp_wf:
  assumes d: "data_wf d" and c: "c \<in> set (hd_comp_list d)"
  shows "data_wf (free_comp_struct c (d\<lparr>hd_comp_list := remove1 c (hd_comp_list d)\<rparr>))"
proof -
  let ?own = "filter (\<lambda>f. hf_owner f = hc_off c) (hd_funct_list d)"
  let ?fs = "filter (\<lambda>f. hf_owner f \<noteq> hc_off c) (hd_funct_list d)"
  define ps where "ps = filter (\<lambda>p. hp_owner p \<noteq> hc_off c) (hd_param_list d)"
  note dist = data_wf_distinct [OF d]
  have fw: "functs_wf (hd_comp_list d) (hd_funct_list d) (hd_thread_list d)" using d by (simp add: data_wf_simps)
  obtain d1 where d1: "hd_comp_list d1 = remove1 c (hd_comp_list d)" "hd_funct_list d1 = ?fs"
    "hd_param_list d1 = hd_param_list d" "hd_pin_list d1 = hd_pin_list d" "hd_mutex d1 = hd_mutex d"
    "hd_shmem_bot d1 = hd_shmem_bot d" "hd_shmem_top d1 = hd_shmem_top d" "hd_comp_free d1 = hd_comp_free d"
    "thread_offs d1 = thread_offs d"
    "map hf_off (hd_funct_free d1) = rev (map hf_off ?own) @ map hf_off (hd_funct_free d)"
    and E: "centries (hd_thread_list d1) = filter_mset (\<lambda>e. fe_funct_ptr e \<notin> hf_off ` set ?own) (centries (hd_thread_list d))"
    and out: "free_comp_struct c (d\<lparr>hd_comp_list := remove1 c (hd_comp_list d)\<rparr>) =
      d1\<lparr>hd_param_list := ps, hd_param_free := rev (map param_reset (filter (\<lambda>p. hp_owner p = hc_off c) (hd_param_list d))) @ hd_param_free d1,
         hd_comp_free := comp_reset c # hd_comp_free d\<rparr>" (is "_ = ?d2")
    unfolding ps_def by (rule free_comp_effect [OF d])
  have "functs_wf (remove1 c (hd_comp_list d)) ?fs (hd_thread_list d1)"
    by (rule functs_wf_without [OF fw dist(2) _ E]) simp
  moreover have "arena (comp_offs ?d2) (hd_shmem_top d)"
  proof -
    have "mset (map hc_off (hd_comp_list d)) = add_mset (hc_off c) (mset (map hc_off (remove1 c (hd_comp_list d))))"
      by (rule mset_map_remove1 [OF c])
    moreover have "comp_offs ?d2 = map hc_off (remove1 c (hd_comp_list d)) @ hc_off c # map hc_off (hd_comp_free d)"
      by (simp add: comp_offs_def d1 comp_reset_def)
    ultimately have "mset (comp_offs ?d2) = mset (comp_offs d)" unfolding comp_offs_def mset_append by simp
    then have "arena (comp_offs ?d2) (hd_shmem_top d) = arena (comp_offs d) (hd_shmem_top d)" by (rule arena_mset)
    with d show ?thesis by (simp add: data_wf_simps)
  qed
  moreover have "arena (funct_offs ?d2) (hd_shmem_top d)"
  proof -
    have "mset (map hf_off (hd_funct_list d)) = mset (map hf_off ?fs) + mset (map hf_off ?own)"
      by (rule mset_map_split)
    moreover have "funct_offs ?d2 = map hf_off ?fs @ rev (map hf_off ?own) @ map hf_off (hd_funct_free d)"
      by (simp add: funct_offs_def d1)
    ultimately have "mset (funct_offs ?d2) = mset (funct_offs d)"
      by (simp only: funct_offs_def [of d] mset_append mset_rev ac_simps)
    then have "arena (funct_offs ?d2) (hd_shmem_top d) = arena (funct_offs d) (hd_shmem_top d)" by (rule arena_mset)
    with d show ?thesis by (simp add: data_wf_simps)
  qed
  moreover have "\<forall>p \<in> set ps. hp_owner p \<in> hc_off ` set (remove1 c (hd_comp_list d))"
  proof
    fix p assume p: "p \<in> set ps"
    then have "hp_owner p \<in> hc_off ` set (hd_comp_list d)" using d by (simp add: data_wf_simps ps_def)
    then obtain x where "x \<in> set (hd_comp_list d)" "hp_owner p = hc_off x" by auto
    moreover with p have "x \<noteq> c" by (auto simp: ps_def)
    ultimately show "hp_owner p \<in> hc_off ` set (remove1 c (hd_comp_list d))" by (simp add: in_remove1)
  qed
  moreover have "named_sorted hp_name ps" using d by (simp add: ps_def data_wf_simps named_sorted_filter)
  moreover have "thread_offs ?d2 = thread_offs d" using d1 by (simp add: thread_offs_def)
  ultimately show ?thesis unfolding out using d d1 by (simp add: data_wf_simps shm_ok_def)
qed

section \<open>The end of a thread\<close>

lemma functs_wf_less:
  assumes wf: "functs_wf cs fs (t # ts)"
  shows "functs_wf cs (map (\<lambda>f. f\<lparr>hf_users := hf_users f - int (ccalls (mset (ht_funct_list t)) (hf_off f))\<rparr>) fs) ts"
proof -
  let ?g = "\<lambda>f. f\<lparr>hf_users := hf_users f - int (ccalls (mset (ht_funct_list t)) (hf_off f))\<rparr>"
  have E: "centries (t # ts) = mset (ht_funct_list t) + centries ts" by (simp add: centries_def entries_def)
  have m: "map hf_off (map ?g fs) = map hf_off fs" by simp
  then have offs: "hf_off ` set (map ?g fs) = hf_off ` set fs" by (metis image_set)
  have u: "hf_users h = int (ccalls (centries ts) (hf_off h)) \<and> (hf_reentrant h = 0 \<longrightarrow> hf_users h \<le> 1)"
    if "h \<in> set (map ?g fs)" for h
  proof -
    from that obtain f where f: "f \<in> set fs" "h = ?g f" by auto
    from functs_wf_users [OF wf f(1)] f(2) show ?thesis by (auto simp: E)
  qed
  have "named_sorted hf_name (map ?g fs)" using wf by (subst named_sorted_map) (auto simp: functs_wf_entries)
  moreover have "\<forall>f \<in> set (map ?g fs). hf_owner f \<in> hc_off ` set cs" using wf by (auto simp: functs_wf_entries)
  moreover have "\<forall>e \<in># centries ts. fe_funct_ptr e \<in> hf_off ` set (map ?g fs)"
    using wf unfolding offs by (simp add: functs_wf_entries E)
  moreover have "\<forall>f \<in> set (map ?g fs). hf_users f = int (ccalls (centries ts) (hf_off f))" using u by blast
  moreover have "\<forall>f \<in> set (map ?g fs). hf_reentrant f = 0 \<longrightarrow> hf_users f \<le> 1" using u by blast
  ultimately show ?thesis unfolding functs_wf_entries by (intro conjI)
qed

lemma free_thread_wf:
  assumes d: "data_wf ((hs_seg s)\<lparr>hd_thread_list := t # ts\<rparr>)"
  shows "data_wf ((hs_seg (free_thread_struct t s))\<lparr>hd_thread_list := ts\<rparr>)"
proof -
  let ?d = "hs_seg s"
  have pos: "\<forall>e \<in> set (ht_funct_list t). 0 < fe_funct_ptr e"
  proof
    fix e assume "e \<in> set (ht_funct_list t)"
    then have "fe_funct_ptr e \<in> hf_off ` set (hd_funct_list ?d)"
      using d by (simp add: data_wf_simps functs_wf_def entries_def)
    then show "0 < fe_funct_ptr e" using data_wf_distinct(4) [OF d] by auto
  qed
  let ?es = "ht_funct_list t"
  have out: "(hs_seg (free_thread_struct t s))\<lparr>hd_thread_list := ts\<rparr> =
      ?d\<lparr>hd_threads_running := 0, hd_thread_list := ts,
         hd_funct_list := map (\<lambda>f. f\<lparr>hf_users := hf_users f - int (ccalls (mset ?es) (hf_off f))\<rparr>) (hd_funct_list ?d),
         hd_funct_entry_free := rev (map entry_reset ?es) @ hd_funct_entry_free ?d,
         hd_thread_free := thread_reset t # hd_thread_free ?d\<rparr>" (is "_ = ?d'")
    by (simp add: free_thread_struct_def upd_seg_def free_entries [OF pos])
  have "functs_wf (hd_comp_list ?d) (hd_funct_list ?d) (t # ts)" using d by (simp add: data_wf_simps)
  note functs_wf_less [OF this]
  moreover have "mset (thread_offs ?d') = mset (thread_offs (?d\<lparr>hd_thread_list := t # ts\<rparr>))"
    by (simp add: thread_offs_def thread_reset_def)
  then have "arena (thread_offs ?d') (hd_shmem_top ?d) = arena (thread_offs (?d\<lparr>hd_thread_list := t # ts\<rparr>)) (hd_shmem_top ?d)"
    by (rule arena_mset)
  then have "arena (thread_offs ?d') (hd_shmem_top ?d)" using d by (simp add: data_wf_simps)
  moreover have "funct_offs ?d' = funct_offs ?d" by (simp add: funct_offs_def)
  ultimately show ?thesis unfolding out
    using d by (simp add: data_wf_simps comp_offs_def funct_offs_def shm_ok_def o_def)
qed

lemma free_thread_lists:
  "hd_thread_list (hs_seg (free_thread_struct t s)) = hd_thread_list (hs_seg s) \<and>
   hd_mutex (hs_seg (free_thread_struct t s)) = hd_mutex (hs_seg s) \<and>
   hd_pin_list (hs_seg (free_thread_struct t s)) = hd_pin_list (hs_seg s)"
proof -
  have "hd_thread_list (fold free_funct_entry_struct es d) = hd_thread_list d \<and>
      hd_mutex (fold free_funct_entry_struct es d) = hd_mutex d \<and>
      hd_pin_list (fold free_funct_entry_struct es d) = hd_pin_list d" for es d
    by (induction es arbitrary: d) (simp_all add: free_funct_entry_struct_def upd_funct_def Let_def)
  then show ?thesis by (simp add: free_thread_struct_def upd_seg_def Let_def)
qed

lemma data_wf_perm:
  assumes "data_wf (d\<lparr>hd_thread_list := ts\<rparr>)" "mset ts = mset ts'"
  shows "data_wf (d\<lparr>hd_thread_list := ts'\<rparr>)"
proof -
  have "mset (entries ts) = mset (entries ts')"
  proof -
    have "mset (entries xs) = \<Sum>\<^sub># (image_mset (\<lambda>t. mset (ht_funct_list t)) (mset xs))" for xs
      by (induction xs) (simp_all add: entries_def)
    with assms(2) show ?thesis by simp
  qed
  then have "functs_wf cs fs ts \<longleftrightarrow> functs_wf cs fs ts'" for cs fs
    by (intro functs_wf_mset) (simp add: centries_def)
  moreover have "arena (map ht_off ts @ fs) lb \<longleftrightarrow> arena (map ht_off ts' @ fs) lb" for fs lb
    using assms(2) by (intro arena_mset) simp
  ultimately show ?thesis using assms(1) by (simp add: data_wf_simps offs_defs shm_ok_def)
qed

lemma free_threads_wf:
  "data_wf ((hs_seg s)\<lparr>hd_thread_list := ts @ us\<rparr>) \<Longrightarrow>
   data_wf ((hs_seg (fold free_thread_struct ts s))\<lparr>hd_thread_list := us\<rparr>)"
proof (induction ts arbitrary: s)
  case (Cons t ts)
  from free_thread_wf [where s = s and t = t and ts = "ts @ us"] Cons show ?case by simp
qed simp

lemma free_threads_lists:
  "hd_thread_list (hs_seg (fold free_thread_struct ts s)) = hd_thread_list (hs_seg s) \<and>
   hd_mutex (hs_seg (fold free_thread_struct ts s)) = hd_mutex (hs_seg s) \<and>
   hd_pin_list (hs_seg (fold free_thread_struct ts s)) = hd_pin_list (hs_seg s)"
  by (induction ts arbitrary: s) (simp_all add: free_thread_lists)

end
