(* ===== verification/HalInv.thy ===== *)
theory HalInv
  imports HalLife
begin

text \<open>
  Every call of the library keeps the lists consistent: a step relation over the calls, the invariant
  by rule induction, and what it means for names, usage counts and functions that are not
  reentrant.
\<close>

section \<open>The remaining operations\<close>

lemma functs_wf_map:
  assumes "functs_wf cs fs ts" "\<And>h. hf_name (g h) = hf_name h \<and> hf_owner (g h) = hf_owner h \<and> hf_off (g h) = hf_off h \<and>
    hf_reentrant (g h) = hf_reentrant h \<and> hf_users (g h) = hf_users h"
  shows "functs_wf cs (map g fs) ts"
proof -
  have "map hf_off (map g fs) = map hf_off fs" using assms(2) by simp
  then have "hf_off ` set (map g fs) = hf_off ` set fs" by (metis image_set)
  then have "\<forall>e \<in># centries ts. fe_funct_ptr e \<in> hf_off ` set (map g fs)"
    using assms(1) by (simp add: functs_wf_entries)
  moreover have "named_sorted hf_name (map g fs)"
    using assms by (subst named_sorted_map) (auto simp: functs_wf_entries)
  moreover have "hf_owner h \<in> hc_off ` set cs \<and> hf_users h = int (ccalls (centries ts) (hf_off h)) \<and>
      (hf_reentrant h = 0 \<longrightarrow> hf_users h \<le> 1)" if "h \<in> set (map g fs)" for h
  proof -
    from that obtain f where f: "f \<in> set fs" "h = g f" by auto
    have "hf_owner f \<in> hc_off ` set cs" using assms(1) f(1) by (simp add: functs_wf_entries)
    with f(2) functs_wf_users [OF assms(1) f(1)] assms(2) [of f] show ?thesis by auto
  qed
  ultimately show ?thesis unfolding functs_wf_entries by blast
qed

lemma data_wf_upd_funct:
  assumes "data_wf d" "\<And>h. hf_name (g h) = hf_name h \<and> hf_owner (g h) = hf_owner h \<and> hf_off (g h) = hf_off h \<and>
    hf_reentrant (g h) = hf_reentrant h \<and> hf_users (g h) = hf_users h"
  shows "data_wf (upd_funct off g d)"
proof -
  have "functs_wf (hd_comp_list d) (map (\<lambda>f. if hf_off f = off then g f else f) (hd_funct_list d)) (hd_thread_list d)"
    using assms by (intro functs_wf_map) (simp_all add: data_wf_simps)
  moreover have "map hf_off (map (\<lambda>f. if hf_off f = off then g f else f) (hd_funct_list d)) = map hf_off (hd_funct_list d)"
    using assms(2) by simp
  ultimately have "data_wf (d\<lparr>hd_funct_list := map (\<lambda>f. if hf_off f = off then g f else f) (hd_funct_list d),
      hd_thread_list := hd_thread_list d, hd_funct_entry_free := hd_funct_entry_free d\<rparr>)"
    by (intro data_wf_lists [OF assms(1)]) simp_all
  then show ?thesis by (simp add: upd_funct_def)
qed

lemma data_wf_upd_thread:
  assumes "data_wf d" "\<And>t. ht_off (g t) = ht_off t \<and> ht_funct_list (g t) = ht_funct_list t"
  shows "data_wf (upd_thread off g d)"
proof -
  let ?ts = "map (\<lambda>t. if ht_off t = off then g t else t) (hd_thread_list d)"
  have "centries ?ts = centries (hd_thread_list d)" using assms(2) by (intro centries_same) simp
  then have "functs_wf (hd_comp_list d) (hd_funct_list d) ?ts"
    using assms(1) functs_wf_mset by (metis data_wf_simps)
  moreover have "map ht_off ?ts = map ht_off (hd_thread_list d)" using assms(2) by simp
  ultimately have "data_wf (d\<lparr>hd_funct_list := hd_funct_list d, hd_thread_list := ?ts,
      hd_funct_entry_free := hd_funct_entry_free d\<rparr>)" by (intro data_wf_lists [OF assms(1)]) simp_all
  then show ?thesis by (simp add: upd_thread_def)
qed

lemma hal_wf_upd_funct:
  assumes "hal_wf d" "\<And>h. hf_name (g h) = hf_name h \<and> hf_owner (g h) = hf_owner h \<and> hf_off (g h) = hf_off h \<and>
    hf_reentrant (g h) = hf_reentrant h \<and> hf_users (g h) = hf_users h"
  shows "hal_wf (upd_funct off g d)"
  using data_wf_upd_funct [of d g off] assms by (simp add: hal_wf_data) (simp add: upd_funct_def)

lemma hal_wf_upd_thread:
  assumes "hal_wf d" "\<And>t. ht_off (g t) = ht_off t \<and> ht_funct_list (g t) = ht_funct_list t"
  shows "hal_wf (upd_thread off g d)"
  using data_wf_upd_thread [of d g off] assms by (simp add: hal_wf_data) (simp add: upd_thread_def)

lemma store_through_wf: "hal_wf d \<Longrightarrow> store_through p v d = Some d' \<Longrightarrow> hal_wf d'"
  using hal_wf_same [OF same_store] by (auto simp: store_through_def split: if_splits)

lemma hal_wf_flags:
  "hal_wf (d\<lparr>hd_lock := l\<rparr>) \<longleftrightarrow> hal_wf d" "hal_wf (d\<lparr>hd_threads_running := n\<rparr>) \<longleftrightarrow> hal_wf d"
  by (simp_all add: hal_wf_data data_wf_simps offs_defs shm_ok_def)

lemma hal_export_wf:
  assumes wf: "hal_wf d" and step: "hal_export_funct name fn arg fp re cid d = Some (r, d')"
  shows "hal_wf d'"
proof (cases "length name > HAL_NAME_LEN \<or> lock_denies HAL_LOCK_LOAD d")
  case True
  with assms show ?thesis by (auto simp: hal_export_funct_def split: if_splits)
next
  case False
  then obtain r1 off d1 where d1: "locked (export_locked name fn arg fp re cid) d = Some ((r1, off), d1)"
    using step by (auto simp: hal_export_funct_def split: option.splits)
  have w1: "hal_wf d1" by (rule locked_wf [OF wf d1 export_locked_wf])
  show ?thesis
  proof (cases "r1 = 0")
    case r1: False
    with step False d1 w1 show ?thesis by (simp add: hal_export_funct_def)
  next
    case True
    note step' = step [unfolded hal_export_funct_def]
    obtain r2 d2 where d2: "hal_pin_newf HAL_S32 (funct_runtime off) cid (name @ ''.time'') d1 = Some (r2, d2)"
      using step' False d1 True by (auto split: option.splits)
    have w2: "hal_wf d2" by (rule hal_pin_newf_wf [OF w1 d2])
    show ?thesis
    proof (cases "r2 = 0")
      case r2: False
      with step' False d1 True d2 w2 show ?thesis by simp
    next
      case r2: True
      obtain d3 where d3: "store_through (funct_runtime off) 0 d2 = Some d3"
        using step' False d1 True d2 r2 by (auto split: option.splits)
      let ?e = "upd_funct off (\<lambda>f. f\<lparr>hf_maxtime := 0\<rparr>) d3"
      obtain r4 d4 where d4: "hal_param_new (copy_name (name @ ''.tmax'')) HAL_S32 HAL_RW (funct_maxtime off) cid ?e = Some (r4, d4)"
        using step' False d1 True d2 r2 d3 by (auto simp: hal_param_s32_new_def split: option.splits)
      let ?e2 = "upd_funct off (\<lambda>f. f\<lparr>hf_maxtime_increased := False\<rparr>) d4"
      obtain r5 d5 where d5: "hal_param_new (copy_name (name @ ''.tmax-increased'')) HAL_BIT HAL_RO
          (funct_maxtime_increased off) cid ?e2 = Some (r5, d5)"
        using step' False d1 True d2 r2 d3 d4
        by (auto simp: hal_param_s32_new_def hal_param_bit_new_def split: option.splits)
      have "d' = d5" using step' False d1 True d2 r2 d3 d4 d5
        by (simp add: hal_param_s32_new_def hal_param_bit_new_def)
      moreover have "hal_wf ?e" using store_through_wf [OF w2 d3] by (intro hal_wf_upd_funct) simp_all
      then have "hal_wf d4" by (rule hal_param_new_wf [OF _ d4])
      then have "hal_wf ?e2" by (intro hal_wf_upd_funct) simp_all
      then have "hal_wf d5" by (rule hal_param_new_wf [OF _ d5])
      ultimately show ?thesis by simp
    qed
  qed
qed

lemma hal_malloc_wf:
  assumes "hal_wf d" "hal_malloc sz d = Some (r, d')" "0 \<le> sz"
  shows "hal_wf d'"
proof (rule locked_wf [OF assms(1) assms(2) [unfolded hal_malloc_def]])
  fix e r e' assume e: "data_wf e" "Some (shmalloc_up sz e) = Some (r, e')"
  show "data_wf e'"
  proof (cases r)
    case None
    with e shmalloc_None(1) [of sz e e'] show ?thesis by simp
  next
    case (Some off)
    with e have s: "shmalloc_up sz e = (Some off, e')" by simp
    have e': "e' = e\<lparr>hd_shmem_bot := hd_shmem_bot e', hd_shmem_avail := hd_shmem_avail e'\<rparr>"
      using s by (auto simp: shmalloc_up_def Let_def split: if_splits)
    have "shm_ok e'" using shmalloc_up_Some [OF s] e(1) assms(3) by (simp add: shm_ok_def data_wf_simps)
    with e(1) show ?thesis by (subst e') (subst (asm) e', simp add: data_wf_simps offs_defs shm_ok_def)
  qed
qed

lemma account_wf: "hal_wf d \<Longrightarrow> hal_wf (account e d)"
  by (auto simp: account_def Let_def intro!: hal_wf_upd_funct)

lemma run_functs_wf: "hal_wf (snd wd) \<Longrightarrow> hal_wf (snd (run_functs call period es wd))"
proof (induction es arbitrary: wd)
  case (Cons e es)
  obtain w d where wd: "wd = (w, d)" by fastforce
  with Cons show ?case by (simp add: Let_def account_wf)
qed simp

lemma thread_pass_wf:
  assumes "hal_wf d" "thread_pass call clock t (w, d) = Some (w', d')"
  shows "hal_wf d'"
proof (cases "hd_threads_running d > 0 \<and> ht_funct_list t \<noteq> []")
  case False
  with assms show ?thesis by (auto simp: thread_pass_def split: if_splits)
next
  case True
  obtain w1 d1 where r: "run_functs call (ht_period t) (ht_funct_list t) (w, d) = (w1, d1)" by fastforce
  have w1: "hal_wf d1" using run_functs_wf [of "(w, d)" call "ht_period t" "ht_funct_list t"] assms(1) r by simp
  from assms(2) True r obtain d2 where
    d2: "store_through (thread_runtime (ht_off t)) (s32 (snd clock - fst clock)) d1 = Some d2"
    by (auto simp: thread_pass_def split: option.splits)
  with assms(2) True r have "d' = upd_thread (ht_off t)
      (\<lambda>t. if s32 (snd clock - fst clock) > ht_maxtime t then t\<lparr>ht_maxtime := s32 (snd clock - fst clock)\<rparr> else t) d2"
    by (simp add: thread_pass_def)
  with store_through_wf [OF w1 d2] show ?thesis by (simp add: hal_wf_upd_thread)
qed

section \<open>The library\<close>

definition sys_wf :: "hal_sys \<Rightarrow> bool" where
  "sys_wf s \<longleftrightarrow> \<not> hd_mutex (hs_seg s) \<and> named_sorted hn_name (hd_pin_list (hs_seg s)) \<and>
     (hs_mapped s \<longrightarrow> hal_wf (hs_seg s))"

lemma sys_wf_mapped: "hs_mapped s \<Longrightarrow> sys_wf s \<longleftrightarrow> hal_wf (hs_seg s)"
  by (auto simp: sys_wf_def hal_wf_data data_wf_simps)

lemma sys_wf_seg:
  "hs_seg s' = hs_seg s \<Longrightarrow> hs_mapped s' = hs_mapped s \<Longrightarrow> sys_wf s' \<longleftrightarrow> sys_wf s"
  by (simp add: sys_wf_def)

lemma init_hal_data_wf:
  assumes "\<not> hd_mutex d" "named_sorted hn_name (hd_pin_list d)" "init_hal_data d = Some (r, d')"
  shows "hal_wf d'"
proof -
  from assms(1,3) have d': "d' = d\<lparr>hd_mutex := False,
     hd_comp_list := [], hd_param_list := [], hd_funct_list := [], hd_thread_list := [],
     hd_base_period := 0, hd_threads_running := 0, hd_comp_free := [], hd_param_free := [],
     hd_funct_free := [], hd_funct_entry_free := [], hd_thread_free := [], hd_exact_base_period := 0,
     hd_shmem_bot := SIZEOF_DATA, hd_shmem_top := HAL_SIZE, hd_lock := HAL_LOCK_NONE\<rparr>"
    by (auto simp: init_hal_data_def locked_def)
  have "functs_wf [] [] []" by (simp add: functs_wf_def named_sorted_def entries_def)
  with assms(2) show ?thesis unfolding d'
    by (simp add: hal_wf_data data_wf_simps offs_defs arena_def shm_ok_def SIZEOF_DATA_def HAL_SIZE_def named_sorted_def)
qed

lemma open_segment_wf:
  assumes wf: "sys_wf s" and step: "open_segment os s = Some (r, s')"
  shows "sys_wf s' \<and> (r = 0 \<longrightarrow> hs_mapped s')"
proof -
  obtain m rt where i: "rtapi_init os (hs_rt s) = Some (m, rt)" using step by (auto simp: open_segment_def split: option.splits)
  obtain h hs where n: "rtapi_shmem_new os HAL_KEY HAL_SIZE (rt_handles rt) = (h, hs)" by fastforce
  note step' = step [unfolded open_segment_def i option.case prod.case Let_def n]
  show ?thesis
  proof (cases "m < 0 \<or> h < 0 \<or> fst (rtapi_shmem_getptr h hs) < 0")
    case True
    with step' have "r = - EINVAL" "hs_seg s' = hs_seg s" "hs_mapped s' = hs_mapped s" by (auto split: if_splits)
    with wf sys_wf_seg [of s' s] show ?thesis by (simp add: EINVAL_def)
  next
    case False
    with step' obtain r1 d where d: "init_hal_data (hs_seg s) = Some (r1, d)" "hs_seg s' = d" "hs_mapped s'"
      by (auto split: option.splits)
    have "hal_wf d" using init_hal_data_wf [OF _ _ d(1)] wf by (simp add: sys_wf_def)
    with d show ?thesis by (simp add: sys_wf_mapped)
  qed
qed

lemma enter_comp_wf:
  assumes "hal_wf d" "enter_comp name cid d = Some (r, d')"
  shows "hal_wf d'"
proof (rule locked_wf [OF assms(1) assms(2) [unfolded enter_comp_def]])
  fix e r e'
  assume e: "data_wf e" and step: "(case halpr_find_comp_by_name (copy_name name) e of
       Some _ \<Rightarrow> Some (- EINVAL, e)
     | None \<Rightarrow>
         (case halpr_alloc_comp_struct e of
            (None, d1) \<Rightarrow> Some (- ENOMEM, d1)
          | (Some c, d1) \<Rightarrow>
              Some (cid, d1\<lparr>hd_comp_list :=
                c\<lparr>hc_comp_id := cid, hc_type := COMPONENT_TYPE_REALTIME, hc_pid := 0, hc_ready := 0,
                  hc_shmem_base := True, hc_insmod_args := 0\<rparr> # hd_comp_list d1\<rparr>))) = Some (r, e')"
  obtain p e1 where al: "halpr_alloc_comp_struct e = (p, e1)" by fastforce
  consider "e' = e" | c where "halpr_find_comp_by_name (copy_name name) e = None" "p = Some c"
    using step al alloc_struct_None(2) [of e e1]
    by (cases "halpr_find_comp_by_name (copy_name name) e"; cases p) auto
  then show "data_wf e'"
  proof cases
    case (2 c)
    have "mem_wf e" using e by (simp add: data_wf_def)
    from alloc_comp_wf [OF this al [unfolded 2(2)]]
    have w: "mem_wf e1" "same_lists e e1" "arena (hc_off c # comp_offs e1) (hd_shmem_top e1)" by simp_all
    then have d1: "data_wf e1" using e by (simp add: data_wf_def same_lists_def)
    define c1 where "c1 = c\<lparr>hc_comp_id := cid, hc_type := COMPONENT_TYPE_REALTIME, hc_pid := 0, hc_ready := 0,
                  hc_shmem_base := True, hc_insmod_args := 0\<rparr>"
    have e': "e' = e1\<lparr>hd_comp_list := c1 # hd_comp_list e1\<rparr>" using step 2 al by (auto simp: c1_def)
    have "link_wf (c1 # hd_comp_list e1) (hd_funct_list e1) (hd_param_list e1) (hd_pin_list e1) (hd_thread_list e1)"
      using d1 link_wf_comps [of "hd_comp_list e1" _ _ _ _ "c1 # hd_comp_list e1"] by (auto simp: data_wf_def)
    moreover have "mem_wf e'"
      using w(1,3) by (simp add: mem_wf_def e' offs_defs shm_ok_def c1_def)
    ultimately show ?thesis by (simp add: data_wf_def) (simp add: e')
  qed (use e in simp)
qed

lemma hal_init_wf:
  assumes wf: "sys_wf s" and step: "hal_init os name s = Some (r, s')"
  shows "sys_wf s' \<and> (hs_mapped s \<longrightarrow> hs_mapped s')"
proof (cases "\<exists>n. name = Some n \<and> length n \<le> HAL_NAME_LEN")
  case False
  with wf step show ?thesis by (cases name) (auto simp: hal_init_def)
next
  case True
  then obtain n where n: "name = Some n" "\<not> length n > HAL_NAME_LEN" by auto
  obtain r1 s1 where s1: "(if hs_lib_mem_id s = 0 then open_segment os s else Some (0, s)) = Some (r1, s1)"
    using step n by (auto simp: hal_init_def split: option.splits)
  have w1: "sys_wf s1" "hs_mapped s \<longrightarrow> hs_mapped s1"
  proof -
    have "hs_mapped s \<longrightarrow> hs_mapped s1" if "open_segment os s = Some (r1, s1)"
      using that by (auto simp: open_segment_def Let_def split: option.splits if_splits prod.splits)
    then show "hs_mapped s \<longrightarrow> hs_mapped s1" using s1 by (auto split: if_splits)
    show "sys_wf s1" using wf s1 open_segment_wf [of s os r1 s1] by (auto split: if_splits)
  qed
  note step' = step [unfolded hal_init_def n(1) option.case s1 prod.case]
  show ?thesis
  proof (cases "r1 = 0")
    case False
    with step' n(2) w1 show ?thesis by simp
  next
    case r1: True
    obtain cid rt where i: "rtapi_init os (hs_rt s1) = Some (cid, rt)"
      using step' n(2) r1 by (cases "rtapi_init os (hs_rt s1)") auto
    show ?thesis
    proof (cases "cid < 0")
      case True
      with step' n(2) r1 i have "s' = s1\<lparr>hs_rt := rt\<rparr>" by simp
      with w1 show ?thesis by (simp add: sys_wf_def)
    next
      case False
      with step' n(2) r1 i have mp: "hs_mapped s1" by (auto simp: Let_def split: if_splits)
      obtain r2 d where d: "enter_comp n cid (hs_seg s1) = Some (r2, d)"
        using step' n(2) r1 i False mp by (cases "enter_comp n cid (hs_seg s1)") (auto simp: Let_def)
      have "hal_wf d" using enter_comp_wf [OF _ d] w1(1) mp by (simp add: sys_wf_def)
      moreover have "hs_seg s' = d" "hs_mapped s'" using step' n(2) r1 i False mp d by (auto simp: Let_def split: if_splits)
      ultimately show ?thesis by (simp add: sys_wf_mapped)
    qed
  qed
qed

lemma hal_exit_wf:
  assumes wf: "sys_wf s" and step: "hal_exit os cid s = Some (r, s')"
  shows "sys_wf s'"
proof (cases "hs_mapped s")
  case False
  with wf step show ?thesis by (simp add: hal_exit_def)
next
  case True
  let ?f = "\<lambda>d. case halpr_find_comp_by_id cid d of
               None \<Rightarrow> Some (- EINVAL, d)
             | Some c \<Rightarrow> Some (0, free_comp_struct c (d\<lparr>hd_comp_list := remove1 c (hd_comp_list d)\<rparr>))"
  obtain r1 d where d: "locked ?f (hs_seg s) = Some (r1, d)"
    using step True by (auto simp: hal_exit_def split: option.splits)
  have "data_wf e'" if "data_wf e" "?f e = Some (x, e')" for e x e'
    using that free_comp_wf [OF that(1)] by (auto split: option.splits dest: find_comp_in)
  from locked_wf [OF _ d this] wf True have "hal_wf d" by (simp add: sys_wf_def)
  moreover have "hs_seg s' = d" "hs_mapped s'" using step True d by (auto simp: hal_exit_def Let_def split: if_splits)
  ultimately show ?thesis by (simp add: sys_wf_mapped)
qed

lemma on_data_wf:
  assumes "sys_wf s" "on_data f s = Some (r, s')" "\<And>d r d'. hal_wf d \<Longrightarrow> f d = Some (r, d') \<Longrightarrow> hal_wf d'"
  shows "sys_wf s' \<and> hs_mapped s' = hs_mapped s"
proof (cases "hs_mapped s")
  case False
  with assms show ?thesis by (simp add: on_data_def)
next
  case True
  with assms(2) obtain d where "f (hs_seg s) = Some (r, d)" "s' = s\<lparr>hs_seg := d\<rparr>" by (auto simp: on_data_def)
  with assms(1,3) True show ?thesis by (auto simp: sys_wf_mapped)
qed

lemma set_base_clock_same: "set_base_clock period s = (r, s') \<Longrightarrow> hs_seg s' = hs_seg s \<and> hs_mapped s' = hs_mapped s"
  by (auto simp: set_base_clock_def rtapi_clock_set_period_def Let_def split: if_splits)

lemma enter_thread_wf:
  assumes wf: "sys_wf s" and mp: "hs_mapped s" and step: "enter_thread tos name period fp prio s = Some ((r, off), s')"
  shows "sys_wf s' \<and> hs_mapped s'"
proof -
  let ?d = "hs_seg s"
  have d: "data_wf ?d" "\<not> hd_mutex ?d" using wf mp by (simp_all add: sys_wf_mapped hal_wf_data)
  obtain p d1 where al: "alloc_thread_struct ?d = (p, d1)" by fastforce
  note step' = step [unfolded enter_thread_def]
  show ?thesis
  proof (cases "(\<exists>t \<in> set (hd_thread_list ?d). ht_name t = name) \<or> p = None")
    case True
    with step' d(2) al alloc_struct_None(3) [of ?d d1] have "s' = s" by (auto split: if_splits)
    with wf mp show ?thesis by simp
  next
    case False
    then obtain t where p: "p = Some t" by blast
    have "mem_wf ?d" using d(1) by (simp add: data_wf_def)
    from alloc_thread_wf [OF this al [unfolded p]] have w: "mem_wf d1" "same_lists ?d d1"
      "arena (ht_off t # thread_offs d1) (hd_shmem_top d1)" "ht_funct_list t = []" by simp_all
    then have d1: "data_wf d1" "\<not> hd_mutex d1" using d by (simp_all add: data_wf_def same_lists_def)
    define t1 where "t1 = t\<lparr>ht_uses_fp := fp, ht_name := copy_name name, ht_period := period, ht_priority := prio\<rparr>"
    obtain r1 s2 where c: "(if hd_thread_list d1 = [] then set_base_clock period (s\<lparr>hs_seg := d1\<rparr>) else (0, s\<lparr>hs_seg := d1\<rparr>)) = (r1, s2)"
      by fastforce
    have s2: "hs_seg s2 = d1" "hs_mapped s2"
      using c set_base_clock_same [of period "s\<lparr>hs_seg := d1\<rparr>" r1 s2] mp by (auto split: if_splits)
    have "hs_mapped s' \<and> (hs_seg s' = d1 \<or> (\<exists>tid. hs_seg s' = d1\<lparr>hd_thread_list := t1\<lparr>ht_task_id := tid\<rparr> # hd_thread_list d1\<rparr>))"
    proof -
      obtain tid ts where tn: "rtapi_task_new tos (ht_off t1) prio (hs_lib_module_id s2) HAL_STACKSIZE fp (hs_tasks s2) = (tid, ts)"
        by fastforce
      obtain r2 ts2 where tst: "rtapi_task_start tos tid period ts = (r2, ts2)" by fastforce
      have nt: "(\<exists>t \<in> set (hd_thread_list ?d). ht_name t = name) = False" "hd_mutex ?d = False" using False d(2) by auto
      from step' have "(if r1 \<noteq> 0 then Some ((r1, 0), s2) else if tid < 0 then Some ((- EINVAL, 0), s2\<lparr>hs_tasks := ts\<rparr>)
          else if r2 < 0 then Some ((- EINVAL, 0), s2\<lparr>hs_tasks := ts\<rparr>\<lparr>hs_tasks := ts2\<rparr>)
          else Some ((0, ht_off t1), upd_seg (\<lambda>d. d\<lparr>hd_thread_list := t1\<lparr>ht_task_id := tid\<rparr> # hd_thread_list d\<rparr>)
                 (s2\<lparr>hs_tasks := ts\<rparr>\<lparr>hs_tasks := ts2\<rparr>))) = Some ((r, off), s')"
        unfolding nt al p if_False option.case prod.case Let_def c t1_def [symmetric] tn tst .
      then show ?thesis using s2 by (auto simp: upd_seg_def split: if_splits)
    qed
    moreover have "data_wf (d1\<lparr>hd_thread_list := t1\<lparr>ht_task_id := tid\<rparr> # hd_thread_list d1\<rparr>)" for tid
    proof -
      have "centries (t1\<lparr>ht_task_id := tid\<rparr> # hd_thread_list d1) = centries (hd_thread_list d1)"
        using w(4) by (simp add: centries_def entries_def t1_def)
      then have "functs_wf (hd_comp_list d1) (hd_funct_list d1) (t1\<lparr>ht_task_id := tid\<rparr> # hd_thread_list d1)"
        using d1(1) functs_wf_mset by (metis data_wf_simps)
      with d1(1) w(3) show ?thesis by (simp add: data_wf_simps offs_defs shm_ok_def t1_def)
    qed
    ultimately have "hal_wf (hs_seg s')" using d1 by (auto simp: hal_wf_data)
    with \<open>hs_mapped s' \<and> _\<close> show ?thesis by (simp add: sys_wf_mapped)
  qed
qed

lemma set_thread_comp_wf: "sys_wf s \<Longrightarrow> hs_mapped s \<Longrightarrow> sys_wf (set_thread_comp off cid s) \<and> hs_mapped (set_thread_comp off cid s)"
  using hal_wf_upd_thread [of "hs_seg s" "\<lambda>t. t\<lparr>ht_comp_id := cid\<rparr>" off]
  by (simp add: set_thread_comp_def upd_seg_def sys_wf_mapped)

lemma hal_create_thread_wf:
  assumes wf: "sys_wf s" and step: "hal_create_thread os tos name period fp prio s = Some (r, s')"
  shows "sys_wf s'"
proof (cases "\<not> hs_mapped s \<or> period = 0 \<or> length name > HAL_NAME_LEN \<or> lock_denies HAL_LOCK_CONFIG (hs_seg s)")
  case True
  with wf step show ?thesis by (auto simp: hal_create_thread_def split: if_splits)
next
  case False
  note step' = step [unfolded hal_create_thread_def]
  obtain r1 off s1 where s1: "enter_thread tos name period fp prio s = Some ((r1, off), s1)"
    using step' False by (cases "enter_thread tos name period fp prio s") auto
  have w1: "sys_wf s1" "hs_mapped s1" using enter_thread_wf [OF wf _ s1] False by auto
  show ?thesis
  proof (cases "r1 = 0")
    case r1: False
    with step' False s1 w1 show ?thesis by simp
  next
    case r1: True
    let ?n = "copy_name (HAL_PSEUDO_COMP_PREFIX @ copy_name name)"
    obtain cid s2 where s2: "hal_init os (Some ?n) s1 = Some (cid, s2)"
      using step' False s1 r1 by (cases "hal_init os (Some ?n) s1") auto
    define s3 where "s3 = set_thread_comp off cid s2"
    have w3: "sys_wf s3" "hs_mapped s3"
      using hal_init_wf [OF w1(1) s2] w1(2) set_thread_comp_wf [of s2 off cid] by (simp_all add: s3_def)
    show ?thesis
    proof (cases "cid < 0")
      case True
      with step' False s1 r1 s2 w3 show ?thesis by (simp add: s3_def Let_def)
    next
      case cid: False
      define s3' where "s3' = upd_seg (upd_thread off (\<lambda>t. t\<lparr>ht_maxtime := 0\<rparr>)) s3"
      have w3': "sys_wf s3'" "hs_mapped s3'"
        using w3 hal_wf_upd_thread [of "hs_seg s3" "\<lambda>t. t\<lparr>ht_maxtime := 0\<rparr>" off]
        by (simp_all add: s3'_def upd_seg_def sys_wf_mapped)
      let ?f4 = "hal_param_s32_new (copy_name (copy_name name @ ''.tmax'')) HAL_RW HAL_S32 (thread_maxtime off) cid"
      obtain r4 s4 where s4: "on_data ?f4 s3' = Some (r4, s4)"
        using step' False s1 r1 s2 cid by (cases "on_data ?f4 s3'") (auto simp: Let_def s3_def s3'_def)
      have w4: "sys_wf s4" "hs_mapped s4"
        using on_data_wf [OF w3'(1) s4] hal_param_new_wf w3'(2) unfolding hal_param_s32_new_def by blast+
      show ?thesis
      proof (cases "r4 = 0")
        case r4: False
        with step' False s1 r1 s2 cid s4 w4 show ?thesis by (simp add: Let_def s3_def s3'_def)
      next
        case r4: True
        let ?f5 = "hal_pin_newf HAL_S32 (thread_runtime off) cid (copy_name name @ ''.time'')"
        obtain r5 s5 where s5: "on_data ?f5 s4 = Some (r5, s5)"
          using step' False s1 r1 s2 cid s4 r4 by (cases "on_data ?f5 s4") (auto simp: Let_def s3_def s3'_def)
        have w5: "sys_wf s5" "hs_mapped s5" using on_data_wf [OF w4(1) s5] hal_pin_newf_wf w4(2) by blast+
        show ?thesis
        proof (cases "r5 = 0")
          case r5: False
          with step' False s1 r1 s2 cid s4 r4 s5 w5 show ?thesis by (simp add: Let_def s3_def s3'_def)
        next
          case r5: True
          obtain d where d: "store_through (thread_runtime off) 0 (hs_seg s5) = Some d"
            using step' False s1 r1 s2 cid s4 r4 s5 r5
            by (cases "store_through (thread_runtime off) 0 (hs_seg s5)") (auto simp: Let_def s3_def s3'_def)
          have w6: "sys_wf (s5\<lparr>hs_seg := d\<rparr>)" using w5 store_through_wf [OF _ d] by (simp add: sys_wf_mapped)
          obtain r6 where "on_data (hal_ready cid) (s5\<lparr>hs_seg := d\<rparr>) = Some (r6, s')"
            using step' False s1 r1 s2 cid s4 r4 s5 r5 d
            by (cases "on_data (hal_ready cid) (s5\<lparr>hs_seg := d\<rparr>)") (auto simp: Let_def s3_def s3'_def)
          from on_data_wf [OF w6 this] ready_wf(3) show ?thesis by blast
        qed
      qed
    qed
  qed
qed

text \<open>The deletion of a thread that has a component waits for the mutex it holds.\<close>

lemma exit_under_mutex: "hs_mapped s \<Longrightarrow> hd_mutex (hs_seg s) \<Longrightarrow> hal_exit os cid s = None"
  by (simp add: hal_exit_def locked_def)

lemma hal_thread_delete_wf:
  assumes wf: "sys_wf s" and step: "hal_thread_delete os name s = Some (r, s')"
  shows "sys_wf s'"
proof (cases "hs_mapped s \<and> \<not> lock_denies HAL_LOCK_CONFIG (hs_seg s) \<and> halpr_find_thread_by_name name (hs_seg s) \<noteq> None")
  case False
  with wf step show ?thesis by (auto simp: hal_thread_delete_def split: if_splits)
next
  case True
  then obtain t where t: "halpr_find_thread_by_name name (hs_seg s) = Some t" by blast
  let ?d = "hs_seg s"
  have mx: "\<not> hd_mutex ?d" and d: "data_wf ?d" using wf True by (simp_all add: sys_wf_mapped hal_wf_data)
  have id0: "ht_comp_id t = 0"
    using step True t mx exit_under_mutex [of "upd_seg (\<lambda>d. d\<lparr>hd_mutex := True\<rparr>) s" os "ht_comp_id t"]
    by (auto simp: hal_thread_delete_def upd_seg_def Let_def split: if_splits)
  define s2 where "s2 = upd_seg (\<lambda>d. d\<lparr>hd_mutex := True, hd_thread_list := remove1 t (hd_thread_list d)\<rparr>) s"
  have s': "s' = upd_seg (\<lambda>d. d\<lparr>hd_mutex := False\<rparr>) (free_thread_struct t s2)"
  proof -
    have tt: "t\<lparr>ht_comp_id := 0\<rparr> = t" using id0 by simp
    have "upd_seg (\<lambda>d. d\<lparr>hd_thread_list := remove1 t (hd_thread_list d)\<rparr>) (upd_seg (\<lambda>d. d\<lparr>hd_mutex := True\<rparr>) s) = s2"
      by (simp add: s2_def upd_seg_def)
    then have "s' = upd_seg (\<lambda>d. d\<lparr>hd_mutex := False\<rparr>) (free_thread_struct (t\<lparr>ht_comp_id := 0\<rparr>) s2)"
      using step True t mx id0 by (simp add: hal_thread_delete_def Let_def)
    then show ?thesis unfolding tt .
  qed
  have perm: "mset (hd_thread_list ?d) = mset (t # remove1 t (hd_thread_list ?d))" using find_thread_in [OF t] by simp
  have "data_wf ((?d\<lparr>hd_mutex := True\<rparr>)\<lparr>hd_thread_list := hd_thread_list ?d\<rparr>)" using d by simp
  then have "data_wf ((?d\<lparr>hd_mutex := True\<rparr>)\<lparr>hd_thread_list := t # remove1 t (hd_thread_list ?d)\<rparr>)"
    using perm by (rule data_wf_perm)
  then have "data_wf ((hs_seg s2)\<lparr>hd_thread_list := t # remove1 t (hd_thread_list ?d)\<rparr>)" by (simp add: s2_def upd_seg_def)
  from free_thread_wf [OF this]
  have "data_wf ((hs_seg (free_thread_struct t s2))\<lparr>hd_thread_list := remove1 t (hd_thread_list ?d)\<rparr>)" .
  moreover have "hd_thread_list (hs_seg (free_thread_struct t s2)) = remove1 t (hd_thread_list ?d)"
    using free_thread_lists [of t s2] by (simp add: s2_def upd_seg_def)
  ultimately have "data_wf (hs_seg (free_thread_struct t s2))" by (metis hal_data.surjective hal_data.update_convs(9))
  then have "hal_wf (hs_seg s')" by (simp add: s' upd_seg_def hal_wf_data)
  moreover have "hs_mapped s'" using True by (simp add: s' s2_def upd_seg_def free_thread_struct_def)
  ultimately show ?thesis by (simp add: sys_wf_mapped)
qed

lemma hal_app_exit_wf:
  assumes wf: "sys_wf s" and step: "hal_app_exit os s = Some s'"
  shows "sys_wf s'"
proof -
  from step have mp: "hs_mapped s" "\<not> hd_mutex (hs_seg s)" by (auto simp: hal_app_exit_def split: if_splits)
  define s0 where "s0 = upd_seg (\<lambda>d. d\<lparr>hd_thread_list := []\<rparr>) s"
  define s1 where "s1 = fold free_thread_struct (hd_thread_list (hs_seg s)) s0"
  have d: "data_wf (hs_seg s)" using wf mp by (simp add: sys_wf_mapped hal_wf_data)
  have "hs_seg s' = hs_seg s1" "hs_mapped s' = hs_mapped s1"
    using step mp by (auto simp: hal_app_exit_def Let_def s0_def s1_def split: prod.splits)
  moreover have m1: "hs_mapped s1"
  proof -
    have "hs_mapped (fold free_thread_struct ts u) = hs_mapped u" for ts u
      by (induction ts arbitrary: u) (simp_all add: free_thread_struct_def upd_seg_def)
    with mp show ?thesis by (simp add: s1_def s0_def upd_seg_def)
  qed
  moreover have "hal_wf (hs_seg s1)"
  proof -
    have "data_wf ((hs_seg s0)\<lparr>hd_thread_list := hd_thread_list (hs_seg s) @ []\<rparr>)" using d by (simp add: s0_def upd_seg_def)
    from free_threads_wf [OF this] have "data_wf ((hs_seg s1)\<lparr>hd_thread_list := []\<rparr>)" by (simp add: s1_def)
    moreover have "hd_thread_list (hs_seg s1) = []" "\<not> hd_mutex (hs_seg s1)"
      using free_threads_lists [of "hd_thread_list (hs_seg s)" s0] mp by (simp_all add: s1_def s0_def upd_seg_def)
    ultimately show ?thesis by (metis hal_wf_data hal_data.surjective hal_data.update_convs(9))
  qed
  ultimately show ?thesis by (simp add: sys_wf_mapped)
qed

section \<open>Every call\<close>

inductive data_step :: "hal_data \<Rightarrow> hal_data \<Rightarrow> bool" where
  ready: "hal_ready cid d = Some (r, d') \<Longrightarrow> data_step d d'"
| unready: "hal_unready cid d = Some (r, d') \<Longrightarrow> data_step d d'"
| set_unready: "hal_set_unready cid d = Some (r, d') \<Longrightarrow> data_step d d'"
| set_constructor: "hal_set_constructor cid mk d = Some (r, d') \<Longrightarrow> data_step d d'"
| set_lock: "hal_set_lock l d = (r, d') \<Longrightarrow> data_step d d'"
| malloc: "hal_malloc sz d = Some (p, d') \<Longrightarrow> 0 \<le> sz \<Longrightarrow> data_step d d'"
| param_new: "hal_param_new name ty dir addr cid d = Some (r, d') \<Longrightarrow> data_step d d'"
| pin_new: "hal_pin_new name ty addr cid d = Some (r, d') \<Longrightarrow> data_step d d'"
| export: "hal_export_funct name fn arg fp re cid d = Some (r, d') \<Longrightarrow> data_step d d'"
| add: "hal_add_funct_to_thread f t position d = Some (r, d') \<Longrightarrow> data_step d d'"
| del: "hal_del_funct_from_thread f t d = Some (r, d') \<Longrightarrow> data_step d d'"
| start: "hal_start_threads d = (r, d') \<Longrightarrow> data_step d d'"
| stop: "hal_stop_threads d = (r, d') \<Longrightarrow> data_step d d'"
| pass: "thread_pass call clock t (w, d) = Some ((w' :: unit), d') \<Longrightarrow> data_step d d'"

inductive hal_step :: "shm_os \<Rightarrow> task_os \<Rightarrow> hal_sys \<Rightarrow> hal_sys \<Rightarrow> bool" for os tos where
  data: "hs_mapped s \<Longrightarrow> data_step (hs_seg s) d \<Longrightarrow> hal_step os tos s (s\<lparr>hs_seg := d\<rparr>)"
| app_main: "hal_app_main os s = Some (r, s') \<Longrightarrow> hal_step os tos s s'"
| app_exit: "hal_app_exit os s = Some s' \<Longrightarrow> hal_step os tos s s'"
| init: "hal_init os name s = Some (r, s') \<Longrightarrow> hal_step os tos s s'"
| exit: "hal_exit os cid s = Some (r, s') \<Longrightarrow> hal_step os tos s s'"
| create_thread: "hal_create_thread os tos name period fp prio s = Some (r, s') \<Longrightarrow> hal_step os tos s s'"
| thread_delete: "hal_thread_delete os name s = Some (r, s') \<Longrightarrow> hal_step os tos s s'"

lemma data_step_wf: "data_step d d' \<Longrightarrow> hal_wf d \<Longrightarrow> hal_wf d'"
proof (induction rule: data_step.induct)
  case (start d r d')
  then show ?case by (auto simp: hal_start_threads_def hal_wf_flags split: if_splits)
next
  case (stop d r d')
  then show ?case by (auto simp: hal_stop_threads_def hal_wf_flags split: if_splits)
next
  case (set_lock l d r d')
  then show ?case by (auto simp: hal_set_lock_def hal_wf_flags)
qed (blast intro: ready_wf hal_malloc_wf hal_param_new_wf hal_pin_new_wf hal_export_wf hal_add_funct_wf hal_del_funct_wf
    thread_pass_wf)+

lemma hal_step_wf: "hal_step os tos s s' \<Longrightarrow> sys_wf s \<Longrightarrow> sys_wf s'"
proof (induction rule: hal_step.induct)
  case (data s d)
  then show ?case using data_step_wf by (simp add: sys_wf_mapped)
next
  case (app_main s r s')
  then show ?case using open_segment_wf by (simp add: hal_app_main_def)
qed (blast intro: hal_app_exit_wf hal_exit_wf hal_create_thread_wf hal_thread_delete_wf dest: hal_init_wf)+

definition hal_fresh :: "hal_sys \<Rightarrow> bool" where
  "hal_fresh s \<longleftrightarrow> \<not> hs_mapped s \<and> \<not> hd_mutex (hs_seg s) \<and> hd_pin_list (hs_seg s) = []"

lemma hal_runs_wf: "(hal_step os tos)\<^sup>*\<^sup>* s s' \<Longrightarrow> sys_wf s \<Longrightarrow> sys_wf s'"
  by (induction rule: rtranclp_induct) (auto intro: hal_step_wf)

lemma named_sorted_unique: "named_sorted nm xs \<Longrightarrow> distinct (map nm xs)"
  by (induction xs) (auto simp: named_sorted_def)

text \<open>
  C29: In every state that calls of the library reach from a fresh segment - whichever of them fail, and whatever
  their arguments, but for memory of a negative size - the names of the functions, of the pins and of the parameters are unique, every
  function and parameter belongs to a component that is still there, every entry of a thread calls a function that
  is still exported, the usage count of a function is the number of entries that call it, and a function
  that is not reentrant has one at most.
\<close>

theorem hal_lists_consistent:
  assumes "(hal_step os tos)\<^sup>*\<^sup>* s0 s" "hal_fresh s0" "hs_mapped s"
  defines "d \<equiv> hs_seg s"
  shows "distinct (map hf_name (hd_funct_list d)) \<and> distinct (map hn_name (hd_pin_list d)) \<and>
    distinct (map hp_name (hd_param_list d)) \<and>
    (\<forall>f \<in> set (hd_funct_list d). hf_owner f \<in> hc_off ` set (hd_comp_list d)) \<and>
    (\<forall>p \<in> set (hd_param_list d). hp_owner p \<in> hc_off ` set (hd_comp_list d)) \<and>
    (\<forall>e \<in> set (entries (hd_thread_list d)). fe_funct_ptr e \<in> hf_off ` set (hd_funct_list d)) \<and>
    (\<forall>f \<in> set (hd_funct_list d). hf_users f = int (calls (hd_thread_list d) (hf_off f)) \<and>
       (hf_reentrant f = 0 \<longrightarrow> calls (hd_thread_list d) (hf_off f) \<le> 1))"
proof -
  have "sys_wf s0" using assms(2) by (simp add: hal_fresh_def sys_wf_def named_sorted_def)
  from hal_runs_wf [OF assms(1) this] have "data_wf d" using assms(3) by (simp add: sys_wf_mapped hal_wf_data d_def)
  then have wf: "functs_wf (hd_comp_list d) (hd_funct_list d) (hd_thread_list d)" "named_sorted hp_name (hd_param_list d)"
    "named_sorted hn_name (hd_pin_list d)" "\<forall>p \<in> set (hd_param_list d). hp_owner p \<in> hc_off ` set (hd_comp_list d)"
    by (auto simp: data_wf_def link_wf_def)
  have "hf_users f = int (calls (hd_thread_list d) (hf_off f)) \<and> (hf_reentrant f = 0 \<longrightarrow> calls (hd_thread_list d) (hf_off f) \<le> 1)"
    if "f \<in> set (hd_funct_list d)" for f
    using functs_wf_users [OF wf(1) that] by (auto simp: calls_centries)
  with wf show ?thesis by (auto simp: functs_wf_def named_sorted_unique)
qed

definition hal_blank :: hal_sys where
  "hal_blank = \<lparr>hs_rt = rt_fresh, hs_seg = data_zero, hs_mapped = False, hs_lib_module_id = -1, hs_lib_mem_id = 0,
     hs_ref_cnt = 0, hs_period = 0, hs_tasks = replicate MAX_TASKS None\<rparr>"

definition tos_ok :: task_os where
  "tos_ok = \<lparr>os_prio_lowest = 0, os_prio_highest = 99, os_thread_start = (\<lambda>_. 0)\<rparr>"

theorem hal_lists_consistent_witness:
  "\<exists>s. (hal_step os_one tos_ok)\<^sup>*\<^sup>* hal_blank s \<and> hs_mapped s \<and> distinct (map hn_name (hd_pin_list (hs_seg s)))"
proof -
  have f: "hal_fresh hal_blank" by (simp add: hal_fresh_def hal_blank_def data_zero_def)
  have "\<exists>s. hal_app_main os_one hal_blank = Some (0, s) \<and> hs_mapped s"
    by (simp add: hal_app_main_def open_segment_def hal_blank_def init_hal_data_def locked_def data_zero_def
        rtapi_init_def rtapi_shmem_new_def shm_index_def rt_fresh_def os_one_def MAX_SHM_def
        shm_valid_def SHMEM_MAGIC_def rtapi_shmem_getptr_def upt_rec eval_nat_numeral EPERM_def UUID_KEY_def HAL_KEY_def)
  then obtain s where s: "hal_app_main os_one hal_blank = Some (0, s)" "hs_mapped s" by blast
  have "(hal_step os_one tos_ok)\<^sup>*\<^sup>* hal_blank s" using hal_step.app_main [OF s(1)] by blast
  from hal_lists_consistent [OF this f s(2)] this s(2) show ?thesis by blast
qed

end
