(* ===== verification/HalBehave.thy ===== *)
theory HalBehave
  imports HalInv
begin

text \<open>
  What the calls of the hardware abstraction layer do: where an added function goes, that a component has no
  name, that its pins outlive it, and that a thread that was created is never deleted.
\<close>

section \<open>Positions\<close>

lemma walk_next: "i \<le> n \<Longrightarrow> list_walk (list_next n) k i = (if i + k \<le> n then Some (i + k) else None)"
  by (induction k arbitrary: i) (auto simp: list_next_def)

lemma walk_prev: "0 < i \<Longrightarrow> i \<le> n \<Longrightarrow> list_walk (list_prev n) k i = (if k < i then Some (i - k) else None)"
proof (induction k arbitrary: i)
  case (Suc k)
  show ?case
  proof (cases "i = 1")
    case True
    then show ?thesis by (simp add: list_prev_def)
  next
    case False
    with Suc.prems have "0 < i - 1" "i - 1 \<le> n" by auto
    from Suc.IH [OF this] Suc.prems False show ?thesis by (auto simp: list_prev_def)
  qed
qed simp

lemma walk_prev_root: "list_walk (list_prev n) k 0 = (if k = 0 then Some 0 else if k \<le> n then Some (n + 1 - k) else None)"
proof (cases k)
  case (Suc j)
  show ?thesis
  proof (cases "n = 0")
    case True
    with Suc show ?thesis by (simp add: list_prev_def)
  next
    case False
    with Suc walk_prev [of n n j] show ?thesis by (auto simp: list_prev_def)
  qed
qed simp

lemma insertion_pos: "0 < position \<Longrightarrow> insertion_point n position =
    (if nat position \<le> n + 1 then Some (nat position - 1) else None)"
  by (simp add: insertion_point_def walk_next nat_diff_distrib) linarith

lemma insertion_neg: "position < 0 \<Longrightarrow> insertion_point n position =
    (if nat (- position) \<le> n + 1 then Some (n + 1 - nat (- position)) else None)"
proof -
  assume neg: "position < 0"
  define k where "k = nat (- position) - 1"
  have k: "nat (- position - 1) = k" "nat (- position) = k + 1" using neg by (auto simp: k_def)
  show ?thesis using neg by (simp add: insertion_point_def walk_prev_root k) (auto simp: list_prev_def)
qed

text \<open>
  The index that a position names: counted from the front when positive, from the back when negative.
\<close>

definition position_index :: "nat \<Rightarrow> int \<Rightarrow> nat option" where
  "position_index n position =
     (if position = 0 \<or> nat \<bar>position\<bar> > n + 1 then None
      else if position > 0 then Some (nat position - 1) else Some (n + 1 - nat (- position)))"

lemma insertion_index: "position \<noteq> 0 \<Longrightarrow> insertion_point n position = position_index n position"
  using insertion_pos [of position n] insertion_neg [of position n]
  by (cases "0 < position") (auto simp: position_index_def)

lemma thread_after_add:
  assumes "distinct (map ht_off ts)" "t \<in> set ts" "\<And>u. ht_name (g u) = ht_name u" "find (\<lambda>t. ht_name t = n) ts = Some t"
    "ht_name t = n"
  shows "find (\<lambda>t. ht_name t = n) (map (\<lambda>u. if ht_off u = ht_off t then g u else u) ts) = Some (g t)"
  using assms by (induction ts) (auto split: if_splits)

text \<open>
  A function that is added to a thread at position 1, 2, ... or -1, -2, ... goes to that place counted from
  the front or from the back, between the entries that are there, and its entry carries the
  function, its argument and its identity; a position that is 0 or out of range is refused.
\<close>

theorem add_funct_position:
  assumes wf: "hal_wf d" and lock: "\<not> lock_denies HAL_LOCK_CONFIG d"
    and f: "halpr_find_funct_by_name fn d = Some f" "hf_users f = 0 \<or> hf_reentrant f \<noteq> 0" "hf_uses_fp f = 0"
    and t: "halpr_find_thread_by_name tn d = Some t"
    and room: "hd_funct_entry_free d \<noteq> []"
  shows "case position_index (length (ht_funct_list t)) position of
      None \<Rightarrow> hal_add_funct_to_thread (Some fn) (Some tn) position d = Some (- EINVAL, d)
    | Some i \<Rightarrow> (\<exists>d' t' e. hal_add_funct_to_thread (Some fn) (Some tn) position d = Some (0, d') \<and>
        halpr_find_thread_by_name tn d' = Some t' \<and> ht_off t' = ht_off t \<and>
        ht_funct_list t' = take i (ht_funct_list t) @ e # drop i (ht_funct_list t) \<and>
        fe_funct e = hf_funct f \<and> fe_arg e = hf_arg f \<and> fe_funct_ptr e = hf_off f)"
proof -
  let ?n = "length (ht_funct_list t)" and ?L = "d\<lparr>hd_mutex := True\<rparr>"
  have mx: "\<not> hd_mutex d" and dw: "data_wf d" using wf by (simp_all add: hal_wf_data)
  have fl: "halpr_find_funct_by_name fn ?L = Some f" "halpr_find_thread_by_name tn ?L = Some t"
    using f(1) t by (simp_all add: halpr_find_funct_by_name_def halpr_find_thread_by_name_def)
  have re: "\<not> (hf_users f > 0 \<and> hf_reentrant f = 0)" using f(2) by auto
  have unlock: "d\<lparr>hd_mutex := True\<rparr>\<lparr>hd_mutex := False\<rparr> = d" using mx by (simp add: hal_data.equality)
  obtain e0 es where free: "hd_funct_entry_free d = e0 # es" using room by (cases "hd_funct_entry_free d") auto
  define e where "e = (entry_reset e0)\<lparr>fe_funct_ptr := hf_off f, fe_arg := hf_arg f, fe_funct := hf_funct f\<rparr>"
  show ?thesis
  proof (cases "position_index ?n position")
    case None
    then have "position = 0 \<or> position \<noteq> 0 \<and> insertion_point ?n position = None" using insertion_index by metis
    then have "add_funct_locked (Some fn) (Some tn) position ?L = Some (- EINVAL, ?L)"
      using fl re f(3) by (auto simp: add_funct_locked_def)
    then show ?thesis using None lock mx unlock by (simp add: hal_add_funct_to_thread_def locked_def)
  next
    case (Some i)
    then have ip: "position \<noteq> 0" "insertion_point ?n position = Some i"
      using insertion_index [of position ?n] by (auto simp: position_index_def split: if_splits)
    define d' where "d' = upd_funct (hf_off f) (\<lambda>f. f\<lparr>hf_users := hf_users f + 1\<rparr>)
       (upd_thread (ht_off t) (\<lambda>t. t\<lparr>ht_funct_list := list_add_after e i (ht_funct_list t)\<rparr>)
         (?L\<lparr>hd_funct_entry_free := es\<rparr>))"
    have "add_funct_locked (Some fn) (Some tn) position ?L = Some (0, d')"
      using fl f(3) ip free by (simp add: re add_funct_locked_def alloc_funct_entry_struct_def Let_def d'_def e_def)
    then have "hal_add_funct_to_thread (Some fn) (Some tn) position d = Some (0, d'\<lparr>hd_mutex := False\<rparr>)"
      using lock mx by (simp add: hal_add_funct_to_thread_def locked_def)
    moreover have "ht_name t = tn" using t by (auto simp: halpr_find_thread_by_name_def find_Some_iff)
    then have "halpr_find_thread_by_name tn (d'\<lparr>hd_mutex := False\<rparr>) =
        Some (t\<lparr>ht_funct_list := list_add_after e i (ht_funct_list t)\<rparr>)"
      using thread_after_add [OF data_wf_distinct(3) [OF dw] find_thread_in [OF t], of "\<lambda>t. t\<lparr>ht_funct_list := list_add_after e i (ht_funct_list t)\<rparr>"] t
      by (simp add: halpr_find_thread_by_name_def d'_def upd_funct_def upd_thread_def)
    ultimately show ?thesis unfolding Some option.case
      by (intro exI [of _ "d'\<lparr>hd_mutex := False\<rparr>"] exI [of _ "t\<lparr>ht_funct_list := list_add_after e i (ht_funct_list t)\<rparr>"]
          exI [of _ e] conjI) (simp_all add: list_add_after_def e_def)
  qed
qed

definition funct_ex :: hal_funct where
  "funct_ex = \<lparr>hf_off = 1000, hf_uses_fp = 0, hf_owner = 900, hf_reentrant = 1, hf_users = 0, hf_arg = 7, hf_funct = 8,
     hf_maxtime = 0, hf_maxtime_increased = False, hf_name = ''f''\<rparr>"

definition thread_ex :: hal_thread where
  "thread_ex = (thread_new 800)\<lparr>ht_name := ''t''\<rparr>"

definition data_ex :: hal_data where
  "data_ex = data_zero\<lparr>hd_shmem_top := 700, hd_comp_list := [comp_new 900], hd_funct_list := [funct_ex],
     hd_thread_list := [thread_ex], hd_funct_entry_free := [\<lparr>fe_off = 850, fe_arg = 0, fe_funct = 0, fe_funct_ptr = 0\<rparr>]\<rparr>"

lemma data_ex_wf: "hal_wf data_ex"
  by (simp add: hal_wf_data data_wf_simps data_ex_def data_zero_def offs_defs arena_def shm_ok_def SIZEOF_DATA_def
      HAL_SIZE_def functs_wf_def named_sorted_def entries_def calls_def thread_ex_def thread_new_def funct_ex_def comp_new_def)

theorem add_funct_position_witness:
  "\<exists>d' t'. hal_add_funct_to_thread (Some ''f'') (Some ''t'') 1 data_ex = Some (0, d') \<and>
     halpr_find_thread_by_name ''t'' d' = Some t' \<and> length (ht_funct_list t') = 1"
proof -
  have "\<not> lock_denies HAL_LOCK_CONFIG data_ex"
    by (simp add: lock_denies_def data_ex_def data_zero_def HAL_LOCK_NONE_def)
  moreover have "halpr_find_funct_by_name ''f'' data_ex = Some funct_ex"
    by (simp add: halpr_find_funct_by_name_def data_ex_def funct_ex_def)
  moreover have "halpr_find_thread_by_name ''t'' data_ex = Some thread_ex"
    by (simp add: halpr_find_thread_by_name_def data_ex_def thread_ex_def)
  moreover have "hd_funct_entry_free data_ex \<noteq> []" by (simp add: data_ex_def)
  moreover have "ht_funct_list thread_ex = []" by (simp add: thread_ex_def thread_new_def)
  ultimately show ?thesis
    using add_funct_position [OF data_ex_wf, of "''f''" funct_ex "''t''" thread_ex 1]
    by (auto simp: position_index_def funct_ex_def)
qed

section \<open>Components without names\<close>

text \<open>Memory is zero where it is new and the name is cleared where it is not: nothing ever sets it.\<close>

definition unnamed :: "hal_data \<Rightarrow> bool" where
  "unnamed d \<longleftrightarrow> (\<forall>c \<in> set (hd_comp_list d). hc_name c = [])"

lemma enter_comp_unnamed:
  assumes "unnamed d" "enter_comp n cid d = Some (r, d')"
  shows "unnamed d'"
proof -
  have "hc_name (comp_reset c) = []" "hc_name (comp_new off) = []" for c off
    by (simp_all add: comp_reset_def comp_new_def)
  then have new: "hc_name c = []" if "halpr_alloc_comp_struct e = (Some c, e')" for e e' c
    using that by (auto simp: halpr_alloc_comp_struct_def split: list.splits prod.splits)
  have keep: "hd_comp_list e' = hd_comp_list e" if "halpr_alloc_comp_struct e = (p, e')" for e e' p
    using that by (auto simp: halpr_alloc_comp_struct_def shmalloc_dn_def Let_def split: list.splits prod.splits if_splits)
  let ?L = "d\<lparr>hd_mutex := True\<rparr>"
  obtain p e1 where al: "halpr_alloc_comp_struct ?L = (p, e1)" by fastforce
  note step = assms(2) [unfolded enter_comp_def locked_def al]
  have u: "unnamed ?L" "unnamed e1" using assms(1) keep [OF al] by (simp_all add: unnamed_def)
  show ?thesis
  proof (cases "halpr_find_comp_by_name (copy_name n) ?L")
    case (Some c)
    with step have "d' = ?L\<lparr>hd_mutex := False\<rparr>" by (auto split: if_splits)
    with u show ?thesis by (simp add: unnamed_def)
  next
    case none: None
    show ?thesis
    proof (cases p)
      case None
      with step none have "d' = e1\<lparr>hd_mutex := False\<rparr>" by (auto split: if_splits)
      with u show ?thesis by (simp add: unnamed_def)
    next
      case (Some c)
      with step none have "hd_comp_list d' = c\<lparr>hc_comp_id := cid, hc_type := COMPONENT_TYPE_REALTIME, hc_pid := 0, hc_ready := 0,
                  hc_shmem_base := True, hc_insmod_args := 0\<rparr> # hd_comp_list e1" by (auto split: if_splits)
      with u new [OF al [unfolded Some]] show ?thesis by (simp add: unnamed_def)
    qed
  qed
qed

lemma unnamed_no_clash: "unnamed d \<Longrightarrow> n \<noteq> [] \<Longrightarrow> halpr_find_comp_by_name n d = None"
  by (auto simp: unnamed_def halpr_find_comp_by_name_def find_None_iff)

lemma enter_comp_ok:
  assumes "unnamed d" "\<not> hd_mutex d" "name \<noteq> []" "SIZEOF_COMP + 15 \<le> hd_shmem_top d - hd_shmem_bot d" "hd_comp_free d = []"
  shows "\<exists>c d'. enter_comp name cid d = Some (cid, d') \<and> hc_name c = [] \<and> hc_comp_id c = cid \<and>
      hd_comp_list d' = c # hd_comp_list d \<and> \<not> hd_mutex d' \<and> hd_comp_free d' = [] \<and>
      hd_shmem_top d - SIZEOF_COMP - 15 \<le> hd_shmem_top d' \<and> hd_shmem_bot d' = hd_shmem_bot d"
proof -
  let ?L = "d\<lparr>hd_mutex := True\<rparr>"
  have "copy_name name \<noteq> []" using assms(3) by (simp add: copy_name_def HAL_NAME_LEN_def)
  moreover have "unnamed ?L" using assms(1) by (simp add: unnamed_def)
  ultimately have none: "halpr_find_comp_by_name (copy_name name) ?L = None" by (intro unnamed_no_clash)
  define off where "off = align_dn 16 (hd_shmem_top d - SIZEOF_COMP)"
  have al: "alignment SIZEOF_COMP = 16" by (simp add: alignment_def SIZEOF_COMP_def)
  have "hd_shmem_top d - SIZEOF_COMP - 15 \<le> off"
    using pos_mod_bound [of 16 "hd_shmem_top d - SIZEOF_COMP"] by (simp add: off_def align_dn_def)
  moreover from this have "halpr_alloc_comp_struct ?L =
      (Some (comp_new off), ?L\<lparr>hd_shmem_top := off, hd_shmem_avail := off - hd_shmem_bot d\<rparr>)"
    using assms(4,5) by (simp add: halpr_alloc_comp_struct_def shmalloc_dn_def al Let_def flip: off_def)
  ultimately show ?thesis using assms(2,5) none
    by (simp add: enter_comp_def locked_def comp_new_def)
qed

text \<open>
  No component of the library has a name: as long as there is memory, entering a second component under a name
  that is in use succeeds, and asking for the name of either gives the empty string.
\<close>

theorem comp_names_lost:
  assumes "unnamed d" "\<not> hd_mutex d" "name \<noteq> []" "c1 \<noteq> c2"
    and room: "2 * (SIZEOF_COMP + 15) \<le> hd_shmem_top d - hd_shmem_bot d" "hd_comp_free d = []"
  shows "\<exists>d1 d2. enter_comp name c1 d = Some (c1, d1) \<and> enter_comp name c2 d1 = Some (c2, d2) \<and>
    hal_comp_name c1 d2 = Some (Some [], d2) \<and> hal_comp_name c2 d2 = Some (Some [], d2)"
proof -
  have "SIZEOF_COMP + 15 \<le> hd_shmem_top d - hd_shmem_bot d" using room(1) by (simp add: SIZEOF_COMP_def)
  from enter_comp_ok [OF assms(1-3) this room(2), of c1] obtain x1 d1 where
    d1: "enter_comp name c1 d = Some (c1, d1)" "hc_name x1 = []" "hc_comp_id x1 = c1" "hd_comp_list d1 = x1 # hd_comp_list d"
      "\<not> hd_mutex d1" "hd_comp_free d1 = []" "hd_shmem_top d - SIZEOF_COMP - 15 \<le> hd_shmem_top d1"
      "hd_shmem_bot d1 = hd_shmem_bot d" by blast
  have "unnamed d1" by (rule enter_comp_unnamed [OF assms(1) d1(1)])
  moreover have "SIZEOF_COMP + 15 \<le> hd_shmem_top d1 - hd_shmem_bot d1" using room(1) d1(7,8) by (simp add: SIZEOF_COMP_def)
  ultimately obtain x2 d2 where
    d2: "enter_comp name c2 d1 = Some (c2, d2)" "hc_name x2 = []" "hc_comp_id x2 = c2" "hd_comp_list d2 = x2 # hd_comp_list d1"
      "\<not> hd_mutex d2" using enter_comp_ok [OF _ d1(5) assms(3) _ d1(6), of c2] by blast
  have "d2\<lparr>hd_mutex := True, hd_mutex := False\<rparr> = d2" using d2(5) by (cases d2) simp
  with d1 d2 assms(4) show ?thesis
    by (simp add: hal_comp_name_def locked_def halpr_find_comp_by_id_def)
qed

theorem comp_names_lost_witness:
  "\<exists>d1 d2. enter_comp ''watchdog'' 1 data_zero = Some (1, d1) \<and> enter_comp ''watchdog'' 2 d1 = Some (2, d2) \<and>
     hal_comp_name 2 d2 = Some (Some [], d2)"
  using comp_names_lost [of data_zero "''watchdog''" 1 2]
  by (auto simp: unnamed_def data_zero_def SIZEOF_COMP_def SIZEOF_DATA_def HAL_SIZE_def)

section \<open>Threads that stay\<close>

text \<open>What the calls after the thread has been entered leave: the threads, the functions and the lock.\<close>

definition keeps :: "hal_data \<Rightarrow> hal_data \<Rightarrow> bool" where
  "keeps d d' \<longleftrightarrow> hd_thread_list d' = hd_thread_list d \<and> hd_lock d' = hd_lock d \<and> hd_funct_list d' = hd_funct_list d"

lemma keeps_locked:
  assumes "locked f d = Some (r, d')" "\<And>d r d'. f d = Some (r, d') \<Longrightarrow> keeps d d'"
  shows "keeps d d'"
  using assms(1) assms(2) [of "d\<lparr>hd_mutex := True\<rparr>"]
  by (auto simp: locked_def keeps_def split: if_splits option.splits)

lemma shmalloc_dn_keeps: "shmalloc_dn sz d = (p, d') \<Longrightarrow> keeps d d'"
  by (auto simp: shmalloc_dn_def Let_def keeps_def split: if_splits)

lemma keeps_trans: "keeps d e \<Longrightarrow> keeps e e' \<Longrightarrow> keeps d e'"
  by (simp add: keeps_def)

lemma keeps_alloc:
  "alloc_param_struct d = (p, d') \<Longrightarrow> keeps d d'"
  "alloc_pin_struct d = (q, d') \<Longrightarrow> keeps d d'"
  "halpr_alloc_comp_struct d = (c, d') \<Longrightarrow> keeps d d'"
  by (auto simp: alloc_param_struct_def alloc_pin_struct_def halpr_alloc_comp_struct_def keeps_def store_cell_def
      split: list.splits prod.splits option.splits dest!: shmalloc_dn_keeps)

lemma keeps_param_locked:
  assumes "param_locked name ty dir addr cid d = Some (r, d')"
  shows "keeps d d'"
proof -
  obtain p d1 where al: "alloc_param_struct d = (p, d1)" by fastforce
  have k: "keeps d d1" by (rule keeps_alloc(1) [OF al])
  have free: "keeps d1 (free_param_struct q d1)" "keeps d1 (d1\<lparr>hd_param_list := l\<rparr>)" for q l
    by (simp_all add: keeps_def free_param_struct_def)
  have "d' = d \<or> d' = d1 \<or> (\<exists>q. d' = free_param_struct q d1) \<or> (\<exists>l. d' = d1\<lparr>hd_param_list := l\<rparr>)"
  proof (cases "halpr_find_comp_by_id cid d")
    case None
    with assms show ?thesis by (simp add: param_locked_def)
  next
    case (Some c)
    note step = assms [unfolded param_locked_def Some option.case al prod.case Let_def]
    show ?thesis
    proof (cases p)
      case None
      with step show ?thesis by (simp split: if_splits)
    next
      case (Some q)
      with step show ?thesis by (simp split: if_splits option.splits) (blast+)?
    qed
  qed
  with k free keeps_trans [OF k] show ?thesis by (auto simp: keeps_def)
qed

lemma keeps_pin_locked:
  assumes "pin_locked name ty addr cid d = Some (r, d')"
  shows "keeps d d'"
proof -
  obtain p d1 where al: "alloc_pin_struct d = (p, d1)" by fastforce
  have k: "keeps d d1" by (rule keeps_alloc(2) [OF al])
  have st: "keeps d1 (free_pin_struct q (store_cell a b (store_cell a' b' d1)))"
    "keeps d1 ((store_cell a b (store_cell a' b' d1))\<lparr>hd_pin_list := l\<rparr>)" for q l a b a' b'
    by (simp_all add: keeps_def free_pin_struct_def store_cell_def)
  have "d' = d \<or> d' = d1 \<or> (\<exists>q a b a' b'. d' = free_pin_struct q (store_cell a b (store_cell a' b' d1))) \<or>
    (\<exists>l a b a' b'. d' = (store_cell a b (store_cell a' b' d1))\<lparr>hd_pin_list := l\<rparr>)"
  proof (cases "halpr_find_comp_by_id cid d")
    case None
    with assms show ?thesis by (simp add: pin_locked_def)
  next
    case (Some c)
    note step = assms [unfolded pin_locked_def Some option.case al prod.case Let_def]
    show ?thesis
    proof (cases p)
      case None
      with step show ?thesis by (simp split: if_splits)
    next
      case (Some q)
      with step show ?thesis by (simp split: if_splits option.splits) (blast+)?
    qed
  qed
  with k st keeps_trans [OF k] show ?thesis by (auto simp: keeps_def)
qed

lemma keeps_refl [simp]: "keeps d d"
  by (simp add: keeps_def)

lemma keeps_calls:
  "hal_param_new name ty dir addr cid d = Some (r, d') \<Longrightarrow> keeps d d'"
  "hal_pin_newf ty addr cid name d = Some (r, d') \<Longrightarrow> keeps d d'"
  "hal_ready cid d = Some (r, d') \<Longrightarrow> keeps d d'"
  "store_through p v d = Some d' \<Longrightarrow> keeps d d'"
proof -
  assume "hal_param_new name ty dir addr cid d = Some (r, d')"
  then show "keeps d d'" using keeps_locked [OF _ keeps_param_locked] by (auto simp: hal_param_new_def split: if_splits)
next
  assume "hal_pin_newf ty addr cid name d = Some (r, d')"
  then show "keeps d d'" using keeps_locked [OF _ keeps_pin_locked]
    by (auto simp: hal_pin_newf_def hal_pin_new_def split: if_splits)
next
  assume "hal_ready cid d = Some (r, d')"
  then show "keeps d d'" unfolding hal_ready_def
    by (rule keeps_locked) (auto simp: keeps_def upd_comp_def split: option.splits if_splits)
next
  assume "store_through p v d = Some d'"
  then show "keeps d d'" by (auto simp: store_through_def keeps_def store_cell_def split: if_splits)
qed

lemma keeps_enter_comp: "enter_comp name cid d = Some (r, d') \<Longrightarrow> keeps d d'"
  unfolding enter_comp_def
proof (erule keeps_locked)
  fix d r d'
  assume step: "(case halpr_find_comp_by_name (copy_name name) d of
       Some _ \<Rightarrow> Some (- EINVAL, d)
     | None \<Rightarrow>
         (case halpr_alloc_comp_struct d of
            (None, d1) \<Rightarrow> Some (- ENOMEM, d1)
          | (Some c, d1) \<Rightarrow>
              Some (cid, d1\<lparr>hd_comp_list :=
                c\<lparr>hc_comp_id := cid, hc_type := COMPONENT_TYPE_REALTIME, hc_pid := 0, hc_ready := 0,
                  hc_shmem_base := True, hc_insmod_args := 0\<rparr> # hd_comp_list d1\<rparr>))) = Some (r, d')"
  obtain p d1 where al: "halpr_alloc_comp_struct d = (p, d1)" by fastforce
  from keeps_alloc(3) [OF al] step al show "keeps d d'"
    by (cases "halpr_find_comp_by_name (copy_name name) d"; cases p) (auto simp: keeps_def)
qed

text \<open>
  The thread at the head of the list is the one of that name and period, at that offset, of that component, and it
  calls nothing yet.
\<close>

definition heads :: "string \<Rightarrow> int \<Rightarrow> int \<Rightarrow> int \<Rightarrow> int \<Rightarrow> hal_data \<Rightarrow> bool" where
  "heads name period fp off cid d \<longleftrightarrow> hd_thread_list d \<noteq> [] \<and> ht_name (hd (hd_thread_list d)) = name \<and>
     ht_off (hd (hd_thread_list d)) = off \<and> ht_comp_id (hd (hd_thread_list d)) = cid \<and>
     ht_period (hd (hd_thread_list d)) = period \<and> ht_uses_fp (hd (hd_thread_list d)) = fp \<and>
     ht_funct_list (hd (hd_thread_list d)) = []"

lemma heads_keeps: "heads name period fp off cid d \<Longrightarrow> keeps d d' \<Longrightarrow> heads name period fp off cid d'"
  by (simp add: heads_def keeps_def)

lemma heads_delete:
  assumes "heads name period fp off cid (hs_seg s)" "cid \<noteq> 0" "hs_mapped s" "\<not> lock_denies HAL_LOCK_CONFIG (hs_seg s)"
  shows "hal_thread_delete os name s = None"
proof -
  from assms(1) obtain t ts where t: "hd_thread_list (hs_seg s) = t # ts" "ht_name t = name" "ht_comp_id t = cid"
    by (cases "hd_thread_list (hs_seg s)") (auto simp: heads_def)
  then have "halpr_find_thread_by_name name (hs_seg s) = Some t" by (simp add: halpr_find_thread_by_name_def)
  moreover have "hal_exit os cid (upd_seg (\<lambda>d. d\<lparr>hd_mutex := True\<rparr>) s) = None"
    using assms(3) by (intro exit_under_mutex) (simp_all add: upd_seg_def)
  ultimately show ?thesis using assms t by (simp add: hal_thread_delete_def Let_def)
qed

lemma on_data_heads:
  assumes "on_data f s = Some (r, s')" "\<And>d r d'. f d = Some (r, d') \<Longrightarrow> keeps d d'" "hs_mapped s"
  shows "keeps (hs_seg s) (hs_seg s') \<and> hs_mapped s'"
  using assms by (auto simp: on_data_def split: if_splits)

lemma enter_thread_heads:
  assumes step: "enter_thread tos name period fp prio s = Some ((0, off), s')" and len: "length name \<le> HAL_NAME_LEN"
  shows "\<exists>j. heads name period fp off j (hs_seg s')"
    "hd_lock (hs_seg s') = hd_lock (hs_seg s)" "hs_mapped s' = hs_mapped s" "hs_lib_mem_id s' = hs_lib_mem_id s"
proof -
  let ?d = "hs_seg s"
  obtain p d1 where al: "alloc_thread_struct ?d = (p, d1)" by fastforce
  obtain t where p: "p = Some t"
    using step al by (cases p) (auto simp: enter_thread_def EINVAL_def ENOMEM_def split: if_splits)
  have lk: "hd_lock d1 = hd_lock ?d"
    using al by (auto simp: alloc_thread_struct_def shmalloc_dn_def Let_def split: list.splits prod.splits if_splits)
  have fresh: "ht_funct_list t = []"
    using al p by (auto simp: alloc_thread_struct_def thread_new_def thread_reset_def split: list.splits prod.splits)
  define t1 where "t1 = t\<lparr>ht_uses_fp := fp, ht_name := copy_name name, ht_period := period, ht_priority := prio\<rparr>"
  obtain r1 s2 where c: "(if hd_thread_list d1 = [] then set_base_clock period (s\<lparr>hs_seg := d1\<rparr>) else (0, s\<lparr>hs_seg := d1\<rparr>)) = (r1, s2)"
    by fastforce
  have s2: "hs_seg s2 = d1" "hs_mapped s2 = hs_mapped s" "hs_lib_mem_id s2 = hs_lib_mem_id s"
    using c by (auto simp: set_base_clock_def rtapi_clock_set_period_def Let_def split: if_splits)
  obtain tid ts where tn: "rtapi_task_new tos (ht_off t1) prio (hs_lib_module_id s2) HAL_STACKSIZE fp (hs_tasks s2) = (tid, ts)"
    by fastforce
  obtain r2 ts2 where tst: "rtapi_task_start tos tid period ts = (r2, ts2)" by fastforce
  have nt: "(\<exists>t \<in> set (hd_thread_list ?d). ht_name t = name) = False" "hd_mutex ?d = False"
    using step by (auto simp: enter_thread_def EINVAL_def split: if_splits)
  from step have "(if r1 \<noteq> 0 then Some ((r1, 0), s2) else if tid < 0 then Some ((- EINVAL, 0), s2\<lparr>hs_tasks := ts\<rparr>)
      else if r2 < 0 then Some ((- EINVAL, 0), s2\<lparr>hs_tasks := ts\<rparr>\<lparr>hs_tasks := ts2\<rparr>)
      else Some ((0, ht_off t1), upd_seg (\<lambda>d. d\<lparr>hd_thread_list := t1\<lparr>ht_task_id := tid\<rparr> # hd_thread_list d\<rparr>)
             (s2\<lparr>hs_tasks := ts\<rparr>\<lparr>hs_tasks := ts2\<rparr>))) = Some ((0, off), s')"
    unfolding enter_thread_def nt al p if_False option.case prod.case Let_def c t1_def [symmetric] tn tst .
  then have out: "off = ht_off t1" "s' = upd_seg (\<lambda>d. d\<lparr>hd_thread_list := t1\<lparr>ht_task_id := tid\<rparr> # hd_thread_list d\<rparr>)
             (s2\<lparr>hs_tasks := ts\<rparr>\<lparr>hs_tasks := ts2\<rparr>)"
    by (auto simp: EINVAL_def split: if_splits)
  then show "\<exists>j. heads name period fp off j (hs_seg s')"
    using len fresh by (simp add: heads_def upd_seg_def t1_def copy_name_def)
  show "hd_lock (hs_seg s') = hd_lock (hs_seg s)" "hs_mapped s' = hs_mapped s" "hs_lib_mem_id s' = hs_lib_mem_id s"
    using out s2 lk by (simp_all add: upd_seg_def)
qed

lemma enter_thread_result: "enter_thread tos name period fp prio s = Some ((r, off), s') \<Longrightarrow> r \<le> 0"
  by (auto simp: enter_thread_def Let_def set_base_clock_def EINVAL_def ENOMEM_def split: if_splits option.splits prod.splits)

lemma heads_maxtime:
  assumes "heads name period fp off j (hs_seg s)"
  shows "heads name period fp off j (hs_seg (upd_seg (upd_thread off (\<lambda>t. t\<lparr>ht_maxtime := 0\<rparr>)) s))"
proof -
  from assms obtain t ts where "hd_thread_list (hs_seg s) = t # ts" "ht_name t = name" "ht_off t = off" "ht_comp_id t = j"
    "ht_period t = period" "ht_uses_fp t = fp" "ht_funct_list t = []"
    by (cases "hd_thread_list (hs_seg s)") (auto simp: heads_def)
  then show ?thesis by (simp add: heads_def upd_seg_def upd_thread_def)
qed

lemma hal_init_keeps:
  assumes "hal_init os name s = Some (r, s')" "hs_lib_mem_id s \<noteq> 0"
  shows "keeps (hs_seg s) (hs_seg s') \<and> hs_mapped s' = hs_mapped s"
proof (cases "\<exists>n. name = Some n \<and> \<not> length n > HAL_NAME_LEN")
  case False
  with assms show ?thesis by (cases name) (auto simp: hal_init_def)
next
  case True
  then obtain n where n: "name = Some n" "\<not> length n > HAL_NAME_LEN" by blast
  obtain cid rt where i: "rtapi_init os (hs_rt s) = Some (cid, rt)"
    using assms n by (cases "rtapi_init os (hs_rt s)") (auto simp: hal_init_def)
  show ?thesis
  proof (cases "cid < 0")
    case True
    with assms n i have "s' = s\<lparr>hs_rt := rt\<rparr>" by (simp add: hal_init_def)
    then show ?thesis by simp
  next
    case False
    with assms n i have mp: "hs_mapped s" by (auto simp: hal_init_def Let_def split: if_splits)
    obtain r2 d where d: "enter_comp n cid (hs_seg s) = Some (r2, d)"
      using assms n i False mp by (cases "enter_comp n cid (hs_seg s)") (auto simp: hal_init_def Let_def)
    from keeps_enter_comp [OF this] have "keeps (hs_seg s) d" .
    moreover have "hs_seg s' = d" "hs_mapped s' = hs_mapped s"
      using assms n i False mp d by (auto simp: hal_init_def Let_def split: if_splits)
    ultimately show ?thesis by simp
  qed
qed

lemma heads_set_comp:
  assumes "heads name period fp off j (hs_seg s)"
  shows "heads name period fp off cid (hs_seg (set_thread_comp off cid s))"
proof -
  from assms obtain t ts where "hd_thread_list (hs_seg s) = t # ts" "ht_name t = name" "ht_off t = off"
    "ht_period t = period" "ht_uses_fp t = fp" "ht_funct_list t = []"
    by (cases "hd_thread_list (hs_seg s)") (auto simp: heads_def)
  then show ?thesis by (simp add: heads_def set_thread_comp_def upd_seg_def upd_thread_def)
qed

lemma hal_create_thread_heads:
  assumes step: "hal_create_thread os tos name period fp prio s = Some (cid, s')" and ok: "0 \<le> cid" and id: "hs_lib_mem_id s \<noteq> 0"
  shows "\<exists>off. heads name period fp off cid (hs_seg s')"
    and "hs_mapped s'" "hd_lock (hs_seg s') = hd_lock (hs_seg s)" "\<not> lock_denies HAL_LOCK_CONFIG (hs_seg s')"
    "length name \<le> HAL_NAME_LEN"
proof -
  from ok step have pre: "hs_mapped s" "period \<noteq> 0" "\<not> length name > HAL_NAME_LEN" "\<not> lock_denies HAL_LOCK_CONFIG (hs_seg s)"
    by (auto simp: hal_create_thread_def EINVAL_def EPERM_def split: if_splits)
  note step' = step [unfolded hal_create_thread_def]
  obtain r1 off s1 where s1: "enter_thread tos name period fp prio s = Some ((r1, off), s1)"
    using step' pre by (cases "enter_thread tos name period fp prio s") auto
  have "r1 = 0"
  proof (rule ccontr)
    assume "r1 \<noteq> 0"
    with step' pre s1 have "cid = r1" by simp
    with enter_thread_result [OF s1] ok \<open>r1 \<noteq> 0\<close> show False by simp
  qed
  with s1 have s1: "enter_thread tos name period fp prio s = Some ((0, off), s1)" by simp
  have len: "length name \<le> HAL_NAME_LEN" using pre(3) by simp
  from enter_thread_heads [OF s1 len] obtain j where h1: "heads name period fp off j (hs_seg s1)"
    and l1: "hd_lock (hs_seg s1) = hd_lock (hs_seg s)" "hs_mapped s1" "hs_lib_mem_id s1 \<noteq> 0" using pre(1) id by auto
  let ?n = "copy_name (HAL_PSEUDO_COMP_PREFIX @ copy_name name)"
  obtain cid1 s2 where s2: "hal_init os (Some ?n) s1 = Some (cid1, s2)"
    using step' pre s1 by (cases "hal_init os (Some ?n) s1") auto
  from hal_init_keeps [OF s2 l1(3)] l1(2) have k2: "keeps (hs_seg s1) (hs_seg s2)" "hs_mapped s2" by simp_all
  define s3 where "s3 = upd_seg (upd_thread off (\<lambda>t. t\<lparr>ht_maxtime := 0\<rparr>)) (set_thread_comp off cid1 s2)"
  have h3: "heads name period fp off cid1 (hs_seg s3)"
    using heads_set_comp [OF heads_keeps [OF h1 k2(1)], of cid1] unfolding s3_def by (rule heads_maxtime)
  have l3: "hs_mapped s3" "hd_lock (hs_seg s3) = hd_lock (hs_seg s)"
    using k2 l1(1) by (simp_all add: s3_def set_thread_comp_def upd_seg_def upd_thread_def keeps_def)
  have cid1: "\<not> cid1 < 0" using step' pre s1 s2 ok by (auto simp: EINVAL_def Let_def split: if_splits)
  let ?f4 = "hal_param_s32_new (copy_name (copy_name name @ ''.tmax'')) HAL_RW HAL_S32 (thread_maxtime off) cid1"
  obtain r4 s4 where s4: "on_data ?f4 s3 = Some (r4, s4)"
    using step' pre s1 s2 cid1 by (cases "on_data ?f4 s3") (auto simp: Let_def s3_def)
  have k4: "keeps (hs_seg s3) (hs_seg s4) \<and> hs_mapped s4"
    by (rule on_data_heads [OF s4 _ l3(1)]) (auto simp: hal_param_s32_new_def dest: keeps_calls(1))
  have r4: "r4 = 0" using step' pre s1 s2 cid1 s4 ok by (auto simp: Let_def s3_def EINVAL_def split: if_splits)
  let ?f5 = "hal_pin_newf HAL_S32 (thread_runtime off) cid1 (copy_name name @ ''.time'')"
  obtain r5 s5 where s5: "on_data ?f5 s4 = Some (r5, s5)"
    using step' pre s1 s2 cid1 s4 r4 by (cases "on_data ?f5 s4") (auto simp: Let_def s3_def)
  have k5: "keeps (hs_seg s4) (hs_seg s5) \<and> hs_mapped s5"
    using k4 by (intro on_data_heads [OF s5]) (auto dest: keeps_calls(2))
  have r5: "r5 = 0" using step' pre s1 s2 cid1 s4 r4 s5 ok by (auto simp: Let_def s3_def EINVAL_def split: if_splits)
  obtain d where d: "store_through (thread_runtime off) 0 (hs_seg s5) = Some d"
    using step' pre s1 s2 cid1 s4 r4 s5 r5
    by (cases "store_through (thread_runtime off) 0 (hs_seg s5)") (auto simp: Let_def s3_def)
  obtain r6 where s6: "on_data (hal_ready cid1) (s5\<lparr>hs_seg := d\<rparr>) = Some (r6, s')" and "cid1 = cid"
    using step' pre s1 s2 cid1 s4 r4 s5 r5 d
    by (cases "on_data (hal_ready cid1) (s5\<lparr>hs_seg := d\<rparr>)") (auto simp: Let_def s3_def)
  have k6: "keeps d (hs_seg s') \<and> hs_mapped s'"
    using on_data_heads [OF s6 keeps_calls(3)] k5 by simp
  have k: "keeps (hs_seg s3) (hs_seg s')"
    using k4 k5 k6 keeps_calls(4) [OF d] by (simp add: keeps_def)
  show "\<exists>off. heads name period fp off cid (hs_seg s')" using heads_keeps [OF h3 k] \<open>cid1 = cid\<close> by blast
  show "hs_mapped s'" using k6 by simp
  show l: "hd_lock (hs_seg s') = hd_lock (hs_seg s)" using l3(2) k by (simp add: keeps_def)
  show "\<not> lock_denies HAL_LOCK_CONFIG (hs_seg s')" using pre(4) l by (simp add: lock_denies_def)
  show "length name \<le> HAL_NAME_LEN" by (rule len)
qed

text \<open>
  C30: A thread that was created cannot be deleted again: on the state that a successful creation returns, the
  deletion of that thread calls the exit of its component with the mutex held and never returns.
\<close>

theorem created_thread_stays:
  assumes step: "hal_create_thread os tos name period fp prio s = Some (cid, s')" and ok: "0 < cid" and id: "hs_lib_mem_id s \<noteq> 0"
  shows "hal_thread_delete os' name s' = None"
proof -
  obtain off where "heads name period fp off cid (hs_seg s')"
    using hal_create_thread_heads(1) [OF step] ok id by auto
  then show ?thesis
    using heads_delete hal_create_thread_heads(2,4) [OF step] ok id by simp
qed

definition created_ex :: "(int \<times> hal_sys) option" where
  "created_ex = Option.bind (hal_app_main os_one hal_blank)
     (\<lambda>(_, s). hal_create_thread os_one tos_ok ''servo'' 1000000 1 50 s)"

lemma created_ex_runs:
  "(case hal_app_main os_one hal_blank of Some (_, s) \<Rightarrow> hs_lib_mem_id s = 1 | None \<Rightarrow> False) \<and>
   (case created_ex of Some (cid, _) \<Rightarrow> 0 < cid | None \<Rightarrow> False)"
  by code_simp

theorem created_thread_stays_witness:
  "\<exists>s s' cid. hal_create_thread os_one tos_ok ''servo'' 1000000 1 50 s = Some (cid, s') \<and> 0 < cid \<and>
     hal_thread_delete os_one ''servo'' s' = None"
proof -
  obtain r s where s: "hal_app_main os_one hal_blank = Some (r, s)" "hs_lib_mem_id s = 1"
    using created_ex_runs by (auto split: option.splits)
  then obtain cid s' where c: "hal_create_thread os_one tos_ok ''servo'' 1000000 1 50 s = Some (cid, s')" "0 < cid"
    using created_ex_runs by (auto simp: created_ex_def split: option.splits)
  have "hs_lib_mem_id s \<noteq> 0" using s(2) by simp
  from created_thread_stays [OF c(1,2) this, of os_one] c show ?thesis by blast
qed

section \<open>Pins that stay\<close>

text \<open>
  A component that exits takes its functions and its parameters with it, but the list of pins is as it was:
  the pins it owned stay, with their names.
\<close>

theorem exit_keeps_pins:
  assumes wf: "hal_wf (hs_seg s)" and mp: "hs_mapped s" and c: "halpr_find_comp_by_id cid (hs_seg s) = Some c"
  shows "\<exists>s'. hal_exit os cid s = Some (0, s') \<and> hd_pin_list (hs_seg s') = hd_pin_list (hs_seg s) \<and>
    hd_comp_list (hs_seg s') = remove1 c (hd_comp_list (hs_seg s)) \<and>
    hd_funct_list (hs_seg s') = filter (\<lambda>f. hf_owner f \<noteq> hc_off c) (hd_funct_list (hs_seg s)) \<and>
    hd_param_list (hs_seg s') = filter (\<lambda>p. hp_owner p \<noteq> hc_off c) (hd_param_list (hs_seg s))"
proof -
  let ?L = "(hs_seg s)\<lparr>hd_mutex := True\<rparr>"
  have mx: "\<not> hd_mutex (hs_seg s)" and d: "data_wf ?L" using wf by (simp_all add: hal_wf_data)
  have f: "halpr_find_comp_by_id cid ?L = Some c" using c by (simp add: halpr_find_comp_by_id_def)
  note l = free_comp_lists [OF d, of c]
  show ?thesis using mp mx f l
    by (simp add: hal_exit_def locked_def Let_def)
qed

theorem exit_keeps_pins_witness:
  "\<exists>s'. hal_exit os_one 0 (hal_blank\<lparr>hs_mapped := True, hs_seg := data_ex\<lparr>hd_pin_list := [pin_new 600]\<rparr>\<rparr>) = Some (0, s') \<and>
     hd_pin_list (hs_seg s') = [pin_new 600] \<and> hd_comp_list (hs_seg s') = []"
proof -
  let ?d = "data_ex\<lparr>hd_pin_list := [pin_new 600]\<rparr>"
  have "hal_wf ?d" using data_ex_wf
    by (simp add: hal_wf_data data_wf_simps offs_defs shm_ok_def named_sorted_def)
  moreover have "halpr_find_comp_by_id 0 ?d = Some (comp_new 900)"
    by (simp add: halpr_find_comp_by_id_def data_ex_def comp_new_def)
  moreover have "hd_comp_list ?d = [comp_new 900]" by (simp add: data_ex_def)
  ultimately show ?thesis
    using exit_keeps_pins [of "hal_blank\<lparr>hs_mapped := True, hs_seg := ?d\<rparr>" 0 "comp_new 900" os_one] by auto
qed

end
