(* ===== verification/Tc.thy ===== *)
theory Tc
  imports MotionState
begin

text \<open>
  One segment of a trajectory: \<open>TC_STRUCT\<close> of \<open>tp/tc_types.h\<close> and the functions of \<open>tp/tc.c\<close>. The union
  \<open>coords\<close> is a datatype, and \<open>motion_type\<close>, which says which member of the union is in use, is read off
  its constructor; \<open>tcInit\<close> is given the member it announces. A pointer that the code tests for NULL is
  an option.
\<close>

section \<open>Data\<close>

record pm_line9 =
  l9_xyz :: pm_cart_line
  l9_abc :: pm_cart_line
  l9_uvw :: pm_cart_line

record pm_circle9 =
  c9_xyz :: pm_circle
  c9_abc :: pm_cart_line
  c9_uvw :: pm_cart_line
  c9_fit :: spiral_fit

record arc9 =
  a9_xyz :: sph_arc
  a9_abc :: pm_cart
  a9_uvw :: pm_cart

datatype rigidtap_state = RIGIDTAP_START | TAPPING | REVERSING | RETRACTION | FINAL_REVERSAL | FINAL_PLACEMENT

record pm_rigidtap =
  rt_xyz :: pm_cart_line
  rt_aux_xyz :: pm_cart_line
  rt_abc :: pm_cart
  rt_uvw :: pm_cart
  rt_reversal_target :: real
  rt_reversal_scale :: real
  rt_spindlerevs_at_reversal :: real
  rt_state :: rigidtap_state

datatype tc_coords = Line9 pm_line9 | Circle9 pm_circle9 | RigidTap pm_rigidtap | SphArc9 arc9

datatype motion_type = TC_LINEAR | TC_CIRCULAR | TC_RIGIDTAP | TC_SPHERICAL

record tc_struct =
  tc_cycle_time :: real
  tc_target :: real
  tc_progress :: real
  tc_nominal_length :: real
  tc_reqvel :: real
  tc_target_vel :: real
  tc_maxvel :: real
  tc_currentvel :: real
  tc_finalvel :: real
  tc_term_vel :: real
  tc_kink_vel :: real
  tc_kink_accel_reduce_prev :: real
  tc_kink_accel_reduce :: real
  tc_maxaccel :: real
  tc_acc_ratio_tan :: real
  tc_id :: int
  tc_coords :: tc_coords
  tc_active :: int
  tc_canon_motion_type :: int
  tc_term_cond :: int
  tc_blending_next :: int
  tc_blend_vel :: real
  tc_tolerance :: real
  tc_synchronized :: int
  tc_uu_per_rev :: real
  tc_vel_at_blend_start :: real
  tc_sync_accel :: int
  tc_enables :: "8 word"
  tc_atspeed :: int
  tc_indexer_jnum :: int
  tc_optimization_state :: int
  tc_on_final_decel :: int
  tc_blend_prev :: int
  tc_accel_mode :: int
  tc_splitting :: int
  tc_remove :: int
  tc_active_depth :: int
  tc_finalized :: int
  tc_is_blending :: int

definition tc_motion_type :: "tc_struct \<Rightarrow> motion_type" where
  "tc_motion_type tc = (case tc_coords tc of Line9 _ \<Rightarrow> TC_LINEAR | Circle9 _ \<Rightarrow> TC_CIRCULAR
     | RigidTap _ \<Rightarrow> TC_RIGIDTAP | SphArc9 _ \<Rightarrow> TC_SPHERICAL)"

definition TC_DIR_FORWARD :: int where "TC_DIR_FORWARD = 0"
definition TC_DIR_REVERSE :: int where "TC_DIR_REVERSE = 1"
definition TC_OPTIM_AT_MAX :: int where "TC_OPTIM_AT_MAX = 1"
definition TC_ACCEL_RAMP :: int where "TC_ACCEL_RAMP = 1"
definition BLEND_DIST_FRACTION :: real where "BLEND_DIST_FRACTION = 1 / 2"
definition TP_ERR_NO_ACTION :: int where "TP_ERR_NO_ACTION = 1"
definition TP_ERR_MISSING_INPUT :: int where "TP_ERR_MISSING_INPUT = -2"

section \<open>Limits\<close>

definition tcGetMaxTargetVel :: "tc_struct \<Rightarrow> real \<Rightarrow> real" where
  "tcGetMaxTargetVel tc max_scale =
     (let v_max_target = (if tc_synchronized tc = TC_SYNC_NONE then tc_reqvel tc * max_scale else tc_maxvel tc)
      in min v_max_target (tc_maxvel tc))"

definition tcGetOverallMaxAccel :: "tc_struct \<Rightarrow> real" where
  "tcGetOverallMaxAccel tc =
     (let a_scale = 1 - max (tc_kink_accel_reduce tc) (tc_kink_accel_reduce_prev tc);
          a_scale = (if tc_blend_prev tc \<noteq> 0 \<or> TC_TERM_COND_PARABOLIC = tc_term_cond tc
                     then a_scale * (1 / 2) else a_scale)
      in tc_maxaccel tc * a_scale)"

definition tcGetTangentialMaxAccel :: "tc_struct \<Rightarrow> real" where
  "tcGetTangentialMaxAccel tc =
     (let a_scale = tcGetOverallMaxAccel tc in
      if tc_motion_type tc = TC_CIRCULAR \<or> tc_motion_type tc = TC_SPHERICAL
      then a_scale * tc_acc_ratio_tan tc else a_scale)"

definition tcSetKinkProperties :: "tc_struct \<Rightarrow> tc_struct \<Rightarrow> real \<Rightarrow> real \<Rightarrow> tc_struct \<times> tc_struct" where
  "tcSetKinkProperties prev_tc tc kink_vel accel_reduction =
     (prev_tc\<lparr>tc_kink_vel := kink_vel,
              tc_kink_accel_reduce := max accel_reduction (tc_kink_accel_reduce prev_tc)\<rparr>,
      tc\<lparr>tc_kink_accel_reduce_prev := max accel_reduction (tc_kink_accel_reduce_prev tc)\<rparr>)"

definition tcInitKinkProperties :: "tc_struct \<Rightarrow> tc_struct" where
  "tcInitKinkProperties tc = tc\<lparr>tc_kink_vel := -1, tc_kink_accel_reduce := 0, tc_kink_accel_reduce_prev := 0\<rparr>"

definition tcRemoveKinkProperties :: "tc_struct \<Rightarrow> tc_struct \<Rightarrow> tc_struct \<times> tc_struct" where
  "tcRemoveKinkProperties prev_tc tc =
     (prev_tc\<lparr>tc_kink_vel := -1, tc_kink_accel_reduce := 0\<rparr>, tc\<lparr>tc_kink_accel_reduce_prev := 0\<rparr>)"

section \<open>Directions\<close>

definition tcCircleStartAccelUnitVector :: "tc_struct \<Rightarrow> pm_circle \<Rightarrow> pm_cart" where
  "tcCircleStartAccelUnitVector tc ci =
     (let startpoint = snd (pmCirclePoint ci 0);
          radius = pmCartCartSub startpoint (ci_center ci);
          tan_v = snd (pmCartUnitEq (pmCartCartCross (ci_normal ci) radius));
          perp = snd (pmCartUnitEq (pmCartCartSub (ci_center ci) startpoint));
          tan_v = pmCartScalMult tan_v (tcGetOverallMaxAccel tc);
          perp = pmCartScalMultEq perp (pmSq (1 / 2 * tc_reqvel tc) / ci_radius ci)
      in snd (pmCartUnitEq (pmCartCartAdd tan_v perp)))"

definition tcCircleEndAccelUnitVector :: "pm_circle \<Rightarrow> pm_cart" where
  "tcCircleEndAccelUnitVector ci =
     (let endpoint = snd (pmCirclePoint ci (ci_angle ci));
          radius = pmCartCartSub endpoint (ci_center ci)
      in snd (pmCartUnitEq (pmCartCartCross (ci_normal ci) radius)))"

text \<open>
  \<open>None\<close>: the code returns -1 and stores nothing. For rigid tapping it reads the member \<open>line\<close>, whose
  \<open>xyz\<close> lies where that of \<open>rigidtap\<close> does.
\<close>

definition tcGetStartAccelUnitVector :: "tc_struct \<Rightarrow> pm_cart option" where
  "tcGetStartAccelUnitVector tc =
     (case tc_coords tc of
        Line9 l \<Rightarrow> Some (cl_uVec (l9_xyz l))
      | RigidTap t \<Rightarrow> Some (cl_uVec (rt_xyz t))
      | Circle9 c \<Rightarrow> Some (tcCircleStartAccelUnitVector tc (c9_xyz c))
      | SphArc9 _ \<Rightarrow> None)"

definition tcGetEndAccelUnitVector :: "tc_struct \<Rightarrow> pm_cart option" where
  "tcGetEndAccelUnitVector tc =
     (case tc_coords tc of
        Line9 l \<Rightarrow> Some (cl_uVec (l9_xyz l))
      | RigidTap t \<Rightarrow> Some (pmCartScalMult (cl_uVec (rt_xyz t)) (-1))
      | Circle9 c \<Rightarrow> Some (tcCircleEndAccelUnitVector (c9_xyz c))
      | SphArc9 _ \<Rightarrow> None)"

definition tcGetIntersectionPoint :: "tc_struct \<Rightarrow> tc_struct \<Rightarrow> pm_cart option" where
  "tcGetIntersectionPoint prev_tc tc =
     (case (tc_coords tc, tc_coords prev_tc) of
        (Line9 l, _) \<Rightarrow> Some (cl_start (l9_xyz l))
      | (_, Line9 l) \<Rightarrow> Some (cl_end (l9_xyz l))
      | (Circle9 c, _) \<Rightarrow> Some (snd (pmCirclePoint (c9_xyz c) 0))
      | _ \<Rightarrow> None)"

definition tcCanConsume :: "tc_struct option \<Rightarrow> bool" where
  "tcCanConsume tc = (case tc of None \<Rightarrow> False | Some t \<Rightarrow> \<not> (tc_blend_prev t \<noteq> 0 \<or> tc_atspeed t \<noteq> 0))"

definition tcGetStartTangentUnitVector :: "tc_struct \<Rightarrow> pm_cart option" where
  "tcGetStartTangentUnitVector tc =
     (case tc_coords tc of
        Line9 l \<Rightarrow> Some (cl_uVec (l9_xyz l))
      | RigidTap t \<Rightarrow> Some (cl_uVec (rt_xyz t))
      | Circle9 c \<Rightarrow> Some (pmCircleTangentVector (c9_xyz c) 0)
      | SphArc9 _ \<Rightarrow> None)"

definition tcGetEndTangentUnitVector :: "tc_struct \<Rightarrow> pm_cart option" where
  "tcGetEndTangentUnitVector tc =
     (case tc_coords tc of
        Line9 l \<Rightarrow> Some (cl_uVec (l9_xyz l))
      | RigidTap t \<Rightarrow> Some (pmCartScalMult (cl_uVec (rt_xyz t)) (-1))
      | Circle9 c \<Rightarrow> Some (pmCircleTangentVector (c9_xyz c) (ci_angle (c9_xyz c)))
      | SphArc9 _ \<Rightarrow> None)"

section \<open>Distances and positions\<close>

definition tcGetTarget :: "tc_struct \<Rightarrow> int \<Rightarrow> real" where
  "tcGetTarget tc direction = (if direction = TC_DIR_REVERSE then 0 else tc_target tc)"

definition tcGetDistanceToGo :: "tc_struct \<Rightarrow> int \<Rightarrow> real" where
  "tcGetDistanceToGo tc direction =
     (let distance = tcGetTarget tc direction - tc_progress tc in
      if direction = TC_DIR_REVERSE then distance * -1 else distance)"

text \<open>
  The pose at a distance along the segment. \<open>None\<close>: the spiral fit has no angle there and the pose is
  not stored; a rigid tap leaves its vectors unset, its poses are \<open>None\<close> as well.
\<close>

definition tc_point :: "tc_struct \<Rightarrow> real \<Rightarrow> emc_pose option" where
  "tc_point tc progress =
     (case tc_coords tc of
        Line9 l \<Rightarrow>
          (let pt = (\<lambda>cl. pmCartLinePoint cl (progress * cl_tmag cl / tc_target tc)) in
           Some (pmCartesianToEmcPose (pt (l9_xyz l)) (pt (l9_abc l)) (pt (l9_uvw l))))
      | Circle9 c \<Rightarrow>
          (case pmCircleAngleFromProgress (c9_xyz c) (c9_fit c) progress of
             None \<Rightarrow> None
           | Some angle \<Rightarrow>
               (let pt = (\<lambda>cl. pmCartLinePoint cl (progress * cl_tmag cl / tc_target tc)) in
                Some (pmCartesianToEmcPose (snd (pmCirclePoint (c9_xyz c) angle)) (pt (c9_abc c)) (pt (c9_uvw c)))))
      | SphArc9 a \<Rightarrow> Some (pmCartesianToEmcPose (arcPoint (a9_xyz a) progress) (a9_abc a) (a9_uvw a))
      | RigidTap _ \<Rightarrow> None)"

definition tcGetPos :: "tc_struct \<Rightarrow> emc_pose option" where
  "tcGetPos tc = tc_point tc (tc_progress tc)"

definition tcGetStartpoint :: "tc_struct \<Rightarrow> emc_pose option" where
  "tcGetStartpoint tc = tc_point tc 0"

definition tcGetEndpoint :: "tc_struct \<Rightarrow> emc_pose option" where
  "tcGetEndpoint tc = tc_point tc (tc_target tc)"

section \<open>Terminal conditions\<close>

definition tcSetTermCond ::
  "tc_struct option \<Rightarrow> tc_struct option \<Rightarrow> int \<Rightarrow> tc_struct option \<times> tc_struct option" where
  "tcSetTermCond prev_tc tc term_cond =
     (map_option (\<lambda>p. p\<lparr>tc_term_cond := term_cond\<rparr>) prev_tc,
      map_option (\<lambda>t. if term_cond \<in> {TC_TERM_COND_STOP, TC_TERM_COND_EXACT, TC_TERM_COND_TANGENT}
         then t\<lparr>tc_blend_prev := 0\<rparr>
         else if term_cond = TC_TERM_COND_PARABOLIC then t\<lparr>tc_blend_prev := 1\<rparr> else t) tc)"

text \<open>Connect a blend arc to the lines it blends; both segments are lines.\<close>

definition line_set_xyz :: "pm_cart_line \<Rightarrow> tc_struct \<Rightarrow> tc_struct" where
  "line_set_xyz cl tc =
     (case tc_coords tc of Line9 l \<Rightarrow> tc\<lparr>tc_coords := Line9 (l\<lparr>l9_xyz := cl\<rparr>)\<rparr> | _ \<Rightarrow> tc)"

definition line_xyz :: "tc_struct \<Rightarrow> pm_cart_line" where
  "line_xyz tc = (case tc_coords tc of Line9 l \<Rightarrow> l9_xyz l | RigidTap t \<Rightarrow> rt_xyz t
     | _ \<Rightarrow> \<lparr>cl_start = \<lparr>c_x = 0, c_y = 0, c_z = 0\<rparr>, cl_end = \<lparr>c_x = 0, c_y = 0, c_z = 0\<rparr>,
             cl_uVec = \<lparr>c_x = 0, c_y = 0, c_z = 0\<rparr>, cl_tmag = 0, cl_tmag_zero = False\<rparr>)"

definition tcConnectBlendArc ::
  "tc_struct option \<Rightarrow> tc_struct \<Rightarrow> pm_cart \<Rightarrow> pm_cart \<Rightarrow> tc_struct option \<times> tc_struct" where
  "tcConnectBlendArc prev_tc tc circ_start circ_end =
     (let (prev1, tc1) =
            (case prev_tc of
               None \<Rightarrow> (None, Some tc)
             | Some p \<Rightarrow>
                 (let cl = snd (pmCartLineInit (cl_start (line_xyz p)) circ_start) in
                  tcSetTermCond (Some ((line_set_xyz cl p)\<lparr>tc_target := cl_tmag cl\<rparr>)) (Some tc)
                    TC_TERM_COND_TANGENT));
          t1 = the tc1;
          cl2 = snd (pmCartLineInit circ_end (cl_end (line_xyz t1)));
          (prev2, tc2) = tcSetTermCond prev1 (Some ((line_set_xyz cl2 t1)\<lparr>tc_target := cl_tmag cl2\<rparr>))
            TC_TERM_COND_TANGENT
      in (prev2, the tc2))"

definition tcIsBlending :: "tc_struct \<Rightarrow> int \<times> tc_struct" where
  "tcIsBlending tc =
     (let is_blending_next = (tc_term_cond tc = TC_TERM_COND_PARABOLIC \<and> tc_on_final_decel tc \<noteq> 0
            \<and> tc_currentvel tc < tc_blend_vel tc \<and> tc_motion_type tc \<noteq> TC_RIGIDTAP);
          b = or (tc_blending_next tc) (of_bool is_blending_next)
      in (b, tc\<lparr>tc_blending_next := b\<rparr>))"

text \<open>The blend tolerance and the nominal tolerance.\<close>

definition tcFindBlendTolerance :: "tc_struct \<Rightarrow> tc_struct \<Rightarrow> real \<times> real" where
  "tcFindBlendTolerance prev_tc tc =
     (let r = 1 / 4;
          T1 = (if tc_tolerance prev_tc = 0 then tc_nominal_length prev_tc * r else tc_tolerance prev_tc);
          T2 = (if tc_tolerance tc = 0 then tc_nominal_length tc * r else tc_tolerance tc);
          nominal = min T1 T2
      in (min (min nominal (tc_nominal_length prev_tc * r)) (tc_nominal_length tc * r), nominal))"

definition tcFlagEarlyStop ::
  "tc_struct option \<Rightarrow> tc_struct option \<Rightarrow> int \<times> tc_struct option \<times> tc_struct option" where
  "tcFlagEarlyStop tc nexttc =
     (case (tc, nexttc) of
        (Some t, Some n) \<Rightarrow>
          (let (t1, n1) = (if tc_synchronized t \<noteq> TC_SYNC_POSITION \<and> tc_synchronized n = TC_SYNC_POSITION
                 then tcSetTermCond tc nexttc TC_TERM_COND_STOP else (tc, nexttc));
               (t2, n2) = (if tc_atspeed n \<noteq> 0 then tcSetTermCond t1 n1 TC_TERM_COND_STOP else (t1, n1))
           in (TP_ERR_OK, t2, n2))
      | _ \<Rightarrow> (TP_ERR_NO_ACTION, tc, nexttc))"

section \<open>Setting up segments\<close>

definition pmLine9Target :: "pm_line9 \<Rightarrow> real" where
  "pmLine9Target l =
     (if \<not> cl_tmag_zero (l9_xyz l) then cl_tmag (l9_xyz l)
      else if \<not> cl_tmag_zero (l9_uvw l) then cl_tmag (l9_uvw l)
      else if \<not> cl_tmag_zero (l9_abc l) then cl_tmag (l9_abc l) else 0)"

text \<open>The segment passed in is the zeroed structure or a blend arc whose geometry is already set.\<close>

definition tcInit :: "tc_struct \<Rightarrow> tc_coords \<Rightarrow> int \<Rightarrow> real \<Rightarrow> 8 word \<Rightarrow> int \<Rightarrow> tc_struct" where
  "tcInit tc coords canon_motion_type cycle_time enables atspeed =
     tc\<lparr>tc_coords := coords, tc_canon_motion_type := canon_motion_type, tc_atspeed := atspeed,
        tc_enables := enables, tc_cycle_time := cycle_time, tc_id := -1, tc_indexer_jnum := -1,
        tc_active_depth := 1, tc_acc_ratio_tan := BLEND_ACC_RATIO_TANGENTIAL\<rparr>"

definition tcSetupMotion :: "tc_struct \<Rightarrow> real \<Rightarrow> real \<Rightarrow> real \<Rightarrow> tc_struct" where
  "tcSetupMotion tc vel ini_maxvel acc =
     tcInitKinkProperties (tc\<lparr>tc_maxaccel := acc, tc_maxvel := ini_maxvel, tc_reqvel := vel, tc_target_vel := 0\<rparr>)"

definition tcSetupState :: "tc_struct \<Rightarrow> 'tc tp_struct \<Rightarrow> tc_struct" where
  "tcSetupState tc tp =
     (the (fst (tcSetTermCond (Some tc) None (tp_termCond tp))))
       \<lparr>tc_tolerance := tp_tolerance tp, tc_synchronized := tp_synchronized tp, tc_uu_per_rev := tp_uu_per_rev tp\<rparr>"

definition pmLine9Init :: "emc_pose \<Rightarrow> emc_pose \<Rightarrow> int \<times> pm_line9" where
  "pmLine9Init start en =
     (let (start_xyz, start_abc, start_uvw) = emcPoseToPmCartesian start;
          (end_xyz, end_abc, end_uvw) = emcPoseToPmCartesian en;
          (xyz_fail, xyz) = pmCartLineInit start_xyz end_xyz;
          (abc_fail, abc) = pmCartLineInit start_abc end_abc;
          (uvw_fail, uvw) = pmCartLineInit start_uvw end_uvw
      in (if xyz_fail \<noteq> 0 \<or> abc_fail \<noteq> 0 \<or> uvw_fail \<noteq> 0 then TP_ERR_FAIL else TP_ERR_OK,
          \<lparr>l9_xyz = xyz, l9_abc = abc, l9_uvw = uvw\<rparr>))"

definition pmCircle9Init :: "emc_pose \<Rightarrow> emc_pose \<Rightarrow> pm_cart \<Rightarrow> pm_cart \<Rightarrow> int \<Rightarrow> int \<times> pm_circle9" where
  "pmCircle9Init start en center normal turn =
     (let (start_xyz, start_abc, start_uvw) = emcPoseToPmCartesian start;
          (end_xyz, end_abc, end_uvw) = emcPoseToPmCartesian en;
          xyz = pmCircleInit start_xyz end_xyz center normal turn;
          (abc_fail, abc) = pmCartLineInit start_abc end_abc;
          (uvw_fail, uvw) = pmCartLineInit start_uvw end_uvw;
          (res_fit, fit) = findSpiralArcLengthFit xyz
      in (if abc_fail \<noteq> 0 \<or> uvw_fail \<noteq> 0 \<or> res_fit \<noteq> 0 then TP_ERR_FAIL else TP_ERR_OK,
          \<lparr>c9_xyz = xyz, c9_abc = abc, c9_uvw = uvw, c9_fit = fit\<rparr>))"

definition pmCircle9Target :: "pm_circle9 \<Rightarrow> real" where
  "pmCircle9Target c =
     pmSqrt (pmSq (sf_total_planar_length (c9_fit c)) + pmCartMagSq (ci_rHelix (c9_xyz c)))"

definition tcUpdateCircleAccRatio :: "tc_struct \<Rightarrow> int \<times> tc_struct" where
  "tcUpdateCircleAccRatio tc =
     (case tc_coords tc of
        Circle9 c \<Rightarrow>
          (let l = pmCircleActualMaxVel (c9_xyz c) (tc_maxvel tc) (tcGetOverallMaxAccel tc) in
           (0, tc\<lparr>tc_maxvel := clim_v_max l, tc_acc_ratio_tan := clim_acc_ratio l\<rparr>))
      | _ \<Rightarrow> (1, tc))"

text \<open>
  A split cycle may have set the cycle time of a running segment to 0; the quotient is then infinite
  and \<open>fmin\<close> leaves the velocity (targets are not negative).
\<close>

definition tcClampVelocityByLength :: "tc_struct \<Rightarrow> tc_struct" where
  "tcClampVelocityByLength tc =
     (if tc_cycle_time tc = 0 then tc
      else tc\<lparr>tc_maxvel := min (tc_maxvel tc) (tc_target tc / tc_cycle_time tc)\<rparr>)"

definition tcFinalizeLength :: "tc_struct option \<Rightarrow> int \<times> tc_struct option" where
  "tcFinalizeLength tc =
     (case tc of
        None \<Rightarrow> (TP_ERR_FAIL, None)
      | Some t \<Rightarrow>
          if tc_finalized t \<noteq> 0 then (TP_ERR_NO_ACTION, tc)
          else (TP_ERR_OK, Some ((snd (tcUpdateCircleAccRatio (tcClampVelocityByLength t)))\<lparr>tc_finalized := 1\<rparr>)))"

definition tcUpdateTargetFromCircle :: "tc_struct \<Rightarrow> int \<times> tc_struct" where
  "tcUpdateTargetFromCircle tc =
     (case tc_coords tc of
        Circle9 c \<Rightarrow> (TP_ERR_OK, tc\<lparr>tc_target := pmCircle9Target c\<rparr>)
      | _ \<Rightarrow> (TP_ERR_FAIL, tc))"

definition pmRigidTapInit :: "pm_rigidtap \<Rightarrow> emc_pose \<Rightarrow> emc_pose \<Rightarrow> real \<Rightarrow> pm_rigidtap" where
  "pmRigidTapInit tap start en reversal_scale =
     (let (start_xyz, abc, uvw) = emcPoseToPmCartesian start;
          cl = snd (pmCartLineInit start_xyz (emcPoseGetXYZ en))
      in tap\<lparr>rt_xyz := cl, rt_abc := abc, rt_uvw := uvw, rt_reversal_target := cl_tmag cl,
             rt_reversal_scale := reversal_scale, rt_state := RIGIDTAP_START\<rparr>)"

definition pmRigidTapTarget :: "pm_rigidtap \<Rightarrow> real \<Rightarrow> real" where
  "pmRigidTapTarget tap uu_per_rev = cl_tmag (rt_xyz tap) + 10 * uu_per_rev"

definition tcPureRotaryCheck :: "tc_struct \<Rightarrow> bool" where
  "tcPureRotaryCheck tc =
     (case tc_coords tc of Line9 l \<Rightarrow> cl_tmag_zero (l9_xyz l) \<and> cl_tmag_zero (l9_uvw l) | _ \<Rightarrow> False)"

definition tcSetCircleXYZ :: "tc_struct \<Rightarrow> pm_circle option \<Rightarrow> int \<times> tc_struct" where
  "tcSetCircleXYZ tc circ =
     (case (circ, tc_coords tc) of
        (Some ci, Circle9 c) \<Rightarrow>
          if \<not> cl_tmag_zero (c9_abc c) \<or> \<not> cl_tmag_zero (c9_uvw c) then (TP_ERR_FAIL, tc)
          else
            (let c' = c\<lparr>c9_xyz := ci, c9_fit := snd (findSpiralArcLengthFit ci)\<rparr> in
             (TP_ERR_OK, tc\<lparr>tc_coords := Circle9 c', tc_target := pmCircle9Target c'\<rparr>))
      | _ \<Rightarrow> (TP_ERR_FAIL, tc))"

definition tcClearFlags :: "tc_struct option \<Rightarrow> int \<times> tc_struct option" where
  "tcClearFlags tc =
     (case tc of None \<Rightarrow> (TP_ERR_MISSING_INPUT, None)
      | Some t \<Rightarrow> (TP_ERR_OK, Some (t\<lparr>tc_is_blending := 0\<rparr>)))"

end
