(* ===== verification/TpSeg.thy ===== *)
theory TpSeg
  imports Tc MotionInit
begin

text \<open>
  The planner's view of its segments, \<open>tp/tp.c\<close>: feed and velocity limits, tangent and parabolic
  blending velocities, queueing a segment, and the optimisation of final velocities. The shared
  structures \<open>emcmotConfig\<close> and \<open>emcmotStatus\<close> are arguments. A pointer to a queued segment is the index
  of its slot; \<open>None\<close> as a whole result is an access outside the queue's array, or the use of a vector
  that the code leaves unset.
\<close>

type_synonym tp = "tc_struct tp_struct"

definition TP_MIN_SEGMENT_CYCLES :: real where "TP_MIN_SEGMENT_CYCLES = 102 / 100"
definition TP_OPTIMIZATION_CUTOFF :: int where "TP_OPTIMIZATION_CUTOFF = 4"
definition TP_ERR_ZERO_LENGTH :: int where "TP_ERR_ZERO_LENGTH = 5"
definition NO_BLEND :: int where "NO_BLEND = -1"
definition PARABOLIC_BLEND :: int where "PARABOLIC_BLEND = 0"
definition TANGENT_SEGMENTS_BLEND :: int where "TANGENT_SEGMENTS_BLEND = 1"
definition ARC_BLEND :: int where "ARC_BLEND = 2"
definition TP_ERR_INVALID :: int where "TP_ERR_INVALID = -9"

section \<open>Pointers into the queue\<close>

definition tp_fetch :: "tp \<Rightarrow> int option \<Rightarrow> tc_struct option option" where
  "tp_fetch tp p = (case p of None \<Rightarrow> Some None | Some i \<Rightarrow> map_option Some (tcqDeref (tp_queue tp) i))"

definition tp_store :: "int option \<Rightarrow> tc_struct option \<Rightarrow> tp \<Rightarrow> tp" where
  "tp_store p tc tp =
     (case (p, tc) of
        (Some i, Some t) \<Rightarrow> tp\<lparr>tp_queue := (tp_queue tp)\<lparr>tq_queue :=
            map_option (\<lambda>xs. xs[nat i := t]) (tq_queue (tp_queue tp))\<rparr>\<rparr>
      | _ \<Rightarrow> tp)"

section \<open>Settings\<close>

definition tpSetTermCond :: "tp \<Rightarrow> int \<Rightarrow> real \<Rightarrow> int \<times> tp" where
  "tpSetTermCond tp cond tolerance =
     (if cond \<in> {TC_TERM_COND_PARABOLIC, TC_TERM_COND_TANGENT, TC_TERM_COND_EXACT, TC_TERM_COND_STOP}
      then (TP_ERR_OK, tp\<lparr>tp_termCond := cond, tp_tolerance := tolerance\<rparr>) else (-1, tp))"

definition tpAddCurrentPos :: "tp \<Rightarrow> emc_pose option \<Rightarrow> int \<times> tp" where
  "tpAddCurrentPos tp disp =
     (if disp = None then (TP_ERR_MISSING_INPUT, tp)
      else if emcPoseValid disp
      then (TP_ERR_OK, tp\<lparr>tp_currentPos := the (snd (emcPoseSelfAdd (Some (tp_currentPos tp)) disp))\<rparr>)
      else (TP_ERR_INVALID, tp))"

definition tpIsMoving :: "mot_status \<Rightarrow> tp \<Rightarrow> bool" where
  "tpIsMoving st tp \<longleftrightarrow>
     of_int (ms_current_vel st) \<ge> TP_VEL_EPSILON
     \<or> tp_waiting_for_index tp \<noteq> MOTION_INVALID_ID \<or> tp_waiting_for_atspeed tp \<noteq> MOTION_INVALID_ID"

definition tpSetRunDir :: "mot_status \<Rightarrow> tp \<Rightarrow> int \<Rightarrow> int \<times> tp" where
  "tpSetRunDir st tp dir =
     (if tpIsMoving st tp then (TP_ERR_FAIL, tp)
      else if dir = TC_DIR_FORWARD \<or> dir = TC_DIR_REVERSE then (TP_ERR_OK, tp\<lparr>tp_reverse_run := dir\<rparr>)
      else (TP_ERR_FAIL, tp))"

section \<open>Velocity limits\<close>

definition tcRotaryMotionCheck :: "tc_struct \<Rightarrow> bool" where
  "tcRotaryMotionCheck tc =
     (case tc_coords tc of
        RigidTap _ \<Rightarrow> False
      | Line9 l \<Rightarrow> \<not> (cl_tmag_zero (l9_abc l) \<and> cl_tmag_zero (l9_uvw l))
      | Circle9 c \<Rightarrow> \<not> (cl_tmag_zero (c9_abc c) \<and> cl_tmag_zero (c9_uvw c))
      | SphArc9 _ \<Rightarrow> True)"

definition getMaxFeedScale :: "mot_config \<Rightarrow> tc_struct option \<Rightarrow> real" where
  "getMaxFeedScale cfg tc =
     (case tc of
        Some t \<Rightarrow> if tc_synchronized t = TC_SYNC_POSITION then 1 else mg_maxAxisScale cfg
      | None \<Rightarrow> mg_maxAxisScale cfg)"

definition tpGetTangentKinkRatio :: "mot_config \<Rightarrow> real" where
  "tpGetTangentKinkRatio cfg = max (min (mg_arcBlendTangentKinkRatio cfg) 0.7071) 0.001"

definition tpGetFeedScale :: "mot_status \<Rightarrow> tp \<Rightarrow> tc_struct option \<Rightarrow> real" where
  "tpGetFeedScale st tp tc =
     (case tc of
        None \<Rightarrow> 0
      | Some t \<Rightarrow>
          if tp_pausing tp \<noteq> 0 \<and> (tc_synchronized t = TC_SYNC_NONE \<or> tc_synchronized t = TC_SYNC_VELOCITY) then 0
          else if tp_aborting tp \<noteq> 0 then 0
          else if tc_synchronized t = TC_SYNC_POSITION then 1
          else if tc_is_blending t \<noteq> 0 then min (ms_net_feed_scale st) 1
          else ms_net_feed_scale st)"

definition tpGetMaxTargetVel :: "mot_config \<Rightarrow> tp \<Rightarrow> tc_struct \<Rightarrow> real" where
  "tpGetMaxTargetVel cfg tp tc =
     (let max_scale = (if tc_is_blending tc \<noteq> 0 then min (mg_maxAxisScale cfg) 1 else mg_maxAxisScale cfg);
          v_max_target = tcGetMaxTargetVel tc max_scale
      in if \<not> tcPureRotaryCheck tc \<and> tc_synchronized tc \<noteq> TC_SYNC_POSITION
         then min v_max_target (tp_vLimit tp) else v_max_target)"

definition tpGetRealTargetVel :: "mot_config \<Rightarrow> mot_status \<Rightarrow> tp \<Rightarrow> tc_struct option \<Rightarrow> real" where
  "tpGetRealTargetVel cfg st tp tc =
     (case tc of
        None \<Rightarrow> 0
      | Some t \<Rightarrow>
          (let v_target = (if tc_synchronized t \<noteq> 0 then tc_target_vel t else tc_reqvel t)
           in min (v_target * tpGetFeedScale st tp tc) (tpGetMaxTargetVel cfg tp t)))"

definition tpGetRealFinalVel ::
  "mot_config \<Rightarrow> mot_status \<Rightarrow> tp \<Rightarrow> tc_struct \<Rightarrow> tc_struct option \<Rightarrow> real" where
  "tpGetRealFinalVel cfg st tp tc nexttc =
     (if ms_stepping st \<noteq> 0 \<or> tc_term_cond tc \<noteq> TC_TERM_COND_TANGENT \<or> tp_reverse_run tp \<noteq> 0 then 0
      else
        (let v_target_this = tpGetRealTargetVel cfg st tp (Some tc);
             v_target = (if nexttc \<noteq> None then min v_target_this (tpGetRealTargetVel cfg st tp nexttc)
                         else v_target_this)
         in min (tc_finalvel tc) v_target))"

definition tpCalculateTriangleVel :: "tc_struct \<Rightarrow> real" where
  "tpCalculateTriangleVel tc =
     findVPeak (tcGetTangentialMaxAccel tc) (if tc_finalized tc = 0 then tc_target tc / 2 else tc_target tc)"

definition tpCalculateOptimizationInitialVel :: "mot_config \<Rightarrow> tp \<Rightarrow> tc_struct \<Rightarrow> real" where
  "tpCalculateOptimizationInitialVel cfg tp tc =
     min (findVPeak (tcGetTangentialMaxAccel tc) (tc_target tc)) (tpGetMaxTargetVel cfg tp tc)"

definition tcSetLineXYZ :: "tc_struct \<Rightarrow> pm_cart_line option \<Rightarrow> int \<times> tc_struct" where
  "tcSetLineXYZ tc line =
     (case (line, tc_coords tc) of
        (Some cl, Line9 l) \<Rightarrow>
          if \<not> cl_tmag_zero (l9_abc l) \<or> \<not> cl_tmag_zero (l9_uvw l) then (TP_ERR_FAIL, tc)
          else (TP_ERR_OK, tc\<lparr>tc_coords := Line9 (l\<lparr>l9_xyz := cl\<rparr>), tc_target := cl_tmag cl\<rparr>)
      | _ \<Rightarrow> (TP_ERR_FAIL, tc))"

section \<open>Parabolic blends\<close>

text \<open>
  A quotient of a distance or velocity by a velocity or acceleration, \<open>None\<close> when the divisor is 0:
  \<open>fmin\<close> and \<open>fmax\<close> of the code then return their other operand, an infinite time being no bound and
  \<open>0 / 0\<close> not a number.
\<close>

definition time_quot :: "real \<Rightarrow> real \<Rightarrow> real option" where
  "time_quot x v = (if v = 0 then None else Some (x / v))"

definition time_with :: "(real \<Rightarrow> real \<Rightarrow> real) \<Rightarrow> real option \<Rightarrow> real option \<Rightarrow> real option" where
  "time_with f a b = (case a of None \<Rightarrow> b | Some x \<Rightarrow> (case b of None \<Rightarrow> a | Some y \<Rightarrow> Some (f x y)))"

definition vel_after :: "real \<Rightarrow> real \<Rightarrow> real option \<Rightarrow> real" where
  "vel_after v_reachable acc t = (case t of None \<Rightarrow> v_reachable | Some t \<Rightarrow> min v_reachable (t * acc))"

text \<open>The last argument holds the variables the results are stored in.\<close>

definition tpComputeBlendVelocity ::
  "tc_struct \<Rightarrow> tc_struct option \<Rightarrow> real \<Rightarrow> real \<Rightarrow> real \<times> real \<times> real \<Rightarrow> (int \<times> real \<times> real \<times> real) option" where
  "tpComputeBlendVelocity tc nexttc target_vel_this target_vel_next out =
     (case nexttc of
        None \<Rightarrow> Some (TP_ERR_FAIL, out)
      | Some nx \<Rightarrow>
          (let acc_this = tcGetTangentialMaxAccel tc;
               acc_next = tcGetTangentialMaxAccel nx;
               v_reachable_this = min (tpCalculateTriangleVel tc) target_vel_this;
               v_reachable_next = min (tpCalculateTriangleVel nx) target_vel_next;
               t_max_reachable = time_with min (time_quot (tc_target tc) v_reachable_this)
                  (time_quot (tc_target nx) v_reachable_next);
               t_max_blend = time_with max (time_quot v_reachable_this acc_this)
                  (time_quot v_reachable_next acc_next);
               t_blend = time_with min t_max_reachable t_max_blend;
               v_this = vel_after v_reachable_this acc_this t_blend;
               v_next = vel_after v_reachable_next acc_next t_blend
           in case (tcGetEndAccelUnitVector tc, tcGetStartAccelUnitVector nx) of
                (Some v1, Some v2) \<Rightarrow>
                  (let theta = findIntersectionAngle v1 v2;
                       cos_theta = cos theta;
                       min_cos_theta = cos (PM_PI / 2 - TP_MIN_ARC_ANGLE);
                       tblend_vel = 2 * pmSqrt (acc_this * tc_tolerance tc / cos_theta);
                       limited = tc_tolerance tc > 0 \<and> cos_theta > min_cos_theta;
                       v_this' = (if limited then min v_this tblend_vel else v_this);
                       v_next' = (if limited then min v_next tblend_vel else v_next)
                   in Some (TP_ERR_OK, v_this', v_next', sin theta * (v_this' + v_next') / 2))
              | _ \<Rightarrow> None))"

definition estimateParabolicBlendPerformance :: "mot_config \<Rightarrow> tp \<Rightarrow> tc_struct \<Rightarrow> tc_struct \<Rightarrow> real option" where
  "estimateParabolicBlendPerformance cfg tp tc nexttc =
     map_option (\<lambda>(r, v_this, v_next, v_net). v_net)
       (tpComputeBlendVelocity tc (Some nexttc) (tpGetMaxTargetVel cfg tp tc) (tpGetMaxTargetVel cfg tp nexttc)
         (0, 0, 0))"

text \<open>The index of the first of the largest elements.\<close>

definition find_max_element :: "real list \<Rightarrow> int" where
  "find_max_element arr =
     (if arr = [] then -1
      else int (fold (\<lambda>idx max_idx. if arr ! idx > arr ! max_idx then idx else max_idx) [0..<length arr] 0))"

definition tpChooseBestBlend ::
  "mot_config \<Rightarrow> tp \<Rightarrow> tc_struct \<Rightarrow> tc_struct \<Rightarrow> tc_struct option \<Rightarrow> (int \<times> tc_struct \<times> tc_struct) option" where
  "tpChooseBestBlend cfg tp prev_tc tc blend_tc =
     (if tc_term_cond prev_tc = TC_TERM_COND_EXACT \<or> tc_term_cond prev_tc = TC_TERM_COND_STOP
      then Some (NO_BLEND, prev_tc, tc)
      else
        (case estimateParabolicBlendPerformance cfg tp prev_tc tc of
           None \<Rightarrow> None
         | Some parabolic \<Rightarrow>
             (let perf = [parabolic / 2, tc_kink_vel prev_tc,
                          (case blend_tc of None \<Rightarrow> 0 | Some b \<Rightarrow> tc_maxvel b)];
                  best_blend = find_max_element perf;
                  (p, t) =
                    (if best_blend = PARABOLIC_BLEND then
                       (let (p0, t0) = tcRemoveKinkProperties prev_tc tc;
                            (p1, t1) = tcSetTermCond (Some p0) (Some t0) TC_TERM_COND_PARABOLIC
                        in (the p1, the t1))
                     else if best_blend = TANGENT_SEGMENTS_BLEND then
                       (let (p1, t1) = tcSetTermCond (Some prev_tc) (Some tc) TC_TERM_COND_TANGENT
                        in (the p1, the t1))
                     else if best_blend = ARC_BLEND then tcRemoveKinkProperties prev_tc tc
                     else (prev_tc, tc))
              in Some (best_blend, p, t))))"

section \<open>Tangent segments\<close>

definition SHARP_CORNER_EPSILON :: real where
  "SHARP_CORNER_EPSILON = pmSq (PM_PI * (2 / 180))"

definition tpSetupTangent ::
  "mot_config \<Rightarrow> pm_cart \<Rightarrow> tp \<Rightarrow> tc_struct \<Rightarrow> tc_struct \<Rightarrow> (int \<times> tc_struct \<times> tc_struct) option" where
  "tpSetupTangent cfg acc_bound tp prev_tc tc =
     (if tcRotaryMotionCheck tc \<or> tcRotaryMotionCheck prev_tc then Some (TP_ERR_FAIL, prev_tc, tc)
      else if mg_arcBlendOptDepth cfg < 2 then Some (TP_ERR_FAIL, prev_tc, tc)
      else if tc_term_cond prev_tc = TC_TERM_COND_STOP then Some (TP_ERR_FAIL, prev_tc, tc)
      else
        (case (tcGetEndTangentUnitVector prev_tc, tcGetStartTangentUnitVector tc) of
           (Some prev_tan, Some this_tan) \<Rightarrow>
             if pmCartCartAntiParallel prev_tan this_tan SHARP_CORNER_EPSILON then
               (let (p, t) = tcSetTermCond (Some prev_tc) (Some tc) TC_TERM_COND_STOP
                in Some (TP_ERR_FAIL, the p, the t))
             else
               (let v_max1 = tcGetMaxTargetVel prev_tc (getMaxFeedScale cfg (Some prev_tc));
                    v_max2 = tcGetMaxTargetVel tc (getMaxFeedScale cfg (Some tc));
                    v_max = min v_max1 v_max2;
                    a_inst = v_max / tp_cycleTime tp + tc_maxaccel tc;
                    acc_diff = pmCartCartSub (pmCartScalMult this_tan a_inst) (pmCartScalMult prev_tan a_inst);
                    m = pmCartAbsMax (findAccelScale acc_diff acc_bound);
                    acc_scale_max = (if tc_motion_type prev_tc = TC_CIRCULAR \<or> tc_motion_type tc = TC_CIRCULAR
                       then m / BLEND_ACC_RATIO_TANGENTIAL else m);
                    kink_ratio = tpGetTangentKinkRatio cfg
                in if acc_scale_max < kink_ratio then
                     (let (p1, t1) = tcSetTermCond (Some prev_tc) (Some tc) TC_TERM_COND_TANGENT;
                          (p2, t2) = tcSetKinkProperties (the p1) (the t1) v_max acc_scale_max
                      in Some (TP_ERR_OK, p2, t2))
                   else
                     (let (p2, t2) = tcSetKinkProperties prev_tc tc (v_max * kink_ratio / acc_scale_max) kink_ratio
                      in Some (TP_ERR_NO_ACTION, p2, t2)))
         | _ \<Rightarrow> None))"

definition handleModeChange ::
  "tc_struct option \<Rightarrow> tc_struct \<Rightarrow> int \<times> tc_struct option \<times> tc_struct" where
  "handleModeChange prev_tc tc =
     (case prev_tc of
        None \<Rightarrow> (TP_ERR_FAIL, None, tc)
      | Some p \<Rightarrow>
          (let (p1, t1) = (if (tc_canon_motion_type p = 1) \<noteq> (tc_canon_motion_type tc = 1)
                 then tcSetTermCond (Some p) (Some tc) TC_TERM_COND_STOP else (Some p, Some tc));
               (p2, t2) = (if tc_synchronized (the p1) \<noteq> TC_SYNC_POSITION \<and> tc_synchronized (the t1) = TC_SYNC_POSITION
                 then tcSetTermCond p1 t1 TC_TERM_COND_STOP else (p1, t1))
           in (TP_ERR_OK, p2, the t2)))"

section \<open>Queueing\<close>

definition tpAddSegmentToQueue :: "tp \<Rightarrow> tc_struct \<Rightarrow> bool \<Rightarrow> (int \<times> tp \<times> tc_struct) option" where
  "tpAddSegmentToQueue tp tc inc_id =
     (let tc1 = tc\<lparr>tc_id := tp_nextId tp\<rparr> in
      case tcqPut (tp_queue tp) tc1 of
        None \<Rightarrow> None
      | Some (r, q) \<Rightarrow>
          if r = -1 then Some (TP_ERR_FAIL, tp\<lparr>tp_queue := q\<rparr>, tc1)
          else
            (let tp1 = tp\<lparr>tp_queue := q, tp_nextId := (if inc_id then s32 (tp_nextId tp + 1) else tp_nextId tp)\<rparr>;
                 tp2 = (if tc_motion_type tc1 \<noteq> TC_RIGIDTAP
                        then tp1\<lparr>tp_goalPos := (case tcGetEndpoint tc1 of Some p \<Rightarrow> p | None \<Rightarrow> tp_goalPos tp1)\<rparr>
                        else tp1)
             in Some (TP_ERR_OK, tp2\<lparr>tp_done := 0, tp_depth := tcqLen (tp_queue tp2)\<rparr>, tc1)))"

section \<open>Optimisation of final velocities\<close>

text \<open>The updated \<open>prev1_tc\<close> and \<open>tc\<close>.\<close>

definition tpComputeOptimalVelocity :: "tp \<Rightarrow> tc_struct \<Rightarrow> tc_struct \<Rightarrow> tc_struct \<times> tc_struct" where
  "tpComputeOptimalVelocity tp tc prev1_tc =
     (let acc_this = tcGetTangentialMaxAccel tc;
          vs_back = pmSqrt (pmSq (tc_finalvel tc) + 2 * acc_this * tc_target tc);
          vf_limit_this = tc_maxvel tc;
          vf_limit_prev = (if tc_kink_vel prev1_tc \<ge> 0 \<and> tc_term_cond prev1_tc = TC_TERM_COND_TANGENT
             then min (tc_maxvel prev1_tc) (tc_kink_vel prev1_tc) else tc_maxvel prev1_tc);
          vf_limit = min vf_limit_this vf_limit_prev;
          p1 = (if vs_back \<ge> vf_limit
                then prev1_tc\<lparr>tc_optimization_state := TC_OPTIM_AT_MAX, tc_finalvel := vf_limit\<rparr>
                else prev1_tc\<lparr>tc_finalvel := vs_back\<rparr>);
          sample_maxvel = tc_target tc / (tp_cycleTime tp * TP_MIN_SEGMENT_CYCLES)
      in (p1, tc\<lparr>tc_maxvel := min (tc_maxvel tc) sample_maxvel\<rparr>))"

text \<open>
  One round of the loop on the segment \<open>tc\<close> and the one before it. The loop ends (\<open>True\<close>), or goes on
  with the new number of peaks and the flag that a segment without tangent was met.
\<close>

definition opt_pair ::
  "mot_config \<Rightarrow> tp \<Rightarrow> tc_struct \<Rightarrow> tc_struct \<Rightarrow> tc_struct \<times> tc_struct" where
  "opt_pair cfg tp prev1_tc tc0 =
     (let tc = (if tc_atspeed tc0 \<noteq> 0 then tc0\<lparr>tc_finalvel := 0\<rparr> else tc0) in
      if tc_finalized tc = 0 then
        (let f0 = min (tc_maxvel prev1_tc) (tpCalculateOptimizationInitialVel cfg tp tc);
             f1 = (if tc_kink_vel prev1_tc \<ge> 0 \<and> tc_term_cond prev1_tc = TC_TERM_COND_TANGENT
                   then min f0 (tc_kink_vel prev1_tc) else f0)
         in (prev1_tc\<lparr>tc_finalvel := f1\<rparr>, tc\<lparr>tc_finalvel := 0\<rparr>))
      else tpComputeOptimalVelocity tp tc prev1_tc)"

definition opt_step ::
  "mot_config \<Rightarrow> tp \<Rightarrow> int \<Rightarrow> int \<Rightarrow> bool \<Rightarrow> tc_struct \<Rightarrow> tc_struct \<Rightarrow> tc_struct \<times> tc_struct \<times> bool \<times> int \<times> bool" where
  "opt_step cfg tp x hit_peaks hit_non_tangent prev1_tc tc =
     (if tc_term_cond prev1_tc \<noteq> TC_TERM_COND_TANGENT then
        (if hit_non_tangent then (prev1_tc, tc, True, hit_peaks, hit_non_tangent)
         else (prev1_tc, tc, False, hit_peaks, True))
      else if tc_progress prev1_tc / tc_target prev1_tc \<ge> BLEND_DIST_FRACTION / 2
      then (prev1_tc, tc, True, hit_peaks, hit_non_tangent)
      else if tc_splitting prev1_tc \<noteq> 0 \<or> tc_blending_next prev1_tc \<noteq> 0
      then (prev1_tc, tc, True, hit_peaks, hit_non_tangent)
      else
        (let (p, t0) = opt_pair cfg tp prev1_tc tc;
             t = t0\<lparr>tc_active_depth := x - 2 - hit_peaks\<rparr>;
             hp = (if tc_optimization_state t = TC_OPTIM_AT_MAX then hit_peaks + 1 else hit_peaks)
         in (p, t, hp > TP_OPTIMIZATION_CUTOFF, hp, hit_non_tangent)))"

fun opt_loop :: "nat \<Rightarrow> int \<Rightarrow> int \<Rightarrow> bool \<Rightarrow> int \<Rightarrow> mot_config \<Rightarrow> tp \<Rightarrow> tp option" where
  "opt_loop 0 x hit_peaks hit_non_tangent len cfg tp = Some tp"
| "opt_loop (Suc n) x hit_peaks hit_non_tangent len cfg tp =
     (let ind = len - x;
          i = tcqItem (tp_queue tp) ind;
          j = tcqItem (tp_queue tp) (ind - 1)
      in case (tp_fetch tp i, tp_fetch tp j) of
           (Some (Some tc), Some (Some prev1_tc)) \<Rightarrow>
             (let (p, t, stop, hp, nt) = opt_step cfg tp x hit_peaks hit_non_tangent prev1_tc tc;
                  tp' = tp_store i (Some t) (tp_store j (Some p) tp)
              in if stop then Some tp' else opt_loop n (x + 1) hp nt len cfg tp')
         | (Some _, Some _) \<Rightarrow> Some tp
         | _ \<Rightarrow> None)"

definition tpRunOptimization :: "mot_config \<Rightarrow> tp \<Rightarrow> tp option" where
  "tpRunOptimization cfg tp =
     opt_loop (nat (mg_arcBlendOptDepth cfg + 1)) 1 0 False (tcqLen (tp_queue tp)) cfg tp"

end
