(* ===== verification/TpCycle.thy ===== *)
theory TpCycle
  imports TpSeg
begin

text \<open>
  The planner's cycle, \<open>tpRunCycle\<close> of \<open>tp/tp.c\<close> and what it calls: how one segment advances, how a cycle
  is split between two segments, blending, spindle synchronisation, abort, activation and removal of
  segments. Segments are values here and \<open>tpRunCycle\<close> stores them back into their slots, which are
  distinct. \<open>command_mutex\<close> of \<open>emcmotInternal\<close>, which \<open>tpUpdateCycle\<close> takes and gives, is used nowhere
  else and is always free. \<open>None\<close> is an access outside an array, the use of a pose or vector that the code
  leaves unset, or a quotient of velocities with divisor 0. Acceleration limits of segments are not 0.
\<close>

definition TP_ERR_SLOWING :: int where "TP_ERR_SLOWING = 2"
definition TP_ERR_STOPPED :: int where "TP_ERR_STOPPED = 3"
definition TP_ERR_WAITING :: int where "TP_ERR_WAITING = 4"
definition TP_ERR_REVERSE_EMPTY :: int where "TP_ERR_REVERSE_EMPTY = 6"

section \<open>Locks of rotary axes\<close>

text \<open>
  \<open>emcmotSetRotaryUnlock\<close> and \<open>emcmotGetRotaryIsUnlocked\<close> of \<open>motion/command.c\<close>: for each axis the pins
  \<open>unlock\<close> and \<open>is_unlocked\<close>, \<open>None\<close> where the pointer is NULL.
\<close>

type_synonym rotary_pins = "(bool \<times> bool) option list"

definition emcmotSetRotaryUnlock :: "int \<Rightarrow> int \<Rightarrow> rotary_pins \<Rightarrow> rotary_pins option" where
  "emcmotSetRotaryUnlock axisnum unlock pins =
     (if \<not> (0 \<le> axisnum \<and> axisnum < int (length pins)) then None
      else
        (case pins ! nat axisnum of
           None \<Rightarrow> Some pins
         | Some (_, is_unlocked) \<Rightarrow> Some (pins[nat axisnum := Some (unlock \<noteq> 0, is_unlocked)])))"

definition emcmotGetRotaryIsUnlocked :: "int \<Rightarrow> rotary_pins \<Rightarrow> int option" where
  "emcmotGetRotaryIsUnlocked axisnum pins =
     (if \<not> (0 \<le> axisnum \<and> axisnum < int (length pins)) then None
      else (case pins ! nat axisnum of None \<Rightarrow> Some 0 | Some (_, is_unlocked) \<Rightarrow> Some (of_bool is_unlocked)))"

section \<open>Advancing a segment\<close>

definition tcUpdateDistFromAccel :: "tc_struct \<Rightarrow> real \<Rightarrow> real \<Rightarrow> int \<Rightarrow> tc_struct" where
  "tcUpdateDistFromAccel tc acc vel_desired reverse_run =
     (let v_next = tc_currentvel tc + acc * tc_cycle_time tc;
          (v, t) =
            (if v_next < 0 then
               (0, if tcGetDistanceToGo tc reverse_run < tc_currentvel tc * tc_cycle_time tc
                   then tc\<lparr>tc_progress := tcGetTarget tc reverse_run\<rparr> else tc)
             else
               (let displacement = (v_next + tc_currentvel tc) * (1 / 2) * tc_cycle_time tc;
                    disp_sign = (if reverse_run \<noteq> 0 then -1 else 1);
                    progress = tc_progress tc + disp_sign * displacement
                in (v_next, tc\<lparr>tc_progress := bisaturate progress (tcGetTarget tc TC_DIR_FORWARD)
                      (tcGetTarget tc TC_DIR_REVERSE)\<rparr>)))
      in t\<lparr>tc_currentvel := v, tc_on_final_decel := of_bool (\<bar>vel_desired - v\<bar> < TP_VEL_EPSILON \<and> acc < 0)\<rparr>)"

text \<open>The acceleration and the desired velocity.\<close>

definition tpCalculateTrapezoidalAccel ::
  "mot_config \<Rightarrow> mot_status \<Rightarrow> tp \<Rightarrow> tc_struct \<Rightarrow> tc_struct option \<Rightarrow> real \<times> real" where
  "tpCalculateTrapezoidalAccel cfg st tp tc nexttc =
     (let tc_target_vel = tpGetRealTargetVel cfg st tp (Some tc);
          finalvel = tpGetRealFinalVel cfg st tp tc nexttc;
          dx = tcGetDistanceToGo tc (tp_reverse_run tp);
          maxaccel = tcGetTangentialMaxAccel tc;
          discr_term1 = pmSq finalvel;
          discr_term2 = maxaccel * (2 * dx - tc_currentvel tc * tc_cycle_time tc);
          tmp_adt = maxaccel * tc_cycle_time tc * (1 / 2);
          discr_term3 = pmSq tmp_adt;
          discr = discr_term1 + discr_term2 + discr_term3;
          maxnewvel = (if discr > discr_term3 then - tmp_adt + pmSqrt discr else - tmp_adt);
          newvel = saturate maxnewvel tc_target_vel;
          dt = max (tc_cycle_time tc) TP_TIME_EPSILON;
          maxnewaccel = (newvel - tc_currentvel tc) / dt
      in (saturate maxnewaccel maxaccel, maxnewvel))"

definition tpCalculateRampAccel ::
  "mot_config \<Rightarrow> mot_status \<Rightarrow> tp \<Rightarrow> tc_struct \<Rightarrow> tc_struct option \<Rightarrow> tc_struct \<times> (real \<times> real) option" where
  "tpCalculateRampAccel cfg st tp tc0 nexttc =
     (let dx = tcGetDistanceToGo tc0 (tp_reverse_run tp);
          tc = (if tc_blending_next tc0 = 0 then tc0\<lparr>tc_vel_at_blend_start := tc_currentvel tc0\<rparr> else tc0);
          vel_final = tpGetRealFinalVel cfg st tp tc nexttc
      in if vel_final < TP_VEL_EPSILON then (tc, None)
         else
           (let vel_avg = (tc_currentvel tc + vel_final) / 2;
                dt = (if vel_avg > TP_VEL_EPSILON then max (dx / vel_avg) (1 / 10 ^ 16) else 1 / 10 ^ 16);
                dv = vel_final - tc_currentvel tc;
                acc_final = dv / dt
            in (tc, Some (saturate acc_final (tcGetTangentialMaxAccel tc), vel_final))))"

definition tcSetSplitCycle :: "tc_struct \<Rightarrow> real \<Rightarrow> real \<Rightarrow> int \<times> tc_struct" where
  "tcSetSplitCycle tc split_time v_f =
     (if tc_splitting tc \<noteq> 0 \<and> split_time > 0 then (TP_ERR_FAIL, tc)
      else (0, tc\<lparr>tc_splitting := 1, tc_cycle_time := split_time, tc_term_vel := v_f\<rparr>))"

text \<open>The time to the end of the segment and the velocity there, when it ends within sight.\<close>

definition end_time ::
  "mot_config \<Rightarrow> mot_status \<Rightarrow> tp \<Rightarrow> tc_struct \<Rightarrow> tc_struct option \<Rightarrow> real \<Rightarrow> (real \<times> real) option" where
  "end_time cfg st tp tc nexttc dx =
     (let v_f0 = tpGetRealFinalVel cfg st tp tc nexttc;
          v_avg = (tc_currentvel tc + v_f0) / 2;
          dt0 = (if v_avg > TP_VEL_EPSILON then max (TP_TIME_EPSILON / 2) (dx / v_avg) else TP_TIME_EPSILON / 2)
      in if \<not> v_avg > TP_VEL_EPSILON \<and> dx > v_avg * tp_cycleTime tp \<and> dx > TP_POS_EPSILON then None
         else
           (let dv = v_f0 - tc_currentvel tc;
                (recalc, a) = sat_inplace (dv / dt0) (tcGetTangentialMaxAccel tc)
            in if recalc = 0 then Some (dt0, v_f0)
               else
                 (let disc = pmSq (tc_currentvel tc / a) + 2 / a * dx in
                  if disc < 0 then None
                  else
                    (let dt = (if disc < TP_TIME_EPSILON * TP_TIME_EPSILON then - tc_currentvel tc / a
                               else if a > 0 then - tc_currentvel tc / a + pmSqrt disc
                               else - tc_currentvel tc / a - pmSqrt disc)
                     in Some (dt, tc_currentvel tc + dt * a)))))"

definition tpCheckEndCondition ::
  "mot_config \<Rightarrow> mot_status \<Rightarrow> tp \<Rightarrow> tc_struct \<Rightarrow> tc_struct option \<Rightarrow> int \<times> tc_struct" where
  "tpCheckEndCondition cfg st tp tc0 nexttc =
     (let tc = tc0\<lparr>tc_cycle_time := tp_cycleTime tp\<rparr>;
          dx = tcGetDistanceToGo tc (tp_reverse_run tp);
          stops = (tc_term_cond tc = TC_TERM_COND_STOP \<or> tc_term_cond tc = TC_TERM_COND_EXACT)
      in if dx \<le> TP_POS_EPSILON then
           (let t1 = tc\<lparr>tc_progress := tcGetTarget tc (tp_reverse_run tp)\<rparr>;
                t2 = (if tp_reverse_run tp = 0 then snd (tcSetSplitCycle t1 0 (tc_currentvel t1)) else t1)
            in (TP_ERR_OK, if stops \<or> tp_reverse_run tp \<noteq> 0 then t2\<lparr>tc_remove := 1\<rparr> else t2))
         else if tp_reverse_run tp \<noteq> 0 then (TP_ERR_NO_ACTION, tc)
         else if stops then (TP_ERR_NO_ACTION, tc)
         else
           (case end_time cfg st tp tc nexttc dx of
              None \<Rightarrow> (TP_ERR_NO_ACTION, tc)
            | Some (dt, v_f) \<Rightarrow>
                if dt < TP_TIME_EPSILON then
                  (TP_ERR_OK, snd (tcSetSplitCycle (tc\<lparr>tc_progress := tcGetTarget tc (tp_reverse_run tp)\<rparr>) 0 v_f))
                else if dt < tp_cycleTime tp then (TP_ERR_OK, snd (tcSetSplitCycle tc dt v_f))
                else (TP_ERR_NO_ACTION, tc)))"

definition cycle_accel ::
  "mot_config \<Rightarrow> mot_status \<Rightarrow> tp \<Rightarrow> tc_struct \<Rightarrow> tc_struct option \<Rightarrow> tc_struct \<times> real \<times> real" where
  "cycle_accel cfg st tp tc nexttc =
     (let (t, ramp) = (if tc_accel_mode tc \<noteq> 0 \<and> tc_term_cond tc = TC_TERM_COND_TANGENT
            then tpCalculateRampAccel cfg st tp tc nexttc else (tc, None))
      in (t, case ramp of Some r \<Rightarrow> r | None \<Rightarrow> tpCalculateTrapezoidalAccel cfg st tp t nexttc))"

text \<open>The advance of a segment within \<open>tpUpdateCycle\<close>, between the two calls of \<open>tcGetPos\<close>.\<close>

definition cycle_advance ::
  "mot_config \<Rightarrow> mot_status \<Rightarrow> tp \<Rightarrow> tc_struct \<Rightarrow> tc_struct option \<Rightarrow> tc_struct" where
  "cycle_advance cfg st tp tc nexttc =
     (let t1 = (if tc_blending_next tc = 0 then tc\<lparr>tc_vel_at_blend_start := tc_currentvel tc\<rparr> else tc);
          (t2, acc, vel_desired) = cycle_accel cfg st tp t1 nexttc;
          t3 = tcUpdateDistFromAccel t2 acc vel_desired (tp_reverse_run tp)
      in snd (tpCheckEndCondition cfg st tp t3 nexttc))"

definition tpUpdateCycle ::
  "mot_config \<Rightarrow> mot_status \<Rightarrow> tp \<Rightarrow> tc_struct \<Rightarrow> tc_struct option \<Rightarrow> (int \<times> tp \<times> tc_struct) option" where
  "tpUpdateCycle cfg st tp tc nexttc =
     (let t = cycle_advance cfg st tp tc nexttc in
      case (tcGetPos tc, tcGetPos t) of
        (Some before, Some after) \<Rightarrow>
          (let (res_set, tp1) = tpAddCurrentPos tp (snd (emcPoseSelfSub (Some after) (Some before)))
           in Some (res_set, tp1, t))
      | _ \<Rightarrow> None)"

section \<open>Status\<close>

definition tpUpdateMovementStatus ::
  "tp \<Rightarrow> tc_struct option \<Rightarrow> mot_status \<Rightarrow> (int \<times> tp \<times> mot_status) option" where
  "tpUpdateMovementStatus tp tc st =
     (case tc of
        None \<Rightarrow>
          Some (TP_ERR_STOPPED, tp\<lparr>tp_motionType := 0, tp_activeDepth := 0\<rparr>,
            st\<lparr>ms_distance_to_go := 0, ms_enables_queued := ms_enables_new st, ms_requested_vel := 0,
               ms_current_vel := 0, ms_dtg := emcPoseZero\<rparr>)
      | Some t \<Rightarrow>
          (case tcGetEndpoint t of
             None \<Rightarrow> None
           | Some tc_pos \<Rightarrow>
               Some (TP_ERR_OK,
                 tp\<lparr>tp_motionType := tc_canon_motion_type t, tp_activeDepth := tc_active_depth t, tp_execId := tc_id t\<rparr>,
                 st\<lparr>ms_distance_to_go := tc_target t - tc_progress t, ms_enables_queued := tc_enables t,
                    ms_requested_vel := d2i (tc_reqvel t), ms_current_vel := d2i (tc_currentvel t),
                    ms_dtg := the (snd (emcPoseSub (Some tc_pos) (Some (tp_currentPos tp))))\<rparr>)))"

definition tpUpdateInitialStatus :: "tp \<Rightarrow> mot_status \<Rightarrow> mot_status" where
  "tpUpdateInitialStatus tp st =
     st\<lparr>ms_tcqlen := of_int (tcqLen (tp_queue tp)), ms_requested_vel := 0, ms_current_vel := 0\<rparr>"

section \<open>Parabolic blending\<close>

definition tpUpdateBlend ::
  "mot_config \<Rightarrow> mot_status \<Rightarrow> tp \<Rightarrow> tc_struct \<Rightarrow> tc_struct \<Rightarrow> (tp \<times> tc_struct) option" where
  "tpUpdateBlend cfg st tp tc nexttc =
     (let save_vel = tc_target_vel nexttc;
          moving = tpGetFeedScale st tp (Some nexttc) > TP_VEL_EPSILON;
          dv = tc_vel_at_blend_start tc - tc_currentvel tc;
          vel_start = max (tc_vel_at_blend_start tc) TP_VEL_EPSILON;
          blend_progress = max (min (dv / vel_start) 1) 0;
          blend_scale = tc_vel_at_blend_start tc / tc_blend_vel tc;
          n1 = (if moving
                then nexttc\<lparr>tc_target_vel := blend_progress * tc_blend_vel nexttc * blend_scale, tc_is_blending := 1\<rparr>
                else nexttc\<lparr>tc_target_vel := 0\<rparr>)
      in if moving \<and> tc_blend_vel tc = 0 then None
         else
           (case tpUpdateCycle cfg st tp n1 None of
              None \<Rightarrow> None
            | Some (r, tp1, n2) \<Rightarrow> Some (tp1, n2\<lparr>tc_target_vel := save_vel\<rparr>)))"

definition tpDoParabolicBlending ::
  "mot_config \<Rightarrow> mot_status \<Rightarrow> tp \<Rightarrow> tc_struct \<Rightarrow> tc_struct \<Rightarrow> (tp \<times> tc_struct \<times> mot_status) option" where
  "tpDoParabolicBlending cfg st tp tc nexttc =
     (case tpUpdateBlend cfg st tp tc nexttc of
        None \<Rightarrow> None
      | Some (tp1, n1) \<Rightarrow>
          (case tpUpdateMovementStatus tp1 (Some (if tc_currentvel tc > tc_currentvel n1 then tc else n1)) st of
             None \<Rightarrow> None
           | Some (r, tp2, st1) \<Rightarrow>
               Some (tp2, n1, st1\<lparr>ms_current_vel := d2i (tc_currentvel tc + tc_currentvel n1)\<rparr>)))"

section \<open>Beginning and end of segments\<close>

definition tpHandleEmptyQueue :: "tp \<Rightarrow> mot_status \<Rightarrow> (tp \<times> mot_status) option" where
  "tpHandleEmptyQueue tp st =
     (case tpUpdateMovementStatus
         (tp\<lparr>tp_queue := snd (tcqInit (tp_queue tp)), tp_goalPos := tp_currentPos tp, tp_done := 1, tp_depth := 0,
             tp_activeDepth := 0, tp_aborting := 0, tp_execId := 0, tp_motionType := 0\<rparr>) None st of
        None \<Rightarrow> None
      | Some (r, tp1, st1) \<Rightarrow> Some (tpResume tp1, st1))"

text \<open>The segment lies in slot \<open>i\<close> of the queue.\<close>

definition relock :: "tc_struct \<Rightarrow> rotary_pins \<Rightarrow> (bool \<times> rotary_pins) option" where
  "relock tc pins =
     (if tc_indexer_jnum tc = -1 then Some (True, pins)
      else
        (case emcmotSetRotaryUnlock (tc_indexer_jnum tc) 0 pins of
           None \<Rightarrow> None
         | Some pins1 \<Rightarrow>
             map_option (\<lambda>u. (u = 0, pins1)) (emcmotGetRotaryIsUnlocked (tc_indexer_jnum tc) pins1)))"

definition tpCompleteSegment :: "tp \<Rightarrow> int \<Rightarrow> tc_struct \<Rightarrow> rotary_pins \<Rightarrow> (int \<times> tp \<times> rotary_pins) option" where
  "tpCompleteSegment tp i tc pins =
     (if tp_waiting_for_atspeed tp = tc_id tc then Some (TP_ERR_FAIL, tp_store (Some i) (Some tc) tp, pins)
      else
        (let tp1 = tp\<lparr>tp_spin_offset := (if tc_synchronized tc \<noteq> TC_SYNC_NONE
               then tp_spin_offset tp + tc_target tc / tc_uu_per_rev tc else 0)\<rparr>
         in case relock tc pins of
              None \<Rightarrow> None
            | Some (locked, pins1) \<Rightarrow>
                if \<not> locked then Some (TP_ERR_FAIL, tp_store (Some i) (Some tc) tp1, pins1)
                else
                  (let t = tc\<lparr>tc_active := 0, tc_remove := 0, tc_is_blending := 0, tc_splitting := 0,
                             tc_cycle_time := tp_cycleTime tp1, tc_currentvel := 0, tc_term_vel := 0\<rparr>;
                       tp2 = tp_store (Some i) (Some t) tp1;
                       q = (if tp_reverse_run tp2 \<noteq> 0 then snd (tcqBackStep (tp_queue tp2))
                            else snd (tcqPop (tp_queue tp2)))
                   in Some (TP_ERR_OK, tp2\<lparr>tp_queue := q\<rparr>, pins1))))"

definition tpHandleAbort :: "tp \<Rightarrow> tc_struct \<Rightarrow> tc_struct option \<Rightarrow> int \<times> tp" where
  "tpHandleAbort tp tc nexttc =
     (if tp_aborting tp = 0 then (TP_ERR_NO_ACTION, tp)
      else if tc_currentvel tc = 0 \<and> (case nexttc of None \<Rightarrow> True | Some n \<Rightarrow> tc_currentvel n = 0) then
        (TP_ERR_STOPPED,
         tpResume (tp\<lparr>tp_queue := snd (tcqInit (tp_queue tp)), tp_goalPos := tp_currentPos tp, tp_done := 1,
            tp_depth := 0, tp_activeDepth := 0, tp_aborting := 0, tp_execId := 0, tp_motionType := 0,
            tp_synchronized := 0, tp_reverse_run := 0\<rparr>))
      else (TP_ERR_SLOWING, tp))"

text \<open>A velocity of 0 makes the estimated time infinite, or not a number, and not below the cutoff.\<close>

definition tpActivateSegment ::
  "mot_config \<Rightarrow> mot_status \<Rightarrow> tp \<Rightarrow> tc_struct \<Rightarrow> int \<times> tp \<times> tc_struct" where
  "tpActivateSegment cfg st tp tc =
     (if tc_active tc \<noteq> 0 then (TP_ERR_OK, tp, tc)
      else if tp_reverse_run tp \<noteq> 0 \<and> tc_synchronized tc \<noteq> TC_SYNC_NONE then (TP_ERR_REVERSE_EMPTY, tp, tc)
      else
        (let cutoff_time = 1 / max (mg_arcBlendRampFreq cfg) TP_TIME_EPSILON;
             length = tcGetDistanceToGo tc (tp_reverse_run tp);
             v = tc_currentvel tc + min (tc_finalvel tc) (tpGetRealTargetVel cfg st tp (Some tc));
             ramp = v \<noteq> 0 \<and> 2 * length / v < cutoff_time \<and> tc_canon_motion_type tc \<noteq> 1
               \<and> tc_term_cond tc = TC_TERM_COND_TANGENT \<and> tc_motion_type tc \<noteq> TC_RIGIDTAP \<and> length \<noteq> 0;
             t1 = (if ramp then tc\<lparr>tc_accel_mode := TC_ACCEL_RAMP\<rparr> else tc)
         in (TP_ERR_OK, tp\<lparr>tp_motionType := tc_canon_motion_type tc\<rparr>,
             t1\<lparr>tc_active := 1, tc_blending_next := 0, tc_on_final_decel := 0\<rparr>)))"

section \<open>Spindle synchronisation\<close>

definition match_next :: "tc_struct \<Rightarrow> tc_struct option \<Rightarrow> tc_struct option" where
  "match_next tc nexttc =
     map_option (\<lambda>n. if tc_synchronized n \<noteq> 0 then n\<lparr>tc_target_vel := tc_target_vel tc\<rparr> else n) nexttc"

definition tpSyncVelocityMode :: "tc_struct \<Rightarrow> tc_struct option \<Rightarrow> tc_struct option" where
  "tpSyncVelocityMode tc nexttc = match_next tc nexttc"

definition tpSyncPositionMode ::
  "tp \<Rightarrow> tc_struct \<Rightarrow> tc_struct option \<Rightarrow> tp \<times> tc_struct \<times> tc_struct option" where
  "tpSyncPositionMode tp tc nexttc =
     (let oldrevs = tp_spin_revs tp;
          pos_desired = (tp_spin_revs tp - tp_spin_offset tp) * tc_uu_per_rev tc;
          pos_error = pos_desired - tc_progress tc - (case nexttc of None \<Rightarrow> 0 | Some n \<Rightarrow> tc_progress n);
          (tp1, t1) =
            (if tc_sync_accel tc \<noteq> 0 then
               (let dt = max (tp_cycleTime tp) TP_TIME_EPSILON;
                    spindle_vel = tp_spin_revs tp / (dt * of_int (tc_sync_accel tc));
                    target_vel = spindle_vel * tc_uu_per_rev tc
                in if tc_currentvel tc \<ge> target_vel then
                     (tp\<lparr>tp_spin_offset := tp_spin_revs tp - tc_progress tc / tc_uu_per_rev tc\<rparr>,
                      tc\<lparr>tc_sync_accel := 0, tc_target_vel := target_vel\<rparr>)
                   else (tp, tc\<lparr>tc_sync_accel := s32 (tc_sync_accel tc + 1), tc_target_vel := tc_maxvel tc\<rparr>))
             else
               (let spindle_vel = (tp_spin_revs tp - oldrevs) / tp_cycleTime tp;
                    target_vel = spindle_vel * tc_uu_per_rev tc;
                    e = pmSqrt (\<bar>pos_error\<bar> * tcGetTangentialMaxAccel tc);
                    errorvel = (if pos_error < 0 then - e else e)
                in (tp, tc\<lparr>tc_target_vel := target_vel + errorvel\<rparr>)));
          t2 = (if tc_target_vel t1 < 0 then t1\<lparr>tc_target_vel := 0\<rparr> else t1)
      in (tp1, t2, match_next t2 nexttc))"

definition tpUpdateRigidTapState :: "tc_struct \<Rightarrow> tc_struct" where
  "tpUpdateRigidTapState tc =
     (case tc_coords tc of
        RigidTap t \<Rightarrow>
          if rt_state t = RIGIDTAP_START \<or> rt_state t = TAPPING then
            tc\<lparr>tc_coords := RigidTap (t\<lparr>rt_state :=
               (if tc_progress tc \<ge> rt_reversal_target t then REVERSING else TAPPING)\<rparr>)\<rparr>
          else tc
      | _ \<Rightarrow> tc)"

section \<open>One cycle\<close>

type_synonym cycle_result = "tp \<times> tc_struct \<times> tc_struct option \<times> mot_status"

definition split_next :: "tp \<Rightarrow> tc_struct \<Rightarrow> tc_struct \<Rightarrow> tc_struct" where
  "split_next tp tc nexttc =
     (if tc_term_cond tc = TC_TERM_COND_TANGENT
      then nexttc\<lparr>tc_cycle_time := tp_cycleTime tp - tc_cycle_time tc, tc_currentvel := tc_term_vel tc\<rparr> else nexttc)"

definition tpHandleSplitCycle ::
  "mot_config \<Rightarrow> mot_status \<Rightarrow> tp \<Rightarrow> tc_struct \<Rightarrow> tc_struct option \<Rightarrow> (int \<times> cycle_result) option" where
  "tpHandleSplitCycle cfg st tp tc nexttc =
     (if tc_remove tc \<noteq> 0 then Some (TP_ERR_NO_ACTION, tp, tc, nexttc, st)
      else
        (let t1 = tc\<lparr>tc_progress := tcGetTarget tc (tp_reverse_run tp)\<rparr> in
         case (tcGetPos tc, tcGetPos t1) of
           (Some before, Some after) \<Rightarrow>
             (let tp1 = snd (tpAddCurrentPos tp (snd (emcPoseSelfSub (Some after) (Some before))));
                  t2 = t1\<lparr>tc_remove := 1\<rparr>
              in case nexttc of
                   None \<Rightarrow> Some (TP_ERR_OK, tp1, t2, None, st)
                 | Some n \<Rightarrow>
                     (let n1 = split_next tp1 t2 n;
                          queue_dir_step = (if tp_reverse_run tp1 \<noteq> 0 then -1 else 1);
                          next2 = tp_fetch tp1 (tcqItem (tp_queue tp1) (queue_dir_step * 2))
                      in case next2 of
                           None \<Rightarrow> None
                         | Some next2tc \<Rightarrow>
                             (case tpUpdateCycle cfg st tp1 n1 next2tc of
                                None \<Rightarrow> None
                              | Some (r, tp2, n2) \<Rightarrow>
                                  (case tpUpdateMovementStatus tp2
                                      (Some (if tc_cycle_time t2 > tc_cycle_time n2 \<and> tc_term_cond t2 = TC_TERM_COND_TANGENT
                                             then t2 else n2)) st of
                                     None \<Rightarrow> None
                                   | Some (r, tp3, st1) \<Rightarrow> Some (TP_ERR_OK, tp3, t2, Some n2, st1)))))
         | _ \<Rightarrow> None))"

definition tpHandleRegularCycle ::
  "mot_config \<Rightarrow> mot_status \<Rightarrow> tp \<Rightarrow> tc_struct \<Rightarrow> tc_struct option \<Rightarrow> (int \<times> cycle_result) option" where
  "tpHandleRegularCycle cfg st tp tc nexttc =
     (if tc_remove tc \<noteq> 0 then Some (TP_ERR_NO_ACTION, tp, tc, nexttc, st)
      else
        (case tpUpdateCycle cfg st tp (tc\<lparr>tc_cycle_time := tp_cycleTime tp\<rparr>) nexttc of
           None \<Rightarrow> None
         | Some (r, tp1, t1) \<Rightarrow>
             (case tpComputeBlendVelocity t1 nexttc (tpGetRealTargetVel cfg st tp1 (Some t1))
                  (tpGetRealTargetVel cfg st tp1 nexttc) (0, 0, 0) of
                None \<Rightarrow> None
              | Some (r, v_this, v_next, v_net) \<Rightarrow>
                  (let t2 = t1\<lparr>tc_blend_vel := v_this\<rparr>;
                       n2 = map_option (\<lambda>n. n\<lparr>tc_blend_vel := v_next\<rparr>) nexttc;
                       (b, t3) = (if n2 = None then (0, t2) else tcIsBlending t2)
                   in case n2 of
                        Some n \<Rightarrow>
                          if b \<noteq> 0 then
                            (case tpDoParabolicBlending cfg st tp1 t3 n of
                               None \<Rightarrow> None
                             | Some (tp2, n3, st1) \<Rightarrow> Some (TP_ERR_OK, tp2, t3, Some n3, st1))
                          else
                            (case tpUpdateMovementStatus tp1 (Some t3) st of
                               None \<Rightarrow> None
                             | Some (r, tp2, st1) \<Rightarrow> Some (TP_ERR_OK, tp2, t3, n2, st1))
                      | None \<Rightarrow>
                          (case tpUpdateMovementStatus tp1 (Some t3) st of
                             None \<Rightarrow> None
                           | Some (r, tp2, st1) \<Rightarrow> Some (TP_ERR_OK, tp2, t3, n2, st1))))))"

definition cycle_sync :: "tp \<Rightarrow> tc_struct \<Rightarrow> tc_struct option \<Rightarrow> tp \<times> tc_struct \<times> tc_struct option" where
  "cycle_sync tp tc nexttc =
     (let t = (if tc_motion_type tc = TC_RIGIDTAP then tpUpdateRigidTapState tc else tc) in
      if tc_synchronized t = TC_SYNC_VELOCITY then (tp, t, tpSyncVelocityMode t nexttc)
      else if tc_synchronized t = TC_SYNC_POSITION then tpSyncPositionMode tp t nexttc
      else (tp, t, nexttc))"

text \<open>The segments \<open>tc\<close> and \<open>nexttc\<close> lie in the slots \<open>i\<close> and \<open>j\<close>.\<close>

definition cycle_move ::
  "mot_config \<Rightarrow> mot_status \<Rightarrow> tp \<Rightarrow> tc_struct \<Rightarrow> tc_struct option \<Rightarrow> (int \<times> cycle_result) option" where
  "cycle_move cfg st tp tc nexttc =
     (let (tp1, t1, n1) = cycle_sync tp tc nexttc;
          t2 = the (snd (tcClearFlags (Some t1)));
          n2 = snd (tcClearFlags n1)
      in if tc_splitting t2 \<noteq> 0 then tpHandleSplitCycle cfg st tp1 t2 n2
         else tpHandleRegularCycle cfg st tp1 t2 n2)"

definition tpRunCycle ::
  "mot_config \<Rightarrow> tp \<times> mot_status \<times> rotary_pins \<Rightarrow> (int \<times> tp \<times> mot_status \<times> rotary_pins) option" where
  "tpRunCycle cfg env =
     (case env of (tp, st0, pins) \<Rightarrow>
       (let i = tcqItem (tp_queue tp) 0;
            j = tcqItem (tp_queue tp) (if tp_reverse_run tp \<noteq> 0 then -1 else 1);
            st = tpUpdateInitialStatus tp st0
        in case (tp_fetch tp i, tp_fetch tp j) of
             (Some None, Some _) \<Rightarrow>
               map_option (\<lambda>(tp1, st1). (TP_ERR_WAITING, tp1, st1, pins)) (tpHandleEmptyQueue tp st)
           | (Some (Some tc), Some nexttc) \<Rightarrow>
               (let (a, tp1) = tpHandleAbort tp tc nexttc in
                if a = TP_ERR_STOPPED then Some (TP_ERR_STOPPED, tp1, st, pins)
                else
                  (let (r, tp2, t2) = tpActivateSegment cfg st tp1 tc in
                   if r \<noteq> TP_ERR_OK then Some (r, tp_store i (Some t2) tp2, st, pins)
                   else
                     (case cycle_move cfg st tp2 t2 nexttc of
                        None \<Rightarrow> None
                      | Some (r, tp3, t3, n3, st3) \<Rightarrow>
                          (let tp4 = tp_store j n3 (tp_store i (Some t3) tp3) in
                           if tc_remove t3 \<noteq> 0
                           then map_option (\<lambda>(r, tp5, pins1). (TP_ERR_OK, tp5, st3, pins1))
                                  (tpCompleteSegment tp4 (the i) t3 pins)
                           else Some (TP_ERR_OK, tp4, st3, pins)))))
           | _ \<Rightarrow> None))"

end
