(* ===== verification/TpQueue.thy ===== *)
theory TpQueue
  imports TpCycle
begin

text \<open>
  What the planner relies on when it works on queued segments in place: the locale \<open>seg_queue\<close> of
  queues whose elements are reached through slots, its interpretation on the ring of \<open>tp/tcq.c\<close>, and the
  planner's own accesses (\<open>tp_fetch\<close>, \<open>tp_store\<close>) in terms of the list of queued segments.
\<close>

locale seg_queue =
  fixes wf :: "'q \<Rightarrow> bool"
    and segs :: "'q \<Rightarrow> 'a list"
    and slot :: "'q \<Rightarrow> int \<Rightarrow> int option"
    and get :: "'q \<Rightarrow> int \<Rightarrow> 'a option"
    and set_slot :: "int \<Rightarrow> 'a \<Rightarrow> 'q \<Rightarrow> 'q"
    and pop :: "'q \<Rightarrow> 'q"
  assumes slot_in: "wf q \<Longrightarrow> 0 \<le> n \<Longrightarrow> n < int (length (segs q)) \<Longrightarrow>
      \<exists>i. slot q n = Some i \<and> get q i = Some (segs q ! nat n)"
    and slot_out: "wf q \<Longrightarrow> n < 0 \<or> int (length (segs q)) \<le> n \<Longrightarrow> slot q n = None"
    and set_wf: "wf q \<Longrightarrow> slot q n = Some i \<Longrightarrow> wf (set_slot i x q)"
    and set_segs: "wf q \<Longrightarrow> slot q n = Some i \<Longrightarrow> segs (set_slot i x q) = (segs q)[nat n := x]"
    and set_slots: "slot (set_slot i x q) m = slot q m"
    and pop_segs: "wf q \<Longrightarrow> segs q = x # xs \<Longrightarrow> wf (pop q) \<and> segs (pop q) = xs"
begin

lemma slot_range: "wf q \<Longrightarrow> slot q n = Some i \<Longrightarrow> 0 \<le> n \<and> n < int (length (segs q))"
  using slot_out [of q n] by (cases "n < 0 \<or> int (length (segs q)) \<le> n") auto

lemma get_slot: "wf q \<Longrightarrow> slot q n = Some i \<Longrightarrow> get q i = Some (segs q ! nat n)"
  using slot_in [of q n] slot_range [of q n i] by auto

lemma get_set_same: "wf q \<Longrightarrow> slot q n = Some i \<Longrightarrow> get (set_slot i x q) i = Some x"
  using get_slot [OF set_wf [of q n i x], of n i] slot_range [of q n i]
  by (simp add: set_slots set_segs [of q n i] nat_less_iff)

lemma get_set_other:
  assumes "wf q" "slot q n = Some i" "slot q m = Some j" "n \<noteq> m"
  shows "get (set_slot i x q) j = get q j"
proof -
  have "nat n \<noteq> nat m" using slot_range [OF assms(1,2)] slot_range [OF assms(1,3)] assms(4) by auto
  then show ?thesis
    using get_slot [OF set_wf [OF assms(1,2), of x], of m j] get_slot [OF assms(1,3)] assms
    by (simp add: set_slots set_segs [OF assms(1,2)])
qed

text \<open>A cycle: the front is replaced, the segment behind it, if there is one, too, and the front leaves.\<close>

lemma replace_front:
  assumes "wf q" "segs q = a # xs" "slot q 0 = Some i"
  shows "wf (set_slot i x q)" "segs (set_slot i x q) = x # xs"
  using set_wf [OF assms(1,3)] set_segs [OF assms(1,3)] assms(2) by auto

lemma replace_two:
  assumes "wf q" "segs q = a # b # xs" "slot q 0 = Some i" "slot q 1 = Some j"
  shows "wf (set_slot j y (set_slot i x q))" "segs (set_slot j y (set_slot i x q)) = x # y # xs"
proof -
  let ?q = "set_slot i x q"
  have q: "wf ?q" "segs ?q = x # b # xs" using replace_front [OF assms(1-3)] by auto
  have s: "slot ?q 1 = Some j" using assms(4) by (simp add: set_slots)
  show "wf (set_slot j y ?q)" "segs (set_slot j y ?q) = x # y # xs"
    using set_wf [OF q(1) s] set_segs [OF q(1) s] q(2) by auto
qed

lemma front_leaves:
  assumes "wf q" "segs q = a # xs" "slot q 0 = Some i"
  shows "wf (pop (set_slot i x q))" "segs (pop (set_slot i x q)) = xs"
  using pop_segs replace_front [OF assms] by blast+

end

section \<open>The ring provides it\<close>

definition tcq_set :: "int \<Rightarrow> 'tc \<Rightarrow> 'tc tcq \<Rightarrow> 'tc tcq" where
  "tcq_set i x q = q\<lparr>tq_queue := map_option (\<lambda>xs. xs[nat i := x]) (tq_queue q)\<rparr>"

lemma tcq_set_wf: "tcq_wf q \<Longrightarrow> tcq_wf (tcq_set i x q)"
  by (auto simp: tcq_wf_def tcq_set_def split: option.splits)

lemma tcq_set_fields [simp]:
  "tq_size (tcq_set i x q) = tq_size q" "tq_len (tcq_set i x q) = tq_len q" "tq_start (tcq_set i x q) = tq_start q"
  "tq_rlen (tcq_set i x q) = tq_rlen q" "tq_rend (tcq_set i x q) = tq_rend q" "tq_end (tcq_set i x q) = tq_end q"
  by (simp_all add: tcq_set_def)

lemma tcq_set_slots: "tcq_slots (tcq_set i x q) = (tcq_slots q)[nat i := x]"
  by (simp add: tcq_slots_def tcq_set_def split: option.split)

lemma tcqItem_set [simp]: "tcqItem (tcq_set i x q) m = tcqItem q m"
  by (simp add: tcqItem_def tcqCheck_def tcq_set_def)

lemma tcqItem_Some:
  assumes "tcq_wf q" "tcqItem q n = Some i"
  shows "0 \<le> n" "n < tq_len q" "i = (tq_start q + n) mod tq_size q"
  using assms by (auto simp: tcqItem_def smod_nonneg split: if_splits elim!: tcq_wfE)

lemma tcq_set_list:
  assumes wf: "tcq_wf q" and i: "tcqItem q n = Some i"
  shows "tcq_list (tcq_set i x q) = (tcq_list q)[nat n := x]"
proof (rule nth_equalityI)
  show len: "length (tcq_list (tcq_set i x q)) = length ((tcq_list q)[nat n := x])" by (simp add: tcq_list_def)
  fix k assume "k < length (tcq_list (tcq_set i x q))"
  then have k: "k < nat (tq_len q)" by (simp add: tcq_list_def)
  note n = tcqItem_Some [OF wf i]
  obtain xs where q: "tq_queue q = Some xs" "tq_size q \<le> int (length xs)" "0 < tq_size q" "tq_len q \<le> tq_size q"
    using wf by (auto elim!: tcq_wfE)
  have r: "0 \<le> (tq_start q + int k) mod tq_size q" "0 \<le> i" "i < int (length xs)"
  proof -
    show "0 \<le> (tq_start q + int k) mod tq_size q" "0 \<le> i" using q(3) n(3) by simp_all
    have "i < tq_size q" using q(3) n(3) by simp
    with q(2) show "i < int (length xs)" by linarith
  qed
  have kk: "int k < tq_size q" "n < tq_size q" using k n(2) q(4) by linarith+
  have same: "(tq_start q + int k) mod tq_size q = i \<longleftrightarrow> int k = n"
  proof
    assume "(tq_start q + int k) mod tq_size q = i"
    then show "int k = n"
      unfolding n(3) using mod_offset_inj [of "int k" "tq_size q" n "tq_start q"] kk n(1) by simp
  qed (simp add: n(3))
  show "tcq_list (tcq_set i x q) ! k = (tcq_list q)[nat n := x] ! k"
  proof (cases "int k = n")
    case True
    with same have e: "(tq_start q + int k) mod tq_size q = i" by blast
    have "nat i < length (tcq_slots q)" using r(2,3) q(1) by (simp add: tcq_slots_def nat_less_iff)
    then have "tcq_list (tcq_set i x q) ! k = x" using k e by (simp add: tcq_list_def tcq_set_slots)
    moreover have "k = nat n" "k < length (tcq_list q)" using True k by (auto simp: tcq_list_def)
    ultimately show ?thesis by simp
  next
    case False
    with same r have "nat ((tq_start q + int k) mod tq_size q) \<noteq> nat i" by (simp add: nat_eq_iff)
    moreover have "k \<noteq> nat n" using False n by auto
    ultimately show ?thesis using k by (simp add: tcq_list_def tcq_set_slots)
  qed
qed

interpretation sq: seg_queue tcq_wf tcq_list tcqItem tcqDeref tcq_set "\<lambda>q. snd (tcqPop q)"
proof unfold_locales
  fix q :: "'tc tcq" and n
  assume q: "tcq_wf q"
  note len = length_tcq_list [OF q]
  show "0 \<le> n \<Longrightarrow> n < int (length (tcq_list q)) \<Longrightarrow> \<exists>i. tcqItem q n = Some i \<and> tcqDeref q i = Some (tcq_list q ! nat n)"
    using tcqItem_wf [OF q] len by simp
  show "n < 0 \<or> int (length (tcq_list q)) \<le> n \<Longrightarrow> tcqItem q n = None"
    using len by (auto simp: tcqItem_def)
  show "tcq_wf (tcq_set i x q)" for i x by (rule tcq_set_wf [OF q])
  show "tcqItem q n = Some i \<Longrightarrow> tcq_list (tcq_set i x q) = (tcq_list q)[nat n := x]" for i x
    by (rule tcq_set_list [OF q])
  show "tcq_wf (snd (tcqPop q)) \<and> tcq_list (snd (tcqPop q)) = xs" if "tcq_list q = x # xs" for x xs
    using tcqPop_wf [OF q] len that by auto
qed (rule tcqItem_set)

section \<open>The planner's accesses\<close>

definition tp_segs :: "tp \<Rightarrow> tc_struct list" where
  "tp_segs tp = tcq_list (tp_queue tp)"

definition tp_qwf :: "tp \<Rightarrow> bool" where
  "tp_qwf tp \<longleftrightarrow> tcq_wf (tp_queue tp)"

lemma tp_fetch_in:
  assumes "tp_qwf tp" "0 \<le> n" "n < int (length (tp_segs tp))"
  shows "tp_fetch tp (tcqItem (tp_queue tp) n) = Some (Some (tp_segs tp ! nat n))"
  using sq.slot_in [of "tp_queue tp" n] assms by (auto simp: tp_fetch_def tp_segs_def tp_qwf_def)

lemma tp_fetch_out:
  assumes "tp_qwf tp" "n < 0 \<or> int (length (tp_segs tp)) \<le> n"
  shows "tcqItem (tp_queue tp) n = None" "tp_fetch tp (tcqItem (tp_queue tp) n) = Some None"
  using sq.slot_out [of "tp_queue tp" n] assms by (auto simp: tp_fetch_def tp_segs_def tp_qwf_def)

lemma tp_store_set: "tp_store (Some i) (Some t) tp = tp\<lparr>tp_queue := tcq_set i t (tp_queue tp)\<rparr>"
  by (simp add: tp_store_def tcq_set_def)

lemma tp_store_None [simp]: "tp_store None t tp = tp" "tp_store p None tp = tp"
  by (simp_all add: tp_store_def split: option.split)

lemma tp_store_front:
  assumes "tp_qwf tp" "tp_segs tp = a # xs"
  obtains i where "tcqItem (tp_queue tp) 0 = Some i"
    "tp_qwf (tp_store (Some i) (Some x) tp)" "tp_segs (tp_store (Some i) (Some x) tp) = x # xs"
proof -
  from assms sq.slot_in [of "tp_queue tp" 0] obtain i where i: "tcqItem (tp_queue tp) 0 = Some i"
    by (auto simp: tp_segs_def tp_qwf_def)
  show ?thesis
    using that [OF i] sq.replace_front [OF _ _ i, of a xs x] assms
    by (simp add: tp_store_set tp_segs_def tp_qwf_def)
qed

end
