(* ===== verification/TpMotion.thy ===== *)
theory TpMotion
  imports TpCycle
begin

text \<open>
  How one segment moves: its progress and velocity stay in range, a cycle changes the velocity by no
  more than the acceleration limit allows, the trapezoidal rule keeps the segment able to reach its
  final velocity in the distance that is left, and it arrives.
\<close>

section \<open>What a cycle leaves alone\<close>

text \<open>The part of a segment that fixes its path and its limits.\<close>

definition seg_frame :: "tc_struct \<Rightarrow> tc_struct \<Rightarrow> bool" where
  "seg_frame t t' \<longleftrightarrow>
     tc_target t' = tc_target t \<and> tc_coords t' = tc_coords t \<and> tc_reqvel t' = tc_reqvel t \<and>
     tc_target_vel t' = tc_target_vel t \<and> tc_maxvel t' = tc_maxvel t \<and> tc_finalvel t' = tc_finalvel t \<and>
     tc_kink_vel t' = tc_kink_vel t \<and> tc_kink_accel_reduce t' = tc_kink_accel_reduce t \<and>
     tc_kink_accel_reduce_prev t' = tc_kink_accel_reduce_prev t \<and> tc_maxaccel t' = tc_maxaccel t \<and>
     tc_acc_ratio_tan t' = tc_acc_ratio_tan t \<and> tc_id t' = tc_id t \<and> tc_term_cond t' = tc_term_cond t \<and>
     tc_blend_prev t' = tc_blend_prev t \<and> tc_synchronized t' = tc_synchronized t \<and>
     tc_is_blending t' = tc_is_blending t \<and> tc_active t' = tc_active t \<and>
     tc_indexer_jnum t' = tc_indexer_jnum t \<and> tc_uu_per_rev t' = tc_uu_per_rev t \<and>
     tc_canon_motion_type t' = tc_canon_motion_type t \<and> tc_accel_mode t' = tc_accel_mode t \<and>
     tc_finalized t' = tc_finalized t \<and> tc_blending_next t' = tc_blending_next t"

lemma seg_frame_refl [simp]: "seg_frame t t"
  by (simp add: seg_frame_def)

lemma seg_frame_trans: "seg_frame t u \<Longrightarrow> seg_frame u v \<Longrightarrow> seg_frame t v"
  by (simp add: seg_frame_def)

lemma seg_frame_upd [simp]:
  "seg_frame t (u\<lparr>tc_progress := p\<rparr>) = seg_frame t u"
  "seg_frame t (u\<lparr>tc_cycle_time := c\<rparr>) = seg_frame t u"
  "seg_frame t (u\<lparr>tc_currentvel := v\<rparr>) = seg_frame t u"
  "seg_frame t (u\<lparr>tc_vel_at_blend_start := v\<rparr>) = seg_frame t u"
  "seg_frame t (u\<lparr>tc_on_final_decel := d\<rparr>) = seg_frame t u"
  "seg_frame t (u\<lparr>tc_splitting := s\<rparr>) = seg_frame t u"
  "seg_frame t (u\<lparr>tc_term_vel := w\<rparr>) = seg_frame t u"
  "seg_frame t (u\<lparr>tc_remove := s\<rparr>) = seg_frame t u"
  by (simp_all add: seg_frame_def)

lemma seg_frame_split: "seg_frame t u \<Longrightarrow> seg_frame t (snd (tcSetSplitCycle u a b))"
  by (simp add: tcSetSplitCycle_def)

lemma seg_frame_motion_type: "seg_frame t t' \<Longrightarrow> tc_motion_type t' = tc_motion_type t"
  by (simp add: seg_frame_def tc_motion_type_def)

lemma seg_frame_accel:
  assumes "seg_frame t t'"
  shows "tcGetTangentialMaxAccel t' = tcGetTangentialMaxAccel t"
proof -
  have e: "tc_kink_accel_reduce t' = tc_kink_accel_reduce t" "tc_kink_accel_reduce_prev t' = tc_kink_accel_reduce_prev t"
    "tc_maxaccel t' = tc_maxaccel t" "tc_acc_ratio_tan t' = tc_acc_ratio_tan t"
    "tc_term_cond t' = tc_term_cond t" "tc_blend_prev t' = tc_blend_prev t"
    using assms by (simp_all add: seg_frame_def)
  show ?thesis
    unfolding tcGetTangentialMaxAccel_def tcGetOverallMaxAccel_def e seg_frame_motion_type [OF assms] by (rule refl)
qed

lemma seg_frame_target_vel:
  assumes "seg_frame t t'"
  shows "tpGetRealTargetVel cfg st tp (Some t') = tpGetRealTargetVel cfg st tp (Some t)"
proof -
  have e: "tc_coords t' = tc_coords t" "tc_synchronized t' = tc_synchronized t" "tc_is_blending t' = tc_is_blending t"
    "tc_reqvel t' = tc_reqvel t" "tc_maxvel t' = tc_maxvel t" "tc_target_vel t' = tc_target_vel t"
    using assms by (simp_all add: seg_frame_def)
  show ?thesis
    by (simp only: tpGetRealTargetVel_def tpGetFeedScale_def tpGetMaxTargetVel_def tcGetMaxTargetVel_def
      tcPureRotaryCheck_def e option.case)
qed

lemma seg_frame_final_vel:
  assumes "seg_frame t t'"
  shows "tpGetRealFinalVel cfg st tp t' n = tpGetRealFinalVel cfg st tp t n"
  unfolding tpGetRealFinalVel_def seg_frame_target_vel [OF assms] Let_def
  using assms by (simp add: seg_frame_def)

lemma seg_frame_distance:
  "seg_frame t t' \<Longrightarrow> tc_progress t' = tc_progress t \<Longrightarrow> tcGetDistanceToGo t' d = tcGetDistanceToGo t d"
  by (simp add: tcGetDistanceToGo_def tcGetTarget_def seg_frame_def)

lemma seg_frame_point: "seg_frame t t' \<Longrightarrow> tc_point t' p = tc_point t p"
  by (simp add: tc_point_def seg_frame_def Let_def split: tc_coords.split option.split)

lemma dist_frame [simp]: "seg_frame t (tcUpdateDistFromAccel t a v r)"
  by (simp add: tcUpdateDistFromAccel_def Let_def)

lemma ramp_frame: "seg_frame t (fst (tpCalculateRampAccel cfg st tp t n))"
  by (simp add: tpCalculateRampAccel_def Let_def)

lemma end_condition_frame [simp]: "seg_frame t (snd (tpCheckEndCondition cfg st tp t n))"
proof -
  have s: "seg_frame t (snd (tcSetSplitCycle u a b))" if "seg_frame t u" for u a b
    using that by (rule seg_frame_split)
  show ?thesis
    by (auto simp: tpCheckEndCondition_def Let_def s split: option.split prod.split)
qed

lemma cycle_accel_frame:
  assumes "cycle_accel cfg st tp t n = (t', acc, v)"
  shows "seg_frame t t'"
    and "tc_progress t' = tc_progress t" "tc_currentvel t' = tc_currentvel t"
    and "tc_cycle_time t' = tc_cycle_time t" "tc_splitting t' = tc_splitting t" "tc_remove t' = tc_remove t"
  using assms
  by (auto simp: cycle_accel_def tpCalculateRampAccel_def Let_def split: if_splits option.splits prod.splits)

lemma cycle_advance_frame: "seg_frame t (cycle_advance cfg st tp t n)"
proof -
  let ?t1 = "if tc_blending_next t = 0 then t\<lparr>tc_vel_at_blend_start := tc_currentvel t\<rparr> else t"
  obtain t2 acc v where a: "cycle_accel cfg st tp ?t1 n = (t2, acc, v)" by (metis prod_cases3)
  have "seg_frame t ?t1" by simp
  then have "seg_frame t t2" using cycle_accel_frame(1) [OF a] seg_frame_trans by blast
  then have "seg_frame t (tcUpdateDistFromAccel t2 acc v (tp_reverse_run tp))"
    using dist_frame seg_frame_trans by blast
  then have "seg_frame t (snd (tpCheckEndCondition cfg st tp
      (tcUpdateDistFromAccel t2 acc v (tp_reverse_run tp)) n))"
    using end_condition_frame seg_frame_trans by blast
  then show ?thesis unfolding cycle_advance_def a Let_def by simp
qed

section \<open>Ranges\<close>

definition seg_range :: "tc_struct \<Rightarrow> bool" where
  "seg_range t \<longleftrightarrow> 0 \<le> tc_progress t \<and> tc_progress t \<le> tc_target t \<and> 0 \<le> tc_currentvel t"

lemma get_target_range: "0 \<le> tc_target t \<Longrightarrow> 0 \<le> tcGetTarget t d \<and> tcGetTarget t d \<le> tc_target t"
  by (simp add: tcGetTarget_def)

lemma split_fields [simp]:
  "tc_progress (snd (tcSetSplitCycle t a b)) = tc_progress t"
  "tc_currentvel (snd (tcSetSplitCycle t a b)) = tc_currentvel t"
  "tc_target (snd (tcSetSplitCycle t a b)) = tc_target t"
  "tc_remove (snd (tcSetSplitCycle t a b)) = tc_remove t"
  by (simp_all add: tcSetSplitCycle_def)

lemma dist_range:
  assumes "seg_range t"
  shows "seg_range (tcUpdateDistFromAccel t a v r)"
proof -
  have T: "0 \<le> tc_target t" using assms by (simp add: seg_range_def)
  have G: "tcGetTarget t TC_DIR_FORWARD = tc_target t" "tcGetTarget t TC_DIR_REVERSE = 0"
    by (simp_all add: tcGetTarget_def TC_DIR_FORWARD_def TC_DIR_REVERSE_def)
  show ?thesis
    using assms bisaturate_bounds [OF T] get_target_range [OF T, of r]
    by (simp add: tcUpdateDistFromAccel_def Let_def seg_range_def G)
qed

lemma end_condition_range:
  assumes "seg_range t"
  shows "seg_range (snd (tpCheckEndCondition cfg st tp t n))"
    and "tc_currentvel (snd (tpCheckEndCondition cfg st tp t n)) = tc_currentvel t"
  using assms get_target_range [of t "tp_reverse_run tp"]
  by (auto simp: tpCheckEndCondition_def Let_def seg_range_def tcGetTarget_def split: option.split prod.split)

text \<open>The acceleration of a cycle is within the limit, whichever rule computes it.\<close>

lemma trapezoid_bound:
  assumes "0 \<le> tcGetTangentialMaxAccel t"
  shows "\<bar>fst (tpCalculateTrapezoidalAccel cfg st tp t n)\<bar> \<le> tcGetTangentialMaxAccel t"
  unfolding tpCalculateTrapezoidalAccel_def Let_def fst_conv by (rule saturate_abs [OF assms])

lemma ramp_bound:
  assumes "tpCalculateRampAccel cfg st tp t n = (t', Some (acc, v))" "0 \<le> tcGetTangentialMaxAccel t"
  shows "\<bar>acc\<bar> \<le> tcGetTangentialMaxAccel t"
proof -
  have "seg_frame t t'" using ramp_frame [of t cfg st tp n] assms(1) by simp
  moreover have "\<exists>x. acc = saturate x (tcGetTangentialMaxAccel t')"
    using assms(1) unfolding tpCalculateRampAccel_def Let_def by (simp split: if_split_asm) blast+
  ultimately show ?thesis
    using saturate_abs [OF assms(2)] seg_frame_accel [of t t'] by auto
qed

lemma cycle_accel_bound:
  assumes "cycle_accel cfg st tp t n = (t', acc, v)" "0 \<le> tcGetTangentialMaxAccel t"
  shows "\<bar>acc\<bar> \<le> tcGetTangentialMaxAccel t"
proof (cases "tc_accel_mode t \<noteq> 0 \<and> tc_term_cond t = TC_TERM_COND_TANGENT")
  case True
  obtain u r where r: "tpCalculateRampAccel cfg st tp t n = (u, r)" by (cases "tpCalculateRampAccel cfg st tp t n")
  show ?thesis
  proof (cases r)
    case None
    with True r assms(1) have "acc = fst (tpCalculateTrapezoidalAccel cfg st tp t' n)" "u = t'"
      by (auto simp: cycle_accel_def)
    with trapezoid_bound [of t' cfg st tp n] seg_frame_accel [of t t'] ramp_frame [of t cfg st tp n] r assms(2)
    show ?thesis by simp
  next
    case (Some x)
    with True r assms(1) have "r = Some (acc, v)" by (simp add: cycle_accel_def)
    with ramp_bound r assms(2) show ?thesis by blast
  qed
next
  case False
  with assms(1) have "acc = fst (tpCalculateTrapezoidalAccel cfg st tp t n)" by (auto simp: cycle_accel_def)
  with trapezoid_bound [OF assms(2)] show ?thesis by simp
qed

lemma dist_currentvel:
  "tc_currentvel (tcUpdateDistFromAccel t acc v r) = max 0 (tc_currentvel t + acc * tc_cycle_time t)"
  by (simp add: tcUpdateDistFromAccel_def Let_def)

lemma dist_vel:
  assumes "0 \<le> tc_currentvel t" "0 \<le> tc_cycle_time t" "\<bar>acc\<bar> \<le> a"
  shows "\<bar>tc_currentvel (tcUpdateDistFromAccel t acc v r) - tc_currentvel t\<bar> \<le> a * tc_cycle_time t"
proof -
  have "\<bar>acc * tc_cycle_time t\<bar> \<le> a * tc_cycle_time t"
    using assms by (simp add: abs_mult mult_right_mono)
  then show ?thesis using assms(1) unfolding dist_currentvel by linarith
qed

lemma cycle_advance_unfold:
  obtains t2 acc v where
    "cycle_accel cfg st tp (if tc_blending_next t = 0 then t\<lparr>tc_vel_at_blend_start := tc_currentvel t\<rparr> else t) n
       = (t2, acc, v)"
    "seg_frame t t2" "tc_progress t2 = tc_progress t" "tc_currentvel t2 = tc_currentvel t"
    "tc_cycle_time t2 = tc_cycle_time t" "tc_splitting t2 = tc_splitting t" "tc_remove t2 = tc_remove t"
    "cycle_advance cfg st tp t n
       = snd (tpCheckEndCondition cfg st tp (tcUpdateDistFromAccel t2 acc v (tp_reverse_run tp)) n)"
proof -
  let ?t1 = "if tc_blending_next t = 0 then t\<lparr>tc_vel_at_blend_start := tc_currentvel t\<rparr> else t"
  obtain t2 acc v where a: "cycle_accel cfg st tp ?t1 n = (t2, acc, v)" by (metis prod_cases3)
  have "seg_frame t ?t1" by simp
  with cycle_accel_frame(1) [OF a] have "seg_frame t t2" using seg_frame_trans by blast
  with cycle_accel_frame(2-) [OF a] a that [of t2 acc v] show ?thesis
    unfolding cycle_advance_def Let_def by (auto split: if_splits)
qed

section \<open>The trapezoidal rule\<close>

text \<open>
  The rule on numbers: velocity \<open>v\<close>, final velocity \<open>f\<close>, limit \<open>a\<close>, distance \<open>d\<close>, cycle time \<open>h\<close>,
  target velocity \<open>g\<close>. The new velocity never exceeds the larger of the old and the target one, and
  \<open>f\<close> stays within braking distance.
\<close>

definition peak :: "real \<Rightarrow> real \<Rightarrow> real \<Rightarrow> real \<Rightarrow> real \<Rightarrow> real" where
  "peak v f a d h =
     (let D = pmSq f + a * (2 * d - v * h) + pmSq (a * h * (1 / 2))
      in if D > pmSq (a * h * (1 / 2)) then - (a * h * (1 / 2)) + pmSqrt D else - (a * h * (1 / 2)))"

definition rule_acc :: "real \<Rightarrow> real \<Rightarrow> real \<Rightarrow> real \<Rightarrow> real \<Rightarrow> real \<Rightarrow> real" where
  "rule_acc v f a d h g = saturate ((saturate (peak v f a d h) g - v) / h) a"

lemma rule_acc_target:
  assumes "0 \<le> a" "0 < h" "0 \<le> g"
  shows "v + rule_acc v f a d h g * h \<le> max v g"
proof -
  let ?x = "(saturate (peak v f a d h) g - v) / h"
  have "?x * h + v \<le> g" using assms saturate_le [of g] by simp
  moreover have "saturate ?x a \<le> ?x \<or> saturate ?x a \<le> 0"
    using assms(1) by (auto simp: saturate_def)
  ultimately show ?thesis
    unfolding rule_acc_def using assms(2) mult_right_mono [of "saturate ?x a" _ h] by fastforce
qed

lemma peak_brakes:
  assumes "0 \<le> a" "0 < h" "v\<^sup>2 \<le> f\<^sup>2 + 2 * a * d" "a * h < v"
  shows "v - a * h \<le> peak v f a d h"
proof -
  let ?c = "a * h * (1 / 2)"
  let ?D = "pmSq f + a * (2 * d - v * h) + pmSq ?c"
  have c: "0 \<le> ?c" using assms by simp
  have "(v - ?c)\<^sup>2 \<le> ?D"
    using assms(3) by (simp add: pmSq_def power2_eq_square algebra_simps)
  moreover have "?c < v - ?c" using assms(4) by linarith
  then have "?c\<^sup>2 < (v - ?c)\<^sup>2" using c by (simp add: power_strict_mono)
  ultimately have D: "pmSq ?c < ?D" "0 \<le> ?D" "(v - ?c)\<^sup>2 \<le> ?D"
    by (auto simp: pmSq_def power2_eq_square)
  have "v - ?c \<le> sqrt ?D" using D(3) real_le_rsqrt by blast
  moreover have "pmSqrt ?D = sqrt ?D" using D(2) by (simp add: pmSqrt_def)
  ultimately show ?thesis using D(1) by (simp add: peak_def Let_def)
qed

lemma peak_square:
  assumes "0 \<le> a" "0 < h" "0 \<le> w" "w \<le> peak v f a d h" "w \<noteq> 0"
  shows "w\<^sup>2 \<le> f\<^sup>2 + 2 * a * (d - (w + v) * (1 / 2) * h)"
proof -
  let ?c = "a * h * (1 / 2)"
  let ?D = "pmSq f + a * (2 * d - v * h) + pmSq ?c"
  have c: "0 \<le> ?c" using assms by simp
  have gt: "?D > pmSq ?c"
  proof (rule ccontr)
    assume "\<not> ?D > pmSq ?c"
    then have "peak v f a d h = - ?c" by (simp add: peak_def Let_def)
    with assms(3-5) c show False by linarith
  qed
  then have "w + ?c \<le> pmSqrt ?D" using assms(4) by (simp add: peak_def Let_def)
  then have "(w + ?c)\<^sup>2 \<le> (pmSqrt ?D)\<^sup>2" using assms c by (intro power_mono) auto
  also have "\<dots> = ?D"
    using gt pmSq_nonneg [of ?c] by (simp add: power2_eq_square pmSqrt_sq)
  finally have "w\<^sup>2 + a * h * w \<le> f\<^sup>2 + a * (2 * d - v * h)"
    by (simp add: pmSq_def power2_eq_square algebra_simps)
  moreover have "2 * a * (d - (w + v) * (1 / 2) * h) = a * (2 * d - v * h) - a * h * w"
    by (simp add: field_simps)
  ultimately show ?thesis by linarith
qed

lemma brake_law:
  assumes "0 \<le> v" "0 \<le> a" "0 < h" "0 \<le> g" "v\<^sup>2 \<le> f\<^sup>2 + 2 * a * d"
    and w: "w = v + rule_acc v f a d h g * h" "0 \<le> w"
  shows "w = 0 \<or> w\<^sup>2 \<le> f\<^sup>2 + 2 * a * (d - (w + v) * (1 / 2) * h)"
proof (cases "w = 0 \<or> w \<le> peak v f a d h")
  case True
  then show ?thesis using peak_square [OF assms(2,3) w(2)] by blast
next
  case False
  let ?m = "peak v f a d h" let ?x = "(saturate ?m g - v) / h"
  have above: "?m < w" "0 < w" using False w(2) by auto
  have acc: "rule_acc v f a d h g = - a \<and> ?x < - a"
  proof (rule ccontr)
    assume "\<not> ?thesis"
    moreover have "saturate ?x a = - a" if "?x < - a" using that assms(2) by (simp add: saturate_def)
    ultimately have "- a \<le> ?x" unfolding rule_acc_def by linarith
    then have "rule_acc v f a d h g \<le> ?x" by (simp add: rule_acc_def saturate_le_self)
    then have "rule_acc v f a d h g * h \<le> ?x * h" using assms(3) by (intro mult_right_mono) auto
    then have "w \<le> v + ?x * h" unfolding w(1) by simp
    also have "\<dots> = saturate ?m g" using assms(3) by simp
    also have "\<dots> \<le> max ?m 0" using assms(4) by (auto simp: saturate_def)
    finally show False using above by simp
  qed
  then have "w = v - a * h" using w(1) by simp
  with above(2) have "a * h < v" by simp
  from peak_brakes [OF assms(2,3,5) this] above(1) \<open>w = v - a * h\<close> show ?thesis by simp
qed

text \<open>The rule of the code is this rule, for cycle times above the time epsilon.\<close>

lemma trapezoid_rule:
  assumes "TP_TIME_EPSILON \<le> tc_cycle_time t"
  shows "fst (tpCalculateTrapezoidalAccel cfg st tp t n)
    = rule_acc (tc_currentvel t) (tpGetRealFinalVel cfg st tp t n) (tcGetTangentialMaxAccel t)
        (tcGetDistanceToGo t (tp_reverse_run tp)) (tc_cycle_time t) (tpGetRealTargetVel cfg st tp (Some t))"
proof -
  have "max (tc_cycle_time t) TP_TIME_EPSILON = tc_cycle_time t" using assms by simp
  then show ?thesis
    by (simp only: tpCalculateTrapezoidalAccel_def rule_acc_def peak_def Let_def fst_conv)
qed

definition can_stop :: "real \<Rightarrow> tc_struct \<Rightarrow> bool" where
  "can_stop f t \<longleftrightarrow> (tc_currentvel t)\<^sup>2 \<le> f\<^sup>2 + 2 * tcGetTangentialMaxAccel t * (tc_target t - tc_progress t)"

lemma distance_forward [simp]: "tcGetDistanceToGo t 0 = tc_target t - tc_progress t"
  by (simp add: tcGetDistanceToGo_def tcGetTarget_def TC_DIR_REVERSE_def)

lemma target_forward [simp]: "tcGetTarget t 0 = tc_target t"
  by (simp add: tcGetTarget_def TC_DIR_REVERSE_def)

lemma dist_progress_forward:
  assumes "seg_range t" "0 \<le> tc_cycle_time t" and w: "0 \<le> tc_currentvel t + acc * tc_cycle_time t"
  shows "tc_target t - tc_progress (tcUpdateDistFromAccel t acc v 0)
    = max 0 (tc_target t - tc_progress t
        - (tc_currentvel t + acc * tc_cycle_time t + tc_currentvel t) * (1 / 2) * tc_cycle_time t)"
proof -
  let ?d = "(tc_currentvel t + acc * tc_cycle_time t + tc_currentvel t) * (1 / 2) * tc_cycle_time t"
  have "0 \<le> ?d" using assms by (simp add: seg_range_def)
  then have "bisaturate (tc_progress t + ?d) (tc_target t) 0 = min (tc_progress t + ?d) (tc_target t)"
    using assms(1) by (simp add: bisaturate_def seg_range_def min_def)
  then have "tc_progress (tcUpdateDistFromAccel t acc v 0) = min (tc_progress t + ?d) (tc_target t)"
    using w by (simp add: tcUpdateDistFromAccel_def Let_def tcGetTarget_def TC_DIR_FORWARD_def TC_DIR_REVERSE_def)
  then show ?thesis by simp
qed

lemma update_can_stop:
  assumes "seg_range t" "TP_TIME_EPSILON \<le> tc_cycle_time t" "0 \<le> tcGetTangentialMaxAccel t"
    and g: "0 \<le> tpGetRealTargetVel cfg st tp (Some t)" and fwd: "tp_reverse_run tp = 0"
    and s: "can_stop (tpGetRealFinalVel cfg st tp t n) t"
    and acc: "acc = fst (tpCalculateTrapezoidalAccel cfg st tp t n)"
  shows "can_stop (tpGetRealFinalVel cfg st tp t n) (tcUpdateDistFromAccel t acc v 0)"
    and "tc_currentvel (tcUpdateDistFromAccel t acc v 0) \<le> max (tc_currentvel t) (tpGetRealTargetVel cfg st tp (Some t))"
proof -
  let ?f = "tpGetRealFinalVel cfg st tp t n" let ?a = "tcGetTangentialMaxAccel t" let ?u = "tcUpdateDistFromAccel t acc v 0"
  let ?h = "tc_cycle_time t" let ?d = "tc_target t - tc_progress t" let ?g = "tpGetRealTargetVel cfg st tp (Some t)"
  let ?w = "tc_currentvel t + acc * ?h"
  have h: "0 < ?h" using assms(2) by (simp add: TP_TIME_EPSILON_def)
  have v: "0 \<le> tc_currentvel t" using assms(1) by (simp add: seg_range_def)
  have acc': "acc = rule_acc (tc_currentvel t) ?f ?a ?d ?h ?g"
    using trapezoid_rule [OF assms(2)] acc fwd by simp
  have frame: "tcGetTangentialMaxAccel ?u = ?a" "tc_target ?u = tc_target t"
    using seg_frame_accel [OF dist_frame] by (simp, simp add: tcUpdateDistFromAccel_def Let_def)
  have rest: "0 \<le> tc_target ?u - tc_progress ?u" using dist_range [OF assms(1)] by (simp add: seg_range_def)
  show "tc_currentvel ?u \<le> max (tc_currentvel t) ?g"
    using rule_acc_target [OF assms(3) h g, of "tc_currentvel t"] v unfolding dist_currentvel acc' by simp
  show "can_stop ?f ?u"
  proof (cases "0 \<le> ?w \<and> ?w \<noteq> 0")
    case True
    then have "?w\<^sup>2 \<le> ?f\<^sup>2 + 2 * ?a * (?d - (?w + tc_currentvel t) * (1 / 2) * ?h)"
      using brake_law [OF v assms(3) h g, of ?f ?d ?w] s acc' by (simp add: can_stop_def)
    also have "\<dots> \<le> ?f\<^sup>2 + 2 * ?a * (tc_target ?u - tc_progress ?u)"
      using dist_progress_forward [of t acc v] assms(1,3) h True frame(2)
      by (intro add_left_mono mult_left_mono) auto
    finally show ?thesis using True frame by (simp add: can_stop_def dist_currentvel)
  next
    case False
    then have "tc_currentvel ?u = 0" by (auto simp: dist_currentvel)
    then show ?thesis using rest assms(3) frame by (simp add: can_stop_def)
  qed
qed

theorem segment_stays_in_range:
  assumes "seg_range t" "0 \<le> tc_cycle_time t" "0 \<le> tcGetTangentialMaxAccel t"
  shows "seg_range (cycle_advance cfg st tp t n)
    \<and> \<bar>tc_currentvel (cycle_advance cfg st tp t n) - tc_currentvel t\<bar> \<le> tcGetTangentialMaxAccel t * tc_cycle_time t"
proof -
  obtain t2 acc v where u:
    "cycle_accel cfg st tp (if tc_blending_next t = 0 then t\<lparr>tc_vel_at_blend_start := tc_currentvel t\<rparr> else t) n
       = (t2, acc, v)"
    and f: "seg_frame t t2" "tc_progress t2 = tc_progress t" "tc_currentvel t2 = tc_currentvel t"
    "tc_cycle_time t2 = tc_cycle_time t"
    and e: "cycle_advance cfg st tp t n
       = snd (tpCheckEndCondition cfg st tp (tcUpdateDistFromAccel t2 acc v (tp_reverse_run tp)) n)"
    using cycle_advance_unfold [of cfg st tp t n] by metis
  have r2: "seg_range t2" using assms(1) f by (simp add: seg_range_def seg_frame_def)
  have "seg_frame t (if tc_blending_next t = 0 then t\<lparr>tc_vel_at_blend_start := tc_currentvel t\<rparr> else t)" by simp
  from seg_frame_accel [OF this] cycle_accel_bound [OF u] assms(3)
  have "\<bar>acc\<bar> \<le> tcGetTangentialMaxAccel t" by simp
  from dist_vel [of t2 acc _ v "tp_reverse_run tp", OF _ _ this] r2 f assms
  show ?thesis
    unfolding e using end_condition_range [OF dist_range [OF r2]] by (simp add: seg_range_def)
qed

end
