(* ===== verification/BlendArc.thy ===== *)
theory BlendArc
  imports TpSeg
begin

text \<open>
  Blend arcs between two segments: the abstract blend geometry of \<open>tp/blendmath.c\<close> and the functions of
  \<open>tp/tp.c\<close> that put an arc between two queued segments. They run only when \<open>arcBlendEnable\<close> is set, which
  nothing in the program does. The local structures of the code start with unset fields; the model starts
  them at zero, and no field is read before it is set. The axes' velocity bounds are computed by the
  code and not used.
\<close>

definition TP_ERR_INPUT_TYPE :: int where "TP_ERR_INPUT_TYPE = -8"

section \<open>Blend geometry\<close>

record blend_geom3 =
  bg_u1 :: pm_cart
  bg_u2 :: pm_cart
  bg_P :: pm_cart
  bg_normal :: pm_cart
  bg_binormal :: pm_cart
  bg_u_tan1 :: pm_cart
  bg_u_tan2 :: pm_cart
  bg_center1 :: pm_cart
  bg_center2 :: pm_cart
  bg_radius1 :: real
  bg_radius2 :: real
  bg_theta_tan :: real
  bg_v_max1 :: real
  bg_v_max2 :: real

record blend_param =
  bp_tolerance :: real
  bp_L1 :: real
  bp_L2 :: real
  bp_v_req :: real
  bp_a_max :: real
  bp_theta :: real
  bp_phi :: real
  bp_a_n_max :: real
  bp_R_plan :: real
  bp_d_plan :: real
  bp_v_goal :: real
  bp_v_plan :: real
  bp_v_actual :: real
  bp_s_arc :: real
  bp_consume :: bool
  bp_line_length :: real
  bp_convex1 :: bool
  bp_convex2 :: bool
  bp_phi1_max :: real
  bp_phi2_max :: real

record blend_points =
  bt_arc_start :: pm_cart
  bt_arc_end :: pm_cart
  bt_arc_center :: pm_cart
  bt_trim1 :: real
  bt_trim2 :: real

definition cart_zero :: pm_cart where "cart_zero = \<lparr>c_x = 0, c_y = 0, c_z = 0\<rparr>"

definition geom_zero :: blend_geom3 where
  "geom_zero = \<lparr>bg_u1 = cart_zero, bg_u2 = cart_zero, bg_P = cart_zero, bg_normal = cart_zero,
     bg_binormal = cart_zero, bg_u_tan1 = cart_zero, bg_u_tan2 = cart_zero, bg_center1 = cart_zero,
     bg_center2 = cart_zero, bg_radius1 = 0, bg_radius2 = 0, bg_theta_tan = 0, bg_v_max1 = 0, bg_v_max2 = 0\<rparr>"

definition param_zero :: blend_param where
  "param_zero = \<lparr>bp_tolerance = 0, bp_L1 = 0, bp_L2 = 0, bp_v_req = 0, bp_a_max = 0, bp_theta = 0, bp_phi = 0,
     bp_a_n_max = 0, bp_R_plan = 0, bp_d_plan = 0, bp_v_goal = 0, bp_v_plan = 0, bp_v_actual = 0, bp_s_arc = 0,
     bp_consume = False, bp_line_length = 0, bp_convex1 = False, bp_convex2 = False, bp_phi1_max = 0,
     bp_phi2_max = 0\<rparr>"

definition points_zero :: blend_points where
  "points_zero = \<lparr>bt_arc_start = cart_zero, bt_arc_end = cart_zero, bt_arc_center = cart_zero,
     bt_trim1 = 0, bt_trim2 = 0\<rparr>"

definition blendCalculateNormals3 :: "blend_geom3 \<Rightarrow> int \<times> blend_geom3" where
  "blendCalculateNormals3 geom =
     (let (err_b, b) = pmCartUnitEq (pmCartCartCross (bg_u_tan1 geom) (bg_u_tan2 geom));
          (err_n, n) = pmCartUnitEq (pmCartCartSub (bg_u_tan2 geom) (bg_u_tan1 geom))
      in (if err_b \<noteq> 0 \<or> err_n \<noteq> 0 then 1 else 0, geom\<lparr>bg_binormal := b, bg_normal := n\<rparr>))"

text \<open>The segments are lines or circles, so the tangents and the point of intersection exist.\<close>

definition blendGeom3Init :: "blend_geom3 \<Rightarrow> tc_struct \<Rightarrow> tc_struct \<Rightarrow> int \<times> blend_geom3" where
  "blendGeom3Init geom prev_tc tc =
     (case (tcGetEndTangentUnitVector prev_tc, tcGetStartTangentUnitVector tc, tcGetIntersectionPoint prev_tc tc) of
        (Some t1, Some t2, Some P) \<Rightarrow>
          (let theta = findIntersectionAngle t1 t2;
               g = geom\<lparr>bg_v_max1 := tc_maxvel prev_tc, bg_v_max2 := tc_maxvel tc, bg_u_tan1 := t1,
                        bg_u_tan2 := t2, bg_u1 := t1, bg_u2 := t2, bg_P := P, bg_theta_tan := theta\<rparr>
           in if PM_PI / 2 - theta < TP_ANGLE_EPSILON then (TP_ERR_TOLERANCE, g)
              else if theta < TP_ANGLE_EPSILON then (TP_ERR_TOLERANCE, g)
              else (TP_ERR_OK, snd (blendCalculateNormals3 g)))
      | _ \<Rightarrow> (TP_ERR_FAIL, geom))"

definition blendParamKinematics ::
  "blend_geom3 \<Rightarrow> blend_param \<Rightarrow> tc_struct \<Rightarrow> tc_struct \<Rightarrow> pm_cart \<Rightarrow> real \<Rightarrow> int \<times> blend_param" where
  "blendParamKinematics geom param prev_tc tc acc_bound maxFeedScale =
     (let phi = PM_PI - bp_theta param * 2;
          (res_dia, dia) = calculateInscribedDiameter (bg_binormal geom) acc_bound;
          a_max = (case dia of Some d \<Rightarrow> d | None \<Rightarrow> bp_a_max param);
          v_goal = max (tcGetMaxTargetVel prev_tc maxFeedScale) (tcGetMaxTargetVel tc maxFeedScale);
          phi_effective = min phi (PM_PI * 0.49);
          v_max1 = min (tc_maxvel prev_tc) (tc_maxvel tc / cos phi_effective);
          v_max2 = min (tc_maxvel tc) (tc_maxvel prev_tc / cos phi_effective);
          v_area = v_max1 * v_max2 / 2 * sin phi;
          base = pmCartMag (pmCartCartSub (pmCartScalMult (bg_u2 geom) v_max2) (pmCartScalMult (bg_u1 geom) v_max1));
          v_max_alt = (if tc_motion_type prev_tc \<noteq> TC_LINEAR \<or> tc_motion_type tc \<noteq> TC_LINEAR then 0
                       else 2 * v_area / base);
          v_max = max v_max_alt 0
      in (res_dia,
          param\<lparr>bp_phi := phi, bp_tolerance := fst (tcFindBlendTolerance prev_tc tc), bp_a_max := a_max,
                bp_a_n_max := a_max * BLEND_ACC_RATIO_NORMAL,
                bp_v_req := max (tcGetMaxTargetVel prev_tc 1) (tcGetMaxTargetVel tc 1),
                bp_v_goal := min v_goal v_max\<rparr>))"

definition circle_xyz :: "tc_struct \<Rightarrow> pm_circle" where
  "circle_xyz tc = (case tc_coords tc of Circle9 c \<Rightarrow> c9_xyz c
     | _ \<Rightarrow> \<lparr>ci_center = cart_zero, ci_normal = cart_zero, ci_rTan = cart_zero, ci_rPerp = cart_zero,
             ci_rHelix = cart_zero, ci_radius = 0, ci_angle = 0, ci_spiral = 0\<rparr>)"

definition blendInit3FromLineArc ::
  "tc_struct \<Rightarrow> tc_struct \<Rightarrow> pm_cart \<Rightarrow> real \<Rightarrow> int \<times> blend_geom3 \<times> blend_param" where
  "blendInit3FromLineArc prev_tc tc acc_bound maxFeedScale =
     (if tc_motion_type tc \<noteq> TC_CIRCULAR \<or> tc_motion_type prev_tc \<noteq> TC_LINEAR
      then (TP_ERR_INPUT_TYPE, geom_zero, param_zero)
      else
        (let (res_init, g0) = blendGeom3Init geom_zero prev_tc tc in
         if res_init \<noteq> TP_ERR_OK then (res_init, g0, param_zero)
         else
           (let circ = circle_xyz tc;
                (center2, radius2) = findSpiralApproximation circ (bg_P g0) (bg_u_tan2 g0);
                g1 = g0\<lparr>bg_center2 := center2, bg_radius2 := radius2\<rparr>;
                convex2 = arcConvexTest center2 (bg_P g1) (bg_u_tan1 g1) True;
                blend_angle_2 = (if convex2 then bg_theta_tan g1 else PM_PI / 2);
                phi2_max = min (ci_angle circ / 3) blend_angle_2;
                blend_point = snd (pmCirclePoint circ (phi2_max / 2));
                g2 = (if convex2 then g1\<lparr>bg_u2 := snd (pmCartUnitEq (pmCartCartSub blend_point (bg_P g1)))\<rparr> else g1);
                theta = (if convex2 then min (bg_theta_tan g1) (bg_theta_tan g1 - phi2_max / 4) else bg_theta_tan g1);
                p1 = param_zero\<lparr>bp_convex2 := convex2, bp_phi2_max := phi2_max, bp_theta := theta,
                       bp_phi := PM_PI - theta * 2,
                       bp_L1 := min (tc_target prev_tc) (tc_nominal_length prev_tc / 2),
                       bp_L2 := (if convex2 then sin (phi2_max / 4) * radius2 else phi2_max * radius2)\<rparr>;
                (res_kin, p2) = blendParamKinematics g2 p1 prev_tc tc acc_bound maxFeedScale
            in (res_kin, g2, p2))))"

definition blendInit3FromArcLine ::
  "tc_struct \<Rightarrow> tc_struct \<Rightarrow> pm_cart \<Rightarrow> real \<Rightarrow> int \<times> blend_geom3 \<times> blend_param" where
  "blendInit3FromArcLine prev_tc tc acc_bound maxFeedScale =
     (if tc_motion_type tc \<noteq> TC_LINEAR \<or> tc_motion_type prev_tc \<noteq> TC_CIRCULAR
      then (TP_ERR_INPUT_TYPE, geom_zero, param_zero)
      else
        (let (res_init, g0) = blendGeom3Init geom_zero prev_tc tc in
         if res_init \<noteq> TP_ERR_OK then (res_init, g0, param_zero)
         else
           (let circ = circle_xyz prev_tc;
                (center1, radius1) = findSpiralApproximation circ (bg_P g0) (bg_u_tan1 g0);
                g1 = g0\<lparr>bg_center1 := center1, bg_radius1 := radius1\<rparr>;
                convex1 = arcConvexTest center1 (bg_P g1) (bg_u_tan2 g1) False;
                blend_angle_1 = (if convex1 then bg_theta_tan g1 else PM_PI / 2);
                phi1_max = min (ci_angle circ * 2 / 3) blend_angle_1;
                blend_point = snd (pmCirclePoint circ (ci_angle circ - phi1_max / 2));
                g2 = (if convex1 then g1\<lparr>bg_u1 := snd (pmCartUnitEq (pmCartCartSub (bg_P g1) blend_point))\<rparr> else g1);
                theta = (if convex1 then min (bg_theta_tan g1) (bg_theta_tan g1 - phi1_max / 4) else bg_theta_tan g1);
                p1 = param_zero\<lparr>bp_convex1 := convex1, bp_phi1_max := phi1_max, bp_theta := theta,
                       bp_L1 := (if convex1 then sin (phi1_max / 4) * radius1 else phi1_max * radius1),
                       bp_L2 := tc_nominal_length tc / 2\<rparr>;
                (res_kin, p2) = blendParamKinematics g2 p1 prev_tc tc acc_bound maxFeedScale
            in (res_kin, g2, p2))))"

definition blendInit3FromArcArc ::
  "tc_struct \<Rightarrow> tc_struct \<Rightarrow> pm_cart \<Rightarrow> real \<Rightarrow> int \<times> blend_geom3 \<times> blend_param" where
  "blendInit3FromArcArc prev_tc tc acc_bound maxFeedScale =
     (if tc_motion_type tc \<noteq> TC_CIRCULAR \<or> tc_motion_type prev_tc \<noteq> TC_CIRCULAR
      then (TP_ERR_FAIL, geom_zero, param_zero)
      else
        (let (res_init, g0) = blendGeom3Init geom_zero prev_tc tc in
         if res_init \<noteq> TP_ERR_OK then (res_init, g0, param_zero)
         else
           (let circ1 = circle_xyz prev_tc; circ2 = circle_xyz tc;
                (center1, radius1) = findSpiralApproximation circ1 (bg_P g0) (bg_u_tan1 g0);
                (center2, radius2) = findSpiralApproximation circ2 (bg_P g0) (bg_u_tan2 g0);
                g1 = snd (blendCalculateNormals3 (g0\<lparr>bg_center1 := center1, bg_radius1 := radius1,
                       bg_center2 := center2, bg_radius2 := radius2\<rparr>));
                g1 = g1\<lparr>bg_P := snd (pmCirclePoint circ2 0)\<rparr>;
                convex1 = arcConvexTest center1 (bg_P g1) (bg_u_tan2 g1) False;
                convex2 = arcConvexTest center2 (bg_P g1) (bg_u_tan1 g1) True;
                phi1_max = min (ci_angle circ1 * 2 / 3) (if convex1 then bg_theta_tan g1 else PM_PI / 2);
                phi2_max = min (ci_angle circ2 / 3) (if convex2 then bg_theta_tan g1 else PM_PI / 2);
                point1 = snd (pmCirclePoint circ1 (ci_angle circ1 - phi1_max / 2));
                g2 = (if convex1 then g1\<lparr>bg_u1 := snd (pmCartUnitEq (pmCartCartSub (bg_P g1) point1))\<rparr> else g1);
                theta1 = (if convex1 then min (bg_theta_tan g1) (bg_theta_tan g1 - phi1_max / 4) else bg_theta_tan g1);
                point2 = snd (pmCirclePoint circ2 (phi2_max / 2));
                g3 = (if convex2 then g2\<lparr>bg_u2 := snd (pmCartUnitEq (pmCartCartSub point2 (bg_P g2)))\<rparr> else g2);
                theta = (if convex2 then min theta1 (bg_theta_tan g1 - phi2_max / 4) else theta1);
                p0 = param_zero\<lparr>bp_convex1 := convex1, bp_convex2 := convex2, bp_phi1_max := phi1_max,
                       bp_phi2_max := phi2_max, bp_theta := theta\<rparr>
            in if theta < PM_PI / 12 then (TP_ERR_FAIL, g3, p0)
               else
                 (let p1 = p0\<lparr>bp_phi := PM_PI - theta * 2,
                        bp_L1 := (if convex1 then sin (phi1_max / 4) * radius1 else phi1_max * radius1),
                        bp_L2 := (if convex2 then sin (phi2_max / 4) * radius2 else phi2_max * radius2)\<rparr>;
                      (res_kin, p2) = blendParamKinematics g3 p1 prev_tc tc acc_bound maxFeedScale
                  in (res_kin, g3, p2)))))"

definition blendInit3FromLineLine ::
  "tc_struct \<Rightarrow> tc_struct \<Rightarrow> pm_cart \<Rightarrow> real \<Rightarrow> int \<times> blend_geom3 \<times> blend_param" where
  "blendInit3FromLineLine prev_tc tc acc_bound maxFeedScale =
     (if tc_motion_type tc \<noteq> TC_LINEAR \<or> tc_motion_type prev_tc \<noteq> TC_LINEAR
      then (TP_ERR_FAIL, geom_zero, param_zero)
      else
        (let (res_init, g0) = blendGeom3Init geom_zero prev_tc tc in
         if res_init \<noteq> TP_ERR_OK then (res_init, g0, param_zero)
         else
           (let theta = bg_theta_tan g0;
                p1 = param_zero\<lparr>bp_theta := theta, bp_phi := PM_PI - theta * 2,
                       bp_L1 := min (tc_target prev_tc) (tc_nominal_length prev_tc * BLEND_DIST_FRACTION),
                       bp_L2 := tc_target tc * BLEND_DIST_FRACTION\<rparr>;
                (res_kin, p2) = blendParamKinematics g0 p1 prev_tc tc acc_bound maxFeedScale
            in (res_kin, g0, p2))))"

definition blendComputeParameters :: "blend_param \<Rightarrow> int \<times> blend_param" where
  "blendComputeParameters param =
     (let h_tol = bp_tolerance param / (1 - sin (bp_theta param));
          d_tol = cos (bp_theta param) * h_tol;
          d_lengths = min (bp_L1 param) (bp_L2 param);
          d_geom = min d_lengths d_tol;
          R_geom = tan (bp_theta param) * d_geom;
          v_normal = pmSqrt (bp_a_n_max param * R_geom);
          v_plan = min v_normal (bp_v_goal param);
          a_parabolic = bp_a_max param * (1 / 2);
          v_triangle = pmSqrt (2 * a_parabolic * d_geom);
          t_blend = min v_triangle v_plan / a_parabolic;
          s_blend = t_blend * v_plan;
          R_blend = min (s_blend / bp_phi param) R_geom;
          R_plan = max (pmSq v_plan / bp_a_n_max param) R_blend;
          d_plan = R_plan / tan (bp_theta param);
          v_actual = (if v_plan > bp_v_req param then bp_v_req param else v_plan);
          s_arc = R_plan * bp_phi param;
          p = param\<lparr>bp_v_plan := v_plan, bp_R_plan := R_plan, bp_d_plan := d_plan, bp_v_actual := v_actual,
                    bp_s_arc := s_arc\<rparr>
      in (if R_plan < TP_POS_EPSILON then TP_ERR_FAIL
          else if s_arc < TP_MIN_ARC_LENGTH then TP_ERR_FAIL else TP_ERR_OK, p))"

text \<open>A planned velocity of 0 makes the time infinite, or not a number, and nothing is consumed.\<close>

definition blendCheckConsume :: "blend_param \<Rightarrow> blend_points \<Rightarrow> tc_struct \<Rightarrow> int \<Rightarrow> blend_param" where
  "blendCheckConsume param points prev_tc gap_cycles =
     (let p0 = param\<lparr>bp_consume := False, bp_line_length := 0\<rparr> in
      if tc_motion_type prev_tc \<noteq> TC_LINEAR then p0
      else
        (let L_prev = tc_target prev_tc - bt_trim1 points;
             consume = bp_v_plan param \<noteq> 0
               \<and> L_prev / bp_v_plan param < of_int gap_cycles * tc_cycle_time prev_tc \<and> tcCanConsume (Some prev_tc)
         in p0\<lparr>bp_consume := consume, bp_line_length := (if consume then L_prev else 0)\<rparr>))"

definition blendFindPoints3 :: "blend_geom3 \<Rightarrow> blend_param \<Rightarrow> blend_points" where
  "blendFindPoints3 geom param =
     (let center_dist = bp_R_plan param / sin (bp_theta param) in
      \<lparr>bt_arc_start = pmCartCartAddEq (pmCartScalMult (bg_u1 geom) (- bp_d_plan param)) (bg_P geom),
       bt_arc_end = pmCartCartAddEq (pmCartScalMult (bg_u2 geom) (bp_d_plan param)) (bg_P geom),
       bt_arc_center = pmCartCartAddEq (pmCartScalMult (bg_normal geom) center_dist) (bg_P geom),
       bt_trim1 = bp_d_plan param, bt_trim2 = bp_d_plan param\<rparr>)"

section \<open>Fitting the arc to circular segments\<close>

text \<open>
  The common part of the line cases: the arc's centre beside the line with direction \<open>u\<close>, at radius
  \<open>R_plan\<close> from it and \<open>d\<close> from the circle's centre; the line runs towards (\<open>s = -1\<close>) or away from
  (\<open>s = 1\<close>) the intersection.
\<close>

definition line_circle_center ::
  "blend_param \<Rightarrow> blend_geom3 \<Rightarrow> pm_cart \<Rightarrow> pm_cart \<Rightarrow> real \<Rightarrow> real \<Rightarrow> (real \<times> pm_cart) option" where
  "line_circle_center param geom u center d s =
     (let n = snd (pmCartUnitEq (pmCartCartCross (bg_binormal geom) u));
          r_PC = pmCartCartSub center (bg_P geom);
          c_u = pmCartCartDot r_PC u;
          c_n = pmCartCartDot r_PC n;
          A = 1; B = 2 * c_u;
          C = pmSq c_u - pmSq d + pmSq (bp_R_plan param - c_n)
      in case quadraticFormula A B C of
           None \<Rightarrow> None
         | Some (root0, root1) \<Rightarrow>
             (let d_L = min \<bar>root0\<bar> \<bar>root1\<bar> in
              if d_L < 0 then None
              else
                (let r_PC = pmCartCartAdd (pmCartScalMult u (s * d_L)) (pmCartScalMult n (bp_R_plan param));
                     T_final = pmCartMag r_PC - bp_R_plan param
                 in if T_final > bp_tolerance param then None
                    else Some (d_L, pmCartCartAdd (bg_P geom) r_PC))))"

definition blendLineArcPostProcess :: "blend_param \<Rightarrow> blend_geom3 \<Rightarrow> blend_points option" where
  "blendLineArcPostProcess param geom =
     (let d2 = negate (bp_R_plan param) (bp_convex2 param) + bg_radius2 geom in
      case line_circle_center param geom (bg_u1 geom) (bg_center2 geom) d2 (-1) of
        None \<Rightarrow> None
      | Some (d_L, arc_center) \<Rightarrow>
          Some (points_zero\<lparr>bt_arc_center := arc_center, bt_trim1 := d_L,
            bt_trim2 := findTrimAngle (bg_P geom) arc_center (bg_center2 geom)\<rparr>))"

definition blendArcLinePostProcess :: "blend_param \<Rightarrow> blend_geom3 \<Rightarrow> blend_points option" where
  "blendArcLinePostProcess param geom =
     (let d1 = negate (bp_R_plan param) (bp_convex1 param) + bg_radius1 geom in
      case line_circle_center param geom (bg_u2 geom) (bg_center1 geom) d1 1 of
        None \<Rightarrow> None
      | Some (d_L, arc_center) \<Rightarrow>
          Some (points_zero\<lparr>bt_arc_center := arc_center,
            bt_trim1 := findTrimAngle (bg_P geom) arc_center (bg_center1 geom), bt_trim2 := d_L\<rparr>))"

definition blendArcArcPostProcess :: "blend_param \<Rightarrow> blend_geom3 \<Rightarrow> blend_points option" where
  "blendArcArcPostProcess param geom =
     (let d1 = negate (bp_R_plan param) (bp_convex1 param) + bg_radius1 geom;
          d2 = negate (bp_R_plan param) (bp_convex2 param) + bg_radius2 geom;
          r_C1C2 = pmCartCartSub (bg_center2 geom) (bg_center1 geom);
          c2x = pmCartMag r_C1C2;
          Cx = (- pmSq d1 + pmSq d2 - pmSq c2x) / (-2 * c2x);
          Cy = pmSqrt (pmSq d1 - pmSq Cx);
          (norm_err, uc) = pmCartUnit r_C1C2
      in if norm_err \<noteq> 0 then None
         else
           (let nc0 = pmCartCartCross (bg_binormal geom) uc;
                nc1 = (if pmCartCartDot (bg_normal geom) nc0 < 0 then pmCartNegEq nc0 else nc0);
                (norm_err, nc) = pmCartUnitEq nc1
            in if norm_err \<noteq> 0 then None
               else
                 (let cx = pmCartScalMult uc Cx;
                      cy0 = pmCartScalMult nc Cy;
                      r_PC1 = pmCartCartSub (bg_center1 geom) (bg_P geom);
                      base = pmCartCartAdd r_PC1 cx;
                      mag1 = pmCartMag (pmCartCartAddEq base cy0);
                      mag2 = pmCartMag (pmCartCartSubEq base cy0);
                      cy = (if mag2 < mag1 then pmCartNegEq cy0 else cy0);
                      arc_center = pmCartCartAdd (bg_center1 geom) (pmCartCartAdd cx cy);
                      r_PC = pmCartCartSub arc_center (bg_P geom);
                      T_final = pmCartMag r_PC - bp_R_plan param
                  in if T_final > bp_tolerance param then None
                     else Some (points_zero\<lparr>bt_arc_center := arc_center,
                       bt_trim1 := findTrimAngle (bg_P geom) arc_center (bg_center1 geom),
                       bt_trim2 := findTrimAngle (bg_P geom) arc_center (bg_center2 geom)\<rparr>))))"

definition arcFromBlendPoints3 :: "sph_arc \<Rightarrow> blend_points \<Rightarrow> blend_geom3 \<Rightarrow> blend_param \<Rightarrow> int \<times> sph_arc" where
  "arcFromBlendPoints3 arc points geom param =
     arcInitFromPoints (arc\<lparr>sa_uTan := bg_u_tan1 geom, sa_line_length := bp_line_length param,
         sa_binormal := bg_binormal geom\<rparr>) (bt_arc_start points) (bt_arc_end points) (bt_arc_center points)"

definition checkTangentAngle :: "pm_circle \<Rightarrow> sph_arc \<Rightarrow> blend_param \<Rightarrow> real \<Rightarrow> bool \<Rightarrow> int" where
  "checkTangentAngle circ arc param cycle_time at_end =
     (let u_circ = pmCircleTangentVector circ (if at_end then 0 else ci_angle circ);
          u_arc = snd (pmCartUnitEq (arcTangent arc at_end));
          blend_angle = arccos (saturate (pmCartCartDot u_circ u_arc) 1);
          angle_max = findMaxTangentAngle (bp_v_plan param) (bp_a_max param) cycle_time
      in if blend_angle > angle_max then TP_ERR_FAIL else TP_ERR_OK)"

end
