(* ===== verification/TpAdd.thy ===== *)
theory TpAdd
  imports BlendArc
begin

text \<open>
  Appending segments, \<open>tpAddLine\<close> and \<open>tpAddCircle\<close> of \<open>tp/tp.c\<close>, with the creation of blend arcs between
  the last queued segment and the new one. The last segment is a pointer into the queue; it stays the
  same slot when the blend removes that segment, and the blend arc then takes its place. The axes'
  acceleration limits are the argument \<open>acc_bound\<close>.
\<close>


definition line_zero :: pm_cart_line where
  "line_zero = \<lparr>cl_start = cart_zero, cl_end = cart_zero, cl_uVec = cart_zero, cl_tmag = 0, cl_tmag_zero = False\<rparr>"

definition arc_zero :: sph_arc where
  "arc_zero = \<lparr>sa_start = cart_zero, sa_end = cart_zero, sa_center = cart_zero, sa_rStart = cart_zero,
     sa_rEnd = cart_zero, sa_uTan = cart_zero, sa_binormal = cart_zero, sa_radius = 0, sa_spiral = 0,
     sa_angle = 0, sa_Sangle = 0, sa_line_length = 0\<rparr>"

definition tc_zero :: "tc_coords \<Rightarrow> tc_struct" where
  "tc_zero coords = \<lparr>tc_cycle_time = 0, tc_target = 0, tc_progress = 0, tc_nominal_length = 0, tc_reqvel = 0,
     tc_target_vel = 0, tc_maxvel = 0, tc_currentvel = 0, tc_finalvel = 0, tc_term_vel = 0, tc_kink_vel = 0,
     tc_kink_accel_reduce_prev = 0, tc_kink_accel_reduce = 0, tc_maxaccel = 0, tc_acc_ratio_tan = 0, tc_id = 0,
     tc_coords = coords, tc_active = 0, tc_canon_motion_type = 0, tc_term_cond = 0, tc_blending_next = 0,
     tc_blend_vel = 0, tc_tolerance = 0, tc_synchronized = 0, tc_uu_per_rev = 0, tc_vel_at_blend_start = 0,
     tc_sync_accel = 0, tc_enables = 0, tc_atspeed = 0, tc_indexer_jnum = 0, tc_optimization_state = 0,
     tc_on_final_decel = 0, tc_blend_prev = 0, tc_accel_mode = 0, tc_splitting = 0, tc_remove = 0,
     tc_active_depth = 0, tc_finalized = 0, tc_is_blending = 0\<rparr>"

definition line9_zero :: tc_coords where
  "line9_zero = Line9 \<lparr>l9_xyz = line_zero, l9_abc = line_zero, l9_uvw = line_zero\<rparr>"

definition blend_zero :: tc_struct where
  "blend_zero = tc_zero (SphArc9 \<lparr>a9_xyz = arc_zero, a9_abc = cart_zero, a9_uvw = cart_zero\<rparr>)"

section \<open>Blend arcs\<close>

definition tpInitBlendArcFromPrev ::
  "tp \<Rightarrow> tc_struct \<Rightarrow> tc_struct \<Rightarrow> real \<Rightarrow> real \<Rightarrow> real \<Rightarrow> tc_struct" where
  "tpInitBlendArcFromPrev tp prev_tc blend_tc vel ini_maxvel acc =
     (let b0 = tcInit blend_tc (tc_coords blend_tc) (tc_canon_motion_type prev_tc) (tp_cycleTime tp)
                 (tc_enables prev_tc) 0;
          b1 = tcSetupMotion (tcSetupState b0 tp) vel ini_maxvel acc;
          length = (case tc_coords b1 of SphArc9 a \<Rightarrow> arcLength (a9_xyz a) | _ \<Rightarrow> 0);
          b2 = b1\<lparr>tc_target := length, tc_nominal_length := length\<rparr>;
          b3 = fst (tcSetTermCond (Some b2) None TC_TERM_COND_TANGENT)
      in the (snd (tcFinalizeLength b3)))"

text \<open>The blend arc between \<open>abc\<close> and \<open>uvw\<close> points that do not move.\<close>

definition set_blend_arc :: "sph_arc \<Rightarrow> pm_cart \<Rightarrow> pm_cart \<Rightarrow> tc_struct \<Rightarrow> tc_struct" where
  "set_blend_arc arc abc uvw b = b\<lparr>tc_coords := SphArc9 \<lparr>a9_xyz = arc, a9_abc = abc, a9_uvw = uvw\<rparr>\<rparr>"

definition line_abc_uvw :: "(pm_cart_line \<Rightarrow> pm_cart) \<Rightarrow> tc_struct \<Rightarrow> pm_cart \<times> pm_cart" where
  "line_abc_uvw f tc = (case tc_coords tc of Line9 l \<Rightarrow> (f (l9_abc l), f (l9_uvw l))
     | Circle9 c \<Rightarrow> (f (c9_abc c), f (c9_uvw c)) | _ \<Rightarrow> (cart_zero, cart_zero))"

type_synonym blend_result = "(int \<times> tp \<times> tc_struct \<times> tc_struct \<times> tc_struct) option"

definition tpCreateLineLineBlend ::
  "mot_config \<Rightarrow> pm_cart \<Rightarrow> tp \<Rightarrow> tc_struct \<Rightarrow> tc_struct \<Rightarrow> tc_struct \<Rightarrow> blend_result" where
  "tpCreateLineLineBlend cfg acc_bound tp prev_tc tc blend_tc =
     (let (res_init, geom, p0) = blendInit3FromLineLine prev_tc tc acc_bound (mg_maxAxisScale cfg) in
      if res_init \<noteq> TP_ERR_OK then Some (res_init, tp, prev_tc, tc, blend_tc)
      else
        (let (res_blend, p1) = blendComputeParameters p0 in
         if res_blend \<noteq> TP_ERR_OK then Some (res_blend, tp, prev_tc, tc, blend_tc)
         else
           (let points = blendFindPoints3 geom p1;
                param = blendCheckConsume p1 points prev_tc (mg_arcBlendGapCycles cfg);
                (res_arc, arc) = arcFromBlendPoints3 arc_zero points geom param;
                (abc, uvw) = line_abc_uvw cl_end prev_tc;
                b0 = set_blend_arc arc abc uvw blend_tc
            in if res_arc < 0 then Some (TP_ERR_FAIL, tp, prev_tc, tc, b0)
               else
                 (let b1 = tpInitBlendArcFromPrev tp prev_tc b0 (bp_v_req param) (bp_v_plan param) (bp_a_max param) in
                  case tpChooseBestBlend cfg tp prev_tc tc (Some b1) of
                    None \<Rightarrow> None
                  | Some (best, p, t) \<Rightarrow>
                      if best \<noteq> ARC_BLEND then Some (TP_ERR_NO_ACTION, tp, p, t, b1)
                      else if bp_consume param then
                        (let (retval, q) = tcqPopBack (tp_queue tp) in
                         if retval \<noteq> 0 then Some (TP_ERR_FAIL, tp\<lparr>tp_queue := q\<rparr>, p, t, b1)
                         else
                           (let (_, t') = tcConnectBlendArc None t (bt_arc_start points) (bt_arc_end points)
                            in Some (TP_ERR_OK, tp\<lparr>tp_queue := q\<rparr>, p, t', b1)))
                      else
                        (let (p', t') = tcConnectBlendArc (Some p) t (bt_arc_start points) (bt_arc_end points)
                         in Some (TP_ERR_OK, tp, the p', t', b1\<lparr>tc_atspeed := 0\<rparr>))))))"

definition tpCreateLineArcBlend ::
  "mot_config \<Rightarrow> pm_cart \<Rightarrow> tp \<Rightarrow> tc_struct \<Rightarrow> tc_struct \<Rightarrow> tc_struct \<Rightarrow> blend_result" where
  "tpCreateLineArcBlend cfg acc_bound tp prev_tc tc blend_tc =
     (let (res_init, geom, p0) = blendInit3FromLineArc prev_tc tc acc_bound (mg_maxAxisScale cfg);
          fail = Some (TP_ERR_FAIL, tp, prev_tc, tc, blend_tc)
      in if res_init \<noteq> TP_ERR_OK then Some (res_init, tp, prev_tc, tc, blend_tc)
      else if \<not> pmUnitCartsColinear (bg_binormal geom) (ci_normal (circle_xyz tc)) then fail
      else
        (let (res_param, p1) = blendComputeParameters p0 in
         case blendLineArcPostProcess p1 geom of
           None \<Rightarrow> fail
         | Some pts \<Rightarrow>
             if res_param \<noteq> 0 \<or> bt_trim2 pts > bp_phi2_max p1 then fail
             else
               (let param = blendCheckConsume p1 pts prev_tc (mg_arcBlendGapCycles cfg);
                    line0 = line_xyz prev_tc; circ0 = circle_xyz tc;
                    (res1, line1) = pmCartLineStretch line0 (cl_tmag line0 - bt_trim1 pts) False;
                    (res2, circ2) = pmCircleStretch circ0 (ci_angle circ0 - bt_trim2 pts) True
                in if res1 \<noteq> 0 \<or> res2 \<noteq> 0 then fail
                   else
                     (let points = pts\<lparr>bt_arc_start := pmCartLinePoint line1 (cl_tmag line1),
                             bt_arc_end := snd (pmCirclePoint circ2 0)\<rparr>;
                          (res_arc, arc) = arcFromBlendPoints3 arc_zero points geom param;
                          (abc, uvw) = line_abc_uvw cl_end prev_tc;
                          b0 = set_blend_arc arc abc uvw blend_tc
                      in if res_arc < 0 then fail
                         else
                           (let b1 = tpInitBlendArcFromPrev tp prev_tc b0 (bp_v_req param) (bp_v_plan param) (bp_a_max param) in
                            if checkTangentAngle circ2 arc param (tp_cycleTime tp) True < 0 then fail
                            else
                              (case tpChooseBestBlend cfg tp prev_tc tc (Some b1) of
                                 None \<Rightarrow> None
                               | Some (best, p, t) \<Rightarrow>
                                   if best \<noteq> ARC_BLEND then Some (TP_ERR_NO_ACTION, tp, p, t, b1)
                                   else
                                     (let (res_pop, q) = (if bp_consume param then tcqPopBack (tp_queue tp) else (0, tp_queue tp)) in
                                      if res_pop \<noteq> 0 then Some (TP_ERR_FAIL, tp\<lparr>tp_queue := q\<rparr>, p, t, b1)
                                      else
                                        (let p1 = (if bp_consume param then p else snd (tcSetLineXYZ p (Some line1)));
                                             b2 = (if bp_consume param then b1 else b1\<lparr>tc_atspeed := 0\<rparr>);
                                             t1 = snd (tcSetCircleXYZ t (Some circ2));
                                             (p2, t2) = tcSetTermCond (Some p1) (Some t1) TC_TERM_COND_TANGENT
                                         in Some (TP_ERR_OK, tp\<lparr>tp_queue := q\<rparr>, the p2, the t2, b2)))))))))"

definition tpCreateArcLineBlend ::
  "mot_config \<Rightarrow> pm_cart \<Rightarrow> tp \<Rightarrow> tc_struct \<Rightarrow> tc_struct \<Rightarrow> tc_struct \<Rightarrow> blend_result" where
  "tpCreateArcLineBlend cfg acc_bound tp prev_tc tc blend_tc =
     (let (res_init, geom, p0) = blendInit3FromArcLine prev_tc tc acc_bound (mg_maxAxisScale cfg);
          fail = Some (TP_ERR_FAIL, tp, prev_tc, tc, blend_tc)
      in if res_init \<noteq> TP_ERR_OK then Some (res_init, tp, prev_tc, tc, blend_tc)
      else if \<not> pmUnitCartsColinear (bg_binormal geom) (ci_normal (circle_xyz prev_tc)) then fail
      else
        (let (res_param, p1) = blendComputeParameters p0 in
         case blendArcLinePostProcess p1 geom of
           None \<Rightarrow> fail
         | Some pts \<Rightarrow>
             if res_param \<noteq> 0 then fail
             else
               (let param = blendCheckConsume p1 pts prev_tc (mg_arcBlendGapCycles cfg);
                    circ0 = circle_xyz prev_tc; line0 = line_xyz tc;
                    (res1, circ1) = pmCircleStretch circ0 (ci_angle circ0 - bt_trim1 pts) False;
                    (res2, line2) = pmCartLineStretch line0 (tc_target tc - bt_trim2 pts) True
                in if bt_trim1 pts > bp_phi1_max param \<or> res1 \<noteq> 0 \<or> res2 \<noteq> 0 then fail
                   else
                     (let points = pts\<lparr>bt_arc_start := snd (pmCirclePoint circ1 (ci_angle circ1)),
                             bt_arc_end := pmCartLinePoint line2 0\<rparr>;
                          (res_arc, arc) = arcFromBlendPoints3 arc_zero points geom param;
                          (abc, uvw) = line_abc_uvw cl_start tc;
                          b0 = set_blend_arc arc abc uvw blend_tc
                      in if res_arc < 0 then fail
                         else
                           (let b1 = tpInitBlendArcFromPrev tp prev_tc b0 (bp_v_req param) (bp_v_plan param) (bp_a_max param) in
                            if checkTangentAngle circ1 arc param (tp_cycleTime tp) False \<noteq> 0 then fail
                            else
                              (case tpChooseBestBlend cfg tp prev_tc tc (Some b1) of
                                 None \<Rightarrow> None
                               | Some (best, p, t) \<Rightarrow>
                                   if best \<noteq> ARC_BLEND then Some (TP_ERR_NO_ACTION, tp, p, t, b1)
                                   else
                                     (let p1 = snd (tcSetCircleXYZ p (Some circ1));
                                          t1 = (snd (tcSetLineXYZ t (Some line2)))\<lparr>tc_blend_prev := 0\<rparr>;
                                          (p2, t2) = tcSetTermCond (Some p1) (Some t1) TC_TERM_COND_TANGENT
                                      in Some (TP_ERR_OK, tp, the p2, the t2, b1\<lparr>tc_atspeed := 0\<rparr>))))))))"

definition tpCreateArcArcBlend ::
  "mot_config \<Rightarrow> pm_cart \<Rightarrow> tp \<Rightarrow> tc_struct \<Rightarrow> tc_struct \<Rightarrow> tc_struct \<Rightarrow> blend_result" where
  "tpCreateArcArcBlend cfg acc_bound tp prev_tc tc blend_tc =
     (let (res_init, geom, p0) = blendInit3FromArcArc prev_tc tc acc_bound (mg_maxAxisScale cfg);
          fail = Some (TP_ERR_FAIL, tp, prev_tc, tc, blend_tc)
      in if \<not> pmUnitCartsColinear (ci_normal (circle_xyz prev_tc)) (ci_normal (circle_xyz tc)) then fail
      else if res_init \<noteq> TP_ERR_OK then Some (res_init, tp, prev_tc, tc, blend_tc)
      else if \<not> pmUnitCartsColinear (bg_binormal geom) (ci_normal (circle_xyz prev_tc)) then fail
      else if \<not> pmUnitCartsColinear (bg_binormal geom) (ci_normal (circle_xyz tc)) then fail
      else
        (let (res_param, p1) = blendComputeParameters p0 in
         case blendArcArcPostProcess p1 geom of
           None \<Rightarrow> fail
         | Some pts \<Rightarrow>
             if res_param \<noteq> 0 then fail
             else
               (let param = blendCheckConsume p1 pts prev_tc (mg_arcBlendGapCycles cfg);
                    circ01 = circle_xyz prev_tc; circ02 = circle_xyz tc;
                    (res1, circ1) = pmCircleStretch circ01 (ci_angle circ01 - bt_trim1 pts) False;
                    (res2, circ2) = pmCircleStretch circ02 (ci_angle circ02 - bt_trim2 pts) True
                in if bt_trim1 pts > bp_phi1_max param \<or> bt_trim2 pts > bp_phi2_max param \<or> res1 \<noteq> 0 \<or> res2 \<noteq> 0
                   then fail
                   else
                     (let points = pts\<lparr>bt_arc_start := snd (pmCirclePoint circ1 (ci_angle circ1)),
                             bt_arc_end := snd (pmCirclePoint circ2 0)\<rparr>;
                          (res_arc, arc) = arcFromBlendPoints3 arc_zero points geom param;
                          (abc, uvw) = line_abc_uvw cl_end prev_tc;
                          b0 = set_blend_arc arc abc uvw blend_tc
                      in if res_arc < 0 then fail
                         else
                           (let b1 = tpInitBlendArcFromPrev tp prev_tc b0 (bp_v_req param) (bp_v_plan param) (bp_a_max param) in
                            if checkTangentAngle circ1 arc param (tp_cycleTime tp) False \<noteq> 0
                               \<or> checkTangentAngle circ2 arc param (tp_cycleTime tp) True \<noteq> 0 then fail
                            else
                              (case tpChooseBestBlend cfg tp prev_tc tc (Some b1) of
                                 None \<Rightarrow> None
                               | Some (best, p, t) \<Rightarrow>
                                   if best \<noteq> ARC_BLEND then Some (TP_ERR_NO_ACTION, tp, p, t, b1)
                                   else
                                     (let p1 = snd (tcSetCircleXYZ p (Some circ1));
                                          t1 = (snd (tcSetCircleXYZ t (Some circ2)))\<lparr>tc_blend_prev := 0\<rparr>;
                                          (p2, t2) = tcSetTermCond (Some p1) (Some t1) TC_TERM_COND_TANGENT
                                      in Some (TP_ERR_OK, tp, the p2, the t2, b1\<lparr>tc_atspeed := 0\<rparr>))))))))"

datatype blend_type = BLEND_NONE | BLEND_LINE_LINE | BLEND_LINE_ARC | BLEND_ARC_LINE | BLEND_ARC_ARC

definition tpCheckBlendArcType :: "tc_struct \<Rightarrow> tc_struct \<Rightarrow> blend_type" where
  "tpCheckBlendArcType prev_tc tc =
     (if tc_term_cond prev_tc \<noteq> TC_TERM_COND_PARABOLIC then BLEND_NONE
      else if tcRotaryMotionCheck tc \<or> tcRotaryMotionCheck prev_tc then BLEND_NONE
      else if tc_finalized tc \<noteq> 0 \<or> tc_finalized prev_tc \<noteq> 0 then BLEND_NONE
      else
        (case (tc_motion_type prev_tc, tc_motion_type tc) of
           (TC_LINEAR, TC_LINEAR) \<Rightarrow> BLEND_LINE_LINE
         | (TC_LINEAR, TC_CIRCULAR) \<Rightarrow> BLEND_LINE_ARC
         | (TC_CIRCULAR, TC_LINEAR) \<Rightarrow> BLEND_ARC_LINE
         | (TC_CIRCULAR, TC_CIRCULAR) \<Rightarrow> BLEND_ARC_ARC
         | _ \<Rightarrow> BLEND_NONE))"

definition tpCreateBlendIfPossible ::
  "mot_config \<Rightarrow> pm_cart \<Rightarrow> tp \<Rightarrow> tc_struct \<Rightarrow> tc_struct \<Rightarrow> tc_struct \<Rightarrow> blend_result" where
  "tpCreateBlendIfPossible cfg acc_bound tp prev_tc tc blend_tc =
     (case tpCheckBlendArcType prev_tc tc of
        BLEND_LINE_LINE \<Rightarrow> tpCreateLineLineBlend cfg acc_bound tp prev_tc tc blend_tc
      | BLEND_LINE_ARC \<Rightarrow> tpCreateLineArcBlend cfg acc_bound tp prev_tc tc blend_tc
      | BLEND_ARC_LINE \<Rightarrow> tpCreateArcLineBlend cfg acc_bound tp prev_tc tc blend_tc
      | BLEND_ARC_ARC \<Rightarrow> tpCreateArcArcBlend cfg acc_bound tp prev_tc tc blend_tc
      | BLEND_NONE \<Rightarrow> Some (TP_ERR_FAIL, tp, prev_tc, tc, blend_tc))"

text \<open>
  The result is the blend used; where the tangent test fails or succeeds at once the code returns its
  error code in that place.
\<close>

definition tpHandleBlendArc :: "mot_config \<Rightarrow> pm_cart \<Rightarrow> tp \<Rightarrow> tc_struct \<Rightarrow> (int \<times> tp \<times> tc_struct) option" where
  "tpHandleBlendArc cfg acc_bound tp tc =
     (let i = tcqLast (tp_queue tp) in
      case tp_fetch tp i of
        None \<Rightarrow> None
      | Some None \<Rightarrow> Some (NO_BLEND, tp, tc)
      | Some (Some prev_tc) \<Rightarrow>
          if tc_progress prev_tc > tc_target prev_tc / 2 then Some (NO_BLEND, tp, tc)
          else
            (case tpSetupTangent cfg acc_bound tp prev_tc tc of
               None \<Rightarrow> None
             | Some (res_tan, p1, t1) \<Rightarrow>
                 if res_tan = TP_ERR_FAIL \<or> res_tan = TP_ERR_OK then Some (res_tan, tp_store i (Some p1) tp, t1)
                 else
                   (case tpCreateBlendIfPossible cfg acc_bound tp p1 t1 blend_zero of
                      None \<Rightarrow> None
                    | Some (res_create, tp2, p2, t2, b2) \<Rightarrow>
                        if res_create = TP_ERR_OK then
                          map_option (\<lambda>(r, tp3, b3). (ARC_BLEND, tp3, t2))
                            (tpAddSegmentToQueue (tp_store i (Some p2) tp2) b2 False)
                        else
                          map_option (\<lambda>(best, p3, t3). (best, tp_store i (Some p3) tp2, t3))
                            (tpChooseBestBlend cfg tp2 p2 t2 None))))"

section \<open>Appending\<close>

text \<open>What both functions do with the segment once its geometry is set.\<close>

definition append_segment ::
  "mot_config \<Rightarrow> pm_cart \<Rightarrow> (tc_struct \<Rightarrow> tc_struct) \<Rightarrow> tp \<Rightarrow> tc_struct \<Rightarrow> (int \<times> tp) option" where
  "append_segment cfg acc_bound after_blend tp tc =
     (let i = tcqLast (tp_queue tp) in
      case tp_fetch tp i of
        None \<Rightarrow> None
      | Some prev_tc \<Rightarrow>
          (let (r, p1, t1) = handleModeChange prev_tc tc;
               tp1 = tp_store i p1 tp
           in case (if mg_arcBlendEnable cfg \<noteq> 0
                    then map_option (\<lambda>(b, tp', t'). (tp', after_blend t')) (tpHandleBlendArc cfg acc_bound tp1 t1)
                    else Some (tp1, t1)) of
                None \<Rightarrow> None
              | Some (tp2, t2) \<Rightarrow>
                  (case tp_fetch tp2 i of
                     None \<Rightarrow> None
                   | Some prev2 \<Rightarrow>
                       (let prev3 = snd (tcFinalizeLength prev2);
                            (r, prev4, t3) = tcFlagEarlyStop prev3 (Some t2);
                            tp3 = tp_store i prev4 tp2
                        in case tpAddSegmentToQueue tp3 (the t3) True of
                             None \<Rightarrow> None
                           | Some (retval, tp4, t4) \<Rightarrow>
                               map_option (\<lambda>tp5. (retval, tp5)) (tpRunOptimization cfg tp4)))))"

definition new_line :: "line_args \<Rightarrow> tp \<Rightarrow> tc_struct" where
  "new_line a tp =
     (let t0 = tcInit (tc_zero line9_zero) line9_zero (la_type a) (tp_cycleTime tp) (la_enables a) (la_atspeed a);
          t1 = tcSetupMotion (tcSetupState t0 tp) (la_vel a) (la_ini_maxvel a) (la_acc a);
          l = snd (pmLine9Init (tp_goalPos tp) (la_end a))
      in t1\<lparr>tc_coords := Line9 l, tc_target := pmLine9Target l\<rparr>)"

text \<open>The last assignment of the code, to its own copy of the segment, has no effect.\<close>

definition tpAddLine :: "pm_cart \<Rightarrow> mot_config \<Rightarrow> line_args \<Rightarrow> tp \<Rightarrow> (int \<times> tp) option" where
  "tpAddLine acc_bound cfg a tp =
     (if tpErrorCheck tp < 0 then Some (TP_ERR_FAIL, tp)
      else
        (let tc = new_line a tp in
         if tc_target tc < TP_POS_EPSILON then Some (TP_ERR_ZERO_LENGTH, tp)
         else
           (let t1 = tcClampVelocityByLength (tc\<lparr>tc_nominal_length := tc_target tc\<rparr>);
                t2 = t1\<lparr>tc_indexer_jnum := la_turn a\<rparr>
            in append_segment cfg acc_bound (\<lambda>t. t) tp t2)))"

definition refit :: "tc_struct \<Rightarrow> tc_struct" where
  "refit tc = (case tc_coords tc of
     Circle9 c \<Rightarrow> tc\<lparr>tc_coords := Circle9 (c\<lparr>c9_fit := snd (findSpiralArcLengthFit (c9_xyz c))\<rparr>)\<rparr> | _ \<Rightarrow> tc)"

definition tpAddCircle :: "pm_cart \<Rightarrow> mot_config \<Rightarrow> circle_args \<Rightarrow> tp \<Rightarrow> (int \<times> tp) option" where
  "tpAddCircle acc_bound cfg a tp =
     (if tpErrorCheck tp < 0 then Some (TP_ERR_FAIL, tp)
      else
        (let (res_init, c) = pmCircle9Init (tp_goalPos tp) (la_end a) (la_center a) (la_normal a) (la_turn a);
             t0 = tcInit (tc_zero (Circle9 c)) (Circle9 c) (la_type a) (tp_cycleTime tp) (la_enables a) (la_atspeed a);
             t1 = (tcSetupState t0 tp)\<lparr>tc_target := pmCircle9Target c\<rparr>
         in if res_init \<noteq> 0 then Some (res_init, tp)
            else if tc_target t1 < TP_POS_EPSILON then Some (TP_ERR_ZERO_LENGTH, tp)
            else
              (let t2 = tcSetupMotion (t1\<lparr>tc_nominal_length := tc_target t1\<rparr>) (la_vel a) (la_ini_maxvel a) (la_acc a)
               in append_segment cfg acc_bound refit tp (tcClampVelocityByLength t2))))"

end
