(* ===== verification/TpGoal.thy ===== *)
theory TpGoal
  imports TpQueue TpMotion TpAdd
begin

text \<open>
  Where the planner is and where it goes: whatever the order of appended segments, cycles, pauses, feed
  changes and aborts, the goal is the current position plus what is left of the queued segments. The
  blends that \<open>arcBlendEnable\<close> and parabolic terminal conditions turn on are excluded: nothing in the
  program sets the one, or calls \<open>tpSetTermCond\<close> after the tangent condition of \<open>tpInit\<close>.
\<close>

lemma opt_case_Some:
  "(case x of None \<Rightarrow> None | Some y \<Rightarrow> g y) = Some z \<longleftrightarrow> (\<exists>y. x = Some y \<and> g y = Some z)"
  by (cases x) auto

section \<open>Coordinates\<close>

definition coords :: "(emc_pose \<Rightarrow> real) list" where
  "coords = [\<lambda>p. c_x (ep_tran p), \<lambda>p. c_y (ep_tran p), \<lambda>p. c_z (ep_tran p), ep_a, ep_b, ep_c, ep_u, ep_v, ep_w]"

lemma coords_eqI: "(\<And>f. f \<in> set coords \<Longrightarrow> f p = f q) \<Longrightarrow> p = q"
proof -
  assume a: "\<And>f. f \<in> set coords \<Longrightarrow> f p = f q"
  have "\<forall>f \<in> set coords. f p = f q" using a by blast
  then have "c_x (ep_tran p) = c_x (ep_tran q)" "c_y (ep_tran p) = c_y (ep_tran q)" "c_z (ep_tran p) = c_z (ep_tran q)"
    "ep_a p = ep_a q" "ep_b p = ep_b q" "ep_c p = ep_c q" "ep_u p = ep_u q" "ep_v p = ep_v q" "ep_w p = ep_w q"
    unfolding coords_def list.set ball_simps by blast+
  then show "p = q" by (intro emc_pose.equality pm_cart.equality) simp_all
qed

lemma coords_add:
  "f \<in> set coords \<Longrightarrow> f (the (snd (emcPoseSelfAdd (Some p) (Some q)))) = f p + f q"
  unfolding coords_def by (auto simp: emcPoseSelfAdd_def emcPoseAdd_def pmCartCartAdd_def)

lemma coords_sub:
  "f \<in> set coords \<Longrightarrow> f (the (snd (emcPoseSelfSub (Some p) (Some q)))) = f p - f q"
  unfolding coords_def by (auto simp: emcPoseSelfSub_def emcPoseSub_def pmCartCartSub_def)

text \<open>What a segment has left, in one coordinate.\<close>

definition left :: "(emc_pose \<Rightarrow> real) \<Rightarrow> tc_struct \<Rightarrow> real" where
  "left f t = f (the (tcGetEndpoint t)) - f (the (tcGetPos t))"

definition left_next :: "(emc_pose \<Rightarrow> real) \<Rightarrow> tc_struct option \<Rightarrow> real" where
  "left_next f n = (case n of None \<Rightarrow> 0 | Some t \<Rightarrow> left f t)"

lemma left_next_simps [simp]: "left_next f None = 0" "left_next f (Some t) = left f t"
  by (simp_all add: left_next_def)

section \<open>What changes no path\<close>

definition path_eq :: "tc_struct \<Rightarrow> tc_struct \<Rightarrow> bool" where
  "path_eq t t' \<longleftrightarrow> tc_coords t' = tc_coords t \<and> tc_target t' = tc_target t \<and> tc_progress t' = tc_progress t
     \<and> tc_remove t' = tc_remove t \<and> tc_blending_next t' = tc_blending_next t
     \<and> (tc_term_cond t \<noteq> TC_TERM_COND_PARABOLIC \<longrightarrow> tc_term_cond t' \<noteq> TC_TERM_COND_PARABOLIC)"

lemma path_eq_refl [simp]: "path_eq t t"
  by (simp add: path_eq_def)

lemma path_eq_trans: "path_eq t u \<Longrightarrow> path_eq u v \<Longrightarrow> path_eq t v"
  by (simp add: path_eq_def)

lemma rel_path_trans:
  assumes "rel_option path_eq a b" "rel_option path_eq b c"
  shows "rel_option path_eq a c"
proof (cases a)
  case None
  with assms show ?thesis by simp
next
  case (Some x)
  with assms obtain y z where "b = Some y" "c = Some z" "path_eq x y" "path_eq y z"
    by (auto simp: option_rel_Some1)
  with Some path_eq_trans [of x y z] show ?thesis by simp
qed

lemma path_point: "tc_coords t' = tc_coords t \<Longrightarrow> tc_target t' = tc_target t \<Longrightarrow> tc_point t' p = tc_point t p"
  by (simp add: tc_point_def Let_def split: tc_coords.split option.split)

lemma path_eq_left: "path_eq t t' \<Longrightarrow> left f t' = left f t"
  using path_point [of t' t] by (simp add: path_eq_def left_def tcGetEndpoint_def tcGetPos_def)

text \<open>A segment that may be queued: no blend, and where its removal is flagged it has arrived.\<close>

definition seg_ok :: "tc_struct \<Rightarrow> bool" where
  "seg_ok t \<longleftrightarrow> tc_motion_type t \<noteq> TC_RIGIDTAP \<and> tc_term_cond t \<noteq> TC_TERM_COND_PARABOLIC \<and> tc_blending_next t = 0
     \<and> (tc_remove t \<noteq> 0 \<longrightarrow> tc_progress t = tc_target t)"

lemma path_eq_ok: "path_eq t t' \<Longrightarrow> seg_ok t \<Longrightarrow> seg_ok t'"
  by (simp add: path_eq_def seg_ok_def tc_motion_type_def)

lemma removed_left: "seg_ok t \<Longrightarrow> tc_remove t \<noteq> 0 \<Longrightarrow> left f t = 0"
  by (simp add: seg_ok_def left_def tcGetPos_def tcGetEndpoint_def)

section \<open>Advancing a segment\<close>

lemma end_condition_removes:
  assumes "tp_reverse_run tp = 0" "tc_remove t = 0"
    and "tc_remove (snd (tpCheckEndCondition cfg st tp t n)) \<noteq> 0"
  shows "tc_progress (snd (tpCheckEndCondition cfg st tp t n)) = tc_target t"
  using assms
  by (auto simp: tpCheckEndCondition_def Let_def split: if_splits option.splits prod.splits)

lemma dist_remove [simp]: "tc_remove (tcUpdateDistFromAccel t a v r) = tc_remove t"
  by (simp add: tcUpdateDistFromAccel_def Let_def)

lemma advance_ok:
  assumes "tp_reverse_run tp = 0" "tc_remove t = 0" "seg_ok t"
  shows "seg_ok (cycle_advance cfg st tp t n)"
proof -
  obtain t2 acc v where f: "seg_frame t t2" "tc_remove t2 = tc_remove t"
    and e: "cycle_advance cfg st tp t n
       = snd (tpCheckEndCondition cfg st tp (tcUpdateDistFromAccel t2 acc v (tp_reverse_run tp)) n)"
    using cycle_advance_unfold [of cfg st tp t n] by metis
  let ?u = "tcUpdateDistFromAccel t2 acc v (tp_reverse_run tp)"
  have "tc_target (cycle_advance cfg st tp t n) = tc_target t" "tc_target t2 = tc_target t"
    "tc_term_cond (cycle_advance cfg st tp t n) = tc_term_cond t"
    "tc_blending_next (cycle_advance cfg st tp t n) = tc_blending_next t"
    "tc_motion_type (cycle_advance cfg st tp t n) = tc_motion_type t"
    using cycle_advance_frame [of t cfg st tp n] f(1) by (simp_all add: seg_frame_def seg_frame_motion_type tc_motion_type_def)
  moreover have "tc_target ?u = tc_target t2" using dist_frame [of t2 acc v "tp_reverse_run tp"] by (simp add: seg_frame_def)
  ultimately show ?thesis
    using end_condition_removes [of tp ?u cfg st n] assms f(2) unfolding seg_ok_def e by simp
qed

lemma update_cycle:
  assumes u: "tpUpdateCycle cfg st tp t n = Some (r, tp', t')"
    and t: "tp_reverse_run tp = 0" "tc_remove t = 0" "seg_ok t" and f: "f \<in> set coords"
  shows "\<exists>p. tp' = tp\<lparr>tp_currentPos := p\<rparr>" "seg_ok t'"
    "f (tp_currentPos tp') + left f t' = f (tp_currentPos tp) + left f t"
proof -
  let ?t = "cycle_advance cfg st tp t n"
  from u obtain b a where p: "tcGetPos t = Some b" "tcGetPos ?t = Some a"
    and r: "(r, tp') = tpAddCurrentPos tp (snd (emcPoseSelfSub (Some a) (Some b)))" "t' = ?t"
    by (auto simp: tpUpdateCycle_def Let_def split: option.splits prod.splits)
  obtain d where d: "snd (emcPoseSelfSub (Some a) (Some b)) = Some d" "f d = f a - f b"
    using coords_sub [OF f, of a b] by (auto simp: emcPoseSelfSub_def emcPoseSub_def)
  with r(1) have tp': "tp' = tp\<lparr>tp_currentPos := the (snd (emcPoseSelfAdd (Some (tp_currentPos tp)) (Some d)))\<rparr>"
    by (simp add: tpAddCurrentPos_def emcPoseValid_def)
  then show "\<exists>p. tp' = tp\<lparr>tp_currentPos := p\<rparr>" by blast
  show "seg_ok t'" using advance_ok [OF t] r(2) by simp
  have "tcGetEndpoint t' = tcGetEndpoint t"
    using seg_frame_point [OF cycle_advance_frame [of t cfg st tp n]] cycle_advance_frame [of t cfg st tp n] r(2)
    by (simp add: tcGetEndpoint_def seg_frame_def)
  then show "f (tp_currentPos tp') + left f t' = f (tp_currentPos tp) + left f t"
    using p r(2) d(2) coords_add [OF f, of "tp_currentPos tp" d] by (simp add: tp' left_def)
qed

section \<open>The cycle of the front\<close>

text \<open>The two segments a cycle works on, and where the planner is.\<close>

definition pair_total :: "(emc_pose \<Rightarrow> real) \<Rightarrow> tp \<Rightarrow> tc_struct \<Rightarrow> tc_struct option \<Rightarrow> real" where
  "pair_total f tp t n = f (tp_currentPos tp) + left f t + left_next f n"

definition pair_ok :: "tc_struct \<Rightarrow> tc_struct option \<Rightarrow> bool" where
  "pair_ok t n \<longleftrightarrow> seg_ok t \<and> (\<forall>u. n = Some u \<longrightarrow> seg_ok u \<and> (tc_remove t = 0 \<longrightarrow> tc_remove u = 0))"

text \<open>What a cycle leaves alone: every field but the queue, the position, the spindle's offset and status.\<close>

definition tp_same :: "tp \<Rightarrow> tp \<Rightarrow> bool" where
  "tp_same tp tp' \<longleftrightarrow> tp_reverse_run tp' = tp_reverse_run tp \<and> tp_goalPos tp' = tp_goalPos tp
     \<and> tp_termCond tp' = tp_termCond tp \<and> tp_cycleTime tp' = tp_cycleTime tp \<and> tp_vLimit tp' = tp_vLimit tp
     \<and> tp_pausing tp' = tp_pausing tp \<and> tp_aborting tp' = tp_aborting tp
     \<and> tp_waiting_for_atspeed tp' = tp_waiting_for_atspeed tp \<and> tp_done tp' = tp_done tp"

definition tp_moved :: "tp \<Rightarrow> tp \<Rightarrow> bool" where
  "tp_moved tp tp' \<longleftrightarrow> tp_same tp tp' \<and> tp_queue tp' = tp_queue tp"

lemma tp_moved_refl [simp]: "tp_moved tp tp"
  by (simp add: tp_moved_def tp_same_def)

lemma tp_moved_trans: "tp_moved t u \<Longrightarrow> tp_moved u v \<Longrightarrow> tp_moved t v"
  by (simp add: tp_moved_def tp_same_def)

lemma tp_movedD:
  "tp_moved tp tp' \<Longrightarrow> tp_queue tp' = tp_queue tp" "tp_moved tp tp' \<Longrightarrow> tp_reverse_run tp' = tp_reverse_run tp"
  by (simp_all add: tp_moved_def tp_same_def)

lemma moved_pos: "\<exists>p. tp' = tp\<lparr>tp_currentPos := p\<rparr> \<Longrightarrow> tp_moved tp tp'"
  by (auto simp: tp_moved_def tp_same_def)

lemma movement_status:
  assumes "tpUpdateMovementStatus tp (Some t) st = Some (r, tp', st')"
  shows "tp_moved tp tp'" "tp_currentPos tp' = tp_currentPos tp"
proof -
  from assms have e: "tp' = tp\<lparr>tp_motionType := tc_canon_motion_type t, tp_activeDepth := tc_active_depth t,
      tp_execId := tc_id t\<rparr>"
    by (auto simp: tpUpdateMovementStatus_def split: option.splits)
  show "tp_currentPos tp' = tp_currentPos tp" by (simp add: e)
  show "tp_moved tp tp'" by (simp add: e tp_moved_def tp_same_def)
qed

lemma arrive:
  assumes t: "tc_remove t = 0" "seg_ok t" "tp_reverse_run tp = 0" and f: "f \<in> set coords"
    and p: "tcGetPos t = Some b" "tcGetPos (t\<lparr>tc_progress := tcGetTarget t (tp_reverse_run tp)\<rparr>) = Some a"
  shows "f (tp_currentPos (snd (tpAddCurrentPos tp (snd (emcPoseSelfSub (Some a) (Some b))))))
      = f (tp_currentPos tp) + left f t"
    "\<exists>p. snd (tpAddCurrentPos tp (snd (emcPoseSelfSub (Some a) (Some b)))) = tp\<lparr>tp_currentPos := p\<rparr>"
proof -
  obtain d where d: "snd (emcPoseSelfSub (Some a) (Some b)) = Some d" "f d = f a - f b"
    using coords_sub [OF f, of a b] by (auto simp: emcPoseSelfSub_def emcPoseSub_def)
  have "tcGetEndpoint t = Some a"
    using p(2) t(3) path_point [of "t\<lparr>tc_progress := tc_target t\<rparr>" t] by (simp add: tcGetPos_def tcGetEndpoint_def)
  then show "f (tp_currentPos (snd (tpAddCurrentPos tp (snd (emcPoseSelfSub (Some a) (Some b))))))
      = f (tp_currentPos tp) + left f t"
    using coords_add [OF f, of "tp_currentPos tp" d] d p(1) by (simp add: left_def tpAddCurrentPos_def emcPoseValid_def)
  show "\<exists>p. snd (tpAddCurrentPos tp (snd (emcPoseSelfSub (Some a) (Some b)))) = tp\<lparr>tp_currentPos := p\<rparr>"
    by (auto simp: d(1) tpAddCurrentPos_def emcPoseValid_def)
qed

lemma split_next_path: "path_eq n (split_next tp t n)"
  by (simp add: split_next_def path_eq_def)

lemma arrived_left: "left f (t\<lparr>tc_progress := tcGetTarget t 0, tc_remove := 1\<rparr>) = 0"
  using path_point [of "t\<lparr>tc_progress := tc_target t, tc_remove := 1\<rparr>" t]
  by (simp add: left_def tcGetPos_def tcGetEndpoint_def)

lemma split_cycle:
  assumes s: "tpHandleSplitCycle cfg st tp t n = Some (r, tp', t', n', st')"
    and ok: "pair_ok t n" "tp_reverse_run tp = 0" and f: "f \<in> set coords"
  shows "tp_moved tp tp' \<and> pair_ok t' n' \<and> pair_total f tp' t' n' = pair_total f tp t n
    \<and> (n' = None \<longleftrightarrow> n = None)"
proof (cases "tc_remove t = 0")
  case False
  with s ok show ?thesis by (simp add: tpHandleSplitCycle_def)
next
  case True
  let ?t1 = "t\<lparr>tc_progress := tcGetTarget t (tp_reverse_run tp)\<rparr>" let ?t2 = "?t1\<lparr>tc_remove := 1\<rparr>"
  from s True obtain b a where p: "tcGetPos t = Some b" "tcGetPos ?t1 = Some a"
    by (auto simp: tpHandleSplitCycle_def Let_def split: option.splits if_splits)
  let ?tp1 = "snd (tpAddCurrentPos tp (snd (emcPoseSelfSub (Some a) (Some b))))"
  have t: "seg_ok t" using ok by (simp add: pair_ok_def)
  note m = arrive [OF True t ok(2) f p]
  have t2: "seg_ok ?t2" "left f ?t2 = 0"
    using t ok(2) arrived_left [of f t] by (simp_all add: seg_ok_def tc_motion_type_def)
  show ?thesis
  proof (cases n)
    case None
    with s True p have "tp' = ?tp1" "t' = ?t2" "n' = None"
      by (simp_all add: tpHandleSplitCycle_def Let_def)
    with m t2 None show ?thesis using moved_pos [OF m(2)] by (simp add: pair_ok_def pair_total_def)
  next
    case (Some u)
    let ?n1 = "split_next ?tp1 ?t2 u"
    have u: "path_eq u ?n1" "seg_ok ?n1" "tc_remove ?n1 = 0"
      using split_next_path [of u ?tp1 ?t2] ok(1) True Some path_eq_ok [of u ?n1]
      by (auto simp: pair_ok_def path_eq_def)
    from s True p Some have "\<exists>n2 r1 tp2 u2 r2 x. tpUpdateCycle cfg st ?tp1 ?n1 n2 = Some (r1, tp2, u2)
        \<and> tpUpdateMovementStatus tp2 (Some x) st = Some (r2, tp', st') \<and> t' = ?t2 \<and> n' = Some u2"
      by (simp only: tpHandleSplitCycle_def Let_def opt_case_Some split_paired_Ex prod.case option.case
        simp_thms if_False option.inject prod.inject) blast
    then obtain n2 r1 tp2 u2 r2 x where c: "tpUpdateCycle cfg st ?tp1 ?n1 n2 = Some (r1, tp2, u2)"
      and v: "tpUpdateMovementStatus tp2 (Some x) st = Some (r2, tp', st')" and o: "t' = ?t2" "n' = Some u2"
      by blast
    have rev: "tp_reverse_run ?tp1 = 0" using m(2) ok(2) by auto
    note c' = update_cycle [OF c rev u(3,2) f]
    note v' = movement_status [OF v]
    have "tp_moved tp tp'" using moved_pos [OF m(2)] moved_pos [OF c'(1)] v'(1) tp_moved_trans by blast
    moreover have "left f ?n1 = left f u" by (rule path_eq_left [OF u(1)])
    ultimately show ?thesis
      using o Some t2 c'(2,3) v'(2) m(1) by (simp add: pair_ok_def pair_total_def)
  qed
qed

lemma regular_cycle:
  assumes s: "tpHandleRegularCycle cfg st tp t n = Some (r, tp', t', n', st')"
    and ok: "pair_ok t n" "tp_reverse_run tp = 0" and f: "f \<in> set coords"
  shows "tp_moved tp tp' \<and> pair_ok t' n' \<and> pair_total f tp' t' n' = pair_total f tp t n
    \<and> (n' = None \<longleftrightarrow> n = None)"
proof (cases "tc_remove t = 0")
  case False
  with s ok show ?thesis by (simp add: tpHandleRegularCycle_def)
next
  case True
  let ?t0 = "t\<lparr>tc_cycle_time := tp_cycleTime tp\<rparr>"
  have t0: "path_eq t ?t0" "seg_ok ?t0" "tc_remove ?t0 = 0"
    using ok(1) True path_eq_ok [of t ?t0] by (auto simp: pair_ok_def path_eq_def)
  from s True obtain r1 tp1 t1 r2 v w x where c: "tpUpdateCycle cfg st tp ?t0 n = Some (r1, tp1, t1)"
    and b: "tpComputeBlendVelocity t1 n (tpGetRealTargetVel cfg st tp1 (Some t1))
      (tpGetRealTargetVel cfg st tp1 n) (0, 0, 0) = Some (r2, v, w, x)"
    by (simp only: tpHandleRegularCycle_def opt_case_Some split_paired_Ex prod.case simp_thms if_False) blast
  note c' = update_cycle [OF c ok(2) t0(3,2) f]
  let ?t2 = "t1\<lparr>tc_blend_vel := v\<rparr>" let ?n2 = "map_option (\<lambda>n. n\<lparr>tc_blend_vel := w\<rparr>) n"
  let ?t3 = "if n = None then ?t2 else ?t2\<lparr>tc_blending_next := 0\<rparr>"
  have z: "tcIsBlending ?t2 = (0, ?t2\<lparr>tc_blending_next := 0\<rparr>)"
    using c'(2) by (simp add: tcIsBlending_def seg_ok_def Let_def)
  have "t' = ?t3 \<and> n' = ?n2 \<and> (\<exists>r3. tpUpdateMovementStatus tp1 (Some ?t3) st = Some (r3, tp', st'))"
  proof (cases n)
    case None
    with s True c b show ?thesis by (simp add: tpHandleRegularCycle_def opt_case_Some Let_def) blast
  next
    case (Some u)
    with s True c b z show ?thesis by (simp add: tpHandleRegularCycle_def opt_case_Some Let_def) blast
  qed
  then obtain r3 where o: "t' = ?t3" "n' = ?n2" and v: "tpUpdateMovementStatus tp1 (Some ?t3) st = Some (r3, tp', st')"
    by blast
  note v' = movement_status [OF v]
  have "path_eq t1 ?t3" using c'(2) by (auto simp: path_eq_def seg_ok_def)
  then have t3: "seg_ok ?t3" "left f ?t3 = left f t1" using path_eq_ok c'(2) path_eq_left by blast+
  have "path_eq u (u\<lparr>tc_blend_vel := w\<rparr>)" for u by (simp add: path_eq_def)
  then have n2: "left_next f ?n2 = left_next f n" "\<And>u. n = Some u \<Longrightarrow> seg_ok u \<Longrightarrow> seg_ok (u\<lparr>tc_blend_vel := w\<rparr>)"
    using path_eq_left path_eq_ok by (cases n; fastforce)+
  have "tp_moved tp tp'" using moved_pos [OF c'(1)] v'(1) tp_moved_trans by blast
  moreover have "pair_ok t' n'"
  proof (cases n)
    case None
    with t3(1) show ?thesis unfolding o pair_ok_def by simp
  next
    case (Some u)
    with ok(1) True have "seg_ok u" "tc_remove u = 0" by (simp_all add: pair_ok_def)
    with t3(1) n2(2) [OF Some] Some show ?thesis unfolding o pair_ok_def by simp
  qed
  moreover have "pair_total f tp' t' n' = pair_total f tp t n"
    by (simp only: o pair_total_def v'(2) t3(2) n2(1) c'(3) path_eq_left [OF t0(1)])
  ultimately show ?thesis by (simp add: o)
qed

lemma sync_path:
  assumes "cycle_sync tp t n = (tp', t', n')" "tc_motion_type t \<noteq> TC_RIGIDTAP"
  shows "tp_moved tp tp' \<and> tp_currentPos tp' = tp_currentPos tp \<and> path_eq t t'
    \<and> rel_option path_eq n n'"
proof -
  have m: "rel_option path_eq n (match_next u n)" for u
    by (cases n) (simp_all add: match_next_def path_eq_def)
  have r: "rel_option path_eq n n" by (cases n) simp_all
  have s: "tp_moved tp (tp\<lparr>tp_spin_offset := x\<rparr>)" for x
    by (simp add: tp_moved_def tp_same_def)
  have p: "path_eq t u \<Longrightarrow> path_eq t (if c then u\<lparr>tc_target_vel := x\<rparr> else u)"
    "path_eq t u \<Longrightarrow> path_eq t (u\<lparr>tc_target_vel := x\<rparr>)"
    "path_eq t u \<Longrightarrow> path_eq t (u\<lparr>tc_sync_accel := i\<rparr>)" for u c x i
    by (simp_all add: path_eq_def)
  show ?thesis
  proof (cases "tc_synchronized t = TC_SYNC_POSITION")
    case True
    then have "tpSyncPositionMode tp t n = (tp', t', n')"
      using assms by (simp add: cycle_sync_def Let_def TC_SYNC_POSITION_def TC_SYNC_VELOCITY_def)
    then show ?thesis
      using m s p by (auto simp: tpSyncPositionMode_def Let_def split: if_splits)
  next
    case False
    then show ?thesis
      using assms m r by (auto simp: cycle_sync_def tpSyncVelocityMode_def Let_def split: if_splits)
  qed
qed

lemma clear_path: "path_eq t (the (snd (tcClearFlags (Some t))))" "rel_option path_eq n (snd (tcClearFlags n))"
  by (cases n; simp add: tcClearFlags_def path_eq_def)+

lemma rel_left: "rel_option path_eq n n' \<Longrightarrow> left_next f n' = left_next f n"
  by (cases n; cases n') (auto simp: path_eq_left)

lemma pair_path_ok: "pair_ok t n \<Longrightarrow> path_eq t t' \<Longrightarrow> rel_option path_eq n n' \<Longrightarrow> pair_ok t' n'"
  unfolding pair_ok_def
  by (cases n; cases n') (auto simp: path_eq_ok, auto simp: path_eq_def)

lemma move_cycle:
  assumes s: "cycle_move cfg st tp t n = Some (r, tp', t', n', st')"
    and ok: "pair_ok t n" "tp_reverse_run tp = 0" "tc_motion_type t \<noteq> TC_RIGIDTAP" and f: "f \<in> set coords"
  shows "tp_moved tp tp' \<and> pair_ok t' n' \<and> pair_total f tp' t' n' = pair_total f tp t n
    \<and> (n' = None \<longleftrightarrow> n = None)"
proof -
  obtain tp1 t1 n1 where c: "cycle_sync tp t n = (tp1, t1, n1)" by (metis prod_cases3)
  let ?t2 = "the (snd (tcClearFlags (Some t1)))" let ?n2 = "snd (tcClearFlags n1)"
  note y = sync_path [OF c ok(3)]
  have t2: "path_eq t ?t2" using y clear_path(1) path_eq_trans by blast
  have n2: "rel_option path_eq n ?n2"
    using y clear_path(2) [of n1] rel_path_trans by blast
  note ok2 = pair_path_ok [OF ok(1) t2 n2]
  have rev: "tp_reverse_run tp1 = 0" using y ok(2) tp_movedD(2) [of tp tp1] by simp
  have tot: "pair_total f tp1 ?t2 ?n2 = pair_total f tp t n" "?n2 = None \<longleftrightarrow> n = None"
    using y path_eq_left [OF t2] rel_left [OF n2] n2 by (simp_all add: pair_total_def option.rel_sel)
  have "tp_moved tp1 tp' \<and> pair_ok t' n' \<and> pair_total f tp' t' n' = pair_total f tp1 ?t2 ?n2 \<and> (n' = None \<longleftrightarrow> ?n2 = None)"
  proof (cases "tc_splitting ?t2 = 0")
    case True
    with s c have "tpHandleRegularCycle cfg st tp1 ?t2 ?n2 = Some (r, tp', t', n', st')"
      unfolding cycle_move_def Let_def c prod.case by simp
    from regular_cycle [OF this ok2 rev f] show ?thesis .
  next
    case False
    with s c have "tpHandleSplitCycle cfg st tp1 ?t2 ?n2 = Some (r, tp', t', n', st')"
      unfolding cycle_move_def Let_def c prod.case by simp
    from split_cycle [OF this ok2 rev f] show ?thesis .
  qed
  with tot y tp_moved_trans [of tp tp1 tp'] show ?thesis by simp
qed

section \<open>The queue\<close>

definition head_opt :: "'a list \<Rightarrow> 'a option" where
  "head_opt xs = (case xs of [] \<Rightarrow> None | x # _ \<Rightarrow> Some x)"

fun segs_ok :: "tc_struct list \<Rightarrow> bool" where
  "segs_ok [] = True"
| "segs_ok (a # xs) = (pair_ok a (head_opt xs) \<and> (\<forall>t \<in> set (tl xs). seg_ok t \<and> tc_remove t = 0))"

lemma segs_ok_tl: "segs_ok (a # xs) \<Longrightarrow> segs_ok xs"
proof (cases xs)
  case (Cons b cs)
  assume "segs_ok (a # xs)"
  then have b: "seg_ok b" "\<forall>t \<in> set cs. seg_ok t \<and> tc_remove t = 0"
    by (auto simp: Cons pair_ok_def head_opt_def)
  then have "pair_ok b (head_opt cs)" by (cases cs) (auto simp: pair_ok_def head_opt_def)
  moreover have "\<forall>t \<in> set (tl cs). seg_ok t \<and> tc_remove t = 0" using b(2) by (cases cs) auto
  ultimately show ?thesis by (simp add: Cons)
qed simp

definition total :: "(emc_pose \<Rightarrow> real) \<Rightarrow> tp \<Rightarrow> real" where
  "total f tp = f (tp_currentPos tp) + sum_list (map (left f) (tp_segs tp))"

text \<open>The invariant.\<close>

definition plan_ok :: "tp \<Rightarrow> bool" where
  "plan_ok tp \<longleftrightarrow> tp_qwf tp \<and> tp_reverse_run tp = 0 \<and> tp_termCond tp \<noteq> TC_TERM_COND_PARABOLIC
     \<and> segs_ok (tp_segs tp) \<and> (\<forall>f \<in> set coords. f (tp_goalPos tp) = total f tp)"

lemma store_pair:
  assumes q: "tp_qwf tp" "tp_segs tp = a # rest" and n: "n = None \<longleftrightarrow> rest = []"
    and i: "tcqItem (tp_queue tp) 0 = i" "tcqItem (tp_queue tp) 1 = j"
  shows "tp_qwf (tp_store j n (tp_store i (Some t) tp)) \<and>
    tp_segs (tp_store j n (tp_store i (Some t) tp)) = t # (case n of None \<Rightarrow> [] | Some u \<Rightarrow> u # tl rest)
    \<and> tp_same tp (tp_store j n (tp_store i (Some t) tp))
    \<and> tp_currentPos (tp_store j n (tp_store i (Some t) tp)) = tp_currentPos tp
    \<and> tcqItem (tp_queue (tp_store j n (tp_store i (Some t) tp))) k = tcqItem (tp_queue tp) k"
proof -
  have q': "tcq_wf (tp_queue tp)" "tcq_list (tp_queue tp) = a # rest" using q by (simp_all add: tp_qwf_def tp_segs_def)
  with i(1) obtain p where p: "i = Some p" using sq.slot_in [of "tp_queue tp" 0] by auto
  with i(1) have i': "tcqItem (tp_queue tp) 0 = Some p" by simp
  show ?thesis
  proof (cases n)
    case None
    with n sq.replace_front [OF q' i', of t] p show ?thesis
      by (simp add: tp_store_set tp_qwf_def tp_segs_def tp_same_def)
  next
    case (Some u)
    with n obtain b cs where r: "rest = b # cs" by (cases rest) auto
    with q' i(2) obtain s where s: "j = Some s" using sq.slot_in [of "tp_queue tp" 1] by auto
    with i(2) have j': "tcqItem (tp_queue tp) 1 = Some s" by simp
    from sq.replace_two [OF q'(1) q'(2) [unfolded r] i' j', of u t] Some r s p show ?thesis
      by (simp add: tp_store_set tp_qwf_def tp_segs_def tp_same_def)
  qed
qed

text \<open>The completion keeps the front or takes it away.\<close>

lemma complete_segment:
  assumes q: "tp_qwf tp" "tp_segs tp = t # rest" "tcqItem (tp_queue tp) 0 = Some i" "tp_reverse_run tp = 0"
    and c: "tpCompleteSegment tp i t pins = Some (r, tp', pins')"
  shows "tp_qwf tp' \<and> tp_segs tp' = (if r = TP_ERR_OK then rest else t # rest)
    \<and> tp_same tp tp' \<and> tp_currentPos tp' = tp_currentPos tp"
proof -
  have q': "tcq_wf (tp_queue tp)" "tcq_list (tp_queue tp) = t # rest" using q by (simp_all add: tp_qwf_def tp_segs_def)
  note front = sq.replace_front [OF q' q(3)]
  show ?thesis
  proof (cases "tp_waiting_for_atspeed tp = tc_id t")
    case True
    with c front [of t] show ?thesis
      by (auto simp: tpCompleteSegment_def TP_ERR_FAIL_def TP_ERR_OK_def tp_store_set tp_qwf_def tp_segs_def tp_same_def)
  next
    case False
    let ?z = "if tc_synchronized t \<noteq> TC_SYNC_NONE then tp_spin_offset tp + tc_target t / tc_uu_per_rev t else 0"
    let ?tp1 = "tp\<lparr>tp_spin_offset := ?z\<rparr>"
    have "\<exists>l p1. relock t pins = Some (l, p1)"
      using c False unfolding tpCompleteSegment_def Let_def by (simp add: opt_case_Some split_paired_Ex) blast
    then obtain l p1 where l: "relock t pins = Some (l, p1)" by blast
    show ?thesis
    proof (cases l)
      case False
      with c l \<open>tp_waiting_for_atspeed tp \<noteq> tc_id t\<close>
      have "r = TP_ERR_FAIL" "tp' = tp_store (Some i) (Some t) ?tp1" by (simp_all add: tpCompleteSegment_def Let_def)
      with front [of t] show ?thesis
        by (simp add: TP_ERR_FAIL_def TP_ERR_OK_def tp_store_set tp_qwf_def tp_segs_def tp_same_def)
    next
      case True
      let ?t = "t\<lparr>tc_active := 0, tc_remove := 0, tc_is_blending := 0, tc_splitting := 0,
                 tc_cycle_time := tp_cycleTime ?tp1, tc_currentvel := 0, tc_term_vel := 0\<rparr>"
      let ?tp2 = "tp_store (Some i) (Some ?t) ?tp1"
      from c l True \<open>tp_waiting_for_atspeed tp \<noteq> tc_id t\<close> q(4)
      have e: "tp' = ?tp2\<lparr>tp_queue := snd (tcqPop (tp_queue ?tp2))\<rparr>" "r = TP_ERR_OK"
        by (simp_all add: tpCompleteSegment_def Let_def tp_store_set)
      from sq.pop_segs [OF front [of ?t]] show ?thesis
        by (simp add: e tp_store_set tp_qwf_def tp_segs_def tp_same_def)
    qed
  qed
qed

lemma empty_plan:
  assumes "tcq_wf q"
  shows "plan_ok (tp\<lparr>tp_queue := snd (tcqInit q), tp_goalPos := tp_currentPos tp, tp_reverse_run := 0\<rparr>)
    \<longleftrightarrow> tp_termCond tp \<noteq> TC_TERM_COND_PARABOLIC"
  using tcqInit_wf [OF assms] by (auto simp: plan_ok_def tp_qwf_def tp_segs_def total_def dest: tcq_hist_wfD)

lemma plan_ok_cong:
  assumes "tp_queue tp' = tp_queue tp" "tp_currentPos tp' = tp_currentPos tp" "tp_goalPos tp' = tp_goalPos tp"
    "tp_reverse_run tp' = tp_reverse_run tp" "tp_termCond tp' = tp_termCond tp"
  shows "plan_ok tp' = plan_ok tp"
  by (simp add: plan_ok_def tp_qwf_def tp_segs_def total_def assms)

lemma pair_of_queue:
  assumes "tp_qwf tp" "tp_segs tp = a # rest"
  shows "tp_fetch tp (tcqItem (tp_queue tp) 0) = Some (Some a)"
    "tp_fetch tp (tcqItem (tp_queue tp) 1) = Some (head_opt rest)"
proof -
  show "tp_fetch tp (tcqItem (tp_queue tp) 0) = Some (Some a)" using tp_fetch_in [OF assms(1), of 0] assms(2) by simp
  show "tp_fetch tp (tcqItem (tp_queue tp) 1) = Some (head_opt rest)"
  proof (cases rest)
    case Nil
    with tp_fetch_out(2) [OF assms(1), of 1] assms(2) show ?thesis by (simp add: head_opt_def)
  next
    case (Cons b cs)
    with tp_fetch_in [OF assms(1), of 1] assms(2) show ?thesis by (simp add: head_opt_def)
  qed
qed

lemma total_pair:
  assumes "tp_segs tp = a # rest"
  shows "total f tp = pair_total f tp a (head_opt rest) + sum_list (map (left f) (tl rest))"
  using assms by (cases rest) (simp_all add: total_def pair_total_def head_opt_def)

lemma activate_path:
  assumes "tpActivateSegment cfg st tp t = (r, tp', t')" "tp_reverse_run tp = 0" "tc_blending_next t = 0"
  shows "r = TP_ERR_OK" "tp_moved tp tp'" "tp_currentPos tp' = tp_currentPos tp" "path_eq t t'"
  using assms by (auto simp: tpActivateSegment_def Let_def tp_moved_def tp_same_def path_eq_def split: if_splits)

lemma stop_queue:
  assumes "plan_ok tp"
  shows "plan_ok (snd (tpHandleAbort tp t n))"
    "tpHandleEmptyQueue tp st = Some (tp', st') \<Longrightarrow> plan_ok tp'"
proof -
  have q: "tcq_wf (tp_queue tp)" "tp_termCond tp \<noteq> TC_TERM_COND_PARABOLIC" "tp_reverse_run tp = 0"
    using assms by (simp_all add: plan_ok_def tp_qwf_def)
  note e = empty_plan [OF q(1), of tp]
  show "plan_ok (snd (tpHandleAbort tp t n))"
    unfolding tpHandleAbort_def
    by (simp add: assms, intro impI, rule iffD2 [OF plan_ok_cong iffD2 [OF e q(2)]]) (simp_all add: tpResume_def)
  assume "tpHandleEmptyQueue tp st = Some (tp', st')"
  then show "plan_ok tp'"
    by (auto simp: tpHandleEmptyQueue_def tpUpdateMovementStatus_def tpResume_def q
      intro!: iffD2 [OF plan_ok_cong iffD2 [OF e q(2)]])
qed

text \<open>The segments a cycle puts back, and the segment it may take away.\<close>

lemma put_back:
  assumes ok: "plan_ok tp" "tp_segs tp = a # rest" and m: "tp_moved tp tp1" "pair_ok t n"
    and tot: "\<forall>f \<in> set coords. pair_total f tp1 t n = pair_total f tp a (head_opt rest)"
    and n: "n = None \<longleftrightarrow> rest = []"
    and i: "tcqItem (tp_queue tp) 0 = i" "tcqItem (tp_queue tp) 1 = j"
  shows "plan_ok (tp_store j n (tp_store i (Some t) tp1))"
    "tp_segs (tp_store j n (tp_store i (Some t) tp1)) = t # (case n of None \<Rightarrow> [] | Some u \<Rightarrow> u # tl rest)"
proof -
  let ?tp = "tp_store j n (tp_store i (Some t) tp1)" let ?xs = "case n of None \<Rightarrow> [] | Some u \<Rightarrow> u # tl rest"
  have q: "tp_qwf tp1" "tp_segs tp1 = a # rest" "tcqItem (tp_queue tp1) 0 = i" "tcqItem (tp_queue tp1) 1 = j"
    using ok m i by (simp_all add: plan_ok_def tp_qwf_def tp_segs_def tp_moved_def)
  note s = store_pair [OF q(1,2) n q(3,4), of t]
  have xs: "head_opt ?xs = n" "tl ?xs = tl rest" using n by (cases n; simp add: head_opt_def)+
  show "tp_segs ?tp = t # ?xs" using s by blast
  have "segs_ok (t # ?xs)"
    using ok m(2) xs by (simp add: plan_ok_def)
  moreover have "f (tp_goalPos ?tp) = total f ?tp" if "f \<in> set coords" for f
  proof -
    have "total f ?tp = pair_total f tp1 t n + sum_list (map (left f) (tl rest))"
      using total_pair [of ?tp t ?xs f] s xs by (simp add: pair_total_def)
    also have "\<dots> = total f tp" using tot that total_pair [OF ok(2), of f] by simp
    also have "\<dots> = f (tp_goalPos tp)" using ok(1) that by (simp add: plan_ok_def)
    finally show ?thesis using s m(1) by (simp add: tp_same_def tp_moved_def)
  qed
  ultimately show "plan_ok ?tp"
    using s ok(1) m(1) by (simp add: plan_ok_def tp_same_def tp_moved_def)
qed

lemma run_cycle_ok:
  assumes ok: "plan_ok tp" and c: "tpRunCycle cfg (tp, st, pins) = Some (r, tp', st', pins')"
  shows "plan_ok tp'"
proof (cases "tp_segs tp")
  case Nil
  with ok tp_fetch_out(2) [of tp 0] have "tp_fetch tp (tcqItem (tp_queue tp) 0) = Some None" by (simp add: plan_ok_def)
  with c have "\<exists>s s'. tpHandleEmptyQueue tp s = Some (tp', s')"
    unfolding tpRunCycle_def Let_def by (auto split: option.splits)
  with stop_queue(2) [OF ok] show ?thesis by blast
next
  case (Cons a rest)
  let ?i = "tcqItem (tp_queue tp) 0" let ?j = "tcqItem (tp_queue tp) 1" let ?st = "tpUpdateInitialStatus tp st"
  have w: "tp_qwf tp" "tp_reverse_run tp = 0" "pair_ok a (head_opt rest)" "seg_ok a"
    using ok Cons by (simp_all add: plan_ok_def pair_ok_def)
  note q = pair_of_queue [OF w(1) Cons]
  obtain x tp1 where ab: "tpHandleAbort tp a (head_opt rest) = (x, tp1)" by fastforce
  show ?thesis
  proof (cases "x = TP_ERR_STOPPED")
    case True
    with c q w(2) ab have "tp' = tp1" by (simp add: tpRunCycle_def Let_def)
    with stop_queue(1) [OF ok, of a "head_opt rest"] ab show ?thesis by simp
  next
    case False
    with ab have tp1: "tp1 = tp" by (auto simp: tpHandleAbort_def split: if_splits)
    obtain y tp2 t2 where ac: "tpActivateSegment cfg ?st tp a = (y, tp2, t2)" by (metis prod_cases3)
    note p = activate_path [OF ac w(2)]
    have p: "y = TP_ERR_OK" "tp_moved tp tp2" "tp_currentPos tp2 = tp_currentPos tp" "path_eq a t2"
      using p w(4) by (simp_all add: seg_ok_def)
    have t2: "pair_ok t2 (head_opt rest)" "tc_motion_type t2 \<noteq> TC_RIGIDTAP"
      using pair_path_ok [OF w(3) p(4), of "head_opt rest"] path_eq_ok [OF p(4) w(4)]
      by (cases "head_opt rest"; simp add: seg_ok_def)+
    have run: "tpRunCycle cfg (tp, st, pins) = (case cycle_move cfg ?st tp2 t2 (head_opt rest) of None \<Rightarrow> None
      | Some (r, tp3, t3, n3, st3) \<Rightarrow>
          (let tp4 = tp_store ?j n3 (tp_store ?i (Some t3) tp3) in
           if tc_remove t3 \<noteq> 0
           then map_option (\<lambda>(r, tp5, pins1). (TP_ERR_OK, tp5, st3, pins1))
                  (tpCompleteSegment tp4 (the ?i) t3 pins)
           else Some (TP_ERR_OK, tp4, st3, pins)))"
      using q w(2) ab False tp1 ac p(1) by (simp add: tpRunCycle_def Let_def cong: option.case_cong)
    obtain r3 tp3 t3 n3 st3 where mv: "cycle_move cfg ?st tp2 t2 (head_opt rest) = Some (r3, tp3, t3, n3, st3)"
      using c unfolding run by (simp only: opt_case_Some split_paired_Ex) blast
    note run = run [unfolded mv option.case prod.case Let_def]
    have rev: "tp_reverse_run tp2 = 0" using p(2) w(2) by (simp add: tp_movedD)
    have m: "tp_moved tp2 tp3" "pair_ok t3 n3" "n3 = None \<longleftrightarrow> rest = []"
      "\<And>f. f \<in> set coords \<Longrightarrow> pair_total f tp3 t3 n3 = pair_total f tp a (head_opt rest)"
    proof -
      have "ep_a \<in> set coords" by (simp add: coords_def)
      from move_cycle [OF mv t2(1) rev t2(2) this]
      show "tp_moved tp2 tp3" "pair_ok t3 n3" "n3 = None \<longleftrightarrow> rest = []"
        by (auto simp: head_opt_def split: list.splits)
      fix f assume "f \<in> set coords"
      from move_cycle [OF mv t2(1) rev t2(2) this] path_eq_left [OF p(4), of f]
      show "pair_total f tp3 t3 n3 = pair_total f tp a (head_opt rest)" by (simp add: pair_total_def p(3))
    qed
    let ?tp4 = "tp_store ?j n3 (tp_store ?i (Some t3) tp3)" let ?xs = "case n3 of None \<Rightarrow> [] | Some u \<Rightarrow> u # tl rest"
    note b = put_back [OF ok Cons tp_moved_trans [OF p(2) m(1)] m(2) _ m(3) refl refl]
    have b: "plan_ok ?tp4" "tp_segs ?tp4 = t3 # ?xs" using b m(4) by blast+
    show ?thesis
    proof (cases "tc_remove t3 = 0")
      case True
      with c run b(1) show ?thesis by simp
    next
      case False
      with c run obtain z where z: "tpCompleteSegment ?tp4 (the ?i) t3 pins = Some (z, tp', pins')"
        by auto
      obtain k where k: "?i = Some k" using sq.slot_in [of "tp_queue tp" 0] w(1) Cons by (auto simp: tp_qwf_def tp_segs_def)
      have "tcqItem (tp_queue ?tp4) 0 = Some k"
        using store_pair [of tp3 a rest n3 ?i ?j t3 0] m(1,3) p(2) w(1) Cons k
        by (simp add: tp_moved_def tp_qwf_def tp_segs_def)
      note cs = complete_segment [OF _ b(2) this]
      have cs: "tp_qwf tp'" "tp_segs tp' = (if z = TP_ERR_OK then ?xs else t3 # ?xs)" "tp_same ?tp4 tp'"
        "tp_currentPos tp' = tp_currentPos ?tp4"
        using cs [of pins z tp' pins'] z k b(1) by (simp_all add: plan_ok_def)
      have "left f t3 = 0" for f using removed_left [of t3 f] False m(2) by (simp add: pair_ok_def)
      then have "sum_list (map (left f) (tp_segs tp')) = sum_list (map (left f) (tp_segs ?tp4))" for f
        by (simp add: cs(2) b(2))
      moreover have "segs_ok (tp_segs tp')" using b segs_ok_tl [of t3 ?xs] by (simp add: cs(2) plan_ok_def)
      ultimately show ?thesis using b(1) cs by (simp add: plan_ok_def tp_same_def total_def)
    qed
  qed
qed

end
