(* ===== verification/TpAppend.thy ===== *)
theory TpAppend
  imports TpGoal
begin

text \<open>
  What appending a segment does to the plan: the segments already queued keep their paths, the new one
  starts at the old goal, and its end is the new goal.
\<close>

section \<open>Changes that keep every path\<close>

definition tp_path :: "tp \<Rightarrow> tp \<Rightarrow> bool" where
  "tp_path tp tp' \<longleftrightarrow> tp_qwf tp' \<and> list_all2 path_eq (tp_segs tp) (tp_segs tp') \<and> tp_same tp tp'
     \<and> tp_currentPos tp' = tp_currentPos tp"

lemma path_list_refl [simp]: "list_all2 path_eq xs xs"
  by (simp add: list.rel_refl)

lemma tp_path_refl: "tp_qwf tp \<Longrightarrow> tp_path tp tp"
  by (simp add: tp_path_def tp_same_def)

lemma tp_path_trans: "tp_path t u \<Longrightarrow> tp_path u v \<Longrightarrow> tp_path t v"
  unfolding tp_path_def tp_same_def
  by (elim conjE, intro conjI, assumption, rule list_all2_trans [OF path_eq_trans]) simp_all

lemma path_rest:
  "list_all2 path_eq xs ys \<Longrightarrow> \<forall>t \<in> set xs. seg_ok t \<and> tc_remove t = 0 \<Longrightarrow> \<forall>t \<in> set ys. seg_ok t \<and> tc_remove t = 0"
proof (induction rule: list_all2_induct)
  case (Cons x xs y ys)
  have x: "seg_ok x" "tc_remove x = 0" using Cons.prems by simp_all
  have "seg_ok y" using Cons.hyps(1) x(1) path_eq_ok by blast
  moreover have "tc_remove y = tc_remove x" using Cons.hyps(1) by (simp add: path_eq_def)
  moreover have "\<forall>t \<in> set ys. seg_ok t \<and> tc_remove t = 0"
    by (rule Cons.IH) (use Cons.prems in \<open>meson list.set_intros(2)\<close>)
  ultimately show ?case unfolding list.set ball_simps using x(2) by (intro conjI) (assumption | simp only:)+
qed simp

lemma path_left: "list_all2 path_eq xs ys \<Longrightarrow> map (left f) ys = map (left f) xs"
  by (induction rule: list_all2_induct) (simp_all add: path_eq_left)

lemma path_segs_ok: "list_all2 path_eq xs ys \<Longrightarrow> segs_ok xs \<Longrightarrow> segs_ok ys"
proof (cases xs)
  case (Cons a as)
  assume r: "list_all2 path_eq xs ys" and ok: "segs_ok xs"
  with Cons obtain b bs where y: "ys = b # bs" "path_eq a b" "list_all2 path_eq as bs"
    by (cases ys) auto
  have "rel_option path_eq (head_opt as) (head_opt bs)"
    using y(3) by (cases as; cases bs) (auto simp: head_opt_def)
  then have "pair_ok b (head_opt bs)" using ok Cons y(2) pair_path_ok by auto
  moreover have "list_all2 path_eq (tl as) (tl bs)" using y(3) by (cases as; cases bs) auto
  then have "\<forall>t \<in> set (tl bs). seg_ok t \<and> tc_remove t = 0"
    by (rule path_rest) (use ok Cons in simp)
  ultimately show ?thesis by (simp add: y(1))
qed simp

lemma tp_path_ok: "plan_ok tp \<Longrightarrow> tp_path tp tp' \<Longrightarrow> plan_ok tp'"
  using path_segs_ok path_left by (auto simp: plan_ok_def tp_path_def total_def tp_same_def)

lemma tcqLast_item: "tcq_wf q \<Longrightarrow> tcqLast q = tcqItem q (tq_len q - 1)"
proof -
  assume wf: "tcq_wf q"
  then have q: "0 < tq_size q" "0 \<le> tq_start q" "0 \<le> tq_len q" "tq_end q = (tq_start q + tq_len q) mod tq_size q"
    by (auto elim!: tcq_wfE)
  have e: "0 \<le> tq_end q" using q by simp
  have "(tq_end q - 1 + tq_size q) smod tq_size q = (tq_end q - 1 + tq_size q) mod tq_size q"
    using e q(1) by (simp add: smod_nonneg)
  also have "\<dots> = (tq_start q + (tq_len q - 1)) mod tq_size q" by (simp add: q(4) mod_diff_left_eq add_diff_eq)
  finally have "0 < tq_len q \<Longrightarrow> (tq_end q - 1 + tq_size q) smod tq_size q = (tq_start q + (tq_len q - 1)) smod tq_size q"
    using q by (simp add: smod_nonneg)
  then show ?thesis using q(3) by (cases "tq_len q = 0") (simp_all add: tcqLast_def tcqItem_def)
qed

text \<open>A segment is fetched, changed and put back.\<close>

lemma fetch_item:
  assumes "tp_qwf tp" "tp_fetch tp (tcqItem (tp_queue tp) n) = Some t"
  shows "t = (if 0 \<le> n \<and> n < int (length (tp_segs tp)) then Some (tp_segs tp ! nat n) else None)"
  using assms tp_fetch_in [of tp n] tp_fetch_out(2) [of tp n] by (cases "0 \<le> n \<and> n < int (length (tp_segs tp))") auto

lemma store_path:
  assumes q: "tp_qwf tp" and t: "tp_fetch tp (tcqItem (tp_queue tp) n) = Some t" and r: "rel_option path_eq t t'"
  shows "tp_path tp (tp_store (tcqItem (tp_queue tp) n) t' tp)"
    "tp_fetch (tp_store (tcqItem (tp_queue tp) n) t' tp) (tcqItem (tp_queue tp) n) = Some t'"
    "tcqItem (tp_queue (tp_store (tcqItem (tp_queue tp) n) t' tp)) k = tcqItem (tp_queue tp) k"
proof -
  let ?tp = "tp_store (tcqItem (tp_queue tp) n) t' tp"
  have "tp_path tp ?tp \<and> tp_fetch ?tp (tcqItem (tp_queue tp) n) = Some t'
    \<and> tcqItem (tp_queue ?tp) k = tcqItem (tp_queue tp) k"
  proof (cases "0 \<le> n \<and> n < int (length (tp_segs tp))")
    case False
    with fetch_item [OF q t] r t tp_path_refl [OF q] show ?thesis by auto
  next
    case True
    with fetch_item [OF q t] r obtain u where u: "t' = Some u" "path_eq (tp_segs tp ! nat n) u"
      by (cases t') auto
    from q have w: "tcq_wf (tp_queue tp)" by (simp add: tp_qwf_def)
    from True obtain i where i: "tcqItem (tp_queue tp) n = Some i"
      using sq.slot_in [OF w] by (auto simp: tp_segs_def)
    note s = sq.set_wf [OF w i, of u] sq.set_segs [OF w i, of u] sq.get_set_same [OF w i, of u]
    have "list_all2 path_eq (tp_segs tp) ((tp_segs tp)[nat n := u])"
      using u(2) True by (auto simp: list_all2_conv_all_nth nth_list_update)
    with s show ?thesis
      by (simp add: i u(1) tp_store_set tp_path_def tp_qwf_def tp_segs_def tp_same_def tp_fetch_def)
  qed
  then show "tp_path tp ?tp" "tp_fetch ?tp (tcqItem (tp_queue tp) n) = Some t'"
    "tcqItem (tp_queue ?tp) k = tcqItem (tp_queue tp) k" by blast+
qed

section \<open>Optimisation\<close>

lemma opt_step_path:
  assumes "opt_step cfg tp x h b p t = (p', t', s, h', b')"
  shows "path_eq p p'" "path_eq t t'"
proof -
  have "path_eq p (fst (opt_pair cfg tp p t)) \<and> path_eq t (snd (opt_pair cfg tp p t))"
    by (simp add: opt_pair_def tpComputeOptimalVelocity_def Let_def path_eq_def)
  moreover obtain u v where "opt_pair cfg tp p t = (u, v)" by fastforce
  moreover have "path_eq t v \<Longrightarrow> path_eq t (v\<lparr>tc_active_depth := d\<rparr>)" for v d by (simp add: path_eq_def)
  ultimately show "path_eq p p'" "path_eq t t'"
    using assms by (auto simp: opt_step_def Let_def split: if_splits)
qed

lemma opt_loop_path:
  "tp_qwf tp \<Longrightarrow> opt_loop k x h b len cfg tp = Some tp' \<Longrightarrow> tp_path tp tp'"
proof (induction k arbitrary: x h b tp)
  case 0
  then show ?case by (simp add: tp_path_refl)
next
  case (Suc k)
  let ?i = "tcqItem (tp_queue tp) (len - x)" let ?j = "tcqItem (tp_queue tp) (len - x - 1)"
  show ?case
  proof (cases "\<exists>t p. tp_fetch tp ?i = Some (Some t) \<and> tp_fetch tp ?j = Some (Some p)")
    case False
    with Suc.prems have "tp' = tp" by (auto simp: Let_def split: option.splits)
    with tp_path_refl Suc.prems(1) show ?thesis by simp
  next
    case True
    then obtain t p where f: "tp_fetch tp ?i = Some (Some t)" "tp_fetch tp ?j = Some (Some p)" by blast
    obtain p1 t1 s h1 b1 where o: "opt_step cfg tp x h b p t = (p1, t1, s, h1, b1)" by (metis prod_cases5)
    note e = opt_step_path [OF o]
    let ?tp1 = "tp_store ?j (Some p1) tp" let ?tp2 = "tp_store ?i (Some t1) ?tp1"
    have r: "rel_option path_eq (Some p) (Some p1)" using e by simp
    note s1 = store_path [OF Suc.prems(1) f(2) r]
    have q1: "tp_qwf ?tp1" using s1(1) by (simp add: tp_path_def)
    have "tp_path ?tp1 ?tp2"
    proof (cases "tp_fetch ?tp1 (tcqItem (tp_queue ?tp1) (len - x))")
      case None
      then show ?thesis
        using tp_fetch_in [OF q1, of "len - x"] tp_fetch_out(2) [OF q1, of "len - x"]
        by (metis not_le option.distinct(1))
    next
      case (Some u)
      have l: "length (tp_segs ?tp1) = length (tp_segs tp)" "list_all2 path_eq (tp_segs tp) (tp_segs ?tp1)"
        using s1(1) by (auto simp: tp_path_def dest: list_all2_lengthD)
      from fetch_item [OF Suc.prems(1) f(1)] have n: "0 \<le> len - x" "len - x < int (length (tp_segs tp))"
        "t = tp_segs tp ! nat (len - x)" by (auto split: if_splits)
      with fetch_item [OF q1 Some] l have u: "u = Some (tp_segs ?tp1 ! nat (len - x))" by simp
      have i: "tcqItem (tp_queue ?tp1) (len - x) = ?i" using s1(3) by simp
      show ?thesis
      proof (cases "\<exists>v. u = Some v \<and> path_eq v t1")
        case True
        with store_path(1) [OF q1 Some, of "Some t1"] i show ?thesis by auto
      next
        case False
        have ne: "len - x \<noteq> len - x - 1" by simp
        obtain j where j: "?j = Some j" using f(2) by (cases ?j) (auto simp: tp_fetch_def)
        then have "tp_segs ?tp1 = (tp_segs tp)[nat (len - x - 1) := p1]"
          using sq.set_segs [of "tp_queue tp" "len - x - 1" j p1] Suc.prems(1)
          by (simp add: tp_store_set tp_segs_def tp_qwf_def)
        moreover have "0 \<le> len - x - 1" using fetch_item [OF Suc.prems(1) f(2)] by (auto split: if_splits)
        then have "nat (len - x) \<noteq> nat (len - x - 1)" by linarith
        ultimately have "u = Some t" using u n(3) by simp
        with False e show ?thesis by simp
      qed
    qed
    then have p2: "tp_path tp ?tp2" using s1(1) tp_path_trans by blast
    have "(if s then Some ?tp2 else opt_loop k (x + 1) h1 b1 len cfg ?tp2) = Some tp'"
      using Suc.prems(2) f o by (simp add: Let_def)
    then consider "tp' = ?tp2" | "opt_loop k (x + 1) h1 b1 len cfg ?tp2 = Some tp'"
      by (cases s) simp_all
    then show ?thesis
    proof cases
      case 2
      from p2 have "tp_qwf ?tp2" by (simp add: tp_path_def)
      from Suc.IH [OF this 2] p2 tp_path_trans show ?thesis by blast
    qed (simp add: p2)
  qed
qed

section \<open>Appending\<close>

lemma segs_ok_snoc: "segs_ok xs \<Longrightarrow> seg_ok t \<Longrightarrow> tc_remove t = 0 \<Longrightarrow> segs_ok (xs @ [t])"
proof (cases xs)
  case (Cons a as)
  assume a: "segs_ok xs" "seg_ok t" "tc_remove t = 0"
  then have "pair_ok a (head_opt (as @ [t]))"
    by (cases as) (simp_all add: Cons pair_ok_def head_opt_def)
  moreover have "\<forall>u \<in> set (tl (as @ [t])). seg_ok u \<and> tc_remove u = 0"
    using a by (cases as) (simp_all add: Cons)
  ultimately show ?thesis by (simp add: Cons)
qed (simp add: pair_ok_def head_opt_def)

lemma mode_change_path:
  assumes "handleModeChange p t = (r, p', t')"
  shows "rel_option path_eq p p'" "path_eq t t'"
proof -
  have "rel_option path_eq p p' \<and> path_eq t t'"
  proof (cases p)
    case (Some u)
    have c: "path_eq u (u\<lparr>tc_term_cond := TC_TERM_COND_STOP\<rparr>)" "path_eq t (t\<lparr>tc_blend_prev := 0\<rparr>)"
      by (simp_all add: path_eq_def TC_TERM_COND_PARABOLIC_def TC_TERM_COND_STOP_def)
    from assms show ?thesis
      by (auto simp: Some handleModeChange_def tcSetTermCond_def Let_def c split: if_splits)
  qed (use assms in \<open>simp add: handleModeChange_def\<close>)
  then show "rel_option path_eq p p'" "path_eq t t'" by blast+
qed

lemma finalize_path: "rel_option path_eq p (snd (tcFinalizeLength p))"
proof (cases p)
  case (Some t)
  have "path_eq t (tcClampVelocityByLength t)" by (simp add: tcClampVelocityByLength_def path_eq_def)
  moreover have "path_eq u (snd (tcUpdateCircleAccRatio u))" for u
    by (simp add: tcUpdateCircleAccRatio_def path_eq_def Let_def split: tc_coords.split)
  moreover have "path_eq u (u\<lparr>tc_finalized := 1\<rparr>)" for u by (simp add: path_eq_def)
  ultimately have "path_eq t ((snd (tcUpdateCircleAccRatio (tcClampVelocityByLength t)))\<lparr>tc_finalized := 1\<rparr>)"
    using path_eq_trans by blast
  then show ?thesis by (simp add: Some tcFinalizeLength_def)
qed (simp add: tcFinalizeLength_def)

lemma early_stop_path:
  assumes "tcFlagEarlyStop p (Some t) = (r, p', t')"
  shows "rel_option path_eq p p' \<and> (\<exists>u. t' = Some u \<and> path_eq t u)"
proof (cases p)
  case (Some u)
  have c: "path_eq u (u\<lparr>tc_term_cond := TC_TERM_COND_STOP\<rparr>)" "path_eq t (t\<lparr>tc_blend_prev := 0\<rparr>)"
    by (simp_all add: path_eq_def TC_TERM_COND_PARABOLIC_def TC_TERM_COND_STOP_def)
  from assms show ?thesis
    by (auto simp: Some tcFlagEarlyStop_def tcSetTermCond_def Let_def c split: if_splits)
qed (use assms in \<open>auto simp: tcFlagEarlyStop_def\<close>)

lemma add_to_queue:
  assumes ok: "plan_ok tp" and t: "seg_ok t" "tc_remove t = 0" "tcGetPos t = Some (tp_goalPos tp)" "tcGetEndpoint t = Some e"
    and a: "tpAddSegmentToQueue tp t k = Some (r, tp', t')"
  shows "plan_ok tp' \<and> (if r = TP_ERR_OK
    then tp_segs tp' = tp_segs tp @ [t\<lparr>tc_id := tp_nextId tp\<rparr>] \<and> tp_goalPos tp' = e \<and> tp_done tp' = 0 else tp' = tp)"
proof -
  let ?t = "t\<lparr>tc_id := tp_nextId tp\<rparr>"
  have p: "path_eq t ?t" by (simp add: path_eq_def)
  have pt: "tcGetPos ?t = Some (tp_goalPos tp)" "tcGetEndpoint ?t = Some e"
    using t(3,4) path_point [of ?t t] by (simp_all add: tcGetPos_def tcGetEndpoint_def)
  have w: "tcq_wf (tp_queue tp)" using ok by (simp add: plan_ok_def tp_qwf_def)
  show ?thesis
  proof (cases "tq_len (tp_queue tp) < tq_size (tp_queue tp)")
    case False
    with w have "tq_len (tp_queue tp) = tq_size (tp_queue tp)" by (auto elim!: tcq_wfE)
    from tcqPut_full [OF w this, of ?t] a have "tp' = tp" "r = TP_ERR_FAIL"
      by (simp_all add: tpAddSegmentToQueue_def Let_def)
    with ok show ?thesis by (simp add: TP_ERR_FAIL_def TP_ERR_OK_def)
  next
    case True
    obtain q where q: "tcqPut (tp_queue tp) ?t = Some (0, q)" "tcq_wf q" "tcq_list q = tcq_list (tp_queue tp) @ [?t]"
      using tcqPut_wf [OF w True, of ?t] by blast
    have m: "tc_motion_type ?t \<noteq> TC_RIGIDTAP" using t(1) by (simp add: seg_ok_def tc_motion_type_def)
    from a q(1) m have e: "r = TP_ERR_OK" "tp_queue tp' = q" "tp_goalPos tp' = e" "tp_done tp' = 0"
      "tp_currentPos tp' = tp_currentPos tp" "tp_reverse_run tp' = tp_reverse_run tp" "tp_termCond tp' = tp_termCond tp"
      by (auto simp: tpAddSegmentToQueue_def Let_def pt(2))
    have "f (tp_goalPos tp') = total f tp'" if "f \<in> set coords" for f
    proof -
      have "f (tp_goalPos tp) = total f tp" using ok that by (simp add: plan_ok_def)
      moreover have "left f ?t = f e - f (tp_goalPos tp)" by (simp add: left_def pt)
      ultimately show ?thesis by (simp add: total_def e tp_segs_def q(3))
    qed
    moreover have "segs_ok (tp_segs tp')"
      using ok segs_ok_snoc [of "tp_segs tp" ?t] path_eq_ok [OF p t(1)] t(2)
      by (simp add: plan_ok_def tp_segs_def e(2) q(3))
    ultimately show ?thesis
      using ok q(2,3) e by (simp add: plan_ok_def tp_qwf_def tp_segs_def)
  qed
qed

lemma append_ok:
  assumes ok: "plan_ok tp" and b: "mg_arcBlendEnable cfg = 0"
    and t: "seg_ok t" "tc_remove t = 0" "tcGetPos t = Some (tp_goalPos tp)" "tcGetEndpoint t = Some e"
    and a: "append_segment cfg acc g tp t = Some (r, tp')"
  shows "plan_ok tp' \<and> (r = TP_ERR_OK \<longrightarrow> tp_goalPos tp' = e) \<and> (r \<noteq> TP_ERR_OK \<longrightarrow> tp_goalPos tp' = tp_goalPos tp)"
proof -
  let ?n = "tq_len (tp_queue tp) - 1" let ?i = "tcqItem (tp_queue tp) ?n"
  have w: "tp_qwf tp" "tcq_wf (tp_queue tp)" using ok by (simp_all add: plan_ok_def tp_qwf_def)
  have i: "tcqLast (tp_queue tp) = ?i" by (rule tcqLast_item [OF w(2)])
  from a i obtain p where p: "tp_fetch tp ?i = Some p"
    by (auto simp: append_segment_def Let_def split: option.splits)
  obtain r1 p1 t1 where h: "handleModeChange p t = (r1, p1, t1)" by (metis prod_cases3)
  note h' = mode_change_path [OF h]
  let ?tp1 = "tp_store ?i p1 tp"
  note s1 = store_path [OF w(1) p h'(1)]
  obtain r2 p4 t3 where y: "tcFlagEarlyStop (snd (tcFinalizeLength p1)) (Some t1) = (r2, p4, t3)" by (metis prod_cases3)
  from early_stop_path [OF y] obtain t4 where y': "rel_option path_eq (snd (tcFinalizeLength p1)) p4" "t3 = Some t4" "path_eq t1 t4"
    by blast
  have p4: "rel_option path_eq p1 p4"
    using finalize_path [of p1] y'(1) by (rule rel_path_trans)
  let ?tp3 = "tp_store ?i p4 ?tp1"
  have i1: "tcqItem (tp_queue ?tp1) ?n = ?i" by (rule s1(3))
  have "tp_path ?tp1 ?tp3"
    using store_path(1) [of ?tp1 ?n p1 p4] s1(1,2) p4 i1 by (simp add: tp_path_def)
  with s1(1) have m: "tp_path tp ?tp3" using tp_path_trans by blast
  have t4: "path_eq t t4" using h'(2) y'(3) path_eq_trans by blast
  have "append_segment cfg acc g tp t = (case tpAddSegmentToQueue ?tp3 t4 True of None \<Rightarrow> None
      | Some (retval, tp4, t5) \<Rightarrow> map_option (\<lambda>tp5. (retval, tp5)) (tpRunOptimization cfg tp4))"
    using p h y y'(2) s1(2) b by (simp add: append_segment_def Let_def i)
  with a obtain tp4 t5 where q: "tpAddSegmentToQueue ?tp3 t4 True = Some (r, tp4, t5)"
    and o: "tpRunOptimization cfg tp4 = Some tp'"
    by (auto split: option.splits)
  have g3: "tp_goalPos ?tp3 = tp_goalPos tp" using m by (simp add: tp_path_def tp_same_def)
  have "tc_remove t4 = 0" "tcGetPos t4 = tcGetPos t" "tcGetEndpoint t4 = tcGetEndpoint t"
    using t4 t(2) path_point [of t4 t] by (simp_all add: path_eq_def tcGetPos_def tcGetEndpoint_def)
  with add_to_queue [OF tp_path_ok [OF ok m] path_eq_ok [OF t4 t(1)] _ _ _ q, of e] t g3
  have tp4: "plan_ok tp4" "r = TP_ERR_OK \<longrightarrow> tp_goalPos tp4 = e" "r \<noteq> TP_ERR_OK \<longrightarrow> tp_goalPos tp4 = tp_goalPos tp"
    by (auto split: if_splits)
  have "tp_path tp4 tp'"
    using opt_loop_path o tp4(1) unfolding tpRunOptimization_def plan_ok_def by blast
  with tp_path_ok [OF tp4(1) this] tp4(2,3) show ?thesis by (simp add: tp_path_def tp_same_def)
qed

section \<open>Lines and circles\<close>

text \<open>A part of a move that is too short to have a direction must not move at all.\<close>

definition same_or_apart :: "pm_cart \<Rightarrow> pm_cart \<Rightarrow> bool" where
  "same_or_apart u v \<longleftrightarrow> u = v \<or> \<not> IS_FUZZ (pmCartInfNorm (pmCartCartSub v u)) CART_FUZZ"

definition clear_move :: "emc_pose \<Rightarrow> emc_pose \<Rightarrow> bool" where
  "clear_move p q \<longleftrightarrow>
     (case (emcPoseToPmCartesian p, emcPoseToPmCartesian q) of
        ((x, a, u), (x', a', u')) \<Rightarrow> same_or_apart x x' \<and> same_or_apart a a' \<and> same_or_apart u u')"

lemma line_ends:
  assumes "same_or_apart s e"
  shows "pmCartLinePoint (snd (pmCartLineInit s e)) 0 = s"
    "pmCartLinePoint (snd (pmCartLineInit s e)) (cl_tmag (snd (pmCartLineInit s e))) = e"
proof -
  have "pmCartLinePoint (snd (pmCartLineInit s e)) 0 = s
    \<and> pmCartLinePoint (snd (pmCartLineInit s e)) (cl_tmag (snd (pmCartLineInit s e))) = e"
  proof (cases "IS_FUZZ (pmCartInfNorm (pmCartCartSub e s)) CART_FUZZ")
    case True
    with assms have "s = e" by (simp add: same_or_apart_def)
    with True show ?thesis by (simp add: pmCartLineInit_def Let_def pmCartLinePoint_def)
  next
    case False
    note i = cart_line_init [OF False]
    let ?u = "pmCartCartSub e s"
    from i(1) have m: "pmCartMag ?u \<noteq> 0" by simp
    have "pmCartCartAdd s (pmCartScalMult (pmCartScalMult ?u (1 / pmCartMag ?u)) 0) = s"
      "pmCartCartAdd s (pmCartScalMult (pmCartScalMult ?u (1 / pmCartMag ?u)) (pmCartMag ?u)) = e"
      using m by (simp_all add: pmCartCartAdd_def pmCartScalMult_def pmCartScalMultEq_def pmCartCartSub_def)
    then show ?thesis by (simp add: i(2) pmCartLinePoint_def)
  qed
  then show "pmCartLinePoint (snd (pmCartLineInit s e)) 0 = s"
    "pmCartLinePoint (snd (pmCartLineInit s e)) (cl_tmag (snd (pmCartLineInit s e))) = e" by blast+
qed

lemma line9_ends:
  assumes "clear_move p q" "tc_coords t = Line9 (snd (pmLine9Init p q))" "tc_target t \<noteq> 0"
  shows "tcGetStartpoint t = Some p" "tcGetEndpoint t = Some q"
proof -
  obtain x a u where p: "emcPoseToPmCartesian p = (x, a, u)" by (metis prod_cases3)
  obtain y b v where q: "emcPoseToPmCartesian q = (y, b, v)" by (metis prod_cases3)
  have join: "pmCartesianToEmcPose x a u = p" "pmCartesianToEmcPose y b v = q"
    using p q by (auto simp: emcPoseToPmCartesian_def pmCartesianToEmcPose_def)
  have c: "same_or_apart x y" "same_or_apart a b" "same_or_apart u v"
    using assms(1) by (simp_all add: clear_move_def p q)
  note e = line_ends [OF c(1)] line_ends [OF c(2)] line_ends [OF c(3)]
  have l: "snd (pmLine9Init p q) = \<lparr>l9_xyz = snd (pmCartLineInit x y), l9_abc = snd (pmCartLineInit a b),
      l9_uvw = snd (pmCartLineInit u v)\<rparr>"
    by (simp add: pmLine9Init_def p q Let_def split_beta)
  show "tcGetStartpoint t = Some p" "tcGetEndpoint t = Some q"
    using assms(3) by (simp_all add: tcGetStartpoint_def tcGetEndpoint_def tc_point_def assms(2) l e join Let_def)
qed

text \<open>The fields of a segment that is set up.\<close>

lemma setup_fields:
  "tc_progress (tcInit t c m h en sp) = tc_progress t" "tc_remove (tcInit t c m h en sp) = tc_remove t"
  "tc_blending_next (tcInit t c m h en sp) = tc_blending_next t" "tc_coords (tcInit t c m h en sp) = c"
  "tc_currentvel (tcInit t c m h en sp) = tc_currentvel t" "tc_splitting (tcInit t c m h en sp) = tc_splitting t"
  "tc_finalvel (tcInit t c m h en sp) = tc_finalvel t" "tc_active (tcInit t c m h en sp) = tc_active t"
  by (simp_all add: tcInit_def)

lemma line_fields:
  assumes "t2 = (tcClampVelocityByLength ((new_line a tp)\<lparr>tc_nominal_length := x\<rparr>))\<lparr>tc_indexer_jnum := k\<rparr>"
  shows "tc_progress t2 = 0" "tc_remove t2 = 0" "tc_blending_next t2 = 0" "tc_term_cond t2 = tp_termCond tp"
    "tc_coords t2 = Line9 (snd (pmLine9Init (tp_goalPos tp) (la_end a)))" "tc_target t2 = tc_target (new_line a tp)"
  unfolding assms
  by (simp_all add: tcClampVelocityByLength_def new_line_def Let_def tcSetupMotion_def tcInitKinkProperties_def
    tcSetupState_def tcSetTermCond_def setup_fields tc_zero_def)

lemma add_line_ok:
  assumes ok: "plan_ok tp" and b: "mg_arcBlendEnable cfg = 0" and c: "clear_move (tp_goalPos tp) (la_end a)"
    and l: "tpAddLine acc cfg a tp = Some (r, tp')"
  shows "plan_ok tp' \<and> (r = TP_ERR_OK \<longrightarrow> tp_goalPos tp' = la_end a) \<and> (r \<noteq> TP_ERR_OK \<longrightarrow> tp_goalPos tp' = tp_goalPos tp)"
proof (cases "tpErrorCheck tp < 0 \<or> tc_target (new_line a tp) < TP_POS_EPSILON")
  case True
  with l have "tp' = tp" "r \<noteq> TP_ERR_OK"
    by (elim disjE; simp add: tpAddLine_def Let_def TP_ERR_FAIL_def TP_ERR_OK_def TP_ERR_ZERO_LENGTH_def split: if_splits)+
  with ok show ?thesis by simp
next
  case False
  let ?t = "(tcClampVelocityByLength ((new_line a tp)\<lparr>tc_nominal_length := tc_target (new_line a tp)\<rparr>))\<lparr>tc_indexer_jnum := la_turn a\<rparr>"
  from l False have ap: "append_segment cfg acc (\<lambda>t. t) tp ?t = Some (r, tp')" by (simp add: tpAddLine_def Let_def)
  note f = line_fields [where a = a and tp = tp and x = "tc_target (new_line a tp)" and k = "la_turn a", OF refl]
  have "tc_target ?t \<noteq> 0" using False unfolding f(6) by (simp add: TP_POS_EPSILON_def)
  note e = line9_ends [OF c f(5) this]
  have "tcGetPos ?t = Some (tp_goalPos tp)" using e(1) f(1) unfolding tcGetPos_def tcGetStartpoint_def by simp
  moreover have "seg_ok ?t"
    unfolding seg_ok_def f(2,3,4) tc_motion_type_def f(5) using ok by (simp add: plan_ok_def)
  ultimately show ?thesis using append_ok [OF ok b _ f(2) _ e(2) ap] by blast
qed

lemma add_circle_ok:
  assumes ok: "plan_ok tp" and b: "mg_arcBlendEnable cfg = 0"
    and c: "c = snd (pmCircle9Init (tp_goalPos tp) (la_end a) (la_center a) (la_normal a) (la_turn a))"
      "tcGetStartpoint ((tc_zero (Circle9 c))\<lparr>tc_target := pmCircle9Target c\<rparr>) = Some (tp_goalPos tp)"
      "tcGetEndpoint ((tc_zero (Circle9 c))\<lparr>tc_target := pmCircle9Target c\<rparr>) = Some e"
    and l: "tpAddCircle acc cfg a tp = Some (r, tp')"
  shows "plan_ok tp' \<and> (tp_goalPos tp' = e \<or> tp_goalPos tp' = tp_goalPos tp)"
proof -
  let ?u = "(tc_zero (Circle9 c))\<lparr>tc_target := pmCircle9Target c\<rparr>"
  let ?t1 = "(tcSetupState (tcInit (tc_zero (Circle9 c)) (Circle9 c) (la_type a) (tp_cycleTime tp) (la_enables a) (la_atspeed a)) tp)
    \<lparr>tc_target := pmCircle9Target c\<rparr>"
  let ?t = "tcClampVelocityByLength (tcSetupMotion (?t1\<lparr>tc_nominal_length := tc_target ?t1\<rparr>) (la_vel a) (la_ini_maxvel a) (la_acc a))"
  obtain r0 where i: "pmCircle9Init (tp_goalPos tp) (la_end a) (la_center a) (la_normal a) (la_turn a) = (r0, c)"
    using c(1) by (cases "pmCircle9Init (tp_goalPos tp) (la_end a) (la_center a) (la_normal a) (la_turn a)") simp
  have f: "tc_progress ?t = 0" "tc_remove ?t = 0" "tc_blending_next ?t = 0" "tc_term_cond ?t = tp_termCond tp"
    "tc_coords ?t = Circle9 c" "tc_target ?t = pmCircle9Target c"
    by (simp_all add: tcClampVelocityByLength_def tcSetupMotion_def tcInitKinkProperties_def
      tcSetupState_def tcSetTermCond_def setup_fields tc_zero_def)
  have u: "tc_coords ?u = Circle9 c" "tc_target ?u = pmCircle9Target c" by (simp_all add: tc_zero_def)
  have p: "tc_point ?t x = tc_point ?u x" for x by (rule path_point) (simp_all only: f u)
  show ?thesis
  proof (cases "tpErrorCheck tp < 0 \<or> r0 \<noteq> 0 \<or> pmCircle9Target c < TP_POS_EPSILON")
    case True
    with l i have "tp' = tp" by (elim disjE; simp add: tpAddCircle_def Let_def split: if_splits)
    with ok show ?thesis by simp
  next
    case False
    with l i have ap: "append_segment cfg acc refit tp ?t = Some (r, tp')" by (simp add: tpAddCircle_def Let_def)
    have "tcGetPos ?t = Some (tp_goalPos tp)" "tcGetEndpoint ?t = Some e"
      using c(2,3) p unfolding tcGetPos_def tcGetStartpoint_def tcGetEndpoint_def f(1,6) by simp_all
    moreover have "seg_ok ?t"
      unfolding seg_ok_def f(2,3,4) tc_motion_type_def f(5) using ok by (simp add: plan_ok_def)
    ultimately show ?thesis using append_ok [OF ok b _ f(2) _ _ ap] by blast
  qed
qed

section \<open>Appending to an empty queue\<close>

lemma optimize_one:
  assumes "tp_qwf tp" "length (tp_segs tp) = 1"
  shows "tpRunOptimization cfg tp = Some tp"
proof -
  have "tcq_wf (tp_queue tp)" using assms by (simp add: tp_qwf_def)
  then have l: "tcqLen (tp_queue tp) = 1"
    using assms(2) length_tcq_list [of "tp_queue tp"] by (simp add: tp_segs_def tcqLen_def tcqCheck_wf)
  have "tp_fetch tp (tcqItem (tp_queue tp) 0) = Some (Some (tp_segs tp ! 0))"
    "tp_fetch tp (tcqItem (tp_queue tp) (- 1)) = Some None"
    using tp_fetch_in [OF assms(1), of 0] tp_fetch_out(2) [OF assms(1), of "- 1"] assms(2) by simp_all
  then show ?thesis
    by (cases "nat (mg_arcBlendOptDepth cfg + 1)") (simp_all add: tpRunOptimization_def l Let_def)
qed

lemma append_empty:
  assumes q: "tp_qwf tp" "tp_segs tp = []" and b: "mg_arcBlendEnable cfg = 0"
    and e: "tcGetEndpoint t = Some p" "tc_motion_type t \<noteq> TC_RIGIDTAP"
  shows "\<exists>q' i. append_segment cfg acc g tp t = Some (TP_ERR_OK,
      tp\<lparr>tp_queue := q', tp_nextId := i, tp_goalPos := p, tp_done := 0, tp_depth := 1\<rparr>)
    \<and> tcq_wf q' \<and> tcq_list q' = [t\<lparr>tc_id := tp_nextId tp\<rparr>]"
proof -
  let ?t = "t\<lparr>tc_id := tp_nextId tp\<rparr>"
  have w: "tcq_wf (tp_queue tp)" "tq_len (tp_queue tp) = 0"
    using q length_tcq_list [of "tp_queue tp"] by (auto simp: tp_qwf_def tp_segs_def elim!: tcq_wfE)
  from w have "tq_len (tp_queue tp) < tq_size (tp_queue tp)" by (auto elim!: tcq_wfE)
  from tcqPut_wf [OF w(1) this, of ?t] q(2) obtain q' where q': "tcqPut (tp_queue tp) ?t = Some (0, q')" "tcq_wf q'"
    "tcq_list q' = [?t]" "tq_len q' = 1" by (auto simp: tp_segs_def w(2))
  have pt: "tcGetEndpoint ?t = Some p" "tc_motion_type ?t \<noteq> TC_RIGIDTAP"
    using e path_point [of ?t t] by (simp_all add: tcGetEndpoint_def tc_motion_type_def)
  have i: "tcqLast (tp_queue tp) = None" by (simp add: tcqLast_def w(2))
  let ?tp = "tp\<lparr>tp_queue := q', tp_nextId := s32 (tp_nextId tp + 1), tp_goalPos := p, tp_done := 0, tp_depth := 1\<rparr>"
  have a: "tpAddSegmentToQueue tp t True = Some (TP_ERR_OK, ?tp, ?t)"
    using q'(1,2,4) pt by (simp add: tpAddSegmentToQueue_def Let_def tcqLen_def tcqCheck_wf)
  have o: "tpRunOptimization cfg ?tp = Some ?tp"
    by (rule optimize_one) (simp_all add: tp_qwf_def tp_segs_def q')
  have "append_segment cfg acc g tp t = Some (TP_ERR_OK, ?tp)"
    using a o b by (simp add: append_segment_def Let_def i tp_fetch_def handleModeChange_def tcFinalizeLength_def
      tcFlagEarlyStop_def)
  with q' show ?thesis by blast
qed

text \<open>The segment \<open>tpAddLine\<close> queues.\<close>

definition queued_line :: "line_args \<Rightarrow> tp \<Rightarrow> tc_struct" where
  "queued_line a tp = (tcClampVelocityByLength ((new_line a tp)\<lparr>tc_nominal_length := tc_target (new_line a tp)\<rparr>))
     \<lparr>tc_indexer_jnum := la_turn a\<rparr>"

lemmas queued_line_fields = line_fields [OF queued_line_def]

lemma add_line_empty:
  assumes q: "tp_qwf tp" "tp_segs tp = []" and b: "mg_arcBlendEnable cfg = 0"
    and c: "clear_move (tp_goalPos tp) (la_end a)" and l: "\<not> tpErrorCheck tp < 0" "TP_POS_EPSILON \<le> tc_target (new_line a tp)"
  shows "\<exists>q' i. tpAddLine acc cfg a tp = Some (TP_ERR_OK,
      tp\<lparr>tp_queue := q', tp_nextId := i, tp_goalPos := la_end a, tp_done := 0, tp_depth := 1\<rparr>)
    \<and> tcq_wf q' \<and> tcq_list q' = [(queued_line a tp)\<lparr>tc_id := tp_nextId tp\<rparr>]"
proof -
  have t: "tc_target (queued_line a tp) \<noteq> 0" using l(2) by (simp add: queued_line_fields TP_POS_EPSILON_def)
  note e = line9_ends(2) [OF c queued_line_fields(5) t]
  have "tc_motion_type (queued_line a tp) \<noteq> TC_RIGIDTAP" by (simp add: tc_motion_type_def queued_line_fields)
  from append_empty [OF q b e this] l show ?thesis by (simp add: tpAddLine_def Let_def queued_line_def)
qed

end
