(* ===== verification/TpPlan.thy ===== *)
theory TpPlan
  imports TpAppend
begin

text \<open>
  The planner under any order of operations: what is appended, cycles of the controller, settings, pauses,
  aborts and everything the rest of the program does to the shared status in between.
\<close>

type_synonym plan_env = "tp \<times> mot_status \<times> rotary_pins"

inductive plan_step :: "plan_env \<Rightarrow> plan_env \<Rightarrow> bool" where
  line: "mg_arcBlendEnable cfg = 0 \<Longrightarrow> clear_move (tp_goalPos tp) (la_end a) \<Longrightarrow>
    tpAddLine acc cfg a tp = Some (r, tp') \<Longrightarrow> plan_step (tp, st, pins) (tp', st, pins)"
| circle: "mg_arcBlendEnable cfg = 0 \<Longrightarrow>
    c = snd (pmCircle9Init (tp_goalPos tp) (la_end a) (la_center a) (la_normal a) (la_turn a)) \<Longrightarrow>
    tcGetStartpoint ((tc_zero (Circle9 c))\<lparr>tc_target := pmCircle9Target c\<rparr>) = Some (tp_goalPos tp) \<Longrightarrow>
    tcGetEndpoint ((tc_zero (Circle9 c))\<lparr>tc_target := pmCircle9Target c\<rparr>) = Some e \<Longrightarrow>
    tpAddCircle acc cfg a tp = Some (r, tp') \<Longrightarrow> plan_step (tp, st, pins) (tp', st, pins)"
| cycle: "tpRunCycle cfg env = Some (r, env') \<Longrightarrow> plan_step env env'"
| pause: "plan_step (tp, st, pins) (tpPause tp, st, pins)"
| resume: "plan_step (tp, st, pins) (tpResume tp, st, pins)"
| abort: "plan_step (tp, st, pins) (tpAbort tp, st, pins)"
| vlimit: "plan_step (tp, st, pins) (snd (tpSetVlimit tp v), st, pins)"
| vmax: "plan_step (tp, st, pins) (snd (tpSetVmax tp v w), st, pins)"
| amax: "plan_step (tp, st, pins) (snd (tpSetAmax tp v), st, pins)"
| cycle_time: "plan_step (tp, st, pins) (snd (tpSetCycleTime tp v), st, pins)"
| segment_id: "plan_step (tp, st, pins) (snd (tpSetId tp i), st, pins)"
| sync: "plan_step (tp, st, pins) (tpSetSpindleSync tp i v m, st, pins)"
| clear: "plan_step (tp, st, pins) (fst (tpClear tp st), snd (tpClear tp st), pins)"
| set_pos: "tp_segs tp = [] \<Longrightarrow> plan_step (tp, st, pins) (snd (tpSetPos tp p), st, pins)"
| world: "plan_step (tp, st, pins) (tp, st', pins')"

lemma plan_step_ok: "plan_step env env' \<Longrightarrow> plan_ok (fst env) \<Longrightarrow> plan_ok (fst env')"
proof (induction rule: plan_step.induct)
  case (line cfg tp a acc r tp' st pins)
  from add_line_ok [OF _ line.hyps] line.prems show ?case by simp
next
  case (circle cfg c tp a e acc r tp' st pins)
  from add_circle_ok [OF _ circle.hyps] circle.prems show ?case by simp
next
  case (cycle cfg env r env')
  then show ?case using run_cycle_ok [of "fst env" cfg _ _ r "fst env'"] by (cases env; cases env') auto
next
  case (clear tp st pins)
  then have "tcq_wf (tp_queue tp)" "tp_termCond tp \<noteq> TC_TERM_COND_PARABOLIC" by (simp_all add: plan_ok_def tp_qwf_def)
  with empty_plan [of "tp_queue tp" tp] have
    "plan_ok (tp\<lparr>tp_queue := snd (tcqInit (tp_queue tp)), tp_goalPos := tp_currentPos tp, tp_reverse_run := 0\<rparr>)" by blast
  then show ?case by (simp add: tpClear_def plan_ok_def tp_qwf_def tp_segs_def total_def)
next
  case (set_pos tp st pins p)
  then show ?case by (simp add: tpSetPos_def tpSetCurrentPos_def TP_ERR_OK_def plan_ok_def tp_qwf_def tp_segs_def total_def)
qed (simp_all add: plan_ok_def tp_qwf_def tp_segs_def total_def tpPause_def tpResume_def tpAbort_def
  tpSetVlimit_def tpSetVmax_def tpSetAmax_def tpSetCycleTime_def tpSetId_def tpSetSpindleSync_def)

lemma plan_steps_ok: "plan_step\<^sup>*\<^sup>* env env' \<Longrightarrow> plan_ok (fst env) \<Longrightarrow> plan_ok (fst env')"
  by (induction rule: rtranclp_induct) (simp_all add: plan_step_ok)

section \<open>An example planner\<close>

definition tp_ex :: tp where
  "tp_ex = \<lparr>tp_queue = \<lparr>tq_queue = Some (replicate 4 (tc_zero line9_zero)), tq_size = 4, tq_len = 0, tq_rlen = 0,
       tq_start = 0, tq_end = 0, tq_rend = 0, tq_allFull = 0\<rparr>,
     tp_spindle_num = 0, tp_spin_offset = 0, tp_spin_revs = 0, tp_waiting_for_index = 0, tp_waiting_for_atspeed = 0,
     tp_currentPos = emcPoseZero, tp_goalPos = emcPoseZero, tp_queueSize = 4, tp_cycleTime = 1 / 10, tp_vMax = 20,
     tp_ini_maxvel = 20, tp_vLimit = 20, tp_aMax = 100, tp_nextId = 1, tp_execId = 0, tp_termCond = TC_TERM_COND_TANGENT,
     tp_done = 1, tp_depth = 0, tp_activeDepth = 0, tp_aborting = 0, tp_pausing = 0, tp_reverse_run = 0,
     tp_motionType = 0, tp_tolerance = 0, tp_synchronized = 0, tp_uu_per_rev = 0\<rparr>"

definition pose_xy :: "real \<Rightarrow> real \<Rightarrow> emc_pose" where
  "pose_xy x y = emcPoseZero\<lparr>ep_tran := \<lparr>c_x = x, c_y = y, c_z = 0\<rparr>\<rparr>"

definition line_ex :: "real \<Rightarrow> real \<Rightarrow> line_args" where
  "line_ex x y = \<lparr>la_end = pose_xy x y, la_type = 2, la_vel = 10, la_ini_maxvel = 20, la_acc = 100, la_enables = 0,
     la_atspeed = 0, la_turn = -1\<rparr>"

definition cfg_ex :: mot_config where
  "cfg_ex = \<lparr>mg_head = 0, mg_config_num = 0, mg_numAxes = 3, mg_numMiscError = 0, mg_trajCycleTime = 1 / 10,
     mg_servoCycleTime = 1 / 10, mg_interpolationRate = 1, mg_limitVel = 20, mg_tail = 0, mg_arcBlendOptDepth = 50,
     mg_arcBlendEnable = 0, mg_arcBlendGapCycles = 0, mg_arcBlendRampFreq = 100, mg_arcBlendTangentKinkRatio = 0,
     mg_maxAxisScale = 1\<rparr>"

lemma tp_ex_empty: "tcq_wf (tp_queue tp_ex)" "tp_segs tp_ex = []" "tp_goalPos tp_ex = tp_currentPos tp_ex"
  "tp_reverse_run tp_ex = 0" "tp_termCond tp_ex \<noteq> TC_TERM_COND_PARABOLIC"
  by (simp_all add: tp_ex_def tcq_wf_def tp_segs_def tcq_list_def TC_TERM_COND_TANGENT_def TC_TERM_COND_PARABOLIC_def)

lemma line_ex_clear: "clear_move (tp_goalPos tp_ex) (la_end (line_ex 3 4))"
  by (simp add: clear_move_def tp_ex_def line_ex_def pose_xy_def emcPoseToPmCartesian_def emcPoseZero_def
    same_or_apart_def pmCartInfNorm_def pmCartCartSub_def IS_FUZZ_def CART_FUZZ_def)

lemma line_ex_length: "tc_target (new_line (line_ex 3 4) tp_ex) = 5"
proof -
  have "pmCartMag (pmCartCartSub \<lparr>c_x = 3, c_y = 4, c_z = 0\<rparr> \<lparr>c_x = 0, c_y = 0, c_z = 0\<rparr>) = 5"
    by (simp add: pmCartMag_def pmCartCartSub_def pmSqrt_def pmSq_def)
  then show ?thesis
    by (simp add: new_line_def Let_def pmLine9Target_def pmLine9Init_def emcPoseToPmCartesian_def line_ex_def pose_xy_def
      tp_ex_def emcPoseZero_def pmCartLineInit_def split_beta pmCartInfNorm_def pmCartCartSub_def IS_FUZZ_def CART_FUZZ_def)
qed

lemma line_ex_added:
  "\<exists>q i. tpAddLine acc cfg_ex (line_ex 3 4) tp_ex = Some (TP_ERR_OK,
      tp_ex\<lparr>tp_queue := q, tp_nextId := i, tp_goalPos := pose_xy 3 4, tp_done := 0, tp_depth := 1\<rparr>)
    \<and> tcq_wf q \<and> tcq_list q = [(queued_line (line_ex 3 4) tp_ex)\<lparr>tc_id := 1\<rparr>]"
proof -
  have "tp_qwf tp_ex" using tp_ex_empty by (simp add: tp_qwf_def)
  moreover have "\<not> tpErrorCheck tp_ex < 0" by (simp add: tpErrorCheck_def tp_ex_def TP_ERR_OK_def)
  moreover have "mg_arcBlendEnable cfg_ex = 0" by (simp add: cfg_ex_def)
  moreover have "la_end (line_ex 3 4) = pose_xy 3 4" "tp_nextId tp_ex = 1" by (simp_all add: line_ex_def tp_ex_def)
  ultimately show ?thesis
    using add_line_empty [of tp_ex cfg_ex "line_ex 3 4" acc] tp_ex_empty(2) line_ex_clear line_ex_length
    by (simp add: TP_POS_EPSILON_def)
qed



end
