(* ===== verification/TpArrive.thy ===== *)
theory TpArrive
  imports TpPlan CommandProps
begin

text \<open>
  A segment that ends at rest arrives: a bound on the distance of every cycle, cycles of a planner with
  one line in its queue, and the whole way of \<open>tpAddLine\<close> to the end of the line. The feed may change from cycle
  to cycle. Whether the line then leaves the queue depends on its number: one that is equal to
  \<open>waiting_for_atspeed\<close> is held for ever.
\<close>

section \<open>Progress of a cycle\<close>

text \<open>
  The distance of two cycles over the cycle time is at least this, more than a unit before the end:
  \<open>g\<close> bounds the target velocity from below, \<open>a\<close> is the acceleration and \<open>h\<close> the cycle time.
\<close>

definition creep :: "real \<Rightarrow> real \<Rightarrow> real \<Rightarrow> real" where
  "creep a h g = min (min g (a * h)) (min (1 / h) (sqrt (a + (a * h / 2)\<^sup>2) - a * h / 2))"

lemma creep_pos: "0 < a \<Longrightarrow> 0 < h \<Longrightarrow> 0 < g \<Longrightarrow> 0 < creep a h g"
proof -
  assume a: "0 < a" "0 < h" "0 < g"
  have "sqrt ((a * h / 2)\<^sup>2) < sqrt (a + (a * h / 2)\<^sup>2)" using a by (intro real_sqrt_less_mono) simp
  then show ?thesis using a by (simp add: creep_def)
qed

lemma rule_progress:
  assumes a: "0 < a" "0 < h" "0 < g'" "g' \<le> g" "0 \<le> v" "1 < d"
    and w: "w = v + rule_acc v 0 a d h g * h"
  shows "0 \<le> w \<and> creep a h g' \<le> v + w \<or> w < 0 \<and> d < v * h"
proof -
  let ?c = "a * h * (1 / 2)" let ?D = "pmSq 0 + a * (2 * d - v * h) + pmSq ?c" let ?m = "creep a h g'"
  let ?p = "peak v 0 a d h" let ?x = "(saturate ?p g - v) / h"
  have m: "0 < ?m" "?m \<le> g'" "?m \<le> a * h" "?m \<le> 1 / h" "?m \<le> sqrt (a + ?c\<^sup>2) - ?c"
    using creep_pos [OF a(1-3)] by (simp_all add: creep_def)
  have wx: "v + ?x * h = saturate ?p g" using a(2) by simp
  show ?thesis
  proof (cases "d < v * h")
    case True
    moreover have "?m * h \<le> 1" using m(4) a(2) mult_right_mono [of ?m "1 / h" h] by simp
    ultimately have "?m * h < v * h" using a(6) by linarith
    then have "?m < v" using a(2) by simp
    with True show ?thesis by linarith
  next
    case False
    then have "v * h < 2 * d" using a by linarith
    then have "0 < a * (2 * d - v * h)" using a(1) by simp
    then have D: "pmSq ?c < ?D" by (simp add: pmSq_def)
    have "0 \<le> ?D" using D pmSq_nonneg [of ?c] by linarith
    then have "pmSqrt ?D = sqrt ?D" unfolding pmSqrt_def by simp
    then have p: "?p = - ?c + sqrt ?D" using D unfolding peak_def Let_def by simp
    have "sqrt (pmSq ?c) < sqrt ?D" using D by (rule real_sqrt_less_mono)
    moreover have "sqrt (pmSq ?c) = ?c" unfolding pmSq_def real_sqrt_abs2 using a by simp
    ultimately have p0: "0 < ?p" unfolding p by linarith
    then have s0: "0 < saturate ?p g" using a by (simp add: saturate_def)
    have acc: "rule_acc v 0 a d h g = saturate ?x a" by (simp add: rule_acc_def)
    have w0: "0 \<le> w"
    proof -
      have "x \<le> saturate x a \<or> saturate x a = a" for x using a(1) by (simp add: saturate_def)
      then consider "?x \<le> saturate ?x a" | "saturate ?x a = a" by blast
      then show ?thesis
      proof cases
        case 1
        then have "?x * h \<le> saturate ?x a * h" using a(2) by (intro mult_right_mono) auto
        with wx s0 show ?thesis unfolding w acc by linarith
      next
        case 2
        then show ?thesis unfolding w acc using a(1,2,5) by simp
      qed
    qed
    have "?m \<le> v + w"
    proof (cases "?m \<le> v")
      case False
      have "v * h \<le> 1" using False m(4) a(2) mult_right_mono [of v "1 / h" h] by simp
      then have "a * 1 \<le> a * (2 * d - v * h)" using a by (intro mult_left_mono) linarith+
      then have "a + ?c\<^sup>2 \<le> ?D" by (simp add: pmSq_def power2_eq_square)
      then have "sqrt (a + ?c\<^sup>2) \<le> sqrt ?D" by (rule real_sqrt_le_mono)
      then have "?m \<le> ?p" using m(5) unfolding p by linarith
      then have s: "?m \<le> saturate ?p g" using m a by (auto simp: saturate_def)
      then have "0 < ?x" using False a(2) by simp
      moreover have "0 < x \<Longrightarrow> saturate x a = x \<or> saturate x a = a" for x using a(1) by (simp add: saturate_def)
      ultimately have "saturate ?x a = ?x \<or> saturate ?x a = a" by blast
      then have "w = saturate ?p g \<or> w = v + a * h" unfolding w acc using wx by auto
      with s m(3) a(5) show ?thesis by linarith
    qed (use w0 in linarith)
    with w0 show ?thesis by blast
  qed
qed

lemma ramp_none:
  assumes "tpGetRealFinalVel cfg st tp t n = 0"
  shows "tpCalculateRampAccel cfg st tp t n =
    (if tc_blending_next t = 0 then t\<lparr>tc_vel_at_blend_start := tc_currentvel t\<rparr> else t, None)"
proof -
  have "tpGetRealFinalVel cfg st tp (t\<lparr>tc_vel_at_blend_start := x\<rparr>) n = 0" for x
    using seg_frame_final_vel [of t "t\<lparr>tc_vel_at_blend_start := x\<rparr>" cfg st tp n] assms by simp
  then show ?thesis using assms by (simp add: tpCalculateRampAccel_def Let_def TP_VEL_EPSILON_def)
qed

text \<open>A cycle of a segment that is to end at rest.\<close>

lemma advance_at_rest:
  assumes r: "tpGetRealFinalVel cfg st tp t None = 0" and fwd: "tp_reverse_run tp = 0"
  obtains u where "seg_frame t u" "tc_progress u = tc_progress t" "tc_currentvel u = tc_currentvel t"
    "tc_cycle_time u = tc_cycle_time t" "tc_splitting u = tc_splitting t"
    "cycle_advance cfg st tp t None = snd (tpCheckEndCondition cfg st tp (tcUpdateDistFromAccel u
       (fst (tpCalculateTrapezoidalAccel cfg st tp u None)) (snd (tpCalculateTrapezoidalAccel cfg st tp u None)) 0) None)"
proof -
  let ?t1 = "if tc_blending_next t = 0 then t\<lparr>tc_vel_at_blend_start := tc_currentvel t\<rparr> else t"
  have r1: "tpGetRealFinalVel cfg st tp ?t1 None = 0"
    using seg_frame_final_vel [of t ?t1 cfg st tp None] r by simp
  let ?u = "if tc_accel_mode ?t1 \<noteq> 0 \<and> tc_term_cond ?t1 = TC_TERM_COND_TANGENT
    then fst (tpCalculateRampAccel cfg st tp ?t1 None) else ?t1"
  have e: "cycle_accel cfg st tp ?t1 None = (?u, tpCalculateTrapezoidalAccel cfg st tp ?u None)"
    using ramp_none [OF r1] by (simp add: cycle_accel_def Let_def split: if_split)
  obtain acc v where av: "tpCalculateTrapezoidalAccel cfg st tp ?u None = (acc, v)" by fastforce
  have f: "seg_frame t ?u" "tc_progress ?u = tc_progress t" "tc_currentvel ?u = tc_currentvel t"
    "tc_cycle_time ?u = tc_cycle_time t" "tc_splitting ?u = tc_splitting t"
    using ramp_none [OF r1] by auto
  have "cycle_advance cfg st tp t None = snd (tpCheckEndCondition cfg st tp (tcUpdateDistFromAccel ?u acc v 0) None)"
    unfolding cycle_advance_def Let_def e [unfolded av] prod.case fwd by (rule refl)
  with that [of ?u] f av show ?thesis by simp
qed

lemma end_condition_near:
  assumes "tp_reverse_run tp = 0" "tc_splitting (snd (tpCheckEndCondition cfg st tp t n)) = 0"
  shows "1 < tc_target t - tc_progress t"
    "tc_progress (snd (tpCheckEndCondition cfg st tp t n)) = tc_progress t"
  using assms
  by (auto simp: tpCheckEndCondition_def Let_def tcSetSplitCycle_def TP_POS_EPSILON_def split: if_splits option.splits prod.splits)

lemma dist_stop:
  assumes "tc_currentvel t + acc * tc_cycle_time t < 0"
  shows "tc_progress (tcUpdateDistFromAccel t acc v 0)
    = (if tc_target t - tc_progress t < tc_currentvel t * tc_cycle_time t then tc_target t else tc_progress t)"
  using assms by (simp add: tcUpdateDistFromAccel_def Let_def)

lemma dist_forward:
  assumes "seg_range t" "0 \<le> tc_cycle_time t"
  shows "tc_progress t \<le> tc_progress (tcUpdateDistFromAccel t acc v 0)"
proof (cases "tc_currentvel t + acc * tc_cycle_time t < 0")
  case True
  then show ?thesis unfolding dist_stop [OF True] using assms(1) by (simp add: seg_range_def)
next
  case False
  let ?x = "(tc_currentvel t + acc * tc_cycle_time t + tc_currentvel t) * (1 / 2) * tc_cycle_time t"
  have "0 \<le> ?x" using False assms by (simp add: seg_range_def)
  then have "max 0 (tc_target t - tc_progress t - ?x) \<le> tc_target t - tc_progress t"
    using assms(1) by (simp add: seg_range_def)
  then show ?thesis using dist_progress_forward [OF assms, of acc v] False by linarith
qed

lemma advance_progress:
  assumes t: "seg_range t" "0 < tcGetTangentialMaxAccel t" "TP_TIME_EPSILON \<le> tc_cycle_time t"
    and v: "0 < g" "g \<le> tpGetRealTargetVel cfg st tp (Some t)" "tpGetRealFinalVel cfg st tp t None = 0"
    and fwd: "tp_reverse_run tp = 0" and s: "tc_splitting (cycle_advance cfg st tp t None) = 0"
  shows "tc_target t - tc_progress (cycle_advance cfg st tp t None)
    \<le> tc_target t - tc_progress t - creep (tcGetTangentialMaxAccel t) (tc_cycle_time t) g * (1 / 2) * tc_cycle_time t"
    "1 < tc_target t - tc_progress (cycle_advance cfg st tp t None)"
proof -
  obtain u where f: "seg_frame t u" and e: "tc_progress u = tc_progress t" "tc_currentvel u = tc_currentvel t"
    "tc_cycle_time u = tc_cycle_time t" and c: "cycle_advance cfg st tp t None = snd (tpCheckEndCondition cfg st tp
       (tcUpdateDistFromAccel u (fst (tpCalculateTrapezoidalAccel cfg st tp u None))
         (snd (tpCalculateTrapezoidalAccel cfg st tp u None)) 0) None)"
    using advance_at_rest [OF v(3) fwd] by metis
  let ?acc = "fst (tpCalculateTrapezoidalAccel cfg st tp u None)" let ?h = "tc_cycle_time t"
  let ?vd = "snd (tpCalculateTrapezoidalAccel cfg st tp u None)"
  let ?u = "tcUpdateDistFromAccel u ?acc ?vd 0" let ?a = "tcGetTangentialMaxAccel t" let ?d = "tc_target t - tc_progress t"
  let ?w = "tc_currentvel t + ?acc * ?h" let ?m = "creep ?a ?h g"
  have T: "tc_target u = tc_target t" using f by (simp add: seg_frame_def)
  have U: "tc_target ?u = tc_target t" using dist_frame [of u ?acc ?vd 0] T by (simp add: seg_frame_def)
  have h: "0 < ?h" using t(3) by (simp add: TP_TIME_EPSILON_def)
  have ru: "seg_range u" using t(1) e T by (simp add: seg_range_def)
  have rest: "0 \<le> tc_target t - tc_progress ?u"
    using dist_range [OF ru, of ?acc ?vd 0] U by (simp add: seg_range_def)
  have acc: "?acc = rule_acc (tc_currentvel t) 0 ?a ?d ?h (tpGetRealTargetVel cfg st tp (Some t))"
    using trapezoid_rule [of u cfg st tp None] t(3) fwd e T seg_frame_accel [OF f] seg_frame_target_vel [OF f]
      seg_frame_final_vel [OF f] v(3) by simp
  note n = end_condition_near [OF fwd s [unfolded c]]
  have p: "tc_progress (cycle_advance cfg st tp t None) = tc_progress ?u" unfolding c by (rule n(2))
  show far: "1 < tc_target t - tc_progress (cycle_advance cfg st tp t None)" using n(1) U p by simp
  have d1: "1 < ?d"
  proof (rule ccontr)
    assume "\<not> 1 < ?d"
    moreover have "tc_progress t \<le> tc_progress ?u"
      using dist_forward [OF ru, of ?acc ?vd] h unfolding e by simp
    ultimately show False using far unfolding p by linarith
  qed
  from rule_progress [OF t(2) h v(1,2) _ d1 refl] t(1)
  have "0 \<le> ?w \<and> ?m \<le> tc_currentvel t + ?w \<or> ?w < 0 \<and> ?d < tc_currentvel t * ?h"
    unfolding acc by (simp add: seg_range_def)
  then show "tc_target t - tc_progress (cycle_advance cfg st tp t None) \<le> ?d - ?m * (1 / 2) * ?h"
  proof
    assume w: "0 \<le> ?w \<and> ?m \<le> tc_currentvel t + ?w"
    have "tc_target t - tc_progress ?u = max 0 (?d - (?w + tc_currentvel t) * (1 / 2) * ?h)"
      using dist_progress_forward [OF ru, of ?acc ?vd] w h e T by simp
    moreover have "?m * (1 / 2) * ?h \<le> (?w + tc_currentvel t) * (1 / 2) * ?h"
      using w h by (intro mult_right_mono) auto
    ultimately show ?thesis using far unfolding p by linarith
  next
    assume "?w < 0 \<and> ?d < tc_currentvel t * ?h"
    then have "tc_progress ?u = tc_target t" using dist_stop [of u ?acc ?vd] unfolding e T by simp
    with far show ?thesis unfolding p by simp
  qed
qed

section \<open>Cycles of a planner\<close>

text \<open>Each cycle finds the status as the rest of the program has left it.\<close>

fun tp_cycles :: "mot_config \<Rightarrow> mot_status list \<Rightarrow> tp \<times> rotary_pins \<Rightarrow> (tp \<times> rotary_pins) option" where
  "tp_cycles cfg [] e = Some e"
| "tp_cycles cfg (st # sts) (tp, pins) =
     (case tpRunCycle cfg (tp, st, pins) of None \<Rightarrow> None
      | Some (r, tp', st', pins') \<Rightarrow> tp_cycles cfg sts (tp', pins'))"

text \<open>What stays of a segment through a cycle that does not blend.\<close>

definition same_seg :: "tc_struct \<Rightarrow> tc_struct \<Rightarrow> bool" where
  "same_seg t t' \<longleftrightarrow> tc_coords t' = tc_coords t \<and> tc_target t' = tc_target t \<and> tc_reqvel t' = tc_reqvel t
     \<and> tc_target_vel t' = tc_target_vel t \<and> tc_maxvel t' = tc_maxvel t \<and> tc_finalvel t' = tc_finalvel t
     \<and> tc_kink_accel_reduce t' = tc_kink_accel_reduce t \<and> tc_kink_accel_reduce_prev t' = tc_kink_accel_reduce_prev t
     \<and> tc_maxaccel t' = tc_maxaccel t \<and> tc_acc_ratio_tan t' = tc_acc_ratio_tan t \<and> tc_id t' = tc_id t
     \<and> tc_term_cond t' = tc_term_cond t \<and> tc_blend_prev t' = tc_blend_prev t \<and> tc_synchronized t' = tc_synchronized t
     \<and> tc_is_blending t' = tc_is_blending t \<and> tc_indexer_jnum t' = tc_indexer_jnum t"

lemma same_seg_trans: "same_seg t u \<Longrightarrow> same_seg u v \<Longrightarrow> same_seg t v"
  by (simp add: same_seg_def)

lemma frame_same_seg: "seg_frame t t' \<Longrightarrow> same_seg t t'"
  by (simp add: seg_frame_def same_seg_def)

lemma same_seg_accel:
  assumes "same_seg t t'"
  shows "tcGetTangentialMaxAccel t' = tcGetTangentialMaxAccel t"
proof -
  have e: "tc_kink_accel_reduce t' = tc_kink_accel_reduce t" "tc_kink_accel_reduce_prev t' = tc_kink_accel_reduce_prev t"
    "tc_maxaccel t' = tc_maxaccel t" "tc_acc_ratio_tan t' = tc_acc_ratio_tan t"
    "tc_term_cond t' = tc_term_cond t" "tc_blend_prev t' = tc_blend_prev t" "tc_motion_type t' = tc_motion_type t"
    using assms by (simp_all add: same_seg_def tc_motion_type_def)
  show ?thesis unfolding tcGetTangentialMaxAccel_def tcGetOverallMaxAccel_def e by (rule refl)
qed

lemma same_seg_target_vel:
  assumes "same_seg t t'" "tp_same tp tp'" "ms_net_feed_scale st' = ms_net_feed_scale st"
  shows "tpGetRealTargetVel cfg st' tp' (Some t') = tpGetRealTargetVel cfg st tp (Some t)"
proof -
  have e: "tc_coords t' = tc_coords t" "tc_synchronized t' = tc_synchronized t" "tc_is_blending t' = tc_is_blending t"
    "tc_reqvel t' = tc_reqvel t" "tc_maxvel t' = tc_maxvel t" "tc_target_vel t' = tc_target_vel t"
    using assms(1) by (simp_all add: same_seg_def)
  have p: "tp_pausing tp' = tp_pausing tp" "tp_aborting tp' = tp_aborting tp" "tp_vLimit tp' = tp_vLimit tp"
    using assms(2) by (simp_all add: tp_same_def)
  show ?thesis
    by (simp only: tpGetRealTargetVel_def tpGetFeedScale_def tpGetMaxTargetVel_def tcGetMaxTargetVel_def
      tcPureRotaryCheck_def e p assms(3) option.case)
qed

text \<open>A cycle whose front may go on, in terms of the two segments.\<close>

lemma run_front:
  assumes "tp_qwf tp" "tp_segs tp = a # rest" "tp_reverse_run tp = 0" "tp_aborting tp = 0"
    and "tpActivateSegment cfg (tpUpdateInitialStatus tp st) tp a = (TP_ERR_OK, tp2, t2)"
  shows "tpRunCycle cfg (tp, st, pins)
    = (case cycle_move cfg (tpUpdateInitialStatus tp st) tp2 t2 (head_opt rest) of None \<Rightarrow> None
      | Some (r, tp3, t3, n3, st3) \<Rightarrow>
          (let tp4 = tp_store (tcqItem (tp_queue tp) 1) n3 (tp_store (tcqItem (tp_queue tp) 0) (Some t3) tp3) in
           if tc_remove t3 \<noteq> 0
           then map_option (\<lambda>(r, tp5, pins1). (TP_ERR_OK, tp5, st3, pins1))
                  (tpCompleteSegment tp4 (the (tcqItem (tp_queue tp) 0)) t3 pins)
           else Some (TP_ERR_OK, tp4, st3, pins)))"
proof -
  have "tpHandleAbort tp a (head_opt rest) = (TP_ERR_NO_ACTION, tp)" using assms(4) by (simp add: tpHandleAbort_def)
  then show ?thesis
    using pair_of_queue [OF assms(1,2)] assms(3,5)
    by (simp add: tpRunCycle_def Let_def TP_ERR_NO_ACTION_def TP_ERR_STOPPED_def cong: option.case_cong)
qed

lemma activate_same:
  assumes "tp_reverse_run tp = 0"
  obtains tp' t' where "tpActivateSegment cfg st tp t = (TP_ERR_OK, tp', t')" "tp_moved tp tp'"
    "tp_currentPos tp' = tp_currentPos tp" "same_seg t t'" "tc_progress t' = tc_progress t"
    "tc_currentvel t' = tc_currentvel t" "tc_splitting t' = tc_splitting t" "tc_remove t' = tc_remove t"
proof -
  obtain r tp' t' where "tpActivateSegment cfg st tp t = (r, tp', t')" by (metis prod_cases3)
  with that [of tp' t'] assms show ?thesis
    by (auto simp: tpActivateSegment_def Let_def tp_moved_def tp_same_def same_seg_def split: if_splits)
qed

lemma line_points:
  assumes "tc_coords t = Line9 l"
  shows "tc_point t p \<noteq> None"
  using assms by (simp add: tc_point_def Let_def)

lemma lone_regular:
  assumes t: "tc_coords t = Line9 l" "tc_synchronized t = 0" "tc_is_blending t = 0" "tc_splitting t = 0" "tc_remove t = 0"
  shows "\<exists>r tp' st'. cycle_move cfg st tp t None = Some (r, tp',
      (cycle_advance cfg st tp (t\<lparr>tc_cycle_time := tp_cycleTime tp\<rparr>) None)\<lparr>tc_blend_vel := 0\<rparr>, None, st')"
proof -
  let ?t = "t\<lparr>tc_cycle_time := tp_cycleTime tp\<rparr>" let ?a = "cycle_advance cfg st tp ?t None"
  have c: "tc_coords ?t = Line9 l" "tc_coords ?a = Line9 l"
    using t(1) cycle_advance_frame [of ?t cfg st tp None] by (simp_all add: seg_frame_def)
  then obtain x y where p: "tcGetPos ?t = Some x" "tcGetPos ?a = Some y"
    using line_points unfolding tcGetPos_def by blast
  obtain r tp1 where u: "tpUpdateCycle cfg st tp ?t None = Some (r, tp1, ?a)"
    using p by (cases "tpAddCurrentPos tp (snd (emcPoseSelfSub (Some y) (Some x)))") (simp add: tpUpdateCycle_def Let_def)
  have "\<exists>z. tcGetEndpoint (?a\<lparr>tc_blend_vel := 0\<rparr>) = Some z"
    using line_points [of "?a\<lparr>tc_blend_vel := 0\<rparr>" l] c unfolding tcGetEndpoint_def by simp
  then obtain r2 tp2 st2 where m: "tpUpdateMovementStatus tp1 (Some (?a\<lparr>tc_blend_vel := 0\<rparr>)) st = Some (r2, tp2, st2)"
    by (auto simp: tpUpdateMovementStatus_def)
  have s: "cycle_sync tp t None = (tp, t, None)"
    using t(1,2) by (simp add: cycle_sync_def Let_def tc_motion_type_def TC_SYNC_VELOCITY_def TC_SYNC_POSITION_def)
  have f: "the (snd (tcClearFlags (Some t))) = t" "snd (tcClearFlags None) = None"
    using t(3) by (simp_all add: tcClearFlags_def)
  have "cycle_move cfg st tp t None = tpHandleRegularCycle cfg st tp t None"
    unfolding cycle_move_def Let_def s prod.case f using t(4) by simp
  also have "\<dots> = Some (TP_ERR_OK, tp2, ?a\<lparr>tc_blend_vel := 0\<rparr>, None, st2)"
    using t(5) u m by (simp add: tpHandleRegularCycle_def tpComputeBlendVelocity_def)
  finally show ?thesis by blast
qed

lemma lone_split:
  assumes t: "tc_coords t = Line9 l" "tc_synchronized t = 0" "tc_is_blending t = 0" "tc_splitting t \<noteq> 0" "tc_remove t = 0"
    and fwd: "tp_reverse_run tp = 0"
  shows "\<exists>tp'. cycle_move cfg st tp t None = Some (TP_ERR_OK, tp', t\<lparr>tc_progress := tc_target t, tc_remove := 1\<rparr>, None, st)"
proof -
  have s: "cycle_sync tp t None = (tp, t, None)"
    using t(1,2) by (simp add: cycle_sync_def Let_def tc_motion_type_def TC_SYNC_VELOCITY_def TC_SYNC_POSITION_def)
  have f: "the (snd (tcClearFlags (Some t))) = t" "snd (tcClearFlags None) = None"
    using t(3) by (simp_all add: tcClearFlags_def)
  obtain x y where p: "tcGetPos t = Some x" "tcGetPos (t\<lparr>tc_progress := tc_target t\<rparr>) = Some y"
  proof -
    have "tcGetPos t \<noteq> None" "tcGetPos (t\<lparr>tc_progress := tc_target t\<rparr>) \<noteq> None"
      unfolding tcGetPos_def using t(1) by (auto intro!: line_points simp del: not_None_eq)
    then show ?thesis using that by blast
  qed
  have "cycle_move cfg st tp t None = tpHandleSplitCycle cfg st tp t None"
    unfolding cycle_move_def Let_def s prod.case f using t(4) by simp
  also have "\<exists>tp'. tpHandleSplitCycle cfg st tp t None = Some (TP_ERR_OK, tp', t\<lparr>tc_progress := tc_target t, tc_remove := 1\<rparr>, None, st)"
    using t(5) p fwd by (simp add: tpHandleSplitCycle_def Let_def)
  finally show ?thesis by simp
qed

section \<open>One line in the queue\<close>

text \<open>
  A line without a spindle to follow and nothing to blend with, and the same line once it is to be removed but held
  by its number.
\<close>

definition lone_line :: "tp \<Rightarrow> tc_struct \<Rightarrow> bool" where
  "lone_line tp t \<longleftrightarrow> plan_ok tp \<and> tp_segs tp = [t] \<and> tp_aborting tp = 0 \<and> tp_done tp = 0
     \<and> (\<exists>l. tc_coords t = Line9 l) \<and> tc_synchronized t = 0 \<and> tc_is_blending t = 0"

definition lone :: "tp \<Rightarrow> tc_struct \<Rightarrow> bool" where
  "lone tp t \<longleftrightarrow> lone_line tp t \<and> tc_remove t = 0 \<and> (tp_waiting_for_atspeed tp = tc_id t \<or> tc_indexer_jnum t = -1)"

definition held :: "tp \<Rightarrow> tc_struct \<Rightarrow> bool" where
  "held tp t \<longleftrightarrow> lone_line tp t \<and> tc_remove t \<noteq> 0 \<and> tp_waiting_for_atspeed tp = tc_id t"

text \<open>The line with number \<open>i\<close> has come to its end.\<close>

definition line_over :: "int \<Rightarrow> tp \<Rightarrow> bool" where
  "line_over i tp \<longleftrightarrow> (if tp_waiting_for_atspeed tp = i then \<exists>t. tc_id t = i \<and> held tp t else tp_segs tp = [])"

lemma lone_lineD:
  assumes "lone_line tp t"
  shows "plan_ok tp" "tp_segs tp = [t]" "tp_aborting tp = 0" "tp_qwf tp" "tp_reverse_run tp = 0" "seg_ok t"
proof -
  show p: "plan_ok tp" "tp_segs tp = [t]" "tp_aborting tp = 0" using assms by (simp_all add: lone_line_def)
  then show "tp_qwf tp" "tp_reverse_run tp = 0" "seg_ok t" by (simp_all add: plan_ok_def pair_ok_def)
qed

lemma lone_line_same:
  "lone_line tp t \<Longrightarrow> plan_ok tp' \<Longrightarrow> tp_same tp tp' \<Longrightarrow> tp_segs tp' = [t'] \<Longrightarrow> same_seg t t' \<Longrightarrow> lone_line tp' t'"
  by (simp add: lone_line_def tp_same_def same_seg_def)

lemma complete_free:
  assumes "tp_waiting_for_atspeed tp \<noteq> tc_id t" "tc_indexer_jnum t = -1"
  shows "\<exists>tp'. tpCompleteSegment tp i t pins = Some (TP_ERR_OK, tp', pins)"
  using assms by (simp add: tpCompleteSegment_def relock_def Let_def)

lemma complete_held:
  "tp_waiting_for_atspeed tp = tc_id t \<Longrightarrow>
     tpCompleteSegment tp i t pins = Some (TP_ERR_FAIL, tp_store (Some i) (Some t) tp, pins)"
  by (simp add: tpCompleteSegment_def)

lemma lone_finish:
  assumes l: "lone_line tp t" "tp_waiting_for_atspeed tp = tc_id t \<or> tc_indexer_jnum t = -1"
    and a: "tpActivateSegment cfg (tpUpdateInitialStatus tp st) tp t = (TP_ERR_OK, tp2, t2)"
    and m: "cycle_move cfg (tpUpdateInitialStatus tp st) tp2 t2 None = Some (r, tp3, t3, None, st3)" "same_seg t t3"
  shows "\<exists>tp'. tpRunCycle cfg (tp, st, pins) = Some (TP_ERR_OK, tp', st3, pins) \<and> plan_ok tp' \<and> tp_same tp tp'
    \<and> tp_segs tp' = (if tc_remove t3 = 0 \<or> tp_waiting_for_atspeed tp = tc_id t then [t3] else [])"
proof -
  let ?i = "tcqItem (tp_queue tp) 0" let ?j = "tcqItem (tp_queue tp) 1"
  let ?tp4 = "tp_store ?j None (tp_store ?i (Some t3) tp3)"
  note w0 = lone_lineD [OF l(1)]
  have w: "plan_ok tp" "tp_qwf tp" "tp_segs tp = [t]" "tp_reverse_run tp = 0" "tp_aborting tp = 0" "seg_ok t"
    by (simp_all add: w0)
  have run: "tpRunCycle cfg (tp, st, pins) = (if tc_remove t3 \<noteq> 0
      then map_option (\<lambda>(r, tp5, pins1). (TP_ERR_OK, tp5, st3, pins1)) (tpCompleteSegment ?tp4 (the ?i) t3 pins)
      else Some (TP_ERR_OK, ?tp4, st3, pins))"
    using run_front [OF w(2,3,4,5) a] m(1) by (simp add: head_opt_def Let_def)
  note p = activate_path [OF a w(4)]
  have b: "tc_blending_next t = 0" using w(6) by (simp add: seg_ok_def)
  note p = p [OF b]
  have rev2: "tp_reverse_run tp2 = 0" using p(2) w(4) by (simp add: tp_movedD)
  have "ep_a \<in> set coords" by (simp add: coords_def)
  have pr: "pair_ok t2 None" "tc_motion_type t2 \<noteq> TC_RIGIDTAP"
    using path_eq_ok [OF p(4) w(6)] by (simp_all add: pair_ok_def seg_ok_def)
  from move_cycle [OF m(1) pr(1) rev2 pr(2) \<open>ep_a \<in> set coords\<close>] have mv: "tp_moved tp2 tp3" by blast
  have q3: "tp_qwf tp3" "tp_segs tp3 = [t]" "tp_queue tp3 = tp_queue tp" "tp_same tp tp3"
    using tp_moved_trans [OF p(2) mv] w(2,3) by (simp_all add: tp_moved_def tp_qwf_def tp_segs_def)
  have s: "tp_qwf ?tp4 \<and> tp_segs ?tp4 = [t3] \<and> tp_same tp3 ?tp4 \<and> tcqItem (tp_queue ?tp4) 0 = ?i"
    using store_pair [OF q3(1,2) _ _ _, of None ?i ?j t3 0] q3(3) by simp
  have same: "tp_same tp ?tp4" using s q3(4) by (simp add: tp_same_def)
  show ?thesis
  proof (cases "tc_remove t3 = 0")
    case True
    with run have r: "tpRunCycle cfg (tp, st, pins) = Some (TP_ERR_OK, ?tp4, st3, pins)" by simp
    from run_cycle_ok [OF w(1) this] have "plan_ok ?tp4" .
    with r s same True show ?thesis by (intro exI [of _ ?tp4]) simp
  next
    case False
    have id: "tc_id t3 = tc_id t" "tc_indexer_jnum t3 = tc_indexer_jnum t"
      "tp_waiting_for_atspeed ?tp4 = tp_waiting_for_atspeed tp"
      using same m(2) by (simp_all add: tp_same_def same_seg_def)
    obtain k where k: "?i = Some k" using sq.slot_in [of "tp_queue tp" 0] w(2,3) by (auto simp: tp_qwf_def tp_segs_def)
    have rev4: "tp_reverse_run ?tp4 = 0" using same w(4) by (simp add: tp_same_def)
    obtain q tp' where c: "tpCompleteSegment ?tp4 (the ?i) t3 pins = Some (q, tp', pins)"
      and q: "q = TP_ERR_OK \<longleftrightarrow> tp_waiting_for_atspeed tp \<noteq> tc_id t"
    proof (cases "tp_waiting_for_atspeed tp = tc_id t")
      case True
      with complete_held [of ?tp4 t3 "the ?i" pins] id that show ?thesis by (auto simp: TP_ERR_FAIL_def TP_ERR_OK_def)
    next
      case neq: False
      with l(2) id complete_free [of ?tp4 t3 "the ?i" pins] that show ?thesis by auto
    qed
    from run False c have r: "tpRunCycle cfg (tp, st, pins) = Some (TP_ERR_OK, tp', st3, pins)" by simp
    from complete_segment [of ?tp4 t3 "[]" k pins q tp' pins] s k c rev4
    have "tp_segs tp' = (if q = TP_ERR_OK then [] else [t3])" "tp_same ?tp4 tp'" by simp_all
    then have "tp_segs tp' = (if q = TP_ERR_OK then [] else [t3])" "tp_same tp tp'" using same by (simp_all add: tp_same_def)
    with run_cycle_ok [OF w(1) r] r False q show ?thesis by (intro exI [of _ tp']) simp
  qed
qed

text \<open>A line that is held stays where it is.\<close>

lemma held_cycle:
  assumes h: "held tp t"
  shows "\<exists>tp' st' t'. tpRunCycle cfg (tp, st, pins) = Some (TP_ERR_OK, tp', st', pins) \<and> tp_same tp tp'
    \<and> held tp' t' \<and> tc_id t' = tc_id t"
proof -
  let ?st = "tpUpdateInitialStatus tp st"
  have l: "lone_line tp t" and rm: "tc_remove t \<noteq> 0" and i: "tp_waiting_for_atspeed tp = tc_id t"
    using h by (simp_all add: held_def)
  obtain tp2 t2 where a: "tpActivateSegment cfg ?st tp t = (TP_ERR_OK, tp2, t2)" "tp_moved tp tp2" "same_seg t t2"
    "tc_progress t2 = tc_progress t" "tc_currentvel t2 = tc_currentvel t" "tc_splitting t2 = tc_splitting t"
    "tc_remove t2 = tc_remove t"
    using activate_same [OF lone_lineD(5) [OF l]] by metis
  from l obtain x where "tc_coords t = Line9 x" by (auto simp: lone_line_def)
  then have t2: "tc_coords t2 = Line9 x" "tc_synchronized t2 = 0" "tc_is_blending t2 = 0" "tc_remove t2 \<noteq> 0"
    using a(3,7) l rm by (simp_all add: same_seg_def lone_line_def)
  have s: "cycle_sync tp2 t2 None = (tp2, t2, None)"
    using t2(1,2) by (simp add: cycle_sync_def Let_def tc_motion_type_def TC_SYNC_VELOCITY_def TC_SYNC_POSITION_def)
  have f: "the (snd (tcClearFlags (Some t2))) = t2" "snd (tcClearFlags None) = None"
    using t2(3) by (simp_all add: tcClearFlags_def)
  have m: "cycle_move cfg ?st tp2 t2 None = Some (TP_ERR_NO_ACTION, tp2, t2, None, ?st)"
    unfolding cycle_move_def Let_def s prod.case f
    using t2(4) by (simp add: tpHandleSplitCycle_def tpHandleRegularCycle_def)
  from lone_finish [OF l disjI1 [OF i] a(1) m a(3), of pins] i obtain tp' where
    c: "tpRunCycle cfg (tp, st, pins) = Some (TP_ERR_OK, tp', ?st, pins)" "plan_ok tp'" "tp_same tp tp'" "tp_segs tp' = [t2]"
    by auto
  have "held tp' t2"
    using lone_line_same [OF l c(2,3,4) a(3)] t2(4) i c(3) a(3) by (simp add: held_def tp_same_def same_seg_def)
  with c a(3) show ?thesis by (auto simp: same_seg_def)
qed

lemma same_target:
  assumes "same_seg t u" "tp_moved tp tp'"
  shows "tpGetRealTargetVel cfg (tpUpdateInitialStatus x st) tp' (Some u) = tpGetRealTargetVel cfg st tp (Some t)"
  using same_seg_target_vel [OF assms(1), of tp tp' "tpUpdateInitialStatus x st" st] assms(2)
  by (simp add: tp_moved_def tpUpdateInitialStatus_def)

lemma rest_final:
  assumes "tc_finalvel t = 0" "0 \<le> tpGetRealTargetVel cfg st tp (Some t)"
  shows "tpGetRealFinalVel cfg st tp t None = 0"
  using assms by (simp add: tpGetRealFinalVel_def)

lemma held_cycles:
  assumes "held tp t"
  shows "\<exists>tp' t'. tp_cycles cfg sts (tp, pins) = Some (tp', pins) \<and> tp_same tp tp' \<and> held tp' t' \<and> tc_id t' = tc_id t"
  using assms
proof (induction sts arbitrary: tp t)
  case Nil
  then show ?case by (auto simp: tp_same_def)
next
  case (Cons st sts)
  from held_cycle [OF Cons.prems, of cfg st pins] obtain tp1 st1 t1 where
    c: "tpRunCycle cfg (tp, st, pins) = Some (TP_ERR_OK, tp1, st1, pins)" "tp_same tp tp1" "held tp1 t1" "tc_id t1 = tc_id t"
    by blast
  from Cons.IH [OF c(3)] obtain tp2 t2 where
    d: "tp_cycles cfg sts (tp1, pins) = Some (tp2, pins)" "tp_same tp1 tp2" "held tp2 t2" "tc_id t2 = tc_id t1" by blast
  have "tp_same tp tp2" using c(2) d(2) by (simp add: tp_same_def)
  with c d show ?case by (intro exI [of _ tp2] exI [of _ t2]) simp
qed

lemma held_at_goal:
  assumes "held tp t"
  shows "tp_currentPos tp = tp_goalPos tp" "tp_done tp = 0"
proof -
  have p: "plan_ok tp" "tp_segs tp = [t]" "tc_remove t \<noteq> 0" "tp_done tp = 0"
    using assms by (simp_all add: held_def lone_line_def)
  have "left c t = 0" for c using removed_left p by (simp add: plan_ok_def pair_ok_def)
  with p show "tp_currentPos tp = tp_goalPos tp" by (intro coords_eqI [THEN sym]) (simp add: plan_ok_def total_def)
  show "tp_done tp = 0" by (rule p(4))
qed

text \<open>One cycle: the line is over, or its end is noticed, or it comes nearer.\<close>

lemma lone_cycle:
  assumes l: "lone tp t" and t: "seg_range t" "0 < tcGetTangentialMaxAccel t" "tc_finalvel t = 0"
    and h: "TP_TIME_EPSILON \<le> tp_cycleTime tp" and g: "0 < g" "g \<le> tpGetRealTargetVel cfg st tp (Some t)"
  shows "\<exists>tp' st'. tpRunCycle cfg (tp, st, pins) = Some (TP_ERR_OK, tp', st', pins) \<and> plan_ok tp' \<and> tp_same tp tp'
    \<and> (line_over (tc_id t) tp' \<or> (\<exists>t'. lone tp' t' \<and> same_seg t t' \<and> seg_range t' \<and> tc_splitting t = 0
        \<and> (tc_splitting t' \<noteq> 0 \<or> tc_target t' - tc_progress t' \<le> tc_target t - tc_progress t
            - creep (tcGetTangentialMaxAccel t) (tp_cycleTime tp) g * (1 / 2) * tp_cycleTime tp)))"
proof -
  let ?st = "tpUpdateInitialStatus tp st"
  have ll: "lone_line tp t" and wi: "tp_waiting_for_atspeed tp = tc_id t \<or> tc_indexer_jnum t = -1"
    using l by (simp_all add: lone_def)
  note w = lone_lineD [OF ll]
  have over: "line_over (tc_id t) tp'" if "plan_ok tp'" "tp_same tp tp'" "same_seg t t'" "tc_remove t' \<noteq> 0"
    "tp_segs tp' = (if tc_remove t' = 0 \<or> tp_waiting_for_atspeed tp = tc_id t then [t'] else [])" for tp' t'
  proof (cases "tp_waiting_for_atspeed tp = tc_id t")
    case True
    have "held tp' t'"
      using lone_line_same [OF ll that(1,2) _ that(3)] that True by (simp add: held_def tp_same_def same_seg_def)
    with True that(2,3) show ?thesis by (auto simp: line_over_def tp_same_def same_seg_def)
  next
    case False
    with that show ?thesis by (simp add: line_over_def tp_same_def)
  qed
  obtain tp2 t2 where a: "tpActivateSegment cfg ?st tp t = (TP_ERR_OK, tp2, t2)" "tp_moved tp tp2" "same_seg t t2"
    "tc_progress t2 = tc_progress t" "tc_currentvel t2 = tc_currentvel t" "tc_splitting t2 = tc_splitting t"
    "tc_remove t2 = tc_remove t"
    using activate_same [OF w(5)] by metis
  have h2: "tp_cycleTime tp2 = tp_cycleTime tp" "tp_reverse_run tp2 = 0"
    using a(2) w(5) by (simp_all add: tp_moved_def tp_same_def)
  from ll obtain x where "tc_coords t = Line9 x" by (auto simp: lone_line_def)
  then have t2: "tc_coords t2 = Line9 x" "tc_synchronized t2 = 0" "tc_is_blending t2 = 0" "tc_remove t2 = 0"
    using a(3,7) l ll by (simp_all add: same_seg_def lone_def lone_line_def)
  show ?thesis
  proof (cases "tc_splitting t = 0")
    case False
    with a(6) have "tc_splitting t2 \<noteq> 0" by simp
    from lone_split [OF t2(1-3) this t2(4) h2(2), of cfg ?st] obtain tp3 where
      m: "cycle_move cfg ?st tp2 t2 None = Some (TP_ERR_OK, tp3, t2\<lparr>tc_progress := tc_target t2, tc_remove := 1\<rparr>, None, ?st)"
      by blast
    have s: "same_seg t (t2\<lparr>tc_progress := tc_target t2, tc_remove := 1\<rparr>)" using a(3) by (simp add: same_seg_def)
    from lone_finish [OF ll wi a(1) m s, of pins] obtain tp' where
      c: "tpRunCycle cfg (tp, st, pins) = Some (TP_ERR_OK, tp', ?st, pins)" "plan_ok tp'" "tp_same tp tp'"
      "tp_segs tp' = (if tc_remove (t2\<lparr>tc_progress := tc_target t2, tc_remove := 1\<rparr>) = 0 \<or> tp_waiting_for_atspeed tp = tc_id t
         then [t2\<lparr>tc_progress := tc_target t2, tc_remove := 1\<rparr>] else [])" by blast
    from over [OF c(2,3) s _ c(4)] c(1-3) show ?thesis by auto
  next
    case True
    let ?t = "t2\<lparr>tc_cycle_time := tp_cycleTime tp2\<rparr>" let ?a = "cycle_advance cfg ?st tp2 ?t None"
    let ?b = "?a\<lparr>tc_blend_vel := 0\<rparr>"
    from True a(6) have s2: "tc_splitting t2 = 0" by simp
    obtain r tp3 st3 where m: "cycle_move cfg ?st tp2 t2 None = Some (r, tp3, ?b, None, st3)"
      using lone_regular [OF t2(1-3) s2 t2(4), of cfg ?st tp2] by blast
    have tt: "same_seg t ?t" using a(3) by (simp add: same_seg_def)
    have sb: "same_seg t ?b"
      using same_seg_trans [OF tt frame_same_seg [OF cycle_advance_frame [of ?t cfg ?st tp2 None]]]
      by (simp add: same_seg_def)
    have T: "tc_target ?t = tc_target t" "tc_target ?b = tc_target t" "tc_target ?a = tc_target t"
      using tt sb by (simp_all add: same_seg_def)
    have rt: "seg_range ?t" using t(1) a(4,5) T by (simp add: seg_range_def)
    have A: "tcGetTangentialMaxAccel ?t = tcGetTangentialMaxAccel t" by (rule same_seg_accel [OF tt])
    have v: "tpGetRealTargetVel cfg ?st tp2 (Some ?t) = tpGetRealTargetVel cfg st tp (Some t)"
      by (rule same_target [OF tt a(2)])
    have fin: "tpGetRealFinalVel cfg ?st tp2 ?t None = 0"
      by (rule rest_final) (use tt t(3) v g in \<open>simp_all add: same_seg_def\<close>)
    have ra: "seg_range ?b"
    proof -
      have "0 \<le> tp_cycleTime tp" using h by (simp add: TP_TIME_EPSILON_def)
      then have "seg_range ?a"
        using segment_stays_in_range [OF rt, of cfg ?st tp2 None] A t(2) h2(1) by simp
      then show ?thesis by (simp add: seg_range_def)
    qed
    have near: "tc_target ?b - tc_progress ?b \<le> tc_target t - tc_progress t
        - creep (tcGetTangentialMaxAccel t) (tp_cycleTime tp) g * (1 / 2) * tp_cycleTime tp" if "tc_splitting ?b = 0"
    proof -
      have "tc_splitting ?a = 0" using that by simp
      from advance_progress(1) [OF rt _ _ g(1) _ fin h2(2) this] A t(2) h h2(1) g(2) v T a(4) show ?thesis by simp
    qed
    from lone_finish [OF ll wi a(1) m sb, of pins] obtain tp' where
      c: "tpRunCycle cfg (tp, st, pins) = Some (TP_ERR_OK, tp', st3, pins)" "plan_ok tp'" "tp_same tp tp'"
      "tp_segs tp' = (if tc_remove ?b = 0 \<or> tp_waiting_for_atspeed tp = tc_id t then [?b] else [])" by blast
    show ?thesis
    proof (cases "tc_remove ?b = 0")
      case False
      from over [OF c(2,3) sb False c(4)] c(1-3) show ?thesis by blast
    next
      case True
      have "lone tp' ?b"
        using lone_line_same [OF ll c(2,3) _ sb] c True wi sb by (simp add: lone_def same_seg_def tp_same_def)
      with c sb ra near \<open>tc_splitting t = 0\<close> show ?thesis by blast
    qed
  qed
qed

text \<open>Cycles of an empty planner.\<close>

lemma empty_cycle:
  assumes "plan_ok tp" "tp_segs tp = []"
  shows "\<exists>tp' st'. tpRunCycle cfg (tp, st, pins) = Some (TP_ERR_WAITING, tp', st', pins) \<and> plan_ok tp'
    \<and> tp_segs tp' = [] \<and> tp_currentPos tp' = tp_currentPos tp \<and> tp_done tp' = 1
    \<and> tp_waiting_for_atspeed tp' = tp_waiting_for_atspeed tp"
proof -
  let ?st = "tpUpdateInitialStatus tp st"
  have w: "tp_qwf tp" "tcq_wf (tp_queue tp)" "tp_reverse_run tp = 0" using assms by (simp_all add: plan_ok_def tp_qwf_def)
  have n: "tp_fetch tp (tcqItem (tp_queue tp) 0) = Some None" "tp_fetch tp (tcqItem (tp_queue tp) 1) = Some None"
    using tp_fetch_out(2) [OF w(1)] assms(2) by simp_all
  obtain tp' st' where e: "tpHandleEmptyQueue tp ?st = Some (tp', st')"
    "tp_currentPos tp' = tp_currentPos tp" "tp_done tp' = 1" "tp_queue tp' = snd (tcqInit (tp_queue tp))"
    "tp_waiting_for_atspeed tp' = tp_waiting_for_atspeed tp"
    by (simp add: tpHandleEmptyQueue_def tpUpdateMovementStatus_def tpResume_def)
  have "tp_segs tp' = []" using tcqInit_wf [OF w(2)] by (auto simp: tp_segs_def e(4))
  moreover have "tpRunCycle cfg (tp, st, pins) = Some (TP_ERR_WAITING, tp', st', pins)"
    using n w(3) e(1) by (simp add: tpRunCycle_def Let_def)
  ultimately show ?thesis using stop_queue(2) [OF assms(1) e(1)] e by blast
qed

lemma empty_at_goal: "plan_ok tp \<Longrightarrow> tp_segs tp = [] \<Longrightarrow> tp_currentPos tp = tp_goalPos tp"
  by (rule coords_eqI, rule sym) (simp add: plan_ok_def total_def)

lemma empty_cycles:
  assumes "plan_ok tp" "tp_segs tp = []"
  shows "\<exists>tp'. tp_cycles cfg sts (tp, pins) = Some (tp', pins) \<and> tp_segs tp' = []
    \<and> tp_currentPos tp' = tp_goalPos tp \<and> tp_goalPos tp' = tp_goalPos tp \<and> (sts \<noteq> [] \<longrightarrow> tp_done tp' = 1)
    \<and> tp_waiting_for_atspeed tp' = tp_waiting_for_atspeed tp"
  using assms
proof (induction sts arbitrary: tp)
  case Nil
  then show ?case using empty_at_goal by simp
next
  case (Cons st sts)
  obtain tp1 st1 where c: "tpRunCycle cfg (tp, st, pins) = Some (TP_ERR_WAITING, tp1, st1, pins)" "plan_ok tp1"
    "tp_segs tp1 = []" "tp_currentPos tp1 = tp_currentPos tp" "tp_done tp1 = 1"
    "tp_waiting_for_atspeed tp1 = tp_waiting_for_atspeed tp"
    using empty_cycle [OF Cons.prems] by blast
  have g: "tp_goalPos tp1 = tp_goalPos tp"
    using empty_at_goal [OF Cons.prems] empty_at_goal [OF c(2,3)] c(4) by simp
  from Cons.IH [OF c(2,3)] obtain tp2 where t: "tp_cycles cfg sts (tp1, pins) = Some (tp2, pins)" "tp_segs tp2 = []"
    "tp_currentPos tp2 = tp_goalPos tp" "tp_goalPos tp2 = tp_goalPos tp" "sts \<noteq> [] \<longrightarrow> tp_done tp2 = 1"
    "tp_waiting_for_atspeed tp2 = tp_waiting_for_atspeed tp"
    unfolding g c(6) by (elim exE conjE) rule
  have "tp_done tp2 = 1" using t(1,5) c(5) by (cases sts) auto
  with t c(1) show ?case by (intro exI [of _ tp2]) simp
qed

lemma line_over_cycles:
  assumes "plan_ok tp" "line_over i tp" "sts \<noteq> []"
  shows "\<exists>tp'. tp_cycles cfg sts (tp, pins) = Some (tp', pins) \<and> line_over i tp'
    \<and> tp_waiting_for_atspeed tp' = tp_waiting_for_atspeed tp
    \<and> tp_currentPos tp' = tp_goalPos tp \<and> tp_goalPos tp' = tp_goalPos tp
    \<and> tp_done tp' = (if tp_waiting_for_atspeed tp = i then 0 else 1)"
proof (cases "tp_waiting_for_atspeed tp = i")
  case True
  with assms(2) have "\<exists>t. tc_id t = i \<and> held tp t" by (simp add: line_over_def)
  then obtain t where t: "tc_id t = i" "held tp t" by blast
  from held_cycles [OF t(2), of cfg sts pins] obtain tp' t' where
    c: "tp_cycles cfg sts (tp, pins) = Some (tp', pins)" "tp_same tp tp'" "held tp' t'" "tc_id t' = tc_id t" by blast
  have e: "tp_goalPos tp' = tp_goalPos tp" "tp_waiting_for_atspeed tp' = tp_waiting_for_atspeed tp"
    using c(2) by (simp_all add: tp_same_def)
  have "tc_id t' = i" using c(4) t(1) by simp
  then have "line_over i tp'" using c(3) e True unfolding line_over_def by auto
  with held_at_goal [OF c(3)] c(1) e True show ?thesis by (intro exI [of _ tp']) simp
next
  case False
  with assms(2) have "tp_segs tp = []" by (simp add: line_over_def)
  from empty_cycles [OF assms(1) this, of cfg sts pins] obtain tp' where
    "tp_cycles cfg sts (tp, pins) = Some (tp', pins)" "tp_segs tp' = []" "tp_currentPos tp' = tp_goalPos tp"
    "tp_goalPos tp' = tp_goalPos tp" "sts \<noteq> [] \<longrightarrow> tp_done tp' = 1"
    "tp_waiting_for_atspeed tp' = tp_waiting_for_atspeed tp" by blast
  with assms(3) False show ?thesis by (intro exI [of _ tp']) (simp add: line_over_def)
qed

lemma lone_cycles:
  assumes "lone tp t" "seg_range t" "0 < tcGetTangentialMaxAccel t" "tc_finalvel t = 0" "TP_TIME_EPSILON \<le> tp_cycleTime tp"
    and "0 < g" "\<forall>st \<in> set sts. g \<le> tpGetRealTargetVel cfg st tp (Some t)"
    and "tc_target t - tc_progress t \<le> real k
      * (creep (tcGetTangentialMaxAccel t) (tp_cycleTime tp) g * (1 / 2) * tp_cycleTime tp)"
    and "(if tc_splitting t = 0 then k + 2 else 1) < length sts"
  shows "\<exists>tp'. tp_cycles cfg sts (tp, pins) = Some (tp', pins) \<and> line_over (tc_id t) tp'
    \<and> tp_waiting_for_atspeed tp' = tp_waiting_for_atspeed tp
    \<and> tp_currentPos tp' = tp_goalPos tp \<and> tp_goalPos tp' = tp_goalPos tp
    \<and> tp_done tp' = (if tp_waiting_for_atspeed tp = tc_id t then 0 else 1)"
  using assms
proof (induction sts arbitrary: tp t k)
  case (Cons st sts)
  let ?m = "creep (tcGetTangentialMaxAccel t) (tp_cycleTime tp) g * (1 / 2) * tp_cycleTime tp"
  have g: "g \<le> tpGetRealTargetVel cfg st tp (Some t)" using Cons.prems(7) by simp
  from lone_cycle [OF Cons.prems(1-6) g, of pins] obtain tp1 st1 where
    c: "tpRunCycle cfg (tp, st, pins) = Some (TP_ERR_OK, tp1, st1, pins)" "plan_ok tp1" "tp_same tp tp1"
    "line_over (tc_id t) tp1 \<or> (\<exists>t'. lone tp1 t' \<and> same_seg t t' \<and> seg_range t' \<and> tc_splitting t = 0
        \<and> (tc_splitting t' \<noteq> 0 \<or> tc_target t' - tc_progress t' \<le> tc_target t - tc_progress t - ?m))" by blast
  have goal: "tp_goalPos tp1 = tp_goalPos tp" "tp_cycleTime tp1 = tp_cycleTime tp"
    "tp_waiting_for_atspeed tp1 = tp_waiting_for_atspeed tp" using c(3) by (simp_all add: tp_same_def)
  have step: "tp_cycles cfg (st # sts) (tp, pins) = tp_cycles cfg sts (tp1, pins)" using c(1) by simp
  show ?case
  proof (cases "line_over (tc_id t) tp1")
    case True
    from Cons.prems(9) have "sts \<noteq> []" by (auto split: if_splits)
    with line_over_cycles [OF c(2) True, of sts cfg pins] goal step show ?thesis by auto
  next
    case False
    with c(4) obtain t' where t': "lone tp1 t'" "same_seg t t'" "seg_range t'" "tc_splitting t = 0"
      "tc_splitting t' \<noteq> 0 \<or> tc_target t' - tc_progress t' \<le> tc_target t - tc_progress t - ?m" by blast
    have e: "tcGetTangentialMaxAccel t' = tcGetTangentialMaxAccel t" "tc_finalvel t' = 0" "tc_target t' = tc_target t"
      "tc_id t' = tc_id t" using same_seg_accel [OF t'(2)] t'(2) Cons.prems(4) by (simp_all add: same_seg_def)
    have v: "\<forall>st \<in> set sts. g \<le> tpGetRealTargetVel cfg st tp1 (Some t')"
      using Cons.prems(7) same_seg_target_vel [OF t'(2) c(3) refl] by simp
    have m: "0 < ?m"
      using creep_pos [OF Cons.prems(3) _ Cons.prems(6), of "tp_cycleTime tp"] Cons.prems(5)
      by (simp add: TP_TIME_EPSILON_def)
    have "\<exists>j. tc_target t' - tc_progress t' \<le> real j * ?m \<and> (if tc_splitting t' = 0 then j + 2 else 1) < length sts"
    proof (cases "tc_splitting t' = 0")
      case True
      with t'(5) have d: "tc_target t' - tc_progress t' \<le> tc_target t - tc_progress t - ?m" by simp
      have "0 \<le> tc_target t' - tc_progress t'" using t'(3) by (simp add: seg_range_def)
      with d m Cons.prems(8) have "k \<noteq> 0" by (intro notI) simp
      then obtain j where j: "k = Suc j" by (cases k) auto
      with d Cons.prems(8) have "tc_target t' - tc_progress t' \<le> real j * ?m" by (simp add: distrib_right)
      moreover have "j + 2 < length sts" using Cons.prems(9) t'(4) j by simp
      ultimately show ?thesis using True by auto
    next
      case False
      obtain j where "(tc_target t' - tc_progress t') / ?m \<le> real j" using real_arch_simple by blast
      then have "tc_target t' - tc_progress t' \<le> real j * ?m" using m by (simp add: pos_divide_le_eq)
      with False Cons.prems(9) t'(4) show ?thesis by auto
    qed
    then obtain j where j: "tc_target t' - tc_progress t' \<le> real j * ?m"
      "(if tc_splitting t' = 0 then j + 2 else 1) < length sts" by blast
    from Cons.IH [OF t'(1,3) _ e(2) _ Cons.prems(6) v _ j(2)] j(1) e Cons.prems(3,5) goal step
    show ?thesis by simp
  qed
qed simp

section \<open>From the command to the end of the line\<close>

lemma queued_line_lone:
  "tc_currentvel (queued_line a tp) = 0" "tc_splitting (queued_line a tp) = 0" "tc_finalvel (queued_line a tp) = 0"
  "tc_is_blending (queued_line a tp) = 0" "tc_synchronized (queued_line a tp) = tp_synchronized tp"
  "tc_indexer_jnum (queued_line a tp) = la_turn a" "tc_maxaccel (queued_line a tp) = la_acc a"
  "tc_kink_accel_reduce (queued_line a tp) = 0" "tc_kink_accel_reduce_prev (queued_line a tp) = 0"
  "tc_blend_prev (queued_line a tp) = 0" "tc_reqvel (queued_line a tp) = la_vel a"
  by (simp_all add: queued_line_def tcClampVelocityByLength_def new_line_def Let_def tcSetupMotion_def
    tcInitKinkProperties_def tcSetupState_def tcSetTermCond_def tcInit_def tc_zero_def)

lemma queued_line_accel:
  "tp_termCond tp \<noteq> TC_TERM_COND_PARABOLIC \<Longrightarrow> tcGetTangentialMaxAccel (queued_line a tp) = la_acc a"
  by (simp add: tcGetTangentialMaxAccel_def tcGetOverallMaxAccel_def Let_def queued_line_lone queued_line_fields
    tc_motion_type_def)

lemma id_irrelevant:
  "tcGetTangentialMaxAccel (t\<lparr>tc_id := i\<rparr>) = tcGetTangentialMaxAccel t"
  "tpGetRealTargetVel cfg st tp (Some (t\<lparr>tc_id := i\<rparr>)) = tpGetRealTargetVel cfg st tp (Some t)"
proof -
  let ?t = "t\<lparr>tc_id := i\<rparr>"
  have a: "tc_kink_accel_reduce ?t = tc_kink_accel_reduce t" "tc_kink_accel_reduce_prev ?t = tc_kink_accel_reduce_prev t"
    "tc_maxaccel ?t = tc_maxaccel t" "tc_acc_ratio_tan ?t = tc_acc_ratio_tan t" "tc_term_cond ?t = tc_term_cond t"
    "tc_blend_prev ?t = tc_blend_prev t" "tc_motion_type ?t = tc_motion_type t"
    by (simp_all add: tc_motion_type_def)
  show "tcGetTangentialMaxAccel ?t = tcGetTangentialMaxAccel t"
    unfolding tcGetTangentialMaxAccel_def tcGetOverallMaxAccel_def a by (rule refl)
  have v: "tc_coords ?t = tc_coords t" "tc_synchronized ?t = tc_synchronized t" "tc_is_blending ?t = tc_is_blending t"
    "tc_reqvel ?t = tc_reqvel t" "tc_maxvel ?t = tc_maxvel t" "tc_target_vel ?t = tc_target_vel t" by simp_all
  show "tpGetRealTargetVel cfg st tp (Some ?t) = tpGetRealTargetVel cfg st tp (Some t)"
    by (simp only: tpGetRealTargetVel_def tpGetFeedScale_def tpGetMaxTargetVel_def tcGetMaxTargetVel_def
      tcPureRotaryCheck_def v option.case)
qed


lemma line_first_length:
  "tc_target (new_line ((line_ex 3 4)\<lparr>la_turn := 0\<rparr>) (tp_ex\<lparr>tp_nextId := 0\<rparr>)) = 5"
proof -
  have "tc_target (new_line ((line_ex 3 4)\<lparr>la_turn := 0\<rparr>) (tp_ex\<lparr>tp_nextId := 0\<rparr>)) = tc_target (new_line (line_ex 3 4) tp_ex)"
    by (simp add: new_line_def Let_def)
  then show ?thesis by (simp add: line_ex_length)
qed


end
