(* ===== verification/PlanRun.thy ===== *)
theory PlanRun
  imports TpArrive ControlModes
begin

text \<open>
  The planner of \<open>tp/tp.c\<close> inside the machine of command handler, controller and pins: the parameters of the
  handler and the controller are its own functions. What ends a pause, and when a move is refused.
\<close>

section \<open>The program's planner as the parameter\<close>

text \<open>
  A call outside the domain of the model (a pointer outside the queue's array) is taken to fail, or to change nothing.
  The acceleration limits of the axes and the pins of the rotary axes are not part of the machine's state and may be
  others in every step.
\<close>

definition line_env :: "pm_cart \<Rightarrow> line_args \<Rightarrow> tc_struct planner_env \<Rightarrow> int \<times> tc_struct planner_env" where
  "line_env acc_bound a e =
     (case e of (tp, st, cf) \<Rightarrow>
       (case tpAddLine acc_bound cf a tp of None \<Rightarrow> (TP_ERR_FAIL, e) | Some (r, tp') \<Rightarrow> (r, tp', st, cf)))"

definition circle_env :: "pm_cart \<Rightarrow> circle_args \<Rightarrow> tc_struct planner_env \<Rightarrow> int \<times> tc_struct planner_env" where
  "circle_env acc_bound a e =
     (case e of (tp, st, cf) \<Rightarrow>
       (case tpAddCircle acc_bound cf a tp of None \<Rightarrow> (TP_ERR_FAIL, e) | Some (r, tp') \<Rightarrow> (r, tp', st, cf)))"

definition cycle_env :: "rotary_pins \<Rightarrow> int \<Rightarrow> tc_struct planner_env \<Rightarrow> tc_struct planner_env" where
  "cycle_env pins period e =
     (case e of (tp, st, cf) \<Rightarrow>
       (case tpRunCycle cf (tp, st, pins) of None \<Rightarrow> e | Some (r, tp', st', pins') \<Rightarrow> (tp', st', cf)))"

inductive program_step :: "tc_struct mot_state \<Rightarrow> tc_struct mot_state \<Rightarrow> bool" where
  "machine_step (line_env acc_bound) (circle_env acc_bound) (cycle_env pins) g g' \<Longrightarrow> program_step g g'"

section \<open>A pause and the planner's functions\<close>

text \<open>The functions leave the pause alone, and \<open>waiting_for_atspeed\<close> as well.\<close>

abbreviation flags :: "'tc tp_struct \<Rightarrow> int \<times> int" where
  "flags tp \<equiv> (tp_pausing tp, tp_waiting_for_atspeed tp)"

subsection \<open>Appending\<close>

lemma store_pausing [simp]:
  "tp_pausing (tp_store p t tp) = tp_pausing tp" "tp_waiting_for_atspeed (tp_store p t tp) = tp_waiting_for_atspeed tp"
  by (simp_all add: tp_store_def split: option.split prod.split)

lemma add_to_queue_pausing: "tpAddSegmentToQueue tp t inc = Some (r, tp', t') \<Longrightarrow> flags tp' = flags tp"
  by (auto simp: tpAddSegmentToQueue_def Let_def split: option.splits if_splits prod.splits)

lemma opt_loop_pausing: "opt_loop k x h b len cfg tp = Some tp' \<Longrightarrow> flags tp' = flags tp"
proof (induction k arbitrary: x h b tp)
  case (Suc k)
  show ?case using Suc.prems
    by (auto simp: Let_def split: option.splits if_splits prod.splits dest!: Suc.IH)
qed simp

lemma line_line_pausing:
  "tpCreateLineLineBlend cfg acc tp p t b = Some (r, tp', p', t', b') \<Longrightarrow> flags tp' = flags tp"
  by (auto simp: tpCreateLineLineBlend_def Let_def split: prod.splits option.splits if_splits)

lemma line_arc_pausing:
  "tpCreateLineArcBlend cfg acc tp p t b = Some (r, tp', p', t', b') \<Longrightarrow> flags tp' = flags tp"
  by (auto simp: tpCreateLineArcBlend_def Let_def split: prod.splits option.splits if_splits)

lemma arc_line_pausing:
  "tpCreateArcLineBlend cfg acc tp p t b = Some (r, tp', p', t', b') \<Longrightarrow> flags tp' = flags tp"
  by (auto simp: tpCreateArcLineBlend_def Let_def split: prod.splits option.splits if_splits)

lemma arc_arc_pausing:
  "tpCreateArcArcBlend cfg acc tp p t b = Some (r, tp', p', t', b') \<Longrightarrow> flags tp' = flags tp"
  by (auto simp: tpCreateArcArcBlend_def Let_def split: prod.splits option.splits if_splits)

lemma blend_pausing:
  "tpCreateBlendIfPossible cfg acc tp p t b = Some (r, tp', p', t', b') \<Longrightarrow> flags tp' = flags tp"
  by (auto simp: tpCreateBlendIfPossible_def split: blend_type.splits
    dest: line_line_pausing line_arc_pausing arc_line_pausing arc_arc_pausing)

lemma blend_arc_pausing: "tpHandleBlendArc cfg acc tp t = Some (r, tp', t') \<Longrightarrow> flags tp' = flags tp"
  by (auto simp: tpHandleBlendArc_def Let_def split: option.splits prod.splits if_splits
    dest!: blend_pausing add_to_queue_pausing)

lemma append_pausing:
  assumes "append_segment cfg acc k tp t = Some (r, tp')"
  shows "flags tp' = flags tp"
  using assms
  by (auto simp: append_segment_def tpRunOptimization_def Let_def split: option.splits prod.splits if_splits
    dest!: blend_arc_pausing add_to_queue_pausing opt_loop_pausing)

lemma add_pausing:
  "tpAddLine acc cfg a tp = Some (r, tp') \<Longrightarrow> flags tp' = flags tp"
  "tpAddCircle acc cfg c tp = Some (r, tp') \<Longrightarrow> flags tp' = flags tp"
  by (auto simp: tpAddLine_def tpAddCircle_def Let_def split: if_splits prod.splits dest: append_pausing)

lemma builders_keep_pause: "keeps_pause (line_env acc)" "keeps_pause (circle_env acc)"
  by (auto simp: keeps_pause_def line_env_def circle_env_def split: option.split dest: add_pausing)

subsection \<open>Cycles\<close>

text \<open>The pause of a planner holds until its queue is empty: it is paused, or nothing is at the front of its queue.\<close>

definition pause_holds :: "'tc tp_struct \<Rightarrow> bool" where
  "pause_holds tp \<longleftrightarrow> tp_pausing tp \<noteq> 0 \<or> tcqItem (tp_queue tp) 0 = None"

lemma emptied_front: "tcqItem (snd (tcqInit q)) 0 = None"
  by (simp add: tcqInit_def tcqItem_def tcqCheck_def)

lemma add_pos_pausing [simp]: "tp_pausing (snd (tpAddCurrentPos tp d)) = tp_pausing tp"
  "tp_waiting_for_atspeed (snd (tpAddCurrentPos tp d)) = tp_waiting_for_atspeed tp"
  by (simp_all add: tpAddCurrentPos_def)

lemma add_pos_pausing': "tpAddCurrentPos tp d = (r, tp') \<Longrightarrow> flags tp' = flags tp"
  using add_pos_pausing [of tp d] by auto

lemma update_cycle_pausing: "tpUpdateCycle cfg st tp t n = Some (r, tp', t') \<Longrightarrow> flags tp' = flags tp"
  by (auto simp: tpUpdateCycle_def Let_def split: option.splits prod.splits dest!: add_pos_pausing')

lemma movement_pausing: "tpUpdateMovementStatus tp t st = Some (r, tp', st') \<Longrightarrow> flags tp' = flags tp"
  by (auto simp: tpUpdateMovementStatus_def split: option.splits)

lemma parabolic_pausing: "tpDoParabolicBlending cfg st tp t n = Some (tp', n', st') \<Longrightarrow> flags tp' = flags tp"
  by (auto simp: tpDoParabolicBlending_def tpUpdateBlend_def Let_def split: option.splits prod.splits if_splits
    dest!: update_cycle_pausing movement_pausing)

lemma split_pausing:
  assumes "tpHandleSplitCycle cfg st tp t n = Some (r, tp', t', n', st')"
  shows "flags tp' = flags tp"
  using assms by (auto simp: tpHandleSplitCycle_def Let_def split: option.splits prod.splits if_splits
    dest!: update_cycle_pausing movement_pausing)

lemma regular_pausing:
  assumes "tpHandleRegularCycle cfg st tp t n = Some (r, tp', t', n', st')"
  shows "flags tp' = flags tp"
  using assms by (auto simp: tpHandleRegularCycle_def Let_def split: option.splits prod.splits if_splits
    dest!: update_cycle_pausing movement_pausing parabolic_pausing)

lemma sync_pausing: "cycle_sync tp t n = (tp', t', n') \<Longrightarrow> flags tp' = flags tp"
  by (auto simp: cycle_sync_def tpSyncPositionMode_def Let_def split: if_splits prod.splits)

lemma move_pausing: "cycle_move cfg st tp t n = Some (r, tp', t', n', st') \<Longrightarrow> flags tp' = flags tp"
  by (auto simp: cycle_move_def Let_def split: prod.splits if_splits dest!: sync_pausing dest: split_pausing regular_pausing)

lemma complete_pausing: "tpCompleteSegment tp i t pins = Some (r, tp', pins') \<Longrightarrow> flags tp' = flags tp"
  by (auto simp: tpCompleteSegment_def Let_def split: if_splits option.splits prod.splits)

lemma activate_pausing: "tpActivateSegment cfg st tp t = (r, tp', t') \<Longrightarrow> flags tp' = flags tp"
  by (auto simp: tpActivateSegment_def Let_def split: if_splits)

lemma abort_pausing:
  "tpHandleAbort tp t n = (a, tp') \<Longrightarrow>
     flags tp' = flags tp \<and> a \<noteq> TP_ERR_STOPPED
     \<or> a = TP_ERR_STOPPED \<and> tp_waiting_for_atspeed tp' = tp_waiting_for_atspeed tp \<and> tcqItem (tp_queue tp') 0 = None"
  using emptied_front
  by (auto simp: tpHandleAbort_def tpResume_def TP_ERR_NO_ACTION_def TP_ERR_STOPPED_def TP_ERR_SLOWING_def split: if_splits)

lemma empty_queue_front:
  "tpHandleEmptyQueue tp st = Some (tp', st') \<Longrightarrow>
     tcqItem (tp_queue tp') 0 = None \<and> tp_waiting_for_atspeed tp' = tp_waiting_for_atspeed tp"
  using emptied_front
  by (auto simp: tpHandleEmptyQueue_def tpUpdateMovementStatus_def tpResume_def)

lemma run_cycle_pause:
  assumes run: "tpRunCycle cfg (tp, st, pins) = Some (r, tp', st', pins')"
  shows "tp_waiting_for_atspeed tp' = tp_waiting_for_atspeed tp \<and> (pause_holds tp \<longrightarrow> pause_holds tp')"
proof (cases "tp_fetch tp (tcqItem (tp_queue tp) 0)")
  case None
  with run show ?thesis by (simp add: tpRunCycle_def Let_def)
next
  case (Some front)
  show ?thesis
  proof (cases front)
    case None
    with Some run have "\<exists>st. tpHandleEmptyQueue tp (tpUpdateInitialStatus tp st) = Some (tp', st')"
      by (auto simp: tpRunCycle_def Let_def split: option.splits)
    then show ?thesis using empty_queue_front by (fastforce simp: pause_holds_def)
  next
    case t: (Some t)
    have "tcqItem (tp_queue tp) 0 \<noteq> None" using Some t by (auto simp: tp_fetch_def split: option.splits)
    then have p: "pause_holds tp \<Longrightarrow> tp_pausing tp \<noteq> 0" by (auto simp: pause_holds_def)
    obtain n where n: "tp_fetch tp (tcqItem (tp_queue tp) (if tp_reverse_run tp \<noteq> 0 then -1 else 1)) = Some n"
      using run Some t by (auto simp: tpRunCycle_def Let_def split: option.splits)
    obtain a tp1 where a: "tpHandleAbort tp t n = (a, tp1)" by fastforce
    show ?thesis
    proof (cases "a = TP_ERR_STOPPED")
      case True
      with run Some t n a have "tp' = tp1" by (simp add: tpRunCycle_def Let_def)
      with abort_pausing [OF a] True show ?thesis by (auto simp: pause_holds_def)
    next
      case False
      with run Some t n a have "flags tp' = flags tp1"
        by (auto simp: tpRunCycle_def Let_def split: prod.splits if_splits option.splits
          dest!: activate_pausing move_pausing complete_pausing)
      with abort_pausing [OF a] False p show ?thesis by (auto simp: pause_holds_def)
    qed
  qed
qed

section \<open>An invariant of the planner in the controller\<close>

declare max_axis_upt [simp del]

text \<open>The state after the cycle time of a controller cycle was set.\<close>

definition after_cycle_time :: "int \<Rightarrow> 'tc mot_state \<Rightarrow> 'tc mot_state \<Rightarrow> bool" where
  "after_cycle_time period g g1 \<longleftrightarrow>
     (\<exists>s. g1 = g\<lparr>g_servo_period := s\<rparr>
        \<or> (\<exists>h. emcmotSetCycleTime period (g\<lparr>g_servo_period := s\<rparr>) = Some h \<and> g1 = h\<lparr>g_last_period := period\<rparr>))"

lemma controller_steps:
  assumes "emcmotController runCycle period g = Some g'"
  obtains g1 g3 g4 g5 where "after_cycle_time period g g1"
    "check_for_faults (process_inputs (handle_interpolation (upd_status (\<lambda>st. st\<lparr>ms_head := ms_head st + 1\<rparr>) g1))) = Some g3"
    "get_pos_cmds runCycle period (set_operating_mode g3) = Some g4"
    "update_status (output_to_hal g4) = Some g5" "g' = finish_cycle g5"
proof -
  define sp where "sp = d2i (of_int period * 0.000000001)"
  define g0 where "g0 = g\<lparr>g_servo_period := (if sp < 1 then 1 else sp)\<rparr>"
  define r1 where "r1 = (if period \<noteq> g_last_period g0
    then map_option (\<lambda>g. g\<lparr>g_last_period := period\<rparr>) (emcmotSetCycleTime period g0) else Some g0)"
  have "(case r1 of None \<Rightarrow> None | Some g1 \<Rightarrow> map_option finish_cycle
      (Option.bind (check_for_faults (process_inputs (handle_interpolation
         (upd_status (\<lambda>st. st\<lparr>ms_head := ms_head st + 1\<rparr>) g1))))
       (\<lambda>g3. Option.bind (get_pos_cmds runCycle period (set_operating_mode g3))
        (\<lambda>g4. update_status (output_to_hal g4))))) = Some g'"
    unfolding assms [symmetric] emcmotController_def Let_def sp_def [symmetric] g0_def [symmetric]
      r1_def [symmetric] finish_cycle_def [abs_def] ..
  moreover from this obtain g1 where g1: "r1 = Some g1" by (cases r1) simp_all
  moreover have "after_cycle_time period g g1"
    using g1 by (auto simp: r1_def g0_def after_cycle_time_def split: if_splits)
  ultimately show ?thesis using that by (auto simp: Option.bind_eq_Some_conv map_option_eq_Some)
qed

text \<open>
  What every call the controller makes keeps of its planner is kept by a whole cycle of the controller.
\<close>

abbreviation planner :: "'tc mot_state \<Rightarrow> 'tc tp_struct" where
  "planner g \<equiv> mi_coord_tp (g_internal g)"

locale planner_invariant =
  fixes Q :: "'tc tp_struct \<Rightarrow> bool" and runCycle :: "int \<Rightarrow> 'tc planner_env \<Rightarrow> 'tc planner_env"
  assumes run: "Q tp \<Longrightarrow> Q (fst (runCycle period (tp, st, cf)))"
    and set_pos: "Q tp \<Longrightarrow> Q (snd (tpSetPos tp p))"
    and cycle_time: "Q tp \<Longrightarrow> Q (snd (tpSetCycleTime tp s))"
    and clear: "Q tp \<Longrightarrow> Q (fst (tpClear tp st))"
    and pause: "Q tp \<Longrightarrow> Q (tpPause tp)"
begin

lemma set_cycle_time:
  assumes "Q (planner g)" "emcmotSetCycleTime period g = Some g'"
  shows "Q (planner g')"
proof -
  have c: "planner (upd_cubics f h) = planner h" for f and h :: "'tc mot_state"
    by (simp add: upd_cubics_def fold_keeps [where P = g_internal])
  have m: "planner (emcmot_config_change h) = planner h" for h :: "'tc mot_state"
    by (simp add: emcmot_config_change_def Let_def)
  have t: "Q (planner (snd (setTrajCycleTime s h)))" if "Q (planner h)" for s and h :: "'tc mot_state"
    using that cycle_time by (simp add: setTrajCycleTime_def Let_def c m)
  have s: "planner (snd (setServoCycleTime s h)) = planner h" for s and h :: "'tc mot_state"
    by (simp add: setServoCycleTime_def Let_def c m)
  from assms show ?thesis by (auto simp: emcmotSetCycleTime_def Let_def s t split: if_splits)
qed

lemma modes:
  assumes "Q (planner g)"
  shows "Q (planner (set_operating_mode g))"
proof -
  have k: "planner (fold (\<lambda>n. upd_axis n (f n)) ns h) = planner h" for f ns and h :: "'tc mot_state"
    by (simp add: fold_keeps [where P = g_internal])
  have d: "Q (planner (mode_disable h))" if "Q (planner h)" for h :: "'tc mot_state"
    using that clear [of "planner h" "g_status h"] by (cases "tpClear (planner h) (g_status h)") (simp add: mode_disable_def k)
  have e: "Q (planner (mode_enable h))" if "Q (planner h)" for h :: "'tc mot_state"
    using that set_pos by (simp add: mode_enable_def Let_def k)
  have c: "Q (planner (mode_coord h))" if "Q (planner h)" for h :: "'tc mot_state"
    using that set_pos by (simp add: mode_coord_def Let_def k)
  have f: "Q (planner (mode_free h))" if "Q (planner h)" for h :: "'tc mot_state"
    using that by (simp add: mode_free_def Let_def k)
  show ?thesis using assms by (simp add: set_operating_mode_def d e c f)
qed

lemma position_commands:
  assumes "Q (planner g)" "get_pos_cmds runCycle period g = Some g'"
  shows "Q (planner g')"
proof -
  have k: "planner (fold (\<lambda>n. upd_axis n (f n)) ns h) = planner h" for f ns and h :: "'tc mot_state"
    by (simp add: fold_keeps [where P = g_internal])
  obtain h where h: "check_soft_limits h = Some g'"
    "h = pos_cmds_free g \<or> pos_cmds_coord runCycle period g = Some h \<or> h = pos_cmds_disabled g"
    using assms(2) by (auto simp: get_pos_cmds_def Option.bind_eq_Some_conv split: motion_state.splits)
  have "Q (planner h)" using h(2)
  proof (elim disjE)
    assume "h = pos_cmds_free g"
    moreover have "planner (fold free_step ns s) = planner s" for ns and s :: "'tc mot_state"
      by (rule fold_keeps [where P = planner]) (simp add: free_step_def Let_def)
    ultimately show ?thesis using assms(1) by (simp add: pos_cmds_free_def Let_def)
  next
    assume "pos_cmds_coord runCycle period g = Some h"
    then obtain g1 g2 g3 where l: "coord_loop runCycle period g1 = Some g2" "planner g1 = planner g"
      and f: "fold (\<lambda>n r. Option.bind r (coord_axis n)) all_axis_nums (Some g2) = Some g3" and e: "planner h = planner g3"
      by (auto simp: pos_cmds_coord_def Let_def split: option.splits)
    have point: "Q (planner (coord_point runCycle period s))" if "Q (planner s)" for s
      using run [OF that, of period "g_status s" "g_config s"]
      by (auto simp: coord_point_def Let_def planner_env_def put_env_def k split: prod.split)
    have "Q (planner g2)"
      by (rule coord_loop_invariant(2) [OF l(1), where I = "\<lambda>h. Q (planner h)"]) (use assms(1) l(2) point in simp_all)
    moreover have "\<exists>s. r = Some s \<and> planner x = planner s"
      if "fold (\<lambda>n r. Option.bind r (coord_axis n)) ns r = Some x" for ns r and x :: "'tc mot_state"
      using that
    proof (induction ns arbitrary: r)
      case (Cons n ns)
      then have "fold (\<lambda>n r. Option.bind r (coord_axis n)) ns (Option.bind r (coord_axis n)) = Some x" by simp
      from Cons.IH [OF this] show ?case
        by (auto simp: Option.bind_eq_Some_conv coord_axis_def split: if_splits prod.splits option.splits)
    qed simp
    ultimately show ?thesis using f e by fastforce
  next
    assume "h = pos_cmds_disabled g"
    then show ?thesis using assms(1) by (simp add: pos_cmds_disabled_def k)
  qed
  then show ?thesis using check_soft_limits_frame(4) [OF h(1)] by simp
qed

lemma controller:
  assumes "Q (planner g)" "emcmotController runCycle period g = Some g'"
  shows "Q (planner g')"
proof -
  from assms(2) obtain g1 g3 g4 g5 where g1: "after_cycle_time period g g1"
    and g3: "check_for_faults (process_inputs (handle_interpolation (upd_status (\<lambda>st. st\<lparr>ms_head := ms_head st + 1\<rparr>) g1))) = Some g3"
    and g4: "get_pos_cmds runCycle period (set_operating_mode g3) = Some g4"
    and g5: "update_status (output_to_hal g4) = Some g5" and e: "g' = finish_cycle g5"
    by (rule controller_steps)
  have "Q (planner g1)"
  proof -
    from g1 consider s where "g1 = g\<lparr>g_servo_period := s\<rparr>"
      | s h where "emcmotSetCycleTime period (g\<lparr>g_servo_period := s\<rparr>) = Some h" "g1 = h\<lparr>g_last_period := period\<rparr>"
      by (auto simp: after_cycle_time_def)
    then show ?thesis
    proof cases
      case 2
      with set_cycle_time [OF _ 2(1)] assms(1) show ?thesis by simp
    qed (use assms(1) in simp)
  qed
  then have "Q (planner (handle_interpolation (upd_status (\<lambda>st. st\<lparr>ms_head := ms_head st + 1\<rparr>) g1)))"
    using set_pos by (simp add: handle_interpolation_def Let_def)
  moreover have "planner (process_inputs s) = planner s" for s :: "'tc mot_state"
  proof -
    have "planner (fold (\<lambda>n s. upd_axis n (input_axis (mh_axis (g_hal s) ! n)) s) ns s) = planner s" for ns
      by (rule fold_keeps [where P = planner]) simp
    then show ?thesis by (simp add: process_inputs_def Let_def)
  qed
  moreover have "planner (fold check_axis_faults ns s) = planner s" for ns and s :: "'tc mot_state"
    by (rule fold_keeps [where P = planner]) (simp add: check_axis_faults_def set_enabling_def Let_def)
  ultimately have "Q (planner g3)"
    using g3 by (auto simp: check_for_faults_def set_enabling_def Let_def split: if_splits)
  from position_commands [OF modes [OF this] g4] have "Q (planner g4)" .
  then show ?thesis using g5 e pause by (auto simp: update_status_def finish_cycle_def Let_def split: if_splits)
qed

end

section \<open>A pause in the machine\<close>

interpretation lasting: planner_invariant pause_holds "cycle_env pins" for pins
proof
  fix tp :: tp and period st cf
  assume h: "pause_holds tp"
  show "pause_holds (fst (cycle_env pins period (tp, st, cf)))"
    using run_cycle_pause [of cf tp st pins] h by (auto simp: cycle_env_def split: option.split)
  show "pause_holds (fst (tpClear tp st))" by (simp add: pause_holds_def tpClear_def emptied_front)
qed (simp_all add: pause_holds_def tpSetPos_def tpSetCurrentPos_def tpSetCycleTime_def tpPause_def TP_ERR_OK_def)

abbreviation queued :: "'tc mot_state \<Rightarrow> bool" where
  "queued g \<equiv> tcqItem (tp_queue (planner g)) 0 \<noteq> None"

lemma program_step_pause:
  assumes "program_step g g'" "pausing g \<noteq> 0" "queued g'"
  shows "pausing g' \<noteq> 0"
  using assms(1)
proof (cases rule: program_step.cases)
  case (1 acc pins)
  then show ?thesis
  proof (cases rule: machine_step.cases)
    case (command c)
    show ?thesis by (rule handler_pausing [OF builders_keep_pause _ command]) (use assms(2) in simp)
  next
    case (control period)
    have "pause_holds (planner g)" using assms(2) by (simp add: pause_holds_def)
    from lasting.controller [OF this control] show ?thesis using assms(3) by (auto simp: pause_holds_def)
  next
    case (pins f)
    with assms(2) show ?thesis by simp
  qed
qed

lemma resume_does_nothing:
  assumes "mc_command c = EMCMOT_RESUME" "mc_commandNum c \<noteq> ms_commandNumEcho (g_status g)" "\<not> g_command_mutex g"
  shows "\<exists>h. emcmotCommandHandler addLine addCircle (upd_command (\<lambda>_. c) g) = Some h \<and> planner h = planner g
    \<and> ms_commandStatus (g_status h) = EMCMOT_COMMAND_OK"
  using assms by (simp add: emcmotCommandHandler_def emcmotCommandHandler_locked_def run_command_def accept_command_def
    sync_tails_def)

text \<open>A step of the machine at whose end there is a segment at the front of the planner's queue.\<close>

definition busy_step :: "tc_struct mot_state \<Rightarrow> tc_struct mot_state \<Rightarrow> bool" where
  "busy_step g g' \<longleftrightarrow> program_step g g' \<and> queued g'"

text \<open>
  C15: a pause ends only with the queue. While there is a segment in the queue, a paused planner stays paused
  over any commands, controller cycles and pin changes. In particular no resume command ends the pause: the handler
  answers that it was carried out and leaves the planner as it was. What ends it is a cycle that finds the queue
  empty or throws it away after an abort, and the clearing of the planner when motion is disabled.
\<close>

theorem pause_kept:
  assumes "busy_step\<^sup>*\<^sup>* g g'" "pausing g \<noteq> 0"
  shows "pausing g' \<noteq> 0
    \<and> (\<forall>c acc. mc_command c = EMCMOT_RESUME \<and> mc_commandNum c \<noteq> ms_commandNumEcho (g_status g') \<and> \<not> g_command_mutex g'
        \<longrightarrow> (\<exists>h. emcmotCommandHandler (line_env acc) (circle_env acc) (upd_command (\<lambda>_. c) g') = Some h
              \<and> planner h = planner g' \<and> ms_commandStatus (g_status h) = EMCMOT_COMMAND_OK))"
proof -
  have "pausing g' \<noteq> 0"
    using assms(1)
  proof (induction rule: rtranclp_induct)
    case base
    show ?case by (rule assms(2))
  next
    case (step h k)
    then show ?case using program_step_pause by (auto simp: busy_step_def)
  qed
  then show ?thesis using resume_does_nothing by blast
qed

text \<open>A machine in coordinated mode with the planner \<open>tp\<close>.\<close>

definition planning_state :: "tp \<Rightarrow> mot_command \<Rightarrow> tc_struct mot_state" where
  "planning_state tp c = mot_zero\<lparr>g_command := c, g_config := config_zero\<lparr>mg_numAxes := 3\<rparr>,
     g_status := status_zero\<lparr>ms_motionFlag := or EMCMOT_MOTION_ENABLE_BIT EMCMOT_MOTION_COORD_BIT,
       ms_motion_state := EMCMOT_MOTION_COORD\<rparr>,
     g_internal := (g_internal mot_zero)\<lparr>mi_coord_tp := tp\<rparr>\<rparr>"

theorem pause_kept_witness:
  "\<exists>tp1 g1 g2. tpAddLine (ep_tran (pose_xy 100 100)) cfg_ex (line_ex 3 4) tp_ex = Some (TP_ERR_OK, tp1)
    \<and> program_step (planning_state tp1 command_zero) g1 \<and> pausing g1 \<noteq> 0 \<and> program_step g1 g2
    \<and> g_command g2 = code_command EMCMOT_RESUME 2 \<and> ms_commandStatus (g_status g2) = EMCMOT_COMMAND_OK \<and> pausing g2 \<noteq> 0"
proof -
  let ?acc = "ep_tran (pose_xy 100 100)"
  let ?h = "\<lambda>c. emcmotCommandHandler (line_env ?acc) (circle_env ?acc) \<circ> upd_command (\<lambda>_. c)"
  obtain tp1 where add: "tpAddLine ?acc cfg_ex (line_ex 3 4) tp_ex = Some (TP_ERR_OK, tp1)"
    and q: "tcq_list (tp_queue tp1) \<noteq> []" "tcq_wf (tp_queue tp1)"
    using line_ex_added [of ?acc] by fastforce
  have f: "tcqItem (tp_queue tp1) 0 \<noteq> None"
    using sq.slot_in [of "tp_queue tp1" 0] q by auto
  let ?g = "planning_state tp1 command_zero"
  obtain g1 where h1: "?h (code_command EMCMOT_PAUSE 1) ?g = Some g1" "planner g1 = tpPause tp1"
    "ms_commandNumEcho (g_status g1) = 1" "\<not> g_command_mutex g1"
    by (simp add: emcmotCommandHandler_def emcmotCommandHandler_locked_def run_command_def planning_state_def
      accept_command_def cmd_pause_def sync_tails_def code_command_def mot_zero_def status_zero_def upd_defs)
  obtain g2 where h2: "?h (code_command EMCMOT_RESUME 2) g1 = Some g2" "planner g2 = planner g1"
    "ms_commandStatus (g_status g2) = EMCMOT_COMMAND_OK" "g_command g2 = code_command EMCMOT_RESUME 2"
    using h1(3,4) by (simp add: emcmotCommandHandler_def emcmotCommandHandler_locked_def run_command_def
      accept_command_def sync_tails_def code_command_def)
  have s: "program_step ?g g1" "program_step g1 g2"
    by (rule program_step.intros [where pins = "[]"], rule machine_step.command,
      use h1(1) h2(1) in \<open>simp add: comp_def\<close>)+
  have p: "pausing g1 \<noteq> 0" using h1(2) by simp
  have "busy_step g1 g2" using s(2) h2(2) h1(2) f by (simp add: busy_step_def tpPause_def)
  from pause_kept [OF r_into_rtranclp [where r = busy_step, OF this] p] add s p h2 show ?thesis by blast
qed

section \<open>A field nothing sets\<close>

text \<open>
  No step of the machine writes \<open>waiting_for_atspeed\<close>, the number of the line that is not to be removed from the queue.
\<close>

interpretation unset: planner_invariant "\<lambda>tp. tp_waiting_for_atspeed tp = w" "cycle_env pins" for w pins
proof
  fix tp :: tp and period st cf
  show "tp_waiting_for_atspeed (fst (cycle_env pins period (tp, st, cf))) = w" if "tp_waiting_for_atspeed tp = w"
    using run_cycle_pause [of cf tp st pins] that by (auto simp: cycle_env_def split: option.split)
qed (simp_all add: tpSetPos_def tpSetCurrentPos_def tpSetCycleTime_def tpPause_def tpClear_def TP_ERR_OK_def)

abbreviation atspeed :: "'tc mot_state \<Rightarrow> int" where
  "atspeed g \<equiv> tp_waiting_for_atspeed (planner g)"

lemma set_tp_atspeed:
  "tp_waiting_for_atspeed (tpAbort tp) = tp_waiting_for_atspeed tp" "tp_waiting_for_atspeed (tpPause tp) = tp_waiting_for_atspeed tp"
  "tp_waiting_for_atspeed (snd (tpSetId tp i)) = tp_waiting_for_atspeed tp"
  "tp_waiting_for_atspeed (snd (tpSetVlimit tp v)) = tp_waiting_for_atspeed tp"
  "tp_waiting_for_atspeed (tpSetSpindleSync tp sp sy m) = tp_waiting_for_atspeed tp"
  by (simp_all add: tpAbort_def tpPause_def tpSetId_def tpSetVlimit_def tpSetSpindleSync_def)

lemma builders_atspeed:
  "line_env acc a e = (r, tp, st, cf) \<Longrightarrow> tp_waiting_for_atspeed tp = tp_waiting_for_atspeed (fst e)"
  "circle_env acc c e = (r, tp, st, cf) \<Longrightarrow> tp_waiting_for_atspeed tp = tp_waiting_for_atspeed (fst e)"
  by (auto simp: line_env_def circle_env_def split: option.splits prod.splits dest: add_pausing)

lemma handler_atspeed:
  assumes "emcmotCommandHandler (line_env acc) (circle_env acc) g = Some g'"
  shows "atspeed g' = atspeed g"
proof -
  have abort: "cmd_abort h = Some h' \<Longrightarrow> atspeed h' = atspeed h" for h h' :: "tc_struct mot_state"
    by (auto simp: cmd_abort_def Let_def fold_keeps [where P = g_internal] set_tp_atspeed split: option.splits if_splits)
  have line: "cmd_set_line (line_env acc) h = Some h' \<Longrightarrow> atspeed h' = atspeed h" for h h'
    by (auto simp: cmd_set_line_def planner_env_def put_env_def set_tp_atspeed Let_def
      split: if_splits option.splits bool.splits prod.splits dest!: builders_atspeed)
  have circle: "cmd_set_circle (circle_env acc) h = Some h' \<Longrightarrow> atspeed h' = atspeed h" for h h'
    by (auto simp: cmd_set_circle_def planner_env_def put_env_def set_tp_atspeed Let_def
      split: if_splits option.splits bool.splits prod.splits dest!: builders_atspeed)
  have "atspeed (cmd_downloads_config n h) = atspeed h" "atspeed (cmd_pause h) = atspeed h" for n and h :: "tc_struct mot_state"
    by (simp_all add: cmd_downloads_config_def cmd_pause_def Let_def set_tp_atspeed)
  then have "run_command (line_env acc) (circle_env acc) h = Some h' \<Longrightarrow> atspeed h' = atspeed h" for h h'
    using abort [of h h'] line [of h h'] circle [of h h']
    by (auto simp: run_command_def Let_def on_axis_def on_jog_axis_def simple_cmds_pausing split: cmd_code.splits if_splits)
  then show ?thesis using assms
    by (fastforce simp: emcmotCommandHandler_def emcmotCommandHandler_locked_def sync_tails_def accept_command_def
      split: if_splits)
qed

lemma atspeed_never_set: "program_step\<^sup>*\<^sup>* g g' \<Longrightarrow> atspeed g' = atspeed g"
proof (induction rule: rtranclp_induct)
  case (step h k)
  from step.hyps(2) have "atspeed k = atspeed h"
  proof (cases rule: program_step.cases)
    case (1 acc pins)
    then show ?thesis
    proof (cases rule: machine_step.cases)
      case (command c)
      from handler_atspeed [OF this] show ?thesis by simp
    next
      case (control period)
      from unset.controller [OF refl this] show ?thesis .
    qed simp
  qed
  with step.IH show ?case by simp
qed simp

section \<open>Moves that are refused\<close>

text \<open>
  C14: moves are refused unless they can be carried out. Outside enabled coordinated mode a line or circle
  command reports an invalid command and leaves planner and axes alone; with an active axis on a limit
  it reports invalid parameters and aborts the planner; when the segment builder fails on the arguments of the
  command it reports a bad execution and aborts the planner too. In all three cases the motion error flag is set.
\<close>

theorem move_refused:
  assumes k: "mc_command (g_command g) = EMCMOT_SET_LINE \<or> mc_command (g_command g) = EMCMOT_SET_CIRCLE"
    and r: "run_command addLine addCircle g = Some g'"
    and bad: "\<not> (GET_MOTION_COORD_FLAG (g_status g) \<and> GET_MOTION_ENABLE_FLAG (g_status g))
      \<or> limits_ok g = Some False \<or> build_fails addLine addCircle g"
  shows "GET_MOTION_ERROR_FLAG (g_status g')
    \<and> (if GET_MOTION_COORD_FLAG (g_status g) \<and> GET_MOTION_ENABLE_FLAG (g_status g)
        then tp_aborting (planner g') \<noteq> 0 \<and> ms_commandStatus (g_status g') =
          (if limits_ok g = Some False then EMCMOT_COMMAND_INVALID_PARAMS else EMCMOT_COMMAND_BAD_EXEC)
        else g_internal g' = g_internal g \<and> g_axes g' = g_axes g
          \<and> ms_commandStatus (g_status g') = EMCMOT_COMMAND_INVALID_COMMAND)"
proof (cases "GET_MOTION_COORD_FLAG (g_status g) \<and> GET_MOTION_ENABLE_FLAG (g_status g)")
  case False
  then show ?thesis using k r by (auto simp: run_command_def cmd_set_line_def cmd_set_circle_def)
next
  case True
  with move_rejected [OF k r] bad have "rejected_aborting
      (if limits_ok g = Some False then EMCMOT_COMMAND_INVALID_PARAMS else EMCMOT_COMMAND_BAD_EXEC) g'" by blast
  with True show ?thesis by (auto simp: rejected_aborting_def)
qed

theorem move_refused_witness:
  "\<exists>g'. run_command (line_env cart_zero) (circle_env cart_zero) (planning_state (tpAbort tp_ex) line_command) = Some g'
     \<and> ms_commandStatus (g_status g') = EMCMOT_COMMAND_BAD_EXEC \<and> GET_MOTION_ERROR_FLAG (g_status g')"
proof -
  let ?g = "planning_state (tpAbort tp_ex) line_command"
  let ?run = "run_command (line_env cart_zero) (circle_env cart_zero) ?g"
  have k: "mc_command (g_command ?g) = EMCMOT_SET_LINE" by (simp add: planning_state_def line_command_def)
  have on: "GET_MOTION_COORD_FLAG (g_status ?g)" "GET_MOTION_ENABLE_FLAG (g_status ?g)"
    by (simp_all add: planning_state_def GET_MOTION_COORD_FLAG_def GET_MOTION_ENABLE_FLAG_def flag_get_def motion_bits)
  have l: "limits_ok ?g = Some True"
    by (simp add: limits_ok_def Let_def planning_state_def mot_zero_def axis_zero_def GET_AXIS_ACTIVE_FLAG_def
      flag_get_def axis_bits list_all_iff EMCMOT_MAX_AXIS_def nth_Cons' upt_rec)
  have tp: "tp_aborting (planner ?g) \<noteq> 0" by (simp add: planning_state_def)
  have fail: "tp_aborting tp \<noteq> 0 \<Longrightarrow> tpAddLine acc cfg a tp = Some (TP_ERR_FAIL, tp)" for acc cfg a tp
    by (simp add: tpAddLine_def tpErrorCheck_def TP_ERR_FAIL_def)
  have "tp_aborting (snd (tpSetVlimit (snd (tpSetId tp i)) v)) = tp_aborting tp" for tp :: tp and i v
    by (simp add: tpSetVlimit_def tpSetId_def)
  with tp have f: "build_fails (line_env cart_zero) (circle_env cart_zero) ?g"
    by (simp add: build_fails_def k line_call_def Let_def line_env_def fail TP_ERR_FAIL_def)
  have "?run \<noteq> None" using k on l by (simp add: run_command_def cmd_set_line_def Let_def split: prod.split)
  then obtain g' where r: "?run = Some g'" by blast
  from move_refused [OF disjI1 [OF k] r disjI2 [OF disjI2 [OF f]]] on l r show ?thesis by simp
qed

section \<open>What the program's planner leaves of the mode\<close>

lemma builders_keep_mode: "keeps_mode_seg (line_env acc)" "keeps_mode_seg (circle_env acc)"
  "keeps_echo (line_env acc)" "keeps_echo (circle_env acc)"
  by (auto simp: keeps_mode_seg_def keeps_mode_def keeps_echo_def line_env_def circle_env_def split: option.split prod.split)

lemma coordinated_progress [simp]:
  "coordinated (st\<lparr>ms_distance_to_go := d, ms_enables_queued := e, ms_requested_vel := v, ms_current_vel := w, ms_dtg := p\<rparr>)
     = coordinated st"
  "coordinated (st\<lparr>ms_current_vel := w\<rparr>) = coordinated st" "coordinated (tpUpdateInitialStatus tp st) = coordinated st"
  by (simp_all add: coordinated_def GET_MOTION_COORD_FLAG_def tpUpdateInitialStatus_def)

lemma movement_mode: "tpUpdateMovementStatus tp t st = Some (r, tp', st') \<Longrightarrow> coordinated st' = coordinated st"
  by (auto simp: tpUpdateMovementStatus_def split: option.splits)

lemma parabolic_mode: "tpDoParabolicBlending cfg st tp t n = Some (tp', n', st') \<Longrightarrow> coordinated st' = coordinated st"
  by (auto simp: tpDoParabolicBlending_def split: option.splits prod.splits dest!: movement_mode)

lemma move_mode: "cycle_move cfg st tp t n = Some (r, tp', t', n', st') \<Longrightarrow> coordinated st' = coordinated st"
  by (auto simp: cycle_move_def tpHandleSplitCycle_def tpHandleRegularCycle_def Let_def
    split: prod.splits if_splits option.splits dest!: movement_mode parabolic_mode)

lemma cycle_keeps_mode: "keeps_mode (cycle_env pins period)"
proof -
  have "coordinated st' = coordinated st" if "tpRunCycle cf (tp, st, pins) = Some (r, tp', st', pins')"
    for tp st cf r tp' st' pins'
    using that by (auto simp: tpRunCycle_def tpHandleEmptyQueue_def Let_def
      split: option.splits prod.splits if_splits dest!: move_mode movement_mode)
  then show ?thesis by (auto simp: keeps_mode_def cycle_env_def split: option.split)
qed

end
