(* ===== verification/Watchdog.thy ===== *)
theory Watchdog
  imports Prelude
begin

text \<open>
  The watchdog of \<open>task/watchdog.c\<close>: its two periodic functions \<open>process\<close> and \<open>set_timeouts\<close> over the inputs it
  watches. The counters of 32 bits hold seconds and nanoseconds; \<open>remaining\<close> is the time they stand for. The
  theorem says exactly when the output falls, in terms of how long each input has been quiet, and that
  it stays low until the enable pin has been taken low and high again.
\<close>

section \<open>The inputs and the shared data\<close>

record watchdog_input =
  wi_input :: bool
  wi_timeout :: real
  wi_oldtimeout :: real
  wi_c_secs :: int
  wi_c_nsecs :: int
  wi_t_secs :: int
  wi_t_nsecs :: int
  wi_last :: bool

record watchdog =
  wd_output :: bool
  wd_enable :: bool
  wd_inputs :: "watchdog_input list"
  wd_old_enable :: bool

text \<open>One input in one cycle: the fault flag and the new counters.\<close>

definition wd_count :: "int \<Rightarrow> watchdog_input \<Rightarrow> bool \<times> watchdog_input" where
  "wd_count period i =
     (let (fault, i1) =
        (if wi_input i \<noteq> wi_last i
         then (False, i\<lparr>wi_c_secs := wi_t_secs i, wi_c_nsecs := wi_t_nsecs i\<rparr>)
         else let n = s32 (wi_c_nsecs i - period) in
           if n < 0 then
             (if wi_c_secs i > 0
              then (False, i\<lparr>wi_c_nsecs := n + 1000000000, wi_c_secs := wi_c_secs i - 1\<rparr>)
              else (True, i\<lparr>wi_c_nsecs := 0, wi_c_secs := 0\<rparr>))
           else (False, i\<lparr>wi_c_nsecs := n\<rparr>))
      in (fault, i1\<lparr>wi_last := wi_input i\<rparr>))"

definition wd_process :: "int \<Rightarrow> watchdog \<Rightarrow> watchdog" where
  "wd_process period w =
     (if \<not> wd_enable w \<or> \<not> wd_output w then w
      else let rs = map (wd_count period) (wd_inputs w) in
        w\<lparr>wd_inputs := map snd rs, wd_output := (if \<exists>r \<in> set rs. fst r then False else wd_output w)\<rparr>)"

definition wd_new_timeout :: "watchdog_input \<Rightarrow> watchdog_input" where
  "wd_new_timeout i =
     (let temp = (if wi_timeout i < 0 then 0 else wi_timeout i) in
      if temp \<noteq> wi_oldtimeout i
      then i\<lparr>wi_oldtimeout := temp, wi_t_secs := d2i temp,
             wi_t_nsecs := d2i (1000000000 * (temp - of_int (d2i temp)))\<rparr>
      else i)"

definition wd_restart :: "watchdog_input \<Rightarrow> watchdog_input" where
  "wd_restart i = i\<lparr>wi_c_secs := wi_t_secs i, wi_c_nsecs := wi_t_nsecs i\<rparr>"

definition wd_set_timeouts :: "watchdog \<Rightarrow> watchdog" where
  "wd_set_timeouts w =
     (let is = map wd_new_timeout (wd_inputs w);
          w1 = (if \<not> wd_output w \<and> wd_enable w \<and> \<not> wd_old_enable w
                then w\<lparr>wd_inputs := map wd_restart is, wd_output := True\<rparr>
                else w\<lparr>wd_inputs := is\<rparr>)
      in w1\<lparr>wd_old_enable := wd_enable w1\<rparr>)"

text \<open>An input as \<open>watchdog_app_init\<close> leaves it.\<close>

definition wd_init_input :: "bool \<Rightarrow> watchdog_input" where
  "wd_init_input b = \<lparr>wi_input = b, wi_timeout = 0, wi_oldtimeout = - 1, wi_c_secs = 0, wi_c_nsecs = 0,
     wi_t_secs = 0, wi_t_nsecs = 0, wi_last = b\<rparr>"

section \<open>The thread that runs them\<close>

text \<open>The pins change, then the thread calls both functions.\<close>

definition wd_pins :: "bool \<Rightarrow> bool list \<Rightarrow> watchdog \<Rightarrow> watchdog" where
  "wd_pins en bs w = w\<lparr>wd_enable := en,
     wd_inputs := map (\<lambda>(b, i). i\<lparr>wi_input := b\<rparr>) (zip bs (wd_inputs w))\<rparr>"

definition wd_cycle :: "int \<Rightarrow> bool \<times> bool list \<Rightarrow> watchdog \<Rightarrow> watchdog" where
  "wd_cycle period c w = wd_set_timeouts (wd_process period (wd_pins (fst c) (snd c) w))"

definition wd_run :: "int \<Rightarrow> (bool \<times> bool list) list \<Rightarrow> watchdog \<Rightarrow> watchdog" where
  "wd_run period = fold (wd_cycle period)"

lemma wd_run_simps [simp]:
  "wd_run p [] w = w" "wd_run p (c # cs) w = wd_run p cs (wd_cycle p c w)"
  "wd_run p (cs @ ds) w = wd_run p ds (wd_run p cs w)"
  by (simp_all add: wd_run_def)

section \<open>What the counters stand for\<close>

definition remaining :: "watchdog_input \<Rightarrow> int" where
  "remaining i = wi_c_secs i * 1000000000 + wi_c_nsecs i"

definition timeout_ns :: "watchdog_input \<Rightarrow> int" where
  "timeout_ns i = wi_t_secs i * 1000000000 + wi_t_nsecs i"

definition wi_ok :: "watchdog_input \<Rightarrow> bool" where
  "wi_ok i \<longleftrightarrow> 0 \<le> wi_c_secs i \<and> 0 \<le> wi_c_nsecs i \<and> wi_c_nsecs i < 1000000000
     \<and> 0 \<le> wi_t_secs i \<and> 0 \<le> wi_t_nsecs i \<and> wi_t_nsecs i < 1000000000
     \<and> wi_oldtimeout i = (if wi_timeout i < 0 then 0 else wi_timeout i)"

lemma count_fields [simp]:
  "wi_t_secs (snd (wd_count p i)) = wi_t_secs i" "wi_t_nsecs (snd (wd_count p i)) = wi_t_nsecs i"
  "wi_timeout (snd (wd_count p i)) = wi_timeout i" "wi_oldtimeout (snd (wd_count p i)) = wi_oldtimeout i"
  "wi_last (snd (wd_count p i)) = wi_input i" "wi_input (snd (wd_count p i)) = wi_input i"
  by (simp_all add: wd_count_def Let_def)

lemma count_timeout [simp]: "timeout_ns (snd (wd_count p i)) = timeout_ns i"
  by (simp add: timeout_ns_def)

text \<open>Within a cycle of at most a second the counters behave like one number.\<close>

lemma count_remaining:
  assumes "wi_ok i" "0 \<le> p" "p \<le> 1000000000"
  shows "wi_ok (snd (wd_count p i))"
    and "wi_input i \<noteq> wi_last i \<Longrightarrow> \<not> fst (wd_count p i) \<and> remaining (snd (wd_count p i)) = timeout_ns i"
    and "wi_input i = wi_last i \<Longrightarrow> fst (wd_count p i) \<longleftrightarrow> remaining i < p"
    and "wi_input i = wi_last i \<Longrightarrow> remaining (snd (wd_count p i)) = max 0 (remaining i - p)"
proof -
  have n: "s32 (wi_c_nsecs i - p) = wi_c_nsecs i - p"
    using assms by (intro s32_id) (simp add: in_s32_def wi_ok_def INT32_MIN_def INT32_MAX_def)
  show "wi_ok (snd (wd_count p i))"
    using assms by (auto simp: wd_count_def n wi_ok_def Let_def)
  show "wi_input i \<noteq> wi_last i \<Longrightarrow> \<not> fst (wd_count p i) \<and> remaining (snd (wd_count p i)) = timeout_ns i"
    by (simp add: wd_count_def remaining_def timeout_ns_def)
  show "wi_input i = wi_last i \<Longrightarrow> fst (wd_count p i) \<longleftrightarrow> remaining i < p"
    using assms by (auto simp: wd_count_def n wi_ok_def remaining_def Let_def)
  show "wi_input i = wi_last i \<Longrightarrow> remaining (snd (wd_count p i)) = max 0 (remaining i - p)"
    using assms by (auto simp: wd_count_def n wi_ok_def remaining_def Let_def)
qed

section \<open>Quiet inputs\<close>

text \<open>How many cycles an input has been quiet when it had the value \<open>l\<close> before the values \<open>bs\<close>.\<close>

fun quiet :: "nat \<Rightarrow> bool \<Rightarrow> bool list \<Rightarrow> nat" where
  "quiet n l [] = n"
| "quiet n l (b # bs) = quiet (if b = l then Suc n else 0) b bs"

lemma new_timeout_idle: "wi_ok i \<Longrightarrow> wd_new_timeout i = i"
  by (simp add: wd_new_timeout_def wi_ok_def Let_def)

lemma quiet_snoc [simp]: "quiet n l (bs @ [b]) = (if b = last (l # bs) then Suc (quiet n l bs) else 0)"
  by (induction n l bs rule: quiet.induct) simp_all

text \<open>A new timeout in seconds is kept to the nanosecond below it.\<close>

lemma new_timeout_ok:
  assumes "0 \<le> wi_timeout i" "wi_timeout i < 2147483648" "wi_oldtimeout i = - 1"
  shows "wi_ok (wd_restart (wd_new_timeout i))"
    and "timeout_ns (wd_new_timeout i) = \<lfloor>1000000000 * wi_timeout i\<rfloor>"
proof -
  let ?t = "wi_timeout i" let ?s = "\<lfloor>?t\<rfloor>" let ?f = "?t - of_int ?s"
  have s: "0 \<le> ?s" "?s \<le> INT32_MAX"
    using assms by (simp, simp add: INT32_MAX_def floor_le_iff)
  have f: "0 \<le> ?f" "?f < 1" by linarith+
  have t: "r_trunc ?t = ?s" using assms(1) by (simp add: r_trunc_def)
  then have ds: "d2i ?t = ?s"
    using s by (simp add: d2i_def in_s32_def INT32_MIN_def)
  define g where "g = 1000000000 * ?f"
  have g: "0 \<le> g" "g < 1000000000" using f by (simp_all add: g_def)
  then have nf: "0 \<le> \<lfloor>g\<rfloor>" "\<lfloor>g\<rfloor> < 1000000000" by (simp, simp add: floor_less_iff)
  then have dn: "d2i g = \<lfloor>g\<rfloor>"
    using g by (simp add: d2i_def r_trunc_def in_s32_def INT32_MIN_def INT32_MAX_def)
  have new: "wd_new_timeout i = i\<lparr>wi_oldtimeout := ?t, wi_t_secs := ?s, wi_t_nsecs := \<lfloor>g\<rfloor>\<rparr>"
    using assms ds dn by (simp add: wd_new_timeout_def Let_def g_def algebra_simps)
  show "wi_ok (wd_restart (wd_new_timeout i))"
    using s nf assms(1) by (simp add: new wd_restart_def wi_ok_def)
  have "1000000000 * ?t = g + of_int (?s * 1000000000)" by (simp add: g_def algebra_simps)
  then have "\<lfloor>1000000000 * ?t\<rfloor> = \<lfloor>g\<rfloor> + ?s * 1000000000" by (simp only: floor_add_int)
  then show "timeout_ns (wd_new_timeout i) = \<lfloor>1000000000 * ?t\<rfloor>"
    by (simp add: new timeout_ns_def)
qed

section \<open>When the output falls\<close>

text \<open>The watchdog is running, and every input counts down from its timeout since it was last heard.\<close>

definition wd_live :: "int \<Rightarrow> watchdog_input list \<Rightarrow> bool list list \<Rightarrow> watchdog \<Rightarrow> bool" where
  "wd_live p is0 vals w \<longleftrightarrow> wd_output w \<and> wd_old_enable w \<and> length (wd_inputs w) = length is0
     \<and> (\<forall>n < length is0. let i = wd_inputs w ! n; col = map (\<lambda>bs. bs ! n) vals; l = wi_last (is0 ! n) in
          wi_ok i \<and> timeout_ns i = timeout_ns (is0 ! n) \<and> wi_last i = last (l # col)
          \<and> remaining i = timeout_ns i - int (quiet 0 l col) * p)"

definition overdue :: "int \<Rightarrow> watchdog_input \<Rightarrow> bool list \<Rightarrow> bool" where
  "overdue p i col \<longleftrightarrow> timeout_ns i < int (quiet 0 (wi_last i) col) * p"

lemma set_timeouts_idle:
  assumes "\<forall>i \<in> set (wd_inputs w). wi_ok i" "wd_enable w" "wd_old_enable w"
  shows "wd_set_timeouts w = w"
proof -
  have "map wd_new_timeout (wd_inputs w) = wd_inputs w"
    using assms(1) by (intro map_idI) (simp add: new_timeout_idle)
  then show ?thesis using assms(2,3) by (simp add: wd_set_timeouts_def)
qed

lemma wd_live_cycle:
  assumes w: "wd_live p is0 vals w" and p: "0 \<le> p" "p \<le> 1000000000" and bs: "length bs = length is0"
  defines "w' \<equiv> wd_cycle p (True, bs) w"
  shows "if \<exists>n < length is0. overdue p (is0 ! n) (map (\<lambda>b. b ! n) (vals @ [bs]))
    then \<not> wd_output w' \<and> wd_old_enable w' \<and> (\<forall>i \<in> set (wd_inputs w'). wi_ok i)
    else wd_live p is0 (vals @ [bs]) w'"
proof -
  let ?w1 = "wd_pins True bs w" let ?w2 = "wd_process p ?w1"
  define j where "j n = (wd_inputs w ! n)\<lparr>wi_input := bs ! n\<rparr>" for n
  have len: "length (wd_inputs w) = length is0" and on: "wd_output w" "wd_old_enable w"
    using w by (simp_all add: wd_live_def)
  have in1: "wd_inputs ?w1 = map j [0..<length is0]"
    using len bs by (intro nth_equalityI) (simp_all add: wd_pins_def j_def)
  have in2: "wd_inputs ?w2 = map (\<lambda>n. snd (wd_count p (j n))) [0..<length is0]"
    and out2: "wd_output ?w2 \<longleftrightarrow> (\<forall>n < length is0. \<not> fst (wd_count p (j n)))"
    and flags: "wd_enable ?w2" "wd_old_enable ?w2"
    using on in1 by (auto simp: wd_process_def Let_def) (auto simp: wd_pins_def)
  have step: "wi_ok (snd (wd_count p (j n))) \<and> timeout_ns (snd (wd_count p (j n))) = timeout_ns (is0 ! n)
      \<and> (fst (wd_count p (j n)) \<longleftrightarrow> overdue p (is0 ! n) (map (\<lambda>b. b ! n) (vals @ [bs])))
      \<and> (\<not> fst (wd_count p (j n)) \<longrightarrow> remaining (snd (wd_count p (j n)))
          = timeout_ns (is0 ! n) - int (quiet 0 (wi_last (is0 ! n)) (map (\<lambda>b. b ! n) (vals @ [bs]))) * p)"
    if n: "n < length is0" for n
  proof -
    let ?i = "wd_inputs w ! n" let ?l = "wi_last (is0 ! n)" let ?c = "map (\<lambda>b. b ! n) vals"
    have i: "wi_ok ?i" "timeout_ns ?i = timeout_ns (is0 ! n)" "wi_last ?i = last (?l # ?c)"
      "remaining ?i = timeout_ns ?i - int (quiet 0 ?l ?c) * p"
      using w n by (simp_all add: wd_live_def Let_def)
    have k: "wi_ok (j n)" "timeout_ns (j n) = timeout_ns ?i" "remaining (j n) = remaining ?i"
      "wi_input (j n) = bs ! n" "wi_last (j n) = wi_last ?i"
      using i(1) by (simp_all add: j_def wi_ok_def timeout_ns_def remaining_def)
    have pos: "0 \<le> timeout_ns (is0 ! n)" using i(1,2) by (simp add: wi_ok_def timeout_ns_def)
    note c = count_remaining [OF k(1) p]
    show ?thesis
    proof (cases "bs ! n = wi_last ?i")
      case True
      then have q: "quiet 0 ?l (map (\<lambda>b. b ! n) (vals @ [bs])) = Suc (quiet 0 ?l ?c)" using i(3) by simp
      show ?thesis
        using c(1) c(3) c(4) True k i(2,4)
        by (simp only: q overdue_def k count_timeout) (auto simp: algebra_simps)
    next
      case False
      then have q: "quiet 0 ?l (map (\<lambda>b. b ! n) (vals @ [bs])) = 0" using i(3) by simp
      show ?thesis
        using c(1) c(2) False k i(2) pos by (simp only: q overdue_def k count_timeout) simp
    qed
  qed
  have "\<forall>i \<in> set (wd_inputs ?w2). wi_ok i" using step by (auto simp: in2)
  then have w': "w' = ?w2" using flags by (simp add: w'_def wd_cycle_def set_timeouts_idle)
  show ?thesis
  proof (cases "\<exists>n < length is0. overdue p (is0 ! n) (map (\<lambda>b. b ! n) (vals @ [bs]))")
    case True
    then show ?thesis using step out2 flags by (auto simp: w' in2)
  next
    case False
    then have f: "\<not> fst (wd_count p (j n))" if "n < length is0" for n using step that by blast
    have "wi_last (snd (wd_count p (j n))) = bs ! n" for n by (simp add: j_def)
    then have "wd_live p is0 (vals @ [bs]) w'"
      using out2 flags f step by (simp add: wd_live_def w' in2 Let_def)
    then show ?thesis using False by (simp only: if_False)
  qed
qed

lemma wd_stays_low:
  assumes "\<not> wd_output w" "wd_old_enable w" "\<forall>i \<in> set (wd_inputs w). wi_ok i"
  shows "\<not> wd_output (wd_run p (map (Pair True) vals) w)"
  using assms
proof (induction vals arbitrary: w)
  case (Cons bs vals)
  let ?w = "wd_pins True bs w"
  have ok: "\<forall>i \<in> set (wd_inputs ?w). wi_ok i"
    using Cons.prems(3) by (auto simp: wd_pins_def wi_ok_def dest!: set_zip_rightD)
  have "wd_process p ?w = ?w" using Cons.prems(1) by (simp add: wd_process_def wd_pins_def)
  then have "wd_cycle p (True, bs) w = ?w"
    using Cons.prems(2) ok by (simp add: wd_cycle_def set_timeouts_idle wd_pins_def)
  then show ?case using Cons.IH [of ?w] Cons.prems ok by (simp add: wd_pins_def)
qed simp

lemma wd_live_run:
  assumes "wd_live p is0 vals0 w" "0 \<le> p" "p \<le> 1000000000" "\<forall>bs \<in> set vals. length bs = length is0"
  shows "wd_output (wd_run p (map (Pair True) vals) w) \<longleftrightarrow>
    (\<forall>k \<in> {0<..length vals}. \<forall>n < length is0.
       \<not> overdue p (is0 ! n) (map (\<lambda>b. b ! n) (vals0 @ take k vals)))"
  using assms
proof (induction vals arbitrary: vals0 w)
  case Nil
  then show ?case by (simp add: wd_live_def)
next
  case (Cons bs vals)
  let ?late = "\<lambda>vs. \<exists>n < length is0. overdue p (is0 ! n) (map (\<lambda>b. b ! n) vs)"
  let ?w = "wd_cycle p (True, bs) w"
  have step: "if ?late (vals0 @ [bs])
    then \<not> wd_output ?w \<and> wd_old_enable ?w \<and> (\<forall>i \<in> set (wd_inputs ?w). wi_ok i)
    else wd_live p is0 (vals0 @ [bs]) ?w"
    using Cons.prems by (intro wd_live_cycle) auto
  have split: "{0<..Suc (length vals)} = insert 1 (Suc ` {0<..length vals})"
  proof -
    have "{0<..Suc (length vals)} = Suc ` {0..length vals}" by (auto simp: image_iff Suc_le_eq gr0_conv_Suc)
    also have "{0..length vals} = insert 0 {0<..length vals}" by auto
    finally show ?thesis by simp
  qed
  show ?case
  proof (cases "?late (vals0 @ [bs])")
    case True
    then show ?thesis using step wd_stays_low [of ?w p vals] by (auto simp: split)
  next
    case False
    then have "wd_live p is0 (vals0 @ [bs]) ?w" using step by (simp only: if_False)
    from Cons.IH [OF this Cons.prems(2,3)] Cons.prems(4) False show ?thesis
      by (simp add: split)
  qed
qed

lemma wd_restarts:
  assumes "\<not> wd_output w" "\<not> wd_old_enable w" "length bs = length (wd_inputs w)"
    and t: "\<forall>i \<in> set (wd_inputs w). 0 \<le> wi_timeout i \<and> wi_timeout i < 2147483648 \<and> wi_oldtimeout i = - 1"
  defines "is0 \<equiv> map (\<lambda>i. wd_restart (wd_new_timeout i)) (wd_inputs w)"
  shows "wd_live p is0 [] (wd_cycle p (True, bs) w)"
proof -
  let ?w1 = "wd_pins True bs w"
  have p: "wd_process p ?w1 = ?w1" using assms(1) by (simp add: wd_process_def wd_pins_def)
  have "wd_cycle p (True, bs) w = wd_set_timeouts ?w1" by (simp add: wd_cycle_def p)
  also have "\<dots> = w\<lparr>wd_enable := True, wd_output := True, wd_old_enable := True,
      wd_inputs := map (\<lambda>i. wd_restart (wd_new_timeout i)) (wd_inputs ?w1)\<rparr>"
    using assms(1,2) by (simp add: wd_set_timeouts_def wd_pins_def comp_def)
  finally have e: "wd_cycle p (True, bs) w = \<dots>" .
  have j: "wd_inputs ?w1 ! n = (wd_inputs w ! n)\<lparr>wi_input := bs ! n\<rparr>"
    and ok: "wi_ok (wd_restart (wd_new_timeout ((wd_inputs w ! n)\<lparr>wi_input := bs ! n\<rparr>)))"
    if "n < length (wd_inputs w)" for n
    using that assms(3) t by (simp_all add: wd_pins_def new_timeout_ok)
  have l: "length (wd_inputs ?w1) = length (wd_inputs w)" using assms(3) by (simp add: wd_pins_def)
  have k: "timeout_ns (wd_restart (wd_new_timeout (i\<lparr>wi_input := b\<rparr>))) = timeout_ns (wd_restart (wd_new_timeout i))"
    "wi_last (wd_restart (wd_new_timeout (i\<lparr>wi_input := b\<rparr>))) = wi_last (wd_restart (wd_new_timeout i))"
    "timeout_ns (wd_new_timeout (i\<lparr>wi_input := b\<rparr>)) = timeout_ns (wd_new_timeout i)"
    "remaining (wd_restart i) = timeout_ns i" "timeout_ns (wd_restart i) = timeout_ns i" for i b
    by (simp_all add: wd_restart_def wd_new_timeout_def Let_def timeout_ns_def remaining_def)
  show ?thesis unfolding e wd_live_def is0_def using l j ok by (simp add: k Let_def)
qed

lemma all_from_zero: "Q (0::nat) \<Longrightarrow> (\<forall>k \<in> {0<..m}. Q k) \<longleftrightarrow> (\<forall>k \<le> m. Q k)"
  by (metis greaterThanAtMost_iff neq0_conv)

text \<open>
  C31: the watchdog's output falls exactly when an input has been quiet for too long. Once the enable
  pin has risen, and with cycles of at most a second, the output is still on after any sequence of
  cycles if and only if at no cycle any input had kept its value for more nanoseconds than its timeout
  says. As the right-hand side can only become false, the output stays low once it has fallen.
\<close>

theorem watchdog_trips:
  assumes "\<not> wd_output w" "\<not> wd_old_enable w" "0 \<le> p" "p \<le> 1000000000"
    and "\<forall>i \<in> set (wd_inputs w). 0 \<le> wi_timeout i \<and> wi_timeout i < 2147483648 \<and> wi_oldtimeout i = - 1"
    and "\<forall>bs \<in> set (b0 # vals). length bs = length (wd_inputs w)"
  shows "wd_output (wd_run p (map (Pair True) (b0 # vals)) w) \<longleftrightarrow>
    (\<forall>k \<le> length vals. \<forall>n < length (wd_inputs w). let i = wd_inputs w ! n in
       int (quiet 0 (wi_last i) (map (\<lambda>bs. bs ! n) (take k vals))) * p \<le> \<lfloor>1000000000 * wi_timeout i\<rfloor>)"
proof -
  let ?is = "map (\<lambda>i. wd_restart (wd_new_timeout i)) (wd_inputs w)"
  have i: "timeout_ns (?is ! n) = \<lfloor>1000000000 * wi_timeout (wd_inputs w ! n)\<rfloor>"
    "wi_last (?is ! n) = wi_last (wd_inputs w ! n)" "0 \<le> \<lfloor>1000000000 * wi_timeout (wd_inputs w ! n)\<rfloor>"
    if "n < length (wd_inputs w)" for n
  proof -
    have m: "wd_inputs w ! n \<in> set (wd_inputs w)" using that by simp
    from new_timeout_ok(2) [of "wd_inputs w ! n"] assms(5) m
    show "timeout_ns (?is ! n) = \<lfloor>1000000000 * wi_timeout (wd_inputs w ! n)\<rfloor>"
      using that by (simp add: wd_restart_def timeout_ns_def)
    show "wi_last (?is ! n) = wi_last (wd_inputs w ! n)"
      using that by (simp add: wd_restart_def wd_new_timeout_def Let_def)
    show "0 \<le> \<lfloor>1000000000 * wi_timeout (wd_inputs w ! n)\<rfloor>" using assms(5) m by simp
  qed
  have "wd_live p ?is [] (wd_cycle p (True, b0) w)" using assms by (intro wd_restarts) auto
  from wd_live_run [OF this assms(3,4), of vals] assms(6)
  have "wd_output (wd_run p (map (Pair True) (b0 # vals)) w) \<longleftrightarrow> (\<forall>k \<in> {0<..length vals}.
      \<forall>n < length (wd_inputs w). \<not> overdue p (?is ! n) (map (\<lambda>b. b ! n) (take k vals)))" by simp
  also have "\<dots> \<longleftrightarrow> (\<forall>k \<le> length vals. \<forall>n < length (wd_inputs w).
      \<not> overdue p (?is ! n) (map (\<lambda>b. b ! n) (take k vals)))"
  proof -
    have "\<not> overdue p (?is ! n) []" if "n < length (wd_inputs w)" for n
      using i [OF that] by (simp add: overdue_def not_less)
    then show ?thesis by (intro all_from_zero) simp
  qed
  finally show ?thesis using i by (simp add: overdue_def Let_def not_less)
qed

theorem watchdog_trips_witness:
  "let w = \<lparr>wd_output = False, wd_enable = False, wd_inputs = [(wd_init_input False)\<lparr>wi_timeout := 1 / 500\<rparr>],
            wd_old_enable = False\<rparr> in
   wd_output (wd_run 1000000 (map (Pair True) ([True] # [[True], [True], [True]])) w)
   \<and> \<not> wd_output (wd_run 1000000 (map (Pair True) ([True] # [[True], [True], [True], [True]])) w)"
  (is "let w = ?w in _")
proof -
  have t: "wd_output (wd_run 1000000 (map (Pair True) ([True] # vals)) ?w) \<longleftrightarrow>
    (\<forall>k \<le> length vals. int (quiet 0 False (map (\<lambda>bs. bs ! 0) (take k vals))) * 1000000 \<le> 2000000)"
    if "\<forall>bs \<in> set vals. length bs = 1" for vals
    using watchdog_trips [of ?w 1000000 "[True]" vals] that by (simp add: wd_init_input_def Let_def)
  have "wd_output (wd_run 1000000 (map (Pair True) ([True] # [[True], [True], [True]])) ?w)"
    by (subst t) (simp_all add: le_Suc_eq imp_disjL all_conj_distrib)
  moreover have "\<not> wd_output (wd_run 1000000 (map (Pair True) ([True] # [[True], [True], [True], [True]])) ?w)"
    by (subst t) (simp_all add: le_Suc_eq imp_disjL all_conj_distrib)
  ultimately show ?thesis unfolding Let_def by (rule conjI)
qed

end
