(* ===== verification/RtTask.thy ===== *)
theory RtTask
  imports HalSys
begin

text \<open>
  Time and priorities of realtime tasks (\<open>rtapi/rtapi_uspace.h\<close>, \<open>rtapi/uspace_rtapi_app.cpp\<close>): the arithmetic of
  \<open>timespec\<close>, the start times a task computes for itself when it begins and whenever it waits, the
  correction a phase-locked loop may ask for, and the neighbours of a priority. The clock and the
  sleeping are the operating system's: a wait gets the time it is called at and says whether it sleeps.
\<close>

section \<open>Times\<close>

record timespec =
  tv_sec :: int
  tv_nsec :: int

definition ONE_SEC_IN_NS :: int where "ONE_SEC_IN_NS = 1000000000"

definition rtapi_timespec_add :: "timespec \<Rightarrow> timespec \<Rightarrow> timespec" where
  "rtapi_timespec_add a b =
     (if tv_nsec a + tv_nsec b \<ge> ONE_SEC_IN_NS
      then \<lparr>tv_sec = tv_sec a + tv_sec b + 1, tv_nsec = tv_nsec a + tv_nsec b - ONE_SEC_IN_NS\<rparr>
      else \<lparr>tv_sec = tv_sec a + tv_sec b, tv_nsec = tv_nsec a + tv_nsec b\<rparr>)"

definition rtapi_timespec_less :: "timespec \<Rightarrow> timespec \<Rightarrow> bool" where
  "rtapi_timespec_less a b =
     (if tv_sec a < tv_sec b then True else if tv_sec a > tv_sec b then False else tv_nsec a < tv_nsec b)"

text \<open>The nanoseconds are an unsigned long: a negative number becomes a very large one.\<close>

definition u64 :: "int \<Rightarrow> int" where "u64 x = x mod 2 ^ 64"

function whole_seconds :: "int \<Rightarrow> int \<Rightarrow> int \<times> int" where
  "whole_seconds sec nsec =
     (if nsec \<ge> ONE_SEC_IN_NS then whole_seconds (sec + 1) (nsec - ONE_SEC_IN_NS) else (sec, nsec))"
  by auto
termination by (relation "measure (\<lambda>(_, n). nat n)") (auto simp: ONE_SEC_IN_NS_def)

declare whole_seconds.simps [simp del]

definition rtapi_timespec_advance :: "timespec \<Rightarrow> int \<Rightarrow> timespec" where
  "rtapi_timespec_advance src nsec =
     (let (sec, n) = whole_seconds (tv_sec src) (u64 nsec);
          n1 = u64 (n + tv_nsec src) in
      if n1 \<ge> ONE_SEC_IN_NS then \<lparr>tv_sec = sec + 1, tv_nsec = n1 - ONE_SEC_IN_NS\<rparr>
      else \<lparr>tv_sec = sec, tv_nsec = n1\<rparr>)"

definition timespec_ns :: "timespec \<Rightarrow> int" where
  "timespec_ns t = tv_sec t * ONE_SEC_IN_NS + tv_nsec t"

definition normal_time :: "timespec \<Rightarrow> bool" where
  "normal_time t \<longleftrightarrow> 0 \<le> tv_nsec t \<and> tv_nsec t < ONE_SEC_IN_NS"

lemma whole_seconds_sum:
  assumes "0 \<le> nsec" "whole_seconds sec nsec = (s, n)"
  shows "0 \<le> n \<and> n < ONE_SEC_IN_NS \<and> s * ONE_SEC_IN_NS + n = sec * ONE_SEC_IN_NS + nsec"
  using assms
proof (induction sec nsec rule: whole_seconds.induct)
  case (1 sec nsec)
  show ?case
  proof (cases "nsec \<ge> ONE_SEC_IN_NS")
    case True
    then show ?thesis using 1 whole_seconds.simps [of sec nsec] by (simp add: algebra_simps)
  next
    case False
    then show ?thesis using 1 whole_seconds.simps [of sec nsec] by simp
  qed
qed

lemma timespec_add_sum:
  assumes "normal_time a" "normal_time b"
  shows "normal_time (rtapi_timespec_add a b)"
    and "timespec_ns (rtapi_timespec_add a b) = timespec_ns a + timespec_ns b"
  using assms by (auto simp: normal_time_def rtapi_timespec_add_def timespec_ns_def algebra_simps ONE_SEC_IN_NS_def)

lemma timespec_less_iff:
  assumes "normal_time a" "normal_time b"
  shows "rtapi_timespec_less a b \<longleftrightarrow> timespec_ns a < timespec_ns b"
  using assms by (auto simp: normal_time_def rtapi_timespec_less_def timespec_ns_def ONE_SEC_IN_NS_def)

lemma timespec_advance_sum:
  assumes "normal_time t" "0 \<le> n" "n < 2 ^ 64"
  shows "normal_time (rtapi_timespec_advance t n)"
    and "timespec_ns (rtapi_timespec_advance t n) = timespec_ns t + n"
proof -
  obtain s r where w: "whole_seconds (tv_sec t) n = (s, r)" by fastforce
  have u: "u64 n = n" using assms by (simp add: u64_def)
  have r: "0 \<le> r" "r < ONE_SEC_IN_NS" "s * ONE_SEC_IN_NS + r = tv_sec t * ONE_SEC_IN_NS + n"
    using whole_seconds_sum [OF assms(2) w] by blast+
  have v: "u64 (r + tv_nsec t) = r + tv_nsec t"
    using r assms(1) by (simp add: u64_def normal_time_def ONE_SEC_IN_NS_def)
  show "normal_time (rtapi_timespec_advance t n)"
    using r assms(1) by (auto simp: rtapi_timespec_advance_def u w v normal_time_def ONE_SEC_IN_NS_def Let_def)
  show "timespec_ns (rtapi_timespec_advance t n) = timespec_ns t + n"
    using r(3) by (auto simp: rtapi_timespec_advance_def u w v timespec_ns_def algebra_simps Let_def)
qed

section \<open>The schedule of a task\<close>

record task_clock =
  ck_period :: int
  ck_nextstart :: timespec
  ck_pll_correction :: int
  ck_pll_correction_limit :: int

definition task_start_clock :: "int \<Rightarrow> task_clock \<Rightarrow> task_clock" where
  "task_start_clock period c =
     c\<lparr>ck_period := period, ck_pll_correction_limit := period div 100, ck_pll_correction := 0\<rparr>"

text \<open>What \<open>wrapper\<close> does before it calls the task, at the time \<open>now\<close>.\<close>

definition task_wrapper :: "timespec \<Rightarrow> task_clock \<Rightarrow> task_clock" where
  "task_wrapper now c =
     c\<lparr>ck_nextstart := rtapi_timespec_advance now (ck_period c + ck_pll_correction c)\<rparr>"

definition task_pll_set_correction :: "int \<Rightarrow> task_clock \<Rightarrow> int \<times> task_clock" where
  "task_pll_set_correction value c =
     (let v1 = (if value > ck_pll_correction_limit c then ck_pll_correction_limit c else value);
          v2 = (if v1 < - ck_pll_correction_limit c then - ck_pll_correction_limit c else v1)
      in (0, c\<lparr>ck_pll_correction := v2\<rparr>))"

definition task_pll_get_reference :: "task_clock \<Rightarrow> int" where
  "task_pll_get_reference c = tv_sec (ck_nextstart c) * 1000000000 + tv_nsec (ck_nextstart c)"

text \<open>The flag says whether the task sleeps until its next start, or is already late.\<close>

definition task_wait :: "timespec \<Rightarrow> task_clock \<Rightarrow> bool \<times> task_clock" where
  "task_wait now c =
     (let c1 = c\<lparr>ck_nextstart := rtapi_timespec_advance (ck_nextstart c) (ck_period c + ck_pll_correction c)\<rparr>
      in (\<not> rtapi_timespec_less (ck_nextstart c1) now, c1))"

definition rtapi_delay_max :: int where "rtapi_delay_max = 10000"

definition rtapi_delay :: "int \<Rightarrow> timespec" where
  "rtapi_delay ns = \<lparr>tv_sec = 0, tv_nsec = (if ns > rtapi_delay_max then rtapi_delay_max else ns)\<rparr>"

datatype task_event = Wait timespec | Correct int

fun clock_event :: "task_event \<Rightarrow> task_clock \<Rightarrow> task_clock" where
  "clock_event (Wait now) c = snd (task_wait now c)"
| "clock_event (Correct v) c = snd (task_pll_set_correction v c)"

fun waits :: "task_event list \<Rightarrow> nat" where
  "waits [] = 0"
| "waits (Wait _ # es) = Suc (waits es)"
| "waits (Correct _ # es) = waits es"

definition clock_ok :: "int \<Rightarrow> task_clock \<Rightarrow> bool" where
  "clock_ok p c \<longleftrightarrow> ck_period c = p \<and> ck_pll_correction_limit c = p div 100
     \<and> \<bar>ck_pll_correction c\<bar> \<le> p div 100 \<and> normal_time (ck_nextstart c)"

lemma clock_events:
  assumes "clock_ok p c" "0 < p" "p < 2 ^ 62"
  shows "clock_ok p (fold clock_event es c) \<and>
    \<bar>timespec_ns (ck_nextstart (fold clock_event es c)) - timespec_ns (ck_nextstart c) - int (waits es) * p\<bar>
      \<le> int (waits es) * (p div 100)"
  using assms(1)
proof (induction es arbitrary: c)
  case (Cons e es)
  have lim: "0 \<le> p div 100" "p div 100 \<le> p" using assms(2) by simp_all
  show ?case
  proof (cases e)
    case (Wait now)
    let ?n = "p + ck_pll_correction c"
    have c: "ck_period c = p" "\<bar>ck_pll_correction c\<bar> \<le> p div 100" "normal_time (ck_nextstart c)"
      using Cons.prems by (simp_all add: clock_ok_def)
    have n: "0 \<le> ?n" "?n < 2 ^ 64" using c(2) lim assms(3) by simp_all
    note a = timespec_advance_sum [OF c(3) n]
    have "clock_ok p (clock_event e c)"
      using Cons.prems a(1) by (simp add: Wait task_wait_def clock_ok_def Let_def)
    from Cons.IH [OF this] show ?thesis
      using a(2) c by (simp add: Wait task_wait_def Let_def algebra_simps abs_le_iff)
  next
    case (Correct v)
    have "clock_ok p (clock_event e c)"
      using Cons.prems lim by (simp add: Correct task_pll_set_correction_def clock_ok_def Let_def abs_le_iff)
    from Cons.IH [OF this] show ?thesis
      by (simp add: Correct task_pll_set_correction_def Let_def)
  qed
qed simp

text \<open>
  C32: a realtime task keeps its period. The start time a task has computed after any number of waits,
  whenever they were called and whatever corrections were asked for in between, is that many periods
  after its first one, up to one per cent of a period for each wait: being woken late does not add up.
\<close>

theorem task_keeps_time:
  assumes "0 < period" "period < 2 ^ 62" "normal_time now"
  shows "let c = fold clock_event es (task_wrapper now (task_start_clock period c0)) in
    normal_time (ck_nextstart c) \<and>
    \<bar>task_pll_get_reference c - timespec_ns now - int (Suc (waits es)) * period\<bar> \<le> int (waits es) * (period div 100)"
proof -
  let ?c = "task_wrapper now (task_start_clock period c0)"
  have n: "0 \<le> period" "period < 2 ^ 64" using assms(1,2) by simp_all
  note a = timespec_advance_sum [OF assms(3) n]
  have ok: "clock_ok period ?c"
    using a(1) assms(1) by (simp add: task_wrapper_def task_start_clock_def clock_ok_def)
  have "timespec_ns (ck_nextstart ?c) = timespec_ns now + period"
    using a(2) by (simp add: task_wrapper_def task_start_clock_def)
  then show ?thesis
    using clock_events [OF ok assms(1,2), of es]
    by (simp add: Let_def clock_ok_def task_pll_get_reference_def timespec_ns_def ONE_SEC_IN_NS_def algebra_simps)
qed

theorem task_keeps_time_witness:
  "let now = \<lparr>tv_sec = 7, tv_nsec = 999999000\<rparr>;
       c = fold clock_event [Wait now, Correct 500000, Wait now]
             (task_wrapper now (task_start_clock 1000000 \<lparr>ck_period = 0, ck_nextstart = now,
                ck_pll_correction = 0, ck_pll_correction_limit = 0\<rparr>)) in
   normal_time (ck_nextstart c) \<and> \<bar>task_pll_get_reference c - timespec_ns now - 3000000\<bar> \<le> 20000"
  using task_keeps_time [of 1000000 "\<lparr>tv_sec = 7, tv_nsec = 999999000\<rparr>" "[Wait _, Correct 500000, Wait _]"]
  by (simp add: Let_def normal_time_def ONE_SEC_IN_NS_def)

section \<open>Priorities\<close>

definition prio_higher_delta :: "task_os \<Rightarrow> int" where
  "prio_higher_delta os = (if os_prio_highest os > os_prio_lowest os then 1 else - 1)"

definition prio_bound :: "task_os \<Rightarrow> int \<Rightarrow> int" where
  "prio_bound os prio =
     (if os_prio_highest os > os_prio_lowest os then
        (if prio \<ge> os_prio_highest os then os_prio_highest os
         else if prio < os_prio_lowest os then os_prio_lowest os else prio)
      else
        (if prio \<le> os_prio_highest os then os_prio_highest os
         else if prio > os_prio_lowest os then os_prio_lowest os else prio))"

definition prio_next_higher :: "task_os \<Rightarrow> int \<Rightarrow> int" where
  "prio_next_higher os prio =
     (let p = prio_bound os prio in if p \<noteq> os_prio_highest os then p + prio_higher_delta os else p)"

definition prio_next_lower :: "task_os \<Rightarrow> int \<Rightarrow> int" where
  "prio_next_lower os prio =
     (let p = prio_bound os prio in if p \<noteq> os_prio_lowest os then p - prio_higher_delta os else p)"

definition prio_ok :: "task_os \<Rightarrow> int \<Rightarrow> bool" where
  "prio_ok os p \<longleftrightarrow> min (os_prio_lowest os) (os_prio_highest os) \<le> p \<and> p \<le> max (os_prio_lowest os) (os_prio_highest os)"

lemma prio_neighbours:
  shows "prio_ok os (prio_bound os p)" "prio_ok os (prio_next_higher os p)" "prio_ok os (prio_next_lower os p)"
    and "prio_ok os p \<Longrightarrow> prio_bound os p = p"
    and "prio_ok os p \<Longrightarrow> p \<noteq> os_prio_highest os \<Longrightarrow> prio_next_lower os (prio_next_higher os p) = p"
    and "prio_ok os p \<Longrightarrow> p \<noteq> os_prio_lowest os \<Longrightarrow> prio_next_higher os (prio_next_lower os p) = p"
  by (auto simp: prio_ok_def prio_bound_def prio_next_higher_def prio_next_lower_def prio_higher_delta_def Let_def)

text \<open>
  A task is only made with a priority the policy has when the highest is the larger number.
\<close>

lemma task_new_prio:
  assumes "rtapi_task_new tos arg prio owner stacksize uses_fp ts = (n, ts')" "0 \<le> n"
  shows "os_prio_lowest tos \<le> prio \<and> prio \<le> os_prio_highest tos"
  using assms by (auto simp: rtapi_task_new_def RtapiShm.EINVAL_def split: if_splits)

end
