(* ===== verification/RtThread.thy ===== *)
theory RtThread
  imports RtTask
begin

text \<open>
  Threads of the realtime application (\<open>rtapi/uspace_rtapi_app.cpp\<close>): the attributes a thread is created with, the
  processor it is bound to, the lock that runs the tasks one after the other when the policy is not
  \<open>SCHED_FIFO\<close>, waiting and sleeping, the privileges taken for the time of a call, and the queue of messages. The
  calls of the operating system are answers, the queue of the boost library is a pair of functions.
\<close>

section \<open>Creating threads\<close>

datatype pthread_call = Attr_init | Attr_setstacksize int | Attr_setschedpolicy int | Attr_setschedparam int |
  Attr_setinheritsched | Attr_setaffinity int | Pthread_create | Attr_destroy

definition SCHED_FIFO :: int where "SCHED_FIFO = 1"

text \<open>The calls are made in order until one of them fails; the calls made are part of the result.\<close>

primrec pthread_calls :: "(pthread_call \<Rightarrow> int) \<Rightarrow> pthread_call list \<Rightarrow> int \<times> pthread_call list" where
  "pthread_calls os [] = (0, [])"
| "pthread_calls os (c # cs) =
     (if os c \<noteq> 0 then (os c, [c]) else let (r, made) = pthread_calls os cs in (r, c # made))"

definition create_thread :: "(pthread_call \<Rightarrow> int) \<Rightarrow> int \<Rightarrow> int \<times> pthread_call list" where
  "create_thread os priority =
     (let (r, made) = pthread_calls os [Attr_init, Attr_setschedpolicy SCHED_FIFO, Attr_setschedparam priority,
                                        Attr_setinheritsched, Pthread_create]
      in (r, made @ [Attr_destroy]))"

text \<open>The processors: the set before, and what the two calls that widen and read it again return.\<close>

record cpu_os =
  cp_env :: "int option"
  cp_setsize :: nat
  cp_configured :: nat
  cp_orig :: "int \<times> (nat \<Rightarrow> bool)"
  cp_widen :: int
  cp_again :: "(nat \<Rightarrow> bool) \<Rightarrow> int \<times> (nat \<Rightarrow> bool)"

primrec top_cpu :: "nat \<Rightarrow> (nat \<Rightarrow> bool) \<Rightarrow> int" where
  "top_cpu 0 s = -1"
| "top_cpu (Suc n) s = (if s n then int n else top_cpu n s)"

definition find_rt_cpu_number :: "cpu_os \<Rightarrow> int" where
  "find_rt_cpu_number os =
     (case cp_env os of
        Some n \<Rightarrow> n
      | None \<Rightarrow>
          (case cp_orig os of (r, orig) \<Rightarrow>
             if r < 0 then 0
             else let all = (\<lambda>i. i < cp_configured os \<and> i < cp_setsize os);
                      (r2, again) = cp_again os all;
                      s = (if r2 < 0 then (\<lambda>i. all i \<and> orig i) else again)
                  in top_cpu (cp_setsize os) s))"

definition task_thread_start :: "(pthread_call \<Rightarrow> int) \<Rightarrow> int \<Rightarrow> int \<Rightarrow> int \<Rightarrow> rtapi_task \<Rightarrow> int \<times> pthread_call list" where
  "task_thread_start os policy nprocs cpu t =
     (let (r, made) = pthread_calls os
            ([Attr_init, Attr_setstacksize (tk_stacksize t), Attr_setschedpolicy policy, Attr_setschedparam (tk_prio t),
              Attr_setinheritsched] @
             (if nprocs > 1 \<and> cpu \<noteq> -1 then [Attr_setaffinity cpu] else []) @ [Pthread_create])
      in (- r, made))"

lemma pthread_calls_made:
  "pthread_calls os cs = (r, made) \<Longrightarrow> set made \<subseteq> set cs \<and> (r = 0 \<longrightarrow> made = cs) \<and> (cs \<noteq> [] \<longrightarrow> hd made = hd cs \<and> made \<noteq> [])"
  by (induction cs arbitrary: r made) (auto split: if_splits prod.splits)

lemma pthread_calls_zero: "fst (pthread_calls os cs) = 0 \<longleftrightarrow> (\<forall>c \<in> set cs. os c = 0)"
  by (induction cs) (auto split: prod.splits)

text \<open>\<open>create_thread\<close> gives its attributes back on every path, \<open>task_start\<close> on none.\<close>

lemma create_thread_releases: "count_list (snd (create_thread os p)) Attr_destroy = 1"
proof -
  let ?cs = "[Attr_init, Attr_setschedpolicy SCHED_FIFO, Attr_setschedparam p, Attr_setinheritsched, Pthread_create]"
  obtain r made where m: "pthread_calls os ?cs = (r, made)" by (meson surj_pair)
  have "Attr_destroy \<notin> set made" using pthread_calls_made [OF m] by auto
  then show ?thesis unfolding create_thread_def m Let_def prod.case snd_conv by (simp add: count_list_0_iff)
qed

lemma task_start_keeps: "Attr_destroy \<notin> set (snd (task_thread_start os policy nprocs cpu t))"
proof -
  obtain r made where m: "pthread_calls os
      ([Attr_init, Attr_setstacksize (tk_stacksize t), Attr_setschedpolicy policy, Attr_setschedparam (tk_prio t),
        Attr_setinheritsched] @ (if nprocs > 1 \<and> cpu \<noteq> -1 then [Attr_setaffinity cpu] else []) @ [Pthread_create]) = (r, made)"
    by (meson surj_pair)
  have "Attr_destroy \<notin> set made" using pthread_calls_made [OF m] by (auto split: if_splits)
  then show ?thesis unfolding task_thread_start_def m Let_def prod.case snd_conv .
qed

text \<open>The processor found is the last one of the set, and -1 only for the empty one.\<close>

lemma top_cpu_max:
  "(top_cpu n s = -1 \<longleftrightarrow> (\<forall>i < n. \<not> s i)) \<and>
   (top_cpu n s \<noteq> -1 \<longrightarrow> 0 \<le> top_cpu n s \<and> top_cpu n s < int n \<and> s (nat (top_cpu n s)) \<and> (\<forall>i < n. s i \<longrightarrow> int i \<le> top_cpu n s))"
  by (induction n) (auto simp: less_Suc_eq)

lemma rt_cpu_allowed:
  assumes "cp_env os = None" "cp_orig os = (0, orig)" "fst (cp_again os (\<lambda>i. i < cp_configured os \<and> i < cp_setsize os)) < 0"
    and "find_rt_cpu_number os \<noteq> -1"
  shows "orig (nat (find_rt_cpu_number os)) \<and> nat (find_rt_cpu_number os) < cp_configured os"
proof -
  let ?s = "\<lambda>i. (i < cp_configured os \<and> i < cp_setsize os) \<and> orig i"
  have "find_rt_cpu_number os = top_cpu (cp_setsize os) ?s"
    using assms(1-3) by (cases "cp_again os (\<lambda>i. i < cp_configured os \<and> i < cp_setsize os)")
      (simp add: find_rt_cpu_number_def Let_def conj_assoc)
  with assms(4) top_cpu_max [of "cp_setsize os" ?s] show ?thesis by simp
qed

section \<open>Sleeping\<close>

definition timespecsub :: "timespec \<Rightarrow> timespec \<Rightarrow> timespec" where
  "timespecsub t u =
     (if tv_nsec t - tv_nsec u < 0
      then \<lparr>tv_sec = tv_sec t - tv_sec u - 1, tv_nsec = tv_nsec t - tv_nsec u + 1000000000\<rparr>
      else \<lparr>tv_sec = tv_sec t - tv_sec u, tv_nsec = tv_nsec t - tv_nsec u\<rparr>)"

definition TIMER_ABSTIME :: int where "TIMER_ABSTIME = 1"

text \<open>Without \<open>clock_nanosleep\<close>: the time asked of \<open>nanosleep\<close>, or the result without sleeping.\<close>

definition rtapi_clock_nanosleep ::
  "(timespec \<Rightarrow> int) \<Rightarrow> int \<times> timespec \<Rightarrow> int \<Rightarrow> timespec \<Rightarrow> timespec option \<Rightarrow> int \<times> timespec option" where
  "rtapi_clock_nanosleep nanosleep clock flags request pnow =
     (if flags = 0 then (nanosleep request, Some request)
      else if flags \<noteq> TIMER_ABSTIME then (-1, None)
      else (case (pnow, clock) of
              (None, (r, now)) \<Rightarrow>
                if r < 0 then (r, None) else (nanosleep (timespecsub request now), Some (timespecsub request now))
            | (Some now, _) \<Rightarrow> (nanosleep (timespecsub request now), Some (timespecsub request now))))"

lemma timespecsub_difference:
  assumes "normal_time t" "normal_time u"
  shows "normal_time (timespecsub t u)" "timespec_ns (timespecsub t u) = timespec_ns t - timespec_ns u"
  using assms by (auto simp: normal_time_def timespecsub_def timespec_ns_def ONE_SEC_IN_NS_def algebra_simps)

text \<open>A wait for an absolute time sleeps for what is left of it.\<close>

lemma absolute_sleep_length:
  assumes "normal_time request" "normal_time now"
  shows "map_option timespec_ns (snd (rtapi_clock_nanosleep nanosleep clock TIMER_ABSTIME request (Some now))) =
    Some (timespec_ns request - timespec_ns now)"
  using timespecsub_difference [OF assms] by (simp add: rtapi_clock_nanosleep_def TIMER_ABSTIME_def)

section \<open>Running tasks one after the other\<close>

text \<open>
  A task is started, then in its function or in \<open>wait\<close>. With the lock, the function runs only while the task holds
  it; \<open>wait\<close> gives it back and takes it again at its end.
\<close>

datatype place = Started | In_function | In_wait | Ended

record posix_app =
  px_lock :: bool
  px_holder :: "nat option"
  px_at :: "nat \<Rightarrow> place"

definition make_posix :: "int \<Rightarrow> posix_app" where
  "make_posix policy = \<lparr>px_lock = (policy \<noteq> SCHED_FIFO), px_holder = None, px_at = (\<lambda>_. Started)\<rparr>"

definition makeApp :: posix_app where "makeApp = make_posix SCHED_FIFO"

definition can_lock :: "posix_app \<Rightarrow> bool" where
  "can_lock s \<longleftrightarrow> px_lock s \<longrightarrow> px_holder s = None"

definition take_lock :: "nat \<Rightarrow> posix_app \<Rightarrow> posix_app" where
  "take_lock i s = s\<lparr>px_holder := (if px_lock s then Some i else px_holder s), px_at := (px_at s)(i := In_function)\<rparr>"

definition give_lock :: "nat \<Rightarrow> posix_app \<Rightarrow> posix_app" where
  "give_lock i s = s\<lparr>px_holder := (if px_lock s then None else px_holder s), px_at := (px_at s)(i := In_wait)\<rparr>"

inductive posix_step :: "posix_app \<Rightarrow> posix_app \<Rightarrow> bool" where
  wrapper: "px_at s i = Started \<Longrightarrow> can_lock s \<Longrightarrow> posix_step s (take_lock i s)"
| wait_begin: "px_at s i = In_function \<Longrightarrow> posix_step s (give_lock i s)"
| wait_end: "px_at s i = In_wait \<Longrightarrow> can_lock s \<Longrightarrow> posix_step s (take_lock i s)"
| task_returns: "px_at s i = In_function \<Longrightarrow> posix_step s (s\<lparr>px_at := (px_at s)(i := Ended)\<rparr>)"

definition lock_held :: "posix_app \<Rightarrow> bool" where
  "lock_held s \<longleftrightarrow> px_lock s \<longrightarrow> (\<forall>i. px_at s i = In_function \<longrightarrow> px_holder s = Some i)"

lemma held_unique: "lock_held s \<Longrightarrow> px_lock s \<Longrightarrow> px_at s i = In_function \<Longrightarrow> px_at s j = In_function \<Longrightarrow> i = j"
  unfolding lock_held_def by (metis option.inject)

lemma take_lock_held:
  assumes "lock_held s" "can_lock s"
  shows "lock_held (take_lock i s)"
proof (cases "px_lock s")
  case True
  with assms have "px_at s j \<noteq> In_function" for j unfolding lock_held_def can_lock_def by (metis option.distinct(1))
  then show ?thesis by (simp add: lock_held_def take_lock_def)
qed (simp add: lock_held_def take_lock_def)

lemma give_lock_held:
  assumes "lock_held s" "px_at s i = In_function"
  shows "lock_held (give_lock i s)"
proof (cases "px_lock s")
  case True
  with assms have "px_at s j \<noteq> In_function" if "j \<noteq> i" for j using held_unique that by blast
  then show ?thesis by (simp add: lock_held_def give_lock_def)
qed (simp add: lock_held_def give_lock_def)

lemma posix_step_held: "posix_step s t \<Longrightarrow> lock_held s \<Longrightarrow> lock_held t \<and> px_lock t = px_lock s"
proof (induction rule: posix_step.induct)
  case (task_returns s i)
  then have "px_lock s \<longrightarrow> (\<forall>j. j \<noteq> i \<longrightarrow> px_at s j \<noteq> In_function)" using held_unique by blast
  then show ?case by (simp add: lock_held_def)
qed (simp_all add: take_lock_held give_lock_held, simp_all add: take_lock_def give_lock_def)

lemma one_task_at_a_time:
  assumes "posix_step\<^sup>*\<^sup>* (make_posix policy) s" "policy \<noteq> SCHED_FIFO" "px_at s i = In_function" "px_at s j = In_function"
  shows "i = j"
proof -
  from assms(1) have "lock_held s \<and> px_lock s = (policy \<noteq> SCHED_FIFO)"
  proof (induction rule: rtranclp_induct)
    case base
    show ?case by (simp add: make_posix_def lock_held_def)
  qed (use posix_step_held in blast)
  with assms(2-4) show ?thesis using held_unique by blast
qed

text \<open>The function of a task never returns with the lock given back: a task that ends keeps every other out.\<close>

lemma ended_task_blocks:
  assumes "posix_step s t" "px_lock s" "px_holder s = Some i" "px_at s i = Ended" "\<forall>j. px_at s j \<noteq> In_function"
  shows False
  using assms by cases (auto simp: can_lock_def)

text \<open>\<open>Posix::wait\<close>: whether the task was late, and whether this is the first time that is reported.\<close>

definition posix_wait :: "int \<Rightarrow> timespec \<Rightarrow> bool \<times> task_clock \<Rightarrow> bool \<times> bool \<times> task_clock" where
  "posix_wait policy now = (\<lambda>(printed, c).
     let (sleeps, c1) = task_wait now c;
         warns = (\<not> sleeps \<and> policy = SCHED_FIFO)
     in (warns \<and> \<not> printed, printed \<or> warns, c1))"

definition ENOSYS :: int where "ENOSYS = 38"

definition task_pause :: "int \<Rightarrow> int" where "task_pause i = - ENOSYS"
definition task_resume :: "int \<Rightarrow> int" where "task_resume i = - ENOSYS"

definition task_self :: "int option \<Rightarrow> int" where
  "task_self key = (case key of None \<Rightarrow> - EINVAL | Some i \<Rightarrow> i)"

primrec warnings :: "int \<Rightarrow> timespec list \<Rightarrow> bool \<times> task_clock \<Rightarrow> nat" where
  "warnings policy [] pc = 0"
| "warnings policy (now # ts) pc =
     (case posix_wait policy now pc of (w, pc1) \<Rightarrow> (if w then 1 else 0) + warnings policy ts pc1)"

lemma warned_once: "warnings policy ts pc \<le> (if fst pc then 0 else 1)"
proof (induction ts arbitrary: pc)
  case (Cons now ts)
  obtain w p c where w: "posix_wait policy now pc = (w, p, c)" by (metis prod_cases3)
  have "w \<longrightarrow> \<not> fst pc \<and> p" "fst pc \<longrightarrow> p" using w by (auto simp: posix_wait_def Let_def split: prod.splits)
  with Cons [of "(p, c)"] w show ?case by (auto split: if_splits)
qed simp

section \<open>Privileges\<close>

text \<open>The level is counted for the process, but \<open>setfsuid\<close> changes the user of the calling thread only.\<close>

record fs_user =
  fu_level :: int
  fu_uid :: "nat \<Rightarrow> int"

definition WithRoot_enter :: "int \<Rightarrow> nat \<Rightarrow> fs_user \<Rightarrow> fs_user" where
  "WithRoot_enter euid i s =
     (let s1 = s\<lparr>fu_level := fu_level s + 1\<rparr> in
      if fu_level s = 0 then s1\<lparr>fu_uid := (fu_uid s1)(i := euid)\<rparr> else s1)"

definition WithRoot_leave :: "int \<Rightarrow> nat \<Rightarrow> fs_user \<Rightarrow> fs_user" where
  "WithRoot_leave ruid i s =
     (let s1 = s\<lparr>fu_level := fu_level s - 1\<rparr> in
      if fu_level s1 = 0 then s1\<lparr>fu_uid := (fu_uid s1)(i := ruid)\<rparr> else s1)"

inductive alone :: "int \<Rightarrow> int \<Rightarrow> nat \<Rightarrow> fs_user \<Rightarrow> fs_user \<Rightarrow> bool" for euid ruid i where
  none: "alone euid ruid i s s"
| enter: "alone euid ruid i s t \<Longrightarrow> alone euid ruid i s (WithRoot_enter euid i t)"
| leave: "alone euid ruid i s t \<Longrightarrow> 0 < fu_level t \<Longrightarrow> alone euid ruid i s (WithRoot_leave ruid i t)"

lemma alone_privileged:
  assumes "alone euid ruid i s t" "fu_level s = 0" "fu_uid s i = ruid"
  shows "0 \<le> fu_level t \<and> fu_uid t i = (if fu_level t = 0 then ruid else euid)"
  using assms by (induction rule: alone.induct) (auto simp: WithRoot_enter_def WithRoot_leave_def Let_def split: if_splits)

text \<open>Two threads: the second one to enter does not get the user, and the first one to leave keeps it.\<close>

lemma second_not_privileged:
  assumes "fu_level s = 0" "fu_uid s = (\<lambda>_. ruid)" "i \<noteq> j"
  shows "fu_uid (WithRoot_enter euid j (WithRoot_enter euid i s)) j = ruid"
    and "fu_uid (WithRoot_leave ruid j (WithRoot_leave ruid i (WithRoot_enter euid j (WithRoot_enter euid i s)))) i = euid"
  using assms by (simp_all add: WithRoot_enter_def WithRoot_leave_def Let_def)

section \<open>Messages\<close>

datatype msg_level = RTAPI_MSG_NONE | RTAPI_MSG_ERR | RTAPI_MSG_WARN | RTAPI_MSG_INFO | RTAPI_MSG_DBG | RTAPI_MSG_ALL

text \<open>The levels are ordered as their C numbers.\<close>

primrec level_code :: "msg_level \<Rightarrow> nat" where
  "level_code RTAPI_MSG_NONE = 0"
| "level_code RTAPI_MSG_ERR = 1"
| "level_code RTAPI_MSG_WARN = 2"
| "level_code RTAPI_MSG_INFO = 3"
| "level_code RTAPI_MSG_DBG = 4"
| "level_code RTAPI_MSG_ALL = 5"

lemma level_code_inject: "level_code a = level_code b \<Longrightarrow> a = b"
  by (cases a; cases b) simp_all

instantiation msg_level :: linorder
begin

definition less_eq_msg_level :: "msg_level \<Rightarrow> msg_level \<Rightarrow> bool" where
  "less_eq_msg_level a b \<longleftrightarrow> level_code a \<le> level_code b"

definition less_msg_level :: "msg_level \<Rightarrow> msg_level \<Rightarrow> bool" where
  "less_msg_level a b \<longleftrightarrow> level_code a < level_code b"

instance
  by standard (auto simp: less_eq_msg_level_def less_msg_level_def level_code_inject)

end

lemma level_le_all [simp]: "a \<le> RTAPI_MSG_ALL"
  by (cases a) (simp_all add: less_eq_msg_level_def)

type_synonym message = "msg_level \<times> string"

definition MSG_SIZE :: nat where "MSG_SIZE = 1024 - 4"

definition make_message :: "msg_level \<Rightarrow> string \<Rightarrow> message" where
  "make_message level txt = (level, take (MSG_SIZE - 1) txt)"

datatype out_stream = Stdout | Stderr

definition put_message :: "message \<Rightarrow> out_stream \<times> string" where
  "put_message m = (if fst m = RTAPI_MSG_ALL then Stdout else Stderr, snd m)"

definition default_rtapi_msg_handler :: "(message \<Rightarrow> 'q \<Rightarrow> 'q) \<Rightarrow> msg_level \<Rightarrow> string \<Rightarrow> 'q \<Rightarrow> 'q" where
  "default_rtapi_msg_handler push level txt q = push (make_message level txt) q"

definition default_msg_handler :: "msg_level \<Rightarrow> string \<Rightarrow> out_stream \<times> string" where
  "default_msg_handler level txt = put_message (make_message level txt)"

text \<open>The level that is set, \<open>RTAPI_MSG_ALL\<close> at first, is not looked at.\<close>

definition rtapi_print_msg :: "msg_level \<Rightarrow> (message \<Rightarrow> 'q \<Rightarrow> 'q) \<Rightarrow> msg_level \<Rightarrow> string \<Rightarrow> 'q \<Rightarrow> 'q" where
  "rtapi_print_msg msg_level push level txt q = default_rtapi_msg_handler push level txt q"

definition print_msg :: "msg_level \<Rightarrow> string \<Rightarrow> out_stream \<times> string" where
  "print_msg level txt = default_msg_handler level txt"

text \<open>Only the highest level goes to the standard output.\<close>

lemma put_message_stream: "fst (put_message m) = Stdout \<longleftrightarrow> RTAPI_MSG_ALL \<le> fst m"
  by (cases "fst m") (simp_all add: put_message_def less_eq_msg_level_def)

text \<open>One round of \<open>queue_function\<close>, which is also the end of \<open>stopprintf\<close>.\<close>

definition queue_round :: "('q \<Rightarrow> message list \<times> 'q) \<Rightarrow> 'q \<Rightarrow> (out_stream \<times> string) list \<times> 'q" where
  "queue_round consume_all q = (let (ms, q1) = consume_all q in (map put_message ms, q1))"

definition printfMaster :: "int \<Rightarrow> int" where
  "printfMaster created = (if created \<noteq> 0 then -1 else created)"

text \<open>With a queue that keeps its messages in order, a round prints what was sent, as the direct handler does.\<close>

lemma queue_prints_all:
  assumes "\<And>m q. content (push m q) = content q @ [m]" "\<And>q. fst (consume_all q) = content q" "content q = []"
  shows "fst (queue_round consume_all (fold (\<lambda>(l, s). default_rtapi_msg_handler push l s) ms q)) =
    map (\<lambda>(l, s). default_msg_handler l s) ms"
proof -
  have "content (fold (\<lambda>(l, s). default_rtapi_msg_handler push l s) ms q) = content q @ map (\<lambda>(l, s). make_message l s) ms" for q
    by (induction ms arbitrary: q) (auto simp: default_rtapi_msg_handler_def assms(1))
  then show ?thesis
    using assms(2) [of "fold (\<lambda>(l, s). default_rtapi_msg_handler push l s) ms q"] assms(3)
    by (auto simp: queue_round_def default_msg_handler_def split: prod.splits)
qed

end
