(* ===== verification/Servo.thy ===== *)
theory Servo
  imports Control
begin

text \<open>
  The servo drives, \<open>hal/ServoEnable.c\<close> and \<open>hal/servo_priv.h\<close>: the cyclic function that exchanges positions
  with the controller, the synchronisation of the cycle with the clock of the network, the check that brings
  slaves back, the bring-up of the network, and the process data a drive is set up for. The EtherCAT library
  is a parameter: what its calls answer and what they do to a slave. The floating point gains are reals, and
  the 64-bit sums of the synchronisation are integers.
\<close>

section \<open>Synchronisation with the distributed clock\<close>

definition pgain :: real where "pgain = 1 / 100"
definition igain :: real where "igain = 2 / 100000"
definition syncoffset :: int where "syncoffset = 500"

record sync_state =
  sy_integral :: int
  sy_timeerror :: int

definition sync_delta :: "int \<Rightarrow> int \<Rightarrow> int" where
  "sync_delta reftime cycletime =
     (let delta = (reftime - syncoffset) smod cycletime in
      if delta > cycletime sdiv 2 then delta - cycletime else delta)"

definition ec_sync :: "int \<Rightarrow> int \<Rightarrow> sync_state \<Rightarrow> int \<times> sync_state" where
  "ec_sync reftime cycletime s =
     (let err = - sync_delta reftime cycletime; integral = sy_integral s + err in
      (r_trunc (of_int err * pgain + of_int integral * igain), \<lparr>sy_integral = integral, sy_timeerror = err\<rparr>))"

text \<open>
  The error is the shortest way to the next or the last synchronisation point; times before the first one
  are not folded into that range.
\<close>

lemma sync_delta_near:
  assumes "0 < cycletime" "syncoffset \<le> reftime"
  shows "2 * \<bar>sync_delta reftime cycletime\<bar> \<le> cycletime"
    and "cycletime dvd reftime - syncoffset - sync_delta reftime cycletime"
proof -
  let ?m = "(reftime - syncoffset) mod cycletime"
  have m: "(reftime - syncoffset) smod cycletime = ?m" "0 \<le> ?m" "?m < cycletime"
    using assms by (simp_all add: smod_nonneg)
  have d: "cycletime sdiv 2 = cycletime div 2" using assms(1) by (simp add: signed_divide_int_def)
  show "2 * \<bar>sync_delta reftime cycletime\<bar> \<le> cycletime"
    using m by (auto simp: sync_delta_def d Let_def)
  have "cycletime dvd reftime - syncoffset - ?m" by (simp add: minus_mod_eq_mult_div)
  moreover have "reftime - syncoffset - (?m - cycletime) = (reftime - syncoffset - ?m) + cycletime" by simp
  ultimately show "cycletime dvd reftime - syncoffset - sync_delta reftime cycletime"
    unfolding sync_delta_def m(1) Let_def using dvd_add [of cycletime "reftime - syncoffset - ?m" cycletime]
    by (auto simp: algebra_simps)
qed

lemma ec_sync_in_phase:
  assumes "0 < cycletime" "syncoffset \<le> reftime" "cycletime dvd reftime - syncoffset"
  shows "ec_sync reftime cycletime s = (r_trunc (of_int (sy_integral s) * igain), s\<lparr>sy_timeerror := 0\<rparr>)"
proof -
  have "(reftime - syncoffset) smod cycletime = 0" using assms by (simp add: smod_nonneg dvd_imp_mod_0)
  moreover have "0 \<le> cycletime sdiv 2" using assms(1) by (simp add: signed_divide_int_def)
  ultimately have "sync_delta reftime cycletime = 0" by (simp add: sync_delta_def Let_def)
  then show ?thesis by (simp add: ec_sync_def Let_def)
qed

section \<open>The cyclic exchange\<close>

record motor_out =
  mo_controlword :: "16 word"
  mo_workModeOut :: "8 word"
  mo_PPtargetPosition :: int

record motor_in =
  mi_statusword :: "16 word"
  mi_workModeIn :: "8 word"
  mi_actualPosition :: int

record servo_state =
  sv_firstflag :: bool
  sv_motoro :: "motor_out list"
  sv_motori :: "motor_in list"

text \<open>
  The first call puts every axis at position 400000000; each call copies the actual position of every axis,
  which the controller itself has stored, to the feedback pin and to the planner of the axis.
\<close>

definition servo_first :: "nat \<Rightarrow> servo_state \<times> 'tc mot_state \<Rightarrow> servo_state \<times> 'tc mot_state" where
  "servo_first i = (\<lambda>(s, g).
     (s\<lparr>sv_motoro := (sv_motoro s)[i := (sv_motoro s ! i)\<lparr>mo_PPtargetPosition := 400000000\<rparr>],
        sv_motori := (sv_motori s)[i := (sv_motori s ! i)\<lparr>mi_actualPosition := 400000000\<rparr>]\<rparr>,
      upd_axis i (\<lambda>a. a\<lparr>ax_pos_cmd := 400000000, ax_pos_fb := 400000000, ax_coarse_pos := 400000000\<rparr>)
        (g\<lparr>g_actpos := (g_actpos g)[i := 400000000], g_targetpos := (g_targetpos g)[i := 400000000]\<rparr>)))"

definition servo_exchange :: "nat \<Rightarrow> servo_state \<times> 'tc mot_state \<Rightarrow> servo_state \<times> 'tc mot_state" where
  "servo_exchange i = (\<lambda>(s, g).
     let act = s32 (g_actpos g ! i); tgt = s32 (g_targetpos g ! i) in
     (s\<lparr>sv_motori := (sv_motori s)[i := (sv_motori s ! i)\<lparr>mi_actualPosition := act\<rparr>],
        sv_motoro := (sv_motoro s)[i := (sv_motoro s ! i)\<lparr>mo_PPtargetPosition := tgt\<rparr>]\<rparr>,
      upd_axis_hal i (\<lambda>h. h\<lparr>ah_motor_pos_fb := act\<rparr>)
        (upd_axis i (\<lambda>a. a\<lparr>ax_free_tp := (ax_free_tp a)\<lparr>tp_curr_pos := act\<rparr>\<rparr>)
          (g\<lparr>g_actpos := (g_actpos g)[i := act], g_targetpos := (g_targetpos g)[i := tgt]\<rparr>))))"

definition ecatthread :: "int \<Rightarrow> servo_state \<times> 'tc mot_state \<Rightarrow> (servo_state \<times> 'tc mot_state) option" where
  "ecatthread num_axis sg =
     (if num_axis > int EMCMOT_MAX_AXIS then None
      else let sg1 = (if sv_firstflag (fst sg) then sg
                      else map_prod (\<lambda>s. s\<lparr>sv_firstflag := True\<rparr>) id (fold servo_first [0..<nat num_axis] sg))
           in Some (fold servo_exchange [0..<nat num_axis] sg1))"

section \<open>The network\<close>

definition EC_STATE_NONE :: int where "EC_STATE_NONE = 0x00"
definition EC_STATE_INIT :: int where "EC_STATE_INIT = 0x01"
definition EC_STATE_PRE_OP :: int where "EC_STATE_PRE_OP = 0x02"
definition EC_STATE_SAFE_OP :: int where "EC_STATE_SAFE_OP = 0x04"
definition EC_STATE_OPERATIONAL :: int where "EC_STATE_OPERATIONAL = 0x08"
definition EC_STATE_ACK :: int where "EC_STATE_ACK = 0x10"
definition EC_STATE_ERROR :: int where "EC_STATE_ERROR = 0x10"

lemmas ec_state_defs = EC_STATE_NONE_def EC_STATE_INIT_def EC_STATE_PRE_OP_def EC_STATE_SAFE_OP_def
  EC_STATE_OPERATIONAL_def EC_STATE_ACK_def EC_STATE_ERROR_def

record ec_slave =
  es_state :: int
  es_group :: int
  es_islost :: bool
  es_inputs :: "8 word list"

text \<open>What the calls of the library do to the slave they are given.\<close>

record ec_lib =
  ec_reconfig_slave :: "ec_slave \<Rightarrow> int \<times> ec_slave"
  ec_statecheck :: "ec_slave \<Rightarrow> ec_slave"
  ec_recover_slave :: "ec_slave \<Rightarrow> int \<times> ec_slave"

text \<open>The slave that is not operational: the state written to it, if any, and its entry in the table.\<close>

definition check_not_op :: "ec_lib \<Rightarrow> ec_slave \<Rightarrow> int option \<times> ec_slave" where
  "check_not_op lib s =
     (if es_state s = EC_STATE_SAFE_OP + EC_STATE_ERROR
      then (Some (EC_STATE_SAFE_OP + EC_STATE_ACK), s\<lparr>es_state := EC_STATE_SAFE_OP + EC_STATE_ACK\<rparr>)
      else if es_state s = EC_STATE_SAFE_OP
      then (Some EC_STATE_OPERATIONAL, s\<lparr>es_state := EC_STATE_OPERATIONAL\<rparr>)
      else if es_state s > EC_STATE_NONE then
        (let (r, s1) = ec_reconfig_slave lib s in
         (None, if r \<ge> EC_STATE_PRE_OP then s1\<lparr>es_islost := False\<rparr> else s1))
      else if \<not> es_islost s then
        (let s1 = ec_statecheck lib s in
         (None, if es_state s1 = EC_STATE_NONE
                then s1\<lparr>es_islost := True, es_inputs := replicate (length (es_inputs s1)) 0\<rparr> else s1))
      else (None, s))"

definition check_lost :: "ec_lib \<Rightarrow> ec_slave \<Rightarrow> ec_slave" where
  "check_lost lib s =
     (if \<not> es_islost s then s
      else if es_state s \<le> EC_STATE_INIT then
        (let (r, s1) = ec_recover_slave lib s in if r \<noteq> 0 then s1\<lparr>es_islost := False\<rparr> else s1)
      else s\<lparr>es_islost := False\<rparr>)"

definition check_slave :: "ec_lib \<Rightarrow> int \<Rightarrow> ec_slave \<Rightarrow> bool \<times> int option \<times> ec_slave" where
  "check_slave lib currentgroup s =
     (if es_group s = currentgroup \<and> es_state s \<noteq> EC_STATE_OPERATIONAL
      then (let (w, s1) = check_not_op lib s in (True, w, check_lost lib s1))
      else (False, None, check_lost lib s))"

record ecat_net =
  en_dorun :: bool
  en_inOP :: bool
  en_currentgroup :: int
  en_docheckstate :: bool
  en_dowkccheck :: int
  en_slave :: "ec_slave list"

text \<open>
  \<open>ecatcheck\<close>, given the states \<open>ec_readstate\<close> reads: the loop is over slave 1 only. The requests written
  are returned.
\<close>

definition ecatcheck :: "ec_lib \<Rightarrow> (nat \<Rightarrow> int) \<Rightarrow> ecat_net \<Rightarrow> int option \<times> ecat_net" where
  "ecatcheck lib readstate n =
     (if \<not> en_dorun n \<or> \<not> en_inOP n then (None, n)
      else let slaves = map (\<lambda>i. (en_slave n ! i)\<lparr>es_state := readstate i\<rparr>) [0..<length (en_slave n)];
               (docheck, w, s) = check_slave lib (en_currentgroup n) (slaves ! 1)
           in (w, n\<lparr>en_docheckstate := docheck, en_dowkccheck := 0, en_slave := slaves[1 := s]\<rparr>))"

text \<open>
  \<open>ecatbringup\<close>: what opening the interface and the configuration answer, and the state of the network after
  each attempt of the loop that waits for it, without limit.
\<close>

partial_function (option) await_operational :: "(nat \<Rightarrow> int) \<Rightarrow> nat \<Rightarrow> nat option" where
  "await_operational st k =
     (if st k \<noteq> EC_STATE_OPERATIONAL then await_operational st (Suc k) else Some k)"

definition ecatbringup ::
  "int \<Rightarrow> int \<Rightarrow> (nat \<Rightarrow> int) \<Rightarrow> ecat_net \<times> int \<times> 'tc mot_state \<Rightarrow> (int \<times> ecat_net \<times> int \<times> 'tc mot_state) option" where
  "ecatbringup ec_init ec_config_init st = (\<lambda>(n, num_axis, g).
     if ec_init = 0 then Some (-1, n, num_axis, g)
     else let wkc = ec_config_init in
       if wkc \<le> 0 then Some (-2, n, num_axis, g)
       else case await_operational st 0 of
         None \<Rightarrow> None
       | Some k \<Rightarrow>
           if wkc > int EMCMOT_MAX_AXIS then None
           else Some (wkc, n\<lparr>en_dorun := True, en_inOP := True\<rparr>, wkc,
             fold (\<lambda>i g. upd_axis_hal i (\<lambda>h. h\<lparr>ah_amp_enable := True\<rparr>) (upd_axis i (\<lambda>a. a\<lparr>ax_flag := 1\<rparr>) g))
               [0..<nat wkc] g))"

section \<open>The process data of a drive\<close>

text \<open>The objects of the packed structures and their sizes in bytes.\<close>

definition Motor_Out_layout :: "(int \<times> int) list" where
  "Motor_Out_layout = [(0x6040, 2), (0x6060, 1), (0x607A, 4)]"

definition Motor_In_layout :: "(int \<times> int) list" where
  "Motor_In_layout = [(0x6041, 2), (0x6061, 1), (0x6064, 4)]"

text \<open>A write of a service data object: index, subindex, size and value.\<close>

record sdo =
  sd_index :: int
  sd_sub :: int
  sd_size :: int
  sd_value :: int

definition pdo_writes :: "sdo list" where
  "pdo_writes = map (\<lambda>(i, s, n, v). \<lparr>sd_index = i, sd_sub = s, sd_size = n, sd_value = v\<rparr>)
     [(0x1c12, 0, 1, 0),
      (0x1600, 0, 1, 0), (0x1600, 1, 4, 0x60400010), (0x1600, 2, 4, 0x60600008), (0x1600, 3, 4, 0x607A0020),
      (0x1600, 0, 1, 3), (0x1c12, 1, 2, 0x1600), (0x1c12, 0, 1, 1),
      (0x1c13, 0, 1, 0),
      (0x1A00, 0, 1, 0), (0x1A00, 1, 4, 0x60410010), (0x1A00, 2, 4, 0x60610008), (0x1A00, 3, 4, 0x60640020),
      (0x1A00, 0, 1, 3), (0x1c13, 1, 2, 0x1A00), (0x1c13, 0, 1, 1)]"

text \<open>The results are summed up and printed, and the call returns 1 whatever they are.\<close>

definition Motor_PDO_setup :: "(sdo \<Rightarrow> 'd \<Rightarrow> int \<times> 'd) \<Rightarrow> 'd \<Rightarrow> int \<times> 'd" where
  "Motor_PDO_setup ec_SDOwrite d = (1, fold (\<lambda>w d. snd (ec_SDOwrite w d)) pdo_writes d)"

text \<open>\<open>read_status_word\<close> reads object 6061; what a read answers is a parameter.\<close>

definition read_status_word :: "(int \<Rightarrow> int \<times> int) \<Rightarrow> int" where
  "read_status_word ec_SDOread = (let (retval, v) = ec_SDOread 0x6061 in if retval = 0 then 0xFFFF else v)"

end
