(* ===== verification/ServoLoop.thy ===== *)
theory ServoLoop
  imports Servo ControlModes
begin

text \<open>
  The servo cycle closed through the drives: the controller stores the position it has commanded as the actual
  position (\<open>atomic_actpos\<close>), and \<open>ecatthread\<close> hands it back as feedback. For an active axis without motor
  offset the following error is therefore zero in every cycle, whatever the planners do.
\<close>

section \<open>The stored position through a cycle\<close>

definition pos_stored :: "nat \<Rightarrow> 'tc mot_state \<Rightarrow> bool" where
  "pos_stored n g \<longleftrightarrow> g_actpos g ! n = ax_pos_cmd (g_axes g ! n)"

lemma cores_coarse [simp]:
  "axis_core (a\<lparr>ax_coarse_pos := p\<rparr>) = axis_core a" "axis_core (a\<lparr>ax_acc_limit := p\<rparr>) = axis_core a"
  by (simp_all add: axis_core_def GET_AXIS_ACTIVE_FLAG_def)

lemma fold_actpos: "(\<And>n g. g_actpos (f n g) = g_actpos g) \<Longrightarrow> g_actpos (fold f ns g) = g_actpos g"
  by (induction ns arbitrary: g) simp_all

lemma inputs_actpos:
  "g_actpos (process_inputs g) = g_actpos g" "g_actpos (handle_interpolation g) = g_actpos g"
  by (simp_all add: process_inputs_def handle_interpolation_def Let_def fold_actpos)

lemma faults_actpos:
  assumes "check_for_faults g = Some g'"
  shows "g_actpos g' = g_actpos g" "cores g' = cores g" "g_hal g' = g_hal g"
proof -
  have c: "g_actpos (check_axis_faults n h) = g_actpos h" "cores (check_axis_faults n h) = cores h"
    "g_hal (check_axis_faults n h) = g_hal h" for n and h :: "'a mot_state"
    by (simp_all add: check_axis_faults_def Let_def set_enabling_def cores_upd_axis)
  show "g_actpos g' = g_actpos g" "cores g' = cores g" "g_hal g' = g_hal g"
    using assms by (auto simp: check_for_faults_def Let_def c set_enabling_def split: if_splits)
qed

lemma mode_actpos: "g_actpos (set_operating_mode g) = g_actpos g"
  by (simp add: set_operating_mode_def mode_disable_def mode_enable_def mode_coord_def mode_free_def Let_def
    fold_actpos split: prod.split)

section \<open>The position commands\<close>

lemma free_step_other: "m \<noteq> n \<Longrightarrow> g_axes (free_step m g) ! n = g_axes g ! n"
  "m \<noteq> n \<Longrightarrow> g_actpos (free_step m g) ! n = g_actpos g ! n"
  by (simp_all add: free_step_def Let_def upd_axis_def)

lemma free_step_self:
  assumes "n < length (g_axes g)" "n < length (g_actpos g)" "GET_AXIS_ACTIVE_FLAG (g_axes g ! n)"
  shows "pos_stored n (free_step n g)"
  using assms
  by (simp add: pos_stored_def free_step_def Let_def free_axis_def SET_AXIS_INPOS_FLAG_def upd_axis_def)

lemma free_step_frame:
  "length (g_axes (free_step m g)) = length (g_axes g)" "length (g_actpos (free_step m g)) = length (g_actpos g)"
  by (simp_all add: free_step_def Let_def upd_axis_def)

lemma fold_free_step:
  assumes "distinct ns" "n \<in> set ns" "n < length (g_axes g)" "n < length (g_actpos g)" "GET_AXIS_ACTIVE_FLAG (g_axes g ! n)"
  shows "pos_stored n (fold free_step ns g)"
  using assms
proof (induction ns arbitrary: g)
  case (Cons m ns)
  have keep: "pos_stored n (fold free_step ns h)" if "n \<notin> set ns" "pos_stored n h" for ns and h :: "'a mot_state"
    using that by (induction ns arbitrary: h) (simp_all add: pos_stored_def free_step_other)
  show ?case
  proof (cases "m = n")
    case True
    with Cons.prems keep [of ns "free_step n g"] show ?thesis by (simp add: free_step_self)
  next
    case False
    with Cons.prems Cons.IH [of "free_step m g"] show ?thesis by (simp add: free_step_other free_step_frame)
  qed
qed simp

lemma coord_axis_step:
  assumes "coord_axis m g = Some g'"
  shows "m \<noteq> n \<Longrightarrow> g_axes g' ! n = g_axes g ! n \<and> g_actpos g' ! n = g_actpos g ! n"
    and "length (g_axes g') = length (g_axes g) \<and> length (g_actpos g') = length (g_actpos g)"
    and "n < length (g_axes g) \<Longrightarrow> n < length (g_actpos g) \<Longrightarrow> GET_AXIS_ACTIVE_FLAG (g_axes g ! n) \<Longrightarrow> m = n \<Longrightarrow> pos_stored n g'"
  using assms
  by (auto simp: coord_axis_def upd_axis_def pos_stored_def split: if_splits prod.splits option.splits)

lemma fold_coord_none: "fold (\<lambda>n r. Option.bind r (coord_axis n)) ns None = None"
  by (induction ns) simp_all

lemma fold_coord_axis:
  assumes "fold (\<lambda>n r. Option.bind r (coord_axis n)) ns (Some g) = Some g'" "distinct ns" "n \<in> set ns"
    "n < length (g_axes g)" "n < length (g_actpos g)" "GET_AXIS_ACTIVE_FLAG (g_axes g ! n)"
  shows "pos_stored n g'"
  using assms
proof (induction ns arbitrary: g)
  case (Cons m ns)
  obtain h where h: "coord_axis m g = Some h" "fold (\<lambda>n r. Option.bind r (coord_axis n)) ns (Some h) = Some g'"
    using Cons.prems(1) by (cases "coord_axis m g") (simp_all add: fold_coord_none)
  have keep: "pos_stored n k'"
    if "fold (\<lambda>n r. Option.bind r (coord_axis n)) ns (Some k) = Some k'" "n \<notin> set ns" "pos_stored n k" for ns and k k' :: "'a mot_state"
    using that
  proof (induction ns arbitrary: k)
    case (Cons i ns)
    from Cons.prems(1) obtain j where "coord_axis i k = Some j" "fold (\<lambda>n r. Option.bind r (coord_axis n)) ns (Some j) = Some k'"
      by (cases "coord_axis i k") (simp_all add: fold_coord_none)
    with Cons coord_axis_step(1) [of i k j n] show ?case by (simp add: pos_stored_def)
  qed simp
  show ?case
  proof (cases "m = n")
    case True
    then have "pos_stored n h" using coord_axis_step(3) [OF h(1)] Cons.prems by blast
    then show ?thesis using keep [OF h(2)] True Cons.prems(2) by simp
  next
    case False
    with Cons.prems Cons.IH [OF h(2)] coord_axis_step(1,2) [OF h(1)] show ?thesis by simp
  qed
qed simp

lemma coord_point_frame:
  assumes "length (g_axes g) = EMCMOT_MAX_AXIS"
  shows "cores (coord_point runCycle period g) = cores g"
proof -
  have "axis_core (coord_axis_point ps n a) = axis_core a" for ps n a by (simp add: coord_axis_point_def)
  then show ?thesis
    unfolding cores_def coord_point_axes [OF assms]
    by (intro nth_equalityI) (simp_all add: assms del: max_axis_upt)
qed

lemma coord_point_actpos: "g_actpos (coord_point runCycle period g) = g_actpos g"
  by (simp add: coord_point_def Let_def fold_actpos put_env_def split: prod.split)

lemma soft_limits_actpos: "check_soft_limits g = Some g' \<Longrightarrow> g_actpos g' = g_actpos g"
  by (auto simp: check_soft_limits_def split: option.splits if_splits)

text \<open>After the position commands the stored position of an active axis is its commanded one, unless the
  machine is disabled; then the command is the feedback and the stored position stays.\<close>

lemma get_pos_cmds_stored:
  assumes "get_pos_cmds runCycle period g = Some g'" "length (g_axes g) = EMCMOT_MAX_AXIS"
    "length (g_actpos g) = EMCMOT_MAX_AXIS" "n < EMCMOT_MAX_AXIS" "GET_AXIS_ACTIVE_FLAG (g_axes g ! n)"
    "g_actpos g ! n = ax_pos_fb (g_axes g ! n)"
  shows "pos_stored n g'"
proof -
  obtain h where h: "check_soft_limits h = Some g'"
    "(case ms_motion_state (g_status g) of
       EMCMOT_MOTION_FREE \<Rightarrow> Some (pos_cmds_free g)
     | EMCMOT_MOTION_COORD \<Rightarrow> pos_cmds_coord runCycle period g
     | EMCMOT_MOTION_DISABLED \<Rightarrow> Some (pos_cmds_disabled g)) = Some h"
    using assms(1) by (auto simp: get_pos_cmds_def Option.bind_eq_Some_conv)
  have "pos_stored n h"
  proof (cases "ms_motion_state (g_status g)")
    case EMCMOT_MOTION_FREE
    let ?k = "fold free_step all_axis_nums (upd_status (SET_MOTION_INPOS_FLAG True) g)"
    from EMCMOT_MOTION_FREE have "h = pos_cmds_free g" using h(2) by simp
    then have "g_axes h = g_axes ?k" "g_actpos h = g_actpos ?k"
      by (simp_all add: pos_cmds_free_def Let_def del: max_axis_upt)
    moreover have "pos_stored n ?k" by (rule fold_free_step) (use assms in \<open>auto simp del: max_axis_upt\<close>)
    ultimately show ?thesis by (simp add: pos_stored_def)
  next
    case EMCMOT_MOTION_COORD
    let ?g1 = "(upd_tele (\<lambda>t. snd (axis_jog_abort_all True t)) g)\<lparr>g_coord_cubic_active := True\<rparr>"
    from EMCMOT_MOTION_COORD h(2) obtain g2 g3 where l: "coord_loop runCycle period ?g1 = Some g2"
      and f: "fold (\<lambda>n r. Option.bind r (coord_axis n)) all_axis_nums (Some g2) = Some g3"
      and e: "h = upd_status (SET_MOTION_INPOS_FLAG (tpIsDone (mi_coord_tp (g_internal g3)) \<noteq> 0)) g3"
      by (auto simp: pos_cmds_coord_def Let_def split: option.splits)
    let ?I = "\<lambda>k. cores k = cores g \<and> g_actpos k = g_actpos g"
    have "?I (coord_point runCycle period k)" if "?I k" for k
      using that coord_point_frame [of k] cores_length [of k g] assms(2) by (simp add: coord_point_actpos)
    then have i: "?I g2" using coord_loop_invariant(2) [OF l, of ?I] by (simp add: cores_def)
    have "GET_AXIS_ACTIVE_FLAG (g_axes g2 ! n)" "length (g_axes g2) = EMCMOT_MAX_AXIS"
      using i cores_nth(1) [of g2 g n] cores_length [of g2 g] assms by auto
    then have "pos_stored n g3"
      using fold_coord_axis [OF f] i assms by (simp add: EMCMOT_MAX_AXIS_def)
    then show ?thesis by (simp add: e pos_stored_def)
  next
    case EMCMOT_MOTION_DISABLED
    then have "h = pos_cmds_disabled g" using h(2) by simp
    then show ?thesis using assms
      by (simp add: pos_stored_def pos_cmds_disabled_axes) (simp add: pos_cmds_disabled_def fold_actpos)
  qed
  then show ?thesis unfolding pos_stored_def check_soft_limits_frame(1) [OF h(1)] soft_limits_actpos [OF h(1)] .
qed

section \<open>The outputs and the drives\<close>

lemma output_actpos: "g_actpos (output_to_hal g) = g_actpos g"
proof -
  have "g_actpos (output_axis n h) = g_actpos h" for n and h :: "'a mot_state"
    by (simp add: output_axis_def Let_def)
  then show ?thesis by (simp add: output_to_hal_def Let_def fold_actpos)
qed

lemma update_status_actpos: "update_status g = Some g' \<Longrightarrow> g_actpos g' = g_actpos g"
  by (auto simp: update_status_def Let_def split: if_splits)

lemma servo_exchange_other:
  "m \<noteq> n \<Longrightarrow> g_axes (snd (servo_exchange m sg)) ! n = g_axes (snd sg) ! n"
  "m \<noteq> n \<Longrightarrow> g_actpos (snd (servo_exchange m sg)) ! n = g_actpos (snd sg) ! n"
  "m \<noteq> n \<Longrightarrow> mh_axis (g_hal (snd (servo_exchange m sg))) ! n = mh_axis (g_hal (snd sg)) ! n"
  by (simp_all add: servo_exchange_def Let_def upd_axis_def upd_axis_hal_def split: prod.split)

lemma cores_exchange [simp]:
  "cores (upd_axis_hal n f g) = cores g" "cores (g\<lparr>g_actpos := ps, g_targetpos := qs\<rparr>) = cores g"
  by (simp_all add: cores_def upd_axis_hal_def)

lemma servo_exchange_frame:
  "length (g_axes (snd (servo_exchange m sg))) = length (g_axes (snd sg))"
  "length (g_actpos (snd (servo_exchange m sg))) = length (g_actpos (snd sg))"
  "length (mh_axis (g_hal (snd (servo_exchange m sg)))) = length (mh_axis (g_hal (snd sg)))"
  "g_config (snd (servo_exchange m sg)) = g_config (snd sg)"
  by (cases sg, simp add: servo_exchange_def Let_def upd_axis_def upd_axis_hal_def)+

lemma servo_exchange_cores: "cores (snd (servo_exchange m sg)) = cores (snd sg)"
  by (cases sg) (simp add: servo_exchange_def Let_def cores_upd_axis)

text \<open>The feedback of an axis after the exchange: its stored position.\<close>

definition fed_back :: "nat \<Rightarrow> 'tc mot_state \<Rightarrow> bool" where
  "fed_back n g \<longleftrightarrow> ah_motor_pos_fb (mh_axis (g_hal g) ! n) = g_actpos g ! n \<and> in_s32 (g_actpos g ! n)"

lemma servo_exchange_self:
  assumes "n < length (g_axes (snd sg))" "n < length (g_actpos (snd sg))" "n < length (mh_axis (g_hal (snd sg)))"
  shows "fed_back n (snd (servo_exchange n sg))"
    "g_actpos (snd (servo_exchange n sg)) ! n = s32 (g_actpos (snd sg) ! n)"
    "ax_pos_cmd (g_axes (snd (servo_exchange n sg)) ! n) = ax_pos_cmd (g_axes (snd sg) ! n)"
  using assms
  by (cases sg, simp add: servo_exchange_def Let_def fed_back_def upd_axis_def upd_axis_hal_def s32_range)+

lemma fold_exchange:
  assumes "distinct ns" "n \<in> set ns" "n < length (g_axes (snd sg))" "n < length (g_actpos (snd sg))"
    "n < length (mh_axis (g_hal (snd sg)))"
  defines "sg' \<equiv> fold servo_exchange ns sg"
  shows "fed_back n (snd sg') \<and> g_actpos (snd sg') ! n = s32 (g_actpos (snd sg) ! n)
    \<and> ax_pos_cmd (g_axes (snd sg') ! n) = ax_pos_cmd (g_axes (snd sg) ! n)"
  using assms(1-5) unfolding sg'_def
proof (induction ns arbitrary: sg)
  case (Cons m ns)
  let ?P = "\<lambda>sg. (ah_motor_pos_fb (mh_axis (g_hal (snd sg)) ! n), g_actpos (snd sg) ! n, ax_pos_cmd (g_axes (snd sg) ! n))"
  have keep: "?P (fold servo_exchange ns h) = ?P h" if "n \<notin> set ns" for ns and h :: "servo_state \<times> 'a mot_state"
    using that by (induction ns arbitrary: h) (simp_all add: servo_exchange_other)
  show ?case
  proof (cases "m = n")
    case True
    with Cons.prems keep [of ns "servo_exchange n sg"] servo_exchange_self [of n sg] show ?thesis
      by (simp add: fed_back_def)
  next
    case False
    with Cons.prems Cons.IH [of "servo_exchange m sg"] show ?thesis
      by (simp add: servo_exchange_other servo_exchange_frame)
  qed
qed simp

section \<open>What a cycle leaves alone\<close>

definition shape :: "'tc mot_state \<Rightarrow> (bool \<times> int \<times> int \<times> int) list \<times> nat \<times> nat" where
  "shape g = (cores g, length (g_actpos g), length (mh_axis (g_hal g)))"

lemma shape_simps [simp]:
  "shape (upd_status f g) = shape g" "shape (upd_tp_struct h g) = shape g" "shape (upd_tele k g) = shape g"
  "shape (upd_internal i g) = shape g" "shape (upd_axis_hal n b g) = shape g"
  "(\<And>h. mh_axis (hh h) = mh_axis h) \<Longrightarrow> shape (upd_hal hh g) = shape g"
  "shape (g\<lparr>g_actpos := (g_actpos g)[n := x]\<rparr>) = shape g" "shape (g\<lparr>g_targetpos := ps\<rparr>) = shape g"
  by (simp_all add: shape_def) (simp_all add: cores_def upd_axis_hal_def)

lemma shape_upd_axis: "axis_core (f (g_axes g ! n)) = axis_core (g_axes g ! n) \<Longrightarrow> shape (upd_axis n f g) = shape g"
  by (cases "n < length (g_axes g)")
    (simp_all add: shape_def cores_def upd_axis_def map_update list_update_same_conv list_update_beyond)

lemma fold_shape: "(\<And>n g. shape (f n g) = shape g) \<Longrightarrow> shape (fold f ns g) = shape g"
  by (induction ns arbitrary: g) simp_all

lemma free_step_shape: "shape (free_step n g) = shape g"
proof -
  have "axis_core (free_axis sp st a) = axis_core a" for sp st a by (simp add: free_axis_def Let_def)
  then show ?thesis by (simp add: free_step_def Let_def shape_upd_axis)
qed

lemma output_axis_shape: "shape (output_axis n g) = shape g"
proof -
  have "axis_core (a\<lparr>ax_motor_pos_cmd := p\<rparr>) = axis_core a" for a p by (simp add: axis_core_def GET_AXIS_ACTIVE_FLAG_def)
  then show ?thesis by (simp add: output_axis_def Let_def shape_upd_axis)
qed

lemma output_shape: "shape (output_to_hal g) = shape g"
  by (simp add: output_to_hal_def Let_def fold_shape [OF output_axis_shape] del: max_axis_upt)

lemma coord_axis_shape: "coord_axis n g = Some g' \<Longrightarrow> shape g' = shape g"
  by (auto simp: coord_axis_def shape_upd_axis split: if_splits prod.splits option.splits)

lemma fold_coord_axis_shape:
  "fold (\<lambda>n r. Option.bind r (coord_axis n)) ns (Some g) = Some g' \<Longrightarrow> shape g' = shape g"
proof (induction ns arbitrary: g)
  case (Cons n ns)
  then show ?case by (cases "coord_axis n g") (auto simp: fold_coord_none coord_axis_shape)
qed simp

lemma coord_point_shape:
  assumes "length (g_axes g) = EMCMOT_MAX_AXIS"
  shows "shape (coord_point runCycle period g) = shape g"
proof -
  have "g_hal (fold (\<lambda>n. upd_axis n (f n)) ns h) = g_hal h" for f ns and h :: "'a mot_state"
    by (induction ns arbitrary: h) simp_all
  then have "g_hal (coord_point runCycle period g) = g_hal g"
    by (simp add: coord_point_def Let_def put_env_def split: prod.split)
  then show ?thesis by (simp add: shape_def coord_point_frame [OF assms] coord_point_actpos)
qed

lemma get_pos_cmds_shape:
  assumes "get_pos_cmds runCycle period g = Some g'" "length (g_axes g) = EMCMOT_MAX_AXIS"
  shows "shape g' = shape g"
proof -
  obtain h where h: "check_soft_limits h = Some g'"
    "(case ms_motion_state (g_status g) of
       EMCMOT_MOTION_FREE \<Rightarrow> Some (pos_cmds_free g)
     | EMCMOT_MOTION_COORD \<Rightarrow> pos_cmds_coord runCycle period g
     | EMCMOT_MOTION_DISABLED \<Rightarrow> Some (pos_cmds_disabled g)) = Some h"
    using assms(1) by (auto simp: get_pos_cmds_def Option.bind_eq_Some_conv)
  have "shape h = shape g"
  proof (cases "ms_motion_state (g_status g)")
    case EMCMOT_MOTION_FREE
    then have "h = pos_cmds_free g" using h(2) by simp
    then show ?thesis by (simp add: pos_cmds_free_def Let_def fold_shape [OF free_step_shape] del: max_axis_upt)
  next
    case EMCMOT_MOTION_COORD
    let ?g1 = "(upd_tele (\<lambda>t. snd (axis_jog_abort_all True t)) g)\<lparr>g_coord_cubic_active := True\<rparr>"
    from EMCMOT_MOTION_COORD h(2) obtain g2 g3 where l: "coord_loop runCycle period ?g1 = Some g2"
      and f: "fold (\<lambda>n r. Option.bind r (coord_axis n)) all_axis_nums (Some g2) = Some g3"
      and e: "h = upd_status (SET_MOTION_INPOS_FLAG (tpIsDone (mi_coord_tp (g_internal g3)) \<noteq> 0)) g3"
      by (auto simp: pos_cmds_coord_def Let_def split: option.splits)
    let ?I = "\<lambda>k. shape k = shape g"
    have "?I (coord_point runCycle period k)" if "?I k" for k
      using that coord_point_shape [of k] cores_length [of k g] assms(2) by (simp add: shape_def)
    then have "?I g2" using coord_loop_invariant(2) [OF l, of ?I] by (simp add: shape_def cores_def)
    then show ?thesis using fold_coord_axis_shape [OF f] by (simp add: e)
  next
    case EMCMOT_MOTION_DISABLED
    then have "h = pos_cmds_disabled g" using h(2) by simp
    then show ?thesis by (simp add: pos_cmds_disabled_def fold_shape shape_upd_axis del: max_axis_upt)
  qed
  moreover have "shape g' = shape h"
    using soft_limits_actpos [OF h(1)] check_soft_limits_frame(1,2) [OF h(1)] by (simp add: shape_def cores_def)
  ultimately show ?thesis by simp
qed

lemma fold_upd_axis_hal: "g_hal (fold (\<lambda>n. upd_axis n (f n)) ns g) = g_hal g"
  by (induction ns arbitrary: g) simp_all

lemma mode_pins:
  "mh_axis (g_hal (mode_disable g)) = mh_axis (g_hal g)" "mh_axis (g_hal (mode_enable g)) = mh_axis (g_hal g)"
  "mh_axis (g_hal (mode_coord g)) = mh_axis (g_hal g)" "mh_axis (g_hal (mode_free g)) = mh_axis (g_hal g)"
  by (simp_all add: mode_disable_def mode_enable_def mode_coord_def mode_free_def Let_def fold_upd_axis_hal
    split: prod.split del: max_axis_upt)

lemma set_operating_mode_shape: "shape (set_operating_mode g) = shape g"
  by (simp add: shape_def cores_set_operating_mode mode_actpos) (simp add: set_operating_mode_def mode_pins)

lemma update_status_shape: "update_status g = Some g' \<Longrightarrow> shape g' = shape g"
  using update_status_frame(1,2) update_status_actpos by (fastforce simp: shape_def cores_def)

lemma faults_shape: "check_for_faults g = Some g' \<Longrightarrow> shape g' = shape g"
  using faults_actpos [of g g'] by (simp add: shape_def)

section \<open>The closed loop\<close>

text \<open>One servo period: the controller, then the exchange with the drives.\<close>

definition servo_cycle ::
  "(int \<Rightarrow> 'tc planner_env \<Rightarrow> 'tc planner_env) \<Rightarrow> int \<Rightarrow> int \<Rightarrow> servo_state \<times> 'tc mot_state \<Rightarrow> (servo_state \<times> 'tc mot_state) option" where
  "servo_cycle runCycle period num_axis = (\<lambda>(s, g).
     Option.bind (emcmotController runCycle period g) (\<lambda>g1. ecatthread num_axis (s, g1)))"

primrec servo_cycles ::
  "(int \<Rightarrow> 'tc planner_env \<Rightarrow> 'tc planner_env) \<Rightarrow> int \<Rightarrow> int \<Rightarrow> nat \<Rightarrow> servo_state \<times> 'tc mot_state \<Rightarrow> (servo_state \<times> 'tc mot_state) option" where
  "servo_cycles runCycle period num_axis 0 sg = Some sg"
| "servo_cycles runCycle period num_axis (Suc k) sg =
     Option.bind (servo_cycles runCycle period num_axis k sg) (servo_cycle runCycle period num_axis)"

definition loop_ok :: "nat \<Rightarrow> servo_state \<times> 'tc mot_state \<Rightarrow> bool" where
  "loop_ok n sg \<longleftrightarrow> sv_firstflag (fst sg) \<and> length (g_axes (snd sg)) = EMCMOT_MAX_AXIS
     \<and> length (g_actpos (snd sg)) = EMCMOT_MAX_AXIS \<and> length (mh_axis (g_hal (snd sg))) = EMCMOT_MAX_AXIS
     \<and> GET_AXIS_ACTIVE_FLAG (g_axes (snd sg) ! n) \<and> ax_motor_offset (g_axes (snd sg) ! n) = 0 \<and> fed_back n (snd sg)"

lemma s32_diff_self: "s32 (p - s32 p) = 0"
proof -
  have "take_bit 32 (s32 x) = take_bit 32 x" for x by (simp add: s32_def take_bit_signed_take_bit)
  then have "s32 p mod 2 ^ 32 = p mod 2 ^ 32" by (simp add: take_bit_eq_mod)
  then have "(p - s32 p) mod 2 ^ 32 = 0" by (metis mod_eq_dvd_iff dvd_imp_mod_0)
  then have "take_bit (Suc 31) (p - s32 p) = take_bit (Suc 31) 0" by (simp add: take_bit_eq_mod)
  then have "s32 (p - s32 p) = s32 0" unfolding s32_def by (simp only: signed_take_bit_eq_iff_take_bit_eq)
  then show ?thesis by simp
qed

lemma controller_stores:
  assumes "emcmotController runCycle period g = Some c" "loop_ok n (s, g)" "n < EMCMOT_MAX_AXIS"
  shows "pos_stored n c \<and> GET_AXIS_ACTIVE_FLAG (g_axes c ! n) \<and> ax_motor_offset (g_axes c ! n) = 0
    \<and> length (g_axes c) = EMCMOT_MAX_AXIS \<and> length (g_actpos c) = EMCMOT_MAX_AXIS
    \<and> length (mh_axis (g_hal c)) = EMCMOT_MAX_AXIS"
  using assms(1)
proof (rule controllerE)
  fix g1 g3 g4 g5 :: "'a mot_state"
  let ?h = "handle_interpolation (upd_status (\<lambda>st. st\<lparr>ms_head := ms_head st + 1\<rparr>) g1)"
  let ?g2 = "process_inputs ?h" let ?gm = "set_operating_mode g3"
  assume 1: "sans_cubics g1 = sans_cubics g" and 3: "check_for_faults ?g2 = Some g3"
    and 4: "get_pos_cmds runCycle period ?gm = Some g4"
    and 5: "update_status (output_to_hal g4) = Some g5" and c: "c = finish_cycle g5"
  have n: "n < length (g_axes g)" and l: "length (g_axes g) = EMCMOT_MAX_AXIS" "length (g_actpos g) = EMCMOT_MAX_AXIS"
    "length (mh_axis (g_hal g)) = EMCMOT_MAX_AXIS" and ok: "GET_AXIS_ACTIVE_FLAG (g_axes g ! n)"
    "ax_motor_offset (g_axes g ! n) = 0" "ah_motor_pos_fb (mh_axis (g_hal g) ! n) = g_actpos g ! n" "in_s32 (g_actpos g ! n)"
    using assms(2,3) by (simp_all add: loop_ok_def fed_back_def)
  have h: "g_axes ?h = g_axes g1" "g_hal ?h = g_hal g1" "g_actpos ?h = g_actpos g1"
    by (simp_all add: handle_interpolation_def Let_def inputs_actpos)
  have g1: "g_hal g1 = g_hal g" "g_actpos g1 = g_actpos g" using 1 by (simp_all add: sans_cubics_def)
  have l1: "length (g_axes ?h) = EMCMOT_MAX_AXIS" using sans_cubics_nth(1) [OF 1 n] h l by simp
  have a: "g_axes ?g2 ! k = input_axis (mh_axis (g_hal g) ! k) (g_axes g1 ! k)" if "k < EMCMOT_MAX_AXIS" for k
    using that by (simp add: process_inputs_frame(1) [OF l1] h g1 del: max_axis_upt)
  have same: "strip (g_axes g1 ! k) = strip (g_axes g ! k)" if "k < EMCMOT_MAX_AXIS" for k
    using sans_cubics_nth(2) [OF 1] that l by simp
  have act: "GET_AXIS_ACTIVE_FLAG (g_axes g1 ! n)" "ax_motor_offset (g_axes g1 ! n) = 0"
    using axis_of_strip(1,3) [OF same [OF assms(3)]] ok by simp_all
  have 2: "GET_AXIS_ACTIVE_FLAG (g_axes ?g2 ! n)" "ax_pos_fb (g_axes ?g2 ! n) = g_actpos g ! n"
    "ax_motor_offset (g_axes ?g2 ! n) = 0"
    unfolding a [OF assms(3)] using input_axis_active(1,5,6) [OF act(1)] act(2) ok(3,4) by (simp_all add: s32_id)
  have l2: "length (g_axes ?g2) = EMCMOT_MAX_AXIS"
    by (simp add: process_inputs_frame(1) [OF l1] del: max_axis_upt)
  have m: "cores ?gm = cores ?g2" "g_actpos ?gm = g_actpos g"
    using faults_actpos [OF 3] h g1 by (simp_all add: cores_set_operating_mode mode_actpos inputs_actpos)
  have lm: "length (g_axes ?gm) = EMCMOT_MAX_AXIS" using cores_length [OF m(1)] l2 by simp
  have "pos_stored n g4"
    by (rule get_pos_cmds_stored [OF 4 lm])
      (use m 2 l l2 assms(3) cores_nth(1,2) [OF m(1), of n] in simp_all)
  have s4: "shape g4 = shape ?g2"
    using get_pos_cmds_shape [OF 4 lm] set_operating_mode_shape faults_shape [OF 3] by metis
  have s5: "shape c = shape ?g2"
    using s4 output_shape [of g4] update_status_shape [OF 5] by (simp add: c finish_cycle_def)
  then have c5: "cores c = cores ?g2" by (simp add: shape_def)
  have lc: "length (g_axes c) = EMCMOT_MAX_AXIS" "length (g_actpos c) = EMCMOT_MAX_AXIS"
    "length (mh_axis (g_hal c)) = EMCMOT_MAX_AXIS"
    using cores_length [OF c5] l2 s5 l g1 h
    by (simp_all add: shape_def inputs_actpos process_inputs_frame(3) [OF l1])
  have 6: "GET_AXIS_ACTIVE_FLAG (g_axes c ! n)" "ax_motor_offset (g_axes c ! n) = 0"
    using cores_nth(1,3) [OF c5, of n] l2 assms(3) 2 by simp_all
  have l4: "length (g_axes g4) = EMCMOT_MAX_AXIS" "length (mh_axis (g_hal g4)) = EMCMOT_MAX_AXIS"
    "GET_AXIS_ACTIVE_FLAG (g_axes g4 ! n)"
    using s4 cores_length [of g4 ?g2] cores_nth(1) [of g4 ?g2 n] l2 assms(3) 2 l g1 h
    by (simp_all add: shape_def process_inputs_frame(3) [OF l1])
  have "g_axes c ! n = with_motor_cmd (g_axes g4 ! n)"
    using output_to_hal_axis(1) [OF l4(1,2) assms(3) l4(3)] update_status_frame(1) [OF 5]
    by (simp add: c finish_cycle_def)
  moreover have "g_actpos c = g_actpos g4"
    using update_status_actpos [OF 5] by (simp add: c finish_cycle_def output_actpos)
  ultimately have "pos_stored n c" using \<open>pos_stored n g4\<close> by (simp add: pos_stored_def with_motor_cmd_def)
  then show ?thesis using lc 6 by simp
qed

lemma servo_cycle_follows:
  assumes "servo_cycle runCycle period num_axis sg = Some sg'" "loop_ok n sg" "int n < num_axis"
  shows "loop_ok n sg' \<and> following_error (mh_axis (g_hal (snd sg')) ! n) (g_axes (snd sg') ! n) = 0"
proof -
  obtain s g where sg: "sg = (s, g)" by (cases sg)
  from assms(1) obtain c where c: "emcmotController runCycle period g = Some c" "ecatthread num_axis (s, c) = Some sg'"
    by (auto simp: servo_cycle_def sg Option.bind_eq_Some_conv)
  have f: "sv_firstflag s" using assms(2) by (simp add: loop_ok_def sg)
  then have m: "num_axis \<le> int EMCMOT_MAX_AXIS" and sg': "sg' = fold servo_exchange [0..<nat num_axis] (s, c)"
    using c(2) by (simp_all add: ecatthread_def split: if_splits)
  have n: "n < EMCMOT_MAX_AXIS" "n \<in> set [0..<nat num_axis]" using m assms(3) by auto
  note k = controller_stores [OF c(1) assms(2) [unfolded sg] n(1)]
  have e: "fed_back n (snd sg') \<and> g_actpos (snd sg') ! n = s32 (g_actpos c ! n)
    \<and> ax_pos_cmd (g_axes (snd sg') ! n) = ax_pos_cmd (g_axes c ! n)"
    using fold_exchange [of "[0..<nat num_axis]" n "(s, c)"] n k sg' by simp
  have fr: "sv_firstflag (fst (fold servo_exchange ns h)) = sv_firstflag (fst h)
      \<and> length (g_axes (snd (fold servo_exchange ns h))) = length (g_axes (snd h))
      \<and> length (g_actpos (snd (fold servo_exchange ns h))) = length (g_actpos (snd h))
      \<and> length (mh_axis (g_hal (snd (fold servo_exchange ns h)))) = length (mh_axis (g_hal (snd h)))
      \<and> cores (snd (fold servo_exchange ns h)) = cores (snd h)" for ns and h :: "servo_state \<times> 'a mot_state"
  proof (induction ns arbitrary: h)
    case (Cons i ns)
    have "sv_firstflag (fst (servo_exchange i h)) = sv_firstflag (fst h)"
      by (cases h) (simp add: servo_exchange_def Let_def)
    then show ?case using Cons [of "servo_exchange i h"] by (simp add: servo_exchange_frame servo_exchange_cores)
  qed simp
  have cs: "cores (snd sg') = cores c" using fr [of "[0..<nat num_axis]" "(s, c)"] by (simp add: sg')
  have ok: "loop_ok n sg'"
    using fr [of "[0..<nat num_axis]" "(s, c)"] cores_nth(1,3) [OF cs, of n] k f n e by (simp add: loop_ok_def sg')
  have "following_error (mh_axis (g_hal (snd sg')) ! n) (g_axes (snd sg') ! n)
      = d2i \<bar>of_int (s32 (ax_pos_cmd (g_axes c ! n) - s32 (s32 (ax_pos_cmd (g_axes c ! n)))))\<bar>"
    using e k ok by (simp add: following_error_def loop_ok_def fed_back_def pos_stored_def)
  moreover have "d2i 0 = 0" using d2i_of_int [of 0] by simp
  ultimately show ?thesis using ok by (simp add: s32_diff_self)
qed

text \<open>
  C33: the feedback of an axis is its own command. Once the drives' function has made its first pass, and
  for an active axis without motor offset, every following servo cycle leaves a following error of zero,
  in free, coordinated and disabled mode and whatever the planner does, so that the fault check
  on the following error cannot notice an axis that does not move.
\<close>

theorem feedback_is_command:
  assumes "loop_ok n sg" "int n < num_axis" "servo_cycles runCycle period num_axis (Suc k) sg = Some sg'"
  shows "following_error (mh_axis (g_hal (snd sg')) ! n) (g_axes (snd sg') ! n) = 0"
proof -
  have ok: "servo_cycles runCycle period num_axis k sg = Some h \<Longrightarrow> loop_ok n h" for h
  proof (induction k arbitrary: h)
    case (Suc k)
    then obtain h' where "servo_cycles runCycle period num_axis k sg = Some h'" "servo_cycle runCycle period num_axis h' = Some h"
      by (auto simp: Option.bind_eq_Some_conv)
    then show ?case using servo_cycle_follows [of runCycle period num_axis h' h n] Suc.IH assms(2) by blast
  qed (use assms(1) in simp)
  from assms(3) obtain h where "servo_cycles runCycle period num_axis k sg = Some h" "servo_cycle runCycle period num_axis h = Some sg'"
    by (auto simp: Option.bind_eq_Some_conv)
  then show ?thesis using servo_cycle_follows [of runCycle period num_axis h sg' n] ok assms(2) by blast
qed

definition looped_state :: "servo_state \<times> unit mot_state" where
  "looped_state = (\<lparr>sv_firstflag = True, sv_motoro = [], sv_motori = []\<rparr>, faulted_state\<lparr>g_actpos := [0, 25, 0]\<rparr>)"

theorem feedback_is_command_witness:
  "\<exists>sg'. servo_cycles still 1000000 2 (Suc 0) looped_state = Some sg'
     \<and> following_error (mh_axis (g_hal (snd sg')) ! 1) (g_axes (snd sg') ! 1) = 0"
proof -
  let ?g = "snd looped_state"
  have act: "GET_AXIS_ACTIVE_FLAG (g_axes ?g ! 1)" "GET_AXIS_ENABLE_FLAG (g_axes ?g ! 1)"
    by (simp_all add: looped_state_def faulted_state_def GET_AXIS_ACTIVE_FLAG_def GET_AXIS_ENABLE_FLAG_def flag_get_def axis_bits)
  have l: "loop_ok 1 looped_state"
    using act(1) by (simp add: loop_ok_def fed_back_def looped_state_def faulted_state_def mot_zero_def EMCMOT_MAX_AXIS_def
      in_s32_def INT32_MIN_def INT32_MAX_def axis_zero_def)
  have w: "mot_wf ?g" "period_ok 1000000" "GET_MOTION_ENABLE_FLAG (g_status ?g)"
    by (simp_all add: looped_state_def mot_wf_def period_ok_def faulted_state_def mot_zero_def config_zero_def EMCMOT_MAX_AXIS_def
      GET_MOTION_ENABLE_FLAG_def flag_get_def motion_bits)
  have "axis_fault ?g 1"
    using act by (simp add: axis_fault_def Let_def) (simp add: looped_state_def faulted_state_def)
  moreover have "(1::nat) < EMCMOT_MAX_AXIS" by (simp add: EMCMOT_MAX_AXIS_def)
  ultimately have "(\<exists>n < EMCMOT_MAX_AXIS. axis_fault ?g n) \<or> \<not> mh_enable (g_hal ?g)" by blast
  from fault_disables [OF w this, of still] obtain c where c: "emcmotController still 1000000 ?g = Some c" by blast
  have "\<exists>sg'. ecatthread 2 (fst looped_state, c) = Some sg'"
    by (simp add: ecatthread_def EMCMOT_MAX_AXIS_def)
  then obtain sg' where s: "servo_cycles still 1000000 2 (Suc 0) looped_state = Some sg'"
    using c by (auto simp: servo_cycle_def split_beta)
  from feedback_is_command [OF l _ s] s show ?thesis by simp
qed

end
