(* ===== verification/ServoNet.thy ===== *)
theory ServoNet
  imports Servo CommandProps
begin

text \<open>
  What the bring-up and the check of the servo network achieve (\<open>hal/ServoEnable.c\<close>): the bring-up returns exactly
  when the network becomes operational, and a slave that is lost is taken back when it answers.
\<close>

section \<open>The bring-up\<close>

lemma await_operational_sound:
  assumes "await_operational st k = Some j" shows "st j = EC_STATE_OPERATIONAL"
proof -
  have "await_operational st k = Some j \<Longrightarrow> st j = EC_STATE_OPERATIONAL"
  proof (rule await_operational.raw_induct [where P = "\<lambda>st k j. st j = EC_STATE_OPERATIONAL"])
    fix f :: "(nat \<Rightarrow> int) \<Rightarrow> nat \<Rightarrow> nat option" and st k j
    assume "\<And>st k j. f st k = Some j \<Longrightarrow> st j = EC_STATE_OPERATIONAL"
      "(if st k \<noteq> EC_STATE_OPERATIONAL then f st (Suc k) else Some k) = Some j"
    then show "st j = EC_STATE_OPERATIONAL" by (auto split: if_splits)
  qed
  then show ?thesis using assms by blast
qed

lemma await_operational_complete:
  "k \<le> j \<Longrightarrow> st j = EC_STATE_OPERATIONAL \<Longrightarrow> \<exists>i. await_operational st k = Some i"
proof (induction "j - k" arbitrary: k)
  case 0
  then show ?case by (simp add: await_operational.simps)
next
  case (Suc d)
  then have "\<exists>i. await_operational st (Suc k) = Some i" by simp
  then show ?case by (subst await_operational.simps) auto
qed

lemma bringup_axes:
  assumes "distinct ns" "n \<in> set ns" "n < length (g_axes g)" "n < length (mh_axis (g_hal g))"
  defines "g' \<equiv> fold (\<lambda>i g. upd_axis_hal i (\<lambda>h. h\<lparr>ah_amp_enable := True\<rparr>) (upd_axis i (\<lambda>a. a\<lparr>ax_flag := 1\<rparr>) g)) ns g"
  shows "ax_flag (g_axes g' ! n) = 1 \<and> ah_amp_enable (mh_axis (g_hal g') ! n)"
  using assms(1-4) unfolding g'_def
proof (induction ns arbitrary: g)
  case (Cons m ns)
  let ?f = "\<lambda>i g :: 'a mot_state. upd_axis_hal i (\<lambda>h. h\<lparr>ah_amp_enable := True\<rparr>) (upd_axis i (\<lambda>a. a\<lparr>ax_flag := 1\<rparr>) g)"
  have keep: "g_axes (fold ?f ns h) ! n = g_axes h ! n \<and> mh_axis (g_hal (fold ?f ns h)) ! n = mh_axis (g_hal h) ! n"
    if "n \<notin> set ns" for ns h
    using that by (induction ns arbitrary: h) (simp_all add: upd_axis_def upd_axis_hal_def)
  show ?case
  proof (cases "m = n")
    case True
    with Cons.prems keep [of ns "?f n g"] show ?thesis by (simp add: upd_axis_def upd_axis_hal_def)
  next
    case False
    with Cons.prems Cons.IH [of "?f m g"] show ?thesis by (simp add: upd_axis_def upd_axis_hal_def)
  qed
qed simp

text \<open>
  C35: the bring-up returns exactly when the interface cannot be opened, no slave is found, or the network
  becomes operational at some attempt with at most three slaves; there is no limit on the attempts. When it
  returns a number of slaves, that is the number found, and as many axes have their flags and their amplifiers on.
\<close>

theorem bringup_returns:
  assumes "length (g_axes g) = EMCMOT_MAX_AXIS" "length (mh_axis (g_hal g)) = EMCMOT_MAX_AXIS"
  shows "(ecatbringup ec_init found st (n, num_axis, g) \<noteq> None \<longleftrightarrow>
      ec_init = 0 \<or> found \<le> 0 \<or> (found \<le> 3 \<and> (\<exists>k. st k = EC_STATE_OPERATIONAL)))
    \<and> (\<forall>r n' num' g'. ecatbringup ec_init found st (n, num_axis, g) = Some (r, n', num', g') \<and> r > 0 \<longrightarrow>
        r = found \<and> num' = found \<and> en_inOP n' \<and>
        (\<forall>i < nat found. ax_flag (g_axes g' ! i) = 1 \<and> ah_amp_enable (mh_axis (g_hal g') ! i)))"
proof -
  have a: "(\<exists>i. await_operational st 0 = Some i) \<longleftrightarrow> (\<exists>k. st k = EC_STATE_OPERATIONAL)"
    using await_operational_sound await_operational_complete [of 0] by blast
  show ?thesis
  proof (cases "ec_init = 0 \<or> found \<le> 0 \<or> await_operational st 0 = None \<or> found > 3")
    case True
    then show ?thesis using a by (auto simp: ecatbringup_def Let_def EMCMOT_MAX_AXIS_def split: option.splits)
  next
    case False
    then obtain k where k: "await_operational st 0 = Some k" "0 < found" "found \<le> 3" "ec_init \<noteq> 0" by auto
    have ax: "ax_flag (g_axes g' ! i) = 1 \<and> ah_amp_enable (mh_axis (g_hal g') ! i)"
      if "i < nat found" "g' = fold (\<lambda>i g. upd_axis_hal i (\<lambda>h. h\<lparr>ah_amp_enable := True\<rparr>) (upd_axis i (\<lambda>a. a\<lparr>ax_flag := 1\<rparr>) g))
        [0..<nat found] g" for i g'
      using bringup_axes [of "[0..<nat found]" i g] that k assms by (simp add: EMCMOT_MAX_AXIS_def)
    have r: "ecatbringup ec_init found st (n, num_axis, g) = Some (found, n\<lparr>en_dorun := True, en_inOP := True\<rparr>, found,
        fold (\<lambda>i g. upd_axis_hal i (\<lambda>h. h\<lparr>ah_amp_enable := True\<rparr>) (upd_axis i (\<lambda>a. a\<lparr>ax_flag := 1\<rparr>) g)) [0..<nat found] g)"
      using k by (simp add: ecatbringup_def Let_def EMCMOT_MAX_AXIS_def)
    show ?thesis unfolding r using a k ax by auto
  qed
qed

definition net_ex :: ecat_net where
  "net_ex = \<lparr>en_dorun = False, en_inOP = False, en_currentgroup = 0, en_docheckstate = False, en_dowkccheck = 0,
     en_slave = replicate 2 \<lparr>es_state = 0, es_group = 0, es_islost = False, es_inputs = []\<rparr>\<rparr>"

theorem bringup_returns_witness:
  "ecatbringup 1 2 (\<lambda>k. if k < 3 then EC_STATE_SAFE_OP else EC_STATE_OPERATIONAL) (net_ex, 3, mot_zero :: unit mot_state) \<noteq> None"
proof -
  have "length (g_axes (mot_zero :: unit mot_state)) = EMCMOT_MAX_AXIS"
    "length (mh_axis (g_hal (mot_zero :: unit mot_state))) = EMCMOT_MAX_AXIS"
    by (simp_all add: mot_zero_def hal_zero_def EMCMOT_MAX_AXIS_def)
  from bringup_returns [OF this, of 1 2 "\<lambda>k. if k < 3 then EC_STATE_SAFE_OP else EC_STATE_OPERATIONAL"] show ?thesis
    by (auto intro: exI [of _ 3])
qed

section \<open>A slave that is lost\<close>

text \<open>The check runs again and again; in each pass the library answers anew and the states are read anew.\<close>

primrec net_run :: "(ec_lib \<times> (nat \<Rightarrow> int)) list \<Rightarrow> ecat_net \<Rightarrow> int option list \<times> ecat_net" where
  "net_run [] n = ([], n)"
| "net_run (p # ps) n =
     (let (w, n1) = ecatcheck (fst p) (snd p) n; (ws, n2) = net_run ps n1 in (w # ws, n2))"

text \<open>
  No slave answers: checking the state of a slave that has none leaves it without, and so does the attempt
  to recover it, which reports failure.
\<close>

definition silent :: "ec_lib \<Rightarrow> bool" where
  "silent lib \<longleftrightarrow> (\<forall>s. es_state s = EC_STATE_NONE \<longrightarrow> ec_statecheck lib s = s \<and> ec_recover_slave lib s = (0, s))"

definition net_ready :: "ecat_net \<Rightarrow> bool" where
  "net_ready n \<longleftrightarrow> en_dorun n \<and> en_inOP n \<and> 1 < length (en_slave n)
     \<and> es_group (en_slave n ! 1) = en_currentgroup n"

text \<open>The slaves the check does not look at: of these it only reads the state.\<close>

definition others_read :: "(nat \<Rightarrow> int) \<Rightarrow> ecat_net \<Rightarrow> ecat_net \<Rightarrow> bool" where
  "others_read al n n' \<longleftrightarrow> length (en_slave n') = length (en_slave n) \<and>
     (\<forall>i < length (en_slave n). i \<noteq> 1 \<longrightarrow> en_slave n' ! i = (en_slave n ! i)\<lparr>es_state := al i\<rparr>)"

lemma ecatcheck_pass:
  assumes r: "net_ready n" and c: "check_slave lib (en_currentgroup n) ((en_slave n ! 1)\<lparr>es_state := al 1\<rparr>) = (d, w, s)"
  shows "\<exists>n'. ecatcheck lib al n = (w, n') \<and> en_docheckstate n' = d \<and> en_slave n' ! 1 = s \<and> others_read al n n'
    \<and> en_dorun n' \<and> en_inOP n' \<and> en_currentgroup n' = en_currentgroup n"
proof -
  let ?ss = "map (\<lambda>i. (en_slave n ! i)\<lparr>es_state := al i\<rparr>) [0..<length (en_slave n)]"
  have l: "1 < length ?ss" and on: "en_dorun n" "en_inOP n" using r by (simp_all add: net_ready_def)
  have "?ss ! 1 = (en_slave n ! 1)\<lparr>es_state := al 1\<rparr>" using l by simp
  then have e: "ecatcheck lib al n = (w, n\<lparr>en_docheckstate := d, en_dowkccheck := 0, en_slave := ?ss[1 := s]\<rparr>)"
    using on c by (simp add: ecatcheck_def Let_def del: One_nat_def)
  show ?thesis
    by (rule exI [of _ "n\<lparr>en_docheckstate := d, en_dowkccheck := 0, en_slave := ?ss[1 := s]\<rparr>"])
      (use e l on in \<open>simp add: others_read_def del: One_nat_def\<close>)
qed

lemma check_silent:
  assumes "silent lib" "es_group s = g"
  shows "check_slave lib g (s\<lparr>es_state := EC_STATE_NONE\<rparr>) = (True, None, s\<lparr>es_state := EC_STATE_NONE, es_islost := True,
    es_inputs := (if es_islost s then es_inputs s else replicate (length (es_inputs s)) 0)\<rparr>)"
proof -
  have c: "ec_statecheck lib t = t" "ec_recover_slave lib t = (0, t)" if "es_state t = EC_STATE_NONE" for t
    using assms(1) that by (simp_all add: silent_def)
  show ?thesis
    using assms(2) c by (cases s) (simp add: check_slave_def check_not_op_def check_lost_def ec_state_defs Let_def)
qed

lemma silent_pass:
  assumes "net_ready n" "silent lib" "al 1 = EC_STATE_NONE"
  shows "\<exists>n'. ecatcheck lib al n = (None, n') \<and> net_ready n' \<and> en_docheckstate n' \<and> es_islost (en_slave n' ! 1)
    \<and> es_inputs (en_slave n' ! 1) = (if es_islost (en_slave n ! 1) then es_inputs (en_slave n ! 1)
         else replicate (length (es_inputs (en_slave n ! 1))) 0)
    \<and> others_read al n n'"
proof -
  have g: "es_group (en_slave n ! 1) = en_currentgroup n" using assms(1) by (simp add: net_ready_def)
  from ecatcheck_pass [OF assms(1), of lib al] check_silent [OF assms(2) g] obtain n' where
    n': "ecatcheck lib al n = (None, n')" "en_docheckstate n'" "others_read al n n'" "en_dorun n'" "en_inOP n'"
      "en_currentgroup n' = en_currentgroup n"
      "en_slave n' ! 1 = (en_slave n ! 1)\<lparr>es_state := EC_STATE_NONE, es_islost := True, es_inputs :=
        (if es_islost (en_slave n ! 1) then es_inputs (en_slave n ! 1) else replicate (length (es_inputs (en_slave n ! 1))) 0)\<rparr>"
    unfolding assms(3) by blast
  moreover have "net_ready n'" using n' g assms(1) by (simp add: net_ready_def others_read_def del: One_nat_def)
  ultimately show ?thesis by (simp del: One_nat_def)
qed

lemma silent_run:
  assumes "net_ready n" "\<forall>(lib, al) \<in> set ps. silent lib \<and> al 1 = EC_STATE_NONE" "ps \<noteq> []"
    and "net_run ps n = (ws, n')"
  shows "ws = replicate (length ps) None \<and> net_ready n' \<and> en_docheckstate n' \<and> es_islost (en_slave n' ! 1)
    \<and> es_inputs (en_slave n' ! 1) = (if es_islost (en_slave n ! 1) then es_inputs (en_slave n ! 1)
         else replicate (length (es_inputs (en_slave n ! 1))) 0)
    \<and> others_read (snd (last ps)) n n'"
  using assms
proof (induction ps arbitrary: n ws)
  case (Cons p ps)
  obtain lib al where p: "p = (lib, al)" by (cases p)
  with Cons.prems(2) have "silent lib" "al 1 = EC_STATE_NONE" by auto
  from silent_pass [of n lib al, OF Cons.prems(1) this] obtain n1 where
    1: "ecatcheck lib al n = (None, n1)" "net_ready n1" "en_docheckstate n1" "es_islost (en_slave n1 ! 1)"
      "es_inputs (en_slave n1 ! 1) = (if es_islost (en_slave n ! 1) then es_inputs (en_slave n ! 1)
         else replicate (length (es_inputs (en_slave n ! 1))) 0)"
      "others_read al n n1" by blast
  obtain ws1 where 2: "net_run ps n1 = (ws1, n')" "ws = None # ws1"
    using Cons.prems(4) 1(1) p by (cases "net_run ps n1") auto
  show ?case
  proof (cases "ps = []")
    case True
    with 1 2 p show ?thesis by simp
  next
    case False
    from Cons.IH [OF 1(2) _ False 2(1)] Cons.prems(2) have "ws1 = replicate (length ps) None" "net_ready n'" "en_docheckstate n'"
      "es_islost (en_slave n' ! 1)" "es_inputs (en_slave n' ! 1) = es_inputs (en_slave n1 ! 1)"
      "others_read (snd (last ps)) n1 n'" using 1(4) by auto
    with 1(5,6) 2(2) False show ?thesis by (simp add: others_read_def del: One_nat_def)
  qed
qed simp

text \<open>What the next pass does with the lost slave, by what it finds.\<close>

definition lost_slave_step :: "ec_lib \<Rightarrow> int \<Rightarrow> ec_slave \<Rightarrow> int option \<Rightarrow> bool \<Rightarrow> ec_slave \<Rightarrow> bool" where
  "lost_slave_step lib st s w docheck s' \<longleftrightarrow>
     (if st = EC_STATE_OPERATIONAL then w = None \<and> \<not> docheck \<and> \<not> es_islost s'
      else docheck \<and>
       (if st = EC_STATE_SAFE_OP + EC_STATE_ERROR then w = Some (EC_STATE_SAFE_OP + EC_STATE_ACK) \<and> \<not> es_islost s'
        else if st = EC_STATE_SAFE_OP then w = Some EC_STATE_OPERATIONAL \<and> \<not> es_islost s'
        else w = None \<and>
          (if st > EC_STATE_NONE then fst (ec_reconfig_slave lib (s\<lparr>es_state := st\<rparr>)) \<ge> EC_STATE_PRE_OP \<longrightarrow> \<not> es_islost s'
           else es_islost s' \<longleftrightarrow> fst (ec_recover_slave lib (s\<lparr>es_state := st\<rparr>)) = 0)))"

lemma check_lost_slave:
  assumes "es_islost s" "es_group s = g" "\<And>t. es_islost (snd (ec_recover_slave lib t)) = es_islost t"
    and "check_slave lib g (s\<lparr>es_state := st\<rparr>) = (d, w, s')"
  shows "lost_slave_step lib st s w d s'"
proof -
  let ?s = "s\<lparr>es_state := st\<rparr>"
  note simps = lost_slave_step_def check_slave_def check_not_op_def check_lost_def ec_state_defs split_beta
  have l: "es_islost ?s" "es_group ?s = g" "es_state ?s = st" using assms(1,2) by simp_all
  consider "st = 8" | "st = 20" | "st = 4" | "st \<noteq> 8" "st \<noteq> 20" "st \<noteq> 4" "st > 0" | "st \<le> 0" by linarith
  then show ?thesis
  proof cases
    case 4
    obtain r s1 where rs: "ec_reconfig_slave lib ?s = (r, s1)" by fastforce
    show ?thesis using assms(4) 4 l rs by (auto simp: simps)
  next
    case 5
    obtain r s1 where rs: "ec_recover_slave lib ?s = (r, s1)" by fastforce
    then have "es_islost s1" using assms(3) [of ?s] l(1) by simp
    then show ?thesis using assms(4) 5 l rs by (auto simp: simps split: if_splits)
  qed (use assms(4) l in \<open>auto simp: simps\<close>)
qed

text \<open>
  C34: a slave that no longer answers is given up and taken back when it answers. After any number of passes in
  which slave 1 has no state, no check of it succeeds and no recovery does, it is marked lost, its inputs are zero
  if it was not lost before, the group stays to be checked and nothing has been written. The next pass takes it
  back if it is operational, acknowledges its error or tells it to run if it is in the safe state, takes it back
  if it can be reconfigured, and, if it still has no state, exactly if the library recovers it. In all
  these passes nothing is done for any other slave: only its state is read.
\<close>

theorem lost_slave_taken_back:
  assumes "net_ready n" "ps \<noteq> []" "\<forall>(lib, al) \<in> set ps. silent lib \<and> al 1 = EC_STATE_NONE"
    and "\<And>t. es_islost (snd (ec_recover_slave lib t)) = es_islost t"
    and "net_run ps n = (ws, n1)" "ecatcheck lib al n1 = (w, n2)"
  shows "ws = replicate (length ps) None \<and> en_docheckstate n1 \<and> es_islost (en_slave n1 ! 1)
    \<and> (\<not> es_islost (en_slave n ! 1) \<longrightarrow> es_inputs (en_slave n1 ! 1) = replicate (length (es_inputs (en_slave n ! 1))) 0)
    \<and> lost_slave_step lib (al 1) (en_slave n1 ! 1) w (en_docheckstate n2) (en_slave n2 ! 1)
    \<and> (\<forall>i < length (en_slave n). i \<noteq> 1 \<longrightarrow> en_slave n2 ! i = (en_slave n ! i)\<lparr>es_state := al i\<rparr>)"
proof -
  note r = silent_run [OF assms(1,3,2,5)]
  then have g: "es_group (en_slave n1 ! 1) = en_currentgroup n1" and o: "others_read (snd (last ps)) n n1"
    by (simp_all add: net_ready_def del: One_nat_def)
  obtain d v s where c: "check_slave lib (en_currentgroup n1) ((en_slave n1 ! 1)\<lparr>es_state := al 1\<rparr>) = (d, v, s)"
    by (cases "check_slave lib (en_currentgroup n1) ((en_slave n1 ! 1)\<lparr>es_state := al 1\<rparr>)") auto
  from ecatcheck_pass [of n1 lib al d v s, OF _ c] r assms(6) have n2: "v = w" "en_docheckstate n2 = d" "en_slave n2 ! 1 = s" "others_read al n1 n2"
    by auto
  have "lost_slave_step lib (al 1) (en_slave n1 ! 1) v d s"
    using check_lost_slave [OF _ g assms(4) c] r by blast
  moreover have "en_slave n2 ! i = (en_slave n ! i)\<lparr>es_state := al i\<rparr>" if "i < length (en_slave n)" "i \<noteq> 1" for i
    using that o n2(4) by (simp add: others_read_def del: One_nat_def)
  ultimately show ?thesis using r n2 by (simp del: One_nat_def)
qed

definition lib_silent :: ec_lib where
  "lib_silent = \<lparr>ec_reconfig_slave = (\<lambda>s. (0, s)), ec_statecheck = (\<lambda>s. s), ec_recover_slave = (\<lambda>s. (0, s))\<rparr>"

text \<open>Two passes without an answer, then the recovery succeeds.\<close>

theorem lost_slave_taken_back_witness:
  "\<exists>n1. net_run (replicate 2 (lib_silent, \<lambda>_. EC_STATE_NONE)) (net_ex\<lparr>en_dorun := True, en_inOP := True\<rparr>) = ([None, None], n1)
     \<and> es_islost (en_slave n1 ! 1)
     \<and> \<not> es_islost (en_slave (snd (ecatcheck (lib_silent\<lparr>ec_recover_slave := \<lambda>s. (1, s)\<rparr>) (\<lambda>_. EC_STATE_NONE) n1)) ! 1)"
proof -
  let ?n = "net_ex\<lparr>en_dorun := True, en_inOP := True\<rparr>" let ?l = "lib_silent\<lparr>ec_recover_slave := \<lambda>s. (1, s)\<rparr>"
  have r: "net_ready ?n" by (simp add: net_ready_def net_ex_def)
  have ps: "\<forall>(lib, al) \<in> set (replicate 2 (lib_silent, \<lambda>_. EC_STATE_NONE)). silent lib \<and> al 1 = EC_STATE_NONE"
    by (simp add: silent_def lib_silent_def)
  obtain ws n1 where run: "net_run (replicate 2 (lib_silent, \<lambda>_. EC_STATE_NONE)) ?n = (ws, n1)" by fastforce
  obtain w n2 where step: "ecatcheck ?l (\<lambda>_. EC_STATE_NONE) n1 = (w, n2)" by fastforce
  from lost_slave_taken_back [OF r _ ps _ run step] have "ws = replicate 2 None" "es_islost (en_slave n1 ! 1)"
    "lost_slave_step ?l EC_STATE_NONE (en_slave n1 ! 1) w (en_docheckstate n2) (en_slave n2 ! 1)" by simp_all
  then show ?thesis using run step
    by (simp add: lost_slave_step_def ec_state_defs numeral_2_eq_2)
qed

end
