(* ===== verification/UsrMot.thy ===== *)
theory UsrMot
  imports CommandProps
begin

text \<open>
  The side of the main program: commands and status through the shared structure (\<open>motion/usrmotintf.cpp\<close>), the
  calls of the task (\<open>task/taskintf.cpp\<close>) and the timer of its loop (\<open>libnml/timer.cpp\<close>). Copies out of the
  structure may be torn by the controller: what each copy yields is a parameter, and so is what is read
  while a command is polled for.
\<close>

definition EMCMOT_COMM_OK :: int where "EMCMOT_COMM_OK = 0"
definition EMCMOT_COMM_ERROR_CONNECT :: int where "EMCMOT_COMM_ERROR_CONNECT = -1"
definition EMCMOT_COMM_ERROR_TIMEOUT :: int where "EMCMOT_COMM_ERROR_TIMEOUT = -2"
definition EMCMOT_COMM_ERROR_COMMAND :: int where "EMCMOT_COMM_ERROR_COMMAND = -3"
definition EMCMOT_COMM_SPLIT_READ_TIMEOUT :: int where "EMCMOT_COMM_SPLIT_READ_TIMEOUT = -4"
definition EMCMOT_COMM_INVALID_MOTION_ID :: int where "EMCMOT_COMM_INVALID_MOTION_ID = -5"

lemmas comm_defs = EMCMOT_COMM_OK_def EMCMOT_COMM_ERROR_CONNECT_def EMCMOT_COMM_ERROR_TIMEOUT_def
  EMCMOT_COMM_ERROR_COMMAND_def EMCMOT_COMM_SPLIT_READ_TIMEOUT_def EMCMOT_COMM_INVALID_MOTION_ID_def

section \<open>Reading without a split\<close>

text \<open>The loop is the same for status, configuration and debug structure: three copies at most.\<close>

function split_read :: "('a \<Rightarrow> 8 word) \<Rightarrow> ('a \<Rightarrow> 8 word) \<Rightarrow> (nat \<Rightarrow> 'a) \<Rightarrow> nat \<Rightarrow> int \<times> 'a" where
  "split_read hf tf copy n =
     (if hf (copy n) = tf (copy n) then (EMCMOT_COMM_OK, copy n)
      else if Suc n < 3 then split_read hf tf copy (Suc n)
      else (EMCMOT_COMM_SPLIT_READ_TIMEOUT, copy n))"
  by auto
termination by (relation "measure (\<lambda>(_, _, _, n). 3 - n)") auto

declare split_read.simps [simp del]

definition usrmotReadEmcmotStatus :: "bool \<Rightarrow> (nat \<Rightarrow> mot_status) \<Rightarrow> mot_status \<Rightarrow> int \<times> mot_status" where
  "usrmotReadEmcmotStatus mapped copy s =
     (if \<not> mapped then (EMCMOT_COMM_ERROR_CONNECT, s) else split_read ms_head ms_tail copy 0)"

definition usrmotReadEmcmotConfig :: "bool \<Rightarrow> (nat \<Rightarrow> mot_config) \<Rightarrow> mot_config \<Rightarrow> int \<times> mot_config" where
  "usrmotReadEmcmotConfig mapped copy s =
     (if \<not> mapped then (EMCMOT_COMM_ERROR_CONNECT, s) else split_read mg_head mg_tail copy 0)"

definition usrmotReadEmcmotInternal ::
  "bool \<Rightarrow> (nat \<Rightarrow> 'tc mot_internal) \<Rightarrow> 'tc mot_internal \<Rightarrow> int \<times> 'tc mot_internal" where
  "usrmotReadEmcmotInternal mapped copy s =
     (if \<not> mapped then (EMCMOT_COMM_ERROR_CONNECT, s) else split_read mi_head mi_tail copy 0)"

lemma split_read_result:
  assumes "split_read hf tf copy n = (r, s)"
  shows "(r = EMCMOT_COMM_OK \<longrightarrow> hf s = tf s) \<and> (\<exists>k \<ge> n. s = copy k \<and> k < max 3 (Suc n))"
  using assms
proof (induction hf tf copy n rule: split_read.induct)
  case (1 hf tf copy n)
  show ?case
  proof (cases "hf (copy n) \<noteq> tf (copy n) \<and> Suc n < 3")
    case True
    with 1(2) have "split_read hf tf copy (Suc n) = (r, s)" using split_read.simps [of hf tf copy n] by simp
    with 1(1) True obtain k where "r = EMCMOT_COMM_OK \<longrightarrow> hf s = tf s" "Suc n \<le> k" "s = copy k" "k < max 3 (Suc (Suc n))"
      by auto
    with True show ?thesis by (intro conjI exI [of _ k]) auto
  next
    case False
    with 1(2) show ?thesis using split_read.simps [of hf tf copy n] by (auto simp: comm_defs split: if_splits)
  qed
qed

section \<open>Writing a command\<close>

text \<open>
  The number of the last command is a static that stays 0; \<open>reads\<close> are the answers of reading the status until
  the time is over.
\<close>

primrec poll_echo :: "(int \<times> mot_status) list \<Rightarrow> int" where
  "poll_echo [] = EMCMOT_COMM_ERROR_TIMEOUT"
| "poll_echo (p # ps) =
     (if fst p = EMCMOT_COMM_OK \<and> ms_commandNumEcho (snd p) = 0
      then if ms_commandStatus (snd p) = EMCMOT_COMMAND_OK then EMCMOT_COMM_OK else EMCMOT_COMM_ERROR_COMMAND
      else poll_echo ps)"

definition usrmotWriteEmcmotCommand ::
  "bool \<Rightarrow> (int \<times> mot_status) list \<Rightarrow> mot_command \<Rightarrow> 'tc mot_state \<Rightarrow> (int \<times> 'tc mot_state) option" where
  "usrmotWriteEmcmotCommand mapped reads c g =
     (if mc_id c = MOTION_INVALID_ID then Some (EMCMOT_COMM_INVALID_MOTION_ID, g)
      else if \<not> mapped then Some (EMCMOT_COMM_ERROR_CONNECT, g)
      else if g_command_mutex g then None
      else Some (poll_echo reads, g\<lparr>g_command := c\<rparr>))"

section \<open>The calls of the task\<close>

record 'tc task_state =
  tk_command :: mot_command
  tk_status :: mot_status
  tk_config :: mot_config
  tk_new_config :: int
  tk_commandType :: cmd_code
  tk_echoSerial :: int
  tk_get_internal_info :: bool
  tk_internal :: "'tc mot_internal"

definition emcMotionUpdate ::
  "bool \<Rightarrow> (nat \<Rightarrow> mot_status) \<Rightarrow> (nat \<Rightarrow> mot_config) \<Rightarrow> (nat \<Rightarrow> 'tc mot_internal) \<Rightarrow> 'tc task_state \<Rightarrow>
     int \<times> 'tc task_state" where
  "emcMotionUpdate mapped copy copy_config copy_internal t =
     (let (r, st) = usrmotReadEmcmotStatus mapped copy (tk_status t); t1 = t\<lparr>tk_status := st\<rparr> in
      if r \<noteq> 0 then (-1, t1)
      else
        let t2 = t1\<lparr>tk_new_config := 0\<rparr>;
            (r2, t3) = (if ms_config_num st \<noteq> mg_config_num (tk_config t2)
               then (let (q, cf) = usrmotReadEmcmotConfig mapped copy_config (tk_config t2) in
                 if q \<noteq> 0 then (-1 :: int, t2\<lparr>tk_config := cf\<rparr>) else (0, t2\<lparr>tk_config := cf, tk_new_config := 1\<rparr>))
               else (0, t2)) in
        if r2 \<noteq> 0 then (-1, t3)
        else
          let (r4, t4) = (if tk_get_internal_info t3
               then (let (q, d) = usrmotReadEmcmotInternal mapped copy_internal (tk_internal t3) in
                 ((if q \<noteq> 0 then -1 else 0) :: int, t3\<lparr>tk_internal := d\<rparr>))
               else (0, t3)) in
          if r4 \<noteq> 0 then (-1, t4)
          else (0, t4\<lparr>tk_commandType := ms_commandEcho st, tk_echoSerial := ms_commandNumEcho st\<rparr>))"

definition task_write ::
  "bool \<Rightarrow> (int \<times> mot_status) list \<Rightarrow> (mot_command \<Rightarrow> mot_command) \<Rightarrow> 'tc task_state \<times> 'tc mot_state \<Rightarrow>
     (int \<times> 'tc task_state \<times> 'tc mot_state) option" where
  "task_write mapped reads f = (\<lambda>(t, g).
     let t1 = t\<lparr>tk_command := f (tk_command t)\<rparr> in
     map_option (\<lambda>(r, g1). (r, t1, g1)) (usrmotWriteEmcmotCommand mapped reads (tk_command t1) g))"

definition emcTrajDisable :: "bool \<Rightarrow> (int \<times> mot_status) list \<Rightarrow> 'tc task_state \<times> 'tc mot_state \<Rightarrow> (int \<times> 'tc task_state \<times> 'tc mot_state) option" where
  "emcTrajDisable mapped reads = task_write mapped reads (\<lambda>c. c\<lparr>mc_command := EMCMOT_MOTION_DISABLE\<rparr>)"

definition emcJogAbort :: "bool \<Rightarrow> (int \<times> mot_status) list \<Rightarrow> int \<Rightarrow> 'tc task_state \<times> 'tc mot_state \<Rightarrow> (int \<times> 'tc task_state \<times> 'tc mot_state) option" where
  "emcJogAbort mapped reads axis tg =
     (if axis < 0 \<or> axis \<ge> int EMCMOT_MAX_AXIS then Some (0, tg)
      else task_write mapped reads (\<lambda>c. c\<lparr>mc_command := EMCMOT_JOG_ABORT, mc_axis := -1\<rparr>) tg)"

definition emcTrajAbort :: "bool \<Rightarrow> (int \<times> mot_status) list \<Rightarrow> 'tc task_state \<times> 'tc mot_state \<Rightarrow> (int \<times> 'tc task_state \<times> 'tc mot_state) option" where
  "emcTrajAbort mapped reads = task_write mapped reads (\<lambda>c. c\<lparr>mc_command := EMCMOT_ABORT\<rparr>)"

text \<open>One axis of the loop of \<open>emcMotionAbort\<close>: the result is 0 as soon as one abort went through.\<close>

definition abort_axis ::
  "bool \<Rightarrow> (nat \<Rightarrow> (int \<times> mot_status) list) \<Rightarrow> nat \<Rightarrow> int \<times> 'tc task_state \<times> 'tc mot_state \<Rightarrow>
     (int \<times> 'tc task_state \<times> 'tc mot_state) option" where
  "abort_axis mapped reads n = (\<lambda>(r1, tg).
     map_option (\<lambda>(r, tg'). (if r = 0 then 0 else r1, tg')) (emcJogAbort mapped (reads n) (int n) tg))"

text \<open>The reads of the calls one after the other: one for each axis, one for the trajectory.\<close>

definition emcMotionAbort ::
  "bool \<Rightarrow> (nat \<Rightarrow> (int \<times> mot_status) list) \<Rightarrow> 'tc task_state \<times> 'tc mot_state \<Rightarrow> (int \<times> 'tc task_state \<times> 'tc mot_state) option" where
  "emcMotionAbort mapped reads tg =
     (case fold (\<lambda>n x. Option.bind x (abort_axis mapped reads n)) [0..<EMCMOT_MAX_AXIS] (Some (-1, tg)) of
        None \<Rightarrow> None
      | Some (r1, tg1) \<Rightarrow> map_option (\<lambda>(r2, tg2). (if r1 = 0 \<and> r2 = 0 then 0 else -1, tg2))
          (emcTrajAbort mapped (reads EMCMOT_MAX_AXIS) tg1))"

text \<open>What the main program does after its loop: the threads are stopped first.\<close>

definition task_shutdown ::
  "bool \<Rightarrow> (nat \<Rightarrow> (int \<times> mot_status) list) \<Rightarrow> 'tc task_state \<times> 'tc mot_state \<Rightarrow> (int \<times> int \<times> 'tc task_state \<times> 'tc mot_state) option" where
  "task_shutdown mapped reads tg =
     (case emcMotionAbort mapped reads tg of
        None \<Rightarrow> None
      | Some (r, tg1) \<Rightarrow> map_option (\<lambda>(r2, tg2). (r, r2, tg2))
          (emcTrajDisable mapped (reads (Suc EMCMOT_MAX_AXIS)) tg1))"

section \<open>The timer\<close>

text \<open>
  \<open>RCS_TIMER::wait\<close> without a user function: the cycles missed and the time left to sleep, given the time it is
  called at and the time of the last wake-up.
\<close>

definition rcs_wait :: "real \<Rightarrow> real \<Rightarrow> real \<Rightarrow> int \<times> real" where
  "rcs_wait timeout last_time time_in =
     (let interval = time_in - last_time; numcycles = interval / timeout in
      (r_trunc numcycles, timeout * (1 - (numcycles - of_int (r_trunc numcycles)))))"

lemma rcs_wait_next:
  assumes "0 < timeout" "last_time \<le> time_in" "rcs_wait timeout last_time time_in = (missed, remaining)"
  shows "0 < remaining \<and> remaining \<le> timeout \<and> 0 \<le> missed
    \<and> time_in + remaining = last_time + of_int (missed + 1) * timeout"
proof -
  let ?n = "(time_in - last_time) / timeout"
  have n: "0 \<le> ?n" using assms(1,2) by simp
  have m: "missed = \<lfloor>?n\<rfloor>" and r: "remaining = timeout * (1 - (?n - of_int \<lfloor>?n\<rfloor>))"
    using assms(3) n by (auto simp: rcs_wait_def r_trunc_def Let_def)
  have f: "0 \<le> ?n - of_int \<lfloor>?n\<rfloor>" "?n - of_int \<lfloor>?n\<rfloor> < 1" by linarith+
  have "timeout * ?n = time_in - last_time" using assms(1) by simp
  then have "time_in + remaining = last_time + of_int (missed + 1) * timeout" unfolding m r by (simp add: algebra_simps)
  moreover have "0 < remaining" unfolding r using f assms(1) by simp
  moreover have "remaining \<le> timeout" unfolding r using f(1) assms(1) by (simp add: mult_le_cancel_left1)
  ultimately show ?thesis using n m by simp
qed

section \<open>A command that is never executed\<close>

lemma handler_ignores:
  assumes "mc_commandNum (g_command g) = ms_commandNumEcho (g_status g)" "\<not> g_command_mutex g"
  shows "emcmotCommandHandler addLine addCircle g = Some (sync_tails g)"
proof -
  have "(sync_tails (g\<lparr>g_command_mutex := True\<rparr>))\<lparr>g_command_mutex := False\<rparr> = sync_tails g"
    using assms(2) by (cases g) (simp add: sync_tails_def upd_status_def upd_config_def upd_internal_def)
  then show ?thesis using assms by (simp add: emcmotCommandHandler_def emcmotCommandHandler_locked_def)
qed

text \<open>
  C36: the main program can be told that a command went through which is never executed. While the number echoed by
  the controller is still 0 and its status is good, a command written from the main program - the disabling
  of motion at the end, say - is reported as honoured at the first poll, but the handler takes it for one it has
  already executed: it changes nothing but the tail counters, now and whenever it runs again.
\<close>

theorem user_command_lost:
  assumes "ms_commandNumEcho (g_status g) = 0" "ms_commandStatus (g_status g) = EMCMOT_COMMAND_OK" "\<not> g_command_mutex g"
    and "mc_commandNum (tk_command t) = 0" "mc_id (tk_command t) = 0"
  shows "\<exists>t' g'. emcTrajDisable True ((EMCMOT_COMM_OK, g_status g) # reads) (t, g) = Some (EMCMOT_COMM_OK, t', g')
    \<and> mc_command (g_command g') = EMCMOT_MOTION_DISABLE
    \<and> emcmotCommandHandler addLine addCircle g' = Some (sync_tails g')
    \<and> emcmotCommandHandler addLine addCircle (sync_tails g') = Some (sync_tails g')
    \<and> mi_enabling (g_internal (sync_tails g')) = mi_enabling (g_internal g)
    \<and> ms_motionFlag (g_status (sync_tails g')) = ms_motionFlag (g_status g)"
proof -
  let ?c = "(tk_command t)\<lparr>mc_command := EMCMOT_MOTION_DISABLE\<rparr>"
  let ?g = "g\<lparr>g_command := ?c\<rparr>"
  have w: "emcTrajDisable True ((EMCMOT_COMM_OK, g_status g) # reads) (t, g)
      = Some (EMCMOT_COMM_OK, t\<lparr>tk_command := ?c\<rparr>, ?g)"
    using assms by (simp add: emcTrajDisable_def task_write_def usrmotWriteEmcmotCommand_def MOTION_INVALID_ID_def INT32_MIN_def)
  have h: "emcmotCommandHandler addLine addCircle ?g = Some (sync_tails ?g)"
    by (rule handler_ignores) (use assms in simp_all)
  have h2: "emcmotCommandHandler addLine addCircle (sync_tails ?g) = Some (sync_tails (sync_tails ?g))"
    by (rule handler_ignores) (use assms in \<open>simp_all add: sync_tails_def\<close>)
  have "mi_enabling (g_internal (sync_tails ?g)) = mi_enabling (g_internal g)"
    "ms_motionFlag (g_status (sync_tails ?g)) = ms_motionFlag (g_status g)"
    by (simp_all add: sync_tails_def)
  with w h h2 show ?thesis by (intro exI [of _ "t\<lparr>tk_command := ?c\<rparr>"] exI [of _ ?g]) (simp add: sync_tails_idem)
qed

definition task_zero :: "unit task_state" where
  "task_zero = \<lparr>tk_command = command_zero, tk_status = status_zero, tk_config = config_zero, tk_new_config = 0,
     tk_commandType = EMCMOT_FREE, tk_echoSerial = 0, tk_get_internal_info = False, tk_internal = g_internal mot_zero\<rparr>"

theorem user_command_lost_witness:
  "\<exists>t' g'. emcTrajDisable True [(EMCMOT_COMM_OK, status_zero)] (task_zero, mot_zero :: unit mot_state) = Some (0, t', g')
     \<and> emcmotCommandHandler no_line no_circle g' = Some (sync_tails g')"
  using user_command_lost [of "mot_zero :: unit mot_state" task_zero "[]" no_line no_circle]
  by (auto simp: mot_zero_def status_zero_def task_zero_def command_zero_def EMCMOT_COMM_OK_def)

declare max_axis_upt [simp del]

section \<open>The end of the program\<close>

text \<open>When nothing changes the status any more, a poll is decided by it alone.\<close>

lemma poll_constant:
  "(\<forall>p \<in> set ps. p = (EMCMOT_COMM_OK, st)) \<Longrightarrow> ms_commandNumEcho st \<noteq> 0 \<Longrightarrow> poll_echo ps = EMCMOT_COMM_ERROR_TIMEOUT"
  by (induction ps) auto

text \<open>
  C37: at the end of the program nothing is aborted. The threads are stopped before the abort and the disabling are
  sent, so the status stays as it was: whatever each call reports, all that has changed is the command in the
  shared structure. If the controller has echoed a number other than 0 before, each of the commands waits until
  its time is over and both calls report failure.
\<close>

theorem shutdown_not_executed:
  assumes "\<not> g_command_mutex g" "mc_id (tk_command t) = 0"
    and "\<forall>k. \<forall>p \<in> set (reads k). p = (EMCMOT_COMM_OK, g_status g)"
  shows "\<exists>r1 r2 t' c. task_shutdown True reads (t, g) = Some (r1, r2, t', g\<lparr>g_command := c\<rparr>)
    \<and> (ms_commandNumEcho (g_status g) \<noteq> 0 \<longrightarrow> r1 = -1 \<and> r2 = EMCMOT_COMM_ERROR_TIMEOUT)"
proof -
  let ?echo = "ms_commandNumEcho (g_status g) \<noteq> 0"
  have p: "poll_echo (reads k) = EMCMOT_COMM_ERROR_TIMEOUT" if ?echo for k using poll_constant that assms(3) by blast
  have w: "task_write True rs f (t1, h) = Some (poll_echo rs, t1\<lparr>tk_command := f (tk_command t1)\<rparr>,
      h\<lparr>g_command := f (tk_command t1)\<rparr>)"
    if "mc_id (f (tk_command t1)) = 0" "\<not> g_command_mutex h" for rs f t1 and h :: "'a mot_state"
    using that by (simp add: task_write_def usrmotWriteEmcmotCommand_def MOTION_INVALID_ID_def INT32_MIN_def)
  have jog: "emcJogAbort True rs (int n) (t1, h) = Some (poll_echo rs,
      t1\<lparr>tk_command := (tk_command t1)\<lparr>mc_command := EMCMOT_JOG_ABORT, mc_axis := -1\<rparr>\<rparr>,
      h\<lparr>g_command := (tk_command t1)\<lparr>mc_command := EMCMOT_JOG_ABORT, mc_axis := -1\<rparr>\<rparr>)"
    if "n < EMCMOT_MAX_AXIS" "mc_id (tk_command t1) = 0" "\<not> g_command_mutex h" for n rs t1 and h :: "'a mot_state"
    using that by (simp add: emcJogAbort_def w)
  have loop: "\<exists>r t' c. fold (\<lambda>n x. Option.bind x (abort_axis True reads n)) ns (Some (r0, t1, g\<lparr>g_command := c1\<rparr>))
      = Some (r, t', g\<lparr>g_command := c\<rparr>) \<and> mc_id (tk_command t') = 0 \<and> (?echo \<longrightarrow> r = r0)"
    if "\<forall>n \<in> set ns. n < EMCMOT_MAX_AXIS" "mc_id (tk_command t1) = 0" for ns r0 t1 c1
    using that
  proof (induction ns arbitrary: r0 t1 c1)
    case (Cons n ns)
    let ?c = "(tk_command t1)\<lparr>mc_command := EMCMOT_JOG_ABORT, mc_axis := -1\<rparr>"
    let ?r = "if poll_echo (reads n) = 0 then 0 else r0"
    have "abort_axis True reads n (r0, t1, g\<lparr>g_command := c1\<rparr>) = Some (?r, t1\<lparr>tk_command := ?c\<rparr>, g\<lparr>g_command := ?c\<rparr>)"
      using Cons.prems assms(1) by (simp add: abort_axis_def jog)
    moreover have "?r = r0" if ?echo using p [OF that] by (simp add: EMCMOT_COMM_ERROR_TIMEOUT_def)
    ultimately show ?case using Cons.IH [of "t1\<lparr>tk_command := ?c\<rparr>" ?r ?c] Cons.prems by auto
  qed auto
  obtain r t' c where l: "fold (\<lambda>n x. Option.bind x (abort_axis True reads n)) [0..<EMCMOT_MAX_AXIS] (Some (-1, t, g))
      = Some (r, t', g\<lparr>g_command := c\<rparr>)" "mc_id (tk_command t') = 0" "?echo \<longrightarrow> r = -1"
    using loop [of "[0..<EMCMOT_MAX_AXIS]" t "-1" "g_command g"] assms(2) by auto
  show ?thesis
    unfolding task_shutdown_def emcMotionAbort_def emcTrajAbort_def emcTrajDisable_def l(1)
    using l(2,3) assms(1) p by (auto simp: w)
qed

theorem shutdown_not_executed_witness:
  "\<exists>t' c. task_shutdown True (\<lambda>_. [(EMCMOT_COMM_OK, status_zero\<lparr>ms_commandNumEcho := 1\<rparr>)])
     (task_zero, mot_zero\<lparr>g_status := status_zero\<lparr>ms_commandNumEcho := 1\<rparr>\<rparr>)
     = Some (-1, -2, t', (mot_zero\<lparr>g_status := status_zero\<lparr>ms_commandNumEcho := 1\<rparr>\<rparr>)\<lparr>g_command := c\<rparr>)"
  using shutdown_not_executed [of "mot_zero\<lparr>g_status := status_zero\<lparr>ms_commandNumEcho := 1\<rparr>\<rparr>" task_zero
      "\<lambda>_. [(EMCMOT_COMM_OK, status_zero\<lparr>ms_commandNumEcho := 1\<rparr>)]"]
  by (simp add: mot_zero_def task_zero_def command_zero_def EMCMOT_COMM_ERROR_TIMEOUT_def)

end
