(* ===== verification/StartUp.thy ===== *)
theory StartUp
  imports MotionInitProps HalInv HpSocket Servo UsrMot "HOL-Library.Monad_Syntax"
begin

text \<open>
  Starting and stopping the program: \<open>emctask_startup\<close> of \<open>task/taskmain.cpp\<close> with what it calls,
  \<open>socket_thread_main\<close> (\<open>hal/hpsocket.c\<close>), \<open>motion_thread_main\<close> (\<open>motion/motion.c\<close>, \<open>motion/axis.c\<close>) and \<open>ecat_thread_main\<close>
  (\<open>hal/ServoEnable.c\<close>), as sequences of calls into the hardware abstraction layer and the runtime layer. The sizes
  of C structures and the addresses of functions are the compiler's and parameters; a structure in the memory
  of the layer is its address, and its fields are pointers of eight bytes one after the other. \<open>None\<close> is a call
  that never returns or an access through a null pointer.
\<close>

section \<open>The program's state\<close>

datatype app_funct = Fn_ProcessTask | Fn_ClientThreadData | Fn_CommandHandler | Fn_Controller | Fn_ecatthread

record 'tc app_env =
  ev_os :: shm_os
  ev_tos :: task_os
  ev_addr :: "app_funct \<Rightarrow> int"
  ev_space :: "'tc list"
  ev_storage :: "byte list"
  ev_sizeof_socket_status :: int
  ev_sizeof_mot_struct :: int
  ev_sizeof_ecat_status :: int

record traj_config =
  tj_Inited :: int
  tj_Axis :: int
  tj_MaxAccel :: real
  tj_MaxVel :: real
  tj_AxisMask :: int
  tj_LinearUnits :: real
  tj_AngularUnits :: real
  tj_MotionId :: int

text \<open>The statics of the files; a structure that is not attached has address 0.\<close>

record 'tc app =
  ap_hal :: hal_sys
  ap_mot :: "'tc mot_state"
  ap_error :: mot_error
  ap_sock :: sock_state
  ap_task :: "'tc task_state"
  ap_traj :: traj_config
  ap_num_axis :: int
  ap_socket_module_id :: int
  ap_socket_shmem_id :: int
  ap_socket_comp_id :: int
  ap_mot_comp_id :: int
  ap_emc_shmem_id :: int
  ap_mot_hal :: int
  ap_axis_hal :: int
  ap_ecat_module_id :: int
  ap_ecat_shmem_id :: int
  ap_ecat_comp_id :: int
  ap_ecat_struct :: int
  ap_ecat_cycle :: real

type_synonym 'tc call = "'tc app \<Rightarrow> (int \<times> 'tc app) option"

definition on_hal :: "(hal_sys \<Rightarrow> (int \<times> hal_sys) option) \<Rightarrow> 'tc call" where
  "on_hal f a = map_option (\<lambda>(r, s). (r, a\<lparr>ap_hal := s\<rparr>)) (f (ap_hal a))"

definition on_hal_data :: "(hal_data \<Rightarrow> (int \<times> hal_data) option) \<Rightarrow> 'tc call" where
  "on_hal_data f = on_hal (on_data f)"

text \<open>\<open>rtapi_shmem_new\<close>, \<open>rtapi_shmem_getptr\<close> and \<open>rtapi_shmem_delete\<close> on the table of the process.\<close>

definition app_handles :: "'tc app \<Rightarrow> shm_handle list" where
  "app_handles a = rt_handles (hs_rt (ap_hal a))"

definition set_handles :: "shm_handle list \<Rightarrow> 'tc app \<Rightarrow> 'tc app" where
  "set_handles hs a = a\<lparr>ap_hal := (ap_hal a)\<lparr>hs_rt := (hs_rt (ap_hal a))\<lparr>rt_handles := hs\<rparr>\<rparr>\<rparr>"

definition app_shmem_new :: "shm_os \<Rightarrow> int \<Rightarrow> int \<Rightarrow> 'tc app \<Rightarrow> int \<times> 'tc app" where
  "app_shmem_new os key sz a =
     (let (h, hs) = rtapi_shmem_new os key sz (app_handles a) in (h, set_handles hs a))"

definition app_rtapi_init :: "shm_os \<Rightarrow> 'tc call" where
  "app_rtapi_init os = on_hal (\<lambda>s. map_option (\<lambda>(m, rt). (m, s\<lparr>hs_rt := rt\<rparr>)) (rtapi_init os (hs_rt s)))"

definition app_rtapi_exit :: "shm_os \<Rightarrow> int \<Rightarrow> 'tc app \<Rightarrow> 'tc app" where
  "app_rtapi_exit os m a = a\<lparr>ap_hal := (ap_hal a)\<lparr>hs_rt := snd (rtapi_exit os m (hs_rt (ap_hal a)))\<rparr>\<rparr>"

text \<open>A call whose result is ignored, and the failure of an initialisation that has to leave the layer.\<close>

definition ignore :: "'tc call \<Rightarrow> 'tc app \<Rightarrow> 'tc app option" where
  "ignore f a = map_option snd (f a)"

definition fail_exit :: "shm_os \<Rightarrow> int \<Rightarrow> 'tc call" where
  "fail_exit os cid a = map_option (\<lambda>a1. (-1, a1)) (ignore (on_hal (hal_exit os cid)) a)"

section \<open>Pins in a structure\<close>

text \<open>A pin: its type, the index of its pointer in the structure and its name.\<close>

type_synonym pin_spec = "hal_type \<times> nat \<times> string"

definition pin_at :: "int \<Rightarrow> nat \<Rightarrow> int" where
  "pin_at base i = base + 8 * int i"

definition new_pin :: "int \<Rightarrow> int \<Rightarrow> pin_spec \<Rightarrow> 'tc call" where
  "new_pin base cid = (\<lambda>(ty, i, name). on_hal_data (hal_pin_newf ty (pin_at base i) cid name))"

primrec new_pins :: "int \<Rightarrow> int \<Rightarrow> pin_spec list \<Rightarrow> 'tc app \<Rightarrow> 'tc app option" where
  "new_pins base cid [] a = Some a"
| "new_pins base cid (p # ps) a = do { a1 \<leftarrow> ignore (new_pin base cid p) a; new_pins base cid ps a1 }"

primrec new_pins_checked :: "int \<Rightarrow> int \<Rightarrow> pin_spec list \<Rightarrow> 'tc call" where
  "new_pins_checked base cid [] a = Some (0, a)"
| "new_pins_checked base cid (p # ps) a =
     do { (r, a1) \<leftarrow> new_pin base cid p a; if r \<noteq> 0 then Some (r, a1) else new_pins_checked base cid ps a1 }"

text \<open>A write through such a pointer; the values of floating point pins are kept as integers.\<close>

definition put_pin :: "int \<Rightarrow> nat \<times> int \<Rightarrow> 'tc app \<Rightarrow> 'tc app option" where
  "put_pin base = (\<lambda>(i, v) a.
     map_option (\<lambda>d. a\<lparr>ap_hal := (ap_hal a)\<lparr>hs_seg := d\<rparr>\<rparr>) (store_through (pin_at base i) v (hs_seg (ap_hal a))))"

primrec put_pins :: "int \<Rightarrow> (nat \<times> int) list \<Rightarrow> 'tc app \<Rightarrow> 'tc app option" where
  "put_pins base [] a = Some a"
| "put_pins base (p # ps) a = do { a1 \<leftarrow> put_pin base p a; put_pins base ps a1 }"

definition EMCMOT_MAX_MISC_ERROR :: nat where "EMCMOT_MAX_MISC_ERROR = 64"

text \<open>The structure \<open>emcmot_hal_data_t\<close>: its fields before the axes, and those of \<open>axis_hal_t\<close>.\<close>

definition axis_hal_at :: "nat \<Rightarrow> nat \<Rightarrow> nat" where
  "axis_hal_at n i = 13 + EMCMOT_MAX_MISC_ERROR + 28 * n + i"

definition SIZEOF_MOT_HAL :: int where
  "SIZEOF_MOT_HAL = 8 * int (axis_hal_at EMCMOT_MAX_AXIS 2)"

definition motion_pins :: "pin_spec list" where
  "motion_pins =
     [(HAL_BIT, 1, ''motion.jog-inhibit''), (HAL_BIT, 2, ''motion.jog-stop''),
      (HAL_BIT, 3, ''motion.jog-stop-immediate''), (HAL_BIT, 0, ''motion.enable''),
      (HAL_BIT, 6, ''motion.motion-enabled''), (HAL_BIT, 7, ''motion.in-position''),
      (HAL_BIT, 8, ''motion.coord-mode''), (HAL_BIT, 9, ''motion.coord-error''),
      (HAL_BIT, 10, ''motion.on-soft-limit''),
      (HAL_U32, 11 + EMCMOT_MAX_MISC_ERROR, ''motion.servo.last-period''),
      (HAL_U32, 4, ''motion.jog-is-active''), (HAL_BIT, 5, ''motion.tp-reverse''),
      (HAL_FLOAT, 12 + EMCMOT_MAX_MISC_ERROR, ''motion.servo.last-period-ns''),
      (HAL_BIT, axis_hal_at EMCMOT_MAX_AXIS 1, ''motion.eoffset-limited''),
      (HAL_BIT, axis_hal_at EMCMOT_MAX_AXIS 0, ''motion.eoffset-active'')]"

definition motion_pin_values :: "(nat \<times> int) list" where
  "motion_pin_values = [(1, 0), (2, 0), (3, 0), (0, 1), (6, 0), (7, 0), (8, 0), (9, 0), (10, 0),
     (11 + EMCMOT_MAX_MISC_ERROR, 0)]"

text \<open>The number of an axis has one digit.\<close>

definition axis_name :: "nat \<Rightarrow> string \<Rightarrow> string" where
  "axis_name n s = ''axis.'' @ [char_of (48 + n)] @ ''.'' @ s"

definition axis_pins :: "nat \<Rightarrow> pin_spec list" where
  "axis_pins n = map (\<lambda>(ty, i, s). (ty, axis_hal_at n i, axis_name n s))
     [(HAL_S32, 0, ''coarse-pos-cmd''), (HAL_S32, 1, ''vel-cmd''), (HAL_S32, 2, ''acc-cmd''), (HAL_S32, 3, ''dec-cmd''),
      (HAL_S32, 5, ''motor-pos-cmd''), (HAL_S32, 6, ''motor-pos-fb''), (HAL_S32, 4, ''motor-offset''),
      (HAL_S32, 7, ''pos-cmd''), (HAL_S32, 8, ''pos-fb''), (HAL_S32, 9, ''f-error''), (HAL_S32, 10, ''f-error-lim''),
      (HAL_S32, 11, ''axis_motion''), (HAL_S32, 12, ''axis_status''),
      (HAL_BIT, 13, ''active''), (HAL_BIT, 26, ''motionenable''), (HAL_BIT, 27, ''motionrunning''),
      (HAL_BIT, 14, ''in-position''), (HAL_BIT, 15, ''error''), (HAL_BIT, 16, ''pos-hard-limit''),
      (HAL_BIT, 17, ''neg-hard-limit''), (HAL_BIT, 18, ''f-errored''), (HAL_BIT, 19, ''faulted''),
      (HAL_BIT, 20, ''pos-lim-sw-in''), (HAL_BIT, 21, ''neg-lim-sw-in''), (HAL_BIT, 22, ''amp-fault-in''),
      (HAL_BIT, 23, ''amp-enable-out''), (HAL_BIT, 24, ''unlock''), (HAL_BIT, 25, ''is-unlocked'')]"

definition export_axis :: "nat \<Rightarrow> int \<Rightarrow> int \<Rightarrow> 'tc call" where
  "export_axis n base cid = new_pins_checked base cid (axis_pins n)"

text \<open>The teleoperation axes, \<open>motion/axis.c\<close>: 17 pointers each. No result is looked at.\<close>

definition tele_name :: "nat \<Rightarrow> string \<Rightarrow> string" where
  "tele_name n s = ''axis.'' @ [''xyzabcuvw'' ! n] @ ''.'' @ s"

definition tele_pins :: "nat \<Rightarrow> pin_spec list" where
  "tele_pins n = map (\<lambda>(ty, i, s). (ty, 17 * n + i, tele_name n s))
     [(HAL_FLOAT, 0, ''pos-cmd''), (HAL_FLOAT, 1, ''teleop-vel-cmd''), (HAL_FLOAT, 2, ''teleop-pos-cmd''),
      (HAL_FLOAT, 3, ''teleop-vel-lim''), (HAL_BIT, 4, ''teleop-tp-enable''), (HAL_BIT, 11, ''eoffset-enable''),
      (HAL_BIT, 12, ''eoffset-clear''), (HAL_U32, 13, ''eoffset-counts''), (HAL_FLOAT, 14, ''eoffset-scale''),
      (HAL_FLOAT, 15, ''eoffset''), (HAL_FLOAT, 16, ''eoffset-request'')]"

definition wheel_pins :: "nat \<Rightarrow> pin_spec list" where
  "wheel_pins n = map (\<lambda>(ty, i, s). (ty, 17 * n + i, tele_name n s))
     [(HAL_BIT, 6, ''jog-enable''), (HAL_FLOAT, 7, ''jog-scale''), (HAL_U32, 5, ''jog-counts''),
      (HAL_BIT, 9, ''jog-vel-mode''), (HAL_BIT, 10, ''kb-jog-active''), (HAL_FLOAT, 8, ''jog-accel-fraction'')]"

definition tele_export_axis :: "nat \<Rightarrow> int \<Rightarrow> int \<Rightarrow> 'tc app \<Rightarrow> 'tc app option" where
  "tele_export_axis n base cid a =
     do { a1 \<leftarrow> new_pins base cid (wheel_pins n) a; put_pin base (17 * n + 8, 1) a1 }"

primrec tele_axes :: "nat list \<Rightarrow> int \<Rightarrow> int \<Rightarrow> 'tc app \<Rightarrow> 'tc app option" where
  "tele_axes [] base cid a = Some a"
| "tele_axes (n # ns) base cid a =
     do { a1 \<leftarrow> new_pins base cid (tele_pins n) a; a2 \<leftarrow> tele_export_axis n base cid a1; tele_axes ns base cid a2 }"

definition axis_init_hal_param :: "int \<Rightarrow> 'tc app \<Rightarrow> 'tc app option" where
  "axis_init_hal_param cid a =
     (case hal_malloc (8 * 17 * int EMCMOT_MAX_AXIS) (hs_seg (ap_hal a)) of
        None \<Rightarrow> None
      | Some (p, d) \<Rightarrow>
          let a1 = a\<lparr>ap_hal := (ap_hal a)\<lparr>hs_seg := d\<rparr>, ap_axis_hal := (case p of None \<Rightarrow> 0 | Some q \<Rightarrow> q)\<rparr> in
          if p = None then Some a1 else tele_axes [0..<EMCMOT_MAX_AXIS] (ap_axis_hal a1) cid a1)"

section \<open>The socket\<close>

definition DEFAULT_SHMEM_KEY :: int where "DEFAULT_SHMEM_KEY = 100"

definition usrsocketInit :: "'tc app_env \<Rightarrow> 'tc call" where
  "usrsocketInit ev a =
     do { (m, a1) \<leftarrow> app_rtapi_init (ev_os ev) a;
          let a2 = a1\<lparr>ap_socket_module_id := m\<rparr> in
          if m < 0 then Some (-1, a2)
          else let (h, a3) = app_shmem_new (ev_os ev) DEFAULT_SHMEM_KEY (ev_sizeof_socket_status ev) a2;
                   a4 = a3\<lparr>ap_socket_shmem_id := h\<rparr> in
            if h < 0 \<or> fst (rtapi_shmem_getptr h (app_handles a4)) < 0
            then Some (-1, app_rtapi_exit (ev_os ev) m a4) else Some (0, a4) }"

text \<open>The period is a double constant, and each product is a whole number of nanoseconds.\<close>

definition SOCKET_PERIOD :: int where "SOCKET_PERIOD = 1000000"

definition init_socket_threads :: "'tc app_env \<Rightarrow> 'tc call" where
  "init_socket_threads ev a =
     do { (r1, a1) \<leftarrow> on_hal (hal_create_thread (ev_os ev) (ev_tos ev) ''client_p'' (SOCKET_PERIOD * 10) 1 96) a;
          if r1 < 0 then Some (-1, a1) else do {
          (r2, a2) \<leftarrow> on_hal (hal_create_thread (ev_os ev) (ev_tos ev) ''client_s'' (SOCKET_PERIOD * 1000 * 5) 1 95) a1;
          if r2 < 0 then Some (-1, a2) else do {
          (r3, a3) \<leftarrow> on_hal_data (hal_export_funct ''ProcessTask'' (ev_addr ev Fn_ProcessTask) 0 1 0 (ap_socket_comp_id a2)) a2;
          if r3 < 0 then Some (-1, a3) else do {
          (r4, a4) \<leftarrow> on_hal_data (hal_export_funct ''ClientThreadData'' (ev_addr ev Fn_ClientThreadData) 0 1 0 (ap_socket_comp_id a3)) a3;
          if r4 < 0 then Some (-1, a4) else do {
          a5 \<leftarrow> ignore (on_hal_data (hal_add_funct_to_thread (Some ''ClientThreadData'') (Some ''client_s'') 1)) a4;
          a6 \<leftarrow> ignore (on_hal_data (hal_add_funct_to_thread (Some ''ProcessTask'') (Some ''client_p'') 1)) a5;
          (r7, so) \<leftarrow> setSocketCycleTime (of_int SOCKET_PERIOD * 0.000000001) (ap_sock a6);
          Some (0, a6\<lparr>ap_sock := so\<rparr>) }}}}}"

definition socket_thread_main :: "'tc app_env \<Rightarrow> 'tc call" where
  "socket_thread_main ev a =
     do { (r, a1) \<leftarrow> usrsocketInit ev a;
          if r \<noteq> 0 then Some (-1, a1) else do {
          (cid, a2) \<leftarrow> on_hal (hal_init (ev_os ev) (Some ''socketmod'')) a1;
          let a3 = a2\<lparr>ap_socket_comp_id := cid\<rparr> in
          if cid < 0 then Some (-1, a3) else
          let (r1, so) = init_socket_comm_buffers (fst (rtapi_shmem_getptr (ap_socket_shmem_id a3) (app_handles a3))) 0
                (ev_storage ev) (ap_sock a3);
              a4 = a3\<lparr>ap_sock := so\<rparr> in
          if r1 \<noteq> 0 then fail_exit (ev_os ev) cid a4 else do {
          (r2, a5) \<leftarrow> init_socket_threads ev a4;
          if r2 \<noteq> 0 then fail_exit (ev_os ev) cid a5 else do {
          a6 \<leftarrow> ignore (on_hal_data (hal_ready cid)) a5;
          Some (0, a6) }}}}"

definition app_stop_threads :: "'tc call" where
  "app_stop_threads = on_hal_data (\<lambda>d. Some (hal_stop_threads d))"

definition app_shmem_delete :: "shm_os \<Rightarrow> int \<Rightarrow> 'tc call" where
  "app_shmem_delete os h a = (case rtapi_shmem_delete os h (app_handles a) of (r, gone, hs) \<Rightarrow> Some (r, set_handles hs a))"

text \<open>The three exits are the same sequence; their results are only printed.\<close>

definition thread_exit :: "shm_os \<Rightarrow> int \<Rightarrow> int \<Rightarrow> 'tc app \<Rightarrow> 'tc app option" where
  "thread_exit os h cid a =
     do { a1 \<leftarrow> ignore app_stop_threads a; a2 \<leftarrow> ignore (app_shmem_delete os h) a1; ignore (on_hal (hal_exit os cid)) a2 }"

definition socket_thread_exit :: "shm_os \<Rightarrow> 'tc call" where
  "socket_thread_exit os a = map_option (\<lambda>a1. (0, a1)) (thread_exit os (ap_socket_shmem_id a) (ap_socket_comp_id a) a)"

section \<open>Motion\<close>

definition DBL_MAX :: real where "DBL_MAX = (2 - 1 / 2 ^ 52) * 2 ^ 1023"
definition DEFAULT_TRAJ_MAX_VELOCITY :: real where "DEFAULT_TRAJ_MAX_VELOCITY = 10"

definition emcTrajInit :: "traj_config \<Rightarrow> int \<times> traj_config" where
  "emcTrajInit t = (0, t\<lparr>tj_Inited := 0, tj_Axis := 0, tj_MaxAccel := DBL_MAX, tj_AxisMask := 0, tj_LinearUnits := 1,
     tj_AngularUnits := 1, tj_MotionId := 0, tj_MaxVel := DEFAULT_TRAJ_MAX_VELOCITY\<rparr>)"

primrec export_axes :: "nat list \<Rightarrow> 'tc call" where
  "export_axes [] a = Some (0, a)"
| "export_axes (n # ns) a =
     do { (r, a1) \<leftarrow> export_axis n (ap_mot_hal a) (ap_mot_comp_id a) a;
          if r \<noteq> 0 then Some (-1, a1) else do {
          a2 \<leftarrow> put_pin (ap_mot_hal a1) (axis_hal_at n 23, 1) a1;
          export_axes ns a2 }}"

definition init_hal_param :: "'tc call" where
  "init_hal_param a =
     (case hal_malloc SIZEOF_MOT_HAL (hs_seg (ap_hal a)) of
        None \<Rightarrow> None
      | Some (p, d) \<Rightarrow>
          let a1 = a\<lparr>ap_hal := (ap_hal a)\<lparr>hs_seg := d\<rparr>, ap_mot_hal := (case p of None \<Rightarrow> 0 | Some q \<Rightarrow> q)\<rparr> in
          if p = None then Some (-1, a1)
          else do {
            a2 \<leftarrow> new_pins (ap_mot_hal a1) (ap_mot_comp_id a1) motion_pins a1;
            a3 \<leftarrow> put_pins (ap_mot_hal a2) motion_pin_values a2;
            (r, a4) \<leftarrow> export_axes [0..<nat (ap_num_axis a3)] a3;
            if r \<noteq> 0 then Some (-1, a4) else do {
            a5 \<leftarrow> axis_init_hal_param (ap_mot_comp_id a4) a4;
            Some (0, a5\<lparr>ap_mot := init_hal_values (nat (ap_num_axis a5)) (ap_mot a5)\<rparr>) }})"

text \<open>The shared structure: its segment is looked up by the same key as that of the socket.\<close>

definition attach_motion :: "'tc app_env \<Rightarrow> 'tc app \<Rightarrow> int \<times> 'tc app" where
  "attach_motion ev a =
     (let (h, a1) = app_shmem_new (ev_os ev) DEFAULT_SHMEM_KEY (ev_sizeof_mot_struct ev) a;
          a2 = a1\<lparr>ap_emc_shmem_id := h\<rparr> in
      if h < 0 \<or> fst (rtapi_shmem_getptr h (app_handles a2)) < 0 then (-1, a2)
      else (0, a2\<lparr>ap_error := the (snd (emcmotErrorInit (Some (ap_error a2)))),
                  ap_mot := init_motion_comm_buffers (ap_mot a2)\<rparr>))"

text \<open>\<open>init_motion_threads\<close>: its calls, and the cycle times it sets at the end.\<close>

definition export_motion_threads :: "'tc app_env \<Rightarrow> 'tc call" where
  "export_motion_threads ev a =
     do { (r1, a1) \<leftarrow> on_hal (hal_create_thread (ev_os ev) (ev_tos ev) ''motion-thread'' (SERVO_PERIOD_NSEC * 1000) 1 98) a;
          if r1 < 0 then Some (-1, a1) else do {
          (r2, a2) \<leftarrow> on_hal_data (hal_export_funct ''motion-command-handler'' (ev_addr ev Fn_CommandHandler) 0 1 0 (ap_mot_comp_id a1)) a1;
          if r2 < 0 then Some (-1, a2) else do {
          (r3, a3) \<leftarrow> on_hal_data (hal_export_funct ''motion-controller'' (ev_addr ev Fn_Controller) 0 1 0 (ap_mot_comp_id a2)) a2;
          if r3 < 0 then Some (-1, a3) else do {
          a4 \<leftarrow> ignore (on_hal_data (hal_add_funct_to_thread (Some ''motion-command-handler'') (Some ''motion-thread'') 1)) a3;
          a5 \<leftarrow> ignore (on_hal_data (hal_add_funct_to_thread (Some ''motion-controller'') (Some ''motion-thread'') 2)) a4;
          Some (0, a5) }}}}"

definition init_motion_threads :: "'tc app_env \<Rightarrow> 'tc call" where
  "init_motion_threads ev a =
     do { (r, a1) \<leftarrow> export_motion_threads ev a;
          if r \<noteq> 0 then Some (r, a1) else Some (0, a1\<lparr>ap_mot := init_cycle_times (ap_mot a1)\<rparr>) }"

definition motion_thread_main :: "'tc app_env \<Rightarrow> 'tc call" where
  "motion_thread_main ev a0 =
     (let (r0, tj) = emcTrajInit (ap_traj a0); a = a0\<lparr>ap_traj := tj\<rparr> in
      if r0 \<noteq> 0 then fail_exit (ev_os ev) (ap_mot_comp_id a) a else do {
      (cid, a1) \<leftarrow> on_hal (hal_init (ev_os ev) (Some ''motmod'')) a;
      let a2 = a1\<lparr>ap_mot_comp_id := cid\<rparr> in
      if cid < 0 then Some (-1, a2)
      else if ap_num_axis a2 < 1 \<or> ap_num_axis a2 > int EMCMOT_MAX_AXIS then fail_exit (ev_os ev) cid a2
      else do {
      (r1, a3) \<leftarrow> init_hal_param a2;
      if r1 \<noteq> 0 then fail_exit (ev_os ev) cid a3 else
      let (r2, a4) = attach_motion ev a3 in
      if r2 \<noteq> 0 then fail_exit (ev_os ev) cid a4 else
      let (r3, g) = tp_init (ev_space ev) (ap_mot a4); a5 = a4\<lparr>ap_mot := g\<rparr> in
      if r3 \<noteq> 0 then Some (-1, a5) else do {
      (r4, a6) \<leftarrow> init_motion_threads ev a5;
      if r4 \<noteq> 0 then fail_exit (ev_os ev) cid a6 else do {
      a7 \<leftarrow> ignore (on_hal_data (hal_ready cid)) a6;
      Some (0, a7) }}}})"

definition motion_thread_exit :: "shm_os \<Rightarrow> 'tc app \<Rightarrow> 'tc app option" where
  "motion_thread_exit os a = thread_exit os (ap_emc_shmem_id a) (ap_mot_comp_id a) a"

section \<open>The drives\<close>

text \<open>\<open>usrecatInit\<close>, which nothing calls.\<close>

definition usrecatInit :: "'tc app_env \<Rightarrow> 'tc call" where
  "usrecatInit ev a =
     do { (m, a1) \<leftarrow> app_rtapi_init (ev_os ev) a;
          let a2 = a1\<lparr>ap_ecat_module_id := m\<rparr> in
          if m < 0 then Some (-1, a2)
          else let (h, a3) = app_shmem_new (ev_os ev) DEFAULT_SHMEM_KEY (ev_sizeof_ecat_status ev) a2;
                   a4 = a3\<lparr>ap_ecat_shmem_id := h\<rparr> in
            if h < 0 then Some (-1, app_rtapi_exit (ev_os ev) m a4)
            else (case rtapi_shmem_getptr h (app_handles a4) of
                    (r, None) \<Rightarrow> Some (-1, app_rtapi_exit (ev_os ev) m a4)
                  | (r, Some mem) \<Rightarrow> Some (0, a4\<lparr>ap_ecat_struct := mem\<rparr>)) }"

primrec activate_axes :: "nat list \<Rightarrow> 'tc app \<Rightarrow> 'tc app option" where
  "activate_axes [] a = Some a"
| "activate_axes (n # ns) a =
     do { a1 \<leftarrow> put_pin (ap_mot_hal a) (axis_hal_at n 13, 1) a; activate_axes ns a1 }"

text \<open>The structure at that address; the three status fields it clears are not read by the model.\<close>

definition init_ecat_comm_buffers :: "'tc call" where
  "init_ecat_comm_buffers a =
     (case rtapi_shmem_getptr (ap_ecat_shmem_id a) (app_handles a) of
        (r, None) \<Rightarrow> Some (-1, a\<lparr>ap_ecat_struct := 0\<rparr>)
      | (r, Some mem) \<Rightarrow>
          map_option (\<lambda>a1. (0, a1)) (activate_axes [0..<nat (ap_num_axis a)] (a\<lparr>ap_ecat_struct := mem\<rparr>)))"

definition ECAT_PERIOD :: int where "ECAT_PERIOD = 1000000"

definition setEcatCycleTime :: "real \<Rightarrow> 'tc app \<Rightarrow> int \<times> 'tc app" where
  "setEcatCycleTime secs a = (if secs \<le> 0 then (-1, a) else (0, a\<lparr>ap_ecat_cycle := secs\<rparr>))"

definition init_ecat_threads :: "'tc app_env \<Rightarrow> 'tc call" where
  "init_ecat_threads ev a =
     do { (r1, a1) \<leftarrow> on_hal (hal_create_thread (ev_os ev) (ev_tos ev) ''ecat_thread'' (ECAT_PERIOD * 1000) 1 99) a;
          if r1 < 0 then Some (-1, a1) else do {
          (r2, a2) \<leftarrow> on_hal_data (hal_export_funct ''ecatthread-task'' (ev_addr ev Fn_ecatthread) 0 1 0 (ap_ecat_comp_id a1)) a1;
          if r2 < 0 then Some (-1, a2) else do {
          a3 \<leftarrow> ignore (on_hal_data (hal_add_funct_to_thread (Some ''ecatthread-task'') (Some ''ecat_thread'') 1)) a2;
          Some (0, snd (setEcatCycleTime (of_int ECAT_PERIOD * 0.000000001) a3)) }}}"

definition ecat_thread_main :: "'tc app_env \<Rightarrow> 'tc call" where
  "ecat_thread_main ev a =
     do { (cid, a1) \<leftarrow> on_hal (hal_init (ev_os ev) (Some ''ecatmod'')) a;
          let a2 = a1\<lparr>ap_ecat_comp_id := cid\<rparr> in
          if cid < 0 then Some (-1, a2) else do {
          (r1, a3) \<leftarrow> init_ecat_comm_buffers a2;
          if r1 \<noteq> 0 then fail_exit (ev_os ev) cid a3 else do {
          (r2, a4) \<leftarrow> init_ecat_threads ev a3;
          if r2 \<noteq> 0 then fail_exit (ev_os ev) cid a4 else do {
          a5 \<leftarrow> ignore (on_hal_data (hal_ready cid)) a4;
          Some (0, a5) }}}}"

definition ecat_thread_exit :: "shm_os \<Rightarrow> 'tc call" where
  "ecat_thread_exit os a = map_option (\<lambda>a1. (0, a1)) (thread_exit os (ap_ecat_shmem_id a) (ap_ecat_comp_id a) a)"

section \<open>The whole start\<close>

text \<open>
  The attempts to read the status, at most ten of them; a signal received in between ends the program. What each
  attempt copies is a parameter.
\<close>

type_synonym 'tc copies = "(nat \<Rightarrow> mot_status) \<times> (nat \<Rightarrow> mot_config) \<times> (nat \<Rightarrow> 'tc mot_internal)"

definition STARTUP_ATTEMPTS :: nat where "STARTUP_ATTEMPTS = 10"

primrec await_status ::
  "(nat \<Rightarrow> 'tc copies) \<Rightarrow> (nat \<Rightarrow> bool) \<Rightarrow> nat \<Rightarrow> nat \<Rightarrow> 'tc task_state \<Rightarrow> bool option \<times> 'tc task_state" where
  "await_status copies done 0 k t = (Some False, t)"
| "await_status copies done (Suc n) k t =
     (case copies k of (cs, cc, ci) \<Rightarrow>
        let (r, t1) = emcMotionUpdate True cs cc ci t in
        if r = 0 then (Some True, t1) else if done k then (None, t1) else await_status copies done n (Suc k) t1)"

datatype 'tc startup = Returned int "'tc app" | Exited "'tc app"

definition emctask_startup ::
  "'tc app_env \<Rightarrow> hp_api \<Rightarrow> int \<Rightarrow> (nat \<Rightarrow> 'tc copies) \<Rightarrow> (nat \<Rightarrow> bool) \<Rightarrow> 'tc app \<Rightarrow> 'tc startup option" where
  "emctask_startup ev api printf copies done a =
     (let (r0, so) = socket_init api (ap_sock a); a0 = a\<lparr>ap_sock := so\<rparr> in
      if r0 \<noteq> 0 \<or> printf \<noteq> 0 then Some (Returned (-1) a0) else do {
      (r1, a1) \<leftarrow> on_hal (hal_app_main (ev_os ev)) a0;
      if r1 \<noteq> 0 then Some (Returned (-1) a1) else do {
      (r2, a2) \<leftarrow> socket_thread_main ev a1;
      if r2 \<noteq> 0 then Some (Returned (-1) a2) else do {
      (r3, a3) \<leftarrow> motion_thread_main ev a2;
      if r3 \<noteq> 0 then Some (Returned (-1) a3) else do {
      (r4, a4) \<leftarrow> ecat_thread_main ev (a3\<lparr>ap_num_axis := 2\<rparr>);
      if r4 \<noteq> 0 then Some (Returned (-1) a4) else
      let a5 = a4\<lparr>ap_mot := updata_axis_param (nat (ap_num_axis a4)) (ap_mot a4)\<rparr>;
          (good, t) = await_status copies done STARTUP_ATTEMPTS 0 (ap_task a5);
          a6 = a5\<lparr>ap_task := t\<rparr> in
      (case good of
         None \<Rightarrow> Some (Exited a6)
       | Some b \<Rightarrow> if \<not> b then Some (Returned (-1) a6)
                   else if done STARTUP_ATTEMPTS then Some (Exited a6) else Some (Returned 0 a6)) }}}})"

end
