(* ===== verification/StartUpProps.thy ===== *)
theory StartUpProps
  imports StartUp HalBehave HpSocketProps
begin

text \<open>
  What the start leaves behind: the servo thread with its two functions, at a period that is a thousand times the
  cycle time it records; and the shared segments of the socket and of motion, which are one.
\<close>

section \<open>Exported functions and added entries\<close>

lemma find_insert_named:
  "insert_named nm x xs = Some ys \<Longrightarrow> find (\<lambda>y. nm y = n) ys = (if n = nm x then Some x else find (\<lambda>y. nm y = n) xs)"
  by (induction xs arbitrary: ys) (auto split: if_splits)

lemma find_map_upd:
  "(\<And>f. nm (g f) = nm f) \<Longrightarrow>
   find (\<lambda>f. nm f = n) (map (\<lambda>f. if off f = o1 then g f else f) fs) = map_option (\<lambda>f. if off f = o1 then g f else f) (find (\<lambda>f. nm f = n) fs)"
  by (induction fs) auto

lemma find_upd_funct:
  "(\<And>f. hf_name (g f) = hf_name f) \<Longrightarrow>
   halpr_find_funct_by_name n (upd_funct o1 g d) = map_option (\<lambda>f. if hf_off f = o1 then g f else f) (halpr_find_funct_by_name n d)"
  by (simp add: halpr_find_funct_by_name_def upd_funct_def find_map_upd)

lemma find_funct_keeps: "keeps d d' \<Longrightarrow> halpr_find_funct_by_name n d' = halpr_find_funct_by_name n d"
  by (simp add: halpr_find_funct_by_name_def keeps_def)

text \<open>What a function in the list is, apart from its statistics.\<close>

definition funct_is :: "string \<Rightarrow> int \<Rightarrow> int \<Rightarrow> int \<Rightarrow> int \<Rightarrow> hal_data \<Rightarrow> bool" where
  "funct_is name fn off fp users d \<longleftrightarrow> (\<exists>f. halpr_find_funct_by_name name d = Some f \<and> hf_funct f = fn \<and>
     hf_off f = off \<and> hf_uses_fp f = fp \<and> hf_users f = users)"

lemma funct_is_stat:
  assumes "\<And>f. hf_name (g f) = hf_name f \<and> hf_funct (g f) = hf_funct f \<and> hf_off (g f) = hf_off f \<and>
     hf_uses_fp (g f) = hf_uses_fp f \<and> hf_users (g f) = hf_users f"
  shows "funct_is name fn off fp users (upd_funct o1 g d) \<longleftrightarrow> funct_is name fn off fp users d"
  using assms by (auto simp: funct_is_def find_upd_funct)

lemma funct_is_keeps: "keeps d d' \<Longrightarrow> funct_is name fn off fp users d' \<longleftrightarrow> funct_is name fn off fp users d"
  by (simp add: funct_is_def find_funct_keeps)

lemma alloc_funct_keeps:
  assumes "alloc_funct_struct d = (p, d1)"
  shows "hd_funct_list d1 = hd_funct_list d \<and> hd_thread_list d1 = hd_thread_list d \<and> hd_lock d1 = hd_lock d"
  using assms by (auto simp: alloc_funct_struct_def shmalloc_dn_def Let_def store_cell_def split: list.splits prod.splits if_splits option.splits)

lemma export_locked_result:
  assumes "export_locked name fn arg fp re cid d = Some ((r, off), d')" "r = 0" "length name \<le> HAL_NAME_LEN"
  shows "funct_is name fn off fp 0 d'" "\<And>m g o2 q u. m \<noteq> name \<Longrightarrow> funct_is m g o2 q u d \<Longrightarrow> funct_is m g o2 q u d'"
    "hd_thread_list d' = hd_thread_list d" "hd_lock d' = hd_lock d"
proof -
  obtain p d1 where al: "alloc_funct_struct d = (p, d1)" by fastforce
  obtain c f l where c: "halpr_find_comp_by_id cid d = Some c" and p: "p = Some f"
    and l: "insert_named hf_name (f\<lparr>hf_uses_fp := fp, hf_owner := hc_off c, hf_reentrant := re,
                               hf_users := 0, hf_arg := arg, hf_funct := fn, hf_name := copy_name name\<rparr>) (hd_funct_list d1) = Some l"
    and d': "d' = d1\<lparr>hd_funct_list := l\<rparr>" and off: "off = hf_off f"
    using assms(1,2) al
    by (cases "halpr_find_comp_by_id cid d"; cases p)
      (auto simp: export_locked_def Let_def EINVAL_def ENOMEM_def split: if_splits option.splits)
  have n: "copy_name name = name" using assms(3) by (simp add: copy_name_def)
  note k = alloc_funct_keeps [OF al]
  note fi = find_insert_named [OF l]
  show "funct_is name fn off fp 0 d'"
    by (simp add: funct_is_def halpr_find_funct_by_name_def d' fi n off)
  show "funct_is m g o2 q u d'" if "m \<noteq> name" "funct_is m g o2 q u d" for m g o2 q u
    using that k by (simp add: funct_is_def halpr_find_funct_by_name_def d' fi n)
  show "hd_thread_list d' = hd_thread_list d" "hd_lock d' = hd_lock d" using k by (simp_all add: d')
qed

lemma funct_is_mutex [simp]: "funct_is m g o2 q u (d\<lparr>hd_mutex := b\<rparr>) \<longleftrightarrow> funct_is m g o2 q u d"
  by (simp add: funct_is_def halpr_find_funct_by_name_def)

lemma export_result:
  assumes "hal_export_funct name fn arg fp re cid d = Some (r, d')" "0 \<le> r"
  shows "\<exists>off. funct_is name fn off fp 0 d'" "\<And>m g o2 q u. m \<noteq> name \<Longrightarrow> funct_is m g o2 q u d \<Longrightarrow> funct_is m g o2 q u d'"
    "hd_thread_list d' = hd_thread_list d" "hd_lock d' = hd_lock d"
proof -
  from assms have pre: "length name \<le> HAL_NAME_LEN" "\<not> lock_denies HAL_LOCK_LOAD d"
    by (auto simp: hal_export_funct_def EINVAL_def EPERM_def split: if_splits)
  obtain r1 off d1 where e: "locked (export_locked name fn arg fp re cid) d = Some ((r1, off), d1)"
    using assms pre by (cases "locked (export_locked name fn arg fp re cid) d") (auto simp: hal_export_funct_def)
  have r1: "r1 = 0"
  proof (rule ccontr)
    assume n: "r1 \<noteq> 0"
    with assms pre e have "r1 = r" by (simp add: hal_export_funct_def)
    moreover have "r1 \<le> 0"
      using e by (auto simp: locked_def export_locked_def Let_def EINVAL_def ENOMEM_def
          split: if_splits option.splits prod.splits)
    ultimately show False using assms(2) n by simp
  qed
  obtain e1 where e1: "export_locked name fn arg fp re cid (d\<lparr>hd_mutex := True\<rparr>) = Some ((0, off), e1)"
    "d1 = e1\<lparr>hd_mutex := False\<rparr>"
    using e r1 by (auto simp: locked_def split: if_splits option.splits)
  note x = export_locked_result [OF e1(1) refl pre(1)]
  obtain r2 d2 where p: "hal_pin_newf HAL_S32 (funct_runtime off) cid (name @ ''.time'') d1 = Some (r2, d2)"
    using assms pre e r1 by (cases "hal_pin_newf HAL_S32 (funct_runtime off) cid (name @ ''.time'') d1") (auto simp: hal_export_funct_def)
  have r2: "r2 = 0" using assms pre e r1 p by (auto simp: hal_export_funct_def EINVAL_def split: if_splits)
  obtain d3 where st: "store_through (funct_runtime off) 0 d2 = Some d3"
    using assms pre e r1 p r2 by (cases "store_through (funct_runtime off) 0 d2") (auto simp: hal_export_funct_def)
  let ?u3 = "upd_funct off (\<lambda>f. f\<lparr>hf_maxtime := 0\<rparr>) d3"
  let ?q4 = "hal_param_s32_new (copy_name (name @ ''.tmax'')) HAL_RW HAL_S32 (funct_maxtime off) cid ?u3"
  obtain r4 d4 where p4: "?q4 = Some (r4, d4)"
    using assms pre e r1 p r2 st by (cases ?q4) (auto simp: hal_export_funct_def)
  let ?u4 = "upd_funct off (\<lambda>f. f\<lparr>hf_maxtime_increased := False\<rparr>) d4"
  let ?q5 = "hal_param_bit_new (copy_name (name @ ''.tmax-increased'')) HAL_RO HAL_BIT (funct_maxtime_increased off) cid ?u4"
  obtain r5 where p5: "?q5 = Some (r5, d')"
    using assms pre e r1 p r2 st p4 by (cases ?q5) (auto simp: hal_export_funct_def)
  have k: "keeps d1 d2" "keeps d2 d3" "keeps ?u3 d4" "keeps ?u4 d'"
    using keeps_calls(2) [OF p] keeps_calls(4) [OF st] p4 p5
    by (auto simp: hal_param_s32_new_def hal_param_bit_new_def dest: keeps_calls(1))
  have eq: "funct_is m g o2 q u d' \<longleftrightarrow> funct_is m g o2 q u d1" for m g o2 q u
    using k by (simp add: funct_is_keeps [OF k(4)] funct_is_keeps [OF k(3)] funct_is_keeps [OF k(2)] funct_is_keeps [OF k(1)]
        funct_is_stat)
  show "\<exists>off. funct_is name fn off fp 0 d'" using x(1) by (auto simp: eq e1(2))
  show "funct_is m g o2 q u d'" if "m \<noteq> name" "funct_is m g o2 q u d" for m g o2 q u
    using x(2) [of m g o2 q u] that by (simp add: eq e1(2))
  show "hd_thread_list d' = hd_thread_list d" "hd_lock d' = hd_lock d"
    using k x(3,4) by (simp_all add: keeps_def upd_funct_def e1(2))
qed

text \<open>The thread at the head of the list, by name.\<close>

definition head_thread :: "string \<Rightarrow> int \<Rightarrow> int \<Rightarrow> int list \<Rightarrow> hal_data \<Rightarrow> bool" where
  "head_thread name period fp fns d \<longleftrightarrow> (\<exists>t ts. hd_thread_list d = t # ts \<and> ht_name t = name \<and> ht_period t = period \<and>
     ht_uses_fp t = fp \<and> map fe_funct (ht_funct_list t) = fns)"

lemma head_thread_find:
  "head_thread name period fp fns d \<Longrightarrow> \<exists>t. halpr_find_thread_by_name name d = Some t \<and> ht_period t = period \<and>
     map fe_funct (ht_funct_list t) = fns"
  by (auto simp: head_thread_def halpr_find_thread_by_name_def)

lemma add_funct_result:
  assumes step: "hal_add_funct_to_thread (Some name) (Some tn) pos d = Some (r, d')" and lock: "\<not> lock_denies HAL_LOCK_CONFIG d"
    and f: "funct_is name fn off fp 0 d" and t: "head_thread tn period fp2 fns d" "fp2 \<noteq> 0"
    and i: "insertion_point (length fns) pos = Some i" "pos \<noteq> 0"
  shows "head_thread tn period fp2 (list_add_after fn i fns) d'" "hd_lock d' = hd_lock d"
    "\<And>m g o2 q u. o2 \<noteq> off \<Longrightarrow> funct_is m g o2 q u d \<Longrightarrow> funct_is m g o2 q u d'"
proof -
  let ?e = "d\<lparr>hd_mutex := True\<rparr>"
  obtain h where h: "halpr_find_funct_by_name name ?e = Some h" "hf_funct h = fn" "hf_off h = off" "hf_uses_fp h = fp" "hf_users h = 0"
    using f by (auto simp: funct_is_def halpr_find_funct_by_name_def)
  obtain t ts where tt: "hd_thread_list d = t # ts" "ht_name t = tn" "ht_period t = period" "ht_uses_fp t = fp2" "map fe_funct (ht_funct_list t) = fns"
    using t by (auto simp: head_thread_def)
  have ft: "halpr_find_thread_by_name tn ?e = Some t" using tt by (simp add: halpr_find_thread_by_name_def)
  have len: "length (ht_funct_list t) = length fns" using tt(5) by (metis length_map)
  obtain d1 where s: "add_funct_locked (Some name) (Some tn) pos ?e = Some (r, d1)" "d' = d1\<lparr>hd_mutex := False\<rparr>"
    using step lock by (auto simp: hal_add_funct_to_thread_def locked_def split: if_splits option.splits)
  obtain e d2 where al: "alloc_funct_entry_struct ?e = Some (e, d2)"
    using s(1) i h ft t(2) tt(4)
    by (cases "alloc_funct_entry_struct ?e") (auto simp: add_funct_locked_def len)
  let ?n = "e\<lparr>fe_funct_ptr := off, fe_arg := hf_arg h, fe_funct := fn\<rparr>"
  have d1: "d1 = upd_funct off (\<lambda>f. f\<lparr>hf_users := hf_users f + 1\<rparr>)
      (upd_thread (ht_off t) (\<lambda>t. t\<lparr>ht_funct_list := list_add_after ?n i (ht_funct_list t)\<rparr>) d2)"
    using s(1) i h ft t(2) tt(4) al by (simp add: add_funct_locked_def len)
  have k: "hd_thread_list d2 = hd_thread_list d" "hd_funct_list d2 = hd_funct_list d" "hd_lock d2 = hd_lock d"
    using al by (auto simp: alloc_funct_entry_struct_def shmalloc_dn_def Let_def split: list.splits prod.splits option.splits if_splits)
  show "head_thread tn period fp2 (list_add_after fn i fns) d'"
    using tt by (auto simp: head_thread_def s(2) d1 upd_funct_def upd_thread_def k list_add_after_def take_map drop_map)
  show "hd_lock d' = hd_lock d" by (simp add: s(2) d1 upd_funct_def upd_thread_def k)
  have fk: "halpr_find_funct_by_name m (upd_thread o3 g d2) = halpr_find_funct_by_name m d" for m o3 g
    by (simp add: halpr_find_funct_by_name_def upd_thread_def k)
  show "funct_is m g o2 q u d'" if "o2 \<noteq> off" "funct_is m g o2 q u d" for m g o2 q u
    using that unfolding s(2) funct_is_mutex d1 by (auto simp: funct_is_def find_upd_funct fk)
qed

section \<open>The servo thread\<close>

lemma on_hal_data_Some:
  assumes "on_hal_data f a = Some (r, a')" "hs_mapped (ap_hal a)"
  obtains d where "f (hs_seg (ap_hal a)) = Some (r, d)" "a' = a\<lparr>ap_hal := (ap_hal a)\<lparr>hs_seg := d\<rparr>\<rparr>"
  using assms by (auto simp: on_hal_data_def on_hal_def on_data_def)

lemma ignore_Some: "ignore f a = Some a' \<longleftrightarrow> (\<exists>r. f a = Some (r, a'))"
  by (auto simp: ignore_def)

lemma funct_is_mem: "funct_is m g o1 q u d \<Longrightarrow> \<exists>f \<in> set (hd_funct_list d). hf_name f = m \<and> hf_off f = o1"
  by (auto simp: funct_is_def halpr_find_funct_by_name_def find_Some_iff intro: nth_mem)

lemma offs_differ:
  assumes "hal_wf d" "funct_is m g o1 q u d" "funct_is m' g' o2 q' u' d" "m \<noteq> m'"
  shows "o1 \<noteq> o2"
proof -
  obtain f f' where f: "f \<in> set (hd_funct_list d)" "hf_name f = m" "hf_off f = o1"
    "f' \<in> set (hd_funct_list d)" "hf_name f' = m'" "hf_off f' = o2"
    using funct_is_mem [OF assms(2)] funct_is_mem [OF assms(3)] by blast
  have "inj_on hf_off (set (hd_funct_list d))"
    using assms(1) by (simp add: hal_wf_def mem_wf_def arena_def funct_offs_def distinct_map)
  with f assms(4) show ?thesis by (auto dest: inj_onD)
qed

lemma handler_not_controller: "''motion-command-handler'' \<noteq> ''motion-controller''"
  by simp

lemma init_cycle_times_servo:
  "mg_servoCycleTime (g_config (init_cycle_times g)) = 1 / 1000"
proof -
  have u: "g_config (upd_cubics f g) = g_config g" for f and g :: "'a mot_state"
    by (simp add: upd_cubics_def upd_axis_def EMCMOT_MAX_AXIS_def)
  have t: "mg_servoCycleTime (g_config (snd (setTrajCycleTime secs g))) = mg_servoCycleTime (g_config g)" for secs and g :: "'a mot_state"
    by (simp add: setTrajCycleTime_def Let_def u upd_config_def upd_status_def upd_tp_struct_def upd_internal_def emcmot_config_change_def)
  have s: "mg_servoCycleTime (g_config (snd (setServoCycleTime secs g))) = secs" if "0 < secs" for secs and g :: "'a mot_state"
    using that by (simp add: setServoCycleTime_def Let_def u upd_config_def)
  show ?thesis by (simp add: init_cycle_times_def Let_def t s SERVO_PERIOD_NSEC_def)
qed

text \<open>
  C38: once the servo thread is set up it runs the command handler and then the controller, but a thousand times too
  slowly: it is created with a period of a second, while the cycle time recorded for interpolation and
  planning is a millisecond. This holds whatever other components are loaded, as soon as the setup reports
  success.
\<close>

theorem motion_thread_scheduled:
  assumes "(hal_step os tos)\<^sup>*\<^sup>* s0 (ap_hal a)" "hal_fresh s0" "hs_lib_mem_id (ap_hal a) \<noteq> 0"
    and run: "init_motion_threads ev a = Some (0, a')"
  shows "\<exists>t. halpr_find_thread_by_name ''motion-thread'' (hs_seg (ap_hal a')) = Some t \<and> ht_period t = 1000000000 \<and>
     map fe_funct (ht_funct_list t) = [ev_addr ev Fn_CommandHandler, ev_addr ev Fn_Controller] \<and>
     mg_servoCycleTime (g_config (ap_mot a')) = 1 / 1000"
proof -
  have wf: "sys_wf (ap_hal a)"
    using hal_runs_wf [OF assms(1)] assms(2) by (simp add: hal_fresh_def sys_wf_def named_sorted_def)
  obtain b where x: "export_motion_threads ev a = Some (0, b)" "a' = b\<lparr>ap_mot := init_cycle_times (ap_mot b)\<rparr>"
    using run by (auto simp: init_motion_threads_def bind_eq_Some_conv split: if_splits)
  obtain r1 a1 r2 a2 r3 a3 a4
    where r: "0 \<le> r1" "0 \<le> r2" "0 \<le> r3"
      and c: "on_hal (hal_create_thread (ev_os ev) (ev_tos ev) ''motion-thread'' (SERVO_PERIOD_NSEC * 1000) 1 98) a = Some (r1, a1)"
      and e1: "on_hal_data (hal_export_funct ''motion-command-handler'' (ev_addr ev Fn_CommandHandler) 0 1 0 (ap_mot_comp_id a1)) a1 = Some (r2, a2)"
      and e2: "on_hal_data (hal_export_funct ''motion-controller'' (ev_addr ev Fn_Controller) 0 1 0 (ap_mot_comp_id a2)) a2 = Some (r3, a3)"
      and f1: "ignore (on_hal_data (hal_add_funct_to_thread (Some ''motion-command-handler'') (Some ''motion-thread'') 1)) a3 = Some a4"
      and f2: "ignore (on_hal_data (hal_add_funct_to_thread (Some ''motion-controller'') (Some ''motion-thread'') 2)) a4 = Some b"
    using x(1) by (fastforce simp: export_motion_threads_def bind_eq_Some_conv split: if_splits)
  obtain s1 where s1: "hal_create_thread (ev_os ev) (ev_tos ev) ''motion-thread'' (SERVO_PERIOD_NSEC * 1000) 1 98 (ap_hal a) = Some (r1, s1)"
    "ap_hal a1 = s1"
    using c by (auto simp: on_hal_def)
  note h = hal_create_thread_heads [OF s1(1) r(1) assms(3)]
  have m1: "hs_mapped (ap_hal a1)" and lk1: "\<not> lock_denies HAL_LOCK_CONFIG (hs_seg (ap_hal a1))" using h s1(2) by simp_all
  have hd1: "head_thread ''motion-thread'' 1000000000 1 [] (hs_seg (ap_hal a1))"
    using h(1) by (auto simp: heads_def head_thread_def s1(2) SERVO_PERIOD_NSEC_def neq_Nil_conv)
  have wf1: "hal_wf (hs_seg (ap_hal a1))" using hal_create_thread_wf [OF wf s1(1)] m1 s1(2) by (simp add: sys_wf_mapped)
  obtain d2 where d2: "hal_export_funct ''motion-command-handler'' (ev_addr ev Fn_CommandHandler) 0 1 0 (ap_mot_comp_id a1) (hs_seg (ap_hal a1)) = Some (r2, d2)"
    "a2 = a1\<lparr>ap_hal := (ap_hal a1)\<lparr>hs_seg := d2\<rparr>\<rparr>" using on_hal_data_Some [OF e1 m1] by blast
  note x2 = export_result [OF d2(1) r(2)] and wf2 = hal_export_wf [OF wf1 d2(1)]
  have m2: "hs_mapped (ap_hal a2)" "hs_seg (ap_hal a2) = d2" using m1 d2(2) by simp_all
  obtain d3 where d3: "hal_export_funct ''motion-controller'' (ev_addr ev Fn_Controller) 0 1 0 (ap_mot_comp_id a2) d2 = Some (r3, d3)"
    "a3 = a2\<lparr>ap_hal := (ap_hal a2)\<lparr>hs_seg := d3\<rparr>\<rparr>" using on_hal_data_Some [OF e2 m2(1)] m2(2) by auto
  note x3 = export_result [OF d3(1) r(3)] and wf3 = hal_export_wf [OF wf2 d3(1)]
  obtain o1 o2 where o1: "funct_is ''motion-command-handler'' (ev_addr ev Fn_CommandHandler) o1 1 0 d3"
    and o2: "funct_is ''motion-controller'' (ev_addr ev Fn_Controller) o2 1 0 d3"
    using x2(1) x3(1) x3(2) [of "''motion-command-handler''"] by (metis handler_not_controller)
  have o12: "o2 \<noteq> o1" using offs_differ [OF wf3 o2 o1] by simp
  have hd3: "head_thread ''motion-thread'' 1000000000 1 [] d3" and lk3: "\<not> lock_denies HAL_LOCK_CONFIG d3"
    using hd1 lk1 x2(3,4) x3(3,4) by (simp_all add: head_thread_def lock_denies_def)
  have m3: "hs_mapped (ap_hal a3)" "hs_seg (ap_hal a3) = d3" using m2 d3(2) by simp_all
  obtain q4 d4 where d4: "hal_add_funct_to_thread (Some ''motion-command-handler'') (Some ''motion-thread'') 1 d3 = Some (q4, d4)"
    "a4 = a3\<lparr>ap_hal := (ap_hal a3)\<lparr>hs_seg := d4\<rparr>\<rparr>"
    using f1 m3 by (auto simp: ignore_Some elim!: on_hal_data_Some)
  have i0: "insertion_point (length []) 1 = Some 0" "insertion_point (length [0 :: int]) 2 = Some 1"
    by (simp_all add: insertion_point_def list_next_def)
  note x4 = add_funct_result [OF d4(1) lk3 o1 hd3 _ i0(1)]
  have hd4: "head_thread ''motion-thread'' 1000000000 1 [ev_addr ev Fn_CommandHandler] d4"
    using x4(1) by (simp add: list_add_after_def)
  have lk4: "\<not> lock_denies HAL_LOCK_CONFIG d4" using x4(2) lk3 by (simp add: lock_denies_def)
  have o2': "funct_is ''motion-controller'' (ev_addr ev Fn_Controller) o2 1 0 d4" using x4(3) [OF _ _ o12 o2] by simp
  have m4: "hs_mapped (ap_hal a4)" "hs_seg (ap_hal a4) = d4" using m3 d4(2) by simp_all
  obtain q5 d5 where d5: "hal_add_funct_to_thread (Some ''motion-controller'') (Some ''motion-thread'') 2 d4 = Some (q5, d5)"
    "b = a4\<lparr>ap_hal := (ap_hal a4)\<lparr>hs_seg := d5\<rparr>\<rparr>"
    using f2 m4 by (auto simp: ignore_Some elim!: on_hal_data_Some)
  have i1: "insertion_point (length [ev_addr ev Fn_CommandHandler]) 2 = Some 1" using i0(2) by simp
  note x5 = add_funct_result [OF d5(1) lk4 o2' hd4 _ i1]
  have "head_thread ''motion-thread'' 1000000000 1 [ev_addr ev Fn_CommandHandler, ev_addr ev Fn_Controller] d5"
    using x5(1) by (simp add: list_add_after_def)
  from head_thread_find [OF this] show ?thesis
    by (auto simp: x(2) d5(2) init_cycle_times_servo)
qed

definition os_keyed :: shm_os where
  "os_keyed = \<lparr>os_shmget = (\<lambda>_ k. Inr (k + 1)), os_shmat = (\<lambda>i. Inr (4096 * i)), os_shmdt = (\<lambda>_. 0),
     os_nattch = (\<lambda>_. Some 0), os_rmid = (\<lambda>_. 0)\<rparr>"

definition addr_ex :: "app_funct \<Rightarrow> int" where
  "addr_ex f = (case f of Fn_ProcessTask \<Rightarrow> 1 | Fn_ClientThreadData \<Rightarrow> 2 | Fn_CommandHandler \<Rightarrow> 3 | Fn_Controller \<Rightarrow> 4 |
     Fn_ecatthread \<Rightarrow> 5)"

definition ev_ex :: "unit app_env" where
  "ev_ex = \<lparr>ev_os = os_keyed, ev_tos = tos_ok, ev_addr = addr_ex, ev_space = [], ev_storage = replicate 8192 0,
     ev_sizeof_socket_status = 32, ev_sizeof_mot_struct = 4000, ev_sizeof_ecat_status = 32\<rparr>"

text \<open>The statics before the start.\<close>

definition app_with :: "unit mot_state \<Rightarrow> sock_state \<Rightarrow> unit task_state \<Rightarrow> hal_sys \<Rightarrow> int \<Rightarrow> unit app" where
  "app_with g so tt s cid = \<lparr>ap_hal = s, ap_mot = g, ap_error = \<lparr>me_head = 0, me_start = 0, me_end = 0, me_num = 0, me_tail = 0\<rparr>,
     ap_sock = so, ap_task = tt, ap_traj = \<lparr>tj_Inited = 0, tj_Axis = 0, tj_MaxAccel = 0, tj_MaxVel = 0, tj_AxisMask = 0,
       tj_LinearUnits = 0, tj_AngularUnits = 0, tj_MotionId = 0\<rparr>, ap_num_axis = 3, ap_socket_module_id = 0,
     ap_socket_shmem_id = 0, ap_socket_comp_id = 0, ap_mot_comp_id = cid, ap_emc_shmem_id = 0, ap_mot_hal = 0,
     ap_axis_hal = 0, ap_ecat_module_id = 0, ap_ecat_shmem_id = 0, ap_ecat_comp_id = 0, ap_ecat_struct = 0, ap_ecat_cycle = 0\<rparr>"

definition mot_loaded :: "(int \<times> hal_sys) option" where
  "mot_loaded = do { (_, s) \<leftarrow> hal_app_main os_keyed hal_blank; hal_init os_keyed (Some ''motmod'') s }"

lemma mot_loaded_runs:
  "case mot_loaded of None \<Rightarrow> False | Some (cid, s) \<Rightarrow> hs_lib_mem_id s = 1 \<and>
     (case export_motion_threads ev_ex (app_with g so tt s cid) of None \<Rightarrow> False | Some (r, _) \<Rightarrow> r = 0)"
  by code_simp

definition app_ex :: "hal_sys \<Rightarrow> int \<Rightarrow> unit app" where
  "app_ex = app_with mot_zero sock_zero task_zero"

theorem motion_thread_scheduled_witness:
  "\<exists>a a' t. init_motion_threads ev_ex (a :: unit app) = Some (0, a') \<and>
     halpr_find_thread_by_name ''motion-thread'' (hs_seg (ap_hal a')) = Some t \<and> ht_period t = 1000000000 \<and>
     map fe_funct (ht_funct_list t) = [3, 4] \<and> mg_servoCycleTime (g_config (ap_mot a')) = 1 / 1000"
proof -
  obtain cid s where ml: "mot_loaded = Some (cid, s)"
    using mot_loaded_runs [of mot_zero sock_zero task_zero] by (cases mot_loaded) auto
  note runs = mot_loaded_runs [of mot_zero sock_zero task_zero, unfolded ml option.case prod.case]
  then have id: "hs_lib_mem_id s = 1" and r: "case export_motion_threads ev_ex (app_ex s cid) of None \<Rightarrow> False | Some (r, _) \<Rightarrow> r = 0"
    unfolding app_ex_def by (rule conjunct1, rule conjunct2)
  then obtain b where "export_motion_threads ev_ex (app_ex s cid) = Some (0, b)"
    by (cases "export_motion_threads ev_ex (app_ex s cid)") auto
  then have run: "init_motion_threads ev_ex (app_ex s cid) = Some (0, b\<lparr>ap_mot := init_cycle_times (ap_mot b)\<rparr>)"
    by (simp add: init_motion_threads_def)
  obtain r0 s0 where "hal_app_main os_keyed hal_blank = Some (r0, s0)" "hal_init os_keyed (Some ''motmod'') s0 = Some (cid, s)"
    using ml by (auto simp: mot_loaded_def bind_eq_Some_conv)
  then have "(hal_step os_keyed tos_ok)\<^sup>*\<^sup>* hal_blank (ap_hal (app_ex s cid))"
    by (auto simp: app_ex_def app_with_def intro: hal_step.app_main hal_step.init
        converse_rtranclp_into_rtranclp [of _ _ s0] r_into_rtranclp)
  moreover have "hal_fresh hal_blank" by (simp add: hal_fresh_def hal_blank_def data_zero_def)
  moreover have "hs_lib_mem_id (ap_hal (app_ex s cid)) \<noteq> 0" using id by (simp add: app_ex_def app_with_def)
  moreover have "ev_addr ev_ex Fn_CommandHandler = 3" "ev_addr ev_ex Fn_Controller = 4" by (simp_all add: ev_ex_def addr_ex_def)
  ultimately show ?thesis using motion_thread_scheduled [OF _ _ _ run, of os_keyed tos_ok hal_blank] run by metis
qed

section \<open>Shared segments\<close>

lemma shm_index_Some_iff:
  "shm_index P hs = Some i \<longleftrightarrow> i < MAX_SHM \<and> P (hs ! i) \<and> (\<forall>j < i. \<not> P (hs ! j))"
proof
  assume "shm_index P hs = Some i"
  then show "i < MAX_SHM \<and> P (hs ! i) \<and> (\<forall>j < i. \<not> P (hs ! j))"
    by (auto simp: shm_index_def find_Some_iff)
next
  assume "i < MAX_SHM \<and> P (hs ! i) \<and> (\<forall>j < i. \<not> P (hs ! j))"
  then show "shm_index P hs = Some i" by (auto simp: shm_index_def find_Some_iff intro!: exI [of _ i])
qed

definition keyed :: "shm_handle \<Rightarrow> bool" where
  "keyed h \<longleftrightarrow> shm_valid h \<and> sh_key h = DEFAULT_SHMEM_KEY"

text \<open>The segment of the key: its handle, size and address. The counter of identifiers has another handle.\<close>

definition seg_at :: "nat \<Rightarrow> int \<Rightarrow> int \<Rightarrow> rtapi_state \<Rightarrow> bool" where
  "seg_at i sz mem rt \<longleftrightarrow> length (rt_handles rt) = MAX_SHM \<and> shm_index keyed (rt_handles rt) = Some i \<and>
     sh_size (rt_handles rt ! i) = sz \<and> sh_mem (rt_handles rt ! i) = mem \<and> rt_uuid_mem_id rt \<noteq> int i"

lemma new_other_key:
  assumes new: "rtapi_shmem_new os k sz hs = (h, hs')" and os: "os_errno os" and k: "k \<noteq> DEFAULT_SHMEM_KEY"
    and i: "shm_index keyed hs = Some i" and len: "length hs = MAX_SHM"
  shows "length hs' = MAX_SHM \<and> shm_index keyed hs' = Some i \<and> hs' ! i = hs ! i \<and> (0 \<le> h \<longrightarrow> h \<noteq> int i)"
proof -
  have I: "i < MAX_SHM" "keyed (hs ! i)" "\<forall>j < i. \<not> keyed (hs ! j)" using i by (auto simp: shm_index_Some_iff)
  have upd: "shm_index keyed (hs[j := x]) = Some i \<and> hs[j := x] ! i = hs ! i" if "j \<noteq> i" "\<not> keyed x" "j < MAX_SHM" for j x
  proof -
    have "keyed (hs[j := x] ! n) \<longleftrightarrow> n \<noteq> j \<and> keyed (hs ! n)" for n
      using that(2,3) len by (simp add: nth_list_update)
    with I that show ?thesis by (auto simp: shm_index_Some_iff)
  qed
  show ?thesis
  proof (cases "shm_index (\<lambda>h. shm_valid h \<and> sh_key h = k) hs")
    case (Some j)
    from shm_index_Some [OF this] have j: "j < MAX_SHM" "shm_valid (hs ! j)" "sh_key (hs ! j) = k" by auto
    with I k have "j \<noteq> i" by (auto simp: keyed_def)
    moreover from this new Some have "hs' = hs[j := (hs ! j)\<lparr>sh_count := sh_count (hs ! j) + 1\<rparr>]" "h = int j"
      by (auto simp: rtapi_shmem_new_def)
    ultimately show ?thesis using upd [of j] j k len by (simp add: keyed_def)
  next
    case None
    show ?thesis
    proof (cases "shm_index (\<lambda>h. \<not> shm_valid h) hs")
      case None2: None
      with new None I len i show ?thesis by (auto simp: rtapi_shmem_new_def ENOMEM_def)
    next
      case (Some j)
      from shm_index_Some [OF this] have j: "j < MAX_SHM" "\<not> shm_valid (hs ! j)" by auto
      with I have ji: "j \<noteq> i" by (auto simp: keyed_def)
      have err: "0 < e" if "shmget_retry os k 5 = Inl e \<or> os_shmat os m = Inl e" for e m
        using that os shmget_retry_none [of os k 5] by (auto simp: os_errno_def)
      obtain x where x: "hs' = hs[j := x]" "\<not> keyed x" "h = int j \<or> h < 0"
        using new None Some j k err
        by (fastforce simp: rtapi_shmem_new_def keyed_def shm_valid_def split: sum.splits)
      then show ?thesis using upd [OF ji x(2) j(1)] ji len by auto
    qed
  qed
qed

lemma delete_other:
  assumes del: "rtapi_shmem_delete os m hs = (r, gone, hs')" and i: "shm_index keyed hs = Some i" and m: "m \<noteq> int i"
    and len: "length hs = MAX_SHM"
  shows "length hs' = MAX_SHM \<and> shm_index keyed hs' = Some i \<and> hs' ! i = hs ! i"
proof -
  have I: "i < MAX_SHM" "keyed (hs ! i)" "\<forall>j < i. \<not> keyed (hs ! j)" using i by (auto simp: shm_index_Some_iff)
  from del have "hs' = hs \<or> (\<exists>x. hs' = hs[nat m := x] \<and> (keyed x \<longrightarrow> keyed (hs ! nat m)) \<and> 0 \<le> m \<and> nat m < MAX_SHM)"
    by (fastforce simp: rtapi_shmem_delete_def Let_def keyed_def shm_valid_def SHMEM_MAGIC_def split: if_splits prod.splits)
  then show ?thesis
  proof
    assume "\<exists>x. hs' = hs[nat m := x] \<and> (keyed x \<longrightarrow> keyed (hs ! nat m)) \<and> 0 \<le> m \<and> nat m < MAX_SHM"
    then obtain x where x: "hs' = hs[nat m := x]" "keyed x \<longrightarrow> keyed (hs ! nat m)" "0 \<le> m" "nat m < MAX_SHM" by blast
    have ne: "nat m \<noteq> i" using m x(3) by auto
    have "\<not> keyed (hs' ! j)" if "j < i" for j
      using I(1,3) that x(2,4) len by (cases "j = nat m") (simp_all add: x(1))
    then show ?thesis using I ne len by (auto simp: shm_index_Some_iff x(1))
  qed (use i len in simp)
qed

text \<open>
  What the layer above asks of a property of the runtime's state that it cannot disturb: module identifiers taken and
  given back, and its own segment opened. Then none of its operations disturbs the property.
\<close>

locale rt_kept =
  fixes Q :: "rtapi_state \<Rightarrow> bool" and os :: shm_os
  assumes init: "rtapi_init os rt = Some (m, rt') \<Longrightarrow> Q rt \<Longrightarrow> Q rt'"
    and exit: "Q rt \<Longrightarrow> Q (snd (rtapi_exit os m rt))"
    and open_hal: "rtapi_shmem_new os HAL_KEY HAL_SIZE (rt_handles rt) = (h, hs) \<Longrightarrow> Q rt \<Longrightarrow> Q (rt\<lparr>rt_handles := hs\<rparr>)"
begin

lemma open_segment_kept:
  assumes "open_segment os s = Some (r, s')" "Q (hs_rt s)"
  shows "Q (hs_rt s')"
proof -
  obtain m rt where i: "rtapi_init os (hs_rt s) = Some (m, rt)"
    using assms(1) by (auto simp: open_segment_def split: option.splits)
  obtain h hs where n: "rtapi_shmem_new os HAL_KEY HAL_SIZE (rt_handles rt) = (h, hs)" by fastforce
  have q: "Q rt" "Q (rt\<lparr>rt_handles := hs\<rparr>)" using init [OF i assms(2)] open_hal [OF n] by auto
  then show ?thesis using assms(1) exit [OF q(2)]
    by (auto simp: open_segment_def i n Let_def split: if_splits option.splits)
qed

lemma hal_init_kept:
  assumes "hal_init os name s = Some (r, s')" "Q (hs_rt s)"
  shows "Q (hs_rt s')"
proof (cases "\<exists>n. name = Some n \<and> \<not> length n > HAL_NAME_LEN")
  case False
  with assms show ?thesis by (cases name) (auto simp: hal_init_def)
next
  case True
  then obtain n where n: "name = Some n" "\<not> length n > HAL_NAME_LEN" by blast
  obtain r1 s1 where o: "(if hs_lib_mem_id s = 0 then open_segment os s else Some (0, s)) = Some (r1, s1)"
    using assms(1) n by (cases "if hs_lib_mem_id s = 0 then open_segment os s else Some (0, s)") (auto simp: hal_init_def)
  have q1: "Q (hs_rt s1)" using o assms(2) open_segment_kept by (auto split: if_splits)
  show ?thesis
  proof (cases "r1 = 0")
    case False
    with assms(1) n o q1 show ?thesis by (simp add: hal_init_def)
  next
    case True
    obtain cid rt where i: "rtapi_init os (hs_rt s1) = Some (cid, rt)"
      using assms(1) n o True by (cases "rtapi_init os (hs_rt s1)") (auto simp: hal_init_def)
    have q: "Q rt" "Q (snd (rtapi_exit os cid rt))" using init [OF i q1] exit by auto
    from assms(1) n o True i q show ?thesis
      by (auto simp: hal_init_def Let_def split: if_splits option.splits)
  qed
qed

lemma hal_exit_kept: "hal_exit os cid s = Some (r, s') \<Longrightarrow> Q (hs_rt s) \<Longrightarrow> Q (hs_rt s')"
  by (auto simp: hal_exit_def Let_def exit split: if_splits option.splits)

lemma on_data_kept: "on_data f s = Some (r, s') \<Longrightarrow> hs_rt s' = hs_rt s"
  by (auto simp: on_data_def split: if_splits)

lemma enter_thread_kept: "enter_thread tos name period fp prio s = Some (x, s') \<Longrightarrow> hs_rt s' = hs_rt s"
  by (auto simp: enter_thread_def set_base_clock_def rtapi_clock_set_period_def Let_def upd_seg_def
      split: if_splits option.splits prod.splits)

lemma hal_create_thread_kept:
  assumes "hal_create_thread os tos name period fp prio s = Some (r, s')" "Q (hs_rt s)"
  shows "Q (hs_rt s')"
proof (cases "\<not> hs_mapped s \<or> period = 0 \<or> length name > HAL_NAME_LEN \<or> lock_denies HAL_LOCK_CONFIG (hs_seg s)")
  case True
  with assms show ?thesis by (auto simp: hal_create_thread_def split: if_splits)
next
  case False
  let ?n = "copy_name (HAL_PSEUDO_COMP_PREFIX @ copy_name name)"
  obtain r1 off s1 where s1: "enter_thread tos name period fp prio s = Some ((r1, off), s1)"
    using assms(1) False by (cases "enter_thread tos name period fp prio s") (auto simp: hal_create_thread_def)
  have q1: "Q (hs_rt s1)" using enter_thread_kept [OF s1] assms(2) by simp
  show ?thesis
  proof (cases "r1 = 0")
    case False
    with assms(1) \<open>\<not> (\<not> hs_mapped s \<or> _)\<close> s1 q1 show ?thesis by (simp add: hal_create_thread_def)
  next
    case True
    obtain cid s2 where s2: "hal_init os (Some ?n) s1 = Some (cid, s2)"
      using assms(1) False s1 True by (cases "hal_init os (Some ?n) s1") (auto simp: hal_create_thread_def)
    have q2: "Q (hs_rt s2)" by (rule hal_init_kept [OF s2 q1])
    have u: "hs_rt (set_thread_comp off cid s) = hs_rt s" "hs_rt (upd_seg f s) = hs_rt s" for f s
      by (simp_all add: set_thread_comp_def upd_seg_def)
    have "hs_rt s' = hs_rt s2"
      using assms(1) False s1 True s2
      by (auto simp: hal_create_thread_def Let_def u split: if_splits option.splits dest!: on_data_kept)
    then show ?thesis using q2 by simp
  qed
qed

end

lemma seg_init:
  assumes "rtapi_init os rt = Some (m, rt')" "seg_at i sz mem rt" "os_errno os"
  shows "seg_at i sz mem rt'"
proof -
  obtain h hs where n: "rtapi_shmem_new os UUID_KEY 16 (rt_handles rt) = (h, hs)" by fastforce
  have k: "UUID_KEY \<noteq> DEFAULT_SHMEM_KEY" by (simp add: UUID_KEY_def DEFAULT_SHMEM_KEY_def)
  have o: "length hs = MAX_SHM \<and> shm_index keyed hs = Some i \<and> hs ! i = rt_handles rt ! i \<and> (0 \<le> h \<longrightarrow> h \<noteq> int i)"
    using new_other_key [OF n assms(3) k] assms(2) by (simp add: seg_at_def)
  have hi: "h \<noteq> int i" using o by (cases "0 \<le> h") auto
  let ?rt1 = "rt\<lparr>rt_handles := hs, rt_uuid_mem_id := h\<rparr>"
  have q1: "seg_at i sz mem ?rt1" using o hi assms(2) by (simp add: seg_at_def)
  have q2: "seg_at i sz mem (snd (rtapi_exit os 0 ?rt1))"
  proof (cases "rtapi_shmem_delete os h hs")
    case (fields r gone hs')
    from delete_other [OF this _ hi] o have "length hs' = MAX_SHM \<and> shm_index keyed hs' = Some i \<and> hs' ! i = hs ! i" by blast
    with q1 fields show ?thesis by (simp add: rtapi_exit_def seg_at_def)
  qed
  have u: "seg_at i sz mem (?rt1\<lparr>rt_uuid_base := b, rt_uuid := c\<rparr>)" "seg_at i sz mem (?rt1\<lparr>rt_uuid := c\<rparr>)" for b c
    using q1 by (simp_all add: seg_at_def)
  show ?thesis using assms(1) q2 u
    by (auto simp: rtapi_init_def n Let_def split: if_splits prod.splits option.splits)
qed

lemma seg_exit:
  assumes "seg_at i sz mem rt"
  shows "seg_at i sz mem (snd (rtapi_exit os m rt))"
proof (cases "rtapi_shmem_delete os (rt_uuid_mem_id rt) (rt_handles rt)")
  case (fields r gone hs')
  from delete_other [OF this] assms show ?thesis by (simp add: rtapi_exit_def fields seg_at_def)
qed

lemma seg_open:
  assumes "rtapi_shmem_new os HAL_KEY HAL_SIZE (rt_handles rt) = (h, hs)" "seg_at i sz mem rt" "os_errno os"
  shows "seg_at i sz mem (rt\<lparr>rt_handles := hs\<rparr>)"
  using new_other_key [OF assms(1,3)] assms(2) by (simp add: seg_at_def HAL_KEY_def DEFAULT_SHMEM_KEY_def)

interpretation shared: rt_kept "\<lambda>rt. os_errno os \<and> seg_at i sz mem rt" os for os i sz mem
  by unfold_locales (auto intro: seg_init seg_exit seg_open)

text \<open>
  The calls a component makes while it is set up: into the layer above, and anything that leaves the runtime's state
  alone, such as pins, functions and memory.
\<close>

inductive setup_call :: "'tc app_env \<Rightarrow> 'tc app \<Rightarrow> 'tc app \<Rightarrow> bool" for ev where
  init: "on_hal (hal_init (ev_os ev) name) a = Some (r, a') \<Longrightarrow> setup_call ev a a'"
| exit: "on_hal (hal_exit (ev_os ev) cid) a = Some (r, a') \<Longrightarrow> setup_call ev a a'"
| thread: "on_hal (hal_create_thread (ev_os ev) (ev_tos ev) name period fp prio) a = Some (r, a') \<Longrightarrow> setup_call ev a a'"
| quiet: "hs_rt (ap_hal a') = hs_rt (ap_hal a) \<Longrightarrow> setup_call ev a a'"

lemma setup_call_shared:
  assumes "setup_call ev a a'" "os_errno (ev_os ev) \<and> seg_at i sz mem (hs_rt (ap_hal a))"
  shows "os_errno (ev_os ev) \<and> seg_at i sz mem (hs_rt (ap_hal a'))"
  using assms
  by (cases rule: setup_call.cases)
    (auto simp: on_hal_def dest: shared.hal_init_kept shared.hal_exit_kept shared.hal_create_thread_kept)

lemma setup_calls_shared:
  "(setup_call ev)\<^sup>*\<^sup>* a a' \<Longrightarrow> os_errno (ev_os ev) \<and> seg_at i sz mem (hs_rt (ap_hal a)) \<Longrightarrow> seg_at i sz mem (hs_rt (ap_hal a'))"
  by (induction rule: rtranclp_induct) (auto dest: setup_call_shared)

lemma new_not_keyed:
  assumes "rtapi_shmem_new os k sz hs = (h, hs')" "k \<noteq> DEFAULT_SHMEM_KEY" "\<forall>x \<in> set hs. \<not> keyed x" "length hs = MAX_SHM"
  shows "(\<forall>x \<in> set hs'. \<not> keyed x) \<and> length hs' = MAX_SHM"
proof -
  have mem: "\<not> keyed (hs ! i)" if "i < MAX_SHM" for i using that assms(3,4) by (metis nth_mem)
  have "hs' = hs \<or> (\<exists>i x. hs' = hs[i := x] \<and> \<not> keyed x)"
  proof (cases "shm_index (\<lambda>h. shm_valid h \<and> sh_key h = k) hs")
    case (Some i)
    from shm_index_Some [OF this] assms(2) have "\<not> keyed ((hs ! i)\<lparr>sh_count := c\<rparr>)" for c by (simp add: keyed_def)
    with Some assms(1) show ?thesis by (auto simp: rtapi_shmem_new_def)
  next
    case None
    show ?thesis
    proof (cases "shm_index (\<lambda>h. \<not> shm_valid h) hs")
      case None2: None
      with None assms(1) show ?thesis by (simp add: rtapi_shmem_new_def)
    next
      case (Some i)
      with None assms(1,2) shm_index_Some(2) [OF Some] show ?thesis
        by (fastforce simp: rtapi_shmem_new_def keyed_def shm_valid_def split: sum.splits)
    qed
  qed
  then show ?thesis using assms(3,4) set_update_subset_insert by fastforce
qed

lemma rtapi_init_ok:
  assumes "rtapi_init os rt = Some (m, rt')" "0 \<le> m" "\<forall>x \<in> set (rt_handles rt). \<not> keyed x" "length (rt_handles rt) = MAX_SHM"
  shows "(\<forall>x \<in> set (rt_handles rt'). \<not> keyed x) \<and> length (rt_handles rt') = MAX_SHM \<and>
    0 \<le> rt_uuid_mem_id rt' \<and> nat (rt_uuid_mem_id rt') < MAX_SHM \<and> shm_valid (rt_handles rt' ! nat (rt_uuid_mem_id rt'))"
proof -
  obtain h hs where n: "rtapi_shmem_new os UUID_KEY 16 (rt_handles rt) = (h, hs)" by fastforce
  have k: "UUID_KEY \<noteq> DEFAULT_SHMEM_KEY" by (simp add: UUID_KEY_def DEFAULT_SHMEM_KEY_def)
  note nk = new_not_keyed [OF n k assms(3,4)]
  have rt': "rt_handles rt' = hs" "rt_uuid_mem_id rt' = h" and h: "\<not> h < 0" "snd (rtapi_shmem_getptr h hs) \<noteq> None"
    using assms(1,2) by (auto simp: rtapi_init_def n Let_def EINVAL_def split: if_splits prod.splits option.splits)
  have "h < int MAX_SHM" "shm_valid (hs ! nat h)" using h by (auto simp: rtapi_shmem_getptr_def split: if_splits)
  then show ?thesis using nk h(1) by (simp add: rt')
qed

lemma usrsocketInit_shared:
  assumes "usrsocketInit ev a = Some (0, a1)" and os: "os_errno (ev_os ev)"
    and fresh: "\<forall>h \<in> set (app_handles a). \<not> keyed h" "length (app_handles a) = MAX_SHM"
  shows "\<exists>i mem. seg_at i (ev_sizeof_socket_status ev) mem (hs_rt (ap_hal a1)) \<and> ap_socket_shmem_id a1 = int i"
proof -
  let ?f = "app_rtapi_init (ev_os ev) a"
  obtain m b where b: "?f = Some (m, b)" "0 \<le> m"
    using assms(1) by (cases ?f) (auto simp: usrsocketInit_def Let_def split: if_splits)
  obtain rt where rt: "rtapi_init (ev_os ev) (hs_rt (ap_hal a)) = Some (m, rt)" "hs_rt (ap_hal b) = rt"
    using b(1) by (auto simp: app_rtapi_init_def on_hal_def)
  note ok = rtapi_init_ok [OF rt(1) b(2), folded app_handles_def, OF fresh]
  obtain h hs where n: "rtapi_shmem_new (ev_os ev) DEFAULT_SHMEM_KEY (ev_sizeof_socket_status ev) (rt_handles rt) = (h, hs)"
    by fastforce
  have a1: "0 \<le> h" "hs_rt (ap_hal a1) = rt\<lparr>rt_handles := hs\<rparr>" "ap_socket_shmem_id a1 = h"
    using assms(1) b n rt(2)
    by (auto simp: usrsocketInit_def Let_def app_shmem_new_def app_handles_def set_handles_def app_rtapi_exit_def split: if_splits)
  have none: "shm_index (\<lambda>h. shm_valid h \<and> sh_key h = DEFAULT_SHMEM_KEY) (rt_handles rt) = None"
    using ok by (auto simp: shm_index_None keyed_def)
  obtain j where j: "shm_index (\<lambda>h. \<not> shm_valid h) (rt_handles rt) = Some j"
    using n none a1(1) by (cases "shm_index (\<lambda>h. \<not> shm_valid h) (rt_handles rt)") (auto simp: rtapi_shmem_new_def ENOMEM_def)
  have jj: "j < MAX_SHM" "\<not> shm_valid (rt_handles rt ! j)" using shm_index_Some [OF j] by auto
  have err: "0 < e" if "shmget_retry (ev_os ev) DEFAULT_SHMEM_KEY 5 = Inl e \<or> os_shmat (ev_os ev) m = Inl e" for e m
    using that os shmget_retry_none [of "ev_os ev" DEFAULT_SHMEM_KEY 5] by (auto simp: os_errno_def)
  obtain sid mem where hs: "h = int j" "hs = (rt_handles rt)[j := \<lparr>sh_magic = SHMEM_MAGIC, sh_key = DEFAULT_SHMEM_KEY,
      sh_id = sid, sh_count = 1, sh_size = ev_sizeof_socket_status ev, sh_mem = mem\<rparr>]"
    using n none j a1(1) err by (fastforce simp: rtapi_shmem_new_def split: sum.splits)
  have other: "\<not> keyed (rt_handles rt ! i)" if "i < MAX_SHM" for i using ok that by (metis nth_mem)
  have "rt_uuid_mem_id rt \<noteq> int j" using ok jj(2) by auto
  then have "seg_at j (ev_sizeof_socket_status ev) mem (hs_rt (ap_hal a1))"
    using ok jj(1) other by (auto simp: a1(2) hs(2) seg_at_def shm_index_Some_iff keyed_def shm_valid_def nth_list_update)
  then show ?thesis using a1(3) hs(1) by blast
qed

lemma attach_shared:
  assumes "attach_motion ev a = (0, a')" "seg_at i sz mem (hs_rt (ap_hal a))"
  shows "ap_emc_shmem_id a' = int i" "seg_at i sz mem (hs_rt (ap_hal a'))" "ap_socket_shmem_id a' = ap_socket_shmem_id a"
proof -
  have "(\<lambda>h. shm_valid h \<and> sh_key h = DEFAULT_SHMEM_KEY) = keyed" by (simp add: keyed_def fun_eq_iff)
  then have n: "rtapi_shmem_new (ev_os ev) DEFAULT_SHMEM_KEY (ev_sizeof_mot_struct ev) (app_handles a) =
      (int i, (app_handles a)[i := (app_handles a ! i)\<lparr>sh_count := sh_count (app_handles a ! i) + 1\<rparr>])"
    using assms(2) by (simp add: rtapi_shmem_new_def seg_at_def app_handles_def)
  have I: "i < MAX_SHM" "keyed (app_handles a ! i)" "\<forall>j < i. \<not> keyed (app_handles a ! j)" "length (app_handles a) = MAX_SHM"
    using assms(2) by (auto simp: seg_at_def app_handles_def shm_index_Some_iff)
  have s: "seg_at i sz mem (hs_rt (ap_hal (set_handles ((app_handles a)[i := (app_handles a ! i)\<lparr>sh_count := c\<rparr>]) a)))" for c
    using assms(2) I by (auto simp: seg_at_def set_handles_def app_handles_def shm_index_Some_iff keyed_def shm_valid_def)
  show "ap_emc_shmem_id a' = int i" "seg_at i sz mem (hs_rt (ap_hal a'))" "ap_socket_shmem_id a' = ap_socket_shmem_id a"
    using assms(1) s by (auto simp: attach_motion_def app_shmem_new_def n Let_def set_handles_def split: if_splits)
qed

text \<open>
  C39: motion and the socket share one segment, and it has the size of the socket's structure. Both ask for the same key,
  so however many components, threads, pins and functions are set up in between, a successful attachment of motion
  gets the handle and the address of the segment made for the socket, whatever the size of its own structure.
\<close>

theorem motion_shares_socket_segment:
  assumes "usrsocketInit ev a = Some (0, a1)" "os_errno (ev_os ev)"
    and "\<forall>h \<in> set (app_handles a). \<not> keyed h" "length (app_handles a) = MAX_SHM"
    and "(setup_call ev)\<^sup>*\<^sup>* a1 a2" "attach_motion ev a2 = (0, a3)"
  shows "ap_emc_shmem_id a3 = ap_socket_shmem_id a1 \<and>
    sh_size (app_handles a3 ! nat (ap_emc_shmem_id a3)) = ev_sizeof_socket_status ev \<and>
    rtapi_shmem_getptr (ap_emc_shmem_id a3) (app_handles a3) = rtapi_shmem_getptr (ap_socket_shmem_id a1) (app_handles a1)"
proof -
  obtain i mem where i: "seg_at i (ev_sizeof_socket_status ev) mem (hs_rt (ap_hal a1))" "ap_socket_shmem_id a1 = int i"
    using usrsocketInit_shared [OF assms(1-4)] by blast
  from setup_calls_shared [OF assms(5)] i(1) assms(2)
  have "seg_at i (ev_sizeof_socket_status ev) mem (hs_rt (ap_hal a2))" by blast
  note a = attach_shared [OF assms(6) this]
  have g: "rtapi_shmem_getptr (int i) (app_handles b) = (0, Some mem)" if "seg_at i sz mem (hs_rt (ap_hal b))" for sz and b :: "'a app"
    using that by (auto simp: rtapi_shmem_getptr_def seg_at_def app_handles_def shm_index_Some_iff keyed_def)
  show ?thesis using a(1,2) i g [OF a(2)] g [OF i(1)] by (simp add: seg_at_def app_handles_def)
qed

lemma socket_then_motion:
  "case usrsocketInit ev_ex (app_with g so tt hal_blank 0) of None \<Rightarrow> False | Some (r, a1) \<Rightarrow> r = 0 \<and>
     (case on_hal (hal_init os_keyed (Some ''motmod'')) a1 of None \<Rightarrow> False | Some (_, a2) \<Rightarrow>
        (case app_shmem_new os_keyed DEFAULT_SHMEM_KEY 4000 a2 of (h, a3) \<Rightarrow>
           h = 1 \<and> fst (rtapi_shmem_getptr h (app_handles a3)) = 0))"
  by code_simp

theorem motion_shares_socket_segment_witness:
  "\<exists>a a1 a2 a3. usrsocketInit ev_ex (a :: unit app) = Some (0, a1) \<and> (setup_call ev_ex)\<^sup>*\<^sup>* a1 a2 \<and>
     attach_motion ev_ex a2 = (0, a3) \<and> ap_emc_shmem_id a3 = 1 \<and> sh_size (app_handles a3 ! 1) = 32"
proof -
  let ?a = "app_ex hal_blank 0"
  note run = socket_then_motion [of mot_zero sock_zero task_zero, folded app_ex_def]
  obtain a1 where a1: "usrsocketInit ev_ex ?a = Some (0, a1)"
    using run by (cases "usrsocketInit ev_ex ?a") auto
  obtain r a2 where a2: "on_hal (hal_init os_keyed (Some ''motmod'')) a1 = Some (r, a2)"
    using run unfolding a1 option.case prod.case by (cases "on_hal (hal_init os_keyed (Some ''motmod'')) a1") auto
  obtain b where n: "app_shmem_new os_keyed DEFAULT_SHMEM_KEY 4000 a2 = (1, b)" "fst (rtapi_shmem_getptr 1 (app_handles b)) = 0"
    using run unfolding a1 a2 option.case prod.case by (cases "app_shmem_new os_keyed DEFAULT_SHMEM_KEY 4000 a2") auto
  then obtain a3 where a3: "attach_motion ev_ex a2 = (0, a3)" "ap_emc_shmem_id a3 = 1"
    by (auto simp: attach_motion_def ev_ex_def app_handles_def)
  have s: "(setup_call ev_ex)\<^sup>*\<^sup>* a1 a2"
    using setup_call.init [of ev_ex] a2 by (auto simp: ev_ex_def)
  have os: "os_errno (ev_os ev_ex)" by (simp add: os_errno_def ev_ex_def os_keyed_def)
  have "\<forall>h \<in> set (app_handles ?a). \<not> keyed h" "length (app_handles ?a) = MAX_SHM"
    by (auto simp: app_ex_def app_with_def app_handles_def hal_blank_def rt_fresh_def keyed_def shm_valid_def SHMEM_MAGIC_def)
  from motion_shares_socket_segment [OF a1 os this s a3(1)] a3(2) a1 s a3(1) show ?thesis
    by (intro exI conjI) (auto simp: ev_ex_def)
qed

text \<open>
  So it is in the start of the program. The invariant: the segment made for the socket is where its static says, and a
  call that goes right keeps both.
\<close>

definition sharing :: "'tc app_env \<Rightarrow> nat \<Rightarrow> int \<Rightarrow> 'tc app \<Rightarrow> bool" where
  "sharing ev i mem a \<longleftrightarrow> os_errno (ev_os ev) \<and> seg_at i (ev_sizeof_socket_status ev) mem (hs_rt (ap_hal a)) \<and>
     ap_socket_shmem_id a = int i"

definition quiet :: "'tc app \<Rightarrow> 'tc app \<Rightarrow> bool" where
  "quiet a a' \<longleftrightarrow> hs_rt (ap_hal a') = hs_rt (ap_hal a) \<and> ap_socket_shmem_id a' = ap_socket_shmem_id a \<and>
     ap_emc_shmem_id a' = ap_emc_shmem_id a"

lemma quiet_refl [simp]: "quiet a a"
  by (simp add: quiet_def)

lemma quiet_trans [trans]: "quiet a b \<Longrightarrow> quiet b c \<Longrightarrow> quiet a c"
  by (simp add: quiet_def)

lemma quiet_sharing: "quiet a a' \<Longrightarrow> sharing ev i mem a \<Longrightarrow> sharing ev i mem a'"
  by (simp add: quiet_def sharing_def)

lemma on_hal_data_quiet: "on_hal_data f a = Some (r, a') \<Longrightarrow> quiet a a'"
  by (auto simp: on_hal_data_def on_hal_def on_data_def quiet_def split: if_splits)

lemma new_pin_quiet: "new_pin base cid p a = Some (r, a') \<Longrightarrow> quiet a a'"
  by (cases p) (auto simp: new_pin_def dest: on_hal_data_quiet)

lemma put_pin_quiet: "put_pin base p a = Some a' \<Longrightarrow> quiet a a'"
  by (cases p) (auto simp: put_pin_def quiet_def)

lemma new_pins_quiet: "new_pins base cid ps a = Some a' \<Longrightarrow> quiet a a'"
  by (induction ps arbitrary: a) (auto simp: bind_eq_Some_conv ignore_def dest!: new_pin_quiet intro: quiet_trans)

lemma new_pins_checked_quiet: "new_pins_checked base cid ps a = Some (r, a') \<Longrightarrow> quiet a a'"
  by (induction ps arbitrary: a) (auto simp: bind_eq_Some_conv dest!: new_pin_quiet intro: quiet_trans split: if_splits)

lemma put_pins_quiet: "put_pins base ps a = Some a' \<Longrightarrow> quiet a a'"
  by (induction ps arbitrary: a) (auto simp: bind_eq_Some_conv dest!: put_pin_quiet intro: quiet_trans)

lemma export_axes_quiet: "export_axes ns a = Some (r, a') \<Longrightarrow> quiet a a'"
proof (induction ns arbitrary: a)
  case (Cons n ns)
  then obtain b q where b: "export_axis n (ap_mot_hal a) (ap_mot_comp_id a) a = Some (q, b)"
    "if q \<noteq> 0 then a' = b else (\<exists>c. put_pin (ap_mot_hal b) (axis_hal_at n 23, 1) b = Some c \<and> export_axes ns c = Some (r, a'))"
    by (auto simp: bind_eq_Some_conv split: if_splits)
  have "quiet a b" using new_pins_checked_quiet b(1) by (simp add: export_axis_def)
  moreover have "quiet b a'"
  proof (cases "q = 0")
    case True
    with b(2) obtain c where "put_pin (ap_mot_hal b) (axis_hal_at n 23, 1) b = Some c" "export_axes ns c = Some (r, a')" by auto
    then show ?thesis using quiet_trans [OF put_pin_quiet Cons.IH] by blast
  qed (use b(2) in simp)
  ultimately show ?case by (rule quiet_trans)
qed simp

lemma tele_axes_quiet: "tele_axes ns base cid a = Some a' \<Longrightarrow> quiet a a'"
  by (induction ns arbitrary: a)
    (auto simp: bind_eq_Some_conv tele_export_axis_def dest!: new_pins_quiet put_pin_quiet intro: quiet_trans)

lemma axis_init_quiet: "axis_init_hal_param cid a = Some a' \<Longrightarrow> quiet a a'"
proof -
  assume h: "axis_init_hal_param cid a = Some a'"
  obtain p d where m: "hal_malloc (8 * 17 * int EMCMOT_MAX_AXIS) (hs_seg (ap_hal a)) = Some (p, d)"
    using h by (auto simp: axis_init_hal_param_def split: option.splits)
  let ?a1 = "a\<lparr>ap_hal := (ap_hal a)\<lparr>hs_seg := d\<rparr>, ap_axis_hal := (case p of None \<Rightarrow> 0 | Some q \<Rightarrow> q)\<rparr>"
  have "quiet a ?a1" by (simp add: quiet_def)
  moreover have "quiet ?a1 a'"
    using h m tele_axes_quiet by (auto simp: axis_init_hal_param_def Let_def simp del: max_axis_upt split: if_splits option.splits)
  ultimately show ?thesis by (rule quiet_trans)
qed

text \<open>What a sequence of calls ensures, from what its calls ensure.\<close>

definition ens :: "(int \<Rightarrow> 'tc app \<Rightarrow> bool) \<Rightarrow> (int \<times> 'tc app) option \<Rightarrow> bool" where
  "ens P x \<longleftrightarrow> (\<forall>r a. x = Some (r, a) \<longrightarrow> P r a)"

definition ens1 :: "('tc app \<Rightarrow> bool) \<Rightarrow> 'tc app option \<Rightarrow> bool" where
  "ens1 P x \<longleftrightarrow> (\<forall>a. x = Some a \<longrightarrow> P a)"

lemma ens_Some: "P r a \<Longrightarrow> ens P (Some (r, a))"
  by (simp add: ens_def)

lemma ens_if: "(b \<Longrightarrow> ens P x) \<Longrightarrow> (\<not> b \<Longrightarrow> ens P y) \<Longrightarrow> ens P (if b then x else y)"
  by simp

lemma ens_bind: "ens Q x \<Longrightarrow> (\<And>r a. Q r a \<Longrightarrow> ens P (f (r, a))) \<Longrightarrow> ens P (Option.bind x f)"
  by (auto simp: ens_def bind_eq_Some_conv)

lemma ens_bind1: "ens1 Q x \<Longrightarrow> (\<And>a. Q a \<Longrightarrow> ens P (f a)) \<Longrightarrow> ens P (Option.bind x f)"
  by (auto simp: ens_def ens1_def bind_eq_Some_conv)

lemma ens_bind_any: "(\<And>y. x = Some y \<Longrightarrow> ens P (f y)) \<Longrightarrow> ens P (Option.bind x f)"
  by (auto simp: ens_def bind_eq_Some_conv)

lemma ens_case: "(\<And>u v. p = (u, v) \<Longrightarrow> ens P (f u v)) \<Longrightarrow> ens P (case p of (u, v) \<Rightarrow> f u v)"
  by (cases p) simp

lemma ens_ignore: "ens (\<lambda>_. Q) (f a) \<Longrightarrow> ens1 Q (ignore f a)"
  by (auto simp: ens_def ens1_def ignore_def)

lemma ens_mono: "ens P x \<Longrightarrow> (\<And>r a. P r a \<Longrightarrow> Q r a) \<Longrightarrow> ens Q x"
  by (auto simp: ens_def)

lemma init_hal_param_quiet: "ens (\<lambda>_. quiet a) (init_hal_param a)"
proof -
  have q: "ens1 (quiet a) (new_pins base cid ps b)" "ens1 (quiet a) (put_pins base vs b)" "ens (\<lambda>_. quiet a) (export_axes ns b)"
    "ens1 (quiet a) (axis_init_hal_param cid b)" if "quiet a b" for base cid ps vs ns and b :: "'a app"
    using that new_pins_quiet put_pins_quiet export_axes_quiet axis_init_quiet quiet_trans
    by (blast intro: ens1_def [THEN iffD2] ens_def [THEN iffD2])+
  have m: "quiet a (b\<lparr>ap_mot := g\<rparr>)" if "quiet a b" for b g using that by (simp add: quiet_def)
  show ?thesis
  proof (cases "hal_malloc SIZEOF_MOT_HAL (hs_seg (ap_hal a))")
    case None
    then show ?thesis by (simp add: init_hal_param_def ens_def)
  next
    case (Some pd)
    then obtain p d where pd: "hal_malloc SIZEOF_MOT_HAL (hs_seg (ap_hal a)) = Some (p, d)" by (cases pd) simp
    have q0: "quiet a (a\<lparr>ap_hal := (ap_hal a)\<lparr>hs_seg := d\<rparr>, ap_mot_hal := x\<rparr>)" for x by (simp add: quiet_def)
    show ?thesis
      unfolding init_hal_param_def pd option.case prod.case Let_def
      by (intro ens_if ens_Some ens_bind [OF q(3)] ens_bind1 [OF q(1)] ens_bind1 [OF q(2)] ens_bind1 [OF q(4)] q0 m
          | simp only: prod.case | assumption)+
  qed
qed

section \<open>The start\<close>

definition kept :: "'tc app_env \<Rightarrow> nat \<Rightarrow> int \<Rightarrow> int \<Rightarrow> 'tc app \<Rightarrow> bool" where
  "kept ev i mem e a \<longleftrightarrow> sharing ev i mem a \<and> ap_emc_shmem_id a = e"

lemma kept_quiet: "kept ev i mem e a \<Longrightarrow> quiet a a' \<Longrightarrow> kept ev i mem e a'"
  by (simp add: kept_def quiet_def sharing_def)

lemma kept_upd [simp]:
  "kept ev i mem e (a\<lparr>ap_mot := g\<rparr>) = kept ev i mem e a" "kept ev i mem e (a\<lparr>ap_sock := so\<rparr>) = kept ev i mem e a"
  "kept ev i mem e (a\<lparr>ap_traj := tj\<rparr>) = kept ev i mem e a" "kept ev i mem e (a\<lparr>ap_mot_comp_id := c\<rparr>) = kept ev i mem e a"
  "kept ev i mem e (a\<lparr>ap_socket_comp_id := c\<rparr>) = kept ev i mem e a"
  by (simp_all add: kept_def sharing_def)

lemma kept_calls:
  assumes "kept ev i mem e a"
  shows "ens (\<lambda>_. kept ev i mem e) (on_hal (hal_init (ev_os ev) name) a)"
    "ens (\<lambda>_. kept ev i mem e) (on_hal (hal_exit (ev_os ev) cid) a)"
    "ens (\<lambda>_. kept ev i mem e) (on_hal (hal_create_thread (ev_os ev) (ev_tos ev) tname period fp prio) a)"
    "ens (\<lambda>_. kept ev i mem e) (on_hal_data f a)"
    "ens (\<lambda>_. kept ev i mem e) (init_hal_param a)"
  using assms init_hal_param_quiet [of a]
  by (auto simp: ens_def kept_def sharing_def on_hal_def quiet_def
      dest: shared.hal_init_kept shared.hal_exit_kept shared.hal_create_thread_kept on_hal_data_quiet)

lemma kept_ignore: "kept ev i mem e a \<Longrightarrow> ens1 (kept ev i mem e) (ignore (on_hal_data f) a)"
  by (rule ens_ignore) (rule kept_calls)

lemma kept_fail: "kept ev i mem e a \<Longrightarrow> ens (\<lambda>r a'. r = -1) (fail_exit (ev_os ev) cid a)"
  by (auto simp: ens_def fail_exit_def)

lemma export_motion_threads_kept: "kept ev i mem e a \<Longrightarrow> ens (\<lambda>_. kept ev i mem e) (export_motion_threads ev a)"
  unfolding export_motion_threads_def
  by (intro ens_if ens_Some ens_bind [OF kept_calls(3)] ens_bind [OF kept_calls(4)] ens_bind1 [OF kept_ignore]
      | simp only: prod.case | assumption)+

lemma init_motion_threads_kept: "kept ev i mem e a \<Longrightarrow> ens (\<lambda>_. kept ev i mem e) (init_motion_threads ev a)"
  unfolding init_motion_threads_def
  by (intro ens_if ens_Some ens_bind [OF export_motion_threads_kept] | simp only: prod.case kept_upd | assumption)+

lemma init_socket_threads_kept: "kept ev i mem e a \<Longrightarrow> ens (\<lambda>_. kept ev i mem e) (init_socket_threads ev a)"
  unfolding init_socket_threads_def
  by (intro ens_if ens_Some ens_bind [OF kept_calls(3)] ens_bind [OF kept_calls(4)] ens_bind1 [OF kept_ignore]
      | simp only: kept_upd prod.case | assumption | rule ens_bind_any | rule ens_case)+

lemma socket_main_kept:
  assumes "socket_thread_main ev a = Some (0, a')" "os_errno (ev_os ev)"
    and fresh: "\<forall>h \<in> set (app_handles a). \<not> keyed h" "length (app_handles a) = MAX_SHM"
  shows "\<exists>i mem e. kept ev i mem e a'"
proof -
  obtain r b where b: "usrsocketInit ev a = Some (r, b)"
    using assms(1) by (cases "usrsocketInit ev a") (auto simp: socket_thread_main_def)
  have "r = 0" using assms(1) by (auto simp: socket_thread_main_def b split: if_splits)
  with b usrsocketInit_shared [OF _ assms(2) fresh] assms(2) obtain i mem where k: "kept ev i mem (ap_emc_shmem_id b) b"
    by (fastforce simp: kept_def sharing_def)
  let ?e = "ap_emc_shmem_id b"
  have f: "ens (\<lambda>r a. r = 0 \<longrightarrow> kept ev i mem ?e a) (fail_exit (ev_os ev) cid c)" if "kept ev i mem ?e c" for cid c
    using kept_fail [OF that] by (rule ens_mono) simp
  have "ens (\<lambda>r a. r = 0 \<longrightarrow> kept ev i mem ?e a) (socket_thread_main ev a)"
    unfolding socket_thread_main_def b \<open>r = 0\<close> bind.simps prod.case Let_def
    by (intro ens_if ens_Some ens_bind [OF kept_calls(1) [where i = i and mem = mem and e = ?e]] f impI k
          ens_bind [OF init_socket_threads_kept [where i = i and mem = mem and e = ?e]]
          ens_bind1 [OF kept_ignore [where i = i and mem = mem and e = ?e]]
        | simp only: kept_upd prod.case refl not_True_eq_False | assumption | rule ens_case | simp; fail)+
  with assms(1) show ?thesis by (auto simp: ens_def)
qed

lemma motion_main_kept:
  assumes "motion_thread_main ev a = Some (0, a')" "kept ev i mem e a"
  shows "kept ev i mem (int i) a'"
proof -
  have f: "ens (\<lambda>r a. r = 0 \<longrightarrow> kept ev i mem (int i) a) (fail_exit (ev_os ev) cid c)" for cid c
    by (auto simp: ens_def fail_exit_def)
  have at: "kept ev i mem (int i) c'" if "attach_motion ev c = (0, c')" "kept ev i mem e c" for c c'
    using attach_shared [OF that(1)] that(2) by (auto simp: kept_def sharing_def)
  have "ens (\<lambda>r a. r = 0 \<longrightarrow> kept ev i mem (int i) a) (motion_thread_main ev a)"
    unfolding motion_thread_main_def emcTrajInit_def prod.case Let_def
    by (intro ens_if ens_Some ens_bind [OF kept_calls(1) [where i = i and mem = mem and e = e]] f impI assms(2)
          ens_bind [OF kept_calls(5) [where i = i and mem = mem and e = e]]
          ens_bind [OF init_motion_threads_kept [where i = i and mem = mem and e = "int i"]]
          ens_bind1 [OF kept_ignore [where i = i and mem = mem and e = "int i"]]
        | simp only: kept_upd prod.case refl not_True_eq_False | assumption | rule ens_case | simp; fail | erule at | simp)+
  with assms(1) show ?thesis by (auto simp: ens_def)
qed

text \<open>The start of the program: once both parts report success there is one segment, of the size of the socket's.\<close>

lemma startup_shares_segment:
  assumes "socket_thread_main ev a = Some (0, a1)" "motion_thread_main ev a1 = Some (0, a2)" "os_errno (ev_os ev)"
    and "\<forall>h \<in> set (app_handles a). \<not> keyed h" "length (app_handles a) = MAX_SHM"
  shows "ap_emc_shmem_id a2 = ap_socket_shmem_id a2"
    and "sh_size (app_handles a2 ! nat (ap_emc_shmem_id a2)) = ev_sizeof_socket_status ev"
proof -
  obtain i mem e where "kept ev i mem e a1" using socket_main_kept [OF assms(1,3-5)] by blast
  then have "kept ev i mem (int i) a2" by (rule motion_main_kept [OF assms(2)])
  then show "ap_emc_shmem_id a2 = ap_socket_shmem_id a2"
    "sh_size (app_handles a2 ! nat (ap_emc_shmem_id a2)) = ev_sizeof_socket_status ev"
    by (simp_all add: kept_def sharing_def seg_at_def app_handles_def)
qed

text \<open>
  The drives never ask for a segment: \<open>usrecatInit\<close> is not called and their handle is 0, that of the first segment
  of the process. There the module identifiers are counted, and the pointers the drives' first cycle stores
  in their status fall on the counter.
\<close>

lemma activate_axes_rt: "activate_axes ns a = Some a' \<Longrightarrow> hs_rt (ap_hal a') = hs_rt (ap_hal a) \<and> ap_ecat_struct a' = ap_ecat_struct a"
  by (induction ns arbitrary: a) (fastforce simp: bind_eq_Some_conv put_pin_def split: prod.splits)+

lemma drives_use_counter:
  assumes "init_ecat_comm_buffers a = Some (0, a')" "ap_ecat_shmem_id a = 0"
    and "rt_inv n (hs_rt (ap_hal a)) live" "live \<noteq> []" "rt_uuid_mem_id (hs_rt (ap_hal a)) = 0"
  shows "ap_ecat_struct a' = rt_uuid_base (hs_rt (ap_hal a'))"
proof -
  have m: "sh_mem (app_handles a ! 0) = rt_uuid_base (hs_rt (ap_hal a))" "uuid_handle (app_handles a ! 0)"
    using assms(3-5) by (auto simp: rt_inv_def app_handles_def MAX_SHM_def)
  then have "rtapi_shmem_getptr (ap_ecat_shmem_id a) (app_handles a) = (0, Some (rt_uuid_base (hs_rt (ap_hal a))))"
    using assms(2) by (simp add: rtapi_shmem_getptr_def uuid_handle_def MAX_SHM_def)
  with assms(1) obtain b where "activate_axes [0..<nat (ap_num_axis a)] (a\<lparr>ap_ecat_struct := rt_uuid_base (hs_rt (ap_hal a))\<rparr>) = Some b" "a' = b"
    by (auto simp: init_ecat_comm_buffers_def)
  with activate_axes_rt show ?thesis by fastforce
qed

text \<open>The wait for the status gives up after ten attempts, or earlier when a signal ends the program.\<close>

lemma await_status_good:
  assumes "await_status copies done n k t = (Some True, t')"
  shows "\<exists>j t0. k \<le> j \<and> j < k + n \<and> (case copies j of (cs, cc, ci) \<Rightarrow> emcMotionUpdate True cs cc ci t0 = (0, t'))"
  using assms
proof (induction n arbitrary: k t)
  case (Suc n)
  obtain cs cc ci where c: "copies k = (cs, cc, ci)" by (cases "copies k")
  obtain r t1 where u: "emcMotionUpdate True cs cc ci t = (r, t1)" by fastforce
  show ?case
  proof (cases "r = 0")
    case True
    with Suc.prems c u show ?thesis by (intro exI [of _ k]) auto
  next
    case False
    with Suc.prems c u have "await_status copies done n (Suc k) t1 = (Some True, t')" by (simp split: if_splits)
    from Suc.IH [OF this] show ?thesis
      by (elim exE conjE) (rule exI, rule exI, rule conjI, erule Suc_leD, rule conjI, simp, assumption)
  qed
qed simp

end
