(* ===== verification/TaskLoop.thy ===== *)
theory TaskLoop
  imports StartUp
begin

text \<open>
  The loop of the main program (\<open>main\<close> of \<open>task/taskmain.cpp\<close>) between the start and the end of the program, with the
  timer it waits on (\<open>libnml/timer.cpp\<close>, \<open>libnml/_timer.c\<close>). The clock and the sleeping are the operating system's: readings
  and the results of \<open>select\<close> are arguments. A double is a real.
\<close>

section \<open>Sleeping\<close>

text \<open>\<open>etime\<close>: the answer of \<open>gettimeofday\<close>, its seconds and microseconds.\<close>

definition etime :: "bool \<Rightarrow> int \<Rightarrow> int \<Rightarrow> real" where
  "etime ok sec usec = (if ok then of_int sec + of_int usec / 1000000 else 0)"

definition clk_tck :: "int \<Rightarrow> real" where
  "clk_tck per_second = 1 / of_int per_second"

text \<open>One round of the loop of \<open>esleep\<close>: the time asked of \<open>select\<close>, at least a microsecond.\<close>

definition sleep_interval :: "real \<Rightarrow> int \<times> int" where
  "sleep_interval left =
     (let sec = r_trunc left; usec = r_trunc ((left - of_int sec) * 1000000) in
      if sec = 0 \<and> usec = 0 then (0, 1) else (sec, usec))"

text \<open>
  The loop with the rounds it has: each says how \<open>select\<close> ended (\<open>None\<close> for the time, \<open>Some\<close> for an error, true when
  it was an interruption) and how much time had passed since the start. The result lists the times asked for.
\<close>

fun esleep_loop :: "bool \<Rightarrow> real \<Rightarrow> real \<Rightarrow> real \<Rightarrow> (bool option \<times> real) list \<Rightarrow> (int \<times> int) list" where
  "esleep_loop yield tck asked_for left [] = []"
| "esleep_loop yield tck asked_for left ((res, passed) # rs) =
     (let asked = (if left < tck \<and> yield then [] else [sleep_interval left]);
          left1 = asked_for - passed
      in asked @ (if \<not> (left < tck \<and> yield) \<and> res = Some False then []
                  else if left1 > 0 \<and> (left1 > tck \<and> yield) then esleep_loop yield tck asked_for left1 rs else []))"

definition esleep_use_yield :: bool where "esleep_use_yield = False"

definition esleep :: "real \<Rightarrow> real \<Rightarrow> (bool option \<times> real) list \<Rightarrow> (int \<times> int) list" where
  "esleep tck secs rs = (if secs \<le> 0 then [] else esleep_loop esleep_use_yield tck secs secs rs)"

text \<open>Without yielding there is one call of \<open>select\<close>: an interrupted sleep is not resumed.\<close>

lemma esleep_once: "0 < secs \<Longrightarrow> rs \<noteq> [] \<Longrightarrow> esleep tck secs rs = [sleep_interval secs]"
  by (cases rs) (auto simp: esleep_def esleep_use_yield_def Let_def)

lemma sleep_interval_time:
  assumes "0 < left" "sleep_interval left = (sec, usec)"
  shows "0 \<le> sec \<and> 0 \<le> usec \<and> usec < 1000000 \<and> (0 < sec \<or> 0 < usec) \<and> \<bar>of_int sec + of_int usec / 1000000 - left\<bar> \<le> 1 / 1000000"
proof -
  let ?s = "\<lfloor>left\<rfloor>" and ?u = "\<lfloor>(left - of_int \<lfloor>left\<rfloor>) * 1000000\<rfloor>"
  have f: "0 \<le> left - of_int ?s" "left - of_int ?s < 1" by linarith+
  then have u: "0 \<le> ?u" "?u < 1000000" by (simp_all add: floor_less_iff)
  have s: "0 \<le> ?s" using assms(1) by simp
  have b: "of_int ?u \<le> (left - of_int ?s) * 1000000" "(left - of_int ?s) * 1000000 < of_int ?u + 1" by linarith+
  have e: "sleep_interval left = (if ?s = 0 \<and> ?u = 0 then (0, 1) else (?s, ?u))"
    using assms(1) f unfolding sleep_interval_def r_trunc_def Let_def by (simp only: less_imp_le if_True mult_nonneg_nonneg zero_le_numeral)
  show ?thesis
  proof (cases "?s = 0 \<and> ?u = 0")
    case True
    have "sec = 0" "usec = 1" using assms(2) unfolding e if_P [OF True] by simp_all
    moreover have "left * 1000000 < 1"
      using b(2) unfolding True [THEN conjunct2] unfolding True [THEN conjunct1] by simp
    ultimately show ?thesis using assms(1) by simp
  next
    case False
    have x: "sec = ?s" "usec = ?u" using assms(2) unfolding e if_not_P [OF False] prod.inject by blast+
    have "\<bar>of_int ?s + of_int ?u / 1000000 - left\<bar> \<le> 1 / 1000000" using b by (simp add: abs_le_iff field_simps)
    moreover have "0 < ?s \<or> 0 < ?u" using s u False by linarith
    ultimately show ?thesis unfolding x using s u by blast
  qed
qed

section \<open>The timer\<close>

record 'w rcs_timer =
  ti_timeout :: real
  ti_function :: "('w \<Rightarrow> int \<times> 'w) option"
  ti_last_time :: real
  ti_start_time :: real
  ti_idle :: real
  ti_counts :: int
  ti_counts_per_real_sleep :: int
  ti_counts_since_real_sleep :: int
  ti_time_since_real_sleep :: real
  ti_num_sems :: int
  ti_id :: int
  ti_clk_tck_val :: real

text \<open>Two readings of the clock.\<close>

definition zero_timer :: "real \<Rightarrow> real \<Rightarrow> real \<Rightarrow> 'w rcs_timer \<Rightarrow> 'w rcs_timer" where
  "zero_timer now1 now2 tck t = t\<lparr>ti_num_sems := 0, ti_id := 0, ti_function := None, ti_last_time := now1, ti_idle := 0,
     ti_counts := 0, ti_start_time := now2, ti_time_since_real_sleep := now2, ti_counts_per_real_sleep := 0,
     ti_counts_since_real_sleep := 0, ti_clk_tck_val := tck, ti_timeout := tck\<rparr>"

text \<open>The clock ticks in a time. A time of zero divides by zero, and the cast of the infinity gives the smallest integer.\<close>

definition ticks_in :: "real \<Rightarrow> real \<Rightarrow> int" where
  "ticks_in tck timeout = (if timeout = 0 then INT32_MIN else d2i (tck / timeout))"

definition set_timeout :: "real \<Rightarrow> real \<Rightarrow> 'w rcs_timer \<Rightarrow> 'w rcs_timer" where
  "set_timeout tck timeout t =
     (let t1 = t\<lparr>ti_timeout := timeout\<rparr> in
      if timeout < tck then t1\<lparr>ti_counts_per_real_sleep := s32 (ticks_in tck timeout + 1)\<rparr>
      else t1\<lparr>ti_counts_per_real_sleep := 0\<rparr>)"

definition timer_init :: "real \<Rightarrow> real \<Rightarrow> real \<Rightarrow> real \<Rightarrow> int \<Rightarrow> 'w rcs_timer \<Rightarrow> 'w rcs_timer" where
  "timer_init now1 now2 tck timeout i t = set_timeout tck timeout ((zero_timer now1 now2 tck t)\<lparr>ti_id := i\<rparr>)"

text \<open>The constructors: from a configuration file, from a time, and with a function; memory before is an argument.\<close>

definition new_timer :: "real \<Rightarrow> real \<Rightarrow> real \<Rightarrow> 'w rcs_timer \<Rightarrow> 'w rcs_timer" where
  "new_timer now1 now2 tck mem = set_timeout tck 0 (zero_timer now1 now2 tck mem)"

definition new_timer_timeout :: "real \<Rightarrow> real \<Rightarrow> real \<Rightarrow> real \<Rightarrow> 'w rcs_timer \<Rightarrow> 'w rcs_timer" where
  "new_timer_timeout now1 now2 tck timeout mem = set_timeout tck timeout (zero_timer now1 now2 tck mem)"

definition new_timer_function ::
  "real \<Rightarrow> real \<Rightarrow> real \<Rightarrow> real \<Rightarrow> ('w \<Rightarrow> int \<times> 'w) option \<Rightarrow> 'w rcs_timer \<Rightarrow> 'w rcs_timer" where
  "new_timer_function now1 now2 tck timeout f mem =
     (let t = (zero_timer now1 now2 tck mem)\<lparr>ti_counts_per_real_sleep := 0, ti_counts_since_real_sleep := 0\<rparr>;
          t1 = (if timeout < ti_clk_tck_val t
                then t\<lparr>ti_counts_per_real_sleep := ticks_in (ti_clk_tck_val t) timeout, ti_timeout := ti_clk_tck_val t\<rparr>
                else t\<lparr>ti_timeout := timeout\<rparr>)
      in t1\<lparr>ti_function := f, ti_time_since_real_sleep := ti_start_time t1\<rparr>)"

definition timer_sync :: "real \<Rightarrow> 'w rcs_timer \<Rightarrow> 'w rcs_timer" where
  "timer_sync now t = t\<lparr>ti_last_time := now\<rparr>"

text \<open>
  \<open>wait\<close>: the readings before and after the function and after the sleep. The result is the number of cycles missed,
  the time slept and the timer.
\<close>

definition timer_wait :: "real \<Rightarrow> real \<Rightarrow> real \<Rightarrow> 'w rcs_timer \<times> 'w \<Rightarrow> int \<times> real option \<times> 'w rcs_timer \<times> 'w" where
  "timer_wait time_in time_done now = (\<lambda>(t, w).
     let (r, w1) = (case ti_function t of None \<Rightarrow> (0, w) | Some f \<Rightarrow> f w) in
     if ti_function t \<noteq> None \<and> r = -1 then (-1, None, t, w1)
     else
       let interval = time_in - ti_last_time t;
           numcycles = interval / ti_timeout t;
           t1 = t\<lparr>ti_counts := ti_counts t + 1\<rparr>;
           (missed, remaining, t2) =
             (if ti_function t \<noteq> None
              then (r_trunc (numcycles - ti_clk_tck_val t / ti_timeout t), 0,
                    t1\<lparr>ti_idle := ti_idle t1 + interval, ti_last_time := time_done\<rparr>)
              else (r_trunc numcycles, ti_timeout t * (1 - (numcycles - of_int (r_trunc numcycles))),
                    t1\<lparr>ti_idle := ti_idle t1 + interval\<rparr>))
       in (missed, Some remaining, t2\<lparr>ti_last_time := now\<rparr>, w1))"

definition timer_load :: "'w rcs_timer \<Rightarrow> real" where
  "timer_load t = (if of_int (ti_counts t) * ti_timeout t \<noteq> 0 then ti_idle t / (of_int (ti_counts t) * ti_timeout t) else -1)"

lemma timer_wait_rcs:
  assumes "ti_function t = None"
  shows "timer_wait time_in time_done now (t, w) =
    (case rcs_wait (ti_timeout t) (ti_last_time t) time_in of (missed, remaining) \<Rightarrow>
       (missed, Some remaining, t\<lparr>ti_counts := ti_counts t + 1, ti_idle := ti_idle t + (time_in - ti_last_time t),
          ti_last_time := now\<rparr>, w))"
  using assms by (simp add: timer_wait_def rcs_wait_def Let_def)

text \<open>
  The load is the time spent outside \<open>wait\<close>, in units of the time there was: it stays one when every call comes
  exactly a period after the last wake-up. The field it is taken from, \<open>idle\<close>, sums up the time the program is busy.
\<close>

lemma load_of_waits:
  assumes "ti_function t = None" "0 < ti_timeout t" "0 \<le> ti_counts t" "timer_load t = 1 \<or> ti_counts t = 0 \<and> ti_idle t = 0"
    and "timer_wait (ti_last_time t + ti_timeout t) td now (t, w) = (missed, r, t', w')"
  shows "timer_load t' = 1"
proof -
  have i: "ti_idle t = of_int (ti_counts t) * ti_timeout t"
    using assms(4) by (auto simp: timer_load_def split: if_splits)
  have "t' = t\<lparr>ti_counts := ti_counts t + 1, ti_idle := ti_idle t + ti_timeout t, ti_last_time := now\<rparr>"
    using assms(5) unfolding timer_wait_rcs [OF assms(1)] by (auto split: prod.splits)
  moreover have "0 < of_int (ti_counts t + 1) * ti_timeout t" using assms(2,3) by simp
  ultimately show ?thesis using i by (simp add: timer_load_def algebra_simps)
qed

section \<open>The loop\<close>

record loop_stats =
  ls_startTime :: real
  ls_minTime :: real
  ls_maxTime :: real
  ls_warnings :: int
  ls_printed :: "real list"

definition LATENCY_EXCURSION_FACTOR :: real where "LATENCY_EXCURSION_FACTOR = 10"
definition DEFAULT_EMC_TASK_CYCLE_TIME :: real where "DEFAULT_EMC_TASK_CYCLE_TIME = 0.1"

definition loop_start :: "real \<Rightarrow> loop_stats" where
  "loop_start now = \<lparr>ls_startTime = now, ls_minTime = DBL_MAX, ls_maxTime = 0, ls_warnings = 0, ls_printed = []\<rparr>"

definition loop_measure :: "bool \<Rightarrow> real \<Rightarrow> loop_stats \<Rightarrow> loop_stats" where
  "loop_measure quiet endTime s =
     (let delta = endTime - ls_startTime s;
          s1 = (if delta < ls_minTime s then s\<lparr>ls_minTime := delta\<rparr>
                else if delta > ls_maxTime s then s\<lparr>ls_maxTime := delta\<rparr> else s);
          s2 = s1\<lparr>ls_startTime := endTime\<rparr>
      in if \<not> quiet \<and> delta > LATENCY_EXCURSION_FACTOR * DEFAULT_EMC_TASK_CYCLE_TIME
         then s2\<lparr>ls_printed := (if ls_warnings s2 < 10 then ls_printed s2 @ [delta] else ls_printed s2),
                 ls_warnings := ls_warnings s2 + 1\<rparr>
         else s2)"

text \<open>A round: what the attempt to read the status copies, the time after it, and the readings of the wait.\<close>

record 'tc loop_round =
  lr_copies :: "'tc copies"
  lr_end :: real
  lr_time_in :: real
  lr_woken :: real

definition task_round ::
  "bool \<Rightarrow> bool \<Rightarrow> 'tc loop_round \<Rightarrow> 'tc task_state \<times> loop_stats \<times> unit rcs_timer \<Rightarrow> 'tc task_state \<times> loop_stats \<times> unit rcs_timer" where
  "task_round quiet no_delay x = (\<lambda>(t, s, timer).
     case lr_copies x of (cs, cc, ci) \<Rightarrow>
       let t1 = snd (emcMotionUpdate True cs cc ci t);
           s1 = loop_measure quiet (lr_end x) s;
           timer1 = (if no_delay then timer else fst (snd (snd (timer_wait (lr_time_in x) 0 (lr_woken x) (timer, ())))))
       in (t1, s1, timer1))"

text \<open>
  \<open>main\<close> with the rounds it makes until a signal ends it. The realtime threads run beside it: what they did when the
  loop ends is a function on the state. The result is the exit code.
\<close>

definition main_program ::
  "'tc app_env \<Rightarrow> hp_api \<Rightarrow> int \<Rightarrow> (nat \<Rightarrow> 'tc copies) \<Rightarrow> (nat \<Rightarrow> bool) \<Rightarrow> bool \<Rightarrow> bool \<Rightarrow> 'tc loop_round list \<Rightarrow>
     loop_stats \<times> unit rcs_timer \<Rightarrow> ('tc app \<Rightarrow> 'tc app) \<Rightarrow> (nat \<Rightarrow> (int \<times> mot_status) list) \<Rightarrow> 'tc app \<Rightarrow> (int \<times> 'tc app) option" where
  "main_program ev api printf copies done quiet no_delay rounds st threads reads a =
     (case emctask_startup ev api printf copies done a of
        None \<Rightarrow> None
      | Some (Exited a1) \<Rightarrow> Some (1, a1)
      | Some (Returned r a1) \<Rightarrow>
          if r \<noteq> 0 then Some (1, a1)
          else do {
            a2 \<leftarrow> ignore (on_hal_data (\<lambda>d. Some (hal_start_threads d))) a1;
            let (t, s, timer) = fold (task_round quiet no_delay) rounds (ap_task a2, st);
                a3 = threads (a2\<lparr>ap_task := t\<rparr>) in do {
            a4 \<leftarrow> ignore app_stop_threads a3;
            (r1, r2, t2, g) \<leftarrow> task_shutdown True reads (ap_task a4, ap_mot a4);
            Some (0, a4\<lparr>ap_task := t2, ap_mot := g\<rparr>) }})"

text \<open>At most ten warnings are printed however long the loop runs.\<close>

lemma loop_measure_printed:
  assumes "0 \<le> ls_warnings s" "int (length (ls_printed s)) = min 10 (ls_warnings s)"
  shows "0 \<le> ls_warnings (loop_measure quiet e s) \<and>
    int (length (ls_printed (loop_measure quiet e s))) = min 10 (ls_warnings (loop_measure quiet e s))"
  using assms by (auto simp: loop_measure_def Let_def min_def split: if_splits)

lemma warnings_limited:
  "int (length (ls_printed (fold (loop_measure quiet) es (loop_start now)))) \<le> 10"
proof -
  have "0 \<le> ls_warnings s \<and> int (length (ls_printed s)) = min 10 (ls_warnings s) \<Longrightarrow>
    0 \<le> ls_warnings (fold (loop_measure quiet) es s) \<and>
    int (length (ls_printed (fold (loop_measure quiet) es s))) = min 10 (ls_warnings (fold (loop_measure quiet) es s))" for s
    by (induction es arbitrary: s) (use loop_measure_printed in auto)
  from this [of "loop_start now"] show ?thesis by (simp add: loop_start_def)
qed

text \<open>The longest round is not recorded while the rounds get shorter: a time that is a new minimum is never compared with the maximum.\<close>

lemma maximum_not_recorded:
  assumes "0 \<le> d1" "d2 < d1" "d1 < DBL_MAX"
  shows "ls_maxTime (fold (loop_measure quiet) [now + d1, now + d1 + d2] (loop_start now)) = 0"
  using assms by (simp add: loop_measure_def loop_start_def Let_def)

end
