(* ===== verification/HalRing.thy ===== *)
theory HalRing
  imports HalOps
begin

text \<open>
  The doubly linked rings behind the lists of functions (\<open>hal/hal_lib.c\<close>, \<open>list_next\<close> to \<open>list_init_entry\<close>) and the loops
  that walk them. An entry is its offset in the shared memory; two maps hold its links. The other theories
  take the functions of a thread and the free entries for lists: here the operations on the links are shown to do to a
  ring what those theories do to its list.
\<close>

section \<open>The links\<close>

record ring_mem =
  rm_next :: "int \<Rightarrow> int"
  rm_prev :: "int \<Rightarrow> int"

definition set_next :: "int \<Rightarrow> int \<Rightarrow> ring_mem \<Rightarrow> ring_mem" where
  "set_next p v m = m\<lparr>rm_next := (rm_next m)(p := v)\<rparr>"

definition set_prev :: "int \<Rightarrow> int \<Rightarrow> ring_mem \<Rightarrow> ring_mem" where
  "set_prev p v m = m\<lparr>rm_prev := (rm_prev m)(p := v)\<rparr>"

definition ring_add_after :: "int \<Rightarrow> int \<Rightarrow> ring_mem \<Rightarrow> ring_mem" where
  "ring_add_after entry prv m =
     (let next_n = rm_next m prv in
      set_prev next_n entry (set_next prv entry (set_prev entry prv (set_next entry next_n m))))"

definition ring_add_before :: "int \<Rightarrow> int \<Rightarrow> ring_mem \<Rightarrow> ring_mem" where
  "ring_add_before entry nxt m =
     (let prev_n = rm_prev m nxt in
      set_prev nxt entry (set_next prev_n entry (set_prev entry prev_n (set_next entry nxt m))))"

definition ring_remove_entry :: "int \<Rightarrow> ring_mem \<Rightarrow> int \<times> ring_mem" where
  "ring_remove_entry entry m =
     (let prv = rm_prev m entry; nxt = rm_next m entry;
          m1 = set_next prv (rm_next m entry) m;
          m2 = set_prev nxt (rm_prev m1 entry) m1
      in (nxt, set_prev entry entry (set_next entry entry m2)))"

definition ring_init_entry :: "int \<Rightarrow> ring_mem \<Rightarrow> ring_mem" where
  "ring_init_entry entry m = set_prev entry entry (set_next entry entry m)"

section \<open>A list in the links\<close>

primrec chain :: "ring_mem \<Rightarrow> int \<Rightarrow> int list \<Rightarrow> int \<Rightarrow> bool" where
  "chain m a [] b \<longleftrightarrow> rm_next m a = b \<and> rm_prev m b = a"
| "chain m a (x # xs) b \<longleftrightarrow> rm_next m a = x \<and> rm_prev m x = a \<and> chain m x xs b"

definition ring :: "ring_mem \<Rightarrow> int \<Rightarrow> int list \<Rightarrow> bool" where
  "ring m rt xs \<longleftrightarrow> distinct (rt # xs) \<and> chain m rt xs rt"

lemmas links = set_next_def set_prev_def

lemma chain_append: "chain m a (xs @ x # ys) b \<longleftrightarrow> chain m a xs x \<and> chain m x ys b"
  by (induction xs arbitrary: a) auto

lemma chain_next: "p \<notin> set (a # xs) \<Longrightarrow> chain (set_next p v m) a xs b = chain m a xs b"
  by (induction xs arbitrary: a) (auto simp: links)

lemma chain_prev: "p \<notin> set (xs @ [b]) \<Longrightarrow> chain (set_prev p v m) a xs b = chain m a xs b"
  by (induction xs arbitrary: a) (auto simp: links)

lemma ring_frame:
  assumes "p \<notin> set (rt # xs)"
  shows "ring (set_next p v m) rt xs = ring m rt xs" "ring (set_prev p v m) rt xs = ring m rt xs"
  using assms by (auto simp: ring_def chain_next chain_prev)

lemma ring_init: "ring (ring_init_entry r m) r []"
  by (simp add: ring_def ring_init_entry_def links)

text \<open>The positions of the list model are the entries of the ring, and their neighbours its neighbours.\<close>

lemma chain_nth:
  "chain m a xs b \<Longrightarrow> i \<le> length xs \<Longrightarrow> rm_next m ((a # xs) ! i) = (xs @ [b]) ! i \<and> rm_prev m ((xs @ [b]) ! i) = (a # xs) ! i"
proof (induction xs arbitrary: a i)
  case (Cons x xs)
  then show ?case by (cases i) auto
qed simp

lemma ring_position:
  assumes "ring m rt xs" "i \<le> length xs"
  shows "rm_next m ((rt # xs) ! i) = (rt # xs) ! list_next (length xs) i"
    and "rm_prev m ((rt # xs) ! i) = (rt # xs) ! list_prev (length xs) i"
proof -
  have c: "chain m rt xs rt" using assms(1) by (simp add: ring_def)
  show "rm_next m ((rt # xs) ! i) = (rt # xs) ! list_next (length xs) i"
    using chain_nth [OF c assms(2)] assms(2) by (auto simp: list_next_def nth_append split: if_splits)
  show "rm_prev m ((rt # xs) ! i) = (rt # xs) ! list_prev (length xs) i"
  proof (cases i)
    case 0
    then show ?thesis using chain_nth [OF c, of "length xs"] by (simp add: list_prev_def nth_append)
  next
    case (Suc j)
    then show ?thesis using chain_nth [OF c, of j] assms(2) by (simp add: list_prev_def nth_append)
  qed
qed

lemma ring_root_position: "ring m rt xs \<Longrightarrow> i \<le> length xs \<Longrightarrow> (rt # xs) ! i = rt \<longleftrightarrow> i = 0"
  by (cases i) (auto simp: ring_def)

section \<open>Adding and removing\<close>

definition link_in :: "int \<Rightarrow> int \<Rightarrow> int \<Rightarrow> ring_mem \<Rightarrow> ring_mem" where
  "link_in e p n m = set_prev n e (set_next p e (set_prev e p (set_next e n m)))"

definition link_out :: "int \<Rightarrow> int \<Rightarrow> ring_mem \<Rightarrow> ring_mem" where
  "link_out p n m = set_prev n p (set_next p n m)"

lemma chain_cong:
  "(\<And>x. x \<in> set (a # xs) \<Longrightarrow> rm_next m' x = rm_next m x) \<Longrightarrow> (\<And>x. x \<in> set (xs @ [b]) \<Longrightarrow> rm_prev m' x = rm_prev m x)
   \<Longrightarrow> chain m' a xs b = chain m a xs b"
  by (induction xs arbitrary: a) auto

lemma chain_link_in:
  assumes "chain m a (us @ vs) b" "e \<notin> set (a # us @ vs @ [b])" "distinct (a # us @ vs)" "b \<notin> set (us @ vs)"
  shows "chain (link_in e (last (a # us)) (hd (vs @ [b])) m) a (us @ e # vs) b"
  using assms
proof (induction us arbitrary: a)
  case Nil
  show ?case
  proof (cases vs)
    case Nil
    with Nil.prems show ?thesis by (auto simp: link_in_def links)
  next
    case (Cons x ys)
    let ?m = "link_in e a x m"
    have "chain ?m x ys b = chain m x ys b"
      by (rule chain_cong) (use Nil.prems Cons in \<open>auto simp: link_in_def links\<close>)
    then show ?thesis using Nil.prems Cons by (auto simp: link_in_def links)
  qed
next
  case (Cons x us)
  let ?m = "link_in e (last (x # us)) (hd (vs @ [b])) m"
  have n: "hd (vs @ [b]) \<in> set vs \<union> {b}" by (cases vs) auto
  have "chain ?m x (us @ e # vs) b" using Cons.IH [of x] Cons.prems by simp
  moreover have "a \<notin> {e, last (x # us)}" using Cons.prems last_in_set [of "x # us"] by auto
  moreover have "x \<notin> {e, hd (vs @ [b])}" using Cons.prems n by auto
  ultimately show ?case using Cons.prems by (simp add: link_in_def links)
qed

lemma chain_link_out:
  assumes "chain m a (us @ e # vs) b" "distinct (a # us @ e # vs)" "b \<notin> set (us @ e # vs)"
  shows "chain (link_out (last (a # us)) (hd (vs @ [b])) m) a (us @ vs) b"
  using assms
proof (induction us arbitrary: a)
  case Nil
  show ?case
  proof (cases vs)
    case Nil
    with Nil.prems show ?thesis by (auto simp: link_out_def links)
  next
    case (Cons x ys)
    let ?m = "link_out a x m"
    have "chain ?m x ys b = chain m x ys b"
      by (rule chain_cong) (use Nil.prems Cons in \<open>auto simp: link_out_def links\<close>)
    then show ?thesis using Nil.prems Cons by (auto simp: link_out_def links)
  qed
next
  case (Cons x us)
  let ?m = "link_out (last (x # us)) (hd (vs @ [b])) m"
  have n: "hd (vs @ [b]) \<in> set vs \<union> {b}" by (cases vs) auto
  have "chain ?m x (us @ vs) b" using Cons.IH [of x] Cons.prems by simp
  moreover have "a \<noteq> last (x # us)" using Cons.prems last_in_set [of "x # us"] by auto
  moreover have "x \<noteq> hd (vs @ [b])" using Cons.prems n by auto
  ultimately show ?case using Cons.prems by (simp add: link_out_def links)
qed

lemma chain_neighbours:
  "chain m a (us @ e # vs) b \<Longrightarrow> rm_prev m e = last (a # us) \<and> rm_next m e = hd (vs @ [b])"
  by (induction us arbitrary: a) (auto, cases vs, auto)

lemma ring_add_after_ring:
  assumes "ring m rt xs" "e \<notin> set (rt # xs)" "i \<le> length xs"
  shows "ring (ring_add_after e ((rt # xs) ! i) m) rt (list_add_after e i xs)"
proof -
  let ?us = "take i xs" and ?vs = "drop i xs"
  have c: "chain m rt (?us @ ?vs) rt" and d: "distinct (rt # ?us @ ?vs)" using assms(1) by (simp_all add: ring_def)
  have p: "(rt # xs) ! i = last (rt # ?us)"
    using assms(3) by (cases i) (auto simp: last_conv_nth)
  have n: "rm_next m (last (rt # ?us)) = hd (?vs @ [rt])"
    using chain_nth [of m rt xs rt i] c assms(3) p by (cases "i = length xs") (auto simp: nth_append hd_drop_conv_nth)
  have e: "e \<notin> set ?us" "e \<notin> set ?vs" "e \<noteq> rt" using assms(2) by (auto dest: in_set_takeD in_set_dropD)
  have d': "rt \<notin> set ?us" "rt \<notin> set ?vs" "distinct ?us" "distinct ?vs" "set ?us \<inter> set ?vs = {}"
    using d unfolding distinct.simps distinct_append set_append by blast+
  have "chain (link_in e (last (rt # ?us)) (hd (?vs @ [rt])) m) rt (?us @ e # ?vs) rt"
    by (rule chain_link_in [OF c _ d]) (use e d' assms(1) in \<open>simp_all add: ring_def\<close>)
  moreover have "ring_add_after e ((rt # xs) ! i) m = link_in e (last (rt # ?us)) (hd (?vs @ [rt])) m"
    unfolding ring_add_after_def Let_def p n link_in_def ..
  moreover have "distinct (rt # ?us @ e # ?vs)" using e d' by simp
  ultimately show ?thesis by (simp add: ring_def list_add_after_def)
qed

text \<open>Adding before an entry is adding after the one before it.\<close>

lemma ring_add_before_after:
  assumes "ring m rt xs" "i \<le> length xs"
  shows "ring_add_before e ((xs @ [rt]) ! i) m = ring_add_after e ((rt # xs) ! i) m"
proof -
  have "chain m rt xs rt" using assms(1) by (simp add: ring_def)
  note n = chain_nth [OF this assms(2)]
  show ?thesis unfolding ring_add_before_def ring_add_after_def Let_def n [THEN conjunct1] n [THEN conjunct2] ..
qed

lemma ring_remove_ring:
  assumes "ring m rt (us @ e # vs)"
  shows "fst (ring_remove_entry e m) = hd (vs @ [rt])"
    and "ring (snd (ring_remove_entry e m)) rt (us @ vs)"
    and "ring (snd (ring_remove_entry e m)) e []"
proof -
  have c: "chain m rt (us @ e # vs) rt" and d: "distinct (rt # us @ e # vs)" using assms by (simp_all add: ring_def)
  note nb = chain_neighbours [OF c]
  have r: "snd (ring_remove_entry e m) = set_prev e e (set_next e e (link_out (last (rt # us)) (hd (vs @ [rt])) m))"
    using nb by (simp add: ring_remove_entry_def Let_def link_out_def) (simp add: links)
  have "ring (link_out (last (rt # us)) (hd (vs @ [rt])) m) rt (us @ vs)"
    using chain_link_out [OF c] d by (auto simp: ring_def)
  then show "ring (snd (ring_remove_entry e m)) rt (us @ vs)" unfolding r using d by (simp add: ring_frame)
  show "ring (snd (ring_remove_entry e m)) e []" unfolding r by (simp add: ring_def links)
  show "fst (ring_remove_entry e m) = hd (vs @ [rt])" using nb by (simp add: ring_remove_entry_def Let_def)
qed

section \<open>Several rings\<close>

text \<open>The rings of all threads and of the free entries: a map from their roots to their lists.\<close>

definition in_use :: "int \<Rightarrow> (int \<rightharpoonup> int list) \<Rightarrow> bool" where
  "in_use e f \<longleftrightarrow> (\<exists>r xs. f r = Some xs \<and> e \<in> set (r # xs))"

definition rings :: "ring_mem \<Rightarrow> (int \<rightharpoonup> int list) \<Rightarrow> bool" where
  "rings m f \<longleftrightarrow> (\<forall>r xs. f r = Some xs \<longrightarrow> ring m r xs) \<and>
     (\<forall>r s xs ys. f r = Some xs \<longrightarrow> f s = Some ys \<longrightarrow> r \<noteq> s \<longrightarrow> set (r # xs) \<inter> set (s # ys) = {})"

lemma ringsD: "rings m f \<Longrightarrow> f r = Some xs \<Longrightarrow> ring m r xs"
  by (simp add: rings_def)

lemma rings_apart: "rings m f \<Longrightarrow> f r = Some xs \<Longrightarrow> f s = Some ys \<Longrightarrow> r \<noteq> s \<Longrightarrow> set (r # xs) \<inter> set (s # ys) = {}"
  unfolding rings_def by blast

text \<open>A change that touches the links of one ring and an entry of none leaves the others alone.\<close>

lemma rings_change:
  assumes "rings m f" "f r = Some xs" "ring m' r xs'" "set xs' \<subseteq> insert e (set xs)"
    and "\<And>x. x \<notin> insert e (set (r # xs)) \<Longrightarrow> rm_next m' x = rm_next m x \<and> rm_prev m' x = rm_prev m x"
    and "\<And>s ys. f s = Some ys \<Longrightarrow> s \<noteq> r \<Longrightarrow> e \<notin> set (s # ys)"
  shows "rings m' (f(r \<mapsto> xs'))"
proof -
  have apart: "set (r # xs') \<inter> set (s # ys) = {}" if "f s = Some ys" "s \<noteq> r" for s ys
    using rings_apart [OF assms(1,2) that(1)] assms(4) assms(6) [OF that] that(2) by auto
  have ring: "ring m' s ys" if "f s = Some ys" "s \<noteq> r" for s ys
  proof -
    have "x \<notin> insert e (set (r # xs))" if "x \<in> set (s # ys)" for x
      using rings_apart [OF assms(1,2) \<open>f s = Some ys\<close>] assms(6) [OF \<open>f s = Some ys\<close> \<open>s \<noteq> r\<close>] \<open>s \<noteq> r\<close> that by auto
    then have "chain m' s ys s = chain m s ys s" by (intro chain_cong) (use assms(5) in auto)
    then show ?thesis using ringsD [OF assms(1) that(1)] by (simp add: ring_def)
  qed
  show ?thesis unfolding rings_def
  proof (intro conjI allI impI)
    fix s ys assume "(f(r \<mapsto> xs')) s = Some ys"
    then show "ring m' s ys" using assms(3) ring by (cases "s = r") auto
  next
    fix s t ys zs assume st: "(f(r \<mapsto> xs')) s = Some ys" "(f(r \<mapsto> xs')) t = Some zs" "s \<noteq> t"
    show "set (s # ys) \<inter> set (t # zs) = {}"
    proof (cases "s = r \<or> t = r")
      case True
      then show ?thesis using st apart [of s ys] apart [of t zs] by (elim disjE) (simp_all add: Int_commute)
    next
      case False
      with st show ?thesis using rings_apart [OF assms(1), of s ys t zs] by simp
    qed
  qed
qed

lemma add_after_elsewhere:
  "x \<notin> {e, p, rm_next m p} \<Longrightarrow> rm_next (ring_add_after e p m) x = rm_next m x \<and> rm_prev (ring_add_after e p m) x = rm_prev m x"
  by (simp add: ring_add_after_def Let_def links)

lemma remove_elsewhere:
  "x \<notin> {e, rm_prev m e, rm_next m e} \<Longrightarrow>
    rm_next (snd (ring_remove_entry e m)) x = rm_next m x \<and> rm_prev (snd (ring_remove_entry e m)) x = rm_prev m x"
  by (simp add: ring_remove_entry_def Let_def links)

lemma list_next_le: "i \<le> n \<Longrightarrow> list_next n i \<le> n"
  by (simp add: list_next_def)

lemma rings_add:
  assumes "rings m f" "f r = Some xs" "\<not> in_use e f" "i \<le> length xs"
  shows "rings (ring_add_after e ((r # xs) ! i) m) (f(r \<mapsto> list_add_after e i xs))"
proof (rule rings_change [OF assms(1,2), where e = e])
  have u: "e \<notin> set (s # ys)" if "f s = Some ys" for s ys using assms(3) that by (auto simp: in_use_def)
  show "ring (ring_add_after e ((r # xs) ! i) m) r (list_add_after e i xs)"
    by (rule ring_add_after_ring [OF ringsD [OF assms(1,2)] u [OF assms(2)] assms(4)])
  show "e \<notin> set (s # ys)" if "f s = Some ys" for s ys using u [OF that] .
  show "set (list_add_after e i xs) \<subseteq> insert e (set xs)"
    by (auto simp: list_add_after_def dest: in_set_takeD in_set_dropD)
  have "(r # xs) ! j \<in> set (r # xs)" if "j \<le> length xs" for j using that by (intro nth_mem) simp
  then have "{(r # xs) ! i, rm_next m ((r # xs) ! i)} \<subseteq> set (r # xs)"
    using assms(4) ring_position(1) [OF ringsD [OF assms(1,2)] assms(4)] list_next_le [OF assms(4)] by simp
  then show "rm_next (ring_add_after e ((r # xs) ! i) m) x = rm_next m x \<and> rm_prev (ring_add_after e ((r # xs) ! i) m) x = rm_prev m x"
    if "x \<notin> insert e (set (r # xs))" for x using that add_after_elsewhere [of x e "(r # xs) ! i" m] by blast
qed

lemma rings_remove:
  assumes "rings m f" "f r = Some (us @ e # vs)"
  shows "fst (ring_remove_entry e m) = hd (vs @ [r])"
    and "rings (snd (ring_remove_entry e m)) (f(r \<mapsto> us @ vs))"
    and "\<not> in_use e (f(r \<mapsto> us @ vs))"
proof -
  note R = ringsD [OF assms]
  have c: "chain m r (us @ e # vs) r" and d: "distinct (r # us @ e # vs)" using R by (simp_all add: ring_def)
  show "fst (ring_remove_entry e m) = hd (vs @ [r])" by (rule ring_remove_ring(1) [OF R])
  have a: "e \<notin> set (s # ys)" if "f s = Some ys" "s \<noteq> r" for s ys
    using rings_apart [OF assms(1,2) that(1)] that(2) by auto
  have nb: "{rm_prev m e, rm_next m e} \<subseteq> set (r # us @ e # vs)"
    using chain_neighbours [OF c] by (cases vs) (auto simp: last_in_set)
  show "rings (snd (ring_remove_entry e m)) (f(r \<mapsto> us @ vs))"
  proof (rule rings_change [OF assms, where e = e])
    show "ring (snd (ring_remove_entry e m)) r (us @ vs)" by (rule ring_remove_ring(2) [OF R])
    show "rm_next (snd (ring_remove_entry e m)) x = rm_next m x \<and> rm_prev (snd (ring_remove_entry e m)) x = rm_prev m x"
      if "x \<notin> insert e (set (r # us @ e # vs))" for x using that nb remove_elsewhere [of x e m] by blast
  qed (use a in auto)
  show "\<not> in_use e (f(r \<mapsto> us @ vs))" using a d by (auto simp: in_use_def split: if_splits)
qed

section \<open>The loops over a ring\<close>

text \<open>
  The search for the place of \<open>hal_add_funct_to_thread\<close> and the entry it puts there, the search of
  \<open>hal_del_funct_from_thread\<close>, and the loop by which \<open>free_funct_struct\<close> and \<open>free_thread_struct\<close> return entries to
  the free ones. The two searches that end at the root only have no bound in the code: \<open>None\<close> is a
  search that does not end.
\<close>

primrec ring_walk :: "(int \<Rightarrow> int) \<Rightarrow> int \<Rightarrow> nat \<Rightarrow> int \<Rightarrow> int option" where
  "ring_walk mv rt 0 e = Some e"
| "ring_walk mv rt (Suc k) e = (if mv e = rt then None else ring_walk mv rt k (mv e))"

definition ring_insertion :: "ring_mem \<Rightarrow> int \<Rightarrow> int \<Rightarrow> int option" where
  "ring_insertion m rt position =
     (if position > 0 then ring_walk (rm_next m) rt (nat (position - 1)) rt
      else map_option (rm_prev m) (ring_walk (rm_prev m) rt (nat (- position - 1)) rt))"

definition ring_alloc :: "int \<Rightarrow> int \<Rightarrow> ring_mem \<Rightarrow> int \<times> ring_mem" where
  "ring_alloc fr fresh m =
     (let l = rm_next m fr in
      if l \<noteq> fr then (l, snd (ring_remove_entry l m)) else (fresh, ring_init_entry fresh m))"

definition ring_insert :: "int \<Rightarrow> int \<Rightarrow> int \<Rightarrow> int \<Rightarrow> ring_mem \<Rightarrow> ring_mem" where
  "ring_insert fr rt position fresh m =
     (case ring_insertion m rt position of
        None \<Rightarrow> m
      | Some p \<Rightarrow> let (e, m1) = ring_alloc fr fresh m in ring_add_after e p m1)"

partial_function (option) ring_find :: "(int \<Rightarrow> bool) \<Rightarrow> int \<Rightarrow> ring_mem \<Rightarrow> int \<Rightarrow> int option option" where
  "ring_find P rt m e =
     (if e = rt then Some None else if P e then Some (Some e) else ring_find P rt m (rm_next m e))"

definition ring_delete :: "int \<Rightarrow> int \<Rightarrow> (int \<Rightarrow> bool) \<Rightarrow> ring_mem \<Rightarrow> ring_mem option" where
  "ring_delete fr rt P m =
     map_option (\<lambda>found. case found of None \<Rightarrow> m | Some e \<Rightarrow> ring_add_after e fr (snd (ring_remove_entry e m)))
       (ring_find P rt m (rm_next m rt))"

partial_function (option) ring_purge :: "int \<Rightarrow> int \<Rightarrow> (int \<Rightarrow> bool) \<Rightarrow> int \<Rightarrow> ring_mem \<Rightarrow> ring_mem option" where
  "ring_purge fr rt P e m =
     (if e = rt then Some m
      else if P e then (let (n, m1) = ring_remove_entry e m in ring_purge fr rt P n (ring_add_after e fr m1))
      else ring_purge fr rt P (rm_next m e) m)"

lemma ring_walk_position:
  assumes "\<And>i. i \<le> n \<Longrightarrow> mv (c ! i) = c ! pos i \<and> pos i \<le> n" "\<And>i. i \<le> n \<Longrightarrow> c ! i = rt \<longleftrightarrow> i = 0" "i \<le> n"
  shows "ring_walk mv rt k (c ! i) = map_option ((!) c) (list_walk pos k i) \<and> (\<forall>j. list_walk pos k i = Some j \<longrightarrow> j \<le> n)"
  using assms(3)
proof (induction k arbitrary: i)
  case (Suc k)
  have mv: "mv (c ! i) = c ! pos i" "pos i \<le> n" using assms(1) Suc.prems by blast+
  then show ?case using Suc.IH [OF mv(2)] assms(2) [OF mv(2)] by simp
qed simp

lemma ring_insertion_position:
  assumes "ring m rt xs"
  shows "ring_insertion m rt position = map_option ((!) (rt # xs)) (insertion_point (length xs) position) \<and>
    (\<forall>i. insertion_point (length xs) position = Some i \<longrightarrow> i \<le> length xs)"
proof -
  have n: "rm_next m ((rt # xs) ! i) = (rt # xs) ! list_next (length xs) i \<and> list_next (length xs) i \<le> length xs"
    if "i \<le> length xs" for i using ring_position(1) [OF assms that] list_next_le [OF that] by blast
  have p: "rm_prev m ((rt # xs) ! i) = (rt # xs) ! list_prev (length xs) i \<and> list_prev (length xs) i \<le> length xs"
    if "i \<le> length xs" for i using ring_position(2) [OF assms that] that unfolding list_prev_def by auto
  note r = ring_root_position [OF assms]
  note wn = ring_walk_position [where mv = "rm_next m" and pos = "list_next (length xs)" and c = "rt # xs" and i = 0
      and k = "nat (position - 1)", OF n r le0]
  note wp = ring_walk_position [where mv = "rm_prev m" and pos = "list_prev (length xs)" and c = "rt # xs" and i = 0
      and k = "nat (- position - 1)", OF p r le0]
  show ?thesis
  proof (cases "position > 0")
    case True
    then show ?thesis using wn by (simp add: ring_insertion_def insertion_point_def)
  next
    case False
    then show ?thesis using wp p
      by (cases "list_walk (list_prev (length xs)) (nat (- position - 1)) 0") (auto simp: ring_insertion_def insertion_point_def)
  qed
qed

text \<open>The entry taken from the free ones, or the new one.\<close>

definition taken_entry :: "int list \<Rightarrow> int \<Rightarrow> int" where
  "taken_entry fs fresh = (case fs of [] \<Rightarrow> fresh | e # es \<Rightarrow> e)"

lemma rings_alloc:
  assumes "rings m f" "f fr = Some fs" "\<not> in_use fresh f"
  shows "fst (ring_alloc fr fresh m) = taken_entry fs fresh"
    and "rings (snd (ring_alloc fr fresh m)) (f(fr \<mapsto> tl fs))"
    and "\<not> in_use (taken_entry fs fresh) (f(fr \<mapsto> tl fs))"
proof -
  have c: "chain m fr fs fr" and d: "distinct (fr # fs)" using ringsD [OF assms(1,2)] by (simp_all add: ring_def)
  have "fst (ring_alloc fr fresh m) = taken_entry fs fresh \<and> rings (snd (ring_alloc fr fresh m)) (f(fr \<mapsto> tl fs)) \<and>
    \<not> in_use (taken_entry fs fresh) (f(fr \<mapsto> tl fs))"
  proof (cases fs)
    case Nil
    then have n: "rm_next m fr = fr" using c by simp
    have u: "fresh \<notin> set (s # ys)" if "f s = Some ys" for s ys using assms(3) that by (auto simp: in_use_def)
    have e: "x \<noteq> fresh \<Longrightarrow> rm_next (ring_init_entry fresh m) x = rm_next m x \<and> rm_prev (ring_init_entry fresh m) x = rm_prev m x" for x
      by (simp add: ring_init_entry_def links)
    have "fr \<noteq> fresh" using u [OF assms(2)] by simp
    then have "ring (ring_init_entry fresh m) fr []" using ringsD [OF assms(1,2)] Nil e by (simp add: ring_def)
    then have "rings (ring_init_entry fresh m) (f(fr \<mapsto> []))"
      by (intro rings_change [OF assms(1,2), where e = fresh]) (use e u in auto)
    then show ?thesis using Nil n assms(2,3) by (simp add: ring_alloc_def taken_entry_def fun_upd_idem)
  next
    case (Cons l ls)
    have "rm_next m fr = l" "l \<noteq> fr" using c d Cons by auto
    then show ?thesis using rings_remove [OF assms(1), of fr "[]" l ls] assms(2) Cons by (simp add: ring_alloc_def taken_entry_def)
  qed
  then show "fst (ring_alloc fr fresh m) = taken_entry fs fresh"
    "rings (snd (ring_alloc fr fresh m)) (f(fr \<mapsto> tl fs))" "\<not> in_use (taken_entry fs fresh) (f(fr \<mapsto> tl fs))" by blast+
qed

lemma ring_find_list: "chain m a xs rt \<Longrightarrow> rt \<notin> set xs \<Longrightarrow> ring_find P rt m (rm_next m a) = Some (find P xs)"
proof (induction xs arbitrary: a)
  case Nil
  then show ?case by (simp add: ring_find.simps)
next
  case (Cons x xs)
  then show ?case by (subst ring_find.simps) auto
qed

lemma rings_insert:
  assumes "rings m f" "f rt = Some xs" "f fr = Some fs" "rt \<noteq> fr" "\<not> in_use fresh f"
  shows "case insertion_point (length xs) position of
           None \<Rightarrow> ring_insert fr rt position fresh m = m
         | Some i \<Rightarrow> rings (ring_insert fr rt position fresh m)
             (f(fr \<mapsto> tl fs, rt \<mapsto> list_add_after (taken_entry fs fresh) i xs))"
proof (cases "insertion_point (length xs) position")
  case None
  then show ?thesis using ring_insertion_position [OF ringsD [OF assms(1,2)]] by (simp add: ring_insert_def)
next
  case (Some i)
  note a = rings_alloc [OF assms(1,3,5)]
  have "ring_insertion m rt position = Some ((rt # xs) ! i)" "i \<le> length xs"
    using ring_insertion_position [OF ringsD [OF assms(1,2)], of position] Some by simp_all
  then show ?thesis using rings_add [OF a(2) _ a(3), of rt xs i] assms(2,4) a(1) Some
    by (cases "ring_alloc fr fresh m") (simp add: ring_insert_def)
qed

lemma rings_return:
  assumes "rings m f" "f rt = Some (us @ e # vs)" "f fr = Some fs" "rt \<noteq> fr"
  shows "rings (ring_add_after e fr (snd (ring_remove_entry e m))) (f(rt \<mapsto> us @ vs, fr \<mapsto> e # fs))"
proof -
  note r = rings_remove [OF assms(1,2)]
  show ?thesis using rings_add [OF r(2) _ r(3), of fr fs 0] assms(3,4) by (simp add: list_add_after_def)
qed

lemma rings_delete:
  assumes "rings m f" "f rt = Some xs" "f fr = Some fs" "rt \<noteq> fr"
  shows "\<exists>m'. ring_delete fr rt P m = Some m' \<and>
    (case find P xs of None \<Rightarrow> m' = m | Some e \<Rightarrow> rings m' (f(rt \<mapsto> remove1 e xs, fr \<mapsto> e # fs)))"
proof -
  have c: "chain m rt xs rt" "rt \<notin> set xs" "distinct xs" using ringsD [OF assms(1,2)] by (simp_all add: ring_def)
  note s = ring_find_list [OF c(1,2), of P]
  show ?thesis
  proof (cases "find P xs")
    case None
    then show ?thesis by (simp add: ring_delete_def s)
  next
    case (Some e)
    then have "e \<in> set xs" by (metis find_Some_iff nth_mem)
    then obtain us vs where x: "xs = us @ e # vs" by (metis split_list)
    then have "remove1 e xs = us @ vs" using c(3) by (simp add: remove1_append)
    then show ?thesis using rings_return [OF assms(1) _ assms(3,4), of us e vs] assms(2) x Some by (simp add: ring_delete_def s)
  qed
qed

lemma rings_purge:
  assumes "rings m f" "f rt = Some (us @ vs)" "f fr = Some fs" "rt \<noteq> fr"
  shows "\<exists>m'. ring_purge fr rt P (hd (vs @ [rt])) m = Some m' \<and>
    rings m' (f(rt \<mapsto> us @ filter (\<lambda>e. \<not> P e) vs, fr \<mapsto> rev (filter P vs) @ fs))"
  using assms
proof (induction vs arbitrary: m f us fs)
  case Nil
  then show ?case by (simp add: ring_purge.simps fun_upd_idem)
next
  case (Cons e vs)
  have d: "e \<noteq> rt" using ringsD [OF Cons.prems(1,2)] by (auto simp: ring_def)
  show ?case
  proof (cases "P e")
    case True
    note r = rings_remove [OF Cons.prems(1,2)]
    note t = rings_return [OF Cons.prems]
    let ?f = "f(rt \<mapsto> us @ vs, fr \<mapsto> e # fs)"
    have h: "?f rt = Some (us @ vs)" "?f fr = Some (e # fs)" using Cons.prems(4) by simp_all
    from Cons.IH [OF t h Cons.prems(4)] obtain m' where
      "ring_purge fr rt P (hd (vs @ [rt])) (ring_add_after e fr (snd (ring_remove_entry e m))) = Some m'"
      "rings m' (f(rt \<mapsto> us @ vs, fr \<mapsto> e # fs, rt \<mapsto> us @ filter (\<lambda>e. \<not> P e) vs, fr \<mapsto> rev (filter P vs) @ e # fs))"
      by blast
    moreover have "ring_purge fr rt P e m =
      ring_purge fr rt P (hd (vs @ [rt])) (ring_add_after e fr (snd (ring_remove_entry e m)))"
      using True d r(1) by (subst ring_purge.simps) (simp add: split_beta)
    moreover have "f(rt \<mapsto> us @ filter (\<lambda>e. \<not> P e) (e # vs), fr \<mapsto> rev (filter P (e # vs)) @ fs) =
      ?f(rt \<mapsto> us @ filter (\<lambda>e. \<not> P e) vs, fr \<mapsto> rev (filter P vs) @ e # fs)"
      using Cons.prems(4) True by (simp add: fun_eq_iff)
    ultimately have A: "ring_purge fr rt P e m = Some m'"
      and B: "rings m' (f(rt \<mapsto> us @ filter (\<lambda>e. \<not> P e) (e # vs), fr \<mapsto> rev (filter P (e # vs)) @ fs))"
      by (simp_all only:)
    show ?thesis by (rule exI [of _ m'], rule conjI) (use A in simp, rule B)
  next
    case False
    have n: "rm_next m e = hd (vs @ [rt])"
      using chain_neighbours [of m rt us e vs rt] ringsD [OF Cons.prems(1,2)] by (simp add: ring_def)
    then have "ring_purge fr rt P e m = ring_purge fr rt P (hd (vs @ [rt])) m"
      using False d by (subst ring_purge.simps) simp
    with Cons.IH [of m f "us @ [e]" fs] Cons.prems False show ?thesis by simp
  qed
qed

section \<open>Refinement\<close>

text \<open>
  What is done to the rings: adding an entry to a thread, deleting the first entry of a function, and returning all
  entries that satisfy a condition. On the lists these are steps of a relation, as the list model takes them; on the
  links they are the loops above.
\<close>

datatype ring_call = Insert int int int | Delete int "int \<Rightarrow> bool" | Purge int "int \<Rightarrow> bool"

fun ring_op :: "int \<Rightarrow> ring_call \<Rightarrow> ring_mem \<Rightarrow> ring_mem option" where
  "ring_op fr (Insert rt position fresh) m = Some (ring_insert fr rt position fresh m)"
| "ring_op fr (Delete rt P) m = ring_delete fr rt P m"
| "ring_op fr (Purge rt P) m = ring_purge fr rt P (rm_next m rt) m"

inductive list_op :: "int \<Rightarrow> ring_call \<Rightarrow> (int \<rightharpoonup> int list) \<Rightarrow> (int \<rightharpoonup> int list) \<Rightarrow> bool" for fr where
  insert: "f rt = Some xs \<Longrightarrow> f fr = Some fs \<Longrightarrow> rt \<noteq> fr \<Longrightarrow> \<not> in_use fresh f \<Longrightarrow> insertion_point (length xs) position = Some i
    \<Longrightarrow> list_op fr (Insert rt position fresh) f (f(fr \<mapsto> tl fs, rt \<mapsto> list_add_after (taken_entry fs fresh) i xs))"
| insert_refused: "f rt = Some xs \<Longrightarrow> insertion_point (length xs) position = None \<Longrightarrow> list_op fr (Insert rt position fresh) f f"
| delete: "f rt = Some xs \<Longrightarrow> f fr = Some fs \<Longrightarrow> rt \<noteq> fr \<Longrightarrow> find P xs = Some e
    \<Longrightarrow> list_op fr (Delete rt P) f (f(rt \<mapsto> remove1 e xs, fr \<mapsto> e # fs))"
| delete_refused: "f rt = Some xs \<Longrightarrow> find P xs = None \<Longrightarrow> list_op fr (Delete rt P) f f"
| purge: "f rt = Some xs \<Longrightarrow> f fr = Some fs \<Longrightarrow> rt \<noteq> fr
    \<Longrightarrow> list_op fr (Purge rt P) f (f(rt \<mapsto> filter (\<lambda>e. \<not> P e) xs, fr \<mapsto> rev (filter P xs) @ fs))"

primrec ring_ops :: "int \<Rightarrow> ring_call list \<Rightarrow> ring_mem \<Rightarrow> ring_mem option" where
  "ring_ops fr [] m = Some m"
| "ring_ops fr (p # ps) m = Option.bind (ring_op fr p m) (ring_ops fr ps)"

inductive list_ops :: "int \<Rightarrow> ring_call list \<Rightarrow> (int \<rightharpoonup> int list) \<Rightarrow> (int \<rightharpoonup> int list) \<Rightarrow> bool" for fr where
  nil: "list_ops fr [] f f"
| cons: "list_op fr p f g \<Longrightarrow> list_ops fr ps g h \<Longrightarrow> list_ops fr (p # ps) f h"

lemma ring_op_refines:
  assumes "list_op fr p f g" "rings m f"
  shows "\<exists>m'. ring_op fr p m = Some m' \<and> rings m' g"
  using assms
proof cases
  case (insert rt xs fs fresh position i)
  then show ?thesis using rings_insert [OF assms(2), of rt xs fr fs fresh position] by simp
next
  case (insert_refused rt xs position fresh)
  then have "ring_insertion m rt position = None"
    using ring_insertion_position [OF ringsD [OF assms(2)], of rt xs position] by simp
  then show ?thesis using insert_refused assms(2) by (simp add: ring_insert_def)
next
  case (delete rt xs fs P e)
  then show ?thesis using rings_delete [OF assms(2), of rt xs fr fs P] by auto
next
  case (delete_refused rt xs P)
  have "ring m rt xs" by (rule ringsD [OF assms(2)]) (use delete_refused in simp)
  then have "ring_find P rt m (rm_next m rt) = Some None"
    using ring_find_list [of m rt xs rt P] delete_refused by (simp add: ring_def)
  then show ?thesis using delete_refused assms(2) by (simp add: ring_delete_def)
next
  case (purge rt xs fs P)
  have "ring m rt xs" by (rule ringsD [OF assms(2)]) (use purge in simp)
  then have "rm_next m rt = hd (xs @ [rt])" by (cases xs) (auto simp: ring_def)
  then show ?thesis using rings_purge [OF assms(2), of rt "[]" xs fr fs P] purge by simp
qed

text \<open>
  C40: the doubly linked rings in the shared memory do what the lists of the model do. After any sequence of insertions at
  a position, deletions and returns of entries, on any threads, every loop over the links has ended, the links of every
  thread and of the free entries form a ring of exactly the entries of its list in their order, and no entry is in two
  rings.
\<close>

theorem rings_refine_lists:
  assumes "list_ops fr ps f g" "rings m f"
  shows "\<exists>m'. ring_ops fr ps m = Some m' \<and> rings m' g"
  using assms
proof (induction arbitrary: m rule: list_ops.induct)
  case (cons p f g ps h)
  then obtain m1 where "ring_op fr p m = Some m1" "rings m1 g" using ring_op_refines by blast
  with cons.IH show ?case by simp
qed simp

text \<open>Two roots with empty rings; an entry is added at each end of a thread, one deleted and the other returned.\<close>

theorem rings_refine_lists_witness:
  "\<exists>m'. ring_ops 8 [Insert 16 1 24, Insert 16 (-1) 32, Insert 16 2 40, Delete 16 (\<lambda>e. e = 40), Purge 16 (\<lambda>e. e > 30)]
       (ring_init_entry 16 (ring_init_entry 8 \<lparr>rm_next = (\<lambda>_. 0), rm_prev = (\<lambda>_. 0)\<rparr>)) = Some m' \<and>
     rings m' [8 \<mapsto> [32, 40], 16 \<mapsto> [24]]"
proof -
  let ?m = "ring_init_entry 16 (ring_init_entry 8 \<lparr>rm_next = (\<lambda>_. 0), rm_prev = (\<lambda>_. 0)\<rparr>)"
  let ?a = "[8 \<mapsto> [], 16 \<mapsto> []] :: int \<rightharpoonup> int list" and ?b = "[8 \<mapsto> [], 16 \<mapsto> [24]] :: int \<rightharpoonup> int list"
    and ?c = "[8 \<mapsto> [], 16 \<mapsto> [24, 32]] :: int \<rightharpoonup> int list" and ?d = "[8 \<mapsto> [], 16 \<mapsto> [24, 40, 32]] :: int \<rightharpoonup> int list"
    and ?e = "[8 \<mapsto> [40], 16 \<mapsto> [24, 32]] :: int \<rightharpoonup> int list" and ?f = "[8 \<mapsto> [32, 40], 16 \<mapsto> [24]] :: int \<rightharpoonup> int list"
  have r: "rings ?m ?a" by (auto simp: rings_def ring_def ring_init_entry_def links split: if_splits)
  have 1: "list_op 8 (Insert 16 1 24) ?a ?b"
    using list_op.insert [of ?a 16 "[]" 8 "[]" 24 1 0]
    by (simp add: in_use_def insertion_point_def taken_entry_def list_add_after_def fun_upd_idem split: if_splits)
  have 2: "list_op 8 (Insert 16 (-1) 32) ?b ?c"
    using list_op.insert [of ?b 16 "[24]" 8 "[]" 32 "-1" 1]
    by (simp add: in_use_def insertion_point_def list_prev_def taken_entry_def list_add_after_def fun_upd_idem split: if_splits)
  have 3: "list_op 8 (Insert 16 2 40) ?c ?d"
    using list_op.insert [of ?c 16 "[24, 32]" 8 "[]" 40 2 1]
    by (simp add: in_use_def insertion_point_def list_next_def taken_entry_def list_add_after_def fun_upd_idem split: if_splits)
  have 4: "list_op 8 (Delete 16 (\<lambda>e. e = 40)) ?d ?e"
    using list_op.delete [of ?d 16 "[24, 40, 32]" 8 "[]" "\<lambda>e. e = 40" 40] by (simp add: fun_upd_twist)
  have 5: "list_op 8 (Purge 16 (\<lambda>e. e > 30)) ?e ?f"
    using list_op.purge [of ?e 16 "[24, 32]" 8 "[40]" "\<lambda>e. e > 30"] by (simp add: fun_upd_twist)
  show ?thesis
    by (rule rings_refine_lists [OF _ r]) (intro list_ops.cons [OF 1] list_ops.cons [OF 2] list_ops.cons [OF 3]
        list_ops.cons [OF 4] list_ops.cons [OF 5] list_ops.nil)
qed

end
