(* ===== verification/PosemathCpp.thy ===== *)
theory PosemathCpp
  imports Posemath
begin

text \<open>
  The classes around the pose mathematics, \<open>libnml/posemath.cpp\<close>. A class has the fields of its C structure and its
  constructors and operators copy them there and back (the templates \<open>toCart\<close>, \<open>toQuat\<close> and so on of
  \<open>posemath.h\<close>), so an object is the record of its structure; only \<open>PM_LINE\<close> has fewer fields. Several operators
  hand the C function an output that is one of its operands. Where its statements then read what they
  have already written, the call has a definition of its own, statement by statement. An element that
  is out of range is the static \<open>noElement\<close>, which is an argument and, for an assignment, a result.
\<close>

section \<open>Outputs that are operands\<close>

definition pmQuatQuatMult_onto1 :: "pm_quat \<Rightarrow> pm_quat \<Rightarrow> pm_quat" where
  "pmQuatQuatMult_onto1 q1 q2 =
     (let q = q1\<lparr>q_s := q_s q1 * q_s q2 - q_x q1 * q_x q2 - q_y q1 * q_y q2 - q_z q1 * q_z q2\<rparr> in
      if q_s q \<ge> 0 then
        (let q = q\<lparr>q_x := q_s q * q_x q2 + q_x q * q_s q2 + q_y q * q_z q2 - q_z q * q_y q2\<rparr>;
             q = q\<lparr>q_y := q_s q * q_y q2 - q_x q * q_z q2 + q_y q * q_s q2 + q_z q * q_x q2\<rparr>
         in q\<lparr>q_z := q_s q * q_z q2 + q_x q * q_y q2 - q_y q * q_x q2 + q_z q * q_s q2\<rparr>)
      else
        (let q = q\<lparr>q_s := q_s q * -1\<rparr>;
             q = q\<lparr>q_x := - q_s q * q_x q2 - q_x q * q_s q2 - q_y q * q_z q2 + q_z q * q_y q2\<rparr>;
             q = q\<lparr>q_y := - q_s q * q_y q2 + q_x q * q_z q2 - q_y q * q_s q2 - q_z q * q_x q2\<rparr>
         in q\<lparr>q_z := - q_s q * q_z q2 - q_x q * q_y q2 + q_y q * q_x q2 - q_z q * q_s q2\<rparr>))"

definition pmMatInv_onto :: "pm_mat \<Rightarrow> pm_mat" where
  "pmMatInv_onto m =
     (let m = m\<lparr>m_x := (m_x m)\<lparr>c_y := c_x (m_y m)\<rparr>\<rparr>;
          m = m\<lparr>m_x := (m_x m)\<lparr>c_z := c_x (m_z m)\<rparr>\<rparr>;
          m = m\<lparr>m_y := (m_y m)\<lparr>c_x := c_y (m_x m)\<rparr>\<rparr>;
          m = m\<lparr>m_y := (m_y m)\<lparr>c_z := c_y (m_z m)\<rparr>\<rparr>;
          m = m\<lparr>m_z := (m_z m)\<lparr>c_x := c_z (m_x m)\<rparr>\<rparr>
      in m\<lparr>m_z := (m_z m)\<lparr>c_y := c_z (m_y m)\<rparr>\<rparr>)"

definition pmMatCartMult_onto :: "pm_mat \<Rightarrow> pm_cart \<Rightarrow> pm_cart" where
  "pmMatCartMult_onto m v =
     (let v = v\<lparr>c_x := c_x (m_x m) * c_x v + c_x (m_y m) * c_y v + c_x (m_z m) * c_z v\<rparr>;
          v = v\<lparr>c_y := c_y (m_x m) * c_x v + c_y (m_y m) * c_y v + c_y (m_z m) * c_z v\<rparr>
      in v\<lparr>c_z := c_z (m_x m) * c_x v + c_z (m_y m) * c_y v + c_z (m_z m) * c_z v\<rparr>)"

definition pmMatMatMult_onto1 :: "pm_mat \<Rightarrow> pm_mat \<Rightarrow> pm_mat" where
  "pmMatMatMult_onto1 m n =
     (let
          m = m\<lparr>m_x := (m_x m)\<lparr>c_x := c_x (m_x m) * c_x (m_x n) + c_x (m_y m) * c_y (m_x n) + c_x (m_z m) * c_z (m_x n)\<rparr>\<rparr>;
          m = m\<lparr>m_x := (m_x m)\<lparr>c_y := c_y (m_x m) * c_x (m_x n) + c_y (m_y m) * c_y (m_x n) + c_y (m_z m) * c_z (m_x n)\<rparr>\<rparr>;
          m = m\<lparr>m_x := (m_x m)\<lparr>c_z := c_z (m_x m) * c_x (m_x n) + c_z (m_y m) * c_y (m_x n) + c_z (m_z m) * c_z (m_x n)\<rparr>\<rparr>;
          m = m\<lparr>m_y := (m_y m)\<lparr>c_x := c_x (m_x m) * c_x (m_y n) + c_x (m_y m) * c_y (m_y n) + c_x (m_z m) * c_z (m_y n)\<rparr>\<rparr>;
          m = m\<lparr>m_y := (m_y m)\<lparr>c_y := c_y (m_x m) * c_x (m_y n) + c_y (m_y m) * c_y (m_y n) + c_y (m_z m) * c_z (m_y n)\<rparr>\<rparr>;
          m = m\<lparr>m_y := (m_y m)\<lparr>c_z := c_z (m_x m) * c_x (m_y n) + c_z (m_y m) * c_y (m_y n) + c_z (m_z m) * c_z (m_y n)\<rparr>\<rparr>;
          m = m\<lparr>m_z := (m_z m)\<lparr>c_x := c_x (m_x m) * c_x (m_z n) + c_x (m_y m) * c_y (m_z n) + c_x (m_z m) * c_z (m_z n)\<rparr>\<rparr>;
          m = m\<lparr>m_z := (m_z m)\<lparr>c_y := c_y (m_x m) * c_x (m_z n) + c_y (m_y m) * c_y (m_z n) + c_y (m_z m) * c_z (m_z n)\<rparr>\<rparr>
      in m\<lparr>m_z := (m_z m)\<lparr>c_z := c_z (m_x m) * c_x (m_z n) + c_z (m_y m) * c_y (m_z n) + c_z (m_z m) * c_z (m_z n)\<rparr>\<rparr>)"

definition pmPosePoseMult_onto1 :: "pm_pose \<Rightarrow> pm_pose \<Rightarrow> pm_pose" where
  "pmPosePoseMult_onto1 p1 p2 =
     (let p = p1\<lparr>po_tran := pmQuatCartMult (po_rot p1) (po_tran p2)\<rparr>;
          p = p\<lparr>po_tran := pmCartCartAdd (po_tran p) (po_tran p)\<rparr>
      in p\<lparr>po_rot := pmQuatQuatMult_onto1 (po_rot p) (po_rot p2)\<rparr>)"

definition pmHomInv_onto :: "pm_hom \<Rightarrow> pm_hom" where
  "pmHomInv_onto h =
     (let h = h\<lparr>ho_rot := pmMatInv_onto (ho_rot h)\<rparr>;
          h = h\<lparr>ho_tran := pmMatCartMult_onto (ho_rot h) (ho_tran h)\<rparr>
      in h\<lparr>ho_tran := pmCartScalMultEq (ho_tran h) (-1)\<rparr>)"

definition pmQuatAxisAngleMult_onto :: "pm_quat \<Rightarrow> pm_axis \<Rightarrow> real \<Rightarrow> pm_quat" where
  "pmQuatAxisAngleMult_onto q axis angle =
     (let sh = sin (angle * 0.5); ch = cos (angle * 0.5) in
      quat_positive
        (case axis of
           PM_X \<Rightarrow> let q = q\<lparr>q_s := ch * q_s q - sh * q_x q\<rparr>; q = q\<lparr>q_x := ch * q_x q + sh * q_s q\<rparr>;
                       q = q\<lparr>q_y := ch * q_y q + sh * q_z q\<rparr> in q\<lparr>q_z := ch * q_z q - sh * q_y q\<rparr>
         | PM_Y \<Rightarrow> let q = q\<lparr>q_s := ch * q_s q - sh * q_y q\<rparr>; q = q\<lparr>q_x := ch * q_x q - sh * q_z q\<rparr>;
                       q = q\<lparr>q_y := ch * q_y q + sh * q_s q\<rparr> in q\<lparr>q_z := ch * q_z q + sh * q_x q\<rparr>
         | PM_Z \<Rightarrow> let q = q\<lparr>q_s := ch * q_s q - sh * q_z q\<rparr>; q = q\<lparr>q_x := ch * q_x q + sh * q_y q\<rparr>;
                       q = q\<lparr>q_y := ch * q_y q - sh * q_x q\<rparr> in q\<lparr>q_z := ch * q_z q + sh * q_s q\<rparr>))"

section \<open>Translations\<close>

definition PM_CARTESIAN3 :: "real \<Rightarrow> real \<Rightarrow> real \<Rightarrow> pm_cart" where
  "PM_CARTESIAN3 x y z = \<lparr>c_x = x, c_y = y, c_z = z\<rparr>"

definition PM_CARTESIAN_of_cyl :: "pm_cyl \<Rightarrow> pm_cart" where
  "PM_CARTESIAN_of_cyl a = pmCylCartConvert a"

definition PM_CARTESIAN_of_sph :: "pm_sph \<Rightarrow> pm_cart" where
  "PM_CARTESIAN_of_sph a = pmSphCartConvert a"

definition cart_at :: "pm_cart \<Rightarrow> int \<Rightarrow> real \<Rightarrow> real" where
  "cart_at v n none =
     (if n = 0 then c_x v
      else if n = 1 then c_y v
      else if n = 2 then c_z v
      else none)"

definition cart_put :: "pm_cart \<Rightarrow> int \<Rightarrow> real \<Rightarrow> real \<Rightarrow> pm_cart \<times> real" where
  "cart_put v n d none =
     (if n = 0 then (v\<lparr>c_x := d\<rparr>, none)
      else if n = 1 then (v\<lparr>c_y := d\<rparr>, none)
      else if n = 2 then (v\<lparr>c_z := d\<rparr>, none)
      else (v, d))"

definition cart_sub_assign :: "pm_cart \<Rightarrow> pm_cart \<Rightarrow> pm_cart" where
  "cart_sub_assign v o1 = v\<lparr>c_x := c_x v - c_x o1, c_y := c_y v - c_y o1, c_z := c_z v - c_z o1\<rparr>"

definition cart_add_assign :: "pm_cart \<Rightarrow> pm_cart \<Rightarrow> pm_cart" where
  "cart_add_assign v o1 = v\<lparr>c_x := c_x v + c_x o1, c_y := c_y v + c_y o1, c_z := c_z v + c_z o1\<rparr>"

definition cart_mul_assign :: "pm_cart \<Rightarrow> real \<Rightarrow> pm_cart" where
  "cart_mul_assign v o1 = v\<lparr>c_x := c_x v * o1, c_y := c_y v * o1, c_z := c_z v * o1\<rparr>"

definition cart_div_assign :: "pm_cart \<Rightarrow> real \<Rightarrow> pm_cart" where
  "cart_div_assign v o1 = v\<lparr>c_x := c_x v / o1, c_y := c_y v / o1, c_z := c_z v / o1\<rparr>"

definition PM_SPHERICAL3 :: "real \<Rightarrow> real \<Rightarrow> real \<Rightarrow> pm_sph" where
  "PM_SPHERICAL3 theta phi r = \<lparr>sp_theta = theta, sp_phi = phi, sp_r = r\<rparr>"

definition PM_SPHERICAL_of_cart :: "pm_cart \<Rightarrow> pm_sph" where
  "PM_SPHERICAL_of_cart a = pmCartSphConvert a"

definition PM_SPHERICAL_of_cyl :: "pm_cyl \<Rightarrow> pm_sph" where
  "PM_SPHERICAL_of_cyl a = pmCylSphConvert a"

definition sph_at :: "pm_sph \<Rightarrow> int \<Rightarrow> real \<Rightarrow> real" where
  "sph_at v n none =
     (if n = 0 then sp_theta v
      else if n = 1 then sp_phi v
      else if n = 2 then sp_r v
      else none)"

definition sph_put :: "pm_sph \<Rightarrow> int \<Rightarrow> real \<Rightarrow> real \<Rightarrow> pm_sph \<times> real" where
  "sph_put v n d none =
     (if n = 0 then (v\<lparr>sp_theta := d\<rparr>, none)
      else if n = 1 then (v\<lparr>sp_phi := d\<rparr>, none)
      else if n = 2 then (v\<lparr>sp_r := d\<rparr>, none)
      else (v, d))"

definition PM_CYLINDRICAL3 :: "real \<Rightarrow> real \<Rightarrow> real \<Rightarrow> pm_cyl" where
  "PM_CYLINDRICAL3 theta r z = \<lparr>cy_theta = theta, cy_r = r, cy_z = z\<rparr>"

definition PM_CYLINDRICAL_of_cart :: "pm_cart \<Rightarrow> pm_cyl" where
  "PM_CYLINDRICAL_of_cart a = pmCartCylConvert a"

definition PM_CYLINDRICAL_of_sph :: "pm_sph \<Rightarrow> pm_cyl" where
  "PM_CYLINDRICAL_of_sph a = pmSphCylConvert a"

definition cyl_at :: "pm_cyl \<Rightarrow> int \<Rightarrow> real \<Rightarrow> real" where
  "cyl_at v n none =
     (if n = 0 then cy_theta v
      else if n = 1 then cy_r v
      else if n = 2 then cy_z v
      else none)"

definition cyl_put :: "pm_cyl \<Rightarrow> int \<Rightarrow> real \<Rightarrow> real \<Rightarrow> pm_cyl \<times> real" where
  "cyl_put v n d none =
     (if n = 0 then (v\<lparr>cy_theta := d\<rparr>, none)
      else if n = 1 then (v\<lparr>cy_r := d\<rparr>, none)
      else if n = 2 then (v\<lparr>cy_z := d\<rparr>, none)
      else (v, d))"

section \<open>Rotations\<close>

definition PM_ROTATION_VECTOR4 :: "real \<Rightarrow> real \<Rightarrow> real \<Rightarrow> real \<Rightarrow> pm_rot" where
  "PM_ROTATION_VECTOR4 s x y z = snd (pmRotNorm \<lparr>r_s = s, r_x = x, r_y = y, r_z = z\<rparr>)"

definition PM_ROTATION_VECTOR_of_quat :: "pm_quat \<Rightarrow> pm_rot" where
  "PM_ROTATION_VECTOR_of_quat a = pmQuatRotConvert a"

definition rot_at :: "pm_rot \<Rightarrow> int \<Rightarrow> real \<Rightarrow> real" where
  "rot_at v n none =
     (if n = 0 then r_s v
      else if n = 1 then r_x v
      else if n = 2 then r_y v
      else if n = 3 then r_z v
      else none)"

definition rot_put :: "pm_rot \<Rightarrow> int \<Rightarrow> real \<Rightarrow> real \<Rightarrow> pm_rot \<times> real" where
  "rot_put v n d none =
     (if n = 0 then (v\<lparr>r_s := d\<rparr>, none)
      else if n = 1 then (v\<lparr>r_x := d\<rparr>, none)
      else if n = 2 then (v\<lparr>r_y := d\<rparr>, none)
      else if n = 3 then (v\<lparr>r_z := d\<rparr>, none)
      else (v, d))"

definition PM_ROTATION_MATRIX9 :: "real \<Rightarrow> real \<Rightarrow> real \<Rightarrow> real \<Rightarrow> real \<Rightarrow> real \<Rightarrow> real \<Rightarrow> real \<Rightarrow> real \<Rightarrow> pm_mat" where
  "PM_ROTATION_MATRIX9 xx xy xz yx yy yz zx zy zz = \<lparr>m_x = \<lparr>c_x = xx, c_y = xy, c_z = xz\<rparr>, m_y = \<lparr>c_x = yx, c_y = yy, c_z = yz\<rparr>, m_z = \<lparr>c_x = zx, c_y = zy, c_z = zz\<rparr>\<rparr>"

definition PM_ROTATION_MATRIX_of_columns :: "pm_cart \<Rightarrow> pm_cart \<Rightarrow> pm_cart \<Rightarrow> pm_mat" where
  "PM_ROTATION_MATRIX_of_columns x y z = \<lparr>m_x = x, m_y = y, m_z = z\<rparr>"

definition PM_ROTATION_MATRIX_of_rot :: "pm_rot \<Rightarrow> pm_mat" where
  "PM_ROTATION_MATRIX_of_rot a = pmRotMatConvert a"

definition PM_ROTATION_MATRIX_of_quat :: "pm_quat \<Rightarrow> pm_mat" where
  "PM_ROTATION_MATRIX_of_quat a = pmQuatMatConvert a"

definition PM_ROTATION_MATRIX_of_rpy :: "pm_rpy \<Rightarrow> pm_mat" where
  "PM_ROTATION_MATRIX_of_rpy a = pmRpyMatConvert a"

definition PM_ROTATION_MATRIX_of_zyz :: "pm_zyz \<Rightarrow> pm_mat" where
  "PM_ROTATION_MATRIX_of_zyz a = pmZyzMatConvert a"

definition PM_ROTATION_MATRIX_of_zyx :: "pm_zyx \<Rightarrow> pm_mat" where
  "PM_ROTATION_MATRIX_of_zyx a = pmZyxMatConvert a"

text \<open>A column; out of range it is the static \<open>noCart\<close>, which is created as the zero vector.\<close>

definition mat_at :: "pm_mat \<Rightarrow> int \<Rightarrow> pm_cart \<Rightarrow> pm_cart" where
  "mat_at m n none = (if n = 0 then m_x m else if n = 1 then m_y m else if n = 2 then m_z m else none)"

definition PM_QUATERNION4 :: "real \<Rightarrow> real \<Rightarrow> real \<Rightarrow> real \<Rightarrow> pm_quat" where
  "PM_QUATERNION4 s x y z = snd (pmQuatNorm \<lparr>q_s = s, q_x = x, q_y = y, q_z = z\<rparr>)"

definition PM_QUATERNION_of_rot :: "pm_rot \<Rightarrow> pm_quat" where
  "PM_QUATERNION_of_rot a = pmRotQuatConvert a"

definition PM_QUATERNION_of_mat :: "pm_mat \<Rightarrow> pm_quat" where
  "PM_QUATERNION_of_mat a = snd (pmMatQuatConvert a)"

definition PM_QUATERNION_of_zyz :: "pm_zyz \<Rightarrow> pm_quat" where
  "PM_QUATERNION_of_zyz a = snd (pmZyzQuatConvert a)"

definition PM_QUATERNION_of_zyx :: "pm_zyx \<Rightarrow> pm_quat" where
  "PM_QUATERNION_of_zyx a = snd (pmZyxQuatConvert a)"

definition PM_QUATERNION_of_rpy :: "pm_rpy \<Rightarrow> pm_quat" where
  "PM_QUATERNION_of_rpy a = snd (pmRpyQuatConvert a)"

definition PM_QUATERNION_of_axis :: "pm_axis \<Rightarrow> real \<Rightarrow> pm_quat" where
  "PM_QUATERNION_of_axis axis angle = pmAxisAngleQuatConvert axis angle"

definition axisAngleMult :: "pm_quat \<Rightarrow> pm_axis \<Rightarrow> real \<Rightarrow> pm_quat" where
  "axisAngleMult q axis angle = pmQuatAxisAngleMult_onto q axis angle"

definition quat_at :: "pm_quat \<Rightarrow> int \<Rightarrow> real \<Rightarrow> real" where
  "quat_at v n none =
     (if n = 0 then q_s v
      else if n = 1 then q_x v
      else if n = 2 then q_y v
      else if n = 3 then q_z v
      else none)"

definition quat_put :: "pm_quat \<Rightarrow> int \<Rightarrow> real \<Rightarrow> real \<Rightarrow> pm_quat \<times> real" where
  "quat_put v n d none =
     (if n = 0 then (v\<lparr>q_s := d\<rparr>, none)
      else if n = 1 then (v\<lparr>q_x := d\<rparr>, none)
      else if n = 2 then (v\<lparr>q_y := d\<rparr>, none)
      else if n = 3 then (v\<lparr>q_z := d\<rparr>, none)
      else (v, d))"

definition PM_EULER_ZYZ3 :: "real \<Rightarrow> real \<Rightarrow> real \<Rightarrow> pm_zyz" where
  "PM_EULER_ZYZ3 z y zp = \<lparr>zyz_z = z, zyz_y = y, zyz_zp = zp\<rparr>"

definition PM_EULER_ZYZ_of_quat :: "pm_quat \<Rightarrow> pm_zyz" where
  "PM_EULER_ZYZ_of_quat a = pmQuatZyzConvert a"

definition PM_EULER_ZYZ_of_mat :: "pm_mat \<Rightarrow> pm_zyz" where
  "PM_EULER_ZYZ_of_mat a = pmMatZyzConvert a"

definition zyz_at :: "pm_zyz \<Rightarrow> int \<Rightarrow> real \<Rightarrow> real" where
  "zyz_at v n none =
     (if n = 0 then zyz_z v
      else if n = 1 then zyz_y v
      else if n = 2 then zyz_zp v
      else none)"

definition zyz_put :: "pm_zyz \<Rightarrow> int \<Rightarrow> real \<Rightarrow> real \<Rightarrow> pm_zyz \<times> real" where
  "zyz_put v n d none =
     (if n = 0 then (v\<lparr>zyz_z := d\<rparr>, none)
      else if n = 1 then (v\<lparr>zyz_y := d\<rparr>, none)
      else if n = 2 then (v\<lparr>zyz_zp := d\<rparr>, none)
      else (v, d))"

definition PM_EULER_ZYX3 :: "real \<Rightarrow> real \<Rightarrow> real \<Rightarrow> pm_zyx" where
  "PM_EULER_ZYX3 z y x = \<lparr>zyx_z = z, zyx_y = y, zyx_x = x\<rparr>"

definition PM_EULER_ZYX_of_quat :: "pm_quat \<Rightarrow> pm_zyx" where
  "PM_EULER_ZYX_of_quat a = pmQuatZyxConvert a"

definition PM_EULER_ZYX_of_mat :: "pm_mat \<Rightarrow> pm_zyx" where
  "PM_EULER_ZYX_of_mat a = pmMatZyxConvert a"

definition zyx_at :: "pm_zyx \<Rightarrow> int \<Rightarrow> real \<Rightarrow> real" where
  "zyx_at v n none =
     (if n = 0 then zyx_z v
      else if n = 1 then zyx_y v
      else if n = 2 then zyx_x v
      else none)"

definition zyx_put :: "pm_zyx \<Rightarrow> int \<Rightarrow> real \<Rightarrow> real \<Rightarrow> pm_zyx \<times> real" where
  "zyx_put v n d none =
     (if n = 0 then (v\<lparr>zyx_z := d\<rparr>, none)
      else if n = 1 then (v\<lparr>zyx_y := d\<rparr>, none)
      else if n = 2 then (v\<lparr>zyx_x := d\<rparr>, none)
      else (v, d))"

definition PM_RPY3 :: "real \<Rightarrow> real \<Rightarrow> real \<Rightarrow> pm_rpy" where
  "PM_RPY3 r p y = \<lparr>rpy_r = r, rpy_p = p, rpy_y = y\<rparr>"

definition PM_RPY_of_quat :: "pm_quat \<Rightarrow> pm_rpy" where
  "PM_RPY_of_quat a = pmQuatRpyConvert a"

definition PM_RPY_of_mat :: "pm_mat \<Rightarrow> pm_rpy" where
  "PM_RPY_of_mat a = pmMatRpyConvert a"

definition rpy_at :: "pm_rpy \<Rightarrow> int \<Rightarrow> real \<Rightarrow> real" where
  "rpy_at v n none =
     (if n = 0 then rpy_r v
      else if n = 1 then rpy_p v
      else if n = 2 then rpy_y v
      else none)"

definition rpy_put :: "pm_rpy \<Rightarrow> int \<Rightarrow> real \<Rightarrow> real \<Rightarrow> pm_rpy \<times> real" where
  "rpy_put v n d none =
     (if n = 0 then (v\<lparr>rpy_r := d\<rparr>, none)
      else if n = 1 then (v\<lparr>rpy_p := d\<rparr>, none)
      else if n = 2 then (v\<lparr>rpy_y := d\<rparr>, none)
      else (v, d))"

section \<open>Poses, lines and circles\<close>

definition PM_POSE2 :: "pm_cart \<Rightarrow> pm_quat \<Rightarrow> pm_pose" where
  "PM_POSE2 v q = \<lparr>po_tran = v, po_rot = q\<rparr>"

definition PM_POSE7 :: "real \<Rightarrow> real \<Rightarrow> real \<Rightarrow> real \<Rightarrow> real \<Rightarrow> real \<Rightarrow> real \<Rightarrow> pm_pose" where
  "PM_POSE7 x y z s sx sy sz = \<lparr>po_tran = \<lparr>c_x = x, c_y = y, c_z = z\<rparr>, po_rot = \<lparr>q_s = s, q_x = sx, q_y = sy, q_z = sz\<rparr>\<rparr>"

definition PM_POSE_of_hom :: "pm_hom \<Rightarrow> pm_pose" where
  "PM_POSE_of_hom a = snd (pmHomPoseConvert a)"

definition pose_at :: "pm_pose \<Rightarrow> int \<Rightarrow> real \<Rightarrow> real" where
  "pose_at v n none =
     (if n = 0 then c_x (po_tran v)
      else if n = 1 then c_y (po_tran v)
      else if n = 2 then c_z (po_tran v)
      else if n = 3 then q_s (po_rot v)
      else if n = 4 then q_x (po_rot v)
      else if n = 5 then q_y (po_rot v)
      else if n = 6 then q_z (po_rot v)
      else none)"

definition pose_put :: "pm_pose \<Rightarrow> int \<Rightarrow> real \<Rightarrow> real \<Rightarrow> pm_pose \<times> real" where
  "pose_put v n d none =
     (if n = 0 then (v\<lparr>po_tran := (po_tran v)\<lparr>c_x := d\<rparr>\<rparr>, none)
      else if n = 1 then (v\<lparr>po_tran := (po_tran v)\<lparr>c_y := d\<rparr>\<rparr>, none)
      else if n = 2 then (v\<lparr>po_tran := (po_tran v)\<lparr>c_z := d\<rparr>\<rparr>, none)
      else if n = 3 then (v\<lparr>po_rot := (po_rot v)\<lparr>q_s := d\<rparr>\<rparr>, none)
      else if n = 4 then (v\<lparr>po_rot := (po_rot v)\<lparr>q_x := d\<rparr>\<rparr>, none)
      else if n = 5 then (v\<lparr>po_rot := (po_rot v)\<lparr>q_y := d\<rparr>\<rparr>, none)
      else if n = 6 then (v\<lparr>po_rot := (po_rot v)\<lparr>q_z := d\<rparr>\<rparr>, none)
      else (v, d))"

definition PM_HOMOGENEOUS2 :: "pm_cart \<Rightarrow> pm_mat \<Rightarrow> pm_hom" where
  "PM_HOMOGENEOUS2 v m = \<lparr>ho_tran = v, ho_rot = m\<rparr>"

definition PM_HOMOGENEOUS_of_pose :: "pm_pose \<Rightarrow> pm_hom" where
  "PM_HOMOGENEOUS_of_pose a = pmPoseHomConvert a"

text \<open>A column, and the element below it that \<open>noElement\<close> then stands for.\<close>

definition hom_at :: "pm_hom \<Rightarrow> int \<Rightarrow> pm_cart \<Rightarrow> real \<Rightarrow> pm_cart \<times> real" where
  "hom_at h n none elem = 
     (if n = 0 then (m_x (ho_rot h), 0) else if n = 1 then (m_y (ho_rot h), 0) else if n = 2 then (m_z (ho_rot h), 0)
      else if n = 3 then (ho_tran h, 1) else (none, elem))"

text \<open>
  The class of lines has the fields that \<open>toLine\<close> copies, so the structure that \<open>point\<close> works on has its others
  uninitialised: they are an argument. The same holds for the rotation of a point on a circle.
\<close>

record pm_line_obj =
  lo_start :: pm_pose
  lo_end :: pm_pose
  lo_uVec :: pm_cart

definition line_to_obj :: "pm_line \<Rightarrow> pm_line_obj" where
  "line_to_obj l = \<lparr>lo_start = ln_start l, lo_end = ln_end l, lo_uVec = ln_uVec l\<rparr>"

definition obj_to_line :: "pm_line_obj \<Rightarrow> pm_line \<Rightarrow> pm_line" where
  "obj_to_line o1 l = l\<lparr>ln_start := lo_start o1, ln_end := lo_end o1, ln_uVec := lo_uVec o1\<rparr>"

definition PM_LINE_init :: "pm_pose \<Rightarrow> pm_pose \<Rightarrow> int \<times> pm_line_obj" where
  "PM_LINE_init start en = (let (r, l) = pmLineInit start en in (r, line_to_obj l))"

definition PM_LINE_point :: "pm_line_obj \<Rightarrow> pm_line \<Rightarrow> real \<Rightarrow> int \<times> pm_pose" where
  "PM_LINE_point o1 uninit len = (PM_OK, pmLinePoint (obj_to_line o1 uninit) len)"

definition PM_CIRCLE_init :: "pm_pose \<Rightarrow> pm_pose \<Rightarrow> pm_cart \<Rightarrow> pm_cart \<Rightarrow> int \<Rightarrow> int \<times> pm_circle" where
  "PM_CIRCLE_init start en center normal turn = (PM_OK, pmCircleInit (po_tran start) (po_tran en) center normal turn)"

definition PM_CIRCLE_point :: "pm_circle \<Rightarrow> pm_quat \<Rightarrow> real \<Rightarrow> int \<times> pm_pose" where
  "PM_CIRCLE_point c uninit angle = (let (r, p) = pmCirclePoint c angle in (r, \<lparr>po_tran = p, po_rot = uninit\<rparr>))"

section \<open>Functions and operators\<close>

definition cpp_dot :: "pm_cart \<Rightarrow> pm_cart \<Rightarrow> real" where
  "cpp_dot v1 v2 = pmCartCartDot v1 v2"

definition cpp_cross :: "pm_cart \<Rightarrow> pm_cart \<Rightarrow> pm_cart" where
  "cpp_cross v1 v2 = pmCartCartCross v1 v2"

definition unit_cart :: "pm_cart \<Rightarrow> pm_cart" where
  "unit_cart v = snd (pmCartUnitEq v)"

definition isNorm_cart :: "pm_cart \<Rightarrow> bool" where
  "isNorm_cart v = pmCartIsNorm v"

definition isNorm_quat :: "pm_quat \<Rightarrow> bool" where
  "isNorm_quat v = pmQuatIsNorm v"

definition isNorm_rot :: "pm_rot \<Rightarrow> bool" where
  "isNorm_rot v = pmRotIsNorm v"

definition isNorm_mat :: "pm_mat \<Rightarrow> bool" where
  "isNorm_mat v = pmMatIsNorm v"

definition cpp_mag :: "pm_cart \<Rightarrow> real" where
  "cpp_mag v = pmCartMag v"

definition cpp_disp :: "pm_cart \<Rightarrow> pm_cart \<Rightarrow> real" where
  "cpp_disp v1 v2 = pmCartCartDisp v1 v2"

definition inv_cart :: "pm_cart \<Rightarrow> pm_cart" where
  "inv_cart v = pmCartInv v"

definition inv_mat :: "pm_mat \<Rightarrow> pm_mat" where
  "inv_mat m = pmMatInv_onto m"

definition inv_quat :: "pm_quat \<Rightarrow> pm_quat" where
  "inv_quat q = pmQuatInv q"

definition inv_pose :: "pm_pose \<Rightarrow> pm_pose" where
  "inv_pose p = pmPoseInv p"

definition inv_hom :: "pm_hom \<Rightarrow> pm_hom" where
  "inv_hom h = pmHomInv_onto h"

definition cpp_proj :: "pm_cart \<Rightarrow> pm_cart \<Rightarrow> pm_cart" where
  "cpp_proj v1 v2 = pmCartCartProj v1 v2"

definition plus_cart :: "pm_cart \<Rightarrow> pm_cart" where
  "plus_cart v = v"

definition neg_cart :: "pm_cart \<Rightarrow> pm_cart" where
  "neg_cart v = \<lparr>c_x = - c_x v, c_y = - c_y v, c_z = - c_z v\<rparr>"

definition plus_quat :: "pm_quat \<Rightarrow> pm_quat" where
  "plus_quat q = q"

definition neg_quat :: "pm_quat \<Rightarrow> pm_quat" where
  "neg_quat q = pmQuatInv q"

definition plus_pose :: "pm_pose \<Rightarrow> pm_pose" where
  "plus_pose p = p"

definition neg_pose :: "pm_pose \<Rightarrow> pm_pose" where
  "neg_pose p = pmPoseInv p"

definition eq_cart :: "pm_cart \<Rightarrow> pm_cart \<Rightarrow> bool" where
  "eq_cart a b = pmCartCartCompare a b"

definition eq_quat :: "pm_quat \<Rightarrow> pm_quat \<Rightarrow> bool" where
  "eq_quat a b = pmQuatQuatCompare a b"

definition eq_pose :: "pm_pose \<Rightarrow> pm_pose \<Rightarrow> bool" where
  "eq_pose a b = pmPosePoseCompare a b"

definition ne_cart :: "pm_cart \<Rightarrow> pm_cart \<Rightarrow> bool" where
  "ne_cart a b = (\<not> pmCartCartCompare a b)"

definition ne_quat :: "pm_quat \<Rightarrow> pm_quat \<Rightarrow> bool" where
  "ne_quat a b = (\<not> pmQuatQuatCompare a b)"

definition ne_pose :: "pm_pose \<Rightarrow> pm_pose \<Rightarrow> bool" where
  "ne_pose a b = (\<not> pmPosePoseCompare a b)"

definition add_cart :: "pm_cart \<Rightarrow> pm_cart \<Rightarrow> pm_cart" where
  "add_cart v1 v2 = cart_add_assign v1 v2"

definition sub_cart :: "pm_cart \<Rightarrow> pm_cart \<Rightarrow> pm_cart" where
  "sub_cart v1 v2 = cart_sub_assign v1 v2"

definition mul_cart_scal :: "pm_cart \<Rightarrow> real \<Rightarrow> pm_cart" where
  "mul_cart_scal v s = cart_mul_assign v s"

definition mul_scal_cart :: "real \<Rightarrow> pm_cart \<Rightarrow> pm_cart" where
  "mul_scal_cart s v = cart_mul_assign v s"

definition div_cart :: "pm_cart \<Rightarrow> real \<Rightarrow> pm_cart" where
  "div_cart v s = \<lparr>c_x = c_x v / s, c_y = c_y v / s, c_z = c_z v / s\<rparr>"

definition mul_scal_quat :: "real \<Rightarrow> pm_quat \<Rightarrow> pm_quat" where
  "mul_scal_quat s q = pmQuatScalMult q s"

definition mul_quat_scal :: "pm_quat \<Rightarrow> real \<Rightarrow> pm_quat" where
  "mul_quat_scal q s = pmQuatScalMult q s"

definition div_quat :: "pm_quat \<Rightarrow> real \<Rightarrow> pm_quat" where
  "div_quat q s = pmQuatScalMult q (1 / s)"

definition mul_quat_cart :: "pm_quat \<Rightarrow> pm_cart \<Rightarrow> pm_cart" where
  "mul_quat_cart q v = pmQuatCartMult q v"

definition mul_quat_quat :: "pm_quat \<Rightarrow> pm_quat \<Rightarrow> pm_quat" where
  "mul_quat_quat q1 q2 = pmQuatQuatMult_onto1 q1 q2"

definition mul_mat_mat :: "pm_mat \<Rightarrow> pm_mat \<Rightarrow> pm_mat" where
  "mul_mat_mat m1 m2 = pmMatMatMult_onto1 m1 m2"

definition mul_pose_pose :: "pm_pose \<Rightarrow> pm_pose \<Rightarrow> pm_pose" where
  "mul_pose_pose p1 p2 = pmPosePoseMult_onto1 p1 p2"

definition mul_pose_cart :: "pm_pose \<Rightarrow> pm_cart \<Rightarrow> pm_cart" where
  "mul_pose_cart p v = pmPoseCartMult p v"

section \<open>What the operators compute\<close>

text \<open>Those that write onto a fresh object or onto an operand that is not read any more are the functions of C.\<close>

lemma vector_operators:
  "add_cart v1 v2 = pmCartCartAdd v1 v2" "sub_cart v1 v2 = pmCartCartSub v1 v2" "mul_cart_scal v s = pmCartScalMult v s"
  "neg_cart v = pmCartNegEq v"
  by (simp_all add: add_cart_def sub_cart_def mul_cart_scal_def neg_cart_def cart_add_assign_def cart_sub_assign_def
      cart_mul_assign_def pmCartCartAdd_def pmCartCartSub_def pmCartScalMult_def pmCartScalMultEq_def pmCartNegEq_def)

text \<open>The inverse of a matrix written onto itself is symmetric.\<close>

lemma inv_mat_entries:
  "inv_mat m =
     \<lparr>m_x = \<lparr>c_x = c_x (m_x m), c_y = c_x (m_y m), c_z = c_x (m_z m)\<rparr>,
      m_y = \<lparr>c_x = c_x (m_y m), c_y = c_y (m_y m), c_z = c_y (m_z m)\<rparr>,
      m_z = \<lparr>c_x = c_x (m_z m), c_y = c_y (m_z m), c_z = c_z (m_z m)\<rparr>\<rparr>"
  by (simp add: inv_mat_def pmMatInv_onto_def Let_def)

lemma inv_mat_symmetric: "pmMatInv (inv_mat m) = inv_mat m"
  by (simp add: inv_mat_entries pmMatInv_def)

text \<open>
  The inverse of a rotation matrix as an object is its transpose only if the matrix is symmetric: the C function
  writes onto the matrix it still reads.
\<close>

lemma matrix_inverse_wrong: "inv_mat m = pmMatInv m \<longleftrightarrow> pmMatInv m = m"
  by (cases m; cases "m_x m"; cases "m_y m"; cases "m_z m") (auto simp: inv_mat_entries pmMatInv_def)

text \<open>
  The product of two poses as objects does not depend on the translation of the first: it is replaced by a second
  copy of the rotated translation of the other, so the product acts like the composition of the two only where they agree.
\<close>

lemma pose_product_wrong:
  "po_tran (mul_pose_pose p1 p2) = pmCartScalMult (pmQuatCartMult (po_rot p1) (po_tran p2)) 2 \<and>
   (po_tran (mul_pose_pose p1 p2) = po_tran (pmPosePoseMult p1 p2) \<longleftrightarrow> po_tran p1 = pmQuatCartMult (po_rot p1) (po_tran p2))"
proof -
  have t: "po_tran (mul_pose_pose p1 p2) = pmCartCartAdd (pmQuatCartMult (po_rot p1) (po_tran p2)) (pmQuatCartMult (po_rot p1) (po_tran p2))"
    by (simp add: mul_pose_pose_def pmPosePoseMult_onto1_def Let_def)
  have c: "pmCartCartAdd a b = pmCartCartAdd c b \<longleftrightarrow> a = c" for a b c :: pm_cart
    by (cases a; cases b; cases c) (simp add: pmCartCartAdd_def)
  show ?thesis unfolding t by (auto simp: c pmPosePoseMult_def) (simp_all add: pmCartCartAdd_def pmCartScalMult_def pmCartScalMultEq_def)
qed

text \<open>The product of quaternions: with the identity on the left, a half turn becomes zero and is no rotation any more.\<close>

lemma quat_product_identity:
  assumes "q_s q = 0"
  shows "mul_quat_quat \<lparr>q_s = 1, q_x = 0, q_y = 0, q_z = 0\<rparr> q = \<lparr>q_s = 0, q_x = 0, q_y = 0, q_z = 0\<rparr>"
  using assms by (simp add: mul_quat_quat_def pmQuatQuatMult_onto1_def Let_def)

text \<open>A point of a line is its end or lies on it, as the uninitialised flag says.\<close>

lemma line_point_undefined:
  "po_tran (snd (PM_LINE_point o1 (l\<lparr>ln_tmag_zero := True\<rparr>) len)) = po_tran (lo_end o1)"
  "po_tran (snd (PM_LINE_point o1 (l\<lparr>ln_tmag_zero := False\<rparr>) len)) = pmCartCartAdd (po_tran (lo_start o1)) (pmCartScalMult (lo_uVec o1) len)"
  by (simp_all add: PM_LINE_point_def pmLinePoint_def obj_to_line_def)

text \<open>An element written out of range is read back out of range of any object.\<close>

lemma none_is_shared: "n < 0 \<Longrightarrow> cart_put v n d none = (v, d) \<and> quat_at q n (snd (cart_put v n d none)) = d"
  by (simp add: cart_put_def quat_at_def)

lemma pose_put_at:
  "0 \<le> n \<Longrightarrow> n < 7 \<Longrightarrow> pose_at (fst (pose_put v n d none)) n none = d"
  by (auto simp: pose_put_def pose_at_def split: if_splits)

end
