(* ===== verification/Spec2Isabelle.thy ===== *)
theory Spec2Isabelle
  imports TcqContract RtQueue SimpleTp PosemathProps EmcPos Cubic AxisProps ControlModes MotionInitProps HpSocketProps HpReports HalBehave
    PlanRun Watchdog RtThread ServoLoop ServoNet StartUpProps TaskLoop HalRing PosemathCpp
begin

text \<open>
  A verification library for a motion controller: a servo-rate control loop over up to three axes
  (\<open>motion/\<close>), the trajectory planner it feeds (\<open>tp/\<close>), the mathematics they share (\<open>libnml/\<close>, \<open>kinematics/\<close>), the
  hardware abstraction layer and runtime they are loaded into (\<open>hal/hal_lib.c\<close>, \<open>rtapi/\<close>), and the network
  interface that brings commands in and status reports out (\<open>hal/hpsocket.c\<close>).

  How the parts interact. A frame from the network is queued in a ring (\<open>HpRing\<close>), taken out by the
  periodic \<open>ProcessTask\<close> and written as a command into the shared structure (\<open>HpSocket\<close>). The command
  handler (\<open>Command\<close>) executes it once: it changes modes, starts jogs of the planners of single axes
  (\<open>SimpleTp\<close>, \<open>AxisJog\<close>) or appends segments to the coordinated planner (\<open>TpAdd\<close>, \<open>TpCycle\<close>),
  whose segments live in the queue of \<open>Tcq\<close>. The controller (\<open>Control\<close>) runs every servo period: inputs,
  faults, mode changes, position commands from the planners through the interpolators (\<open>Cubic\<close>), outputs;
  the drives (\<open>Servo\<close>) exchange them with the hardware. The axes' values are reported back (\<open>HpReports\<close>). All of them are functions that threads of the hardware abstraction layer call (\<open>HalOps\<close>), out
  of shared segments of the runtime layer (\<open>RtapiShm\<close>).

  The theories, by part of the program:

  \<^item> \<open>Prelude\<close>, \<open>Fifo\<close>, \<open>Bytes\<close>: C integers and doubles, the locale of bounded queues with history, the
    locale of wire formats, byte memory.
  \<^item> \<open>Tcq\<close>, \<open>TcqContract\<close> (\<open>tp/tcq.c\<close>): the segment queue; \<open>RtQueue\<close> (\<open>hal/rt_queue.c\<close>): the node-pool queue. Both
    interpret the queue contract: runs refine a list, stepping back restores it, no node leaks.
  \<^item> \<open>Posemath\<close>, \<open>PosemathProps\<close>, \<open>EmcPos\<close>, \<open>Cubic\<close> (\<open>libnml/_posemath.c\<close>, \<open>libnml/emcpos.c\<close>, \<open>kinematics/cubic.cpp\<close>):
    rotations, poses, lines, interpolation; conversions agree and round trip. \<open>PosemathCpp\<close> (\<open>libnml/posemath.cpp\<close>):
    the classes around them, operand by operand where an operator writes over what it reads.
  \<^item> \<open>SimpleTp\<close> (\<open>motion/simple_tp.c\<close>): the planner of one axis does not overshoot and arrives.
  \<^item> \<open>Blend\<close>, \<open>BlendArc\<close>, \<open>Tc\<close>, \<open>TpSeg\<close>, \<open>TpCycle\<close>, \<open>TpAdd\<close> (\<open>tp/blendmath.c\<close>, \<open>tp/spherical_arc.c\<close>, \<open>tp/tc.c\<close>, \<open>tp/tp.c\<close>): the
    coordinated planner: geometry, segments, their limits and queueing, one cycle, appending.
  \<^item> \<open>TpQueue\<close>, \<open>TpMotion\<close>, \<open>TpGoal\<close>, \<open>TpAppend\<close>, \<open>TpPlan\<close>, \<open>TpArrive\<close>: what the planner does: segments in the ring are
    a list of segments, a segment keeps to its velocity and acceleration, the goal is the position plus what is
    left of the queue under every order of operations, and a line comes to its end and leaves the queue or is held there.
  \<^item> \<open>AxisJog\<close>, \<open>AxisProps\<close> (\<open>motion/axis.c\<close>): teleoperation within soft limits.
  \<^item> \<open>MotionState\<close>, \<open>Command\<close>, \<open>CommandProps\<close>, \<open>CommandGuards\<close> (\<open>motion/motion.h\<close>, \<open>motion/command.c\<close>): the shared state
    and the command handler. \<open>PlanRun\<close>: the planner's own functions as its parameters and those of the controller;
    which moves are refused and what ends a pause.
  \<^item> \<open>Control\<close>, \<open>ControlProps\<close>, \<open>ControlModes\<close> (\<open>motion/control.c\<close>): the servo cycle, its faults and modes.
  \<^item> \<open>MotionInit\<close>, \<open>MotionInitProps\<close> (\<open>motion/motion.c\<close>): start-up of the controller and cycle times.
  \<^item> \<open>HpRing\<close>, \<open>HpSocket\<close>, \<open>HpSocketProps\<close>, \<open>HpReports\<close> (\<open>hal/hpsocket.c\<close>): ring, parser, dispatcher, reports.
  \<^item> \<open>Servo\<close>, \<open>ServoLoop\<close>, \<open>ServoNet\<close> (\<open>hal/ServoEnable.c\<close>, \<open>hal/servo_priv.h\<close>): the drives, the controller closed through
    them, the bring-up and the check of their network.
  \<^item> \<open>Rtapi\<close>, \<open>RtapiShm\<close> (\<open>rtapi/rtapi_bitops.h\<close>, \<open>rtapi_mutex.h\<close>, \<open>uspace_common.c\<close>): the mutex, shared segments,
    identifiers. \<open>RtTask\<close>, \<open>RtThread\<close> (\<open>rtapi/rtapi_uspace.h\<close>, \<open>rtapi/uspace_rtapi_app.cpp\<close>): time, priorities, threads,
    messages.
  \<^item> \<open>HalData\<close>, \<open>HalOps\<close>, \<open>HalSys\<close>, \<open>HalMem\<close>, \<open>HalProps\<close>, \<open>HalFuncts\<close>, \<open>HalLife\<close>, \<open>HalInv\<close>, \<open>HalBehave\<close> (\<open>hal/hal_lib.c\<close>,
    \<open>hal/hal_priv.h\<close>, the task table of \<open>rtapi/uspace_rtapi_app.cpp\<close>): the allocator, the lists and their
    consistency through every call, and what the calls do. \<open>HalRing\<close>: the doubly linked rings in the
    shared memory refine the lists of functions and free entries.
  \<^item> \<open>UsrMot\<close>, \<open>StartUp\<close>, \<open>StartUpProps\<close>, \<open>TaskLoop\<close> (\<open>motion/usrmotintf.cpp\<close>, \<open>task/taskintf.cpp\<close>, \<open>task/taskmain.cpp\<close>,
    \<open>libnml/timer.cpp\<close>): the side of the main program, its start, its loop and its end. \<open>Watchdog\<close> (\<open>task/watchdog.c\<close>).

  Conventions. A \<open>double\<close> is a real; where the code takes the square root of what may be negative the
  value is optional, and comparisons with such a value are false. Integers of 32 bits wrap through \<open>s32\<close>
  where the code can leave their range, and a conversion from \<open>double\<close> is \<open>d2i\<close>. Bytes and flags are
  words. An operation returns the C result with the new state; \<open>None\<close> is undefined behaviour (an access out of an
  array or through a null pointer) or a call that does not return, as each theory says. The
  interpolation loop of the controller, which may not end, is a \<open>partial_function\<close>; that it ends is a
  theorem with its condition. Readings of the clock are
  arguments; printing is left out.

  Bounds. The ring of segments holds as many as the code's array; walks over linked entries carry fuel,
  and theorems about them say that the number of entries is enough. The cycles until a line is at its end are
  bounded in its theorem by its length, speed and acceleration.

  Parameters. The command handler and the controller take the operations of the planner as arguments, and
  \<open>tpAddLine\<close>, \<open>tpAddCircle\<close> (\<open>TpAdd\<close>) and \<open>tpRunCycle\<close> (\<open>TpCycle\<close>) are the models of the code's own; \<open>PlanRun\<close> puts
  them in, by an interpretation of the locale of planner invariants. The EtherCAT
  library is a record of its calls, the socket library and the operating system (\<open>shm_os\<close>, \<open>task_os\<close>, the
  clock and sleeping) are answers, the queue of the boost library is a pair of functions; so are what functions
  called by threads do, and the sizes of C structures and addresses of functions at start-up.

  Not modelled. Debug printing and the writing of logs; \<open>hal_export_functf\<close> with \<open>hal_export_functfv\<close>, which
  reads uninitialised variables and which nothing calls; the headers of the EtherCAT library and the
  socket library, which are not the program's own code; declarations of mathematical functions for other platforms
  (\<open>rtapi/rtapi_math.h\<close> and its kind); what CMake generates.
\<close>

end
